(* ===== verification/Prelude.thy ===== *)
theory Prelude
  imports Complex_Main
begin

text \<open>
  Shared vocabulary of the development: the error values of the Python code, the result type of
  fallible operations, Python's indexing, and the generic list lemmas the components use.

  An operation that may raise returns a value of \<open>err + 'a\<close>: \<open>Inl e\<close> where the source raises
  \<open>e\<close>, \<open>Inr v\<close> where it returns \<open>v\<close>. An exception carries a message; the model keeps the fixed
  part of the message (without the values an f-string interpolates; the Chinese messages of
  \<^verbatim>\<open>leader_follower\<close> are given in English), so that two raises of one function stay
  distinguishable.
\<close>

named_theorems model_defs \<open>definitions of small operations that component proofs unfold\<close>
named_theorems result_simps \<open>equations of the result combinators\<close>

datatype err =
    ValueError string
  | IllegalTransition string
  | RuntimeError string
  | TimeoutError string
  | OSError string
  | SupervisorError string
  | Refused string
  | NeedsOperator string
  | SafetyStop string string
  | KeyError
  | IndexError
  | TypeError
  | AttributeError
  | OverflowError
  | AssertionError
  | StructError
  | ZeroDivisionError
  | KeyboardInterrupt

type_synonym 'a result = "err + 'a"

subsection \<open>Sequencing of fallible operations\<close>

definition bindr :: "'a result \<Rightarrow> ('a \<Rightarrow> 'b result) \<Rightarrow> 'b result" where
  "bindr r f = (case r of Inl e \<Rightarrow> Inl e | Inr v \<Rightarrow> f v)"

definition ensure :: "bool \<Rightarrow> err \<Rightarrow> unit result" where
  "ensure b e = (if b then Inr () else Inl e)"

primrec mapr :: "('a \<Rightarrow> 'b result) \<Rightarrow> 'a list \<Rightarrow> 'b list result" where
  "mapr f [] = Inr []"
| "mapr f (x # xs) = bindr (f x) (\<lambda>y. bindr (mapr f xs) (\<lambda>ys. Inr (y # ys)))"

lemma bindr_Inl [simp, result_simps]: "bindr (Inl e) f = Inl e"
  by (simp add: bindr_def)

lemma bindr_Inr [simp, result_simps]: "bindr (Inr v) f = f v"
  by (simp add: bindr_def)

lemma bindr_eq_Inr [simp, result_simps]:
  "bindr r f = Inr v \<longleftrightarrow> (\<exists>u. r = Inr u \<and> f u = Inr v)"
  by (cases r) auto

lemma bindr_eq_Inl:
  "bindr r f = Inl e \<longleftrightarrow> r = Inl e \<or> (\<exists>u. r = Inr u \<and> f u = Inl e)"
  by (cases r) auto

lemma ensure_eq_Inr [simp, result_simps]: "ensure b e = Inr u \<longleftrightarrow> b"
  by (simp add: ensure_def)

lemma ensure_eq_Inl [simp, result_simps]: "ensure b e = Inl e' \<longleftrightarrow> \<not> b \<and> e' = e"
  by (auto simp: ensure_def)

lemma ensure_True [simp, result_simps]: "ensure True e = Inr ()"
  by (simp add: ensure_def)

lemma ensure_False [simp, result_simps]: "ensure False e = Inl e"
  by (simp add: ensure_def)

lemma mapr_Inr_length: "mapr f xs = Inr ys \<Longrightarrow> length ys = length xs"
  by (induction xs arbitrary: ys) auto

lemma mapr_Inr_nth:
  "mapr f xs = Inr ys \<Longrightarrow> i < length xs \<Longrightarrow> f (xs ! i) = Inr (ys ! i)"
proof (induction xs arbitrary: ys i)
  case Nil
  then show ?case by simp
next
  case (Cons x xs)
  then show ?case by (cases i) auto
qed

lemma mapr_total:
  "(\<And>x. x \<in> set xs \<Longrightarrow> f x = Inr (g x)) \<Longrightarrow> mapr f xs = Inr (map g xs)"
  by (induction xs) auto

text \<open>A loop that applies a fallible operation to a state, one input after the other.\<close>

primrec runs :: "('s \<Rightarrow> 'r \<Rightarrow> 's result) \<Rightarrow> 's \<Rightarrow> 'r list \<Rightarrow> 's result" where
  "runs f s [] = Inr s"
| "runs f s (r # rs) = bindr (f s r) (\<lambda>s'. runs f s' rs)"

lemma runs_append: "runs f s (xs @ ys) = bindr (runs f s xs) (\<lambda>s'. runs f s' ys)"
proof (induction xs arbitrary: s)
  case (Cons x xs)
  then show ?case by (cases "f s x") auto
qed simp

lemma runs_invariant:
  assumes "runs f s rs = Inr s'" and "I s" and "\<And>s r t. I s \<Longrightarrow> f s r = Inr t \<Longrightarrow> I t"
  shows "I s'"
  using assms(1,2) by (induction rs arbitrary: s) (auto intro: assms(3))

subsection \<open>Fallible operations on a state\<close>

text \<open>
  A method that changes its object and may raise: the result and the object it leaves behind, which an
  exception does not roll back.
\<close>

type_synonym ('s, 'a) action = "'s \<Rightarrow> 'a result \<times> 's"

definition bindst :: "('s, 'a) action \<Rightarrow> ('a \<Rightarrow> ('s, 'b) action) \<Rightarrow> ('s, 'b) action" where
  "bindst m f s = (case m s of (Inl e, s') \<Rightarrow> (Inl e, s') | (Inr a, s') \<Rightarrow> f a s')"

lemma bindst_simps [simp]:
  "m s = (Inl e, s') \<Longrightarrow> bindst m f s = (Inl e, s')"
  "m s = (Inr a, s') \<Longrightarrow> bindst m f s = f a s'"
  by (simp_all add: bindst_def)

lemma bindst_eq_Inr: "bindst m f s = (Inr b, s') \<longleftrightarrow> (\<exists>a t. m s = (Inr a, t) \<and> f a t = (Inr b, s'))"
  by (auto simp: bindst_def split: prod.splits sum.splits)

text \<open>A property of the state that an action keeps, whether it returns or raises.\<close>

definition keeps :: "('s \<Rightarrow> bool) \<Rightarrow> ('s, 'a) action \<Rightarrow> bool" where
  "keeps I m \<longleftrightarrow> (\<forall>s. I s \<longrightarrow> I (snd (m s)))"

lemma keeps_bindst: "keeps I m \<Longrightarrow> (\<And>a. keeps I (f a)) \<Longrightarrow> keeps I (bindst m f)"
  by (force simp: keeps_def bindst_def split: prod.splits sum.splits)

lemma bindst_cases:
  assumes "bindst m f s = (r, s')"
  obtains (fails) e where "m s = (Inl e, s')" "r = Inl e"
    | (goes) a t where "m s = (Inr a, t)" "f a t = (r, s')"
  using assms by (auto simp: bindst_def split: prod.splits sum.splits)

subsection \<open>Python indexing\<close>

text \<open>A negative index counts from the end; out of range raises \<open>IndexError\<close>.\<close>

definition py_index :: "'a list \<Rightarrow> int \<Rightarrow> nat option" where
  "py_index xs i =
     (if i < - int (length xs) \<or> int (length xs) \<le> i then None
      else Some (nat (i mod int (length xs))))"

definition py_get :: "'a list \<Rightarrow> int \<Rightarrow> 'a result" where
  "py_get xs i = (case py_index xs i of None \<Rightarrow> Inl IndexError | Some j \<Rightarrow> Inr (xs ! j))"

lemma py_index_bound: "py_index xs i = Some j \<Longrightarrow> j < length xs"
  by (cases "xs = []") (auto simp: py_index_def nat_less_iff split: if_splits)

lemma py_index_same_length: "length xs = length ys \<Longrightarrow> py_index xs i = py_index ys i"
  by (simp add: py_index_def)

lemma py_get_Inr_iff: "(\<exists>v. py_get xs i = Inr v) \<longleftrightarrow> (\<exists>j. py_index xs i = Some j)"
  by (auto simp: py_get_def split: option.splits)

subsection \<open>Insertion-ordered dictionaries\<close>

text \<open>
  A Python dict whose iteration order matters is an association list with distinct keys:
  assignment replaces in place or appends, \<open>pop\<close> removes.
\<close>

fun dict_put :: "'k \<Rightarrow> 'v \<Rightarrow> ('k \<times> 'v) list \<Rightarrow> ('k \<times> 'v) list" where
  "dict_put k v [] = [(k, v)]"
| "dict_put k v ((k', v') # d) = (if k = k' then (k, v) # d else (k', v') # dict_put k v d)"

definition dict_pop :: "'k \<Rightarrow> ('k \<times> 'v) list \<Rightarrow> ('k \<times> 'v) list" where
  "dict_pop k d = filter (\<lambda>(k', _). k' \<noteq> k) d"

lemma map_of_dict_put [simp]: "map_of (dict_put k v d) = (map_of d)(k \<mapsto> v)"
  by (induction d) auto

lemma map_of_dict_pop [simp]: "map_of (dict_pop k d) k' = (if k' = k then None else map_of d k')"
  by (induction d) (auto simp: dict_pop_def)

lemma keys_dict_put: "set (map fst (dict_put k v d)) = insert k (set (map fst d))"
proof (induction d)
  case Nil
  then show ?case by simp
next
  case (Cons e d)
  obtain k' v' where "e = (k', v')" by (cases e)
  with Cons show ?case by (cases "k = k'") auto
qed

lemma distinct_dict_put: "distinct (map fst d) \<Longrightarrow> distinct (map fst (dict_put k v d))"
proof (induction d)
  case Nil
  then show ?case by simp
next
  case (Cons e d)
  obtain k' v' where e: "e = (k', v')" by (cases e)
  show ?case
  proof (cases "k = k'")
    case True
    with Cons.prems e show ?thesis by simp
  next
    case False
    moreover from Cons have "distinct (map fst (dict_put k v d))" by simp
    moreover have "k' \<notin> set (map fst (dict_put k v d))"
      unfolding keys_dict_put using False Cons.prems e by simp
    ultimately show ?thesis using e by simp
  qed
qed

subsection \<open>Generic list lemmas\<close>

lemma all_set_conv_nth: "(\<forall>x \<in> set xs. P x) \<longleftrightarrow> (\<forall>i < length xs. P (xs ! i))"
  by (metis in_set_conv_nth)

lemma ex_set_conv_nth: "(\<exists>x \<in> set xs. P x) \<longleftrightarrow> (\<exists>i < length xs. P (xs ! i))"
  by (metis in_set_conv_nth)

lemma map2_eq_conv:
  "length xs = n \<Longrightarrow> length ys = n \<Longrightarrow> (\<And>i. i < n \<Longrightarrow> f (xs ! i) (ys ! i) = zs ! i) \<Longrightarrow>
     length zs = n \<Longrightarrow> map2 f xs ys = zs"
  by (rule nth_equalityI) auto

lemma find_None_all: "find P xs = None \<longleftrightarrow> (\<forall>x \<in> set xs. \<not> P x)"
  by (auto simp: find_None_iff)

end
