(* ===== verification/Floats.thy ===== *)
theory Floats
  imports Prelude
begin

text \<open>
  Python floats and numpy float arrays.

  A float is a real number or one of the three special values of IEEE 754. Arithmetic on finite
  values is exact: rounding, overflow to infinity and the sign of zero are not modelled. The special
  values follow IEEE 754: \<open>NaN\<close> absorbs arithmetic and fails every comparison, \<open>inf - inf\<close> and
  \<open>0 * inf\<close> are \<open>NaN\<close>, and a division by zero is the signed infinity or \<open>NaN\<close> as numpy returns it.
  The checks of the code on non-finite values (\<^verbatim>\<open>np.isfinite\<close>, \<^verbatim>\<open>not x <= y\<close>) are therefore
  meaningful in the model.

  \<open>fl\<close> is an instance of the arithmetic and order syntax classes, so that a formula of the code
  reads the same in the model. A one-dimensional array is a \<open>fl list\<close>, a two-dimensional one the
  list of its rows.
\<close>

named_theorems fl_simps \<open>evaluation of float operations on finite arguments\<close>

datatype fl = Fin real | PInf | NInf | NaN

type_synonym vec = "fl list"
type_synonym mat = "fl list list"

subsection \<open>Arithmetic\<close>

instantiation fl :: "{zero, one, plus, uminus, minus, times, inverse, ord}"
begin

definition zero_fl :: fl where "0 = Fin 0"

definition one_fl :: fl where "1 = Fin 1"

fun plus_fl :: "fl \<Rightarrow> fl \<Rightarrow> fl" where
  "Fin a + Fin b = Fin (a + b)"
| "NaN + _ = NaN"
| "_ + NaN = NaN"
| "PInf + NInf = NaN"
| "NInf + PInf = NaN"
| "PInf + _ = PInf"
| "_ + PInf = PInf"
| "NInf + _ = NInf"
| "_ + NInf = NInf"

fun uminus_fl :: "fl \<Rightarrow> fl" where
  "- Fin a = Fin (- a)"
| "- PInf = NInf"
| "- NInf = PInf"
| "- NaN = NaN"

definition minus_fl :: "fl \<Rightarrow> fl \<Rightarrow> fl" where "x - y = x + - (y :: fl)"

fun times_fl :: "fl \<Rightarrow> fl \<Rightarrow> fl" where
  "Fin a * Fin b = Fin (a * b)"
| "NaN * _ = NaN"
| "_ * NaN = NaN"
| "Fin a * PInf = (if a = 0 then NaN else if a > 0 then PInf else NInf)"
| "Fin a * NInf = (if a = 0 then NaN else if a > 0 then NInf else PInf)"
| "PInf * Fin a = (if a = 0 then NaN else if a > 0 then PInf else NInf)"
| "NInf * Fin a = (if a = 0 then NaN else if a > 0 then NInf else PInf)"
| "PInf * PInf = PInf"
| "PInf * NInf = NInf"
| "NInf * PInf = NInf"
| "NInf * NInf = PInf"

fun inverse_fl :: "fl \<Rightarrow> fl" where
  "inverse (Fin a) = (if a = 0 then PInf else Fin (inverse a))"
| "inverse PInf = Fin 0"
| "inverse NInf = Fin 0"
| "inverse NaN = NaN"

definition divide_fl :: "fl \<Rightarrow> fl \<Rightarrow> fl" where "x div y = x * inverse (y :: fl)"

fun less_eq_fl :: "fl \<Rightarrow> fl \<Rightarrow> bool" where
  "Fin a \<le> Fin b \<longleftrightarrow> a \<le> b"
| "NaN \<le> _ \<longleftrightarrow> False"
| "_ \<le> NaN \<longleftrightarrow> False"
| "NInf \<le> _ \<longleftrightarrow> True"
| "_ \<le> PInf \<longleftrightarrow> True"
| "PInf \<le> _ \<longleftrightarrow> False"
| "_ \<le> NInf \<longleftrightarrow> False"

definition less_fl :: "fl \<Rightarrow> fl \<Rightarrow> bool" where "x < y \<longleftrightarrow> x \<le> y \<and> \<not> y \<le> (x :: fl)"

instance ..

end

lemma fl_add_comm: "a + b = b + (a :: fl)"
  by (cases a; cases b) (auto simp: add.commute)

lemma fl_add_assoc: "(a + b) + c = a + (b + (c :: fl))"
  by (cases a; cases b; cases c) (auto simp: add.assoc)

instance fl :: comm_monoid_add
proof
  fix a b c :: fl
  show "a + b + c = a + (b + c)" by (rule fl_add_assoc)
  show "a + b = b + a" by (rule fl_add_comm)
  show "0 + a = a" by (cases a) (auto simp: zero_fl_def)
qed

instance fl :: numeral ..

lemma fl_numeral [simp, fl_simps]: "(numeral n :: fl) = Fin (numeral n)"
proof (induction n)
  case One
  show ?case by (simp add: numeral_One one_fl_def)
next
  case (Bit0 n)
  then show ?case by (simp only: numeral.simps(2) plus_fl.simps(1))
next
  case (Bit1 n)
  then show ?case by (simp only: numeral.simps(3) one_fl_def plus_fl.simps(1))
qed

lemma fl_0 [simp, fl_simps]: "(0 :: fl) = Fin 0"
  by (rule zero_fl_def)

lemma fl_1 [simp, fl_simps]: "(1 :: fl) = Fin 1"
  by (rule one_fl_def)

lemma fl_minus [simp, fl_simps]: "Fin a - Fin b = Fin (a - b)"
  by (simp add: minus_fl_def)

lemma fl_divide [simp, fl_simps]: "b \<noteq> 0 \<Longrightarrow> Fin a / Fin b = Fin (a / b)"
  by (simp add: divide_fl_def divide_inverse)

lemma fl_divide_zero [simp, fl_simps]:
  "Fin a / Fin 0 = (if a = 0 then NaN else if a > 0 then PInf else NInf)"
  by (simp add: divide_fl_def)

lemma fl_less [simp, fl_simps]: "Fin a < Fin b \<longleftrightarrow> a < b"
  by (auto simp: less_fl_def)

lemma fl_less_NaN [simp]: "\<not> NaN < x" "\<not> x < NaN"
  by (cases x; simp add: less_fl_def)+

lemma fl_less_PInf [simp]: "Fin a < PInf" "\<not> PInf < x" "NInf < PInf"
  by (cases x; simp add: less_fl_def)+

lemma fl_less_NInf [simp]: "NInf < Fin a" "\<not> x < NInf"
  by (cases x; simp add: less_fl_def)+

declare plus_fl.simps(1) [fl_simps] uminus_fl.simps(1) [fl_simps] times_fl.simps(1) [fl_simps]
  less_eq_fl.simps(1) [fl_simps]

subsection \<open>Scalar functions\<close>

fun isfinite :: "fl \<Rightarrow> bool" where
  "isfinite (Fin _) = True"
| "isfinite _ = False"

fun isnan :: "fl \<Rightarrow> bool" where
  "isnan NaN = True"
| "isnan _ = False"

text \<open>The real value of a finite float.\<close>

fun val :: "fl \<Rightarrow> real" where
  "val (Fin a) = a"
| "val _ = 0"

text \<open>Python's \<open>==\<close>: \<open>NaN\<close> differs from everything, itself included.\<close>

definition feq :: "fl \<Rightarrow> fl \<Rightarrow> bool" where
  "feq x y \<longleftrightarrow> x = y \<and> x \<noteq> NaN"

fun fabs :: "fl \<Rightarrow> fl" where
  "fabs (Fin a) = Fin \<bar>a\<bar>"
| "fabs NaN = NaN"
| "fabs _ = PInf"

fun fsqrt :: "fl \<Rightarrow> fl" where
  "fsqrt (Fin a) = (if a < 0 then NaN else Fin (sqrt a))"
| "fsqrt PInf = PInf"
| "fsqrt _ = NaN"

text \<open>The builtins \<open>min\<close>, \<open>max\<close>: the second argument wins only when the comparison says so.\<close>

definition py_min :: "fl \<Rightarrow> fl \<Rightarrow> fl" where
  "py_min x y = (if y < x then y else x)"

definition py_max :: "fl \<Rightarrow> fl \<Rightarrow> fl" where
  "py_max x y = (if x < y then y else x)"

text \<open>\<^verbatim>\<open>np.minimum\<close>, \<^verbatim>\<open>np.maximum\<close> propagate \<open>NaN\<close>; \<^verbatim>\<open>np.clip\<close> is their composition.\<close>

definition np_min :: "fl \<Rightarrow> fl \<Rightarrow> fl" where
  "np_min x y = (if isnan x then x else if isnan y then y else if x \<le> y then x else y)"

definition np_max :: "fl \<Rightarrow> fl \<Rightarrow> fl" where
  "np_max x y = (if isnan x then x else if isnan y then y else if x \<le> y then y else x)"

definition np_clip :: "fl \<Rightarrow> fl \<Rightarrow> fl \<Rightarrow> fl" where
  "np_clip x lo hi = np_min (np_max x lo) hi"

text \<open>Reductions over a nonempty array (\<open>NaN\<close> propagates); numpy raises on an empty one.\<close>

fun arr_max :: "vec \<Rightarrow> fl result" where
  "arr_max [] = Inl (ValueError ''zero-size array to reduction operation'')"
| "arr_max (x # xs) = Inr (fold np_max xs x)"

text \<open>\<^verbatim>\<open>np.nan_to_num\<close> where only \<open>NaN\<close> matters.\<close>

definition nan_to_num :: "fl \<Rightarrow> fl" where
  "nan_to_num x = (if isnan x then 0 else x)"

lemma isfinite_iff: "isfinite x \<longleftrightarrow> (\<exists>a. x = Fin a)"
  by (cases x) auto

lemma isfinite_arith [intro]:
  "isfinite x \<Longrightarrow> isfinite y \<Longrightarrow> isfinite (x + y)" "isfinite x \<Longrightarrow> isfinite y \<Longrightarrow> isfinite (x - y)"
  "isfinite x \<Longrightarrow> isfinite y \<Longrightarrow> isfinite (x * y)" "isfinite x \<Longrightarrow> isfinite (- x)" "isfinite x \<Longrightarrow> isfinite (fabs x)"
  by (auto simp: isfinite_iff)

lemma isfinite_not_nan: "isfinite x \<Longrightarrow> \<not> isnan x"
  by (cases x) auto

lemma isfinite_val: "isfinite x \<Longrightarrow> x = Fin (val x)"
  by (cases x) auto

lemma py_min_Fin [simp, fl_simps]: "py_min (Fin a) (Fin b) = Fin (min a b)"
  by (auto simp: py_min_def)

lemma py_max_Fin [simp, fl_simps]: "py_max (Fin a) (Fin b) = Fin (max a b)"
  by (auto simp: py_max_def)

lemma np_min_Fin [simp, fl_simps]: "np_min (Fin a) (Fin b) = Fin (min a b)"
  by (auto simp: np_min_def)

lemma np_max_Fin [simp, fl_simps]: "np_max (Fin a) (Fin b) = Fin (max a b)"
  by (auto simp: np_max_def)

lemma np_inf_Fin [simp]: "np_min PInf (Fin a) = Fin a" "np_max NInf (Fin a) = Fin a"
  by (simp_all add: np_min_def np_max_def)

lemma np_clip_Fin [simp, fl_simps]: "np_clip (Fin a) (Fin l) (Fin h) = Fin (min (max a l) h)"
  by (simp add: np_clip_def)

lemma feq_Fin [simp, fl_simps]: "feq (Fin a) (Fin b) \<longleftrightarrow> a = b"
  by (simp add: feq_def)

lemma nan_to_num_Fin [simp, fl_simps]: "nan_to_num (Fin a) = Fin a" "nan_to_num NaN = Fin 0"
  by (simp_all add: nan_to_num_def)

subsection \<open>Arrays\<close>

definition all_finite :: "vec \<Rightarrow> bool" where
  "all_finite xs \<longleftrightarrow> list_all isfinite xs"

definition zeros :: "nat \<Rightarrow> vec" where
  "zeros n = replicate n 0"

definition ones :: "nat \<Rightarrow> vec" where
  "ones n = replicate n 1"

text \<open>Elementwise operations; numpy raises on different lengths, which callers check first.\<close>

definition vadd :: "vec \<Rightarrow> vec \<Rightarrow> vec" where
  "vadd = map2 (+)"

definition vsub :: "vec \<Rightarrow> vec \<Rightarrow> vec" where
  "vsub = map2 (-)"

definition vmul :: "vec \<Rightarrow> vec \<Rightarrow> vec" where
  "vmul = map2 (*)"

definition vscale :: "fl \<Rightarrow> vec \<Rightarrow> vec" where
  "vscale c = map ((*) c)"

definition vabs :: "vec \<Rightarrow> vec" where
  "vabs = map fabs"

text \<open>\<^verbatim>\<open>np.diff\<close> of a one-dimensional array.\<close>

fun diffs :: "vec \<Rightarrow> vec" where
  "diffs (x # y # xs) = (y - x) # diffs (y # xs)"
| "diffs _ = []"

definition rectangular :: "mat \<Rightarrow> nat \<Rightarrow> bool" where
  "rectangular m n \<longleftrightarrow> list_all (\<lambda>r. length r = n) m"

text \<open>
  Numpy broadcasting of two one-dimensional operands: equal lengths pair up, a single entry pairs
  with everything, anything else raises.
\<close>

definition bcast2 :: "vec \<Rightarrow> vec \<Rightarrow> (fl \<times> fl) list result" where
  "bcast2 xs ys =
     (if length xs = length ys then Inr (zip xs ys)
      else if length xs = 1 then Inr (map (Pair (hd xs)) ys)
      else if length ys = 1 then Inr (map (\<lambda>x. (x, hd ys)) xs)
      else Inl (ValueError ''operands could not be broadcast together''))"

definition np_any1 :: "(fl \<Rightarrow> fl \<Rightarrow> bool) \<Rightarrow> vec \<Rightarrow> vec \<Rightarrow> bool result" where
  "np_any1 P xs ys = bindr (bcast2 xs ys) (\<lambda>ps. Inr (list_ex (\<lambda>(x, y). P x y) ps))"

definition np_any2 :: "(fl \<Rightarrow> fl \<Rightarrow> bool) \<Rightarrow> mat \<Rightarrow> vec \<Rightarrow> bool result" where
  "np_any2 P m ys = bindr (mapr (\<lambda>r. np_any1 P r ys) m) (\<lambda>bs. Inr (list_ex id bs))"

definition np_sub :: "vec \<Rightarrow> vec \<Rightarrow> vec result" where
  "np_sub xs ys = bindr (bcast2 xs ys) (\<lambda>ps. Inr (map (\<lambda>(x, y). x - y) ps))"

text \<open>Elementwise combination with numpy broadcasting.\<close>

definition np_map2 :: "(fl \<Rightarrow> fl \<Rightarrow> fl) \<Rightarrow> vec \<Rightarrow> vec \<Rightarrow> vec result" where
  "np_map2 f xs ys = bindr (bcast2 xs ys) (\<lambda>ps. Inr (map (\<lambda>(x, y). f x y) ps))"

lemma np_any1_eq:
  "length xs = length ys \<Longrightarrow> np_any1 P xs ys = Inr (\<exists>i < length xs. P (xs ! i) (ys ! i))"
  by (auto simp: np_any1_def bcast2_def list_ex_length)

lemma np_any2_eq:
  "rectangular m (length ys) \<Longrightarrow>
     np_any2 P m ys = Inr (\<exists>k < length m. \<exists>i < length ys. P (m ! k ! i) (ys ! i))"
proof -
  assume m: "rectangular m (length ys)"
  have "mapr (\<lambda>r. np_any1 P r ys) m = Inr (map (\<lambda>r. \<exists>i < length r. P (r ! i) (ys ! i)) m)"
    using m by (intro mapr_total np_any1_eq) (simp add: rectangular_def list_all_iff)
  with m show ?thesis by (force simp: np_any2_def list_ex_length rectangular_def list_all_length)
qed

lemma np_sub_eq: "length xs = length ys \<Longrightarrow> np_sub xs ys = Inr (vsub xs ys)"
  by (simp add: np_sub_def bcast2_def vsub_def)

lemma all_finite_map_Fin [simp]: "all_finite (map Fin xs)"
  by (simp add: all_finite_def list_all_iff)

lemma all_finite_simps [simp]:
  "all_finite []" "all_finite (x # xs) \<longleftrightarrow> isfinite x \<and> all_finite xs"
  by (simp_all add: all_finite_def)

lemma all_finite_conv: "all_finite xs \<longleftrightarrow> xs = map Fin (map val xs)"
  by (induction xs) (auto simp: isfinite_iff)

lemma all_finite_nth: "all_finite xs \<Longrightarrow> i < length xs \<Longrightarrow> xs ! i = Fin (val (xs ! i))"
  by (simp add: all_finite_def list_all_length isfinite_val)

lemma vec_lengths [simp]:
  "length (zeros n) = n" "length (ones n) = n"
  "length (vadd xs ys) = min (length xs) (length ys)"
  "length (vsub xs ys) = min (length xs) (length ys)"
  "length (vmul xs ys) = min (length xs) (length ys)"
  "length (vscale c xs) = length xs" "length (vabs xs) = length xs"
  by (simp_all add: zeros_def ones_def vadd_def vsub_def vmul_def vscale_def vabs_def)

lemma vec_nth [simp]:
  "i < n \<Longrightarrow> zeros n ! i = 0" "i < n \<Longrightarrow> ones n ! i = 1"
  "i < length xs \<Longrightarrow> i < length ys \<Longrightarrow> vadd xs ys ! i = xs ! i + ys ! i"
  "i < length xs \<Longrightarrow> i < length ys \<Longrightarrow> vsub xs ys ! i = xs ! i - ys ! i"
  "i < length xs \<Longrightarrow> i < length ys \<Longrightarrow> vmul xs ys ! i = xs ! i * ys ! i"
  "i < length xs \<Longrightarrow> vscale c xs ! i = c * xs ! i"
  "i < length xs \<Longrightarrow> vabs xs ! i = fabs (xs ! i)"
  by (simp_all add: zeros_def ones_def vadd_def vsub_def vmul_def vscale_def vabs_def)

lemma length_diffs: "length (diffs xs) = length xs - 1"
  by (induction xs rule: diffs.induct) auto

lemma nth_diffs: "Suc i < length xs \<Longrightarrow> diffs xs ! i = xs ! Suc i - xs ! i"
proof (induction xs arbitrary: i rule: diffs.induct)
  case (1 x y xs)
  then show ?case by (cases i) auto
qed auto

lemma rectangular_nth: "rectangular m n \<Longrightarrow> i < length m \<Longrightarrow> length (m ! i) = n"
  by (simp add: rectangular_def list_all_length)

text \<open>Maximum over a finite nonempty array.\<close>

lemma fold_np_max_Fin: "fold np_max (map Fin xs) (Fin a) = Fin (fold max xs a)"
  by (induction xs arbitrary: a) (auto simp: max.commute)

lemma fold_max_ge: "x \<in> insert a (set xs) \<Longrightarrow> x \<le> fold max xs (a :: real)"
proof (induction xs arbitrary: a x)
  case Nil
  then show ?case by simp
next
  case (Cons y ys)
  then consider "x = a \<or> x = y" | "x \<in> set ys" by auto
  then show ?case
  proof cases
    case 1
    then have "x \<le> max y a" by auto
    also have "\<dots> \<le> fold max ys (max y a)" by (rule Cons.IH) simp
    finally show ?thesis by simp
  next
    case 2
    with Cons.IH [of x "max y a"] show ?thesis by simp
  qed
qed

lemma fold_max_in: "fold max xs (a :: real) \<in> insert a (set xs)"
proof (induction xs arbitrary: a)
  case Nil
  then show ?case by simp
next
  case (Cons y ys)
  from Cons [of "max y a"] show ?case by (auto simp: max_def)
qed

lemma arr_max_Fin_le:
  assumes "arr_max (map Fin xs) = Inr (Fin m)"
  shows "(\<forall>x \<in> set xs. x \<le> m) \<and> m \<in> set xs"
proof (cases xs)
  case Nil
  with assms show ?thesis by simp
next
  case (Cons a ys)
  with assms have "m = fold max ys a" by (simp add: fold_np_max_Fin)
  with Cons fold_max_ge [of _ a ys] fold_max_in [of ys a] show ?thesis by simp
qed

subsection \<open>Order lemmas for the reductions\<close>

lemma fl_le_trans: "x \<le> y \<Longrightarrow> y \<le> z \<Longrightarrow> x \<le> (z :: fl)"
  by (cases x; cases y; cases z) auto

lemma fl_le_refl: "\<not> isnan x \<Longrightarrow> x \<le> x"
  by (cases x) auto

lemma np_max_ge: "\<not> isnan x \<Longrightarrow> \<not> isnan y \<Longrightarrow> x \<le> np_max x y \<and> y \<le> np_max x y \<and> \<not> isnan (np_max x y)"
  by (cases x; cases y) (auto simp: np_max_def)

lemma np_min_le: "\<not> isnan x \<Longrightarrow> \<not> isnan y \<Longrightarrow> np_min x y \<le> x \<and> np_min x y \<le> y \<and> \<not> isnan (np_min x y)"
  by (cases x; cases y) (auto simp: np_min_def)

lemma fold_np_max_ge:
  "\<not> isnan a \<Longrightarrow> \<forall>y \<in> set xs. \<not> isnan y \<Longrightarrow>
     \<not> isnan (fold np_max xs a) \<and> (\<forall>y \<in> insert a (set xs). y \<le> fold np_max xs a)"
proof (induction xs arbitrary: a)
  case Nil
  then show ?case by (simp add: fl_le_refl)
next
  case (Cons x xs)
  then have m: "a \<le> np_max x a" "x \<le> np_max x a" "\<not> isnan (np_max x a)"
    using np_max_ge [of x a] by auto
  with Cons.IH [of "np_max x a"] Cons.prems
  have "\<not> isnan (fold np_max xs (np_max x a))"
    "\<forall>y \<in> insert (np_max x a) (set xs). y \<le> fold np_max xs (np_max x a)" by auto
  with m show ?case by (auto intro: fl_le_trans)
qed

lemma fold_np_min_le:
  "\<not> isnan a \<Longrightarrow> \<forall>y \<in> set xs. \<not> isnan y \<Longrightarrow>
     \<not> isnan (fold np_min xs a) \<and> (\<forall>y \<in> insert a (set xs). fold np_min xs a \<le> y)"
proof (induction xs arbitrary: a)
  case Nil
  then show ?case by (simp add: fl_le_refl)
next
  case (Cons x xs)
  then have m: "np_min x a \<le> a" "np_min x a \<le> x" "\<not> isnan (np_min x a)"
    using np_min_le [of x a] by auto
  with Cons.IH [of "np_min x a"] Cons.prems
  have "\<not> isnan (fold np_min xs (np_min x a))"
    "\<forall>y \<in> insert (np_min x a) (set xs). fold np_min xs (np_min x a) \<le> y" by auto
  with m show ?case by (auto intro: fl_le_trans)
qed


lemma arr_max_finite:
  "xs \<noteq> [] \<Longrightarrow> all_finite xs \<Longrightarrow> \<exists>m. arr_max xs = Inr (Fin m) \<and> Fin m \<in> set xs \<and> (\<forall>x \<in> set xs. x \<le> Fin m)"
proof -
  assume "xs \<noteq> []" "all_finite xs"
  then obtain a ys where xs: "xs = map Fin (a # ys)"
    by (metis all_finite_conv list.exhaust map_is_Nil_conv)
  then have "arr_max xs = Inr (Fin (fold max ys a))" by (simp add: fold_np_max_Fin)
  moreover from this have "(\<forall>x \<in> set (a # ys). x \<le> fold max ys a) \<and> fold max ys a \<in> set (a # ys)"
    unfolding xs by (rule arr_max_Fin_le)
  ultimately show ?thesis unfolding xs by (intro exI [of _ "fold max ys a"]) auto
qed

lemma np_nan_absorb: "isnan (np_max x y) \<longleftrightarrow> isnan x \<or> isnan y" "isnan (np_min x y) \<longleftrightarrow> isnan x \<or> isnan y"
  by (auto simp: np_max_def np_min_def)

lemma fold_np_max_nan: "isnan (fold np_max xs a) \<longleftrightarrow> isnan a \<or> (\<exists>x \<in> set xs. isnan x)"
  by (induction xs arbitrary: a) (auto simp: np_nan_absorb)

text \<open>A maximum that compares below anything dominates every entry: a \<open>NaN\<close> entry would have made it \<open>NaN\<close>.\<close>

lemma arr_max_le:
  assumes "arr_max xs = Inr m" "m \<le> b" "x \<in> set xs"
  shows "x \<le> b"
proof (cases xs)
  case Nil
  with assms show ?thesis by simp
next
  case (Cons a ys)
  from assms(2) have nn: "\<not> isnan m" by (cases m) auto
  from Cons assms(1) have m: "m = fold np_max ys a" by simp
  then have "\<not> isnan a" "\<forall>y \<in> set ys. \<not> isnan y" using nn fold_np_max_nan by auto
  then have "x \<le> m" using fold_np_max_ge [of a ys] assms(3) Cons m by auto
  then show ?thesis using assms(2) by (rule fl_le_trans)
qed

lemma all_finite_in: "all_finite v \<Longrightarrow> x \<in> set v \<Longrightarrow> isfinite x"
  by (auto simp: all_finite_def list_all_iff)

lemma all_finite_conv_nth: "all_finite v \<longleftrightarrow> (\<forall>i < length v. isfinite (v ! i))"
  by (simp add: all_finite_def list_all_length)

lemma py_get_in: "py_get v i = Inr x \<Longrightarrow> x \<in> set v"
  by (auto simp: py_get_def split: option.splits dest: py_index_bound)

lemma py_get_nth [simp]: "i < length v \<Longrightarrow> py_get v (int i) = Inr (v ! i)"
  by (auto simp: py_get_def py_index_def)

text \<open>A clip between ordered ends lands between them, stays finite, and never moves further from a point between them.\<close>

lemma np_clip_range:
  assumes "isfinite x" "lo \<le> hi" "lo \<noteq> PInf" "hi \<noteq> NInf"
  shows "isfinite (np_clip x lo hi)" "lo \<le> np_clip x lo hi" "np_clip x lo hi \<le> hi"
  using assms by (cases x; cases lo; cases hi; auto simp: np_clip_def np_min_def np_max_def)+

lemma np_clip_id: "lo \<le> x \<Longrightarrow> x \<le> hi \<Longrightarrow> np_clip x lo hi = x"
  by (cases x; cases lo; cases hi) (auto simp: np_clip_def np_min_def np_max_def)

lemma np_clip_closer:
  assumes "isfinite x" "isfinite p" "lo \<le> p" "p \<le> hi"
  shows "fabs (np_clip x lo hi - p) \<le> fabs (x - p)"
  using assms by (cases x; cases p; cases lo; cases hi) (auto simp: np_clip_def np_min_def np_max_def)

end
