(* ===== verification/Motion.thy ===== *)
theory Motion
  imports Floats
begin

text \<open>
  \<^verbatim>\<open>arm_control/motion/types.py\<close>: the trajectory values every executor and planner shares.

  A \<open>JointTrajectory\<close> is a list of knots (time, joint positions, optional joint velocities).
  \<open>sample_at\<close> evaluates the cubic Hermite (or the chord when there are no velocities), \<open>bounds\<close>
  computes closed-form extrema of that curve and \<open>densify\<close> samples it with a bounded joint step.
  Shapes are part of the types: \<open>times\<close> is one-dimensional by its type, and a ragged \<open>positions\<close>
  is refused as an array that is not two-dimensional.
\<close>

record TrajectoryPoint =
  pt_time :: fl
  pt_position :: vec
  pt_velocity :: vec
  pt_acceleration :: vec

record JointTrajectory =
  jt_times :: vec
  jt_positions :: mat
  jt_velocities :: "mat option"

definition mat_cols :: "mat \<Rightarrow> nat" where
  "mat_cols m = (case m of [] \<Rightarrow> 0 | r # _ \<Rightarrow> length r)"

definition same_shape :: "mat \<Rightarrow> mat \<Rightarrow> bool" where
  "same_shape a b \<longleftrightarrow> length a = length b \<and> list_all2 (\<lambda>r s. length r = length s) a b"

text \<open>\<^verbatim>\<open>JointTrajectory.__post_init__\<close>. A \<open>NaN\<close> difference is not \<open>\<le> 0\<close>, so it passes here.\<close>

definition mk_JointTrajectory :: "vec \<Rightarrow> mat \<Rightarrow> mat option \<Rightarrow> JointTrajectory result" where
  "mk_JointTrajectory ts ps vs =
     (if \<not> rectangular ps (mat_cols ps) then Inl (ValueError ''positions must be a 2-D array'')
      else if length ts \<noteq> length ps then Inl (ValueError ''times length must match positions rows'')
      else if length ts < 2 then Inl (ValueError ''trajectory must contain at least two points'')
      else if list_ex (\<lambda>d. d \<le> 0) (diffs ts) then Inl (ValueError ''times must be strictly increasing'')
      else case vs of
        None \<Rightarrow> Inr \<lparr>jt_times = ts, jt_positions = ps, jt_velocities = None\<rparr>
      | Some v \<Rightarrow>
          if \<not> same_shape v ps then Inl (ValueError ''velocities shape must match positions shape'')
          else Inr \<lparr>jt_times = ts, jt_positions = ps, jt_velocities = Some v\<rparr>)"

definition duration_sec :: "JointTrajectory \<Rightarrow> fl" where
  "duration_sec jt = last (jt_times jt) - hd (jt_times jt)"

definition num_joints :: "JointTrajectory \<Rightarrow> nat" where
  "num_joints jt = mat_cols (jt_positions jt)"

definition jt_point :: "JointTrajectory \<Rightarrow> nat \<Rightarrow> TrajectoryPoint" where
  "jt_point jt i =
     \<lparr>pt_time = jt_times jt ! i,
      pt_position = jt_positions jt ! i,
      pt_velocity = (case jt_velocities jt of Some v \<Rightarrow> v ! i | None \<Rightarrow> zeros (num_joints jt)),
      pt_acceleration = zeros (num_joints jt)\<rparr>"

text \<open>\<^verbatim>\<open>np.searchsorted(ts, t, side="right")\<close> on a sorted array; numpy orders \<open>NaN\<close> last.\<close>

definition searchsorted_right :: "vec \<Rightarrow> fl \<Rightarrow> nat" where
  "searchsorted_right ts t = length (takeWhile (\<lambda>x. isnan t \<or> x \<le> t) ts)"

definition vdivs :: "vec \<Rightarrow> fl \<Rightarrow> vec" where
  "vdivs xs h = map (\<lambda>x. x / h) xs"

definition sample_at :: "JointTrajectory \<Rightarrow> fl \<Rightarrow> TrajectoryPoint result" where
  "sample_at jt t =
     (let ts = jt_times jt in
      if t \<le> hd ts then Inr (jt_point jt 0)
      else if last ts \<le> t then Inr (jt_point jt (length ts - 1))
      else
        let upper = searchsorted_right ts t in
        if length ts \<le> upper then Inl IndexError
        else
          let lower = upper - 1;
              h = ts ! upper - ts ! lower;
              s = (t - ts ! lower) / h;
              q0 = jt_positions jt ! lower; q1 = jt_positions jt ! upper;
              dq = vsub q1 q0 in
          case jt_velocities jt of
            None \<Rightarrow> Inr
              \<lparr>pt_time = t,
               pt_position = vadd q0 (vscale s dq),
               pt_velocity = vdivs dq h,
               pt_acceleration = zeros (num_joints jt)\<rparr>
          | Some v \<Rightarrow>
              let v0 = v ! lower; v1 = v ! upper; s2 = s * s; s3 = s * s * s in
              Inr
              \<lparr>pt_time = t,
               pt_position =
                 vadd (vadd q0 (vscale (3 * s2 - 2 * s3) dq))
                   (vscale h (vadd (vscale (s3 - 2 * s2 + s) v0) (vscale (s3 - s2) v1))),
               pt_velocity =
                 vadd (vadd (vdivs (vscale (6 * s - 6 * s2) dq) h) (vscale (3 * s2 - 4 * s + 1) v0))
                   (vscale (3 * s2 - 2 * s) v1),
               pt_acceleration =
                 vadd (vdivs (vscale (6 - 12 * s) dq) (h * h))
                   (vdivs (vadd (vscale (6 * s - 4) v0) (vscale (6 * s - 2) v1)) h)\<rparr>)"

subsection \<open>Closed-form extrema\<close>

text \<open>
  \<^verbatim>\<open>JointTrajectory.bounds\<close>. The code works on all joints at once (numpy columns); the model writes
  one joint of one segment as a scalar function and maps it over the joints.
\<close>

definition tiny :: fl where
  "tiny = Fin (1 / 10 ^ 300)"

record seg_coeffs =
  sc0 :: fl
  sc1 :: fl
  sc2 :: fl
  sc3 :: fl

definition seg_cubic :: "fl \<Rightarrow> fl \<Rightarrow> fl \<Rightarrow> fl \<Rightarrow> fl \<Rightarrow> seg_coeffs" where
  "seg_cubic h q0 q1 v0 v1 =
     \<lparr>sc0 = q0,
      sc1 = h * v0,
      sc2 = - 3 * q0 - 2 * h * v0 + 3 * q1 - h * v1,
      sc3 = 2 * q0 + h * v0 - 2 * q1 + h * v1\<rparr>"

definition q_at :: "seg_coeffs \<Rightarrow> fl \<Rightarrow> fl" where
  "q_at c s = ((sc3 c * s + sc2 c) * s + sc1 c) * s + sc0 c"

definition qd_at :: "seg_coeffs \<Rightarrow> fl \<Rightarrow> fl \<Rightarrow> fl" where
  "qd_at c h s = ((3 * sc3 c * s + 2 * sc2 c) * s + sc1 c) / h"

text \<open>The stationary point of the position the code derives for one sign of the root.\<close>

definition seg_root :: "seg_coeffs \<Rightarrow> fl \<Rightarrow> fl" where
  "seg_root cs sign =
     (let a = 3 * sc3 cs; b = 2 * sc2 cs; c = sc1 cs;
          disc = b * b - 4 * a * c;
          root = fsqrt (if 0 < disc then disc else 0);
          quad = (if tiny < fabs a then (- b + sign * root) / (2 * a) else NaN);
          lin = (if tiny < fabs b then - c / b else NaN);
          s1 = (if tiny < fabs a then quad else lin);
          s2 = (if 0 < disc \<or> fabs a \<le> tiny then s1 else NaN)
      in if 0 < s2 \<and> s2 < 1 then s2 else NaN)"

definition seg_cand :: "seg_coeffs \<Rightarrow> fl \<Rightarrow> fl" where
  "seg_cand c sign =
     (let s = seg_root c sign in if isnan s then q_at c 0 else q_at c (nan_to_num s))"

definition seg_q_cands :: "seg_coeffs \<Rightarrow> fl list" where
  "seg_q_cands c = [q_at c 0, q_at c 1, seg_cand c 1, seg_cand c (- 1)]"

definition seg_qd_max :: "seg_coeffs \<Rightarrow> fl \<Rightarrow> fl" where
  "seg_qd_max c h =
     (let s1 = (if tiny < fabs (sc3 c) then - sc2 c / (3 * sc3 c) else NaN);
          s2 = (if 0 < s1 \<and> s1 < 1 then s1 else NaN)
      in np_max (np_max (fabs (qd_at c h 0)) (fabs (qd_at c h 1)))
           (if isnan s2 then 0 else fabs (qd_at c h (nan_to_num s2))))"

definition seg_qdd_max :: "seg_coeffs \<Rightarrow> fl \<Rightarrow> fl" where
  "seg_qdd_max c h =
     np_max (fabs (2 * sc2 c) / (h * h)) (fabs (6 * sc3 c + 2 * sc2 c) / (h * h))"

record curve_bounds =
  b_q_min :: vec
  b_q_max :: vec
  b_qd_abs_max :: vec
  b_qdd_abs_max :: vec

definition seg_at :: "JointTrajectory \<Rightarrow> nat \<Rightarrow> nat \<Rightarrow> seg_coeffs" where
  "seg_at jt i j =
     (let h = jt_times jt ! Suc i - jt_times jt ! i;
          q0 = jt_positions jt ! i; q1 = jt_positions jt ! Suc i;
          v0 = (case jt_velocities jt of None \<Rightarrow> vdivs (vsub q1 q0) h | Some v \<Rightarrow> v ! i);
          v1 = (case jt_velocities jt of None \<Rightarrow> vdivs (vsub q1 q0) h | Some v \<Rightarrow> v ! Suc i)
      in seg_cubic h (q0 ! j) (q1 ! j) (v0 ! j) (v1 ! j))"

definition bounds_step :: "JointTrajectory \<Rightarrow> nat \<Rightarrow> curve_bounds \<Rightarrow> curve_bounds" where
  "bounds_step jt i b =
     (let h = jt_times jt ! Suc i - jt_times jt ! i; js = [0..<num_joints jt] in
      \<lparr>b_q_min = map (\<lambda>j. np_min (b_q_min b ! j)
         (fold np_min (seg_q_cands (seg_at jt i j)) (q_at (seg_at jt i j) 0))) js,
       b_q_max = map (\<lambda>j. np_max (b_q_max b ! j)
         (fold np_max (seg_q_cands (seg_at jt i j)) (q_at (seg_at jt i j) 0))) js,
       b_qd_abs_max = map (\<lambda>j. np_max (b_qd_abs_max b ! j) (seg_qd_max (seg_at jt i j) h)) js,
       b_qdd_abs_max = map (\<lambda>j. np_max (b_qdd_abs_max b ! j) (seg_qdd_max (seg_at jt i j) h)) js\<rparr>)"

definition bounds :: "JointTrajectory \<Rightarrow> curve_bounds" where
  "bounds jt =
     fold (bounds_step jt) [0..<length (jt_times jt) - 1]
       \<lparr>b_q_min = replicate (num_joints jt) PInf, b_q_max = replicate (num_joints jt) NInf,
        b_qd_abs_max = zeros (num_joints jt), b_qdd_abs_max = zeros (num_joints jt)\<rparr>"

subsection \<open>Dense sampling\<close>

text \<open>\<^verbatim>\<open>np.linspace(a, b, k + 1)\<close>; its last element is the endpoint itself.\<close>

definition linspace :: "fl \<Rightarrow> fl \<Rightarrow> nat \<Rightarrow> vec" where
  "linspace a b k = map (\<lambda>i. if i = k then b else a + Fin (real i) * ((b - a) / Fin (real k))) [0..<Suc k]"

text \<open>\<^verbatim>\<open>int(np.ceil(x))\<close>: \<open>int\<close> raises on a non-finite argument.\<close>

fun int_ceil :: "fl \<Rightarrow> int result" where
  "int_ceil (Fin x) = Inr \<lceil>x\<rceil>"
| "int_ceil NaN = Inl (ValueError ''cannot convert float NaN to integer'')"
| "int_ceil _ = Inl OverflowError"

definition densify :: "JointTrajectory \<Rightarrow> fl \<Rightarrow> mat result" where
  "densify jt max_step_rad =
     (if \<not> 0 < max_step_rad then Inl (ValueError ''max_step_rad must be positive'')
      else bindr (arr_max (b_qd_abs_max (bounds jt))) (\<lambda>peak.
        let duration = duration_sec jt in
        if peak \<le> 0 \<or> duration \<le> 0 then Inr [hd (jt_positions jt), last (jt_positions jt)]
        else bindr (int_ceil (duration * peak / max_step_rad)) (\<lambda>steps.
          mapr (\<lambda>t. bindr (sample_at jt t) (\<lambda>p. Inr (pt_position p)))
            (linspace (hd (jt_times jt)) (last (jt_times jt)) (nat (max steps 1))))))"

lemma vdivs_simps [simp]:
  "length (vdivs xs h) = length xs" "i < length xs \<Longrightarrow> vdivs xs h ! i = xs ! i / h"
  by (simp_all add: vdivs_def)

end
