(* ===== verification/Cubic.thy ===== *)
theory Cubic
  imports Complex_Main
begin

text \<open>
  Extrema of a real cubic on the unit interval, for the closed-form bounds of \<^verbatim>\<open>motion/types.py\<close>.

  The code decides whether the derivative is quadratic, linear or constant by comparing its
  coefficients with \<open>1e-300\<close>. A coefficient below that threshold is not zero, so the candidates it
  computes are extrema up to an error of a few \<open>1e-300\<close>, which the lemmas carry as \<open>eps\<close>.
\<close>

definition cub :: "real \<Rightarrow> real \<Rightarrow> real \<Rightarrow> real \<Rightarrow> real \<Rightarrow> real" where
  "cub c0 c1 c2 c3 s = ((c3 * s + c2) * s + c1) * s + c0"

definition cub' :: "real \<Rightarrow> real \<Rightarrow> real \<Rightarrow> real \<Rightarrow> real" where
  "cub' c1 c2 c3 s = (3 * c3 * s + 2 * c2) * s + c1"

definition real_root :: "real \<Rightarrow> real \<Rightarrow> real \<Rightarrow> real \<Rightarrow> real \<Rightarrow> real option" where
  "real_root eps a b c sg =
     (let disc = b * b - 4 * a * c;
          s = (if eps < \<bar>a\<bar>
               then (if 0 < disc then Some ((- b + sg * sqrt disc) / (2 * a)) else None)
               else if eps < \<bar>b\<bar> then Some (- c / b) else None)
      in case s of Some x \<Rightarrow> (if 0 < x \<and> x < 1 then Some x else None) | None \<Rightarrow> None)"

definition crit :: "real \<Rightarrow> real \<Rightarrow> real \<Rightarrow> real \<Rightarrow> real set" where
  "crit eps a b c = {0, 1} \<union> set_option (real_root eps a b c 1) \<union> set_option (real_root eps a b c (- 1))"

lemma cub_poly: "cub c0 c1 c2 c3 s = c3 * s ^ 3 + c2 * s ^ 2 + c1 * s + c0"
  by (simp add: cub_def algebra_simps power2_eq_square power3_eq_cube)

lemma cub_deriv: "(cub c0 c1 c2 c3 has_real_derivative cub' c1 c2 c3 s) (at s)"
  unfolding cub_def cub'_def by (auto intro!: derivative_eq_intros simp: algebra_simps)

lemma crit_uminus: "crit eps (- a) (- b) (- c) = crit eps a b c"
proof -
  have "(b + x) / (2 * - a) = (- b - x) / (2 * a)" for x :: real
    by (metis minus_add_distrib minus_divide_left minus_divide_right mult_minus_right diff_conv_add_uminus)
  then have "real_root eps (- a) (- b) (- c) sg = real_root eps a b c (- sg)" for sg
    by (auto simp: real_root_def Let_def split: option.splits)
  then show ?thesis by (auto simp: crit_def)
qed

lemma max_at_stationary:
  fixes f :: "real \<Rightarrow> real"
  assumes "\<And>x. (f has_real_derivative f' x) (at x)" and "0 \<le> s" "s \<le> 1"
  shows "\<exists>m. 0 \<le> m \<and> m \<le> 1 \<and> f s \<le> f m \<and> (m = 0 \<or> m = 1 \<or> f' m = 0)"
proof -
  have "\<forall>x. 0 \<le> x \<and> x \<le> 1 \<longrightarrow> isCont f x"
    using assms(1) DERIV_isCont by blast
  then obtain M where M: "\<forall>x. 0 \<le> x \<and> x \<le> 1 \<longrightarrow> f x \<le> M" and "\<exists>x. 0 \<le> x \<and> x \<le> 1 \<and> f x = M"
    using isCont_eq_Ub [of 0 1 f] by auto
  then obtain m where m: "0 \<le> m" "m \<le> 1" "f m = M" by blast
  have "m = 0 \<or> m = 1 \<or> f' m = 0"
  proof (cases "m = 0 \<or> m = 1")
    case False
    with m have "0 < min m (1 - m)" by auto
    moreover have "\<forall>y. \<bar>m - y\<bar> < min m (1 - m) \<longrightarrow> f y \<le> f m"
      using M m by (auto simp: abs_less_iff)
    ultimately show ?thesis using DERIV_local_max [OF assms(1)] by blast
  qed auto
  with M m assms show ?thesis by auto
qed

text \<open>The quadratic derivative: every stationary point is a root the code computes, unless the
  discriminant vanishes and the cubic is monotone.\<close>

lemma quadratic_root:
  fixes a b c x :: real
  assumes "a \<noteq> 0" "a * x * x + b * x + c = 0"
  shows "0 \<le> b * b - 4 * a * c"
    and "x = (- b + sqrt (b * b - 4 * a * c)) / (2 * a) \<or> x = (- b + - 1 * sqrt (b * b - 4 * a * c)) / (2 * a)"
proof -
  have d: "b * b - 4 * a * c = (2 * a * x + b) ^ 2"
    using assms(2) by (simp add: power2_eq_square algebra_simps) algebra
  then show "0 \<le> b * b - 4 * a * c" by simp
  have "sqrt (b * b - 4 * a * c) = \<bar>2 * a * x + b\<bar>"
    by (simp add: d)
  with assms(1) show "x = (- b + sqrt (b * b - 4 * a * c)) / (2 * a) \<or>
      x = (- b + - 1 * sqrt (b * b - 4 * a * c)) / (2 * a)"
    by (auto simp: field_simps abs_if)
qed

lemma cub_max_quadratic:
  assumes "eps < \<bar>3 * c3\<bar>" "0 \<le> eps" "0 \<le> s" "s \<le> 1"
  shows "\<exists>m \<in> crit eps (3 * c3) (2 * c2) c1. cub c0 c1 c2 c3 s \<le> cub c0 c1 c2 c3 m"
proof -
  let ?f = "cub c0 c1 c2 c3" and ?d = "2 * c2 * (2 * c2) - 4 * (3 * c3) * c1"
  from assms(1,2) have nz: "c3 \<noteq> 0" by auto
  obtain m where m: "0 \<le> m" "m \<le> 1" "?f s \<le> ?f m" "m = 0 \<or> m = 1 \<or> cub' c1 c2 c3 m = 0"
    using max_at_stationary [OF cub_deriv assms(3,4)] by blast
  show ?thesis
  proof (cases "m = 0 \<or> m = 1")
    case True
    with m(3) show ?thesis by (auto simp: crit_def)
  next
    case False
    with m have st: "3 * c3 * m * m + 2 * c2 * m + c1 = 0" and m01: "0 < m" "m < 1"
      by (auto simp: cub'_def algebra_simps)
    note roots = quadratic_root [OF _ st]
    show ?thesis
    proof (cases "?d = 0")
      case False
      with roots(1) nz have "0 < ?d" by simp
      with roots(2) nz assms(1) m01 have "m \<in> crit eps (3 * c3) (2 * c2) c1"
        by (auto simp: crit_def real_root_def)
      with m(3) show ?thesis by blast
    next
      case True
      then have "c1 = c2 * c2 / (3 * c3)"
        using nz by (simp add: field_simps)
      then have "c1 = 3 * c3 * m * m \<and> c2 = - 3 * c3 * m"
        using st nz by (simp add: field_simps) algebra
      then have eq: "?f x = c3 * (x - m) ^ 3 + ?f m" for x
        by (simp add: cub_poly algebra_simps power3_eq_cube power2_eq_square)
      have "?f m \<le> ?f 0 \<or> ?f m \<le> ?f 1"
      proof (cases "0 \<le> c3")
        case True
        with m01 eq [of 1] show ?thesis by simp
      next
        case False
        with m01 have "0 \<le> c3 * (0 - m) ^ 3"
          by (simp add: mult_nonpos_nonneg)
        with eq [of 0] show ?thesis by simp
      qed
      with m(3) show ?thesis by (auto simp: crit_def intro: order_trans)
    qed
  qed
qed

text \<open>The degenerate cases: with a cubic coefficient below \<open>eps\<close> the quadratic part decides, and
  with a quadratic coefficient below \<open>eps\<close> too the endpoints do.\<close>

lemma cub_max_linear:
  assumes a: "\<bar>3 * c3\<bar> \<le> eps" and b: "eps < \<bar>2 * c2\<bar>" and "0 \<le> eps" "0 \<le> s" "s \<le> 1"
  shows "\<exists>m \<in> crit eps (3 * c3) (2 * c2) c1. cub c0 c1 c2 c3 s \<le> cub c0 c1 c2 c3 m + 2 * eps"
proof -
  let ?f = "cub c0 c1 c2 c3" and ?p = "cub c0 c1 c2 0"
  from b assms(3) have nz: "c2 \<noteq> 0" by auto
  have near: "\<bar>?f x - ?p x\<bar> \<le> eps" if "0 \<le> x" "x \<le> 1" for x
  proof -
    have "x ^ 3 \<le> 1" using that by (simp add: power_le_one)
    then have "\<bar>c3\<bar> * x ^ 3 \<le> \<bar>c3\<bar>" by (simp add: mult_left_le)
    moreover have "?f x - ?p x = c3 * x ^ 3" by (simp add: cub_poly)
    ultimately show ?thesis using a that by (simp add: abs_mult)
  qed
  obtain m where m: "0 \<le> m" "m \<le> 1" "?p s \<le> ?p m" "m = 0 \<or> m = 1 \<or> cub' c1 c2 0 m = 0"
    using max_at_stationary [OF cub_deriv assms(4,5)] by blast
  have "m \<in> crit eps (3 * c3) (2 * c2) c1"
  proof (cases "m = 0 \<or> m = 1")
    case True
    then show ?thesis by (auto simp: crit_def)
  next
    case False
    with m nz have "m = - c1 / (2 * c2)" "0 < m" "m < 1"
      by (auto simp: cub'_def field_simps)
    with a b show ?thesis by (auto simp: crit_def real_root_def)
  qed
  moreover have "?f s \<le> ?f m + 2 * eps"
    using near [of s] near [of m] assms(4,5) m by (auto simp: abs_le_iff)
  ultimately show ?thesis by blast
qed

lemma cub_max_constant:
  assumes a: "\<bar>3 * c3\<bar> \<le> eps" and b: "\<bar>2 * c2\<bar> \<le> eps" and "0 \<le> s" "s \<le> 1"
  shows "\<exists>m \<in> crit eps (3 * c3) (2 * c2) c1. cub c0 c1 c2 c3 s \<le> cub c0 c1 c2 c3 m + 2 * eps"
proof -
  let ?f = "cub c0 c1 c2 c3"
  have near: "\<bar>?f x - (c1 * x + c0)\<bar> \<le> eps" if "0 \<le> x" "x \<le> 1" for x
  proof -
    have "x ^ 3 \<le> 1" "x ^ 2 \<le> 1" using that by (simp_all add: power_le_one)
    then have le: "\<bar>c3\<bar> * x ^ 3 \<le> \<bar>c3\<bar>" "\<bar>c2\<bar> * x ^ 2 \<le> \<bar>c2\<bar>" by (simp_all add: mult_left_le)
    have "?f x - (c1 * x + c0) = c3 * x ^ 3 + c2 * x ^ 2" by (simp add: cub_poly)
    then have "\<bar>?f x - (c1 * x + c0)\<bar> \<le> \<bar>c3\<bar> * x ^ 3 + \<bar>c2\<bar> * x ^ 2"
      using abs_triangle_ineq [of "c3 * x ^ 3" "c2 * x ^ 2"] that by (simp add: abs_mult)
    also have "\<dots> \<le> \<bar>c3\<bar> + \<bar>c2\<bar>" using le by (rule add_mono)
    also have "\<dots> \<le> eps" using a b by linarith
    finally show ?thesis .
  qed
  have "c1 * s \<le> max 0 c1"
    using assms(3,4) by (metis linear max.coboundedI1 max.coboundedI2 mult_left_le mult_nonneg_nonpos2 order.trans mult.commute)
  then have "c1 * s + c0 \<le> c0 \<or> c1 * s + c0 \<le> c1 + c0" by (auto simp: max_def split: if_splits)
  then have "?f s \<le> ?f 0 + 2 * eps \<or> ?f s \<le> ?f 1 + 2 * eps"
    using near [of s] near [of 0] near [of 1] assms(3,4) by (auto simp: abs_le_iff)
  then show ?thesis by (auto simp: crit_def)
qed

lemma cub_le_crit:
  assumes "0 \<le> eps" "0 \<le> s" "s \<le> 1"
  shows "\<exists>m \<in> crit eps (3 * c3) (2 * c2) c1. cub c0 c1 c2 c3 s \<le> cub c0 c1 c2 c3 m + 2 * eps"
proof (cases "eps < \<bar>3 * c3\<bar>")
  case True
  from cub_max_quadratic [OF True assms, of c2 c1 c0] assms(1) show ?thesis
    by force
next
  case False
  with cub_max_linear [of c3 eps c2 s c1 c0] cub_max_constant [of c3 eps c2 s c1 c0] assms
  show ?thesis by (cases "eps < \<bar>2 * c2\<bar>") auto
qed

lemma cub_ge_crit:
  assumes "0 \<le> eps" "0 \<le> s" "s \<le> 1"
  shows "\<exists>m \<in> crit eps (3 * c3) (2 * c2) c1. cub c0 c1 c2 c3 m - 2 * eps \<le> cub c0 c1 c2 c3 s"
proof -
  have neg: "cub (- c0) (- c1) (- c2) (- c3) x = - cub c0 c1 c2 c3 x" for x
    by (simp add: cub_def algebra_simps)
  have "crit eps (3 * - c3) (2 * - c2) (- c1) = crit eps (3 * c3) (2 * c2) c1"
    using crit_uminus [of eps "3 * c3" "2 * c2" c1] by simp
  with cub_le_crit [OF assms, of "- c3" "- c2" "- c1" "- c0"] show ?thesis
    unfolding neg by (auto simp: algebra_simps)
qed

text \<open>The derivative itself, a quadratic: its extremum is at the vertex the code computes.\<close>

definition vertex :: "real \<Rightarrow> real \<Rightarrow> real \<Rightarrow> real option" where
  "vertex eps c2 c3 =
     (if eps < \<bar>c3\<bar> \<and> 0 < - c2 / (3 * c3) \<and> - c2 / (3 * c3) < 1 then Some (- c2 / (3 * c3)) else None)"

lemma cub'_deriv: "(cub' c1 c2 c3 has_real_derivative 6 * c3 * s + 2 * c2) (at s)"
  unfolding cub'_def by (auto intro!: derivative_eq_intros simp: algebra_simps)

lemma cub'_le_crit:
  assumes "0 \<le> eps" "0 \<le> s" "s \<le> 1"
  shows "\<exists>m \<in> {0, 1} \<union> set_option (vertex eps c2 c3). cub' c1 c2 c3 s \<le> cub' c1 c2 c3 m + eps"
proof (cases "eps < \<bar>c3\<bar>")
  case True
  with assms(1) have nz: "c3 \<noteq> 0" by auto
  obtain m where m: "0 \<le> m" "m \<le> 1" "cub' c1 c2 c3 s \<le> cub' c1 c2 c3 m"
    "m = 0 \<or> m = 1 \<or> 6 * c3 * m + 2 * c2 = 0"
    using max_at_stationary [OF cub'_deriv assms(2,3)] by blast
  have "m \<in> {0, 1} \<union> set_option (vertex eps c2 c3)"
  proof (cases "m = 0 \<or> m = 1")
    case False
    with m nz have "m = - c2 / (3 * c3)" "0 < m" "m < 1" by (auto simp: field_simps)
    with True show ?thesis by (auto simp: vertex_def)
  qed auto
  with m(3) assms(1) show ?thesis by (intro bexI [of _ m]) auto
next
  case False
  have "cub' c1 c2 c3 s = (1 - s) * cub' c1 c2 c3 0 + s * cub' c1 c2 c3 1 - 3 * c3 * (s * (1 - s))"
    by (simp add: cub'_def algebra_simps)
  moreover have "s * (1 - s) \<le> 1 / 4"
    using sum_power2_ge_zero [of "s - 1 / 2" 0] by (simp add: power2_eq_square algebra_simps)
  moreover have "0 \<le> s * (1 - s)" using assms(2,3) by simp
  ultimately have "cub' c1 c2 c3 s \<le> (1 - s) * cub' c1 c2 c3 0 + s * cub' c1 c2 c3 1 + eps"
  proof -
    assume 1: "cub' c1 c2 c3 s = (1 - s) * cub' c1 c2 c3 0 + s * cub' c1 c2 c3 1 - 3 * c3 * (s * (1 - s))"
      and 2: "s * (1 - s) \<le> 1 / 4" and 3: "0 \<le> s * (1 - s)"
    have "\<bar>3 * c3 * (s * (1 - s))\<bar> \<le> 3 * eps * (1 / 4)"
      unfolding abs_mult using False 2 3 by (intro mult_mono) auto
    with assms(1) 1 show ?thesis by linarith
  qed
  moreover have "(1 - s) * cub' c1 c2 c3 0 + s * cub' c1 c2 c3 1 \<le> max (cub' c1 c2 c3 0) (cub' c1 c2 c3 1)"
  proof -
    let ?M = "max (cub' c1 c2 c3 0) (cub' c1 c2 c3 1)"
    have "(1 - s) * cub' c1 c2 c3 0 \<le> (1 - s) * ?M" "s * cub' c1 c2 c3 1 \<le> s * ?M"
      using assms(2,3) by (auto intro: mult_left_mono)
    moreover have "(1 - s) * ?M + s * ?M = ?M" by (simp add: algebra_simps)
    ultimately show ?thesis by linarith
  qed
  ultimately have "cub' c1 c2 c3 s \<le> cub' c1 c2 c3 0 + eps \<or> cub' c1 c2 c3 s \<le> cub' c1 c2 c3 1 + eps"
    by (auto simp: max_def split: if_splits)
  then show ?thesis by auto
qed

lemma abs_cub'_le_crit:
  assumes "0 \<le> eps" "0 \<le> s" "s \<le> 1"
  shows "\<exists>m \<in> {0, 1} \<union> set_option (vertex eps c2 c3). \<bar>cub' c1 c2 c3 s\<bar> \<le> \<bar>cub' c1 c2 c3 m\<bar> + eps"
proof (cases "0 \<le> cub' c1 c2 c3 s")
  case True
  with cub'_le_crit [OF assms, where ?c1.0 = c1 and ?c2.0 = c2 and ?c3.0 = c3] show ?thesis by force
next
  case False
  have "cub' (- c1) (- c2) (- c3) x = - cub' c1 c2 c3 x" for x
    by (simp add: cub'_def algebra_simps)
  moreover have "vertex eps (- c2) (- c3) = vertex eps c2 c3" by (simp add: vertex_def)
  ultimately show ?thesis
    using cub'_le_crit [OF assms, where ?c1.0 = "- c1" and ?c2.0 = "- c2" and ?c3.0 = "- c3"] False by force
qed

text \<open>The second derivative is linear, so its absolute value peaks at an endpoint.\<close>

lemma abs_linear_le:
  fixes a b :: real
  assumes "0 \<le> s" "s \<le> 1"
  shows "\<bar>a * s + b\<bar> \<le> max \<bar>b\<bar> \<bar>a + b\<bar>"
proof -
  have "a * s + b = (1 - s) * b + s * (a + b)" by (simp add: algebra_simps)
  then have "\<bar>a * s + b\<bar> \<le> (1 - s) * \<bar>b\<bar> + s * \<bar>a + b\<bar>"
    using assms abs_triangle_ineq [of "(1 - s) * b" "s * (a + b)"] by (simp add: abs_mult)
  also have "\<dots> \<le> (1 - s) * max \<bar>b\<bar> \<bar>a + b\<bar> + s * max \<bar>b\<bar> \<bar>a + b\<bar>"
    using assms by (intro add_mono mult_left_mono) auto
  also have "\<dots> = max \<bar>b\<bar> \<bar>a + b\<bar>" by (simp add: algebra_simps)
  finally show ?thesis .
qed

end
