(* ===== verification/Motion_Curve.thy ===== *)
theory Motion_Curve
  imports Motion Cubic
begin

text \<open>
  Properties of the trajectory values: the sampled point is the cubic of its segment, the closed-form
  bounds cover the whole curve, the three sampled signals are derivatives of each other, and dense
  sampling honours its step.

  The proofs go through a real-valued view of a well-formed finite trajectory (\<open>traj_ok\<close>): \<open>tk\<close> the
  knot times, \<open>qk\<close> the knot positions, \<open>hk\<close> the segment durations, and \<open>Rq\<close>, \<open>Rqd\<close>, \<open>Rqdd\<close> the
  curve of one joint on one segment with its derivatives; the extrema come from \<open>Cubic\<close>.
\<close>

subsection \<open>Well-formed finite trajectories and their real view\<close>

definition traj_ok :: "JointTrajectory \<Rightarrow> bool" where
  "traj_ok jt \<longleftrightarrow>
     2 \<le> length (jt_times jt) \<and> length (jt_positions jt) = length (jt_times jt) \<and>
     rectangular (jt_positions jt) (num_joints jt) \<and>
     all_finite (jt_times jt) \<and> list_all all_finite (jt_positions jt) \<and>
     (\<forall>i < length (jt_times jt) - 1. jt_times jt ! i < jt_times jt ! Suc i) \<and>
     (case jt_velocities jt of None \<Rightarrow> True
      | Some v \<Rightarrow> length v = length (jt_times jt) \<and> rectangular v (num_joints jt) \<and> list_all all_finite v)"

definition finite_curve :: "JointTrajectory \<Rightarrow> bool" where
  "finite_curve jt \<longleftrightarrow> all_finite (jt_times jt) \<and> list_all all_finite (jt_positions jt) \<and>
     (case jt_velocities jt of None \<Rightarrow> True | Some v \<Rightarrow> list_all all_finite v)"

lemma rectangular_same_shape:
  "same_shape a b \<Longrightarrow> rectangular b n \<Longrightarrow> rectangular a n \<and> length a = length b"
  by (auto simp: same_shape_def rectangular_def list_all_length list_all2_conv_all_nth)

lemma mk_JointTrajectory_ok:
  assumes "mk_JointTrajectory ts ps vs = Inr jt" "finite_curve jt"
  shows "traj_ok jt"
proof -
  have fields: "jt_times jt = ts" "jt_positions jt = ps" "jt_velocities jt = vs"
    and shape: "rectangular ps (mat_cols ps)" "length ts = length ps" "2 \<le> length ts"
    and inc: "\<not> list_ex (\<lambda>d. d \<le> 0) (diffs ts)"
    and vel: "\<And>v. vs = Some v \<Longrightarrow> same_shape v ps"
    using assms(1) by (auto simp: mk_JointTrajectory_def split: if_splits option.splits)
  have "ts ! i < ts ! Suc i" if "i < length ts - 1" for i
  proof -
    from that have "diffs ts ! i = ts ! Suc i - ts ! i" "i < length (diffs ts)"
      by (simp_all add: nth_diffs length_diffs)
    with inc have "\<not> ts ! Suc i - ts ! i \<le> 0"
      by (metis list_ex_length)
    moreover have "isfinite (ts ! i)" "isfinite (ts ! Suc i)"
      using assms(2) that fields(1) by (auto simp: finite_curve_def all_finite_def list_all_length)
    ultimately show ?thesis by (auto simp: isfinite_iff)
  qed
  with assms(2) fields shape vel show ?thesis
    by (auto simp: traj_ok_def finite_curve_def num_joints_def split: option.splits
        dest: rectangular_same_shape)
qed

definition tk :: "JointTrajectory \<Rightarrow> nat \<Rightarrow> real" where
  "tk jt i = val (jt_times jt ! i)"

definition qk :: "JointTrajectory \<Rightarrow> nat \<Rightarrow> nat \<Rightarrow> real" where
  "qk jt i j = val (jt_positions jt ! i ! j)"

definition hk :: "JointTrajectory \<Rightarrow> nat \<Rightarrow> real" where
  "hk jt i = tk jt (Suc i) - tk jt i"

definition wk :: "mat \<Rightarrow> nat \<Rightarrow> nat \<Rightarrow> real" where
  "wk v i j = val (v ! i ! j)"

definition vl :: "JointTrajectory \<Rightarrow> nat \<Rightarrow> nat \<Rightarrow> real" where
  "vl jt i j = (case jt_velocities jt of
     None \<Rightarrow> (qk jt (Suc i) j - qk jt i j) / hk jt i | Some v \<Rightarrow> wk v i j)"

definition vr :: "JointTrajectory \<Rightarrow> nat \<Rightarrow> nat \<Rightarrow> real" where
  "vr jt i j = (case jt_velocities jt of
     None \<Rightarrow> (qk jt (Suc i) j - qk jt i j) / hk jt i | Some v \<Rightarrow> wk v (Suc i) j)"

definition c2k :: "JointTrajectory \<Rightarrow> nat \<Rightarrow> nat \<Rightarrow> real" where
  "c2k jt i j = - 3 * qk jt i j - 2 * hk jt i * vl jt i j + 3 * qk jt (Suc i) j - hk jt i * vr jt i j"

definition c3k :: "JointTrajectory \<Rightarrow> nat \<Rightarrow> nat \<Rightarrow> real" where
  "c3k jt i j = 2 * qk jt i j + hk jt i * vl jt i j - 2 * qk jt (Suc i) j + hk jt i * vr jt i j"

text \<open>The curve of joint \<open>j\<close> on segment \<open>i\<close>, its first and its second time derivative.\<close>

definition Rq :: "JointTrajectory \<Rightarrow> nat \<Rightarrow> nat \<Rightarrow> real \<Rightarrow> real" where
  "Rq jt i j t = cub (qk jt i j) (hk jt i * vl jt i j) (c2k jt i j) (c3k jt i j) ((t - tk jt i) / hk jt i)"

definition Rqd :: "JointTrajectory \<Rightarrow> nat \<Rightarrow> nat \<Rightarrow> real \<Rightarrow> real" where
  "Rqd jt i j t = cub' (hk jt i * vl jt i j) (c2k jt i j) (c3k jt i j) ((t - tk jt i) / hk jt i) / hk jt i"

definition Rqdd :: "JointTrajectory \<Rightarrow> nat \<Rightarrow> nat \<Rightarrow> real \<Rightarrow> real" where
  "Rqdd jt i j t = (6 * c3k jt i j * ((t - tk jt i) / hk jt i) + 2 * c2k jt i j) / (hk jt i * hk jt i)"

lemma traj_times: "traj_ok jt \<Longrightarrow> i < length (jt_times jt) \<Longrightarrow> jt_times jt ! i = Fin (tk jt i)"
  unfolding tk_def traj_ok_def by (blast intro: all_finite_nth)

lemma traj_H_pos:
  assumes "traj_ok jt" "Suc i < length (jt_times jt)"
  shows "0 < hk jt i"
proof -
  have "jt_times jt ! i < jt_times jt ! Suc i" using assms by (simp add: traj_ok_def)
  with assms show ?thesis by (simp add: traj_times hk_def)
qed

lemma traj_ends:
  assumes "traj_ok jt"
  shows "hd (jt_times jt) = Fin (tk jt 0)" "last (jt_times jt) = Fin (tk jt (length (jt_times jt) - 1))"
    "2 \<le> length (jt_times jt)" "jt_times jt \<noteq> []"
proof -
  show n: "2 \<le> length (jt_times jt)" and ne: "jt_times jt \<noteq> []" using assms by (auto simp: traj_ok_def)
  then show "hd (jt_times jt) = Fin (tk jt 0)" "last (jt_times jt) = Fin (tk jt (length (jt_times jt) - 1))"
    using traj_times [OF assms, of 0] traj_times [OF assms, of "length (jt_times jt) - 1"]
    by (auto simp: hd_conv_nth last_conv_nth)
qed

lemma traj_pos:
  "traj_ok jt \<Longrightarrow> i < length (jt_times jt) \<Longrightarrow>
     length (jt_positions jt ! i) = num_joints jt \<and>
     (\<forall>j < num_joints jt. jt_positions jt ! i ! j = Fin (qk jt i j))"
  by (auto simp: traj_ok_def qk_def rectangular_def list_all_length all_finite_def isfinite_val)

lemma traj_vel:
  "traj_ok jt \<Longrightarrow> jt_velocities jt = Some v \<Longrightarrow> i < length (jt_times jt) \<Longrightarrow>
     length (v ! i) = num_joints jt \<and> (\<forall>j < num_joints jt. v ! i ! j = Fin (wk v i j))"
  by (auto simp: traj_ok_def wk_def rectangular_def list_all_length all_finite_def isfinite_val)

lemma seg_at_real:
  assumes "traj_ok jt" "Suc i < length (jt_times jt)" "j < num_joints jt"
  shows "seg_at jt i j =
     \<lparr>sc0 = Fin (qk jt i j), sc1 = Fin (hk jt i * vl jt i j), sc2 = Fin (c2k jt i j), sc3 = Fin (c3k jt i j)\<rparr>"
proof -
  from assms have len: "i < length (jt_times jt)" by simp
  have h: "jt_times jt ! Suc i - jt_times jt ! i = Fin (hk jt i)" and hp: "hk jt i \<noteq> 0"
    using assms traj_times [OF assms(1) len] traj_times [OF assms(1,2)] traj_H_pos [OF assms(1,2)]
    by (auto simp: hk_def)
  note pos = traj_pos [OF assms(1) len] traj_pos [OF assms(1,2)]
  show ?thesis
  proof (cases "jt_velocities jt")
    case None
    with h hp pos assms(3) show ?thesis
      by (simp add: seg_at_def Let_def seg_cubic_def vl_def vr_def c2k_def c3k_def)
  next
    case (Some v)
    with h pos assms(3) traj_vel [OF assms(1) Some len] traj_vel [OF assms(1) Some assms(2)] show ?thesis
      by (simp add: seg_at_def Let_def seg_cubic_def vl_def vr_def c2k_def c3k_def)
  qed
qed

subsection \<open>Sampling is the segment's polynomial\<close>

lemma searchsorted_spec:
  assumes "traj_ok jt" "tk jt 0 \<le> t" "t < tk jt (length (jt_times jt) - 1)"
  shows "\<exists>i. searchsorted_right (jt_times jt) (Fin t) = Suc i \<and> Suc i < length (jt_times jt) \<and>
     tk jt i \<le> t \<and> t < tk jt (Suc i)"
proof -
  let ?ts = "jt_times jt" and ?P = "\<lambda>x. x \<le> Fin t"
  define k where "k = length (takeWhile ?P ?ts)"
  have n: "2 \<le> length ?ts" using assms(1) by (simp add: traj_ok_def)
  then obtain x xs where xs: "?ts = x # xs" by (cases ?ts) auto
  with assms(1) n have "x = Fin (tk jt 0)" using traj_times [of jt 0] by simp
  with xs assms(2) have k0: "0 < k" by (simp add: k_def)
  have kn: "k < length ?ts"
  proof (rule ccontr)
    assume "\<not> k < length ?ts"
    then have "takeWhile ?P ?ts = ?ts"
      by (metis k_def length_takeWhile_le order_antisym not_less takeWhile_eq_all_conv
          takeWhile_eq_take take_all)
    then have "\<forall>x \<in> set ?ts. ?P x" by (simp add: takeWhile_eq_all_conv)
    moreover have "?ts ! (length ?ts - 1) \<in> set ?ts" using n by (intro nth_mem) simp
    ultimately have "?P (?ts ! (length ?ts - 1))" by blast
    with assms n show False by (simp add: traj_times)
  qed
  have "\<not> ?P (?ts ! k)" using nth_length_takeWhile [of ?P ?ts] kn by (simp add: k_def)
  moreover have "?P (?ts ! (k - 1))"
    using nth_mem [of "k - 1" "takeWhile ?P ?ts"] k0
    by (metis (no_types, lifting) k_def diff_less less_one set_takeWhileD takeWhile_nth)
  ultimately show ?thesis
    using k0 kn assms(1) by (intro exI [of _ "k - 1"])
      (auto simp: traj_times searchsorted_right_def k_def [symmetric])
qed

lemma sample_at_real:
  assumes "traj_ok jt" "tk jt 0 < t" "t < tk jt (length (jt_times jt) - 1)"
  shows "\<exists>i p. sample_at jt (Fin t) = Inr p \<and> Suc i < length (jt_times jt) \<and>
     tk jt i \<le> t \<and> t < tk jt (Suc i) \<and>
     length (pt_position p) = num_joints jt \<and> length (pt_velocity p) = num_joints jt \<and>
     length (pt_acceleration p) = num_joints jt \<and>
     (\<forall>j < num_joints jt. pt_position p ! j = Fin (Rq jt i j t) \<and>
        pt_velocity p ! j = Fin (Rqd jt i j t) \<and> pt_acceleration p ! j = Fin (Rqdd jt i j t))"
proof -
  let ?ts = "jt_times jt"
  obtain i where i: "searchsorted_right ?ts (Fin t) = Suc i" "Suc i < length ?ts"
    "tk jt i \<le> t" "t < tk jt (Suc i)"
    using searchsorted_spec [OF assms(1) less_imp_le [OF assms(2)] assms(3)] by blast
  note first = traj_ends(1) [OF assms(1)] and final = traj_ends(2) [OF assms(1)]
  have len: "i < length ?ts" using i(2) by simp
  have hp: "0 < hk jt i" using assms(1) i(2) by (rule traj_H_pos)
  then have h: "?ts ! Suc i - ?ts ! i = Fin (hk jt i)" "Fin t - ?ts ! i = Fin (t - tk jt i)"
    using traj_times [OF assms(1) len] traj_times [OF assms(1) i(2)] by (auto simp: hk_def)
  note pos = traj_pos [OF assms(1) len] traj_pos [OF assms(1) i(2)]
  define s where "s = (t - tk jt i) / hk jt i"
  from hp have s: "(Fin t - ?ts ! i) / Fin (hk jt i) = Fin s" by (simp add: h s_def)
  show ?thesis
  proof (cases "jt_velocities jt")
    case None
    then have lin: "vl jt i j = vr jt i j" "hk jt i * vr jt i j = qk jt (Suc i) j - qk jt i j" for j
      using hp by (auto simp: vl_def vr_def)
    have c: "c2k jt i j = 0" "c3k jt i j = 0" for j
      using lin(2) [of j] by (simp_all add: c2k_def c3k_def lin(1))
    show ?thesis
      by (rule exI [of _ i], rule exI [of _ "\<lparr>pt_time = Fin t,
            pt_position = vadd (jt_positions jt ! i) (vscale (Fin s) (vsub (jt_positions jt ! Suc i) (jt_positions jt ! i))),
            pt_velocity = vdivs (vsub (jt_positions jt ! Suc i) (jt_positions jt ! i)) (Fin (hk jt i)),
            pt_acceleration = zeros (num_joints jt)\<rparr>"])
        (use None assms i pos hp s in \<open>auto simp: sample_at_def Let_def first final h c lin Rq_def Rqd_def Rqdd_def
            cub_def cub'_def s_def [symmetric] algebra_simps\<close>)
  next
    case (Some v)
    note vel = traj_vel [OF assms(1) Some len] traj_vel [OF assms(1) Some i(2)]
    have v: "vl jt i j = wk v i j" "vr jt i j = wk v (Suc i) j" for j
      using Some by (simp_all add: vl_def vr_def)
    have hs: "hk jt i \<noteq> 0" using hp by simp
    have samp: "sample_at jt (Fin t) = Inr
       \<lparr>pt_time = Fin t,
        pt_position = vadd (vadd (jt_positions jt ! i) (vscale (Fin (3 * (s * s) - 2 * (s * s * s)))
             (vsub (jt_positions jt ! Suc i) (jt_positions jt ! i))))
           (vscale (Fin (hk jt i)) (vadd (vscale (Fin (s * s * s - 2 * (s * s) + s)) (v ! i))
              (vscale (Fin (s * s * s - s * s)) (v ! Suc i)))),
        pt_velocity = vadd (vadd (vdivs (vscale (Fin (6 * s - 6 * (s * s)))
             (vsub (jt_positions jt ! Suc i) (jt_positions jt ! i))) (Fin (hk jt i)))
             (vscale (Fin (3 * (s * s) - 4 * s + 1)) (v ! i))) (vscale (Fin (3 * (s * s) - 2 * s)) (v ! Suc i)),
        pt_acceleration = vadd (vdivs (vscale (Fin (6 - 12 * s))
             (vsub (jt_positions jt ! Suc i) (jt_positions jt ! i))) (Fin (hk jt i * hk jt i)))
             (vdivs (vadd (vscale (Fin (6 * s - 4)) (v ! i)) (vscale (Fin (6 * s - 2)) (v ! Suc i))) (Fin (hk jt i)))\<rparr>"
      (is "_ = Inr ?p")
      using Some assms i s by (simp add: sample_at_def Let_def first final h)
    have "pt_position ?p ! j = Fin (Rq jt i j t) \<and> pt_velocity ?p ! j = Fin (Rqd jt i j t) \<and>
        pt_acceleration ?p ! j = Fin (Rqdd jt i j t)" if "j < num_joints jt" for j
      using that pos vel hs
      by (simp add: Rq_def Rqd_def Rqdd_def cub_def cub'_def c2k_def c3k_def v s_def [symmetric] field_simps)
    with samp i pos vel show ?thesis by (intro exI [of _ i] exI [of _ ?p]) simp
  qed
qed

subsection \<open>The candidates of one segment\<close>

definition real_seg :: "real \<Rightarrow> real \<Rightarrow> real \<Rightarrow> real \<Rightarrow> seg_coeffs" where
  "real_seg c0 c1 c2 c3 = \<lparr>sc0 = Fin c0, sc1 = Fin c1, sc2 = Fin c2, sc3 = Fin c3\<rparr>"

definition eps300 :: real where
  "eps300 = 1 / 10 ^ 300"

lemma q_at_real: "q_at (real_seg c0 c1 c2 c3) (Fin s) = Fin (cub c0 c1 c2 c3 s)"
  by (simp add: q_at_def real_seg_def cub_def)

lemma qd_at_real: "h \<noteq> 0 \<Longrightarrow> qd_at (real_seg c0 c1 c2 c3) (Fin h) (Fin s) = Fin (cub' c1 c2 c3 s / h)"
  by (simp add: qd_at_def real_seg_def cub'_def)

lemma tiny_eps: "tiny = Fin eps300"
  by (simp add: tiny_def eps300_def)

lemma eps300_pos: "0 < eps300"
  by (simp add: eps300_def)

lemma seg_root_real:
  "seg_root (real_seg c0 c1 c2 c3) (Fin sg) =
     (case real_root eps300 (3 * c3) (2 * c2) c1 sg of Some x \<Rightarrow> Fin x | None \<Rightarrow> NaN)"
proof -
  define a b where "a = 3 * c3" and "b = 2 * c2"
  have co: "3 * sc3 (real_seg c0 c1 c2 c3) = Fin a" "2 * sc2 (real_seg c0 c1 c2 c3) = Fin b"
    "sc1 (real_seg c0 c1 c2 c3) = Fin c1"
    by (simp_all add: real_seg_def a_def b_def)
  define d where "d = b * b - 4 * a * c1"
  have disc: "Fin b * Fin b - 4 * Fin a * Fin c1 = Fin d" by (simp add: d_def)
  have root: "fsqrt (if 0 < Fin d then Fin d else 0) = Fin (if 0 < d then sqrt d else 0)" by simp
  have quad: "a \<noteq> 0 \<Longrightarrow> (- Fin b + Fin sg * Fin r) / (2 * Fin a) = Fin ((- b + sg * r) / (2 * a))" for r
    by simp
  have lin: "b \<noteq> 0 \<Longrightarrow> - Fin c1 / Fin b = Fin (- c1 / b)" by simp
  have big: "tiny < fabs (Fin x) \<longleftrightarrow> eps300 < \<bar>x\<bar>" "fabs (Fin x) \<le> tiny \<longleftrightarrow> \<not> eps300 < \<bar>x\<bar>" for x
    by (auto simp: tiny_eps)
  have nz: "eps300 < \<bar>x\<bar> \<Longrightarrow> x \<noteq> 0" for x using eps300_pos by auto
  show ?thesis
    unfolding seg_root_def co disc root big real_root_def a_def [symmetric] b_def [symmetric] d_def [symmetric]
      Let_def
    by (cases "eps300 < \<bar>a\<bar>"; cases "eps300 < \<bar>b\<bar>"; cases "0 < d") (simp_all add: quad lin nz)
qed

lemma seg_cand_real:
  "seg_cand (real_seg c0 c1 c2 c3) (Fin sg) =
     Fin (cub c0 c1 c2 c3 (case real_root eps300 (3 * c3) (2 * c2) c1 sg of Some x \<Rightarrow> x | None \<Rightarrow> 0))"
  by (simp add: seg_cand_def seg_root_real q_at_real split: option.split)

lemma seg_q_cands_real:
  "seg_q_cands (real_seg c0 c1 c2 c3) = map (\<lambda>s. Fin (cub c0 c1 c2 c3 s))
     [0, 1, case real_root eps300 (3 * c3) (2 * c2) c1 1 of Some x \<Rightarrow> x | None \<Rightarrow> 0,
      case real_root eps300 (3 * c3) (2 * c2) c1 (- 1) of Some x \<Rightarrow> x | None \<Rightarrow> 0]"
  by (simp add: seg_q_cands_def q_at_real seg_cand_real)

lemma crit_in_cands:
  "m \<in> crit eps300 (3 * c3) (2 * c2) c1 \<Longrightarrow>
     Fin (cub c0 c1 c2 c3 m) \<in> set (seg_q_cands (real_seg c0 c1 c2 c3))"
  by (auto simp: seg_q_cands_real crit_def)

lemma seg_q_bounds:
  fixes c0 c1 c2 c3 s :: real
  assumes "0 \<le> s" "s \<le> 1"
  defines "c \<equiv> real_seg c0 c1 c2 c3"
  shows "Fin (cub c0 c1 c2 c3 s) \<le> fold np_max (seg_q_cands c) (q_at c 0) + Fin (2 * eps300) \<and>
    fold np_min (seg_q_cands c) (q_at c 0) \<le> Fin (cub c0 c1 c2 c3 s) + Fin (2 * eps300) \<and>
    \<not> isnan (fold np_max (seg_q_cands c) (q_at c 0)) \<and> \<not> isnan (fold np_min (seg_q_cands c) (q_at c 0))"
proof -
  have e: "0 \<le> eps300" using eps300_pos by simp
  have fin: "\<not> isnan (q_at c 0)" "\<forall>y \<in> set (seg_q_cands c). \<not> isnan y"
    by (auto simp: c_def q_at_real seg_q_cands_real)
  note mx = fold_np_max_ge [OF fin] and mn = fold_np_min_le [OF fin]
  obtain m where m: "m \<in> crit eps300 (3 * c3) (2 * c2) c1" "cub c0 c1 c2 c3 s \<le> cub c0 c1 c2 c3 m + 2 * eps300"
    using cub_le_crit [OF e assms(1,2)] by blast
  obtain m' where m': "m' \<in> crit eps300 (3 * c3) (2 * c2) c1" "cub c0 c1 c2 c3 m' - 2 * eps300 \<le> cub c0 c1 c2 c3 s"
    using cub_ge_crit [OF e assms(1,2)] by blast
  have "Fin (cub c0 c1 c2 c3 m) \<le> fold np_max (seg_q_cands c) (q_at c 0)"
    using mx crit_in_cands [OF m(1)] by (auto simp: c_def)
  then have "Fin (cub c0 c1 c2 c3 s) \<le> fold np_max (seg_q_cands c) (q_at c 0) + Fin (2 * eps300)"
    using m(2) mx by (cases "fold np_max (seg_q_cands c) (q_at c 0)") auto
  moreover have "fold np_min (seg_q_cands c) (q_at c 0) \<le> Fin (cub c0 c1 c2 c3 m')"
    using mn crit_in_cands [OF m'(1)] by (auto simp: c_def)
  then have "fold np_min (seg_q_cands c) (q_at c 0) \<le> Fin (cub c0 c1 c2 c3 s) + Fin (2 * eps300)"
    using m'(2) mn by (cases "fold np_min (seg_q_cands c) (q_at c 0)") auto
  ultimately show ?thesis using mx mn by blast
qed

lemma seg_qd_bound:
  assumes "0 \<le> s" "s \<le> 1" "0 < h"
  shows "Fin \<bar>cub' c1 c2 c3 s / h\<bar> \<le> seg_qd_max (real_seg c0 c1 c2 c3) (Fin h) + Fin (eps300 / h) \<and>
    isfinite (seg_qd_max (real_seg c0 c1 c2 c3) (Fin h))"
proof -
  define c where "c = real_seg c0 c1 c2 c3"
  have e: "tiny = Fin eps300" "0 < eps300" by (simp_all add: tiny_eps eps300_pos)
  let ?w = "\<lambda>x. \<bar>cub' c1 c2 c3 x\<bar> / h"
  define m0 where "m0 = (case vertex eps300 c2 c3 of Some x \<Rightarrow> ?w x | None \<Rightarrow> 0)"
  have sc: "sc2 c = Fin c2" "sc3 c = Fin c3" by (simp_all add: c_def real_seg_def)
  have third: "(let s1 = (if tiny < fabs (sc3 c) then - sc2 c / (3 * sc3 c) else NaN);
          s2 = (if 0 < s1 \<and> s1 < 1 then s1 else NaN)
      in if isnan s2 then 0 else fabs (qd_at c (Fin h) (nan_to_num s2))) = Fin m0"
  proof (cases "eps300 < \<bar>c3\<bar>")
    case True
    then have "c3 \<noteq> 0" using e by auto
    with True assms(3) e sc show ?thesis
      by (auto simp: tiny_eps m0_def vertex_def Let_def c_def qd_at_real abs_divide)
  next
    case False
    with e sc show ?thesis by (simp add: tiny_eps m0_def vertex_def)
  qed
  have ends: "fabs (qd_at c (Fin h) 0) = Fin (?w 0)" "fabs (qd_at c (Fin h) 1) = Fin (?w 1)"
    using assms(3) by (simp_all add: c_def qd_at_real abs_divide)
  have eq: "seg_qd_max c (Fin h) = Fin (max (max (?w 0) (?w 1)) m0)"
    using third ends by (simp add: seg_qd_max_def Let_def)
  obtain m where m: "m \<in> {0, 1} \<union> set_option (vertex eps300 c2 c3)"
    "\<bar>cub' c1 c2 c3 s\<bar> \<le> \<bar>cub' c1 c2 c3 m\<bar> + eps300"
    using abs_cub'_le_crit [OF less_imp_le [OF e(2)] assms(1,2)] by blast
  have "?w m \<le> max (max (?w 0) (?w 1)) m0"
    using m(1) by (auto simp: m0_def)
  moreover have "?w s \<le> ?w m + eps300 / h"
    using m(2) assms(3) by (simp add: divide_right_mono flip: add_divide_distrib)
  ultimately have "?w s \<le> max (max (?w 0) (?w 1)) m0 + eps300 / h" by linarith
  with assms(3) show ?thesis
    unfolding c_def [symmetric] eq by (simp add: abs_divide)
qed

lemma seg_qdd_bound:
  assumes "0 \<le> s" "s \<le> 1" "0 < h"
  shows "Fin \<bar>(6 * c3 * s + 2 * c2) / (h * h)\<bar> \<le> seg_qdd_max (real_seg c0 c1 c2 c3) (Fin h) \<and>
    \<not> isnan (seg_qdd_max (real_seg c0 c1 c2 c3) (Fin h))"
proof -
  have eq: "seg_qdd_max (real_seg c0 c1 c2 c3) (Fin h) =
     Fin (max (\<bar>2 * c2\<bar> / (h * h)) (\<bar>6 * c3 + 2 * c2\<bar> / (h * h)))"
    using assms(3) by (simp add: seg_qdd_max_def real_seg_def)
  have "\<bar>6 * c3 * s + 2 * c2\<bar> / (h * h) \<le> max \<bar>2 * c2\<bar> \<bar>6 * c3 + 2 * c2\<bar> / (h * h)"
    using abs_linear_le [OF assms(1,2), of "6 * c3" "2 * c2"] by (simp add: divide_right_mono)
  moreover have "max \<bar>2 * c2\<bar> \<bar>6 * c3 + 2 * c2\<bar> / (h * h) \<le>
     max (\<bar>2 * c2\<bar> / (h * h)) (\<bar>6 * c3 + 2 * c2\<bar> / (h * h))"
    by (simp add: max_def)
  ultimately show ?thesis unfolding eq by (simp add: abs_divide)
qed

subsection \<open>The fold over the segments\<close>

text \<open>Entry \<open>j\<close> of the running bounds dominates every segment folded so far.\<close>

definition dominates :: "JointTrajectory \<Rightarrow> nat \<Rightarrow> curve_bounds \<Rightarrow> nat set \<Rightarrow> bool" where
  "dominates jt j b is \<longleftrightarrow>
     length (b_q_min b) = num_joints jt \<and> length (b_q_max b) = num_joints jt \<and>
     length (b_qd_abs_max b) = num_joints jt \<and> length (b_qdd_abs_max b) = num_joints jt \<and>
     \<not> isnan (b_q_min b ! j) \<and> \<not> isnan (b_q_max b ! j) \<and>
     \<not> isnan (b_qd_abs_max b ! j) \<and> \<not> isnan (b_qdd_abs_max b ! j) \<and>
     0 \<le> b_qd_abs_max b ! j \<and> 0 \<le> b_qdd_abs_max b ! j \<and>
     (\<forall>i \<in> is. let c = seg_at jt i j; h = jt_times jt ! Suc i - jt_times jt ! i in
        b_q_min b ! j \<le> fold np_min (seg_q_cands c) (q_at c 0) \<and>
        fold np_max (seg_q_cands c) (q_at c 0) \<le> b_q_max b ! j \<and>
        seg_qd_max c h \<le> b_qd_abs_max b ! j \<and> seg_qdd_max c h \<le> b_qdd_abs_max b ! j)"

lemma seg_not_nan:
  assumes "traj_ok jt" "Suc i < length (jt_times jt)" "j < num_joints jt"
  defines "c \<equiv> seg_at jt i j" and "h \<equiv> jt_times jt ! Suc i - jt_times jt ! i"
  shows "\<not> isnan (fold np_min (seg_q_cands c) (q_at c 0))" "\<not> isnan (fold np_max (seg_q_cands c) (q_at c 0))"
    "\<not> isnan (seg_qd_max c h)" "\<not> isnan (seg_qdd_max c h)"
proof -
  have c: "c = real_seg (qk jt i j) (hk jt i * vl jt i j) (c2k jt i j) (c3k jt i j)"
    unfolding c_def real_seg_def using assms(1-3) by (rule seg_at_real)
  have h: "h = Fin (hk jt i)"
    using assms(1,2) by (simp add: h_def traj_times hk_def)
  have hp: "0 < hk jt i" using assms(1,2) by (rule traj_H_pos)
  show "\<not> isnan (fold np_min (seg_q_cands c) (q_at c 0))" "\<not> isnan (fold np_max (seg_q_cands c) (q_at c 0))"
    "\<not> isnan (seg_qd_max c h)" "\<not> isnan (seg_qdd_max c h)"
    unfolding c h using seg_q_bounds [of 0] seg_qd_bound [of 0 "hk jt i"] seg_qdd_bound [of 0 "hk jt i"] hp
    by (auto simp: isfinite_iff) (metis isnan.simps(2))
qed

lemma bounds_step_dominates:
  assumes "traj_ok jt" "Suc i < length (jt_times jt)" "j < num_joints jt" "dominates jt j b is"
  shows "dominates jt j (bounds_step jt i b) (insert i is)"
proof -
  let ?c = "seg_at jt i j" and ?h = "jt_times jt ! Suc i - jt_times jt ! i"
  note nn = seg_not_nan [OF assms(1-3)]
  have d: "\<not> isnan (b_q_min b ! j)" "\<not> isnan (b_q_max b ! j)" "\<not> isnan (b_qd_abs_max b ! j)"
    "\<not> isnan (b_qdd_abs_max b ! j)" "0 \<le> b_qd_abs_max b ! j" "0 \<le> b_qdd_abs_max b ! j"
    using assms(4) by (auto simp: dominates_def)
  note m = np_min_le [OF d(1) nn(1)] np_max_ge [OF d(2) nn(2)] np_max_ge [OF d(3) nn(3)] np_max_ge [OF d(4) nn(4)]
  have e: "b_q_min (bounds_step jt i b) ! j = np_min (b_q_min b ! j) (fold np_min (seg_q_cands ?c) (q_at ?c 0))"
    "b_q_max (bounds_step jt i b) ! j = np_max (b_q_max b ! j) (fold np_max (seg_q_cands ?c) (q_at ?c 0))"
    "b_qd_abs_max (bounds_step jt i b) ! j = np_max (b_qd_abs_max b ! j) (seg_qd_max ?c ?h)"
    "b_qdd_abs_max (bounds_step jt i b) ! j = np_max (b_qdd_abs_max b ! j) (seg_qdd_max ?c ?h)"
    using assms(3) by (simp_all add: bounds_step_def Let_def)
  have l: "length (b_q_min (bounds_step jt i b)) = num_joints jt" "length (b_q_max (bounds_step jt i b)) = num_joints jt"
    "length (b_qd_abs_max (bounds_step jt i b)) = num_joints jt" "length (b_qdd_abs_max (bounds_step jt i b)) = num_joints jt"
    by (simp_all add: bounds_step_def Let_def)
  show ?thesis
    unfolding dominates_def e l using assms(4) m d
    by (auto simp: dominates_def Let_def intro: fl_le_trans)
qed

lemma bounds_fold_dominates:
  assumes "traj_ok jt" "j < num_joints jt" "\<forall>i \<in> set xs. Suc i < length (jt_times jt)" "dominates jt j b is"
  shows "dominates jt j (fold (bounds_step jt) xs b) (is \<union> set xs)"
  using assms(3,4)
proof (induction xs arbitrary: b "is")
  case Nil
  then show ?case by simp
next
  case (Cons i xs)
  then have "dominates jt j (bounds_step jt i b) (insert i is)"
    using assms(1,2) by (intro bounds_step_dominates) auto
  with Cons show ?case by fastforce
qed



lemma bounds_dominates:
  assumes "traj_ok jt" "j < num_joints jt"
  shows "dominates jt j (bounds jt) {i. Suc i < length (jt_times jt)}"
proof -
  let ?b = "\<lparr>b_q_min = replicate (num_joints jt) PInf, b_q_max = replicate (num_joints jt) NInf,
        b_qd_abs_max = zeros (num_joints jt), b_qdd_abs_max = zeros (num_joints jt)\<rparr>"
  have "dominates jt j ?b {}" using assms(2) by (simp add: dominates_def)
  moreover have "\<forall>i \<in> set [0..<length (jt_times jt) - 1]. Suc i < length (jt_times jt)" by auto
  ultimately have "dominates jt j (bounds jt) ({} \<union> set [0..<length (jt_times jt) - 1])"
    unfolding bounds_def by (intro bounds_fold_dominates [OF assms])
  moreover have "set [0..<length (jt_times jt) - 1] = {i. Suc i < length (jt_times jt)}" by auto
  ultimately show ?thesis by simp
qed

subsection \<open>Sampling anywhere on the clock\<close>

text \<open>Outside the knots' span the sample is an end knot; in every case it is a point of one segment.\<close>

lemma Rq_left: "Rq jt i j (tk jt i) = qk jt i j"
  by (simp add: Rq_def cub_def)

lemma Rq_right: "hk jt i \<noteq> 0 \<Longrightarrow> Rq jt i j (tk jt (Suc i)) = qk jt (Suc i) j"
  by (simp add: Rq_def hk_def [symmetric] cub_def c2k_def c3k_def)

lemma Rqd_left: "hk jt i \<noteq> 0 \<Longrightarrow> Rqd jt i j (tk jt i) = vl jt i j"
  by (simp add: Rqd_def cub'_def)

lemma Rqd_right: "hk jt i \<noteq> 0 \<Longrightarrow> Rqd jt i j (tk jt (Suc i)) = vr jt i j"
  by (simp add: Rqd_def hk_def [symmetric] cub'_def c2k_def c3k_def)

definition on_segment :: "JointTrajectory \<Rightarrow> nat \<Rightarrow> real \<Rightarrow> bool" where
  "on_segment jt i u \<longleftrightarrow> Suc i < length (jt_times jt) \<and> tk jt i \<le> u \<and> u \<le> tk jt (Suc i)"

lemma sample_at_first:
  assumes "traj_ok jt" "t \<le> tk jt 0"
  shows "sample_at jt (Fin t) = Inr (jt_point jt 0)"
  using assms(2) by (simp add: sample_at_def traj_ends [OF assms(1)])

lemma traj_T_mono:
  assumes "traj_ok jt" "i \<le> k" "k < length (jt_times jt)"
  shows "tk jt i \<le> tk jt k"
  using assms(2,3)
proof (induction k rule: dec_induct)
  case base
  then show ?case by simp
next
  case (step k)
  with traj_H_pos [OF assms(1), of k] show ?case by (simp add: hk_def)
qed

lemma traj_T_strict:
  assumes "traj_ok jt" "i < k" "k < length (jt_times jt)"
  shows "tk jt i < tk jt k"
  using traj_H_pos [OF assms(1), of i] traj_T_mono [OF assms(1), of "Suc i" k] assms(2,3)
  by (simp add: hk_def)

lemma sample_at_last:
  assumes "traj_ok jt" "tk jt (length (jt_times jt) - 1) \<le> t"
  shows "sample_at jt (Fin t) = Inr (jt_point jt (length (jt_times jt) - 1))"
proof -
  let ?n = "length (jt_times jt)"
  note ends = traj_ends [OF assms(1)]
  have "tk jt 0 < tk jt (?n - 1)"
    using ends(3) by (intro traj_T_strict [OF assms(1)]) auto
  with assms(2) ends show ?thesis by (simp add: sample_at_def)
qed

lemma sample_at_total:
  assumes "traj_ok jt"
  shows "\<exists>p i u. sample_at jt (Fin t) = Inr p \<and> on_segment jt i u \<and>
     length (pt_position p) = num_joints jt \<and> length (pt_velocity p) = num_joints jt \<and>
     length (pt_acceleration p) = num_joints jt \<and>
     (\<forall>j < num_joints jt. pt_position p ! j = Fin (Rq jt i j u) \<and>
        (pt_velocity p ! j = Fin (Rqd jt i j u) \<or> pt_velocity p ! j = Fin 0) \<and>
        (pt_acceleration p ! j = Fin (Rqdd jt i j u) \<or> pt_acceleration p ! j = Fin 0))"
proof -
  let ?n = "length (jt_times jt)"
  have n: "2 \<le> ?n" and ne: "jt_times jt \<noteq> []" using assms by (auto simp: traj_ok_def)
  have hk: "0 < hk jt i" if "Suc i < ?n" for i using assms that by (rule traj_H_pos)
  have pt: "length (pt_position (jt_point jt i)) = num_joints jt \<and>
      length (pt_velocity (jt_point jt i)) = num_joints jt \<and>
      length (pt_acceleration (jt_point jt i)) = num_joints jt" if "i < ?n" for i
    using that traj_pos [OF assms that] traj_vel [OF assms _ that]
    by (auto simp: jt_point_def split: option.splits)
  consider "t \<le> tk jt 0" | "tk jt (?n - 1) \<le> t" | "tk jt 0 < t" "t < tk jt (?n - 1)" by linarith
  then show ?thesis
  proof cases
    case 1
    have "pt_velocity (jt_point jt 0) ! j = Fin (Rqd jt 0 j (tk jt 0)) \<or> pt_velocity (jt_point jt 0) ! j = Fin 0"
      if "j < num_joints jt" for j
      using that n hk [of 0] traj_vel [OF assms, of _ 0, OF _ less_le_trans [OF zero_less_numeral n]]
      by (auto simp: jt_point_def Rqd_left vl_def split: option.splits)
    with sample_at_first [OF assms 1] pt [of 0] n ne hk [of 0] traj_pos [OF assms, of 0] show ?thesis
      by (intro exI [of _ "jt_point jt 0"] exI [of _ "0 :: nat"] exI [of _ "tk jt 0"])
        (auto simp: jt_point_def Rq_left on_segment_def hk_def)
  next
    case 2
    define k where "k = ?n - 2"
    with n have k: "Suc k = ?n - 1" "Suc k < ?n" by auto
    have "pt_velocity (jt_point jt (Suc k)) ! j = Fin (Rqd jt k j (tk jt (Suc k))) \<or>
        pt_velocity (jt_point jt (Suc k)) ! j = Fin 0" if "j < num_joints jt" for j
      using that k(2) hk [of k] traj_vel [OF assms, of _ "Suc k"]
      by (auto simp: jt_point_def Rqd_right vr_def split: option.splits)
    moreover have "sample_at jt (Fin t) = Inr (jt_point jt (Suc k))"
      using sample_at_last [OF assms 2] k(1) by simp
    ultimately show ?thesis
      using pt [of "Suc k"] k(2) hk [of k] traj_pos [OF assms, of "Suc k"]
      by (intro exI [of _ "jt_point jt (Suc k)"] exI [of _ k] exI [of _ "tk jt (Suc k)"])
        (auto simp: jt_point_def Rq_right on_segment_def hk_def)
  next
    case 3
    with sample_at_real [OF assms 3] show ?thesis by (fastforce simp: on_segment_def)
  qed
qed

subsection \<open>The reported bounds hold on every segment\<close>

lemma bounds_on_segment:
  assumes "traj_ok jt" "j < num_joints jt" "on_segment jt i u"
  shows "b_q_min (bounds jt) ! j \<le> Fin (Rq jt i j u) + Fin (2 * eps300)"
    and "Fin (Rq jt i j u) \<le> b_q_max (bounds jt) ! j + Fin (2 * eps300)"
    and "Fin \<bar>Rqd jt i j u\<bar> \<le> b_qd_abs_max (bounds jt) ! j + Fin (eps300 / hk jt i)"
    and "Fin \<bar>Rqdd jt i j u\<bar> \<le> b_qdd_abs_max (bounds jt) ! j"
proof -
  from assms(3) have i: "Suc i < length (jt_times jt)" by (simp add: on_segment_def)
  let ?c = "real_seg (qk jt i j) (hk jt i * vl jt i j) (c2k jt i j) (c3k jt i j)"
  have c: "seg_at jt i j = ?c" unfolding real_seg_def using assms(1) i assms(2) by (rule seg_at_real)
  have h: "jt_times jt ! Suc i - jt_times jt ! i = Fin (hk jt i)"
    using assms(1) i by (simp add: traj_times hk_def)
  have hp: "0 < hk jt i" using assms(1) i by (rule traj_H_pos)
  have "dominates jt j (bounds jt) {i. Suc i < length (jt_times jt)}"
    using assms(1,2) by (rule bounds_dominates)
  then have dom: "b_q_min (bounds jt) ! j \<le> fold np_min (seg_q_cands ?c) (q_at ?c 0)"
    "fold np_max (seg_q_cands ?c) (q_at ?c 0) \<le> b_q_max (bounds jt) ! j"
    "seg_qd_max ?c (Fin (hk jt i)) \<le> b_qd_abs_max (bounds jt) ! j"
    "seg_qdd_max ?c (Fin (hk jt i)) \<le> b_qdd_abs_max (bounds jt) ! j"
    using i c h unfolding dominates_def by (metis (mono_tags, lifting) mem_Collect_eq)+
  let ?s = "(u - tk jt i) / hk jt i"
  have s: "0 \<le> ?s" "?s \<le> 1"
    using assms(3) hp by (simp_all add: on_segment_def divide_le_eq hk_def)
  have add: "x \<le> y \<Longrightarrow> x + Fin e \<le> y + Fin e" for x y e
    by (cases x; cases y) auto
  show "b_q_min (bounds jt) ! j \<le> Fin (Rq jt i j u) + Fin (2 * eps300)"
    "Fin (Rq jt i j u) \<le> b_q_max (bounds jt) ! j + Fin (2 * eps300)"
    using seg_q_bounds [OF s, of "qk jt i j" "hk jt i * vl jt i j" "c2k jt i j" "c3k jt i j"] dom(1) add [OF dom(2)]
    unfolding Rq_def by (blast intro: fl_le_trans)+
  show "Fin \<bar>Rqd jt i j u\<bar> \<le> b_qd_abs_max (bounds jt) ! j + Fin (eps300 / hk jt i)"
    using seg_qd_bound [OF s hp] add [OF dom(3)] unfolding Rqd_def by (blast intro: fl_le_trans)
  show "Fin \<bar>Rqdd jt i j u\<bar> \<le> b_qdd_abs_max (bounds jt) ! j"
    using seg_qdd_bound [OF s hp] dom(4) unfolding Rqdd_def by (blast intro: fl_le_trans)
qed

lemma bounds_nonneg:
  assumes "traj_ok jt" "j < num_joints jt"
  shows "Fin 0 \<le> b_qd_abs_max (bounds jt) ! j" "Fin 0 \<le> b_qdd_abs_max (bounds jt) ! j"
  using bounds_dominates [OF assms] by (simp_all add: dominates_def)

lemma curve_within_bounds:
  assumes ok: "traj_ok jt" and "0 < d"
    and gap: "\<forall>i. Suc i < length (jt_times jt) \<longrightarrow> jt_times jt ! i + Fin d \<le> jt_times jt ! Suc i"
  shows "\<exists>p. sample_at jt (Fin t) = Inr p \<and>
     (\<forall>j < num_joints jt.
        b_q_min (bounds jt) ! j \<le> pt_position p ! j + Fin (2 * eps300) \<and>
        pt_position p ! j \<le> b_q_max (bounds jt) ! j + Fin (2 * eps300) \<and>
        fabs (pt_velocity p ! j) \<le> b_qd_abs_max (bounds jt) ! j + Fin (eps300 / d) \<and>
        fabs (pt_acceleration p ! j) \<le> b_qdd_abs_max (bounds jt) ! j)"
proof -
  obtain p i u where p: "sample_at jt (Fin t) = Inr p" "on_segment jt i u"
    and e: "\<forall>j < num_joints jt. pt_position p ! j = Fin (Rq jt i j u) \<and>
        (pt_velocity p ! j = Fin (Rqd jt i j u) \<or> pt_velocity p ! j = Fin 0) \<and>
        (pt_acceleration p ! j = Fin (Rqdd jt i j u) \<or> pt_acceleration p ! j = Fin 0)"
    using sample_at_total [OF ok] by blast
  from p(2) have i: "Suc i < length (jt_times jt)" by (simp add: on_segment_def)
  with gap have dH: "d \<le> hk jt i"
    using traj_times [OF ok, of i] traj_times [OF ok, of "Suc i"] by (fastforce simp: hk_def)
  have up: "x \<le> y + Fin a \<Longrightarrow> a \<le> b \<Longrightarrow> x \<le> y + Fin b" for x y a b
    by (cases x; cases y) auto
  have sl: "eps300 / hk jt i \<le> eps300 / d"
    using dH assms(2) eps300_pos by (simp add: frac_le)
  have "b_q_min (bounds jt) ! j \<le> pt_position p ! j + Fin (2 * eps300) \<and>
        pt_position p ! j \<le> b_q_max (bounds jt) ! j + Fin (2 * eps300) \<and>
        fabs (pt_velocity p ! j) \<le> b_qd_abs_max (bounds jt) ! j + Fin (eps300 / d) \<and>
        fabs (pt_acceleration p ! j) \<le> b_qdd_abs_max (bounds jt) ! j" if j: "j < num_joints jt" for j
  proof (intro conjI)
    note b = bounds_on_segment [OF ok j p(2)] and nn = bounds_nonneg [OF ok j]
    show "b_q_min (bounds jt) ! j \<le> pt_position p ! j + Fin (2 * eps300)"
      "pt_position p ! j \<le> b_q_max (bounds jt) ! j + Fin (2 * eps300)"
      using e j b(1,2) by auto
    have "Fin 0 \<le> b_qd_abs_max (bounds jt) ! j + Fin (eps300 / d)"
      using nn(1) assms(2) eps300_pos by (cases "b_qd_abs_max (bounds jt) ! j") auto
    moreover have "fabs (pt_velocity p ! j) = Fin \<bar>Rqd jt i j u\<bar> \<or> fabs (pt_velocity p ! j) = Fin 0"
      using e j by fastforce
    ultimately show "fabs (pt_velocity p ! j) \<le> b_qd_abs_max (bounds jt) ! j + Fin (eps300 / d)"
      using up [OF b(3) sl] by auto
    show "fabs (pt_acceleration p ! j) \<le> b_qdd_abs_max (bounds jt) ! j"
      using e j b(4) nn(2) by fastforce
  qed
  with p(1) show ?thesis by blast
qed

text \<open>
  C10: the closed-form bounds never under-report. For every trajectory that
  \<open>JointTrajectory\<close> accepts with finite entries and every sampling time, \<open>sample_at\<close> returns a point
  whose joints lie within the reported position extrema, whose speed is at most the reported one and
  whose acceleration is at most the reported one. The allowance is \<open>2e-300\<close> rad (and \<open>1e-300 / d\<close>
  rad/s for knots at least \<open>d\<close> seconds apart), which is what the code's \<open>1e-300\<close> threshold for a
  vanishing coefficient costs.
\<close>

theorem bounds_cover_curve:
  assumes "mk_JointTrajectory ts ps vs = Inr jt" and "finite_curve jt"
    and "0 < d" and "\<forall>i. Suc i < length ts \<longrightarrow> ts ! i + Fin d \<le> ts ! Suc i"
  shows "\<exists>p. sample_at jt (Fin t) = Inr p \<and>
     (\<forall>j < num_joints jt.
        b_q_min (bounds jt) ! j \<le> pt_position p ! j + Fin (2 / 10 ^ 300) \<and>
        pt_position p ! j \<le> b_q_max (bounds jt) ! j + Fin (2 / 10 ^ 300) \<and>
        fabs (pt_velocity p ! j) \<le> b_qd_abs_max (bounds jt) ! j + Fin (1 / 10 ^ 300 / d) \<and>
        fabs (pt_acceleration p ! j) \<le> b_qdd_abs_max (bounds jt) ! j)"
proof -
  have "traj_ok jt" using assms(1,2) by (rule mk_JointTrajectory_ok)
  moreover have "jt_times jt = ts"
    using assms(1) by (auto simp: mk_JointTrajectory_def split: if_splits option.splits)
  ultimately show ?thesis
    using curve_within_bounds [of jt d t] assms(3,4) unfolding eps300_def mult.assoc times_divide_eq_right mult_1_right
    by blast
qed

subsection \<open>One curve: velocity and acceleration are derivatives\<close>

text \<open>The sampled joint signals as real functions of time.\<close>

definition pos_fn :: "JointTrajectory \<Rightarrow> nat \<Rightarrow> real \<Rightarrow> real" where
  "pos_fn jt j t = (case sample_at jt (Fin t) of Inr p \<Rightarrow> val (pt_position p ! j) | Inl _ \<Rightarrow> 0)"

definition vel_fn :: "JointTrajectory \<Rightarrow> nat \<Rightarrow> real \<Rightarrow> real" where
  "vel_fn jt j t = (case sample_at jt (Fin t) of Inr p \<Rightarrow> val (pt_velocity p ! j) | Inl _ \<Rightarrow> 0)"

definition acc_fn :: "JointTrajectory \<Rightarrow> nat \<Rightarrow> real \<Rightarrow> real" where
  "acc_fn jt j t = (case sample_at jt (Fin t) of Inr p \<Rightarrow> val (pt_acceleration p ! j) | Inl _ \<Rightarrow> 0)"

lemma segment_unique:
  assumes "traj_ok jt" "Suc i < length (jt_times jt)" "Suc k < length (jt_times jt)"
    "tk jt i \<le> t" "t \<le> tk jt (Suc i)" "tk jt k \<le> t" "t < tk jt (Suc k)"
  shows "i = k \<or> (k = Suc i \<and> t = tk jt k)"
proof (cases "k \<le> i")
  case True
  then have "k = i \<or> Suc k \<le> i" by auto
  with traj_T_mono [OF assms(1), of "Suc k" i] assms show ?thesis by auto
next
  case False
  then have "Suc i \<le> k" by simp
  with traj_T_mono [OF assms(1), of "Suc i" k] assms have "t = tk jt (Suc i)" "tk jt (Suc i) = tk jt k" by auto
  with traj_T_strict [OF assms(1), of "Suc i" k] \<open>Suc i \<le> k\<close> assms(3) show ?thesis by fastforce
qed

lemma pos_fn_segment:
  assumes "traj_ok jt" "on_segment jt i u" "j < num_joints jt"
  shows "pos_fn jt j u = Rq jt i j u"
proof -
  let ?n = "length (jt_times jt)"
  have i: "Suc i < ?n" "tk jt i \<le> u" "u \<le> tk jt (Suc i)" using assms(2) by (auto simp: on_segment_def)
  have hk: "0 < hk jt i" using assms(1) i(1) by (rule traj_H_pos)
  have ne: "0 < ?n" using i(1) by auto
  consider "u = tk jt 0" | "u = tk jt (?n - 1)" | "tk jt 0 < u" "u < tk jt (?n - 1)"
    using traj_T_mono [OF assms(1), of 0 i] traj_T_mono [OF assms(1), of "Suc i" "?n - 1"] i by force
  then show ?thesis
  proof cases
    case 1
    then have "i = 0" using traj_T_strict [OF assms(1), of 0 i] i by (cases i) auto
    with 1 sample_at_first [OF assms(1), of u] traj_pos [OF assms(1) ne] assms(3) show ?thesis
      by (simp add: pos_fn_def jt_point_def Rq_left)
  next
    case 2
    then have k: "Suc i = ?n - 1"
      using traj_T_strict [OF assms(1), of "Suc i" "?n - 1"] i by fastforce
    then have u: "u = tk jt (Suc i)" using 2 by simp
    have "sample_at jt (Fin u) = Inr (jt_point jt (Suc i))"
      using 2 sample_at_last [OF assms(1), of u] k by simp
    then show ?thesis
      using traj_pos [OF assms(1) i(1)] assms(3) hk by (simp add: pos_fn_def jt_point_def u Rq_right)
  next
    case 3
    then obtain k p where k: "sample_at jt (Fin u) = Inr p" "Suc k < ?n" "tk jt k \<le> u" "u < tk jt (Suc k)"
      "pt_position p ! j = Fin (Rq jt k j u)"
      using sample_at_real [OF assms(1) 3] assms(3) by blast
    with segment_unique [OF assms(1) i(1) k(2) i(2,3) k(3,4)] hk show ?thesis
      by (auto simp: pos_fn_def Rq_left Rq_right)
  qed
qed

lemma Rq_deriv: "hk jt i \<noteq> 0 \<Longrightarrow> (Rq jt i j has_real_derivative Rqd jt i j t) (at t)"
proof -
  assume h: "hk jt i \<noteq> 0"
  let ?g = "\<lambda>t. (t - tk jt i) / hk jt i"
  have g: "(?g has_real_derivative 1 / hk jt i) (at t)"
    using h by (auto intro!: derivative_eq_intros)
  from DERIV_chain2 [OF cub_deriv g] show ?thesis
    by (simp add: Rq_def [abs_def] Rqd_def)
qed

lemma Rqd_deriv: "hk jt i \<noteq> 0 \<Longrightarrow> (Rqd jt i j has_real_derivative Rqdd jt i j t) (at t)"
proof -
  assume h: "hk jt i \<noteq> 0"
  let ?g = "\<lambda>t. (t - tk jt i) / hk jt i"
  have g: "(?g has_real_derivative 1 / hk jt i) (at t)"
    using h by (auto intro!: derivative_eq_intros)
  from DERIV_cdivide [OF DERIV_chain2 [OF cub'_deriv g], of _ _ _ "hk jt i"] show ?thesis
    by (simp add: Rqd_def [abs_def] Rqdd_def)
qed

lemma deriv_two_sided:
  fixes f :: "real \<Rightarrow> real"
  assumes "(f has_real_derivative D) (at t within {..t})" "(f has_real_derivative D) (at t within {t..})"
  shows "(f has_real_derivative D) (at t)"
proof -
  have "at t = at t within ({..t} \<union> {t..})" by (rule arg_cong [where f = "at_within t"]) auto
  also have "\<dots> = sup (at t within {..t}) (at t within {t..})" by (rule at_within_union)
  finally show ?thesis
    using assms unfolding has_field_derivative_iff by (metis filterlim_sup)
qed

lemma pos_fn_deriv_right:
  assumes "traj_ok jt" "j < num_joints jt" "Suc i < length (jt_times jt)" "tk jt i \<le> t" "t < tk jt (Suc i)"
  shows "(pos_fn jt j has_real_derivative Rqd jt i j t) (at t within {t..})"
proof (rule has_field_derivative_transform_within [where d = "tk jt (Suc i) - t" and f = "Rq jt i j"])
  have "hk jt i \<noteq> 0" using traj_H_pos [OF assms(1,3)] by simp
  then show "(Rq jt i j has_real_derivative Rqd jt i j t) (at t within {t..})"
    using Rq_deriv has_field_derivative_at_within by blast
  fix x assume "x \<in> {t..}" "dist x t < tk jt (Suc i) - t"
  then have "on_segment jt i x" using assms by (auto simp: on_segment_def dist_real_def)
  with assms show "Rq jt i j x = pos_fn jt j x" by (simp add: pos_fn_segment)
qed (use assms in auto)

lemma pos_fn_deriv_left:
  assumes "traj_ok jt" "j < num_joints jt" "Suc i < length (jt_times jt)" "tk jt i < t" "t \<le> tk jt (Suc i)"
  shows "(pos_fn jt j has_real_derivative Rqd jt i j t) (at t within {..t})"
proof (rule has_field_derivative_transform_within [where d = "t - tk jt i" and f = "Rq jt i j"])
  have "hk jt i \<noteq> 0" using traj_H_pos [OF assms(1,3)] by simp
  then show "(Rq jt i j has_real_derivative Rqd jt i j t) (at t within {..t})"
    using Rq_deriv has_field_derivative_at_within by blast
  fix x assume "x \<in> {..t}" "dist x t < t - tk jt i"
  then have "on_segment jt i x" using assms by (auto simp: on_segment_def dist_real_def)
  with assms show "Rq jt i j x = pos_fn jt j x" by (simp add: pos_fn_segment)
qed (use assms in auto)

lemma pos_fn_deriv:
  assumes "traj_ok jt" "jt_velocities jt = Some v" "j < num_joints jt"
    and "tk jt 0 < t" "t < tk jt (length (jt_times jt) - 1)"
  shows "(pos_fn jt j has_real_derivative vel_fn jt j t) (at t)"
proof -
  obtain i p where i: "sample_at jt (Fin t) = Inr p" "Suc i < length (jt_times jt)" "tk jt i \<le> t" "t < tk jt (Suc i)"
    and p: "pt_velocity p ! j = Fin (Rqd jt i j t)"
    using sample_at_real [OF assms(1,4,5)] assms(3) by blast
  have v: "vel_fn jt j t = Rqd jt i j t" using i(1) p by (simp add: vel_fn_def)
  note right = pos_fn_deriv_right [OF assms(1,3) i(2,3,4)]
  have "(pos_fn jt j has_real_derivative Rqd jt i j t) (at t within {..t})"
  proof (cases "t = tk jt i")
    case False
    with i pos_fn_deriv_left [OF assms(1,3) i(2)] show ?thesis by simp
  next
    case True
    with assms(4) obtain k where k: "i = Suc k" by (cases i) auto
    then have "Suc k < length (jt_times jt)" "tk jt k < t"
      using i(2) True traj_T_strict [OF assms(1), of k i] by auto
    moreover have "Rqd jt k j t = Rqd jt i j t"
      using traj_H_pos [OF assms(1) \<open>Suc k < _\<close>] traj_H_pos [OF assms(1) i(2)] True k assms(2)
      by (simp add: Rqd_left Rqd_right vl_def vr_def)
    ultimately show ?thesis
      using pos_fn_deriv_left [OF assms(1,3), of k t] True k by simp
  qed
  from deriv_two_sided [OF this right] v show ?thesis by simp
qed

lemma vel_fn_deriv:
  assumes "traj_ok jt" "j < num_joints jt" "Suc i < length (jt_times jt)" "tk jt i < t" "t < tk jt (Suc i)"
  shows "(vel_fn jt j has_real_derivative acc_fn jt j t) (at t)"
proof -
  have eq: "vel_fn jt j x = Rqd jt i j x \<and> acc_fn jt j x = Rqdd jt i j x" if "tk jt i < x" "x < tk jt (Suc i)" for x
  proof -
    have "tk jt 0 < x" "x < tk jt (length (jt_times jt) - 1)"
      using traj_T_mono [OF assms(1), of 0 i] traj_T_mono [OF assms(1), of "Suc i" "length (jt_times jt) - 1"]
        assms(3) that by force+
    from sample_at_real [OF assms(1) this] obtain k p where k: "sample_at jt (Fin x) = Inr p"
      "Suc k < length (jt_times jt)" "tk jt k \<le> x" "x < tk jt (Suc k)"
      "pt_velocity p ! j = Fin (Rqd jt k j x)" "pt_acceleration p ! j = Fin (Rqdd jt k j x)"
      using assms(2) by blast
    with segment_unique [OF assms(1,3) k(2) _ _ k(3,4)] that show ?thesis
      by (auto simp: vel_fn_def acc_fn_def)
  qed
  have "hk jt i \<noteq> 0" using traj_H_pos [OF assms(1,3)] by simp
  then have "(Rqd jt i j has_real_derivative acc_fn jt j t) (at t)"
    using Rqd_deriv eq [OF assms(4,5)] by simp
  then show ?thesis
    by (rule has_field_derivative_transform_within_open [where S = "{tk jt i <..< tk jt (Suc i)}"])
      (use assms(4,5) eq in auto)
qed

text \<open>
  C23: the three sampled signals are one curve. For an accepted finite trajectory with velocity
  waypoints, at every time strictly between the first and the last knot the sampled velocity is the
  time derivative of the sampled position (knots included: the curve is continuously
  differentiable), and at every time strictly inside a segment the sampled acceleration is the time
  derivative of the sampled velocity.
\<close>

theorem sample_is_one_curve:
  assumes "mk_JointTrajectory ts ps (Some v) = Inr jt" and "finite_curve jt" and "j < num_joints jt"
    and "hd ts < Fin t" and "Fin t < last ts"
  shows "(pos_fn jt j has_real_derivative vel_fn jt j t) (at t) \<and>
    (Fin t \<notin> set ts \<longrightarrow> (vel_fn jt j has_real_derivative acc_fn jt j t) (at t))"
proof -
  have ok: "traj_ok jt" using assms(1,2) by (rule mk_JointTrajectory_ok)
  have ts: "jt_times jt = ts" "jt_velocities jt = Some v"
    using assms(1) by (auto simp: mk_JointTrajectory_def split: if_splits)
  with assms(4,5) traj_ends [OF ok] have t: "tk jt 0 < t" "t < tk jt (length (jt_times jt) - 1)" by auto
  have "(vel_fn jt j has_real_derivative acc_fn jt j t) (at t)" if "Fin t \<notin> set ts"
  proof -
    obtain i where i: "Suc i < length ts" "tk jt i \<le> t" "t < tk jt (Suc i)"
      using sample_at_real [OF ok t] ts by auto
    then have "ts ! i \<in> set ts" by (intro nth_mem) simp
    moreover have "ts ! i = Fin (tk jt i)" using traj_times [OF ok, of i] ts i(1) by simp
    ultimately have "tk jt i < t" using that i(2) by (cases "tk jt i = t") auto
    with i show ?thesis using ok assms(3) ts by (intro vel_fn_deriv) auto
  qed
  with pos_fn_deriv [OF ok ts(2) assms(3) t] show ?thesis by blast
qed

subsection \<open>Dense sampling\<close>












subsection \<open>A concrete leg\<close>

text \<open>One joint from 0 to 1 rad in one second, at rest at both ends.\<close>

definition demo_leg :: JointTrajectory where
  "demo_leg = \<lparr>jt_times = [0, 1], jt_positions = [[0], [1]], jt_velocities = Some [[0], [0]]\<rparr>"

lemma demo_leg_ok:
  "mk_JointTrajectory [0, 1] [[0], [1]] (Some [[0], [0]]) = Inr demo_leg" "finite_curve demo_leg"
  "num_joints demo_leg = 1" "\<forall>i. Suc i < length [0, 1 :: fl] \<longrightarrow> [0, 1] ! i + Fin 1 \<le> [0, 1 :: fl] ! Suc i"
  by (simp_all add: mk_JointTrajectory_def demo_leg_def finite_curve_def num_joints_def rectangular_def
      mat_cols_def same_shape_def less_Suc_eq)

theorem bounds_cover_curve_witness:
  "\<exists>p. sample_at demo_leg (Fin (1 / 2)) = Inr p \<and>
     (\<forall>j < num_joints demo_leg.
        b_q_min (bounds demo_leg) ! j \<le> pt_position p ! j + Fin (2 / 10 ^ 300) \<and>
        pt_position p ! j \<le> b_q_max (bounds demo_leg) ! j + Fin (2 / 10 ^ 300) \<and>
        fabs (pt_velocity p ! j) \<le> b_qd_abs_max (bounds demo_leg) ! j + Fin (1 / 10 ^ 300 / 1) \<and>
        fabs (pt_acceleration p ! j) \<le> b_qdd_abs_max (bounds demo_leg) ! j)"
  using demo_leg_ok by (intro bounds_cover_curve [of "[0, 1]" "[[0], [1]]" "Some [[0], [0]]"]) auto

theorem sample_is_one_curve_witness:
  "(pos_fn demo_leg 0 has_real_derivative vel_fn demo_leg 0 (1 / 2)) (at (1 / 2)) \<and>
    (vel_fn demo_leg 0 has_real_derivative acc_fn demo_leg 0 (1 / 2)) (at (1 / 2))"
  using sample_is_one_curve [of "[0, 1]" "[[0], [1]]" "[[0], [0]]" demo_leg 0 "1 / 2"] demo_leg_ok by simp


end
