(* ===== verification/Impedance.thy ===== *)
theory Impedance
  imports Floats
begin

text \<open>
  \<^verbatim>\<open>arm_control/contracts/impedance.py\<close> and \<^verbatim>\<open>arm_control/control/gains.py\<close>: the validators of
  the Cartesian law settings, the joint torque limits and the per-motor gains.

  A settings dictionary is a record of optional entries (absent key = \<open>None\<close>) together with the
  list of its other keys. A value handed in as a sequence is an \<open>arr\<close>: a number, a list of numbers
  or a list of rows, which is what the \<open>TypeError\<close> branches distinguish.
\<close>

datatype arr = Scalar fl | Row vec | Rows mat

text \<open>\<^verbatim>\<open>list(x)\<close> followed by \<^verbatim>\<open>float\<close> of every entry.\<close>

fun arr_len :: "arr \<Rightarrow> nat result" where
  "arr_len (Scalar _) = Inl TypeError"
| "arr_len (Row v) = Inr (length v)"
| "arr_len (Rows m) = Inr (length m)"

fun arr_floats :: "arr \<Rightarrow> vec result" where
  "arr_floats (Scalar _) = Inl TypeError"
| "arr_floats (Row v) = Inr v"
| "arr_floats (Rows m) = (if m = [] then Inr [] else Inl TypeError)"

fun arr_rows :: "arr \<Rightarrow> mat result" where
  "arr_rows (Scalar _) = Inl TypeError"
| "arr_rows (Row v) = (if v = [] then Inr [] else Inl TypeError)"
| "arr_rows (Rows m) = Inr m"

subsection \<open>Pose hold\<close>

definition POSE_HOLD_SIZE :: nat where
  "POSE_HOLD_SIZE = 15"

record pose_hold_spec =
  ph_id :: "fl option"
  ph_kc :: "arr option"
  ph_dc :: "arr option"
  ph_nullspace_kp :: "fl option"
  ph_nullspace_kd :: "fl option"
  ph_other :: "string list"

definition gain_caps :: vec where
  "gain_caps = replicate 3 1000 @ replicate 3 100 @ replicate 3 200 @ replicate 3 50"

fun is_uint32_id :: "fl \<Rightarrow> bool" where
  "is_uint32_id (Fin x) \<longleftrightarrow> 0 < x \<and> x < 2 ^ 32 \<and> x = real_of_int \<lfloor>x\<rfloor>"
| "is_uint32_id _ \<longleftrightarrow> False"

definition pose_hold_values :: "pose_hold_spec \<Rightarrow> vec result" where
  "pose_hold_values spec =
     (case (ph_id spec, ph_kc spec, ph_dc spec, ph_nullspace_kp spec, ph_nullspace_kd spec, ph_other spec) of
        (Some ident, Some kc, Some dc, Some nkp, Some nkd, []) \<Rightarrow>
          if \<not> is_uint32_id ident then Inl (ValueError ''pose hold id must be a nonzero uint32'')
          else bindr (arr_len kc) (\<lambda>nk. bindr (arr_len dc) (\<lambda>nd.
            if nk \<noteq> 6 \<or> nd \<noteq> 6 then Inl (ValueError ''Cartesian stiffness/damping require six axes'')
            else bindr (arr_floats kc) (\<lambda>k. bindr (arr_floats dc) (\<lambda>d.
              let gains = k @ d @ [nkp, nkd]; caps = gain_caps @ [20, 10] in
              if list_ex (\<lambda>(x, cap). \<not> isfinite x \<or> \<not> (0 \<le> x \<and> x \<le> cap)) (zip gains caps)
              then Inl (ValueError ''pose hold gains must be finite, nonnegative and within protocol bounds'')
              else Inr (ident # gains)))))
      | _ \<Rightarrow> Inl (ValueError ''pose hold requires exactly the five keys''))"

text \<open>The dictionary \<^verbatim>\<open>unpack_pose_hold_values\<close> returns; its id is an \<open>int\<close>.\<close>

record pose_hold =
  phv_id :: int
  phv_kc :: vec
  phv_dc :: vec
  phv_nullspace_kp :: fl
  phv_nullspace_kd :: fl

definition unpack_pose_hold_values :: "vec \<Rightarrow> pose_hold result" where
  "unpack_pose_hold_values values =
     (if length values \<noteq> POSE_HOLD_SIZE then Inl (ValueError ''pose hold block must contain 15 values'')
      else bindr (pose_hold_values
          \<lparr>ph_id = Some (values ! 0), ph_kc = Some (Row (take 6 (drop 1 values))),
           ph_dc = Some (Row (take 6 (drop 7 values))), ph_nullspace_kp = Some (values ! 13),
           ph_nullspace_kd = Some (values ! 14), ph_other = []\<rparr>) (\<lambda>checked.
        Inr \<lparr>phv_id = \<lfloor>val (checked ! 0)\<rfloor>, phv_kc = take 6 (drop 1 checked), phv_dc = take 6 (drop 7 checked),
             phv_nullspace_kp = checked ! 13, phv_nullspace_kd = checked ! 14\<rparr>))"

text \<open>The unpacked settings handed to \<^verbatim>\<open>pose_hold_values\<close> again.\<close>

definition pose_hold_as_spec :: "pose_hold \<Rightarrow> pose_hold_spec" where
  "pose_hold_as_spec p =
     \<lparr>ph_id = Some (Fin (of_int (phv_id p))), ph_kc = Some (Row (phv_kc p)), ph_dc = Some (Row (phv_dc p)),
      ph_nullspace_kp = Some (phv_nullspace_kp p), ph_nullspace_kd = Some (phv_nullspace_kd p), ph_other = []\<rparr>"

subsection \<open>Cartesian impedance\<close>

definition CARTESIAN_SIZE :: nat where
  "CARTESIAN_SIZE = 21"

record cartesian_spec =
  cs_frame :: "string option"
  cs_task_R :: "arr option"
  cs_kc :: "arr option"
  cs_dc :: "arr option"
  cs_other :: "string list"

definition row_dot :: "mat \<Rightarrow> nat \<Rightarrow> nat \<Rightarrow> fl" where
  "row_dot r i j = ((0 + r ! i ! 0 * r ! j ! 0) + r ! i ! 1 * r ! j ! 1) + r ! i ! 2 * r ! j ! 2"

definition orthonormal_err :: "mat \<Rightarrow> bool" where
  "orthonormal_err r \<longleftrightarrow>
     list_ex (\<lambda>i. list_ex (\<lambda>j. fabs (row_dot r i j - (if i = j then 1 else 0)) > Fin (1 / 10 ^ 6)) [0..<3]) [0..<3]"

definition det3 :: "mat \<Rightarrow> fl" where
  "det3 r =
     (r ! 0 ! 0 * (r ! 1 ! 1 * r ! 2 ! 2 - r ! 1 ! 2 * r ! 2 ! 1)
       - r ! 0 ! 1 * (r ! 1 ! 0 * r ! 2 ! 2 - r ! 1 ! 2 * r ! 2 ! 0))
      + r ! 0 ! 2 * (r ! 1 ! 0 * r ! 2 ! 1 - r ! 1 ! 1 * r ! 2 ! 0)"

text \<open>The \<^verbatim>\<open>try\<close> block turns a \<open>TypeError\<close> of the conversions into a \<open>ValueError\<close>.\<close>

definition conv_value_error :: "'a result \<Rightarrow> 'a result" where
  "conv_value_error r =
     (case r of Inl TypeError \<Rightarrow> Inl (ValueError ''cartesian requires a 3x3 task_R and six-axis kc/dc'') | _ \<Rightarrow> r)"

definition cartesian_values :: "cartesian_spec \<Rightarrow> vec result" where
  "cartesian_values spec =
     (case (cs_frame spec, cs_task_R spec, cs_kc spec, cs_dc spec, cs_other spec) of
        (Some frame, Some task_R, Some akc, Some adc, []) \<Rightarrow>
          if frame \<noteq> ''base'' then Inl (ValueError ''the cartesian tail is in the robot BASE frame'')
          else bindr (conv_value_error (arr_rows task_R)) (\<lambda>rows.
            bindr (conv_value_error (arr_floats akc)) (\<lambda>kc. bindr (conv_value_error (arr_floats adc)) (\<lambda>dc.
            if length rows \<noteq> 3 \<or> list_ex (\<lambda>r. length r \<noteq> 3) rows \<or> length kc \<noteq> 6 \<or> length dc \<noteq> 6
            then Inl (ValueError ''cartesian requires a 3x3 task_R and six-axis kc/dc'')
            else if \<not> all_finite (concat rows @ kc @ dc) then Inl (ValueError ''cartesian values must be finite'')
            else if orthonormal_err rows then Inl (ValueError ''task_R must be orthonormal'')
            else if fabs (det3 rows - 1) > Fin (1 / 10 ^ 6) then Inl (ValueError ''task_R must be a rotation (det +1)'')
            else if list_ex (\<lambda>(x, cap). \<not> (0 \<le> x \<and> x \<le> cap)) (zip (kc @ dc) gain_caps)
            then Inl (ValueError ''cartesian gains must be nonnegative and within the pose-hold envelope'')
            else Inr (concat rows @ kc @ dc))))
      | _ \<Rightarrow> Inl (ValueError ''cartesian requires exactly frame, task_R, kc, dc''))"

subsection \<open>Torque limits, integral vectors and motor gains\<close>

definition validate_torque_limits :: "arr \<Rightarrow> nat option \<Rightarrow> vec result" where
  "validate_torque_limits limits n =
     (case limits of
        Row values \<Rightarrow>
          if values = [] then Inl (ValueError ''must be a non-empty joint vector'')
          else if n \<noteq> None \<and> n \<noteq> Some (length values) then Inl (ValueError ''length differs'')
          else if \<not> all_finite values \<or> list_ex (\<lambda>x. x \<le> 0) values then Inl (ValueError ''must be finite and positive'')
          else Inr values
      | _ \<Rightarrow> Inl (ValueError ''must be a non-empty joint vector''))"

definition validate_integral_vector :: "vec option \<Rightarrow> nat \<Rightarrow> vec result" where
  "validate_integral_vector values n =
     (let result = (case values of None \<Rightarrow> zeros n | Some v \<Rightarrow> v) in
      if length result \<noteq> n \<or> \<not> all_finite result \<or> list_ex (\<lambda>x. x < 0) result
      then Inl (ValueError ''must be a finite nonnegative joint vector'')
      else Inr result)"

record DmMotorLimits =
  position_min :: fl
  position_max :: fl
  velocity_min :: fl
  velocity_max :: fl
  kp_min :: fl
  kp_max :: fl
  kd_min :: fl
  kd_max :: fl
  torque_min :: fl
  torque_max :: fl

definition in_range :: "fl \<Rightarrow> fl \<Rightarrow> fl \<Rightarrow> bool" where
  "in_range lo value hi \<longleftrightarrow> lo \<le> value \<and> value \<le> hi"

definition validate_hardware_gains :: "fl \<Rightarrow> fl \<Rightarrow> fl \<Rightarrow> DmMotorLimits \<Rightarrow> unit result" where
  "validate_hardware_gains kp kd torque limits =
     (if \<not> in_range (kp_min limits) kp (kp_max limits) then Inl (ValueError ''kp is out of DM encode range'')
      else if \<not> in_range (kd_min limits) kd (kd_max limits) then Inl (ValueError ''kd is out of DM encode range'')
      else if \<not> in_range (torque_min limits) torque (torque_max limits)
      then Inl (ValueError ''torque is out of DM encode range'')
      else Inr ())"

subsection \<open>Lemmas\<close>

lemma validate_torque_limits_Inr:
  "validate_torque_limits a n = Inr v \<longleftrightarrow>
     a = Row v \<and> v \<noteq> [] \<and> (n = None \<or> n = Some (length v)) \<and> all_finite v \<and> (\<forall>x \<in> set v. \<not> x \<le> 0)"
  by (auto simp: validate_torque_limits_def list_ex_iff split: arr.splits)

lemma length_gain_caps [simp]: "length gain_caps = 12"
  by (simp add: gain_caps_def)

lemma conv_value_error_Inr [simp]: "conv_value_error r = Inr v \<longleftrightarrow> r = Inr v"
  by (auto simp: conv_value_error_def split: sum.splits err.splits)

text \<open>What an accepted pose-hold block looks like.\<close>

definition pose_block_ok :: "vec \<Rightarrow> bool" where
  "pose_block_ok vs \<longleftrightarrow> length vs = 15 \<and> is_uint32_id (vs ! 0) \<and>
     \<not> list_ex (\<lambda>(x, cap). \<not> isfinite x \<or> \<not> (0 \<le> x \<and> x \<le> cap)) (zip (tl vs) (gain_caps @ [20, 10]))"

lemma arr_floats_len: "arr_floats a = Inr v \<Longrightarrow> arr_len a = Inr (length v)"
  by (cases a) (auto split: if_splits)

lemma pose_hold_values_ok: "pose_hold_values spec = Inr vs \<Longrightarrow> pose_block_ok vs"
  by (auto simp: pose_hold_values_def pose_block_ok_def Let_def arr_floats_len
      split: option.splits list.splits if_splits)

lemma slice15:
  "length vs = (15 :: nat) \<Longrightarrow> vs ! 0 # take 6 (drop 1 vs) @ take 6 (drop 7 vs) @ [vs ! 13, vs ! 14] = vs"
  by (auto simp: numeral_eq_Suc length_Suc_conv)

lemma pose_hold_values_of_block:
  assumes "pose_block_ok vs"
  shows "pose_hold_values
     \<lparr>ph_id = Some (vs ! 0), ph_kc = Some (Row (take 6 (drop 1 vs))), ph_dc = Some (Row (take 6 (drop 7 vs))),
      ph_nullspace_kp = Some (vs ! 13), ph_nullspace_kd = Some (vs ! 14), ph_other = []\<rparr> = Inr vs"
proof -
  have len: "length vs = 15" using assms by (simp add: pose_block_ok_def)
  then have tl: "take 6 (drop 1 vs) @ take 6 (drop 7 vs) @ [vs ! 13, vs ! 14] = tl vs"
    using slice15 [OF len] by (metis list.sel(3))
  show ?thesis
    using assms slice15 [OF len] len unfolding pose_hold_values_def pose_block_ok_def Let_def
    by (simp add: tl [simplified])
qed

lemma unpack_of_block:
  "pose_block_ok vs \<Longrightarrow> unpack_pose_hold_values vs =
     Inr \<lparr>phv_id = \<lfloor>val (vs ! 0)\<rfloor>, phv_kc = take 6 (drop 1 vs), phv_dc = take 6 (drop 7 vs),
          phv_nullspace_kp = vs ! 13, phv_nullspace_kd = vs ! 14\<rparr>"
  unfolding unpack_pose_hold_values_def
  by (simp only: pose_hold_values_of_block bindr_Inr) (simp add: pose_block_ok_def POSE_HOLD_SIZE_def)

lemma uint32_id_floor: "is_uint32_id x \<Longrightarrow> Fin (of_int \<lfloor>val x\<rfloor>) = x"
  by (cases x) auto

lemma cap_ok_nth:
  assumes "\<not> list_ex (\<lambda>(x, cap). \<not> isfinite x \<or> \<not> (0 \<le> x \<and> x \<le> cap)) (zip xs caps)" "length xs = length caps"
  shows "\<forall>i < length xs. 0 \<le> xs ! i \<and> xs ! i \<le> caps ! i"
  using assms by (auto simp: list_ex_iff set_zip)

lemma block_unpacks:
  "pose_block_ok vs \<Longrightarrow> \<exists>p. unpack_pose_hold_values vs = Inr p \<and> pose_hold_values (pose_hold_as_spec p) = Inr vs"
  using pose_hold_values_of_block [of vs] uint32_id_floor [of "vs ! 0"]
  by (simp add: unpack_of_block pose_hold_as_spec_def pose_block_ok_def)

text \<open>
  Pose-hold settings survive the wire. Whatever \<open>pose_hold_values\<close> encodes is a block of 15
  values whose gains lie inside the protocol caps, \<open>unpack_pose_hold_values\<close> decodes it, and encoding
  the decoded settings again gives the same block.
\<close>

theorem pose_hold_roundtrip:
  assumes "pose_hold_values spec = Inr vs"
  shows "length vs = POSE_HOLD_SIZE \<and>
     (\<forall>i < 14. 0 \<le> vs ! Suc i \<and> vs ! Suc i \<le> (gain_caps @ [20, 10]) ! i) \<and>
     (\<exists>p. unpack_pose_hold_values vs = Inr p \<and> pose_hold_values (pose_hold_as_spec p) = Inr vs)"
proof -
  have ok: "pose_block_ok vs" using assms by (rule pose_hold_values_ok)
  then have len: "length vs = 15"
    and caps: "\<not> list_ex (\<lambda>(x, cap). \<not> isfinite x \<or> \<not> (0 \<le> x \<and> x \<le> cap)) (zip (tl vs) (gain_caps @ [20, 10]))"
    by (simp_all add: pose_block_ok_def)
  have "0 \<le> vs ! Suc i \<and> vs ! Suc i \<le> (gain_caps @ [20, 10]) ! i" if "i < 14" for i
    using cap_ok_nth [OF caps] that len by (simp add: nth_tl)
  moreover have "is_uint32_id (vs ! 0)" using ok by (simp add: pose_block_ok_def)
  ultimately show ?thesis
    using pose_hold_values_of_block [OF ok] len
    by (simp add: unpack_of_block [OF ok] pose_hold_as_spec_def uint32_id_floor POSE_HOLD_SIZE_def)
qed

definition demo_hold :: pose_hold_spec where
  "demo_hold =
     \<lparr>ph_id = Some 7, ph_kc = Some (Row (replicate 6 50)), ph_dc = Some (Row (replicate 6 5)),
      ph_nullspace_kp = Some 2, ph_nullspace_kd = Some 1, ph_other = []\<rparr>"

theorem pose_hold_roundtrip_witness:
  "\<exists>vs p. pose_hold_values demo_hold = Inr vs \<and> length vs = POSE_HOLD_SIZE \<and>
     unpack_pose_hold_values vs = Inr p \<and> pose_hold_values (pose_hold_as_spec p) = Inr vs"
proof -
  have "\<exists>vs. pose_hold_values demo_hold = Inr vs"
    by (simp add: demo_hold_def pose_hold_values_def gain_caps_def numeral_eq_Suc)
  then show ?thesis using pose_hold_roundtrip by blast
qed

end
