(* ===== verification/Policy.thy ===== *)
theory Policy
  imports Motion_Curve Impedance
begin

text \<open>
  \<^verbatim>\<open>arm_control/control/execution_policy.py\<close>: the limits a deployment puts on every plan and every
  servo command, and the certificate \<open>plan_error\<close> gives before a plan may run.

  A refusal is the returned text (its fixed part), \<open>None\<close> admits. numpy broadcasting errors between
  a plan and a policy of another joint count are \<open>Inl\<close> results.
\<close>

definition ENVELOPE_TOL :: fl where
  "ENVELOPE_TOL = Fin (1 / 10 ^ 8)"

record ExecutionPolicy =
  command_rate_hz :: fl
  state_timeout_sec :: fl
  health_timeout_sec :: fl
  start_pos_tol_rad :: fl
  abort_pos_err_rad :: fl
  hold_relatch_rad :: fl
  torque_limits :: vec
  position_lower :: "vec option"
  position_upper :: "vec option"
  velocity_limits :: "vec option"
  acceleration_limits :: "vec option"
  cartesian_kp_min :: "fl option"

text \<open>The keyword arguments of the constructor, before validation.\<close>

record policy_config =
  pc_command_rate_hz :: fl
  pc_state_timeout_sec :: fl
  pc_health_timeout_sec :: fl
  pc_start_pos_tol_rad :: fl
  pc_abort_pos_err_rad :: fl
  pc_hold_relatch_rad :: fl
  pc_position_lower :: "arr option"
  pc_position_upper :: "arr option"
  pc_velocity_limits :: "arr option"
  pc_acceleration_limits :: "arr option"
  pc_cartesian_kp_min :: "fl option"

definition pos_scalar :: "string \<Rightarrow> fl \<Rightarrow> unit result" where
  "pos_scalar name value =
     ensure (\<not> (\<not> isfinite value \<or> value \<le> 0)) (ValueError (name @ '' must be finite and positive''))"

definition limit_vector :: "vec \<Rightarrow> bool \<Rightarrow> err \<Rightarrow> arr \<Rightarrow> vec result" where
  "limit_vector limits positive e a =
     (case a of
        Row v \<Rightarrow> if length v \<noteq> length limits \<or> \<not> all_finite v \<or> (positive \<and> list_ex (\<lambda>x. x \<le> 0) v) then Inl e else Inr v
      | _ \<Rightarrow> Inl e)"

definition opt_limits :: "vec \<Rightarrow> string \<Rightarrow> arr option \<Rightarrow> vec option result" where
  "opt_limits limits name value =
     (case value of None \<Rightarrow> Inr None
      | Some a \<Rightarrow> bindr (limit_vector limits True (ValueError (name @ '' must match the positive joint limits'')) a)
          (\<lambda>v. Inr (Some v)))"

definition mk_ExecutionPolicy :: "policy_config \<Rightarrow> arr \<Rightarrow> ExecutionPolicy result" where
  "mk_ExecutionPolicy c torque =
     bindr (pos_scalar ''command_rate_hz'' (pc_command_rate_hz c)) (\<lambda>_.
     bindr (pos_scalar ''state_timeout_sec'' (pc_state_timeout_sec c)) (\<lambda>_.
     bindr (pos_scalar ''health_timeout_sec'' (pc_health_timeout_sec c)) (\<lambda>_.
     bindr (pos_scalar ''start_pos_tol_rad'' (pc_start_pos_tol_rad c)) (\<lambda>_.
     bindr (pos_scalar ''abort_pos_err_rad'' (pc_abort_pos_err_rad c)) (\<lambda>_.
     bindr (pos_scalar ''hold_relatch_rad'' (pc_hold_relatch_rad c)) (\<lambda>_.
     bindr (validate_torque_limits torque None) (\<lambda>limits.
     bindr (opt_limits limits ''velocity_limits'' (pc_velocity_limits c)) (\<lambda>vel.
     bindr (opt_limits limits ''acceleration_limits'' (pc_acceleration_limits c)) (\<lambda>acc.
     bindr (ensure ((pc_position_lower c = None) = (pc_position_upper c = None))
              (ValueError ''execution_policy requires both position bounds'')) (\<lambda>_.
     bindr (case (pc_position_lower c, pc_position_upper c) of
              (Some l, Some u) \<Rightarrow>
                bindr (limit_vector limits False (ValueError ''position_lower must match joint limits'') l) (\<lambda>lo.
                bindr (limit_vector limits False (ValueError ''position_upper must match joint limits'') u) (\<lambda>hi.
                if list_ex (\<lambda>(a, b). b \<le> a) (zip lo hi)
                then Inl (ValueError ''execution_policy position bounds must be ordered'')
                else Inr (Some lo, Some hi)))
            | _ \<Rightarrow> Inr (None, None)) (\<lambda>(lo, hi).
     bindr (case pc_cartesian_kp_min c of None \<Rightarrow> Inr ()
            | Some k \<Rightarrow> pos_scalar ''cartesian_kp_min'' k) (\<lambda>_.
     Inr \<lparr>command_rate_hz = pc_command_rate_hz c, state_timeout_sec = pc_state_timeout_sec c,
          health_timeout_sec = pc_health_timeout_sec c, start_pos_tol_rad = pc_start_pos_tol_rad c,
          abort_pos_err_rad = pc_abort_pos_err_rad c, hold_relatch_rad = pc_hold_relatch_rad c,
          torque_limits = limits, position_lower = lo, position_upper = hi, velocity_limits = vel,
          acceleration_limits = acc, cartesian_kp_min = pc_cartesian_kp_min c\<rparr>))))))))))))"

definition policy_period :: "ExecutionPolicy \<Rightarrow> fl" where
  "policy_period p = 1 / command_rate_hz p"

subsection \<open>The position envelope\<close>

definition col_fold :: "(fl \<Rightarrow> fl \<Rightarrow> fl) \<Rightarrow> mat \<Rightarrow> nat \<Rightarrow> fl" where
  "col_fold f m j = fold f (map (\<lambda>r. r ! j) (tl m)) (hd m ! j)"

text \<open>\<open>measured\<close> is a list of poses (one pose is a single row); \<open>None\<close> when the caller gives none.\<close>

definition envelope :: "ExecutionPolicy \<Rightarrow> mat option \<Rightarrow> (vec \<times> vec) option" where
  "envelope p measured =
     (case (position_lower p, position_upper p) of
        (Some lo, Some hi) \<Rightarrow>
          (case measured of
             None \<Rightarrow> Some (lo, hi)
           | Some q \<Rightarrow>
               if q = [] \<or> \<not> rectangular q (length lo) \<or> \<not> list_all all_finite q then Some (lo, hi)
               else Some (map (\<lambda>j. np_min (lo ! j) (col_fold np_min q j)) [0..<length lo],
                          map (\<lambda>j. np_max (hi ! j) (col_fold np_max q j)) [0..<length hi]))
      | _ \<Rightarrow> None)"

subsection \<open>Admission of a plan\<close>

record plan =
  pl_times :: vec
  pl_positions :: mat
  pl_velocities :: mat
  pl_kp :: vec
  pl_kd :: vec
  pl_cartesian_poses :: "mat option"
  pl_cartesian :: "cartesian_spec option"

definition start_error :: "ExecutionPolicy \<Rightarrow> vec \<Rightarrow> vec \<Rightarrow> string option result" where
  "start_error p start measured =
     bindr (np_sub start measured) (\<lambda>d. bindr (arr_max (vabs d)) (\<lambda>error.
       if \<not> error \<le> start_pos_tol_rad p then Inr (Some ''start point too far from measured pose: re-plan'')
       else Inr None))"

definition widen :: "fl \<Rightarrow> vec \<Rightarrow> vec" where
  "widen e v = map (\<lambda>x. x + e) v"

text \<open>\<^verbatim>\<open>np.diff(m, axis=0) / np.diff(t)[:, None]\<close>.\<close>

definition row_rates :: "vec \<Rightarrow> mat \<Rightarrow> mat" where
  "row_rates t m = map (\<lambda>k. vdivs (vsub (m ! Suc k) (m ! k)) (t ! Suc k - t ! k)) [0..<length m - 1]"

definition orr :: "bool result \<Rightarrow> bool result \<Rightarrow> bool result" where
  "orr a b = bindr a (\<lambda>x. if x then Inr True else b)"

text \<open>Run the checks in order; the first that holds is the refusal.\<close>

fun first_refusal :: "(bool result \<times> string) list \<Rightarrow> string option result" where
  "first_refusal [] = Inr None"
| "first_refusal ((c, why) # cs) = bindr c (\<lambda>b. if b then Inr (Some why) else first_refusal cs)"

definition when_limits :: "'a option \<Rightarrow> ('a \<Rightarrow> bool result) \<Rightarrow> bool result" where
  "when_limits l f = (case l of None \<Rightarrow> Inr False | Some v \<Rightarrow> f v)"

definition shape_checks :: "plan \<Rightarrow> nat \<Rightarrow> (bool result \<times> string) list" where
  "shape_checks pl n_arm =
     (let q = pl_positions pl; v = pl_velocities pl; t = pl_times pl in
      [(Inr (\<not> rectangular q n_arm), ''trajectory must have n_arm joint columns''),
       (Inr (length t < 2 \<or> length t \<noteq> length q \<or> \<not> same_shape v q), ''trajectory has invalid sample shapes''),
       (Inr (\<not> all_finite t \<or> \<not> list_all all_finite q \<or> \<not> list_all all_finite v
             \<or> \<not> all_finite (pl_kp pl) \<or> \<not> all_finite (pl_kd pl)), ''trajectory contains non-finite values''),
       (Inr (list_ex (\<lambda>d. d \<le> 0) (diffs t)), ''trajectory times must be strictly increasing'')])"

definition sample_checks :: "ExecutionPolicy \<Rightarrow> plan \<Rightarrow> (vec \<times> vec) option \<Rightarrow> (bool result \<times> string) list" where
  "sample_checks p pl band =
     (let q = pl_positions pl; v = pl_velocities pl; t = pl_times pl in
      [(when_limits band (\<lambda>(lo, hi). orr (np_any2 (<) q (widen (- ENVELOPE_TOL) lo)) (np_any2 (>) q (widen ENVELOPE_TOL hi))),
        ''trajectory outside configured position/velocity safety envelope''),
       (when_limits (velocity_limits p) (\<lambda>lim.
          orr (np_any2 (>) (map vabs v) (widen (Fin (1 / 10 ^ 8)) lim))
              (np_any2 (>) (map vabs (row_rates t q)) (widen (Fin (1 / 10 ^ 8)) lim))),
        ''trajectory exceeds configured joint velocity limits''),
       (when_limits (acceleration_limits p) (\<lambda>lim. np_any2 (>) (map vabs (row_rates t v)) (widen (Fin (1 / 10 ^ 8)) lim)),
        ''trajectory exceeds configured joint acceleration limits'')])"

definition curve_checks :: "ExecutionPolicy \<Rightarrow> curve_bounds \<Rightarrow> (vec \<times> vec) option \<Rightarrow> (bool result \<times> string) list" where
  "curve_checks p curve band =
     [(when_limits band (\<lambda>(lo, hi).
         orr (np_any1 (<) (b_q_min curve) (widen (- ENVELOPE_TOL) lo)) (np_any1 (>) (b_q_max curve) (widen ENVELOPE_TOL hi))),
       ''interpolated trajectory leaves the position envelope between waypoints''),
      (when_limits (velocity_limits p) (\<lambda>lim. np_any1 (>) (b_qd_abs_max curve) (widen (Fin (1 / 10 ^ 8)) lim)),
       ''interpolated trajectory exceeds joint velocity limits between waypoints''),
      (when_limits (acceleration_limits p) (\<lambda>lim. np_any1 (>) (b_qdd_abs_max curve) (widen (Fin (1 / 10 ^ 8)) lim)),
       ''interpolated trajectory exceeds joint acceleration limits between waypoints'')]"

text \<open>The \<^verbatim>\<open>except (TypeError, ValueError)\<close> around \<^verbatim>\<open>cartesian_values\<close> covers everything it raises.\<close>

definition law_checks :: "ExecutionPolicy \<Rightarrow> plan \<Rightarrow> nat \<Rightarrow> (bool result \<times> string) list" where
  "law_checks p pl n_arm =
     [(Inr (length (pl_kp pl) \<noteq> n_arm \<or> list_ex (\<lambda>x. x < 0) (pl_kp pl)), ''trajectory kp must be a nonnegative joint vector''),
      (Inr (length (pl_kd pl) \<noteq> n_arm \<or> list_ex (\<lambda>x. x < 0) (pl_kd pl)), ''trajectory kd must be a nonnegative joint vector''),
      (Inr (case pl_cartesian_poses pl of None \<Rightarrow> False
            | Some m \<Rightarrow> length m \<noteq> length (pl_times pl) \<or> \<not> rectangular m 7 \<or> \<not> list_all all_finite m),
       ''Cartesian trajectory poses must be finite sample-by-7 values''),
      (Inr (case pl_cartesian pl of None \<Rightarrow> False | Some c \<Rightarrow> isl (cartesian_values c)),
       ''Cartesian impedance spec refused''),
      (Inr (pl_cartesian pl \<noteq> None \<and> cartesian_kp_min p = None),
       ''this robot's execution policy admits no Cartesian legs (no cartesian_kp_min)''),
      (Inr (pl_cartesian pl \<noteq> None \<and> (case cartesian_kp_min p of None \<Rightarrow> False
            | Some k \<Rightarrow> list_ex (\<lambda>x. x < k) (pl_kp pl))), ''a Cartesian leg needs joint kp on every joint'')]"

definition plan_error :: "ExecutionPolicy \<Rightarrow> plan \<Rightarrow> vec \<Rightarrow> nat \<Rightarrow> mat option \<Rightarrow> string option result" where
  "plan_error p pl measured n_arm been =
     bindr (first_refusal (shape_checks pl n_arm)) (\<lambda>r1. if r1 \<noteq> None then Inr r1 else
     let band = envelope p (Some (case been of None \<Rightarrow> [measured] | Some b \<Rightarrow> b)) in
     bindr (first_refusal (sample_checks p pl band)) (\<lambda>r2. if r2 \<noteq> None then Inr r2 else
     bindr (mk_JointTrajectory (pl_times pl) (pl_positions pl) (Some (pl_velocities pl))) (\<lambda>jt.
     bindr (first_refusal (curve_checks p (bounds jt) band)) (\<lambda>r3. if r3 \<noteq> None then Inr r3 else
     bindr (first_refusal (law_checks p pl n_arm)) (\<lambda>r4. if r4 \<noteq> None then Inr r4 else
     start_error p (hd (pl_positions pl)) measured)))))"

subsection \<open>Servo commands\<close>

record JointServoCommand =
  q_des :: vec
  qd_des :: vec
  tau_ff :: vec
  jsc_kp :: vec
  jsc_kd :: vec

definition relatch_tolerance :: "ExecutionPolicy \<Rightarrow> vec \<Rightarrow> vec result" where
  "relatch_tolerance p kp =
     bindr (bcast2 (vscale (Fin (1 / 4)) (torque_limits p)) (map (\<lambda>k. np_max k (Fin (1 / 10 ^ 9))) kp)) (\<lambda>ps.
       Inr (map (\<lambda>(a, b). np_min (hold_relatch_rad p) (a / b)) ps))"

definition tracking_error_exceeded :: "ExecutionPolicy \<Rightarrow> JointServoCommand \<Rightarrow> vec \<Rightarrow> bool result" where
  "tracking_error_exceeded p command measured =
     bindr (np_sub (q_des command) measured) (\<lambda>d. bindr (arr_max (vabs d)) (\<lambda>e. Inr (\<not> e \<le> abort_pos_err_rad p)))"

definition command_valid :: "ExecutionPolicy \<Rightarrow> JointServoCommand \<Rightarrow> nat \<Rightarrow> mat option \<Rightarrow> bool result" where
  "command_valid p command n_arm measured =
     (if list_ex (\<lambda>v. length v \<noteq> n_arm \<or> \<not> all_finite v)
           [q_des command, qd_des command, tau_ff command, jsc_kp command, jsc_kd command] then Inr False
      else bindr (when_limits (envelope p measured) (\<lambda>(lo, hi).
          orr (np_any1 (<) (q_des command) (widen (- ENVELOPE_TOL) lo)) (np_any1 (>) (q_des command) (widen ENVELOPE_TOL hi)))) (\<lambda>out.
        if out then Inr False
        else bindr (when_limits (velocity_limits p) (\<lambda>lim.
            np_any1 (>) (vabs (qd_des command)) (widen (Fin (1 / 10 ^ 8)) lim))) (\<lambda>fast.
          if fast then Inr False
          else if \<not> list_all (\<lambda>x. 0 \<le> x) (jsc_kp command) \<or> \<not> list_all (\<lambda>x. 0 \<le> x) (jsc_kd command) then Inr False
          else bindr (np_any1 (\<lambda>a b. \<not> a \<le> b) (vabs (tau_ff command)) (torque_limits p)) (\<lambda>b. Inr (\<not> b)))))"

subsection \<open>Assembly from the robot description\<close>

definition build_execution_policy ::
    "policy_config option \<Rightarrow> arr \<Rightarrow> (vec \<times> vec) option \<Rightarrow> ExecutionPolicy option result" where
  "build_execution_policy config torque joint_limits =
     (case config of None \<Rightarrow> Inr None
      | Some c0 \<Rightarrow>
          let c = (case joint_limits of
                Some (lower, upper) \<Rightarrow>
                  if pc_position_lower c0 = None \<and> pc_position_upper c0 = None \<and> all_finite lower \<and> all_finite upper
                  then c0\<lparr>pc_position_lower := Some (Row lower), pc_position_upper := Some (Row upper)\<rparr> else c0
              | None \<Rightarrow> c0) in
          bindr (mk_ExecutionPolicy c torque) (\<lambda>policy.
            case (joint_limits, position_lower policy, position_upper policy) of
              (Some (lower, upper), Some lo, Some hi) \<Rightarrow>
                bindr (orr (np_any1 (<) lo lower) (np_any1 (>) hi upper)) (\<lambda>wide.
                  if wide then Inl (ValueError ''execution_policy position bounds may only narrow the robot description'')
                  else Inr (Some policy))
            | _ \<Rightarrow> Inr (Some policy)))"

end
