(* ===== verification/Policy_Cert.thy ===== *)
theory Policy_Cert
  imports Policy
begin

text \<open>
  What the execution policy guarantees: its own well-formedness, the shape of the position envelope,
  and that a plan it admits keeps its limits at every instant of the flown curve, not only at the
  waypoints.
\<close>

subsection \<open>Well-formed policies\<close>

definition policy_ok :: "ExecutionPolicy \<Rightarrow> bool" where
  "policy_ok p \<longleftrightarrow>
     (let n = length (torque_limits p) in
      0 < n \<and> all_finite (torque_limits p) \<and> (\<forall>x \<in> set (torque_limits p). 0 < x) \<and>
      (\<forall>v. velocity_limits p = Some v \<longrightarrow> length v = n \<and> all_finite v \<and> (\<forall>x \<in> set v. 0 < x)) \<and>
      (\<forall>v. acceleration_limits p = Some v \<longrightarrow> length v = n \<and> all_finite v \<and> (\<forall>x \<in> set v. 0 < x)) \<and>
      (position_lower p = None \<longleftrightarrow> position_upper p = None) \<and>
      (\<forall>lo hi. position_lower p = Some lo \<longrightarrow> position_upper p = Some hi \<longrightarrow>
         length lo = n \<and> length hi = n \<and> all_finite lo \<and> all_finite hi \<and> (\<forall>j < n. lo ! j < hi ! j)) \<and>
      (\<forall>x \<in> {command_rate_hz p, state_timeout_sec p, health_timeout_sec p, start_pos_tol_rad p,
             abort_pos_err_rad p, hold_relatch_rad p}. isfinite x \<and> 0 < x))"

lemma fin_not_le: "isfinite x \<Longrightarrow> isfinite y \<Longrightarrow> \<not> x \<le> y \<longleftrightarrow> y < x"
  by (cases x; cases y) auto

lemma pos_all: "all_finite v \<Longrightarrow> \<not> list_ex (\<lambda>x. x \<le> 0) v \<Longrightarrow> x \<in> set v \<Longrightarrow> 0 < x"
  using fin_not_le [of x 0] by (auto simp: list_ex_iff all_finite_in)

lemma limit_vector_Inr:
  "limit_vector limits b e a = Inr v \<Longrightarrow>
     a = Row v \<and> length v = length limits \<and> all_finite v \<and> (b \<longrightarrow> (\<forall>x \<in> set v. 0 < x))"
  using pos_all [of v] by (auto simp: limit_vector_def split: arr.splits if_splits)

lemma opt_limits_Inr:
  "opt_limits limits name a = Inr r \<Longrightarrow> r = Some v \<Longrightarrow>
     length v = length limits \<and> all_finite v \<and> (\<forall>x \<in> set v. 0 < x)"
  by (auto simp: opt_limits_def dest!: limit_vector_Inr split: option.splits)

lemma pos_scalar_Inr: "pos_scalar name x = Inr u \<Longrightarrow> isfinite x \<and> 0 < x"
  by (cases x) (auto simp: pos_scalar_def)

lemma bounds_ordered:
  "all_finite lo \<Longrightarrow> all_finite hi \<Longrightarrow> length lo = length hi \<Longrightarrow>
     \<not> list_ex (\<lambda>(a, b). b \<le> a) (zip lo hi) \<Longrightarrow> j < length lo \<Longrightarrow> lo ! j < hi ! j"
proof -
  assume a: "all_finite lo" "all_finite hi" "length lo = length hi"
    "\<not> list_ex (\<lambda>(a, b). b \<le> a) (zip lo hi)" "j < length lo"
  then have "(lo ! j, hi ! j) \<in> set (zip lo hi)" by (auto simp: set_zip)
  with a(4) have "\<not> hi ! j \<le> lo ! j" by (auto simp: list_ex_iff)
  with a show ?thesis using fin_not_le [of "hi ! j" "lo ! j"] all_finite_in nth_mem by metis
qed

lemma mk_ExecutionPolicy_ok:
  assumes "mk_ExecutionPolicy c torque = Inr p"
  shows "policy_ok p"
proof -
  from assms obtain limits where lim: "validate_torque_limits torque None = Inr limits"
    and tl: "torque_limits p = limits"
    and vel: "opt_limits limits ''velocity_limits'' (pc_velocity_limits c) = Inr (velocity_limits p)"
    and acc: "opt_limits limits ''acceleration_limits'' (pc_acceleration_limits c) = Inr (acceleration_limits p)"
    and sc: "\<forall>x \<in> {command_rate_hz p, state_timeout_sec p, health_timeout_sec p, start_pos_tol_rad p,
             abort_pos_err_rad p, hold_relatch_rad p}. isfinite x \<and> 0 < x"
    by (auto simp: mk_ExecutionPolicy_def dest!: pos_scalar_Inr)
  have pos: "position_lower p = None \<longleftrightarrow> position_upper p = None"
    "position_lower p = Some lo \<longrightarrow> position_upper p = Some hi \<longrightarrow>
       length lo = length limits \<and> length hi = length limits \<and> all_finite lo \<and> all_finite hi \<and>
       \<not> list_ex (\<lambda>(a, b). b \<le> a) (zip lo hi)" for lo hi
    using assms lim
    by (auto simp: mk_ExecutionPolicy_def dest!: limit_vector_Inr split: option.splits if_splits)
  have t: "limits \<noteq> [] \<and> all_finite limits \<and> (\<forall>x \<in> set limits. 0 < x)"
    using lim fin_not_le [of _ 0] by (auto simp: validate_torque_limits_Inr all_finite_in)
  show ?thesis
    unfolding policy_ok_def Let_def tl
    using t pos(1) sc opt_limits_Inr [OF vel] opt_limits_Inr [OF acc] pos(2) bounds_ordered
    by simp
qed

subsection \<open>Running a list of checks\<close>

lemma first_refusal_None: "first_refusal cs = Inr None \<longleftrightarrow> (\<forall>(c, w) \<in> set cs. c = Inr False)"
proof (induction cs)
  case Nil
  then show ?case by simp
next
  case (Cons a cs)
  then show ?case by (cases a) (auto split: if_splits)
qed

lemma orr_False [simp]: "orr a b = Inr False \<longleftrightarrow> a = Inr False \<and> b = Inr False"
  by (auto simp: orr_def split: if_splits)

lemma widen_simps [simp]: "length (widen e v) = length v" "i < length v \<Longrightarrow> widen e v ! i = v ! i + e"
  by (simp_all add: widen_def)

subsection \<open>The envelope\<close>

lemma col_fold_range:
  assumes "q \<noteq> []" "rectangular q n" "list_all all_finite q" "j < n"
  shows "isfinite (col_fold np_min q j)" "isfinite (col_fold np_max q j)"
    "\<And>r. r \<in> set q \<Longrightarrow> col_fold np_min q j \<le> r ! j \<and> r ! j \<le> col_fold np_max q j"
    "\<exists>r \<in> set q. col_fold np_min q j = r ! j" "\<exists>r \<in> set q. col_fold np_max q j = r ! j"
proof -
  obtain a m where q: "q = a # m" using assms(1) by (cases q) auto
  have fin: "isfinite (r ! j)" if "r \<in> set q" for r
    using assms that by (auto simp: rectangular_def list_all_iff all_finite_in)
  have mem: "fold f xs x \<in> insert x (set xs)" if "\<And>a b. f a b \<in> {a, b}" for f :: "fl \<Rightarrow> fl \<Rightarrow> fl" and xs x
  proof (induction xs arbitrary: x)
    case (Cons y ys)
    from Cons [of "f y x"] that [of y x] show ?case by auto
  qed simp
  have two: "np_min x y \<in> {x, y}" "np_max x y \<in> {x, y}" for x y
    by (auto simp: np_min_def np_max_def)
  show ex: "\<exists>r \<in> set q. col_fold np_min q j = r ! j" "\<exists>r \<in> set q. col_fold np_max q j = r ! j"
    using mem [of np_min, OF two(1), of "map (\<lambda>r. r ! j) m" "a ! j"]
      mem [of np_max, OF two(2), of "map (\<lambda>r. r ! j) m" "a ! j"]
    by (auto simp: col_fold_def q)
  then show "isfinite (col_fold np_min q j)" "isfinite (col_fold np_max q j)" using fin by auto
  have nn: "\<not> isnan (a ! j)" "\<forall>y \<in> set (map (\<lambda>r. r ! j) m). \<not> isnan y"
    using fin q by (auto dest: isfinite_not_nan)
  show "col_fold np_min q j \<le> r ! j \<and> r ! j \<le> col_fold np_max q j" if "r \<in> set q" for r
    using that fold_np_min_le [OF nn] fold_np_max_ge [OF nn] by (auto simp: col_fold_def q)
qed

text \<open>
  The envelope is the description's band widened exactly to where the arm already is. It contains
  the band and every given pose, and each of its ends is an end of the band or a coordinate of one of
  those poses: a joint outside its limit can be held and brought back, never driven further out.
\<close>

theorem envelope_never_further_out:
  assumes "mk_ExecutionPolicy c torque = Inr p"
    and "position_lower p = Some lower" and "position_upper p = Some upper"
    and "q \<noteq> []" and "rectangular q (length lower)" and "list_all all_finite q"
  shows "\<exists>lo hi. envelope p (Some q) = Some (lo, hi) \<and> length lo = length lower \<and> length hi = length upper \<and>
     (\<forall>j < length lower.
        lo ! j \<le> lower ! j \<and> upper ! j \<le> hi ! j \<and> (\<forall>r \<in> set q. lo ! j \<le> r ! j \<and> r ! j \<le> hi ! j) \<and>
        lo ! j \<in> insert (lower ! j) ((\<lambda>r. r ! j) ` set q) \<and>
        hi ! j \<in> insert (upper ! j) ((\<lambda>r. r ! j) ` set q))"
proof -
  let ?lo = "map (\<lambda>j. np_min (lower ! j) (col_fold np_min q j)) [0..<length lower]"
  let ?hi = "map (\<lambda>j. np_max (upper ! j) (col_fold np_max q j)) [0..<length upper]"
  from mk_ExecutionPolicy_ok [OF assms(1)] assms(2,3)
  have len: "length upper = length lower" and fin: "all_finite lower" "all_finite upper"
    by (auto simp: policy_ok_def Let_def)
  have env: "envelope p (Some q) = Some (?lo, ?hi)" using assms by (simp add: envelope_def)
  have "?lo ! j \<le> lower ! j \<and> upper ! j \<le> ?hi ! j \<and> (\<forall>r \<in> set q. ?lo ! j \<le> r ! j \<and> r ! j \<le> ?hi ! j) \<and>
        ?lo ! j \<in> insert (lower ! j) ((\<lambda>r. r ! j) ` set q) \<and> ?hi ! j \<in> insert (upper ! j) ((\<lambda>r. r ! j) ` set q)"
    if j: "j < length lower" for j
  proof -
    note cf = col_fold_range [OF assms(4-6) j]
    have "isfinite (lower ! j)" "isfinite (upper ! j)" using fin j len by (auto intro: all_finite_in)
    then have nn: "\<not> isnan (lower ! j)" "\<not> isnan (upper ! j)"
      "\<not> isnan (col_fold np_min q j)" "\<not> isnan (col_fold np_max q j)"
      using cf(1,2) by (auto dest: isfinite_not_nan)
    have at: "?lo ! j = np_min (lower ! j) (col_fold np_min q j)" "?hi ! j = np_max (upper ! j) (col_fold np_max q j)"
      using j len by simp_all
    have mem: "np_min (lower ! j) (col_fold np_min q j) \<in> {lower ! j, col_fold np_min q j}"
      "np_max (upper ! j) (col_fold np_max q j) \<in> {upper ! j, col_fold np_max q j}"
      by (auto simp: np_min_def np_max_def)
    show ?thesis
      unfolding at using np_min_le [OF nn(1,3)] np_max_ge [OF nn(2,4)] cf(3,4,5) mem
      by (auto intro: fl_le_trans)
  qed
  with env len show ?thesis by auto
qed

subsection \<open>Certified plans\<close>

lemma rows_finite: "list_all all_finite m \<Longrightarrow> \<forall>r \<in> set m. all_finite r"
  by (simp add: list_all_iff)

text \<open>The parts of an admission: shapes, then the samples, then the curve, then the start.\<close>

lemma plan_error_None:
  assumes "plan_error p pl measured n been = Inr None"
  shows "\<exists>jt. mk_JointTrajectory (pl_times pl) (pl_positions pl) (Some (pl_velocities pl)) = Inr jt \<and>
     first_refusal (shape_checks pl n) = Inr None \<and>
     first_refusal (curve_checks p (bounds jt)
       (envelope p (Some (case been of None \<Rightarrow> [measured] | Some b \<Rightarrow> b)))) = Inr None \<and>
     first_refusal (law_checks p pl n) = Inr None \<and> start_error p (hd (pl_positions pl)) measured = Inr None"
  using assms by (auto simp: plan_error_def Let_def split: if_splits)


lemma plan_traj:
  assumes "mk_JointTrajectory (pl_times pl) (pl_positions pl) (Some (pl_velocities pl)) = Inr jt"
    and "first_refusal (shape_checks pl n) = Inr None"
  shows "traj_ok jt" "num_joints jt = n" "jt_times jt = pl_times pl" "length (hd (pl_positions pl)) = n"
proof -
  have f: "jt_times jt = pl_times pl" "jt_positions jt = pl_positions pl" "jt_velocities jt = Some (pl_velocities pl)"
    "2 \<le> length (pl_times pl)" "length (pl_times pl) = length (pl_positions pl)"
    using assms(1) by (auto simp: mk_JointTrajectory_def split: if_splits)
  have sh: "rectangular (pl_positions pl) n" "all_finite (pl_times pl)" "list_all all_finite (pl_positions pl)"
    "list_all all_finite (pl_velocities pl)"
    using assms(2) unfolding first_refusal_None shape_checks_def Let_def by simp_all
  then have "finite_curve jt" by (simp add: finite_curve_def f)
  with assms(1) show "traj_ok jt" by (rule mk_JointTrajectory_ok)
  obtain r m where "pl_positions pl = r # m" using f(4,5) by (cases "pl_positions pl") auto
  with sh(1) f(2) show "num_joints jt = n" "length (hd (pl_positions pl)) = n" by (simp_all add: num_joints_def mat_cols_def rectangular_def)
  show "jt_times jt = pl_times pl" by (rule f(1))
qed

lemma envelope_lengths:
  "policy_ok p \<Longrightarrow> envelope p m = Some (lo, hi) \<Longrightarrow>
     length lo = length (torque_limits p) \<and> length hi = length (torque_limits p)"
  by (auto simp: envelope_def policy_ok_def Let_def split: option.splits if_splits)

lemma slack_chain: "\<not> y > z + Fin a \<Longrightarrow> x \<le> y + Fin b \<Longrightarrow> isfinite z \<Longrightarrow> a + b \<le> c \<Longrightarrow> x \<le> z + Fin c"
  by (cases x; cases y; cases z) auto

lemma slack_chain': "\<not> y < z - Fin a \<Longrightarrow> y \<le> x + Fin b \<Longrightarrow> isfinite z \<Longrightarrow> a + b \<le> c \<Longrightarrow> z \<le> x + Fin c"
  by (cases x; cases y; cases z) auto

lemma bounds_lengths:
  "traj_ok jt \<Longrightarrow> 0 < num_joints jt \<Longrightarrow>
     length (b_q_min (bounds jt)) = num_joints jt \<and> length (b_q_max (bounds jt)) = num_joints jt \<and>
     length (b_qd_abs_max (bounds jt)) = num_joints jt \<and> length (b_qdd_abs_max (bounds jt)) = num_joints jt"
  using bounds_dominates [of jt 0] by (simp add: dominates_def)

lemma np_finite: "isfinite a \<Longrightarrow> isfinite b \<Longrightarrow> isfinite (np_min a b) \<and> isfinite (np_max a b)"
  by (auto simp: isfinite_iff)

lemma envelope_finite:
  assumes ok: "policy_ok p" and "envelope p m = Some (lo, hi)" and "j < length (torque_limits p)"
  shows "isfinite (lo ! j) \<and> isfinite (hi ! j)"
proof -
  obtain l h where lh: "position_lower p = Some l" "position_upper p = Some h"
    using assms(2) by (auto simp: envelope_def split: option.splits)
  with ok assms(3) have len: "length l = length (torque_limits p)" "length h = length (torque_limits p)"
    and fin: "isfinite (l ! j)" "isfinite (h ! j)"
    by (auto simp: policy_ok_def Let_def intro: all_finite_in)
  show ?thesis
    using assms(2,3) lh len fin col_fold_range [of "the m" "length l" j]
    by (auto simp: envelope_def np_finite split: option.splits if_splits)
qed

lemma curve_checks_None:
  assumes "first_refusal (curve_checks p b band) = Inr None" and ok: "policy_ok p"
    and n: "n = length (torque_limits p)" and j: "j < n"
    and len: "length (b_q_min b) = n" "length (b_q_max b) = n" "length (b_qd_abs_max b) = n" "length (b_qdd_abs_max b) = n"
  shows "band = Some (lo, hi) \<Longrightarrow> length lo = n \<Longrightarrow> length hi = n \<Longrightarrow>
      \<not> b_q_min b ! j < lo ! j - ENVELOPE_TOL \<and> \<not> b_q_max b ! j > hi ! j + ENVELOPE_TOL"
    "velocity_limits p = Some ml \<Longrightarrow> length ml = n \<Longrightarrow> \<not> b_qd_abs_max b ! j > ml ! j + Fin (1 / 10 ^ 8)"
    "acceleration_limits p = Some ml \<Longrightarrow> length ml = n \<Longrightarrow> \<not> b_qdd_abs_max b ! j > ml ! j + Fin (1 / 10 ^ 8)"
  using assms(1) j len unfolding first_refusal_None curve_checks_def
  by (auto simp: when_limits_def np_any1_eq minus_fl_def)

lemma small_slacks:
  "1 / 10 ^ 8 + 2 * eps300 \<le> 1 / 10 ^ 8 + 1 / 10 ^ 99" "1 / 10 ^ 200 \<le> d \<Longrightarrow> 1 / 10 ^ 8 + eps300 / d \<le> 1 / 10 ^ 8 + 1 / 10 ^ 99"
proof -
  show "1 / 10 ^ 8 + 2 * eps300 \<le> 1 / 10 ^ 8 + 1 / 10 ^ 99" by (simp add: eps300_def)
  assume "1 / 10 ^ 200 \<le> d"
  then have "eps300 / d \<le> eps300 / (1 / 10 ^ 200)" using eps300_pos by (intro divide_left_mono) auto
  then show "1 / 10 ^ 8 + eps300 / d \<le> 1 / 10 ^ 8 + 1 / 10 ^ 99" by (simp add: eps300_def)
qed

text \<open>A sampled point keeps the limits of the policy on joint \<open>j\<close>; \<open>tol\<close> is the allowance.\<close>

definition point_keeps_policy :: "ExecutionPolicy \<Rightarrow> mat option \<Rightarrow> fl \<Rightarrow> TrajectoryPoint \<Rightarrow> nat \<Rightarrow> bool" where
  "point_keeps_policy p poses tol pt j \<longleftrightarrow>
     (case envelope p poses of None \<Rightarrow> True
      | Some (lo, hi) \<Rightarrow> lo ! j \<le> pt_position pt ! j + tol \<and> pt_position pt ! j \<le> hi ! j + tol) \<and>
     (case velocity_limits p of None \<Rightarrow> True | Some ml \<Rightarrow> fabs (pt_velocity pt ! j) \<le> ml ! j + tol) \<and>
     (case acceleration_limits p of None \<Rightarrow> True | Some ml \<Rightarrow> fabs (pt_acceleration pt ! j) \<le> ml ! j + tol)"

lemma point_certified:
  assumes ok: "policy_ok p" and cu: "first_refusal (curve_checks p b (envelope p poses)) = Inr None"
    and n: "n = length (torque_limits p)" and j: "j < n"
    and len: "length (b_q_min b) = n" "length (b_q_max b) = n" "length (b_qd_abs_max b) = n" "length (b_qdd_abs_max b) = n"
    and pt: "b_q_min b ! j \<le> pt_position pt ! j + Fin (2 * eps300)"
      "pt_position pt ! j \<le> b_q_max b ! j + Fin (2 * eps300)"
      "fabs (pt_velocity pt ! j) \<le> b_qd_abs_max b ! j + Fin (eps300 / (1 / 10 ^ 200))"
      "fabs (pt_acceleration pt ! j) \<le> b_qdd_abs_max b ! j"
  shows "point_keeps_policy p poses (Fin (1 / 10 ^ 8 + 1 / 10 ^ 99)) pt j"
proof -
  note cc = curve_checks_None [OF cu ok n j len]
  have "lo ! j \<le> pt_position pt ! j + Fin (1 / 10 ^ 8 + 1 / 10 ^ 99) \<and> pt_position pt ! j \<le> hi ! j + Fin (1 / 10 ^ 8 + 1 / 10 ^ 99)"
    if e: "envelope p poses = Some (lo, hi)" for lo hi
    using cc(1) [OF e] envelope_lengths [OF ok e] envelope_finite [OF ok e] n j
      slack_chain' [OF _ pt(1) _ small_slacks(1)] slack_chain [OF _ pt(2) _ small_slacks(1)]
    unfolding ENVELOPE_TOL_def by blast
  moreover have lims: "length ml = n \<and> isfinite (ml ! j)"
    if "velocity_limits p = Some ml \<or> acceleration_limits p = Some ml" for ml
    using ok n j that by (auto simp: policy_ok_def Let_def all_finite_in)
  moreover have "fabs (pt_velocity pt ! j) \<le> ml ! j + Fin (1 / 10 ^ 8 + 1 / 10 ^ 99)" if "velocity_limits p = Some ml" for ml
    using cc(2) [OF that] lims that slack_chain [OF _ pt(3) _ small_slacks(2)] by blast
  moreover have "fabs (pt_acceleration pt ! j) \<le> ml ! j + Fin (1 / 10 ^ 8 + 1 / 10 ^ 99)" if m: "acceleration_limits p = Some ml" for ml
  proof (rule slack_chain)
    show "\<not> b_qdd_abs_max b ! j > ml ! j + Fin (1 / 10 ^ 8)" using cc(3) [OF m] lims m by blast
    show "fabs (pt_acceleration pt ! j) \<le> b_qdd_abs_max b ! j + Fin 0"
      using pt(4) by (cases "b_qdd_abs_max b ! j") auto
  qed (use lims m in auto)
  ultimately show ?thesis by (auto simp: point_keeps_policy_def split: option.splits)
qed

lemma start_error_None:
  assumes "start_error p start measured = Inr None" "length start = length measured" "j < length measured"
  shows "fabs (start ! j - measured ! j) \<le> start_pos_tol_rad p"
proof -
  obtain m where m: "arr_max (vabs (vsub start measured)) = Inr m" "m \<le> start_pos_tol_rad p"
    using assms(1,2) by (auto simp: start_error_def np_sub_eq split: if_splits)
  have "fabs (start ! j - measured ! j) = vabs (vsub start measured) ! j" using assms(2,3) by simp
  also have "\<dots> \<in> set (vabs (vsub start measured))" using assms(2,3) by (intro nth_mem) simp
  finally show ?thesis using m by (rule arr_max_le [rotated 2])
qed

lemma admitted_curve:
  assumes "mk_ExecutionPolicy c torque = Inr p" and "plan_error p pl measured n been = Inr None"
    and "n = length (torque_limits p)"
    and "\<forall>i. Suc i < length (pl_times pl) \<longrightarrow> pl_times pl ! i + Fin (1 / 10 ^ 200) \<le> pl_times pl ! Suc i"
  shows "\<exists>jt. mk_JointTrajectory (pl_times pl) (pl_positions pl) (Some (pl_velocities pl)) = Inr jt \<and>
     (\<forall>t. \<exists>pt. sample_at jt (Fin t) = Inr pt \<and>
        (\<forall>j < n. point_keeps_policy p (Some (case been of None \<Rightarrow> [measured] | Some b \<Rightarrow> b)) (Fin (1 / 10 ^ 8 + 1 / 10 ^ 99)) pt j))"
proof -
  from plan_error_None [OF assms(2)] obtain jt
    where jt: "mk_JointTrajectory (pl_times pl) (pl_positions pl) (Some (pl_velocities pl)) = Inr jt"
      and sh: "first_refusal (shape_checks pl n) = Inr None"
      and cu: "first_refusal (curve_checks p (bounds jt)
        (envelope p (Some (case been of None \<Rightarrow> [measured] | Some b \<Rightarrow> b)))) = Inr None" by blast
  note ok = mk_ExecutionPolicy_ok [OF assms(1)] and tr = plan_traj [OF jt sh]
  have len: "length (b_q_min (bounds jt)) = n" "length (b_q_max (bounds jt)) = n"
    "length (b_qd_abs_max (bounds jt)) = n" "length (b_qdd_abs_max (bounds jt)) = n"
    using bounds_lengths [OF tr(1)] tr(2) ok assms(3) by (auto simp: policy_ok_def Let_def)
  have "\<exists>pt. sample_at jt (Fin t) = Inr pt \<and> (\<forall>j < n. point_keeps_policy p
      (Some (case been of None \<Rightarrow> [measured] | Some b \<Rightarrow> b)) (Fin (1 / 10 ^ 8 + 1 / 10 ^ 99)) pt j)" for t
    using curve_within_bounds [OF tr(1), of "1 / 10 ^ 200" t] assms(4) point_certified [OF ok cu assms(3) _ len]
    unfolding tr(2,3) by (metis divide_pos_pos zero_less_one zero_less_numeral zero_less_power)
  then show ?thesis using jt by blast
qed

text \<open>
  C2: an admitted plan keeps the policy at every instant. When \<open>plan_error\<close> returns no refusal, the
  trajectory can be built, \<open>sample_at\<close> returns a point at every time, and that point lies in the
  envelope, below the velocity limits and below the acceleration limits of the policy, within
  \<open>1e-8 + 1e-99\<close> (the code's tolerance of \<open>1e-8\<close>, and what its \<open>1e-300\<close> threshold can add); the first waypoint is within
  \<open>start_pos_tol_rad\<close> of the measured pose on every joint. Knots are taken at least \<open>1e-200\<close> s apart.
\<close>

theorem plan_certifies_curve:
  assumes "mk_ExecutionPolicy c torque = Inr p" and "plan_error p pl measured n been = Inr None"
    and "n = length (torque_limits p)" and "length measured = n"
    and "\<forall>i. Suc i < length (pl_times pl) \<longrightarrow> pl_times pl ! i + Fin (1 / 10 ^ 200) \<le> pl_times pl ! Suc i"
  shows "\<exists>jt. mk_JointTrajectory (pl_times pl) (pl_positions pl) (Some (pl_velocities pl)) = Inr jt \<and>
     (\<forall>t. \<exists>pt. sample_at jt (Fin t) = Inr pt \<and>
        (\<forall>j < n. point_keeps_policy p (Some (case been of None \<Rightarrow> [measured] | Some b \<Rightarrow> b)) (Fin (1 / 10 ^ 8 + 1 / 10 ^ 99)) pt j)) \<and>
     (\<forall>j < n. fabs (hd (pl_positions pl) ! j - measured ! j) \<le> start_pos_tol_rad p)"
proof -
  from plan_error_None [OF assms(2)] obtain jt
    where jt: "mk_JointTrajectory (pl_times pl) (pl_positions pl) (Some (pl_velocities pl)) = Inr jt"
      and sh: "first_refusal (shape_checks pl n) = Inr None"
      and st: "start_error p (hd (pl_positions pl)) measured = Inr None" by blast
  have "\<forall>j < n. fabs (hd (pl_positions pl) ! j - measured ! j) \<le> start_pos_tol_rad p"
    using start_error_None [OF st] assms(4) plan_traj(4) [OF jt sh] by auto
  with admitted_curve [OF assms(1-3,5)] show ?thesis by auto
qed


subsection \<open>Assembly from the description\<close>

text \<open>
  A deployment can only narrow the machine. Whatever configuration it passes, a policy built
  against finite joint limits of the right length carries position bounds, ordered and inside the
  description's limits on every joint; it never carries none.
\<close>

theorem build_policy_only_narrows:
  assumes "build_execution_policy (Some config) torque (Some (lower, upper)) = Inr (Some p)"
    and "all_finite lower" and "all_finite upper"
    and "length lower = length (torque_limits p)" and "length upper = length (torque_limits p)"
  shows "\<exists>lo hi. position_lower p = Some lo \<and> position_upper p = Some hi \<and>
     (\<forall>j < length (torque_limits p). lower ! j \<le> lo ! j \<and> lo ! j < hi ! j \<and> hi ! j \<le> upper ! j)"
proof -
  define c where "c = (if pc_position_lower config = None \<and> pc_position_upper config = None
    then config\<lparr>pc_position_lower := Some (Row lower), pc_position_upper := Some (Row upper)\<rparr> else config)"
  have "build_execution_policy (Some config) torque (Some (lower, upper)) =
    bindr (mk_ExecutionPolicy c torque) (\<lambda>policy. case (position_lower policy, position_upper policy) of
      (Some lo, Some hi) \<Rightarrow> bindr (orr (np_any1 (<) lo lower) (np_any1 (>) hi upper)) (\<lambda>wide.
         if wide then Inl (ValueError ''execution_policy position bounds may only narrow the robot description'')
         else Inr (Some policy)) | _ \<Rightarrow> Inr (Some policy))"
    using assms(2,3) by (auto simp: build_execution_policy_def c_def Let_def)
  with assms(1) obtain p' where c': "mk_ExecutionPolicy c torque = Inr p'"
    and r: "(case (position_lower p', position_upper p') of
      (Some lo, Some hi) \<Rightarrow> bindr (orr (np_any1 (<) lo lower) (np_any1 (>) hi upper)) (\<lambda>wide.
         if wide then Inl (ValueError ''execution_policy position bounds may only narrow the robot description'')
         else Inr (Some p')) | _ \<Rightarrow> Inr (Some p')) = Inr (Some p)" by auto
  have "p' = p" using r by (auto split: option.splits if_splits)
  with c' have c: "mk_ExecutionPolicy c torque = Inr p" by simp
  have some: "pc_position_lower c \<noteq> None \<or> pc_position_upper c \<noteq> None" by (auto simp: c_def)
  have rest: "orr (np_any1 (<) lo lower) (np_any1 (>) hi upper) = Inr False"
    if "position_lower p = Some lo" "position_upper p = Some hi" for lo hi
    using r that unfolding \<open>p' = p\<close> by (auto split: if_splits)
  note ok = mk_ExecutionPolicy_ok [OF c]
  have "position_lower p \<noteq> None \<and> position_upper p \<noteq> None"
    using c some
    by (cases "pc_position_lower c"; cases "pc_position_upper c") (auto simp: mk_ExecutionPolicy_def split: if_splits)
  then obtain lo hi where lh: "position_lower p = Some lo" "position_upper p = Some hi" by auto
  with ok have fin: "length lo = length (torque_limits p)" "length hi = length (torque_limits p)"
      "all_finite lo" "all_finite hi" "\<forall>j < length (torque_limits p). lo ! j < hi ! j"
    by (auto simp: policy_ok_def Let_def)
  have le: "a \<le> b" if "\<not> b < a" "isfinite a" "isfinite b" for a b
    using that by (cases a; cases b) auto
  have "lower ! j \<le> lo ! j \<and> lo ! j < hi ! j \<and> hi ! j \<le> upper ! j" if "j < length (torque_limits p)" for j
  proof -
    have f: "isfinite (lower ! j)" "isfinite (lo ! j)" "isfinite (hi ! j)" "isfinite (upper ! j)"
      using fin assms(2-5) that by (auto intro: all_finite_in)
    have "\<not> lo ! j < lower ! j" "\<not> hi ! j > upper ! j"
      using rest [OF lh] fin assms(4,5) that by (auto simp: np_any1_eq)
    then show ?thesis using le f fin(5) that by simp
  qed
  with lh show ?thesis by blast
qed

subsection \<open>Witnesses\<close>

text \<open>One joint, half a turn either way, and a leg at constant speed.\<close>

definition demo_config :: policy_config where
  "demo_config =
     \<lparr>pc_command_rate_hz = 250, pc_state_timeout_sec = 1, pc_health_timeout_sec = 1, pc_start_pos_tol_rad = Fin (1 / 10),
      pc_abort_pos_err_rad = Fin (1 / 2), pc_hold_relatch_rad = Fin (1 / 20),
      pc_position_lower = Some (Row [- 2]), pc_position_upper = Some (Row [2]),
      pc_velocity_limits = Some (Row [2]), pc_acceleration_limits = Some (Row [8]), pc_cartesian_kp_min = None\<rparr>"

definition demo_policy :: ExecutionPolicy where
  "demo_policy =
     \<lparr>command_rate_hz = 250, state_timeout_sec = 1, health_timeout_sec = 1, start_pos_tol_rad = Fin (1 / 10),
      abort_pos_err_rad = Fin (1 / 2), hold_relatch_rad = Fin (1 / 20), torque_limits = [9],
      position_lower = Some [- 2], position_upper = Some [2], velocity_limits = Some [2],
      acceleration_limits = Some [8], cartesian_kp_min = None\<rparr>"

definition demo_plan :: plan where
  "demo_plan =
     \<lparr>pl_times = [0, 1], pl_positions = [[0], [1]], pl_velocities = [[1], [1]], pl_kp = [100], pl_kd = [1],
      pl_cartesian_poses = None, pl_cartesian = None\<rparr>"

lemma demo_policy_built: "mk_ExecutionPolicy demo_config (Row [9]) = Inr demo_policy"
  by (simp add: mk_ExecutionPolicy_def demo_config_def demo_policy_def pos_scalar_def validate_torque_limits_def
      opt_limits_def limit_vector_def)

lemma demo_curve:
  "bounds \<lparr>jt_times = [0, 1], jt_positions = [[0], [1]], jt_velocities = Some [[1], [1]]\<rparr> =
     \<lparr>b_q_min = [0], b_q_max = [1], b_qd_abs_max = [1], b_qdd_abs_max = [0]\<rparr>"
  by (simp add: bounds_def bounds_step_def num_joints_def mat_cols_def zeros_def seg_at_def seg_cubic_def seg_q_cands_def
      seg_cand_def seg_root_def q_at_def qd_at_def seg_qd_max_def seg_qdd_max_def tiny_eps Let_def eps300_pos less_imp_le not_less)

lemma demo_plan_admitted: "plan_error demo_policy demo_plan [0] 1 None = Inr None"
proof -
  have env: "envelope demo_policy (Some [[0]]) = Some ([- 2], [2])"
    by (simp add: envelope_def demo_policy_def rectangular_def col_fold_def)
  have 1: "first_refusal (shape_checks demo_plan 1) = Inr None"
    by (simp add: shape_checks_def demo_plan_def rectangular_def same_shape_def)
  have 2: "first_refusal (sample_checks demo_policy demo_plan (Some ([- 2], [2]))) = Inr None"
    by (simp add: sample_checks_def demo_plan_def demo_policy_def when_limits_def orr_def np_any2_def np_any1_def bcast2_def
        widen_def ENVELOPE_TOL_def row_rates_def vdivs_def vsub_def vabs_def)
  have 3: "mk_JointTrajectory (pl_times demo_plan) (pl_positions demo_plan) (Some (pl_velocities demo_plan)) =
      Inr \<lparr>jt_times = [0, 1], jt_positions = [[0], [1]], jt_velocities = Some [[1], [1]]\<rparr>"
    by (simp add: demo_plan_def mk_JointTrajectory_def rectangular_def mat_cols_def same_shape_def)
  have 4: "first_refusal (curve_checks demo_policy \<lparr>b_q_min = [0], b_q_max = [1], b_qd_abs_max = [1], b_qdd_abs_max = [0]\<rparr>
      (Some ([- 2], [2]))) = Inr None"
    by (simp add: curve_checks_def demo_policy_def when_limits_def orr_def np_any1_def bcast2_def widen_def ENVELOPE_TOL_def)
  have 5: "first_refusal (law_checks demo_policy demo_plan 1) = Inr None"
    by (simp add: law_checks_def demo_plan_def)
  have 6: "start_error demo_policy (hd (pl_positions demo_plan)) [0] = Inr None"
    by (simp add: start_error_def demo_plan_def demo_policy_def np_sub_def bcast2_def vabs_def)
  show ?thesis unfolding plan_error_def option.case env 1 2 3 demo_curve 5 6 bindr_Inr Let_def 4 by simp
qed

theorem envelope_never_further_out_witness:
  "\<exists>lo hi. envelope demo_policy (Some [[3]]) = Some (lo, hi) \<and> hi ! 0 \<in> {2, 3} \<and> 3 \<le> hi ! 0 \<and> lo ! 0 \<le> - 2"
proof -
  have "position_lower demo_policy = Some [- 2]" "position_upper demo_policy = Some [2]"
    by (simp_all add: demo_policy_def)
  from envelope_never_further_out [OF demo_policy_built this, of "[[3]]"]
  show ?thesis by (auto simp: rectangular_def)
qed

theorem plan_certifies_curve_witness:
  "\<exists>jt pt. mk_JointTrajectory (pl_times demo_plan) (pl_positions demo_plan) (Some (pl_velocities demo_plan)) = Inr jt \<and>
     sample_at jt (Fin (1 / 3)) = Inr pt \<and> point_keeps_policy demo_policy (Some [[0]]) (Fin (1 / 10 ^ 8 + 1 / 10 ^ 99)) pt 0 \<and>
     fabs (hd (pl_positions demo_plan) ! 0 - 0) \<le> start_pos_tol_rad demo_policy"
proof -
  have "length (torque_limits demo_policy) = 1" by (simp add: demo_policy_def)
  moreover have "\<forall>i. Suc i < length (pl_times demo_plan) \<longrightarrow>
      pl_times demo_plan ! i + Fin (1 / 10 ^ 200) \<le> pl_times demo_plan ! Suc i"
    by (simp add: demo_plan_def less_Suc_eq)
  ultimately show ?thesis
    using plan_certifies_curve [OF demo_policy_built demo_plan_admitted] by fastforce
qed

theorem build_policy_only_narrows_witness:
  "\<exists>p lo hi. build_execution_policy (Some demo_config) (Row [9]) (Some ([- 3], [3])) = Inr (Some p) \<and>
     position_lower p = Some lo \<and> position_upper p = Some hi \<and> - 3 \<le> lo ! 0 \<and> lo ! 0 < hi ! 0 \<and> hi ! 0 \<le> 3"
proof -
  have "build_execution_policy (Some demo_config) (Row [9]) (Some ([- 3], [3])) = Inr (Some demo_policy)"
    using demo_policy_built
    by (simp add: build_execution_policy_def demo_config_def demo_policy_def orr_def np_any1_def bcast2_def)
  from build_policy_only_narrows [OF this] this show ?thesis by (force simp: demo_policy_def)
qed

end
