(* ===== verification/Contract.thy ===== *)
theory Contract
  imports Motion Impedance
begin

text \<open>
  \<^verbatim>\<open>arm_control/execution/contract.py\<close>: the values an application, the supervisor and every transport
  agree on (stamps, identity, capabilities, observation, authority, requests, receipts) and the pure
  checks on them.

  A dataclass with a \<^verbatim>\<open>__post_init__\<close> is a record and a constructor function \<open>mk_\<dots>\<close> that may
  fail. Python's \<^verbatim>\<open>isinstance\<close> checks hold by typing. A refusal is the returned text (its fixed
  part); the empty text admits, as in the code.
\<close>

definition CONTRACT_VERSION :: int where
  "CONTRACT_VERSION = 1"

subsection \<open>Identifiers and vectors\<close>

definition char_between :: "char \<Rightarrow> char \<Rightarrow> char \<Rightarrow> bool" where
  "char_between lo c hi \<longleftrightarrow> (of_char lo :: nat) \<le> of_char c \<and> (of_char c :: nat) \<le> of_char hi"

definition instance_char :: "char \<Rightarrow> bool" where
  "instance_char c \<longleftrightarrow> char_between CHR ''A'' c CHR ''Z'' \<or> char_between CHR ''a'' c CHR ''z'' \<or>
     char_between CHR ''0'' c CHR ''9'' \<or> c \<in> set ''_.-''"

definition id_char :: "char \<Rightarrow> bool" where
  "id_char c \<longleftrightarrow> instance_char c \<or> c = CHR '':''"

definition id_ok :: "string \<Rightarrow> bool" where
  "id_ok s \<longleftrightarrow> 1 \<le> length s \<and> length s \<le> 64 \<and> list_all id_char s"

definition instance_ok :: "string \<Rightarrow> bool" where
  "instance_ok s \<longleftrightarrow> 1 \<le> length s \<and> length s \<le> 64 \<and> list_all instance_char s"

definition check_identifier :: "string \<Rightarrow> string \<Rightarrow> string result" where
  "check_identifier name value =
     (if \<not> id_ok value then Inl (ValueError (name @ '' must be 1-64 chars of [A-Za-z0-9_.:-]'')) else Inr value)"

definition vector :: "string \<Rightarrow> vec option \<Rightarrow> nat option \<Rightarrow> vec option result" where
  "vector name value n =
     (case value of None \<Rightarrow> Inr None
      | Some arr \<Rightarrow>
          if n \<noteq> None \<and> n \<noteq> Some (length arr) then Inl (ValueError (name @ '' must have n values''))
          else if \<not> all_finite arr then Inl (ValueError (name @ '' must be finite''))
          else Inr (Some arr))"

subsection \<open>Time\<close>

datatype Clock = RT_HOST | PC | ROBOT | EXECUTION

record Stamp =
  st_ns :: int
  st_clock :: Clock
  st_domain :: string

definition mk_Stamp :: "int \<Rightarrow> Clock \<Rightarrow> string \<Rightarrow> Stamp result" where
  "mk_Stamp ns clock domain =
     (if ns < 0 then Inl (ValueError ''Stamp.ns must be a non-negative int'')
      else Inr \<lparr>st_ns = ns, st_clock = clock, st_domain = domain\<rparr>)"

definition elapsed :: "Stamp \<Rightarrow> Stamp \<Rightarrow> fl result" where
  "elapsed later earlier =
     (if st_clock later \<noteq> st_clock earlier \<or> st_domain later = [] \<or> st_domain later \<noteq> st_domain earlier
      then Inl (ValueError ''stamps on different or unattested clocks'')
      else Inr (Fin (of_int (st_ns later - st_ns earlier) * (1 / 10 ^ 9))))"

subsection \<open>Identity and capability\<close>

record RobotIdentity =
  ri_instance_id :: string
  ri_joint_names :: "string list"
  ri_backend :: string
  ri_model_id :: string

definition mk_RobotIdentity :: "string \<Rightarrow> string list \<Rightarrow> string \<Rightarrow> string \<Rightarrow> RobotIdentity result" where
  "mk_RobotIdentity instance_id joint_names backend model_id =
     (if \<not> instance_ok instance_id then Inl (ValueError ''instance_id must be 1-64 chars of [A-Za-z0-9_.-]'')
      else if joint_names = [] \<or> card (set joint_names) \<noteq> length joint_names \<or> \<not> list_all (\<lambda>j. j \<noteq> []) joint_names
      then Inl (ValueError ''joint_names must be distinct non-empty names'')
      else Inr \<lparr>ri_instance_id = instance_id, ri_joint_names = joint_names, ri_backend = backend, ri_model_id = model_id\<rparr>)"

definition ri_n :: "RobotIdentity \<Rightarrow> nat" where
  "ri_n r = length (ri_joint_names r)"

record Capabilities =
  cap_contract_version :: int
  cap_profiles :: "string list"
  cap_protocol_version :: "int option"
  cap_pose_hold :: bool
  cap_observer :: bool
  cap_rt_setup :: string

definition cap_refusal :: "Capabilities \<Rightarrow> string \<Rightarrow> string" where
  "cap_refusal c profile =
     (if cap_contract_version c \<noteq> CONTRACT_VERSION then ''backend implements another contract version''
      else if profile \<notin> set (cap_profiles c) then ''controller profile not offered''
      else '''')"

subsection \<open>Observation\<close>

datatype Validity = VALID | STALE | MISSING | INVALID

record RobotState =
  rs_instance_id :: string
  rs_validity :: Validity
  rs_reason :: string
  rs_q :: "vec option"
  rs_dq :: "vec option"
  rs_tau :: "vec option"
  rs_selected_q :: "vec option"
  rs_selected_qd :: "vec option"
  rs_output_tau :: "vec option"
  rs_wrench :: "vec option"
  rs_source :: "Stamp option"
  rs_received :: "Stamp option"
  rs_state_seq :: "int option"
  rs_last_command_seq :: "int option"

definition mk_RobotState :: "RobotState \<Rightarrow> RobotState result" where
  "mk_RobotState s =
     (if rs_validity s \<noteq> VALID then
        (if list_ex (\<lambda>a. a \<noteq> None) [rs_q s, rs_dq s, rs_tau s, rs_selected_q s, rs_selected_qd s, rs_output_tau s, rs_wrench s]
         then Inl (ValueError ''observation carries no values'')
         else if rs_reason s = [] then Inl (ValueError ''observation needs a reason'')
         else Inr s)
      else case rs_q s of
        None \<Rightarrow> Inl (ValueError ''a valid observation needs q, source and received stamps'')
      | Some q \<Rightarrow>
          if rs_source s = None \<or> rs_received s = None
          then Inl (ValueError ''a valid observation needs q, source and received stamps'')
          else bindr (vector ''q'' (Some q) None) (\<lambda>_.
            bindr (vector ''dq'' (rs_dq s) (Some (length q))) (\<lambda>_.
            bindr (vector ''tau'' (rs_tau s) (Some (length q))) (\<lambda>_.
            bindr (vector ''selected_q'' (rs_selected_q s) (Some (length q))) (\<lambda>_.
            bindr (vector ''selected_qd'' (rs_selected_qd s) (Some (length q))) (\<lambda>_.
            bindr (vector ''output_tau'' (rs_output_tau s) (Some (length q))) (\<lambda>_.
            bindr (vector ''wrench'' (rs_wrench s) (Some 6)) (\<lambda>_. Inr s))))))))"

subsection \<open>Ownership and lifecycle\<close>

datatype Lifecycle = DISCONNECTED | OBSERVING | CONNECTED | CLAIMED | ARMED | FAULTED_ROBOT

record Fault =
  f_code :: string
  f_text :: string
  f_source :: string
  f_arm_epoch :: "int option"

record Authority =
  au_lifecycle :: Lifecycle
  au_session :: "string option"
  au_arm_epoch :: int
  au_stop_epoch :: int
  au_fault :: "Fault option"
  au_holding :: "bool option"

definition mk_Authority :: "Authority \<Rightarrow> Authority result" where
  "mk_Authority a =
     (if (au_lifecycle a = FAULTED_ROBOT) \<noteq> (au_fault a \<noteq> None) then Inl (ValueError ''FAULTED and only FAULTED carries a fault'')
      else if au_lifecycle a \<in> {ARMED, FAULTED_ROBOT} \<and> au_arm_epoch a \<le> 0
      then Inl (ValueError ''an armed or faulted robot has an ARM generation'')
      else if au_holding a = Some True \<and> au_lifecycle a \<notin> {ARMED, FAULTED_ROBOT}
      then Inl (ValueError ''only an armed or faulted robot can be holding'')
      else Inr a)"

subsection \<open>Execution requests\<close>

record JointGains =
  g_kp :: vec
  g_kd :: vec

definition mk_JointGains :: "vec \<Rightarrow> vec \<Rightarrow> JointGains result" where
  "mk_JointGains kp kd =
     bindr (vector ''kp'' (Some kp) None) (\<lambda>_. bindr (vector ''kd'' (Some kd) None) (\<lambda>_.
       if length kd \<noteq> length kp \<or> list_ex (\<lambda>x. x < 0) kp \<or> list_ex (\<lambda>x. x < 0) kd
       then Inl (ValueError ''kp/kd must be matching non-negative vectors'')
       else Inr \<lparr>g_kp = kp, g_kd = kd\<rparr>))"

record Completion =
  co_vel_tol :: fl
  co_goal_q :: "vec option"
  co_residual_max :: "fl option"

definition mk_Completion :: "fl \<Rightarrow> vec option \<Rightarrow> fl option \<Rightarrow> Completion result" where
  "mk_Completion vel_tol goal_q residual_max =
     (if \<not> (isfinite vel_tol \<and> vel_tol > 0) then Inl (ValueError ''vel_tol must be finite and positive'')
      else if (goal_q = None) \<noteq> (residual_max = None) then Inl (ValueError ''goal_q and residual_max come together'')
      else if residual_max \<noteq> None \<and> \<not> (isfinite (the residual_max) \<and> the residual_max > 0)
      then Inl (ValueError ''residual_max must be finite and positive'')
      else bindr (vector ''goal_q'' goal_q None) (\<lambda>g.
        Inr \<lparr>co_vel_tol = vel_tol, co_goal_q = g, co_residual_max = residual_max\<rparr>))"

record CartesianImpedance =
  ci_task_R :: mat
  ci_kc :: vec
  ci_dc :: vec

text \<open>\<^verbatim>\<open>np.reshape(values[:9], (3, 3))\<close>.\<close>

definition reshape33 :: "vec \<Rightarrow> mat" where
  "reshape33 v = [take 3 v, take 3 (drop 3 v), take 3 (drop 6 v)]"

definition mk_CartesianImpedance :: "arr \<Rightarrow> vec \<Rightarrow> vec \<Rightarrow> CartesianImpedance result" where
  "mk_CartesianImpedance task_R kc dc =
     bindr (cartesian_values \<lparr>cs_frame = Some ''base'', cs_task_R = Some task_R, cs_kc = Some (Row kc),
         cs_dc = Some (Row dc), cs_other = []\<rparr>) (\<lambda>values.
       Inr \<lparr>ci_task_R = reshape33 (take 9 values), ci_kc = take 6 (drop 9 values), ci_dc = take 6 (drop 15 values)\<rparr>)"

definition ci_spec :: "CartesianImpedance \<Rightarrow> cartesian_spec" where
  "ci_spec c = \<lparr>cs_frame = Some ''base'', cs_task_R = Some (Rows (ci_task_R c)), cs_kc = Some (Row (ci_kc c)),
     cs_dc = Some (Row (ci_dc c)), cs_other = []\<rparr>"

datatype Start = ON_ADMIT | ON_RELEASE

record TrajectoryRequest =
  tr_request_id :: string
  tr_instance_id :: string
  tr_joint_names :: "string list"
  tr_trajectory :: JointTrajectory
  tr_profile :: string
  tr_gains :: "JointGains option"
  tr_model_token :: "string option"
  tr_start :: Start
  tr_admit_by :: "Stamp option"
  tr_completion :: "Completion option"
  tr_supersedes :: "string option"
  tr_cartesian :: "CartesianImpedance option"

definition traj_finite :: "JointTrajectory \<Rightarrow> bool" where
  "traj_finite jt \<longleftrightarrow> all_finite (jt_times jt) \<and> list_all all_finite (jt_positions jt) \<and>
     (case jt_velocities jt of None \<Rightarrow> True | Some v \<Rightarrow> list_all all_finite v)"

definition mk_TrajectoryRequest :: "TrajectoryRequest \<Rightarrow> TrajectoryRequest result" where
  "mk_TrajectoryRequest r =
     bindr (check_identifier ''request_id'' (tr_request_id r)) (\<lambda>_.
     bindr (ensure ((tr_profile r = ''cartesian_impedance'') = (tr_cartesian r \<noteq> None))
       (ValueError ''the cartesian_impedance profile and its CartesianImpedance settings come together'')) (\<lambda>_.
     bindr (case tr_supersedes r of None \<Rightarrow> Inr [] | Some s \<Rightarrow> check_identifier ''supersedes'' s) (\<lambda>_.
     let n = num_joints (tr_trajectory r) in
     if length (tr_joint_names r) \<noteq> n then Inl (ValueError ''joint_names must name every trajectory column'')
     else if \<not> traj_finite (tr_trajectory r) then Inl (ValueError ''trajectory must be finite'')
     else if (case tr_gains r of None \<Rightarrow> False | Some g \<Rightarrow> length (g_kp g) \<noteq> n)
     then Inl (ValueError ''gains must cover every joint'')
     else if (case tr_completion r of None \<Rightarrow> False
              | Some c \<Rightarrow> (case co_goal_q c of None \<Rightarrow> False | Some g \<Rightarrow> length g \<noteq> n))
     then Inl (ValueError ''completion goal_q must cover every joint'')
     else if (case tr_admit_by r of None \<Rightarrow> False | Some s \<Rightarrow> st_clock s \<noteq> PC \<or> st_domain s = [])
     then Inl (ValueError ''admit_by must be on the attested PC monotonic clock'')
     else Inr r)))"

definition expired :: "TrajectoryRequest \<Rightarrow> Stamp \<Rightarrow> bool result" where
  "expired r now =
     (case tr_admit_by r of None \<Rightarrow> Inr False
      | Some deadline \<Rightarrow> bindr (elapsed now deadline) (\<lambda>d. Inr (d > 0)))"

definition OWNING :: "Lifecycle list" where
  "OWNING = [CLAIMED, ARMED]"

definition owner_refusal :: "Authority \<Rightarrow> string" where
  "owner_refusal authority =
     (if au_lifecycle authority \<notin> set OWNING then ''admission needs a claimed owner'' else '''')"

definition admission_refusal ::
    "TrajectoryRequest \<Rightarrow> RobotIdentity \<Rightarrow> Capabilities \<Rightarrow> Authority \<Rightarrow> Stamp \<Rightarrow> string option \<Rightarrow> string result" where
  "admission_refusal request identity capabilities authority now model_token =
     (if tr_instance_id request \<noteq> ri_instance_id identity then Inr ''request is for another robot''
      else if tr_joint_names request \<noteq> ri_joint_names identity
      then Inr ''joint order differs from the robot's canonical order''
      else let refused = cap_refusal capabilities (tr_profile request) in
      if refused \<noteq> [] then Inr refused
      else if model_token \<noteq> None \<and> tr_model_token request \<noteq> model_token then Inr ''planned against another model''
      else case tr_admit_by request of
        None \<Rightarrow> Inr (owner_refusal authority)
      | Some deadline \<Rightarrow>
          if st_domain deadline \<noteq> st_domain now \<or> st_clock now \<noteq> PC then Inr ''admit_by is on another clock''
          else bindr (expired request now) (\<lambda>late.
            if late then Inr ''admit_by already passed'' else Inr (owner_refusal authority)))"

definition selection_refusal :: "Authority \<Rightarrow> string" where
  "selection_refusal authority = (if au_lifecycle authority \<noteq> ARMED then ''robot is not armed'' else '''')"

subsection \<open>Execution status\<close>

datatype Phase = REQUESTED | ADMITTED | SELECTED | SENT | APPLIED
  | COMPLETED | REJECTED | SUPERSEDED | EXPIRED | CANCELLED | FAULTED

definition CHAIN :: "Phase list" where
  "CHAIN = [REQUESTED, ADMITTED, SELECTED, SENT, APPLIED]"

fun terminal_phase :: "Phase \<Rightarrow> bool" where
  "terminal_phase p \<longleftrightarrow> p \<in> {COMPLETED, REJECTED, SUPERSEDED, EXPIRED, CANCELLED, FAULTED}"

text \<open>The dictionary of what each terminal outcome may follow; \<open>None\<close> for a phase of the chain.\<close>

fun ENDS :: "Phase \<Rightarrow> Phase set option" where
  "ENDS REJECTED = Some {REQUESTED, ADMITTED}"
| "ENDS SUPERSEDED = Some {ADMITTED}"
| "ENDS EXPIRED = Some {ADMITTED}"
| "ENDS CANCELLED = Some {ADMITTED, SELECTED, SENT, APPLIED}"
| "ENDS FAULTED = Some {SELECTED, SENT, APPLIED}"
| "ENDS COMPLETED = Some {APPLIED}"
| "ENDS _ = None"

fun chain_index :: "Phase \<Rightarrow> nat result" where
  "chain_index REQUESTED = Inr 0"
| "chain_index ADMITTED = Inr 1"
| "chain_index SELECTED = Inr 2"
| "chain_index SENT = Inr 3"
| "chain_index APPLIED = Inr 4"
| "chain_index _ = Inl (ValueError ''tuple.index(x): x not in tuple'')"

datatype evidence = EvInt int | EvFloat fl | EvStr string

record Receipt =
  r_execution_id :: string
  r_request_id :: string
  r_instance_id :: string
  r_phase :: Phase
  r_at :: Stamp
  r_reason :: string
  r_evidence :: "(string \<times> evidence) list"

definition mk_Receipt :: "Receipt \<Rightarrow> Receipt result" where
  "mk_Receipt r =
     bindr (check_identifier ''execution_id'' (r_execution_id r)) (\<lambda>_.
     bindr (check_identifier ''request_id'' (r_request_id r)) (\<lambda>_.
     if 16 < length (r_evidence r) then Inl (ValueError ''evidence is bounded'')
     else if ENDS (r_phase r) \<noteq> None \<and> r_phase r \<noteq> COMPLETED \<and> r_reason r = []
     then Inl (ValueError ''receipt needs a reason'')
     else Inr r))"

record ExecutionStatus =
  es_execution_id :: string
  es_request_id :: string
  es_instance_id :: string
  es_phase :: Phase
  es_reached :: "(Phase \<times> Stamp) list"
  es_reason :: string

definition es_terminal :: "ExecutionStatus \<Rightarrow> bool" where
  "es_terminal s = terminal_phase (es_phase s)"

definition es_ok :: "ExecutionStatus \<Rightarrow> bool option" where
  "es_ok s = (if es_terminal s then Some (es_phase s = COMPLETED) else None)"

definition es_start :: "Receipt \<Rightarrow> ExecutionStatus result" where
  "es_start r =
     (if r_phase r \<notin> {REQUESTED, ADMITTED, REJECTED} then Inl (IllegalTransition ''an execution begins requested/admitted/rejected'')
      else Inr \<lparr>es_execution_id = r_execution_id r, es_request_id = r_request_id r, es_instance_id = r_instance_id r,
                es_phase = r_phase r, es_reached = [(r_phase r, r_at r)], es_reason = r_reason r\<rparr>)"

definition es_advance :: "ExecutionStatus \<Rightarrow> Receipt \<Rightarrow> ExecutionStatus" where
  "es_advance s r =
     s\<lparr>es_phase := r_phase r, es_reason := r_reason r, es_reached := dict_put (r_phase r) (r_at r) (es_reached s)\<rparr>"

definition es_apply :: "ExecutionStatus \<Rightarrow> Receipt \<Rightarrow> ExecutionStatus result" where
  "es_apply s r =
     (if (r_execution_id r, r_request_id r, r_instance_id r) \<noteq> (es_execution_id s, es_request_id s, es_instance_id s)
      then Inl (IllegalTransition ''receipt belongs to another execution'')
      else if r_phase r \<in> fst ` set (es_reached s) then Inr s
      else if es_terminal s then Inl (IllegalTransition ''is already terminal'')
      else case ENDS (r_phase r) of
        Some from \<Rightarrow>
          if es_phase s \<notin> from then Inl (IllegalTransition ''cannot follow'')
          else Inr (es_advance s r)
      | None \<Rightarrow>
          bindr (chain_index (r_phase r)) (\<lambda>i. bindr (chain_index (es_phase s)) (\<lambda>k.
            if i \<le> k then Inl (IllegalTransition ''cannot follow'') else Inr (es_advance s r))))"

definition supersession_refusal :: "TrajectoryRequest \<Rightarrow> ExecutionStatus option \<Rightarrow> string" where
  "supersession_refusal request current =
     (let live = (case current of None \<Rightarrow> False | Some c \<Rightarrow> \<not> es_terminal c) in
      case tr_supersedes request of
        Some target \<Rightarrow>
          if \<not> live \<or> es_execution_id (the current) \<noteq> target then ''is not this robot's pending execution''
          else if es_phase (the current) \<noteq> ADMITTED then ''only admitted is replaceable''
          else ''''
      | None \<Rightarrow>
          if live then
            (if es_phase (the current) = ADMITTED then ''name it in supersedes to replace it'' else ''cancel it first'')
          else '''')"

record CancelRequest =
  cr_execution_id :: string
  cr_reason :: string

definition mk_CancelRequest :: "string \<Rightarrow> string \<Rightarrow> CancelRequest result" where
  "mk_CancelRequest execution_id reason =
     bindr (check_identifier ''execution_id'' execution_id) (\<lambda>_. Inr \<lparr>cr_execution_id = execution_id, cr_reason = reason\<rparr>)"

end
