(* ===== verification/Receipts.thy ===== *)
theory Receipts
  imports Contract
begin

text \<open>
  The execution status as a state machine over receipts: what every reachable status satisfies,
  why receipts may be delivered more than once, and when an execution may be replaced.
\<close>

subsection \<open>Logs that absorb redelivery\<close>

text \<open>
  The interface a receiver of at-least-once messages relies on: an accepted message counts as seen,
  stays seen, and a seen message changes nothing.
\<close>

inductive delivered :: "'r list \<Rightarrow> 'r list \<Rightarrow> bool" where
  delivered_nil: "delivered [] []"
| delivered_new: "delivered xs ys \<Longrightarrow> delivered (xs @ [r]) (ys @ [r])"
| delivered_again: "delivered xs ys \<Longrightarrow> r \<in> set ys \<Longrightarrow> delivered xs (ys @ [r])"

locale absorbing_log =
  fixes step :: "'s \<Rightarrow> 'r \<Rightarrow> 's result"
    and seen :: "'s \<Rightarrow> 'r \<Rightarrow> bool"
  assumes absorb: "step s r = Inr t \<Longrightarrow> seen t r"
    and keep: "seen s q \<Longrightarrow> step s r = Inr t \<Longrightarrow> seen t q"
    and noop: "seen s r \<Longrightarrow> step s r = Inr s"
begin

lemma seen_runs: "runs step s rs = Inr t \<Longrightarrow> seen s q \<Longrightarrow> seen t q"
  by (erule runs_invariant [where I = "\<lambda>s. seen s q"]) (auto intro: keep)

lemma seen_all: "runs step s rs = Inr t \<Longrightarrow> q \<in> set rs \<Longrightarrow> seen t q"
proof (induction rs arbitrary: s)
  case (Cons r rs)
  from Cons.prems obtain u where u: "step s r = Inr u" "runs step u rs = Inr t" by auto
  with Cons show ?case using absorb [OF u(1)] seen_runs [OF u(2)] by auto
qed simp

lemma redelivery: "delivered xs ys \<Longrightarrow> runs step s xs = Inr t \<Longrightarrow> runs step s ys = Inr t"
proof (induction arbitrary: t rule: delivered.induct)
  case (delivered_new xs ys r)
  then show ?case by (auto simp: runs_append)
next
  case (delivered_again xs ys r)
  then have "runs step s ys = Inr t" by simp
  with seen_all [OF this] delivered_again.hyps(2) show ?case by (simp add: runs_append noop)
qed simp

end

subsection \<open>Well-formed statuses\<close>

definition reached_set :: "ExecutionStatus \<Rightarrow> Phase set" where
  "reached_set s = fst ` set (es_reached s)"

text \<open>The position of a phase in the chain; every terminal outcome counts as its end.\<close>

definition rank :: "Phase \<Rightarrow> nat" where
  "rank p = (case chain_index p of Inr i \<Rightarrow> i | Inl _ \<Rightarrow> 5)"

definition status_inv :: "ExecutionStatus \<Rightarrow> bool" where
  "status_inv s \<longleftrightarrow>
     distinct (map fst (es_reached s)) \<and> es_phase s \<in> reached_set s \<and>
     (\<forall>p \<in> reached_set s. rank p \<le> rank (es_phase s)) \<and>
     (\<forall>p \<in> reached_set s. terminal_phase p \<longrightarrow> p = es_phase s) \<and>
     (\<forall>from. ENDS (es_phase s) = Some from \<longrightarrow>
        (\<exists>p \<in> from. p \<in> reached_set s \<and> (\<forall>q \<in> reached_set s. q = es_phase s \<or> rank q \<le> rank p))
        \<or> es_phase s = REJECTED \<and> reached_set s = {REJECTED})"

definition es_seen :: "ExecutionStatus \<Rightarrow> Receipt \<Rightarrow> bool" where
  "es_seen s r \<longleftrightarrow>
     (r_execution_id r, r_request_id r, r_instance_id r) = (es_execution_id s, es_request_id s, es_instance_id s) \<and>
     r_phase r \<in> reached_set s"

lemma reached_advance: "reached_set (es_advance s r) = insert (r_phase r) (reached_set s)"
  using keys_dict_put [of "r_phase r" "r_at r" "es_reached s"] by (simp add: reached_set_def es_advance_def)

lemma ENDS_terminal: "ENDS p \<noteq> None \<longleftrightarrow> terminal_phase p"
  by (cases p) auto

lemma rank_simps [simp]:
  "rank REQUESTED = 0" "rank ADMITTED = 1" "rank SELECTED = 2" "rank SENT = 3" "rank APPLIED = 4"
  by (simp_all add: rank_def)

lemma rank_terminal: "terminal_phase p \<Longrightarrow> rank p = 5"
  by (cases p) (auto simp: rank_def)

lemma chain_rank: "\<not> terminal_phase p \<Longrightarrow> chain_index p = Inr (rank p) \<and> rank p < 5"
  by (cases p) (auto simp: rank_def)

lemma terminal_simps [simp]:
  "terminal_phase COMPLETED" "terminal_phase REJECTED" "terminal_phase SUPERSEDED" "terminal_phase EXPIRED"
  "terminal_phase CANCELLED" "terminal_phase FAULTED" "\<not> terminal_phase REQUESTED" "\<not> terminal_phase ADMITTED"
  "\<not> terminal_phase SELECTED" "\<not> terminal_phase SENT" "\<not> terminal_phase APPLIED"
  by simp_all

declare terminal_phase.simps [simp del]

lemma inv_terminal: "status_inv s \<Longrightarrow> terminal_phase p \<Longrightarrow> p \<in> reached_set s \<longleftrightarrow> es_phase s = p"
  unfolding status_inv_def by blast

lemma es_apply_cases:
  assumes "es_apply s r = Inr t"
  obtains (again) "es_seen s r" "t = s"
  | (forward) "\<not> es_terminal s" "t = es_advance s r" "r_phase r \<notin> reached_set s" "\<not> terminal_phase (r_phase r)"
      "rank (es_phase s) < rank (r_phase r)"
  | (ends) pre where "\<not> es_terminal s" "t = es_advance s r" "r_phase r \<notin> reached_set s" "terminal_phase (r_phase r)"
      "ENDS (r_phase r) = Some pre" "es_phase s \<in> pre"
proof -
  consider "es_seen s r" "t = s" | "r_phase r \<notin> reached_set s" "\<not> es_terminal s"
    using assms by (auto simp: es_apply_def es_seen_def reached_set_def split: if_splits)
  then show thesis
  proof cases
    case 1
    then show ?thesis by (rule again)
  next
    case 2
    show ?thesis
    proof (cases "ENDS (r_phase r)")
      case None
      then have n: "\<not> terminal_phase (r_phase r)" "\<not> terminal_phase (es_phase s)"
        using ENDS_terminal [of "r_phase r"] 2(2) by (auto simp: es_terminal_def)
      show ?thesis
        using assms 2 None n chain_rank [OF n(1)] chain_rank [OF n(2)]
        by (intro forward) (auto simp: es_apply_def reached_set_def split: if_splits)
    next
      case (Some pre)
      with assms 2 ENDS_terminal [of "r_phase r"] show ?thesis
        by (intro ends) (auto simp: es_apply_def reached_set_def split: if_splits)
    qed
  qed
qed

lemma es_seen_apply: "es_seen s r \<Longrightarrow> es_apply s r = Inr s"
  by (simp add: es_apply_def es_seen_def reached_set_def)

lemma es_apply_ids: "es_apply s r = Inr t \<Longrightarrow>
   (r_execution_id r, r_request_id r, r_instance_id r) = (es_execution_id s, es_request_id s, es_instance_id s) \<and>
   (es_execution_id t, es_request_id t, es_instance_id t) = (es_execution_id s, es_request_id s, es_instance_id s)"
  by (auto simp: es_apply_def es_advance_def split: if_splits option.splits)

lemma es_apply_reached: "es_apply s r = Inr t \<Longrightarrow> reached_set t = insert (r_phase r) (reached_set s)"
  by (erule es_apply_cases) (auto simp: reached_advance es_seen_def)

interpretation status_log: absorbing_log es_apply es_seen
  by unfold_locales (auto simp: es_seen_def es_seen_apply dest: es_apply_ids es_apply_reached)

lemma es_start_inv: "es_start r = Inr s \<Longrightarrow> status_inv s"
  by (auto simp: es_start_def status_inv_def reached_set_def rank_def split: if_splits)

lemma es_advance_simps [simp]:
  "es_phase (es_advance s r) = r_phase r" "es_reason (es_advance s r) = r_reason r"
  by (simp_all add: es_advance_def)

lemma es_advance_distinct:
  "distinct (map fst (es_reached s)) \<Longrightarrow> distinct (map fst (es_reached (es_advance s r)))"
  by (simp add: es_advance_def distinct_dict_put)

lemma es_apply_inv:
  assumes "es_apply s r = Inr t" "status_inv s"
  shows "status_inv t"
  using assms(1)
proof (cases rule: es_apply_cases)
  case again
  with assms show ?thesis by simp
next
  case forward
  then have "\<forall>p \<in> reached_set s. rank p \<le> rank (r_phase r) \<and> \<not> terminal_phase p"
    using assms(2) by (force simp: status_inv_def es_terminal_def)
  with forward assms(2) ENDS_terminal [of "r_phase r"] show ?thesis
    by (auto simp: status_inv_def reached_advance es_advance_distinct)
next
  case (ends pre)
  then have old: "\<forall>p \<in> reached_set s. rank p \<le> rank (es_phase s)" "\<forall>p \<in> reached_set s. \<not> terminal_phase p"
    using assms(2) by (auto simp: status_inv_def es_terminal_def)
  have lt: "rank (es_phase s) < 5" using chain_rank ends(1) by (auto simp: es_terminal_def)
  have inv: "distinct (map fst (es_reached s))" "es_phase s \<in> reached_set s"
    using assms(2) by (simp_all add: status_inv_def)
  have ph: "es_phase t = r_phase r" "reached_set t = insert (r_phase r) (reached_set s)"
    using ends(2) by (simp_all add: reached_advance)
  show ?thesis
    unfolding status_inv_def ph ends(5)
  proof (intro conjI)
    show "distinct (map fst (es_reached t))" using inv(1) ends(2) by (simp add: es_advance_distinct)
    show "\<forall>p \<in> insert (r_phase r) (reached_set s). rank p \<le> rank (r_phase r)"
      using old(1) lt rank_terminal [OF ends(4)] by auto
    show "\<forall>p \<in> insert (r_phase r) (reached_set s). terminal_phase p \<longrightarrow> p = r_phase r" using old(2) by auto
  qed (use old(1) inv(2) ends(6) in auto)
qed

text \<open>A status of an execution: the fold of its receipts, the first of which starts it.\<close>

fun status_of :: "Receipt list \<Rightarrow> ExecutionStatus result" where
  "status_of [] = Inl (ValueError ''no receipt'')"
| "status_of (r # rs) = bindr (es_start r) (\<lambda>s. runs es_apply s rs)"

lemma status_of_inv: "status_of rs = Inr s \<Longrightarrow> status_inv s"
  by (cases rs) (auto intro: es_start_inv es_apply_inv elim!: runs_invariant)


subsection \<open>Properties\<close>

text \<open>
  C12: how far an execution got decides how it may end. Over every sequence of receipts the status
  accepts: a completed execution was applied first; one that ended superseded, expired or rejected
  was never selected, sent or applied; one that faulted had been selected, sent or applied; no two
  terminal phases are ever reached; and while it is live no reached phase lies ahead of the current one.
\<close>

theorem status_history:
  assumes "status_of rs = Inr s"
  shows "(COMPLETED \<in> reached_set s \<longrightarrow> APPLIED \<in> reached_set s) \<and>
     (es_phase s \<in> {SUPERSEDED, EXPIRED, REJECTED} \<longrightarrow> reached_set s \<inter> {SELECTED, SENT, APPLIED} = {}) \<and>
     (es_phase s = FAULTED \<longrightarrow> reached_set s \<inter> {SELECTED, SENT, APPLIED} \<noteq> {}) \<and>
     (\<forall>p \<in> reached_set s. terminal_phase p \<longrightarrow> p = es_phase s) \<and>
     (\<not> es_terminal s \<longrightarrow> (\<forall>p \<in> reached_set s. rank p \<le> rank (es_phase s)))"
proof -
  have inv: "status_inv s" using assms by (rule status_of_inv)
  have one: "\<forall>p \<in> reached_set s. terminal_phase p \<longrightarrow> p = es_phase s" using inv by (simp add: status_inv_def)
  have "APPLIED \<in> reached_set s" if "COMPLETED \<in> reached_set s"
  proof -
    have "es_phase s = COMPLETED" using one that by auto
    then show ?thesis using inv by (auto simp: status_inv_def)
  qed
  moreover have "reached_set s \<inter> {SELECTED, SENT, APPLIED} = {}" if ph: "es_phase s \<in> {SUPERSEDED, EXPIRED, REJECTED}"
  proof -
    obtain pre where pre: "ENDS (es_phase s) = Some pre" "pre \<subseteq> {REQUESTED, ADMITTED}" using ph by auto
    then consider "\<exists>p \<in> pre. \<forall>q \<in> reached_set s. q = es_phase s \<or> rank q \<le> rank p" | "reached_set s = {REJECTED}"
      using inv unfolding status_inv_def by blast
    then have "\<forall>q \<in> reached_set s. q \<in> {SUPERSEDED, EXPIRED, REJECTED} \<or> rank q \<le> 1"
      using ph pre(2) by cases fastforce+
    then show ?thesis by fastforce
  qed
  moreover have "reached_set s \<inter> {SELECTED, SENT, APPLIED} \<noteq> {}" if "es_phase s = FAULTED"
    using that inv unfolding status_inv_def by auto
  ultimately show ?thesis using one inv by (auto simp: status_inv_def)
qed

text \<open>
  A terminal status is final and keeps its first evidence. After a terminal phase every receipt is
  either refused or leaves the status exactly as it was.
\<close>

theorem terminal_is_final:
  assumes "es_terminal s"
  shows "es_apply s r = Inr s \<or> (\<exists>why. es_apply s r = Inl (IllegalTransition why))"
  using assms by (auto simp: es_apply_def)

text \<open>
  C25: receipts may be delivered at least once. If a sequence of receipts folds to a status, every
  delivery of the same sequence in which any already delivered receipt is repeated any number of
  times folds to the same status, stamps and reason included.
\<close>

theorem redelivery_changes_nothing:
  assumes "status_of (r # rs) = Inr s" and "delivered rs ds"
  shows "status_of (r # ds) = Inr s \<and> (\<forall>q \<in> set (r # rs). es_apply s q = Inr s)"
proof -
  obtain s0 where s0: "es_start r = Inr s0" "runs es_apply s0 rs = Inr s" using assms(1) by auto
  have "runs es_apply s0 ds = Inr s" using status_log.redelivery [OF assms(2) s0(2)] .
  moreover have "es_seen s0 r" using s0(1) by (auto simp: es_start_def es_seen_def reached_set_def split: if_splits)
  then have "es_seen s q" if "q \<in> set (r # rs)" for q
    using that status_log.seen_runs [OF s0(2)] status_log.seen_all [OF s0(2)] by auto
  ultimately show ?thesis using s0(1) es_seen_apply by auto
qed

text \<open>
  Supersession replaces only what it may, and what it admits can be carried out. A request passes
  next to a live execution exactly when it names that execution and the execution is still only
  admitted; then the \<open>SUPERSEDED\<close> receipt is accepted by its status and ends it. With no live execution
  a request passes exactly when it names none.
\<close>

theorem supersession_is_explicit:
  assumes "status_of rs = Inr s"
    and "r_phase r = SUPERSEDED" and "r_execution_id r = es_execution_id s"
    and "r_request_id r = es_request_id s" and "r_instance_id r = es_instance_id s"
  shows "(supersession_refusal request (Some s) = [] \<longleftrightarrow>
       (if es_terminal s then tr_supersedes request = None
        else tr_supersedes request = Some (es_execution_id s) \<and> es_phase s = ADMITTED)) \<and>
     (supersession_refusal request None = [] \<longleftrightarrow> tr_supersedes request = None) \<and>
     (\<not> es_terminal s \<and> supersession_refusal request (Some s) = [] \<longrightarrow>
        (\<exists>t. es_apply s r = Inr t \<and> es_phase t = SUPERSEDED \<and> es_terminal t))"
proof -
  have new: "SUPERSEDED \<notin> reached_set s" if "\<not> es_terminal s"
    using inv_terminal [OF status_of_inv [OF assms(1)], of SUPERSEDED] that by (auto simp: es_terminal_def)
  have iff: "supersession_refusal request (Some s) = [] \<longleftrightarrow>
       (if es_terminal s then tr_supersedes request = None
        else tr_supersedes request = Some (es_execution_id s) \<and> es_phase s = ADMITTED)"
    by (cases "tr_supersedes request") (auto simp: supersession_refusal_def)
  have none: "supersession_refusal request None = [] \<longleftrightarrow> tr_supersedes request = None"
    by (cases "tr_supersedes request") (auto simp: supersession_refusal_def)
  have "es_apply s r = Inr (es_advance s r)" if "\<not> es_terminal s" "es_phase s = ADMITTED"
    using new [OF that(1)] that assms(2-5) by (simp add: es_apply_def reached_set_def)
  moreover have "es_terminal (es_advance s r)" using assms(2) by (simp add: es_terminal_def)
  ultimately show ?thesis using iff none assms(2) by (metis es_advance_simps(1))
qed

text \<open>
  An accepted execution can always be cancelled. Every status that was admitted and is not terminal
  accepts a \<open>CANCELLED\<close> receipt and ends cancelled with its reason; a status that has not been
  admitted yet, or has ended otherwise, refuses it.
\<close>

theorem cancel_accepted_iff:
  assumes "status_of rs = Inr s"
    and "r_phase r = CANCELLED" and "r_execution_id r = es_execution_id s"
    and "r_request_id r = es_request_id s" and "r_instance_id r = es_instance_id s"
  shows "((\<exists>t. es_apply s r = Inr t) \<longleftrightarrow> es_phase s \<in> {ADMITTED, SELECTED, SENT, APPLIED, CANCELLED}) \<and>
     (es_phase s \<in> {ADMITTED, SELECTED, SENT, APPLIED} \<longrightarrow>
       (\<exists>t. es_apply s r = Inr t \<and> es_phase t = CANCELLED \<and> es_ok t = Some False \<and> es_reason t = r_reason r))"
proof -
  have inv: "status_inv s" using assms(1) by (rule status_of_inv)
  then have reached: "CANCELLED \<in> reached_set s \<longleftrightarrow> es_phase s = CANCELLED"
    by (simp add: inv_terminal)
  consider "es_phase s = CANCELLED" | "es_terminal s" "es_phase s \<noteq> CANCELLED" | "es_phase s = REQUESTED"
    | "es_phase s \<in> {ADMITTED, SELECTED, SENT, APPLIED}"
    by (cases "es_phase s") (auto simp: es_terminal_def)
  then show ?thesis
  proof cases
    case 4
    then have "es_apply s r = Inr (es_advance s r)"
      using reached assms(2-5) by (auto simp: es_apply_def reached_set_def es_terminal_def)
    then show ?thesis using 4 assms(2) by (auto simp: es_ok_def es_terminal_def)
  qed (use reached assms(2-5) in \<open>auto simp: es_apply_def reached_set_def es_terminal_def\<close>)
qed

text \<open>
  Stamps of different clocks never mix. \<open>elapsed\<close> returns only for two stamps of one attested clock
  instance, and on those it is an additive, antisymmetric difference of nanoseconds.
\<close>

theorem elapsed_one_clock:
  "((\<exists>d. elapsed a b = Inr d) \<longleftrightarrow> st_clock a = st_clock b \<and> st_domain a = st_domain b \<and> st_domain a \<noteq> []) \<and>
   (elapsed a b = Inr d \<longrightarrow> elapsed b a = Inr (- d)) \<and>
   (elapsed a b = Inr d \<longrightarrow> elapsed b c = Inr e \<longrightarrow> elapsed a c = Inr (d + e))"
  by (auto simp: elapsed_def diff_divide_distrib split: if_splits)

text \<open>
  Admission always decides, and only for the right robot. For every constructible
  request \<open>admission_refusal\<close> returns a verdict (the deadline comparison inside it cannot raise), and it
  admits exactly when robot, joint order, contract version, profile and model agree, the deadline is on
  the supervisor's own clock and not passed, and the robot is claimed or armed. An admitted trajectory
  is finite and has one column per joint of the robot.
\<close>

theorem admission_decides:
  assumes "mk_TrajectoryRequest r = Inr req"
  shows "\<exists>why. admission_refusal req identity caps authority now token = Inr why \<and>
     (why = [] \<longleftrightarrow>
        tr_instance_id req = ri_instance_id identity \<and> tr_joint_names req = ri_joint_names identity \<and>
        cap_contract_version caps = CONTRACT_VERSION \<and> tr_profile req \<in> set (cap_profiles caps) \<and>
        (token = None \<or> tr_model_token req = token) \<and> au_lifecycle authority \<in> {CLAIMED, ARMED} \<and>
        (case tr_admit_by req of None \<Rightarrow> True
         | Some d \<Rightarrow> st_clock now = PC \<and> st_domain now = st_domain d \<and> st_ns now \<le> st_ns d)) \<and>
     (why = [] \<longrightarrow> num_joints (tr_trajectory req) = ri_n identity \<and> traj_finite (tr_trajectory req))"
proof -
  have req: "num_joints (tr_trajectory req) = length (tr_joint_names req)" "traj_finite (tr_trajectory req)"
    "\<And>d. tr_admit_by req = Some d \<Longrightarrow> st_clock d = PC \<and> st_domain d \<noteq> []"
    using assms by (auto simp: mk_TrajectoryRequest_def Let_def split: if_splits option.splits)
  show ?thesis
  proof (cases "tr_admit_by req")
    case None
    then show ?thesis
      using req(1,2) by (auto simp: admission_refusal_def cap_refusal_def owner_refusal_def OWNING_def ri_n_def Let_def)
  next
    case (Some d)
    with req(3) show ?thesis
      using req(1,2)
      by (auto simp: admission_refusal_def cap_refusal_def owner_refusal_def OWNING_def ri_n_def expired_def elapsed_def
          Let_def zero_less_divide_iff)
  qed
qed

subsection \<open>Witnesses\<close>

definition demo_stamp :: "int \<Rightarrow> Stamp" where
  "demo_stamp ns = \<lparr>st_ns = ns, st_clock = PC, st_domain = ''pc:boot-a''\<rparr>"

definition demo_receipt :: "Phase \<Rightarrow> int \<Rightarrow> string \<Rightarrow> Receipt" where
  "demo_receipt p ns reason =
     \<lparr>r_execution_id = ''e1'', r_request_id = ''r1'', r_instance_id = ''fr3_1'', r_phase = p, r_at = demo_stamp ns,
      r_reason = reason, r_evidence = []\<rparr>"

definition demo_run :: "Receipt list" where
  "demo_run = [demo_receipt REQUESTED 1 [], demo_receipt ADMITTED 2 [], demo_receipt SELECTED 3 [],
     demo_receipt APPLIED 4 [], demo_receipt COMPLETED 5 []]"

definition demo_request :: TrajectoryRequest where
  "demo_request =
     \<lparr>tr_request_id = ''r1'', tr_instance_id = ''fr3_1'', tr_joint_names = [''j1''],
      tr_trajectory = \<lparr>jt_times = [0, 1], jt_positions = [[0], [1]], jt_velocities = Some [[0], [0]]\<rparr>,
      tr_profile = ''joint_impedance'', tr_gains = None, tr_model_token = Some ''m1'', tr_start = ON_ADMIT,
      tr_admit_by = Some (demo_stamp 10), tr_completion = None, tr_supersedes = Some ''e1'', tr_cartesian = None\<rparr>"

lemma demo_run_status:
  "\<exists>s. status_of demo_run = Inr s \<and> es_phase s = COMPLETED \<and> reached_set s = {REQUESTED, ADMITTED, SELECTED, APPLIED, COMPLETED}"
  "\<exists>s. status_of (take 2 demo_run) = Inr s \<and> es_phase s = ADMITTED \<and> es_execution_id s = ''e1'' \<and>
     es_request_id s = ''r1'' \<and> es_instance_id s = ''fr3_1''"
  by (auto simp: demo_run_def demo_receipt_def es_start_def es_apply_def es_advance_def es_terminal_def reached_set_def)

lemma demo_request_ok: "mk_TrajectoryRequest demo_request = Inr demo_request"
  by (simp add: mk_TrajectoryRequest_def demo_request_def demo_stamp_def check_identifier_def id_ok_def id_char_def
      instance_char_def char_between_def num_joints_def mat_cols_def traj_finite_def)

theorem status_history_witness: "\<exists>s. status_of demo_run = Inr s \<and> COMPLETED \<in> reached_set s \<and> APPLIED \<in> reached_set s"
  using demo_run_status(1) status_history [of demo_run] by blast

theorem terminal_is_final_witness:
  "\<exists>s why. status_of demo_run = Inr s \<and> es_apply s (demo_receipt CANCELLED 6 ''late'') = Inl (IllegalTransition why)"
proof -
  obtain s where s: "status_of demo_run = Inr s" "es_phase s = COMPLETED"
    "reached_set s = {REQUESTED, ADMITTED, SELECTED, APPLIED, COMPLETED}" using demo_run_status(1) by blast
  then have "es_terminal s" by (simp add: es_terminal_def)
  moreover have "es_apply s (demo_receipt CANCELLED 6 ''late'') \<noteq> Inr s"
    using s(3) status_log.absorb [of s "demo_receipt CANCELLED 6 ''late''" s] by (auto simp: es_seen_def demo_receipt_def)
  ultimately show ?thesis using s(1) terminal_is_final by blast
qed

theorem redelivery_changes_nothing_witness:
  "\<exists>s. status_of demo_run = Inr s \<and>
     status_of (hd demo_run # tl demo_run @ [demo_receipt ADMITTED 2 []]) = Inr s"
proof -
  have "delivered (([] @ [demo_receipt ADMITTED 2 []]) @ [demo_receipt SELECTED 3 []] @ [demo_receipt APPLIED 4 []] @ [demo_receipt COMPLETED 5 []])
     ((([] @ [demo_receipt ADMITTED 2 []]) @ [demo_receipt SELECTED 3 []] @ [demo_receipt APPLIED 4 []] @ [demo_receipt COMPLETED 5 []]) @ [demo_receipt ADMITTED 2 []])"
    unfolding append_assoc [symmetric]
    by (rule delivered_again) (intro delivered_new delivered_nil, simp)
  then have "delivered (tl demo_run) (tl demo_run @ [demo_receipt ADMITTED 2 []])" by (simp add: demo_run_def)
  moreover have "demo_run = hd demo_run # tl demo_run" by (simp add: demo_run_def)
  ultimately show ?thesis using redelivery_changes_nothing demo_run_status(1) by metis
qed

theorem supersession_is_explicit_witness:
  "\<exists>s t. status_of (take 2 demo_run) = Inr s \<and> supersession_refusal demo_request (Some s) = [] \<and>
     es_apply s (demo_receipt SUPERSEDED 3 ''replaced'') = Inr t \<and> es_phase t = SUPERSEDED"
proof -
  obtain s where s: "status_of (take 2 demo_run) = Inr s" "es_phase s = ADMITTED" "es_execution_id s = ''e1''"
     "es_request_id s = ''r1''" "es_instance_id s = ''fr3_1''" using demo_run_status(2) by blast
  then show ?thesis
    using supersession_is_explicit [OF s(1), of "demo_receipt SUPERSEDED 3 ''replaced''" demo_request]
    by (auto simp: demo_receipt_def demo_request_def es_terminal_def)
qed

theorem cancel_accepted_iff_witness:
  "\<exists>s t. status_of (take 2 demo_run) = Inr s \<and>
     es_apply s (demo_receipt CANCELLED 3 ''operator'') = Inr t \<and> es_phase t = CANCELLED"
proof -
  obtain s where s: "status_of (take 2 demo_run) = Inr s" "es_phase s = ADMITTED" "es_execution_id s = ''e1''"
     "es_request_id s = ''r1''" "es_instance_id s = ''fr3_1''" using demo_run_status(2) by blast
  then show ?thesis
    using cancel_accepted_iff [OF s(1), of "demo_receipt CANCELLED 3 ''operator''"] by (auto simp: demo_receipt_def)
qed

theorem elapsed_one_clock_witness:
  "elapsed (demo_stamp 5) (demo_stamp 3) = Inr (Fin (2 / 10 ^ 9)) \<and> elapsed (demo_stamp 3) (demo_stamp 5) = Inr (- Fin (2 / 10 ^ 9))"
proof -
  have "elapsed (demo_stamp 5) (demo_stamp 3) = Inr (Fin (2 / 10 ^ 9))" by (simp add: elapsed_def demo_stamp_def)
  with elapsed_one_clock show ?thesis by blast
qed

theorem admission_decides_witness:
  "admission_refusal demo_request
     \<lparr>ri_instance_id = ''fr3_1'', ri_joint_names = [''j1''], ri_backend = ''franka'', ri_model_id = []\<rparr>
     \<lparr>cap_contract_version = 1, cap_profiles = [''joint_impedance''], cap_protocol_version = None, cap_pose_hold = False,
      cap_observer = False, cap_rt_setup = ''unknown''\<rparr>
     \<lparr>au_lifecycle = CLAIMED, au_session = Some ''s1'', au_arm_epoch = 0, au_stop_epoch = 0, au_fault = None, au_holding = None\<rparr>
     (demo_stamp 9) (Some ''m1'') = Inr []"
  (is "admission_refusal _ ?id ?caps ?au _ _ = _")
  using admission_decides [OF demo_request_ok, of ?id ?caps ?au "demo_stamp 9" "Some ''m1''"]
  by (auto simp: demo_request_def demo_stamp_def CONTRACT_VERSION_def)

end
