(* ===== verification/S288.thy ===== *)
theory S288
  imports Floats "HOL-Library.Word"
begin

text \<open>
  \<^verbatim>\<open>arm_control/leader_follower/s288.py\<close>: units, CRC32 and frames of the S288 servo protocol.

  A frame is a list of bytes (\<open>8 word\<close>); \<^verbatim>\<open>struct\<close> packs and unpacks little-endian integers and
  raises \<open>StructError\<close> out of range. The \<open>CRC\<close> register is a \<open>32 word\<close>, whose shifts drop the high
  bits as the code's masks with \<open>0xFFFFFFFF\<close> do. Conversions work on scalars; \<^verbatim>\<open>np.pi\<close> is \<open>pi\<close>.
\<close>

unbundle bit_operations_syntax

type_synonym byte = "8 word"

subsection \<open>Rounding, clipping and \<^verbatim>\<open>struct\<close>\<close>

text \<open>Python's \<open>round\<close>: to the nearest integer, ties to the even one; \<open>NaN\<close> and infinities raise.\<close>

definition round_half_even :: "real \<Rightarrow> int" where
  "round_half_even x =
     (let f = \<lfloor>x\<rfloor>; d = x - of_int f in
      if d < 1 / 2 then f else if 1 / 2 < d then f + 1 else if even f then f else f + 1)"

fun py_round :: "fl \<Rightarrow> int result" where
  "py_round (Fin x) = Inr (round_half_even x)"
| "py_round NaN = Inl (ValueError ''cannot convert float NaN to integer'')"
| "py_round _ = Inl OverflowError"

definition clip16 :: "int \<Rightarrow> int" where
  "clip16 v = max (- 32768) (min 32767 v)"

definition clip32 :: "int \<Rightarrow> int" where
  "clip32 v = max (- 2147483648) (min 2147483647 v)"

primrec le_bytes :: "nat \<Rightarrow> int \<Rightarrow> byte list" where
  "le_bytes 0 v = []"
| "le_bytes (Suc n) v = word_of_int v # le_bytes n (v div 256)"

primrec le_uint :: "byte list \<Rightarrow> int" where
  "le_uint [] = 0"
| "le_uint (b # bs) = uint b + 256 * le_uint bs"

definition pack_uint :: "nat \<Rightarrow> int \<Rightarrow> byte list result" where
  "pack_uint n v = (if 0 \<le> v \<and> v < 256 ^ n then Inr (le_bytes n v) else Inl StructError)"

definition pack_sint :: "nat \<Rightarrow> int \<Rightarrow> byte list result" where
  "pack_sint n v = (if - (256 ^ n) \<le> 2 * v \<and> 2 * v < 256 ^ n then Inr (le_bytes n v) else Inl StructError)"

definition unpack_uint :: "nat \<Rightarrow> byte list \<Rightarrow> nat \<Rightarrow> int result" where
  "unpack_uint n fr off = (if off + n \<le> length fr then Inr (le_uint (take n (drop off fr))) else Inl StructError)"

definition to_signed :: "nat \<Rightarrow> int \<Rightarrow> int" where
  "to_signed n u = (if 2 * u < 256 ^ n then u else u - 256 ^ n)"

definition unpack_sint :: "nat \<Rightarrow> byte list \<Rightarrow> nat \<Rightarrow> int result" where
  "unpack_sint n fr off = bindr (unpack_uint n fr off) (\<lambda>u. Inr (to_signed n u))"

definition byte_at :: "byte list \<Rightarrow> nat \<Rightarrow> int result" where
  "byte_at fr off = (if off < length fr then Inr (uint (fr ! off)) else Inl IndexError)"

subsection \<open>Specification and units\<close>

record S288Spec =
  gear_ratio :: fl
  torque_constant :: fl
  stall_torque_nm :: fl
  max_speed_rad_s :: fl
  voltage_min_v :: fl
  voltage_max_v :: fl
  voltage_nominal_v :: fl
  encoder_steps :: int
  rotor_encoder_bits :: int
  baudrate :: int

definition default_spec :: S288Spec where
  "default_spec =
     \<lparr>gear_ratio = Fin (70070 / 243), torque_constant = Fin (554 / 1000), stall_torque_nm = Fin (6 / 10),
      max_speed_rad_s = Fin (165 / 10), voltage_min_v = Fin (64 / 10), voltage_max_v = Fin (126 / 10),
      voltage_nominal_v = Fin (126 / 10), encoder_steps = 8192, rotor_encoder_bits = 15, baudrate = 6000000\<rparr>"

definition twopi :: fl where
  "twopi = Fin (2 * pi)"

definition output_to_rotor_angle :: "S288Spec \<Rightarrow> fl \<Rightarrow> fl" where
  "output_to_rotor_angle s q = q * gear_ratio s"

definition output_to_rotor_velocity :: "S288Spec \<Rightarrow> fl \<Rightarrow> fl" where
  "output_to_rotor_velocity s dq = dq * gear_ratio s"

definition output_to_rotor_torque :: "S288Spec \<Rightarrow> fl \<Rightarrow> fl" where
  "output_to_rotor_torque s tau = tau / gear_ratio s"

definition output_to_rotor_kp :: "S288Spec \<Rightarrow> fl \<Rightarrow> fl" where
  "output_to_rotor_kp s kp = kp / (gear_ratio s * gear_ratio s)"

definition output_to_rotor_kd :: "S288Spec \<Rightarrow> fl \<Rightarrow> fl" where
  "output_to_rotor_kd s kd = kd / (gear_ratio s * gear_ratio s)"

definition rotor_to_output_angle :: "S288Spec \<Rightarrow> fl \<Rightarrow> fl" where
  "rotor_to_output_angle s q = q / gear_ratio s"

definition rotor_to_output_velocity :: "S288Spec \<Rightarrow> fl \<Rightarrow> fl" where
  "rotor_to_output_velocity s dq = dq / gear_ratio s"

definition rotor_to_output_torque :: "S288Spec \<Rightarrow> fl \<Rightarrow> fl" where
  "rotor_to_output_torque s tau = tau * gear_ratio s"

definition torque_to_current :: "S288Spec \<Rightarrow> fl \<Rightarrow> fl" where
  "torque_to_current s tau = tau / torque_constant s"

definition output_pos_to_raw :: "S288Spec \<Rightarrow> fl \<Rightarrow> fl" where
  "output_pos_to_raw s q = q * gear_ratio s * (32768 / twopi)"

definition raw_to_output_pos :: "S288Spec \<Rightarrow> fl \<Rightarrow> fl" where
  "raw_to_output_pos s raw = raw * twopi / 32768 / gear_ratio s"

definition raw_to_rotor_pos :: "fl \<Rightarrow> fl" where
  "raw_to_rotor_pos raw = raw * twopi / 32768"

definition output_spd_to_raw :: "S288Spec \<Rightarrow> fl \<Rightarrow> fl" where
  "output_spd_to_raw s dq = dq * gear_ratio s * (Fin (2560 / 1000) / twopi)"

definition raw_to_output_spd :: "S288Spec \<Rightarrow> fl \<Rightarrow> fl" where
  "raw_to_output_spd s raw = raw * twopi / Fin (2560 / 1000) / gear_ratio s"

definition raw_to_rotor_spd :: "fl \<Rightarrow> fl" where
  "raw_to_rotor_spd raw = raw * twopi / Fin (2560 / 1000)"

definition output_torque_to_raw :: "S288Spec \<Rightarrow> fl \<Rightarrow> fl" where
  "output_torque_to_raw s tau = tau / gear_ratio s * 256000"

definition raw_to_output_torque :: "S288Spec \<Rightarrow> fl \<Rightarrow> fl" where
  "raw_to_output_torque s raw = raw / 256000 * gear_ratio s"

definition raw_to_rotor_torque :: "fl \<Rightarrow> fl" where
  "raw_to_rotor_torque raw = raw / 256000"

definition output_kp_to_raw :: "S288Spec \<Rightarrow> fl \<Rightarrow> fl" where
  "output_kp_to_raw s kp = kp / (gear_ratio s * gear_ratio s) * 1280000"

definition raw_to_output_kp :: "S288Spec \<Rightarrow> fl \<Rightarrow> fl" where
  "raw_to_output_kp s raw = raw / 1280000 * (gear_ratio s * gear_ratio s)"

definition output_kd_to_raw :: "S288Spec \<Rightarrow> fl \<Rightarrow> fl" where
  "output_kd_to_raw s kd = kd / (gear_ratio s * gear_ratio s) * 128000000"

definition raw_to_output_kd :: "S288Spec \<Rightarrow> fl \<Rightarrow> fl" where
  "raw_to_output_kd s raw = raw / 128000000 * (gear_ratio s * gear_ratio s)"

definition ex_pos_to_rad :: "S288Spec \<Rightarrow> fl \<Rightarrow> fl" where
  "ex_pos_to_rad s out_pos = out_pos * twopi / Fin (of_int (encoder_steps s))"

subsection \<open>CRC32\<close>

definition crc_poly :: "32 word" where
  "crc_poly = 0x04C11DB7"

text \<open>The body of the inner loop of \<^verbatim>\<open>_build_crc32_table\<close>: one bit of the register.\<close>

definition crc_bit :: "32 word \<Rightarrow> 32 word" where
  "crc_bit crc =
     (if crc AND 0x80000000 \<noteq> 0 then push_bit 1 crc XOR crc_poly else push_bit 1 crc)"

definition build_crc32_table :: "32 word list" where
  "build_crc32_table = map (\<lambda>i. (crc_bit ^^ 8) (push_bit 24 (word_of_nat i))) [0..<256]"

definition crc_byte :: "32 word \<Rightarrow> byte \<Rightarrow> 32 word" where
  "crc_byte crc b = build_crc32_table ! unat (drop_bit 24 crc XOR ucast b) XOR push_bit 8 crc"

fun crc_words :: "32 word \<Rightarrow> byte list \<Rightarrow> 32 word" where
  "crc_words crc (d0 # d1 # d2 # d3 # rest) =
     crc_words (crc_byte (crc_byte (crc_byte (crc_byte crc d3) d2) d1) d0) rest"
| "crc_words crc _ = crc"

definition crc32_unitree :: "byte list \<Rightarrow> 32 word" where
  "crc32_unitree data = crc_words 0xFFFFFFFF data"

subsection \<open>Frames\<close>

record S288Command =
  sc_q_out :: fl
  sc_dq_out :: fl
  sc_tau_out :: fl
  sc_kp_out :: fl
  sc_kd_out :: fl

definition zero_command :: S288Command where
  "zero_command = \<lparr>sc_q_out = 0, sc_dq_out = 0, sc_tau_out = 0, sc_kp_out = 0, sc_kd_out = 0\<rparr>"

record S288State =
  ss_motor_id :: int
  ss_q_rotor :: fl
  ss_dq_rotor :: fl
  ss_tau_rotor :: fl
  ss_q_out :: fl
  ss_dq_out :: fl
  ss_tau_out :: fl
  ss_temperature_c :: fl
  ss_voltage_v :: fl
  ss_error :: int
  ss_has_output_angle :: bool
  ss_ex_pos_rad :: fl
  ss_sensor_c :: fl
  ss_warn :: int

record S288Codec =
  header_cmd :: "byte list"
  header_fb :: "byte list"
  mode_foc :: int
  mode_stop :: int
  timeout_default :: bool
  response_len :: nat
  fb_temp_offset :: nat
  fb_sensor_offset :: nat
  fb_vol_offset :: nat
  fb_torque_offset :: nat
  fb_speed_offset :: nat
  fb_pos_offset :: nat
  fb_merror_offset :: nat
  fb_outpos_offset :: nat

definition default_codec :: S288Codec where
  "default_codec =
     \<lparr>header_cmd = [0xFE, 0xEE], header_fb = [0xFC, 0xEE], mode_foc = 1, mode_stop = 0, timeout_default = True,
      response_len = 26, fb_temp_offset = 0, fb_sensor_offset = 1, fb_vol_offset = 2, fb_torque_offset = 3,
      fb_speed_offset = 5, fb_pos_offset = 7, fb_merror_offset = 11, fb_outpos_offset = 15\<rparr>"

definition mode_byte :: "int \<Rightarrow> int \<Rightarrow> bool \<Rightarrow> int" where
  "mode_byte motor_id mode timeout =
     (motor_id AND 0x0F) OR push_bit 4 (mode AND 0x07) OR push_bit 7 (if timeout then 1 else 0)"

text \<open>\<^verbatim>\<open>_clip(round(float(x)))\<close>.\<close>

definition raw16 :: "fl \<Rightarrow> int result" where
  "raw16 x = bindr (py_round x) (\<lambda>i. Inr (clip16 i))"

definition raw32 :: "fl \<Rightarrow> int result" where
  "raw32 x = bindr (py_round x) (\<lambda>i. Inr (clip32 i))"

definition pack_command ::
    "S288Codec \<Rightarrow> int \<Rightarrow> S288Command \<Rightarrow> S288Spec \<Rightarrow> int option \<Rightarrow> bool option \<Rightarrow> byte list result" where
  "pack_command codec motor_id command spec mode_arg timeout_arg =
     (let mode = (case mode_arg of None \<Rightarrow> mode_foc codec | Some m \<Rightarrow> m);
          timeout = (case timeout_arg of None \<Rightarrow> timeout_default codec | Some t \<Rightarrow> t) in
      bindr (raw16 (output_torque_to_raw spec (sc_tau_out command))) (\<lambda>tor_raw.
      bindr (raw16 (output_spd_to_raw spec (sc_dq_out command))) (\<lambda>spd_raw.
      bindr (raw32 (output_pos_to_raw spec (sc_q_out command))) (\<lambda>pos_raw.
      bindr (raw16 (output_kp_to_raw spec (sc_kp_out command))) (\<lambda>kp_raw.
      bindr (raw16 (output_kd_to_raw spec (sc_kd_out command))) (\<lambda>kd_raw.
      bindr (pack_sint 2 tor_raw) (\<lambda>b1. bindr (pack_sint 2 spd_raw) (\<lambda>b2. bindr (pack_sint 4 pos_raw) (\<lambda>b3.
      bindr (pack_sint 2 kp_raw) (\<lambda>b4. bindr (pack_sint 2 kd_raw) (\<lambda>b5.
        let body = [word_of_int (mode_byte motor_id mode timeout), 0] @ b1 @ b2 @ b3 @ b4 @ b5;
            frame = header_cmd codec @ body in
        Inr (frame @ le_bytes 4 (uint (crc32_unitree frame))))))))))))))"

definition pack_stop :: "S288Codec \<Rightarrow> int \<Rightarrow> bool \<Rightarrow> byte list result" where
  "pack_stop codec motor_id timeout = pack_command codec motor_id zero_command default_spec (Some (mode_stop codec)) (Some timeout)"

definition unpack_state :: "S288Codec \<Rightarrow> byte list \<Rightarrow> S288Spec \<Rightarrow> S288State result" where
  "unpack_state codec frame spec =
     (if length frame < response_len codec then Inl (ValueError ''feedback frame too short'')
      else if take 2 frame \<noteq> header_fb codec then Inl (ValueError ''feedback header mismatch'')
      else bindr (unpack_uint 4 frame (response_len codec - 4)) (\<lambda>crc_rx.
      let crc_calc = crc32_unitree (take (response_len codec - 4 - 2) (drop 2 frame)) in
      if crc_rx \<noteq> uint crc_calc then Inl (ValueError ''feedback CRC mismatch'')
      else
      bindr (byte_at frame 2) (\<lambda>mb.
      bindr (unpack_sint 1 frame (3 + fb_temp_offset codec)) (\<lambda>temp.
      bindr (byte_at frame (3 + fb_sensor_offset codec)) (\<lambda>sensor.
      bindr (byte_at frame (3 + fb_vol_offset codec)) (\<lambda>vol_raw.
      bindr (unpack_sint 2 frame (3 + fb_torque_offset codec)) (\<lambda>torque_raw.
      bindr (unpack_sint 2 frame (3 + fb_speed_offset codec)) (\<lambda>speed_raw.
      bindr (unpack_sint 4 frame (3 + fb_pos_offset codec)) (\<lambda>pos_raw.
      bindr (unpack_uint 4 frame (3 + fb_merror_offset codec)) (\<lambda>merror.
      bindr (unpack_uint 2 frame (3 + fb_outpos_offset codec)) (\<lambda>outpos_exflag.
        let out_pos = outpos_exflag AND 0x1FFF; ex_flag = drop_bit 13 outpos_exflag AND 0x07;
            pos = Fin (of_int pos_raw); spd = Fin (of_int speed_raw); tor = Fin (of_int torque_raw) in
        Inr \<lparr>ss_motor_id = mb AND 0x0F,
             ss_q_rotor = raw_to_rotor_pos pos, ss_dq_rotor = raw_to_rotor_spd spd, ss_tau_rotor = raw_to_rotor_torque tor,
             ss_q_out = raw_to_output_pos spec pos, ss_dq_out = raw_to_output_spd spec spd,
             ss_tau_out = raw_to_output_torque spec tor,
             ss_temperature_c = Fin (of_int temp), ss_voltage_v = Fin (of_int vol_raw) / 2, ss_error = merror,
             ss_has_output_angle = True, ss_ex_pos_rad = ex_pos_to_rad spec (Fin (of_int out_pos)),
             ss_sensor_c = Fin (of_int sensor), ss_warn = ex_flag\<rparr>)))))))))))"

record fb_args =
  fa_q_out :: fl
  fa_dq_out :: fl
  fa_tau_out :: fl
  fa_temperature_c :: int
  fa_sensor_c :: int
  fa_voltage_v :: fl
  fa_error :: int
  fa_ex_pos_rad :: fl
  fa_warn :: int
  fa_mode :: int
  fa_timeout :: bool

definition build_feedback_frame :: "S288Codec \<Rightarrow> int \<Rightarrow> S288Spec \<Rightarrow> fb_args \<Rightarrow> byte list result" where
  "build_feedback_frame codec motor_id spec a =
     bindr (raw32 (output_pos_to_raw spec (fa_q_out a))) (\<lambda>pos_raw.
     bindr (raw16 (output_spd_to_raw spec (fa_dq_out a))) (\<lambda>spd_raw.
     bindr (raw16 (output_torque_to_raw spec (fa_tau_out a))) (\<lambda>tor_raw.
     bindr (py_round (fa_ex_pos_rad a / twopi * Fin (of_int (encoder_steps spec)))) (\<lambda>ex_round.
     bindr (py_round (fa_voltage_v a * 2)) (\<lambda>vol_round.
     let out_pos = ex_round AND 0x1FFF;
         outpos_exflag = (out_pos AND 0x1FFF) OR push_bit 13 (fa_warn a AND 0x07);
         vol_raw = max 0 (min 255 vol_round) in
     bindr (pack_sint 1 (fa_temperature_c a)) (\<lambda>b1. bindr (pack_uint 1 (fa_sensor_c a AND 0xFF)) (\<lambda>b2.
     bindr (pack_uint 1 (vol_raw AND 0xFF)) (\<lambda>b3. bindr (pack_sint 2 tor_raw) (\<lambda>b4.
     bindr (pack_sint 2 spd_raw) (\<lambda>b5. bindr (pack_sint 4 pos_raw) (\<lambda>b6.
     bindr (pack_uint 4 (fa_error a AND 0xFFFFFFFF)) (\<lambda>b7. bindr (pack_uint 2 outpos_exflag) (\<lambda>b8.
       let fbk = b1 @ b2 @ b3 @ b4 @ b5 @ b6 @ b7 @ b8 @ [0, 0] in
       if length fbk \<noteq> 19 then Inl AssertionError
       else
       let body = [word_of_int (mode_byte motor_id (fa_mode a) (fa_timeout a))] @ fbk;
           frame0 = header_fb codec @ body;
           frame = frame0 @ le_bytes 4 (uint (crc32_unitree (take 20 (drop 2 frame0)))) in
       if length frame \<noteq> 26 then Inl AssertionError else Inr frame)))))))))))))"

end
