(* ===== verification/S288_Frames.thy ===== *)
theory S288_Frames
  imports S288
begin

text \<open>
  Lemmas on the S288 frames: the table-driven CRC is the bit-serial one and detects every corruption of
  a single byte; feedback frames decode to what they encode, up to half a quantum.
\<close>

subsection \<open>The CRC register\<close>

lemma crc_bit_alt: "crc_bit x = push_bit 1 x XOR (if bit x 31 then crc_poly else 0)"
proof -
  have "x AND 0x80000000 \<noteq> 0 \<longleftrightarrow> bit x 31"
    using bit_iff_and_push_bit_not_eq_0 [of x 31] by simp
  then show ?thesis by (simp add: crc_bit_def)
qed

lemma crc_bit_xor: "crc_bit (x XOR y) = crc_bit x XOR crc_bit y"
proof -
  have "(a XOR b) XOR (c XOR d) = (a XOR c) XOR (b XOR d)" for a b c d :: "32 word"
    by (simp only: xor.assoc xor.left_commute)
  then show ?thesis by (auto simp: crc_bit_alt push_bit_xor bit_xor_iff ac_simps)
qed

lemma bit_crc_bit: "bit (crc_bit x) n \<longleftrightarrow> (0 < n \<and> n < 32 \<and> bit x (n - 1)) \<noteq> (bit x 31 \<and> bit crc_poly n)"
  unfolding crc_bit_alt bit_xor_iff bit_push_bit_iff by (auto dest: bit_imp_le_length)

lemma crc_bits_xor: "(crc_bit ^^ n) (x XOR y) = (crc_bit ^^ n) x XOR (crc_bit ^^ n) y"
  by (induction n) (simp_all add: crc_bit_xor)

lemma crc_bits_shift:
  assumes "\<forall>k < n. \<not> bit x (31 - k)" "n \<le> 31"
  shows "(crc_bit ^^ n) x = push_bit n x"
  using assms
proof (induction n)
  case (Suc n)
  then have "\<not> bit (push_bit n x) 31" by (simp add: bit_push_bit_iff)
  then have "crc_bit (push_bit n x) = push_bit 1 (push_bit n x)" unfolding crc_bit_alt by simp
  also have "\<dots> = push_bit (Suc n) x" by (simp only: push_bit_push_bit plus_1_eq_Suc)
  finally show ?case using Suc by simp
qed simp

lemma crc_bit_zero: "crc_bit z = 0 \<Longrightarrow> z = 0"
proof -
  assume z: "crc_bit z = 0"
  have "bit (crc_bit z) 0 \<longleftrightarrow> bit z 31"
    by (simp add: bit_crc_bit crc_poly_def)
  with z have top: "\<not> bit z 31" by simp
  show "z = 0"
  proof (rule bit_word_eqI)
    fix n assume n: "n < LENGTH(32)"
    show "bit z n \<longleftrightarrow> bit (0 :: 32 word) n"
    proof (cases "n = 31")
      case True
      with top show ?thesis by simp
    next
      case False
      with n have "bit (crc_bit z) (Suc n) \<longleftrightarrow> bit z n" using top by (simp add: bit_crc_bit)
      with z show ?thesis by simp
    qed
  qed
qed

lemma word_xor_eq: "x XOR y = 0 \<Longrightarrow> x = (y :: 'a :: len word)"
proof (rule bit_word_eqI)
  fix n assume "x XOR y = 0"
  then have "\<not> bit (x XOR y) n" by simp
  then show "bit x n \<longleftrightarrow> bit y n" by (simp add: bit_xor_iff)
qed

lemma word_xor_cancel: "x XOR y = x' XOR y \<longleftrightarrow> x = (x' :: 'a :: len word)"
proof
  assume e: "x XOR y = x' XOR y"
  show "x = x'"
  proof (rule bit_word_eqI)
    fix n
    show "bit x n \<longleftrightarrow> bit x' n" using arg_cong [OF e, of "\<lambda>w. bit w n"] by (auto simp: bit_xor_iff)
  qed
qed simp

lemma crc_bits_inj: "(crc_bit ^^ n) x = (crc_bit ^^ n) y \<longleftrightarrow> x = y"
proof -
  have zero: "(crc_bit ^^ n) z = 0 \<Longrightarrow> z = 0" for z
    by (induction n) (auto dest: crc_bit_zero)
  have "x = y" if e: "(crc_bit ^^ n) x = (crc_bit ^^ n) y"
  proof -
    have "(crc_bit ^^ n) (x XOR y) = 0" using e by (simp add: crc_bits_xor)
    then have "x XOR y = 0" by (rule zero)
    then show ?thesis by (rule word_xor_eq)
  qed
  then show ?thesis by auto
qed

text \<open>One table step is eight register steps on the register with the byte fed in at the top.\<close>

lemma crc_byte_bits: "crc_byte c b = (crc_bit ^^ 8) (c XOR push_bit 24 (ucast b))"
proof -
  let ?i = "drop_bit 24 c XOR ucast b :: 32 word"
  have lt: "unat ?i < 256"
  proof -
    have "?i = take_bit 8 ?i"
      by (rule bit_word_eqI) (auto simp: bit_simps dest: bit_imp_le_length)
    then have "unat ?i < 2 ^ 8" by (metis take_bit_nat_less_exp unsigned_take_bit_eq)
    then show ?thesis by simp
  qed
  then have tab: "build_crc32_table ! unat ?i = (crc_bit ^^ 8) (push_bit 24 ?i)"
    by (simp add: build_crc32_table_def)
  have split: "c XOR push_bit 24 (ucast b) = push_bit 24 ?i XOR take_bit 24 c"
    by (rule bit_word_eqI) (auto simp: bit_simps)
  have "(crc_bit ^^ 8) (take_bit 24 c) = push_bit 8 (take_bit 24 c)"
    by (rule crc_bits_shift) (auto simp: bit_take_bit_iff)
  also have "\<dots> = push_bit 8 c"
    by (rule bit_word_eqI) (auto simp: bit_simps)
  finally show ?thesis by (simp add: crc_byte_def tab split crc_bits_xor)
qed

lemma crc_byte_inj: "crc_byte c b = crc_byte c' b \<longleftrightarrow> c = c'" "crc_byte c b = crc_byte c b' \<longleftrightarrow> b = b'"
proof -
  show "crc_byte c b = crc_byte c' b \<longleftrightarrow> c = c'"
    by (simp add: crc_byte_bits crc_bits_inj word_xor_cancel)
  have "crc_byte c b = crc_byte c b' \<longleftrightarrow> push_bit 24 (ucast b) = (push_bit 24 (ucast b') :: 32 word)"
    by (simp only: crc_byte_bits crc_bits_inj xor.commute [of c] word_xor_cancel)
  also have "\<dots> \<longleftrightarrow> b = b'"
  proof
    assume e: "push_bit 24 (ucast b) = (push_bit 24 (ucast b') :: 32 word)"
    show "b = b'"
    proof (rule bit_word_eqI)
      fix n assume "n < LENGTH(8)"
      then show "bit b n \<longleftrightarrow> bit b' n" using arg_cong [OF e, of "\<lambda>w. bit w (24 + n)"] by (simp add: bit_simps)
    qed
  qed simp
  finally show "crc_byte c b = crc_byte c b' \<longleftrightarrow> b = b'" .
qed

subsection \<open>Corruption of one byte\<close>

lemma crc_words_state_inj: "crc_words c d = crc_words c' d \<longleftrightarrow> c = c'"
  by (induction c d arbitrary: c' rule: crc_words.induct) (simp_all add: crc_byte_inj)

lemma crc_words_update:
  "length d mod 4 = 0 \<Longrightarrow> i < length d \<Longrightarrow> b \<noteq> d ! i \<Longrightarrow> crc_words c (d[i := b]) \<noteq> crc_words c d"
proof (induction c d arbitrary: i rule: crc_words.induct)
  case (1 c d0 d1 d2 d3 rest)
  consider "i = 0" | "i = Suc 0" | "i = Suc (Suc 0)" | "i = Suc (Suc (Suc 0))" | j where "i = Suc (Suc (Suc (Suc j)))"
    by (metis not0_implies_Suc)
  then show ?case
  proof cases
    case 5
    with "1.prems" "1.IH" [of j] show ?thesis by simp
  qed (insert "1.prems"(3), simp_all add: crc_words_state_inj crc_byte_inj)
qed simp_all

lemma le_uint_inj: "length xs = length ys \<Longrightarrow> le_uint xs = le_uint ys \<Longrightarrow> xs = ys"
proof (induction xs ys rule: list_induct2)
  case (Cons x xs y ys)
  have b: "uint x < 256" "uint y < 256" "0 \<le> uint x" "0 \<le> uint y"
    using uint_bounded [of x] uint_bounded [of y] by auto
  have digit: "u = v \<and> a = b" if "u + 256 * a = v + 256 * b" "0 \<le> u" "u < 256" "0 \<le> v" "v < 256" for u v a b :: int
  proof -
    have "u = (u + 256 * a) mod 256" using that(2,3) by simp
    also have "\<dots> = (v + 256 * b) mod 256" by (simp only: that(1))
    also have "\<dots> = v" using that(4,5) by simp
    finally show ?thesis using that(1) by simp
  qed
  have "uint x = uint y \<and> le_uint xs = le_uint ys"
    using Cons.prems b by (intro digit) simp_all
  with Cons.IH show ?case by (simp add: word_uint_eq_iff)
qed simp

text \<open>The three gates of \<open>unpack_state\<close>.\<close>

definition frame_gates :: "byte list \<Rightarrow> bool" where
  "frame_gates fr \<longleftrightarrow> 26 \<le> length fr \<and> take 2 fr = [0xFC, 0xEE] \<and>
     le_uint (take 4 (drop 22 fr)) = uint (crc32_unitree (take 20 (drop 2 fr)))"

lemma unpack_state_gates:
  "(\<exists>st. unpack_state default_codec fr spec = Inr st) \<longleftrightarrow> frame_gates fr"
  "\<not> frame_gates fr \<Longrightarrow> \<exists>why. unpack_state default_codec fr spec = Inl (ValueError why)"
  by (auto simp: unpack_state_def default_codec_def frame_gates_def unpack_uint_def unpack_sint_def byte_at_def Let_def)

lemma frame_gates_update:
  assumes "frame_gates fr" "length fr = 26" "i < 26" "b \<noteq> fr ! i"
  shows "\<not> frame_gates (fr[i := b])"
proof -
  consider "i < 2" | "2 \<le> i" "i < 22" | "22 \<le> i" by linarith
  then show ?thesis
  proof cases
    case 1
    then have "take 2 (fr[i := b]) ! i \<noteq> take 2 fr ! i" using assms by simp
    then show ?thesis using assms(1) by (auto simp: frame_gates_def)
  next
    case 2
    then have "take 20 (drop 2 (fr[i := b])) = (take 20 (drop 2 fr))[i - 2 := b]" "take 4 (drop 22 (fr[i := b])) = take 4 (drop 22 fr)"
      by (simp_all add: drop_update_swap take_update_swap)
    moreover have "crc32_unitree ((take 20 (drop 2 fr))[i - 2 := b]) \<noteq> crc32_unitree (take 20 (drop 2 fr))"
      unfolding crc32_unitree_def using assms 2 le_Suc_ex [OF 2(1)] by (intro crc_words_update) auto
    ultimately show ?thesis using assms(1) by (auto simp: frame_gates_def word_uint_eq_iff)
  next
    case 3
    then have "take 20 (drop 2 (fr[i := b])) = take 20 (drop 2 fr)"
      by (simp add: drop_update_swap)
    moreover have "take 4 (drop 22 (fr[i := b])) ! (i - 22) \<noteq> take 4 (drop 22 fr) ! (i - 22)" using assms 3 by simp
    then have "le_uint (take 4 (drop 22 (fr[i := b]))) \<noteq> le_uint (take 4 (drop 22 fr))"
      using le_uint_inj [of "take 4 (drop 22 (fr[i := b]))" "take 4 (drop 22 fr)"] by auto
    ultimately show ?thesis using assms(1) by (auto simp: frame_gates_def)
  qed
qed

text \<open>
  C26: no corruption of one byte of a feedback frame is accepted. If the decoder accepts a 26-byte frame,
  then replacing any single byte of it (header, mode, payload or checksum) by another value makes it
  raise \<open>ValueError\<close>.
\<close>

theorem single_byte_corruption_refused:
  assumes "unpack_state default_codec fr spec = Inr st" and "length fr = 26" and "i < 26" and "b \<noteq> fr ! i"
  shows "\<exists>why. unpack_state default_codec (fr[i := b]) spec = Inl (ValueError why)"
proof -
  have "frame_gates fr" using assms(1) unpack_state_gates(1) by blast
  then have "\<not> frame_gates (fr[i := b])" using assms(2-4) by (rule frame_gates_update)
  then show ?thesis by (rule unpack_state_gates(2))
qed



subsection \<open>Integers on the wire\<close>

lemma length_le_bytes [simp]: "length (le_bytes n v) = n"
  by (induction n arbitrary: v) auto

lemma le_uint_le_bytes: "le_uint (le_bytes n v) = v mod 256 ^ n"
proof (induction n arbitrary: v)
  case (Suc n)
  have "uint (word_of_int v :: byte) = v mod 256" by (simp add: uint_word_of_int)
  with Suc [of "v div 256"] show ?case using zmod_zmult2_eq [of "256 ^ n" v 256] by simp
qed simp

lemma to_signed_mod:
  assumes "- (256 ^ n) \<le> 2 * v" "2 * v < 256 ^ n"
  shows "to_signed n (v mod 256 ^ n) = v"
proof (cases "0 \<le> v")
  case True
  with assms have "v mod 256 ^ n = v" by simp
  with assms show ?thesis by (simp add: to_signed_def)
next
  case False
  have "v mod 256 ^ n = (v + 256 ^ n) mod 256 ^ n" by simp
  also have "\<dots> = v + 256 ^ n" using assms False by (intro mod_pos_pos_trivial) linarith+
  finally show ?thesis using False assms by (simp add: to_signed_def)
qed

lemma pack_Inr:
  "pack_uint n v = Inr bs \<longleftrightarrow> bs = le_bytes n v \<and> 0 \<le> v \<and> v < 256 ^ n"
  "pack_sint n v = Inr bs \<longleftrightarrow> bs = le_bytes n v \<and> - (256 ^ n) \<le> 2 * v \<and> 2 * v < 256 ^ n"
  by (auto simp: pack_uint_def pack_sint_def)

lemma unpack_at:
  assumes "length pre = off" "length bs = n"
  shows "unpack_uint n (pre @ bs @ post) off = Inr (le_uint bs)"
    "unpack_sint n (pre @ bs @ post) off = Inr (to_signed n (le_uint bs))"
  using assms by (simp_all add: unpack_uint_def unpack_sint_def)

lemma unpack_packed:
  assumes "length pre = off"
  shows "pack_uint n v = Inr bs \<Longrightarrow> unpack_uint n (pre @ bs @ post) off = Inr v"
    "pack_sint n v = Inr bs \<Longrightarrow> unpack_sint n (pre @ bs @ post) off = Inr v"
  using assms by (auto simp: pack_Inr unpack_at le_uint_le_bytes to_signed_mod)

lemma clip_packs: "\<exists>bs. pack_sint 2 (clip16 v) = Inr bs" "\<exists>bs. pack_sint 4 (clip32 v) = Inr bs"
  by (auto simp: pack_sint_def clip16_def clip32_def)

subsection \<open>Bit fields\<close>

lemma masks: "(0x1FFF :: int) = mask 13" "(0x07 :: int) = mask 3" "(0x0F :: int) = mask 4" "(0xFF :: int) = mask 8"
  "(0xFFFFFFFF :: int) = mask 32"
  by (simp_all add: mask_eq_exp_minus_1)

lemma and_mask_range: "0 \<le> v AND mask n \<and> v AND mask n < (2 :: int) ^ n"
  by (simp add: flip: take_bit_eq_mask)

lemma outpos_fields:
  fixes op w :: int
  defines "x \<equiv> (op AND 0x1FFF) OR push_bit 13 (w AND 0x07)"
  shows "x AND 0x1FFF = op AND 0x1FFF" "drop_bit 13 x AND 0x07 = w AND 0x07" "0 \<le> x \<and> x < 65536"
proof -
  show "x AND 0x1FFF = op AND 0x1FFF" unfolding x_def masks by (rule bit_eqI) (auto simp: bit_simps)
  show "drop_bit 13 x AND 0x07 = w AND 0x07" unfolding x_def masks by (rule bit_eqI) (auto simp: bit_simps)
  have "x = take_bit 16 x" unfolding x_def masks by (rule bit_eqI) (auto simp: bit_simps)
  then show "0 \<le> x \<and> x < 65536" using take_bit_nonnegative [of 16 x] take_bit_int_less_exp [of 16 x] by simp
qed

lemma mode_byte_id: "uint (word_of_int (mode_byte i m t) :: byte) AND 0x0F = i AND 0x0F"
proof -
  have "uint (word_of_int (mode_byte i m t) :: byte) = take_bit 8 (mode_byte i m t)" by (simp add: uint_word_of_int_eq)
  moreover have "take_bit 8 (mode_byte i m t) AND 0x0F = i AND 0x0F"
    unfolding mode_byte_def masks by (rule bit_eqI) (auto simp: bit_simps)
  ultimately show ?thesis by simp
qed

lemma byte_at_packed: "length pre = off \<Longrightarrow> pack_uint 1 v = Inr bs \<Longrightarrow> byte_at (pre @ bs @ post) off = Inr v"
  using le_uint_le_bytes [of 1 v] by (auto simp: pack_Inr byte_at_def nth_append)

lemma feedback_frame_shape:
  assumes "build_feedback_frame default_codec i spec a = Inr fr"
  obtains pos spd tor ex vol b1 b2 b3 b4 b5 b6 b7 b8 where
    "raw32 (output_pos_to_raw spec (fa_q_out a)) = Inr pos" "raw16 (output_spd_to_raw spec (fa_dq_out a)) = Inr spd"
    "raw16 (output_torque_to_raw spec (fa_tau_out a)) = Inr tor" "py_round (fa_ex_pos_rad a / twopi * Fin (of_int (encoder_steps spec))) = Inr ex"
    "py_round (fa_voltage_v a * 2) = Inr vol"
    "pack_sint 1 (fa_temperature_c a) = Inr b1" "pack_uint 1 (fa_sensor_c a AND 0xFF) = Inr b2"
    "pack_uint 1 (max 0 (min 255 vol) AND 0xFF) = Inr b3" "pack_sint 2 tor = Inr b4" "pack_sint 2 spd = Inr b5" "pack_sint 4 pos = Inr b6"
    "pack_uint 4 (fa_error a AND 0xFFFFFFFF) = Inr b7"
    "pack_uint 2 ((ex AND 0x1FFF) OR push_bit 13 (fa_warn a AND 0x07)) = Inr b8"
    "fr = [0xFC, 0xEE] @ [word_of_int (mode_byte i (fa_mode a) (fa_timeout a))] @ b1 @ b2 @ b3 @ b4 @ b5 @ b6 @ b7 @ b8 @ [0, 0] @
       le_bytes 4 (uint (crc32_unitree ([word_of_int (mode_byte i (fa_mode a) (fa_timeout a))] @ b1 @ b2 @ b3 @ b4 @ b5 @ b6 @ b7 @ b8 @ [0, 0])))"
proof -
  from assms obtain pos spd tor ex vol b1 b2 b3 b4 b5 b6 b7 b8 where
    raws: "raw32 (output_pos_to_raw spec (fa_q_out a)) = Inr pos" "raw16 (output_spd_to_raw spec (fa_dq_out a)) = Inr spd"
    "raw16 (output_torque_to_raw spec (fa_tau_out a)) = Inr tor" "py_round (fa_ex_pos_rad a / twopi * Fin (of_int (encoder_steps spec))) = Inr ex"
    "py_round (fa_voltage_v a * 2) = Inr vol"
    and packs: "pack_sint 1 (fa_temperature_c a) = Inr b1" "pack_uint 1 (fa_sensor_c a AND 0xFF) = Inr b2"
    "pack_uint 1 (max 0 (min 255 vol) AND 0xFF) = Inr b3" "pack_sint 2 tor = Inr b4" "pack_sint 2 spd = Inr b5" "pack_sint 4 pos = Inr b6"
    "pack_uint 4 (fa_error a AND 0xFFFFFFFF) = Inr b7"
    "pack_uint 2 ((ex AND 0x1FFF AND 0x1FFF) OR push_bit 13 (fa_warn a AND 0x07)) = Inr b8"
    and fr: "fr = [0xFC, 0xEE] @ ([word_of_int (mode_byte i (fa_mode a) (fa_timeout a))] @ b1 @ b2 @ b3 @ b4 @ b5 @ b6 @ b7 @ b8 @ [0, 0]) @
       le_bytes 4 (uint (crc32_unitree (take 20 (drop 2 ([0xFC, 0xEE] @ [word_of_int (mode_byte i (fa_mode a) (fa_timeout a))] @ b1 @ b2 @ b3 @ b4 @ b5 @ b6 @ b7 @ b8 @ [0, 0])))))"
    unfolding build_feedback_frame_def bindr_eq_Inr Let_def default_codec_def by (auto split: if_splits)
  have "length ([word_of_int (mode_byte i (fa_mode a) (fa_timeout a))] @ b1 @ b2 @ b3 @ b4 @ b5 @ b6 @ b7 @ b8 @ [0, 0 :: byte]) = 20"
    using packs by (auto simp: pack_Inr)
  then show thesis using packs fr by (intro that [OF raws, of b1 b2 b3 b4 b5 b6 b7 b8]) auto
qed

lemma feedback_unpacks:
  assumes "build_feedback_frame default_codec i spec a = Inr fr"
  shows "length fr = 26 \<and> (\<exists>st pos spd tor ex vol. unpack_state default_codec fr spec = Inr st \<and>
     raw32 (output_pos_to_raw spec (fa_q_out a)) = Inr pos \<and> raw16 (output_spd_to_raw spec (fa_dq_out a)) = Inr spd \<and>
     raw16 (output_torque_to_raw spec (fa_tau_out a)) = Inr tor \<and> py_round (fa_ex_pos_rad a / twopi * Fin (of_int (encoder_steps spec))) = Inr ex \<and>
     py_round (fa_voltage_v a * 2) = Inr vol \<and> ss_voltage_v st = Fin (of_int (max 0 (min 255 vol) AND 0xFF)) / 2 \<and>
     ss_ex_pos_rad st = ex_pos_to_rad spec (Fin (of_int (ex AND 0x1FFF))) \<and>
     ss_motor_id st = i AND 0x0F \<and> ss_temperature_c st = Fin (of_int (fa_temperature_c a)) \<and>
     ss_sensor_c st = Fin (of_int (fa_sensor_c a AND 0xFF)) \<and> ss_error st = fa_error a AND 0xFFFFFFFF \<and>
     ss_warn st = fa_warn a AND 0x07 \<and> ss_q_out st = raw_to_output_pos spec (Fin (of_int pos)) \<and>
     ss_dq_out st = raw_to_output_spd spec (Fin (of_int spd)) \<and> ss_tau_out st = raw_to_output_torque spec (Fin (of_int tor)))"
  using assms
proof (rule feedback_frame_shape)
  fix pos spd tor ex vol b1 b2 b3 b4 b5 b6 b7 b8
  let ?m = "word_of_int (mode_byte i (fa_mode a) (fa_timeout a)) :: byte"
  let ?body = "[?m] @ b1 @ b2 @ b3 @ b4 @ b5 @ b6 @ b7 @ b8 @ [0, 0]"
  let ?c = "le_bytes 4 (uint (crc32_unitree ?body))"
  assume raws: "raw32 (output_pos_to_raw spec (fa_q_out a)) = Inr pos" "raw16 (output_spd_to_raw spec (fa_dq_out a)) = Inr spd"
    "raw16 (output_torque_to_raw spec (fa_tau_out a)) = Inr tor" "py_round (fa_ex_pos_rad a / twopi * Fin (of_int (encoder_steps spec))) = Inr ex"
    "py_round (fa_voltage_v a * 2) = Inr vol"
    and b: "pack_sint 1 (fa_temperature_c a) = Inr b1" "pack_uint 1 (fa_sensor_c a AND 0xFF) = Inr b2"
    "pack_uint 1 (max 0 (min 255 vol) AND 0xFF) = Inr b3" "pack_sint 2 tor = Inr b4" "pack_sint 2 spd = Inr b5" "pack_sint 4 pos = Inr b6"
    "pack_uint 4 (fa_error a AND 0xFFFFFFFF) = Inr b7"
    "pack_uint 2 ((ex AND 0x1FFF) OR push_bit 13 (fa_warn a AND 0x07)) = Inr b8"
    and fr: "fr = [0xFC, 0xEE] @ [?m] @ b1 @ b2 @ b3 @ b4 @ b5 @ b6 @ b7 @ b8 @ [0, 0] @ ?c"
  have len: "length b1 = 1" "length b2 = 1" "length b3 = 1" "length b4 = 2" "length b5 = 2" "length b6 = 4"
    "length b7 = 4" "length b8 = 2" using b by (auto simp: pack_Inr)
  have body: "take 20 (drop 2 fr) = ?body" "take 4 (drop 22 fr) = ?c" "length fr = 26" "take 2 fr = [0xFC, 0xEE]"
    unfolding fr using len by simp_all
  have crc: "unpack_uint 4 fr 22 = Inr (uint (crc32_unitree ?body))"
    using body uint_bounded [of "crc32_unitree ?body"] by (simp add: unpack_uint_def le_uint_le_bytes)
  have at: "byte_at fr 2 = Inr (uint ?m)" unfolding fr by (simp add: byte_at_def)
  have f1: "unpack_sint 1 fr 3 = Inr (fa_temperature_c a)"
    unfolding fr using unpack_packed(2) [OF _ b(1), of "[0xFC, 0xEE, ?m]"] by simp
  have f2: "byte_at fr 4 = Inr (fa_sensor_c a AND 0xFF)"
    unfolding fr using byte_at_packed [OF _ b(2), of "[0xFC, 0xEE, ?m] @ b1"] len by simp
  have f3: "byte_at fr 5 = Inr (max 0 (min 255 vol) AND 0xFF)"
    unfolding fr using byte_at_packed [OF _ b(3), of "[0xFC, 0xEE, ?m] @ b1 @ b2"] len by simp
  have f4: "unpack_sint 2 fr 6 = Inr tor"
    unfolding fr using unpack_packed(2) [OF _ b(4), of "[0xFC, 0xEE, ?m] @ b1 @ b2 @ b3"] len by simp
  have f5: "unpack_sint 2 fr 8 = Inr spd"
    unfolding fr using unpack_packed(2) [OF _ b(5), of "[0xFC, 0xEE, ?m] @ b1 @ b2 @ b3 @ b4"] len by simp
  have f6: "unpack_sint 4 fr 10 = Inr pos"
    unfolding fr using unpack_packed(2) [OF _ b(6), of "[0xFC, 0xEE, ?m] @ b1 @ b2 @ b3 @ b4 @ b5"] len by simp
  have f7: "unpack_uint 4 fr 14 = Inr (fa_error a AND 0xFFFFFFFF)"
    unfolding fr using unpack_packed(1) [OF _ b(7), of "[0xFC, 0xEE, ?m] @ b1 @ b2 @ b3 @ b4 @ b5 @ b6"] len by simp
  define x where "x = (ex AND 0x1FFF) OR push_bit 13 (fa_warn a AND 0x07)"
  have x: "drop_bit 13 x AND 0x07 = fa_warn a AND 0x07" "x AND 0x1FFF = ex AND 0x1FFF" unfolding x_def by (rule outpos_fields(2), rule outpos_fields(1))
  have f8: "unpack_uint 2 fr 18 = Inr x" unfolding x_def
    unfolding fr using unpack_packed(1) [OF _ b(8), of "[0xFC, 0xEE, ?m] @ b1 @ b2 @ b3 @ b4 @ b5 @ b6 @ b7"] len by simp
  show ?thesis
    using raws body crc at f1 f2 f3 f4 f5 f6 f7 f8 x
    by (simp add: unpack_state_def default_codec_def mode_byte_id Let_def)
qed

subsection \<open>Quantisation\<close>

lemma round_half_even_close: "\<bar>of_int (round_half_even x) - x\<bar> \<le> 1 / 2"
  unfolding round_half_even_def Let_def by (auto simp: abs_le_iff)

text \<open>A value that is scaled, rounded and, as it fits its field, not clipped comes back within half a quantum.\<close>

lemma round_fits: "\<bar>y\<bar> \<le> of_int n \<Longrightarrow> - n \<le> round_half_even y \<and> round_half_even y \<le> n"
  by (auto simp: round_half_even_def Let_def) linarith+

lemma unscaled: "\<bar>of_int r - x * c\<bar> \<le> 1 / 2 \<Longrightarrow> 0 < c \<Longrightarrow> \<bar>of_int r / c - x\<bar> \<le> 1 / (2 * c)" for x c :: real
proof -
  assume h: "\<bar>of_int r - x * c\<bar> \<le> 1 / 2" "0 < c"
  then have "of_int r / c - x = (of_int r - x * c) / c" by (simp add: diff_divide_distrib)
  then have "\<bar>of_int r / c - x\<bar> = \<bar>of_int r - x * c\<bar> / c" using h(2) by simp
  also have "\<dots> \<le> (1 / 2) / c" using h by (intro divide_right_mono) simp_all
  finally show ?thesis by simp
qed

lemma raw_close:
  "raw16 (Fin y) = Inr r \<Longrightarrow> \<bar>y\<bar> \<le> 32767 \<Longrightarrow> \<bar>of_int r - y\<bar> \<le> 1 / 2"
  "raw32 (Fin y) = Inr r \<Longrightarrow> \<bar>y\<bar> \<le> 2147483647 \<Longrightarrow> \<bar>of_int r - y\<bar> \<le> 1 / 2"
  using round_half_even_close [of y] round_fits [of y 32767] round_fits [of y 2147483647]
  by (auto simp: raw16_def raw32_def clip16_def clip32_def)

lemma pos_quantum:
  assumes "raw32 (output_pos_to_raw spec (Fin q)) = Inr r" "gear_ratio spec = Fin g" "0 < g"
    and "\<bar>q\<bar> * g * 32768 / (2 * pi) \<le> 2147483647"
  shows "\<exists>x. raw_to_output_pos spec (Fin (of_int r)) = Fin x \<and> \<bar>x - q\<bar> \<le> pi / (32768 * g)"
proof -
  define c where "c = g * (32768 / (2 * pi))"
  have c: "0 < c" "1 / (2 * c) = pi / (32768 * g)" using assms(3) by (simp_all add: c_def)
  have "\<bar>of_int r - q * c\<bar> \<le> 1 / 2"
    using assms by (intro raw_close(2)) (simp_all add: output_pos_to_raw_def twopi_def c_def abs_mult mult_ac)
  moreover have "raw_to_output_pos spec (Fin (of_int r)) = Fin (of_int r / c)" using assms(2,3) by (simp add: raw_to_output_pos_def twopi_def c_def field_simps)
  ultimately show ?thesis using unscaled [of r q c] c by simp
qed

lemma spd_quantum:
  assumes "raw16 (output_spd_to_raw spec (Fin dq)) = Inr r" "gear_ratio spec = Fin g" "0 < g"
    and "\<bar>dq\<bar> * g * (2560 / 1000) / (2 * pi) \<le> 32767"
  shows "\<exists>x. raw_to_output_spd spec (Fin (of_int r)) = Fin x \<and> \<bar>x - dq\<bar> \<le> pi / (2560 / 1000 * g)"
proof -
  define c where "c = g * (2560 / 1000 / (2 * pi))"
  have c: "0 < c" "1 / (2 * c) = pi / (2560 / 1000 * g)" using assms(3) by (simp_all add: c_def)
  have "\<bar>of_int r - dq * c\<bar> \<le> 1 / 2"
    using assms by (intro raw_close(1)) (simp_all add: output_spd_to_raw_def twopi_def c_def abs_mult mult_ac)
  moreover have "raw_to_output_spd spec (Fin (of_int r)) = Fin (of_int r / c)" using assms(2,3) by (simp add: raw_to_output_spd_def twopi_def c_def field_simps)
  ultimately show ?thesis using unscaled [of r dq c] c by simp
qed

lemma torque_quantum:
  assumes "raw16 (output_torque_to_raw spec (Fin tau)) = Inr r" "gear_ratio spec = Fin g" "0 < g"
    and "\<bar>tau\<bar> / g * 256000 \<le> 32767"
  shows "\<exists>x. raw_to_output_torque spec (Fin (of_int r)) = Fin x \<and> \<bar>x - tau\<bar> \<le> g / 512000"
proof -
  define c where "c = 256000 / g"
  have c: "0 < c" "1 / (2 * c) = g / 512000" using assms(3) by (simp_all add: c_def)
  have "\<bar>of_int r - tau * c\<bar> \<le> 1 / 2"
    using assms by (intro raw_close(1)) (simp_all add: output_torque_to_raw_def c_def abs_mult mult_ac)
  moreover have "raw_to_output_torque spec (Fin (of_int r)) = Fin (of_int r / c)" using assms(2,3) by (simp add: raw_to_output_torque_def c_def field_simps)
  ultimately show ?thesis using unscaled [of r tau c] c by simp
qed

lemma low_bits: "0 \<le> n \<Longrightarrow> n < 256 \<Longrightarrow> n AND 0xFF = n" "0 \<le> n \<Longrightarrow> n < 8192 \<Longrightarrow> n AND 0x1FFF = n" for n :: int
  using take_bit_int_eq_self [of n 8] take_bit_int_eq_self [of n 13] by (simp_all add: take_bit_eq_mask mask_numeral)

lemma voltage_quantum:
  assumes "py_round (Fin v * 2) = Inr r" "0 \<le> v" "v \<le> 255 / 2"
  shows "\<exists>x. Fin (of_int (max 0 (min 255 r) AND 0xFF)) / 2 = Fin x \<and> \<bar>x - v\<bar> \<le> 1 / 4"
proof -
  have r: "r = round_half_even (v * 2)" using assms(1) by (simp add: mult.commute)
  then have "- 1 < real_of_int r" "real_of_int r < 256" using round_half_even_close [of "v * 2"] assms(2,3) by linarith+
  then have "0 \<le> r" "r \<le> 255" by linarith+
  then have "max 0 (min 255 r) AND 0xFF = r" by (simp add: low_bits)
  moreover have "\<bar>of_int r - v * 2\<bar> \<le> 1 / 2" using r round_half_even_close by simp
  from unscaled [OF this] have "\<bar>of_int r / 2 - v\<bar> \<le> 1 / 4" by simp
  ultimately show ?thesis by (intro exI [of _ "of_int r / 2"]) simp
qed

lemma ex_pos_quantum:
  assumes "py_round (Fin x / twopi * Fin (of_int (encoder_steps spec))) = Inr r" "encoder_steps spec = 8192" "0 \<le> x" "x / (2 * pi) * 8192 < 8191 + 1 / 2"
  shows "\<exists>y. ex_pos_to_rad spec (Fin (of_int (r AND 0x1FFF))) = Fin y \<and> \<bar>y - x\<bar> \<le> pi / 8192"
proof -
  define c where "c = 8192 / (2 * pi)"
  have c: "0 < c" "1 / (2 * c) = pi / 8192" by (simp_all add: c_def)
  have r: "r = round_half_even (x * c)" using assms(1,2) by (simp add: twopi_def c_def mult_ac)
  have "0 \<le> x * c" "x * c < 8191 + 1 / 2" using assms(3,4) by (simp_all add: c_def)
  then have "- 1 < real_of_int r" "real_of_int r < 8192" using round_half_even_close [of "x * c"] r by linarith+
  then have "0 \<le> r" "r < 8192" by linarith+
  then have "r AND 0x1FFF = r" by (rule low_bits)
  moreover have "\<bar>of_int r - x * c\<bar> \<le> 1 / 2" using r round_half_even_close by simp
  from unscaled [OF this c(1)] have "\<bar>of_int r / c - x\<bar> \<le> pi / 8192" using c(2) by simp
  ultimately show ?thesis using assms(2) by (intro exI [of _ "of_int r / c"]) (simp add: ex_pos_to_rad_def twopi_def c_def)
qed

text \<open>
  C28: feedback frames decode to what they encode. Every frame \<open>build_feedback_frame\<close> returns is 26 bytes
  long and \<open>unpack_state\<close> accepts it: the motor id (its low four bits), temperature, sensor byte, error
  word and warning bits come back unchanged, and the output angle, speed and torque, the supply voltage and the absolute angle
  come back within half a quantum of their fields, as long as they fit them (gear ratio positive, 8192 encoder steps, the
  absolute angle not so close to a full turn that it rounds to the next one). The mode bits are not part of the decoded state.
\<close>

theorem feedback_roundtrip:
  assumes "build_feedback_frame default_codec i spec a = Inr fr"
    and "gear_ratio spec = Fin g" and "0 < g" and "encoder_steps spec = 8192"
    and "fa_q_out a = Fin q" "\<bar>q\<bar> * g * 32768 / (2 * pi) \<le> 2147483647"
    and "fa_dq_out a = Fin dq" "\<bar>dq\<bar> * g * (2560 / 1000) / (2 * pi) \<le> 32767"
    and "fa_tau_out a = Fin tau" "\<bar>tau\<bar> / g * 256000 \<le> 32767"
    and "fa_voltage_v a = Fin v" "0 \<le> v" "v \<le> 255 / 2"
    and "fa_ex_pos_rad a = Fin ex" "0 \<le> ex" "ex / (2 * pi) * 8192 < 8191 + 1 / 2"
  shows "length fr = 26 \<and> (\<exists>st q' dq' tau' v' ex'. unpack_state default_codec fr spec = Inr st \<and>
     ss_motor_id st = i AND 0x0F \<and> ss_temperature_c st = Fin (of_int (fa_temperature_c a)) \<and>
     ss_sensor_c st = Fin (of_int (fa_sensor_c a AND 0xFF)) \<and> ss_error st = fa_error a AND 0xFFFFFFFF \<and> ss_warn st = fa_warn a AND 0x07 \<and>
     ss_q_out st = Fin q' \<and> \<bar>q' - q\<bar> \<le> pi / (32768 * g) \<and> ss_dq_out st = Fin dq' \<and> \<bar>dq' - dq\<bar> \<le> pi / (2560 / 1000 * g) \<and>
     ss_tau_out st = Fin tau' \<and> \<bar>tau' - tau\<bar> \<le> g / 512000 \<and> ss_voltage_v st = Fin v' \<and> \<bar>v' - v\<bar> \<le> 1 / 4 \<and>
     ss_ex_pos_rad st = Fin ex' \<and> \<bar>ex' - ex\<bar> \<le> pi / 8192)"
proof -
  obtain st pos spd tor exr vol where u: "unpack_state default_codec fr spec = Inr st" "length fr = 26"
      "raw32 (output_pos_to_raw spec (Fin q)) = Inr pos" "raw16 (output_spd_to_raw spec (Fin dq)) = Inr spd" "raw16 (output_torque_to_raw spec (Fin tau)) = Inr tor"
      "py_round (Fin ex / twopi * Fin (of_int (encoder_steps spec))) = Inr exr" "py_round (Fin v * 2) = Inr vol"
    and f: "ss_voltage_v st = Fin (of_int (max 0 (min 255 vol) AND 0xFF)) / 2" "ss_ex_pos_rad st = ex_pos_to_rad spec (Fin (of_int (exr AND 0x1FFF)))"
      "ss_motor_id st = i AND 0x0F" "ss_temperature_c st = Fin (of_int (fa_temperature_c a))"
      "ss_sensor_c st = Fin (of_int (fa_sensor_c a AND 0xFF))" "ss_error st = fa_error a AND 0xFFFFFFFF" "ss_warn st = fa_warn a AND 0x07"
      "ss_q_out st = raw_to_output_pos spec (Fin (of_int pos))" "ss_dq_out st = raw_to_output_spd spec (Fin (of_int spd))" "ss_tau_out st = raw_to_output_torque spec (Fin (of_int tor))"
    using feedback_unpacks [OF assms(1)] unfolding assms(5,7,9,11,14) by blast
  show ?thesis using u(1,2) f pos_quantum [OF u(3) assms(2,3,6)] spd_quantum [OF u(4) assms(2,3,8)] torque_quantum [OF u(5) assms(2,3,10)]
      voltage_quantum [OF u(7) assms(12,13)] ex_pos_quantum [OF u(6) assms(4,15,16)] by auto
qed

subsection \<open>Command frames\<close>

lemma raw_total: "isfinite x \<Longrightarrow> raw16 x = Inr (clip16 (round_half_even (val x)))"
  "isfinite x \<Longrightarrow> raw32 x = Inr (clip32 (round_half_even (val x)))"
  by (auto simp: raw16_def raw32_def isfinite_iff)

definition command_finite :: "S288Command \<Rightarrow> bool" where
  "command_finite c \<longleftrightarrow> all_finite [sc_q_out c, sc_dq_out c, sc_tau_out c, sc_kp_out c, sc_kd_out c]"

definition command_raws :: "S288Spec \<Rightarrow> S288Command \<Rightarrow> int list" where
  "command_raws spec c = map (\<lambda>x. round_half_even (val x))
     [output_torque_to_raw spec (sc_tau_out c), output_spd_to_raw spec (sc_dq_out c), output_pos_to_raw spec (sc_q_out c),
      output_kp_to_raw spec (sc_kp_out c), output_kd_to_raw spec (sc_kd_out c)]"

lemma raws_finite:
  assumes "command_finite c" "gear_ratio spec = Fin g" "0 < g"
  shows "isfinite (output_torque_to_raw spec (sc_tau_out c))" "isfinite (output_spd_to_raw spec (sc_dq_out c))"
    "isfinite (output_pos_to_raw spec (sc_q_out c))" "isfinite (output_kp_to_raw spec (sc_kp_out c))"
    "isfinite (output_kd_to_raw spec (sc_kd_out c))"
  using assms by (auto simp: command_finite_def isfinite_iff output_torque_to_raw_def output_spd_to_raw_def output_pos_to_raw_def
      output_kp_to_raw_def output_kd_to_raw_def twopi_def)

lemma command_frame_fields:
  assumes "command_finite c" and "gear_ratio spec = Fin g" and "0 < g"
  shows "\<exists>fr. pack_command default_codec i c spec m t = Inr fr \<and> length fr = 20 \<and> take 2 fr = [0xFE, 0xEE] \<and>
     uint (fr ! 2) AND 0x0F = i AND 0x0F \<and>
     [unpack_sint 2 fr 4, unpack_sint 2 fr 6, unpack_sint 4 fr 8, unpack_sint 2 fr 12, unpack_sint 2 fr 14] =
       map Inr (map2 (\<lambda>f v. f v) [clip16, clip16, clip32, clip16, clip16] (command_raws spec c)) \<and>
     unpack_uint 4 fr 16 = Inr (uint (crc32_unitree (take 16 fr)))"
proof -
  note fin = raws_finite [OF assms]
  let ?r = "\<lambda>x. round_half_even (val x)"
  obtain b1 b2 b3 b4 b5 where b: "pack_sint 2 (clip16 (?r (output_torque_to_raw spec (sc_tau_out c)))) = Inr b1"
    "pack_sint 2 (clip16 (?r (output_spd_to_raw spec (sc_dq_out c)))) = Inr b2"
    "pack_sint 4 (clip32 (?r (output_pos_to_raw spec (sc_q_out c)))) = Inr b3"
    "pack_sint 2 (clip16 (?r (output_kp_to_raw spec (sc_kp_out c)))) = Inr b4"
    "pack_sint 2 (clip16 (?r (output_kd_to_raw spec (sc_kd_out c)))) = Inr b5"
    using clip_packs by metis
  define mb where "mb = (word_of_int (mode_byte i (case m of None \<Rightarrow> mode_foc default_codec | Some m \<Rightarrow> m)
     (case t of None \<Rightarrow> timeout_default default_codec | Some t \<Rightarrow> t)) :: byte)"
  define h where "h = [0xFE, 0xEE, mb, 0] @ b1 @ b2 @ b3 @ b4 @ b5"
  have pk: "pack_command default_codec i c spec m t = Inr (h @ le_bytes 4 (uint (crc32_unitree h)))"
    unfolding pack_command_def Let_def raw_total [OF fin(1)] raw_total [OF fin(2)] raw_total [OF fin(3)]
      raw_total [OF fin(4)] raw_total [OF fin(5)] bindr_Inr b
    by (simp add: default_codec_def h_def mb_def)
  have len: "length b1 = 2" "length b2 = 2" "length b3 = 4" "length b4 = 2" "length b5 = 2" using b by (auto simp: pack_Inr)
  let ?c = "le_bytes 4 (uint (crc32_unitree h))"
  have f: "unpack_sint 2 (h @ ?c) 4 = Inr (clip16 (?r (output_torque_to_raw spec (sc_tau_out c))))"
    "unpack_sint 2 (h @ ?c) 6 = Inr (clip16 (?r (output_spd_to_raw spec (sc_dq_out c))))"
    "unpack_sint 4 (h @ ?c) 8 = Inr (clip32 (?r (output_pos_to_raw spec (sc_q_out c))))"
    "unpack_sint 2 (h @ ?c) 12 = Inr (clip16 (?r (output_kp_to_raw spec (sc_kp_out c))))"
    "unpack_sint 2 (h @ ?c) 14 = Inr (clip16 (?r (output_kd_to_raw spec (sc_kd_out c))))"
    unfolding h_def
    using unpack_packed(2) [OF _ b(1), of "[0xFE, 0xEE, mb, 0]" 4] unpack_packed(2) [OF _ b(2), of "[0xFE, 0xEE, mb, 0] @ b1" 6]
      unpack_packed(2) [OF _ b(3), of "[0xFE, 0xEE, mb, 0] @ b1 @ b2" 8]
      unpack_packed(2) [OF _ b(4), of "[0xFE, 0xEE, mb, 0] @ b1 @ b2 @ b3" 12]
      unpack_packed(2) [OF _ b(5), of "[0xFE, 0xEE, mb, 0] @ b1 @ b2 @ b3 @ b4" 14] len by simp_all
  have "length h = 16" "take 2 h = [0xFE, 0xEE]" "h ! 2 = mb" using len by (simp_all add: h_def)
  then show ?thesis
    using pk f uint_bounded [of "crc32_unitree h"]
    by (simp add: unpack_uint_def le_uint_le_bytes command_raws_def nth_append mb_def mode_byte_id)
qed

text \<open>
  A finite command always becomes a frame. For any motor id and any finite command \<open>pack_command\<close>
  returns 20 bytes: the command header, a mode byte naming the motor, the five fields decoded back by
  \<^verbatim>\<open>struct\<close> as the rounded raw values saturated to their 16- or 32-bit range, and the checksum of all that.
\<close>

theorem command_frame_saturates:
  assumes "command_finite c" and "gear_ratio spec = Fin g" and "0 < g"
  shows "\<exists>fr. pack_command default_codec i c spec m t = Inr fr \<and> length fr = 20 \<and> take 2 fr = [0xFE, 0xEE] \<and>
     uint (fr ! 2) AND 0x0F = i AND 0x0F \<and>
     [unpack_sint 2 fr 4, unpack_sint 2 fr 6, unpack_sint 4 fr 8, unpack_sint 2 fr 12, unpack_sint 2 fr 14] =
       map Inr (map2 (\<lambda>f v. f v) [clip16, clip16, clip32, clip16, clip16] (command_raws spec c)) \<and>
     unpack_uint 4 fr 16 = Inr (uint (crc32_unitree (take 16 fr)))"
  using assms by (rule command_frame_fields)

subsection \<open>Witnesses\<close>

definition demo_fb :: fb_args where
  "demo_fb = \<lparr>fa_q_out = 0, fa_dq_out = 0, fa_tau_out = 0, fa_temperature_c = 25, fa_sensor_c = 30, fa_voltage_v = 12,
     fa_error = 5, fa_ex_pos_rad = 0, fa_warn = 3, fa_mode = 1, fa_timeout = True\<rparr>"

lemma demo_fb_frame: "\<exists>fr. build_feedback_frame default_codec 7 default_spec demo_fb = Inr fr"
proof -
  have "round_half_even 0 = 0" "round_half_even 24 = 24" by (simp_all add: round_half_even_def)
  then show ?thesis
    by (simp add: build_feedback_frame_def demo_fb_def default_spec_def default_codec_def raw32_def raw16_def twopi_def
        output_pos_to_raw_def output_spd_to_raw_def output_torque_to_raw_def clip16_def clip32_def pack_sint_def pack_uint_def Let_def)
qed

theorem feedback_roundtrip_witness:
  "\<exists>fr st v. build_feedback_frame default_codec 7 default_spec demo_fb = Inr fr \<and>
     unpack_state default_codec fr default_spec = Inr st \<and> ss_motor_id st = 7 \<and> ss_error st = 5 \<and> ss_warn st = 3 \<and> ss_voltage_v st = Fin v \<and> \<bar>v - 12\<bar> \<le> 1 / 4"
proof -
  obtain fr where fr: "build_feedback_frame default_codec 7 default_spec demo_fb = Inr fr" using demo_fb_frame by blast
  have "gear_ratio default_spec = Fin (70070 / 243)" "encoder_steps default_spec = 8192" "fa_q_out demo_fb = Fin 0" "fa_dq_out demo_fb = Fin 0" "fa_tau_out demo_fb = Fin 0"
      "fa_voltage_v demo_fb = Fin 12" "fa_ex_pos_rad demo_fb = Fin 0" by (simp_all add: default_spec_def demo_fb_def)
  from feedback_roundtrip [OF fr this(1) _ this(2,3) _ this(4) _ this(5) _ this(6) _ _ this(7)] fr show ?thesis by (auto simp: demo_fb_def)
qed

theorem single_byte_corruption_refused_witness:
  "\<exists>fr b why. build_feedback_frame default_codec 7 default_spec demo_fb = Inr fr \<and> b \<noteq> fr ! 10 \<and>
     unpack_state default_codec (fr[10 := b]) default_spec = Inl (ValueError why)"
proof -
  obtain fr where fr: "build_feedback_frame default_codec 7 default_spec demo_fb = Inr fr" using demo_fb_frame by blast
  obtain st where st: "unpack_state default_codec fr default_spec = Inr st" "length fr = 26" using feedback_unpacks [OF fr] by blast
  have "fr ! 10 + 1 \<noteq> fr ! 10" by simp
  with single_byte_corruption_refused [OF st, of 10 "fr ! 10 + 1"]
  obtain why where "unpack_state default_codec (fr[10 := fr ! 10 + 1]) default_spec = Inl (ValueError why)" by auto
  with fr \<open>fr ! 10 + 1 \<noteq> fr ! 10\<close> show ?thesis by blast
qed

theorem command_frame_saturates_witness:
  "\<exists>fr. pack_command default_codec 3 zero_command default_spec None None = Inr fr \<and> length fr = 20"
proof -
  have "command_finite zero_command" "gear_ratio default_spec = Fin (70070 / 243)"
    by (simp_all add: command_finite_def zero_command_def default_spec_def)
  moreover have "(0 :: real) < 70070 / 243" by simp
  ultimately show ?thesis using command_frame_saturates [of zero_command default_spec _ 3 None None] by blast
qed

end
