(* ===== verification/S288_Bus.thy ===== *)
theory S288_Bus
  imports S288_Frames Impedance "HOL-Library.Sublist"
begin

text \<open>
  The buses of \<^verbatim>\<open>leader_follower/s288.py\<close> and the joint chain on top of them.

  A bus call depends on what happens on the wire, which is an argument: for the simulated bus the clock
  and the encoder noise, for the serial bus one \<open>exchange_env\<close> per motor (how each write attempt ends, and
  what has arrived at each poll of the port until the deadline). A call returns its result
  together with the bus it leaves behind, because an exception does not undo what was already done.
\<close>

subsection \<open>Interface\<close>

text \<open>
  What a joint chain relies on: a read that succeeds has a state for every motor of the bus, and no call
  changes which motors there are.
\<close>

locale s288_bus =
  fixes ids :: "'b \<Rightarrow> int list"
    and write_commands :: "'e \<Rightarrow> 'b \<Rightarrow> (int \<times> S288Command) list \<Rightarrow> unit result \<times> 'b"
    and read_states :: "'e \<Rightarrow> 'b \<Rightarrow> (int \<times> S288State) list result \<times> 'b"
  assumes write_ids: "ids (snd (write_commands env b cmds)) = ids b"
    and read_ids: "ids (snd (read_states env b)) = ids b"
    and read_covers: "read_states env b = (Inr states, b') \<Longrightarrow> mid \<in> set (ids b) \<Longrightarrow> map_of states mid \<noteq> None"

subsection \<open>The simulated bus\<close>

record FakeS288Bus =
  fk_ids :: "int list"
  fk_spec :: S288Spec
  fk_tau :: fl
  fk_q :: "int \<Rightarrow> fl"
  fk_dq :: "int \<Rightarrow> fl"
  fk_q_cmd :: "int \<Rightarrow> fl"
  fk_last_t :: fl

definition mk_FakeS288Bus :: "int list \<Rightarrow> S288Spec \<Rightarrow> fl \<Rightarrow> fl \<Rightarrow> FakeS288Bus" where
  "mk_FakeS288Bus motor_ids spec time_constant_s now =
     \<lparr>fk_ids = motor_ids, fk_spec = spec, fk_tau = py_max time_constant_s (Fin (1 / 1000)), fk_q = (\<lambda>_. 0), fk_dq = (\<lambda>_. 0),
      fk_q_cmd = (\<lambda>_. 0), fk_last_t = now\<rparr>"

fun fake_writes :: "FakeS288Bus \<Rightarrow> (int \<times> S288Command) list \<Rightarrow> FakeS288Bus" where
  "fake_writes b [] = b"
| "fake_writes b ((mid, cmd) # cs) =
     fake_writes (if mid \<in> set (fk_ids b) then b\<lparr>fk_q_cmd := (fk_q_cmd b)(mid := sc_q_out cmd)\<rparr> else b) cs"

definition fake_write_commands :: "fl \<times> (nat \<Rightarrow> fl) \<Rightarrow> FakeS288Bus \<Rightarrow> (int \<times> S288Command) list \<Rightarrow> unit result \<times> FakeS288Bus" where
  "fake_write_commands env b cmds = (Inr (), fake_writes b cmds)"

text \<open>Python's float \<open>%\<close> with a positive finite modulus.\<close>

fun py_fmod :: "fl \<Rightarrow> real \<Rightarrow> fl" where
  "py_fmod (Fin x) m = Fin (x - m * of_int \<lfloor>x / m\<rfloor>)"
| "py_fmod _ m = NaN"

definition fake_state :: "FakeS288Bus \<Rightarrow> int \<Rightarrow> fl \<Rightarrow> fl \<Rightarrow> S288State" where
  "fake_state b mid q dq =
     \<lparr>ss_motor_id = mid, ss_q_rotor = output_to_rotor_angle (fk_spec b) q, ss_dq_rotor = output_to_rotor_velocity (fk_spec b) dq,
      ss_tau_rotor = 0, ss_q_out = q, ss_dq_out = dq, ss_tau_out = 0, ss_temperature_c = 25,
      ss_voltage_v = voltage_nominal_v (fk_spec b), ss_error = 0, ss_has_output_angle = True,
      ss_ex_pos_rad = py_fmod q (2 * pi), ss_sensor_c = 30, ss_warn = 0\<rparr>"

definition fake_step :: "FakeS288Bus \<Rightarrow> fl \<Rightarrow> int \<Rightarrow> fl \<Rightarrow> fl \<times> fl" where
  "fake_step b dt mid noise =
     (let alpha = (if dt > 0 then py_min (dt / fk_tau b) 1 else 0);
          prev = fk_q b mid;
          q = prev + (fk_q_cmd b mid - prev) * alpha;
          dq = (if dt > Fin (1 / 10 ^ 9) then (q - prev) / dt else 0)
      in (q, dq + noise))"

fun fake_reads :: "fl \<Rightarrow> (nat \<Rightarrow> fl) \<Rightarrow> nat \<Rightarrow> int list \<Rightarrow> FakeS288Bus \<Rightarrow> (int \<times> S288State) list \<Rightarrow>
    (int \<times> S288State) list \<times> FakeS288Bus" where
  "fake_reads dt noise k [] b states = (states, b)"
| "fake_reads dt noise k (mid # mids) b states =
     (let (q, dq) = fake_step b dt mid (noise k);
          b' = b\<lparr>fk_q := (fk_q b)(mid := q), fk_dq := (fk_dq b)(mid := dq)\<rparr>
      in fake_reads dt noise (Suc k) mids b' (dict_put mid (fake_state b mid q dq) states))"

definition fake_read_states :: "fl \<times> (nat \<Rightarrow> fl) \<Rightarrow> FakeS288Bus \<Rightarrow> (int \<times> S288State) list result \<times> FakeS288Bus" where
  "fake_read_states env b =
     (let (now, noise) = env;
          dt = py_max (now - fk_last_t b) 0;
          (states, b') = fake_reads dt noise 0 (fk_ids b) (b\<lparr>fk_last_t := now\<rparr>) []
      in (Inr states, b'))"

subsection \<open>The serial bus\<close>

text \<open>
  One attempt to write a frame: it succeeds, or \<^verbatim>\<open>write\<close> or \<^verbatim>\<open>flush\<close> raises when so many bytes of the frame, perhaps all of
  them, are already on the wire.
\<close>

datatype write_outcome = Written | WriteFailed nat

record exchange_env =
  ev_writes :: "nat \<Rightarrow> write_outcome"
  ev_start :: fl
  ev_polls :: "(fl \<times> byte list) list"

record SerialS288Bus =
  sb_ids :: "int list"
  sb_spec :: S288Spec
  sb_codec :: S288Codec
  sb_response_timeout_s :: fl
  sb_write_retries :: nat
  sb_last_states :: "(int \<times> S288State) list"
  sb_last_command :: "(int \<times> S288Command) list"
  sb_sent :: "byte list list"

definition mk_SerialS288Bus :: "int list \<Rightarrow> S288Spec \<Rightarrow> S288Codec \<Rightarrow> fl \<Rightarrow> int \<Rightarrow> SerialS288Bus" where
  "mk_SerialS288Bus motor_ids spec codec timeout retries =
     \<lparr>sb_ids = motor_ids, sb_spec = spec, sb_codec = codec, sb_response_timeout_s = timeout,
      sb_write_retries = nat (max 1 retries), sb_last_states = [],
      sb_last_command = fold (\<lambda>i d. dict_put i zero_command d) motor_ids [], sb_sent = []\<rparr>"

text \<open>
  The two polling loops of \<^verbatim>\<open>_read_response\<close>. \<open>avail\<close> holds the bytes that arrived and were not read;
  a read returns at most what it asks for. Each poll carries the clock and what arrived since.
\<close>

fun poll_until :: "fl \<Rightarrow> nat \<Rightarrow> byte list \<Rightarrow> byte list \<Rightarrow> (fl \<times> byte list) list \<Rightarrow>
    byte list \<times> byte list \<times> (fl \<times> byte list) list" where
  "poll_until deadline goal buf avail [] = (buf, avail, [])"
| "poll_until deadline goal buf avail ((now, arrived) # polls) =
     (if now < deadline \<and> length buf < goal then
        let av = avail @ arrived; k = goal - length buf
        in poll_until deadline goal (buf @ take k av) (drop k av) polls
      else (buf, avail, (now, arrived) # polls))"

text \<open>\<^verbatim>\<open>bytes.find\<close>: the first position of a subsequence.\<close>

fun find_sub :: "byte list \<Rightarrow> byte list \<Rightarrow> nat option" where
  "find_sub pat [] = (if pat = [] then Some 0 else None)"
| "find_sub pat (x # xs) = (if take (length pat) (x # xs) = pat then Some 0 else map_option Suc (find_sub pat xs))"

definition read_response :: "SerialS288Bus \<Rightarrow> fl \<Rightarrow> (fl \<times> byte list) list \<Rightarrow> byte list option" where
  "read_response b start polls =
     (let need = response_len (sb_codec b);
          deadline = start + sb_response_timeout_s b;
          (buf, avail, rest) = poll_until deadline need [] [] polls
      in case find_sub (header_fb (sb_codec b)) buf of
           None \<Rightarrow> None
         | Some idx \<Rightarrow>
             let (buf', _, _) = poll_until deadline (idx + need) buf avail rest in
             if length buf' < idx + need then None else Some (take need (drop idx buf')))"

text \<open>The loop over the write attempts, from the \<open>k\<close>-th on: what it puts on the wire, attempt by attempt, and whether one succeeded.\<close>

fun write_attempts :: "(nat \<Rightarrow> write_outcome) \<Rightarrow> byte list \<Rightarrow> nat \<Rightarrow> nat \<Rightarrow> byte list list \<times> bool" where
  "write_attempts outcome frame k 0 = ([], False)"
| "write_attempts outcome frame k (Suc n) =
     (case outcome k of
        Written \<Rightarrow> ([frame], True)
      | WriteFailed m \<Rightarrow> (let (sent, ok) = write_attempts outcome frame (Suc k) n in (take m frame # sent, ok)))"

definition exchange_one :: "exchange_env \<Rightarrow> SerialS288Bus \<Rightarrow> int \<Rightarrow> S288Command \<Rightarrow> unit result \<times> SerialS288Bus" where
  "exchange_one env b motor_id command =
     (case pack_command (sb_codec b) motor_id command (sb_spec b) None None of
        Inl e \<Rightarrow> (Inl e, b)
      | Inr frame \<Rightarrow>
          let (sent, ok) = write_attempts (ev_writes env) frame 0 (sb_write_retries b); b1 = b\<lparr>sb_sent := sb_sent b @ sent\<rparr> in
          if \<not> ok then (Inl (RuntimeError ''SerialException''), b1)
          else (case read_response b1 (ev_start env) (ev_polls env) of
             None \<Rightarrow> (Inl (TimeoutError ''no valid feedback''), b1)
           | Some payload \<Rightarrow>
               (case unpack_state (sb_codec b1) payload (sb_spec b1) of
                  Inl e \<Rightarrow> (Inl e, b1)
                | Inr st \<Rightarrow> (Inr (), b1\<lparr>sb_last_states := dict_put motor_id st (sb_last_states b1)\<rparr>))))"

definition get_command :: "int \<Rightarrow> (int \<times> S288Command) list \<Rightarrow> S288Command \<Rightarrow> S288Command" where
  "get_command mid d fallback = (case map_of d mid of None \<Rightarrow> fallback | Some c \<Rightarrow> c)"

fun serial_writes :: "(nat \<Rightarrow> exchange_env) \<Rightarrow> nat \<Rightarrow> int list \<Rightarrow> (int \<times> S288Command) list \<Rightarrow> SerialS288Bus \<Rightarrow>
    unit result \<times> SerialS288Bus" where
  "serial_writes env k [] commands b = (Inr (), b)"
| "serial_writes env k (mid # mids) commands b =
     (let cmd = get_command mid commands (get_command mid (sb_last_command b) zero_command);
          (r, b') = exchange_one (env k) (b\<lparr>sb_last_command := dict_put mid cmd (sb_last_command b)\<rparr>) mid cmd
      in case r of Inl e \<Rightarrow> (Inl e, b') | Inr _ \<Rightarrow> serial_writes env (Suc k) mids commands b')"

definition serial_write_commands ::
    "(nat \<Rightarrow> exchange_env) \<Rightarrow> SerialS288Bus \<Rightarrow> (int \<times> S288Command) list \<Rightarrow> unit result \<times> SerialS288Bus" where
  "serial_write_commands env b commands = serial_writes env 0 (sb_ids b) commands b"

fun serial_reads :: "(nat \<Rightarrow> exchange_env) \<Rightarrow> nat \<Rightarrow> int list \<Rightarrow> SerialS288Bus \<Rightarrow> unit result \<times> SerialS288Bus" where
  "serial_reads env k [] b = (Inr (), b)"
| "serial_reads env k (mid # mids) b =
     (let (r, b') = exchange_one (env k) b mid (get_command mid (sb_last_command b) zero_command)
      in case r of Inl e \<Rightarrow> (Inl e, b') | Inr _ \<Rightarrow> serial_reads env (Suc k) mids b')"

definition serial_read_states ::
    "(nat \<Rightarrow> exchange_env) \<Rightarrow> SerialS288Bus \<Rightarrow> (int \<times> S288State) list result \<times> SerialS288Bus" where
  "serial_read_states env b =
     (let (r, b') = serial_reads env 0 (sb_ids b) b
      in (case r of Inl e \<Rightarrow> Inl e | Inr _ \<Rightarrow> Inr (sb_last_states b'), b'))"

subsection \<open>The joint chain\<close>

text \<open>\<^verbatim>\<open>read_arrays\<close>, from the states one bus poll returned.\<close>

definition read_arrays :: "int list \<Rightarrow> (int \<times> S288State) list \<Rightarrow> (vec \<times> vec \<times> vec) result" where
  "read_arrays motor_ids states =
     bindr (mapr (\<lambda>mid. case map_of states mid of None \<Rightarrow> Inl (RuntimeError ''missing state feedback'') | Some st \<Rightarrow> Inr st) motor_ids)
       (\<lambda>sts. Inr (map ss_q_out sts, map ss_dq_out sts, map ss_ex_pos_rad sts))"

definition chain_read :: "('e \<Rightarrow> 'b \<Rightarrow> (int \<times> S288State) list result \<times> 'b) \<Rightarrow> int list \<Rightarrow> 'e \<Rightarrow> 'b \<Rightarrow> (vec \<times> vec \<times> vec) result \<times> 'b" where
  "chain_read read motor_ids env b =
     (let (r, b') = read env b in (bindr r (read_arrays motor_ids), b'))"

definition broadcast_to :: "nat \<Rightarrow> arr \<Rightarrow> vec result" where
  "broadcast_to n a =
     (case a of Scalar x \<Rightarrow> Inr (replicate n x)
      | Row v \<Rightarrow> if length v = n then Inr v else if length v = 1 then Inr (replicate n (hd v))
          else Inl (ValueError ''operands could not be broadcast together'')
      | Rows _ \<Rightarrow> Inl (ValueError ''operands could not be broadcast together''))"

definition or_zeros :: "nat \<Rightarrow> vec \<Rightarrow> vec" where
  "or_zeros n v = (if v = [] then zeros n else v)"

definition command_positions ::
    "('e \<Rightarrow> 'b \<Rightarrow> (int \<times> S288Command) list \<Rightarrow> unit result \<times> 'b) \<Rightarrow> int list \<Rightarrow> 'e \<Rightarrow> 'b \<Rightarrow>
     vec \<Rightarrow> arr \<Rightarrow> arr \<Rightarrow> vec \<Rightarrow> vec \<Rightarrow> unit result \<times> 'b" where
  "command_positions write motor_ids env b q kp_out kd_out dq_out tau_out =
     (let n = length motor_ids; dq = or_zeros n dq_out; tau = or_zeros n tau_out in
      if length q \<noteq> n then (Inl (ValueError ''q_out has the wrong length''), b)
      else case bindr (broadcast_to n kp_out) (\<lambda>kp. bindr (broadcast_to n kd_out) (\<lambda>kd.
             bindr (mapr (\<lambda>i. bindr (py_get dq (int i)) (\<lambda>d. bindr (py_get tau (int i)) (\<lambda>t.
               Inr (motor_ids ! i, \<lparr>sc_q_out = q ! i, sc_dq_out = d, sc_tau_out = t, sc_kp_out = kp ! i, sc_kd_out = kd ! i\<rparr>)))) [0..<n])
             (\<lambda>cs. Inr (fold (\<lambda>(m, c) d. dict_put m c d) cs []))))
        of Inl e \<Rightarrow> (Inl e, b) | Inr commands \<Rightarrow> write env b commands)"

definition chain_release ::
    "('e \<Rightarrow> 'b \<Rightarrow> (int \<times> S288Command) list \<Rightarrow> unit result \<times> 'b) \<Rightarrow> int list \<Rightarrow> 'e \<Rightarrow> 'b \<Rightarrow> unit result \<times> 'b" where
  "chain_release write motor_ids env b = write env b (fold (\<lambda>m d. dict_put m zero_command d) motor_ids [])"

subsection \<open>Clients of the interface\<close>

context s288_bus begin

lemma chain_read_complete:
  assumes "set motor_ids \<subseteq> set (ids b)" and "read_states env b = (Inr states, b')"
  shows "\<exists>q dq ex. chain_read read_states motor_ids env b = (Inr (q, dq, ex), b') \<and>
     length q = length motor_ids \<and> length dq = length motor_ids \<and> length ex = length motor_ids \<and>
     (\<forall>i < length motor_ids. \<exists>st. map_of states (motor_ids ! i) = Some st \<and>
        q ! i = ss_q_out st \<and> dq ! i = ss_dq_out st \<and> ex ! i = ss_ex_pos_rad st)"
proof -
  let ?st = "\<lambda>mid. the (map_of states mid)"
  have cov: "map_of states mid = Some (?st mid)" if "mid \<in> set motor_ids" for mid
    using read_covers [OF assms(2)] assms(1) that by auto
  then have "mapr (\<lambda>mid. case map_of states mid of None \<Rightarrow> Inl (RuntimeError ''missing state feedback'') | Some st \<Rightarrow> Inr st) motor_ids
      = Inr (map ?st motor_ids)" by (intro mapr_total) (auto dest: cov split: option.splits)
  then show ?thesis
    using assms(2) by (auto simp: chain_read_def read_arrays_def intro!: exI conjI cov)
qed

end

subsection \<open>The simulated bus keeps the interface\<close>

lemma fake_writes_ids: "fk_ids (fake_writes b cmds) = fk_ids b"
  by (induction b cmds rule: fake_writes.induct) auto

lemma fake_reads_ids: "fk_ids (snd (fake_reads dt noise k mids b states)) = fk_ids b"
  by (induction dt noise k mids b states rule: fake_reads.induct) (auto simp: Let_def split: prod.splits)

lemma fake_reads_keys:
  "fst (fake_reads dt noise k mids b states) = out \<Longrightarrow> mid \<in> set mids \<or> map_of states mid \<noteq> None \<Longrightarrow> map_of out mid \<noteq> None"
proof (induction dt noise k mids b states arbitrary: out rule: fake_reads.induct)
  case (2 dt noise k m mids b states)
  obtain q dq where e: "fake_step b dt m (noise k) = (q, dq)" by fastforce
  show ?case using "2.IH" [OF e [symmetric] refl refl] "2.prems" by (auto simp: e Let_def)
qed auto

interpretation fake_bus: s288_bus fk_ids fake_write_commands fake_read_states
proof
  show "fk_ids (snd (fake_write_commands env b cmds)) = fk_ids b" for env b cmds
    by (simp add: fake_write_commands_def fake_writes_ids)
  show "fk_ids (snd (fake_read_states env b)) = fk_ids b" for env b
    by (simp add: fake_read_states_def fake_reads_ids split: prod.splits) (metis fake_reads_ids snd_conv FakeS288Bus.select_convs(1) FakeS288Bus.update_convs(7) FakeS288Bus.surjective)
  show "map_of states mid \<noteq> None" if "fake_read_states env b = (Inr states, b')" "mid \<in> set (fk_ids b)" for env b states b' mid
    using that fake_reads_keys [of _ _ 0 "fk_ids b" _ "[]" states mid]
    by (auto simp: fake_read_states_def Let_def split: prod.splits) (metis fst_conv option.distinct(1))
qed

subsection \<open>The serial bus keeps the interface\<close>

lemma read_response_length: "read_response b start polls = Some p \<Longrightarrow> length p = response_len (sb_codec b)"
  by (auto simp: read_response_def Let_def split: option.splits prod.splits if_splits)

text \<open>What a polling loop has read and left unread is what arrived at the polls it made, all before the deadline.\<close>

lemma poll_until_reads:
  "poll_until deadline goal buf avail polls = (buf', avail', rest) \<Longrightarrow>
     \<exists>used. polls = used @ rest \<and> (\<forall>p \<in> set used. fst p < deadline) \<and> buf' @ avail' = buf @ avail @ concat (map snd used)"
proof (induction deadline goal buf avail polls rule: poll_until.induct)
  case (2 deadline goal buf avail now arrived polls)
  show ?case
  proof (cases "now < deadline \<and> length buf < goal")
    case True
    let ?av = "avail @ arrived" and ?k = "goal - length buf"
    have "poll_until deadline goal (buf @ take ?k ?av) (drop ?k ?av) polls = (buf', avail', rest)"
      using "2.prems" True by (simp only: poll_until.simps(2) Let_def if_True simp_thms)
    from "2.IH" [OF True refl refl this] obtain used where used: "polls = used @ rest" "\<forall>p \<in> set used. fst p < deadline"
        "buf' @ avail' = (buf @ take ?k ?av) @ drop ?k ?av @ concat (map snd used)" by blast
    have av: "take ?k ?av @ drop ?k ?av @ x = ?av @ x" for x by (metis append_assoc append_take_drop_id)
    from used(3) have "buf' @ avail' = buf @ avail @ concat (map snd ((now, arrived) # used))" unfolding append_assoc av by simp
    then show ?thesis using used(1,2) True by (intro exI [of _ "(now, arrived) # used"]) simp
  next
    case False
    then have "buf' = buf" "avail' = avail" "rest = (now, arrived) # polls" using "2.prems" unfolding poll_until.simps(2) by (simp_all only: if_False prod.inject)
    then show ?thesis by simp
  qed
qed simp

text \<open>The bytes that arrive within the response timeout of one exchange.\<close>

definition in_time :: "SerialS288Bus \<Rightarrow> exchange_env \<Rightarrow> byte list" where
  "in_time b env = concat (map snd (takeWhile (\<lambda>p. fst p < ev_start env + sb_response_timeout_s b) (ev_polls env)))"

lemma read_response_arrived:
  assumes "read_response b (ev_start env) (ev_polls env) = Some p"
  shows "sublist p (in_time b env)"
proof -
  let ?d = "ev_start env + sb_response_timeout_s b" and ?n = "response_len (sb_codec b)"
  obtain buf avail rest idx buf' avail' rest' where
      one: "poll_until ?d ?n [] [] (ev_polls env) = (buf, avail, rest)" and
      two: "poll_until ?d (idx + ?n) buf avail rest = (buf', avail', rest')" and p: "p = take ?n (drop idx buf')"
    using assms by (auto simp: read_response_def Let_def split: option.splits prod.splits if_splits)
  obtain u1 where u1: "ev_polls env = u1 @ rest" "\<forall>p \<in> set u1. fst p < ?d" "buf @ avail = concat (map snd u1)" using poll_until_reads [OF one] by auto
  obtain u2 where u2: "rest = u2 @ rest'" "\<forall>p \<in> set u2. fst p < ?d" "buf' @ avail' = buf @ avail @ concat (map snd u2)" using poll_until_reads [OF two] by auto
  have "takeWhile (\<lambda>p. fst p < ?d) (ev_polls env) = (u1 @ u2) @ takeWhile (\<lambda>p. fst p < ?d) rest'" using u1(1,2) u2(1,2) by simp
  then have "in_time b env = buf' @ avail' @ concat (map snd (takeWhile (\<lambda>p. fst p < ?d) rest'))" using u1(3) u2(3) by (simp add: in_time_def flip: append_assoc)
  moreover have "sublist p buf'" unfolding p by (meson sublist_drop sublist_order.order_trans sublist_take)
  ultimately show ?thesis by (simp add: sublist_appendI sublist_order.order_trans)
qed

lemma exchange_one_keeps:
  assumes "exchange_one env b mid cmd = (r, b')"
  shows "sb_ids b' = sb_ids b" "sb_codec b' = sb_codec b" "sb_spec b' = sb_spec b" "sb_last_command b' = sb_last_command b"
    "sb_response_timeout_s b' = sb_response_timeout_s b"
  using assms by (auto simp: exchange_one_def Let_def split: sum.splits if_splits option.splits prod.splits)

lemma exchange_one_fails: "exchange_one env b mid cmd = (Inl e, b') \<Longrightarrow> sb_last_states b' = sb_last_states b"
  by (auto simp: exchange_one_def Let_def split: sum.splits if_splits option.splits prod.splits)

text \<open>A state that was decoded from a frame that passed the checks and arrived in time in this exchange.\<close>

definition answered :: "SerialS288Bus \<Rightarrow> exchange_env \<Rightarrow> S288State \<Rightarrow> bool" where
  "answered b env st \<longleftrightarrow> (\<exists>payload. sublist payload (in_time b env) \<and> length payload = response_len (sb_codec b) \<and>
     unpack_state (sb_codec b) payload (sb_spec b) = Inr st)"

lemma exchange_one_ok:
  assumes "exchange_one env b mid cmd = (Inr u, b')"
  shows "\<exists>st. answered b env st \<and> sb_last_states b' = dict_put mid st (sb_last_states b)"
proof -
  obtain sent payload st where p: "read_response (b\<lparr>sb_sent := sent\<rparr>) (ev_start env) (ev_polls env) = Some payload"
      "unpack_state (sb_codec b) payload (sb_spec b) = Inr st" "sb_last_states b' = dict_put mid st (sb_last_states b)"
    using assms by (auto simp: exchange_one_def Let_def split: sum.splits if_splits option.splits prod.splits)
  then show ?thesis using read_response_arrived [OF p(1)] read_response_length [OF p(1)] by (auto simp: answered_def in_time_def)
qed

text \<open>
  What an exchange puts on the wire: attempts at the one packed command, each failed one any prefix of the frame; if the
  writing succeeded the last is the whole frame.
\<close>

lemma write_attempts_prefixes:
  "write_attempts outcome frame k n = (sent, ok) \<Longrightarrow> (\<forall>x \<in> set sent. prefix x frame) \<and> length sent \<le> n \<and> (ok \<longrightarrow> sent \<noteq> [] \<and> last sent = frame)"
  by (induction outcome frame k n arbitrary: sent rule: write_attempts.induct)
    (auto split: write_outcome.splits prod.splits simp: take_is_prefix)

lemma exchange_one_sent:
  assumes "exchange_one env b mid cmd = (r, b')" "pack_command (sb_codec b) mid cmd (sb_spec b) None None = Inr frame"
  shows "\<exists>sent. sb_sent b' = sb_sent b @ sent \<and> (\<forall>x \<in> set sent. prefix x frame) \<and> length sent \<le> sb_write_retries b \<and>
     (r \<noteq> Inl (RuntimeError ''SerialException'') \<longrightarrow> sent \<noteq> [] \<and> last sent = frame)"
proof -
  obtain sent ok where w: "write_attempts (ev_writes env) frame 0 (sb_write_retries b) = (sent, ok)" by fastforce
  have "sb_sent b' = sb_sent b @ sent" "\<not> ok \<longrightarrow> r = Inl (RuntimeError ''SerialException'')"
    using assms w by (auto simp: exchange_one_def Let_def split: sum.splits if_splits option.splits)
  then show ?thesis using write_attempts_prefixes [OF w] by blast
qed

lemma serial_writes_ids: "serial_writes env k mids cmds b = (r, b') \<Longrightarrow> sb_ids b' = sb_ids b"
proof (induction env k mids cmds b arbitrary: r b' rule: serial_writes.induct)
  case (2 env k mid mids cmds b)
  define cmd where "cmd = get_command mid cmds (get_command mid (sb_last_command b) zero_command)"
  define b0 where "b0 = b\<lparr>sb_last_command := dict_put mid cmd (sb_last_command b)\<rparr>"
  obtain r1 b1 where e: "exchange_one (env k) b0 mid cmd = (r1, b1)" by fastforce
  have step: "sb_ids b1 = sb_ids b" using exchange_one_keeps(1) [OF e] by (simp add: b0_def)
  show ?case
  proof (cases r1)
    case (Inl x)
    with "2.prems" e step show ?thesis by (simp add: cmd_def b0_def)
  next
    case (Inr u)
    with "2.prems" e have "serial_writes env (Suc k) mids cmds b1 = (r, b')" by (simp add: cmd_def b0_def)
    with "2.IH" [OF cmd_def e [symmetric, unfolded b0_def] refl Inr] step show ?thesis by simp
  qed
qed simp

lemma serial_reads_inv:
  "serial_reads env k mids b = (r, b') \<Longrightarrow>
     sb_ids b' = sb_ids b \<and> (\<forall>mid. map_of (sb_last_states b) mid \<noteq> None \<longrightarrow> map_of (sb_last_states b') mid \<noteq> None) \<and>
     (r = Inr () \<longrightarrow> (\<forall>mid \<in> set mids. map_of (sb_last_states b') mid \<noteq> None))"
proof (induction env k mids b arbitrary: r b' rule: serial_reads.induct)
  case (2 env k mid mids b)
  obtain r1 b1 where e: "exchange_one (env k) b mid (get_command mid (sb_last_command b) zero_command) = (r1, b1)" by fastforce
  show ?case
  proof (cases r1)
    case (Inl x)
    with "2.prems" e exchange_one_keeps(1) [OF e] exchange_one_fails show ?thesis by auto
  next
    case (Inr u)
    with e obtain st where st: "sb_last_states b1 = dict_put mid st (sb_last_states b)" using exchange_one_ok by blast
    from Inr "2.prems" e have "serial_reads env (Suc k) mids b1 = (r, b')" by simp
    from "2.IH" [OF e [symmetric] refl Inr this] st exchange_one_keeps(1) [OF e] show ?thesis by (auto split: if_splits)
  qed
qed simp

text \<open>After a successful poll the state of each motor is the one decoded in that motor's own exchange.\<close>

lemma serial_reads_fresh:
  "serial_reads env k mids b = (Inr (), b') \<Longrightarrow> distinct mids \<Longrightarrow>
     (\<forall>j < length mids. \<exists>st. answered b (env (k + j)) st \<and> map_of (sb_last_states b') (mids ! j) = Some st) \<and>
     (\<forall>mid. mid \<notin> set mids \<longrightarrow> map_of (sb_last_states b') mid = map_of (sb_last_states b) mid)"
proof (induction env k mids b arbitrary: b' rule: serial_reads.induct)
  case (2 env k mid mids b)
  obtain r1 b1 where e: "exchange_one (env k) b mid (get_command mid (sb_last_command b) zero_command) = (r1, b1)" by fastforce
  obtain u where Inr: "r1 = Inr u" using "2.prems"(1) e by (cases r1) auto
  with e obtain st where st: "answered b (env k) st" "sb_last_states b1 = dict_put mid st (sb_last_states b)" using exchange_one_ok by blast
  have same: "answered b1 x y = answered b x y" for x y using exchange_one_keeps(2,3,5) [OF e] by (simp add: answered_def in_time_def)
  from Inr "2.prems"(1) e have "serial_reads env (Suc k) mids b1 = (Inr (), b')" by simp
  note ih = "2.IH" [OF e [symmetric] refl Inr this]
  have other: "map_of (sb_last_states b') m = map_of (sb_last_states b) m" if "m \<notin> set (mid # mids)" for m using ih "2.prems"(2) st(2) that by simp
  have "map_of (sb_last_states b') mid = Some st" using ih "2.prems"(2) st(2) by simp
  moreover have "\<exists>st. answered b (env (Suc k + j)) st \<and> map_of (sb_last_states b') (mids ! j) = Some st" if "j < length mids" for j
    using ih "2.prems"(2) that same by simp
  ultimately have "\<exists>st. answered b (env (k + j)) st \<and> map_of (sb_last_states b') ((mid # mids) ! j) = Some st" if "j < length (mid # mids)" for j
    using st(1) that by (cases j) auto
  then show ?case using other by blast
qed simp

interpretation serial_bus: s288_bus sb_ids serial_write_commands serial_read_states
proof
  show "sb_ids (snd (serial_write_commands env b cmds)) = sb_ids b" for env b cmds
    using serial_writes_ids [of env 0 "sb_ids b" cmds b] by (cases "serial_writes env 0 (sb_ids b) cmds b") (auto simp: serial_write_commands_def)
  show "sb_ids (snd (serial_read_states env b)) = sb_ids b" for env b
    using serial_reads_inv [of env 0 "sb_ids b" b] by (cases "serial_reads env 0 (sb_ids b) b") (auto simp: serial_read_states_def)
  show "map_of states mid \<noteq> None" if "serial_read_states env b = (Inr states, b')" "mid \<in> set (sb_ids b)" for env b states b' mid
    using serial_reads_inv [of env 0 "sb_ids b" b] that
    by (cases "serial_reads env 0 (sb_ids b) b") (auto simp: serial_read_states_def split: sum.splits)
qed

subsection \<open>Properties\<close>

text \<open>
  C29: what the joint chain reads over the serial bus is complete, checked and of this poll. If a poll of the bus succeeds, the
  chain returns one angle, velocity and absolute angle per motor without raising, in the chain's order, and the three of each
  motor were decoded from one frame of the expected length that passed the header and CRC checks and lies contiguously in the
  bytes that arrived, before the response timeout, in the exchange of this poll in which that motor was addressed.
\<close>

theorem serial_chain_reads_checked_frames:
  assumes "distinct (sb_ids b)" and "set motor_ids \<subseteq> set (sb_ids b)" and "serial_read_states env b = (Inr states, b')"
  shows "\<exists>q dq ex. chain_read serial_read_states motor_ids env b = (Inr (q, dq, ex), b') \<and> length q = length motor_ids \<and>
     length dq = length motor_ids \<and> length ex = length motor_ids \<and>
     (\<forall>i < length motor_ids. \<exists>k st. k < length (sb_ids b) \<and> sb_ids b ! k = motor_ids ! i \<and> answered b (env k) st \<and>
        q ! i = ss_q_out st \<and> dq ! i = ss_dq_out st \<and> ex ! i = ss_ex_pos_rad st)"
proof -
  have r: "serial_reads env 0 (sb_ids b) b = (Inr (), b')" and st: "states = sb_last_states b'"
    using assms(3) by (auto simp: serial_read_states_def split: prod.splits sum.splits)
  have from_wire: "\<exists>k. k < length (sb_ids b) \<and> sb_ids b ! k = m \<and> answered b (env k) x" if m: "m \<in> set motor_ids" "map_of states m = Some x" for m x
  proof -
    obtain k where k: "k < length (sb_ids b)" "sb_ids b ! k = m" using subsetD [OF assms(2) m(1)] unfolding in_set_conv_nth by blast
    have "\<exists>y. answered b (env (0 + k)) y \<and> map_of (sb_last_states b') (sb_ids b ! k) = Some y" using serial_reads_fresh [OF r assms(1)] k(1) by blast
    then have "answered b (env k) x" using m(2) k(2) st by simp
    then show ?thesis using k by blast
  qed
  obtain q dq ex where c: "chain_read serial_read_states motor_ids env b = (Inr (q, dq, ex), b')" "length q = length motor_ids" "length dq = length motor_ids"
      "length ex = length motor_ids" "\<forall>i < length motor_ids. \<exists>y. map_of states (motor_ids ! i) = Some y \<and> q ! i = ss_q_out y \<and> dq ! i = ss_dq_out y \<and> ex ! i = ss_ex_pos_rad y"
    using serial_bus.chain_read_complete [OF assms(2,3)] by blast
  have "\<exists>k st. k < length (sb_ids b) \<and> sb_ids b ! k = motor_ids ! i \<and> answered b (env k) st \<and>
      q ! i = ss_q_out st \<and> dq ! i = ss_dq_out st \<and> ex ! i = ss_ex_pos_rad st" if i: "i < length motor_ids" for i
  proof -
    obtain y where y: "map_of states (motor_ids ! i) = Some y" "q ! i = ss_q_out y \<and> dq ! i = ss_dq_out y \<and> ex ! i = ss_ex_pos_rad y" using c(5) i by blast
    obtain k where "k < length (sb_ids b)" "sb_ids b ! k = motor_ids ! i" "answered b (env k) y" using from_wire [OF nth_mem [OF i] y(1)] by blast
    then show ?thesis using y(2) by blast
  qed
  then show ?thesis using c(1-4) by blast
qed

text \<open>
  The simulated motors never overshoot. With finite commands a poll moves every motor towards its
  commanded angle and never past it: the new angle lies between the old one and the command.
\<close>

theorem fake_bus_never_overshoots:
  assumes "fk_q b mid = Fin q0" and "fk_q_cmd b mid = Fin c" and "fk_tau b = Fin tau" and "0 < tau"
    and "dt = Fin d" and "0 \<le> d"
  shows "\<exists>q dq. fake_step b dt mid (Fin noise) = (Fin q, Fin dq) \<and> min q0 c \<le> q \<and> q \<le> max q0 c \<and>
     \<bar>q - c\<bar> \<le> \<bar>q0 - c\<bar> \<and> (tau \<le> d \<longrightarrow> q = c)"
proof -
  define al where "al = (if 0 < d then min (d / tau) 1 else 0)"
  define q where "q = q0 + (c - q0) * al"
  have al: "0 \<le> al" "al \<le> 1" "tau \<le> d \<longrightarrow> al = 1" using assms(4,6) by (auto simp: al_def)
  have step: "\<exists>dq. fake_step b dt mid (Fin noise) = (Fin q, Fin dq)"
    using assms by (auto simp: fake_step_def q_def al_def Let_def)
  have "min q0 c \<le> q \<and> q \<le> max q0 c \<and> \<bar>q - c\<bar> \<le> \<bar>q0 - c\<bar>"
  proof -
    have "q - c = (q0 - c) * (1 - al)" by (simp add: q_def algebra_simps)
    then have d: "\<bar>q - c\<bar> = \<bar>q0 - c\<bar> * (1 - al)" using al by (simp add: abs_mult)
    also have "\<dots> \<le> \<bar>q0 - c\<bar> * 1" using al by (intro mult_left_mono) auto
    finally have "\<bar>q - c\<bar> \<le> \<bar>q0 - c\<bar>" by simp
    moreover have "q0 \<le> c \<Longrightarrow> 0 \<le> (c - q0) * al \<and> (c - q0) * al \<le> (c - q0) * 1"
      "c \<le> q0 \<Longrightarrow> 0 \<le> (q0 - c) * al \<and> (q0 - c) * al \<le> (q0 - c) * 1"
      using al by (auto intro: mult_left_mono simp del: mult_1_right)
    ultimately show ?thesis by (cases "q0 \<le> c") (auto simp: q_def algebra_simps)
  qed
  with step al(3) show ?thesis by (auto simp: q_def)
qed

subsection \<open>Witnesses\<close>

definition demo_serial :: SerialS288Bus where
  "demo_serial = mk_SerialS288Bus [7] default_spec default_codec (Fin (1 / 200)) 4"

text \<open>One motor that answers with one noise byte and then its frame, after a first failed write.\<close>

definition demo_env :: "byte list \<Rightarrow> nat \<Rightarrow> exchange_env" where
  "demo_env fr k = \<lparr>ev_writes = (\<lambda>n. if n = 0 then WriteFailed 3 else Written), ev_start = 0, ev_polls = [(0, 0 # fr), (0, [])]\<rparr>"

lemma demo_response:
  assumes "length fr = 26" "take 2 fr = [0xFC, 0xEE]"
  shows "read_response (demo_serial\<lparr>sb_sent := x\<rparr>) 0 [(0, 0 # fr), (0, [])] = Some fr"
proof -
  obtain a b rest where fr: "fr = a # b # rest" using assms by (cases fr rule: remdups_adj.cases) auto
  with assms have ab: "a = 0xFC" "b = 0xEE" "length rest = 24" by auto
  have "take 23 rest @ drop 23 rest = rest" by (rule append_take_drop_id)
  with ab show ?thesis
    by (simp add: read_response_def demo_serial_def mk_SerialS288Bus_def default_codec_def fr)
qed

lemma demo_read:
  assumes "build_feedback_frame default_codec 7 default_spec demo_fb = Inr fr"
  shows "\<exists>st b'. serial_read_states (demo_env fr) demo_serial = (Inr [(7, st)], b') \<and> sb_last_states b' = [(7, st)]"
proof -
  obtain st where st: "length fr = 26" "unpack_state default_codec fr default_spec = Inr st" using feedback_unpacks [OF assms] by blast
  then have "take 2 fr = [0xFC, 0xEE]" using unpack_state_gates(1) [of fr default_spec] by (auto simp: frame_gates_def)
  note resp = demo_response [OF st(1) this]
  have fin: "command_finite zero_command" "gear_ratio default_spec = Fin (70070 / 243)"
    by (simp_all add: command_finite_def zero_command_def default_spec_def)
  then obtain out where out: "pack_command default_codec 7 zero_command default_spec None None = Inr out"
    using command_frame_fields [of zero_command default_spec "70070 / 243" 7 None None] by auto
  have cfg: "sb_codec demo_serial = default_codec" "sb_spec demo_serial = default_spec" "sb_ids demo_serial = [7]"
    "get_command 7 (sb_last_command demo_serial) zero_command = zero_command" "sb_write_retries demo_serial = 4"
    "sb_last_states demo_serial = []" "sb_sent demo_serial = []"
    by (simp_all add: demo_serial_def mk_SerialS288Bus_def get_command_def)
  have "exchange_one (demo_env fr 0) demo_serial 7 zero_command = (Inr (), demo_serial\<lparr>sb_sent := [take 3 out, out], sb_last_states := [(7, st)]\<rparr>)"
    using resp by (simp add: exchange_one_def cfg out demo_env_def st(2) Let_def eval_nat_numeral)
  then show ?thesis by (simp add: serial_read_states_def cfg)
qed

theorem serial_chain_reads_checked_frames_witness:
  "\<exists>fr st b' q dq ex. chain_read serial_read_states [7] (demo_env fr) demo_serial = (Inr (q, dq, ex), b') \<and> length q = 1 \<and>
     answered demo_serial (demo_env fr 0) st \<and> q ! 0 = ss_q_out st"
proof -
  obtain fr where fr: "build_feedback_frame default_codec 7 default_spec demo_fb = Inr fr" using demo_fb_frame by blast
  obtain st b' where r: "serial_read_states (demo_env fr) demo_serial = (Inr [(7, st)], b')" using demo_read [OF fr] by blast
  have d: "distinct (sb_ids demo_serial)" "set [7] \<subseteq> set (sb_ids demo_serial)" "sb_ids demo_serial = [7]"
    by (simp_all add: demo_serial_def mk_SerialS288Bus_def)
  from serial_chain_reads_checked_frames [OF d(1,2) r] d(3) show ?thesis by fastforce
qed

theorem fake_bus_never_overshoots_witness:
  "\<exists>q dq. fake_step ((mk_FakeS288Bus [1] default_spec (Fin (1 / 10)) 0)\<lparr>fk_q_cmd := (\<lambda>_. Fin 1)\<rparr>) (Fin (1 / 100)) 1 (Fin 0) =
     (Fin q, Fin dq) \<and> 0 \<le> q \<and> q \<le> 1"
  using fake_bus_never_overshoots [of "(mk_FakeS288Bus [1] default_spec (Fin (1 / 10)) 0)\<lparr>fk_q_cmd := (\<lambda>_. Fin 1)\<rparr>" 1 0 1 "1 / 10"
      "Fin (1 / 100)" "1 / 100" 0]
  by (auto simp: mk_FakeS288Bus_def)

end
