(* ===== verification/Mapping_Model.thy ===== *)
theory Mapping_Model
  imports Floats
begin

text \<open>
  \<^verbatim>\<open>arm_control/leader_follower/mapping.py\<close>: the conversion of the small arm's joint state into targets
  for the big arm.

  \<open>Retargeter\<close> is the record of the dataclass, its private fields included. \<open>rt_map\<close> returns the frame
  (or \<open>None\<close>) together with the retargeter it leaves behind, since the method assigns \<^verbatim>\<open>_last_t\<close> and
  \<^verbatim>\<open>_ramp_elapsed\<close> before later steps that may raise on arrays of another length.
\<close>

record JointMapping =
  jm_src_index :: int
  jm_sign :: fl
  jm_offset :: fl
  jm_scale :: fl
  jm_lower :: fl
  jm_upper :: fl
  jm_max_rate :: fl

definition jm_apply :: "JointMapping \<Rightarrow> vec \<Rightarrow> fl \<Rightarrow> fl result" where
  "jm_apply j leader_state extra_offset =
     bindr (py_get leader_state (jm_src_index j)) (\<lambda>raw. Inr (jm_offset j + extra_offset + jm_scale j * jm_sign j * raw))"

definition jm_clamp :: "JointMapping \<Rightarrow> fl \<Rightarrow> fl" where
  "jm_clamp j value = np_clip value (jm_lower j) (jm_upper j)"

record GripperMapping =
  gm_src_index :: int
  gm_open_finger_m :: fl
  gm_closed_finger_m :: fl
  gm_max_rate_m_s :: fl

definition gm_apply :: "GripperMapping \<Rightarrow> vec \<Rightarrow> fl result" where
  "gm_apply g leader_state =
     bindr (py_get leader_state (gm_src_index g)) (\<lambda>x.
       let u = np_clip x 0 1;
           w = gm_closed_finger_m g + u * (gm_open_finger_m g - gm_closed_finger_m g)
       in Inr (np_clip w (py_min (gm_open_finger_m g) (gm_closed_finger_m g)) (py_max (gm_open_finger_m g) (gm_closed_finger_m g))))"

record Retargeter =
  rt_joints :: "JointMapping list"
  rt_gripper :: "GripperMapping option"
  rt_alpha :: fl
  rt_ramp_s :: fl
  rt_hold_last_on_stale :: bool
  rt_align :: "vec option"
  rt_prev_arm :: "vec option"
  rt_prev_grip :: "fl option"
  rt_start_arm :: "vec option"
  rt_start_grip :: "fl option"
  rt_ramp_elapsed :: fl
  rt_last_t :: "fl option"
  rt_last_ok :: "(vec \<times> fl) option"

definition mk_Retargeter :: "JointMapping list \<Rightarrow> GripperMapping option \<Rightarrow> fl \<Rightarrow> fl \<Rightarrow> bool \<Rightarrow> Retargeter result" where
  "mk_Retargeter joints gripper alpha ramp_s hold =
     (if joints = [] then Inl (ValueError ''Retargeter needs at least one joint mapping'')
      else Inr \<lparr>rt_joints = joints, rt_gripper = gripper, rt_alpha = alpha, rt_ramp_s = ramp_s, rt_hold_last_on_stale = hold,
                rt_align = None, rt_prev_arm = None, rt_prev_grip = None, rt_start_arm = None, rt_start_grip = None,
                rt_ramp_elapsed = 0, rt_last_t = None, rt_last_ok = None\<rparr>)"

definition n_out :: "Retargeter \<Rightarrow> nat" where
  "n_out rt = length (rt_joints rt)"

definition rt_auto_align :: "Retargeter \<Rightarrow> vec \<Rightarrow> vec \<Rightarrow> Retargeter result" where
  "rt_auto_align rt leader_state follower =
     (if length follower \<noteq> n_out rt then Inl (ValueError ''follower state has the wrong length'')
      else bindr (mapr (\<lambda>i. bindr (jm_apply (rt_joints rt ! i) leader_state 0) (\<lambda>a. Inr (follower ! i - a))) [0..<n_out rt])
        (\<lambda>al. Inr (rt\<lparr>rt_align := Some al\<rparr>)))"

definition rt_reset :: "Retargeter \<Rightarrow> vec \<Rightarrow> fl \<Rightarrow> Retargeter" where
  "rt_reset rt follower_arm_state follower_gripper_finger_m =
     rt\<lparr>rt_start_arm := Some follower_arm_state, rt_start_grip := Some follower_gripper_finger_m,
        rt_prev_arm := Some follower_arm_state, rt_prev_grip := Some follower_gripper_finger_m,
        rt_ramp_elapsed := 0, rt_last_t := None\<rparr>"

fun opt_value :: "fl option \<Rightarrow> fl result" where
  "opt_value None = Inl TypeError"
| "opt_value (Some x) = Inr x"

text \<open>The four stages of \<^verbatim>\<open>Retargeter.map\<close>, each from the arm and gripper values of the one before.\<close>

definition rt_desired :: "Retargeter \<Rightarrow> vec \<Rightarrow> (vec \<times> fl) result" where
  "rt_desired rt leader_state =
     (let al = (case rt_align rt of Some a \<Rightarrow> a | None \<Rightarrow> zeros (n_out rt)) in
      bindr (mapr (\<lambda>i. bindr (py_get al (int i)) (jm_apply (rt_joints rt ! i) leader_state)) [0..<n_out rt]) (\<lambda>desired.
      bindr (case rt_gripper rt of Some g \<Rightarrow> gm_apply g leader_state | None \<Rightarrow> Inr 0) (\<lambda>grip. Inr (desired, grip))))"

definition rt_smooth :: "Retargeter \<Rightarrow> vec \<times> fl \<Rightarrow> (vec \<times> fl) result" where
  "rt_smooth rt x =
     (case rt_prev_arm rt of
        Some prev \<Rightarrow>
          if rt_alpha rt < 1 then
            let a = rt_alpha rt in
            bindr (np_map2 (\<lambda>p d. p * (1 - a) + d * a) prev (fst x)) (\<lambda>desired.
            bindr (if rt_gripper rt = None then Inr (snd x)
                   else bindr (opt_value (rt_prev_grip rt)) (\<lambda>pg. Inr (pg * (1 - a) + snd x * a))) (\<lambda>grip. Inr (desired, grip)))
          else Inr x
      | None \<Rightarrow> Inr x)"

definition ramping :: "Retargeter \<Rightarrow> bool" where
  "ramping rt \<longleftrightarrow> rt_ramp_s rt > 0 \<and> rt_start_arm rt \<noteq> None"

definition rt_ramp :: "Retargeter \<Rightarrow> vec \<times> fl \<Rightarrow> (vec \<times> fl) result" where
  "rt_ramp rt x =
     (if ramping rt then
        let blend = py_min (rt_ramp_elapsed rt / rt_ramp_s rt) 1 in
        bindr (np_map2 (\<lambda>s d. s + blend * (d - s)) (the (rt_start_arm rt)) (fst x)) (\<lambda>desired.
        bindr (if rt_gripper rt = None then Inr (snd x)
               else bindr (opt_value (rt_start_grip rt)) (\<lambda>sg. Inr (sg + blend * (snd x - sg)))) (\<lambda>grip. Inr (desired, grip)))
      else Inr x)"

definition rate_clip :: "fl \<Rightarrow> fl \<Rightarrow> fl \<Rightarrow> fl \<Rightarrow> fl" where
  "rate_clip rate dt prev v = (if isfinite rate then np_clip v (prev - rate * dt) (prev + rate * dt) else v)"

definition rt_rate :: "Retargeter \<Rightarrow> fl \<Rightarrow> vec \<times> fl \<Rightarrow> (vec \<times> fl) result" where
  "rt_rate rt dt x =
     (case rt_prev_arm rt of
        Some prev \<Rightarrow>
          if dt > Fin (1 / 10 ^ 9) then
            bindr (mapr (\<lambda>i. if \<not> isfinite (jm_max_rate (rt_joints rt ! i)) then py_get (fst x) (int i)
                else bindr (py_get (fst x) (int i)) (\<lambda>v. bindr (py_get prev (int i)) (\<lambda>p.
                  Inr (rate_clip (jm_max_rate (rt_joints rt ! i)) dt p v)))) [0..<n_out rt]) (\<lambda>desired.
            bindr (case rt_gripper rt of None \<Rightarrow> Inr (snd x)
                   | Some g \<Rightarrow> if isfinite (gm_max_rate_m_s g)
                       then bindr (opt_value (rt_prev_grip rt)) (\<lambda>pg. Inr (rate_clip (gm_max_rate_m_s g) dt pg (snd x)))
                       else Inr (snd x)) (\<lambda>grip.
            Inr (desired, grip)))
          else Inr x
      | None \<Rightarrow> Inr x)"

definition rt_map :: "Retargeter \<Rightarrow> vec \<Rightarrow> fl \<Rightarrow> (vec \<times> fl) option result \<times> Retargeter" where
  "rt_map rt leader_state now =
     (if \<not> all_finite leader_state then (Inr (if rt_hold_last_on_stale rt then rt_last_ok rt else None), rt)
      else case rt_desired rt leader_state of
        Inl e \<Rightarrow> (Inl e, rt)
      | Inr x0 \<Rightarrow>
          let dt = (case rt_last_t rt of None \<Rightarrow> 0 | Some t \<Rightarrow> py_max (now - t) 0);
              rt1 = rt\<lparr>rt_last_t := Some now\<rparr> in
          (case rt_smooth rt1 x0 of
             Inl e \<Rightarrow> (Inl e, rt1)
           | Inr x1 \<Rightarrow>
               let rt2 = (if ramping rt1 then rt1\<lparr>rt_ramp_elapsed := rt_ramp_elapsed rt1 + dt\<rparr> else rt1) in
               (case bindr (rt_ramp rt2 x1) (rt_rate rt2 dt) of
                  Inl e \<Rightarrow> (Inl e, rt2)
                | Inr (d, grip) \<Rightarrow>
                    let desired = map2 jm_clamp (rt_joints rt) d in
                    (Inr (Some (desired, grip)),
                     rt2\<lparr>rt_prev_arm := Some desired, rt_prev_grip := Some grip, rt_last_ok := Some (desired, grip)\<rparr>))))"

end
