(* ===== verification/Leader.thy ===== *)
theory Leader
  imports S288_Bus Mapping_Model
begin

text \<open>
  \<^verbatim>\<open>arm_control/leader_follower/leader.py\<close>: the small arm as an input device.

  What the motor chain (or the wrapped gello robot) returns for one poll is an argument of the operation
  that polls it; \<open>chain_read\<close> of the bus model produces it. Operations return the arm they leave behind.
\<close>

record S288LeaderArm =
  la_n :: nat
  la_offsets :: vec
  la_signs :: vec
  la_gripper_index :: "int option"
  la_gripper_open_rad :: fl
  la_gripper_close_rad :: fl
  la_alpha :: fl
  la_use_ex_pos :: bool
  la_gripper_use_ex_pos :: bool
  la_last_pos :: "vec option"

definition py_set :: "'a list \<Rightarrow> int \<Rightarrow> 'a \<Rightarrow> 'a list result" where
  "py_set xs i v = (case py_index xs i of None \<Rightarrow> Inl IndexError | Some j \<Rightarrow> Inr (xs[j := v]))"

definition ex_pos_mask :: "S288LeaderArm \<Rightarrow> bool list result" where
  "ex_pos_mask a =
     (let mask = replicate (la_n a) (la_use_ex_pos a) in
      case (la_gripper_use_ex_pos a, la_gripper_index a) of
        (True, Some i) \<Rightarrow> py_set mask i True
      | _ \<Rightarrow> Inr mask)"

definition use_ex_angle :: "S288LeaderArm \<Rightarrow> vec \<Rightarrow> vec \<Rightarrow> vec result" where
  "use_ex_angle a raw ex =
     bindr (ex_pos_mask a) (\<lambda>mask. Inr (map (\<lambda>i. if mask ! i \<and> isfinite (ex ! i) then ex ! i else raw ! i) [0..<length raw]))"

definition read_raw_positions :: "S288LeaderArm \<Rightarrow> vec \<times> vec \<times> vec \<Rightarrow> vec result" where
  "read_raw_positions a arrays =
     (case arrays of (pos, vel, ex) \<Rightarrow>
        if \<not> (la_use_ex_pos a \<or> la_gripper_use_ex_pos a) then Inr pos else use_ex_angle a pos ex)"

text \<open>\<^verbatim>\<open>(x + pi) % (2 * pi) - pi\<close>.\<close>

definition wrap_pi :: "fl \<Rightarrow> fl" where
  "wrap_pi x = py_fmod (x + Fin pi) (2 * pi) - Fin pi"

definition calibrated_positions :: "S288LeaderArm \<Rightarrow> vec \<Rightarrow> vec result" where
  "calibrated_positions a raw =
     bindr (ex_pos_mask a) (\<lambda>mask.
       let pos = map (\<lambda>i. (raw ! i - la_offsets a ! i) * la_signs a ! i) [0..<length raw] in
       Inr (map (\<lambda>i. if mask ! i then wrap_pi (pos ! i) else pos ! i) [0..<length pos]))"

text \<open>\<^verbatim>\<open>np.round\<close>: like \<open>round\<close>, but a float, and non-finite values pass through.\<close>

fun np_round :: "fl \<Rightarrow> fl" where
  "np_round (Fin x) = Fin (of_int (round_half_even x))"
| "np_round x = x"

definition align_offsets_to_start :: "S288LeaderArm \<Rightarrow> vec \<Rightarrow> vec \<times> vec \<times> vec \<Rightarrow> S288LeaderArm result" where
  "align_offsets_to_start a start arrays =
     bindr (read_raw_positions a arrays) (\<lambda>raw. bindr (calibrated_positions a raw) (\<lambda>current.
       if length start \<noteq> length current then Inl AssertionError
       else
       let n = length current; arm_end = (if la_gripper_index a = None then n else n - 1) in
       Inr (a\<lparr>la_offsets := map (\<lambda>i. if i < arm_end
           then twopi * np_round ((- start ! i + current ! i) / twopi) * la_signs a ! i + la_offsets a ! i
           else la_offsets a ! i) [0..<n]\<rparr>)))"

record leader_config =
  lc_joint_offsets :: vec
  lc_joint_signs :: vec
  lc_gripper_index :: "int option"
  lc_gripper_open_rad :: fl
  lc_gripper_close_rad :: fl
  lc_alpha :: fl
  lc_start_joints :: "vec option"
  lc_use_ex_pos :: bool
  lc_gripper_use_ex_pos :: bool

definition mk_S288LeaderArm :: "nat \<Rightarrow> leader_config \<Rightarrow> vec \<times> vec \<times> vec \<Rightarrow> S288LeaderArm result" where
  "mk_S288LeaderArm n c arrays =
     (let offsets = (if lc_joint_offsets c = [] then zeros n else lc_joint_offsets c);
          signs = (if lc_joint_signs c = [] then ones n else lc_joint_signs c) in
      if length offsets \<noteq> n \<or> length signs \<noteq> n then Inl (ValueError ''joint_offsets/joint_signs have the wrong length'')
      else if \<not> list_all (\<lambda>s. feq (fabs s) 1) signs then Inl (ValueError ''joint_signs must be +-1'')
      else
      let a = \<lparr>la_n = n, la_offsets = offsets, la_signs = signs, la_gripper_index = lc_gripper_index c,
               la_gripper_open_rad = lc_gripper_open_rad c, la_gripper_close_rad = lc_gripper_close_rad c, la_alpha = lc_alpha c,
               la_use_ex_pos = lc_use_ex_pos c, la_gripper_use_ex_pos = lc_gripper_use_ex_pos c, la_last_pos = None\<rparr> in
      case lc_start_joints c of None \<Rightarrow> Inr a | Some start \<Rightarrow> align_offsets_to_start a start arrays)"

definition gripper_norm :: "S288LeaderArm \<Rightarrow> vec \<Rightarrow> vec result" where
  "gripper_norm a pos =
     (case la_gripper_index a of
        None \<Rightarrow> Inr pos
      | Some i \<Rightarrow>
          if feq (la_gripper_open_rad a) (la_gripper_close_rad a)
          then Inl (ValueError ''gripper open/close calibration angles are equal'')
          else bindr (py_get pos i) (\<lambda>p.
            py_set pos i (np_clip ((p - la_gripper_close_rad a) / (la_gripper_open_rad a - la_gripper_close_rad a)) 0 1)))"

text \<open>Exponential smoothing, shared by the two leaders.\<close>

definition smooth_state :: "vec option \<Rightarrow> fl \<Rightarrow> vec \<Rightarrow> vec result" where
  "smooth_state last_pos alpha pos =
     (case last_pos of
        None \<Rightarrow> Inr pos
      | Some l \<Rightarrow> if alpha \<ge> 1 then Inr pos else np_map2 (\<lambda>x y. x * (1 - alpha) + y * alpha) l pos)"

definition get_joint_state :: "S288LeaderArm \<Rightarrow> vec \<times> vec \<times> vec \<Rightarrow> vec result \<times> S288LeaderArm" where
  "get_joint_state a arrays =
     (case bindr (read_raw_positions a arrays) (\<lambda>raw. bindr (calibrated_positions a raw) (\<lambda>pos. bindr (gripper_norm a pos)
         (smooth_state (la_last_pos a) (la_alpha a)))) of
        Inl e \<Rightarrow> (Inl e, a)
      | Inr pos \<Rightarrow> (Inr pos, a\<lparr>la_last_pos := Some pos\<rparr>))"

definition get_positions_and_velocities :: "S288LeaderArm \<Rightarrow> vec \<times> vec \<times> vec \<Rightarrow> (vec \<times> vec) result" where
  "get_positions_and_velocities a arrays =
     (case arrays of (raw_pos, raw_vel, ex) \<Rightarrow>
        bindr (read_raw_positions a arrays) (\<lambda>raw. bindr (calibrated_positions a raw) (\<lambda>pos.
          bindr (np_map2 (*) raw_vel (la_signs a)) (\<lambda>vel. Inr (pos, vel)))))"

subsection \<open>gello adapter\<close>

record GelloLeaderAdapter =
  gl_offsets :: vec
  gl_signs :: vec
  gl_alpha :: fl
  gl_last :: "vec option"

definition mk_GelloLeaderAdapter :: "nat \<Rightarrow> vec option \<Rightarrow> vec option \<Rightarrow> fl \<Rightarrow> GelloLeaderAdapter result" where
  "mk_GelloLeaderAdapter n joint_offsets joint_signs alpha =
     (let offsets = (case joint_offsets of None \<Rightarrow> zeros n | Some v \<Rightarrow> v);
          signs = (case joint_signs of None \<Rightarrow> ones n | Some v \<Rightarrow> v) in
      if length offsets \<noteq> n \<or> length signs \<noteq> n then Inl (ValueError ''offsets/signs have the wrong length'')
      else Inr \<lparr>gl_offsets = offsets, gl_signs = signs, gl_alpha = alpha, gl_last = None\<rparr>)"

definition gello_joint_state :: "GelloLeaderAdapter \<Rightarrow> vec \<Rightarrow> vec result \<times> GelloLeaderAdapter" where
  "gello_joint_state a robot_state =
     (case bindr (np_sub robot_state (gl_offsets a)) (\<lambda>d. bindr (np_map2 (*) d (gl_signs a)) (smooth_state (gl_last a) (gl_alpha a))) of
        Inl e \<Rightarrow> (Inl e, a)
      | Inr pos \<Rightarrow> (Inr pos, a\<lparr>gl_last := Some pos\<rparr>))"

subsection \<open>Scripted leader\<close>

record FakeLeaderArm =
  fl_n_arm :: nat
  fl_gripper :: bool
  fl_amp :: fl
  fl_period :: fl
  fl_speed :: fl
  fl_t0 :: "fl option"
  fl_center :: "vec option"
  fl_phase :: vec

definition mk_FakeLeaderArm :: "nat \<Rightarrow> bool \<Rightarrow> fl \<Rightarrow> fl \<Rightarrow> fl \<Rightarrow> vec option \<Rightarrow> FakeLeaderArm result" where
  "mk_FakeLeaderArm n gripper amplitude period speed center =
     (if center \<noteq> None \<and> length (the center) \<noteq> n then Inl (ValueError ''center has the wrong length'')
      else Inr \<lparr>fl_n_arm = n, fl_gripper = gripper, fl_amp = amplitude, fl_period = period, fl_speed = speed, fl_t0 = None,
                fl_center = center, fl_phase = map (\<lambda>i. Fin (of_nat i) * Fin (7 / 10)) [0..<n]\<rparr>)"

fun fsin :: "fl \<Rightarrow> fl" where
  "fsin (Fin x) = Fin (sin x)"
| "fsin _ = NaN"

text \<open>\<open>now0\<close> is the clock where it is read for the start time (first call), \<open>now\<close> the reading after it.\<close>

definition fake_joint_state :: "FakeLeaderArm \<Rightarrow> fl \<Rightarrow> fl \<Rightarrow> vec \<times> FakeLeaderArm" where
  "fake_joint_state a now0 now =
     (let t0 = (case fl_t0 a of None \<Rightarrow> now0 | Some t \<Rightarrow> t);
          t = (now - t0) * fl_speed a;
          omega = twopi * t / fl_period a;
          vals = (case fl_center a of
              None \<Rightarrow> map (\<lambda>p. fl_amp a * fsin (omega + p)) (fl_phase a)
            | Some c \<Rightarrow> map2 (\<lambda>x p. x + Fin (1 / 2) * fl_amp a * (fsin (omega + p) - fsin p)) c (fl_phase a))
      in (vals @ (if fl_gripper a then [Fin (1 / 2) + Fin (1 / 2) * fsin omega] else []), a\<lparr>fl_t0 := Some t0\<rparr>))"

subsection \<open>Wrapping\<close>

lemma py_fmod_range: "0 < m \<Longrightarrow> \<exists>y. py_fmod (Fin x) m = Fin y \<and> 0 \<le> y \<and> y < m"
proof -
  assume m: "0 < m"
  have "of_int \<lfloor>x / m\<rfloor> * m \<le> x" by (rule pos_le_divide_eq [OF m, THEN iffD1, OF of_int_floor_le])
  moreover have "x < (of_int \<lfloor>x / m\<rfloor> + 1) * m"
    by (rule pos_divide_less_eq [OF m, THEN iffD1, OF real_of_int_floor_add_one_gt])
  ultimately have "m * of_int \<lfloor>x / m\<rfloor> \<le> x" "x < m * of_int \<lfloor>x / m\<rfloor> + m" by (simp_all add: algebra_simps)
  then show ?thesis by simp
qed

lemma wrap_pi_range: "\<exists>y k. wrap_pi (Fin x) = Fin y \<and> - pi \<le> y \<and> y < pi \<and> y = x - 2 * pi * of_int k"
proof -
  obtain y where y: "py_fmod (Fin (x + pi)) (2 * pi) = Fin y" "0 \<le> y" "y < 2 * pi" using py_fmod_range [of "2 * pi" "x + pi"] by auto
  then have "y - pi = x - 2 * pi * of_int \<lfloor>(x + pi) / (2 * pi)\<rfloor>" by simp
  with y show ?thesis by (intro exI [of _ "y - pi"] exI [of _ "\<lfloor>(x + pi) / (2 * pi)\<rfloor>"]) (simp add: wrap_pi_def)
qed

text \<open>
  An angle read from the absolute encoder is folded to one turn, the lower end included. The folded
  angle differs from the calibrated one by whole turns and lies in \<open>[- pi, pi)\<close>; the angle \<open>pi\<close> itself becomes
  \<open>- pi\<close>.
\<close>

theorem wrap_half_open:
  "(\<exists>y k. wrap_pi (Fin x) = Fin y \<and> - pi \<le> y \<and> y < pi \<and> y = x - 2 * pi * of_int k) \<and> wrap_pi (Fin pi) = Fin (- pi)"
proof -
  have "\<lfloor>(pi + pi) / (2 * pi)\<rfloor> = 1" by simp
  then have "wrap_pi (Fin pi) = Fin (- pi)" by (simp add: wrap_pi_def)
  with wrap_pi_range show ?thesis by blast
qed

subsection \<open>Gripper normalisation\<close>

definition unit_at :: "int option \<Rightarrow> vec \<Rightarrow> bool" where
  "unit_at i pos \<longleftrightarrow> (\<forall>k j. i = Some k \<longrightarrow> py_index pos k = Some j \<longrightarrow> 0 \<le> pos ! j \<and> pos ! j \<le> 1)"

definition leader_inv :: "S288LeaderArm \<Rightarrow> bool" where
  "leader_inv a \<longleftrightarrow> (\<exists>al. la_alpha a = Fin al \<and> 0 \<le> al) \<and> length (la_offsets a) = la_n a \<and> length (la_signs a) = la_n a \<and>
     (\<forall>l. la_last_pos a = Some l \<longrightarrow> length l = la_n a \<and> unit_at (la_gripper_index a) l)"

lemma unit_convex:
  assumes "0 \<le> x" "x \<le> 1" "0 \<le> y" "y \<le> 1" "0 \<le> (al :: real)" "al < 1"
  shows "0 \<le> (x :: fl) * (1 - Fin al) + y * Fin al \<and> x * (1 - Fin al) + y * Fin al \<le> 1"
proof -
  obtain a b where ab: "x = Fin a" "y = Fin b" "0 \<le> a" "a \<le> 1" "0 \<le> b" "b \<le> 1"
    using assms(1-4) by (cases x; cases y) auto
  have "a * (1 - al) + b * al \<le> 1 * (1 - al) + 1 * al" using ab assms(5,6) by (intro add_mono mult_right_mono) auto
  moreover have "0 \<le> a * (1 - al) + b * al" using ab assms(5,6) by simp
  ultimately show ?thesis using ab by simp
qed

lemma calibrated_length: "calibrated_positions a raw = Inr pos \<Longrightarrow> length pos = length raw"
  by (auto simp: calibrated_positions_def Let_def)

lemma read_raw_length: "read_raw_positions a (p, v, e) = Inr raw \<Longrightarrow> length raw = length p"
  by (auto simp: read_raw_positions_def use_ex_angle_def split: if_splits)

lemma py_set_Inr: "py_set xs i v = Inr ys \<Longrightarrow> \<exists>j. py_index xs i = Some j \<and> ys = xs[j := v]"
  by (auto simp: py_set_def split: option.splits)

lemma clip01: "\<not> isnan x \<Longrightarrow> 0 \<le> np_clip x 0 1 \<and> np_clip x 0 1 \<le> 1"
  by (cases x) (auto simp: np_clip_def np_min_def np_max_def)

lemma gripper_norm_unit:
  assumes "gripper_norm a pos = Inr pos'" "all_finite pos" "isfinite (la_gripper_open_rad a)" "isfinite (la_gripper_close_rad a)"
  shows "length pos' = length pos \<and> unit_at (la_gripper_index a) pos'"
proof (cases "la_gripper_index a")
  case None
  with assms(1) show ?thesis by (auto simp: gripper_norm_def unit_at_def)
next
  case (Some i)
  with assms(1) obtain p where ne: "\<not> feq (la_gripper_open_rad a) (la_gripper_close_rad a)" and p: "py_get pos i = Inr p"
    and s: "py_set pos i (np_clip ((p - la_gripper_close_rad a) / (la_gripper_open_rad a - la_gripper_close_rad a)) 0 1) = Inr pos'"
    by (auto simp: gripper_norm_def split: if_splits)
  obtain j where j: "py_index pos i = Some j"
    "pos' = pos[j := np_clip ((p - la_gripper_close_rad a) / (la_gripper_open_rad a - la_gripper_close_rad a)) 0 1]"
    using py_set_Inr [OF s] by blast
  have "isfinite p" by (rule all_finite_in [OF assms(2) py_get_in [OF p]])
  then have nn: "\<not> isnan ((p - la_gripper_close_rad a) / (la_gripper_open_rad a - la_gripper_close_rad a))"
    using assms(3,4) ne by (auto simp: isfinite_iff)
  have "py_index pos' i = py_index pos i" using j(2) by (intro py_index_same_length) simp
  then have "py_index pos' i = Some j" using j(1) by simp
  with j py_index_bound [OF j(1)] clip01 [OF nn] Some show ?thesis by (auto simp: unit_at_def)
qed

text \<open>
  The gripper reading is always a fraction. From finite readings and gripper calibration the gripper
  entry of every state the leader returns lies between 0 and 1, with or without smoothing, and it stays
  so along any sequence of readings.
\<close>

theorem leader_gripper_unit_range:
  assumes "leader_inv a" and "get_joint_state a (p, v, e) = (Inr pos, a')" and "length p = la_n a"
    and "\<And>raw q. read_raw_positions a (p, v, e) = Inr raw \<Longrightarrow> calibrated_positions a raw = Inr q \<Longrightarrow> all_finite q"
    and "isfinite (la_gripper_open_rad a)" and "isfinite (la_gripper_close_rad a)"
  shows "unit_at (la_gripper_index a) pos \<and> leader_inv a' \<and> length pos = la_n a"
proof -
  from assms(2) obtain raw q g where raw: "read_raw_positions a (p, v, e) = Inr raw" "calibrated_positions a raw = Inr q"
    and g: "gripper_norm a q = Inr g" and sm: "smooth_state (la_last_pos a) (la_alpha a) g = Inr pos"
    and a': "a' = a\<lparr>la_last_pos := Some pos\<rparr>"
    by (auto simp: get_joint_state_def split: sum.splits)
  have len: "length q = la_n a" using read_raw_length [OF raw(1)] calibrated_length [OF raw(2)] assms(3) by simp
  have gu: "length g = la_n a" "unit_at (la_gripper_index a) g"
    using gripper_norm_unit [OF g assms(4) [OF raw] assms(5,6)] len by auto
  obtain al where al: "la_alpha a = Fin al" "0 \<le> al" using assms(1) by (auto simp: leader_inv_def)
  have pos: "length pos = la_n a \<and> unit_at (la_gripper_index a) pos"
  proof (cases "la_last_pos a = None \<or> 1 \<le> al")
    case True
    with sm al gu show ?thesis by (auto simp: smooth_state_def split: option.splits)
  next
    case False
    then obtain l where l: "la_last_pos a = Some l" "length l = la_n a" "unit_at (la_gripper_index a) l" "al < 1"
      using assms(1) by (auto simp: leader_inv_def)
    then have pos: "pos = map2 (\<lambda>x y. x * (1 - Fin al) + y * Fin al) l g"
      using sm al gu(1) by (auto simp: smooth_state_def np_map2_def bcast2_def)
    have "length pos = la_n a" using pos l(2) gu(1) by simp
    moreover have "0 \<le> pos ! j \<and> pos ! j \<le> 1" if "la_gripper_index a = Some k" "py_index pos k = Some j" for k j
    proof -
      have j: "py_index l k = Some j" "py_index g k = Some j" "j < la_n a"
        using that(2) py_index_bound [OF that(2)] \<open>length pos = la_n a\<close> l(2) gu(1)
        by (simp_all add: py_index_same_length [of l pos] py_index_same_length [of g pos])
      then have "pos ! j = l ! j * (1 - Fin al) + g ! j * Fin al" using pos l(2) gu(1) by simp
      moreover have "0 \<le> l ! j" "l ! j \<le> 1" "0 \<le> g ! j" "g ! j \<le> 1"
        using l(3) gu(2) j that(1) unfolding unit_at_def by blast+
      ultimately show ?thesis using unit_convex [of "l ! j" "g ! j" al] al(2) l(4) by simp
    qed
    ultimately show ?thesis by (auto simp: unit_at_def)
  qed
  with a' assms(1) show ?thesis by (auto simp: leader_inv_def)
qed

subsection \<open>Start alignment\<close>

lemma no_mask: "\<not> la_use_ex_pos a \<Longrightarrow> \<not> la_gripper_use_ex_pos a \<Longrightarrow> ex_pos_mask a = Inr (replicate (la_n a) False)"
  by (simp add: ex_pos_mask_def)

lemma aligned_within_half_turn:
  fixes cur st off raw s :: real
  assumes "s = 1 \<or> s = - 1" and "cur = (raw - off) * s"
  defines "k \<equiv> of_int (round_half_even ((- st + cur) / (2 * pi)))"
  shows "\<bar>(raw - (2 * pi * k * s + off)) * s - st\<bar> \<le> pi"
proof -
  define y where "y = (- st + cur) / (2 * pi)"
  have "(raw - (2 * pi * k * s + off)) * s - st = cur - st - 2 * pi * k" using assms(1,2) by (auto simp: algebra_simps)
  also have "cur - st = 2 * pi * y" by (simp add: y_def)
  also have "2 * pi * y - 2 * pi * k = 2 * pi * (y - k)" by (simp add: right_diff_distrib)
  finally have "\<bar>(raw - (2 * pi * k * s + off)) * s - st\<bar> = 2 * pi * \<bar>k - y\<bar>" by (simp add: abs_mult abs_minus_commute)
  also have "\<dots> \<le> 2 * pi * (1 / 2)" unfolding k_def y_def [symmetric] using round_half_even_close [of y] by (intro mult_left_mono) auto
  finally show ?thesis by simp
qed

text \<open>
  Aligning to the start pose removes the turn ambiguity. For a leader on the multi-turn angle with
  signs \<open>+-1\<close>, after \<open>_align_offsets_to_start\<close> the same raw reading calibrates to within half a turn of
  \<open>start_joints\<close> on every arm joint.
\<close>

theorem start_alignment_half_turn:
  assumes "align_offsets_to_start a start (p, v, e) = Inr a'" and "\<not> la_use_ex_pos a" and "\<not> la_gripper_use_ex_pos a"
    and "length p = la_n a" and "length (la_offsets a) = la_n a" and "length (la_signs a) = la_n a"
    and "\<forall>s \<in> set (la_signs a). s = Fin 1 \<or> s = Fin (- 1)"
    and "all_finite p" and "all_finite start" and "all_finite (la_offsets a)"
  shows "\<exists>q. calibrated_positions a' p = Inr q \<and>
     (\<forall>i < (if la_gripper_index a = None then la_n a else la_n a - 1). fabs (q ! i - start ! i) \<le> Fin pi)"
proof -
  define cur where "cur = map (\<lambda>i. (p ! i - la_offsets a ! i) * la_signs a ! i) [0..<la_n a]"
  define arm_end where "arm_end = (if la_gripper_index a = None then la_n a else la_n a - 1)"
  define off' where "off' = map (\<lambda>i. if i < arm_end
       then twopi * np_round ((- start ! i + cur ! i) / twopi) * la_signs a ! i + la_offsets a ! i else la_offsets a ! i) [0..<la_n a]"
  have raw: "read_raw_positions a (p, v, e) = Inr p" using assms(2,3) by (simp add: read_raw_positions_def)
  have cal: "calibrated_positions a p = Inr cur"
    using assms(4) by (auto simp: calibrated_positions_def no_mask [OF assms(2,3)] cur_def Let_def intro: nth_equalityI)
  have len: "length start = la_n a" and a': "a' = a\<lparr>la_offsets := off'\<rparr>"
    using assms(1) raw cal
    by (auto simp: align_offsets_to_start_def off'_def arm_end_def cur_def Let_def split: if_splits)
  have m': "ex_pos_mask a' = Inr (replicate (la_n a) False)" using assms(2,3) by (simp add: a' ex_pos_mask_def)
  define q where "q = map (\<lambda>i. (p ! i - off' ! i) * la_signs a ! i) [0..<la_n a]"
  have cal': "calibrated_positions a' p = Inr q"
    unfolding calibrated_positions_def m' bindr_Inr Let_def using assms(4) by (auto simp: q_def a' intro: nth_equalityI)
  have "fabs (q ! i - start ! i) \<le> Fin pi" if i: "i < arm_end" for i
  proof -
    have i': "i < la_n a" using i by (auto simp: arm_end_def split: if_splits)
    obtain r o' st where f: "p ! i = Fin r" "la_offsets a ! i = Fin o'" "start ! i = Fin st"
      using assms(4,5,8-10) len i' by (metis all_finite_conv_nth isfinite_iff)
    obtain s where s: "la_signs a ! i = Fin s" "s = 1 \<or> s = - 1" using assms(6,7) i' by (metis nth_mem)
    have c: "cur ! i = Fin ((r - o') * s)" using f s i' by (simp add: cur_def)
    have "off' ! i = Fin (2 * pi * of_int (round_half_even ((- st + (r - o') * s) / (2 * pi))) * s + o')"
      using i i' f s c by (simp add: off'_def twopi_def)
    then have "q ! i - start ! i = Fin ((r - (2 * pi * of_int (round_half_even ((- st + (r - o') * s) / (2 * pi))) * s + o')) * s - st)"
      using i' f s by (simp add: q_def)
    then show ?thesis using aligned_within_half_turn [OF s(2) refl, where raw = r and off = o' and st = st] by simp
  qed
  with cal' show ?thesis unfolding arm_end_def by blast
qed

subsection \<open>Witnesses\<close>

definition demo_leader :: S288LeaderArm where
  "demo_leader = \<lparr>la_n = 2, la_offsets = [0, 0], la_signs = [Fin 1, Fin (- 1)], la_gripper_index = Some (- 1), la_gripper_open_rad = 1,
     la_gripper_close_rad = 0, la_alpha = Fin (99 / 100), la_use_ex_pos = False, la_gripper_use_ex_pos = False,
     la_last_pos = Some [0, Fin (1 / 2)]\<rparr>"

lemma demo_leader_reads:
  "read_raw_positions demo_leader ([Fin 7, Fin (- 3)], [], []) = Inr [Fin 7, Fin (- 3)]"
  "calibrated_positions demo_leader [Fin 7, Fin (- 3)] = Inr [Fin 7, Fin 3]"
  by (simp_all add: read_raw_positions_def demo_leader_def calibrated_positions_def ex_pos_mask_def upt_rec)

theorem leader_gripper_unit_range_witness:
  "\<exists>pos a'. get_joint_state demo_leader ([Fin 7, Fin (- 3)], [], []) = (Inr pos, a') \<and> 0 \<le> pos ! 1 \<and> pos ! 1 \<le> 1"
proof -
  have inv: "leader_inv demo_leader" by (simp add: leader_inv_def demo_leader_def unit_at_def py_index_def) (rule exI [of _ "99 / 100"], simp)
  have "\<exists>pos a'. get_joint_state demo_leader ([Fin 7, Fin (- 3)], [], []) = (Inr pos, a')"
    by (simp add: get_joint_state_def demo_leader_reads)
      (simp add: gripper_norm_def smooth_state_def demo_leader_def py_get_def py_set_def py_index_def np_map2_def bcast2_def)
  then obtain pos a' where r: "get_joint_state demo_leader ([Fin 7, Fin (- 3)], [], []) = (Inr pos, a')" by blast
  have "unit_at (la_gripper_index demo_leader) pos \<and> leader_inv a' \<and> length pos = la_n demo_leader"
    by (rule leader_gripper_unit_range [OF inv r]) (auto simp: demo_leader_reads, simp_all add: demo_leader_def)
  then have "0 \<le> pos ! 1 \<and> pos ! 1 \<le> 1"
    unfolding unit_at_def demo_leader_def py_index_def by (cases "length pos = 2") auto
  with r show ?thesis by blast
qed

theorem start_alignment_half_turn_witness:
  "\<exists>a' q. align_offsets_to_start demo_leader [0, 0] ([Fin 7, Fin (- 3)], [], []) = Inr a' \<and>
     calibrated_positions a' [Fin 7, Fin (- 3)] = Inr q \<and> fabs (q ! 0 - 0) \<le> Fin pi"
proof -
  have "\<exists>a'. align_offsets_to_start demo_leader [0, 0] ([Fin 7, Fin (- 3)], [], []) = Inr a'"
    by (simp add: align_offsets_to_start_def demo_leader_reads)
  then obtain a' where r: "align_offsets_to_start demo_leader [0, 0] ([Fin 7, Fin (- 3)], [], []) = Inr a'" by blast
  have "\<exists>q. calibrated_positions a' [Fin 7, Fin (- 3)] = Inr q \<and>
     (\<forall>i < (if la_gripper_index demo_leader = None then la_n demo_leader else la_n demo_leader - 1). fabs (q ! i - [0, 0] ! i) \<le> Fin pi)"
    by (rule start_alignment_half_turn [OF r]) (simp_all add: demo_leader_def)
  then show ?thesis using r by (force simp: demo_leader_def)
qed

end
