(* ===== verification/Safety.thy ===== *)
theory Safety
  imports Mapping_Model
begin

text \<open>
  \<^verbatim>\<open>arm_control/leader_follower/safety.py\<close>: the limits, the collision guards and the monitor whose gates
  stop the teleoperation.

  A check returns its verdict together with the monitor it leaves behind. The callbacks a deployment
  supplies (forward kinematics, a collision query) are the functions inside a guard; a collision query
  sees the state handed to \<^verbatim>\<open>set_other_state\<close>, the way its \<^verbatim>\<open>on_other\<close> callback can place it.
\<close>

record SafetyLimits =
  joint_margin_rad :: fl
  max_step_rad :: fl
  max_target_vel_rad_s :: fl
  gripper_max_step_m :: fl
  feedback_required :: bool
  feedback_timeout_s :: fl
  track_err_rad :: fl
  track_err_hold_s :: fl
  track_vel_rad_s :: fl
  leader_timeout_s :: fl
  collision_stop_m :: fl
  collision_warn_m :: fl
  collision_every_n :: int
  collision_slow_scale :: fl

definition mk_SafetyLimits :: "SafetyLimits \<Rightarrow> SafetyLimits result" where
  "mk_SafetyLimits l =
     (if list_ex (\<lambda>x. x < 0) [joint_margin_rad l, collision_stop_m l, collision_warn_m l]
      then Inl (ValueError ''must not be negative'')
      else if list_ex (\<lambda>x. \<not> x > 0) [max_step_rad l, max_target_vel_rad_s l, feedback_timeout_s l, track_err_rad l,
          track_err_hold_s l, leader_timeout_s l]
      then Inl (ValueError ''must be positive'')
      else if collision_warn_m l < collision_stop_m l then Inl (ValueError ''collision_warn_m must be >= collision_stop_m'')
      else if collision_every_n l < 1 then Inl (ValueError ''collision_every_n must be >= 1'')
      else Inr l)"

record SafetyVerdict =
  sv_ok :: bool
  sv_reason :: string
  sv_speed_scale :: fl

definition pass :: SafetyVerdict where
  "pass = \<lparr>sv_ok = True, sv_reason = [], sv_speed_scale = 1\<rparr>"

definition refuse :: "string \<Rightarrow> SafetyVerdict" where
  "refuse why = \<lparr>sv_ok = False, sv_reason = why, sv_speed_scale = 1\<rparr>"

record FeedbackSample =
  fs_arm_q :: vec
  fs_arm_dq :: "vec option"
  fs_gripper_width_m :: "fl option"
  fs_timestamp :: fl
  fs_fault :: bool
  fs_fault_reason :: string
  fs_armed :: "bool option"

subsection \<open>Collision guards\<close>

datatype pose = Pose44 mat | Pose33 mat | Point3 vec | PoseOther

definition as_rt :: "pose \<Rightarrow> (mat \<times> vec) result" where
  "as_rt p =
     (case p of
        Pose44 m \<Rightarrow> Inr (map (take 3) (take 3 m), map (\<lambda>r. r ! 3) (take 3 m))
      | Pose33 m \<Rightarrow> Inr (m, zeros 3)
      | Point3 v \<Rightarrow> Inr ([[1, 0, 0], [0, 1, 0], [0, 0, 1]], v)
      | PoseOther \<Rightarrow> Inl (ValueError ''cannot parse the pose''))"

record Sphere =
  sp_frame :: string
  sp_offset :: vec
  sp_radius :: fl

definition sphere_center :: "Sphere \<Rightarrow> (string \<times> pose) list \<Rightarrow> vec result" where
  "sphere_center s poses =
     (case map_of poses (sp_frame s) of
        None \<Rightarrow> Inl KeyError
      | Some p \<Rightarrow> bindr (as_rt p) (\<lambda>(_, t). np_map2 (+) t (sp_offset s)))"

definition vnorm :: "vec \<Rightarrow> fl" where
  "vnorm v = fsqrt (foldl (\<lambda>a x. a + x * x) 0 v)"

definition sphere_gap :: "Sphere \<Rightarrow> Sphere \<Rightarrow> vec \<Rightarrow> vec \<Rightarrow> fl result" where
  "sphere_gap b s cb cs = bindr (np_map2 (-) cb cs) (\<lambda>d. Inr (vnorm d - sp_radius b - sp_radius s))"

text \<open>The inner and the outer loop of \<^verbatim>\<open>SphereCollisionGuard.min_distance\<close>.\<close>

fun min_small :: "Sphere \<Rightarrow> vec \<Rightarrow> (string \<times> pose) list \<Rightarrow> Sphere list \<Rightarrow> fl \<Rightarrow> fl result" where
  "min_small b cb poses [] best = Inr best"
| "min_small b cb poses (s # ss) best =
     bindr (sphere_center s poses) (\<lambda>cs. bindr (sphere_gap b s cb cs) (\<lambda>gap. min_small b cb poses ss (py_min best gap)))"

fun min_big :: "(string \<times> pose) list \<Rightarrow> (string \<times> pose) list \<Rightarrow> Sphere list \<Rightarrow> Sphere list \<Rightarrow> fl \<Rightarrow> fl result" where
  "min_big big small smalls [] best = Inr best"
| "min_big big small smalls (b # bs) best =
     bindr (sphere_center b big) (\<lambda>cb. bindr (min_small b cb small smalls best) (min_big big small smalls bs))"

record sphere_guard =
  sg_big_spheres :: "Sphere list"
  sg_small_spheres :: "Sphere list"
  sg_big_fk :: "vec \<Rightarrow> (string \<times> pose) list"
  sg_small_fk :: "vec \<Rightarrow> (string \<times> pose) list"
  sg_small_poses :: "(string \<times> pose) list option"

datatype answer = Distance fl | Collides bool

datatype CollisionGuard =
    NoCollisionGuard
  | CallableCollisionGuard "vec option \<Rightarrow> vec \<Rightarrow> answer" bool "vec option"
  | SphereCollisionGuard sphere_guard

fun set_other_state :: "CollisionGuard \<Rightarrow> vec \<Rightarrow> CollisionGuard" where
  "set_other_state NoCollisionGuard other = NoCollisionGuard"
| "set_other_state (CallableCollisionGuard fn on_other seen) other =
     CallableCollisionGuard fn on_other (if on_other then Some other else seen)"
| "set_other_state (SphereCollisionGuard g) other = SphereCollisionGuard (g\<lparr>sg_small_poses := Some (sg_small_fk g other)\<rparr>)"

fun min_distance :: "CollisionGuard \<Rightarrow> vec \<Rightarrow> fl result" where
  "min_distance NoCollisionGuard arm_q = Inr PInf"
| "min_distance (CallableCollisionGuard fn on_other seen) arm_q =
     (case fn seen arm_q of Collides c \<Rightarrow> Inr (if c then Fin (- 1) else PInf) | Distance d \<Rightarrow> Inr d)"
| "min_distance (SphereCollisionGuard g) arm_q =
     (case sg_small_poses g of None \<Rightarrow> Inr PInf
      | Some small \<Rightarrow> min_big (sg_big_fk g arm_q) small (sg_small_spheres g) (sg_big_spheres g) PInf)"

subsection \<open>The monitor\<close>

record SafetyMonitor =
  sm_limits :: SafetyLimits
  sm_lower :: vec
  sm_upper :: vec
  sm_collision :: CollisionGuard
  sm_prev_target :: "vec option"
  sm_prev_leader_t :: fl
  sm_track_since :: "fl option"
  sm_last_feedback_t :: fl
  sm_tick :: int
  sm_last_distance :: fl
  sm_seen_feedback :: bool

definition mk_SafetyMonitor :: "SafetyLimits \<Rightarrow> vec \<Rightarrow> vec \<Rightarrow> CollisionGuard \<Rightarrow> SafetyMonitor result" where
  "mk_SafetyMonitor limits lo hi collision =
     (if length lo \<noteq> length hi \<or> lo = [] then Inl (ValueError ''joint_lower/upper differ in shape or are empty'')
      else if \<not> list_all2 (\<le>) lo hi then Inl (ValueError ''joint_lower must be <= joint_upper'')
      else Inr \<lparr>sm_limits = limits, sm_lower = lo, sm_upper = hi, sm_collision = collision, sm_prev_target = None,
                sm_prev_leader_t = 0, sm_track_since = None, sm_last_feedback_t = 0, sm_tick = 0, sm_last_distance = PInf,
                sm_seen_feedback = False\<rparr>)"

definition sm_n :: "SafetyMonitor \<Rightarrow> nat" where
  "sm_n m = length (sm_lower m)"

definition check_leader :: "SafetyMonitor \<Rightarrow> vec \<Rightarrow> fl \<Rightarrow> SafetyVerdict \<times> SafetyMonitor" where
  "check_leader m leader_state now =
     (if leader_state = [] \<or> \<not> all_finite leader_state then (refuse ''leader data invalid'', m)
      else if sm_prev_leader_t m > 0 \<and> now - sm_prev_leader_t m > leader_timeout_s (sm_limits m)
      then (refuse ''leader stream lost'', m)
      else (pass, m\<lparr>sm_prev_leader_t := now\<rparr>))"

definition check_and_clamp_target :: "SafetyMonitor \<Rightarrow> vec \<Rightarrow> fl \<Rightarrow> (SafetyVerdict \<times> vec) result \<times> SafetyMonitor" where
  "check_and_clamp_target m tgt now =
     (let l = sm_limits m in
      if length tgt \<noteq> sm_n m \<or> \<not> all_finite tgt then (Inr (refuse ''target invalid'', tgt), m)
      else if list_ex (\<lambda>i. tgt ! i < sm_lower m ! i + joint_margin_rad l \<or> tgt ! i > sm_upper m ! i - joint_margin_rad l) [0..<sm_n m]
      then (Inr (refuse ''joint limit'', tgt), m)
      else if (case sm_prev_target m of None \<Rightarrow> False
               | Some prev \<Rightarrow> list_ex (\<lambda>i. fabs (tgt ! i - prev ! i) > max_step_rad l) [0..<sm_n m])
      then (Inr (refuse ''target jump'', tgt), m)
      else
      let m1 = m\<lparr>sm_tick := sm_tick m + 1\<rparr> in
      case (if sm_tick m1 mod collision_every_n l = 0 then min_distance (sm_collision m1) tgt else Inr (sm_last_distance m1)) of
        Inl e \<Rightarrow> (Inl e, m1)
      | Inr d \<Rightarrow>
          let m2 = m1\<lparr>sm_last_distance := d\<rparr> in
          if d \<le> collision_stop_m l then (Inr (refuse ''collision'', tgt), m2)
          else (Inr (pass\<lparr>sv_speed_scale := (if d \<le> collision_warn_m l then collision_slow_scale l else 1)\<rparr>, tgt),
                m2\<lparr>sm_prev_target := Some tgt\<rparr>))"

text \<open>The largest entry of a nonempty array, as \<^verbatim>\<open>np.max\<close> computes it.\<close>

definition vmax :: "vec \<Rightarrow> fl" where
  "vmax v = (case v of [] \<Rightarrow> NaN | x # xs \<Rightarrow> fold np_max xs x)"

definition track_check :: "SafetyMonitor \<Rightarrow> vec \<Rightarrow> fl \<Rightarrow> SafetyVerdict \<times> SafetyMonitor" where
  "track_check m q now =
     (case sm_prev_target m of
        None \<Rightarrow> (pass, m)
      | Some prev \<Rightarrow>
          let err = vmax (vabs (vsub prev q)) in
          if err > track_err_rad (sm_limits m) then
            (case sm_track_since m of
               None \<Rightarrow> (pass, m\<lparr>sm_track_since := Some now\<rparr>)
             | Some t0 \<Rightarrow>
                 if now - t0 > track_err_hold_s (sm_limits m) then (refuse ''tracking error too large'', m) else (pass, m))
          else (pass, m\<lparr>sm_track_since := None\<rparr>))"

definition check_feedback :: "SafetyMonitor \<Rightarrow> FeedbackSample option \<Rightarrow> fl \<Rightarrow> SafetyVerdict \<times> SafetyMonitor" where
  "check_feedback m sample now =
     (let l = sm_limits m in
      case sample of
        None \<Rightarrow>
          if feedback_required l then
            (if \<not> sm_seen_feedback m then (refuse ''no feedback received'', m)
             else if now - sm_last_feedback_t m > feedback_timeout_s l then (refuse ''feedback stale'', m)
             else (pass, m))
          else (pass, m)
      | Some s \<Rightarrow>
          let t = (if feq (fs_timestamp s) 0 then now else fs_timestamp s);
              m1 = m\<lparr>sm_seen_feedback := True, sm_last_feedback_t := t\<rparr> in
          if now - t > feedback_timeout_s l then (refuse ''feedback stale'', m1)
          else if length (fs_arm_q s) \<noteq> sm_n m \<or> \<not> all_finite (fs_arm_q s) then (refuse ''feedback invalid'', m1)
          else if fs_fault s then (refuse ''controller fault'', m1)
          else if fs_armed s = Some False then (refuse ''follower disarmed'', m1)
          else if (case fs_arm_dq s of None \<Rightarrow> False
                   | Some dq \<Rightarrow> length dq = sm_n m \<and> all_finite (vabs dq) \<and> vmax (vabs dq) > track_vel_rad_s l)
          then (refuse ''follower speed abnormal'', m1)
          else track_check m1 (fs_arm_q s) now)"

end
