(* ===== verification/Motor_Wire.thy ===== *)
theory Motor_Wire
  imports Impedance
begin

text \<open>
  \<^verbatim>\<open>arm_control/contracts/motor.py\<close> and the packed trajectory of \<^verbatim>\<open>arm_control/contracts/motion.py\<close>: the
  flat float layouts of motor state, motor command (with its optional Cartesian or pose-hold tail) and
  sampled trajectory. An Arrow array is the list of its floats.
\<close>

definition MS :: nat where "MS = 8"
definition MC :: nat where "MC = 5"

text \<open>The strided assignment \<^verbatim>\<open>buf[k::M] = col\<close> of an \<open>n\<close>-row buffer, with numpy's broadcasting.\<close>

definition assign_col :: "nat \<Rightarrow> vec \<Rightarrow> vec result" where
  "assign_col n v =
     (if length v = n then Inr v else if length v = 1 then Inr (replicate n (v ! 0))
      else Inl (ValueError ''could not broadcast input array''))"

definition interleave :: "nat \<Rightarrow> vec list \<Rightarrow> vec" where
  "interleave n cols = concat (map (\<lambda>i. map (\<lambda>c. c ! i) cols) [0..<n])"

text \<open>Column \<open>k\<close> of the array reshaped to rows of \<open>m\<close>.\<close>

definition column :: "nat \<Rightarrow> nat \<Rightarrow> nat \<Rightarrow> vec \<Rightarrow> vec" where
  "column n m k flat = map (\<lambda>i. flat ! (i * m + k)) [0..<n]"

definition check_length :: "string \<Rightarrow> vec \<Rightarrow> nat \<Rightarrow> unit result" where
  "check_length name values expected = ensure (length values = expected) (ValueError name)"

subsection \<open>Motor state\<close>

record motor_state =
  ms_position :: vec
  ms_velocity :: vec
  ms_position_cmd :: vec
  ms_velocity_cmd :: vec
  ms_torque_cmd :: vec
  ms_kp :: vec
  ms_kd :: vec
  ms_torque :: vec

definition pack_motor_state :: "vec \<Rightarrow> vec \<Rightarrow> vec \<Rightarrow> vec \<Rightarrow> vec \<Rightarrow> vec \<Rightarrow> vec \<Rightarrow> vec \<Rightarrow> vec result" where
  "pack_motor_state pos vel pos_cmd vel_cmd tor_cmd kp kd torque =
     (let n = length pos in
      bindr (mapr (assign_col n) [pos, vel, pos_cmd, vel_cmd, tor_cmd, kp, kd, torque]) (\<lambda>cols. Inr (interleave n cols)))"

definition pack_motor_state_dict :: "motor_state \<Rightarrow> vec result" where
  "pack_motor_state_dict s =
     pack_motor_state (ms_position s) (ms_velocity s) (ms_position_cmd s) (ms_velocity_cmd s) (ms_torque_cmd s)
       (ms_kp s) (ms_kd s) (ms_torque s)"

definition unpack_motor_state :: "vec \<Rightarrow> nat \<Rightarrow> motor_state result" where
  "unpack_motor_state flat n =
     bindr (check_length ''unpack_motor_state'' flat (n * MS)) (\<lambda>_.
       let col = (\<lambda>k. column n MS k flat) in
       Inr \<lparr>ms_position = col 0, ms_velocity = col 1, ms_position_cmd = col 2, ms_velocity_cmd = col 3,
            ms_torque_cmd = col 4, ms_kp = col 5, ms_kd = col 6, ms_torque = col 7\<rparr>)"

subsection \<open>Motor command\<close>

definition pack_cartesian_block :: "cartesian_spec \<Rightarrow> vec result" where
  "pack_cartesian_block spec = cartesian_values spec"

definition pack_motor_command :: "vec \<Rightarrow> vec \<Rightarrow> vec \<Rightarrow> vec \<Rightarrow> vec \<Rightarrow> vec option \<Rightarrow> pose_hold_spec option \<Rightarrow> vec result" where
  "pack_motor_command pos vel tor kp kd cartesian pose_hold =
     (let n = length pos in
      bindr (mapr (assign_col n) [pos, vel, tor, kp, kd]) (\<lambda>cols.
      let buf = interleave n cols in
      case pose_hold of
        Some hold \<Rightarrow>
          if cartesian \<noteq> None then Inl (ValueError ''pose hold and trajectory Cartesian impedance are exclusive'')
          else bindr (pose_hold_values hold) (\<lambda>tail. Inr (buf @ tail))
      | None \<Rightarrow>
          (case cartesian of
             None \<Rightarrow> Inr buf
           | Some tail \<Rightarrow>
               if length tail \<noteq> CARTESIAN_SIZE then Inl (ValueError ''cartesian tail must be 21 floats'')
               else Inr (buf @ tail))))"

record cartesian_block =
  cb_task_R :: mat
  cb_kc :: vec
  cb_dc :: vec

record motor_command =
  mc_position :: vec
  mc_velocity :: vec
  mc_torque :: vec
  mc_kp :: vec
  mc_kd :: vec
  mc_cartesian :: "cartesian_block option"
  mc_pose_hold :: "pose_hold option"

definition unpack_cartesian :: "vec \<Rightarrow> cartesian_block option" where
  "unpack_cartesian tail =
     (if length tail \<noteq> CARTESIAN_SIZE then None
      else Some \<lparr>cb_task_R = [take 3 tail, take 3 (drop 3 tail), take 3 (drop 6 tail)],
                 cb_kc = take 6 (drop 9 tail), cb_dc = take 6 (drop 15 tail)\<rparr>)"

definition unpack_motor_command :: "vec \<Rightarrow> nat \<Rightarrow> motor_command result" where
  "unpack_motor_command flat_raw n =
     bindr (if length flat_raw \<notin> {n * MC, n * MC + CARTESIAN_SIZE, n * MC + POSE_HOLD_SIZE}
            then check_length ''unpack_motor_command'' flat_raw (n * MC) else Inr ()) (\<lambda>_.
     let flat = take (n * MC) flat_raw; tail = drop (n * MC) flat_raw; col = (\<lambda>k. column n MC k flat) in
     bindr (if length tail = POSE_HOLD_SIZE then bindr (unpack_pose_hold_values tail) (\<lambda>p. Inr (Some p)) else Inr None) (\<lambda>hold.
     Inr \<lparr>mc_position = col 0, mc_velocity = col 1, mc_torque = col 2, mc_kp = col 3, mc_kd = col 4,
          mc_cartesian = unpack_cartesian tail, mc_pose_hold = hold\<rparr>))"

subsection \<open>Sampled trajectory\<close>

text \<open>
  \<^verbatim>\<open>pack_trajectory\<close> of arrays that already have one row per time: an empty trajectory is the stop
  message. Rows of another width than the first make \<^verbatim>\<open>np.asarray\<close> or \<^verbatim>\<open>reshape\<close> raise.
\<close>

definition traj_width :: "mat \<Rightarrow> nat" where
  "traj_width q = (case q of [] \<Rightarrow> 0 | r # _ \<Rightarrow> length r)"

definition pack_trajectory :: "vec \<Rightarrow> mat \<Rightarrow> mat \<Rightarrow> vec result" where
  "pack_trajectory ts positions velocities =
     (if ts = [] then Inr [0, 0]
      else let j = traj_width positions in
        if length positions \<noteq> length ts \<or> \<not> rectangular positions j \<or> length velocities \<noteq> length ts \<or> \<not> rectangular velocities j
        then Inl (ValueError ''cannot reshape array'')
        else Inr ([Fin (of_nat (length ts)), Fin (of_nat j)] @ ts @ concat positions @ concat velocities))"

fun py_int :: "fl \<Rightarrow> int result" where
  "py_int (Fin x) = Inr (if x < 0 then \<lceil>x\<rceil> else \<lfloor>x\<rfloor>)"
| "py_int NaN = Inl (ValueError ''cannot convert float NaN to integer'')"
| "py_int _ = Inl OverflowError"

record traj_block =
  tb_times :: vec
  tb_positions :: mat
  tb_velocities :: mat

definition reshape :: "nat \<Rightarrow> nat \<Rightarrow> vec \<Rightarrow> mat" where
  "reshape n j v = map (\<lambda>i. take j (drop (i * j) v)) [0..<n]"

definition unpack_trajectory :: "vec \<Rightarrow> traj_block result" where
  "unpack_trajectory flat =
     (if length flat < 2 then Inl (ValueError ''unpack_trajectory: missing header'')
      else bindr (py_int (flat ! 0)) (\<lambda>ni. bindr (py_int (flat ! 1)) (\<lambda>ji.
        if int (length flat) \<noteq> 2 + ni + 2 * ni * ji then Inl (ValueError ''unpack_trajectory'')
        else if ni < 0 \<or> ji < 0 then Inl (ValueError ''negative dimensions'')
        else let n = nat ni; j = nat ji in
          Inr \<lparr>tb_times = take n (drop 2 flat), tb_positions = reshape n j (take (n * j) (drop (2 + n) flat)),
               tb_velocities = reshape n j (drop (2 + n + n * j) flat)\<rparr>)))"


subsection \<open>Round trips\<close>

lemma length_interleave [simp]: "length (interleave n cols) = n * length cols"
  by (simp add: interleave_def length_concat o_def sum_list_triv)

lemma nth_interleave: "i < n \<Longrightarrow> k < length cols \<Longrightarrow> interleave n cols ! (i * length cols + k) = cols ! k ! i"
proof (induction n)
  case (Suc n)
  have split: "interleave (Suc n) cols = interleave n cols @ map (\<lambda>c. c ! n) cols" by (simp add: interleave_def)
  show ?case
  proof (cases "i = n")
    case True
    then show ?thesis using Suc.prems by (simp add: split nth_append)
  next
    case False
    then have "i < n" using Suc.prems by simp
    then have "i * length cols + k < n * length cols"
      using Suc.prems(2) mult_le_mono1 [of "Suc i" n "length cols"] by simp
    then show ?thesis using Suc.IH [OF \<open>i < n\<close> Suc.prems(2)] by (simp add: split nth_append)
  qed
qed simp

lemma column_interleave:
  assumes "length cols = m" and "k < m" and "length (cols ! k) = n"
  shows "column n m k (interleave n cols) = cols ! k"
  using assms nth_interleave [of _ n k cols] by (auto simp: column_def intro: nth_equalityI)

lemma assign_cols:
  "\<forall>c \<in> set cols. length c = n \<Longrightarrow> mapr (assign_col n) cols = Inr cols"
  using mapr_total [of cols "assign_col n" id] by (simp add: assign_col_def)

definition state_shaped :: "nat \<Rightarrow> motor_state \<Rightarrow> bool" where
  "state_shaped n s \<longleftrightarrow> (\<forall>c \<in> set [ms_position s, ms_velocity s, ms_position_cmd s, ms_velocity_cmd s, ms_torque_cmd s,
     ms_kp s, ms_kd s, ms_torque s]. length c = n)"

text \<open>
  A motor state survives the wire. For \<open>n\<close> motors with all eight columns of length \<open>n\<close>, packing gives
  \<open>8 n\<close> floats and unpacking them gives back the same columns.
\<close>

lemma motor_state_roundtrip:
  assumes "state_shaped n s"
  shows "\<exists>w. pack_motor_state_dict s = Inr w \<and> length w = n * MS \<and> unpack_motor_state w n = Inr s"
proof -
  let ?cols = "[ms_position s, ms_velocity s, ms_position_cmd s, ms_velocity_cmd s, ms_torque_cmd s, ms_kp s, ms_kd s, ms_torque s]"
  have n: "length (ms_position s) = n" and c: "\<forall>c \<in> set ?cols. length c = n"
    using assms unfolding state_shaped_def by simp_all
  have p: "pack_motor_state_dict s = Inr (interleave n ?cols)"
    unfolding pack_motor_state_dict_def pack_motor_state_def Let_def n assign_cols [OF c] by simp
  have col: "column n 8 k (interleave n ?cols) = ?cols ! k" if "k < 8" for k
    by (rule column_interleave) (use that c in \<open>simp_all only: all_set_conv_nth, simp_all\<close>)
  show ?thesis
    using p col [of 0] col [of 1] col [of 2] col [of 3] col [of 4] col [of 5] col [of 6] col [of 7]
    by (simp add: unpack_motor_state_def check_length_def MS_def Let_def)
qed

text \<open>The wire image of a validated Cartesian spec, as rows and gain vectors.\<close>

lemma slice21:
  "length vs = (21 :: nat) \<Longrightarrow>
     take 3 vs @ take 3 (drop 3 vs) @ take 3 (drop 6 vs) @ take 6 (drop 9 vs) @ take 6 (drop 15 vs) = vs"
  by (auto simp: numeral_eq_Suc length_Suc_conv)

lemma cartesian_values_length: "cartesian_values spec = Inr vs \<Longrightarrow> length vs = 21"
proof -
  assume "cartesian_values spec = Inr vs"
  then obtain rows kc dc where v: "vs = concat rows @ kc @ dc" "length rows = 3" "\<forall>r \<in> set rows. length r = 3"
    "length kc = 6" "length dc = 6"
    by (auto simp: cartesian_values_def list_ex_iff split: option.splits list.splits if_splits)
  have "length (concat rows) = sum_list (map (\<lambda>_. 3) rows)"
    unfolding length_concat using v(3) by (metis (no_types, lifting) map_eq_conv)
  then show ?thesis using v by (simp add: sum_list_triv)
qed

lemma pack_command_body:
  assumes "\<forall>c \<in> set [pos, vel, tor, kp, kd]. length c = n"
  shows "mapr (assign_col (length pos)) [pos, vel, tor, kp, kd] = Inr [pos, vel, tor, kp, kd]"
    "length (interleave n [pos, vel, tor, kp, kd]) = n * 5"
    "k < 5 \<Longrightarrow> column n 5 k (interleave n [pos, vel, tor, kp, kd]) = [pos, vel, tor, kp, kd] ! k"
proof -
  have n: "length pos = n" using assms by simp
  show "mapr (assign_col (length pos)) [pos, vel, tor, kp, kd] = Inr [pos, vel, tor, kp, kd]"
    unfolding n by (rule assign_cols [OF assms])
  show "length (interleave n [pos, vel, tor, kp, kd]) = n * 5" by simp
  assume "k < 5"
  then show "column n 5 k (interleave n [pos, vel, tor, kp, kd]) = [pos, vel, tor, kp, kd] ! k"
    by (intro column_interleave) (use assms in \<open>simp_all only: all_set_conv_nth, simp_all\<close>)
qed

lemma unpack_body:
  assumes "\<forall>c \<in> set [pos, vel, tor, kp, kd]. length c = n" and "length tail \<in> {0, 15, 21}"
    and "if length tail = 15 then \<exists>p. unpack_pose_hold_values tail = Inr p \<and> hold = Some p else hold = None"
  shows "unpack_motor_command (interleave n [pos, vel, tor, kp, kd] @ tail) n =
     Inr \<lparr>mc_position = pos, mc_velocity = vel, mc_torque = tor, mc_kp = kp, mc_kd = kd,
          mc_cartesian = unpack_cartesian tail, mc_pose_hold = hold\<rparr>"
  using assms(2,3) pack_command_body(3) [OF assms(1), of 0] pack_command_body(3) [OF assms(1), of 1]
    pack_command_body(3) [OF assms(1), of 2] pack_command_body(3) [OF assms(1), of 3] pack_command_body(3) [OF assms(1), of 4]
  by (auto simp: unpack_motor_command_def check_length_def MC_def CARTESIAN_SIZE_def POSE_HOLD_SIZE_def Let_def split: if_splits)

text \<open>
  C33: a motor command survives the wire, and the length tells which tail it carries. For \<open>n\<close> motors with five
  columns of length \<open>n\<close>: without a tail the command unpacks to the same columns and neither law; with the
  block of a validated Cartesian spec it unpacks to the same columns and to that spec's rotation rows and
  gains; with validated pose-hold settings it unpacks to the same columns and to settings that encode to
  the same block. A Cartesian tail together with pose hold is refused.
\<close>

theorem motor_command_roundtrip:
  assumes "\<forall>c \<in> set [pos, vel, tor, kp, kd]. length c = n"
    and "pack_cartesian_block spec = Inr tail" and "pose_hold_values settings = Inr block"
  shows
    "(\<exists>w. pack_motor_command pos vel tor kp kd None None = Inr w \<and> length w = n * 5 \<and>
        unpack_motor_command w n = Inr \<lparr>mc_position = pos, mc_velocity = vel, mc_torque = tor, mc_kp = kp, mc_kd = kd,
          mc_cartesian = None, mc_pose_hold = None\<rparr>) \<and>
     (\<exists>w cb. pack_motor_command pos vel tor kp kd (Some tail) None = Inr w \<and> length w = n * 5 + 21 \<and>
        unpack_motor_command w n = Inr \<lparr>mc_position = pos, mc_velocity = vel, mc_torque = tor, mc_kp = kp, mc_kd = kd,
          mc_cartesian = Some cb, mc_pose_hold = None\<rparr> \<and> concat (cb_task_R cb) @ cb_kc cb @ cb_dc cb = tail) \<and>
     (\<exists>w p. pack_motor_command pos vel tor kp kd None (Some settings) = Inr w \<and> length w = n * 5 + 15 \<and>
        unpack_motor_command w n = Inr \<lparr>mc_position = pos, mc_velocity = vel, mc_torque = tor, mc_kp = kp, mc_kd = kd,
          mc_cartesian = None, mc_pose_hold = Some p\<rparr> \<and> pose_hold_values (pose_hold_as_spec p) = Inr block) \<and>
     (\<exists>e. pack_motor_command pos vel tor kp kd (Some tail) (Some settings) = Inl e)"
    (is "?plain \<and> ?cart \<and> ?hold \<and> ?both")
proof -
  let ?w = "interleave n [pos, vel, tor, kp, kd]"
  have n: "length pos = n" using assms(1) by simp
  note body = pack_command_body(1) [OF assms(1), unfolded n]
  have t: "length tail = 21" using assms(2) by (simp add: pack_cartesian_block_def cartesian_values_length)
  have ok: "pose_block_ok block" using assms(3) by (rule pose_hold_values_ok)
  then have b: "length block = 15" by (simp add: pose_block_ok_def)
  have "pack_motor_command pos vel tor kp kd None None = Inr ?w"
    unfolding pack_motor_command_def Let_def n body by simp
  then have ?plain using unpack_body [OF assms(1), of "[]" None] by (simp add: unpack_cartesian_def CARTESIAN_SIZE_def)
  moreover have "pack_motor_command pos vel tor kp kd (Some tail) None = Inr (?w @ tail)"
    unfolding pack_motor_command_def Let_def n body using t by (simp add: CARTESIAN_SIZE_def)
  then have ?cart using unpack_body [OF assms(1), of tail None] t slice21 [OF t] by (simp add: unpack_cartesian_def CARTESIAN_SIZE_def)
  moreover have "pack_motor_command pos vel tor kp kd None (Some settings) = Inr (?w @ block)"
    unfolding pack_motor_command_def Let_def n body using assms(3) by simp
  moreover obtain p where "unpack_pose_hold_values block = Inr p" "pose_hold_values (pose_hold_as_spec p) = Inr block"
    using block_unpacks [OF ok] by blast
  moreover have ?both unfolding pack_motor_command_def Let_def n body by simp
  ultimately show ?thesis
    using unpack_body [OF assms(1), of block] b by (simp add: unpack_cartesian_def CARTESIAN_SIZE_def)
qed

lemma concat_reshape:
  "\<forall>r \<in> set m. length r = j \<Longrightarrow> reshape (length m) j (concat m) = m"
proof -
  assume r: "\<forall>r \<in> set m. length r = j"
  have "take j (drop (i * j) (concat m)) = m ! i" if "i < length m" for i
    using that r
  proof (induction m arbitrary: i)
    case (Cons a m)
    then show ?case by (cases i) auto
  qed simp
  then show ?thesis by (auto simp: reshape_def intro: nth_equalityI)
qed

text \<open>A sampled trajectory survives the wire, the empty one (the stop message) included.\<close>

lemma trajectory_roundtrip:
  assumes "pack_trajectory ts q v = Inr w" and "ts = [] \<longrightarrow> q = [] \<and> v = []"
  shows "unpack_trajectory w = Inr \<lparr>tb_times = ts, tb_positions = q, tb_velocities = v\<rparr>"
proof (cases "ts = []")
  case True
  then show ?thesis using assms by (auto simp: pack_trajectory_def unpack_trajectory_def reshape_def)
next
  case False
  define j where "j = traj_width q"
  have s: "length q = length ts" "length v = length ts" "\<forall>r \<in> set q. length r = j" "\<forall>r \<in> set v. length r = j"
    and w: "w = [Fin (of_nat (length ts)), Fin (of_nat j)] @ ts @ concat q @ concat v"
    using assms False by (auto simp: pack_trajectory_def rectangular_def list_all_iff j_def Let_def split: if_splits)
  have len: "length (concat m) = length m * j" if "\<forall>r \<in> set m. length r = j" for m :: mat
    using that by (induction m) auto
  show ?thesis
    using concat_reshape [OF s(3)] concat_reshape [OF s(4)] len [OF s(3)] len [OF s(4)] s(1,2)
    by (simp add: unpack_trajectory_def w nat_mult_distrib Let_def)
qed

definition demo_cartesian :: cartesian_spec where
  "demo_cartesian = \<lparr>cs_frame = Some ''base'', cs_task_R = Some (Rows [[1, 0, 0], [0, 1, 0], [0, 0, 1]]),
     cs_kc = Some (Row (replicate 6 50)), cs_dc = Some (Row (replicate 6 5)), cs_other = []\<rparr>"

theorem motor_command_roundtrip_witness:
  "\<exists>w cb. pack_motor_command [1, 2] [0, 0] [0, 0] [5, 5] [1, 1] (Some ([1, 0, 0, 0, 1, 0, 0, 0, 1] @ replicate 6 50 @ replicate 6 5)) None = Inr w \<and>
     length w = 31 \<and> (\<exists>c. unpack_motor_command w 2 = Inr c \<and> mc_position c = [1, 2] \<and> mc_cartesian c = Some cb)"
proof -
  let ?tail = "[1, 0, 0, 0, 1, 0, 0, 0, 1] @ replicate 6 50 @ replicate 6 5 :: vec"
  have t: "pack_cartesian_block demo_cartesian = Inr ?tail"
    by (simp add: pack_cartesian_block_def cartesian_values_def demo_cartesian_def orthonormal_err_def row_dot_def det3_def gain_caps_def
        upt_rec numeral_eq_Suc)
  obtain block where b: "pose_hold_values demo_hold = Inr block"
    by (simp add: demo_hold_def pose_hold_values_def gain_caps_def numeral_eq_Suc)
  have "\<forall>c \<in> set [[1, 2], [0, 0], [0, 0], [5, 5], [1, 1 :: fl]]. length c = 2" by simp
  from motor_command_roundtrip [OF this t b] show ?thesis by force
qed

end
