(* ===== verification/Follower.thy ===== *)
theory Follower
  imports Mapping_Model Motor_Wire
begin

text \<open>
  \<^verbatim>\<open>arm_control/leader_follower/follower.py\<close>: the back ends that receive the targets.

  Each class is a record. An operation that reads the monotonic clock takes the reading as \<open>now\<close>. The
  Dora node is the list of the messages it has been handed, and whether handing over works; the RT back end
  of \<open>RtFollower\<close> is the list of the calls made on it. Printed text is not modelled, the counters that
  limit it are.
\<close>

definition check_target :: "nat \<Rightarrow> vec \<Rightarrow> unit result" where
  "check_target n q = ensure (length q = n) (ValueError ''follower target has the wrong length'')"

definition initial_pose :: "nat \<Rightarrow> vec option \<Rightarrow> vec" where
  "initial_pose n q = (case q of None \<Rightarrow> zeros n | Some v \<Rightarrow> v)"

subsection \<open>DryRunFollower\<close>

record DryRunFollower =
  dr_num_arm_joints :: nat
  dr_log_period_s :: fl
  dr_verbose :: bool
  dr_last_log :: fl
  dr_last_cmd :: "(vec \<times> fl) option"
  dr_sent :: nat
  dr_q0 :: vec
  dr_grip0 :: fl

definition mk_DryRunFollower :: "nat \<Rightarrow> fl \<Rightarrow> bool \<Rightarrow> vec option \<Rightarrow> fl \<Rightarrow> DryRunFollower" where
  "mk_DryRunFollower n log_period verbose initial_q initial_finger =
     \<lparr>dr_num_arm_joints = n, dr_log_period_s = log_period, dr_verbose = verbose, dr_last_log = 0, dr_last_cmd = None,
      dr_sent = 0, dr_q0 = initial_pose n initial_q, dr_grip0 = initial_finger\<rparr>"

definition dr_open :: "DryRunFollower \<Rightarrow> fl \<Rightarrow> unit result \<times> DryRunFollower" where
  "dr_open f now = (Inr (), f)"

definition dr_read_state :: "DryRunFollower \<Rightarrow> fl \<Rightarrow> (vec \<times> fl) result \<times> DryRunFollower" where
  "dr_read_state f now = (Inr (dr_q0 f, dr_grip0 f), f)"

definition dr_send :: "DryRunFollower \<Rightarrow> fl \<Rightarrow> vec \<Rightarrow> fl \<Rightarrow> unit result \<times> DryRunFollower" where
  "dr_send f now arm_q finger =
     (case check_target (dr_num_arm_joints f) arm_q of
        Inl e \<Rightarrow> (Inl e, f)
      | Inr _ \<Rightarrow>
          let f1 = f\<lparr>dr_last_cmd := Some (arm_q, finger), dr_sent := dr_sent f + 1\<rparr> in
          (Inr (), if dr_verbose f \<and> now - dr_last_log f \<ge> dr_log_period_s f then f1\<lparr>dr_last_log := now\<rparr> else f1))"

definition dr_safe_stop :: "DryRunFollower \<Rightarrow> DryRunFollower" where
  "dr_safe_stop f = f\<lparr>dr_last_cmd := None\<rparr>"

definition dr_close :: "DryRunFollower \<Rightarrow> DryRunFollower" where
  "dr_close f = dr_safe_stop f"

subsection \<open>FakeFollower\<close>

record FakeFollower =
  ff_num_arm_joints :: nat
  ff_gripper_open_finger_m :: fl
  ff_q :: vec
  ff_q_cmd :: vec
  ff_grip :: fl
  ff_grip_cmd :: fl
  ff_tau :: fl
  ff_last_t :: fl

definition mk_FakeFollower :: "nat \<Rightarrow> fl \<Rightarrow> fl \<Rightarrow> vec option \<Rightarrow> fl \<Rightarrow> fl \<Rightarrow> FakeFollower" where
  "mk_FakeFollower n open_finger time_constant initial_q initial_finger now =
     \<lparr>ff_num_arm_joints = n, ff_gripper_open_finger_m = open_finger, ff_q = initial_pose n initial_q,
      ff_q_cmd = initial_pose n initial_q, ff_grip = initial_finger, ff_grip_cmd = initial_finger,
      ff_tau = py_max time_constant (Fin (1 / 1000)), ff_last_t = now\<rparr>"

definition ff_open :: "FakeFollower \<Rightarrow> fl \<Rightarrow> unit result \<times> FakeFollower" where
  "ff_open f now = (Inr (), f)"

definition ff_gain :: "FakeFollower \<Rightarrow> fl \<Rightarrow> fl" where
  "ff_gain f now = (let dt = py_max (now - ff_last_t f) 0 in if dt > 0 then py_min (dt / ff_tau f) 1 else 0)"

definition ff_step :: "FakeFollower \<Rightarrow> fl \<Rightarrow> unit result \<times> FakeFollower" where
  "ff_step f now =
     (let a = ff_gain f now; f1 = f\<lparr>ff_last_t := now\<rparr> in
      case np_map2 (\<lambda>x c. x + (c - x) * a) (ff_q f) (ff_q_cmd f) of
        Inl e \<Rightarrow> (Inl e, f1)
      | Inr q \<Rightarrow> (Inr (), f1\<lparr>ff_q := q, ff_grip := ff_grip f + (ff_grip_cmd f - ff_grip f) * a\<rparr>))"

definition ff_read_state :: "FakeFollower \<Rightarrow> fl \<Rightarrow> (vec \<times> fl) result \<times> FakeFollower" where
  "ff_read_state f now =
     (case ff_step f now of (Inl e, f1) \<Rightarrow> (Inl e, f1) | (Inr _, f1) \<Rightarrow> (Inr (ff_q f1, ff_grip f1), f1))"

definition ff_send :: "FakeFollower \<Rightarrow> fl \<Rightarrow> vec \<Rightarrow> fl \<Rightarrow> unit result \<times> FakeFollower" where
  "ff_send f now arm_q finger =
     (case ff_step f now of
        (Inl e, f1) \<Rightarrow> (Inl e, f1)
      | (Inr _, f1) \<Rightarrow>
          (case check_target (ff_num_arm_joints f) arm_q of
             Inl e \<Rightarrow> (Inl e, f1)
           | Inr _ \<Rightarrow> (Inr (), f1\<lparr>ff_q_cmd := arm_q, ff_grip_cmd := finger\<rparr>)))"

definition ff_safe_stop :: "FakeFollower \<Rightarrow> FakeFollower" where
  "ff_safe_stop f = f\<lparr>ff_q_cmd := ff_q f\<rparr>"

definition ff_close :: "FakeFollower \<Rightarrow> FakeFollower" where
  "ff_close f = ff_safe_stop f"

subsection \<open>PassThroughFollower\<close>

record PassThroughFollower =
  pt_num_arm_joints :: nat
  pt_q :: vec
  pt_grip :: fl
  pt_stopped :: bool

definition mk_PassThroughFollower :: "nat \<Rightarrow> vec option \<Rightarrow> fl \<Rightarrow> PassThroughFollower" where
  "mk_PassThroughFollower n initial_q initial_finger =
     \<lparr>pt_num_arm_joints = n, pt_q = initial_pose n initial_q, pt_grip = initial_finger, pt_stopped = False\<rparr>"

definition pt_open :: "PassThroughFollower \<Rightarrow> fl \<Rightarrow> unit result \<times> PassThroughFollower" where
  "pt_open f now = (Inr (), f\<lparr>pt_stopped := False\<rparr>)"

definition pt_read_state :: "PassThroughFollower \<Rightarrow> fl \<Rightarrow> (vec \<times> fl) result \<times> PassThroughFollower" where
  "pt_read_state f now = (Inr (pt_q f, pt_grip f), f)"

definition pt_send :: "PassThroughFollower \<Rightarrow> fl \<Rightarrow> vec \<Rightarrow> fl \<Rightarrow> unit result \<times> PassThroughFollower" where
  "pt_send f now arm_q finger =
     (if pt_stopped f then (Inr (), f)
      else case check_target (pt_num_arm_joints f) arm_q of
        Inl e \<Rightarrow> (Inl e, f)
      | Inr _ \<Rightarrow> (Inr (), f\<lparr>pt_q := arm_q, pt_grip := finger\<rparr>))"

definition pt_safe_stop :: "PassThroughFollower \<Rightarrow> PassThroughFollower" where
  "pt_safe_stop f = f\<lparr>pt_stopped := True\<rparr>"

definition pt_close :: "PassThroughFollower \<Rightarrow> PassThroughFollower" where
  "pt_close f = f\<lparr>pt_stopped := True\<rparr>"

subsection \<open>DoraJogFollower\<close>

text \<open>
  The messages of \<^verbatim>\<open>pack_control_update\<close>, \<^verbatim>\<open>pack_jog\<close> and \<^verbatim>\<open>pack_motor_command\<close> the class sends. A control
  update lists only the fields given; absent means unchanged.
\<close>

record control_update =
  cu_arm :: "bool option"
  cu_cancel :: "bool option"
  cu_reason :: "string option"

datatype out_msg = ControlUpdate control_update | JogMsg vec string | MotorCommand vec

text \<open>The node refuses a message, or has gone down, as \<open>nd_up\<close> says for the number of the attempt.\<close>

record dora_node =
  nd_up :: "nat \<Rightarrow> bool"
  nd_asked :: nat
  nd_out :: "(string \<times> out_msg) list"

definition send_output :: "dora_node \<Rightarrow> string \<Rightarrow> out_msg \<Rightarrow> unit result \<times> dora_node" where
  "send_output nd topic msg =
     (if nd_up nd (nd_asked nd) then (Inr (), nd\<lparr>nd_asked := Suc (nd_asked nd), nd_out := nd_out nd @ [(topic, msg)]\<rparr>)
      else (Inl (RuntimeError ''send_output''), nd\<lparr>nd_asked := Suc (nd_asked nd)\<rparr>))"

record DoraJogFollower =
  dj_num_arm_joints :: nat
  dj_reason :: string
  dj_auto_arm :: bool
  dj_node :: dora_node
  dj_state_provider :: "(fl \<Rightarrow> (vec \<times> fl) result) option"
  dj_sent :: nat
  dj_opened :: bool

definition dj_emit :: "DoraJogFollower \<Rightarrow> string \<Rightarrow> out_msg \<Rightarrow> unit result \<times> DoraJogFollower" where
  "dj_emit f topic msg = (case send_output (dj_node f) topic msg of (r, nd) \<Rightarrow> (r, f\<lparr>dj_node := nd\<rparr>))"

definition arm_update :: control_update where
  "arm_update = \<lparr>cu_arm = Some True, cu_cancel = None, cu_reason = None\<rparr>"

definition stale_update :: control_update where
  "stale_update = \<lparr>cu_arm = None, cu_cancel = Some True, cu_reason = Some ''leader-stale''\<rparr>"

definition exit_update :: control_update where
  "exit_update = \<lparr>cu_arm = Some False, cu_cancel = Some True, cu_reason = Some ''leader-follower-exit''\<rparr>"

definition dj_open :: "DoraJogFollower \<Rightarrow> fl \<Rightarrow> unit result \<times> DoraJogFollower" where
  "dj_open f now =
     (if dj_auto_arm f then
        (case dj_emit f ''control'' (ControlUpdate arm_update) of
           (Inl e, f1) \<Rightarrow> (Inl e, f1)
         | (Inr _, f1) \<Rightarrow> (Inr (), f1\<lparr>dj_opened := True\<rparr>))
      else (Inr (), f\<lparr>dj_opened := True\<rparr>))"

definition dj_read_state :: "DoraJogFollower \<Rightarrow> fl \<Rightarrow> (vec \<times> fl) result \<times> DoraJogFollower" where
  "dj_read_state f now =
     (case dj_state_provider f of
        Some provider \<Rightarrow> (provider now, f)
      | None \<Rightarrow> (Inr (zeros (dj_num_arm_joints f), 0), f))"

definition dj_send :: "DoraJogFollower \<Rightarrow> fl \<Rightarrow> vec \<Rightarrow> fl \<Rightarrow> unit result \<times> DoraJogFollower" where
  "dj_send f now arm_q finger =
     (case check_target (dj_num_arm_joints f) arm_q of
        Inl e \<Rightarrow> (Inl e, f)
      | Inr _ \<Rightarrow>
          (case dj_emit f ''jog'' (JogMsg arm_q (dj_reason f)) of
             (Inl e, f1) \<Rightarrow> (Inl e, f1)
           | (Inr _, f1) \<Rightarrow>
               (case pack_motor_command [finger, finger] (zeros 2) (zeros 2) (zeros 2) (zeros 2) None None of
                  Inl e \<Rightarrow> (Inl e, f1)
                | Inr w \<Rightarrow>
                    (case dj_emit f1 ''gripper'' (MotorCommand w) of
                       (Inl e, f2) \<Rightarrow> (Inl e, f2)
                     | (Inr _, f2) \<Rightarrow> (Inr (), f2\<lparr>dj_sent := dj_sent f2 + 1\<rparr>)))))"

definition dj_safe_stop :: "DoraJogFollower \<Rightarrow> DoraJogFollower" where
  "dj_safe_stop f = (if \<not> dj_opened f then f else snd (dj_emit f ''control'' (ControlUpdate stale_update)))"

definition dj_close :: "DoraJogFollower \<Rightarrow> DoraJogFollower" where
  "dj_close f =
     (if \<not> dj_opened f then f else (snd (dj_emit f ''control'' (ControlUpdate exit_update)))\<lparr>dj_opened := False\<rparr>)"

subsection \<open>RtFollower\<close>

text \<open>
  \<open>rf_connected\<close> is \<^verbatim>\<open>_backend is not None\<close>. The joint list is nonempty whenever it has a gripper slot.
\<close>

record rt_command =
  rc_position :: vec
  rc_velocity :: vec
  rc_torque :: vec
  rc_kp :: vec
  rc_kd :: vec
  rc_pose_hold :: "pose_hold_spec option"

datatype rt_call = RtOpen "string list" | RtEnableAll | RtApply rt_command | RtSafeStop | RtClose

record RtFollower =
  rf_joint_names :: "string list"
  rf_kp :: "vec option"
  rf_kd :: "vec option"
  rf_gripper_slot :: bool
  rf_pose_hold :: "pose_hold_spec option"
  rf_connected :: bool
  rf_calls :: "rt_call list"

definition rf_num_arm_joints :: "RtFollower \<Rightarrow> nat" where
  "rf_num_arm_joints f = length (rf_joint_names f) - (if rf_gripper_slot f then 1 else 0)"

definition FR3_KP :: vec where "FR3_KP = [1200, 1200, 1200, 1200, 800, 600, 400]"
definition FR3_KD :: vec where "FR3_KD = [30, 30, 30, 30, 20, 15, 10]"

definition rf_gains :: "RtFollower \<Rightarrow> vec \<times> vec" where
  "rf_gains f =
     (let n = length (rf_joint_names f); is_fr3 = (n = 7 \<and> \<not> rf_gripper_slot f) in
      (case rf_kp f of Some k \<Rightarrow> k | None \<Rightarrow> if is_fr3 then FR3_KP else replicate n 20,
       case rf_kd f of Some k \<Rightarrow> k | None \<Rightarrow> if is_fr3 then FR3_KD else replicate n (Fin (1 / 2))))"

definition rf_call :: "RtFollower \<Rightarrow> rt_call \<Rightarrow> RtFollower" where
  "rf_call f c = f\<lparr>rf_calls := rf_calls f @ [c]\<rparr>"

definition rf_open :: "RtFollower \<Rightarrow> fl \<Rightarrow> unit result \<times> RtFollower" where
  "rf_open f now = (Inr (), rf_call (rf_call (f\<lparr>rf_connected := True\<rparr>) (RtOpen (rf_joint_names f))) RtEnableAll)"

definition rf_read_state :: "(fl \<Rightarrow> vec) \<Rightarrow> RtFollower \<Rightarrow> fl \<Rightarrow> (vec \<times> fl) result \<times> RtFollower" where
  "rf_read_state motor_position f now =
     (if \<not> rf_connected f then (Inr (zeros (rf_num_arm_joints f), 0), f)
      else let st = motor_position now in
        (bindr (if rf_gripper_slot f then py_get st (int (rf_num_arm_joints f)) else Inr 0) (\<lambda>grip.
           Inr (take (rf_num_arm_joints f) st, grip)), f))"

definition rf_send :: "RtFollower \<Rightarrow> fl \<Rightarrow> vec \<Rightarrow> fl \<Rightarrow> unit result \<times> RtFollower" where
  "rf_send f now arm_q finger =
     (if \<not> rf_connected f then (Inl AssertionError, f)
      else let q = (if rf_gripper_slot f then arm_q @ [finger] else arm_q) in
        (Inr (), rf_call f (RtApply \<lparr>rc_position = q, rc_velocity = zeros (length q), rc_torque = zeros (length q),
           rc_kp = fst (rf_gains f), rc_kd = snd (rf_gains f), rc_pose_hold = rf_pose_hold f\<rparr>)))"

definition rf_safe_stop :: "RtFollower \<Rightarrow> RtFollower" where
  "rf_safe_stop f = (if rf_connected f then rf_call f RtSafeStop else f)"

definition rf_close :: "RtFollower \<Rightarrow> RtFollower" where
  "rf_close f = (if rf_connected f then (rf_call f RtClose)\<lparr>rf_connected := False\<rparr> else f)"

end
