(* ===== verification/Loop.thy ===== *)
theory Loop
  imports Safety Follower
begin

text \<open>
  \<^verbatim>\<open>arm_control/leader_follower/loop.py\<close>: one tick of the teleoperation, the run around it, and the feedback
  read from the follower.

  The loop is written against the \<^verbatim>\<open>FollowerArm\<close> protocol: \<open>follower_ops\<close> is the table of its methods. What the
  outside delivers during one iteration (clock readings, what \<^verbatim>\<open>leader.get_joint_state()\<close> returned or raised,
  an external feedback sample, whether a stop was requested, whether and where Ctrl-C arrived) is a
  \<open>tick\<close>; a run consumes a list of them. Ctrl-C arrives in the leader's read or in the feedback callable (which then raise
  \<open>KeyboardInterrupt\<close>), before any stage of the tick, or in the sleep at its end; not inside a stage's own
  computation, in a follower's \<^verbatim>\<open>send\<close> or while the run is already being stopped or closed.
\<close>

record 'f follower_ops =
  fo_num_arm_joints :: "'f \<Rightarrow> nat"
  fo_open :: "'f \<Rightarrow> fl \<Rightarrow> unit result \<times> 'f"
  fo_read_state :: "'f \<Rightarrow> fl \<Rightarrow> (vec \<times> fl) result \<times> 'f"
  fo_send :: "'f \<Rightarrow> fl \<Rightarrow> vec \<Rightarrow> fl \<Rightarrow> unit result \<times> 'f"
  fo_safe_stop :: "'f \<Rightarrow> 'f"
  fo_close :: "'f \<Rightarrow> 'f"

record TeleopStats =
  ts_ticks :: nat
  ts_sends :: nat
  ts_safety_stops :: nat
  ts_mean_dt_s :: fl
  ts_max_dt_s :: fl
  ts_last_leader_age_s :: fl
  ts_last_collision_distance_m :: fl

definition no_stats :: TeleopStats where
  "no_stats = \<lparr>ts_ticks = 0, ts_sends = 0, ts_safety_stops = 0, ts_mean_dt_s = 0, ts_max_dt_s = 0, ts_last_leader_age_s = 0,
     ts_last_collision_distance_m = PInf\<rparr>"

text \<open>The \<^verbatim>\<open>feedback\<close> callable: absent, a \<^verbatim>\<open>FollowerFeedback\<close> with its \<^verbatim>\<open>armed\<close> flag, or one of the deployment.\<close>

datatype feedback_source = NoFeedback | FollowerFeedback "bool option" | ExternalFeedback

record 'f TeleopLoop =
  tl_retargeter :: Retargeter
  tl_follower :: 'f
  tl_monitor :: SafetyMonitor
  tl_feedback :: feedback_source
  tl_hz :: fl
  tl_auto_align :: bool
  tl_log_period_s :: fl
  tl_verbose :: bool
  tl_stop :: bool
  tl_stats :: TeleopStats
  tl_last_log_t :: fl

record tick =
  tk_now :: fl
  tk_leader :: "vec result"
  tk_send_t :: fl
  tk_read_t :: fl
  tk_stamp :: fl
  tk_sample :: "FeedbackSample option result"
  tk_after :: fl
  tk_resync :: fl
  tk_stop_before :: bool
  tk_interrupt :: "nat option"

subsection \<open>One tick\<close>

definition follower_sample :: "'f follower_ops \<Rightarrow> bool option \<Rightarrow> 'f \<Rightarrow> tick \<Rightarrow> FeedbackSample option result \<times> 'f" where
  "follower_sample ops armed f tk =
     (case fo_read_state ops f (tk_read_t tk) of
        (Inl e, f1) \<Rightarrow> (Inl e, f1)
      | (Inr (q, grip), f1) \<Rightarrow>
          (Inr (Some \<lparr>fs_arm_q = q, fs_arm_dq = None, fs_gripper_width_m = Some grip, fs_timestamp = tk_stamp tk,
                      fs_fault = False, fs_fault_reason = [], fs_armed = armed\<rparr>), f1))"

definition read_feedback :: "'f follower_ops \<Rightarrow> 'f TeleopLoop \<Rightarrow> tick \<Rightarrow> FeedbackSample option result \<times> 'f TeleopLoop" where
  "read_feedback ops L tk =
     (case tl_feedback L of
        NoFeedback \<Rightarrow> (Inr None, L)
      | src \<Rightarrow>
          (case (case src of FollowerFeedback armed \<Rightarrow> follower_sample ops armed (tl_follower L) tk
                 | _ \<Rightarrow> (tk_sample tk, tl_follower L)) of
             (Inr s, f) \<Rightarrow> (Inr s, L\<lparr>tl_follower := f\<rparr>)
           | (Inl KeyboardInterrupt, f) \<Rightarrow> (Inl KeyboardInterrupt, L\<lparr>tl_follower := f\<rparr>)
           | (Inl _, f) \<Rightarrow>
               (Inr (Some \<lparr>fs_arm_q = replicate (fo_num_arm_joints ops f) NaN, fs_arm_dq = None, fs_gripper_width_m = None,
                      fs_timestamp = tk_now tk, fs_fault = True, fs_fault_reason = ''feedback read failed'', fs_armed = None\<rparr>),
                L\<lparr>tl_follower := f\<rparr>)))"

definition leader_gate :: "tick \<Rightarrow> ('f TeleopLoop, vec) action" where
  "leader_gate tk L =
     (case tk_leader tk of
        Inl e \<Rightarrow> (Inl e, L)
      | Inr leader_state \<Rightarrow>
          let (v, m) = check_leader (tl_monitor L) leader_state (tk_now tk) in
          (if sv_ok v then Inr leader_state else Inl (SafetyStop ''leader'' (sv_reason v)), L\<lparr>tl_monitor := m\<rparr>))"

definition retarget :: "tick \<Rightarrow> vec \<Rightarrow> ('f TeleopLoop, vec \<times> fl) action" where
  "retarget tk leader_state L =
     (let (r, rt) = rt_map (tl_retargeter L) leader_state (tk_now tk) in
      (bindr r (\<lambda>mapped. case mapped of None \<Rightarrow> Inl (SafetyStop ''retarget'' ''no target'') | Some x \<Rightarrow> Inr x),
       L\<lparr>tl_retargeter := rt\<rparr>))"

definition target_stage :: "tick \<Rightarrow> vec \<Rightarrow> vec \<Rightarrow> ('f TeleopLoop, SafetyVerdict \<times> vec) action" where
  "target_stage tk leader_state arm_target L =
     (let m0 = (tl_monitor L)\<lparr>sm_collision := set_other_state (sm_collision (tl_monitor L)) leader_state\<rparr>;
          (r, m) = check_and_clamp_target m0 arm_target (tk_now tk) in
      (bindr r (\<lambda>(v, tgt). if sv_ok v then Inr (v, tgt) else Inl (SafetyStop ''target'' (sv_reason v))), L\<lparr>tl_monitor := m\<rparr>))"

definition warn_slow :: "SafetyVerdict \<Rightarrow> vec \<Rightarrow> ('f TeleopLoop, vec) action" where
  "warn_slow v arm_target L =
     (case rt_prev_arm (tl_retargeter L) of
        Some prev \<Rightarrow>
          if sv_speed_scale v < 1 then
            (case np_map2 (\<lambda>p t. p + (t - p) * sv_speed_scale v) prev arm_target of
               Inl e \<Rightarrow> (Inl e, L)
             | Inr t \<Rightarrow> (Inr t, L\<lparr>tl_retargeter := (tl_retargeter L)\<lparr>rt_prev_arm := Some t\<rparr>\<rparr>))
          else (Inr arm_target, L)
      | None \<Rightarrow> (Inr arm_target, L))"

definition send_stage :: "'f follower_ops \<Rightarrow> tick \<Rightarrow> vec \<Rightarrow> fl \<Rightarrow> ('f TeleopLoop, unit) action" where
  "send_stage ops tk arm_target grip L =
     (case fo_send ops (tl_follower L) (tk_send_t tk) arm_target grip of
        (Inl e, f) \<Rightarrow> (Inl e, L\<lparr>tl_follower := f\<rparr>)
      | (Inr _, f) \<Rightarrow> (Inr (), L\<lparr>tl_follower := f, tl_stats := (tl_stats L)\<lparr>ts_sends := ts_sends (tl_stats L) + 1\<rparr>\<rparr>))"

definition feedback_stage :: "'f follower_ops \<Rightarrow> tick \<Rightarrow> ('f TeleopLoop, unit) action" where
  "feedback_stage ops tk L =
     (case read_feedback ops L tk of
        (Inl e, L1) \<Rightarrow> (Inl e, L1)
      | (Inr sample, L1) \<Rightarrow>
          let (v, m) = check_feedback (tl_monitor L1) sample (tk_now tk); L2 = L1\<lparr>tl_monitor := m\<rparr> in
          if sv_ok v then (Inr (), L2\<lparr>tl_stats := (tl_stats L2)\<lparr>ts_ticks := ts_ticks (tl_stats L2) + 1\<rparr>\<rparr>)
          else (Inl (SafetyStop ''feedback'' (sv_reason v)), L2))"

text \<open>Ctrl-C before stage \<open>k\<close> of the tick.\<close>

definition unless_interrupted :: "nat \<Rightarrow> tick \<Rightarrow> ('s, 'a) action \<Rightarrow> ('s, 'a) action" where
  "unless_interrupted k tk m L = (if tk_interrupt tk = Some k then (Inl KeyboardInterrupt, L) else m L)"

definition once :: "'f follower_ops \<Rightarrow> tick \<Rightarrow> ('f TeleopLoop, unit) action" where
  "once ops tk =
     bindst (unless_interrupted 0 tk (leader_gate tk)) (\<lambda>leader_state.
     bindst (unless_interrupted 1 tk (retarget tk leader_state)) (\<lambda>(arm_target, gripper_width).
     bindst (unless_interrupted 2 tk (target_stage tk leader_state arm_target)) (\<lambda>(v, tgt).
     bindst (unless_interrupted 3 tk (warn_slow v tgt)) (\<lambda>slowed.
     bindst (unless_interrupted 4 tk (send_stage ops tk slowed gripper_width)) (\<lambda>_.
     unless_interrupted 5 tk (feedback_stage ops tk))))))"

subsection \<open>The run\<close>

datatype outcome =
    Finished
  | SafetyStopped string string
  | Interrupted
  | Raised err
  | Running

definition startup_align :: "'f follower_ops \<Rightarrow> vec result \<Rightarrow> fl \<Rightarrow> ('f TeleopLoop, unit) action" where
  "startup_align ops leader read_t L =
     (case leader of
        Inl e \<Rightarrow> (Inl e, L)
      | Inr leader_state \<Rightarrow>
          (case fo_read_state ops (tl_follower L) read_t of
             (Inl e, f) \<Rightarrow> (Inl e, L\<lparr>tl_follower := f\<rparr>)
           | (Inr (arm, grip), f) \<Rightarrow>
               let L1 = L\<lparr>tl_follower := f\<rparr> in
               (case (if tl_auto_align L then rt_auto_align (tl_retargeter L) leader_state arm else Inr (tl_retargeter L)) of
                  Inl e \<Rightarrow> (Inl e, L1)
                | Inr rt \<Rightarrow> (Inr (), L1\<lparr>tl_retargeter := rt_reset rt arm grip\<rparr>))))"

text \<open>Statistics after a completed tick; the log line itself is not modelled.\<close>

definition tick_stats :: "tick \<Rightarrow> fl \<Rightarrow> 'f TeleopLoop \<Rightarrow> 'f TeleopLoop" where
  "tick_stats tk prev_tick_t L =
     (let s = tl_stats L; dt = tk_now tk - prev_tick_t;
          s1 = (if ts_ticks s > 1
                then s\<lparr>ts_mean_dt_s := ts_mean_dt_s s + (dt - ts_mean_dt_s s) / Fin (of_nat (ts_ticks s)),
                       ts_max_dt_s := py_max (ts_max_dt_s s) dt\<rparr> else s);
          L1 = L\<lparr>tl_stats := s1\<lparr>ts_last_collision_distance_m := sm_last_distance (tl_monitor L)\<rparr>\<rparr> in
      if tl_verbose L \<and> tk_now tk - tl_last_log_t L \<ge> tl_log_period_s L then L1\<lparr>tl_last_log_t := tk_now tk\<rparr> else L1)"

text \<open>The next deadline and how long to sleep for it.\<close>

definition pace :: "fl \<Rightarrow> tick \<Rightarrow> fl \<Rightarrow> fl \<times> fl" where
  "pace period tk next_t =
     (if period > 0 then
        let n = next_t + period; sleep_s = n - tk_after tk in
        if sleep_s < - period then (tk_resync tk, 0) else if sleep_s > 0 then (n, sleep_s) else (n, 0)
      else (next_t, 0))"

definition period_of :: "fl \<Rightarrow> fl" where
  "period_of hz = (if hz > 0 then 1 / hz else 0)"

definition stop_follower :: "'f follower_ops \<Rightarrow> 'f TeleopLoop \<Rightarrow> 'f TeleopLoop" where
  "stop_follower ops L = L\<lparr>tl_follower := fo_safe_stop ops (tl_follower L)\<rparr>"

fun run_loop :: "'f follower_ops \<Rightarrow> fl option \<Rightarrow> fl \<Rightarrow> tick list \<Rightarrow> fl \<Rightarrow> fl \<Rightarrow> 'f TeleopLoop \<Rightarrow> outcome \<times> 'f TeleopLoop" where
  "run_loop ops duration start_t [] prev_tick_t next_t L = (Running, L)"
| "run_loop ops duration start_t (tk # tks) prev_tick_t next_t L =
     (let L0 = (if tk_stop_before tk then L\<lparr>tl_stop := True\<rparr> else L) in
      if tl_stop L0 then (Finished, L0)
      else if (case duration of None \<Rightarrow> False | Some d \<Rightarrow> tk_now tk - start_t \<ge> d) then (Finished, L0)
      else case once ops tk L0 of
        (Inl (SafetyStop src reason), L1) \<Rightarrow>
          (SafetyStopped src reason,
           stop_follower ops (L1\<lparr>tl_stats := (tl_stats L1)\<lparr>ts_safety_stops := ts_safety_stops (tl_stats L1) + 1\<rparr>\<rparr>))
      | (Inl KeyboardInterrupt, L1) \<Rightarrow> (Interrupted, stop_follower ops L1)
      | (Inl e, L1) \<Rightarrow> (Raised e, L1)
      | (Inr _, L1) \<Rightarrow>
          let L2 = tick_stats tk prev_tick_t L1; (next', _) = pace (period_of (tl_hz L)) tk next_t in
          if tk_interrupt tk = Some 6 then (Interrupted, stop_follower ops L2)
          else run_loop ops duration start_t tks (tk_now tk) next' L2)"

definition run :: "'f follower_ops \<Rightarrow> fl option \<Rightarrow> vec result \<Rightarrow> fl \<Rightarrow> fl \<Rightarrow> fl \<Rightarrow> tick list \<Rightarrow> 'f TeleopLoop \<Rightarrow> outcome \<times> 'f TeleopLoop" where
  "run ops duration leader0 open_t read_t start_t tks L =
     (case fo_open ops (tl_follower L) open_t of
        (Inl e, f) \<Rightarrow> (Raised e, L\<lparr>tl_follower := f\<rparr>)
      | (Inr _, f) \<Rightarrow>
          (case startup_align ops leader0 read_t (L\<lparr>tl_follower := f\<rparr>) of
             (Inl e, L1) \<Rightarrow> (Raised e, L1)
           | (Inr _, L1) \<Rightarrow>
               (case run_loop ops duration start_t tks start_t start_t L1 of
                  (Running, L2) \<Rightarrow> (Running, L2)
                | (o1, L2) \<Rightarrow> (o1, L2\<lparr>tl_follower := fo_close ops (tl_follower L2)\<rparr>))))"

end
