(* ===== verification/Safety_Proofs.thy ===== *)
theory Safety_Proofs
  imports Safety
begin

text \<open>
  What the gates of the monitor guarantee over a whole session, and two places where a guard answers
  although it could not tell.
\<close>

subsection \<open>Targets\<close>

text \<open>A target the gate may let through.\<close>

definition target_safe :: "SafetyMonitor \<Rightarrow> vec \<Rightarrow> bool" where
  "target_safe m tgt \<longleftrightarrow> length tgt = sm_n m \<and> all_finite tgt \<and>
     (\<forall>i < sm_n m. sm_lower m ! i + joint_margin_rad (sm_limits m) \<le> tgt ! i \<and>
        tgt ! i \<le> sm_upper m ! i - joint_margin_rad (sm_limits m))"

definition step_safe :: "SafetyMonitor \<Rightarrow> vec \<Rightarrow> vec \<Rightarrow> bool" where
  "step_safe m p q \<longleftrightarrow> (\<forall>i < sm_n m. fabs (q ! i - p ! i) \<le> max_step_rad (sm_limits m))"

text \<open>A monitor as a deployment configures it: numbers, no \<open>NaN\<close>.\<close>

definition monitor_ok :: "SafetyMonitor \<Rightarrow> bool" where
  "monitor_ok m \<longleftrightarrow> length (sm_upper m) = sm_n m \<and> all_finite (sm_lower m) \<and> all_finite (sm_upper m) \<and>
     isfinite (joint_margin_rad (sm_limits m)) \<and> isfinite (max_step_rad (sm_limits m)) \<and>
     isfinite (collision_stop_m (sm_limits m)) \<and>
     (\<forall>p. sm_prev_target m = Some p \<longrightarrow> target_safe m p)"

lemma not_less_fin: "isfinite x \<Longrightarrow> isfinite y \<Longrightarrow> \<not> x < y \<longleftrightarrow> y \<le> x"
  by (cases x; cases y) auto

lemma target_gate:
  assumes "monitor_ok m" and "check_and_clamp_target m tgt now = (Inr (v, t), m')"
  shows "t = tgt" "sm_limits m' = sm_limits m" "sm_lower m' = sm_lower m" "sm_upper m' = sm_upper m"
    "sv_ok v \<Longrightarrow> target_safe m tgt \<and> sm_prev_target m' = Some tgt \<and>
       (\<forall>p. sm_prev_target m = Some p \<longrightarrow> step_safe m p tgt) \<and> \<not> sm_last_distance m' \<le> collision_stop_m (sm_limits m) \<and>
       (sm_tick m' mod collision_every_n (sm_limits m) = 0 \<longrightarrow> min_distance (sm_collision m) tgt = Inr (sm_last_distance m'))"
    "\<not> sv_ok v \<Longrightarrow> sm_prev_target m' = sm_prev_target m"
proof -
  note d = assms(2) [unfolded check_and_clamp_target_def Let_def]
  show "t = tgt" "sm_limits m' = sm_limits m" "sm_lower m' = sm_lower m" "sm_upper m' = sm_upper m"
    "\<not> sv_ok v \<Longrightarrow> sm_prev_target m' = sm_prev_target m"
    using d by (auto simp: pass_def split: if_splits sum.splits)
  assume ok: "sv_ok v"
  from d ok have g: "length tgt = sm_n m" "all_finite tgt"
    "\<not> list_ex (\<lambda>i. tgt ! i < sm_lower m ! i + joint_margin_rad (sm_limits m) \<or> tgt ! i > sm_upper m ! i - joint_margin_rad (sm_limits m)) [0..<sm_n m]"
    "\<And>p. sm_prev_target m = Some p \<Longrightarrow> \<not> list_ex (\<lambda>i. fabs (tgt ! i - p ! i) > max_step_rad (sm_limits m)) [0..<sm_n m]"
    "sm_prev_target m' = Some tgt" "\<not> sm_last_distance m' \<le> collision_stop_m (sm_limits m)"
    "sm_tick m' mod collision_every_n (sm_limits m) = 0 \<Longrightarrow> min_distance (sm_collision m) tgt = Inr (sm_last_distance m')"
    by (auto simp: refuse_def split: if_splits sum.splits option.splits)
  have fin: "isfinite (tgt ! i)" "isfinite (sm_lower m ! i + joint_margin_rad (sm_limits m))"
    "isfinite (sm_upper m ! i - joint_margin_rad (sm_limits m))" if "i < sm_n m" for i
    using assms(1) g(1,2) that by (auto simp: monitor_ok_def all_finite_conv_nth sm_n_def)
  have "target_safe m tgt"
    using g(1-3) fin not_less_fin by (auto simp: target_safe_def list_ex_iff)
  moreover have "step_safe m p tgt" if "sm_prev_target m = Some p" for p
  proof -
    have "isfinite (fabs (tgt ! i - p ! i))" if i: "i < sm_n m" for i
    proof -
      have "isfinite (p ! i)"
        using assms(1) \<open>sm_prev_target m = Some p\<close> i by (auto simp: monitor_ok_def target_safe_def all_finite_conv_nth)
      then show ?thesis by (intro isfinite_arith(5) isfinite_arith(2) fin(1) i)
    qed
    moreover have "isfinite (max_step_rad (sm_limits m))" using assms(1) by (simp add: monitor_ok_def)
    ultimately show ?thesis using g(4) [OF that] not_less_fin by (auto simp: step_safe_def list_ex_iff)
  qed
  ultimately show "target_safe m tgt \<and> sm_prev_target m' = Some tgt \<and>
       (\<forall>p. sm_prev_target m = Some p \<longrightarrow> step_safe m p tgt) \<and> \<not> sm_last_distance m' \<le> collision_stop_m (sm_limits m) \<and>
       (sm_tick m' mod collision_every_n (sm_limits m) = 0 \<longrightarrow> min_distance (sm_collision m) tgt = Inr (sm_last_distance m'))"
    using g(5-7) by blast
qed

lemma target_gate_ok:
  assumes "monitor_ok m" "check_and_clamp_target m tgt now = (Inr (v, t), m')"
  shows "monitor_ok m'"
proof -
  have same: "target_safe m' = target_safe m"
    using target_gate(2-4) [OF assms] by (auto simp: fun_eq_iff target_safe_def sm_n_def)
  show ?thesis
    using target_gate [OF assms] assms(1) by (cases "sv_ok v") (auto simp: monitor_ok_def same sm_n_def)
qed

subsection \<open>Feedback\<close>

lemma check_feedback_keeps:
  "check_feedback m s now = (v, m') \<Longrightarrow>
     sm_limits m' = sm_limits m \<and> sm_lower m' = sm_lower m \<and> sm_upper m' = sm_upper m \<and> sm_prev_target m' = sm_prev_target m \<and>
     sm_collision m' = sm_collision m"
  by (auto simp: check_feedback_def track_check_def Let_def split: option.splits if_splits)

text \<open>
  Feedback that stops arriving stops the arm. Whenever the feedback gate passes and feedback is
  required, some sample has been seen and the newest one is not older than \<open>feedback_timeout_s\<close>, even
  if the caller hands in the same cached sample again and again.
\<close>

theorem feedback_gate_is_fresh:
  assumes "check_feedback m s now = (v, m')" and "sv_ok v" and "feedback_required (sm_limits m)"
  shows "sm_seen_feedback m' \<and> \<not> now - sm_last_feedback_t m' > feedback_timeout_s (sm_limits m') \<and>
     (\<forall>x. s = Some x \<longrightarrow> fs_timestamp x \<noteq> 0 \<longrightarrow> sm_last_feedback_t m' = fs_timestamp x)"
  using assms by (auto simp: check_feedback_def track_check_def refuse_def feq_def Let_def split: option.splits if_splits)

text \<open>The measured pose is further than \<open>track_err_rad\<close> from the last accepted target.\<close>

definition off_target :: "SafetyMonitor \<Rightarrow> FeedbackSample \<Rightarrow> bool" where
  "off_target m s \<longleftrightarrow> (\<exists>p. sm_prev_target m = Some p \<and> vmax (vabs (vsub p (fs_arm_q s))) > track_err_rad (sm_limits m))"

text \<open>
  The states of a monitor that has been off target at every sample since time \<open>t0\<close>: the first such
  sample passed, and since then the loop ran any gates, every sample still being off target.
\<close>

inductive off_since :: "fl \<Rightarrow> SafetyMonitor \<Rightarrow> bool" where
  off_start: "sm_track_since m = None \<Longrightarrow> off_target m s \<Longrightarrow> check_feedback m (Some s) t0 = (v, m') \<Longrightarrow> sv_ok v \<Longrightarrow> off_since t0 m'"
| off_leader: "off_since t0 m \<Longrightarrow> check_leader m l now = (v, m') \<Longrightarrow> off_since t0 m'"
| off_goal: "off_since t0 m \<Longrightarrow> check_and_clamp_target m tgt now = (Inr r, m') \<Longrightarrow> off_since t0 m'"
| off_guard: "off_since t0 m \<Longrightarrow> off_since t0 (m\<lparr>sm_collision := set_other_state (sm_collision m) l\<rparr>)"
| off_missing: "off_since t0 m \<Longrightarrow> check_feedback m None now = (v, m') \<Longrightarrow> off_since t0 m'"
| off_again: "off_since t0 m \<Longrightarrow> off_target m s \<Longrightarrow> check_feedback m (Some s) now = (v, m') \<Longrightarrow> sv_ok v \<Longrightarrow> off_since t0 m'"

lemma off_since_timer: "off_since t0 m \<Longrightarrow> sm_track_since m = Some t0"
proof (induction rule: off_since.induct)
  case (off_start m s t0 v m')
  then show ?case
    by (auto simp: check_feedback_def track_check_def off_target_def refuse_def Let_def split: if_splits option.splits)
next
  case (off_leader t0 m l now v m')
  then show ?case by (auto simp: check_leader_def split: if_splits)
next
  case (off_goal t0 m tgt now r m')
  then show ?case by (auto simp: check_and_clamp_target_def Let_def split: if_splits sum.splits)
next
  case (off_missing t0 m now v m')
  then show ?case by (auto simp: check_feedback_def Let_def split: if_splits)
next
  case (off_again t0 m s now v m')
  then show ?case
    by (auto simp: check_feedback_def track_check_def off_target_def refuse_def Let_def split: if_splits option.splits)
qed simp

text \<open>
  C32: an arm that stays off target is stopped. Once the measured pose has been off target at every sample
  since \<open>t0\<close>, no sample that is still off target passes the gate later than \<open>t0 + track_err_hold_s\<close>, however
  the targets change meanwhile.
\<close>

theorem persistent_tracking_error_stops:
  assumes "off_since t0 m" and "off_target m s" and "check_feedback m (Some s) now = (v, m')" and "sv_ok v"
  shows "\<not> now - t0 > track_err_hold_s (sm_limits m)"
  using off_since_timer [OF assms(1)] assms(2-4)
  by (auto simp: check_feedback_def track_check_def off_target_def refuse_def Let_def split: if_splits)

subsection \<open>The sphere guard\<close>

lemma py_min_le:
  "\<not> isnan best \<Longrightarrow> \<not> isnan (py_min best g) \<and> py_min best g \<le> best \<and> (\<not> isnan g \<longrightarrow> py_min best g \<le> g)"
  by (cases best; cases g) (auto simp: py_min_def less_fl_def)

lemma min_small_le:
  "min_small b cb poses ss best = Inr d \<Longrightarrow> \<not> isnan best \<Longrightarrow>
     \<not> isnan d \<and> d \<le> best \<and> (\<forall>s \<in> set ss. \<forall>cs g. sphere_center s poses = Inr cs \<longrightarrow> sphere_gap b s cb cs = Inr g \<longrightarrow>
       \<not> isnan g \<longrightarrow> d \<le> g)"
proof (induction b cb poses ss best rule: min_small.induct)
  case (1 b cb poses best)
  then show ?case by (simp add: fl_le_refl)
next
  case (2 b cb poses s ss best)
  from "2.prems"(1) obtain cs g where cg: "sphere_center s poses = Inr cs" "sphere_gap b s cb cs = Inr g"
    "min_small b cb poses ss (py_min best g) = Inr d" by auto
  from "2.IH" [OF cg(3)] py_min_le [OF "2.prems"(2), of g]
  have ih: "\<not> isnan d" "d \<le> py_min best g" "\<forall>s \<in> set ss. \<forall>cs g. sphere_center s poses = Inr cs \<longrightarrow> sphere_gap b s cb cs = Inr g \<longrightarrow>
       \<not> isnan g \<longrightarrow> d \<le> g" by auto
  have "d \<le> best" using ih(2) py_min_le [OF "2.prems"(2), of g] fl_le_trans by blast
  moreover have "\<not> isnan g \<longrightarrow> d \<le> g" using ih(2) py_min_le [OF "2.prems"(2), of g] fl_le_trans by blast
  ultimately show ?case using ih cg(1,2) by auto
qed

lemma min_big_le:
  "min_big big small smalls bs best = Inr d \<Longrightarrow> \<not> isnan best \<Longrightarrow>
     \<not> isnan d \<and> d \<le> best \<and> (\<forall>b \<in> set bs. \<forall>s \<in> set smalls. \<forall>cb cs g. sphere_center b big = Inr cb \<longrightarrow>
       sphere_center s small = Inr cs \<longrightarrow> sphere_gap b s cb cs = Inr g \<longrightarrow> \<not> isnan g \<longrightarrow> d \<le> g)"
proof (induction big small smalls bs best rule: min_big.induct)
  case (1 big small smalls best)
  then show ?case by (simp add: fl_le_refl)
next
  case (2 big small smalls b bs best)
  from "2.prems"(1) obtain cb e where ce: "sphere_center b big = Inr cb" "min_small b cb small smalls best = Inr e"
    "min_big big small smalls bs e = Inr d" by auto
  note small = min_small_le [OF ce(2) "2.prems"(2)]
  from "2.IH" [OF ce(3)] small have ih: "\<not> isnan d" "d \<le> e" "\<forall>b \<in> set bs. \<forall>s \<in> set smalls. \<forall>cb cs g. sphere_center b big = Inr cb \<longrightarrow>
       sphere_center s small = Inr cs \<longrightarrow> sphere_gap b s cb cs = Inr g \<longrightarrow> \<not> isnan g \<longrightarrow> d \<le> g" by auto
  have "d \<le> best" using ih(2) small fl_le_trans by blast
  moreover have "d \<le> g" if "s \<in> set smalls" "sphere_center s small = Inr cs" "sphere_gap b s cb cs = Inr g" "\<not> isnan g" for s cs g
    using ih(2) small that fl_le_trans by blast
  ultimately show ?case using ih ce(1) by auto
qed

text \<open>
  The sphere guard reports no more than any gap. When it answers a distance, that distance is at most
  the gap between any sphere of the big arm and any sphere of the small arm whose gap is a number.
\<close>

theorem sphere_distance_is_lower_bound:
  assumes "min_distance (SphereCollisionGuard g) arm_q = Inr d" and "sg_small_poses g = Some small"
    and "b \<in> set (sg_big_spheres g)" and "s \<in> set (sg_small_spheres g)"
    and "sphere_center b (sg_big_fk g arm_q) = Inr cb" and "sphere_center s small = Inr cs"
    and "sphere_gap b s cb cs = Inr gap" and "\<not> isnan gap"
  shows "\<not> isnan d \<and> d \<le> gap"
  using min_big_le [of "sg_big_fk g arm_q" small "sg_small_spheres g" "sg_big_spheres g" PInf d] assms by auto

subsection \<open>Where a guard cannot tell\<close>

text \<open>
  A distance that is not a number passes the collision gate. If the collision query answers \<open>NaN\<close>, a
  target that meets the joint limits and the step limit is let through at full speed.
\<close>

theorem nan_distance_passes:
  assumes "target_safe m tgt" and "sm_prev_target m = None" and "sm_collision m = CallableCollisionGuard fn b seen"
    and "fn seen tgt = Distance NaN" and "collision_every_n (sm_limits m) = 1"
  shows "fst (check_and_clamp_target m tgt now) = Inr (pass, tgt)"
proof -
  have "\<not> list_ex (\<lambda>i. tgt ! i < sm_lower m ! i + joint_margin_rad (sm_limits m) \<or> tgt ! i > sm_upper m ! i - joint_margin_rad (sm_limits m)) [0..<sm_n m]"
  proof -
    have "\<not> x < y" if "y \<le> x" for x y :: fl using that by (cases x; cases y) auto
    then show ?thesis using assms(1) by (auto simp: target_safe_def list_ex_iff)
  qed
  with assms show ?thesis by (simp add: check_and_clamp_target_def target_safe_def pass_def Let_def)
qed

text \<open>
  A collision sphere does not turn with its link. The centre \<open>Sphere.center\<close> computes depends on the
  position of the frame only: two poses of the frame that differ in rotation give the same centre.
\<close>

theorem sphere_ignores_rotation:
  assumes "as_rt p = Inr (R1, t)" and "as_rt q = Inr (R2, t)"
  shows "sphere_center s [(sp_frame s, p)] = sphere_center s [(sp_frame s, q)]"
  using assms by (simp add: sphere_center_def)

subsection \<open>Witnesses\<close>

definition demo_limits :: SafetyLimits where
  "demo_limits = \<lparr>joint_margin_rad = Fin (1 / 20), max_step_rad = Fin (3 / 10), max_target_vel_rad_s = 2, gripper_max_step_m = Fin (1 / 50),
     feedback_required = True, feedback_timeout_s = Fin (3 / 10), track_err_rad = Fin (15 / 100), track_err_hold_s = Fin (3 / 10),
     track_vel_rad_s = 3, leader_timeout_s = Fin (3 / 10), collision_stop_m = Fin (1 / 100), collision_warn_m = Fin (5 / 100),
     collision_every_n = 1, collision_slow_scale = Fin (1 / 4)\<rparr>"

definition demo_monitor :: "CollisionGuard \<Rightarrow> SafetyMonitor" where
  "demo_monitor g = \<lparr>sm_limits = demo_limits, sm_lower = [Fin (- 2)], sm_upper = [Fin 2], sm_collision = g, sm_prev_target = None,
     sm_prev_leader_t = 0, sm_track_since = None, sm_last_feedback_t = 0, sm_tick = 0, sm_last_distance = PInf, sm_seen_feedback = False\<rparr>"

definition demo_sample :: "real \<Rightarrow> real \<Rightarrow> FeedbackSample" where
  "demo_sample q t = \<lparr>fs_arm_q = [Fin q], fs_arm_dq = None, fs_gripper_width_m = None, fs_timestamp = Fin t, fs_fault = False,
     fs_fault_reason = [], fs_armed = None\<rparr>"

lemma demo_limits_ok: "mk_SafetyLimits demo_limits = Inr demo_limits"
  by (simp add: mk_SafetyLimits_def demo_limits_def)

theorem feedback_gate_is_fresh_witness:
  "\<exists>v m'. check_feedback (demo_monitor NoCollisionGuard) (Some (demo_sample 0 5)) (Fin 5) = (v, m') \<and> sm_seen_feedback m' \<and>
     sm_last_feedback_t m' = Fin 5"
proof -
  let ?m = "demo_monitor NoCollisionGuard"
  obtain v m' where r: "check_feedback ?m (Some (demo_sample 0 5)) (Fin 5) = (v, m')" by fastforce
  then have "sv_ok v" by (auto simp: check_feedback_def demo_monitor_def demo_sample_def demo_limits_def sm_n_def track_check_def pass_def Let_def)
  moreover have "feedback_required (sm_limits ?m)" by (simp add: demo_monitor_def demo_limits_def)
  ultimately show ?thesis using feedback_gate_is_fresh [OF r] r by (auto simp: demo_sample_def)
qed

theorem persistent_tracking_error_stops_witness:
  "\<exists>m. off_since (Fin 5) m \<and> off_target m (demo_sample 1 6) \<and> \<not> sv_ok (fst (check_feedback m (Some (demo_sample 1 6)) (Fin 6)))"
proof -
  let ?m = "(demo_monitor NoCollisionGuard)\<lparr>sm_prev_target := Some [Fin 0]\<rparr>"
  obtain v m where r: "check_feedback ?m (Some (demo_sample 1 5)) (Fin 5) = (v, m)" by fastforce
  have off: "off_target ?m (demo_sample 1 5)"
    by (simp add: off_target_def demo_monitor_def demo_sample_def demo_limits_def vmax_def vabs_def vsub_def)
  have rv: "sv_ok v \<and> m = ?m\<lparr>sm_seen_feedback := True, sm_last_feedback_t := Fin 5, sm_track_since := Some (Fin 5)\<rparr>"
    using r by (auto simp: check_feedback_def demo_monitor_def demo_sample_def demo_limits_def sm_n_def track_check_def pass_def
        vmax_def vabs_def vsub_def Let_def)
  have since: "off_since (Fin 5) m" by (rule off_start [OF _ off r]) (use rv in \<open>simp_all add: demo_monitor_def\<close>)
  have off2: "off_target m (demo_sample 1 6)"
    using rv by (simp add: off_target_def demo_monitor_def demo_sample_def demo_limits_def vmax_def vabs_def vsub_def)
  obtain v2 m2 where r2: "check_feedback m (Some (demo_sample 1 6)) (Fin 6) = (v2, m2)" by fastforce
  have "track_err_hold_s (sm_limits m) = Fin (3 / 10)" using rv by (simp add: demo_monitor_def demo_limits_def)
  then have "\<not> sv_ok v2" using persistent_tracking_error_stops [OF since off2 r2] by auto
  with since off2 r2 show ?thesis by auto
qed

lemma demo_target: "target_safe (demo_monitor g) [Fin 1]" "monitor_ok (demo_monitor g)"
  by (simp_all add: target_safe_def monitor_ok_def demo_monitor_def demo_limits_def sm_n_def)

theorem nan_distance_passes_witness:
  "fst (check_and_clamp_target (demo_monitor (CallableCollisionGuard (\<lambda>_ _. Distance NaN) False None)) [Fin 1] 0) = Inr (pass, [Fin 1])"
  using nan_distance_passes [OF demo_target(1), of "CallableCollisionGuard (\<lambda>_ _. Distance NaN) False None" "\<lambda>_ _. Distance NaN" False None 0]
  by (simp add: demo_monitor_def demo_limits_def)

definition demo_sphere :: "string \<Rightarrow> Sphere" where
  "demo_sphere f = \<lparr>sp_frame = f, sp_offset = [Fin 1, 0, 0], sp_radius = Fin (1 / 10)\<rparr>"

theorem sphere_ignores_rotation_witness:
  "sphere_center (demo_sphere ''link'') [(''link'', Pose33 [[1, 0, 0], [0, 1, 0], [0, 0, 1]])] =
   sphere_center (demo_sphere ''link'') [(''link'', Pose33 [[Fin (- 1), 0, 0], [0, Fin (- 1), 0], [0, 0, 1]])]"
  using sphere_ignores_rotation [of "Pose33 [[1, 0, 0], [0, 1, 0], [0, 0, 1]]" _ "zeros 3"
      "Pose33 [[Fin (- 1), 0, 0], [0, Fin (- 1), 0], [0, 0, 1]]" _ "demo_sphere ''link''"]
  by (simp add: as_rt_def demo_sphere_def)

definition demo_guard :: sphere_guard where
  "demo_guard = \<lparr>sg_big_spheres = [demo_sphere ''a''], sg_small_spheres = [demo_sphere ''b''],
     sg_big_fk = (\<lambda>_. [(''a'', Point3 [0, 0, 0])]), sg_small_fk = (\<lambda>_. [(''b'', Point3 [0, 0, 4])]),
     sg_small_poses = Some [(''b'', Point3 [0, 0, 4])]\<rparr>"

theorem sphere_distance_is_lower_bound_witness:
  "\<exists>d. min_distance (SphereCollisionGuard demo_guard) [] = Inr d \<and> d \<le> Fin (sqrt 16 - 1 / 10 - 1 / 10)"
proof -
  have c: "sphere_center (demo_sphere ''a'') (sg_big_fk demo_guard []) = Inr [Fin 1, Fin 0, Fin 0]"
    "sphere_center (demo_sphere ''b'') [(''b'', Point3 [0, 0, 4])] = Inr [Fin 1, Fin 0, Fin 4]"
    "sphere_gap (demo_sphere ''a'') (demo_sphere ''b'') [Fin 1, Fin 0, Fin 0] [Fin 1, Fin 0, Fin 4] = Inr (Fin (sqrt 16 - 1 / 10 - 1 / 10))"
    by (simp_all add: sphere_center_def as_rt_def np_map2_def bcast2_def demo_guard_def demo_sphere_def sphere_gap_def vnorm_def)
  have "min_distance (SphereCollisionGuard demo_guard) [] = Inr (py_min PInf (Fin (sqrt 16 - 1 / 10 - 1 / 10)))"
    using c by (simp add: demo_guard_def)
  from sphere_distance_is_lower_bound [OF this _ _ _ c(1,2,3)] this show ?thesis by (auto simp: demo_guard_def)
qed

end
