(* ===== verification/Loop_Proofs.thy ===== *)
theory Loop_Proofs
  imports Loop Safety_Proofs
begin

text \<open>
  What the teleoperation guarantees about the arm it drives, proved once over the follower protocol
  (\<open>follower_sink\<close>: what is sent, \<open>follower_arm\<close>: what can also be read back) and used on every back end.
\<close>

subsection \<open>The follower protocol\<close>

definition in_box :: "vec \<Rightarrow> vec \<Rightarrow> vec \<Rightarrow> bool" where
  "in_box lo hi q \<longleftrightarrow> length q = length lo \<and> all_finite q \<and> (\<forall>i < length lo. lo ! i \<le> q ! i \<and> q ! i \<le> hi ! i)"

locale follower_sink =
  fixes ops :: "'f follower_ops" and safe :: "vec \<Rightarrow> vec \<Rightarrow> 'f \<Rightarrow> bool"
  assumes open_inv: "safe lo hi f \<Longrightarrow> safe lo hi (snd (fo_open ops f now))"
    and read_inv: "safe lo hi f \<Longrightarrow> isfinite now \<Longrightarrow> safe lo hi (snd (fo_read_state ops f now))"
    and send_inv: "safe lo hi f \<Longrightarrow> isfinite now \<Longrightarrow> in_box lo hi q \<Longrightarrow> safe lo hi (snd (fo_send ops f now q g))"
    and stop_inv: "safe lo hi f \<Longrightarrow> safe lo hi (fo_safe_stop ops f)"
    and close_inv: "safe lo hi f \<Longrightarrow> safe lo hi (fo_close ops f)"

locale follower_arm = follower_sink +
  assumes read_box: "safe lo hi f \<Longrightarrow> isfinite now \<Longrightarrow> fo_read_state ops f now = (Inr (q, g), f') \<Longrightarrow> in_box lo hi q"

subsection \<open>The gates\<close>

definition limit_lower :: "SafetyMonitor \<Rightarrow> vec" where
  "limit_lower m = map (\<lambda>x. x + joint_margin_rad (sm_limits m)) (sm_lower m)"

definition limit_upper :: "SafetyMonitor \<Rightarrow> vec" where
  "limit_upper m = map (\<lambda>x. x - joint_margin_rad (sm_limits m)) (sm_upper m)"

lemma target_safe_box: "monitor_ok m \<Longrightarrow> target_safe m q \<Longrightarrow> in_box (limit_lower m) (limit_upper m) q"
  by (auto simp: target_safe_def in_box_def limit_lower_def limit_upper_def monitor_ok_def sm_n_def)

text \<open>The loop's monitor is as configured, and its limits are \<open>lo\<close> and \<open>hi\<close>.\<close>

definition guards :: "vec \<Rightarrow> vec \<Rightarrow> SafetyMonitor \<Rightarrow> bool" where
  "guards lo hi m \<longleftrightarrow> monitor_ok m \<and> limit_lower m = lo \<and> limit_upper m = hi \<and> isfinite (collision_slow_scale (sm_limits m))"

lemma guards_same:
  assumes "guards lo hi m" and "sm_limits m' = sm_limits m" "sm_lower m' = sm_lower m" "sm_upper m' = sm_upper m"
    and "sm_prev_target m' = sm_prev_target m"
  shows "guards lo hi m'"
proof -
  have "target_safe m' = target_safe m" using assms(2-4) by (auto simp: fun_eq_iff target_safe_def sm_n_def)
  then show ?thesis using assms by (simp add: guards_def monitor_ok_def limit_lower_def limit_upper_def sm_n_def)
qed

lemma check_leader_same:
  "check_leader m l now = (v, m') \<Longrightarrow> sm_limits m' = sm_limits m \<and> sm_lower m' = sm_lower m \<and> sm_upper m' = sm_upper m \<and>
     sm_prev_target m' = sm_prev_target m"
  by (auto simp: check_leader_def split: if_splits)

lemma target_gate_raises:
  "check_and_clamp_target m t now = (Inl e, m') \<Longrightarrow> sm_limits m' = sm_limits m \<and> sm_lower m' = sm_lower m \<and> sm_upper m' = sm_upper m \<and>
     sm_prev_target m' = sm_prev_target m"
  by (auto simp: check_and_clamp_target_def Let_def split: if_splits sum.splits)

lemma target_gate_guards:
  assumes "guards lo hi m" and "check_and_clamp_target m t now = (r, m')"
  shows "guards lo hi m'"
proof (cases r)
  case (Inl e)
  then show ?thesis using assms target_gate_raises guards_same by blast
next
  case (Inr vt)
  obtain v t' where vt: "vt = (v, t')" by (cases vt)
  have ok: "monitor_ok m" using assms(1) by (simp add: guards_def)
  note e = assms(2) [unfolded Inr vt]
  show ?thesis
    using assms(1) target_gate_ok [OF ok e] target_gate(2-4) [OF ok e] by (simp add: guards_def limit_lower_def limit_upper_def)
qed

subsection \<open>The stages of a tick\<close>

definition loop_ok :: "(vec \<Rightarrow> vec \<Rightarrow> 'f \<Rightarrow> bool) \<Rightarrow> vec \<Rightarrow> vec \<Rightarrow> 'f TeleopLoop \<Rightarrow> bool" where
  "loop_ok safe lo hi L \<longleftrightarrow> guards lo hi (tl_monitor L) \<and> safe lo hi (tl_follower L)"

lemma leader_gate_ok:
  assumes "leader_gate tk L = (r, L')" and "loop_ok safe lo hi L"
  shows "loop_ok safe lo hi L'" "r = Inr ls \<Longrightarrow> all_finite ls \<and> ls \<noteq> []"
proof -
  show "loop_ok safe lo hi L'"
    using assms check_leader_same guards_same by (auto simp: leader_gate_def loop_ok_def Let_def split: sum.splits prod.splits; metis)
  show "r = Inr ls \<Longrightarrow> all_finite ls \<and> ls \<noteq> []"
    using assms(1) by (auto simp: leader_gate_def check_leader_def refuse_def Let_def split: sum.splits if_splits)
qed

text \<open>A frame mapped from finite leader data is the retargeter's previous arm target from then on.\<close>

lemma rt_map_prev:
  "rt_map rt ls now = (Inr (Some (d, g)), rt') \<Longrightarrow> all_finite ls \<Longrightarrow> rt_prev_arm rt' = Some d"
  by (auto simp: rt_map_def Let_def split: sum.splits prod.splits)

lemma retarget_ok:
  assumes "retarget tk ls L = (r, L')"
  shows "tl_monitor L' = tl_monitor L" "tl_follower L' = tl_follower L"
    "r = Inr (arm, g) \<Longrightarrow> all_finite ls \<Longrightarrow> rt_prev_arm (tl_retargeter L') = Some arm"
  using assms rt_map_prev by (auto simp: retarget_def Let_def split: prod.splits option.splits)

lemma target_stage_ok:
  assumes "target_stage tk ls arm L = (r, L')" and "loop_ok safe lo hi L"
  shows "loop_ok safe lo hi L'" "tl_retargeter L' = tl_retargeter L"
    "r = Inr (v, tgt) \<Longrightarrow> tgt = arm \<and> in_box lo hi arm \<and> isfinite (sv_speed_scale v)"
proof -
  define m0 where "m0 = (tl_monitor L)\<lparr>sm_collision := set_other_state (sm_collision (tl_monitor L)) ls\<rparr>"
  have g: "guards lo hi m0" using assms(2) by (auto simp: loop_ok_def m0_def intro: guards_same)
  obtain r0 m where c: "check_and_clamp_target m0 arm (tk_now tk) = (r0, m)" by fastforce
  have L': "L' = L\<lparr>tl_monitor := m\<rparr>"
    and r: "r = bindr r0 (\<lambda>(v, tgt). if sv_ok v then Inr (v, tgt) else Inl (SafetyStop ''target'' (sv_reason v)))"
    using assms(1) c by (auto simp: target_stage_def m0_def Let_def)
  show "loop_ok safe lo hi L'" "tl_retargeter L' = tl_retargeter L"
    using target_gate_guards [OF g c] assms(2) by (simp_all add: L' loop_ok_def)
  assume "r = Inr (v, tgt)"
  then have e: "check_and_clamp_target m0 arm (tk_now tk) = (Inr (v, tgt), m)" and ok: "sv_ok v"
    using c r by (auto split: if_splits)
  have mok: "monitor_ok m0" and sc: "isfinite (collision_slow_scale (sm_limits m0))" using g by (simp_all add: guards_def)
  have "in_box lo hi arm"
    using target_safe_box [OF mok] target_gate(5) [OF mok e ok] g by (simp add: guards_def)
  moreover have "isfinite (sv_speed_scale v)"
    using e ok sc by (auto simp: check_and_clamp_target_def pass_def refuse_def Let_def split: if_splits sum.splits)
  ultimately show "tgt = arm \<and> in_box lo hi arm \<and> isfinite (sv_speed_scale v)" using target_gate(1) [OF mok e] by simp
qed

text \<open>Blending a target with itself is the target.\<close>

lemma blend_self:
  assumes "all_finite t" and "isfinite s"
  shows "np_map2 (\<lambda>p x. p + (x - p) * s) t t = Inr t"
proof -
  have "x + (x - x) * s = x" if "isfinite x" for x
    using that assms(2) by (cases x; cases s) auto
  then have "map (\<lambda>(p, x). p + (x - p) * s) (zip t t) = t"
    using assms(1) by (intro nth_equalityI) (auto simp: all_finite_conv_nth)
  then show ?thesis by (simp add: np_map2_def bcast2_def)
qed

lemma warn_slow_same:
  assumes "rt_prev_arm (tl_retargeter L) = Some arm" and "all_finite arm" and "isfinite (sv_speed_scale v)"
  shows "warn_slow v arm L = (Inr arm, L)"
  using blend_self [OF assms(2,3)] assms(1) by (simp add: warn_slow_def)

lemma read_feedback_cases:
  "read_feedback ops L tk = (r, L') \<Longrightarrow> tl_monitor L' = tl_monitor L \<and>
     (tl_follower L' = tl_follower L \<or> tl_follower L' = snd (fo_read_state ops (tl_follower L) (tk_read_t tk)))"
  by (cases "tl_feedback L"; cases "tk_sample tk"; cases "fo_read_state ops (tl_follower L) (tk_read_t tk)"; cases "fst (fo_read_state ops (tl_follower L) (tk_read_t tk))")
    (auto simp: read_feedback_def follower_sample_def split: err.splits)

lemma feedback_monitor:
  assumes "feedback_stage ops tk L = (r, L')" and "guards lo hi (tl_monitor L)"
  shows "guards lo hi (tl_monitor L')" "tl_follower L' = tl_follower (snd (read_feedback ops L tk))"
proof -
  obtain s L1 where f: "read_feedback ops L tk = (s, L1)" by fastforce
  then have m1: "tl_monitor L1 = tl_monitor L" using read_feedback_cases by blast
  have "guards lo hi (tl_monitor L') \<and> tl_follower L' = tl_follower L1"
  proof (cases s)
    case (Inl e)
    then show ?thesis using assms f m1 by (simp add: feedback_stage_def)
  next
    case (Inr x)
    obtain v m where c: "check_feedback (tl_monitor L1) x (tk_now tk) = (v, m)" by fastforce
    then have "guards lo hi m" using check_feedback_keeps [OF c] assms(2) m1 by (auto intro: guards_same)
    then show ?thesis using assms(1) f c Inr by (auto simp: feedback_stage_def Let_def split: if_splits)
  qed
  then show "guards lo hi (tl_monitor L')" "tl_follower L' = tl_follower (snd (read_feedback ops L tk))" using f by simp_all
qed

lemma uninterrupted:
  "unless_interrupted k tk m L = (r, L') \<Longrightarrow> m L = (r, L') \<or> L' = L"
  "unless_interrupted k tk m L = (Inr x, L') \<Longrightarrow> m L = (Inr x, L')"
  by (auto simp: unless_interrupted_def split: if_splits)

lemma keeps_uninterrupted: "keeps P m \<Longrightarrow> keeps P (unless_interrupted k tk m)"
  by (simp add: keeps_def unless_interrupted_def)

subsection \<open>The loop over any follower\<close>

definition clocks_finite :: "tick list \<Rightarrow> bool" where
  "clocks_finite tks \<longleftrightarrow> (\<forall>tk \<in> set tks. isfinite (tk_send_t tk) \<and> isfinite (tk_read_t tk))"

context follower_sink
begin

lemma read_feedback_inv:
  assumes "safe lo hi (tl_follower L)" and "isfinite (tk_read_t tk)"
  shows "safe lo hi (tl_follower (snd (read_feedback ops L tk)))"
  using read_feedback_cases [of ops L tk, OF surjective_pairing] read_inv [OF assms] assms(1) by auto

lemma after_target:
  assumes "loop_ok safe lo hi L" and "rt_prev_arm (tl_retargeter L) = Some arm" and "in_box lo hi arm"
    and "isfinite (sv_speed_scale v)" and "isfinite (tk_send_t tk)" and "isfinite (tk_read_t tk)"
  shows "loop_ok safe lo hi (snd (bindst (unless_interrupted 3 tk (warn_slow v arm)) (\<lambda>slowed.
     bindst (unless_interrupted 4 tk (send_stage ops tk slowed g)) (\<lambda>_. unless_interrupted 5 tk (feedback_stage ops tk))) L))"
proof -
  have "all_finite arm" using assms(3) by (simp add: in_box_def)
  note w = warn_slow_same [OF assms(2) this assms(4)]
  obtain r1 L1 where s: "send_stage ops tk arm g L = (r1, L1)" by fastforce
  have L1: "tl_monitor L1 = tl_monitor L" "safe lo hi (tl_follower L1)"
    using s send_inv [OF _ assms(5) assms(3), of "tl_follower L" g] assms(1)
    by (auto simp: send_stage_def loop_ok_def split: prod.splits sum.splits)
  show ?thesis
  proof (cases r1)
    case (Inl e)
    then show ?thesis
      using s L1 assms(1) w by (simp add: bindst_def unless_interrupted_def loop_ok_def)
  next
    case (Inr u)
    obtain r2 L2 where f: "feedback_stage ops tk L1 = (r2, L2)" by fastforce
    have "guards lo hi (tl_monitor L1)" using assms(1) L1 by (simp add: loop_ok_def)
    from feedback_monitor [OF f this] read_feedback_inv [where L = L1, OF L1(2) assms(6)] have "loop_ok safe lo hi L2"
      by (simp add: loop_ok_def)
    then show ?thesis
      using s f Inr w assms(1) L1 by (simp add: bindst_def unless_interrupted_def loop_ok_def)
  qed
qed

lemma once_ok:
  assumes "loop_ok safe lo hi L" and "isfinite (tk_send_t tk)" and "isfinite (tk_read_t tk)"
  shows "loop_ok safe lo hi (snd (once ops tk L))"
proof -
  obtain r L' where o': "once ops tk L = (r, L')" by fastforce
  from o' [unfolded once_def] have "loop_ok safe lo hi L'"
  proof (cases rule: bindst_cases)
    case (fails e)
    then show ?thesis using uninterrupted(1) [OF fails(1)] leader_gate_ok(1) [OF _ assms(1)] assms(1) by blast
  next
    case (goes ls L1)
    note L1 = leader_gate_ok [OF uninterrupted(2) [OF goes(1)] assms(1)]
    from goes(2) show ?thesis
    proof (cases rule: bindst_cases)
      case (fails e)
      have "retarget tk ls L1 = (Inl e, L') \<Longrightarrow> loop_ok safe lo hi L'" using retarget_ok(1,2) [of tk ls L1] L1(1) by (simp add: loop_ok_def)
      then show ?thesis using uninterrupted(1) [OF fails(1)] L1(1) fails(2) by blast
    next
      case (goes ag L2)
      obtain arm g where ag: "ag = (arm, g)" by (cases ag)
      note L2 = retarget_ok [OF uninterrupted(2) [OF goes(1)]]
      have ok2: "loop_ok safe lo hi L2" using L2(1,2) L1(1) by (simp add: loop_ok_def)
      have p2: "rt_prev_arm (tl_retargeter L2) = Some arm" using L2(3) L1(2) ag by blast
      from goes(2) [unfolded ag prod.case] show ?thesis
      proof (cases rule: bindst_cases)
        case (fails e)
        then show ?thesis using uninterrupted(1) [OF fails(1)] target_stage_ok(1) [OF _ ok2] ok2 by blast
      next
        case (goes vt L3)
        obtain v tgt where vt: "vt = (v, tgt)" by (cases vt)
        note L3 = target_stage_ok [OF uninterrupted(2) [OF goes(1)] ok2]
        have t: "tgt = arm" "in_box lo hi arm" "isfinite (sv_speed_scale v)" using L3(3) [of v tgt] vt by simp_all
        have "rt_prev_arm (tl_retargeter L3) = Some arm" using L3(2) p2 by simp
        from after_target [OF L3(1) this t(2,3) assms(2,3), of g] goes(2) [unfolded vt prod.case t(1)]
        show ?thesis by simp
      qed
    qed
  qed
  then show ?thesis using o' by simp
qed

lemma stop_ok: "loop_ok safe lo hi L \<Longrightarrow> loop_ok safe lo hi (stop_follower ops L)"
  by (simp add: loop_ok_def stop_follower_def stop_inv)

lemma run_loop_ok:
  "loop_ok safe lo hi L \<Longrightarrow> clocks_finite tks \<Longrightarrow> loop_ok safe lo hi (snd (run_loop ops d st tks p n L))"
proof (induction tks arbitrary: p n L)
  case (Cons tk tks)
  define L0 where "L0 = (if tk_stop_before tk then L\<lparr>tl_stop := True\<rparr> else L)"
  have ok0: "loop_ok safe lo hi L0" using Cons.prems(1) by (simp add: L0_def loop_ok_def)
  obtain r L1 where o1: "once ops tk L0 = (r, L1)" by fastforce
  have ok1: "loop_ok safe lo hi L1" using once_ok [OF ok0, of tk] Cons.prems(2) o1 by (simp add: clocks_finite_def)
  have ok2: "loop_ok safe lo hi (tick_stats tk p L1)" using ok1 by (simp add: tick_stats_def loop_ok_def Let_def)
  have ok3: "loop_ok safe lo hi (L1\<lparr>tl_stats := s\<rparr>)" for s using ok1 by (simp add: loop_ok_def)
  have cf: "clocks_finite tks" using Cons.prems(2) by (simp add: clocks_finite_def)
  show ?case
    using ok0 ok1 stop_ok [OF ok1] stop_ok [OF ok2] stop_ok [OF ok3] Cons.IH [OF ok2 cf]
    by (simp add: Let_def L0_def [symmetric] o1 split: sum.splits err.splits prod.splits option.splits)
qed simp

lemma run_ok:
  assumes "loop_ok safe lo hi L" and "isfinite read_t" and "clocks_finite tks"
  shows "loop_ok safe lo hi (snd (run ops d leader0 open_t read_t start_t tks L))"
proof -
  obtain r f where op: "fo_open ops (tl_follower L) open_t = (r, f)" by fastforce
  have f: "loop_ok safe lo hi (L\<lparr>tl_follower := f\<rparr>)" using open_inv [of lo hi "tl_follower L" open_t] assms(1) op by (simp add: loop_ok_def)
  obtain r1 L1 where al: "startup_align ops leader0 read_t (L\<lparr>tl_follower := f\<rparr>) = (r1, L1)" by fastforce
  have "safe lo hi (snd (fo_read_state ops f read_t))" using f read_inv [OF _ assms(2)] by (simp add: loop_ok_def)
  then have L1: "loop_ok safe lo hi L1"
    using al f by (auto simp: startup_align_def loop_ok_def Let_def split: sum.splits prod.splits if_splits)
  obtain o2 L2 where rl: "run_loop ops d start_t tks start_t start_t L1 = (o2, L2)" by fastforce
  have L2: "loop_ok safe lo hi L2" using run_loop_ok [OF L1 assms(3)] rl by (metis snd_conv)
  then have "loop_ok safe lo hi (L2\<lparr>tl_follower := fo_close ops (tl_follower L2)\<rparr>)" by (simp add: loop_ok_def close_inv)
  then show ?thesis
    using op al rl f L1 L2 by (cases r; cases r1; cases o2) (simp_all add: run_def)
qed

end

subsection \<open>The back ends\<close>

definition dry_ops :: "DryRunFollower follower_ops" where
  "dry_ops = \<lparr>fo_num_arm_joints = dr_num_arm_joints, fo_open = dr_open, fo_read_state = dr_read_state, fo_send = dr_send,
     fo_safe_stop = dr_safe_stop, fo_close = dr_close\<rparr>"

definition fake_ops :: "FakeFollower follower_ops" where
  "fake_ops = \<lparr>fo_num_arm_joints = ff_num_arm_joints, fo_open = ff_open, fo_read_state = ff_read_state, fo_send = ff_send,
     fo_safe_stop = ff_safe_stop, fo_close = ff_close\<rparr>"

definition pass_ops :: "PassThroughFollower follower_ops" where
  "pass_ops = \<lparr>fo_num_arm_joints = pt_num_arm_joints, fo_open = pt_open, fo_read_state = pt_read_state, fo_send = pt_send,
     fo_safe_stop = pt_safe_stop, fo_close = pt_close\<rparr>"

definition dora_ops :: "DoraJogFollower follower_ops" where
  "dora_ops = \<lparr>fo_num_arm_joints = dj_num_arm_joints, fo_open = dj_open, fo_read_state = dj_read_state, fo_send = dj_send,
     fo_safe_stop = dj_safe_stop, fo_close = dj_close\<rparr>"

definition rt_ops :: "(fl \<Rightarrow> vec) \<Rightarrow> RtFollower follower_ops" where
  "rt_ops motor_position = \<lparr>fo_num_arm_joints = rf_num_arm_joints, fo_open = rf_open, fo_read_state = rf_read_state motor_position,
     fo_send = rf_send, fo_safe_stop = rf_safe_stop, fo_close = rf_close\<rparr>"

definition dry_safe :: "vec \<Rightarrow> vec \<Rightarrow> DryRunFollower \<Rightarrow> bool" where
  "dry_safe lo hi f \<longleftrightarrow> in_box lo hi (dr_q0 f) \<and> (\<forall>q g. dr_last_cmd f = Some (q, g) \<longrightarrow> in_box lo hi q)"

definition fake_safe :: "vec \<Rightarrow> vec \<Rightarrow> FakeFollower \<Rightarrow> bool" where
  "fake_safe lo hi f \<longleftrightarrow> in_box lo hi (ff_q f) \<and> in_box lo hi (ff_q_cmd f) \<and> isfinite (ff_tau f) \<and> 0 < ff_tau f \<and> isfinite (ff_last_t f)"

definition pass_safe :: "vec \<Rightarrow> vec \<Rightarrow> PassThroughFollower \<Rightarrow> bool" where
  "pass_safe lo hi f \<longleftrightarrow> in_box lo hi (pt_q f)"

definition jogs :: "DoraJogFollower \<Rightarrow> vec set" where
  "jogs f = {q. \<exists>t r. (t, JogMsg q r) \<in> set (nd_out (dj_node f))}"

definition dora_safe :: "vec \<Rightarrow> vec \<Rightarrow> DoraJogFollower \<Rightarrow> bool" where
  "dora_safe lo hi f \<longleftrightarrow> (\<forall>q \<in> jogs f. in_box lo hi q)"

definition rt_safe :: "vec \<Rightarrow> vec \<Rightarrow> RtFollower \<Rightarrow> bool" where
  "rt_safe lo hi f \<longleftrightarrow> (\<forall>c. RtApply c \<in> set (rf_calls f) \<longrightarrow> in_box lo hi (take (length lo) (rc_position c)))"

text \<open>One step of the first-order lag stays between the pose and the command.\<close>

lemma ff_gain_unit:
  assumes "isfinite now" "isfinite (ff_last_t f)" "isfinite (ff_tau f)" "0 < ff_tau f"
  shows "\<exists>a. ff_gain f now = Fin a \<and> 0 \<le> a \<and> a \<le> 1"
  using assms by (cases now; cases "ff_last_t f"; cases "ff_tau f") (auto simp: ff_gain_def Let_def max_def)

lemma lag_between:
  assumes "in_box lo hi p" and "in_box lo hi c" and "0 \<le> a" and "a \<le> 1"
  shows "\<exists>q. np_map2 (\<lambda>x c. x + (c - x) * Fin a) p c = Inr q \<and> in_box lo hi q"
proof -
  have "isfinite (x + (y - x) * Fin a) \<and> l \<le> x + (y - x) * Fin a \<and> x + (y - x) * Fin a \<le> h"
    if "isfinite x" "isfinite y" "l \<le> x" "x \<le> h" "l \<le> y" "y \<le> h" for x y l h :: fl
  proof -
    note fin = that(1,2)
    obtain u v where uv: "x = Fin u" "y = Fin v" using fin unfolding isfinite_iff by blast
    have "u + (v - u) * a = (1 - a) * u + a * v" by (simp add: algebra_simps)
    then have m: "min u v \<le> u + (v - u) * a" "u + (v - u) * a \<le> max u v"
      using assms(3,4) convex_bound_le [of u "max u v" v "1 - a" a] convex_bound_le [of "- u" "- min u v" "- v" "1 - a" a]
      by (simp_all add: algebra_simps)
    show ?thesis using m that uv by (cases l; cases h) auto
  qed
  then show ?thesis
    using assms(1,2) by (auto simp: np_map2_def bcast2_def in_box_def all_finite_conv_nth)
qed

lemma ff_step_safe:
  assumes "fake_safe lo hi f" and "isfinite now"
  shows "\<exists>f'. ff_step f now = (Inr (), f') \<and> fake_safe lo hi f'"
proof -
  obtain a where a: "ff_gain f now = Fin a" "0 \<le> a" "a \<le> 1"
    using ff_gain_unit [OF assms(2), of f] assms(1) by (auto simp: fake_safe_def)
  obtain q where "np_map2 (\<lambda>x c. x + (c - x) * Fin a) (ff_q f) (ff_q_cmd f) = Inr q" "in_box lo hi q"
    using lag_between [OF _ _ a(2,3)] assms(1) unfolding fake_safe_def by blast
  then show ?thesis using assms a(1) by (simp add: ff_step_def fake_safe_def Let_def)
qed

interpretation dry_arm: follower_arm dry_ops dry_safe
  by unfold_locales
    (auto simp: dry_ops_def dry_safe_def dr_open_def dr_read_state_def dr_send_def dr_close_def dr_safe_stop_def Let_def split: sum.splits)

interpretation fake_arm: follower_arm fake_ops fake_safe
proof unfold_locales
  fix lo hi f now q g f'
  show "fake_safe lo hi f \<Longrightarrow> fake_safe lo hi (snd (fo_open fake_ops f now))" by (simp add: fake_ops_def ff_open_def)
  show "fake_safe lo hi f \<Longrightarrow> isfinite now \<Longrightarrow> fake_safe lo hi (snd (fo_read_state fake_ops f now))"
    using ff_step_safe [of lo hi f now] by (auto simp: fake_ops_def ff_read_state_def)
  show "fake_safe lo hi f \<Longrightarrow> isfinite now \<Longrightarrow> in_box lo hi q \<Longrightarrow> fake_safe lo hi (snd (fo_send fake_ops f now q g))"
    using ff_step_safe [of lo hi f now] by (auto simp: fake_ops_def ff_send_def fake_safe_def split: sum.splits)
  show "fake_safe lo hi f \<Longrightarrow> fake_safe lo hi (fo_safe_stop fake_ops f)" "fake_safe lo hi f \<Longrightarrow> fake_safe lo hi (fo_close fake_ops f)"
    by (simp_all add: fake_ops_def ff_close_def ff_safe_stop_def fake_safe_def)
  show "fake_safe lo hi f \<Longrightarrow> isfinite now \<Longrightarrow> fo_read_state fake_ops f now = (Inr (q, g), f') \<Longrightarrow> in_box lo hi q"
    using ff_step_safe [of lo hi f now] by (auto simp: fake_ops_def ff_read_state_def fake_safe_def)
qed

interpretation pass_arm: follower_arm pass_ops pass_safe
  by unfold_locales
    (auto simp: pass_ops_def pass_safe_def pt_open_def pt_read_state_def pt_send_def pt_close_def pt_safe_stop_def split: sum.splits)

lemma dj_emit_eq:
  "dj_emit f t m = (let up = nd_up (dj_node f) (nd_asked (dj_node f)) in (if up then Inr () else Inl (RuntimeError ''send_output''),
     f\<lparr>dj_node := (dj_node f)\<lparr>nd_asked := Suc (nd_asked (dj_node f)), nd_out := nd_out (dj_node f) @ (if up then [(t, m)] else [])\<rparr>\<rparr>))"
  by (simp add: dj_emit_def send_output_def)

lemmas dora_defs = Let_def dora_ops_def dora_safe_def jogs_def dj_open_def dj_read_state_def dj_send_def dj_safe_stop_def dj_close_def dj_emit_eq

interpretation dora_out: follower_sink dora_ops dora_safe
  by unfold_locales (auto simp: dora_defs split: sum.splits option.splits)

interpretation rt_out: follower_sink "rt_ops motor_position" rt_safe for motor_position
  by unfold_locales
    (auto simp: rt_ops_def rt_safe_def rf_open_def rf_read_state_def rf_send_def rf_safe_stop_def rf_close_def rf_call_def in_box_def nth_append Let_def)

end
