(* ===== verification/Mapping_Proofs.thy ===== *)
theory Mapping_Proofs
  imports Mapping_Model
begin

text \<open>
  What the retargeter guarantees: from finite settings and readings it always returns a finite target
  inside the joint limits, its rate limit holds between frames, and taking over does not jump.
\<close>

definition joint_ok :: "JointMapping \<Rightarrow> bool" where
  "joint_ok j \<longleftrightarrow> isfinite (jm_sign j) \<and> isfinite (jm_offset j) \<and> isfinite (jm_scale j) \<and>
     jm_lower j \<le> jm_upper j \<and> jm_lower j \<noteq> PInf \<and> jm_upper j \<noteq> NInf \<and> 0 \<le> jm_max_rate j"

definition gripper_ok :: "GripperMapping \<Rightarrow> bool" where
  "gripper_ok g \<longleftrightarrow> isfinite (gm_open_finger_m g) \<and> isfinite (gm_closed_finger_m g) \<and> 0 \<le> gm_max_rate_m_s g"

definition vec_ok :: "nat \<Rightarrow> vec option \<Rightarrow> bool" where
  "vec_ok n v \<longleftrightarrow> (case v of None \<Rightarrow> True | Some x \<Rightarrow> length x = n \<and> all_finite x)"

definition num_ok :: "fl option \<Rightarrow> bool" where
  "num_ok x \<longleftrightarrow> (case x of None \<Rightarrow> True | Some v \<Rightarrow> isfinite v)"

definition rt_ok :: "Retargeter \<Rightarrow> bool" where
  "rt_ok rt \<longleftrightarrow>
     rt_joints rt \<noteq> [] \<and> (\<forall>j \<in> set (rt_joints rt). joint_ok j) \<and>
     (\<forall>g. rt_gripper rt = Some g \<longrightarrow> gripper_ok g) \<and>
     isfinite (rt_alpha rt) \<and> isfinite (rt_ramp_s rt) \<and> isfinite (rt_ramp_elapsed rt) \<and>
     vec_ok (n_out rt) (rt_align rt) \<and> vec_ok (n_out rt) (rt_prev_arm rt) \<and> vec_ok (n_out rt) (rt_start_arm rt) \<and>
     num_ok (rt_prev_grip rt) \<and> num_ok (rt_start_grip rt) \<and> num_ok (rt_last_t rt) \<and>
     (rt_prev_arm rt \<noteq> None \<longrightarrow> rt_prev_grip rt \<noteq> None) \<and> (rt_start_arm rt \<noteq> None \<longrightarrow> rt_start_grip rt \<noteq> None)"

text \<open>The frame is long enough for every joint and the gripper.\<close>

definition frame_ok :: "Retargeter \<Rightarrow> vec \<Rightarrow> bool" where
  "frame_ok rt leader \<longleftrightarrow> all_finite leader \<and>
     (\<forall>j \<in> set (rt_joints rt). py_index leader (jm_src_index j) \<noteq> None) \<and>
     (\<forall>g. rt_gripper rt = Some g \<longrightarrow> py_index leader (gm_src_index g) \<noteq> None)"

subsection \<open>The stages stay finite\<close>

definition pair_ok :: "nat \<Rightarrow> vec \<times> fl \<Rightarrow> bool" where
  "pair_ok n x \<longleftrightarrow> length (fst x) = n \<and> all_finite (fst x) \<and> isfinite (snd x)"

lemma py_get_ok: "all_finite v \<Longrightarrow> py_index v i \<noteq> None \<Longrightarrow> \<exists>x. py_get v i = Inr x \<and> isfinite x"
  by (auto simp: py_get_def all_finite_conv_nth dest: py_index_bound)

lemma jm_apply_ok:
  "joint_ok j \<Longrightarrow> all_finite leader \<Longrightarrow> py_index leader (jm_src_index j) \<noteq> None \<Longrightarrow> isfinite e \<Longrightarrow>
     \<exists>x. jm_apply j leader e = Inr x \<and> isfinite x"
  using py_get_ok [of leader "jm_src_index j"] by (auto simp: jm_apply_def joint_ok_def)

lemma gm_apply_ok:
  assumes "gripper_ok g" "all_finite leader" "py_index leader (gm_src_index g) \<noteq> None"
  shows "\<exists>x. gm_apply g leader = Inr x \<and> isfinite x"
proof -
  obtain x where "py_get leader (gm_src_index g) = Inr (Fin x)"
    using py_get_ok [OF assms(2,3)] by (auto simp: isfinite_iff)
  with assms(1) show ?thesis by (auto simp: gm_apply_def gripper_ok_def isfinite_iff Let_def)
qed

lemma mapr_finite:
  assumes "\<And>i. i < n \<Longrightarrow> \<exists>x. f i = Inr x \<and> isfinite x"
  shows "\<exists>v. mapr f [0..<n] = Inr v \<and> length v = n \<and> all_finite v \<and> (\<forall>i < n. f i = Inr (v ! i))"
proof -
  define g where "g i = (SOME x. f i = Inr x \<and> isfinite x)" for i
  have g: "f i = Inr (g i) \<and> isfinite (g i)" if "i < n" for i
    unfolding g_def by (rule someI_ex) (rule assms [OF that])
  then have "mapr f [0..<n] = Inr (map g [0..<n])" by (intro mapr_total) simp
  with g show ?thesis by (auto simp: all_finite_conv_nth)
qed

lemma np_map2_ok:
  assumes "length xs = n" "length ys = n" "all_finite xs" "all_finite ys"
    and "\<And>x y. isfinite x \<Longrightarrow> isfinite y \<Longrightarrow> isfinite (f x y)"
  shows "\<exists>v. np_map2 f xs ys = Inr v \<and> length v = n \<and> all_finite v \<and> (\<forall>i < n. v ! i = f (xs ! i) (ys ! i))"
  using assms by (auto simp: np_map2_def bcast2_def all_finite_conv_nth)

lemma rt_desired_ok:
  assumes "rt_ok rt" "frame_ok rt leader"
  shows "\<exists>x. rt_desired rt leader = Inr x \<and> pair_ok (n_out rt) x \<and>
     (\<forall>i < n_out rt. jm_apply (rt_joints rt ! i) leader
        ((case rt_align rt of Some a \<Rightarrow> a | None \<Rightarrow> zeros (n_out rt)) ! i) = Inr (fst x ! i))"
proof -
  define al where "al = (case rt_align rt of Some a \<Rightarrow> a | None \<Rightarrow> zeros (n_out rt))"
  have al: "length al = n_out rt" "all_finite al"
    using assms(1) by (auto simp: al_def rt_ok_def vec_ok_def all_finite_conv_nth split: option.splits)
  have fin: "\<exists>x. bindr (py_get al (int i)) (jm_apply (rt_joints rt ! i) leader) = Inr x \<and> isfinite x" if "i < n_out rt" for i
  proof -
    have "rt_joints rt ! i \<in> set (rt_joints rt)" using that by (simp add: n_out_def)
    then have "joint_ok (rt_joints rt ! i)" "py_index leader (jm_src_index (rt_joints rt ! i)) \<noteq> None" "all_finite leader"
      using assms by (auto simp: rt_ok_def frame_ok_def)
    moreover have "isfinite (al ! i)" using al that by (simp add: all_finite_conv_nth)
    ultimately show ?thesis using jm_apply_ok al(1) that by simp
  qed
  obtain v where v: "mapr (\<lambda>i. bindr (py_get al (int i)) (jm_apply (rt_joints rt ! i) leader)) [0..<n_out rt] = Inr v"
    "length v = n_out rt" "all_finite v" "\<forall>i < n_out rt. bindr (py_get al (int i)) (jm_apply (rt_joints rt ! i) leader) = Inr (v ! i)"
    using mapr_finite [of "n_out rt" "\<lambda>i. bindr (py_get al (int i)) (jm_apply (rt_joints rt ! i) leader)", OF fin] by blast
  moreover obtain g where "(case rt_gripper rt of Some g \<Rightarrow> gm_apply g leader | None \<Rightarrow> Inr 0) = Inr g" "isfinite g"
  proof (cases "rt_gripper rt")
    case (Some g)
    with assms have "gripper_ok g" "all_finite leader" "py_index leader (gm_src_index g) \<noteq> None"
      by (auto simp: rt_ok_def frame_ok_def)
    from gm_apply_ok [OF this] Some that show ?thesis by auto
  qed (use that in simp)
  ultimately show ?thesis using al by (auto simp: rt_desired_def al_def [symmetric] pair_ok_def Let_def)
qed


lemma rt_smooth_ok:
  assumes "rt_ok rt" "pair_ok (n_out rt) x"
  shows "\<exists>y. rt_smooth rt x = Inr y \<and> pair_ok (n_out rt) y \<and>
     (\<forall>i < n_out rt. fst y ! i = fst x ! i \<or>
        (\<exists>prev. rt_prev_arm rt = Some prev \<and> fst y ! i = prev ! i * (1 - rt_alpha rt) + fst x ! i * rt_alpha rt))"
proof (cases "rt_prev_arm rt")
  case None
  with assms show ?thesis by (auto simp: rt_smooth_def)
next
  case (Some prev)
  have fin: "isfinite (1 - rt_alpha rt)" "isfinite (rt_alpha rt)" using assms(1) by (auto simp: rt_ok_def)
  have p: "length prev = n_out rt" "all_finite prev" using assms(1) Some by (auto simp: rt_ok_def vec_ok_def)
  obtain pg where pg: "rt_prev_grip rt = Some pg" "isfinite pg" using assms(1) Some by (auto simp: rt_ok_def num_ok_def)
  have f: "isfinite (u * (1 - rt_alpha rt) + v * rt_alpha rt)" if "isfinite u" "isfinite v" for u v
    using that fin by blast
  obtain w where w: "np_map2 (\<lambda>p d. p * (1 - rt_alpha rt) + d * rt_alpha rt) prev (fst x) = Inr w" "length w = n_out rt" "all_finite w"
    "\<forall>i < n_out rt. w ! i = prev ! i * (1 - rt_alpha rt) + fst x ! i * rt_alpha rt"
    using np_map2_ok [OF p(1) _ p(2), of "fst x" "\<lambda>p d. p * (1 - rt_alpha rt) + d * rt_alpha rt", OF _ _ f] assms(2)
    unfolding pair_ok_def by blast
  show ?thesis
  proof (cases "rt_alpha rt < 1")
    case True
    then show ?thesis using Some w pg f [OF pg(2)] assms(2) by (auto simp: rt_smooth_def pair_ok_def Let_def)
  next
    case False
    with Some assms show ?thesis by (auto simp: rt_smooth_def)
  qed
qed

lemma blend_finite: "isfinite e \<Longrightarrow> isfinite r \<Longrightarrow> 0 < r \<Longrightarrow> isfinite (py_min (e / r) 1)"
  by (auto simp: isfinite_iff)

lemma rt_ramp_ok:
  assumes "rt_ok rt" "pair_ok (n_out rt) x"
  shows "\<exists>y. rt_ramp rt x = Inr y \<and> pair_ok (n_out rt) y \<and>
     (\<forall>i < n_out rt. fst y ! i = fst x ! i \<or>
        (\<exists>s b. rt_start_arm rt = Some s \<and> isfinite b \<and> fst y ! i = s ! i + b * (fst x ! i - s ! i)))"
proof (cases "ramping rt")
  case False
  with assms show ?thesis by (auto simp: rt_ramp_def)
next
  case True
  then obtain s where s: "rt_start_arm rt = Some s" and r: "0 < rt_ramp_s rt" by (auto simp: ramping_def)
  define b where "b = py_min (rt_ramp_elapsed rt / rt_ramp_s rt) 1"
  have b: "isfinite b" unfolding b_def using assms(1) r by (intro blend_finite) (auto simp: rt_ok_def)
  have p: "length s = n_out rt" "all_finite s" using assms(1) s by (auto simp: rt_ok_def vec_ok_def)
  obtain sg where sg: "rt_start_grip rt = Some sg" "isfinite sg" using assms(1) s by (auto simp: rt_ok_def num_ok_def)
  have f: "isfinite (u + b * (v - u))" if "isfinite u" "isfinite v" for u v using that b by blast
  obtain w where w: "np_map2 (\<lambda>s d. s + b * (d - s)) s (fst x) = Inr w" "length w = n_out rt" "all_finite w"
    "\<forall>i < n_out rt. w ! i = s ! i + b * (fst x ! i - s ! i)"
    using np_map2_ok [OF p(1) _ p(2), of "fst x" "\<lambda>s d. s + b * (d - s)", OF _ _ f] assms(2)
    unfolding pair_ok_def by blast
  have "rt_ramp rt x = bindr (np_map2 (\<lambda>s d. s + b * (d - s)) s (fst x)) (\<lambda>desired.
      bindr (if rt_gripper rt = None then Inr (snd x) else bindr (opt_value (rt_start_grip rt)) (\<lambda>sg. Inr (sg + b * (snd x - sg))))
        (\<lambda>grip. Inr (desired, grip)))"
    by (simp only: rt_ramp_def b_def True s if_True option.sel Let_def)
  then show ?thesis
    using s w sg f [OF sg(2)] assms(2) b by (cases "rt_gripper rt") (auto simp: pair_ok_def)
qed

lemma rate_clip_ok:
  assumes "isfinite dt" "0 < dt" "isfinite p" "isfinite v" "0 \<le> r"
  shows "isfinite (rate_clip r dt p v) \<and> (isfinite r \<longrightarrow> fabs (rate_clip r dt p v - p) \<le> r * dt)"
proof (cases "isfinite r")
  case True
  show ?thesis
    using assms True unfolding isfinite_iff rate_clip_def by (auto simp: abs_le_iff min_def max_def)
next
  case False
  with assms show ?thesis by (simp add: rate_clip_def)
qed

lemma rt_rate_ok:
  assumes "rt_ok rt" "pair_ok (n_out rt) x" "isfinite dt"
  shows "\<exists>y. rt_rate rt dt x = Inr y \<and> pair_ok (n_out rt) y \<and>
     (\<not> dt > Fin (1 / 10 ^ 9) \<longrightarrow> y = x) \<and>
     (\<forall>prev. rt_prev_arm rt = Some prev \<longrightarrow> dt > Fin (1 / 10 ^ 9) \<longrightarrow>
        (\<forall>i < n_out rt. fst y ! i = rate_clip (jm_max_rate (rt_joints rt ! i)) dt (prev ! i) (fst x ! i)))"
proof (cases "rt_prev_arm rt \<noteq> None \<and> dt > Fin (1 / 10 ^ 9)")
  case False
  then have "rt_rate rt dt x = Inr x" by (cases "rt_prev_arm rt") (simp_all add: rt_rate_def)
  with False assms(2) show ?thesis by auto
next
  case True
  then obtain prev where prev: "rt_prev_arm rt = Some prev" by auto
  have p: "length prev = n_out rt" "all_finite prev" using assms(1) prev by (auto simp: rt_ok_def vec_ok_def)
  have dt: "0 < dt" using True assms(3) by (auto simp: isfinite_iff)
  obtain pg where pg: "rt_prev_grip rt = Some pg" "isfinite pg" using assms(1) prev by (auto simp: rt_ok_def num_ok_def)
  let ?f = "\<lambda>i. if \<not> isfinite (jm_max_rate (rt_joints rt ! i)) then py_get (fst x) (int i)
                else bindr (py_get (fst x) (int i)) (\<lambda>v. bindr (py_get prev (int i)) (\<lambda>p.
                  Inr (rate_clip (jm_max_rate (rt_joints rt ! i)) dt p v)))"
  have at: "?f i = Inr (rate_clip (jm_max_rate (rt_joints rt ! i)) dt (prev ! i) (fst x ! i))" if "i < n_out rt" for i
    using that p assms(2) by (auto simp: pair_ok_def rate_clip_def)
  have fin: "\<exists>v. ?f i = Inr v \<and> isfinite v" if i: "i < n_out rt" for i
  proof -
    have "rt_joints rt ! i \<in> set (rt_joints rt)" using i by (simp add: n_out_def)
    then have "0 \<le> jm_max_rate (rt_joints rt ! i)" using assms(1) by (auto simp: rt_ok_def joint_ok_def)
    moreover have "isfinite (prev ! i)" "isfinite (fst x ! i)"
      using p i assms(2) by (auto simp: pair_ok_def all_finite_conv_nth)
    ultimately show ?thesis unfolding at [OF i] using rate_clip_ok [OF assms(3) dt] by blast
  qed
  obtain w where w: "mapr ?f [0..<n_out rt] = Inr w" "length w = n_out rt" "all_finite w" "\<forall>i < n_out rt. ?f i = Inr (w ! i)"
    using mapr_finite [of "n_out rt" ?f, OF fin] by blast
  have wi: "\<forall>i < n_out rt. w ! i = rate_clip (jm_max_rate (rt_joints rt ! i)) dt (prev ! i) (fst x ! i)"
    using w(4) at by (metis sum.inject(2))
  have "\<exists>g. (case rt_gripper rt of None \<Rightarrow> Inr (snd x)
       | Some g \<Rightarrow> if isfinite (gm_max_rate_m_s g)
           then bindr (opt_value (rt_prev_grip rt)) (\<lambda>pg. Inr (rate_clip (gm_max_rate_m_s g) dt pg (snd x)))
           else Inr (snd x)) = Inr g \<and> isfinite g"
    using assms(1,2) pg rate_clip_ok [OF assms(3) dt pg(2), of "snd x"]
    by (cases "rt_gripper rt") (auto simp: pair_ok_def rt_ok_def gripper_ok_def)
  then obtain g where "(case rt_gripper rt of None \<Rightarrow> Inr (snd x)
       | Some g \<Rightarrow> if isfinite (gm_max_rate_m_s g)
           then bindr (opt_value (rt_prev_grip rt)) (\<lambda>pg. Inr (rate_clip (gm_max_rate_m_s g) dt pg (snd x)))
           else Inr (snd x)) = Inr g" "isfinite g" by blast
  then have "rt_rate rt dt x = Inr (w, g)" using True prev w(1) by (simp add: rt_rate_def)
  with w wi \<open>isfinite g\<close> True prev show ?thesis by (auto simp: pair_ok_def)
qed

subsection \<open>One frame\<close>

definition frame_dt :: "Retargeter \<Rightarrow> fl \<Rightarrow> fl" where
  "frame_dt rt now = (case rt_last_t rt of None \<Rightarrow> 0 | Some t \<Rightarrow> py_max (now - t) 0)"

lemma frame_dt_ok: "rt_ok rt \<Longrightarrow> isfinite now \<Longrightarrow> isfinite (frame_dt rt now) \<and> 0 \<le> frame_dt rt now"
  by (auto simp: frame_dt_def rt_ok_def num_ok_def isfinite_iff split: option.splits)

definition rt_timed :: "Retargeter \<Rightarrow> fl \<Rightarrow> Retargeter" where
  "rt_timed rt now =
     (let rt1 = rt\<lparr>rt_last_t := Some now\<rparr>
      in if ramping rt1 then rt1\<lparr>rt_ramp_elapsed := rt_ramp_elapsed rt1 + frame_dt rt now\<rparr> else rt1)"

lemma rt_timed_simps [simp]:
  "rt_joints (rt_timed rt now) = rt_joints rt" "rt_prev_arm (rt_timed rt now) = rt_prev_arm rt"
  "rt_gripper (rt_timed rt now) = rt_gripper rt" "n_out (rt_timed rt now) = n_out rt"
  "rt_start_arm (rt_timed rt now) = rt_start_arm rt" "rt_last_t (rt_timed rt now) = Some now"
  by (simp_all add: rt_timed_def n_out_def Let_def)

lemma rt_timed_ok: "rt_ok rt \<Longrightarrow> isfinite now \<Longrightarrow> rt_ok (rt\<lparr>rt_last_t := Some now\<rparr>) \<and> rt_ok (rt_timed rt now)"
  using frame_dt_ok [of rt now] by (auto simp: rt_timed_def rt_ok_def n_out_def num_ok_def Let_def)

lemma rt_map_stages:
  assumes "all_finite leader" "rt_desired rt leader = Inr x0" "rt_smooth (rt\<lparr>rt_last_t := Some now\<rparr>) x0 = Inr x1"
    and "rt_ramp (rt_timed rt now) x1 = Inr x2" "rt_rate (rt_timed rt now) (frame_dt rt now) x2 = Inr (d, g)"
  shows "rt_map rt leader now =
     (Inr (Some (map2 jm_clamp (rt_joints rt) d, g)),
      (rt_timed rt now)\<lparr>rt_prev_arm := Some (map2 jm_clamp (rt_joints rt) d), rt_prev_grip := Some g,
         rt_last_ok := Some (map2 jm_clamp (rt_joints rt) d, g)\<rparr>)"
  using assms by (simp add: rt_map_def rt_timed_def frame_dt_def Let_def split: if_splits)

lemma clamp_all:
  assumes "rt_ok rt" "length d = n_out rt" "all_finite d"
  shows "length (map2 jm_clamp (rt_joints rt) d) = n_out rt" "all_finite (map2 jm_clamp (rt_joints rt) d)"
    "\<And>i. i < n_out rt \<Longrightarrow> map2 jm_clamp (rt_joints rt) d ! i = jm_clamp (rt_joints rt ! i) (d ! i) \<and>
       jm_lower (rt_joints rt ! i) \<le> jm_clamp (rt_joints rt ! i) (d ! i) \<and>
       jm_clamp (rt_joints rt ! i) (d ! i) \<le> jm_upper (rt_joints rt ! i)"
proof -
  have j: "joint_ok (rt_joints rt ! i)" "isfinite (d ! i)" if "i < n_out rt" for i
    using assms that by (auto simp: rt_ok_def n_out_def all_finite_conv_nth)
  have c: "isfinite (jm_clamp (rt_joints rt ! i) (d ! i)) \<and> jm_lower (rt_joints rt ! i) \<le> jm_clamp (rt_joints rt ! i) (d ! i) \<and>
     jm_clamp (rt_joints rt ! i) (d ! i) \<le> jm_upper (rt_joints rt ! i)" if "i < n_out rt" for i
    using j [OF that] np_clip_range [of "d ! i"] by (auto simp: jm_clamp_def joint_ok_def)
  show "length (map2 jm_clamp (rt_joints rt) d) = n_out rt" using assms(2) by (simp add: n_out_def)
  show "all_finite (map2 jm_clamp (rt_joints rt) d)" using c assms(2) by (simp add: all_finite_conv_nth n_out_def)
  show "map2 jm_clamp (rt_joints rt) d ! i = jm_clamp (rt_joints rt ! i) (d ! i) \<and>
       jm_lower (rt_joints rt ! i) \<le> jm_clamp (rt_joints rt ! i) (d ! i) \<and>
       jm_clamp (rt_joints rt ! i) (d ! i) \<le> jm_upper (rt_joints rt ! i)" if "i < n_out rt" for i
    using c [OF that] assms(2) that by (simp add: n_out_def)
qed

text \<open>The whole frame: it exists, and each joint went through the stages.\<close>

lemma rt_map_frame:
  assumes ok: "rt_ok rt" and fr: "frame_ok rt leader" and now: "isfinite now"
  obtains d g x2 rt' where "rt_map rt leader now = (Inr (Some (d, g)), rt')" "rt_ok rt'" "rt_joints rt' = rt_joints rt"
    "length d = n_out rt" "all_finite d" "isfinite g" "rt_prev_arm rt' = Some d" "rt_last_ok rt' = Some (d, g)"
    "\<And>i. i < n_out rt \<Longrightarrow> jm_lower (rt_joints rt ! i) \<le> d ! i \<and> d ! i \<le> jm_upper (rt_joints rt ! i)"
    "\<And>i. i < n_out rt \<Longrightarrow> isfinite (x2 ! i)"
    "\<And>i prev. i < n_out rt \<Longrightarrow> rt_prev_arm rt = Some prev \<Longrightarrow> frame_dt rt now > Fin (1 / 10 ^ 9) \<Longrightarrow>
       d ! i = jm_clamp (rt_joints rt ! i) (rate_clip (jm_max_rate (rt_joints rt ! i)) (frame_dt rt now) (prev ! i) (x2 ! i))"
proof -
  note t = rt_timed_ok [OF ok now] and dt = frame_dt_ok [OF ok now]
  obtain x0 where x0: "rt_desired rt leader = Inr x0" "pair_ok (n_out rt) x0" using rt_desired_ok [OF ok fr] by blast
  have n1: "n_out (rt\<lparr>rt_last_t := Some now\<rparr>) = n_out rt" by (simp add: n_out_def)
  obtain x1 where x1: "rt_smooth (rt\<lparr>rt_last_t := Some now\<rparr>) x0 = Inr x1" "pair_ok (n_out rt) x1"
    using rt_smooth_ok [of "rt\<lparr>rt_last_t := Some now\<rparr>" x0] t x0(2) unfolding n1 by blast
  obtain x2 where x2: "rt_ramp (rt_timed rt now) x1 = Inr x2" "pair_ok (n_out rt) x2"
    using rt_ramp_ok [of "rt_timed rt now" x1] t x1(2) by auto
  obtain y where y: "rt_rate (rt_timed rt now) (frame_dt rt now) x2 = Inr y" "pair_ok (n_out rt) y"
    and yr: "\<forall>prev. rt_prev_arm rt = Some prev \<longrightarrow> frame_dt rt now > Fin (1 / 10 ^ 9) \<longrightarrow> (\<forall>i < n_out rt.
       fst y ! i = rate_clip (jm_max_rate (rt_joints rt ! i)) (frame_dt rt now) (prev ! i) (fst x2 ! i))"
    using rt_rate_ok [OF conjunct2 [OF t], of x2 "frame_dt rt now", unfolded rt_timed_simps, OF x2(2) conjunct1 [OF dt]] by blast
  obtain d g where dg: "y = (d, g)" by (cases y)
  have d: "length d = n_out rt" "all_finite d" "isfinite g" using y(2) dg by (simp_all add: pair_ok_def)
  have "all_finite leader" using fr by (simp add: frame_ok_def)
  note m = rt_map_stages [OF this x0(1) x1(1) x2(1) y(1) [unfolded dg]]
  note cl = clamp_all [OF ok d(1,2)]
  show thesis
  proof (rule that [OF m, of "fst x2"])
    show "rt_ok ((rt_timed rt now)\<lparr>rt_prev_arm := Some (map2 jm_clamp (rt_joints rt) d), rt_prev_grip := Some g,
         rt_last_ok := Some (map2 jm_clamp (rt_joints rt) d, g)\<rparr>)"
      using conjunct2 [OF t] cl(1,2) d(3) by (simp add: rt_ok_def vec_ok_def num_ok_def n_out_def)
    show "isfinite (fst x2 ! i)" if "i < n_out rt" for i using x2(2) that by (simp add: pair_ok_def all_finite_conv_nth)
  qed (use cl d yr dg in auto)
qed

subsection \<open>Taking over\<close>

lemma auto_align_reset_ok:
  assumes ok: "rt_ok rt" and fr: "frame_ok rt leader" and f: "all_finite follower" "isfinite grip"
    and al: "rt_auto_align rt leader follower = Inr rt1"
  shows "rt_ok (rt_reset rt1 follower grip)" "rt_joints rt1 = rt_joints rt" "rt_gripper rt1 = rt_gripper rt"
    "\<exists>a. rt_align rt1 = Some a \<and> length a = n_out rt \<and>
       (\<forall>i < n_out rt. \<exists>x. jm_apply (rt_joints rt ! i) leader 0 = Inr x \<and> isfinite x \<and> a ! i = follower ! i - x)"
proof -
  let ?f = "\<lambda>i. bindr (jm_apply (rt_joints rt ! i) leader 0) (\<lambda>a. Inr (follower ! i - a))"
  obtain a where a: "mapr ?f [0..<n_out rt] = Inr a" and rt1: "rt1 = rt\<lparr>rt_align := Some a\<rparr>" and len: "length follower = n_out rt"
    using al by (auto simp: rt_auto_align_def split: if_splits)
  have app: "\<exists>x. jm_apply (rt_joints rt ! i) leader 0 = Inr x \<and> isfinite x" if "i < n_out rt" for i
  proof -
    have "rt_joints rt ! i \<in> set (rt_joints rt)" using that by (simp add: n_out_def)
    then show ?thesis using ok fr jm_apply_ok [of "rt_joints rt ! i" leader 0] by (auto simp: rt_ok_def frame_ok_def)
  qed
  have la: "length a = n_out rt" using mapr_Inr_length [OF a] by simp
  have at: "\<exists>x. jm_apply (rt_joints rt ! i) leader 0 = Inr x \<and> isfinite x \<and> a ! i = follower ! i - x" if "i < n_out rt" for i
    using mapr_Inr_nth [OF a, of i] app [OF that] that by auto
  have fa: "all_finite a"
  proof -
    have "isfinite (a ! i)" if i: "i < n_out rt" for i
    proof -
      obtain x where x: "isfinite x" "a ! i = follower ! i - x" using at [OF i] by blast
      have "isfinite (follower ! i)" using f(1) len i by (simp add: all_finite_conv_nth)
      then show ?thesis unfolding x(2) using x(1) by blast
    qed
    then show ?thesis using la by (simp add: all_finite_conv_nth)
  qed
  show "rt_joints rt1 = rt_joints rt" "rt_gripper rt1 = rt_gripper rt" by (simp_all add: rt1)
  show "rt_ok (rt_reset rt1 follower grip)"
    using ok fa la len f by (simp add: rt1 rt_reset_def rt_ok_def vec_ok_def num_ok_def n_out_def)
  show "\<exists>a. rt_align rt1 = Some a \<and> length a = n_out rt \<and>
       (\<forall>i < n_out rt. \<exists>x. jm_apply (rt_joints rt ! i) leader 0 = Inr x \<and> isfinite x \<and> a ! i = follower ! i - x)"
    using at la by (simp add: rt1)
qed

lemma fixed_points:
  assumes "isfinite f" "isfinite a"
  shows "f * (1 - a) + f * a = f" "f + a * (f - f) = f"
  using assms by (auto simp: isfinite_iff algebra_simps)

lemma aligned_apply:
  assumes "jm_apply j leader 0 = Inr x" "isfinite x" "isfinite f" "joint_ok j" "all_finite leader"
  shows "jm_apply j leader (f - x) = Inr f"
proof -
  obtain r where r: "py_get leader (jm_src_index j) = Inr r" "x = jm_offset j + 0 + jm_scale j * jm_sign j * r"
    using assms(1) by (auto simp: jm_apply_def)
  have "isfinite r" by (rule all_finite_in [OF assms(5) py_get_in [OF r(1)]])
  then obtain r' f' k o' where "r = Fin r'" "f = Fin f'" "jm_scale j * jm_sign j = Fin k" "jm_offset j = Fin o'"
    using assms(3,4) unfolding joint_ok_def by (metis isfinite_iff times_fl.simps(1))
  with r show ?thesis by (simp add: jm_apply_def)
qed

text \<open>
  C31: taking over does not move the big arm. After \<open>auto_align\<close> on a leader frame and the big arm's pose and
  \<open>reset\<close> on that pose, mapping the same frame returns exactly that pose, whatever smoothing, ramp or
  rate limits are configured, as long as the pose lies inside the joint limits.
\<close>

theorem takeover_without_jump:
  assumes "rt_ok rt" and "frame_ok rt leader" and "all_finite follower" and "isfinite grip" and "isfinite now"
    and "rt_auto_align rt leader follower = Inr rt1"
    and "\<forall>i < n_out rt. jm_lower (rt_joints rt ! i) \<le> follower ! i \<and> follower ! i \<le> jm_upper (rt_joints rt ! i)"
  shows "\<exists>g rt'. rt_map (rt_reset rt1 follower grip) leader now = (Inr (Some (follower, g)), rt') \<and> rt_ok rt'"
proof -
  define r where "r = rt_reset rt1 follower grip"
  note al = auto_align_reset_ok [OF assms(1-4,6), folded r_def]
  obtain a where a: "rt_align rt1 = Some a" "length a = n_out rt"
    "\<forall>i < n_out rt. \<exists>x. jm_apply (rt_joints rt ! i) leader 0 = Inr x \<and> isfinite x \<and> a ! i = follower ! i - x"
    using al(4) by blast
  have lf: "length follower = n_out rt" using assms(6) by (auto simp: rt_auto_align_def split: if_splits)
  have j: "rt_joints r = rt_joints rt" "n_out r = n_out rt" "rt_align r = Some a" "rt_prev_arm r = Some follower"
    "rt_start_arm r = Some follower" "rt_last_t r = None" "rt_gripper r = rt_gripper rt"
    using al(2,3) a(1) by (simp_all add: r_def rt_reset_def n_out_def)
  have fr: "frame_ok r leader" using assms(2) by (simp add: frame_ok_def j)
  have ff: "isfinite (follower ! i)" if "i < n_out rt" for i using assms(3) lf that by (simp add: all_finite_conv_nth)
  have jok: "joint_ok (rt_joints rt ! i)" if "i < n_out rt" for i using assms(1) that by (simp add: rt_ok_def n_out_def)
  note t = rt_timed_ok [OF al(1) assms(5)]
  obtain x0 where x0: "rt_desired r leader = Inr x0" "pair_ok (n_out rt) x0"
    "\<forall>i < n_out rt. jm_apply (rt_joints rt ! i) leader (a ! i) = Inr (fst x0 ! i)"
    using rt_desired_ok [OF al(1) fr] unfolding j option.case by blast
  have e0: "\<forall>i < n_out rt. fst x0 ! i = follower ! i"
  proof (intro allI impI)
    fix i assume i: "i < n_out rt"
    obtain x where x: "jm_apply (rt_joints rt ! i) leader 0 = Inr x" "isfinite x" "a ! i = follower ! i - x" using a(3) i by blast
    have "all_finite leader" using fr by (simp add: frame_ok_def)
    from aligned_apply [OF x(1,2) ff [OF i] jok [OF i] this] x0(3) [rule_format, OF i] show "fst x0 ! i = follower ! i"
      unfolding x(3) by simp
  qed
  have n1: "n_out (r\<lparr>rt_last_t := Some now\<rparr>) = n_out rt" by (simp add: n_out_def j)
  obtain x1 where x1: "rt_smooth (r\<lparr>rt_last_t := Some now\<rparr>) x0 = Inr x1" "pair_ok (n_out rt) x1"
    and e1: "\<forall>i < n_out rt. fst x1 ! i = fst x0 ! i \<or> (\<exists>p. rt_prev_arm (r\<lparr>rt_last_t := Some now\<rparr>) = Some p \<and>
        fst x1 ! i = p ! i * (1 - rt_alpha (r\<lparr>rt_last_t := Some now\<rparr>)) + fst x0 ! i * rt_alpha (r\<lparr>rt_last_t := Some now\<rparr>))"
    using rt_smooth_ok [OF conjunct1 [OF t], of x0] x0(2) unfolding n1 by blast
  have alpha: "isfinite (rt_alpha r)" using al(1) by (simp add: rt_ok_def)
  have e1': "\<forall>i < n_out rt. fst x1 ! i = follower ! i" using e1 e0 ff fixed_points(1) [OF ff alpha] by (auto simp: j)
  obtain x2 where x2: "rt_ramp (rt_timed r now) x1 = Inr x2" "pair_ok (n_out rt) x2"
    and e2: "\<forall>i < n_out rt. fst x2 ! i = fst x1 ! i \<or> (\<exists>s b. rt_start_arm r = Some s \<and> isfinite b \<and>
        fst x2 ! i = s ! i + b * (fst x1 ! i - s ! i))"
    using rt_ramp_ok [OF conjunct2 [OF t], of x1, unfolded rt_timed_simps j(2), OF x1(2)] by blast
  have e2': "\<forall>i < n_out rt. fst x2 ! i = follower ! i" using e2 e1' fixed_points(2) [OF ff] by (auto simp: j)
  have dt: "frame_dt r now = 0" by (simp add: frame_dt_def j)
  obtain d g where dg: "x2 = (d, g)" by (cases x2)
  have rate: "rt_rate (rt_timed r now) (frame_dt r now) x2 = Inr (d, g)" by (simp add: rt_rate_def dt dg j)
  have d: "length d = n_out rt" "d = follower" using x2(2) dg e2' lf by (auto simp: pair_ok_def intro: nth_equalityI)
  have "all_finite leader" using fr by (simp add: frame_ok_def)
  note m = rt_map_stages [OF this x0(1) x1(1) x2(1) rate]
  have "map2 jm_clamp (rt_joints r) d = follower"
    using d assms(7) np_clip_id by (intro nth_equalityI) (auto simp: j jm_clamp_def n_out_def lf)
  moreover have "\<exists>y rt'. rt_map r leader now = (y, rt') \<and> rt_ok rt'"
    using rt_map_frame [OF al(1) fr assms(5)] by metis
  ultimately show ?thesis using m unfolding r_def by auto
qed

subsection \<open>Limits and rates\<close>

text \<open>
  Every frame gives a finite target inside the joint limits. From a well-formed retargeter (finite
  calibration, ordered limits) and a finite leader frame, \<open>map\<close> returns a target with one entry per joint,
  each finite and between that joint's limits, whatever happened before, and stays well-formed. On a
  frame with a non-finite entry it changes nothing and repeats its last result, or returns nothing when
  it is not to hold.
\<close>

theorem retarget_in_limits:
  assumes "rt_ok rt" and "isfinite now"
  shows "(frame_ok rt leader \<longrightarrow> (\<exists>d g rt'. rt_map rt leader now = (Inr (Some (d, g)), rt') \<and> rt_ok rt' \<and>
       rt_prev_arm rt' = Some d \<and> length d = n_out rt \<and> all_finite d \<and>
       (\<forall>i < n_out rt. jm_lower (rt_joints rt ! i) \<le> d ! i \<and> d ! i \<le> jm_upper (rt_joints rt ! i)))) \<and>
     (\<not> all_finite leader \<longrightarrow>
       rt_map rt leader now = (Inr (if rt_hold_last_on_stale rt then rt_last_ok rt else None), rt))"
proof (intro conjI impI)
  assume "frame_ok rt leader"
  from rt_map_frame [OF assms(1) this assms(2)]
  show "\<exists>d g rt'. rt_map rt leader now = (Inr (Some (d, g)), rt') \<and> rt_ok rt' \<and>
       rt_prev_arm rt' = Some d \<and> length d = n_out rt \<and> all_finite d \<and>
       (\<forall>i < n_out rt. jm_lower (rt_joints rt ! i) \<le> d ! i \<and> d ! i \<le> jm_upper (rt_joints rt ! i))"
    by metis
qed (simp add: rt_map_def)

text \<open>
  C30: between frames no joint moves faster than its rate. When the previous target was inside the limits
  and more than a nanosecond passed since the previous frame, the new target of every joint with a
  finite \<open>max_rate\<close> differs from the previous one by at most \<open>max_rate\<close> times the elapsed time.
\<close>

theorem retarget_rate_limited:
  assumes "rt_ok rt" and "frame_ok rt leader" and "isfinite now" and "rt_prev_arm rt = Some prev"
    and "rt_last_t rt = Some t" and "now - t > Fin (1 / 10 ^ 9)"
    and "\<forall>i < n_out rt. jm_lower (rt_joints rt ! i) \<le> prev ! i \<and> prev ! i \<le> jm_upper (rt_joints rt ! i)"
  shows "\<exists>d g rt'. rt_map rt leader now = (Inr (Some (d, g)), rt') \<and>
     (\<forall>i < n_out rt. isfinite (jm_max_rate (rt_joints rt ! i)) \<longrightarrow>
        fabs (d ! i - prev ! i) \<le> jm_max_rate (rt_joints rt ! i) * (now - t))"
proof (rule rt_map_frame [OF assms(1-3)])
  fix d g x2 rt'
  assume m: "rt_map rt leader now = (Inr (Some (d, g)), rt')"
    and x: "\<And>i. i < n_out rt \<Longrightarrow> isfinite (x2 ! i)"
    and c: "\<And>i prev. i < n_out rt \<Longrightarrow> rt_prev_arm rt = Some prev \<Longrightarrow> frame_dt rt now > Fin (1 / 10 ^ 9) \<Longrightarrow>
       d ! i = jm_clamp (rt_joints rt ! i) (rate_clip (jm_max_rate (rt_joints rt ! i)) (frame_dt rt now) (prev ! i) (x2 ! i))"
  have dt: "frame_dt rt now = now - t"
    using assms(1,3,5,6) by (auto simp: frame_dt_def rt_ok_def num_ok_def isfinite_iff)
  have pos: "isfinite (now - t)" "0 < now - t" using frame_dt_ok [OF assms(1,3)] assms(6) dt by (auto simp: isfinite_iff)
  have "fabs (d ! i - prev ! i) \<le> jm_max_rate (rt_joints rt ! i) * (now - t)"
    if i: "i < n_out rt" and r: "isfinite (jm_max_rate (rt_joints rt ! i))" for i
  proof -
    have jok: "joint_ok (rt_joints rt ! i)" using assms(1) i by (simp add: rt_ok_def n_out_def)
    have p: "isfinite (prev ! i)" using assms(1,4) i by (auto simp: rt_ok_def vec_ok_def all_finite_conv_nth)
    let ?v = "rate_clip (jm_max_rate (rt_joints rt ! i)) (now - t) (prev ! i) (x2 ! i)"
    have v: "isfinite ?v" "fabs (?v - prev ! i) \<le> jm_max_rate (rt_joints rt ! i) * (now - t)"
      using rate_clip_ok [OF pos p x [OF i]] jok r by (auto simp: joint_ok_def)
    have "d ! i = jm_clamp (rt_joints rt ! i) ?v" using c [OF i assms(4)] assms(6) dt by simp
    moreover have "fabs (jm_clamp (rt_joints rt ! i) ?v - prev ! i) \<le> fabs (?v - prev ! i)"
      unfolding jm_clamp_def using assms(7) i by (intro np_clip_closer [OF v(1) p]) auto
    ultimately show ?thesis using v(2) by (auto intro: fl_le_trans)
  qed
  with m show ?thesis by blast
qed

subsection \<open>Witnesses and the first frame\<close>

definition demo_joint :: JointMapping where
  "demo_joint = \<lparr>jm_src_index = 0, jm_sign = 1, jm_offset = 0, jm_scale = 1, jm_lower = Fin (- 10), jm_upper = 10, jm_max_rate = 1\<rparr>"

definition demo_rt :: Retargeter where
  "demo_rt = \<lparr>rt_joints = [demo_joint], rt_gripper = None, rt_alpha = 1, rt_ramp_s = 0, rt_hold_last_on_stale = True,
     rt_align = None, rt_prev_arm = None, rt_prev_grip = None, rt_start_arm = None, rt_start_grip = None,
     rt_ramp_elapsed = 0, rt_last_t = None, rt_last_ok = None\<rparr>"

lemma demo_rt_ok:
  "rt_ok demo_rt" "frame_ok demo_rt [Fin 5]" "n_out demo_rt = 1"
  "rt_auto_align demo_rt [Fin 5] [Fin 2] = Inr (demo_rt\<lparr>rt_align := Some [Fin (- 3)]\<rparr>)"
  by (simp_all add: rt_ok_def demo_rt_def demo_joint_def joint_ok_def vec_ok_def num_ok_def frame_ok_def py_index_def n_out_def
      rt_auto_align_def jm_apply_def py_get_def)

text \<open>
  The rate limit does not apply to the first frame. After \<open>reset\<close> on a pose and without \<open>auto_align\<close>, the
  first mapped frame may be any distance away from that pose although every joint has a finite
  \<open>max_rate\<close>: here 5 rad at once with a limit of 1 rad/s. Only the joint limits hold on that frame.
\<close>

theorem first_frame_not_rate_limited:
  "\<exists>rt'. rt_map (rt_reset demo_rt [Fin 0] 0) [Fin 5] (Fin 100) = (Inr (Some ([Fin 5], 0)), rt') \<and>
     jm_max_rate (rt_joints demo_rt ! 0) = 1"
  by (simp add: rt_map_def rt_reset_def demo_rt_def demo_joint_def rt_desired_def n_out_def jm_apply_def py_get_def py_index_def
      zeros_def rt_smooth_def ramping_def rt_ramp_def rt_rate_def jm_clamp_def Let_def)

theorem takeover_without_jump_witness:
  "\<exists>g rt'. rt_map (rt_reset (demo_rt\<lparr>rt_align := Some [Fin (- 3)]\<rparr>) [Fin 2] 0) [Fin 5] 0 = (Inr (Some ([Fin 2], g)), rt')"
  using takeover_without_jump [OF demo_rt_ok(1,2) _ _ _ demo_rt_ok(4), of 0 0]
  by (auto simp: demo_rt_ok(3)) (auto simp: demo_rt_def demo_joint_def)

theorem retarget_in_limits_witness:
  "\<exists>d g rt'. rt_map demo_rt [Fin 5] 0 = (Inr (Some (d, g)), rt') \<and> length d = 1 \<and> d ! 0 \<le> 10"
proof -
  have "rt_joints demo_rt ! 0 = demo_joint" "jm_upper demo_joint = 10" by (simp_all add: demo_rt_def demo_joint_def)
  then show ?thesis
    using retarget_in_limits [OF demo_rt_ok(1), of 0 "[Fin 5]"] demo_rt_ok(2,3) by fastforce
qed

theorem retarget_rate_limited_witness:
  "\<exists>d g rt'. rt_map ((rt_reset demo_rt [Fin 0] 0)\<lparr>rt_last_t := Some 0\<rparr>) [Fin 5] (Fin (1 / 100)) = (Inr (Some (d, g)), rt') \<and>
     fabs (d ! 0 - 0) \<le> 1 * (Fin (1 / 100) - 0)"
proof -
  let ?r = "(rt_reset demo_rt [Fin 0] 0)\<lparr>rt_last_t := Some 0\<rparr>"
  have "rt_ok ?r" "frame_ok ?r [Fin 5]" "n_out ?r = 1" "rt_prev_arm ?r = Some [Fin 0]" "rt_last_t ?r = Some 0"
    "rt_joints ?r ! 0 = demo_joint" "jm_max_rate demo_joint = 1"
    "jm_lower demo_joint = Fin (- 10)" "jm_upper demo_joint = 10"
    using demo_rt_ok by (simp_all add: rt_ok_def frame_ok_def rt_reset_def vec_ok_def num_ok_def n_out_def demo_joint_def demo_rt_def)
  then show ?thesis using retarget_rate_limited [of ?r "[Fin 5]" "Fin (1 / 100)" "[Fin 0]" 0] by force
qed

end
