(* ===== verification/Teleop.thy ===== *)
theory Teleop
  imports Loop_Proofs Mapping_Proofs
begin

text \<open>
  The teleoperation on its back ends: limits of everything sent, the way out of a run, and two places where
  the loop does less than it says.
\<close>

subsection \<open>A configured monitor\<close>

definition configured :: "SafetyLimits \<Rightarrow> vec \<Rightarrow> vec \<Rightarrow> bool" where
  "configured l lower upper \<longleftrightarrow> all_finite lower \<and> all_finite upper \<and>
     isfinite (joint_margin_rad l) \<and> isfinite (max_step_rad l) \<and> isfinite (collision_stop_m l) \<and> isfinite (collision_slow_scale l)"

lemma guards_configured:
  assumes "mk_SafetyMonitor l lower upper g = Inr m" and "configured l lower upper"
  shows "guards (map (\<lambda>x. x + joint_margin_rad l) lower) (map (\<lambda>x. x - joint_margin_rad l) upper) m"
  using assms
  by (auto simp: mk_SafetyMonitor_def configured_def guards_def monitor_ok_def sm_n_def limit_lower_def limit_upper_def split: if_splits)

lemma box_margin:
  "in_box (map (\<lambda>x. x + d) lower) (map (\<lambda>x. x - d) upper) q \<Longrightarrow> length upper = length lower \<Longrightarrow>
     length q = length lower \<and> (\<forall>i < length lower. lower ! i + d \<le> q ! i \<and> q ! i \<le> upper ! i - d)"
  by (auto simp: in_box_def)

lemma monitor_lengths: "mk_SafetyMonitor l lower upper g = Inr m \<Longrightarrow> length upper = length lower"
  by (auto simp: mk_SafetyMonitor_def split: if_splits)

text \<open>
  C11: every joint target sent to the robot respects the joint limits. Whatever the leader arm delivers, whatever
  raises and however the run ends, each \<open>jog\<close> message the teleoperation has put on the Dora node has one entry
  per joint, each inside that joint's limits less the configured margin.
\<close>

theorem dora_jogs_in_limits:
  assumes "mk_SafetyMonitor l lower upper g = Inr (tl_monitor L)" and "configured l lower upper"
    and "nd_out (dj_node (tl_follower L)) = []" and "isfinite read_t" and "clocks_finite tks"
    and "run dora_ops d leader0 open_t read_t start_t tks L = (out, L')" and "q \<in> jogs (tl_follower L')"
  shows "length q = length lower \<and>
     (\<forall>i < length lower. lower ! i + joint_margin_rad l \<le> q ! i \<and> q ! i \<le> upper ! i - joint_margin_rad l)"
proof -
  let ?lo = "map (\<lambda>x. x + joint_margin_rad l) lower" and ?hi = "map (\<lambda>x. x - joint_margin_rad l) upper"
  have "loop_ok dora_safe ?lo ?hi L"
    using guards_configured [OF assms(1,2)] assms(3) by (simp add: loop_ok_def dora_safe_def jogs_def)
  from dora_out.run_ok [OF this assms(4,5), of d leader0 open_t start_t] assms(6,7)
  have "in_box ?lo ?hi q" by (auto simp: loop_ok_def dora_safe_def)
  then show ?thesis using box_margin monitor_lengths [OF assms(1)] by blast
qed

text \<open>
  The simulated arm itself never leaves the joint limits. \<open>FakeFollower\<close> follows its targets with a lag; if
  it starts inside the limits (less the margin) then after any run, and at any later instant it is read, its
  pose is still inside.
\<close>

theorem fake_arm_in_limits:
  assumes "mk_SafetyMonitor l lower upper g = Inr (tl_monitor L)" and "configured l lower upper"
    and "tl_follower L = mk_FakeFollower n open_finger tau (Some q0) finger0 t0"
    and "in_box (map (\<lambda>x. x + joint_margin_rad l) lower) (map (\<lambda>x. x - joint_margin_rad l) upper) q0"
    and "isfinite tau" and "isfinite t0" and "isfinite read_t" and "clocks_finite tks" and "isfinite now"
    and "run fake_ops d leader0 open_t read_t start_t tks L = (out, L')"
    and "ff_read_state (tl_follower L') now = (Inr (q, finger), f')"
  shows "length q = length lower \<and>
     (\<forall>i < length lower. lower ! i + joint_margin_rad l \<le> q ! i \<and> q ! i \<le> upper ! i - joint_margin_rad l)"
proof -
  let ?lo = "map (\<lambda>x. x + joint_margin_rad l) lower" and ?hi = "map (\<lambda>x. x - joint_margin_rad l) upper"
  have "fake_safe ?lo ?hi (tl_follower L)"
    using assms(4-6) unfolding assms(3) by (cases tau) (auto simp: fake_safe_def mk_FakeFollower_def initial_pose_def)
  then have "loop_ok fake_safe ?lo ?hi L"
    using guards_configured [OF assms(1,2)] by (simp add: loop_ok_def)
  from fake_arm.run_ok [OF this assms(7,8), of d leader0 open_t start_t] assms(10)
  have "fake_safe ?lo ?hi (tl_follower L')" by (simp add: loop_ok_def)
  moreover have "fo_read_state fake_ops (tl_follower L') now = (Inr (q, finger), f')" using assms(11) by (simp add: fake_ops_def)
  ultimately have "in_box ?lo ?hi q" using fake_arm.read_box assms(9) by blast
  then show ?thesis using box_margin monitor_lengths [OF assms(1)] by blast
qed

subsection \<open>The way out\<close>

text \<open>A property of the follower that sending and reading keep is kept by a tick.\<close>

lemma once_follower:
  assumes "\<And>f now q g. P f \<Longrightarrow> P (snd (fo_send ops f now q g))" and "\<And>f now. P f \<Longrightarrow> P (snd (fo_read_state ops f now))"
  shows "keeps (\<lambda>L. P (tl_follower L)) (once ops tk)"
proof -
  let ?P = "\<lambda>L. P (tl_follower L)"
  have "keeps ?P (feedback_stage ops tk)"
    unfolding keeps_def
  proof safe
    fix L :: "'a TeleopLoop"
    assume "?P L"
    moreover obtain r L1 where f: "read_feedback ops L tk = (r, L1)" by fastforce
    ultimately have "?P L1" using read_feedback_cases [OF f] assms(2) by auto
    then show "?P (snd (feedback_stage ops tk L))" by (auto simp: feedback_stage_def f Let_def split: sum.splits prod.splits)
  qed
  moreover have "keeps ?P (send_stage ops tk a g)" for a g
    unfolding keeps_def using assms(1) by (auto simp: send_stage_def split: prod.splits sum.splits; metis snd_conv)
  moreover have "keeps ?P (leader_gate tk)" "keeps ?P (retarget tk ls)" "keeps ?P (target_stage tk ls a)" "keeps ?P (warn_slow v a)" for ls a v
    by (auto simp: keeps_def leader_gate_def retarget_def target_stage_def warn_slow_def Let_def split: sum.splits prod.splits option.splits)
  ultimately show ?thesis unfolding once_def by (intro keeps_bindst) (auto split: prod.splits intro!: keeps_bindst keeps_uninterrupted)
qed

text \<open>A run that has left its loop has closed the follower, after stopping it if the way out was a stop.\<close>

lemma run_loop_exit:
  assumes "\<And>f now q g. P f \<Longrightarrow> P (snd (fo_send ops f now q g))" and "\<And>f now. P f \<Longrightarrow> P (snd (fo_read_state ops f now))"
  shows "P (tl_follower L) \<Longrightarrow> run_loop ops d st tks p n L = (out, L') \<Longrightarrow>
     \<exists>f. P f \<and> tl_follower L' = (case out of SafetyStopped _ _ \<Rightarrow> fo_safe_stop ops f | Interrupted \<Rightarrow> fo_safe_stop ops f | _ \<Rightarrow> f)"
proof (induction tks arbitrary: p n L)
  case (Cons tk tks)
  define L0 where "L0 = (if tk_stop_before tk then L\<lparr>tl_stop := True\<rparr> else L)"
  have P0: "P (tl_follower L0)" using Cons.prems(1) by (simp add: L0_def)
  obtain r L1 where o1: "once ops tk L0 = (r, L1)" by fastforce
  have P1: "P (tl_follower L1)" using once_follower [where P = P, OF assms, of tk] P0 o1 unfolding keeps_def by (metis snd_conv)
  have P2: "P (tl_follower (tick_stats tk p L1))" "tl_follower (tick_stats tk p L1) = tl_follower L1"
    using P1 by (simp_all add: tick_stats_def Let_def)
  show ?case
    using Cons.prems(2) P0 P1 P2 Cons.IH [OF P2(1)]
    by (auto simp: Let_def L0_def [symmetric] o1 stop_follower_def split: if_splits sum.splits err.splits prod.splits option.splits)
qed auto

lemma run_exit:
  assumes "\<And>f now q g. P f \<Longrightarrow> P (snd (fo_send ops f now q g))" and "\<And>f now. P f \<Longrightarrow> P (snd (fo_read_state ops f now))"
    and "fo_open ops (tl_follower L) open_t = (Inr (), f0)" and "P f0"
    and "startup_align ops leader0 read_t (L\<lparr>tl_follower := f0\<rparr>) = (Inr (), L1)"
    and "run ops d leader0 open_t read_t start_t tks L = (out, L')" and "out \<noteq> Running"
  shows "\<exists>f. P f \<and> tl_follower L' =
     fo_close ops (case out of SafetyStopped _ _ \<Rightarrow> fo_safe_stop ops f | Interrupted \<Rightarrow> fo_safe_stop ops f | _ \<Rightarrow> f)"
proof -
  have P1: "P (tl_follower L1)"
    using assms(2) [OF assms(4), of read_t] assms(5)
    by (auto simp: startup_align_def Let_def split: sum.splits prod.splits if_splits)
  obtain o2 L2 where rl: "run_loop ops d start_t tks start_t start_t L1 = (o2, L2)" by fastforce
  then have "out = o2" "tl_follower L' = fo_close ops (tl_follower L2)"
    using assms(3,5-7) by (auto simp: run_def split: outcome.splits)
  with run_loop_exit [where P = P, OF assms(1,2) P1 rl] show ?thesis by auto
qed

lemma dora_stays_open:
  "dj_opened f \<and> (\<forall>k. nd_up (dj_node f) k) \<Longrightarrow> dj_opened (snd (fo_send dora_ops f now q g)) \<and> (\<forall>k. nd_up (dj_node (snd (fo_send dora_ops f now q g))) k)"
  "dj_opened f \<and> (\<forall>k. nd_up (dj_node f) k) \<Longrightarrow> dj_opened (snd (fo_read_state dora_ops f now)) \<and> (\<forall>k. nd_up (dj_node (snd (fo_read_state dora_ops f now))) k)"
  by (auto simp: dora_defs split: sum.splits option.splits)

lemma exit_messages:
  assumes "dj_open (tl_follower L) open_t = (Inr (), f0)" and "\<forall>k. nd_up (dj_node (tl_follower L)) k"
    and "startup_align dora_ops leader0 read_t (L\<lparr>tl_follower := f0\<rparr>) = (Inr (), L1)"
    and "run dora_ops d leader0 open_t read_t start_t tks L = (out, L')" and "out \<noteq> Running"
  shows "(\<exists>sent. nd_out (dj_node (tl_follower L')) =
       sent @ (case out of SafetyStopped _ _ \<Rightarrow> [(''control'', ControlUpdate stale_update)]
               | Interrupted \<Rightarrow> [(''control'', ControlUpdate stale_update)] | _ \<Rightarrow> []) @ [(''control'', ControlUpdate exit_update)]) \<and>
     \<not> dj_opened (tl_follower L')"
proof -
  let ?P = "\<lambda>f. dj_opened f \<and> (\<forall>k. nd_up (dj_node f) k)"
  have o: "fo_open dora_ops (tl_follower L) open_t = (Inr (), f0)" and "?P f0"
    using assms(1,2) by (auto simp: dora_defs split: if_splits)
  from run_exit [where P = ?P, OF dora_stays_open o this(2) assms(3-5)]
  obtain f where f: "?P f" "tl_follower L' =
      fo_close dora_ops (case out of SafetyStopped _ _ \<Rightarrow> fo_safe_stop dora_ops f | Interrupted \<Rightarrow> fo_safe_stop dora_ops f | _ \<Rightarrow> f)"
    by blast
  show ?thesis
    using f by (cases out) (simp_all add: dora_ops_def dj_close_def dj_safe_stop_def dj_emit_eq Let_def)
qed

text \<open>
  C34: a follower that armed the robot disarms it on every way out. With \<^verbatim>\<open>auto_arm\<close>, once the follower is open and the start
  alignment is done, a run that ends, by its duration, by a stop request, by a safety stop, by Ctrl-C before a stage of a tick, in
  the leader's read, in the feedback callable or in the sleep, or by an exception out of a tick, ends with the control message that cancels and disarms; after a safety stop or Ctrl-C the message
  before it is the cancel of \<open>safe_stop\<close>, so no target follows the stop. The node accepts every message.
\<close>

theorem every_exit_disarms:
  assumes "dj_auto_arm (tl_follower L)" and "dj_open (tl_follower L) open_t = (Inr (), f0)" and "\<forall>k. nd_up (dj_node (tl_follower L)) k"
    and "startup_align dora_ops leader0 read_t (L\<lparr>tl_follower := f0\<rparr>) = (Inr (), L1)"
    and "run dora_ops d leader0 open_t read_t start_t tks L = (out, L')" and "out \<noteq> Running"
  shows "(\<exists>sent. nd_out (dj_node (tl_follower L')) =
       sent @ (case out of SafetyStopped _ _ \<Rightarrow> [(''control'', ControlUpdate stale_update)]
               | Interrupted \<Rightarrow> [(''control'', ControlUpdate stale_update)] | _ \<Rightarrow> []) @ [(''control'', ControlUpdate exit_update)]) \<and>
     \<not> dj_opened (tl_follower L')"
  using assms(2-6) by (rule exit_messages)

text \<open>
  Without \<^verbatim>\<open>auto_arm\<close>, where the operator's console armed the robot and the deployment guide says stopping the node does not
  disarm it, the same message is sent.
\<close>

lemma exit_disarms_unarmed_follower:
  assumes "\<not> dj_auto_arm (tl_follower L)" and "\<forall>k. nd_up (dj_node (tl_follower L)) k"
    and "startup_align dora_ops leader0 read_t (L\<lparr>tl_follower := (tl_follower L)\<lparr>dj_opened := True\<rparr>\<rparr>) = (Inr (), L1)"
    and "run dora_ops d leader0 open_t read_t start_t tks L = (out, L')" and "out \<noteq> Running"
  shows "last (nd_out (dj_node (tl_follower L'))) = (''control'', ControlUpdate exit_update)"
proof -
  have "dj_open (tl_follower L) open_t = (Inr (), (tl_follower L)\<lparr>dj_opened := True\<rparr>)" using assms(1) by (simp add: dj_open_def)
  from exit_messages [OF this assms(2-5)] show ?thesis by auto
qed

text \<open>
  A failure during start-up leaves the robot armed. \<open>run\<close> opens the follower and aligns before its \<open>try\<close>:
  if the first leader read raises, the exception leaves \<open>run\<close> with the arming message as the last thing sent,
  and the follower is never closed.
\<close>

theorem startup_failure_leaves_armed:
  assumes "dj_auto_arm (tl_follower L)" and "\<forall>k. nd_up (dj_node (tl_follower L)) k"
  shows "\<exists>L'. run dora_ops d (Inl e) open_t read_t start_t tks L = (Raised e, L') \<and>
     nd_out (dj_node (tl_follower L')) = nd_out (dj_node (tl_follower L)) @ [(''control'', ControlUpdate arm_update)] \<and>
     dj_opened (tl_follower L')"
  using assms by (simp add: run_def startup_align_def dora_defs)

text \<open>
  The warning zone does not slow the arm. Between the two collision thresholds the target gate asks for a
  smaller step (\<open>collision_slow_scale\<close>), but the loop blends the new target with the retargeter's previous
  target, which the mapping has already overwritten with the new one: the target sent is the unscaled one,
  whatever the scale.
\<close>

theorem warn_zone_does_not_slow:
  assumes "retarget tk ls L = (Inr (arm, finger), L1)" and "all_finite ls"
    and "target_stage tk ls arm L1 = (Inr (v, tgt), L2)" and "isfinite (sv_speed_scale v)"
  shows "warn_slow v tgt L2 = (Inr arm, L2)"
proof -
  have "tgt = arm" "all_finite arm" "tl_retargeter L2 = tl_retargeter L1"
    using assms(3) by (auto simp: target_stage_def check_and_clamp_target_def refuse_def Let_def split: prod.splits if_splits sum.splits)
  moreover have "rt_prev_arm (tl_retargeter L1) = Some arm" using retarget_ok(3) [OF assms(1)] assms(2) by blast
  ultimately show ?thesis using warn_slow_same [of L2 arm v] assms(4) by simp
qed

subsection \<open>Witnesses\<close>

definition demo_node :: "DoraJogFollower" where
  "demo_node = \<lparr>dj_num_arm_joints = 1, dj_reason = ''leader-follower'', dj_auto_arm = True, dj_node = \<lparr>nd_up = (\<lambda>_. True), nd_asked = 0, nd_out = []\<rparr>,
     dj_state_provider = None, dj_sent = 0, dj_opened = False\<rparr>"

definition demo_tick :: "vec result \<Rightarrow> real \<Rightarrow> tick" where
  "demo_tick ls t = \<lparr>tk_now = Fin t, tk_leader = ls, tk_send_t = Fin t, tk_read_t = Fin t, tk_stamp = Fin t, tk_sample = Inr (Some (demo_sample 0 t)),
     tk_after = Fin t, tk_resync = Fin t, tk_stop_before = False, tk_interrupt = None\<rparr>"

definition demo_loop :: "CollisionGuard \<Rightarrow> 'f \<Rightarrow> 'f TeleopLoop" where
  "demo_loop g f = \<lparr>tl_retargeter = demo_rt, tl_follower = f, tl_monitor = demo_monitor g, tl_feedback = ExternalFeedback, tl_hz = 100,
     tl_auto_align = True, tl_log_period_s = 1, tl_verbose = False, tl_stop = False, tl_stats = no_stats, tl_last_log_t = 0\<rparr>"

lemma demo_configured:
  "mk_SafetyMonitor demo_limits [Fin (- 2)] [Fin 2] g = Inr (tl_monitor (demo_loop g f))" "configured demo_limits [Fin (- 2)] [Fin 2]"
  by (simp_all add: mk_SafetyMonitor_def demo_monitor_def demo_loop_def configured_def demo_limits_def)

text \<open>
  One tick of the demonstration: aligned on the leader pose 5, the leader moves to 6, the follower is sent 1
  more than its start pose 0. The next leader state is not a number: a safety stop.
\<close>

definition demo_run :: "outcome \<times> DoraJogFollower TeleopLoop" where
  "demo_run = run dora_ops None (Inr [Fin 5]) 0 0 0 [demo_tick (Inr [Fin (26 / 5)]) 1, demo_tick (Inr [NaN]) 2] (demo_loop NoCollisionGuard demo_node)"

lemmas demo_defs = demo_loop_def demo_tick_def demo_node_def demo_monitor_def demo_limits_def demo_rt_def demo_joint_def demo_sample_def no_stats_def

lemmas map_eval = rt_map_def rt_reset_def rt_desired_def n_out_def jm_apply_def py_get_def py_index_def zeros_def rt_smooth_def ramping_def
  rt_ramp_def rt_rate_def jm_clamp_def rt_auto_align_def

definition demo_open :: "DoraJogFollower" where
  "demo_open = demo_node\<lparr>dj_node := \<lparr>nd_up = (\<lambda>_. True), nd_asked = 1, nd_out = [(''control'', ControlUpdate arm_update)]\<rparr>, dj_opened := True\<rparr>"

definition demo_aligned :: "CollisionGuard \<Rightarrow> 'f \<Rightarrow> 'f TeleopLoop" where
  "demo_aligned g f = (demo_loop g f)\<lparr>tl_retargeter := rt_reset (demo_rt\<lparr>rt_align := Some [Fin (- 5)]\<rparr>) [Fin 0] 0\<rparr>"

lemma demo_start:
  "dj_open demo_node 0 = (Inr (), demo_open)"
  "startup_align dora_ops (Inr [Fin 5]) 0 (demo_loop g demo_open) = (Inr (), demo_aligned g demo_open)"
  by (simp_all add: dora_defs startup_align_def demo_aligned_def demo_open_def demo_defs map_eval Let_def)

definition demo_mapped :: Retargeter where
  "demo_mapped = demo_rt\<lparr>rt_align := Some [Fin (- 5)], rt_prev_arm := Some [Fin (1 / 5)], rt_prev_grip := Some 0, rt_start_arm := Some [Fin 0],
     rt_start_grip := Some 0, rt_last_t := Some (Fin 1), rt_last_ok := Some ([Fin (1 / 5)], 0)\<rparr>"

lemma demo_map:
  "rt_map (rt_reset (demo_rt\<lparr>rt_align := Some [Fin (- 5)]\<rparr>) [Fin 0] 0) [Fin (26 / 5)] (Fin 1) = (Inr (Some ([Fin (1 / 5)], 0)), demo_mapped)"
  by (simp add: demo_mapped_def demo_defs map_eval Let_def)

definition demo_watched :: "CollisionGuard \<Rightarrow> SafetyMonitor" where
  "demo_watched g = (demo_monitor g)\<lparr>sm_prev_leader_t := Fin 1, sm_tick := 1, sm_last_distance := PInf, sm_prev_target := Some [Fin (1 / 5)],
     sm_seen_feedback := True, sm_last_feedback_t := Fin 1, sm_track_since := Some (Fin 1)\<rparr>"

definition demo_sent :: DoraJogFollower where
  "demo_sent = demo_open\<lparr>dj_node := \<lparr>nd_up = (\<lambda>_. True), nd_asked = 3, nd_out = [(''control'', ControlUpdate arm_update), (''jog'', JogMsg [Fin (1 / 5)] ''leader-follower''),
     (''gripper'', MotorCommand (replicate 10 0))]\<rparr>, dj_sent := 1\<rparr>"

lemma demo_send: "dj_send demo_open now [Fin (1 / 5)] 0 = (Inr (), demo_sent)"
  by (simp add: dj_send_def demo_sent_def demo_open_def demo_node_def dj_emit_eq Let_def check_target_def pack_motor_command_def assign_col_def zeros_def
      interleave_def numeral_eq_Suc)

definition demo_ticked :: "DoraJogFollower TeleopLoop" where
  "demo_ticked = (demo_loop NoCollisionGuard demo_sent)\<lparr>tl_retargeter := demo_mapped, tl_monitor := demo_watched NoCollisionGuard,
     tl_stats := no_stats\<lparr>ts_ticks := 1, ts_sends := 1\<rparr>\<rparr>"

lemma demo_once:
  "once dora_ops (demo_tick (Inr [Fin (26 / 5)]) 1) (demo_aligned NoCollisionGuard demo_open) = (Inr (), demo_ticked)"
proof -
  let ?tk = "demo_tick (Inr [Fin (26 / 5)]) 1"
  let ?L1 = "(demo_aligned NoCollisionGuard demo_open)\<lparr>tl_monitor := (demo_monitor NoCollisionGuard)\<lparr>sm_prev_leader_t := Fin 1\<rparr>\<rparr>"
  let ?L2 = "?L1\<lparr>tl_retargeter := demo_mapped\<rparr>"
  let ?L3 = "?L2\<lparr>tl_monitor := (tl_monitor ?L2)\<lparr>sm_tick := 1, sm_last_distance := PInf, sm_prev_target := Some [Fin (1 / 5)]\<rparr>\<rparr>"
  let ?L4 = "?L3\<lparr>tl_follower := demo_sent, tl_stats := no_stats\<lparr>ts_sends := 1\<rparr>\<rparr>"
  have i: "(tk_interrupt ?tk = Some k) = False" for k by (simp add: demo_tick_def)
  have 1: "leader_gate ?tk (demo_aligned NoCollisionGuard demo_open) = (Inr [Fin (26 / 5)], ?L1)"
    by (simp add: leader_gate_def check_leader_def pass_def demo_aligned_def demo_tick_def demo_loop_def demo_monitor_def)
  have 2: "retarget ?tk [Fin (26 / 5)] ?L1 = (Inr ([Fin (1 / 5)], 0), ?L2)"
    using demo_map by (simp add: retarget_def demo_aligned_def demo_tick_def)
  have 3: "target_stage ?tk [Fin (26 / 5)] [Fin (1 / 5)] ?L2 = (Inr (pass, [Fin (1 / 5)]), ?L3)"
    by (simp add: target_stage_def check_and_clamp_target_def demo_aligned_def demo_loop_def demo_monitor_def demo_limits_def sm_n_def pass_def Let_def)
  have 4: "warn_slow pass [Fin (1 / 5)] ?L3 = (Inr [Fin (1 / 5)], ?L3)" by (simp add: warn_slow_def demo_mapped_def pass_def)
  have 5: "send_stage dora_ops ?tk [Fin (1 / 5)] 0 ?L3 = (Inr (), ?L4)"
    using demo_send by (simp add: send_stage_def dora_ops_def demo_aligned_def demo_loop_def no_stats_def)
  have 6: "feedback_stage dora_ops ?tk ?L4 = (Inr (), demo_ticked)"
    by (simp add: feedback_stage_def read_feedback_def demo_ticked_def demo_aligned_def demo_loop_def demo_tick_def demo_sample_def demo_watched_def
        check_feedback_def track_check_def demo_monitor_def demo_limits_def sm_n_def pass_def vmax_def vabs_def vsub_def no_stats_def Let_def)
  show ?thesis
    by (simp only: once_def bindst_def unless_interrupted_def i if_False 1 2 3 4 5 6 prod.case sum.case)
qed

lemma demo_run_eq:
  "fst demo_run = SafetyStopped ''leader'' ''leader data invalid''"
  "nd_out (dj_node (tl_follower (snd demo_run))) =
     [(''control'', ControlUpdate arm_update), (''jog'', JogMsg [Fin (1 / 5)] ''leader-follower''),
      (''gripper'', MotorCommand (replicate 10 0)), (''control'', ControlUpdate stale_update), (''control'', ControlUpdate exit_update)]"
proof -
  have open0: "fo_open dora_ops (tl_follower (demo_loop NoCollisionGuard demo_node)) 0 = (Inr (), demo_open)"
    "(demo_loop NoCollisionGuard demo_node)\<lparr>tl_follower := demo_open\<rparr> = demo_loop NoCollisionGuard demo_open"
    using demo_start(1) by (simp_all add: dora_ops_def demo_loop_def)
  have stats: "tick_stats (demo_tick (Inr [Fin (26 / 5)]) 1) 0 demo_ticked = demo_ticked"
    by (simp add: tick_stats_def demo_ticked_def demo_loop_def demo_watched_def no_stats_def Let_def)
  have nan: "once dora_ops (demo_tick (Inr [NaN]) 2) demo_ticked = (Inl (SafetyStop ''leader'' ''leader data invalid''), demo_ticked)"
    by (simp add: once_def bindst_def unless_interrupted_def leader_gate_def check_leader_def refuse_def demo_tick_def)
  have flags: "tl_stop (demo_aligned NoCollisionGuard demo_open) = False" "tl_stop demo_ticked = False"
    "tk_stop_before (demo_tick ls t) = False" "tk_interrupt (demo_tick ls t) = None" for ls t
    by (simp_all add: demo_aligned_def demo_loop_def demo_ticked_def demo_tick_def)
  have eq: "run_loop dora_ops None 0 [demo_tick (Inr [Fin (26 / 5)]) 1, demo_tick (Inr [NaN]) 2] 0 0 (demo_aligned NoCollisionGuard demo_open) =
    (SafetyStopped ''leader'' ''leader data invalid'',
     stop_follower dora_ops (demo_ticked\<lparr>tl_stats := (tl_stats demo_ticked)\<lparr>ts_safety_stops := ts_safety_stops (tl_stats demo_ticked) + 1\<rparr>\<rparr>))"
    using demo_once stats nan flags by (simp add: Let_def split: prod.split)
  have fin: "demo_run = (SafetyStopped ''leader'' ''leader data invalid'',
     (stop_follower dora_ops (demo_ticked\<lparr>tl_stats := (tl_stats demo_ticked)\<lparr>ts_safety_stops := ts_safety_stops (tl_stats demo_ticked) + 1\<rparr>\<rparr>))
       \<lparr>tl_follower := dj_close (dj_safe_stop demo_sent)\<rparr>)"
    unfolding demo_run_def run_def open0 prod.case sum.case demo_start(2) eq
    by (simp add: stop_follower_def dora_ops_def demo_ticked_def demo_loop_def)
  show "fst demo_run = SafetyStopped ''leader'' ''leader data invalid''"
    "nd_out (dj_node (tl_follower (snd demo_run))) =
     [(''control'', ControlUpdate arm_update), (''jog'', JogMsg [Fin (1 / 5)] ''leader-follower''),
      (''gripper'', MotorCommand (replicate 10 0)), (''control'', ControlUpdate stale_update), (''control'', ControlUpdate exit_update)]"
    unfolding fin by (simp_all add: Let_def dj_close_def dj_safe_stop_def dj_emit_eq demo_sent_def demo_open_def)
qed

lemma demo_run_pair:
  "run dora_ops None (Inr [Fin 5]) 0 0 0 [demo_tick (Inr [Fin (26 / 5)]) 1, demo_tick (Inr [NaN]) 2] (demo_loop NoCollisionGuard demo_node) =
    (fst demo_run, snd demo_run)"
  by (simp add: demo_run_def)

theorem dora_jogs_in_limits_witness:
  "[Fin (1 / 5)] \<in> jogs (tl_follower (snd demo_run)) \<and> Fin (- 2) + Fin (1 / 20) \<le> Fin (1 / 5) \<and> Fin (1 / 5) \<le> Fin 2 - Fin (1 / 20)"
proof -
  have j: "[Fin (1 / 5)] \<in> jogs (tl_follower (snd demo_run))" unfolding jogs_def demo_run_eq(2) by simp
  have "joint_margin_rad demo_limits = Fin (1 / 20)" by (simp add: demo_limits_def)
  moreover have "length [Fin (1 / 5)] = length [Fin (- 2)] \<and>
     (\<forall>i < length [Fin (- 2)]. [Fin (- 2)] ! i + joint_margin_rad demo_limits \<le> [Fin (1 / 5)] ! i \<and> [Fin (1 / 5)] ! i \<le> [Fin 2] ! i - joint_margin_rad demo_limits)"
    by (rule dora_jogs_in_limits [OF demo_configured(1) [where f = demo_node] demo_configured(2) _ _ _ demo_run_pair j])
      (simp_all add: clocks_finite_def demo_tick_def demo_loop_def demo_node_def)
  ultimately show ?thesis using j by simp
qed

theorem every_exit_disarms_witness:
  "\<exists>sent. nd_out (dj_node (tl_follower (snd demo_run))) = sent @ [(''control'', ControlUpdate stale_update), (''control'', ControlUpdate exit_update)]"
proof -
  have a: "dj_open (tl_follower (demo_loop NoCollisionGuard demo_node)) 0 = (Inr (), demo_open)"
    "(demo_loop NoCollisionGuard demo_node)\<lparr>tl_follower := demo_open\<rparr> = demo_loop NoCollisionGuard demo_open"
    using demo_start(1) by (simp_all add: demo_loop_def)
  have u: "\<forall>k. nd_up (dj_node (tl_follower (demo_loop NoCollisionGuard demo_node))) k" by (simp add: demo_loop_def demo_node_def)
  show ?thesis
    using every_exit_disarms [OF _ a(1) u demo_start(2) [of NoCollisionGuard, folded a(2)] demo_run_pair] by (simp add: demo_run_eq(1) demo_loop_def demo_node_def)
qed

theorem startup_failure_leaves_armed_witness:
  "\<exists>L'. run dora_ops None (Inl (RuntimeError ''S288 id=3'')) 0 0 0 [] (demo_loop NoCollisionGuard demo_node) = (Raised (RuntimeError ''S288 id=3''), L') \<and>
     dj_opened (tl_follower L')"
  using startup_failure_leaves_armed [of "demo_loop NoCollisionGuard demo_node" None "RuntimeError ''S288 id=3''" 0 0 0 "[]"]
  by (auto simp: demo_loop_def demo_node_def)

theorem warn_zone_does_not_slow_witness:
  "\<exists>v tgt L2. target_stage (demo_tick (Inr [Fin (26 / 5)]) 1) [Fin (26 / 5)] [Fin (1 / 5)]
       ((demo_aligned (CallableCollisionGuard (\<lambda>_ _. Distance (Fin (3 / 100))) False None) demo_open)\<lparr>tl_retargeter := demo_mapped\<rparr>) = (Inr (v, tgt), L2) \<and>
     sv_speed_scale v = Fin (1 / 4) \<and> warn_slow v tgt L2 = (Inr [Fin (1 / 5)], L2)"
proof -
  let ?g = "CallableCollisionGuard (\<lambda>_ _. Distance (Fin (3 / 100))) False None"
  let ?tk = "demo_tick (Inr [Fin (26 / 5)]) 1"
  let ?L = "demo_aligned ?g demo_open"
  have r: "retarget ?tk [Fin (26 / 5)] ?L = (Inr ([Fin (1 / 5)], 0), ?L\<lparr>tl_retargeter := demo_mapped\<rparr>)"
    using demo_map by (simp add: retarget_def demo_aligned_def demo_tick_def)
  obtain v tgt L2 where t: "target_stage ?tk [Fin (26 / 5)] [Fin (1 / 5)] (?L\<lparr>tl_retargeter := demo_mapped\<rparr>) = (Inr (v, tgt), L2)"
    and v: "sv_speed_scale v = Fin (1 / 4)"
    by (simp add: target_stage_def check_and_clamp_target_def demo_aligned_def demo_loop_def demo_monitor_def demo_limits_def sm_n_def pass_def Let_def)
  have "warn_slow v tgt L2 = (Inr [Fin (1 / 5)], L2)" by (rule warn_zone_does_not_slow [OF r _ t]) (simp_all add: v)
  with t v show ?thesis by blast
qed

theorem fake_arm_in_limits_witness:
  "\<exists>q finger f'. ff_read_state (tl_follower (snd (run fake_ops None (Inr [Fin 5]) 0 0 0 [demo_tick (Inr [Fin (26 / 5)]) 1]
       (demo_loop NoCollisionGuard (mk_FakeFollower 1 (Fin (4 / 100)) (Fin (8 / 100)) (Some [Fin 0]) 0 0))))) (Fin 3) = (Inr (q, finger), f') \<and>
     length q = 1 \<and> Fin (- 2) + Fin (1 / 20) \<le> q ! 0 \<and> q ! 0 \<le> Fin 2 - Fin (1 / 20)"
proof -
  let ?f = "mk_FakeFollower 1 (Fin (4 / 100)) (Fin (8 / 100)) (Some [Fin 0]) 0 0"
  let ?L = "demo_loop NoCollisionGuard ?f" and ?tks = "[demo_tick (Inr [Fin (26 / 5)]) 1]"
  let ?lo = "map (\<lambda>x. x + joint_margin_rad demo_limits) [Fin (- 2)]" and ?hi = "map (\<lambda>x. x - joint_margin_rad demo_limits) [Fin 2]"
  obtain out L' where r: "run fake_ops None (Inr [Fin 5]) 0 0 0 ?tks ?L = (out, L')" by fastforce
  have box: "in_box ?lo ?hi [Fin 0]" by (simp add: in_box_def demo_limits_def)
  have "loop_ok fake_safe ?lo ?hi ?L"
    using guards_configured [OF demo_configured(1) [where f = ?f] demo_configured(2)] box
    by (simp add: loop_ok_def fake_safe_def mk_FakeFollower_def initial_pose_def demo_loop_def)
  from fake_arm.run_ok [OF this, of 0 ?tks None "Inr [Fin 5]" 0 0] r have "fake_safe ?lo ?hi (tl_follower L')"
    by (simp add: loop_ok_def clocks_finite_def demo_tick_def)
  from ff_step_safe [OF this, of "Fin 3"] obtain q finger f' where q: "ff_read_state (tl_follower L') (Fin 3) = (Inr (q, finger), f')"
    by (auto simp: ff_read_state_def)
  have fol: "tl_follower ?L = ?f" by (simp add: demo_loop_def)
  have "length q = length [Fin (- 2)] \<and> (\<forall>i < length [Fin (- 2)]. [Fin (- 2)] ! i + joint_margin_rad demo_limits \<le> q ! i \<and> q ! i \<le> [Fin 2] ! i - joint_margin_rad demo_limits)"
    by (rule fake_arm_in_limits [OF demo_configured(1) [where f = ?f] demo_configured(2) fol box _ _ _ _ _ r q])
      (simp_all add: clocks_finite_def demo_tick_def)
  then show ?thesis using r q by (simp add: demo_limits_def)
qed

end
