(* ===== verification/Actions.thy ===== *)
theory Actions
  imports Prelude
begin

text \<open>
  Methods as actions on the object they belong to: an action returns or raises, and leaves a state behind either
  way. The combinators a method body is written with, and the relations between the state before and the state
  after that every part of a body guarantees.
\<close>

definition ret :: "'a \<Rightarrow> ('s, 'a) action" where
  "ret v s = (Inr v, s)"

definition lift :: "'a result \<Rightarrow> ('s, 'a) action" where
  "lift r s = (r, s)"

definition modst :: "('s \<Rightarrow> 's) \<Rightarrow> ('s, unit) action" where
  "modst g s = (Inr (), g s)"

text \<open>The body may read the state it runs in.\<close>

definition withst :: "('s \<Rightarrow> ('s, 'a) action) \<Rightarrow> ('s, 'a) action" where
  "withst f s = f s s"

definition whenst :: "bool \<Rightarrow> ('s, unit) action \<Rightarrow> ('s, unit) action" where
  "whenst b m = (if b then m else ret ())"

primrec seqs :: "('s, unit) action list \<Rightarrow> ('s, unit) action" where
  "seqs [] = ret ()"
| "seqs (m # ms) = bindst m (\<lambda>_. seqs ms)"

text \<open>\<^verbatim>\<open>try ... except (TypeError, ValueError)\<close> around a computation.\<close>

fun caught :: "err \<Rightarrow> bool" where
  "caught (ValueError _) = True"
| "caught TypeError = True"
| "caught _ = False"

definition tryst :: "('s, 'a) action \<Rightarrow> (err \<Rightarrow> ('s, 'b) action) \<Rightarrow> ('a \<Rightarrow> ('s, 'b) action) \<Rightarrow> ('s, 'b) action" where
  "tryst m handler f s = (case m s of (Inl e, t) \<Rightarrow> if caught e then handler e t else (Inl e, t) | (Inr a, t) \<Rightarrow> f a t)"

subsection \<open>What an action guarantees\<close>

definition guar :: "('s \<Rightarrow> 's \<Rightarrow> bool) \<Rightarrow> ('s, 'a) action \<Rightarrow> bool" where
  "guar G m \<longleftrightarrow> (\<forall>s. G s (snd (m s)))"

lemma guarD: "guar G m \<Longrightarrow> m s = (r, t) \<Longrightarrow> G s t"
  by (metis guar_def snd_conv)

lemma guar_run: "guar G m \<Longrightarrow> G s (snd (m s))"
  by (simp add: guar_def)

lemma guar_mono: "guar G m \<Longrightarrow> (\<And>s t. G s t \<Longrightarrow> H s t) \<Longrightarrow> guar H m"
  by (simp add: guar_def)

text \<open>
  A guarantee that holds across nothing happening and across two parts in a row, so that a body inherits it from its
  parts.
\<close>

locale guarantee =
  fixes G :: "'s \<Rightarrow> 's \<Rightarrow> bool"
  assumes stays: "G s s" and chain: "G s t \<Longrightarrow> G t u \<Longrightarrow> G s u"
begin

lemma g_ret: "guar G (ret v)"
  by (simp add: guar_def ret_def stays)

lemma g_lift: "guar G (lift r)"
  by (simp add: guar_def lift_def stays)

lemma g_bindst: "guar G m \<Longrightarrow> (\<And>a. guar G (f a)) \<Longrightarrow> guar G (bindst m f)"
  by (auto simp: guar_def bindst_def split: prod.split sum.split) (metis chain snd_conv)+

lemma g_withst: "(\<And>s. guar G (f s)) \<Longrightarrow> guar G (withst f)"
  by (simp add: guar_def withst_def)

lemma g_whenst: "guar G m \<Longrightarrow> guar G (whenst b m)"
  by (simp add: whenst_def g_ret)

lemma g_seqs: "(\<And>m. m \<in> set ms \<Longrightarrow> guar G m) \<Longrightarrow> guar G (seqs ms)"
  by (induction ms) (simp_all add: g_ret g_bindst)

lemma g_tryst: "guar G m \<Longrightarrow> (\<And>e. guar G (h e)) \<Longrightarrow> (\<And>a. guar G (f a)) \<Longrightarrow> guar G (tryst m h f)"
  by (auto simp: guar_def tryst_def split: prod.split sum.split) (metis chain snd_conv)+

lemma g_if: "(b \<Longrightarrow> guar G m) \<Longrightarrow> (\<not> b \<Longrightarrow> guar G n) \<Longrightarrow> guar G (if b then m else n)"
  by simp

lemma g_option: "(x = None \<Longrightarrow> guar G m) \<Longrightarrow> (\<And>a. x = Some a \<Longrightarrow> guar G (f a)) \<Longrightarrow> guar G (case x of None \<Rightarrow> m | Some a \<Rightarrow> f a)"
  by (cases x) simp_all

lemma g_bool: "(b \<Longrightarrow> guar G m) \<Longrightarrow> (\<not> b \<Longrightarrow> guar G n) \<Longrightarrow> guar G (case b of True \<Rightarrow> m | False \<Rightarrow> n)"
  by (cases b) simp_all

lemma g_prod: "(\<And>a b. guar G (f a b)) \<Longrightarrow> guar G (case x of (a, b) \<Rightarrow> f a b)"
  by (cases x) simp

lemma g_modst: "(\<And>s. G s (g s)) \<Longrightarrow> guar G (modst g)"
  by (simp add: guar_def modst_def)

lemmas g_rules = g_ret g_lift g_bindst g_withst g_whenst g_seqs g_tryst g_if g_option g_bool g_prod

end

subsection \<open>Pre- and postconditions\<close>

text \<open>From a state in \<open>P\<close>, a return lands in \<open>Q\<close> and an exception leaves a state in \<open>E\<close>.\<close>

definition triple :: "('s \<Rightarrow> bool) \<Rightarrow> ('s, 'a) action \<Rightarrow> ('a \<Rightarrow> 's \<Rightarrow> bool) \<Rightarrow> ('s \<Rightarrow> bool) \<Rightarrow> bool" where
  "triple P m Q E \<longleftrightarrow> (\<forall>s. P s \<longrightarrow> (case m s of (Inr a, t) \<Rightarrow> Q a t | (Inl e, t) \<Rightarrow> E t))"

lemma tripleD: "triple P m Q E \<Longrightarrow> P s \<Longrightarrow> m s = (r, t) \<Longrightarrow> (case r of Inr a \<Rightarrow> Q a t | Inl e \<Rightarrow> E t)"
  by (auto simp: triple_def split: sum.splits)

lemma triple_conseq:
  "triple P m Q E \<Longrightarrow> (\<And>s. P' s \<Longrightarrow> P s) \<Longrightarrow> (\<And>a t. Q a t \<Longrightarrow> Q' a t) \<Longrightarrow> (\<And>t. E t \<Longrightarrow> E' t) \<Longrightarrow> triple P' m Q' E'"
  by (fastforce simp: triple_def split: prod.splits sum.splits)

lemma triple_bindst: "triple P m Q E \<Longrightarrow> (\<And>a. triple (Q a) (f a) R E) \<Longrightarrow> triple P (bindst m f) R E"
  by (fastforce simp: triple_def bindst_def split: prod.splits sum.splits)

lemma triple_ret: "(\<And>s. P s \<Longrightarrow> Q v s) \<Longrightarrow> triple P (ret v) Q E"
  by (simp add: triple_def ret_def)

lemma triple_lift: "(\<And>s v. P s \<Longrightarrow> r = Inr v \<Longrightarrow> Q v s) \<Longrightarrow> (\<And>s. P s \<Longrightarrow> E s) \<Longrightarrow> triple P (lift r) Q E"
  by (auto simp: triple_def lift_def split: sum.splits)

lemma triple_modst: "(\<And>s. P s \<Longrightarrow> Q () (g s)) \<Longrightarrow> triple P (modst g) Q E"
  by (simp add: triple_def modst_def)

lemma triple_withst: "(\<And>s. P s \<Longrightarrow> triple (\<lambda>t. t = s) (f s) Q E) \<Longrightarrow> triple P (withst f) Q E"
  by (simp add: triple_def withst_def)

lemma triple_whenst: "(b \<Longrightarrow> triple P m Q E) \<Longrightarrow> (\<And>s. \<not> b \<Longrightarrow> P s \<Longrightarrow> Q () s) \<Longrightarrow> triple P (whenst b m) Q E"
  by (auto simp: whenst_def triple_def ret_def)

lemma triple_tryst:
  "triple P m Q E \<Longrightarrow> (\<And>e. triple E (h e) R E) \<Longrightarrow> (\<And>a. triple (Q a) (f a) R E) \<Longrightarrow> triple P (tryst m h f) R E"
  by (fastforce simp: triple_def tryst_def split: prod.splits sum.splits)

lemma triple_guar: "guar G m \<Longrightarrow> (\<And>s t. P s \<Longrightarrow> G s t \<Longrightarrow> I t) \<Longrightarrow> triple P m (\<lambda>_. I) I"
  by (fastforce simp: triple_def guar_def split: prod.splits sum.splits)

lemmas run_simps = ret_def lift_def modst_def withst_def whenst_def tryst_def

end
