(* ===== verification/Executor.thy ===== *)
theory Executor
  imports Policy
begin

text \<open>
  \<^verbatim>\<open>arm_control/control/trajectory_executor.py\<close> (the law that turns a reference point or a hold into a servo
  command) and \<^verbatim>\<open>arm_control/control/reference.py\<close> (the released trajectory and its clock).

  The rigid-body model the executor is given (\<^verbatim>\<open>arm_control/dynamics.py\<close> over Pinocchio) is a record of the
  functions the executor calls; \<open>dyn_id\<close> is the identity of the object, which \<^verbatim>\<open>is not\<close> compares.
\<close>

record JointState =
  js_position :: vec
  js_velocity :: vec

record dynamics =
  dyn_id :: nat
  dyn_joints :: "string list"
  dyn_rnea :: "vec \<Rightarrow> vec \<Rightarrow> vec \<Rightarrow> vec result"
  dyn_gravity :: "vec \<Rightarrow> vec result"
  dyn_payload_gravity :: "vec \<Rightarrow> fl \<Rightarrow> string \<Rightarrow> vec option \<Rightarrow> vec result"
  dyn_frame_pose :: "(vec \<Rightarrow> string \<Rightarrow> mat result) option"

subsection \<open>The rule every control law obeys\<close>

definition gain_error :: "vec \<Rightarrow> vec \<Rightarrow> string option" where
  "gain_error kp kd =
     (if length kp \<noteq> length kd then Some ''kp shape != kd shape''
      else if \<not> (all_finite kp \<and> all_finite kd) then Some ''gains must be finite''
      else if list_ex (\<lambda>x. x < 0) kp \<or> list_ex (\<lambda>x. x < 0) kd then Some ''gains must be nonnegative''
      else if list_ex (\<lambda>(p, d). p > 0 \<and> d \<le> 0) (zip kp kd) then Some ''stiffness with zero damping''
      else None)"

subsection \<open>The executor\<close>

record JointTrajectoryExecutor =
  ex_joints :: "string list"
  ex_dyn :: dynamics
  ex_rigid :: dynamics
  ex_kp :: vec
  ex_kd :: vec
  ex_max_tau :: vec
  ex_payload_frame :: string
  ex_payload_mass :: fl
  ex_payload_com :: "vec option"
  ex_gravity_comp :: bool
  ex_done_pos_tol :: fl
  ex_done_vel_tol :: fl
  ex_done_pose_tol :: "(fl \<times> fl) option"

definition default_pose_tol :: "dynamics \<Rightarrow> string \<Rightarrow> vec option \<Rightarrow> vec option" where
  "default_pose_tol dyn frame tol =
     (if tol = None \<and> frame \<noteq> [] \<and> dyn_frame_pose dyn \<noteq> None then Some [Fin (2 / 100), Fin (5 * pi / 180)] else tol)"

definition pose_tol_checked :: "dynamics \<Rightarrow> nat \<Rightarrow> string \<Rightarrow> vec option \<Rightarrow> (fl \<times> fl) option result" where
  "pose_tol_checked dyn n frame tol =
     (case tol of
        None \<Rightarrow> Inr None
      | Some v \<Rightarrow>
          if length v \<noteq> 2 \<or> \<not> list_all (\<lambda>x. isfinite x \<and> x > 0) v
          then Inl (ValueError ''done_pose_tol must be (metres, radians), finite and positive'')
          else
            (case (frame, dyn_frame_pose dyn) of
               (_ # _, Some f) \<Rightarrow> bindr (f (zeros n) frame) (\<lambda>_. Inr (Some (v ! 0, v ! 1)))
             | _ \<Rightarrow> Inl (ValueError ''done_pose_tol needs a URDF model and its ee frame (payload_frame)'')))"

definition mk_JointTrajectoryExecutor ::
    "string list \<Rightarrow> dynamics \<Rightarrow> vec \<Rightarrow> vec \<Rightarrow> arr \<Rightarrow> fl \<Rightarrow> fl \<Rightarrow> bool \<Rightarrow> string \<Rightarrow> vec option \<Rightarrow> JointTrajectoryExecutor result" where
  "mk_JointTrajectoryExecutor joints dyn kp kd max_torque pos_tol vel_tol gravity_comp frame pose_tol =
     (let n = length joints in
      bindr (ensure (length kp = n) (ValueError ''kp_default must have shape (n,)'')) (\<lambda>_.
      bindr (ensure (length kd = n) (ValueError ''kd_default must have shape (n,)'')) (\<lambda>_.
      bindr (case gain_error kp kd of None \<Rightarrow> Inr () | Some reason \<Rightarrow> Inl (ValueError reason)) (\<lambda>_.
      bindr (validate_torque_limits max_torque (Some n)) (\<lambda>limits.
      bindr (pose_tol_checked dyn n frame (default_pose_tol dyn frame pose_tol)) (\<lambda>tol.
      Inr \<lparr>ex_joints = joints, ex_dyn = dyn, ex_rigid = dyn, ex_kp = kp, ex_kd = kd, ex_max_tau = limits,
           ex_payload_frame = frame, ex_payload_mass = 0, ex_payload_com = None, ex_gravity_comp = gravity_comp,
           ex_done_pos_tol = pos_tol, ex_done_vel_tol = vel_tol, ex_done_pose_tol = tol\<rparr>))))))"

definition n_joints :: "JointTrajectoryExecutor \<Rightarrow> nat" where
  "n_joints ex = length (ex_joints ex)"

definition payload_tau :: "JointTrajectoryExecutor \<Rightarrow> vec \<Rightarrow> vec result" where
  "payload_tau ex q =
     (if ex_payload_mass ex \<le> 0 then Inr (zeros (length (ex_joints ex)))
      else dyn_payload_gravity (ex_dyn ex) q (ex_payload_mass ex) (ex_payload_frame ex) (ex_payload_com ex))"

text \<open>The shared tail of both commands: payload, integral, the plant's own gravity compensation, the clamp.\<close>

definition clamp_tau :: "JointTrajectoryExecutor \<Rightarrow> vec \<Rightarrow> vec \<Rightarrow> vec \<Rightarrow> vec result" where
  "clamp_tau ex tau q bias =
     bindr (payload_tau ex q) (\<lambda>load. bindr (np_map2 (+) tau load) (\<lambda>t1. bindr (np_map2 (+) t1 bias) (\<lambda>t2.
     bindr (if ex_gravity_comp ex then bindr (dyn_gravity (ex_rigid ex) q) (\<lambda>g. np_sub t2 g) else Inr t2) (\<lambda>t3.
     bindr (np_map2 np_max t3 (map uminus (ex_max_tau ex))) (\<lambda>t4. np_map2 np_min t4 (ex_max_tau ex))))))"

definition hold_command :: "JointTrajectoryExecutor \<Rightarrow> JointState \<Rightarrow> vec option \<Rightarrow> vec \<Rightarrow> JointServoCommand result" where
  "hold_command ex state target bias =
     (let q = js_position state; anchor = (case target of None \<Rightarrow> q | Some a \<Rightarrow> a) in
      bindr (dyn_gravity (ex_rigid ex) q) (\<lambda>g. bindr (clamp_tau ex g q bias) (\<lambda>tau.
      Inr \<lparr>q_des = anchor, qd_des = zeros (length q), tau_ff = tau, jsc_kp = ex_kp ex, jsc_kd = ex_kd ex\<rparr>)))"

definition ex_step :: "JointTrajectoryExecutor \<Rightarrow> TrajectoryPoint \<Rightarrow> JointState \<Rightarrow> vec \<Rightarrow> JointServoCommand result" where
  "ex_step ex pt state bias =
     bindr (dyn_rnea (ex_rigid ex) (js_position state) (pt_velocity pt) (pt_acceleration pt)) (\<lambda>t.
     bindr (clamp_tau ex t (js_position state) bias) (\<lambda>tau.
     Inr \<lparr>q_des = pt_position pt, qd_des = pt_velocity pt, tau_ff = tau, jsc_kp = ex_kp ex, jsc_kd = ex_kd ex\<rparr>))"

definition set_payload :: "fl \<Rightarrow> vec option \<Rightarrow> (JointTrajectoryExecutor, unit) action" where
  "set_payload mass_kg com_offset ex =
     (let mass = py_max 0 mass_kg in
      if \<not> isfinite mass_kg then (Inl (ValueError ''payload mass must be finite''), ex)
      else if mass > 0 \<and> dyn_id (ex_rigid ex) \<noteq> dyn_id (ex_dyn ex)
      then (Inl (ValueError ''a load model is installed: its bodies carry the load, not a payload''), ex)
      else if mass > 0 \<and> ex_payload_frame ex = [] then (Inl (ValueError ''positive payload requires a construction-owned payload_frame''), ex)
      else if mass > 0 \<and> (case com_offset of None \<Rightarrow> False | Some c \<Rightarrow> length c \<noteq> 3 \<or> \<not> all_finite c)
      then (Inl (ValueError ''payload CoM must have shape (3,) and be finite''), ex)
      else (Inr (), ex\<lparr>ex_payload_mass := mass, ex_payload_com := (if mass > 0 then com_offset else None)\<rparr>))"

definition set_dynamics :: "dynamics \<Rightarrow> (JointTrajectoryExecutor, unit) action" where
  "set_dynamics dyn ex =
     (if dyn_joints dyn \<noteq> ex_joints ex then (Inl (ValueError ''load model joints != executor joints''), ex)
      else if ex_payload_mass ex > 0 then (Inl (ValueError ''clear the payload before installing a load model''), ex)
      else (Inr (), ex\<lparr>ex_rigid := dyn\<rparr>))"

definition set_gains :: "vec option \<Rightarrow> vec option \<Rightarrow> (JointTrajectoryExecutor, unit) action" where
  "set_gains kp kd ex =
     (case gain_error (case kp of None \<Rightarrow> ex_kp ex | Some v \<Rightarrow> v) (case kd of None \<Rightarrow> ex_kd ex | Some v \<Rightarrow> v) of
        Some reason \<Rightarrow> (Inl (ValueError reason), ex)
      | None \<Rightarrow>
          (case kp of
             Some v \<Rightarrow> if length v \<noteq> length (ex_kp ex) then (Inl (ValueError ''kp shape != expected''), ex) else
               (case kd of
                  None \<Rightarrow> (Inr (), ex\<lparr>ex_kp := v\<rparr>)
                | Some w \<Rightarrow> if length w \<noteq> length (ex_kd ex) then (Inl (ValueError ''kd shape != expected''), ex\<lparr>ex_kp := v\<rparr>)
                            else (Inr (), ex\<lparr>ex_kp := v, ex_kd := w\<rparr>))
           | None \<Rightarrow>
               (case kd of
                  None \<Rightarrow> (Inr (), ex)
                | Some w \<Rightarrow> if length w \<noteq> length (ex_kd ex) then (Inl (ValueError ''kd shape != expected''), ex)
                            else (Inr (), ex\<lparr>ex_kd := w\<rparr>))))"

subsection \<open>Completion\<close>

definition at_goal :: "JointTrajectoryExecutor \<Rightarrow> vec \<Rightarrow> JointState \<Rightarrow> fl option \<Rightarrow> fl option \<Rightarrow> bool result" where
  "at_goal ex goal state pos_tol vel_tol =
     (let pt = (case pos_tol of None \<Rightarrow> ex_done_pos_tol ex | Some t \<Rightarrow> t); vt = (case vel_tol of None \<Rightarrow> ex_done_vel_tol ex | Some t \<Rightarrow> t) in
      bindr (np_sub (js_position state) goal) (\<lambda>d. bindr (arr_max (vabs d)) (\<lambda>e. bindr (arr_max (vabs (js_velocity state))) (\<lambda>v.
        Inr (e \<le> pt \<and> v \<le> vt)))))"

fun farccos :: "fl \<Rightarrow> fl" where
  "farccos (Fin a) = (if - 1 \<le> a \<and> a \<le> 1 then Fin (arccos a) else NaN)"
| "farccos _ = NaN"

text \<open>\<^verbatim>\<open>np.trace(a[:3, :3].T @ b[:3, :3])\<close> and the distance of the two origins, of 4x4 poses.\<close>

definition rot_trace :: "mat \<Rightarrow> mat \<Rightarrow> fl" where
  "rot_trace a b = sum_list (map (\<lambda>j. sum_list (map (\<lambda>i. a ! i ! j * b ! i ! j) [0..<3])) [0..<3])"

definition origin_gap :: "mat \<Rightarrow> mat \<Rightarrow> fl" where
  "origin_gap a b = fsqrt (sum_list (map (\<lambda>i. (a ! i ! 3 - b ! i ! 3) * (a ! i ! 3 - b ! i ! 3)) [0..<3]))"

definition hand_error :: "JointTrajectoryExecutor \<Rightarrow> vec \<Rightarrow> vec \<Rightarrow> (fl \<times> fl) result" where
  "hand_error ex goal q =
     (case dyn_frame_pose (ex_dyn ex) of
        None \<Rightarrow> Inl AttributeError
      | Some f \<Rightarrow> bindr (f q (ex_payload_frame ex)) (\<lambda>a. bindr (f goal (ex_payload_frame ex)) (\<lambda>b.
          let c = (rot_trace a b - 1) / 2 in Inr (origin_gap a b, farccos (np_clip c (- 1) 1)))))"

definition hand_at_goal :: "JointTrajectoryExecutor \<Rightarrow> vec \<Rightarrow> JointState \<Rightarrow> bool result" where
  "hand_at_goal ex goal state =
     (case ex_done_pose_tol ex of
        None \<Rightarrow> Inl (ValueError ''this executor has no done_pose_tol'')
      | Some (pos_tol, rot_tol) \<Rightarrow>
          bindr (arr_max (vabs (js_velocity state))) (\<lambda>v.
          if v > ex_done_vel_tol ex then Inr False
          else bindr (hand_error ex goal (js_position state)) (\<lambda>(pos, rot). Inr (pos \<le> pos_tol \<and> rot \<le> rot_tol))))"

subsection \<open>The released reference\<close>

text \<open>
  A bound sample source is a callable; what it answers at a call is the argument \<open>src\<close> of the operations that
  call it.
\<close>

record TrajectoryReference =
  tr_trajectory :: JointTrajectory
  tr_t_start :: "fl option"
  tr_source :: bool
  tr_terminal :: bool

definition mk_TrajectoryReference :: "JointTrajectory \<Rightarrow> fl option \<Rightarrow> bool \<Rightarrow> TrajectoryReference result" where
  "mk_TrajectoryReference traj t_start source =
     (if (t_start = None) = (\<not> source) then Inl (ValueError ''reference needs exactly one local clock or selected sample source'')
      else Inr \<lparr>tr_trajectory = traj, tr_t_start = t_start, tr_source = source, tr_terminal = True\<rparr>)"

definition tr_elapsed :: "TrajectoryReference \<Rightarrow> fl \<Rightarrow> TrajectoryPoint result \<Rightarrow> fl result" where
  "tr_elapsed r t_now src =
     (if tr_source r then bindr src (\<lambda>p. Inr (pt_time p))
      else case tr_t_start r of None \<Rightarrow> Inl TypeError | Some t \<Rightarrow> Inr (t_now - t))"

definition tr_sample :: "TrajectoryReference \<Rightarrow> fl \<Rightarrow> TrajectoryPoint result \<Rightarrow> TrajectoryPoint result" where
  "tr_sample r t_now src = (if tr_source r then src else bindr (tr_elapsed r t_now src) (sample_at (tr_trajectory r)))"

definition tr_end_phase :: "TrajectoryReference \<Rightarrow> fl" where
  "tr_end_phase r = last (jt_times (tr_trajectory r))"

definition tr_end :: "TrajectoryReference \<Rightarrow> TrajectoryPoint result" where
  "tr_end r = sample_at (tr_trajectory r) (tr_end_phase r)"

subsection \<open>The law the executor always holds\<close>

datatype executor_op = SetGains "vec option" "vec option" | SetPayload fl "vec option" | SetDynamics dynamics

fun ex_apply :: "JointTrajectoryExecutor \<Rightarrow> executor_op \<Rightarrow> JointTrajectoryExecutor" where
  "ex_apply ex (SetGains kp kd) = snd (set_gains kp kd ex)"
| "ex_apply ex (SetPayload m c) = snd (set_payload m c ex)"
| "ex_apply ex (SetDynamics d) = snd (set_dynamics d ex)"

definition damped :: "vec \<Rightarrow> vec \<Rightarrow> bool" where
  "damped kp kd \<longleftrightarrow> length kp = length kd \<and> all_finite kp \<and> all_finite kd \<and>
     (\<forall>i < length kp. 0 \<le> kp ! i \<and> 0 \<le> kd ! i \<and> (0 < kp ! i \<longrightarrow> 0 < kd ! i))"

lemma gain_error_None_iff: "gain_error kp kd = None \<longleftrightarrow> damped kp kd"
proof -
  have not_less: "\<not> x < 0 \<longleftrightarrow> 0 \<le> x" "\<not> x \<le> 0 \<longleftrightarrow> 0 < x" if "isfinite x" for x :: fl
    using that by (cases x; auto)+
  show ?thesis
  proof (cases "length kp = length kd \<and> all_finite kp \<and> all_finite kd")
    case True
    then have "gain_error kp kd = None \<longleftrightarrow>
        (\<forall>i < length kp. \<not> kp ! i < 0 \<and> \<not> kd ! i < 0 \<and> (0 < kp ! i \<longrightarrow> \<not> kd ! i \<le> 0))"
      by (auto simp: gain_error_def list_ex_length)
    also have "\<dots> \<longleftrightarrow> (\<forall>i < length kp. 0 \<le> kp ! i \<and> 0 \<le> kd ! i \<and> (0 < kp ! i \<longrightarrow> 0 < kd ! i))"
      using True not_less by (metis all_finite_conv_nth)
    finally show ?thesis using True by (simp add: damped_def)
  qed (auto simp: gain_error_def damped_def)
qed

definition executor_ok :: "JointTrajectoryExecutor \<Rightarrow> bool" where
  "executor_ok ex \<longleftrightarrow> n_joints ex > 0 \<and> length (ex_kp ex) = n_joints ex \<and> damped (ex_kp ex) (ex_kd ex) \<and>
     length (ex_max_tau ex) = n_joints ex \<and> all_finite (ex_max_tau ex) \<and> (\<forall>x \<in> set (ex_max_tau ex). 0 < x) \<and>
     isfinite (ex_payload_mass ex) \<and> \<not> (0 < ex_payload_mass ex \<and> dyn_id (ex_rigid ex) \<noteq> dyn_id (ex_dyn ex)) \<and>
     (ex_done_pose_tol ex \<noteq> None \<longrightarrow> ex_payload_frame ex \<noteq> [] \<and> dyn_frame_pose (ex_dyn ex) \<noteq> None)"

lemma mk_executor_ok:
  assumes "mk_JointTrajectoryExecutor joints dyn kp kd mt pt vt gc frame tol = Inr ex"
  shows "executor_ok ex" "n_joints ex = length joints"
proof -
  have pos: "0 < x" if "isfinite x" "\<not> x \<le> 0" for x :: fl using that by (cases x) auto
  obtain limits t where ex: "gain_error kp kd = None" "length kp = length joints" "validate_torque_limits mt (Some (length joints)) = Inr limits"
      "pose_tol_checked dyn (length joints) frame (default_pose_tol dyn frame tol) = Inr t"
      "ex = \<lparr>ex_joints = joints, ex_dyn = dyn, ex_rigid = dyn, ex_kp = kp, ex_kd = kd, ex_max_tau = limits,
         ex_payload_frame = frame, ex_payload_mass = 0, ex_payload_com = None, ex_gravity_comp = gc,
         ex_done_pos_tol = pt, ex_done_vel_tol = vt, ex_done_pose_tol = t\<rparr>"
    using assms by (auto simp: mk_JointTrajectoryExecutor_def Let_def split: option.splits)
  have "frame \<noteq> [] \<and> dyn_frame_pose dyn \<noteq> None" if "t \<noteq> None"
    using ex(4) that by (auto simp: pose_tol_checked_def split: option.splits if_splits list.splits)
  moreover have "\<forall>x \<in> set limits. 0 < x" using ex(3) pos by (auto simp: validate_torque_limits_Inr all_finite_in)
  ultimately show "executor_ok ex" "n_joints ex = length joints"
    using ex by (auto simp: executor_ok_def n_joints_def gain_error_None_iff validate_torque_limits_Inr)
qed

lemma set_gains_ok:
  assumes "executor_ok ex" and "set_gains kp kd ex = (r, ex')"
  shows "executor_ok ex' \<and> n_joints ex' = n_joints ex \<and> ex_max_tau ex' = ex_max_tau ex \<and> ex_done_pose_tol ex' = ex_done_pose_tol ex \<and> (isl r \<longrightarrow> ex' = ex)"
  using assms by (auto simp: set_gains_def gain_error_None_iff executor_ok_def n_joints_def damped_def split: option.splits if_splits)

lemma set_payload_ok:
  assumes "executor_ok ex" and "set_payload m c ex = (r, ex')"
  shows "executor_ok ex' \<and> n_joints ex' = n_joints ex \<and> ex_max_tau ex' = ex_max_tau ex \<and> ex_done_pose_tol ex' = ex_done_pose_tol ex \<and>
    ex_kp ex' = ex_kp ex \<and> ex_kd ex' = ex_kd ex \<and> (isl r \<longrightarrow> ex' = ex)"
  using assms by (cases m) (auto simp: set_payload_def executor_ok_def n_joints_def Let_def split: if_splits)

lemma set_dynamics_ok:
  assumes "executor_ok ex" and "set_dynamics d ex = (r, ex')"
  shows "executor_ok ex' \<and> n_joints ex' = n_joints ex \<and> ex_max_tau ex' = ex_max_tau ex"
  using assms by (auto simp: set_dynamics_def executor_ok_def n_joints_def split: if_splits)

lemma ex_apply_ok:
  "executor_ok ex \<Longrightarrow> executor_ok (ex_apply ex op) \<and> n_joints (ex_apply ex op) = n_joints ex \<and> ex_max_tau (ex_apply ex op) = ex_max_tau ex"
proof (cases op)
  case (SetGains kp kd)
  assume "executor_ok ex"
  then show ?thesis using set_gains_ok [of ex kp kd] SetGains by (cases "set_gains kp kd ex") auto
next
  case (SetPayload m c)
  assume "executor_ok ex"
  then show ?thesis using set_payload_ok [of ex m c] SetPayload by (cases "set_payload m c ex") auto
next
  case (SetDynamics d)
  assume "executor_ok ex"
  then show ?thesis using set_dynamics_ok [of ex d] SetDynamics by (cases "set_dynamics d ex") auto
qed

lemma ex_applies_ok:
  "executor_ok ex \<Longrightarrow> executor_ok (fold (\<lambda>op ex. ex_apply ex op) ops ex) \<and> n_joints (fold (\<lambda>op ex. ex_apply ex op) ops ex) = n_joints ex \<and>
     ex_max_tau (fold (\<lambda>op ex. ex_apply ex op) ops ex) = ex_max_tau ex"
  by (induction ops arbitrary: ex) (simp_all add: ex_apply_ok)

text \<open>
  What the code relies on of a rigid-body model: the torques it returns have one entry per joint
  (\<^verbatim>\<open>tau_full[self._v_indices]\<close> of \<^verbatim>\<open>PinocchioDynamics\<close>, \<^verbatim>\<open>np.zeros(len(self.joints))\<close> of \<^verbatim>\<open>BodyListDynamics\<close>).
\<close>

definition torque_shapes :: "dynamics \<Rightarrow> nat \<Rightarrow> bool" where
  "torque_shapes d n \<longleftrightarrow> (\<forall>q v a t. dyn_rnea d q v a = Inr t \<longrightarrow> length t = n) \<and> (\<forall>q t. dyn_gravity d q = Inr t \<longrightarrow> length t = n) \<and>
     (\<forall>q m f c t. dyn_payload_gravity d q m f c = Inr t \<longrightarrow> length t = n)"

lemma np_map2_same_length: "length xs = length ys \<Longrightarrow> np_map2 f xs ys = Inr (map2 f xs ys)"
  by (simp add: np_map2_def bcast2_def)

lemma clip_abs:
  assumes "isfinite l" "0 < l"
  shows "isnan (np_min (np_max t (- l)) l) \<or> fabs (np_min (np_max t (- l)) l) \<le> l"
  using assms by (cases t; cases l) (auto simp: np_min_def np_max_def)

lemma clamp_tau_bounded:
  assumes "executor_ok ex" "torque_shapes (ex_rigid ex) (n_joints ex)" "torque_shapes (ex_dyn ex) (n_joints ex)"
    and "length tau = n_joints ex" "length bias = n_joints ex" and "clamp_tau ex tau q bias = Inr c"
  shows "length c = n_joints ex \<and> (\<forall>i < n_joints ex. isnan (c ! i) \<or> fabs (c ! i) \<le> ex_max_tau ex ! i)"
proof -
  let ?n = "n_joints ex"
  obtain load t3 where load: "payload_tau ex q = Inr load"
      and t3: "(if ex_gravity_comp ex then bindr (dyn_gravity (ex_rigid ex) q) (\<lambda>g. np_sub (map2 (+) (map2 (+) tau load) bias) g)
                else Inr (map2 (+) (map2 (+) tau load) bias)) = Inr t3"
      and c: "bindr (np_map2 np_max t3 (map uminus (ex_max_tau ex))) (\<lambda>t4. np_map2 np_min t4 (ex_max_tau ex)) = Inr c"
      and ll: "length load = ?n"
  proof -
    obtain load where l: "payload_tau ex q = Inr load" using assms(6) unfolding clamp_tau_def by auto
    have "length load = ?n" using l assms(3) by (auto simp: payload_tau_def torque_shapes_def n_joints_def zeros_def split: if_splits)
    with l show ?thesis using that assms(4-6) unfolding clamp_tau_def by (auto simp: np_map2_same_length)
  qed
  have l3: "length t3 = ?n" using t3 assms(2,4,5) ll by (auto simp: torque_shapes_def np_sub_eq split: if_splits)
  have lm: "length (ex_max_tau ex) = ?n" using assms(1) by (simp add: executor_ok_def)
  then have "c = map2 np_min (map2 np_max t3 (map uminus (ex_max_tau ex))) (ex_max_tau ex)" using c l3 by (simp add: np_map2_same_length)
  then show ?thesis using lm l3 clip_abs assms(1) by (auto simp: executor_ok_def all_finite_conv_nth)
qed

lemma hold_command_bounded:
  assumes "executor_ok ex" "torque_shapes (ex_rigid ex) (n_joints ex)" "torque_shapes (ex_dyn ex) (n_joints ex)" "length bias = n_joints ex"
    and "hold_command ex state target bias = Inr c"
  shows "length (tau_ff c) = n_joints ex \<and> (\<forall>i < n_joints ex. isnan (tau_ff c ! i) \<or> fabs (tau_ff c ! i) \<le> ex_max_tau ex ! i) \<and>
     qd_des c = zeros (length (js_position state)) \<and> jsc_kp c = ex_kp ex \<and> jsc_kd c = ex_kd ex"
proof -
  obtain g tau where c: "dyn_gravity (ex_rigid ex) (js_position state) = Inr g" "clamp_tau ex g (js_position state) bias = Inr tau"
    and "tau_ff c = tau" "qd_des c = zeros (length (js_position state))" "jsc_kp c = ex_kp ex" "jsc_kd c = ex_kd ex"
    using assms(5) by (auto simp: hold_command_def Let_def)
  moreover have "length g = n_joints ex" using c(1) assms(2) unfolding torque_shapes_def by blast
  ultimately show ?thesis using clamp_tau_bounded [OF assms(1-3) _ assms(4) c(2)] by simp
qed

lemma ex_step_bounded:
  assumes "executor_ok ex" "torque_shapes (ex_rigid ex) (n_joints ex)" "torque_shapes (ex_dyn ex) (n_joints ex)" "length bias = n_joints ex"
    and "ex_step ex pt state bias = Inr c"
  shows "length (tau_ff c) = n_joints ex \<and> (\<forall>i < n_joints ex. isnan (tau_ff c ! i) \<or> fabs (tau_ff c ! i) \<le> ex_max_tau ex ! i) \<and>
     jsc_kp c = ex_kp ex \<and> jsc_kd c = ex_kd ex"
proof -
  obtain g tau where c: "dyn_rnea (ex_rigid ex) (js_position state) (pt_velocity pt) (pt_acceleration pt) = Inr g"
      "clamp_tau ex g (js_position state) bias = Inr tau"
    and "tau_ff c = tau" "jsc_kp c = ex_kp ex" "jsc_kd c = ex_kd ex"
    using assms(5) by (auto simp: ex_step_def)
  moreover have "length g = n_joints ex" using c(1) assms(2) unfolding torque_shapes_def by blast
  ultimately show ?thesis using clamp_tau_bounded [OF assms(1-3) _ assms(4) c(2)] by simp
qed

text \<open>
  C21: every servo command the executor builds obeys the law it was admitted with. Whatever gains, payloads and
  load models were accepted or refused since construction, a hold or a trajectory step of the executor
  feeds forward, on every joint, a torque inside the configured limit (or \<open>NaN\<close> where the rigid-body model
  or the integral bias said so, never a value beyond the limit), and a joint with stiffness always has damping; a hold has zero
  desired velocity.
\<close>

theorem executor_torque_clamped:
  assumes "mk_JointTrajectoryExecutor joints dyn kp kd mt pt vt gc frame tol = Inr ex0"
    and "ex = fold (\<lambda>op ex. ex_apply ex op) ops ex0"
    and "torque_shapes (ex_rigid ex) (length joints)" "torque_shapes (ex_dyn ex) (length joints)" "length bias = length joints"
    and "ex_step ex point state bias = Inr c \<or> hold_command ex state target bias = Inr c"
  shows "length (tau_ff c) = length joints \<and> damped (jsc_kp c) (jsc_kd c) \<and> length (jsc_kp c) = length joints \<and>
     (\<forall>i < length joints. isnan (tau_ff c ! i) \<or> fabs (tau_ff c ! i) \<le> ex_max_tau ex0 ! i) \<and>
     (hold_command ex state target bias = Inr c \<longrightarrow> qd_des c = zeros (length (js_position state)))"
proof -
  have ok: "executor_ok ex" "n_joints ex = length joints" "ex_max_tau ex = ex_max_tau ex0"
    using ex_applies_ok [OF mk_executor_ok(1) [OF assms(1)]] mk_executor_ok(2) [OF assms(1)] assms(2) by auto
  have kp: "damped (ex_kp ex) (ex_kd ex)" "length (ex_kp ex) = length joints" using ok by (auto simp: executor_ok_def)
  note h = hold_command_bounded [OF ok(1) _ _ _, unfolded ok(2), OF assms(3,4,5)]
  note s = ex_step_bounded [OF ok(1) _ _ _, unfolded ok(2), OF assms(3,4,5)]
  show ?thesis using assms(6) h s kp ok(3) by metis
qed

definition demo_dynamics :: dynamics where
  "demo_dynamics = \<lparr>dyn_id = 0, dyn_joints = [''j1''], dyn_rnea = (\<lambda>q v a. Inr [5]), dyn_gravity = (\<lambda>q. Inr [5]),
     dyn_payload_gravity = (\<lambda>q m f c. Inr [m]), dyn_frame_pose = None\<rparr>"

theorem executor_torque_clamped_witness:
  "\<exists>ex c. mk_JointTrajectoryExecutor [''j1''] demo_dynamics [100] [10] (Row [3]) 1 1 False ''ee'' None = Inr ex \<and>
     hold_command (ex_apply ex (SetPayload 2 None)) \<lparr>js_position = [0], js_velocity = [0]\<rparr> None [0] = Inr c \<and> tau_ff c = [3] \<and> damped (jsc_kp c) (jsc_kd c)"
proof -
  let ?ex = "\<lparr>ex_joints = [''j1''], ex_dyn = demo_dynamics, ex_rigid = demo_dynamics, ex_kp = [100], ex_kd = [10], ex_max_tau = [3],
      ex_payload_frame = ''ee'', ex_payload_mass = 0, ex_payload_com = None, ex_gravity_comp = False,
      ex_done_pos_tol = 1, ex_done_vel_tol = 1, ex_done_pose_tol = None\<rparr>"
  let ?st = "\<lparr>js_position = [0], js_velocity = [0]\<rparr>"
  let ?c = "\<lparr>q_des = [0], qd_des = [0], tau_ff = [3], jsc_kp = [100], jsc_kd = [10]\<rparr>"
  have mk: "mk_JointTrajectoryExecutor [''j1''] demo_dynamics [100] [10] (Row [3]) 1 1 False ''ee'' None = Inr ?ex"
    by (simp add: mk_JointTrajectoryExecutor_def gain_error_def validate_torque_limits_def default_pose_tol_def pose_tol_checked_def demo_dynamics_def)
  have c: "hold_command (ex_apply ?ex (SetPayload 2 None)) ?st None [0] = Inr ?c"
    by (simp add: hold_command_def clamp_tau_def payload_tau_def set_payload_def demo_dynamics_def np_map2_def bcast2_def zeros_def Let_def)
  have "torque_shapes (ex_rigid (ex_apply ?ex (SetPayload 2 None))) (length [''j1''])" "torque_shapes (ex_dyn (ex_apply ?ex (SetPayload 2 None))) (length [''j1''])"
    by (auto simp: torque_shapes_def demo_dynamics_def set_payload_def)
  from executor_torque_clamped [OF mk, of "ex_apply ?ex (SetPayload 2 None)" "[SetPayload 2 None]" "[0]" undefined ?st ?c None, OF _ this] c
  show ?thesis using mk by auto
qed

end
