(* ===== verification/Settling.thy ===== *)
theory Settling
  imports Floats
begin

text \<open>
  \<^verbatim>\<open>arm_control/control/leg_settling.py\<close>: the two clocks that decide whether a leg has settled, is still
  settling or has timed out.
\<close>

datatype settle_state = SETTLING | SETTLED | TIMED_OUT

definition REPORT_PERIOD_S :: fl where
  "REPORT_PERIOD_S = Fin (1 / 4)"

record SettleVerdict =
  sv_state :: settle_state
  sv_elapsed_s :: fl
  sv_remaining_s :: fl

definition sv_finished :: "SettleVerdict \<Rightarrow> bool" where
  "sv_finished v \<longleftrightarrow> sv_state v \<noteq> SETTLING"

record LegSettling =
  ls_timeout_s :: fl
  ls_dwell_s :: fl
  ls_leg_end :: "fl option"
  ls_settled_since :: "fl option"
  ls_report_at :: "fl option"

definition mk_LegSettling :: "fl \<Rightarrow> fl \<Rightarrow> LegSettling result" where
  "mk_LegSettling timeout dwell =
     (if \<not> (isfinite timeout \<and> isfinite dwell \<and> 0 \<le> dwell \<and> dwell < timeout)
      then Inl (ValueError ''settling requires 0 <= dwell < finite positive timeout'')
      else Inr \<lparr>ls_timeout_s = timeout, ls_dwell_s = dwell, ls_leg_end = Some 0, ls_settled_since = None, ls_report_at = None\<rparr>)"

definition ls_begin :: "LegSettling \<Rightarrow> fl option \<Rightarrow> LegSettling" where
  "ls_begin s leg_end = s\<lparr>ls_leg_end := leg_end, ls_settled_since := None, ls_report_at := None\<rparr>"

definition ls_started :: "LegSettling \<Rightarrow> bool" where
  "ls_started s \<longleftrightarrow> ls_report_at s \<noteq> None"

text \<open>\<open>done\<close> is what the callable answers or raises; it is consulted on a fresh sample only.\<close>

definition ls_dwell_update :: "fl \<Rightarrow> bool \<Rightarrow> bool result \<Rightarrow> (LegSettling, unit) action" where
  "ls_dwell_update now fresh done s =
     (if fresh then
        (case done of
           Inl e \<Rightarrow> (Inl e, s)
         | Inr True \<Rightarrow> (Inr (), if ls_settled_since s = None then s\<lparr>ls_settled_since := Some now\<rparr> else s)
         | Inr False \<Rightarrow> (Inr (), s\<lparr>ls_settled_since := None\<rparr>))
      else (Inr (), s))"

definition ls_verdict :: "fl \<Rightarrow> bool \<Rightarrow> fl \<Rightarrow> LegSettling \<Rightarrow> SettleVerdict" where
  "ls_verdict now fresh leg_end s =
     (let el = py_max 0 (now - leg_end); rem = py_max 0 (ls_timeout_s s - el) in
      \<lparr>sv_state =
         (if fresh \<and> (case ls_settled_since s of None \<Rightarrow> False | Some t \<Rightarrow> now - t \<ge> ls_dwell_s s) \<and> el \<le> ls_timeout_s s then SETTLED
          else if el \<ge> ls_timeout_s s then TIMED_OUT else SETTLING),
       sv_elapsed_s = el, sv_remaining_s = rem\<rparr>)"

definition ls_poll :: "fl \<Rightarrow> bool \<Rightarrow> bool result \<Rightarrow> bool \<Rightarrow> (LegSettling, SettleVerdict option) action" where
  "ls_poll now fresh done reference_ended s =
     (if ls_leg_end s = None \<and> \<not> reference_ended then (Inr None, s)
      else
        let s1 = (if ls_leg_end s = None then s\<lparr>ls_leg_end := Some now\<rparr> else s); leg_end = the (ls_leg_end s1) in
        if now < leg_end then (Inr None, s1)
        else
          (case ls_dwell_update now fresh done s1 of
             (Inl e, s2) \<Rightarrow> (Inl e, s2)
           | (Inr _, s2) \<Rightarrow> (Inr (Some (ls_verdict now fresh leg_end s2)), s2)))"

definition ls_due_to_report :: "LegSettling \<Rightarrow> fl \<Rightarrow> bool \<times> LegSettling" where
  "ls_due_to_report s now =
     (case ls_report_at s of
        Some t \<Rightarrow> if now - t < REPORT_PERIOD_S then (False, s) else (True, s\<lparr>ls_report_at := Some now\<rparr>)
      | None \<Rightarrow> (True, s\<lparr>ls_report_at := Some now\<rparr>))"

subsection \<open>What a settled leg has done\<close>

record poll_input =
  pi_now :: fl
  pi_fresh :: bool
  pi_done :: "bool result"
  pi_ended :: bool

text \<open>The polls of one leg, oldest first; a poll that raises ends them.\<close>

fun polls :: "LegSettling \<Rightarrow> poll_input list \<Rightarrow> LegSettling result" where
  "polls s [] = Inr s"
| "polls s (p # ps) =
     (case ls_poll (pi_now p) (pi_fresh p) (pi_done p) (pi_ended p) s of (Inl e, _) \<Rightarrow> Inl e | (Inr _, s') \<Rightarrow> polls s' ps)"

lemma polls_snoc:
  "polls s (ps @ [p]) = bindr (polls s ps) (\<lambda>s1. case ls_poll (pi_now p) (pi_fresh p) (pi_done p) (pi_ended p) s1 of
     (Inl e, _) \<Rightarrow> Inl e | (Inr _, s') \<Rightarrow> Inr s')"
  by (induction ps arbitrary: s) (auto split: prod.splits sum.splits)

text \<open>
  \<open>stopped_since t ps\<close>: some fresh poll at time \<open>t\<close> found the leg done, and every fresh poll after it did (a
  poll whose clock reads earlier than \<open>t\<close>, which a monotonic clock never does, aside).
\<close>

definition stopped_since :: "fl \<Rightarrow> poll_input list \<Rightarrow> bool" where
  "stopped_since t ps \<longleftrightarrow> (\<exists>k < length ps. pi_now (ps ! k) = t \<and> pi_fresh (ps ! k) \<and> pi_done (ps ! k) = Inr True \<and>
     (\<forall>i < length ps. k < i \<longrightarrow> pi_fresh (ps ! i) \<longrightarrow> pi_done (ps ! i) = Inr True \<or> pi_now (ps ! i) < t))"

lemma stopped_since_snoc:
  assumes "stopped_since t ps" and "pi_fresh p \<longrightarrow> pi_done p = Inr True \<or> pi_now p < t"
  shows "stopped_since t (ps @ [p])"
proof -
  obtain k where "k < length ps" "pi_now (ps ! k) = t" "pi_fresh (ps ! k)" "pi_done (ps ! k) = Inr True"
    "\<forall>i < length ps. k < i \<longrightarrow> pi_fresh (ps ! i) \<longrightarrow> pi_done (ps ! i) = Inr True \<or> pi_now (ps ! i) < t"
    using assms(1) unfolding stopped_since_def by blast
  then show ?thesis
    unfolding stopped_since_def using assms(2) by (intro exI [where x = k]) (auto simp: nth_append less_Suc_eq)
qed

lemma stopped_since_here: "pi_fresh p \<Longrightarrow> pi_done p = Inr True \<Longrightarrow> stopped_since (pi_now p) (ps @ [p])"
  unfolding stopped_since_def by (intro exI [where x = "length ps"]) (auto simp: nth_append)

lemma ls_dwell_update_Inr:
  assumes "ls_dwell_update now fresh done s = (Inr (), s')"
  shows "ls_timeout_s s' = ls_timeout_s s" "ls_dwell_s s' = ls_dwell_s s" "ls_leg_end s' = ls_leg_end s"
    "ls_settled_since s' = (if \<not> fresh then ls_settled_since s else if done = Inr True then
       (if ls_settled_since s = None then Some now else ls_settled_since s) else None)"
    "fresh \<longrightarrow> (\<exists>b. done = Inr b)"
  using assms by (auto simp: ls_dwell_update_def split: if_splits sum.splits bool.splits)

lemma ls_poll_cases:
  assumes "ls_poll now fresh done ended s = (Inr r, s')" and "isfinite now"
  obtains (waits) "r = None" "s' = s" "\<And>e. ls_leg_end s = Some e \<Longrightarrow> now < e"
    | (judges) s1 e where "ls_leg_end s1 = Some e" "\<not> now < e" "ls_leg_end s = Some e \<or> ls_leg_end s = None \<and> e = now"
      "ls_settled_since s1 = ls_settled_since s" "ls_timeout_s s1 = ls_timeout_s s" "ls_dwell_s s1 = ls_dwell_s s"
      "ls_dwell_update now fresh done s1 = (Inr (), s')" "r = Some (ls_verdict now fresh e s')"
proof (cases "ls_leg_end s = None \<and> \<not> ended")
  case True
  then show thesis using assms waits by (auto simp: ls_poll_def)
next
  case False
  define s1 where "s1 = (if ls_leg_end s = None then s\<lparr>ls_leg_end := Some now\<rparr> else s)"
  obtain e where e: "ls_leg_end s1 = Some e" by (cases "ls_leg_end s") (auto simp: s1_def)
  have same: "ls_settled_since s1 = ls_settled_since s" "ls_timeout_s s1 = ls_timeout_s s" "ls_dwell_s s1 = ls_dwell_s s"
    "ls_leg_end s = Some e \<or> ls_leg_end s = None \<and> e = now" using e by (auto simp: s1_def split: if_splits)
  show thesis
  proof (cases "now < e")
    case True
    have "\<not> now < now" using assms(2) by (cases now) auto
    then have "s1 = s" using True same(4) by (auto simp: s1_def)
    then show thesis using waits same e True assms(1) False by (auto simp: ls_poll_def)
  next
    case nl: False
    then obtain s2 where "ls_dwell_update now fresh done s1 = (Inr (), s2)" "s' = s2" "r = Some (ls_verdict now fresh e s2)"
      using assms(1) False e by (auto simp: ls_poll_def s1_def [symmetric] split: prod.splits sum.splits)
    then show thesis using judges e nl same by auto
  qed
qed

definition dwell_inv :: "poll_input list \<Rightarrow> LegSettling \<Rightarrow> bool" where
  "dwell_inv ps s \<longleftrightarrow> (\<forall>t. ls_settled_since s = Some t \<longrightarrow> stopped_since t ps \<and> isfinite t \<and> (\<exists>e. ls_leg_end s = Some e \<and> isfinite e \<and> \<not> t < e)) \<and>
     (\<forall>e. ls_leg_end s = Some e \<longrightarrow> isfinite e)"

lemma dwell_invD:
  assumes "dwell_inv ps s" and "ls_settled_since s = Some t"
  obtains e where "stopped_since t ps" "isfinite t" "ls_leg_end s = Some e" "isfinite e" "\<not> t < e"
  using assms unfolding dwell_inv_def by blast

lemma poll_dwell_inv:
  assumes "dwell_inv ps s" and "ls_poll (pi_now p) (pi_fresh p) (pi_done p) (pi_ended p) s = (Inr r, s')" and "isfinite (pi_now p)"
  shows "dwell_inv (ps @ [p]) s' \<and> ls_timeout_s s' = ls_timeout_s s \<and> ls_dwell_s s' = ls_dwell_s s"
  using assms(2,3)
proof (cases rule: ls_poll_cases)
  case waits
  have "stopped_since t (ps @ [p])" if t: "ls_settled_since s = Some t" for t
  proof -
    obtain e where e: "stopped_since t ps" "isfinite t" "ls_leg_end s = Some e" "isfinite e" "\<not> t < e" using dwell_invD [OF assms(1) t] .
    then have "pi_now p < t" using waits(3) [OF e(3)] assms(3) by (auto simp: isfinite_iff)
    then show ?thesis using stopped_since_snoc [OF e(1)] by blast
  qed
  then show ?thesis using assms(1) waits(2) unfolding dwell_inv_def by blast
next
  case (judges s1 e)
  note u = ls_dwell_update_Inr [OF judges(7)]
  have e: "isfinite e" "ls_leg_end s' = Some e" using assms(1,3) judges(1,3) u(3) unfolding dwell_inv_def by auto
  have "stopped_since t (ps @ [p]) \<and> isfinite t \<and> \<not> t < e" if t: "ls_settled_since s' = Some t" for t
  proof (cases "ls_settled_since s = Some t")
    case True
    obtain e' where e': "stopped_since t ps" "isfinite t" "ls_leg_end s = Some e'" "\<not> t < e'" using dwell_invD [OF assms(1) True] .
    have "pi_fresh p \<longrightarrow> pi_done p = Inr True" using t u(4) by (auto split: if_splits)
    then show ?thesis using stopped_since_snoc [OF e'(1)] e' judges(3) by auto
  next
    case False
    then have "pi_fresh p" "pi_done p = Inr True" "t = pi_now p" using t u(4) judges(4) by (auto split: if_splits)
    then show ?thesis using stopped_since_here assms(3) judges(2) by blast
  qed
  then show ?thesis using e u(1,2) judges(5,6) unfolding dwell_inv_def by auto
qed

lemma polls_dwell_inv:
  "polls s ps = Inr s' \<Longrightarrow> \<forall>p \<in> set ps. isfinite (pi_now p) \<Longrightarrow> dwell_inv [] s \<Longrightarrow>
     dwell_inv ps s' \<and> ls_timeout_s s' = ls_timeout_s s \<and> ls_dwell_s s' = ls_dwell_s s"
proof (induction ps arbitrary: s' rule: rev_induct)
  case (snoc p ps)
  obtain s1 where s1: "polls s ps = Inr s1" using snoc.prems(1) by (auto simp: polls_snoc)
  obtain r s2 where r: "ls_poll (pi_now p) (pi_fresh p) (pi_done p) (pi_ended p) s1 = (r, s2)" by fastforce
  have "\<exists>v. r = Inr v \<and> s2 = s'" using snoc.prems(1) s1 r by (cases r) (auto simp: polls_snoc)
  then show ?case using snoc.IH [OF s1] poll_dwell_inv [of ps s1 p] snoc.prems(2,3) r by auto
qed simp

text \<open>When the clock of a leg starts: at the time it was given, otherwise at the first poll that finds the reference ended.\<close>

fun leg_start :: "fl option \<Rightarrow> poll_input list \<Rightarrow> fl option" where
  "leg_start (Some e) ps = Some e"
| "leg_start None [] = None"
| "leg_start None (p # ps) = (if pi_ended p then Some (pi_now p) else leg_start None ps)"

lemma leg_start_snoc: "leg_start le (ps @ [p]) = (case leg_start le ps of Some e \<Rightarrow> Some e | None \<Rightarrow> if pi_ended p then Some (pi_now p) else None)"
  by (induction le ps rule: leg_start.induct) auto

lemma poll_leg_end:
  assumes "ls_poll now fresh done ended s = (Inr r, s')"
  shows "ls_leg_end s' = (case ls_leg_end s of Some e \<Rightarrow> Some e | None \<Rightarrow> if ended then Some now else None)"
  using assms ls_dwell_update_Inr(3) [of now fresh "done"]
  by (auto simp: ls_poll_def Let_def split: if_splits prod.splits sum.splits option.splits)

lemma polls_leg_end: "polls s ps = Inr s' \<Longrightarrow> ls_leg_end s' = leg_start (ls_leg_end s) ps"
proof (induction ps arbitrary: s' rule: rev_induct)
  case Nil
  then show ?case by (cases "ls_leg_end s") auto
next
  case (snoc p ps)
  obtain s1 where s1: "polls s ps = Inr s1" using snoc.prems by (auto simp: polls_snoc)
  obtain r s2 where r: "ls_poll (pi_now p) (pi_fresh p) (pi_done p) (pi_ended p) s1 = (r, s2)" by fastforce
  then have "\<exists>v. r = Inr v \<and> s2 = s'" using snoc.prems s1 by (cases r) (auto simp: polls_snoc)
  then show ?case using snoc.IH [OF s1] poll_leg_end [of "pi_now p" "pi_fresh p" "pi_done p" "pi_ended p" s1] r by (auto simp: leg_start_snoc)
qed

text \<open>A poll on or after the start of the leg gives the verdict of that moment.\<close>

lemma poll_verdict:
  assumes "ls_poll now fresh done ended s = (Inr r, s')" "isfinite now" "ls_leg_end s' = Some e" "\<not> now < e"
  shows "r = Some (ls_verdict now fresh e s')"
  using assms(1,2)
proof (cases rule: ls_poll_cases)
  case waits
  then show ?thesis using assms(3,4) by auto
next
  case (judges s1 e')
  then show ?thesis using ls_dwell_update_Inr(3) [OF judges(7)] assms(3) by simp
qed

text \<open>
  C18: a leg is accepted only after it has really stood still, and it always ends. After any series of polls of one leg, with
  its clock started at the time given or at the first poll that found the reference ended: if the next poll says settled, its
  measurement is fresh, at most the timeout has passed since the clock started, some fresh measurement at least the dwell time
  ago found the leg done and every fresh measurement since then did too, the present one included; and a poll that comes the
  timeout or longer after the clock started gives a verdict, and never that the leg is still settling.
\<close>

theorem settled_means_dwelled:
  assumes "polls (ls_begin s leg_end) ps = Inr s1" and "\<forall>p \<in> set (ps @ [p]). isfinite (pi_now p)"
    and "leg_end = None \<or> (\<exists>e. leg_end = Some e \<and> isfinite e)" and "0 < ls_timeout_s s"
    and "ls_poll (pi_now p) (pi_fresh p) (pi_done p) (pi_ended p) s1 = (Inr r, s2)"
  shows "(\<forall>v. r = Some v \<and> sv_state v = SETTLED \<longrightarrow> pi_fresh p \<and>
       (\<exists>e. leg_start leg_end (ps @ [p]) = Some e \<and> pi_now p - e \<le> ls_timeout_s s) \<and>
       (\<exists>t. stopped_since t (ps @ [p]) \<and> pi_now p - t \<ge> ls_dwell_s s)) \<and>
     (\<forall>e. leg_start leg_end (ps @ [p]) = Some e \<and> pi_now p - e \<ge> ls_timeout_s s \<longrightarrow> (\<exists>v. r = Some v \<and> sv_finished v))"
proof -
  have "dwell_inv [] (ls_begin s leg_end)" using assms(3) by (auto simp: dwell_inv_def ls_begin_def)
  then have inv: "dwell_inv ps s1" "ls_timeout_s s1 = ls_timeout_s s" "ls_dwell_s s1 = ls_dwell_s s"
    using polls_dwell_inv [OF assms(1)] assms(2) by (auto simp: ls_begin_def)
  have now: "isfinite (pi_now p)" using assms(2) by simp
  note after = poll_dwell_inv [OF inv(1) assms(5) now]
  have start: "ls_leg_end s2 = leg_start leg_end (ps @ [p])"
    using poll_leg_end [OF assms(5)] polls_leg_end [OF assms(1)] by (simp add: leg_start_snoc ls_begin_def)
  have fine: "isfinite e" if "leg_start leg_end (ps @ [p]) = Some e" for e using after that start unfolding dwell_inv_def by simp
  have late: "\<exists>v. r = Some v \<and> sv_finished v" if e: "leg_start leg_end (ps @ [p]) = Some e" "pi_now p - e \<ge> ls_timeout_s s" for e
  proof -
    have "\<not> pi_now p < e" using e(2) assms(4) fine [OF e(1)] now by (cases "ls_timeout_s s") (auto simp: isfinite_iff)
    moreover have "py_max 0 (pi_now p - e) \<ge> ls_timeout_s s" using e(2) assms(4) fine [OF e(1)] now
      by (cases "ls_timeout_s s") (auto simp: py_max_def isfinite_iff)
    ultimately show ?thesis using poll_verdict [OF assms(5) now _ _, of e] e(1) start after inv(2) by (simp add: ls_verdict_def sv_finished_def Let_def)
  qed
  have settled: "pi_fresh p \<and> (\<exists>e. leg_start leg_end (ps @ [p]) = Some e \<and> pi_now p - e \<le> ls_timeout_s s) \<and>
      (\<exists>t. stopped_since t (ps @ [p]) \<and> pi_now p - t \<ge> ls_dwell_s s)" if v: "r = Some v" "sv_state v = SETTLED" for v
    using assms(5) now
  proof (cases rule: ls_poll_cases)
    case waits
    then show ?thesis using v by simp
  next
    case (judges s1' e)
    have e: "leg_start leg_end (ps @ [p]) = Some e" "isfinite e" using ls_dwell_update_Inr(3) [OF judges(7)] judges(1) start fine by simp_all
    then have "py_max 0 (pi_now p - e) = pi_now p - e" using judges(2) now by (auto simp: py_max_def isfinite_iff)
    then show ?thesis using after inv(2,3) v judges(8) e(1)
      by (auto simp: ls_verdict_def dwell_inv_def Let_def split: if_splits option.splits)
  qed
  show ?thesis using late settled by blast
qed

theorem settled_means_dwelled_witness:
  "\<exists>s1 v s2. polls (ls_begin \<lparr>ls_timeout_s = 5, ls_dwell_s = Fin (1 / 5), ls_leg_end = None, ls_settled_since = None, ls_report_at = None\<rparr> (Some 10))
       [\<lparr>pi_now = 11, pi_fresh = True, pi_done = Inr True, pi_ended = False\<rparr>] = Inr s1 \<and>
     ls_poll 12 True (Inr True) False s1 = (Inr (Some v), s2) \<and> sv_state v = SETTLED \<and>
     (\<exists>t. stopped_since t [\<lparr>pi_now = 11, pi_fresh = True, pi_done = Inr True, pi_ended = False\<rparr>,
        \<lparr>pi_now = 12, pi_fresh = True, pi_done = Inr True, pi_ended = False\<rparr>] \<and> 12 - t \<ge> Fin (1 / 5))"
proof -
  let ?s = "\<lparr>ls_timeout_s = 5, ls_dwell_s = Fin (1 / 5), ls_leg_end = None, ls_settled_since = None, ls_report_at = None\<rparr>"
  let ?p = "\<lambda>t. \<lparr>pi_now = t, pi_fresh = True, pi_done = Inr True, pi_ended = False\<rparr>"
  let ?s1 = "?s\<lparr>ls_leg_end := Some 10, ls_settled_since := Some 11\<rparr>"
  let ?v = "\<lparr>sv_state = SETTLED, sv_elapsed_s = 2, sv_remaining_s = 3\<rparr>"
  have a: "polls (ls_begin ?s (Some 10)) [?p 11] = Inr ?s1" by (simp add: ls_begin_def ls_poll_def ls_dwell_update_def Let_def)
  have b: "ls_poll (pi_now (?p 12)) (pi_fresh (?p 12)) (pi_done (?p 12)) (pi_ended (?p 12)) ?s1 = (Inr (Some ?v), ?s1)"
    by (simp add: ls_poll_def ls_dwell_update_def ls_verdict_def Let_def)
  have "\<exists>t. stopped_since t ([?p 11] @ [?p 12]) \<and> pi_now (?p 12) - t \<ge> ls_dwell_s ?s"
    using settled_means_dwelled [OF a _ _ _ b] by simp
  then show ?thesis using a b by auto
qed

end
