(* ===== verification/Plan_Wire.thy ===== *)
theory Plan_Wire
  imports Executor Motor_Wire Settling
begin

text \<open>
  \<^verbatim>\<open>arm_control/contracts/motion.py\<close>: the planned leg on its way from planner to controller, and the events that
  come back. A message is the JSON object itself (\<^verbatim>\<open>json.dumps\<close> and \<^verbatim>\<open>json.loads\<close> are the standard library's), with
  the keys the packers write; a value the code may find null is an option.
\<close>

subsection \<open>The completion rule\<close>

record completion_dict =
  cd_vel_tol :: "fl option"
  cd_goal_q :: "vec option"
  cd_residual_max :: "fl option"
  cd_other :: "string list"

record completion_spec =
  cp_vel_tol :: fl
  cp_goal_q :: "vec option"
  cp_residual_max :: "fl option"

definition completion_body :: "completion_dict option \<Rightarrow> completion_spec option result" where
  "completion_body completion =
     (case completion of
        None \<Rightarrow> Inr None
      | Some c \<Rightarrow>
          if cd_other c \<noteq> [] then Inl (ValueError ''pack_plan: unknown completion key(s)'')
          else if cd_goal_q c \<noteq> None \<and> cd_residual_max c = None then Inl (ValueError ''pack_plan: completion goal_q needs a residual_max'')
          else (case cd_vel_tol c of
                  None \<Rightarrow> Inl KeyError
                | Some v \<Rightarrow> Inr (Some \<lparr>cp_vel_tol = v, cp_goal_q = cd_goal_q c, cp_residual_max = cd_residual_max c\<rparr>)))"

subsection \<open>The Cartesian law\<close>

text \<open>\<^verbatim>\<open>np.asarray(v, dtype=float)\<close> of a value: rows of different lengths raise.\<close>

fun regular :: "arr \<Rightarrow> bool" where
  "regular (Rows m) \<longleftrightarrow> rectangular m (mat_cols m)"
| "regular _ \<longleftrightarrow> True"

definition cartesian_lists :: "cartesian_spec \<Rightarrow> (mat \<times> vec \<times> vec) result" where
  "cartesian_lists spec =
     (if list_ex (\<lambda>a. case a of None \<Rightarrow> False | Some v \<Rightarrow> \<not> regular v) [cs_task_R spec, cs_kc spec, cs_dc spec]
      then Inl (ValueError ''setting an array element with a sequence'')
      else bindr (cartesian_values spec) (\<lambda>vs.
        Inr ([take 3 vs, take 3 (drop 3 vs), take 3 (drop 6 vs)], take 6 (drop 9 vs), take 6 (drop 15 vs))))"

definition cartesian_of_lists :: "mat \<times> vec \<times> vec \<Rightarrow> cartesian_spec" where
  "cartesian_of_lists l =
     (case l of (task_R, kc, dc) \<Rightarrow>
        \<lparr>cs_frame = Some ''base'', cs_task_R = Some (Rows task_R), cs_kc = Some (Row kc), cs_dc = Some (Row dc), cs_other = []\<rparr>)"

definition checked_cartesian :: "cartesian_spec option \<Rightarrow> cartesian_spec option result" where
  "checked_cartesian c =
     (case c of None \<Rightarrow> Inr None | Some spec \<Rightarrow> bindr (cartesian_lists spec) (\<lambda>l. Inr (Some (cartesian_of_lists l))))"

subsection \<open>The plan\<close>

record plan_body =
  pb_plan_id :: string
  pb_phase :: string
  pb_gated :: bool
  pb_times :: vec
  pb_positions :: mat
  pb_velocities :: mat
  pb_kp :: vec
  pb_kd :: vec
  pb_completion :: "completion_spec option"
  pb_model_token :: "string option"
  pb_cartesian_poses :: "mat option"
  pb_cartesian :: "cartesian_spec option"

text \<open>The unpacked plan: the arrays the policy judges, and the rest of the leg.\<close>

record leg = plan +
  lg_plan_id :: string
  lg_phase :: string
  lg_gated :: bool
  lg_completion :: "completion_spec option"
  lg_model_token :: "string option"

text \<open>\<^verbatim>\<open>np.asarray(m).reshape(n, -1)\<close> and \<^verbatim>\<open>.reshape(n, j)\<close>.\<close>

definition reshape_rows :: "nat \<Rightarrow> mat \<Rightarrow> mat result" where
  "reshape_rows n m =
     (let flat = concat m in
      if \<not> rectangular m (mat_cols m) \<or> n = 0 \<or> length flat mod n \<noteq> 0 then Inl (ValueError ''cannot reshape array'')
      else Inr (reshape n (length flat div n) flat))"

definition reshape_to :: "nat \<Rightarrow> nat \<Rightarrow> mat \<Rightarrow> mat result" where
  "reshape_to n j m =
     (if \<not> rectangular m (mat_cols m) \<or> length (concat m) \<noteq> n * j then Inl (ValueError ''cannot reshape array'')
      else Inr (reshape n j (concat m)))"

definition pack_plan :: "string \<Rightarrow> string \<Rightarrow> bool \<Rightarrow> vec \<Rightarrow> mat \<Rightarrow> mat \<Rightarrow> vec \<Rightarrow> vec \<Rightarrow> mat option \<Rightarrow> cartesian_spec option \<Rightarrow>
    completion_dict option \<Rightarrow> string option \<Rightarrow> plan_body result" where
  "pack_plan plan_id phase gated ts positions velocities kp kd cartesian_poses cartesian completion model_token =
     (let n = length ts in
      bindr (reshape_rows n positions) (\<lambda>q.
      bindr (reshape_to n (mat_cols q) velocities) (\<lambda>qd.
      bindr (completion_body completion) (\<lambda>comp.
      bindr (case cartesian_poses of None \<Rightarrow> Inr None | Some m \<Rightarrow> bindr (reshape_to n 7 m) (\<lambda>r. Inr (Some r))) (\<lambda>poses.
      bindr (checked_cartesian cartesian) (\<lambda>cart.
      Inr \<lparr>pb_plan_id = plan_id, pb_phase = phase, pb_gated = gated, pb_times = ts, pb_positions = q, pb_velocities = qd, pb_kp = kp, pb_kd = kd,
           pb_completion = comp, pb_model_token = model_token, pb_cartesian_poses = poses, pb_cartesian = cart\<rparr>))))))"

definition unpack_plan :: "plan_body \<Rightarrow> leg result" where
  "unpack_plan body =
     (let n = length (pb_times body); ragged = (\<lambda>m. \<not> rectangular m (mat_cols m)) in
      bindr (ensure (length (pb_positions body) = n) (ValueError ''unpack_plan: positions rows'')) (\<lambda>_.
      bindr (ensure (length (pb_velocities body) = n) (ValueError ''unpack_plan: velocities rows'')) (\<lambda>_.
      bindr (ensure (\<not> ragged (pb_positions body) \<and> \<not> ragged (pb_velocities body) \<and>
                (case pb_cartesian_poses body of None \<Rightarrow> True | Some m \<Rightarrow> \<not> ragged m))
              (ValueError ''setting an array element with a sequence'')) (\<lambda>_.
      bindr (checked_cartesian (pb_cartesian body)) (\<lambda>cart.
      Inr \<lparr>pl_times = pb_times body, pl_positions = pb_positions body, pl_velocities = pb_velocities body, pl_kp = pb_kp body, pl_kd = pb_kd body,
           pl_cartesian_poses = pb_cartesian_poses body, pl_cartesian = cart, lg_plan_id = pb_plan_id body, lg_phase = pb_phase body,
           lg_gated = pb_gated body, lg_completion = pb_completion body, lg_model_token = pb_model_token body\<rparr>)))))"

subsection \<open>Controller events\<close>

record mode_state =
  md_law :: string
  md_kp :: vec
  md_kd :: vec

definition mode_state_body :: "mode_state \<Rightarrow> mode_state result" where
  "mode_state_body s =
     (if md_law s \<notin> {''joint'', ''soft''} then Inl (ValueError ''mode_state requires law joint or soft'')
      else if md_kp s = [] \<or> length (md_kd s) \<noteq> length (md_kp s) \<or> \<not> all_finite (md_kp s) \<or> \<not> all_finite (md_kd s)
      then Inl (ValueError ''mode_state requires matching finite gain arrays'') else Inr s)"

definition controller_velocity :: "vec option \<Rightarrow> vec \<Rightarrow> vec result" where
  "controller_velocity q qd =
     (if (case q of None \<Rightarrow> True | Some p \<Rightarrow> p = [] \<or> length qd \<noteq> length p) \<or> \<not> all_finite qd
      then Inl (ValueError ''controller event qd requires a finite velocity vector matching q'') else Inr qd)"

record completion_progress =
  cg_state :: settle_state
  cg_elapsed_s :: fl
  cg_remaining_s :: fl
  cg_joint :: "int option"
  cg_error_rad :: "fl option"
  cg_position_tolerance_rad :: "fl option"
  cg_speed_rad_s :: fl
  cg_velocity_tolerance_rad_s :: fl
  cg_hand :: "(fl \<times> fl \<times> fl \<times> fl) option"

definition bad_progress :: "fl \<Rightarrow> bool" where
  "bad_progress x \<longleftrightarrow> \<not> isfinite x \<or> x < 0"

definition check_progress :: "completion_progress \<Rightarrow> completion_progress result" where
  "check_progress c =
     (if cg_state c \<notin> {SETTLING, TIMED_OUT} then Inl (ValueError ''invalid completion progress state'')
      else if list_ex bad_progress [cg_elapsed_s c, cg_remaining_s c, cg_speed_rad_s c, cg_velocity_tolerance_rad_s c]
      then Inl (ValueError ''invalid completion progress'')
      else if list_ex (\<lambda>v. case v of None \<Rightarrow> False | Some x \<Rightarrow> bad_progress x) [cg_error_rad c, cg_position_tolerance_rad c]
      then Inl (ValueError ''invalid completion progress'')
      else if (case cg_joint c of None \<Rightarrow> False | Some j \<Rightarrow> j < 1) then Inl (ValueError ''completion joint must be a positive one-based index'')
      else Inr c)"

record runtime_state =
  rs_session_id :: string
  rs_model_token :: "string option"
  rs_n_arm :: nat
  rs_armed :: bool
  rs_ready :: bool
  rs_executing :: bool
  rs_stopped :: bool
  rs_frozen :: bool
  rs_plan_id :: string

definition runtime_state_body :: "runtime_state \<Rightarrow> runtime_state result" where
  "runtime_state_body v =
     (if rs_session_id v = [] then Inl (ValueError ''runtime_state requires a controller session'')
      else if rs_n_arm v = 0 then Inl (ValueError ''runtime_state requires a positive joint count'') else Inr v)"

record controller_event =
  ce_kind :: string
  ce_plan_id :: string
  ce_ok :: bool
  ce_reason :: string
  ce_q :: "vec option"
  ce_qd :: "vec option"
  ce_mode_state :: "mode_state option"
  ce_completion :: "completion_progress option"
  ce_runtime_state :: "runtime_state option"

text \<open>The keyword arguments of \<^verbatim>\<open>pack_controller_event\<close> with their defaults.\<close>

definition event_args :: "string \<Rightarrow> controller_event" where
  "event_args kind = \<lparr>ce_kind = kind, ce_plan_id = [], ce_ok = True, ce_reason = [], ce_q = None, ce_qd = None, ce_mode_state = None,
     ce_completion = None, ce_runtime_state = None\<rparr>"

definition EVENT_KINDS :: "string list" where
  "EVENT_KINDS = [''ready'', ''leg_result'', ''leg_progress'', ''fault'', ''mode'', ''plan_staged'', ''plan_cleared'']"

definition opt_check :: "('a \<Rightarrow> 'a result) \<Rightarrow> 'a option \<Rightarrow> 'a option result" where
  "opt_check f v = (case v of None \<Rightarrow> Inr None | Some x \<Rightarrow> bindr (f x) (\<lambda>y. Inr (Some y)))"

definition pack_controller_event :: "controller_event \<Rightarrow> controller_event result" where
  "pack_controller_event e =
     bindr (ensure (ce_kind e \<in> set EVENT_KINDS) (ValueError ''pack_controller_event: unknown kind'')) (\<lambda>_.
     bindr (opt_check (controller_velocity (ce_q e)) (ce_qd e)) (\<lambda>qd.
     bindr (opt_check mode_state_body (ce_mode_state e)) (\<lambda>m.
     bindr (opt_check check_progress (ce_completion e)) (\<lambda>c.
     bindr (opt_check runtime_state_body (ce_runtime_state e)) (\<lambda>r.
     Inr (e\<lparr>ce_qd := qd, ce_mode_state := m, ce_completion := c, ce_runtime_state := r\<rparr>))))))"

definition unpack_controller_event :: "controller_event \<Rightarrow> controller_event result" where
  "unpack_controller_event b =
     bindr (ensure (ce_kind b \<in> set EVENT_KINDS) (ValueError ''unknown controller event kind'')) (\<lambda>_.
     bindr (opt_check (controller_velocity (ce_q b)) (ce_qd b)) (\<lambda>qd.
     bindr (opt_check mode_state_body (ce_mode_state b)) (\<lambda>m.
     bindr (opt_check check_progress (ce_completion b)) (\<lambda>c.
     bindr (opt_check runtime_state_body (ce_runtime_state b)) (\<lambda>r.
     Inr (b\<lparr>ce_qd := qd, ce_mode_state := m, ce_completion := c, ce_runtime_state := r\<rparr>))))))"

subsection \<open>Round trips\<close>

lemma concat_of_reshape: "length v = n * j \<Longrightarrow> concat (reshape n j v) = v"
proof (induction n arbitrary: v)
  case (Suc n)
  have "reshape (Suc n) j v = take j v # reshape n j (drop j v)"
    unfolding reshape_def by (subst upt_conv_Cons) (simp_all add: map_Suc_upt [symmetric] o_def add.commute del: upt_Suc)
  then show ?case using Suc.IH [of "drop j v"] Suc.prems by simp
qed (simp add: reshape_def)

lemma reshape_rectangular:
  assumes "length v = n * j"
  shows "rectangular (reshape n j v) (mat_cols (reshape n j v))" "length (reshape n j v) = n"
proof -
  have "length (take j (drop (i * j) v)) = j" if "i < n" for i
  proof -
    have "Suc i * j \<le> n * j" using that by (intro mult_le_mono1) simp
    then show ?thesis using assms by simp
  qed
  then have "rectangular (reshape n j v) j" by (simp add: rectangular_def reshape_def list_all_length)
  moreover have "reshape n j v \<noteq> [] \<Longrightarrow> mat_cols (reshape n j v) = j"
    using \<open>rectangular (reshape n j v) j\<close> by (cases "reshape n j v") (auto simp: mat_cols_def rectangular_def)
  ultimately show "rectangular (reshape n j v) (mat_cols (reshape n j v))"
    by (cases "reshape n j v = []") (simp_all add: rectangular_def)
  show "length (reshape n j v) = n" by (simp add: reshape_def)
qed

lemma reshape_rows_Inr:
  "reshape_rows n m = Inr q \<Longrightarrow> concat q = concat m \<and> length q = n \<and> rectangular q (mat_cols q)"
proof -
  assume "reshape_rows n m = Inr q"
  then have q: "q = reshape n (length (concat m) div n) (concat m)" and "length (concat m) = n * (length (concat m) div n)"
    by (auto simp: reshape_rows_def Let_def split: if_splits)
  then show ?thesis using concat_of_reshape [of "concat m" n] reshape_rectangular [of "concat m" n] unfolding q by metis
qed

lemma reshape_to_Inr:
  "reshape_to n j m = Inr q \<Longrightarrow> concat q = concat m \<and> length q = n \<and> rectangular q (mat_cols q)"
  by (auto simp: reshape_to_def concat_of_reshape reshape_rectangular split: if_splits)

lemma cartesian_shape:
  assumes "cartesian_values spec = Inr vs"
  shows "cartesian_values (cartesian_of_lists ([take 3 vs, take 3 (drop 3 vs), take 3 (drop 6 vs)], take 6 (drop 9 vs), take 6 (drop 15 vs))) = Inr vs"
proof -
  obtain rows kc dc where v: "vs = concat rows @ kc @ dc" "length rows = 3" "\<forall>r \<in> set rows. length r = 3" "length kc = 6" "length dc = 6"
    and ok: "all_finite (concat rows @ kc @ dc)" "\<not> orthonormal_err rows" "\<not> fabs (det3 rows - 1) > Fin (1 / 10 ^ 6)"
      "\<not> list_ex (\<lambda>(x, cap). \<not> (0 \<le> x \<and> x \<le> cap)) (zip (kc @ dc) gain_caps)"
    using assms by (auto simp: cartesian_values_def list_ex_iff split: option.splits list.splits if_splits)
  obtain a b c where r: "rows = [a, b, c]" using v(2) by (auto simp: numeral_eq_Suc length_Suc_conv)
  have "[take 3 vs, take 3 (drop 3 vs), take 3 (drop 6 vs)] = rows" "take 6 (drop 9 vs) = kc" "take 6 (drop 15 vs) = dc"
    using v r by simp_all
  then show ?thesis using v ok by (simp add: cartesian_of_lists_def cartesian_values_def conv_value_error_def list_ex_iff)
qed

lemma checked_cartesian_again:
  assumes "checked_cartesian c = Inr d"
  shows "checked_cartesian d = Inr d \<and> (d = None) = (c = None) \<and> map_option cartesian_values d = map_option cartesian_values c"
proof (cases c)
  case (Some spec)
  then obtain vs where vs: "cartesian_values spec = Inr vs"
    and d: "d = Some (cartesian_of_lists ([take 3 vs, take 3 (drop 3 vs), take 3 (drop 6 vs)], take 6 (drop 9 vs), take 6 (drop 15 vs)))"
    using assms by (auto simp: checked_cartesian_def cartesian_lists_def split: if_splits)
  have len: "length vs = 21" using cartesian_values_length [OF vs] .
  show ?thesis
    using Some vs d cartesian_shape [OF vs] len
    by (simp add: checked_cartesian_def cartesian_lists_def cartesian_of_lists_def rectangular_def mat_cols_def)
qed (use assms in \<open>simp add: checked_cartesian_def\<close>)

text \<open>
  C35: a plan survives the wire. Whatever \<open>pack_plan\<close> accepts, \<open>unpack_plan\<close> decodes; the decoded leg has the name, the
  gate, the times, the gains, the completion rule and the model token that were packed, one position and one velocity row per time
  with the packed entries in order, and a Cartesian law that validates to the same 21 wire values.
\<close>

theorem plan_roundtrip:
  assumes "pack_plan plan_id phase gated ts positions velocities kp kd poses cartesian completion token = Inr body"
  shows "\<exists>leg. unpack_plan body = Inr leg \<and> lg_plan_id leg = plan_id \<and> lg_phase leg = phase \<and> lg_gated leg = gated \<and> pl_times leg = ts \<and>
     pl_kp leg = kp \<and> pl_kd leg = kd \<and> completion_body completion = Inr (lg_completion leg) \<and> lg_model_token leg = token \<and>
     length (pl_positions leg) = length ts \<and> concat (pl_positions leg) = concat positions \<and>
     length (pl_velocities leg) = length ts \<and> concat (pl_velocities leg) = concat velocities \<and>
     map_option concat (pl_cartesian_poses leg) = map_option concat poses \<and>
     map_option cartesian_values (pl_cartesian leg) = map_option cartesian_values cartesian"
proof -
  obtain q qd comp ps cart where r: "reshape_rows (length ts) positions = Inr q" "reshape_to (length ts) (mat_cols q) velocities = Inr qd"
      "completion_body completion = Inr comp" "checked_cartesian cartesian = Inr cart"
      "(case poses of None \<Rightarrow> Inr None | Some m \<Rightarrow> bindr (reshape_to (length ts) 7 m) (\<lambda>r. Inr (Some r))) = Inr ps"
    and b: "body = \<lparr>pb_plan_id = plan_id, pb_phase = phase, pb_gated = gated, pb_times = ts, pb_positions = q, pb_velocities = qd, pb_kp = kp, pb_kd = kd,
           pb_completion = comp, pb_model_token = token, pb_cartesian_poses = ps, pb_cartesian = cart\<rparr>"
    using assms by (auto simp: pack_plan_def Let_def)
  have ps: "map_option concat ps = map_option concat poses \<and> (\<forall>m. ps = Some m \<longrightarrow> rectangular m (mat_cols m))"
    using r(5) reshape_to_Inr by (cases poses) force+
  show ?thesis
    using reshape_rows_Inr [OF r(1)] reshape_to_Inr [OF r(2)] checked_cartesian_again [OF r(4)] ps r(3)
    by (simp add: b unpack_plan_def Let_def split: option.split)
qed

theorem plan_roundtrip_witness:
  "\<exists>body leg. pack_plan ''p1'' ''reach'' True [0, 1] [[0, 0], [1, 2]] [[0, 0], [0, 0]] [9, 9] [1, 1] None (Some demo_cartesian) None None = Inr body \<and>
     unpack_plan body = Inr leg \<and> lg_plan_id leg = ''p1'' \<and> concat (pl_positions leg) = [0, 0, 1, 2]"
proof -
  have c: "cartesian_values demo_cartesian = Inr ([1, 0, 0, 0, 1, 0, 0, 0, 1] @ replicate 6 50 @ replicate 6 5)"
    by (simp add: cartesian_values_def demo_cartesian_def orthonormal_err_def row_dot_def det3_def gain_caps_def upt_rec numeral_eq_Suc)
  have "\<exists>body. pack_plan ''p1'' ''reach'' True [0, 1] [[0, 0], [1, 2]] [[0, 0], [0, 0]] [9, 9] [1, 1] None (Some demo_cartesian) None None = Inr body"
    by (simp add: pack_plan_def reshape_rows_def reshape_to_def reshape_def completion_body_def checked_cartesian_def cartesian_lists_def c rectangular_def
        mat_cols_def Let_def upt_rec numeral_2_eq_2 [symmetric]) (simp add: demo_cartesian_def rectangular_def mat_cols_def)
  then obtain body where b: "pack_plan ''p1'' ''reach'' True [0, 1] [[0, 0], [1, 2]] [[0, 0], [0, 0]] [9, 9] [1, 1] None (Some demo_cartesian) None None = Inr body" ..
  from plan_roundtrip [OF b] b show ?thesis by auto
qed

lemma opt_checks_keep:
  "opt_check (controller_velocity q) v = Inr w \<Longrightarrow> w = v" "opt_check mode_state_body m = Inr m' \<Longrightarrow> m' = m"
  "opt_check check_progress c = Inr c' \<Longrightarrow> c' = c" "opt_check runtime_state_body r = Inr r' \<Longrightarrow> r' = r"
  by (auto simp: opt_check_def controller_velocity_def mode_state_body_def check_progress_def runtime_state_body_def
      split: if_splits option.splits)

lemma pack_event_same: "pack_controller_event e = Inr b \<Longrightarrow> b = e"
  by (auto simp: pack_controller_event_def) (auto dest!: opt_checks_keep)

text \<open>The receiver accepts exactly the events the sender may send, and reads them as they were sent.\<close>

lemma event_roundtrip:
  "unpack_controller_event b = Inr e \<longleftrightarrow> pack_controller_event b = Inr b \<and> e = b"
proof -
  have "(\<exists>e. unpack_controller_event b = Inr e) \<longleftrightarrow> (\<exists>e. pack_controller_event b = Inr e)"
    by (auto simp: pack_controller_event_def unpack_controller_event_def)
  moreover have "e' = b" if "unpack_controller_event b = Inr e'" for e'
    using that by (auto simp: unpack_controller_event_def) (auto dest!: opt_checks_keep)
  ultimately show ?thesis by (metis pack_event_same)
qed

end
