(* ===== verification/Jog.thy ===== *)
theory Jog
  imports Floats
begin

text \<open>
  \<^verbatim>\<open>arm_control/control/jog_hold.py\<close>: the jog setpoint that dies of old age, and the ramp that saturates a
  streamed target. The clock reading of a call is its argument \<open>now\<close>, as in the code.
\<close>

subsection \<open>JogHold\<close>

record JogHold =
  jh_timeout_s :: fl
  jh_n_joints :: nat
  jh_q :: "vec option"
  jh_at :: fl
  jh_expired :: bool

definition mk_JogHold :: "fl \<Rightarrow> nat \<Rightarrow> JogHold result" where
  "mk_JogHold timeout n =
     (if \<not> (isfinite timeout \<and> timeout > 0) then Inl (ValueError ''jog_timeout_s must be finite and positive'')
      else Inr \<lparr>jh_timeout_s = timeout, jh_n_joints = n, jh_q = None, jh_at = 0, jh_expired = False\<rparr>)"

definition jh_set :: "JogHold \<Rightarrow> vec \<Rightarrow> fl \<Rightarrow> JogHold result" where
  "jh_set h q now =
     (if length q \<noteq> jh_n_joints h then Inl (ValueError ''jog q has the wrong number of values'')
      else Inr (h\<lparr>jh_q := Some q, jh_at := now\<rparr>))"

definition jh_clear :: "JogHold \<Rightarrow> JogHold" where
  "jh_clear h = h\<lparr>jh_q := None, jh_expired := False\<rparr>"

definition jh_active :: "JogHold \<Rightarrow> bool" where
  "jh_active h \<longleftrightarrow> jh_q h \<noteq> None"

definition jh_target :: "JogHold \<Rightarrow> fl \<Rightarrow> vec option \<times> JogHold" where
  "jh_target h now =
     (case jh_q h of
        None \<Rightarrow> (None, h)
      | Some q \<Rightarrow>
          if now - jh_at h > jh_timeout_s h then (None, h\<lparr>jh_q := None, jh_expired := True\<rparr>) else (Some q, h))"

definition jh_take_expired :: "JogHold \<Rightarrow> bool \<times> JogHold" where
  "jh_take_expired h = (jh_expired h, h\<lparr>jh_expired := False\<rparr>)"

subsection \<open>JogRamp\<close>

record JogRamp =
  jr_v_max :: vec
  jr_a_max :: vec
  jr_lower :: "vec option"
  jr_upper :: "vec option"
  jr_q :: "vec option"
  jr_v :: vec

definition mk_JogRamp :: "vec \<Rightarrow> vec \<Rightarrow> vec option \<Rightarrow> vec option \<Rightarrow> JogRamp result" where
  "mk_JogRamp v_max a_max lower upper =
     (if (case (lower, upper) of
            (None, None) \<Rightarrow> False
          | (Some lo, Some hi) \<Rightarrow> \<not> (length lo = length hi \<and> length hi = length v_max \<and> all_finite lo \<and> all_finite hi \<and> list_all2 (\<le>) lo hi)
          | _ \<Rightarrow> True)
      then Inl (ValueError ''jog ramp envelope: both bounds or neither, finite, lower <= upper, one per joint'')
      else if length v_max \<noteq> length a_max \<or> \<not> (all_finite v_max \<and> all_finite a_max \<and> list_all (\<lambda>x. x > 0) v_max \<and> list_all (\<lambda>x. x > 0) a_max)
      then Inl (ValueError ''jog ramp limits must be finite, positive and one per joint'')
      else Inr \<lparr>jr_v_max = v_max, jr_a_max = a_max, jr_lower = lower, jr_upper = upper, jr_q = None, jr_v = zeros (length v_max)\<rparr>)"

definition jr_reset :: "JogRamp \<Rightarrow> JogRamp" where
  "jr_reset r = r\<lparr>jr_q := None\<rparr>"

text \<open>
  One joint of one tick. \<open>speed_cap\<close> is the fastest speed from which braking one tick at a time still stops
  on the target; \<open>ramp_speed\<close> is the new speed before the position envelope; \<open>ramp_joint\<close> the new
  command and speed.
\<close>

definition speed_cap :: "fl \<Rightarrow> fl \<Rightarrow> fl \<Rightarrow> fl \<Rightarrow> fl" where
  "speed_cap v_max a_max dt error =
     (let step = a_max * dt in np_min v_max (step * (fsqrt (Fin (1 / 4) + 2 * fabs error / (step * dt)) - Fin (1 / 2))))"

definition ramp_speed :: "fl \<Rightarrow> fl \<Rightarrow> fl \<Rightarrow> fl \<Rightarrow> fl \<Rightarrow> fl" where
  "ramp_speed v_max a_max dt error v =
     (let cap = speed_cap v_max a_max dt error;
          v1 = np_clip (np_clip (error / dt) (- cap) cap) (v - a_max * dt) (v + a_max * dt) in
      if (error - v1 * dt) * error < 0 \<and> fabs (error / dt - v) \<le> a_max * dt then error / dt else v1)"

definition ramp_joint :: "fl \<Rightarrow> fl \<Rightarrow> (fl \<times> fl) option \<Rightarrow> fl \<Rightarrow> fl \<Rightarrow> fl \<Rightarrow> fl \<Rightarrow> fl \<times> fl" where
  "ramp_joint v_max a_max band dt target q v =
     (let v' = ramp_speed v_max a_max dt (target - q) v; q' = q + v' * dt in
      case band of
        None \<Rightarrow> (q', v')
      | Some (lower, upper) \<Rightarrow>
          let low = np_min lower (np_min target q); high = np_max upper (np_max target q) in
          (np_clip q' low high, if q' < low \<or> q' > high then 0 else v'))"

definition jr_band :: "JogRamp \<Rightarrow> nat \<Rightarrow> (fl \<times> fl) option" where
  "jr_band r i = (case (jr_lower r, jr_upper r) of (Some lo, Some hi) \<Rightarrow> Some (lo ! i, hi ! i) | _ \<Rightarrow> None)"

text \<open>Targets and poses have one entry per joint; other shapes are refused the way numpy refuses them.\<close>

definition jr_step :: "JogRamp \<Rightarrow> vec \<Rightarrow> vec \<Rightarrow> fl \<Rightarrow> vec result \<times> JogRamp" where
  "jr_step r target measured dt =
     (let n = length (jr_v_max r);
          r1 = (case jr_q r of None \<Rightarrow> r\<lparr>jr_q := Some measured, jr_v := zeros n\<rparr> | Some _ \<Rightarrow> r);
          q = the (jr_q r1) in
      if length target \<noteq> n \<or> length q \<noteq> n then (Inl (ValueError ''operands could not be broadcast together''), r1)
      else
        let out = map (\<lambda>i. ramp_joint (jr_v_max r ! i) (jr_a_max r ! i) (jr_band r i) dt (target ! i) (q ! i) (jr_v r1 ! i)) [0..<n] in
        (Inr (map fst out), r1\<lparr>jr_q := Some (map fst out), jr_v := map snd out\<rparr>))"

subsection \<open>The deadman\<close>

text \<open>The controller's use: ask for the target, then take the expiry, once per tick.\<close>

fun jog_polls :: "JogHold \<Rightarrow> fl list \<Rightarrow> (vec option \<times> bool) list" where
  "jog_polls h [] = []"
| "jog_polls h (t # ts) =
     (let (q, h1) = jh_target h t; (e, h2) = jh_take_expired h1 in (q, e) # jog_polls h2 ts)"

lemma jog_polls_empty: "jh_q h = None \<Longrightarrow> \<not> jh_expired h \<Longrightarrow> jog_polls h ts = map (\<lambda>_. (None, False)) ts"
  by (induction ts arbitrary: h) (auto simp: jh_target_def jh_take_expired_def)

text \<open>
  C20: a jog that is not renewed stops, and is reported stopped exactly once. After a setpoint is taken at
  \<open>t0\<close>, the ticks that follow see it for as long as they come within the timeout; the first tick past the
  timeout sees no setpoint and the expiry, and every later one sees neither.
\<close>

theorem jog_deadman:
  assumes "jh_set h q t0 = Inr h1" and "\<not> jh_expired h"
  shows "jog_polls h1 ts =
     (let live = takeWhile (\<lambda>t. \<not> t - t0 > jh_timeout_s h) ts in
      map (\<lambda>_. (Some q, False)) live @
      (case drop (length live) ts of [] \<Rightarrow> [] | _ # rest \<Rightarrow> (None, True) # map (\<lambda>_. (None, False)) rest))"
proof -
  have h1: "jh_q h1 = Some q" "jh_at h1 = t0" "jh_timeout_s h1 = jh_timeout_s h" "\<not> jh_expired h1"
    using assms(1,2) by (auto simp: jh_set_def split: if_splits)
  then show ?thesis unfolding Let_def
  proof (induction ts arbitrary: h1)
    case (Cons t ts)
    then show ?case using jog_polls_empty by (auto simp: jh_target_def jh_take_expired_def)
  qed simp
qed

subsection \<open>The ramp\<close>

lemma speed_cap_Fin:
  assumes "0 < vm" "0 < a" "0 < (dt :: real)"
  shows "\<exists>c. speed_cap (Fin vm) (Fin a) (Fin dt) (Fin e) = Fin c \<and> 0 \<le> c \<and> c \<le> vm \<and> (e \<noteq> 0 \<longrightarrow> 0 < c)"
proof -
  have pos: "0 < a * dt * dt" "0 < a * dt" using assms by simp_all
  have "1 / 4 \<le> 1 / 4 + 2 * \<bar>e\<bar> / (a * dt * dt)" using pos by simp
  then have "sqrt (1 / 4) \<le> sqrt (1 / 4 + 2 * \<bar>e\<bar> / (a * dt * dt))" by (rule real_sqrt_le_mono)
  moreover have "sqrt (1 / 4) = (1 / 2 :: real)" by (simp add: real_sqrt_divide)
  ultimately have "0 \<le> a * dt * (sqrt (1 / 4 + 2 * \<bar>e\<bar> / (a * dt * dt)) - 1 / 2)" using pos by simp
  moreover have "\<not> 1 / 4 + 2 * \<bar>e\<bar> / (a * dt * dt) < 0" using pos by (simp add: not_less)
  moreover have "0 < a * dt * (sqrt (1 / 4 + 2 * \<bar>e\<bar> / (a * dt * dt)) - 1 / 2)" if "e \<noteq> 0"
  proof -
    have "1 / 4 < 1 / 4 + 2 * \<bar>e\<bar> / (a * dt * dt)" using pos that by simp
    then have "sqrt (1 / 4) < sqrt (1 / 4 + 2 * \<bar>e\<bar> / (a * dt * dt))" by (rule real_sqrt_less_mono)
    moreover have "sqrt (1 / 4) = (1 / 2 :: real)" by (simp add: real_sqrt_divide)
    ultimately show ?thesis using pos by simp
  qed
  ultimately show ?thesis using assms pos by (simp add: speed_cap_def Let_def)
qed

lemma ramp_speed_limits:
  assumes "0 < vm" "0 < a" "0 < (dt :: real)" "\<bar>v\<bar> \<le> vm"
  shows "\<exists>w. ramp_speed (Fin vm) (Fin a) (Fin dt) (Fin e) (Fin v) = Fin w \<and> \<bar>w\<bar> \<le> vm \<and> \<bar>w - v\<bar> \<le> a * dt \<and> (v = 0 \<longrightarrow> sgn w = sgn e)"
proof -
  obtain c where c: "speed_cap (Fin vm) (Fin a) (Fin dt) (Fin e) = Fin c" "0 \<le> c" "c \<le> vm" "e \<noteq> 0 \<longrightarrow> 0 < c"
    using speed_cap_Fin [OF assms(1-3)] by blast
  define x where "x = min (max (e / dt) (- c)) c"
  define v1 where "v1 = min (max x (v - a * dt)) (v + a * dt)"
  have ad: "0 < a * dt" using assms by simp
  have x: "- vm \<le> x" "x \<le> vm" using c by (auto simp: x_def)
  have v1: "\<bar>v1\<bar> \<le> vm" "\<bar>v1 - v\<bar> \<le> a * dt" using x ad assms(4) by (auto simp: v1_def abs_le_iff min_def max_def)
  have eq: "ramp_speed (Fin vm) (Fin a) (Fin dt) (Fin e) (Fin v) =
      Fin (if (e - v1 * dt) * e < 0 \<and> \<bar>e / dt - v\<bar> \<le> a * dt then e / dt else v1)"
    using c assms(3) by (simp add: ramp_speed_def x_def v1_def Let_def)
  have "\<bar>e / dt\<bar> \<le> \<bar>v1\<bar>" if "(e - v1 * dt) * e < 0"
  proof -
    have "e * e < (v1 * dt) * e" using that by (simp add: algebra_simps)
    then have "\<bar>e\<bar> * \<bar>e\<bar> < \<bar>v1 * dt\<bar> * \<bar>e\<bar>" by (metis abs_ge_self abs_mult abs_mult_self_eq less_le_trans)
    then have "\<bar>e\<bar> < \<bar>v1 * dt\<bar>" by (meson abs_ge_zero mult_right_less_imp_less)
    then show ?thesis using assms(3) by (simp add: abs_mult divide_le_eq)
  qed
  moreover have "sgn v1 = sgn e" if "v = 0"
  proof (cases "e = 0")
    case True
    then show ?thesis using that c(2) ad by (simp add: v1_def x_def)
  next
    case False
    then have "0 < c" using c(4) by simp
    define d where "d = e / dt"
    have "0 < d \<and> 0 < e \<or> d < 0 \<and> e < 0" using False assms(3) by (auto simp: d_def zero_less_divide_iff divide_less_0_iff)
    then show ?thesis using that ad \<open>0 < c\<close> unfolding v1_def x_def d_def [symmetric] by (auto simp: sgn_if min_def max_def)
  qed
  moreover have "sgn (e / dt) = sgn e" using assms(3) by (simp add: sgn_if zero_less_divide_iff)
  ultimately show ?thesis using eq v1 by auto
qed

text \<open>
  What the limits allow one joint to do in one tick. It takes a speed \<open>w\<close> within the limits, towards the target when it was at
  rest, and moves with it; only where that would leave the position limits, widened to the target and the previous command,
  does it stop, on the limit.
\<close>

definition joint_limited :: "real \<Rightarrow> real \<Rightarrow> real \<Rightarrow> (fl \<times> fl) option \<Rightarrow> real \<Rightarrow> real \<Rightarrow> real \<Rightarrow> real \<Rightarrow> real \<Rightarrow> bool" where
  "joint_limited vm a dt band target q v q' v' \<longleftrightarrow>
     \<bar>v'\<bar> \<le> vm \<and> \<bar>q' - q\<bar> \<le> vm * dt \<and>
     (\<exists>w. \<bar>w\<bar> \<le> vm \<and> \<bar>w - v\<bar> \<le> a * dt \<and> (v = 0 \<longrightarrow> sgn w = sgn (target - q)) \<and>
        (case band of
           None \<Rightarrow> q' = q + w * dt \<and> v' = w
         | Some (lo, hi) \<Rightarrow>
             let low = min (val lo) (min target q); high = max (val hi) (max target q) in
             low \<le> q' \<and> q' \<le> high \<and>
             (if low \<le> q + w * dt \<and> q + w * dt \<le> high then q' = q + w * dt \<and> v' = w
              else v' = 0 \<and> q' = (if q + w * dt < low then low else high))))"

lemma ramp_joint_limits:
  assumes "0 < vm" "0 < a" "0 < (dt :: real)" "\<bar>v\<bar> \<le> vm"
    and "case band of None \<Rightarrow> True | Some (lo, hi) \<Rightarrow> isfinite lo \<and> isfinite hi \<and> lo \<le> hi"
  shows "\<exists>q' v'. ramp_joint (Fin vm) (Fin a) band (Fin dt) (Fin target) (Fin q) (Fin v) = (Fin q', Fin v') \<and>
     joint_limited vm a dt band target q v q' v'"
proof -
  obtain w where w: "ramp_speed (Fin vm) (Fin a) (Fin dt) (Fin (target - q)) (Fin v) = Fin w" "\<bar>w\<bar> \<le> vm" "\<bar>w - v\<bar> \<le> a * dt"
      "v = 0 \<longrightarrow> sgn w = sgn (target - q)"
    using ramp_speed_limits [OF assms(1-4)] by blast
  have step: "\<bar>w * dt\<bar> \<le> vm * dt" using w(2) assms(3) by (simp add: abs_mult)
  show ?thesis
  proof (cases band)
    case None
    then have "joint_limited vm a dt band target q v (q + w * dt) w" using w(2-4) step by (auto simp: joint_limited_def)
    then show ?thesis using None w(1) by (simp add: ramp_joint_def)
  next
    case (Some b)
    obtain lo hi where b: "b = (Fin lo, Fin hi)" "lo \<le> hi"
      using assms(5) Some by (cases b) (auto simp: isfinite_iff)
    define l where "l = min lo (min target q)"
    define h where "h = max hi (max target q)"
    define q' where "q' = min (max (q + w * dt) l) h"
    have lh: "l \<le> q" "q \<le> h" "l \<le> h" using b(2) by (auto simp: l_def h_def)
    have "\<bar>q' - q\<bar> \<le> \<bar>w * dt\<bar>" using lh by (auto simp: q'_def min_def max_def abs_le_iff)
    then have mv: "\<bar>q' - q\<bar> \<le> vm * dt" using step by simp
    have in_lh: "l \<le> q'" "q' \<le> h" using lh by (auto simp: q'_def)
    have eq: "ramp_joint (Fin vm) (Fin a) band (Fin dt) (Fin target) (Fin q) (Fin v) =
        (Fin q', if q + w * dt < l \<or> q + w * dt > h then Fin 0 else Fin w)"
      using w(1) by (simp add: ramp_joint_def Some b q'_def l_def h_def Let_def)
    have same: "\<not> (q + w * dt < l \<or> q + w * dt > h) \<Longrightarrow> q' = q + w * dt" using lh by (auto simp: q'_def)
    show ?thesis
    proof (cases "q + w * dt < l \<or> q + w * dt > h")
      case True
      have "joint_limited vm a dt band target q v q' 0"
        unfolding joint_limited_def Some b option.case prod.case val.simps l_def [symmetric] h_def [symmetric] Let_def
        using mv in_lh True lh assms(1) w(2-4) by (intro conjI exI [of _ w]) (auto simp: q'_def)
      moreover have "ramp_joint (Fin vm) (Fin a) band (Fin dt) (Fin target) (Fin q) (Fin v) = (Fin q', Fin 0)"
        unfolding eq using True by (rule if_P [THEN arg_cong])
      ultimately show ?thesis by blast
    next
      case False
      have "joint_limited vm a dt band target q v q' w"
        unfolding joint_limited_def Some b option.case prod.case val.simps l_def [symmetric] h_def [symmetric] Let_def
        using mv in_lh False w(2-4) same [OF False] by (intro conjI exI [of _ w]) auto
      moreover have "ramp_joint (Fin vm) (Fin a) band (Fin dt) (Fin target) (Fin q) (Fin v) = (Fin q', Fin w)"
        unfolding eq using False by (rule if_not_P [THEN arg_cong])
      ultimately show ?thesis by blast
    qed
  qed
qed

text \<open>The states of a ramp in use: finite targets and poses, one control period.\<close>

inductive ramp_reach :: "JogRamp \<Rightarrow> fl \<Rightarrow> JogRamp \<Rightarrow> bool" for r0 dt where
  ramp_new: "ramp_reach r0 dt r0"
| ramp_reset: "ramp_reach r0 dt r \<Longrightarrow> ramp_reach r0 dt (jr_reset r)"
| ramp_step: "ramp_reach r0 dt r \<Longrightarrow> all_finite target \<Longrightarrow> all_finite measured \<Longrightarrow> length measured = length (jr_v_max r) \<Longrightarrow>
    jr_step r target measured dt = (res, r') \<Longrightarrow> ramp_reach r0 dt r'"

definition ramp_ok :: "JogRamp \<Rightarrow> bool" where
  "ramp_ok r \<longleftrightarrow> (let n = length (jr_v_max r) in
     length (jr_a_max r) = n \<and> length (jr_v r) = n \<and>
     (\<forall>q. jr_q r = Some q \<longrightarrow> length q = n \<and> all_finite q) \<and>
     (\<forall>i < n. \<exists>vm a v. jr_v_max r ! i = Fin vm \<and> 0 < vm \<and> jr_a_max r ! i = Fin a \<and> 0 < a \<and> jr_v r ! i = Fin v \<and> \<bar>v\<bar> \<le> vm) \<and>
     (\<forall>i < n. case jr_band r i of None \<Rightarrow> True | Some (lo, hi) \<Rightarrow> isfinite lo \<and> isfinite hi \<and> lo \<le> hi))"

lemma jr_band_upd [simp]: "jr_band (r\<lparr>jr_q := q\<rparr>) = jr_band r" "jr_band (r\<lparr>jr_v := v\<rparr>) = jr_band r"
  by (simp_all add: jr_band_def fun_eq_iff)

lemma mk_JogRamp_ok: "mk_JogRamp v_max a_max lower upper = Inr r \<Longrightarrow> ramp_ok r"
  by (auto simp: mk_JogRamp_def ramp_ok_def jr_band_def zeros_def list_all_length list_all2_conv_all_nth all_finite_conv_nth isfinite_iff Let_def
      split: if_splits option.splits; metis fl_less less_imp_le)

text \<open>The command before a step: the ramp's own, or the measured pose when there is none.\<close>

definition ramp_from :: "JogRamp \<Rightarrow> vec \<Rightarrow> vec" where
  "ramp_from r measured = (case jr_q r of None \<Rightarrow> measured | Some q \<Rightarrow> q)"

definition ramp_v :: "JogRamp \<Rightarrow> vec" where
  "ramp_v r = (case jr_q r of None \<Rightarrow> zeros (length (jr_v_max r)) | Some _ \<Rightarrow> jr_v r)"

lemma jr_step_eq:
  "length target = length (jr_v_max r) \<Longrightarrow> length (ramp_from r measured) = length (jr_v_max r) \<Longrightarrow>
   jr_step r target measured dt =
     (let out = map (\<lambda>i. ramp_joint (jr_v_max r ! i) (jr_a_max r ! i) (jr_band r i) dt (target ! i) (ramp_from r measured ! i) (ramp_v r ! i))
            [0..<length (jr_v_max r)] in
      (Inr (map fst out), r\<lparr>jr_q := Some (map fst out), jr_v := map snd out\<rparr>))"
  by (auto simp: jr_step_def ramp_from_def ramp_v_def Let_def split: option.splits)

lemma ramp_step_joint:
  assumes "ramp_ok r" and "all_finite target" "all_finite measured" "length measured = length (jr_v_max r)"
    and "length target = length (jr_v_max r)" and "0 < dt" and "i < length (jr_v_max r)"
  shows "\<exists>vm a q v q' v'. jr_v_max r ! i = Fin vm \<and> jr_a_max r ! i = Fin a \<and> ramp_from r measured ! i = Fin q \<and> ramp_v r ! i = Fin v \<and>
     ramp_joint (jr_v_max r ! i) (jr_a_max r ! i) (jr_band r i) (Fin dt) (target ! i) (ramp_from r measured ! i) (ramp_v r ! i) = (Fin q', Fin v') \<and>
     joint_limited vm a dt (jr_band r i) (val (target ! i)) q v q' v'"
proof -
  obtain vm a v0 where l: "jr_v_max r ! i = Fin vm" "0 < vm" "jr_a_max r ! i = Fin a" "0 < a" "jr_v r ! i = Fin v0" "\<bar>v0\<bar> \<le> vm"
    using assms(1,7) unfolding ramp_ok_def Let_def by blast
  have band: "case jr_band r i of None \<Rightarrow> True | Some (lo, hi) \<Rightarrow> isfinite lo \<and> isfinite hi \<and> lo \<le> hi"
    using assms(1,7) unfolding ramp_ok_def Let_def by blast
  have "length (ramp_from r measured) = length (jr_v_max r) \<and> all_finite (ramp_from r measured)"
    using assms(1,3,4) by (auto simp: ramp_from_def ramp_ok_def Let_def split: option.splits)
  then obtain q where q: "ramp_from r measured ! i = Fin q" using assms(7) by (metis all_finite_conv_nth isfinite_iff)
  obtain v where v: "ramp_v r ! i = Fin v" "\<bar>v\<bar> \<le> vm"
    using l assms(7) by (cases "jr_q r") (auto simp: ramp_v_def zeros_def)
  obtain t where t: "target ! i = Fin t" using assms(2,5,7) by (metis all_finite_conv_nth isfinite_iff)
  from ramp_joint_limits [OF l(2,4) assms(6) v(2) band, of t q] l q v t show ?thesis by auto
qed

lemma jr_step_keeps:
  assumes "jr_step r target measured dt = (res, r')"
  shows "jr_v_max r' = jr_v_max r" "jr_a_max r' = jr_a_max r" "jr_band r' = jr_band r"
  using assms by (auto simp: jr_step_def jr_band_def Let_def split: option.splits if_splits)

lemma jr_step_ok:
  assumes "ramp_ok r" and "all_finite target" "all_finite measured" "length measured = length (jr_v_max r)" and "0 < dt"
    and "jr_step r target measured (Fin dt) = (res, r')"
  shows "ramp_ok r'"
proof (cases "length target = length (jr_v_max r)")
  case True
  let ?n = "length (jr_v_max r)"
  let ?out = "\<lambda>i. ramp_joint (jr_v_max r ! i) (jr_a_max r ! i) (jr_band r i) (Fin dt) (target ! i) (ramp_from r measured ! i) (ramp_v r ! i)"
  have len: "length (ramp_from r measured) = ?n"
    using assms(1,4) by (auto simp: ramp_from_def ramp_ok_def Let_def split: option.splits)
  have r': "r' = r\<lparr>jr_q := Some (map fst (map ?out [0..<?n])), jr_v := map snd (map ?out [0..<?n])\<rparr>"
    using assms(6) jr_step_eq [OF True len] by (simp add: Let_def)
  have j: "\<exists>q' v' vm. fst (?out i) = Fin q' \<and> snd (?out i) = Fin v' \<and> jr_v_max r ! i = Fin vm \<and> \<bar>v'\<bar> \<le> vm" if "i < ?n" for i
    using ramp_step_joint [OF assms(1-4) True assms(5) that] unfolding joint_limited_def by force
  show ?thesis
    using assms(1) j unfolding ramp_ok_def Let_def r'
    by (simp add: all_finite_conv_nth isfinite_iff) (metis fl.inject)
next
  case False
  have "r' = r\<lparr>jr_q := Some measured, jr_v := zeros (length (jr_v_max r))\<rparr> \<or> r' = r"
    using False assms(6) by (auto simp: jr_step_def Let_def split: option.splits)
  moreover have "ramp_ok (r\<lparr>jr_q := Some measured, jr_v := zeros (length (jr_v_max r))\<rparr>)"
    using assms(1,3,4) unfolding ramp_ok_def Let_def by (simp add: zeros_def) (metis less_imp_le)
  ultimately show ?thesis using assms(1) by auto
qed

lemma jr_reset_ok: "ramp_ok r \<Longrightarrow> ramp_ok (r\<lparr>jr_q := None\<rparr>)"
  unfolding ramp_ok_def Let_def by simp

lemma ramp_reach_ok:
  assumes "ramp_reach r0 (Fin dt) r" and "ramp_ok r0" and "0 < dt"
  shows "ramp_ok r \<and> jr_v_max r = jr_v_max r0 \<and> jr_a_max r = jr_a_max r0 \<and> jr_band r = jr_band r0"
  using assms(1)
proof induction
  case ramp_new
  then show ?case using assms(2) by simp
next
  case (ramp_reset r)
  then show ?case using jr_reset_ok by (simp add: jr_reset_def)
next
  case (ramp_step r target measured res r')
  then show ?case using jr_step_ok [OF _ ramp_step(2,3,4) assms(3) ramp_step(5)] jr_step_keeps [OF ramp_step(5)] by simp
qed

text \<open>
  C19: a streamed target moves the arm no faster than planned motion. For every ramp the constructor accepts
  and however its targets have jumped before, one tick returns a command, and each joint of it moves at most
  \<open>v_max dt\<close>, changes speed by at most \<open>a_max dt\<close>, sets out towards the target when it was at rest, and lies no further past a
  position limit than the target or the previous command does. Only where moving on would pass that limit does the joint stop at
  once, and then exactly on the limit.
\<close>

theorem ramp_respects_limits:
  assumes "mk_JogRamp v_max a_max lower upper = Inr r0" and "ramp_reach r0 (Fin dt) r" and "0 < dt"
    and "all_finite target" "length target = length v_max" and "all_finite measured" "length measured = length v_max"
  shows "\<exists>q' r'. jr_step r target measured (Fin dt) = (Inr q', r') \<and> length q' = length v_max \<and>
     (\<forall>i < length v_max. \<exists>v'. jr_v r' ! i = Fin v' \<and>
        joint_limited (val (v_max ! i)) (val (a_max ! i)) dt (jr_band r0 i) (val (target ! i)) (val (ramp_from r measured ! i))
          (val (ramp_v r ! i)) (val (q' ! i)) v')"
proof -
  have lim: "jr_v_max r0 = v_max" "jr_a_max r0 = a_max" using assms(1) by (auto simp: mk_JogRamp_def split: if_splits)
  have ok: "ramp_ok r" "jr_v_max r = v_max" "jr_a_max r = a_max" "jr_band r = jr_band r0"
    using ramp_reach_ok [OF assms(2) mk_JogRamp_ok [OF assms(1)] assms(3)] lim by auto
  have len: "length (ramp_from r measured) = length (jr_v_max r)"
    using ok(1,2) assms(7) by (auto simp: ramp_from_def ramp_ok_def Let_def split: option.splits)
  show ?thesis
    unfolding jr_step_eq [OF assms(5) [folded ok(2)] len, of "Fin dt"] Let_def
    using ramp_step_joint [OF ok(1) assms(4,6) _ _ assms(3)] assms(5,7) ok(2-4) by fastforce
qed

definition demo_ramp :: JogRamp where
  "demo_ramp = \<lparr>jr_v_max = [1], jr_a_max = [2], jr_lower = Some [Fin (- 2)], jr_upper = Some [1], jr_q = None, jr_v = [0]\<rparr>"

theorem ramp_respects_limits_witness:
  "\<exists>q' r'. jr_step demo_ramp [Fin (1 / 2)] [0] (Fin (1 / 100)) = (Inr q', r') \<and> length q' = 1 \<and> \<bar>val (q' ! 0) - 0\<bar> \<le> 1 / 100"
proof -
  have mk: "mk_JogRamp [1] [2] (Some [Fin (- 2)]) (Some [1]) = Inr demo_ramp"
    by (simp add: mk_JogRamp_def demo_ramp_def zeros_def)
  have "ramp_from demo_ramp [0] = [0]" by (simp add: ramp_from_def demo_ramp_def)
  then show ?thesis
    using ramp_respects_limits [OF mk ramp_new, of "1 / 100" "[Fin (1 / 2)]" "[0]"] by (auto simp: joint_limited_def)
qed

theorem jog_deadman_witness:
  "jog_polls \<lparr>jh_timeout_s = Fin (1 / 5), jh_n_joints = 1, jh_q = Some [3], jh_at = 1, jh_expired = False\<rparr> [Fin (11 / 10), Fin 2, Fin 3] =
     [(Some [3], False), (None, True), (None, False)]"
proof -
  let ?h = "\<lparr>jh_timeout_s = Fin (1 / 5), jh_n_joints = 1, jh_q = None, jh_at = 0, jh_expired = False\<rparr>"
  have "jh_set ?h [3] 1 = Inr (?h\<lparr>jh_q := Some [3], jh_at := 1\<rparr>)" by (simp add: jh_set_def)
  from jog_deadman [OF this, of "[Fin (11 / 10), Fin 2, Fin 3]"] show ?thesis by simp
qed

end
