(* ===== verification/Integral.thy ===== *)
theory Integral
  imports Impedance
begin

text \<open>
  \<^verbatim>\<open>arm_control/control/integral.py\<close>: the clamped joint-position integral torque, advanced once per control
  cycle. A rejected update leaves the state as it was.
\<close>

definition I_WINDOW_RAD :: fl where
  "I_WINDOW_RAD = Fin (2 / 100)"

record IntegralState =
  is_ki :: vec
  is_i_limit :: vec
  is_kp_ref :: "vec option"
  is_bias :: vec
  is_time :: "fl option"
  is_cycle :: "int option"

definition mk_IntegralState :: "nat \<Rightarrow> vec option \<Rightarrow> vec option \<Rightarrow> vec option \<Rightarrow> IntegralState result" where
  "mk_IntegralState n ki i_limit kp_ref =
     bindr (validate_integral_vector ki n) (\<lambda>k.
     bindr (validate_integral_vector i_limit n) (\<lambda>l.
     bindr (ensure (case kp_ref of None \<Rightarrow> True | Some v \<Rightarrow> \<not> (length v \<noteq> n \<or> \<not> all_finite v \<or> list_ex (\<lambda>x. x < 0) v))
              (ValueError ''integral kp_ref must be n finite nonnegative values'')) (\<lambda>_.
     Inr \<lparr>is_ki = k, is_i_limit = l, is_kp_ref = kp_ref, is_bias = zeros n, is_time = None, is_cycle = None\<rparr>)))"

definition is_reset :: "IntegralState \<Rightarrow> IntegralState" where
  "is_reset s = s\<lparr>is_bias := zeros (length (is_bias s)), is_time := None, is_cycle := None\<rparr>"

text \<open>One joint: the integral gain at the present stiffness, and the new bias.\<close>

definition scaled_ki :: "fl \<Rightarrow> fl option \<Rightarrow> fl \<Rightarrow> fl" where
  "scaled_ki ki kp_ref kp =
     (case kp_ref of None \<Rightarrow> ki | Some r \<Rightarrow> ki * np_clip (if r > 0 then kp / r else 1) 0 1)"

definition bias_joint :: "fl \<Rightarrow> fl \<Rightarrow> fl \<Rightarrow> fl \<Rightarrow> fl \<Rightarrow> fl \<Rightarrow> fl" where
  "bias_joint ki limit dt err kp bias =
     (let live = (kp > 0 \<and> fabs err < I_WINDOW_RAD);
          b = np_clip (if live then bias + ki * err * dt else bias) (- limit) limit in
      if kp \<le> 0 then 0 else b)"

definition cycle_dt :: "IntegralState \<Rightarrow> fl \<Rightarrow> fl" where
  "cycle_dt s now = (case is_time s of None \<Rightarrow> 0 | Some t \<Rightarrow> py_min (py_max (now - t) 0) (Fin (5 / 100)))"

definition is_update :: "int \<Rightarrow> fl \<Rightarrow> vec \<Rightarrow> vec \<Rightarrow> vec \<Rightarrow> (IntegralState, vec) action" where
  "is_update cycle_id cycle_time q_des q_measured kp s =
     (let n = length (is_bias s) in
      if cycle_id < 0 then (Inl (ValueError ''integral cycle id must be a nonnegative integer''), s)
      else if \<not> isfinite cycle_time \<or> list_ex (\<lambda>v. length v \<noteq> n \<or> \<not> all_finite v) [q_des, q_measured, kp]
      then (Inl (ValueError ''integral update needs finite time and matching finite joint vectors''), s)
      else if (case is_cycle s of None \<Rightarrow> False | Some c \<Rightarrow> cycle_id < c)
      then (Inl (ValueError ''integral cycle id moved backwards''), s)
      else if is_cycle s = Some cycle_id then (Inr (is_bias s), s)
      else
        let dt = cycle_dt s cycle_time;
            bias = map (\<lambda>i. bias_joint (scaled_ki (is_ki s ! i) (map_option (\<lambda>r. r ! i) (is_kp_ref s)) (kp ! i)) (is_i_limit s ! i) dt
                     (q_des ! i - q_measured ! i) (kp ! i) (is_bias s ! i)) [0..<n] in
        (Inr bias, s\<lparr>is_bias := bias, is_time := Some cycle_time, is_cycle := Some cycle_id\<rparr>))"

subsection \<open>Bounds\<close>

datatype integral_op = IUpdate int fl vec vec vec | IReset

fun is_apply :: "IntegralState \<Rightarrow> integral_op \<Rightarrow> IntegralState" where
  "is_apply s (IUpdate c t q_des q kp) = snd (is_update c t q_des q kp s)"
| "is_apply s IReset = is_reset s"

definition integral_ok :: "IntegralState \<Rightarrow> bool" where
  "integral_ok s \<longleftrightarrow> (let n = length (is_bias s) in
     length (is_ki s) = n \<and> length (is_i_limit s) = n \<and> (\<forall>r. is_kp_ref s = Some r \<longrightarrow> length r = n \<and> all_finite r \<and> (\<forall>x \<in> set r. \<not> x < 0)) \<and>
     (\<forall>t. is_time s = Some t \<longrightarrow> isfinite t) \<and>
     (\<forall>i < n. \<exists>k l b. is_ki s ! i = Fin k \<and> 0 \<le> k \<and> is_i_limit s ! i = Fin l \<and> 0 \<le> l \<and> is_bias s ! i = Fin b \<and> \<bar>b\<bar> \<le> l))"

lemma mk_IntegralState_ok:
  assumes "mk_IntegralState n ki i_limit kp_ref = Inr s"
  shows "integral_ok s" "length (is_bias s) = n"
proof -
  have pos: "\<exists>k. v ! i = Fin k \<and> 0 \<le> k" if "all_finite v" "\<not> list_ex (\<lambda>x. x < 0) v" "i < length v" for v :: vec and i
    using that by (cases "v ! i") (auto simp: all_finite_conv_nth list_ex_length)
  have v: "length w = n \<and> all_finite w \<and> \<not> list_ex (\<lambda>x. x < 0) w" if "validate_integral_vector v n = Inr w" for v w
    using that by (auto simp: validate_integral_vector_def Let_def split: if_splits)
  from assms obtain k l where s: "validate_integral_vector ki n = Inr k" "validate_integral_vector i_limit n = Inr l"
    "s = \<lparr>is_ki = k, is_i_limit = l, is_kp_ref = kp_ref, is_bias = zeros n, is_time = None, is_cycle = None\<rparr>"
    "case kp_ref of None \<Rightarrow> True | Some v \<Rightarrow> \<not> (length v \<noteq> n \<or> \<not> all_finite v \<or> list_ex (\<lambda>x. x < 0) v)"
    by (auto simp: mk_IntegralState_def)
  then show "length (is_bias s) = n" by (simp add: zeros_def)
  have "\<forall>i < n. \<exists>a b. k ! i = Fin a \<and> 0 \<le> a \<and> l ! i = Fin b \<and> 0 \<le> b" using pos v [OF s(1)] v [OF s(2)] by metis
  then show "integral_ok s"
    using v [OF s(1)] v [OF s(2)] s(3,4) by (auto simp: integral_ok_def zeros_def list_ex_iff Let_def split: option.splits)
qed

lemma scaled_ki_bound:
  assumes "0 \<le> k" and "case r of None \<Rightarrow> True | Some x \<Rightarrow> isfinite x"
  shows "\<exists>k'. scaled_ki (Fin k) r (Fin p) = Fin k' \<and> 0 \<le> k' \<and> k' \<le> k"
proof (cases r)
  case None
  then show ?thesis using assms by (simp add: scaled_ki_def)
next
  case (Some x)
  then obtain y where y: "x = Fin y" using assms(2) by (auto simp: isfinite_iff)
  define c where "c = min (max (if 0 < y then p / y else 1) 0) 1"
  have "0 \<le> c" "c \<le> 1" by (auto simp: c_def)
  then have "0 \<le> k * c" "k * c \<le> k" using assms(1) by (simp_all add: mult_left_le)
  moreover have "scaled_ki (Fin k) r (Fin p) = Fin (k * c)" using Some y by (simp add: scaled_ki_def c_def)
  ultimately show ?thesis by blast
qed

lemma bias_joint_bound:
  assumes "0 \<le> k" "0 \<le> l" "0 \<le> dt" "dt \<le> 5 / 100" "\<bar>b\<bar> \<le> l"
  shows "\<exists>b'. bias_joint (Fin k) (Fin l) (Fin dt) (Fin e) (Fin p) (Fin b) = Fin b' \<and> \<bar>b'\<bar> \<le> l \<and>
     (if p \<le> 0 then b' = 0 else \<bar>b' - b\<bar> \<le> k / 1000)"
proof -
  define x where "x = (if 0 < p \<and> \<bar>e\<bar> < 2 / 100 then b + k * e * dt else b)"
  define c where "c = min (max x (- l)) l"
  have c: "\<bar>c\<bar> \<le> l" "\<bar>c - b\<bar> \<le> \<bar>x - b\<bar>" using assms(2,5) by (auto simp: c_def min_def max_def abs_le_iff)
  have "\<bar>k * e * dt\<bar> \<le> k * (2 / 100) * (5 / 100)" if "\<bar>e\<bar> < 2 / 100"
    unfolding abs_mult using assms that by (intro mult_mono) auto
  then have "\<bar>x - b\<bar> \<le> k / 1000" using assms(1) by (auto simp: x_def)
  moreover have "bias_joint (Fin k) (Fin l) (Fin dt) (Fin e) (Fin p) (Fin b) = Fin (if p \<le> 0 then 0 else c)"
    by (simp add: bias_joint_def I_WINDOW_RAD_def c_def x_def Let_def)
  ultimately show ?thesis using c assms(2) by auto
qed

lemma cycle_dt_bound:
  assumes "integral_ok s" and "isfinite now"
  shows "\<exists>d. cycle_dt s now = Fin d \<and> 0 \<le> d \<and> d \<le> 5 / 100"
proof (cases "is_time s")
  case None
  then show ?thesis by (simp add: cycle_dt_def)
next
  case (Some t)
  then have "isfinite t" using assms(1) by (simp add: integral_ok_def Let_def)
  then obtain a b where "t = Fin a" "now = Fin b" using assms(2) by (auto simp: isfinite_iff)
  then have "cycle_dt s now = Fin (min (max (b - a) 0) (5 / 100))" using Some by (simp add: cycle_dt_def)
  then show ?thesis by (metis max.cobounded2 min.boundedI min.cobounded2 divide_nonneg_nonneg zero_le_numeral)
qed

text \<open>What one accepted update does to a joint.\<close>

definition bias_step :: "IntegralState \<Rightarrow> vec \<Rightarrow> vec \<Rightarrow> nat \<Rightarrow> bool" where
  "bias_step s kp bias i \<longleftrightarrow> \<bar>val (bias ! i)\<bar> \<le> val (is_i_limit s ! i) \<and>
     (if kp ! i \<le> 0 then bias ! i = 0 else \<bar>val (bias ! i) - val (is_bias s ! i)\<bar> \<le> val (is_ki s ! i) / 1000)"

lemma is_update_joint:
  assumes "integral_ok s" and "isfinite now" and "length q_des = length (is_bias s)" "all_finite q_des"
    and "length q = length (is_bias s)" "all_finite q" and "length kp = length (is_bias s)" "all_finite kp" and "i < length (is_bias s)"
  shows "\<exists>b'. bias_joint (scaled_ki (is_ki s ! i) (map_option (\<lambda>r. r ! i) (is_kp_ref s)) (kp ! i)) (is_i_limit s ! i) (cycle_dt s now)
       (q_des ! i - q ! i) (kp ! i) (is_bias s ! i) = Fin b' \<and> \<bar>b'\<bar> \<le> val (is_i_limit s ! i) \<and>
     (if kp ! i \<le> 0 then b' = 0 else \<bar>b' - val (is_bias s ! i)\<bar> \<le> val (is_ki s ! i) / 1000)"
proof -
  obtain k l b where klb: "is_ki s ! i = Fin k" "0 \<le> k" "is_i_limit s ! i = Fin l" "0 \<le> l" "is_bias s ! i = Fin b" "\<bar>b\<bar> \<le> l"
    using assms(1,9) unfolding integral_ok_def Let_def by blast
  obtain p e where pe: "kp ! i = Fin p" "q_des ! i - q ! i = Fin e"
    using assms(3-9) by (metis all_finite_conv_nth isfinite_arith(2) isfinite_iff)
  have "case map_option (\<lambda>r. r ! i) (is_kp_ref s) of None \<Rightarrow> True | Some x \<Rightarrow> isfinite x"
    using assms(1,9) by (auto simp: integral_ok_def all_finite_conv_nth Let_def split: option.splits)
  then obtain k' where k': "scaled_ki (Fin k) (map_option (\<lambda>r. r ! i) (is_kp_ref s)) (Fin p) = Fin k'" "0 \<le> k'" "k' \<le> k"
    using scaled_ki_bound [OF klb(2)] by blast
  obtain d where d: "cycle_dt s now = Fin d" "0 \<le> d" "d \<le> 5 / 100" using cycle_dt_bound [OF assms(1,2)] by blast
  from bias_joint_bound [OF k'(2) klb(4) d(2,3) klb(6), of e p] show ?thesis
    using klb pe k' d by (auto split: if_splits)
qed

lemma guarded_outcomes:
  assumes "x = (if g1 then (Inl e1, s) else if g2 then (Inl e2, s) else if g3 then (Inl e3, s) else if g4 then (Inr u, s) else (Inr v, s'))"
  shows "(\<exists>e. x = (Inl e, s)) \<or> g4 \<and> x = (Inr u, s) \<or> \<not> g2 \<and> \<not> g4 \<and> x = (Inr v, s')"
  using assms by simp

lemma is_update_cases:
  assumes "integral_ok s" and "is_update c now q_des q kp s = (r, s')"
  shows "integral_ok s' \<and> is_ki s' = is_ki s \<and> is_i_limit s' = is_i_limit s \<and> length (is_bias s') = length (is_bias s) \<and>
     (case r of Inl e \<Rightarrow> s' = s
      | Inr bias \<Rightarrow> bias = is_bias s' \<and> (if is_cycle s = Some c then s' = s else is_cycle s' = Some c \<and> (\<forall>i < length bias. bias_step s kp bias i)))"
proof -
  let ?bias = "map (\<lambda>i. bias_joint (scaled_ki (is_ki s ! i) (map_option (\<lambda>r. r ! i) (is_kp_ref s)) (kp ! i)) (is_i_limit s ! i) (cycle_dt s now)
           (q_des ! i - q ! i) (kp ! i) (is_bias s ! i)) [0..<length (is_bias s)]"
  consider (rejected) e where "r = Inl e" "s' = s" | (again) "r = Inr (is_bias s)" "s' = s" "is_cycle s = Some c"
    | (new) bias where "r = Inr bias" "is_cycle s \<noteq> Some c" "isfinite now" "length q_des = length (is_bias s)" "all_finite q_des"
        "length q = length (is_bias s)" "all_finite q" "length kp = length (is_bias s)" "all_finite kp"
        "bias = ?bias" "s' = s\<lparr>is_bias := bias, is_time := Some now, is_cycle := Some c\<rparr>"
    using assms(2) guarded_outcomes [OF is_update_def [of c now q_des q kp s, unfolded Let_def]] by auto
  then show ?thesis
  proof cases
    case new
    note j = is_update_joint [OF assms(1) new(3-9)]
    have len: "length bias = length (is_bias s)" using new(10) by simp
    have b: "\<exists>b'. bias ! i = Fin b' \<and> \<bar>b'\<bar> \<le> val (is_i_limit s ! i) \<and>
        (if kp ! i \<le> 0 then b' = 0 else \<bar>b' - val (is_bias s ! i)\<bar> \<le> val (is_ki s ! i) / 1000)" if "i < length (is_bias s)" for i
      using j [OF that] new(10) that by simp
    have "\<exists>k l b. is_ki s ! i = Fin k \<and> 0 \<le> k \<and> is_i_limit s ! i = Fin l \<and> 0 \<le> l \<and> bias ! i = Fin b \<and> \<bar>b\<bar> \<le> l"
      if i: "i < length (is_bias s)" for i
    proof -
      obtain k l where "is_ki s ! i = Fin k" "0 \<le> k" "is_i_limit s ! i = Fin l" "0 \<le> l"
        using assms(1) i unfolding integral_ok_def Let_def by blast
      moreover obtain b' where "bias ! i = Fin b'" "\<bar>b'\<bar> \<le> val (is_i_limit s ! i)" using b [OF i] by blast
      ultimately show ?thesis by simp
    qed
    then have "integral_ok s'"
      using assms(1) new(3) len unfolding integral_ok_def Let_def new(11) by simp
    moreover have "bias_step s kp bias i" if "i < length bias" for i
      using b [of i] that len by (auto simp: bias_step_def split: if_splits)
    ultimately show ?thesis using new len by auto
  qed (use assms in auto)
qed

lemma is_reset_ok: "integral_ok s \<Longrightarrow> integral_ok (is_reset s)"
  unfolding integral_ok_def is_reset_def Let_def by (simp add: zeros_def) fast

lemma is_apply_ok:
  "integral_ok s \<Longrightarrow> integral_ok (is_apply s op) \<and> is_i_limit (is_apply s op) = is_i_limit s \<and> is_ki (is_apply s op) = is_ki s \<and>
     length (is_bias (is_apply s op)) = length (is_bias s)"
proof (cases op)
  case (IUpdate c t q_des q kp)
  assume "integral_ok s"
  from is_update_cases [OF this, of c t q_des q kp "fst (is_update c t q_des q kp s)" "snd (is_update c t q_des q kp s)"] IUpdate
  show ?thesis by simp
qed (auto simp: is_reset_ok, auto simp: is_reset_def zeros_def)

text \<open>
  C22: the integral torque is bounded and moves slowly. Whatever updates a state was given before, accepted,
  rejected or repeated, and wherever it was reset, an update either rejects its input and changes nothing, or
  repeats the bias of a cycle already counted, or returns a bias inside the configured limit on every joint
  that is zero where the stiffness is zero and elsewhere differs from the previous one by at most a
  thousandth of the integral gain.
\<close>

theorem integral_bounded:
  assumes "mk_IntegralState n ki i_limit kp_ref = Inr s0" and "s = fold (\<lambda>op s. is_apply s op) ops s0"
    and "is_update c now q_des q kp s = (r, s')"
  shows "(\<forall>e. r = Inl e \<longrightarrow> s' = s) \<and>
     (\<forall>bias. r = Inr bias \<longrightarrow> length bias = n \<and> bias = is_bias s' \<and>
        (if is_cycle s = Some c then s' = s
         else \<forall>i < n. \<bar>val (bias ! i)\<bar> \<le> val (is_i_limit s0 ! i) \<and>
           (if kp ! i \<le> 0 then bias ! i = 0 else \<bar>val (bias ! i) - val (is_bias s ! i)\<bar> \<le> val (is_ki s0 ! i) / 1000)))"
proof -
  have ok: "integral_ok s \<and> is_i_limit s = is_i_limit s0 \<and> is_ki s = is_ki s0 \<and> length (is_bias s) = n"
    using mk_IntegralState_ok [OF assms(1)] unfolding assms(2)
    by (induction ops arbitrary: s0) (simp_all add: is_apply_ok)
  show ?thesis
  proof (cases r)
    case (Inr bias)
    with is_update_cases [OF _ assms(3)] ok have "bias = is_bias s' \<and> length bias = n \<and>
        (if is_cycle s = Some c then s' = s else \<forall>i < n. bias_step s kp bias i)" by (auto split: if_splits)
    then show ?thesis using Inr ok unfolding bias_step_def by (simp only: sum.inject sum.distinct) metis
  qed (use is_update_cases [OF _ assms(3)] ok in simp)
qed

theorem integral_bounded_witness:
  "\<exists>s0 r s'. mk_IntegralState 1 (Some [200]) (Some [1]) None = Inr s0 \<and> is_update 1 0 [0] [0] [100] s0 = (r, s') \<and> (\<exists>bias. r = Inr bias \<and> \<bar>val (bias ! 0)\<bar> \<le> 1)"
proof -
  let ?s = "\<lparr>is_ki = [200], is_i_limit = [1], is_kp_ref = None, is_bias = [0], is_time = None, is_cycle = None\<rparr>"
  have mk: "mk_IntegralState 1 (Some [200]) (Some [1]) None = Inr ?s" by (simp add: mk_IntegralState_def validate_integral_vector_def zeros_def)
  obtain r s' where r: "is_update 1 0 [0] [0] [100] ?s = (r, s')" by fastforce
  then have "\<exists>bias. r = Inr bias" by (auto simp: is_update_def Let_def)
  then show ?thesis using integral_bounded [OF mk, of ?s "[]", OF _ r] mk r by auto
qed

end
