(* ===== verification/Controller.thy ===== *)
theory Controller
  imports Actions Plan_Wire Jog Integral
begin

text \<open>
  \<^verbatim>\<open>arm_control/control/arm_controller.py\<close>: the controller that executes a named plan, holds when it has none, and
  reports what happened. One definition per method; a method that changes the object is an action, so that what an
  exception leaves behind is part of the model.

  The clocks and the native sample source are streams the methods read from, one reading per call in the code;
  \<open>ac_sent\<close> is everything handed to \<^verbatim>\<open>node.send_output\<close>, oldest first. Printed lines are not modelled.
\<close>

datatype message = ArmMsg bool | EventMsg controller_event | MotorMsg vec

record world =
  w_clock :: "nat \<Rightarrow> fl"
  w_reads :: nat
  w_ref_clock :: "(nat \<Rightarrow> fl) option"
  w_ref_reads :: nat
  w_source :: "nat \<Rightarrow> TrajectoryPoint result"
  w_source_reads :: nat

text \<open>What the constructor fixes.\<close>

record ctl_config =
  cf_n_arm :: nat
  cf_session_id :: string
  cf_model_token :: "string option"
  cf_pose_provenance :: string
  cf_state_period :: "fl option"
  cf_policy :: "ExecutionPolicy option"
  cf_needs_health :: bool
  cf_track_kp :: vec
  cf_track_kd :: vec

record ArmController =
  ac_w :: world
  ac_cfg :: ctl_config
  ac_sent :: "message list"
  ac_executor :: JointTrajectoryExecutor
  ac_settling :: LegSettling
  ac_completion_sample_at :: "fl option"
  ac_integral :: IntegralState
  ac_cycle_id :: int
  ac_reference_source :: bool
  ac_health_at :: "fl option"
  ac_health_ok :: bool
  ac_rt_holding :: bool
  ac_observation_paused :: bool
  ac_plant_t :: fl
  ac_jog :: JogHold
  ac_jog_ramp :: "JogRamp option"
  ac_last_state :: JointState
  ac_last_state_at :: "fl option"
  ac_mode_report_at :: "fl option"
  ac_last_command :: "JointServoCommand option"
  ac_hold_anchor :: "JointServoCommand option"
  ac_arm_pose :: "vec option"
  ac_arm_pose_fixed :: bool
  ac_been :: "(vec \<times> vec) option"
  ac_cartesian_now :: "cartesian_spec option"
  ac_first_sample_pending :: bool
  ac_last_law :: "string option"
  ac_pose_hold :: "pose_hold option"
  ac_supports_pose_hold :: bool
  ac_armed :: bool
  ac_bridge_armed :: bool
  ac_ready_sent :: bool
  ac_frozen :: bool
  ac_stopped :: bool
  ac_stop_reason :: string
  ac_plan :: "leg option"
  ac_pending_traj :: "JointTrajectory option"
  ac_reference :: "TrajectoryReference option"
  ac_running :: bool
  ac_stream_gap_limit_s :: "fl option"
  ac_stream_sent_at :: "fl option"
  ac_stream_sent_target :: "vec option"

type_synonym 'a ctl = "(ArmController, 'a) action"

subsection \<open>Construction\<close>

record ctl_args =
  ca_state_period_s :: "fl option"
  ca_plant_reports_health :: bool
  ca_jog_timeout_s :: fl
  ca_policy :: "ExecutionPolicy option"
  ca_settle_timeout_s :: fl
  ca_settle_dwell_s :: fl
  ca_model_token :: "string option"
  ca_pose_provenance :: string
  ca_reference_source :: bool
  ca_integral :: "IntegralState option"

definition policy_ramp :: "ExecutionPolicy option \<Rightarrow> JogRamp option result" where
  "policy_ramp policy =
     (case policy of
        None \<Rightarrow> Inr None
      | Some p \<Rightarrow>
          (case (velocity_limits p, acceleration_limits p) of
             (Some v, Some a) \<Rightarrow> bindr (mk_JogRamp v a (position_lower p) (position_upper p)) (\<lambda>r. Inr (Some r))
           | _ \<Rightarrow> Inr None))"

definition mk_ArmController :: "world \<Rightarrow> string \<Rightarrow> JointTrajectoryExecutor \<Rightarrow> ctl_args \<Rightarrow> ArmController result" where
  "mk_ArmController w session ex a =
     (let n = n_joints ex in
      bindr (mk_LegSettling (ca_settle_timeout_s a) (ca_settle_dwell_s a)) (\<lambda>settling.
      bindr (case ca_integral a of Some i \<Rightarrow> Inr i | None \<Rightarrow> mk_IntegralState n None None None) (\<lambda>integral.
      bindr (ensure (length (is_bias integral) = n) (ValueError ''integral state must match controller joints'')) (\<lambda>_.
      bindr (ensure (case ca_state_period_s a of None \<Rightarrow> True | Some p \<Rightarrow> isfinite p \<and> p > 0)
              (ValueError ''motor_state_period_s must be finite and positive'')) (\<lambda>_.
      bindr (ensure (\<not> (w_ref_clock w \<noteq> None \<and> ca_state_period_s a \<noteq> None))
              (ValueError ''reference_clock cannot be combined with motor_state_period_s'')) (\<lambda>_.
      bindr (ensure (case ca_policy a of None \<Rightarrow> True | Some p \<Rightarrow> length (torque_limits p) = n)
              (ValueError ''execution_policy torque limits must match the arm joint count'')) (\<lambda>_.
      bindr (ensure (\<not> (ca_policy a \<noteq> None \<and> ca_state_period_s a \<noteq> None))
              (ValueError ''deadline execution_policy requires wall time, not motor_state_period_s'')) (\<lambda>_.
      bindr (mk_JogHold (ca_jog_timeout_s a) n) (\<lambda>jog.
      bindr (policy_ramp (ca_policy a)) (\<lambda>ramp.
      Inr \<lparr>ac_w = w,
           ac_cfg = \<lparr>cf_n_arm = n, cf_session_id = session, cf_model_token = ca_model_token a, cf_pose_provenance = ca_pose_provenance a,
             cf_state_period = ca_state_period_s a, cf_policy = ca_policy a, cf_needs_health = ca_plant_reports_health a,
             cf_track_kp = ex_kp ex, cf_track_kd = ex_kd ex\<rparr>,
           ac_sent = [], ac_executor = ex, ac_settling = settling, ac_completion_sample_at = None, ac_integral = integral, ac_cycle_id = 0,
           ac_reference_source = ca_reference_source a, ac_health_at = None, ac_health_ok = (\<not> ca_plant_reports_health a),
           ac_rt_holding = False, ac_observation_paused = False, ac_plant_t = 0, ac_jog = jog, ac_jog_ramp = ramp,
           ac_last_state = \<lparr>js_position = zeros n, js_velocity = zeros n\<rparr>, ac_last_state_at = None, ac_mode_report_at = None,
           ac_last_command = None, ac_hold_anchor = None, ac_arm_pose = None, ac_arm_pose_fixed = False, ac_been = None,
           ac_cartesian_now = None, ac_first_sample_pending = False, ac_last_law = None, ac_pose_hold = None, ac_supports_pose_hold = False,
           ac_armed = False, ac_bridge_armed = (\<not> ca_plant_reports_health a), ac_ready_sent = False, ac_frozen = False,
           ac_stopped = False, ac_stop_reason = [], ac_plan = None, ac_pending_traj = None, ac_reference = None, ac_running = False,
           ac_stream_gap_limit_s = None, ac_stream_sent_at = None, ac_stream_sent_target = None\<rparr>))))))))))"

subsection \<open>Reading the world, sending to it\<close>

definition read_clock :: "fl ctl" where
  "read_clock s = (Inr (w_clock (ac_w s) (w_reads (ac_w s))), s\<lparr>ac_w := (ac_w s)\<lparr>w_reads := Suc (w_reads (ac_w s))\<rparr>\<rparr>)"

definition read_source :: "TrajectoryPoint result ctl" where
  "read_source s =
     (Inr (w_source (ac_w s) (w_source_reads (ac_w s))), s\<lparr>ac_w := (ac_w s)\<lparr>w_source_reads := Suc (w_source_reads (ac_w s))\<rparr>\<rparr>)"

definition reference_clock :: "fl ctl" where
  "reference_clock s =
     (case w_ref_clock (ac_w s) of
        None \<Rightarrow> read_clock s
      | Some c \<Rightarrow> (Inr (c (w_ref_reads (ac_w s))), s\<lparr>ac_w := (ac_w s)\<lparr>w_ref_reads := Suc (w_ref_reads (ac_w s))\<rparr>\<rparr>))"

definition exec_time :: "fl ctl" where
  "exec_time = withst (\<lambda>s. if cf_state_period (ac_cfg s) \<noteq> None then ret (ac_plant_t s) else reference_clock)"

definition send_output :: "message \<Rightarrow> unit ctl" where
  "send_output m = modst (\<lambda>s. s\<lparr>ac_sent := ac_sent s @ [m]\<rparr>)"

definition send_event :: "controller_event \<Rightarrow> unit ctl" where
  "send_event e = bindst (lift (pack_controller_event e)) (\<lambda>b. send_output (EventMsg b))"

definition on_settling :: "(LegSettling, 'a) action \<Rightarrow> 'a ctl" where
  "on_settling m s = (case m (ac_settling s) of (r, x) \<Rightarrow> (r, s\<lparr>ac_settling := x\<rparr>))"

definition on_integral :: "(IntegralState, 'a) action \<Rightarrow> 'a ctl" where
  "on_integral m s = (case m (ac_integral s) of (r, x) \<Rightarrow> (r, s\<lparr>ac_integral := x\<rparr>))"

definition on_executor :: "(JointTrajectoryExecutor, 'a) action \<Rightarrow> 'a ctl" where
  "on_executor m s = (case m (ac_executor s) of (r, x) \<Rightarrow> (r, s\<lparr>ac_executor := x\<rparr>))"

text \<open>Evaluations of the released reference: each call of a bound source is one reading.\<close>

definition ref_sample :: "TrajectoryReference \<Rightarrow> fl \<Rightarrow> TrajectoryPoint ctl" where
  "ref_sample r t_now = (if tr_source r then bindst read_source (\<lambda>p. lift (tr_sample r t_now p)) else lift (tr_sample r t_now (Inl TypeError)))"

definition ref_elapsed :: "TrajectoryReference \<Rightarrow> fl \<Rightarrow> fl ctl" where
  "ref_elapsed r t_now = (if tr_source r then bindst read_source (\<lambda>p. lift (tr_elapsed r t_now p)) else lift (tr_elapsed r t_now (Inl TypeError)))"

subsection \<open>Reports\<close>

definition current_plan_id :: "ArmController \<Rightarrow> string" where
  "current_plan_id s = (case ac_plan s of None \<Rightarrow> [] | Some p \<Rightarrow> lg_plan_id p)"

definition mode_law :: "ArmController \<Rightarrow> string" where
  "mode_law s = (if ac_pose_hold s \<noteq> None then ''soft'' else ''joint'')"

definition runtime_of :: "ArmController \<Rightarrow> runtime_state" where
  "runtime_of s =
     \<lparr>rs_session_id = cf_session_id (ac_cfg s), rs_model_token = cf_model_token (ac_cfg s), rs_n_arm = cf_n_arm (ac_cfg s), rs_armed = ac_armed s,
      rs_ready = ac_ready_sent s, rs_executing = ac_running s, rs_stopped = ac_stopped s, rs_frozen = ac_frozen s, rs_plan_id = current_plan_id s\<rparr>"

definition stage_ack :: "string \<Rightarrow> bool \<Rightarrow> string \<Rightarrow> unit ctl" where
  "stage_ack plan_id ok reason =
     withst (\<lambda>s. send_event ((event_args ''plan_staged'')\<lparr>ce_plan_id := plan_id, ce_ok := ok, ce_reason := reason, ce_runtime_state := Some (runtime_of s)\<rparr>))"

definition refuse_plan :: "string \<Rightarrow> string \<Rightarrow> bool \<Rightarrow> unit ctl" where
  "refuse_plan plan_id reason report =
     seqs [stage_ack plan_id False reason,
           whenst report (send_event ((event_args ''leg_result'')\<lparr>ce_plan_id := plan_id, ce_ok := False, ce_reason := reason\<rparr>))]"

definition report_mode :: "bool \<Rightarrow> string option \<Rightarrow> bool \<Rightarrow> unit ctl" where
  "report_mode ok reason heartbeat =
     withst (\<lambda>s.
       let fields = (event_args ''mode'')\<lparr>ce_ok := ok, ce_reason := (case reason of None \<Rightarrow> mode_law s | Some r \<Rightarrow> r), ce_runtime_state := Some (runtime_of s)\<rparr>;
           send = (\<lambda>e. seqs [send_output (EventMsg e), bindst read_clock (\<lambda>now. modst (\<lambda>s. s\<lparr>ac_mode_report_at := Some now\<rparr>))]) in
       tryst (lift (pack_controller_event (fields\<lparr>ce_mode_state := Some \<lparr>md_law = mode_law s, md_kp = ex_kp (ac_executor s), md_kd = ex_kd (ac_executor s)\<rparr>\<rparr>)))
         (\<lambda>_. if heartbeat then ret () else bindst (lift (pack_controller_event fields)) send)
         send)"

subsection \<open>Ending a leg\<close>

definition finish_leg :: "bool \<Rightarrow> string \<Rightarrow> completion_progress option \<Rightarrow> unit ctl" where
  "finish_leg ok reason completion =
     withst (\<lambda>s. seqs
       [modst (\<lambda>s. s\<lparr>ac_stream_sent_at := None, ac_stream_sent_target := None, ac_reference := None, ac_running := False, ac_plan := None\<rparr>),
        send_event ((event_args ''leg_result'')\<lparr>ce_plan_id := current_plan_id s, ce_ok := ok, ce_reason := reason, ce_completion := completion\<rparr>)])"

definition reset_integral :: "unit ctl" where
  "reset_integral = modst (\<lambda>s. s\<lparr>ac_integral := is_reset (ac_integral s)\<rparr>)"

definition disarm_reset :: "unit ctl" where
  "disarm_reset = seqs
     [withst (\<lambda>s. whenst (ac_running s) (finish_leg False ''disarmed mid-leg'' None)),
      modst (\<lambda>s. s\<lparr>ac_plan := None, ac_cartesian_now := None, ac_pending_traj := None, ac_running := False, ac_reference := None,
        ac_ready_sent := False, ac_bridge_armed := (\<not> cf_needs_health (ac_cfg s)), ac_hold_anchor := None, ac_jog := jh_clear (ac_jog s),
        ac_last_command := None, ac_pose_hold := None\<rparr>),
      reset_integral]"

text \<open>The pose the arm rests at as it is armed, when the last sample is fresh.\<close>

definition arm_rest :: "bool ctl" where
  "arm_rest = withst (\<lambda>s. case (ac_last_state_at s, cf_policy (ac_cfg s)) of
       (Some t, Some p) \<Rightarrow> bindst read_clock (\<lambda>now. ret (now - t \<le> state_timeout_sec p))
     | _ \<Rightarrow> ret False)"

definition set_arm :: "bool \<Rightarrow> unit ctl" where
  "set_arm armed = seqs
     [withst (\<lambda>s. whenst (ac_armed s \<and> \<not> armed) disarm_reset),
      withst (\<lambda>s. whenst (armed \<and> \<not> ac_armed s) (bindst arm_rest (\<lambda>fresh. modst (\<lambda>s.
        let rest = (if fresh \<and> all_finite (js_position (ac_last_state s)) then Some (js_position (ac_last_state s)) else None) in
        s\<lparr>ac_arm_pose := rest, ac_arm_pose_fixed := False, ac_been := map_option (\<lambda>q. (q, q)) rest\<rparr>)))),
      modst (\<lambda>s. s\<lparr>ac_armed := armed\<rparr>),
      send_output (ArmMsg armed)]"

definition stop :: "string \<Rightarrow> unit ctl" where
  "stop reason =
     withst (\<lambda>s. if ac_stopped s then ret () else seqs
       [modst (\<lambda>s. s\<lparr>ac_stopped := True, ac_stop_reason := reason\<rparr>),
        withst (\<lambda>s. whenst (ac_armed s) (set_arm False)),
        send_event ((event_args ''fault'')\<lparr>ce_ok := False, ce_reason := reason\<rparr>)])"

definition fault :: "string \<Rightarrow> unit ctl" where
  "fault reason = seqs [withst (\<lambda>s. whenst (ac_running s) (finish_leg False reason None)), stop reason]"

definition max_abs_lt :: "vec \<Rightarrow> fl \<Rightarrow> bool result" where
  "max_abs_lt v x = bindr (arr_max (vabs v)) (\<lambda>m. Inr (m < x))"

definition keep_anchor :: "ArmController \<Rightarrow> bool result" where
  "keep_anchor s =
     (if ac_plan s \<noteq> None \<and> ac_pending_traj s \<noteq> None \<and> \<not> ac_running s \<and> \<not> jh_active (ac_jog s) \<and> ac_pose_hold s = None
         \<and> ac_cartesian_now s = None \<and> \<not> ac_frozen s \<and> \<not> ac_stopped s
         \<and> (case ac_last_command s of None \<Rightarrow> False | Some c \<Rightarrow> \<not> list_ex (\<lambda>x. x \<noteq> 0) (qd_des c))
         \<and> all_finite (js_velocity (ac_last_state s))
      then max_abs_lt (js_velocity (ac_last_state s)) (Fin (1 / 100)) else Inr False)"

definition leave_soft :: "unit ctl" where
  "leave_soft = withst (\<lambda>s. whenst (ac_pose_hold s \<noteq> None) (seqs
     [modst (\<lambda>s. s\<lparr>ac_pose_hold := None, ac_last_command := None\<rparr>), reset_integral, report_mode True None False]))"

definition drop_leg :: "string \<Rightarrow> bool \<Rightarrow> unit ctl" where
  "drop_leg reason keep = seqs
     [withst (\<lambda>s. whenst (ac_running s) (finish_leg False reason None)),
      modst (\<lambda>s. s\<lparr>ac_frozen := False, ac_plan := None, ac_pending_traj := None, ac_running := False, ac_reference := None,
        ac_jog := jh_clear (ac_jog s), ac_hold_anchor := (if keep then ac_hold_anchor s else None)\<rparr>)]"

definition cancel :: "string \<Rightarrow> unit ctl" where
  "cancel reason =
     bindst (withst (\<lambda>s. lift (keep_anchor s))) (\<lambda>keep. seqs
       [withst (\<lambda>s. whenst (cf_policy (ac_cfg s) \<noteq> None) (modst (\<lambda>s. s\<lparr>ac_cartesian_now := None\<rparr>))),
        leave_soft,
        drop_leg reason keep])"

subsection \<open>Observation\<close>

definition observation_error :: "ExecutionPolicy \<Rightarrow> string option ctl" where
  "observation_error p =
     bindst read_clock (\<lambda>now. withst (\<lambda>s. ret (
       if (case ac_last_state_at s of None \<Rightarrow> True | Some t \<Rightarrow> now - t > state_timeout_sec p) then Some ''motor state stale: re-plan''
       else if cf_needs_health (ac_cfg s) \<and> (\<not> ac_health_ok s \<or> (case ac_health_at s of None \<Rightarrow> True | Some t \<Rightarrow> now - t > health_timeout_sec p))
       then Some ''motor health stale or faulted: re-plan''
       else None)))"

definition pause_observation :: "string \<Rightarrow> bool \<Rightarrow> unit ctl" where
  "pause_observation reason preserve_rt_hold =
     withst (\<lambda>s.
       let anchor = (if preserve_rt_hold \<and> ac_rt_holding s \<and> ac_health_ok s then ac_hold_anchor s else None) in
       seqs
         [whenst (\<not> ac_observation_paused s \<or> ac_plan s \<noteq> None \<or> ac_running s \<or> jh_active (ac_jog s) \<or> ac_pose_hold s \<noteq> None) (cancel reason),
          modst (\<lambda>s. s\<lparr>ac_observation_paused := True, ac_ready_sent := False, ac_last_command := None, ac_hold_anchor := anchor\<rparr>)])"

subsection \<open>Commands\<close>

definition static_hold :: "JointServoCommand ctl" where
  "static_hold = withst (\<lambda>s. lift (hold_command (ac_executor s) (ac_last_state s) None (is_bias (ac_integral s))))"

definition where_been :: "ArmController \<Rightarrow> mat option" where
  "where_been s =
     (case (ac_arm_pose s, cf_policy (ac_cfg s)) of
        (Some rest, Some p) \<Rightarrow>
          (case (position_lower p, position_upper p) of
             (Some lo, Some hi) \<Rightarrow>
               if \<not> ac_armed s then None else
               let (b0, b1) = (case ac_been s of None \<Rightarrow> (rest, rest) | Some b \<Rightarrow> b) in
               Some [map (\<lambda>i. if rest ! i < lo ! i then b0 ! i else rest ! i) [0..<length rest],
                     map (\<lambda>i. if rest ! i > hi ! i then b1 ! i else rest ! i) [0..<length rest]]
           | _ \<Rightarrow> None)
      | _ \<Rightarrow> None)"

definition envelope_band :: "ArmController \<Rightarrow> (vec \<times> vec) option" where
  "envelope_band s = (case cf_policy (ac_cfg s) of None \<Rightarrow> None | Some p \<Rightarrow> envelope p (where_been s))"

text \<open>
  The policy's part of \<^verbatim>\<open>_send\<close>: the command to send and whether it replaces an aborted one, or \<open>None\<close> after a
  fault.
\<close>

definition checked_hold :: "ExecutionPolicy \<Rightarrow> JointServoCommand \<Rightarrow> (JointServoCommand \<times> bool) option ctl" where
  "checked_hold p hold =
     withst (\<lambda>s. bindst (lift (command_valid p hold (cf_n_arm (ac_cfg s)) (where_been s))) (\<lambda>ok.
       if ok then ret (Some (hold, True)) else bindst (fault ''invalid measured hold command'') (\<lambda>_. ret None)))"

definition abort_to_hold :: "ExecutionPolicy \<Rightarrow> (JointServoCommand \<times> bool) option ctl" where
  "abort_to_hold p =
     bindst (cancel ''tracking error exceeded: holding measured pose'') (\<lambda>_.
     bindst (modst (\<lambda>s. s\<lparr>ac_last_command := None\<rparr>)) (\<lambda>_.
     bindst static_hold (\<lambda>hold.
     bindst (modst (\<lambda>s. s\<lparr>ac_hold_anchor := Some hold\<rparr>)) (\<lambda>_. checked_hold p hold))))"

definition admit_command :: "ExecutionPolicy \<Rightarrow> JointServoCommand \<Rightarrow> (JointServoCommand \<times> bool) option ctl" where
  "admit_command p command =
     bindst (modst (\<lambda>s. if ac_armed s \<and> ac_arm_pose s \<noteq> None then s\<lparr>ac_arm_pose_fixed := True\<rparr> else s)) (\<lambda>_.
     withst (\<lambda>s. bindst (lift (command_valid p command (cf_n_arm (ac_cfg s)) (where_been s))) (\<lambda>valid.
       if \<not> valid then bindst (fault ''non-finite or invalid servo command'') (\<lambda>_. ret None)
       else bindst (if ac_pose_hold s = None then lift (tracking_error_exceeded p command (js_position (ac_last_state s))) else ret False) (\<lambda>lost.
         if lost then abort_to_hold p else ret (Some (command, False))))))"

definition emit_command :: "JointServoCommand \<Rightarrow> bool \<Rightarrow> unit ctl" where
  "emit_command command cartesian =
     withst (\<lambda>s.
       let spec = (if cartesian then ac_cartesian_now s else None) in
       seqs
         [modst (\<lambda>s. s\<lparr>ac_last_command := Some command,
            ac_last_law := Some (if spec \<noteq> None then ''cartesian_impedance'' else if ac_pose_hold s \<noteq> None then ''pose_hold'' else ''joint'')\<rparr>),
          bindst (case spec of None \<Rightarrow> ret None | Some c \<Rightarrow> bindst (lift (pack_cartesian_block c)) (\<lambda>b. ret (Some b))) (\<lambda>tail.
          bindst (lift (pack_motor_command (q_des command) (qd_des command) (tau_ff command) (jsc_kp command) (jsc_kd command) tail
                    (map_option pose_hold_as_spec (ac_pose_hold s)))) (\<lambda>wire. send_output (MotorMsg wire)))])"

definition send :: "JointServoCommand \<Rightarrow> bool \<Rightarrow> bool ctl" where
  "send command cartesian =
     withst (\<lambda>s. case cf_policy (ac_cfg s) of
       None \<Rightarrow> bindst (emit_command command cartesian) (\<lambda>_. ret True)
     | Some p \<Rightarrow> bindst (admit_command p command) (\<lambda>r.
         case r of None \<Rightarrow> ret False | Some (c, aborted) \<Rightarrow> bindst (emit_command c (cartesian \<and> \<not> aborted)) (\<lambda>_. ret (\<not> aborted))))"

end
