(* ===== verification/Control_Cycle.thy ===== *)
theory Control_Cycle
  imports Controller
begin

text \<open>
  \<^verbatim>\<open>arm_control/control/arm_controller.py\<close>, continued: staging and releasing a plan, completion, the inputs the controller
  handles, and the control cycle that turns its state into one motor command.
\<close>

subsection \<open>Releasing a plan\<close>

definition release_error :: "string \<Rightarrow> string option ctl" where
  "release_error plan_id =
     withst (\<lambda>s. case ac_plan s of
       None \<Rightarrow> ret (Some ''the named plan is no longer staged'')
     | Some leg \<Rightarrow>
         if lg_plan_id leg \<noteq> plan_id then ret (Some ''the named plan is no longer staged'')
         else if \<not> ac_armed s \<or> \<not> ac_ready_sent s then ret (Some ''not armed'')
         else (case cf_policy (ac_cfg s) of
             None \<Rightarrow> ret None
           | Some p \<Rightarrow> bindst (observation_error p) (\<lambda>reason.
               if reason \<noteq> None then ret reason
               else lift (bindr (py_get (pl_positions leg) 0) (\<lambda>start. start_error p start (js_position (ac_last_state s)))))))"

definition start_leg :: "fl option \<Rightarrow> unit ctl" where
  "start_leg start = seqs
     [modst (\<lambda>s. s\<lparr>ac_jog := jh_clear (ac_jog s)\<rparr>),
      bindst (case start of Some t \<Rightarrow> ret t | None \<Rightarrow> exec_time) (\<lambda>t0.
      withst (\<lambda>s. case ac_pending_traj s of
        None \<Rightarrow> lift (Inl AttributeError)
      | Some traj \<Rightarrow>
          let t_start = (if ac_reference_source s then None else Some t0) in
          bindst (lift (mk_TrajectoryReference traj t_start (ac_reference_source s))) (\<lambda>ref.
          modst (\<lambda>s. s\<lparr>ac_reference := Some ref,
            ac_settling := ls_begin (ac_settling s) (if ac_reference_source s then None else Some (t0 + duration_sec traj)),
            ac_completion_sample_at := None, ac_stream_sent_at := None, ac_stream_sent_target := None, ac_running := True,
            ac_first_sample_pending := True\<rparr>))))]"

definition release :: "string \<Rightarrow> fl option \<Rightarrow> unit ctl" where
  "release plan_id start =
     withst (\<lambda>s. case ac_plan s of
       None \<Rightarrow> ret ()
     | Some leg \<Rightarrow>
         if lg_plan_id leg \<noteq> plan_id then ret ()
         else if \<not> ac_armed s \<or> \<not> ac_ready_sent s then finish_leg False ''not armed'' None
         else if ac_running s then ret ()
         else bindst (if cf_policy (ac_cfg s) \<noteq> None then release_error plan_id else ret None) (\<lambda>reason.
           case reason of
             Some r \<Rightarrow> seqs [finish_leg False r None, modst (\<lambda>s. s\<lparr>ac_pending_traj := None\<rparr>)]
           | None \<Rightarrow> start_leg start))"

subsection \<open>Staging a plan\<close>

definition plan_refusal :: "leg \<Rightarrow> (string \<times> bool) option ctl" where
  "plan_refusal leg =
     withst (\<lambda>s.
       if ac_pose_hold s \<noteq> None then ret (Some (''Soft pose hold active; select Track before planning'', True))
       else if ac_stopped s then ret (Some (''controller is stopped'', False))
       else if ac_frozen s then ret (Some (''controller is frozen (hold or failed settle) - press Stop to clear'', False))
       else if ac_running s then ret (Some (current_plan_id s @ '' is still executing'', False))
       else if cf_model_token (ac_cfg s) \<noteq> None \<and> lg_model_token leg \<noteq> cf_model_token (ac_cfg s)
       then ret (Some (''plan model != controller model; re-plan'', True))
       else bindst (case cf_policy (ac_cfg s) of
               None \<Rightarrow> ret None
             | Some p \<Rightarrow> bindst (observation_error p) (\<lambda>reason.
                 if reason \<noteq> None then ret reason
                 else lift (plan_error p (plan.truncate leg) (js_position (ac_last_state s)) (cf_n_arm (ac_cfg s)) (where_been s)))) (\<lambda>reason.
         case reason of
           Some r \<Rightarrow> ret (Some (r, True))
         | None \<Rightarrow>
             (case gain_error (pl_kp leg) (pl_kd leg) of
                Some r \<Rightarrow> ret (Some (r, True))
              | None \<Rightarrow>
                  if pl_cartesian leg \<noteq> None \<and> lg_completion leg = None \<and> ex_done_pose_tol (ac_executor s) = None
                  then ret (Some (''a Cartesian leg without a completion rule completes on the hand pose: this arm configures no arm.done_pose_tol_m/done_pose_tol_rad'', True))
                  else ret None)))"

definition stage_plan :: "leg \<Rightarrow> unit ctl" where
  "stage_plan leg =
     bindst (lift (mk_JointTrajectory (pl_times leg) (pl_positions leg) (Some (pl_velocities leg)))) (\<lambda>traj.
     seqs
       [on_executor (set_gains (Some (pl_kp leg)) (Some (pl_kd leg))),
        modst (\<lambda>s. s\<lparr>ac_plan := Some leg, ac_cartesian_now := pl_cartesian leg, ac_pending_traj := Some traj, ac_running := False\<rparr>),
        stage_ack (lg_plan_id leg) True [],
        whenst (\<not> lg_gated leg) (release (lg_plan_id leg) None)])"

definition on_plan :: "plan_body \<Rightarrow> unit ctl" where
  "on_plan body =
     (case unpack_plan body of
        Inl e \<Rightarrow> refuse_plan (pb_plan_id body) ''malformed plan'' True
      | Inr leg \<Rightarrow> bindst (plan_refusal leg) (\<lambda>refusal.
          case refusal of Some (reason, report) \<Rightarrow> refuse_plan (lg_plan_id leg) reason report | None \<Rightarrow> stage_plan leg))"

definition staged_trajectory :: "string \<Rightarrow> ArmController \<Rightarrow> JointTrajectory result" where
  "staged_trajectory plan_id s =
     (if current_plan_id s \<noteq> plan_id \<or> ac_pending_traj s = None \<or> ac_running s then Inl (ValueError ''the named trajectory is not staged and unselected'')
      else case ac_pending_traj s of None \<Rightarrow> Inl AttributeError | Some t \<Rightarrow> mk_JointTrajectory (jt_times t) (jt_positions t) (jt_velocities t))"

definition select_reference_window :: "string \<Rightarrow> JointTrajectory \<Rightarrow> bool \<Rightarrow> unit ctl" where
  "select_reference_window plan_id trajectory terminal =
     withst (\<lambda>s. case ac_reference s of
       Some r \<Rightarrow>
         if current_plan_id s \<noteq> plan_id \<or> \<not> tr_source r then lift (Inl (ValueError ''selected native reference required''))
         else modst (\<lambda>s. s\<lparr>ac_reference := Some (r\<lparr>tr_trajectory := trajectory, tr_terminal := terminal\<rparr>)\<rparr>)
     | None \<Rightarrow> lift (Inl (ValueError ''selected native reference required'')))"

definition bind_reference_source :: "bool \<Rightarrow> unit ctl" where
  "bind_reference_source source =
     withst (\<lambda>s. if ac_armed s \<or> ac_plan s \<noteq> None then lift (Inl (ValueError ''bind reference source before ARM or plan admission''))
       else modst (\<lambda>s. s\<lparr>ac_reference_source := source\<rparr>))"

definition set_stream_hold_deadline :: "fl \<Rightarrow> fl \<Rightarrow> unit ctl" where
  "set_stream_hold_deadline hold_ms margin_ms =
     (if \<not> (isfinite hold_ms \<and> hold_ms > margin_ms \<and> margin_ms > 0) then lift (Inl (ValueError ''RT hold_ms must exceed the streamed guard margin''))
      else modst (\<lambda>s. s\<lparr>ac_stream_gap_limit_s := Some ((hold_ms - margin_ms) / 1000)\<rparr>))"

definition streamed_command_sent :: "string \<Rightarrow> vec \<Rightarrow> fl \<Rightarrow> unit ctl" where
  "streamed_command_sent plan_id q sent_at =
     modst (\<lambda>s. if ac_running s \<and> current_plan_id s = plan_id \<and> \<not> ac_reference_source s
       then s\<lparr>ac_stream_sent_target := Some q, ac_stream_sent_at := Some sent_at\<rparr> else s)"

subsection \<open>Completion\<close>

definition completion_rule :: "ArmController \<Rightarrow> completion_spec option" where
  "completion_rule s = (case ac_plan s of None \<Rightarrow> None | Some leg \<Rightarrow> lg_completion leg)"

definition ref_end :: "ArmController \<Rightarrow> vec result" where
  "ref_end s = (case ac_reference s of None \<Rightarrow> Inl AttributeError | Some r \<Rightarrow> bindr (tr_end r) (\<lambda>e. Inr (pt_position e)))"

definition leg_done :: "ArmController \<Rightarrow> JointState \<Rightarrow> bool result" where
  "leg_done s state =
     (if ac_reference s = None then Inr True
      else case completion_rule s of
        None \<Rightarrow>
          bindr (ref_end s) (\<lambda>e. if ac_cartesian_now s \<noteq> None then hand_at_goal (ac_executor s) e state else at_goal (ac_executor s) e state None None)
      | Some spec \<Rightarrow>
          bindr (arr_max (vabs (js_velocity state))) (\<lambda>v.
          if v > cp_vel_tol spec then Inr False
          else (case cp_goal_q spec of
              None \<Rightarrow> Inr True
            | Some goal \<Rightarrow> bindr (np_sub (js_position state) goal) (\<lambda>d. bindr (arr_max (vabs d)) (\<lambda>residual.
                case cp_residual_max spec of None \<Rightarrow> Inl TypeError | Some m \<Rightarrow> Inr (residual \<le> m))))))"

text \<open>\<^verbatim>\<open>int(np.argmax(error)) + 1\<close>.\<close>

definition argmax1 :: "vec \<Rightarrow> int result" where
  "argmax1 v = bindr (arr_max v) (\<lambda>m. Inr (int (length (takeWhile (\<lambda>x. \<not> (if isnan m then isnan x else x = m)) v)) + 1))"

definition progress_of :: "ArmController \<Rightarrow> leg \<Rightarrow> JointState \<Rightarrow> SettleVerdict \<Rightarrow> completion_progress result" where
  "progress_of s leg state verdict =
     bindr (ref_end s) (\<lambda>e.
     let spec = lg_completion leg;
         hand = (spec = None \<and> ac_cartesian_now s \<noteq> None);
         goal = (case spec of None \<Rightarrow> Some e | Some c \<Rightarrow> cp_goal_q c);
         pos_tol = (case spec of None \<Rightarrow> Some (ex_done_pos_tol (ac_executor s)) | Some c \<Rightarrow> cp_residual_max c);
         vel_tol = (case spec of None \<Rightarrow> ex_done_vel_tol (ac_executor s) | Some c \<Rightarrow> cp_vel_tol c) in
     bindr (case goal of
              Some g \<Rightarrow> if hand then Inr (None, None) else
                bindr (np_sub (js_position state) g) (\<lambda>d. bindr (argmax1 (vabs d)) (\<lambda>j. bindr (arr_max (vabs d)) (\<lambda>r. Inr (Some j, Some r))))
            | None \<Rightarrow> Inr (None, None)) (\<lambda>(joint, residual).
     bindr (arr_max (vabs (js_velocity state))) (\<lambda>speed.
     bindr (if \<not> hand then Inr None
            else bindr (hand_error (ac_executor s) e (js_position state)) (\<lambda>(pos, rot).
              case ex_done_pose_tol (ac_executor s) of None \<Rightarrow> Inl TypeError | Some (a, b) \<Rightarrow> Inr (Some (pos, rot, a, b)))) (\<lambda>h.
     Inr \<lparr>cg_state = sv_state verdict, cg_elapsed_s = sv_elapsed_s verdict, cg_remaining_s = sv_remaining_s verdict, cg_joint = joint,
          cg_error_rad = residual, cg_position_tolerance_rad = (if hand then None else pos_tol), cg_speed_rad_s = speed,
          cg_velocity_tolerance_rad_s = vel_tol, cg_hand = h\<rparr>))))"

definition settle_timeout :: "completion_progress \<Rightarrow> unit ctl" where
  "settle_timeout progress =
     bindst static_hold (\<lambda>hold. seqs
       [modst (\<lambda>s. s\<lparr>ac_hold_anchor := Some hold, ac_last_command := Some hold, ac_cartesian_now := None, ac_pending_traj := None, ac_frozen := True\<rparr>),
        finish_leg False ''Completion timeout: holding measured pose; completion criteria not met'' (Some progress)])"

definition on_verdict :: "JointState \<Rightarrow> fl \<Rightarrow> SettleVerdict \<Rightarrow> bool ctl" where
  "on_verdict state now verdict =
     withst (\<lambda>s. case ac_plan s of
       None \<Rightarrow> lift (Inl AttributeError)
     | Some leg \<Rightarrow>
         if sv_state verdict = SETTLED then
           bindst (if lg_completion leg = None \<and> ac_cartesian_now s \<noteq> None
                   then lift (bindr (ref_end s) (\<lambda>e. bindr (hand_error (ac_executor s) e (js_position state)) (\<lambda>_. Inr ()))) else ret ()) (\<lambda>_.
           bindst (finish_leg True [] None) (\<lambda>_. ret True))
         else bindst (lift (progress_of s leg state verdict)) (\<lambda>progress.
           if sv_state verdict = TIMED_OUT then bindst (settle_timeout progress) (\<lambda>_. ret True)
           else bindst (on_settling (\<lambda>x. case ls_due_to_report x now of (b, y) \<Rightarrow> (Inr b, y))) (\<lambda>due.
             bindst (whenst due (send_event ((event_args ''leg_progress'')\<lparr>ce_plan_id := lg_plan_id leg, ce_completion := Some progress\<rparr>))) (\<lambda>_. ret False))))"

definition check_completion :: "JointState \<Rightarrow> bool ctl" where
  "check_completion state =
     withst (\<lambda>s0. if (case ac_reference s0 of None \<Rightarrow> False | Some r \<Rightarrow> \<not> tr_terminal r) then ret False
     else bindst exec_time (\<lambda>now.
       let fresh = (ac_completion_sample_at s0 \<noteq> ac_last_state_at s0) in
       bindst (modst (\<lambda>s. s\<lparr>ac_completion_sample_at := ac_last_state_at s\<rparr>)) (\<lambda>_.
       bindst (case ac_reference s0 of
                 None \<Rightarrow> ret False
               | Some r \<Rightarrow> if tr_source r then bindst (ref_elapsed r now) (\<lambda>el. ret (el \<ge> tr_end_phase r)) else ret False) (\<lambda>ended.
       withst (\<lambda>s. bindst (on_settling (ls_poll now fresh (leg_done s state) ended)) (\<lambda>verdict.
         case verdict of None \<Rightarrow> ret False | Some v \<Rightarrow> on_verdict state now v))))))"

subsection \<open>Jog\<close>

definition jog_refusal :: "ArmController \<Rightarrow> string option" where
  "jog_refusal s =
     (if ac_stopped s then Some ''stopped'' else if ac_frozen s then Some ''frozen after a failed settle (cancel/hold, or DISARM, clears it)''
      else if \<not> ac_armed s then Some ''not armed'' else if \<not> ac_ready_sent s then Some ''no fresh measured pose since ARM''
      else if ac_pose_hold s \<noteq> None then Some ''Soft (pose hold) is selected'' else if ac_running s then Some ''a plan is running'' else None)"

definition on_jog :: "vec \<Rightarrow> string option ctl" where
  "on_jog q =
     withst (\<lambda>s. let refusal = jog_refusal s in
       if refusal \<noteq> None then ret refusal
       else bindst (modst (\<lambda>s. if jh_active (ac_jog s) then s else s\<lparr>ac_jog_ramp := map_option jr_reset (ac_jog_ramp s)\<rparr>)) (\<lambda>_.
         bindst read_clock (\<lambda>now. withst (\<lambda>s. bindst (lift (jh_set (ac_jog s) q now)) (\<lambda>h.
         bindst (modst (\<lambda>s. s\<lparr>ac_jog := h\<rparr>)) (\<lambda>_. ret None))))))"

definition clear_jog :: "unit ctl" where
  "clear_jog = withst (\<lambda>s. whenst (jh_active (ac_jog s)) (seqs
     [modst (\<lambda>s. s\<lparr>ac_jog := jh_clear (ac_jog s)\<rparr>), bindst static_hold (\<lambda>hold. modst (\<lambda>s. s\<lparr>ac_hold_anchor := Some hold\<rparr>))]))"

definition jog_target :: "(vec option \<times> bool) ctl" where
  "jog_target =
     bindst read_clock (\<lambda>now. withst (\<lambda>s.
       let (q, h1) = jh_target (ac_jog s) now; (expired, h2) = jh_take_expired h1 in
       bindst (modst (\<lambda>s. s\<lparr>ac_jog := h2\<rparr>)) (\<lambda>_.
       bindst (whenst expired (bindst static_hold (\<lambda>hold. modst (\<lambda>s. s\<lparr>ac_hold_anchor := Some hold\<rparr>)))) (\<lambda>_. ret (q, expired)))))"

subsection \<open>The control cycle\<close>

definition anchored_hold :: "int \<Rightarrow> fl \<Rightarrow> bool \<Rightarrow> JointServoCommand ctl" where
  "anchored_hold cycle_id cycle_time refresh =
     withst (\<lambda>s. case cf_policy (ac_cfg s) of
       Some p \<Rightarrow>
         let q = js_position (ac_last_state s); kp = ex_kp (ac_executor s) in
         bindst (lift (relatch_tolerance p kp)) (\<lambda>tolerance.
         bindst (case ac_hold_anchor s of
                   None \<Rightarrow> ret True
                 | Some a \<Rightarrow> lift (bindr (np_sub q (q_des a)) (\<lambda>d. np_any1 (>) (vabs d) tolerance))) (\<lambda>relatch.
         bindst (whenst relatch (bindst static_hold (\<lambda>hold. modst (\<lambda>s. s\<lparr>ac_hold_anchor := Some hold\<rparr>)))) (\<lambda>_.
         withst (\<lambda>s. case ac_hold_anchor s of
           None \<Rightarrow> lift (Inl AttributeError)
         | Some a \<Rightarrow> bindst (on_integral (is_update cycle_id cycle_time (q_des a) q kp)) (\<lambda>bias.
             lift (hold_command (ac_executor s) (ac_last_state s) (Some (q_des a)) bias))))))
     | None \<Rightarrow>
         bindst (if ac_hold_anchor s = None \<or> refresh then
             bindst (case ac_last_command s of
                       None \<Rightarrow> ret False
                     | Some c \<Rightarrow> if refresh then ret False else lift (max_abs_lt (qd_des c) (Fin (5 / 100)))) (\<lambda>quiet.
             let state = (case ac_last_command s of
                            Some c \<Rightarrow> if quiet then \<lparr>js_position = q_des c, js_velocity = zeros (cf_n_arm (ac_cfg s))\<rparr> else ac_last_state s
                          | None \<Rightarrow> ac_last_state s) in
             bindst (on_integral (is_update cycle_id cycle_time (js_position state) (js_position state) (ex_kp (ac_executor s)))) (\<lambda>bias.
             bindst (lift (hold_command (ac_executor s) state None bias)) (\<lambda>c. modst (\<lambda>s. s\<lparr>ac_hold_anchor := Some c\<rparr>))))
           else ret ()) (\<lambda>_.
         withst (\<lambda>s. lift (case ac_hold_anchor s of None \<Rightarrow> Inl AttributeError | Some a \<Rightarrow> Inr a))))"

text \<open>\<^verbatim>\<open>_stream\<close> in stages: readiness, the streamed-gap guard, completion under a policy, the leg, the jog, the hold.\<close>

definition announce_ready :: "unit ctl" where
  "announce_ready = seqs
     [modst (\<lambda>s. s\<lparr>ac_ready_sent := True\<rparr>),
      withst (\<lambda>s. send_event ((event_args ''ready'')\<lparr>ce_q := Some (js_position (ac_last_state s)), ce_qd := Some (js_velocity (ac_last_state s)),
        ce_runtime_state := Some (runtime_of s)\<rparr>))]"

definition gap_exceeded :: "bool ctl" where
  "gap_exceeded = withst (\<lambda>s. if ac_running s \<and> \<not> ac_reference_source s then
       (case (ac_stream_gap_limit_s s, ac_stream_sent_at s) of
          (Some bound, Some t) \<Rightarrow> bindst read_clock (\<lambda>now. ret (now - t > bound))
        | _ \<Rightarrow> ret False)
     else ret False)"

definition stream_gap :: "unit ctl" where
  "stream_gap = withst (\<lambda>s. case ac_stream_sent_target s of
       None \<Rightarrow> lift (Inl AttributeError)
     | Some target \<Rightarrow>
         bindst (cancel ''PC streamed command gap exceeded RT hold margin: re-plan from measured pose'') (\<lambda>_.
         withst (\<lambda>t. bindst (lift (hold_command (ac_executor t) (ac_last_state s) (Some target) (is_bias (ac_integral t)))) (\<lambda>hold.
         bindst (modst (\<lambda>s. s\<lparr>ac_hold_anchor := Some hold, ac_stream_sent_at := None, ac_stream_sent_target := None\<rparr>)) (\<lambda>_.
         bindst (send hold False) (\<lambda>_. ret ()))))))"

definition settle_before_sample :: "unit ctl" where
  "settle_before_sample =
     withst (\<lambda>s. case (cf_policy (ac_cfg s), ac_running s, ac_reference s, ac_plan s) of
       (Some p, True, Some ref, Some leg) \<Rightarrow>
         bindst (if lg_completion leg = None then bindst (lift (ref_end s)) (\<lambda>e. ret (Some e)) else ret None) (\<lambda>goal.
         bindst (check_completion (ac_last_state s)) (\<lambda>finished.
         whenst finished (bindst (withst (\<lambda>t. if ac_frozen t then ret () else
             (case goal of
                None \<Rightarrow> modst (\<lambda>s. s\<lparr>ac_hold_anchor := None, ac_last_command := None\<rparr>)
              | Some g \<Rightarrow> bindst (lift (hold_command (ac_executor t) (ac_last_state s) (Some g) (is_bias (ac_integral t)))) (\<lambda>hold.
                  modst (\<lambda>s. s\<lparr>ac_hold_anchor := Some hold, ac_last_command := Some hold\<rparr>)))))
           (\<lambda>_. modst (\<lambda>s. s\<lparr>ac_cartesian_now := None\<rparr>)))))
     | (Some p, True, Some ref, None) \<Rightarrow> lift (Inl AttributeError)
     | _ \<Rightarrow> ret ())"

definition note_first_sample :: "TrajectoryReference \<Rightarrow> unit ctl" where
  "note_first_sample ref = withst (\<lambda>s. whenst (ac_first_sample_pending s)
     (bindst exec_time (\<lambda>t. bindst (ref_elapsed ref t) (\<lambda>el.
        whenst (el \<ge> 0) (bindst exec_time (\<lambda>_. bindst exec_time (\<lambda>t'. bindst (ref_elapsed ref t') (\<lambda>_.
          modst (\<lambda>s. s\<lparr>ac_first_sample_pending := False\<rparr>)))))))))"

definition stream_leg :: "int \<Rightarrow> fl \<Rightarrow> TrajectoryReference \<Rightarrow> unit ctl" where
  "stream_leg cycle_id cycle_time ref =
     bindst exec_time (\<lambda>t. bindst (ref_sample ref t) (\<lambda>point.
     bindst (note_first_sample ref) (\<lambda>_.
     withst (\<lambda>s.
       let arm = ac_last_state s; q_int = (if ac_cartesian_now s \<noteq> None then js_position arm else pt_position point) in
       bindst (on_integral (is_update cycle_id cycle_time q_int (js_position arm) (ex_kp (ac_executor s)))) (\<lambda>bias.
       bindst (lift (ex_step (ac_executor s) point arm bias)) (\<lambda>command.
       bindst (modst (\<lambda>s. s\<lparr>ac_hold_anchor := None\<rparr>)) (\<lambda>_.
       bindst (send command True) (\<lambda>sent.
       whenst (sent \<and> cf_policy (ac_cfg s) = None) (bindst (check_completion arm) (\<lambda>_. ret ()))))))))))"

definition ramp_jog :: "vec option \<Rightarrow> vec option ctl" where
  "ramp_jog jog = withst (\<lambda>s. case ac_jog_ramp s of
       None \<Rightarrow> ret jog
     | Some ramp \<Rightarrow>
         (case jog of
            None \<Rightarrow> bindst (modst (\<lambda>s. s\<lparr>ac_jog_ramp := Some (jr_reset ramp)\<rparr>)) (\<lambda>_. ret None)
          | Some q \<Rightarrow>
              if all_finite q then
                (case cf_policy (ac_cfg s) of
                   None \<Rightarrow> lift (Inl AttributeError)
                 | Some p \<Rightarrow>
                     (case jr_step ramp q (js_position (ac_last_state s)) (policy_period p) of
                        (r, ramp') \<Rightarrow> bindst (modst (\<lambda>s. s\<lparr>ac_jog_ramp := Some ramp'\<rparr>)) (\<lambda>_. bindst (lift r) (\<lambda>v. ret (Some v)))))
              else ret jog))"

definition stream_idle :: "int \<Rightarrow> fl \<Rightarrow> unit ctl" where
  "stream_idle cycle_id cycle_time =
     bindst jog_target (\<lambda>(target, expired). bindst (ramp_jog target) (\<lambda>jog.
       case jog of
         Some q \<Rightarrow>
           withst (\<lambda>s.
             if cf_policy (ac_cfg s) \<noteq> None \<and> \<not> all_finite q then fault ''non-finite or invalid servo command''
             else bindst (on_integral (is_update cycle_id cycle_time q (js_position (ac_last_state s)) (ex_kp (ac_executor s)))) (\<lambda>bias.
               bindst (lift (hold_command (ac_executor s) (ac_last_state s) (Some q) bias)) (\<lambda>command.
               bindst (modst (\<lambda>s. s\<lparr>ac_hold_anchor := None\<rparr>)) (\<lambda>_. bindst (send command False) (\<lambda>_. ret ())))))
       | None \<Rightarrow> bindst (anchored_hold cycle_id cycle_time expired) (\<lambda>command. bindst (send command False) (\<lambda>_. ret ()))))"

definition stream :: "unit ctl" where
  "stream = withst (\<lambda>s.
     if \<not> ac_armed s then ret ()
     else if \<not> ac_ready_sent s \<and> \<not> ac_bridge_armed s then ret ()
     else bindst (whenst (\<not> ac_ready_sent s) announce_ready) (\<lambda>_.
       if \<not> (all_finite (js_position (ac_last_state s)) \<and> all_finite (js_velocity (ac_last_state s))) then ret ()
       else bindst gap_exceeded (\<lambda>gap.
         if gap then stream_gap
         else bindst (modst (\<lambda>s. s\<lparr>ac_cycle_id := ac_cycle_id s + 1\<rparr>)) (\<lambda>_.
           bindst read_clock (\<lambda>cycle_time.
           bindst settle_before_sample (\<lambda>_.
           withst (\<lambda>s. case (ac_running s, ac_reference s) of
               (True, Some ref) \<Rightarrow> stream_leg (ac_cycle_id s) cycle_time ref
             | _ \<Rightarrow> stream_idle (ac_cycle_id s) cycle_time)))))))"

definition tick :: "unit ctl" where
  "tick = withst (\<lambda>s. case cf_policy (ac_cfg s) of
       None \<Rightarrow> ret ()
     | Some p \<Rightarrow>
         if ac_stopped s then ret ()
         else bindst (observation_error p) (\<lambda>reason.
           case reason of
             Some r \<Rightarrow> pause_observation r False
           | None \<Rightarrow> bindst (modst (\<lambda>s. s\<lparr>ac_observation_paused := False\<rparr>)) (\<lambda>_. stream)))"

subsection \<open>Plant reports\<close>

definition accept_state :: "JointState \<Rightarrow> unit ctl" where
  "accept_state arm = modst (\<lambda>s.
     let q = js_position arm; s1 = s\<lparr>ac_last_state := arm\<rparr> in
     if ac_armed s \<and> all_finite q then
       s1\<lparr>ac_arm_pose := (if ac_arm_pose_fixed s then ac_arm_pose s else Some q),
          ac_been := Some (case ac_been s of None \<Rightarrow> (q, q) | Some (lo, hi) \<Rightarrow> (map2 np_min lo q, map2 np_max hi q))\<rparr>
     else s1)"

definition heartbeat_due :: "ArmController \<Rightarrow> JointState \<Rightarrow> bool" where
  "heartbeat_due s arm \<longleftrightarrow> all_finite (js_position arm) \<and> all_finite (js_velocity arm) \<and>
     (case ac_mode_report_at s of None \<Rightarrow> True
      | Some t \<Rightarrow> (case ac_last_state_at s of None \<Rightarrow> False | Some now \<Rightarrow> now - t \<ge> Fin (1 / 4)))"

text \<open>A non-finite sample is dropped under a policy, and one that comes after too long a gap cancels first.\<close>

definition screen_state :: "fl option \<Rightarrow> JointState \<Rightarrow> bool ctl" where
  "screen_state previous arm = withst (\<lambda>s. case cf_policy (ac_cfg s) of
       None \<Rightarrow> ret True
     | Some p \<Rightarrow>
         if \<not> (all_finite (js_position arm) \<and> all_finite (js_velocity arm)) then
           bindst (modst (\<lambda>s. s\<lparr>ac_last_state_at := None\<rparr>)) (\<lambda>_. bindst (pause_observation ''non-finite motor state'' False) (\<lambda>_. ret False))
         else
           (case previous of
              None \<Rightarrow> ret True
            | Some t \<Rightarrow> bindst read_clock (\<lambda>now.
                bindst (whenst (now - t > state_timeout_sec p) (pause_observation ''motor state gap: re-plan'' (\<not> ac_reference_source s))) (\<lambda>_. ret True))))"

definition take_state :: "fl option \<Rightarrow> JointState \<Rightarrow> unit ctl" where
  "take_state previous arm =
     bindst (screen_state previous arm) (\<lambda>go. whenst go (seqs
       [accept_state arm,
        withst (\<lambda>s. whenst (cf_policy (ac_cfg s) = None) stream),
        withst (\<lambda>s. whenst (heartbeat_due s arm) (report_mode True None True))]))"

definition on_motor_state :: "vec \<Rightarrow> unit ctl" where
  "on_motor_state flat =
     withst (\<lambda>s0. bindst read_clock (\<lambda>now.
     bindst (modst (\<lambda>s. s\<lparr>ac_last_state_at := Some now\<rparr>)) (\<lambda>_.
     if ac_stopped s0 then ret ()
     else bindst (modst (\<lambda>s. case cf_state_period (ac_cfg s) of None \<Rightarrow> s | Some p \<Rightarrow> s\<lparr>ac_plant_t := ac_plant_t s + p\<rparr>)) (\<lambda>_.
       bindst (lift (unpack_motor_state flat (cf_n_arm (ac_cfg s0)))) (\<lambda>m.
       take_state (ac_last_state_at s0) \<lparr>js_position = ms_position m, js_velocity = ms_velocity m\<rparr>)))))"

record health =
  hl_state_fresh :: bool
  hl_any_fault :: bool
  hl_latched_fault :: bool
  hl_holding :: bool
  hl_holding_q :: "vec option"
  hl_supports_pose_hold :: bool
  hl_armed :: bool

definition rt_hold :: "health \<Rightarrow> unit ctl" where
  "rt_hold h = seqs
     [withst (\<lambda>s. whenst (ac_running s) (cancel ''RT command-staleness hold: re-plan from measured pose'')),
      withst (\<lambda>s. case hl_holding_q h of
        None \<Rightarrow> ret ()
      | Some q \<Rightarrow> whenst (length q = cf_n_arm (ac_cfg s) \<and> all_finite q)
          (bindst (lift (hold_command (ac_executor s) (ac_last_state s) (Some q) (is_bias (ac_integral s)))) (\<lambda>hold.
             modst (\<lambda>s. s\<lparr>ac_hold_anchor := Some hold\<rparr>))))]"

definition policy_health :: "health \<Rightarrow> unit ctl" where
  "policy_health h = bindst read_clock (\<lambda>now. seqs
     [modst (\<lambda>s. s\<lparr>ac_health_at := Some now, ac_health_ok := (hl_state_fresh h \<and> \<not> hl_any_fault h \<and> \<not> hl_latched_fault h)\<rparr>),
      withst (\<lambda>s. whenst (\<not> ac_reference_source s \<and> hl_holding h \<and> \<not> ac_rt_holding s \<and> ac_health_ok s) (rt_hold h)),
      modst (\<lambda>s. s\<lparr>ac_rt_holding := hl_holding h\<rparr>),
      withst (\<lambda>s. whenst (\<not> ac_health_ok s) (pause_observation ''plant health is faulted or stale'' False))])"

definition on_motor_health :: "health \<Rightarrow> unit ctl" where
  "on_motor_health h = seqs
     [withst (\<lambda>s. whenst (cf_policy (ac_cfg s) \<noteq> None) (policy_health h)),
      modst (\<lambda>s. s\<lparr>ac_supports_pose_hold := hl_supports_pose_hold h\<rparr>),
      withst (\<lambda>s.
        if hl_armed h \<and> \<not> ac_bridge_armed s \<and> ac_armed s then modst (\<lambda>s. s\<lparr>ac_bridge_armed := True\<rparr>)
        else whenst (\<not> hl_armed h \<and> ac_bridge_armed s \<and> ac_armed s \<and> \<not> ac_stopped s) (fault ''plant reported disarmed''))]"

subsection \<open>Control updates\<close>

definition validate_pose_hold :: "pose_hold_spec option \<Rightarrow> pose_hold ctl" where
  "validate_pose_hold spec = withst (\<lambda>s0.
     bindst (case cf_policy (ac_cfg s0) of None \<Rightarrow> ret None | Some p \<Rightarrow> observation_error p) (\<lambda>reason.
     if reason \<noteq> None then lift (Inl (ValueError ''Soft needs fresh, healthy measured state''))
     else bindst (lift (case spec of None \<Rightarrow> Inl TypeError | Some sp \<Rightarrow> bindr (pose_hold_values sp) unpack_pose_hold_values)) (\<lambda>hold.
     if cf_pose_provenance (ac_cfg s0) = ''calibrated'' then lift (Inl (ValueError ''Soft uses the RT vendor task model''))
     else if \<not> ac_supports_pose_hold s0 \<or> \<not> ac_armed s0 \<or> \<not> ac_ready_sent s0 \<or> ac_stopped s0 \<or> ac_frozen s0
     then lift (Inl (ValueError ''Soft needs an armed, ready, capable plant''))
     else bindst (case ac_last_state_at s0 of None \<Rightarrow> ret True | Some t \<Rightarrow> bindst read_clock (\<lambda>now. ret (now - t > 1))) (\<lambda>stale.
     if stale \<or> \<not> all_finite (js_position (ac_last_state s0)) \<or> \<not> all_finite (js_velocity (ac_last_state s0))
     then lift (Inl (ValueError ''Soft needs fresh, finite measured state''))
     else bindst (if ac_running s0 \<or> jh_active (ac_jog s0) then ret True
                  else lift (bindr (arr_max (vabs (js_velocity (ac_last_state s0)))) (\<lambda>v. Inr (v > Fin (5 / 100))))) (\<lambda>moving.
     if moving then lift (Inl (ValueError ''Stop and settle before selecting Soft'')) else ret hold)))))"

definition set_pose_hold :: "pose_hold_spec option \<Rightarrow> unit ctl" where
  "set_pose_hold spec =
     tryst (validate_pose_hold spec)
       (\<lambda>e. report_mode False (Some (case e of ValueError r \<Rightarrow> r | _ \<Rightarrow> ''TypeError'')) False)
       (\<lambda>hold. seqs
          [cancel ''entering Soft'',
           withst (\<lambda>s. on_executor (set_gains (Some (cf_track_kp (ac_cfg s))) (Some (cf_track_kd (ac_cfg s))))),
           modst (\<lambda>s. s\<lparr>ac_last_command := None, ac_cartesian_now := None, ac_pose_hold := Some hold\<rparr>),
           reset_integral,
           report_mode True None False])"

definition set_gains_ctl :: "vec option \<Rightarrow> vec option \<Rightarrow> unit ctl" where
  "set_gains_ctl kp kd =
     withst (\<lambda>s. if kp = None \<and> kd = None then ret ()
       else if gain_error (case kp of None \<Rightarrow> ex_kp (ac_executor s) | Some v \<Rightarrow> v) (case kd of None \<Rightarrow> ex_kd (ac_executor s) | Some v \<Rightarrow> v) \<noteq> None
       then report_mode True None False
       else seqs
         [withst (\<lambda>s. whenst (ac_pose_hold s \<noteq> None) (seqs [cancel ''leaving Soft'', modst (\<lambda>s. s\<lparr>ac_last_command := None\<rparr>)])),
          withst (\<lambda>s. whenst (ac_running s) (cancel ''gains changed mid-leg'')),
          on_executor (set_gains kp kd),
          modst (\<lambda>s. s\<lparr>ac_hold_anchor := None\<rparr>),
          report_mode True None False])"

text \<open>The keys of a control update; an absent key is \<open>None\<close> (\<open>False\<close> for the flags).\<close>

record control =
  ct_arm :: "bool option"
  ct_payload :: "(fl option \<times> vec option) option"
  ct_execute :: "string option"
  ct_gains :: "(vec option \<times> vec option) option"
  ct_pose_hold :: "pose_hold_spec option option"
  ct_cancel :: bool
  ct_cancel_plan_id :: "string option"
  ct_hold :: bool
  ct_stop :: "string option"
  ct_reason :: string

definition or_text :: "string \<Rightarrow> string \<Rightarrow> string" where
  "or_text a b = (if a = [] then b else a)"

definition cancel_update :: "control \<Rightarrow> unit ctl" where
  "cancel_update c =
     withst (\<lambda>s. case ct_cancel_plan_id c of
       None \<Rightarrow> cancel (or_text (ct_reason c) ''cancelled'')
     | Some requested \<Rightarrow>
         if current_plan_id s = [] \<or> requested = current_plan_id s then
           bindst (cancel (or_text (ct_reason c) ''cancelled'')) (\<lambda>_.
           withst (\<lambda>t. send_event ((event_args ''plan_cleared'')\<lparr>ce_plan_id := or_text (current_plan_id s) requested, ce_runtime_state := Some (runtime_of t)\<rparr>)))
         else send_event ((event_args ''plan_cleared'')\<lparr>ce_plan_id := requested, ce_ok := False, ce_reason := ''another plan is loaded'',
           ce_runtime_state := Some (runtime_of s)\<rparr>))"

definition on_control :: "control \<Rightarrow> unit ctl" where
  "on_control c = seqs
     [(case ct_arm c of None \<Rightarrow> ret () | Some a \<Rightarrow> set_arm a),
      (case ct_payload c of None \<Rightarrow> ret ()
       | Some (mass, com) \<Rightarrow> on_executor (set_payload (case mass of None \<Rightarrow> 0 | Some m \<Rightarrow> m) com)),
      (case ct_execute c of None \<Rightarrow> ret () | Some plan_id \<Rightarrow> release plan_id None),
      (case ct_gains c of None \<Rightarrow> ret () | Some (kp, kd) \<Rightarrow> set_gains_ctl kp kd),
      (case ct_pose_hold c of None \<Rightarrow> ret () | Some spec \<Rightarrow> set_pose_hold spec),
      whenst (ct_cancel c) (cancel_update c),
      whenst (ct_hold c) (modst (\<lambda>s. s\<lparr>ac_frozen := True, ac_running := False, ac_reference := None\<rparr>)),
      (case ct_stop c of None \<Rightarrow> ret () | Some why \<Rightarrow> stop (or_text (ct_reason c) why))]"

subsection \<open>Events\<close>

text \<open>What a host may call, and a host that goes on after an exception.\<close>

datatype event =
    EPlan plan_body | EControl control | EJog vec | EClearJog | EHealth health | EState vec | ETick
  | ESent string vec fl | EWindow string JointTrajectory bool | EBindSource bool | EDeadline fl fl | EReleaseAt string fl

fun handle :: "event \<Rightarrow> unit ctl" where
  "handle (EPlan b) = on_plan b"
| "handle (EControl c) = on_control c"
| "handle (EJog q) = bindst (on_jog q) (\<lambda>_. ret ())"
| "handle EClearJog = clear_jog"
| "handle (EHealth h) = on_motor_health h"
| "handle (EState v) = on_motor_state v"
| "handle ETick = tick"
| "handle (ESent i q t) = streamed_command_sent i q t"
| "handle (EWindow i t b) = select_reference_window i t b"
| "handle (EBindSource b) = bind_reference_source b"
| "handle (EDeadline h m) = set_stream_hold_deadline h m"
| "handle (EReleaseAt i t) = release i (Some t)"

definition after_event :: "event \<Rightarrow> ArmController \<Rightarrow> ArmController" where
  "after_event e s = snd (handle e s)"

definition motor_words :: "ArmController \<Rightarrow> vec list" where
  "motor_words s = concat (map (\<lambda>m. case m of MotorMsg w \<Rightarrow> [w] | _ \<Rightarrow> []) (ac_sent s))"

end
