(* ===== verification/Control_Frame.thy ===== *)
theory Control_Frame
  imports Control_Cycle
begin

text \<open>
  What every method of the controller leaves alone. \<open>calm\<close> relates the state before and after a method that neither
  sends a motor command nor starts a plan; \<open>flow\<close> also admits the motor commands a policy has passed.
\<close>

definition in_band :: "vec \<Rightarrow> vec \<Rightarrow> vec \<Rightarrow> bool" where
  "in_band lo hi v \<longleftrightarrow> length v = length lo \<and> (\<forall>i < length lo. isfinite (v ! i) \<and> lo ! i \<le> v ! i \<and> v ! i \<le> hi ! i)"

definition poses_in :: "vec \<Rightarrow> vec \<Rightarrow> ArmController \<Rightarrow> bool" where
  "poses_in lo hi s \<longleftrightarrow> (all_finite (js_position (ac_last_state s)) \<longrightarrow> in_band lo hi (js_position (ac_last_state s))) \<and>
     (\<forall>q. ac_arm_pose s = Some q \<longrightarrow> in_band lo hi q) \<and> (\<forall>a b. ac_been s = Some (a, b) \<longrightarrow> in_band lo hi a \<and> in_band lo hi b)"

definition no_start :: "ArmController \<Rightarrow> ArmController \<Rightarrow> bool" where
  "no_start s t \<longleftrightarrow> (ac_plan t = ac_plan s \<or> ac_plan t = None) \<and> (ac_running t \<longrightarrow> ac_running s \<and> ac_plan t = ac_plan s)"

definition calm :: "vec \<Rightarrow> vec \<Rightarrow> ArmController \<Rightarrow> ArmController \<Rightarrow> bool" where
  "calm lo hi s t \<longleftrightarrow> motor_words t = motor_words s \<and> ac_cfg t = ac_cfg s \<and> (ac_stopped s \<longrightarrow> ac_stopped t) \<and> no_start s t \<and>
     (poses_in lo hi s \<longrightarrow> poses_in lo hi t)"

interpretation calm: guarantee "calm lo hi" for lo hi
  by unfold_locales (auto simp: calm_def no_start_def)

named_theorems calm_rules \<open>methods that neither send a motor command nor start a plan\<close>

lemma motor_words_snoc: "ac_sent t = ac_sent s @ [m] \<Longrightarrow> motor_words t = motor_words s @ (case m of MotorMsg w \<Rightarrow> [w] | _ \<Rightarrow> [])"
  by (simp add: motor_words_def)

lemma calm_simple:
  "ac_sent t = ac_sent s \<Longrightarrow> ac_cfg t = ac_cfg s \<Longrightarrow> ac_stopped t = ac_stopped s \<or> ac_stopped t \<Longrightarrow> no_start s t \<Longrightarrow> ac_last_state t = ac_last_state s \<Longrightarrow>
     ac_arm_pose t = ac_arm_pose s \<Longrightarrow> ac_been t = ac_been s \<Longrightarrow> calm lo hi s t"
  by (auto simp: calm_def motor_words_def poses_in_def)

lemma calm_mod:
  "(\<And>s. ac_sent (g s) = ac_sent s \<and> ac_cfg (g s) = ac_cfg s \<and> (ac_stopped (g s) = ac_stopped s \<or> ac_stopped (g s)) \<and> no_start s (g s) \<and>
      ac_last_state (g s) = ac_last_state s \<and> ac_arm_pose (g s) = ac_arm_pose s \<and> ac_been (g s) = ac_been s) \<Longrightarrow> guar (calm lo hi) (modst g)"
  by (rule calm.g_modst, rule calm_simple) auto

lemma calm_leaves [calm_rules]:
  "guar (calm lo hi) read_clock" "guar (calm lo hi) read_source" "guar (calm lo hi) reference_clock"
  "guar (calm lo hi) (on_settling m)" "guar (calm lo hi) (on_integral mi)" "guar (calm lo hi) (on_executor me)"
  unfolding guar_def read_clock_def read_source_def reference_clock_def on_settling_def on_integral_def on_executor_def
  by (auto intro!: calm_simple simp: no_start_def split: prod.split option.split)

lemma calm_send_output [calm_rules]: "(\<And>w. m \<noteq> MotorMsg w) \<Longrightarrow> guar (calm lo hi) (send_output m)"
  unfolding send_output_def
  by (rule calm.g_modst) (cases m; auto simp: calm_def no_start_def motor_words_def poses_in_def)

lemma calm_send_event [calm_rules]: "guar (calm lo hi) (send_event e)"
  unfolding send_event_def by (intro calm.g_rules calm_rules) simp

lemma calm_exec_time [calm_rules]: "guar (calm lo hi) exec_time"
  unfolding exec_time_def by (intro calm.g_rules calm_rules)

lemma calm_refs [calm_rules]: "guar (calm lo hi) (ref_sample r t)" "guar (calm lo hi) (ref_elapsed r t)"
  unfolding ref_sample_def ref_elapsed_def by (intro calm.g_rules calm_rules)+

lemma calm_acks [calm_rules]: "guar (calm lo hi) (stage_ack i ok r)" "guar (calm lo hi) (refuse_plan i r b)"
  unfolding refuse_plan_def stage_ack_def seqs.simps by (intro calm.g_rules calm_rules)+

lemma calm_report_mode [calm_rules]: "guar (calm lo hi) (report_mode ok r h)"
  unfolding report_mode_def Let_def seqs.simps
  by (intro calm.g_rules calm_rules calm_mod) (simp_all add: no_start_def)

lemma calm_finish_leg [calm_rules]: "guar (calm lo hi) (finish_leg ok r c)"
  unfolding finish_leg_def seqs.simps by (intro calm.g_rules calm_rules calm_mod) (simp add: no_start_def)

lemma calm_reset_integral [calm_rules]: "guar (calm lo hi) reset_integral"
  unfolding reset_integral_def by (intro calm_mod) (simp add: no_start_def)

lemma calm_disarm_reset [calm_rules]: "guar (calm lo hi) disarm_reset"
  unfolding disarm_reset_def seqs.simps by (intro calm.g_rules calm_rules calm_mod) (simp add: no_start_def)

lemma calm_arm_rest [calm_rules]: "guar (calm lo hi) arm_rest"
  unfolding arm_rest_def by (intro calm.g_rules calm_rules)

lemma calm_arm_pose: "guar (calm lo hi) (modst (\<lambda>s.
        let rest = (if fresh \<and> all_finite (js_position (ac_last_state s)) then Some (js_position (ac_last_state s)) else None) in
        s\<lparr>ac_arm_pose := rest, ac_arm_pose_fixed := False, ac_been := map_option (\<lambda>q. (q, q)) rest\<rparr>))"
  by (rule calm.g_modst) (auto simp: calm_def no_start_def motor_words_def poses_in_def Let_def)

lemma calm_set_arm [calm_rules]: "guar (calm lo hi) (set_arm a)"
  unfolding set_arm_def seqs.simps by (intro calm.g_rules calm_arm_pose calm_rules calm_mod) (simp_all add: no_start_def)

lemma calm_stop [calm_rules]: "guar (calm lo hi) (stop r)"
  unfolding stop_def seqs.simps by (intro calm.g_rules calm_rules calm_mod) (simp add: no_start_def)

lemma calm_fault [calm_rules]: "guar (calm lo hi) (fault r)"
  unfolding fault_def seqs.simps by (intro calm.g_rules calm_rules)

lemma calm_cancel [calm_rules]: "guar (calm lo hi) (cancel r)"
  unfolding cancel_def leave_soft_def drop_leg_def seqs.simps by (intro calm.g_rules calm_rules calm_mod) (simp_all add: no_start_def)

lemma calm_observation [calm_rules]: "guar (calm lo hi) (observation_error p)" "guar (calm lo hi) (pause_observation r b)"
  unfolding observation_error_def pause_observation_def Let_def seqs.simps
  by (intro calm.g_rules calm_rules calm_mod; simp add: no_start_def)+

lemma calm_static_hold [calm_rules]: "guar (calm lo hi) static_hold"
  unfolding static_hold_def by (intro calm.g_rules)

lemma calm_abort [calm_rules]: "guar (calm lo hi) (checked_hold p c)" "guar (calm lo hi) (abort_to_hold p)"
  unfolding abort_to_hold_def checked_hold_def by (intro calm.g_rules calm_rules calm_mod; simp add: no_start_def)+

lemma calm_admit [calm_rules]: "guar (calm lo hi) (admit_command p c)"
  unfolding admit_command_def by (intro calm.g_rules calm_rules calm_mod; simp add: no_start_def)

lemma calm_release_error [calm_rules]: "guar (calm lo hi) (release_error i)"
  unfolding release_error_def by (intro calm.g_rules calm_rules)

lemma calm_plan_refusal [calm_rules]: "guar (calm lo hi) (plan_refusal l)"
  unfolding plan_refusal_def by (intro calm.g_rules calm_rules)

lemma calm_small_inputs [calm_rules]:
  "guar (calm lo hi) (select_reference_window i tr b)" "guar (calm lo hi) (bind_reference_source b)"
  "guar (calm lo hi) (set_stream_hold_deadline h m)" "guar (calm lo hi) (streamed_command_sent i q t)"
  unfolding select_reference_window_def bind_reference_source_def set_stream_hold_deadline_def streamed_command_sent_def
  by (intro calm.g_rules calm_rules calm_mod; simp add: no_start_def)+

lemma calm_completion [calm_rules]:
  "guar (calm lo hi) (settle_timeout p)" "guar (calm lo hi) (on_verdict st now v)" "guar (calm lo hi) (check_completion st)"
proof -
  show a: "guar (calm lo hi) (settle_timeout p)" for p
    unfolding settle_timeout_def seqs.simps by (intro calm.g_rules calm_rules calm_mod) (simp add: no_start_def)
  show b: "guar (calm lo hi) (on_verdict st now v)" for now v
    unfolding on_verdict_def by (intro calm.g_rules a calm_rules)
  show "guar (calm lo hi) (check_completion st)"
    unfolding check_completion_def Let_def by (intro calm.g_rules b calm_rules calm_mod) (simp_all add: no_start_def)
qed

lemma calm_jog [calm_rules]: "guar (calm lo hi) (on_jog q)" "guar (calm lo hi) clear_jog" "guar (calm lo hi) jog_target" "guar (calm lo hi) (ramp_jog j)"
  unfolding on_jog_def clear_jog_def jog_target_def ramp_jog_def Let_def seqs.simps
  by (intro calm.g_rules calm_rules calm_mod; simp add: no_start_def)+

lemma calm_cycle_parts [calm_rules]:
  "guar (calm lo hi) (anchored_hold i t b)" "guar (calm lo hi) announce_ready" "guar (calm lo hi) gap_exceeded"
  "guar (calm lo hi) settle_before_sample" "guar (calm lo hi) (note_first_sample ref)"
  unfolding anchored_hold_def announce_ready_def gap_exceeded_def settle_before_sample_def note_first_sample_def Let_def seqs.simps
  by (intro calm.g_rules calm_rules calm_mod; simp add: no_start_def)+

lemma calm_inputs [calm_rules]:
  "guar (calm lo hi) (rt_hold h)" "guar (calm lo hi) (policy_health h)" "guar (calm lo hi) (on_motor_health h)"
  "guar (calm lo hi) (validate_pose_hold sp)" "guar (calm lo hi) (set_pose_hold sp)" "guar (calm lo hi) (set_gains_ctl kp kd)"
  "guar (calm lo hi) (cancel_update c)" "guar (calm lo hi) (screen_state pr arm)"
proof -
  show a: "guar (calm lo hi) (rt_hold h)"
    unfolding rt_hold_def seqs.simps by (intro calm.g_rules calm_rules calm_mod; simp add: no_start_def)
  show b: "guar (calm lo hi) (policy_health h)"
    unfolding policy_health_def seqs.simps by (intro calm.g_rules a calm_rules calm_mod; simp add: no_start_def)
  show "guar (calm lo hi) (on_motor_health h)"
    unfolding on_motor_health_def seqs.simps by (intro calm.g_rules b calm_rules calm_mod; simp add: no_start_def)
  show c: "guar (calm lo hi) (validate_pose_hold sp)"
    unfolding validate_pose_hold_def by (intro calm.g_rules calm_rules)
  show "guar (calm lo hi) (set_pose_hold sp)"
    unfolding set_pose_hold_def seqs.simps by (intro calm.g_rules c calm_rules calm_mod; simp add: no_start_def)
  show "guar (calm lo hi) (set_gains_ctl kp kd)"
    unfolding set_gains_ctl_def seqs.simps by (intro calm.g_rules calm_rules calm_mod; simp add: no_start_def)
  show "guar (calm lo hi) (cancel_update c)"
    unfolding cancel_update_def by (intro calm.g_rules calm_rules)
  show "guar (calm lo hi) (screen_state pr arm)"
    unfolding screen_state_def by (intro calm.g_rules calm_rules calm_mod; simp add: no_start_def)
qed

lemma in_band_extremes:
  assumes "in_band lo hi a" "in_band lo hi q"
  shows "in_band lo hi (map2 np_min a q)" "in_band lo hi (map2 np_max a q)"
  using assms by (auto simp: in_band_def np_min_def np_max_def split: if_splits)

lemma calm_accept_state:
  assumes "all_finite (js_position arm) \<Longrightarrow> in_band lo hi (js_position arm)"
  shows "guar (calm lo hi) (accept_state arm)"
  unfolding accept_state_def
  by (rule calm.g_modst)
    (use assms in \<open>auto simp: calm_def no_start_def motor_words_def poses_in_def Let_def in_band_extremes split: option.splits\<close>)

subsection \<open>Reading only\<close>

definition only_reads :: "ArmController \<Rightarrow> ArmController \<Rightarrow> bool" where
  "only_reads s t \<longleftrightarrow> (\<exists>w. t = s\<lparr>ac_w := w\<rparr>)"

interpretation reads: guarantee only_reads
proof
  show "only_reads s s" for s
    unfolding only_reads_def by (rule exI [where x = "ac_w s"]) simp
  show "only_reads s t \<Longrightarrow> only_reads t u \<Longrightarrow> only_reads s u" for s t u
    by (auto simp: only_reads_def)
qed

named_theorems reads_rules \<open>methods that only read the clocks\<close>

lemma reads_leaves [reads_rules]: "guar only_reads read_clock" "guar only_reads read_source" "guar only_reads reference_clock"
  unfolding guar_def read_clock_def read_source_def reference_clock_def only_reads_def by (auto split: option.split)

lemma reads_all [reads_rules]: "guar only_reads exec_time" "guar only_reads arm_rest" "guar only_reads (observation_error p)"
  "guar only_reads (ref_sample r x)" "guar only_reads (ref_elapsed r x)" "guar only_reads gap_exceeded"
  unfolding exec_time_def arm_rest_def observation_error_def ref_sample_def ref_elapsed_def gap_exceeded_def
  by (intro reads.g_rules reads_rules)+

lemma reads_checks [reads_rules]: "guar only_reads (release_error i)" "guar only_reads (plan_refusal l)" "guar only_reads (validate_pose_hold sp)"
  "guar only_reads static_hold"
  unfolding release_error_def plan_refusal_def validate_pose_hold_def static_hold_def
  by (intro reads.g_rules reads_rules)+

subsection \<open>Starting a named plan\<close>

definition named :: "string option \<Rightarrow> ArmController \<Rightarrow> bool" where
  "named x s \<longleftrightarrow> (\<exists>leg. ac_plan s = Some leg \<and> x = Some (lg_plan_id leg))"

definition starts :: "string option \<Rightarrow> vec \<Rightarrow> vec \<Rightarrow> ArmController \<Rightarrow> ArmController \<Rightarrow> bool" where
  "starts x lo hi s t \<longleftrightarrow> motor_words t = motor_words s \<and> ac_cfg t = ac_cfg s \<and> (ac_stopped s \<longrightarrow> ac_stopped t) \<and>
     (ac_plan t = ac_plan s \<or> ac_plan t = None) \<and> (ac_running t \<longrightarrow> ac_plan t = ac_plan s \<and> (ac_running s \<or> named x s)) \<and>
     (poses_in lo hi s \<longrightarrow> poses_in lo hi t)"

interpretation starts: guarantee "starts x lo hi" for x lo hi
proof
  show "starts x lo hi s s" for s by (simp add: starts_def)
  fix s t u
  assume st: "starts x lo hi s t" and tu: "starts x lo hi t u"
  have plan: "ac_plan u = ac_plan s \<or> ac_plan u = None" using st tu unfolding starts_def by metis
  have "ac_plan u = ac_plan s \<and> (ac_running s \<or> named x s)" if "ac_running u"
  proof -
    have u: "ac_plan u = ac_plan t" "ac_running t \<or> named x t" using tu that unfolding starts_def by blast+
    have t: "ac_running t \<Longrightarrow> ac_plan t = ac_plan s \<and> (ac_running s \<or> named x s)" "ac_plan t = ac_plan s \<or> ac_plan t = None"
      using st by (simp_all add: starts_def)
    show ?thesis using u t by (cases "ac_running t") (auto simp: named_def)
  qed
  with plan show "starts x lo hi s u" using st tu unfolding starts_def by (elim conjE) simp
qed

lemma calm_starts: "guar (calm lo hi) m \<Longrightarrow> guar (starts x lo hi) m"
  by (erule guar_mono) (auto simp: calm_def starts_def no_start_def)

definition same_frame :: "ArmController \<Rightarrow> ArmController \<Rightarrow> bool" where
  "same_frame s t \<longleftrightarrow> ac_sent t = ac_sent s \<and> ac_cfg t = ac_cfg s \<and> ac_stopped t = ac_stopped s \<and> ac_plan t = ac_plan s \<and>
     ac_last_state t = ac_last_state s \<and> ac_arm_pose t = ac_arm_pose s \<and> ac_been t = ac_been s"

interpretation same_frame: guarantee same_frame
  by unfold_locales (simp_all add: same_frame_def)

lemma same_frame_same: "same_frame s t \<Longrightarrow> motor_words t = motor_words s \<and> poses_in lo hi t = poses_in lo hi s"
  by (simp add: same_frame_def motor_words_def poses_in_def)

lemma launch_frame: "guar same_frame (start_leg st)"
proof -
  have "guar same_frame exec_time" by (rule guar_mono [OF reads_all(1)]) (auto simp: only_reads_def same_frame_def)
  then show ?thesis unfolding start_leg_def Let_def seqs.simps
    by (intro same_frame.g_rules same_frame.g_modst) (simp_all add: same_frame_def)
qed

lemma starts_release: "guar (starts (Some i) lo hi) (release i st)"
proof -
  have "starts (Some i) lo hi s (snd (release i st s))" for s
  proof (cases "\<exists>leg. ac_plan s = Some leg \<and> lg_plan_id leg = i \<and> ac_armed s \<and> ac_ready_sent s \<and> \<not> ac_running s")
    case True
    then obtain leg where leg: "ac_plan s = Some leg" "lg_plan_id leg = i" "ac_armed s" "ac_ready_sent s" "\<not> ac_running s" by blast
    let ?c = "if cf_policy (ac_cfg s) \<noteq> None then release_error i else ret None"
    obtain r t where c: "?c s = (r, t)" by fastforce
    have reads: "only_reads s t" using c guarD [OF reads_checks(1) [of i]] reads.stays by (auto simp: ret_def split: if_splits)
    have "guar (calm lo hi) (seqs [finish_leg False x None, modst (\<lambda>s. s\<lparr>ac_pending_traj := None\<rparr>)])" for x
      unfolding seqs.simps by (intro calm.g_rules calm_rules calm_mod) (simp add: no_start_def)
    then have "starts (Some i) lo hi t (snd (seqs [finish_leg False x None, modst (\<lambda>s. s\<lparr>ac_pending_traj := None\<rparr>)] t))" for x
      by (rule guar_run [OF calm_starts])
    moreover have "starts (Some i) lo hi t (snd (start_leg st t))"
    proof -
      obtain r' u where u: "start_leg st t = (r', u)" by fastforce
      have "same_frame t u" using guarD [OF launch_frame u] .
      moreover have "ac_plan t = Some leg" using reads leg(1) by (auto simp: only_reads_def)
      ultimately show ?thesis using leg(2) same_frame_same [of t u] by (simp add: u starts_def named_def same_frame_def)
    qed
    moreover have "starts (Some i) lo hi s t" using reads by (auto simp: only_reads_def starts_def motor_words_def poses_in_def)
    ultimately show ?thesis
      using leg c starts.chain by (auto simp: release_def withst_def bindst_def split: sum.split option.split)
  next
    case False
    then have eq: "release i st s = (if \<exists>leg. ac_plan s = Some leg \<and> lg_plan_id leg = i \<and> (\<not> ac_armed s \<or> \<not> ac_ready_sent s)
        then finish_leg False ''not armed'' None s else ret () s)"
      by (auto simp: release_def withst_def split: option.split)
    have "guar (starts (Some i) lo hi) (finish_leg False ''not armed'' None)" by (intro calm_starts calm_rules)
    then show ?thesis unfolding eq by (auto simp: ret_def starts.stays guar_def)
  qed
  then show ?thesis by (simp add: guar_def)
qed

lemma starts_on_control: "guar (starts (ct_execute c) lo hi) (on_control c)"
proof -
  have "guar (starts (ct_execute c) lo hi) (case ct_execute c of None \<Rightarrow> ret () | Some plan_id \<Rightarrow> release plan_id None)"
    by (cases "ct_execute c") (simp_all add: starts.g_ret starts_release)
  then show ?thesis
    unfolding on_control_def seqs.simps
    by (intro starts.g_rules calm_starts [OF calm_mod] calm_starts [OF calm_set_arm] calm_starts [OF calm_leaves(6)]
        calm_starts [OF calm_inputs(5)] calm_starts [OF calm_inputs(6)] calm_starts [OF calm_inputs(7)] calm_starts [OF calm_stop])
      (simp_all add: no_start_def)
qed

end
