(* ===== verification/Control_Safety.thy ===== *)
theory Control_Safety
  imports Control_Frame Policy_Cert
begin

text \<open>
  What reaches the motors, and what starts a plan: the words the controller sends under an execution policy, the
  authority it needs to send one, and the naming rule of execution.
\<close>

subsection \<open>Admitted commands\<close>

text \<open>A box that contains the policy's position envelope and the all-zero pose a controller starts with.\<close>

definition box_around :: "ExecutionPolicy \<Rightarrow> vec \<Rightarrow> vec \<Rightarrow> bool" where
  "box_around p lo hi \<longleftrightarrow> length (torque_limits p) = length lo \<and> length hi = length lo \<and> all_finite lo \<and> all_finite hi \<and>
     in_band lo hi (zeros (length lo)) \<and>
     (\<forall>l h. position_lower p = Some l \<longrightarrow> position_upper p = Some h \<longrightarrow> (\<forall>i < length lo. lo ! i \<le> l ! i \<and> h ! i \<le> hi ! i))"

text \<open>What a motor command may ask for.\<close>

definition command_in :: "ExecutionPolicy \<Rightarrow> vec \<Rightarrow> vec \<Rightarrow> vec \<Rightarrow> vec \<Rightarrow> vec \<Rightarrow> vec \<Rightarrow> vec \<Rightarrow> bool" where
  "command_in p lo hi pos vel tor kp kd \<longleftrightarrow> (\<forall>v \<in> set [pos, vel, tor, kp, kd]. length v = length lo \<and> all_finite v) \<and>
     (\<forall>i < length lo. 0 \<le> kp ! i \<and> 0 \<le> kd ! i \<and> fabs (tor ! i) \<le> torque_limits p ! i \<and>
        (\<forall>v. velocity_limits p = Some v \<longrightarrow> fabs (vel ! i) \<le> v ! i + Fin (1 / 10 ^ 8)) \<and>
        (position_lower p \<noteq> None \<longrightarrow> lo ! i \<le> pos ! i + ENVELOPE_TOL \<and> pos ! i \<le> hi ! i + ENVELOPE_TOL))"

lemma envelope_in_box:
  assumes ok: "policy_ok p" and box: "box_around p lo hi" and env: "envelope p m = Some (a, b)" and i: "i < length lo"
    and rows: "\<And>q r. m = Some q \<Longrightarrow> r \<in> set q \<Longrightarrow> in_band lo hi r"
  shows "isfinite (a ! i) \<and> isfinite (b ! i) \<and> lo ! i \<le> a ! i \<and> b ! i \<le> hi ! i"
proof -
  have n: "length (torque_limits p) = length lo" using box by (simp add: box_around_def)
  obtain l h where lh: "position_lower p = Some l" "position_upper p = Some h"
    using env by (auto simp: envelope_def split: option.splits)
  have len: "length l = length lo" "length h = length lo" and lb: "lo ! i \<le> l ! i" "h ! i \<le> hi ! i"
    using lh ok box i by (auto simp: policy_ok_def box_around_def Let_def)
  have fin: "isfinite (a ! i)" "isfinite (b ! i)" using envelope_finite [OF ok env] i n by auto
  have "lo ! i \<le> a ! i \<and> b ! i \<le> hi ! i"
  proof (cases "\<exists>q. m = Some q \<and> q \<noteq> [] \<and> rectangular q (length l) \<and> list_all all_finite q")
    case False
    then have "a = l" "b = h" using env lh by (auto simp: envelope_def split: option.splits if_splits)
    then show ?thesis using lb by simp
  next
    case True
    then obtain q where q: "m = Some q" "q \<noteq> []" "rectangular q (length l)" "list_all all_finite q" by blast
    note cf = col_fold_range [OF q(2,3,4), of i]
    obtain r1 r2 where r: "r1 \<in> set q" "col_fold np_min q i = r1 ! i" "r2 \<in> set q" "col_fold np_max q i = r2 ! i"
      using cf(4,5) i len by auto
    have "a ! i = np_min (l ! i) (col_fold np_min q i)" "b ! i = np_max (h ! i) (col_fold np_max q i)"
      using env lh q i len by (auto simp: envelope_def)
    moreover have "lo ! i \<le> r1 ! i" "r2 ! i \<le> hi ! i" using rows [OF q(1)] r(1,3) i by (auto simp: in_band_def)
    ultimately show ?thesis using lb r by (auto simp: np_min_def np_max_def split: if_splits)
  qed
  with fin show ?thesis by blast
qed

lemma valid_command_in:
  assumes ok: "policy_ok p" and box: "box_around p lo hi" and v: "command_valid p c (length lo) m = Inr True"
    and rows: "\<And>q r. m = Some q \<Longrightarrow> r \<in> set q \<Longrightarrow> in_band lo hi r"
  shows "command_in p lo hi (q_des c) (qd_des c) (tau_ff c) (jsc_kp c) (jsc_kd c)"
proof -
  have n: "length (torque_limits p) = length lo" using box by (simp add: box_around_def)
  have sh: "\<forall>v \<in> set [q_des c, qd_des c, tau_ff c, jsc_kp c, jsc_kd c]. length v = length lo \<and> all_finite v"
    using v by (auto simp: command_valid_def list_ex_iff split: if_splits)
  have parts: "when_limits (envelope p m) (\<lambda>(l, h).
          orr (np_any1 (<) (q_des c) (widen (- ENVELOPE_TOL) l)) (np_any1 (>) (q_des c) (widen ENVELOPE_TOL h))) = Inr False"
      "when_limits (velocity_limits p) (\<lambda>v. np_any1 (>) (vabs (qd_des c)) (widen (Fin (1 / 10 ^ 8)) v)) = Inr False"
      "list_all (\<lambda>x. 0 \<le> x) (jsc_kp c)" "list_all (\<lambda>x. 0 \<le> x) (jsc_kd c)"
      "np_any1 (\<lambda>a b. \<not> a \<le> b) (vabs (tau_ff c)) (torque_limits p) = Inr False"
    using v unfolding command_valid_def by (auto split: if_splits)
  have tor: "fabs (tau_ff c ! i) \<le> torque_limits p ! i" if "i < length lo" for i
    using parts(5) sh n that by (auto simp: np_any1_eq vabs_def)
  have vel: "fabs (qd_des c ! i) \<le> w ! i + Fin (1 / 10 ^ 8)" if "i < length lo" "velocity_limits p = Some w" for i w
  proof -
    have "length w = length lo" "isfinite (w ! i)" using ok that n by (auto simp: policy_ok_def Let_def intro: all_finite_in)
    then have "\<not> fabs (qd_des c ! i) > w ! i + Fin (1 / 10 ^ 8)" "isfinite (qd_des c ! i)"
      using parts(2) sh that by (auto simp: when_limits_def np_any1_eq vabs_def all_finite_conv_nth)
    then show ?thesis using \<open>isfinite (w ! i)\<close> by (auto simp: isfinite_iff)
  qed
  have pos: "lo ! i \<le> q_des c ! i + ENVELOPE_TOL \<and> q_des c ! i \<le> hi ! i + ENVELOPE_TOL" if i: "i < length lo" and pl: "position_lower p \<noteq> None" for i
  proof -
    have "position_upper p \<noteq> None" using ok pl by (auto simp: policy_ok_def Let_def)
    then have "envelope p m \<noteq> None" using pl by (auto simp: envelope_def split: option.splits)
    then obtain a b where env: "envelope p m = Some (a, b)" by auto
    have e: "isfinite (a ! i) \<and> isfinite (b ! i) \<and> lo ! i \<le> a ! i \<and> b ! i \<le> hi ! i" using envelope_in_box [OF ok box env i] rows by blast
    have "length a = length lo" "length b = length lo" using envelope_lengths [OF ok env] n by auto
    then have "\<not> q_des c ! i < a ! i + - ENVELOPE_TOL" "\<not> q_des c ! i > b ! i + ENVELOPE_TOL" "isfinite (q_des c ! i)"
      using parts(1) sh i by (auto simp: env when_limits_def np_any1_eq all_finite_conv_nth)
    moreover have "isfinite (lo ! i)" "isfinite (hi ! i)" using box i by (auto simp: box_around_def all_finite_conv_nth)
    ultimately show ?thesis using e unfolding ENVELOPE_TOL_def isfinite_iff by auto
  qed
  show ?thesis
    unfolding command_in_def using sh tor vel pos parts(3,4) by (auto simp: list_all_length)
qed

subsection \<open>Words\<close>

definition word_ok :: "ExecutionPolicy \<Rightarrow> vec \<Rightarrow> vec \<Rightarrow> vec \<Rightarrow> bool" where
  "word_ok p lo hi w \<longleftrightarrow> (\<exists>c. unpack_motor_command w (length lo) = Inr c \<and>
     command_in p lo hi (mc_position c) (mc_velocity c) (mc_torque c) (mc_kp c) (mc_kd c))"

lemma pack_decodes:
  assumes "\<forall>v \<in> set [pos, vel, tor, kp, kd]. length v = n" and "tail = None \<or> (\<exists>b. tail = Some b \<and> length b = 21)"
    and "pack_motor_command pos vel tor kp kd tail hold = Inr w"
  shows "\<exists>c. unpack_motor_command w n = Inr c \<and> mc_position c = pos \<and> mc_velocity c = vel \<and> mc_torque c = tor \<and> mc_kp c = kp \<and> mc_kd c = kd"
proof -
  have n: "length pos = n" using assms(1) by simp
  note body = pack_command_body(1) [OF assms(1), unfolded n]
  obtain block where w: "w = interleave n [pos, vel, tor, kp, kd] @ block" and b: "length block \<in> {0, 15, 21}"
    and h: "length block = 15 \<Longrightarrow> pose_block_ok block"
  proof (cases hold)
    case None
    then show ?thesis using assms(2,3) that [of "[]"] that [of "the tail"] body n
      by (auto simp: pack_motor_command_def Let_def split: option.splits if_splits)
  next
    case (Some sp)
    then obtain blk where "pose_hold_values sp = Inr blk" "w = interleave n [pos, vel, tor, kp, kd] @ blk"
      using assms(3) body n by (auto simp: pack_motor_command_def Let_def split: if_splits)
    moreover have "pose_block_ok blk" using calculation(1) by (rule pose_hold_values_ok)
    ultimately show ?thesis using that [of blk] by (simp add: pose_block_ok_def)
  qed
  obtain ph where "if length block = 15 then \<exists>p. unpack_pose_hold_values block = Inr p \<and> ph = Some p else ph = None"
  proof (cases "length block = 15")
    case True
    then obtain p where "unpack_pose_hold_values block = Inr p" using block_unpacks [OF h] by blast
    then show ?thesis using that [of "Some p"] True by simp
  qed (use that [of None] in simp)
  from unpack_body [OF assms(1) b this] w show ?thesis by simp
qed

definition sends_good :: "ExecutionPolicy \<Rightarrow> vec \<Rightarrow> vec \<Rightarrow> ArmController \<Rightarrow> bool" where
  "sends_good p lo hi s \<longleftrightarrow> cf_policy (ac_cfg s) = Some p \<and> cf_n_arm (ac_cfg s) = length lo \<and> poses_in lo hi s \<and> (\<forall>w \<in> set (motor_words s). word_ok p lo hi w)"

definition flow :: "ExecutionPolicy \<Rightarrow> vec \<Rightarrow> vec \<Rightarrow> ArmController \<Rightarrow> ArmController \<Rightarrow> bool" where
  "flow p lo hi s t \<longleftrightarrow> ac_cfg t = ac_cfg s \<and> (ac_stopped s \<longrightarrow> ac_stopped t) \<and> no_start s t \<and> (sends_good p lo hi s \<longrightarrow> sends_good p lo hi t)"

interpretation flow: guarantee "flow p lo hi" for p lo hi
  by unfold_locales (auto simp: flow_def no_start_def)

lemma calm_flow: "guar (calm lo hi) m \<Longrightarrow> guar (flow p lo hi) m"
  by (erule guar_mono) (auto simp: calm_def flow_def sends_good_def)

text \<open>\<open>emit_command\<close> sends at most one word, which decodes to the command.\<close>

lemma emit_command_frame:
  assumes "emit_command c cart s = (r, t)"
  shows "same_frame (s\<lparr>ac_sent := ac_sent t\<rparr>) t \<and> ac_running t = ac_running s \<and> (motor_words t = motor_words s \<or>
    (\<exists>w tail hold. motor_words t = motor_words s @ [w] \<and> (tail = None \<or> (\<exists>b. tail = Some b \<and> length b = 21)) \<and>
       pack_motor_command (q_des c) (qd_des c) (tau_ff c) (jsc_kp c) (jsc_kd c) tail hold = Inr w))"
proof -
  define spec where "spec = (if cart then ac_cartesian_now s else None)"
  define s1 where "s1 = s\<lparr>ac_last_command := Some c,
    ac_last_law := Some (if spec \<noteq> None then ''cartesian_impedance'' else if ac_pose_hold s \<noteq> None then ''pose_hold'' else ''joint'')\<rparr>"
  define hold where "hold = map_option pose_hold_as_spec (ac_pose_hold s)"
  define pk where "pk tail = pack_motor_command (q_des c) (qd_des c) (tau_ff c) (jsc_kp c) (jsc_kd c) tail hold" for tail
  have f: "same_frame (s\<lparr>ac_sent := ac_sent s1\<rparr>) s1" "motor_words s1 = motor_words s" "ac_running s1 = ac_running s" "ac_sent s1 = ac_sent s"
    by (simp_all add: s1_def same_frame_def motor_words_def)
  have cases: "t = s1 \<or> (\<exists>w tail. t = s1\<lparr>ac_sent := ac_sent s1 @ [MotorMsg w]\<rparr> \<and> pk tail = Inr w \<and>
      (case spec of None \<Rightarrow> tail = None | Some x \<Rightarrow> \<exists>b. pack_cartesian_block x = Inr b \<and> tail = Some b))"
  proof -
    have "emit_command c cart s = bindst (bindst (case spec of None \<Rightarrow> ret None | Some x \<Rightarrow> bindst (lift (pack_cartesian_block x)) (\<lambda>b. ret (Some b)))
        (\<lambda>tail. bindst (lift (pk tail)) (\<lambda>wire. send_output (MotorMsg wire)))) (\<lambda>_. ret ()) s1"
      unfolding emit_command_def withst_def Let_def seqs.simps spec_def [symmetric] pk_def hold_def s1_def
      by (subst bindst_def, simp only: modst_def prod.case sum.case)
    then have t: "(r, t) = bindst (bindst (case spec of None \<Rightarrow> ret None | Some x \<Rightarrow> bindst (lift (pack_cartesian_block x)) (\<lambda>b. ret (Some b)))
        (\<lambda>tail. bindst (lift (pk tail)) (\<lambda>wire. send_output (MotorMsg wire)))) (\<lambda>_. ret ()) s1" using assms by simp
    show ?thesis
    proof (cases spec)
      case None
      with t show ?thesis by (cases "pk None") (auto simp: bindst_def run_simps send_output_def)
    next
      case (Some x)
      show ?thesis
      proof (cases "pack_cartesian_block x")
        case (Inr b)
        with t Some show ?thesis by (cases "pk (Some b)") (auto simp: bindst_def run_simps send_output_def)
      qed (use t Some in \<open>simp add: bindst_def run_simps\<close>)
    qed
  qed
  then show ?thesis
  proof
    assume "t = s1"
    then show ?thesis using f by simp
  next
    assume "\<exists>w tail. t = s1\<lparr>ac_sent := ac_sent s1 @ [MotorMsg w]\<rparr> \<and> pk tail = Inr w \<and>
      (case spec of None \<Rightarrow> tail = None | Some x \<Rightarrow> \<exists>b. pack_cartesian_block x = Inr b \<and> tail = Some b)"
    then obtain w tail where w: "t = s1\<lparr>ac_sent := ac_sent s1 @ [MotorMsg w]\<rparr>" "pk tail = Inr w"
      "case spec of None \<Rightarrow> tail = None | Some x \<Rightarrow> \<exists>b. pack_cartesian_block x = Inr b \<and> tail = Some b" by blast
    have "tail = None \<or> (\<exists>b. tail = Some b \<and> length b = 21)"
      using w(3) by (auto simp: pack_cartesian_block_def cartesian_values_length split: option.splits)
    moreover have "motor_words t = motor_words s @ [w]" using w(1) f(4) by (simp add: motor_words_def)
    moreover have "same_frame (s\<lparr>ac_sent := ac_sent t\<rparr>) t" "ac_running t = ac_running s" using f w(1) by (simp_all add: same_frame_def)
    ultimately show ?thesis using w(2) unfolding pk_def by blast
  qed
qed

lemma where_been_rows:
  assumes "poses_in lo hi s" "where_been s = Some q" "r \<in> set q"
  shows "in_band lo hi r"
proof -
  obtain rest l h where rest: "ac_arm_pose s = Some rest" and q: "q =
      (let (b0, b1) = (case ac_been s of None \<Rightarrow> (rest, rest) | Some b \<Rightarrow> b) in
       [map (\<lambda>i. if rest ! i < l ! i then b0 ! i else rest ! i) [0..<length rest], map (\<lambda>i. if rest ! i > h ! i then b1 ! i else rest ! i) [0..<length rest]])"
    using assms(2) unfolding where_been_def by (auto split: option.splits if_splits)
  have "in_band lo hi rest" using assms(1) rest by (simp add: poses_in_def)
  moreover obtain b0 b1 where b: "(case ac_been s of None \<Rightarrow> (rest, rest) | Some b \<Rightarrow> b) = (b0, b1)" by fastforce
  moreover have "in_band lo hi b0" "in_band lo hi b1"
    using b assms(1) calculation(1) by (auto simp: poses_in_def split: option.splits)
  ultimately show ?thesis using assms(3) q by (auto simp: in_band_def)
qed

text \<open>Whatever \<open>admit_command\<close> lets through is valid where it is let through.\<close>

definition admits :: "ExecutionPolicy \<Rightarrow> nat \<Rightarrow> (JointServoCommand \<times> bool) option \<Rightarrow> ArmController \<Rightarrow> bool" where
  "admits p n r t \<longleftrightarrow> (\<forall>d ab. r = Some (d, ab) \<longrightarrow> command_valid p d n (where_been t) = Inr True)"

lemma fault_admits: "triple P (bindst (fault r) (\<lambda>_. ret None)) (admits p n) (\<lambda>_. True)"
  by (auto simp: triple_def admits_def bindst_def ret_def split: prod.split sum.split)

lemma checked_hold_admits: "triple (\<lambda>s. cf_n_arm (ac_cfg s) = n) (checked_hold p d) (admits p n) (\<lambda>_. True)"
  unfolding checked_hold_def
proof (rule triple_withst, rule triple_bindst)
  fix s :: ArmController assume n: "cf_n_arm (ac_cfg s) = n"
  show "triple (\<lambda>t. t = s) (lift (command_valid p d (cf_n_arm (ac_cfg s)) (where_been s))) (\<lambda>ok t. command_valid p d n (where_been t) = Inr ok) (\<lambda>_. True)"
    using n by (auto intro: triple_lift)
  show "triple (\<lambda>t. command_valid p d n (where_been t) = Inr ok)
      (if ok then ret (Some (d, True)) else bindst (fault ''invalid measured hold command'') (\<lambda>_. ret None)) (admits p n) (\<lambda>_. True)" for ok
    using fault_admits by (cases ok) (auto intro!: triple_ret simp: admits_def)
qed

lemma keeps_n_arm: "guar (calm [] []) m \<Longrightarrow> triple (\<lambda>s. cf_n_arm (ac_cfg s) = n) m (\<lambda>_ s. cf_n_arm (ac_cfg s) = n) (\<lambda>_. True)"
  by (erule triple_conseq [OF triple_guar, where P = "\<lambda>s. cf_n_arm (ac_cfg s) = n"]) (auto simp: calm_def)

lemma abort_admits: "triple (\<lambda>s. cf_n_arm (ac_cfg s) = n) (abort_to_hold p) (admits p n) (\<lambda>_. True)"
  unfolding abort_to_hold_def
  by (intro triple_bindst [OF keeps_n_arm] checked_hold_admits calm_rules calm_mod) (simp_all add: no_start_def)

lemma admit_valid: "triple (\<lambda>s. cf_n_arm (ac_cfg s) = n) (admit_command p c) (admits p n) (\<lambda>_. True)"
  unfolding admit_command_def
proof (rule triple_bindst [OF keeps_n_arm], goal_cases)
  case 1
  show ?case by (intro calm_mod) (simp add: no_start_def)
next
  case (2 a)
  show ?case
  proof (rule triple_withst, rule triple_bindst)
    fix s :: ArmController assume n: "cf_n_arm (ac_cfg s) = n"
    let ?v = "\<lambda>valid t. t = s \<and> command_valid p c n (where_been s) = Inr valid"
    let ?lost = "if ac_pose_hold s = None then lift (tracking_error_exceeded p c (js_position (ac_last_state s))) else ret False"
    show "triple (\<lambda>t. t = s) (lift (command_valid p c (cf_n_arm (ac_cfg s)) (where_been s))) ?v (\<lambda>_. True)"
      using n by (auto intro: triple_lift)
    have "triple (?v True) ?lost (\<lambda>_. ?v True) (\<lambda>_. True)" by (auto intro: triple_lift triple_ret)
    moreover have "triple (?v True) (abort_to_hold p) (admits p n) (\<lambda>_. True)"
      by (rule triple_conseq [OF abort_admits]) (use n in auto)
    then have "triple (?v True) (if lost then abort_to_hold p else ret (Some (c, False))) (admits p n) (\<lambda>_. True)" for lost
      by (cases lost) (auto intro!: triple_ret simp: admits_def)
    ultimately show "triple (?v valid) (if \<not> valid then bindst (fault ''non-finite or invalid servo command'') (\<lambda>_. ret None)
        else bindst ?lost (\<lambda>lost. if lost then abort_to_hold p else ret (Some (c, False)))) (admits p n) (\<lambda>_. True)" for valid
      using fault_admits by (cases valid) (auto intro: triple_bindst)
  qed
qed

subsection \<open>The cycle\<close>

lemma emit_flow:
  assumes "sends_good p lo hi s \<Longrightarrow> command_in p lo hi (q_des c) (qd_des c) (tau_ff c) (jsc_kp c) (jsc_kd c)"
  shows "flow p lo hi s (snd (emit_command c cart s))"
proof -
  obtain r t where e: "emit_command c cart s = (r, t)" by fastforce
  note f = emit_command_frame [OF e]
  have frame: "ac_cfg t = ac_cfg s" "ac_stopped t = ac_stopped s" "ac_plan t = ac_plan s" "poses_in lo hi t = poses_in lo hi s"
    using f by (auto simp: same_frame_def poses_in_def)
  have "sends_good p lo hi t" if good: "sends_good p lo hi s"
  proof -
    have "word_ok p lo hi w" if "w \<in> set (motor_words t)" "w \<notin> set (motor_words s)" for w
    proof -
      have "motor_words t \<noteq> motor_words s" using that by auto
      then obtain w' tail hold where w': "motor_words t = motor_words s @ [w']" and tail: "tail = None \<or> (\<exists>b. tail = Some b \<and> length b = 21)"
          and pk: "pack_motor_command (q_des c) (qd_des c) (tau_ff c) (jsc_kp c) (jsc_kd c) tail hold = Inr w'"
        using f by blast
      have "w' = w" using w' that by simp
      note tail pk [unfolded this]
      moreover have "\<forall>v \<in> set [q_des c, qd_des c, tau_ff c, jsc_kp c, jsc_kd c]. length v = length lo"
        using assms [OF good] unfolding command_in_def by blast
      ultimately obtain d where "unpack_motor_command w (length lo) = Inr d"
          "mc_position d = q_des c \<and> mc_velocity d = qd_des c \<and> mc_torque d = tau_ff c \<and> mc_kp d = jsc_kp c \<and> mc_kd d = jsc_kd c"
        using pack_decodes by blast
      then show ?thesis using assms [OF good] unfolding word_ok_def by auto
    qed
    then show ?thesis using good frame by (auto simp: sends_good_def)
  qed
  then show ?thesis using frame f by (simp add: e flow_def no_start_def)
qed

lemma flow_send:
  assumes "policy_ok p" "box_around p lo hi"
  shows "guar (flow p lo hi) (send c cart)"
proof -
  have "flow p lo hi s (snd (send c cart s))" for s
  proof (cases "cf_policy (ac_cfg s)")
    case None
    then have "\<not> sends_good p lo hi s" by (simp add: sends_good_def)
    then have "flow p lo hi s (snd (emit_command c cart s))" by (intro emit_flow) simp
    then show ?thesis using None by (auto simp: send_def withst_def bindst_def ret_def split: prod.split sum.split)
  next
    case (Some p')
    obtain r t where a: "admit_command p' c s = (r, t)" by fastforce
    have st: "flow p lo hi s t" using guarD [OF calm_flow [OF calm_admit] a] .
    show ?thesis
    proof (cases r)
      case (Inr x)
      show ?thesis
      proof (cases x)
        case x: (Some y)
        obtain d ab where y: "y = (d, ab)" by fastforce
        have "command_in p lo hi (q_des d) (qd_des d) (tau_ff d) (jsc_kp d) (jsc_kd d)" if good: "sends_good p lo hi t"
        proof -
          have "ac_cfg t = ac_cfg s" using st by (simp add: flow_def)
          then have "p' = p" and n: "cf_n_arm (ac_cfg s) = length lo" using good Some by (auto simp: sends_good_def)
          then have "command_valid p d (length lo) (where_been t) = Inr True"
            using tripleD [OF admit_valid n a] Inr x y by (simp add: admits_def)
          then show ?thesis using valid_command_in [OF assms] where_been_rows good by (metis sends_good_def)
        qed
        then have "flow p lo hi t (snd (emit_command d (cart \<and> \<not> ab) t))" by (rule emit_flow)
        then have "flow p lo hi s (snd (emit_command d (cart \<and> \<not> ab) t))" using st flow.chain by blast
        then show ?thesis using Some a Inr x y by (auto simp: send_def withst_def bindst_def ret_def split: prod.split sum.split)
      qed (use Some a Inr st in \<open>simp add: send_def withst_def bindst_def ret_def\<close>)
    qed (use Some a st in \<open>simp add: send_def withst_def bindst_def\<close>)
  qed
  then show ?thesis by (simp add: guar_def)
qed

lemma flow_stream:
  assumes "policy_ok p" "box_around p lo hi"
  shows "guar (flow p lo hi) stream"
proof -
  note snd = flow_send [OF assms]
  have gap: "guar (flow p lo hi) stream_gap"
    unfolding stream_gap_def by (intro flow.g_rules snd calm_rules [THEN calm_flow] calm_mod [THEN calm_flow]) (simp add: no_start_def)
  have leg: "guar (flow p lo hi) (stream_leg i t r)" for i t r
    unfolding stream_leg_def Let_def
    by (intro flow.g_rules snd calm_rules [THEN calm_flow] calm_mod [THEN calm_flow]) (simp add: no_start_def)
  have idle: "guar (flow p lo hi) (stream_idle i t)" for i t
    unfolding stream_idle_def
    by (intro flow.g_rules snd calm_rules [THEN calm_flow] calm_mod [THEN calm_flow]) (simp_all add: no_start_def)
  show ?thesis
    unfolding stream_def
    by (intro flow.g_rules gap leg idle calm_rules [THEN calm_flow] calm_mod [THEN calm_flow]) (simp_all add: no_start_def)
qed

lemma flow_tick: "policy_ok p \<Longrightarrow> box_around p lo hi \<Longrightarrow> guar (flow p lo hi) tick"
  unfolding tick_def
  by (intro flow.g_rules flow_stream calm_rules [THEN calm_flow] calm_mod [THEN calm_flow]) (simp_all add: no_start_def)

text \<open>What a plant state reports as positions, for an arm of \<open>n\<close> joints.\<close>

definition reports_in :: "vec \<Rightarrow> vec \<Rightarrow> nat \<Rightarrow> vec \<Rightarrow> bool" where
  "reports_in lo hi n flat \<longleftrightarrow> (\<forall>m. unpack_motor_state flat n = Inr m \<longrightarrow> all_finite (ms_position m) \<longrightarrow> in_band lo hi (ms_position m))"

lemma flow_on_motor_state:
  assumes "policy_ok p" "box_around p lo hi" "reports_in lo hi (cf_n_arm (ac_cfg s)) v"
  shows "flow p lo hi s (snd (on_motor_state v s))"
proof -
  let ?rest = "\<lambda>m. take_state (ac_last_state_at s) \<lparr>js_position = ms_position m, js_velocity = ms_velocity m\<rparr>"
  have rest: "guar (flow p lo hi) (bindst (lift (unpack_motor_state v (cf_n_arm (ac_cfg s)))) ?rest)"
  proof (cases "unpack_motor_state v (cf_n_arm (ac_cfg s))")
    case (Inl e)
    then show ?thesis by (simp add: guar_def bindst_def lift_def flow.stays)
  next
    case (Inr m)
    have acc: "guar (flow p lo hi) (accept_state \<lparr>js_position = ms_position m, js_velocity = ms_velocity m\<rparr>)"
      using assms(3) Inr by (intro calm_flow calm_accept_state) (simp add: reports_in_def)
    have "guar (flow p lo hi) (?rest m)"
      unfolding take_state_def seqs.simps
      by (intro flow.g_rules acc flow_stream [OF assms(1,2)] calm_rules [THEN calm_flow])
    then show ?thesis using Inr by (simp add: guar_def bindst_def lift_def)
  qed
  have "guar (flow p lo hi) (bindst read_clock (\<lambda>now. bindst (modst (\<lambda>s. s\<lparr>ac_last_state_at := Some now\<rparr>)) (\<lambda>_.
     if ac_stopped s then ret () else bindst (modst (\<lambda>s. case cf_state_period (ac_cfg s) of None \<Rightarrow> s | Some p \<Rightarrow> s\<lparr>ac_plant_t := ac_plant_t s + p\<rparr>)) (\<lambda>_.
       bindst (lift (unpack_motor_state v (cf_n_arm (ac_cfg s)))) ?rest))))"
    by (intro flow.g_bindst flow.g_if flow.g_ret rest calm_leaves [THEN calm_flow] calm_mod [THEN calm_flow])
      (auto simp: no_start_def split: option.split)
  from guar_run [OF this, of s] show ?thesis by (simp add: on_motor_state_def withst_def)
qed

subsection \<open>Every event\<close>

definition harmless :: "vec \<Rightarrow> vec \<Rightarrow> ArmController \<Rightarrow> ArmController \<Rightarrow> bool" where
  "harmless lo hi s t \<longleftrightarrow> motor_words t = motor_words s \<and> ac_cfg t = ac_cfg s \<and> (ac_stopped s \<longrightarrow> ac_stopped t) \<and> (poses_in lo hi s \<longrightarrow> poses_in lo hi t)"

interpretation harmless: guarantee "harmless lo hi" for lo hi
  by unfold_locales (simp_all add: harmless_def)

lemma calm_harmless: "guar (calm lo hi) m \<Longrightarrow> guar (harmless lo hi) m"
  by (erule guar_mono) (simp add: calm_def harmless_def)

lemma starts_harmless: "guar (starts x lo hi) m \<Longrightarrow> guar (harmless lo hi) m"
  by (erule guar_mono) (simp add: starts_def harmless_def)

lemma harmless_on_plan: "guar (harmless lo hi) (on_plan b)"
proof -
  have load: "guar (harmless lo hi) (modst (\<lambda>s. s\<lparr>ac_plan := Some l, ac_cartesian_now := c, ac_pending_traj := Some tr, ac_running := False\<rparr>))" for l c tr
    by (rule harmless.g_modst) (simp add: harmless_def motor_words_def poses_in_def)
  have "guar (harmless lo hi) (stage_plan l)" for l
    unfolding stage_plan_def seqs.simps
    by (intro harmless.g_rules load starts_release [THEN starts_harmless] calm_rules [THEN calm_harmless])
  then show ?thesis
    unfolding on_plan_def
    by (cases "unpack_plan b") (auto intro!: harmless.g_rules calm_rules [THEN calm_harmless] split: prod.split)
qed

text \<open>The events that never reach the motors.\<close>

lemma harmless_events: "e \<noteq> ETick \<Longrightarrow> (\<And>v. e \<noteq> EState v) \<Longrightarrow> guar (harmless lo hi) (handle e)"
proof (cases e)
  case (EJog q)
  show ?thesis unfolding EJog handle.simps by (intro harmless.g_rules calm_rules [THEN calm_harmless])
qed (auto intro: harmless_on_plan starts_on_control [THEN starts_harmless] starts_release [THEN starts_harmless] calm_rules [THEN calm_harmless])

definition event_in :: "vec \<Rightarrow> vec \<Rightarrow> event \<Rightarrow> bool" where
  "event_in lo hi e \<longleftrightarrow> (\<forall>v. e = EState v \<longrightarrow> reports_in lo hi (length lo) v)"

lemma event_sends_good:
  assumes "policy_ok p" "box_around p lo hi" "event_in lo hi e" "sends_good p lo hi s"
  shows "sends_good p lo hi (after_event e s)"
proof -
  consider "e = ETick" | v where "e = EState v" | "e \<noteq> ETick" "\<And>v. e \<noteq> EState v" by blast
  then show ?thesis
  proof cases
    case 1
    then show ?thesis using guar_run [OF flow_tick [OF assms(1,2)], of s] assms(4) by (simp add: after_event_def flow_def)
  next
    case 2
    have "reports_in lo hi (cf_n_arm (ac_cfg s)) v" using assms(3,4) 2 by (simp add: event_in_def sends_good_def)
    from flow_on_motor_state [OF assms(1,2) this] show ?thesis using assms(4) 2 by (simp add: after_event_def flow_def)
  next
    case 3
    from guar_run [OF harmless_events [OF 3], of lo hi s] assms(4) show ?thesis by (simp add: after_event_def harmless_def sends_good_def)
  qed
qed

definition after_events :: "event list \<Rightarrow> ArmController \<Rightarrow> ArmController" where
  "after_events es s = fold after_event es s"

lemma after_events_simps [simp]: "after_events [] s = s" "after_events (e # es) s = after_events es (after_event e s)"
  by (simp_all add: after_events_def)

lemma mk_ArmController_start:
  assumes "mk_ArmController w session ex a = Inr s"
  shows "ac_sent s = [] \<and> cf_policy (ac_cfg s) = ca_policy a \<and> cf_n_arm (ac_cfg s) = n_joints ex \<and> ac_executor s = ex \<and>
     js_position (ac_last_state s) = zeros (n_joints ex) \<and> ac_arm_pose s = None \<and> ac_been s = None \<and> \<not> ac_running s \<and> ac_plan s = None \<and>
     \<not> ac_ready_sent s \<and> \<not> ac_stopped s \<and> ac_pose_hold s = None \<and> \<not> ac_armed s \<and> ac_bridge_armed s = (\<not> cf_needs_health (ac_cfg s)) \<and>
     (\<forall>p. ca_policy a = Some p \<longrightarrow> length (torque_limits p) = n_joints ex)"
  using assms by (auto simp: mk_ArmController_def Let_def)

lemma start_sends_good:
  assumes "mk_ArmController w session ex a = Inr s" "ca_policy a = Some p" "box_around p lo hi"
  shows "sends_good p lo hi s"
  using mk_ArmController_start [OF assms(1)] assms(2,3) by (auto simp: sends_good_def motor_words_def poses_in_def box_around_def)

text \<open>
  C1: under an execution policy nothing else reaches the motors. Take any controller with a policy and any box that
  contains the policy's position envelope and the zero pose, and let any host call anything in any order, going on
  after exceptions, as long as every finite pose the plant reports lies in the box. Then every word ever sent on the
  motor topic decodes to a command for every joint that is finite, with nonnegative gains, a feedforward torque inside
  the policy's limits, a velocity inside its velocity limits (plus 1e-8), and a target inside the box (plus 1e-8): a
  joint that rests outside its envelope is never commanded further out than it has been.
\<close>

theorem every_motor_word_admitted:
  assumes "mk_ExecutionPolicy c torque = Inr p" and "mk_ArmController w session ex a = Inr s" and "ca_policy a = Some p"
    and "box_around p lo hi" and "\<forall>e \<in> set es. event_in lo hi e"
  shows "\<forall>word \<in> set (motor_words (after_events es s)). \<exists>d. unpack_motor_command word (n_joints ex) = Inr d \<and>
     command_in p lo hi (mc_position d) (mc_velocity d) (mc_torque d) (mc_kp d) (mc_kd d)"
proof -
  have ok: "policy_ok p" using mk_ExecutionPolicy_ok [OF assms(1)] .
  have "sends_good p lo hi (after_events es s')" if "sends_good p lo hi s'" for s'
    using that assms(5)
  proof (induction es arbitrary: s')
    case (Cons e es)
    then show ?case using event_sends_good [OF ok assms(4)] by simp
  qed simp
  from this [OF start_sends_good [OF assms(2,3,4)]] have "sends_good p lo hi (after_events es s)" .
  moreover have "length lo = n_joints ex"
    using mk_ArmController_start [OF assms(2)] assms(3,4) by (simp add: box_around_def)
  ultimately show ?thesis by (simp add: sends_good_def word_ok_def)
qed

subsection \<open>Authority\<close>

lemma stream_silent: "\<not> (ac_armed s \<and> (ac_ready_sent s \<or> ac_bridge_armed s)) \<Longrightarrow> stream s = (Inr (), s)"
  by (auto simp: stream_def withst_def ret_def)

end
