(* ===== verification/Control_Life.thy ===== *)
theory Control_Life
  imports Control_Safety
begin

text \<open>
  The life of a plan and of the controller's authority: which states are reachable, what starts a plan, and what a
  stop, a hold and a disarm leave possible.
\<close>

subsection \<open>Nothing but a release starts a plan\<close>

definition going :: "ArmController \<Rightarrow> ArmController \<Rightarrow> bool" where
  "going s t \<longleftrightarrow> no_start s t \<and> (ac_stopped s \<longrightarrow> ac_stopped t)"

interpretation going: guarantee going
  by unfold_locales (auto simp: going_def no_start_def)

lemma calm_going: "guar (calm [] []) m \<Longrightarrow> guar going m"
  by (erule guar_mono) (simp add: calm_def going_def)

lemma going_send: "guar going (send c cart)"
proof -
  have "guar going (emit_command d k)" for d k
    unfolding guar_def
  proof
    fix s
    obtain r t where e: "emit_command d k s = (r, t)" by fastforce
    show "going s (snd (emit_command d k s))" using emit_command_frame [OF e] by (simp add: e going_def no_start_def same_frame_def)
  qed
  then show ?thesis unfolding send_def by (intro going.g_rules calm_rules [THEN calm_going])
qed

lemma going_stream: "guar going stream"
proof -
  have gap: "guar going stream_gap"
    unfolding stream_gap_def by (intro going.g_rules going_send calm_rules [THEN calm_going] calm_mod [THEN calm_going]) (simp add: no_start_def)
  have leg: "guar going (stream_leg i t r)" for i t r
    unfolding stream_leg_def Let_def
    by (intro going.g_rules going_send calm_rules [THEN calm_going] calm_mod [THEN calm_going]) (simp add: no_start_def)
  have idle: "guar going (stream_idle i t)" for i t
    unfolding stream_idle_def
    by (intro going.g_rules going_send calm_rules [THEN calm_going] calm_mod [THEN calm_going]) (simp_all add: no_start_def)
  show ?thesis
    unfolding stream_def
    by (intro going.g_rules gap leg idle calm_rules [THEN calm_going] calm_mod [THEN calm_going]) (simp_all add: no_start_def)
qed

lemma going_accept_state: "guar going (accept_state arm)"
  unfolding accept_state_def by (rule going.g_modst) (simp add: going_def no_start_def Let_def)

lemma going_tick: "guar going tick"
  unfolding tick_def
  by (intro going.g_rules going_stream calm_rules [THEN calm_going] calm_mod [THEN calm_going]) (simp_all add: no_start_def)

lemma going_on_motor_state: "guar going (on_motor_state v)"
  unfolding on_motor_state_def take_state_def seqs.simps
  by (intro going.g_rules going_stream going_accept_state calm_rules [THEN calm_going] calm_mod [THEN calm_going])
    (auto simp: no_start_def split: option.split)

text \<open>The plan an event names for execution.\<close>

fun executes :: "event \<Rightarrow> string option" where
  "executes (EControl c) = ct_execute c"
| "executes (EReleaseAt i t) = Some i"
| "executes _ = None"

lemma event_starts:
  assumes "\<And>b. e \<noteq> EPlan b" and "handle e s = (r, t)"
  shows "(ac_plan t = ac_plan s \<or> ac_plan t = None) \<and> (ac_running t \<longrightarrow> ac_plan t = ac_plan s \<and> (ac_running s \<or> named (executes e) s)) \<and>
     (ac_stopped s \<longrightarrow> ac_stopped t)"
proof -
  have going: "going s t \<Longrightarrow> ?thesis" by (auto simp: going_def no_start_def)
  have start: "starts x [] [] s t \<Longrightarrow> x = executes e \<Longrightarrow> ?thesis" for x by (simp add: starts_def)
  show ?thesis
  proof (cases e)
    case (EJog q)
    have "guar going (bindst (on_jog q) (\<lambda>_. ret ()))" by (intro going.g_rules calm_rules [THEN calm_going])
    from guarD [OF this, of s r t] have "going s t" using assms(2) EJog by simp
    then show ?thesis by (rule going)
  next
    case (EControl c)
    then show ?thesis using assms(2) guarD [OF starts_on_control] start by simp
  next
    case (EReleaseAt i x)
    then show ?thesis using assms(2) guarD [OF starts_release] start by simp
  qed (use assms going guarD [OF going_tick] guarD [OF going_on_motor_state] guarD [OF calm_jog(2) [THEN calm_going]]
      guarD [OF calm_inputs(3) [THEN calm_going]] guarD [OF calm_small_inputs(1) [THEN calm_going]] guarD [OF calm_small_inputs(2) [THEN calm_going]]
      guarD [OF calm_small_inputs(3) [THEN calm_going]] guarD [OF calm_small_inputs(4) [THEN calm_going]] in simp_all)
qed

lemma stage_plan_starts:
  assumes "stage_plan leg s = (r, t)"
  shows "going s t \<or> (ac_plan t = Some leg \<or> ac_plan t = None) \<and> (ac_running t \<longrightarrow> ac_plan t = Some leg \<and> \<not> lg_gated leg)"
proof -
  have gains: "guar going (on_executor m)" for m :: "(JointTrajectoryExecutor, unit) action" by (rule calm_leaves(6) [THEN calm_going])
  let ?load = "\<lambda>traj s. s\<lparr>ac_plan := Some leg, ac_cartesian_now := pl_cartesian leg, ac_pending_traj := Some traj, ac_running := False\<rparr>"
  let ?tail = "bindst (stage_ack (lg_plan_id leg) True []) (\<lambda>_. bindst (whenst (\<not> lg_gated leg) (release (lg_plan_id leg) None)) (\<lambda>_. ret ()))"
  have tail: "starts (if lg_gated leg then None else Some (lg_plan_id leg)) [] [] u (snd (?tail u))" for u
    by (rule guar_run) (cases "lg_gated leg"; simp add: whenst_def; intro starts.g_rules starts_release calm_rules [THEN calm_starts])
  consider "going s t" | traj u where "t = snd (?tail (?load traj u))"
  proof (cases "mk_JointTrajectory (pl_times leg) (pl_positions leg) (Some (pl_velocities leg))")
    case (Inl e)
    then show ?thesis using assms that(1) by (simp add: stage_plan_def bindst_def lift_def going.stays)
  next
    case (Inr traj)
    obtain r1 u where u: "on_executor (set_gains (Some (pl_kp leg)) (Some (pl_kd leg))) s = (r1, u)" by fastforce
    show ?thesis
    proof (cases r1)
      case Inl
      then have "t = u" using assms Inr u by (simp add: stage_plan_def bindst_def lift_def)
      then show ?thesis using that(1) guarD [OF gains u] by simp
    next
      case (Inr x)
      then have "stage_plan leg s = ?tail (?load traj u)"
        using \<open>mk_JointTrajectory _ _ _ = Inr traj\<close> u by (simp add: stage_plan_def bindst_def lift_def modst_def)
      then show ?thesis using that(2) [of traj u] assms by (metis snd_conv)
    qed
  qed
  then show ?thesis
  proof cases
    case 2
    then show ?thesis using tail [of "?load traj u"] by (auto simp: starts_def named_def split: if_splits)
  qed simp
qed

lemma on_plan_starts:
  assumes "on_plan b s = (r, t)"
  shows "going s t \<or> (\<exists>leg. unpack_plan b = Inr leg \<and> (ac_plan t = Some leg \<or> ac_plan t = None) \<and> (ac_running t \<longrightarrow> ac_plan t = Some leg \<and> \<not> lg_gated leg))"
proof (cases "unpack_plan b")
  case (Inl e)
  then show ?thesis using assms guarD [OF calm_acks(2) [THEN calm_going]] by (simp add: on_plan_def)
next
  case (Inr leg)
  obtain r1 u where u: "plan_refusal leg s = (r1, u)" by fastforce
  have su: "going s u" "ac_plan u = ac_plan s" "ac_running u = ac_running s"
    using guarD [OF calm_plan_refusal [THEN calm_going] u] guarD [OF reads_checks(2) u] by (auto simp: only_reads_def)
  consider e where "r1 = Inl e" | x where "r1 = Inr (Some x)" | "r1 = Inr None" by (metis option.exhaust sum.exhaust)
  then show ?thesis
  proof cases
    case (2 x)
    obtain why report where "x = (why, report)" by fastforce
    then have "refuse_plan (lg_plan_id leg) why report u = (r, t)" using assms Inr u 2 by (simp add: on_plan_def)
    then show ?thesis using guarD [OF calm_acks(2) [THEN calm_going]] su(1) going.chain by blast
  next
    case 3
    then have "stage_plan leg u = (r, t)" using assms Inr u by (simp add: on_plan_def)
    from stage_plan_starts [OF this] show ?thesis using su(1) Inr going.chain by blast
  qed (use assms Inr u su(1) in \<open>simp add: on_plan_def\<close>)
qed

lemma running_plan_refused: "ac_running s \<Longrightarrow> going s (snd (on_plan b s))"
proof (cases "unpack_plan b")
  case (Inl e)
  then show ?thesis using guar_run [OF calm_acks(2) [THEN calm_going]] by (simp add: on_plan_def)
next
  case (Inr leg)
  assume "ac_running s"
  then have "\<exists>x. plan_refusal leg s = (Inr (Some x), s)"
    by (cases "ac_pose_hold s = None"; cases "ac_stopped s"; cases "ac_frozen s") (auto simp: plan_refusal_def withst_def ret_def)
  then obtain why report where "plan_refusal leg s = (Inr (Some (why, report)), s)" by auto
  then show ?thesis using Inr guar_run [OF calm_acks(2) [THEN calm_going]] by (simp add: on_plan_def)
qed

text \<open>
  C8: a plan runs only by name. Whatever a host calls, a plan that is running was staged by a plan message that
  decodes to it, and if it is gated, a later message named its id for execution; nothing else starts motion. No event
  replaces a running plan by another: it either goes on or ends.
\<close>

theorem plan_runs_by_name:
  assumes "mk_ArmController w session ex a = Inr s0"
  shows "(\<forall>leg. ac_running (after_events es s0) \<longrightarrow> ac_plan (after_events es s0) = Some leg \<longrightarrow>
       (\<exists>es1 b es2. es = es1 @ EPlan b # es2 \<and> unpack_plan b = Inr leg \<and> (lg_gated leg \<longrightarrow> (\<exists>e \<in> set es2. executes e = Some (lg_plan_id leg))))) \<and>
     (\<forall>e. ac_running (after_events es s0) \<longrightarrow> ac_running (after_event e (after_events es s0)) \<longrightarrow>
       ac_plan (after_event e (after_events es s0)) = ac_plan (after_events es s0))"
proof -
  have snoc: "after_events (xs @ [e]) s = after_event e (after_events xs s)" for xs e s by (simp add: after_events_def)
  have "\<exists>es1 b es2. es = es1 @ EPlan b # es2 \<and> unpack_plan b = Inr leg \<and>
      (ac_running (after_events es s0) \<longrightarrow> lg_gated leg \<longrightarrow> (\<exists>e \<in> set es2. executes e = Some (lg_plan_id leg)))"
    if "ac_plan (after_events es s0) = Some leg" for leg
    using that
  proof (induction es rule: rev_induct)
    case Nil
    then show ?case using mk_ArmController_start [OF assms] by simp
  next
    case (snoc e es)
    let ?s = "after_events es s0"
    obtain r t where t: "handle e ?s = (r, t)" by fastforce
    then have T: "after_events (es @ [e]) s0 = t" by (simp add: snoc after_events_def after_event_def)
    have plan: "ac_plan t = Some leg" using snoc.prems T by simp
    have keep: ?case if "ac_plan ?s = Some leg" "ac_running t \<Longrightarrow> lg_gated leg \<Longrightarrow> ac_running ?s \<or> executes e = Some (lg_plan_id leg)"
    proof -
      obtain es1 b es2 where IH: "es = es1 @ EPlan b # es2" "unpack_plan b = Inr leg"
          "ac_running ?s \<Longrightarrow> lg_gated leg \<Longrightarrow> \<exists>e \<in> set es2. executes e = Some (lg_plan_id leg)"
        using snoc.IH [OF \<open>ac_plan ?s = Some leg\<close>] by blast
      show ?thesis unfolding T
        by (rule exI [where x = es1], rule exI [where x = b], rule exI [where x = "es2 @ [e]"]) (use IH that(2) in auto)
    qed
    show ?case
    proof (cases "\<exists>b. e = EPlan b")
      case False
      then show ?thesis using event_starts [OF _ t] plan by (intro keep) (auto simp: named_def)
    next
      case True
      then obtain b where b: "e = EPlan b" by blast
      then consider "going ?s t" | "unpack_plan b = Inr leg" "ac_running t \<longrightarrow> \<not> lg_gated leg"
        using on_plan_starts [of b ?s r t] t plan by auto
      then show ?thesis
      proof cases
        case 1
        then show ?thesis using plan by (intro keep) (auto simp: going_def no_start_def)
      next
        case 2
        show ?thesis unfolding T
          by (rule exI [where x = es], rule exI [where x = b], rule exI [where x = "[]"]) (use 2 b in simp)
      qed
    qed
  qed
  moreover have "ac_plan (after_event e s) = ac_plan s" if run: "ac_running s" "ac_running (after_event e s)" for e s
  proof (cases "\<exists>b. e = EPlan b")
    case True
    then obtain b where "e = EPlan b" by blast
    then have "going s (after_event e s)" using running_plan_refused [OF run(1), of b] by (simp add: after_event_def)
    then show ?thesis using run by (simp add: going_def no_start_def)
  qed (use event_starts [of e s "fst (handle e s)" "snd (handle e s)"] run in \<open>auto simp: after_event_def\<close>)
  ultimately show ?thesis by blast
qed

end
