(* ===== verification/Control_Authority.thy ===== *)
theory Control_Authority
  imports Control_Life
begin

text \<open>
  The states the controller can be in: readiness needs the plant's acknowledgement, a running plan needs readiness, a
  stopped controller is never ready.
\<close>

subsection \<open>The invariant\<close>

definition life_inv :: "ArmController \<Rightarrow> bool" where
  "life_inv s \<longleftrightarrow> (ac_ready_sent s \<longrightarrow> ac_armed s \<and> ac_bridge_armed s) \<and>
     (ac_running s \<longrightarrow> ac_ready_sent s \<and> ac_plan s \<noteq> None \<and> ac_reference s \<noteq> None) \<and>
     (ac_plan s \<noteq> None \<longrightarrow> ac_pose_hold s = None) \<and> (ac_pose_hold s \<noteq> None \<longrightarrow> ac_ready_sent s)"

definition ctl_inv :: "ArmController \<Rightarrow> bool" where
  "ctl_inv s \<longleftrightarrow> life_inv s \<and> (ac_ready_sent s \<longrightarrow> \<not> ac_stopped s)"

definition flags :: "ArmController \<Rightarrow> ArmController \<Rightarrow> bool" where
  "flags s t \<longleftrightarrow> ac_ready_sent t = ac_ready_sent s \<and> ac_armed t = ac_armed s \<and> ac_bridge_armed t = ac_bridge_armed s \<and> ac_running t = ac_running s \<and>
     ac_plan t = ac_plan s \<and> ac_reference t = ac_reference s \<and> ac_pose_hold t = ac_pose_hold s \<and> ac_stopped t = ac_stopped s"

definition kinv :: "ArmController \<Rightarrow> ArmController \<Rightarrow> bool" where
  "kinv s t \<longleftrightarrow> (ctl_inv s \<longrightarrow> ctl_inv t)"

interpretation flags: guarantee flags
  by unfold_locales (simp_all add: flags_def)

interpretation kinv: guarantee kinv
  by unfold_locales (auto simp: kinv_def)

lemma flags_inv: "flags s t \<Longrightarrow> life_inv t = life_inv s \<and> ctl_inv t = ctl_inv s"
  by (simp add: flags_def life_inv_def ctl_inv_def)

lemma flags_kinv: "guar flags m \<Longrightarrow> guar kinv m"
  by (erule guar_mono) (simp add: kinv_def flags_inv)

lemma kinv_triple: "guar kinv m \<longleftrightarrow> triple ctl_inv m (\<lambda>_. ctl_inv) ctl_inv"
proof -
  have "(case m s of (Inl e, t) \<Rightarrow> ctl_inv t | (Inr a, t) \<Rightarrow> ctl_inv t) = ctl_inv (snd (m s))" for s
    by (simp split: prod.split sum.split)
  then show ?thesis by (simp add: guar_def triple_def kinv_def)
qed

lemma flags_triple:
  assumes "guar flags m" and "\<And>s t. flags s t \<Longrightarrow> P s \<Longrightarrow> P t"
  shows "triple P m (\<lambda>_. P) P"
  by (rule triple_guar [OF assms(1)]) (use assms(2) in blast)

named_theorems flags_rules \<open>methods that leave the lifecycle flags alone\<close>
named_theorems kinv_rules \<open>methods that keep the invariant\<close>

lemma flags_mod: "(\<And>s. flags s (g s)) \<Longrightarrow> guar flags (modst g)"
  by (rule flags.g_modst)

lemma flags_leaves [flags_rules]:
  "guar flags read_clock" "guar flags read_source" "guar flags reference_clock"
  "guar flags (on_settling m)" "guar flags (on_integral mi)" "guar flags (on_executor me)" "guar flags (send_output x)" "guar flags reset_integral"
  unfolding guar_def read_clock_def read_source_def reference_clock_def on_settling_def on_integral_def on_executor_def send_output_def
    reset_integral_def modst_def
  by (auto simp: flags_def split: prod.split option.split)

lemma reads_flags: "guar only_reads m \<Longrightarrow> guar flags m"
  by (erule guar_mono) (auto simp: only_reads_def flags_def)

lemma flags_reports [flags_rules]:
  "guar flags (send_event e)" "guar flags (stage_ack i ok r)" "guar flags (refuse_plan i r b)" "guar flags (report_mode ok w h)"
proof -
  show a: "guar flags (send_event e)" for e unfolding send_event_def by (intro flags.g_rules flags_rules)
  show b: "guar flags (stage_ack i ok r)" for ok unfolding stage_ack_def by (intro flags.g_rules a)
  show "guar flags (refuse_plan i r b)" unfolding refuse_plan_def seqs.simps by (intro flags.g_rules a b)
  show "guar flags (report_mode ok w h)"
    unfolding report_mode_def Let_def seqs.simps
    by (intro flags.g_rules flags_rules flags_mod) (simp_all add: flags_def)
qed

lemma finish_leg_triple:
  assumes "\<And>s. P s \<Longrightarrow> Q (s\<lparr>ac_stream_sent_at := None, ac_stream_sent_target := None, ac_reference := None, ac_running := False, ac_plan := None\<rparr>)"
    and "\<And>s t. flags s t \<Longrightarrow> Q s \<Longrightarrow> Q t"
  shows "triple P (finish_leg ok r None) (\<lambda>_. Q) (\<lambda>_. False)" "triple P (finish_leg ok r c) (\<lambda>_. Q) Q"
proof -
  have pk: "pack_controller_event ((event_args ''leg_result'')\<lparr>ce_plan_id := i, ce_ok := ok, ce_reason := r, ce_completion := None\<rparr>) =
      Inr ((event_args ''leg_result'')\<lparr>ce_plan_id := i, ce_ok := ok, ce_reason := r, ce_completion := None\<rparr>)" for i
    by (simp add: pack_controller_event_def event_args_def EVENT_KINDS_def opt_check_def)
  have sent: "Q (u\<lparr>ac_sent := x\<rparr>)" if "Q u" for u x using assms(2) [OF _ that, of "u\<lparr>ac_sent := x\<rparr>"] by (simp add: flags_def)
  show "triple P (finish_leg ok r None) (\<lambda>_. Q) (\<lambda>_. False)"
    unfolding triple_def finish_leg_def
    by (auto simp: run_simps bindst_def send_event_def send_output_def pk intro: sent assms(1))
  show "triple P (finish_leg ok r c) (\<lambda>_. Q) Q"
    unfolding finish_leg_def seqs.simps
    by (rule triple_withst, rule triple_bindst [where Q = "\<lambda>_. Q"], rule triple_modst, simp add: assms(1),
        rule flags_triple [OF _ assms(2)], intro flags.g_rules flags_rules)
qed

lemma kinv_finish_leg [kinv_rules]: "guar kinv (finish_leg ok r c)"
  unfolding kinv_triple by (rule finish_leg_triple(2)) (auto simp: ctl_inv_def life_inv_def flags_def)

lemma disarm_reset_triple: "triple life_inv disarm_reset (\<lambda>_ s. life_inv s \<and> \<not> ac_ready_sent s) (\<lambda>_. False)"
proof -
  let ?Q = "\<lambda>s. life_inv s \<and> \<not> ac_ready_sent s"
  have fin: "triple life_inv (finish_leg False r None) (\<lambda>_. life_inv) (\<lambda>_. False)" for r
    by (rule finish_leg_triple(1)) (auto simp: life_inv_def flags_def)
  have "triple life_inv (withst (\<lambda>s. whenst (ac_running s) (finish_leg False ''disarmed mid-leg'' None))) (\<lambda>_. life_inv) (\<lambda>_. False)"
    by (rule triple_withst, rule triple_whenst, rule triple_conseq [OF fin]) auto
  then show ?thesis
    unfolding disarm_reset_def seqs.simps
    by (rule triple_bindst, intro triple_bindst [where Q = "\<lambda>_. ?Q"])
      (auto simp: triple_def run_simps reset_integral_def life_inv_def)
qed

lemma set_arm_False: "triple life_inv (set_arm False) (\<lambda>_ s. life_inv s \<and> \<not> ac_ready_sent s) (\<lambda>_. False)"
proof -
  let ?Q = "\<lambda>s. life_inv s \<and> \<not> ac_ready_sent s"
  have "triple life_inv (withst (\<lambda>s. whenst (ac_armed s \<and> \<not> False) disarm_reset)) (\<lambda>_. ?Q) (\<lambda>_. False)"
    by (rule triple_withst, rule triple_whenst, rule triple_conseq [OF disarm_reset_triple]) (auto simp: life_inv_def)
  then show ?thesis
    unfolding set_arm_def seqs.simps
    by (rule triple_bindst, intro triple_bindst [where Q = "\<lambda>_. ?Q"])
      (auto simp: triple_def run_simps send_output_def life_inv_def)
qed

lemma kinv_set_arm [kinv_rules]: "guar kinv (set_arm a)"
proof (cases a)
  case False
  have "guar kinv (set_arm False)" unfolding kinv_triple by (rule triple_conseq [OF set_arm_False]) (auto simp: ctl_inv_def)
  then show ?thesis using False by simp
next
  case True
  have "guar kinv disarm_reset" unfolding kinv_triple by (rule triple_conseq [OF disarm_reset_triple]) (auto simp: ctl_inv_def)
  moreover have "guar kinv (modst (\<lambda>s.
        let rest = (if fresh \<and> all_finite (js_position (ac_last_state s)) then Some (js_position (ac_last_state s)) else None) in
        s\<lparr>ac_arm_pose := rest, ac_arm_pose_fixed := False, ac_been := map_option (\<lambda>q. (q, q)) rest\<rparr>))" for fresh
    by (intro flags_kinv flags_mod) (simp add: flags_def Let_def)
  moreover have "guar kinv (modst (\<lambda>s. s\<lparr>ac_armed := True\<rparr>))"
    by (rule kinv.g_modst) (auto simp: kinv_def ctl_inv_def life_inv_def)
  ultimately have "guar kinv (set_arm True)"
    unfolding set_arm_def seqs.simps
    by (intro kinv.g_rules flags_rules [THEN flags_kinv] reads_rules [THEN reads_flags, THEN flags_kinv])
  then show ?thesis using True by simp
qed

lemma kinv_stop [kinv_rules]: "guar kinv (stop r)"
proof -
  have arm: "triple life_inv (withst (\<lambda>s. whenst (ac_armed s) (set_arm False))) (\<lambda>_. ctl_inv) (\<lambda>_. False)"
    by (rule triple_withst, rule triple_whenst, rule triple_conseq [OF set_arm_False]) (auto simp: ctl_inv_def life_inv_def)
  have "triple ctl_inv (seqs [modst (\<lambda>s. s\<lparr>ac_stopped := True, ac_stop_reason := r\<rparr>), withst (\<lambda>s. whenst (ac_armed s) (set_arm False)),
      send_event ((event_args ''fault'')\<lparr>ce_ok := False, ce_reason := r\<rparr>)]) (\<lambda>_. ctl_inv) ctl_inv"
    unfolding seqs.simps
  proof (rule triple_bindst [where Q = "\<lambda>_. life_inv"], goal_cases)
    case 1
    show ?case by (rule triple_modst) (auto simp: ctl_inv_def life_inv_def)
  next
    case 2
    show ?case
    proof (rule triple_bindst [where Q = "\<lambda>_. ctl_inv"])
      show "triple life_inv (withst (\<lambda>s. whenst (ac_armed s) (set_arm False))) (\<lambda>_. ctl_inv) ctl_inv"
        by (rule triple_conseq [OF arm]) auto
      show "triple ctl_inv (bindst (send_event ((event_args ''fault'')\<lparr>ce_ok := False, ce_reason := r\<rparr>)) (\<lambda>_. ret ())) (\<lambda>_. ctl_inv) ctl_inv"
        unfolding kinv_triple [symmetric] by (intro kinv.g_rules flags_rules [THEN flags_kinv])
    qed
  qed
  then show ?thesis
    unfolding stop_def kinv_triple [symmetric] by (intro kinv.g_withst kinv.g_if kinv.g_ret)
qed

lemma kinv_fault [kinv_rules]: "guar kinv (fault r)"
  unfolding fault_def seqs.simps by (intro kinv.g_rules kinv_rules)

lemma leave_soft_triple: "triple ctl_inv leave_soft (\<lambda>_ s. ctl_inv s \<and> ac_pose_hold s = None) ctl_inv"
proof -
  let ?J = "\<lambda>s. ctl_inv s \<and> ac_pose_hold s = None"
  have J: "?J t" if "flags s t" "?J s" for s t using flags_inv [OF that(1)] that by (simp add: flags_def)
  have "triple ctl_inv (modst (\<lambda>s. s\<lparr>ac_pose_hold := None, ac_last_command := None\<rparr>)) (\<lambda>_. ?J) ctl_inv"
    by (rule triple_modst) (auto simp: ctl_inv_def life_inv_def)
  moreover have "triple ?J (bindst reset_integral (\<lambda>_. bindst (report_mode True None False) (\<lambda>_. ret ()))) (\<lambda>_. ?J) ?J"
    by (rule flags_triple [OF _ J], intro flags.g_rules flags_rules)
  then have "triple ?J (bindst reset_integral (\<lambda>_. bindst (report_mode True None False) (\<lambda>_. ret ()))) (\<lambda>_. ?J) ctl_inv"
    by (rule triple_conseq) auto
  ultimately have "triple ctl_inv (seqs [modst (\<lambda>s. s\<lparr>ac_pose_hold := None, ac_last_command := None\<rparr>), reset_integral, report_mode True None False])
      (\<lambda>_. ?J) ctl_inv" unfolding seqs.simps by (rule triple_bindst)
  note soft = this
  show ?thesis
    unfolding leave_soft_def by (rule triple_withst, rule triple_whenst, rule triple_conseq [OF soft]) auto
qed

lemma drop_leg_triple:
  "triple (\<lambda>s. ctl_inv s \<and> ac_pose_hold s = None) (drop_leg r keep)
     (\<lambda>_ s. ctl_inv s \<and> \<not> ac_running s \<and> ac_plan s = None \<and> ac_pose_hold s = None) ctl_inv"
proof -
  let ?J = "\<lambda>s. ctl_inv s \<and> ac_pose_hold s = None"
  have "triple ?J (withst (\<lambda>s. whenst (ac_running s) (finish_leg False r None))) (\<lambda>_. ?J) ctl_inv"
    by (rule triple_withst, rule triple_whenst, rule triple_conseq [OF finish_leg_triple(2) [of ?J ?J]])
      (auto simp: ctl_inv_def life_inv_def flags_def)
  then show ?thesis
    unfolding drop_leg_def seqs.simps
    by (rule triple_bindst) (auto simp: triple_def bindst_def run_simps ctl_inv_def life_inv_def)
qed

lemma cancel_triple:
  "triple ctl_inv (cancel r) (\<lambda>_ s. ctl_inv s \<and> \<not> ac_running s \<and> ac_plan s = None \<and> ac_pose_hold s = None) ctl_inv"
proof -
  have "guar kinv (withst (\<lambda>s. lift (keep_anchor s)))" "guar kinv (withst (\<lambda>s. whenst (cf_policy (ac_cfg s) \<noteq> None) (modst (\<lambda>s. s\<lparr>ac_cartesian_now := None\<rparr>))))"
    by (intro flags_kinv flags.g_rules flags_mod; simp add: flags_def)+
  then show ?thesis
    unfolding cancel_def seqs.simps kinv_triple
    by (intro triple_bindst [OF _ triple_bindst [OF _ triple_bindst [OF leave_soft_triple triple_bindst [OF drop_leg_triple triple_ret]]]])
qed

lemma kinv_cancel [kinv_rules]: "guar kinv (cancel r)"
  unfolding kinv_triple by (rule triple_conseq [OF cancel_triple]) auto

lemma kinv_pause [kinv_rules]: "guar kinv (pause_observation r b)"
proof -
  let ?J = "\<lambda>s. ctl_inv s \<and> \<not> ac_running s \<and> ac_pose_hold s = None"
  have last: "triple ?J (bindst (modst (\<lambda>s. s\<lparr>ac_observation_paused := True, ac_ready_sent := False, ac_last_command := None, ac_hold_anchor := x\<rparr>)) (\<lambda>_. ret ()))
      (\<lambda>_. ctl_inv) ctl_inv" for x
    by (auto simp: triple_def bindst_def run_simps ctl_inv_def life_inv_def)
  show ?thesis
    unfolding kinv_triple pause_observation_def Let_def seqs.simps
    by (rule triple_withst, rule triple_bindst [OF _ last], rule triple_whenst, rule triple_conseq [OF cancel_triple]) auto
qed

lemma kinv_mod: "(\<And>s. ctl_inv s \<Longrightarrow> ctl_inv (g s)) \<Longrightarrow> guar kinv (modst g)"
  by (rule kinv.g_modst) (simp add: kinv_def)

lemmas inv_simps = ctl_inv_def life_inv_def

lemmas quiet_rules = flags_rules [THEN flags_kinv] reads_rules [THEN reads_flags, THEN flags_kinv]

lemma kinv_parts [kinv_rules]:
  "guar kinv (settle_timeout p)" "guar kinv (on_verdict st now v)" "guar kinv (check_completion st)"
  "guar kinv (on_jog q)" "guar kinv clear_jog" "guar kinv jog_target" "guar kinv (ramp_jog j)"
  "guar kinv (anchored_hold i ti b)" "guar kinv settle_before_sample" "guar kinv (note_first_sample ref)"
proof -
  show a: "guar kinv (settle_timeout p)" for p
    unfolding settle_timeout_def seqs.simps by (intro kinv.g_rules kinv_rules quiet_rules kinv_mod) (simp add: inv_simps)
  show b: "guar kinv (on_verdict st now v)" for st now v
    unfolding on_verdict_def by (intro kinv.g_rules a kinv_rules quiet_rules)
  show c: "guar kinv (check_completion st)" for st
    unfolding check_completion_def Let_def by (intro kinv.g_rules b kinv_rules quiet_rules kinv_mod) (simp_all add: inv_simps)
  show "guar kinv (on_jog q)" "guar kinv clear_jog" "guar kinv jog_target" "guar kinv (ramp_jog j)"
    unfolding on_jog_def clear_jog_def jog_target_def ramp_jog_def Let_def seqs.simps
    by (intro kinv.g_rules kinv_rules quiet_rules kinv_mod; simp add: inv_simps)+
  show "guar kinv (anchored_hold i ti b)" "guar kinv settle_before_sample" "guar kinv (note_first_sample ref)"
    unfolding anchored_hold_def settle_before_sample_def note_first_sample_def Let_def seqs.simps
    by (intro kinv.g_rules c kinv_rules quiet_rules kinv_mod; simp add: inv_simps)+
qed

lemma kinv_send [kinv_rules]: "guar kinv (send c cart)"
proof -
  have emit: "guar kinv (emit_command d k)" for d k
    unfolding emit_command_def Let_def seqs.simps by (intro kinv.g_rules quiet_rules kinv_mod) (simp add: inv_simps)
  have "guar kinv (admit_command p d)" for p d
    unfolding admit_command_def abort_to_hold_def checked_hold_def
    by (intro kinv.g_rules kinv_rules quiet_rules kinv_mod) (simp_all add: inv_simps)
  then show ?thesis unfolding send_def by (intro kinv.g_rules emit)
qed

lemma kinv_stream_tail:
  "guar kinv stream_gap" "guar kinv (stream_leg i ti r)" "guar kinv (stream_idle i ti)"
  unfolding stream_gap_def stream_leg_def stream_idle_def Let_def
  by (intro kinv.g_rules kinv_rules quiet_rules kinv_mod; simp add: inv_simps)+

lemma stream_triple: "triple (\<lambda>s. ctl_inv s \<and> \<not> ac_stopped s) stream (\<lambda>_. ctl_inv) ctl_inv"
  unfolding stream_def
proof (rule triple_withst)
  fix s :: ArmController
  assume s: "ctl_inv s \<and> \<not> ac_stopped s"
  let ?cycle = "\<lambda>_ :: unit. if \<not> (all_finite (js_position (ac_last_state s)) \<and> all_finite (js_velocity (ac_last_state s))) then ret ()
       else bindst gap_exceeded (\<lambda>gap. if gap then stream_gap else bindst (modst (\<lambda>s. s\<lparr>ac_cycle_id := ac_cycle_id s + 1\<rparr>)) (\<lambda>_.
           bindst read_clock (\<lambda>cycle_time. bindst settle_before_sample (\<lambda>_. withst (\<lambda>s. case (ac_running s, ac_reference s) of
               (True, Some ref) \<Rightarrow> stream_leg (ac_cycle_id s) cycle_time ref | _ \<Rightarrow> stream_idle (ac_cycle_id s) cycle_time)))))"
  have cycle: "triple ctl_inv (?cycle u) (\<lambda>_. ctl_inv) ctl_inv" for u
    unfolding kinv_triple [symmetric]
    by (intro kinv.g_rules kinv_stream_tail kinv_rules quiet_rules kinv_mod) (simp_all add: inv_simps)
  have ann: "triple (\<lambda>t. t = s) announce_ready (\<lambda>_. ctl_inv) ctl_inv" if "ac_armed s" "ac_bridge_armed s"
    unfolding announce_ready_def seqs.simps
    by (rule triple_bindst [OF triple_modst [where Q = "\<lambda>_. ctl_inv"]], use s that in \<open>simp add: inv_simps\<close>,
        unfold kinv_triple [symmetric], intro kinv.g_rules quiet_rules)
  show "triple (\<lambda>t. t = s) (if \<not> ac_armed s then ret () else if \<not> ac_ready_sent s \<and> \<not> ac_bridge_armed s then ret ()
     else bindst (whenst (\<not> ac_ready_sent s) announce_ready) ?cycle) (\<lambda>_. ctl_inv) ctl_inv"
  proof (cases "ac_armed s \<and> (ac_ready_sent s \<or> ac_bridge_armed s)")
    case False
    then show ?thesis using s by (auto intro!: triple_ret)
  next
    case True
    then have c: "\<not> \<not> ac_armed s" "\<not> (\<not> ac_ready_sent s \<and> \<not> ac_bridge_armed s)" by auto
    have "triple (\<lambda>t. t = s) (whenst (\<not> ac_ready_sent s) announce_ready) (\<lambda>_. ctl_inv) ctl_inv"
      by (rule triple_whenst, rule ann) (use s True in auto)
    from triple_bindst [OF this cycle] show ?thesis unfolding if_not_P [OF c(1)] if_not_P [OF c(2)] .
  qed
qed

lemma kinv_tick [kinv_rules]: "guar kinv tick"
  unfolding kinv_triple tick_def
proof (rule triple_withst)
  fix s assume s: "ctl_inv s"
  let ?live = "\<lambda>s. ctl_inv s \<and> \<not> ac_stopped s"
  have obs: "triple ?live (observation_error p) (\<lambda>_. ?live) ?live" for p
    by (rule triple_guar [OF reads_all(3)]) (auto simp: only_reads_def inv_simps)
  have go: "triple ?live (modst (\<lambda>s. s\<lparr>ac_observation_paused := False\<rparr>)) (\<lambda>_. ?live) ctl_inv"
    by (rule triple_modst) (simp add: inv_simps)
  have pause: "triple ?live (pause_observation r b) (\<lambda>_. ctl_inv) ctl_inv" for r b
    by (rule triple_conseq [OF kinv_pause [unfolded kinv_triple]]) auto
  have branch: "triple ?live (case reason of Some r \<Rightarrow> pause_observation r False
      | None \<Rightarrow> bindst (modst (\<lambda>s. s\<lparr>ac_observation_paused := False\<rparr>)) (\<lambda>_. stream)) (\<lambda>_. ctl_inv) ctl_inv" for reason
    using pause triple_bindst [OF go stream_triple] by (cases reason) simp_all
  have run: "triple ?live (bindst (observation_error p) (\<lambda>reason. case reason of Some r \<Rightarrow> pause_observation r False
      | None \<Rightarrow> bindst (modst (\<lambda>s. s\<lparr>ac_observation_paused := False\<rparr>)) (\<lambda>_. stream))) (\<lambda>_. ctl_inv) ctl_inv" for p
    by (rule triple_bindst [OF triple_conseq [OF obs] branch]) auto
  show "triple (\<lambda>t. t = s) (case cf_policy (ac_cfg s) of None \<Rightarrow> ret () | Some p \<Rightarrow> if ac_stopped s then ret () else
      bindst (observation_error p) (\<lambda>reason. case reason of Some r \<Rightarrow> pause_observation r False
        | None \<Rightarrow> bindst (modst (\<lambda>s. s\<lparr>ac_observation_paused := False\<rparr>)) (\<lambda>_. stream))) (\<lambda>_. ctl_inv) ctl_inv"
  proof (cases "cf_policy (ac_cfg s) = None \<or> ac_stopped s")
    case True
    then show ?thesis using s by (auto intro!: triple_ret split: option.split)
  next
    case False
    then obtain p where p: "cf_policy (ac_cfg s) = Some p" "\<not> ac_stopped s" by auto
    show ?thesis unfolding p(1) option.case if_not_P [OF p(2)] by (rule triple_conseq [OF run]) (use s p in auto)
  qed
qed

lemma screen_state_triple:
  "triple (\<lambda>s. ctl_inv s \<and> \<not> ac_stopped s) (screen_state pr arm) (\<lambda>_ s. ctl_inv s \<and> (cf_policy (ac_cfg s) = None \<longrightarrow> \<not> ac_stopped s)) ctl_inv"
proof -
  have keep: "guar kinv (screen_state pr arm)"
    unfolding screen_state_def by (intro kinv.g_rules kinv_rules quiet_rules kinv_mod) (simp add: inv_simps)
  have post: "case screen_state pr arm s of (Inr a, t) \<Rightarrow> ctl_inv t \<and> (cf_policy (ac_cfg t) = None \<longrightarrow> \<not> ac_stopped t) | (Inl e, t) \<Rightarrow> ctl_inv t"
    if s: "ctl_inv s" "\<not> ac_stopped s" for s
  proof (cases "cf_policy (ac_cfg s)")
    case None
    then show ?thesis using s by (simp add: screen_state_def withst_def ret_def)
  next
    case (Some p)
    obtain r t where t: "screen_state pr arm s = (r, t)" by fastforce
    have "ctl_inv t" "ac_cfg t = ac_cfg s" using guarD [OF keep t] s guarD [OF calm_inputs(8) [of "[]" "[]"] t] by (auto simp: kinv_def calm_def)
    then show ?thesis using t Some by (auto split: sum.split)
  qed
  show ?thesis unfolding triple_def by (intro allI impI, elim conjE, rule post)
qed

lemma take_state_triple: "triple (\<lambda>s. ctl_inv s \<and> \<not> ac_stopped s) (take_state pr arm) (\<lambda>_. ctl_inv) ctl_inv"
proof -
  let ?J = "\<lambda>s. ctl_inv s \<and> (cf_policy (ac_cfg s) = None \<longrightarrow> \<not> ac_stopped s)"
  have acc: "triple ?J (accept_state arm) (\<lambda>_. ?J) ctl_inv"
  proof -
    have "guar (\<lambda>s t. flags s t \<and> ac_cfg t = ac_cfg s) (accept_state arm)" by (simp add: guar_def accept_state_def modst_def flags_def Let_def)
    moreover have "?J t" if "?J s" "flags s t \<and> ac_cfg t = ac_cfg s" for s t using that flags_inv [of s t] by (simp add: flags_def)
    ultimately have "triple ?J (accept_state arm) (\<lambda>_. ?J) ?J" by (rule triple_guar)
    then show ?thesis by (rule triple_conseq) simp_all
  qed
  have str: "triple ?J (withst (\<lambda>s. whenst (cf_policy (ac_cfg s) = None) stream)) (\<lambda>_. ctl_inv) ctl_inv"
    by (rule triple_withst, rule triple_whenst, rule triple_conseq [OF stream_triple]) auto
  have heart: "triple ctl_inv (bindst (withst (\<lambda>s. whenst (heartbeat_due s arm) (report_mode True None True))) (\<lambda>_. ret ())) (\<lambda>_. ctl_inv) ctl_inv"
    unfolding kinv_triple [symmetric] by (intro kinv.g_rules quiet_rules)
  have "triple ?J (whenst go (seqs [accept_state arm, withst (\<lambda>s. whenst (cf_policy (ac_cfg s) = None) stream),
      withst (\<lambda>s. whenst (heartbeat_due s arm) (report_mode True None True))])) (\<lambda>_. ctl_inv) ctl_inv" for go
    unfolding seqs.simps by (rule triple_whenst, rule triple_bindst [OF acc triple_bindst [OF str heart]]) auto
  then show ?thesis unfolding take_state_def by (rule triple_bindst [OF screen_state_triple])
qed

lemma kinv_on_motor_state [kinv_rules]: "guar kinv (on_motor_state v)"
  unfolding kinv_triple on_motor_state_def
proof (rule triple_withst)
  fix s0 :: ArmController
  assume s0: "ctl_inv s0"
  let ?J = "\<lambda>t. ctl_inv t \<and> ac_stopped t = ac_stopped s0"
  have step: "triple ?J m (\<lambda>_. ?J) ctl_inv" if "guar flags m" for m :: "'a ctl"
  proof -
    have "?J t" if "?J s" "flags s t" for s t using that flags_inv [of s t] by (simp add: flags_def)
    then have "triple ?J m (\<lambda>_. ?J) ?J" by (rule triple_guar [OF that])
    then show ?thesis by (rule triple_conseq) simp_all
  qed
  have take: "triple ?J (take_state pr arm) (\<lambda>_. ctl_inv) ctl_inv" if "\<not> ac_stopped s0" for pr arm
    by (rule triple_conseq [OF take_state_triple]) (use that in auto)
  have lifted: "triple ?J (lift r) (\<lambda>_. ?J) ctl_inv" for r :: "motor_state result" by (rule triple_lift) auto
  have rest: "triple ?J (if ac_stopped s0 then ret () else
      bindst (modst (\<lambda>s. case cf_state_period (ac_cfg s) of None \<Rightarrow> s | Some p \<Rightarrow> s\<lparr>ac_plant_t := ac_plant_t s + p\<rparr>)) (\<lambda>_.
      bindst (lift (unpack_motor_state v (cf_n_arm (ac_cfg s0)))) (\<lambda>m.
      take_state (ac_last_state_at s0) \<lparr>js_position = ms_position m, js_velocity = ms_velocity m\<rparr>))) (\<lambda>_. ctl_inv) ctl_inv"
  proof (cases "ac_stopped s0")
    case False
    show ?thesis unfolding if_not_P [OF False]
      by (rule triple_bindst [OF step triple_bindst [OF lifted take [OF False]]], rule flags_mod) (auto simp: flags_def split: option.split)
  qed (auto intro: triple_ret)
  show "triple (\<lambda>t. t = s0) (bindst read_clock (\<lambda>now. bindst (modst (\<lambda>s. s\<lparr>ac_last_state_at := Some now\<rparr>)) (\<lambda>_. if ac_stopped s0 then ret () else
      bindst (modst (\<lambda>s. case cf_state_period (ac_cfg s) of None \<Rightarrow> s | Some p \<Rightarrow> s\<lparr>ac_plant_t := ac_plant_t s + p\<rparr>)) (\<lambda>_.
      bindst (lift (unpack_motor_state v (cf_n_arm (ac_cfg s0)))) (\<lambda>m.
      take_state (ac_last_state_at s0) \<lparr>js_position = ms_position m, js_velocity = ms_velocity m\<rparr>))))) (\<lambda>_. ctl_inv) ctl_inv"
    by (rule triple_bindst [OF triple_conseq [OF step [OF flags_leaves(1)]] triple_bindst [OF step [OF flags_mod] rest]])
      (use s0 in \<open>auto simp: flags_def\<close>)
qed

lemma kinv_health [kinv_rules]: "guar kinv (on_motor_health h)"
proof -
  have a: "guar kinv (rt_hold h)"
    unfolding rt_hold_def seqs.simps by (intro kinv.g_rules kinv_rules quiet_rules kinv_mod; simp add: inv_simps)
  have b: "guar kinv (policy_health h)"
    unfolding policy_health_def seqs.simps by (intro kinv.g_rules a kinv_rules quiet_rules kinv_mod; simp add: inv_simps)
  show ?thesis
    unfolding on_motor_health_def seqs.simps by (intro kinv.g_rules b kinv_rules quiet_rules kinv_mod; simp add: inv_simps)
qed

lemma start_leg_triple:
  "triple (\<lambda>s. ctl_inv s \<and> ac_ready_sent s \<and> ac_plan s \<noteq> None) (start_leg st) (\<lambda>_. ctl_inv) ctl_inv"
proof -
  let ?J = "\<lambda>s. ctl_inv s \<and> ac_ready_sent s \<and> ac_plan s \<noteq> None"
  have step: "triple ?J m (\<lambda>_. ?J) ctl_inv" if "guar flags m" for m :: "'a ctl"
  proof -
    have "?J t" if "?J s" "flags s t" for s t using that flags_inv [of s t] by (simp add: flags_def)
    then have "triple ?J m (\<lambda>_. ?J) ?J" by (rule triple_guar [OF that])
    then show ?thesis by (rule triple_conseq) simp_all
  qed
  have run: "triple ?J (modst (\<lambda>s. s\<lparr>ac_reference := Some ref, ac_settling := ls_begin (ac_settling s) (f s),
      ac_completion_sample_at := None, ac_stream_sent_at := None, ac_stream_sent_target := None, ac_running := True,
      ac_first_sample_pending := True\<rparr>)) (\<lambda>_. ctl_inv) ctl_inv" for ref f
    by (rule triple_modst) (auto simp: inv_simps)
  have clock: "guar flags (case st of Some t \<Rightarrow> ret t | None \<Rightarrow> exec_time)"
    by (intro flags.g_option flags.g_ret reads_flags reads_rules)
  have last: "triple ?J (withst (\<lambda>s. case ac_pending_traj s of None \<Rightarrow> lift (Inl AttributeError) | Some traj \<Rightarrow>
      bindst (lift (mk_TrajectoryReference traj (if ac_reference_source s then None else Some t0) (ac_reference_source s))) (\<lambda>ref.
      modst (\<lambda>s. s\<lparr>ac_reference := Some ref, ac_settling := ls_begin (ac_settling s) (if ac_reference_source s then None else Some (t0 + duration_sec traj)),
        ac_completion_sample_at := None, ac_stream_sent_at := None, ac_stream_sent_target := None, ac_running := True,
        ac_first_sample_pending := True\<rparr>)))) (\<lambda>_. ctl_inv) ctl_inv" for t0
  proof (rule triple_withst)
    fix s assume J: "?J s"
    show "triple (\<lambda>t. t = s) (case ac_pending_traj s of None \<Rightarrow> lift (Inl AttributeError) | Some traj \<Rightarrow>
      bindst (lift (mk_TrajectoryReference traj (if ac_reference_source s then None else Some t0) (ac_reference_source s))) (\<lambda>ref.
      modst (\<lambda>s. s\<lparr>ac_reference := Some ref, ac_settling := ls_begin (ac_settling s) (if ac_reference_source s then None else Some (t0 + duration_sec traj)),
        ac_completion_sample_at := None, ac_stream_sent_at := None, ac_stream_sent_target := None, ac_running := True,
        ac_first_sample_pending := True\<rparr>))) (\<lambda>_. ctl_inv) ctl_inv"
    proof (cases "ac_pending_traj s")
      case None
      then show ?thesis using J by (simp add: triple_def lift_def)
    next
      case (Some traj)
      show ?thesis unfolding Some option.case by (rule triple_bindst [OF triple_lift run]) (use J in auto)
    qed
  qed
  show ?thesis
    unfolding start_leg_def Let_def seqs.simps
    by (rule triple_bindst [OF step triple_bindst [OF triple_bindst [OF step [OF clock] last] triple_ret]], rule flags_mod) (simp_all add: flags_def)
qed

lemma kinv_release [kinv_rules]: "guar kinv (release i st)"
  unfolding release_def kinv_triple
proof (rule triple_withst)
  fix s :: ArmController
  assume s: "ctl_inv s"
  let ?go = "\<lambda>reason. case reason of Some r \<Rightarrow> seqs [finish_leg False r None, modst (\<lambda>s. s\<lparr>ac_pending_traj := None\<rparr>)] | None \<Rightarrow> start_leg st"
  let ?J = "\<lambda>s. ctl_inv s \<and> ac_ready_sent s \<and> ac_plan s \<noteq> None"
  have fin: "triple ctl_inv (finish_leg ok r c) (\<lambda>_. ctl_inv) ctl_inv" for ok r c using kinv_finish_leg by (simp add: kinv_triple)
  have check: "triple ?J (if b then release_error i else ret None) (\<lambda>_. ?J) ctl_inv" for b
    by (rule triple_conseq [OF triple_guar [of only_reads _ ?J ?J]])
      (auto intro: reads.g_ret reads_checks simp: only_reads_def inv_simps)
  have "guar kinv (seqs [finish_leg False r None, modst (\<lambda>s. s\<lparr>ac_pending_traj := None\<rparr>)])" for r
    unfolding seqs.simps by (intro kinv.g_rules kinv_rules kinv_mod) (simp add: inv_simps)
  then have fail: "triple ?J (seqs [finish_leg False r None, modst (\<lambda>s. s\<lparr>ac_pending_traj := None\<rparr>)]) (\<lambda>_. ctl_inv) ctl_inv" for r
    unfolding kinv_triple by (rule triple_conseq) auto
  have go: "triple ?J (?go reason) (\<lambda>_. ctl_inv) ctl_inv" for reason
    using fail start_leg_triple by (cases reason) simp_all
  show "triple (\<lambda>t. t = s) (case ac_plan s of None \<Rightarrow> ret () | Some leg \<Rightarrow> if lg_plan_id leg \<noteq> i then ret ()
      else if \<not> ac_armed s \<or> \<not> ac_ready_sent s then finish_leg False ''not armed'' None else if ac_running s then ret ()
      else bindst (if cf_policy (ac_cfg s) \<noteq> None then release_error i else ret None) ?go) (\<lambda>_. ctl_inv) ctl_inv"
  proof (cases "\<exists>leg. ac_plan s = Some leg \<and> lg_plan_id leg = i \<and> ac_armed s \<and> ac_ready_sent s \<and> \<not> ac_running s")
    case True
    then obtain leg where leg: "ac_plan s = Some leg" "\<not> lg_plan_id leg \<noteq> i" "\<not> (\<not> ac_armed s \<or> \<not> ac_ready_sent s)" "\<not> ac_running s" by auto
    show ?thesis unfolding leg(1) option.case if_not_P [OF leg(2)] if_not_P [OF leg(3)] if_not_P [OF leg(4)]
      by (rule triple_bindst [OF triple_conseq [OF check] go]) (use s leg in auto)
  next
    case False
    have "triple (\<lambda>t. t = s) (finish_leg ok r c) (\<lambda>_. ctl_inv) ctl_inv" for ok r c by (rule triple_conseq [OF fin]) (use s in auto)
    moreover have "triple (\<lambda>t. t = s) (ret ()) (\<lambda>_. ctl_inv) ctl_inv" using s by (auto intro: triple_ret)
    ultimately show ?thesis using False by (auto split: option.split)
  qed
qed

lemma plan_refusal_triple:
  "triple ctl_inv (plan_refusal leg) (\<lambda>r s. ctl_inv s \<and> (r = None \<longrightarrow> ac_pose_hold s = None)) ctl_inv"
proof -
  have post: "case plan_refusal leg s of (Inr r, t) \<Rightarrow> ctl_inv t \<and> (r = None \<longrightarrow> ac_pose_hold t = None) | (Inl e, t) \<Rightarrow> ctl_inv t" if s: "ctl_inv s" for s
  proof (cases "ac_pose_hold s = None")
    case True
    obtain r t where t: "plan_refusal leg s = (r, t)" by fastforce
    have "ctl_inv t" "ac_pose_hold t = None" using guarD [OF reads_checks(2) t] s True by (auto simp: only_reads_def inv_simps)
    then show ?thesis using t by (auto split: sum.split)
  next
    case False
    then have "plan_refusal leg s = (Inr (Some (''Soft pose hold active; select Track before planning'', True)), s)"
      by (auto simp: plan_refusal_def withst_def ret_def)
    then show ?thesis using s by simp
  qed
  show ?thesis unfolding triple_def by (intro allI impI, rule post)
qed

lemma stage_plan_triple: "triple (\<lambda>s. ctl_inv s \<and> ac_pose_hold s = None) (stage_plan leg) (\<lambda>_. ctl_inv) ctl_inv"
proof -
  let ?J = "\<lambda>s. ctl_inv s \<and> ac_pose_hold s = None"
  have gains: "triple ?J (on_executor (set_gains kp kd)) (\<lambda>_. ?J) ctl_inv" for kp kd
  proof -
    have "?J t" if "?J s" "flags s t" for s t using that flags_inv [of s t] by (simp add: flags_def)
    then have "triple ?J (on_executor (set_gains kp kd)) (\<lambda>_. ?J) ?J" by (rule triple_guar [OF flags_leaves(6)])
    then show ?thesis by (rule triple_conseq) simp_all
  qed
  have load: "triple ?J (modst (\<lambda>s. s\<lparr>ac_plan := Some leg, ac_cartesian_now := pl_cartesian leg, ac_pending_traj := Some traj, ac_running := False\<rparr>)) (\<lambda>_. ctl_inv) ctl_inv" for traj
    by (rule triple_modst) (auto simp: inv_simps)
  have rest: "triple ctl_inv (bindst (stage_ack (lg_plan_id leg) True []) (\<lambda>_. bindst (whenst (\<not> lg_gated leg) (release (lg_plan_id leg) None)) (\<lambda>_. ret ()))) (\<lambda>_. ctl_inv) ctl_inv"
    unfolding kinv_triple [symmetric] by (intro kinv.g_rules kinv_rules quiet_rules)
  show ?thesis
    unfolding stage_plan_def seqs.simps
    by (rule triple_bindst [OF triple_lift triple_bindst [OF gains triple_bindst [OF load rest]]]) auto
qed

lemma kinv_on_plan [kinv_rules]: "guar kinv (on_plan b)"
proof (cases "unpack_plan b")
  case (Inl e)
  then show ?thesis unfolding on_plan_def by (simp add: quiet_rules)
next
  case (Inr leg)
  let ?go = "\<lambda>refusal. case refusal of Some (reason, report) \<Rightarrow> refuse_plan (lg_plan_id leg) reason report | None \<Rightarrow> stage_plan leg"
  have ref: "triple ctl_inv (refuse_plan i r rep) (\<lambda>_. ctl_inv) ctl_inv" for i r rep unfolding kinv_triple [symmetric] by (intro quiet_rules)
  have go: "triple (\<lambda>s. ctl_inv s \<and> (r = None \<longrightarrow> ac_pose_hold s = None)) (?go r) (\<lambda>_. ctl_inv) ctl_inv" for r
  proof (cases r)
    case None
    then show ?thesis using stage_plan_triple by simp
  next
    case (Some x)
    then show ?thesis by (cases x) (simp, rule triple_conseq [OF ref], auto)
  qed
  show ?thesis unfolding on_plan_def Inr sum.case kinv_triple by (rule triple_bindst [OF plan_refusal_triple go])
qed

lemma validate_ready: "validate_pose_hold sp s = (Inr h, t) \<Longrightarrow> ac_ready_sent s \<and> only_reads s t"
proof -
  assume v: "validate_pose_hold sp s = (Inr h, t)"
  have "ac_ready_sent s"
    using v unfolding validate_pose_hold_def withst_def bindst_eq_Inr by (auto simp: bindst_eq_Inr lift_def split: if_splits)
  then show ?thesis using guarD [OF reads_checks(3) v] by simp
qed

lemma kinv_set_pose_hold [kinv_rules]: "guar kinv (set_pose_hold sp)"
proof -
  let ?ok = "\<lambda>hold :: pose_hold. seqs [cancel ''entering Soft'', withst (\<lambda>s. on_executor (set_gains (Some (cf_track_kp (ac_cfg s))) (Some (cf_track_kd (ac_cfg s))))),
      modst (\<lambda>s. s\<lparr>ac_last_command := None, ac_cartesian_now := None, ac_pose_hold := Some hold\<rparr>), reset_integral, report_mode True None False]"
  let ?R = "\<lambda>s. ctl_inv s \<and> ac_ready_sent s"
  let ?J = "\<lambda>s. ctl_inv s \<and> ac_ready_sent s \<and> ac_plan s = None"
  have ready: "guar (\<lambda>s t. ac_ready_sent s = ac_ready_sent t) (cancel r)" for r
  proof -
    let ?G = "\<lambda>s t :: ArmController. ac_ready_sent s = ac_ready_sent t"
    have G: "guarantee ?G" by unfold_locales auto
    have fl: "guar flags m \<Longrightarrow> guar ?G m" for m :: "'a ctl" by (erule guar_mono) (simp add: flags_def)
    have fin: "guar ?G (finish_leg ok r c)" for ok r c
      unfolding finish_leg_def seqs.simps by (intro guarantee.g_rules [OF G] guarantee.g_modst [OF G] fl flags_rules) simp
    show ?thesis
      unfolding cancel_def leave_soft_def drop_leg_def seqs.simps
      by (intro guarantee.g_rules [OF G] guarantee.g_modst [OF G] fin fl flags_rules) simp_all
  qed
  have can: "triple ?R (cancel r) (\<lambda>_. ?J) ctl_inv" for r
    unfolding triple_def
  proof (intro allI impI)
    fix s assume s: "?R s"
    obtain x t where t: "cancel r s = (x, t)" by fastforce
    show "case cancel r s of (Inl e, t) \<Rightarrow> ctl_inv t | (Inr a, t) \<Rightarrow> ?J t"
      using tripleD [OF cancel_triple _ t] s guarD [OF ready t] by (auto simp: t split: sum.splits)
  qed
  have gains: "triple ?J (withst (\<lambda>s. on_executor (set_gains (Some (cf_track_kp (ac_cfg s))) (Some (cf_track_kd (ac_cfg s)))))) (\<lambda>_. ?J) ctl_inv"
  proof -
    have "?J t" if "?J s" "flags s t" for s t using that flags_inv [of s t] by (simp add: flags_def)
    then have "triple ?J (withst (\<lambda>s. on_executor (set_gains (Some (cf_track_kp (ac_cfg s))) (Some (cf_track_kd (ac_cfg s)))))) (\<lambda>_. ?J) ?J"
      by (rule triple_guar [OF flags.g_withst [OF flags_leaves(6)]])
    then show ?thesis by (rule triple_conseq) simp_all
  qed
  have soft: "triple ?J (modst (\<lambda>s. s\<lparr>ac_last_command := None, ac_cartesian_now := None, ac_pose_hold := Some hold\<rparr>)) (\<lambda>_. ctl_inv) ctl_inv" for hold
    by (rule triple_modst) (auto simp: inv_simps)
  have rest: "triple ctl_inv (bindst reset_integral (\<lambda>_. bindst (report_mode True None False) (\<lambda>_. ret ()))) (\<lambda>_. ctl_inv) ctl_inv"
    unfolding kinv_triple [symmetric] by (intro kinv.g_rules quiet_rules)
  have enter: "triple ?R (?ok hold) (\<lambda>_. ctl_inv) ctl_inv" for hold
    unfolding seqs.simps by (rule triple_bindst [OF can triple_bindst [OF gains triple_bindst [OF soft rest]]])
  have val: "triple ctl_inv (validate_pose_hold sp) (\<lambda>_. ?R) ctl_inv"
    unfolding triple_def
  proof (intro allI impI)
    fix s assume s: "ctl_inv s"
    obtain x t where t: "validate_pose_hold sp s = (x, t)" by fastforce
    have "ctl_inv t" using guarD [OF reads_checks(3) t] s by (auto simp: only_reads_def inv_simps)
    then show "case validate_pose_hold sp s of (Inl e, t) \<Rightarrow> ctl_inv t | (Inr a, t) \<Rightarrow> ?R t"
      using validate_ready [of sp s] t by (auto simp: only_reads_def split: sum.splits)
  qed
  have refuse: "triple ctl_inv (report_mode False r b) (\<lambda>_. ctl_inv) ctl_inv" for r b
    unfolding kinv_triple [symmetric] by (intro quiet_rules)
  show ?thesis unfolding set_pose_hold_def kinv_triple by (rule triple_tryst [OF val refuse enter])
qed

lemma kinv_control [kinv_rules]: "guar kinv (on_control c)"
proof -
  have a: "guar kinv (set_gains_ctl kp kd)" for kp kd
    unfolding set_gains_ctl_def seqs.simps by (intro kinv.g_rules kinv_rules quiet_rules kinv_mod) (simp_all add: inv_simps)
  have b: "guar kinv (cancel_update c)"
    unfolding cancel_update_def by (intro kinv.g_rules kinv_rules quiet_rules)
  show ?thesis
    unfolding on_control_def seqs.simps by (intro kinv.g_rules a b kinv_rules quiet_rules kinv_mod) (simp add: inv_simps)
qed

lemma kinv_handle: "guar kinv (handle e)"
proof (cases e)
  case (EJog q)
  show ?thesis unfolding EJog handle.simps by (intro kinv.g_rules kinv_rules)
next
  case (ESent i q t)
  show ?thesis unfolding ESent handle.simps streamed_command_sent_def by (rule kinv_mod) (simp add: inv_simps)
next
  case (EWindow i t b)
  show ?thesis unfolding EWindow handle.simps select_reference_window_def by (intro kinv.g_rules kinv_mod) (simp add: inv_simps)
next
  case (EBindSource b)
  show ?thesis unfolding EBindSource handle.simps bind_reference_source_def by (intro kinv.g_rules kinv_mod) (simp add: inv_simps)
next
  case (EDeadline h m)
  show ?thesis unfolding EDeadline handle.simps set_stream_hold_deadline_def by (intro kinv.g_rules kinv_mod) (simp add: inv_simps)
qed (auto intro: kinv_rules)

lemma reachable_inv:
  assumes "mk_ArmController w session ex a = Inr s"
  shows "ctl_inv (after_events es s)"
proof -
  have "ctl_inv s" using mk_ArmController_start [OF assms] by (simp add: inv_simps)
  then show ?thesis
  proof (induction es arbitrary: s)
    case (Cons e es)
    have "ctl_inv (after_event e s)" using guar_run [OF kinv_handle, of s e] Cons.prems by (simp add: kinv_def after_event_def)
    then show ?case using Cons.IH by simp
  qed simp
qed

subsection \<open>What the invariant gives\<close>

text \<open>
  C7: the states a controller can reach. Whatever a host calls, in any order and through any exception: a controller
  is ready only while it is armed, its plant has acknowledged the arming, and it is not stopped; a plan runs only on a
  ready controller, with a released reference, and never under the Soft pose hold; the Soft pose hold is only ever
  active on a ready controller with no plan staged.
\<close>

theorem reachable_controller_states:
  assumes "mk_ArmController w session ex a = Inr s0" and "s = after_events es s0"
  shows "(ac_ready_sent s \<longrightarrow> ac_armed s \<and> ac_bridge_armed s \<and> \<not> ac_stopped s) \<and>
     (ac_running s \<longrightarrow> ac_ready_sent s \<and> ac_plan s \<noteq> None \<and> ac_reference s \<noteq> None \<and> ac_pose_hold s = None) \<and>
     (ac_pose_hold s \<noteq> None \<longrightarrow> ac_ready_sent s \<and> ac_plan s = None)"
  using reachable_inv [OF assms(1), of es] unfolding assms(2) by (auto simp: inv_simps)

lemma accept_state_words: "motor_words (snd (accept_state arm s)) = motor_words s"
  by (simp add: accept_state_def modst_def motor_words_def Let_def)

lemma tick_words:
  assumes "motor_words (snd (tick s)) \<noteq> motor_words s"
  shows "\<not> ac_stopped s \<and> ac_armed s \<and> (ac_ready_sent s \<or> ac_bridge_armed s)"
proof (rule ccontr)
  assume no: "\<not> ?thesis"
  obtain p where p: "cf_policy (ac_cfg s) = Some p" "\<not> ac_stopped s"
    using assms by (auto simp: tick_def withst_def ret_def split: option.splits if_splits)
  obtain r u where u: "observation_error p s = (r, u)" by fastforce
  obtain v where v: "u = s\<lparr>ac_w := v\<rparr>" using guarD [OF reads_all(3) u] by (auto simp: only_reads_def)
  have pause: "motor_words (snd (pause_observation x b u)) = motor_words s" for x b
    using guar_run [OF calm_observation(2) [of "[]" "[]"], of u x b] v by (simp add: calm_def motor_words_def)
  have quiet: "stream (u\<lparr>ac_observation_paused := False\<rparr>) = (Inr (), u\<lparr>ac_observation_paused := False\<rparr>)"
    by (rule stream_silent) (use no p(2) v in auto)
  have "motor_words (snd (tick s)) = motor_words s"
    using p u pause quiet v
    by (auto simp: tick_def withst_def bindst_def modst_def motor_words_def split: sum.splits option.splits)
  with assms show False by simp
qed

lemma take_state_words:
  assumes "motor_words (snd (take_state pr arm s)) \<noteq> motor_words s"
  shows "ac_armed s \<and> (ac_ready_sent s \<or> ac_bridge_armed s)"
proof (rule ccontr)
  assume no: "\<not> ?thesis"
  let ?G = "\<lambda>s t. motor_words t = motor_words s \<and> ac_cfg t = ac_cfg s"
  have G: "guarantee ?G" by unfold_locales auto
  have cG: "guar (calm [] []) m \<Longrightarrow> guar ?G m" for m :: "'a ctl" by (erule guar_mono) (simp add: calm_def)
  have acc: "guar ?G (accept_state arm)"
    by (simp add: guar_def accept_state_words) (simp add: accept_state_def modst_def Let_def)
  have beat: "guar ?G (bindst (withst (\<lambda>s. whenst (heartbeat_due s arm) (report_mode True None True))) (\<lambda>_. ret ()))"
    by (intro guarantee.g_rules [OF G] cG calm_rules)
  show False
  proof (cases "cf_policy (ac_cfg s)")
    case None
    obtain t where t: "accept_state arm s = (Inr (), t)" "t = snd (accept_state arm s)" by (simp add: accept_state_def modst_def)
    have "\<not> (ac_armed t \<and> (ac_ready_sent t \<or> ac_bridge_armed t))" "ac_cfg t = ac_cfg s"
      using no unfolding t(2) by (auto simp: accept_state_def modst_def Let_def)
    then have "snd (take_state pr arm s) = snd (bindst (withst (\<lambda>s. whenst (heartbeat_due s arm) (report_mode True None True))) (\<lambda>_. ret ()) t)"
      using None t(1) stream_silent [of t]
      by (simp add: take_state_def screen_state_def bindst_def [of "screen_state pr arm"] bindst_def [of "accept_state arm"]
          bindst_def [of "withst (\<lambda>s. whenst (cf_policy (ac_cfg s) = None) stream)"] withst_def ret_def whenst_def)
    moreover have "motor_words t = motor_words s" using accept_state_words t(2) by simp
    ultimately show False using assms guar_run [OF beat, of t] by simp
  next
    case (Some p)
    have str: "guar (\<lambda>s t. cf_policy (ac_cfg s) \<noteq> None \<longrightarrow> ?G s t) (withst (\<lambda>s. whenst (cf_policy (ac_cfg s) = None) stream))"
      by (auto simp: guar_def withst_def whenst_def ret_def)
    let ?H = "\<lambda>s t :: ArmController. cf_policy (ac_cfg s) \<noteq> None \<longrightarrow> ?G s t"
    have H: "guarantee ?H" by unfold_locales auto
    have "guar ?H (take_state pr arm)"
      unfolding take_state_def seqs.simps
      by (intro guarantee.g_rules [OF H] str guar_mono [OF acc] guar_mono [OF cG [OF calm_inputs(8)]] guar_mono [OF cG [OF calm_report_mode]]) auto
    from guar_run [OF this, of s] show False using assms Some by simp
  qed
qed

lemma on_motor_state_words:
  assumes "motor_words (snd (on_motor_state v s)) \<noteq> motor_words s"
  shows "\<not> ac_stopped s \<and> ac_armed s \<and> (ac_ready_sent s \<or> ac_bridge_armed s)"
proof -
  obtain pr arm t where t: "\<not> ac_stopped s" "snd (on_motor_state v s) = snd (take_state pr arm t)" "motor_words t = motor_words s"
      "ac_armed t = ac_armed s" "ac_ready_sent t = ac_ready_sent s" "ac_bridge_armed t = ac_bridge_armed s"
    using assms
    by (auto simp: on_motor_state_def withst_def bindst_def modst_def lift_def ret_def read_clock_def motor_words_def split: if_splits sum.splits option.splits)
  then show ?thesis using take_state_words [of pr arm t] assms by simp
qed

text \<open>
  C9: a motor command needs authority. Whatever has happened before, the event that makes the controller send a motor
  command finds it not stopped, armed, and with its arming acknowledged by the plant (or with a plant that reports no
  health at all).
\<close>

theorem motor_word_needs_authority:
  assumes "mk_ArmController w session ex a = Inr s0" and "s = after_events es s0" and "motor_words (after_event e s) \<noteq> motor_words s"
  shows "\<not> ac_stopped s \<and> ac_armed s \<and> ac_bridge_armed s"
proof -
  have inv: "ctl_inv s" using reachable_inv [OF assms(1)] assms(2) by simp
  consider "e = ETick" | v where "e = EState v" | "e \<noteq> ETick" "\<And>v. e \<noteq> EState v" by blast
  then have "\<not> ac_stopped s \<and> ac_armed s \<and> (ac_ready_sent s \<or> ac_bridge_armed s)"
  proof cases
    case 1
    then show ?thesis using tick_words assms(3) by (simp add: after_event_def)
  next
    case 2
    then show ?thesis using on_motor_state_words assms(3) by (simp add: after_event_def)
  next
    case 3
    then show ?thesis using guar_run [OF harmless_events [OF 3], of "[]" "[]" s] assms(3) by (simp add: after_event_def harmless_def)
  qed
  with inv show ?thesis by (auto simp: inv_simps)
qed

lemma event_stopped:
  assumes "ac_stopped s"
  shows "ac_stopped (after_event e s) \<and> motor_words (after_event e s) = motor_words s"
proof -
  consider "e = ETick" | v where "e = EState v" | "e \<noteq> ETick" "\<And>v. e \<noteq> EState v" by blast
  then show ?thesis
  proof cases
    case 1
    then show ?thesis using assms tick_words [of s] guar_run [OF going_tick, of s] by (auto simp: after_event_def going_def)
  next
    case (2 v)
    then show ?thesis using assms on_motor_state_words [of v s] guar_run [OF going_on_motor_state, of s v] by (auto simp: after_event_def going_def)
  next
    case 3
    then show ?thesis using guar_run [OF harmless_events [OF 3], of "[]" "[]" s] assms by (simp add: after_event_def harmless_def)
  qed
qed

text \<open>
  A stop is final. Once a controller has stopped, no sequence of events (re-arming included) brings it back: it
  stays stopped, never becomes ready, runs no plan, and no further motor command is sent.
\<close>

theorem stop_is_final:
  assumes "mk_ArmController w session ex a = Inr s0" and "ac_stopped (after_events es s0)"
  shows "let t = after_events (es @ later) s0 in
     ac_stopped t \<and> \<not> ac_ready_sent t \<and> \<not> ac_running t \<and> motor_words t = motor_words (after_events es s0)"
proof -
  have "ac_stopped (after_events fs s) \<and> motor_words (after_events fs s) = motor_words s" if "ac_stopped s" for fs s
    using that
  proof (induction fs arbitrary: s)
    case (Cons f fs)
    then show ?case using event_stopped [OF Cons.prems, of f] by simp
  qed simp
  from this [OF assms(2), of later] reachable_inv [OF assms(1), of "es @ later"] show ?thesis
    by (auto simp: Let_def after_events_def inv_simps)
qed

end
