(* ===== verification/Control_Demo.thy ===== *)
theory Control_Demo
  imports Control_Authority
begin

text \<open>
  Runs of one controller, evaluated: a joint with a constant gravity load, armed, streaming, executing a gated plan,
  frozen and stopped, with and without an execution policy. They are the inputs at which the controller's theorems
  are applied, and they show behaviours the comments of \<^verbatim>\<open>arm_controller.py\<close> do not describe.
\<close>

subsection \<open>Instances\<close>

definition demo_executor :: JointTrajectoryExecutor where
  "demo_executor = \<lparr>ex_joints = [''j1''], ex_dyn = demo_dynamics, ex_rigid = demo_dynamics, ex_kp = [100], ex_kd = [10], ex_max_tau = [3],
      ex_payload_frame = ''ee'', ex_payload_mass = 0, ex_payload_com = None, ex_gravity_comp = False,
      ex_done_pos_tol = 1, ex_done_vel_tol = 1, ex_done_pose_tol = None\<rparr>"

definition demo_world :: world where
  "demo_world = \<lparr>w_clock = (\<lambda>n. Fin 0), w_reads = 0, w_ref_clock = None, w_ref_reads = 0, w_source = (\<lambda>_. Inl TypeError), w_source_reads = 0\<rparr>"

definition demo_args :: "ExecutionPolicy option \<Rightarrow> ctl_args" where
  "demo_args p = \<lparr>ca_state_period_s = None, ca_plant_reports_health = False, ca_jog_timeout_s = 1, ca_policy = p, ca_settle_timeout_s = 5,
     ca_settle_dwell_s = 1, ca_model_token = None, ca_pose_provenance = ''unbound'', ca_reference_source = False, ca_integral = None\<rparr>"

definition no_update :: control where
  "no_update = \<lparr>ct_arm = None, ct_payload = None, ct_execute = None, ct_gains = None, ct_pose_hold = None, ct_cancel = False,
     ct_cancel_plan_id = None, ct_hold = False, ct_stop = None, ct_reason = []\<rparr>"

definition demo_arm :: event where
  "demo_arm = EControl (no_update\<lparr>ct_arm := Some True\<rparr>)"

definition demo_controller :: "ExecutionPolicy option \<Rightarrow> ArmController" where
  "demo_controller p = projr (mk_ArmController demo_world ''s'' demo_executor (demo_args p))"

definition demo_sample :: vec where
  "demo_sample = replicate 8 0"

definition demo_body :: plan_body where
  "demo_body = \<lparr>pb_plan_id = ''p'', pb_phase = ''reach'', pb_gated = True, pb_times = [0, 1], pb_positions = [[0], [1]], pb_velocities = [[0], [0]],
     pb_kp = [100], pb_kd = [10], pb_completion = None, pb_model_token = None, pb_cartesian_poses = None, pb_cartesian = None\<rparr>"

definition demo_execute :: event where
  "demo_execute = EControl (no_update\<lparr>ct_execute := Some ''p''\<rparr>)"

definition demo_hold :: event where
  "demo_hold = EControl (no_update\<lparr>ct_hold := True\<rparr>)"

definition demo_stop :: event where
  "demo_stop = EControl (no_update\<lparr>ct_stop := Some ''operator''\<rparr>)"

subsection \<open>Evaluation\<close>

lemma demo_frame:
  "unpack_motor_state demo_sample (Suc 0) =
     Inr \<lparr>ms_position = [0], ms_velocity = [0], ms_position_cmd = [0], ms_velocity_cmd = [0], ms_torque_cmd = [0], ms_kp = [0], ms_kd = [0], ms_torque = [0]\<rparr>"
  by (simp add: demo_sample_def unpack_motor_state_def check_length_def MS_def column_def Let_def numeral_eq_Suc)

lemmas ctl_eval = bindst_def run_simps send_output_def send_event_def read_clock_def read_source_def reference_clock_def exec_time_def
  on_settling_def on_integral_def on_executor_def Let_def after_event_def

lemmas build_eval = demo_controller_def mk_ArmController_def demo_executor_def demo_args_def demo_world_def n_joints_def mk_LegSettling_def
  mk_IntegralState_def validate_integral_vector_def zeros_def mk_JogHold_def policy_ramp_def mk_JogRamp_def

lemmas update_eval = demo_arm_def demo_execute_def demo_hold_def demo_stop_def no_update_def on_control_def set_arm_def arm_rest_def

lemmas stream_eval = on_motor_state_def take_state_def screen_state_def accept_state_def demo_frame stream_def announce_ready_def
  gap_exceeded_def settle_before_sample_def stream_idle_def jog_target_def ramp_jog_def anchored_hold_def send_def emit_command_def
  heartbeat_due_def report_mode_def

lemmas part_eval = is_update_def cycle_dt_def bias_joint_def scaled_ki_def np_clip_def hold_command_def demo_dynamics_def clamp_tau_def payload_tau_def
  pack_motor_command_def assign_col_def interleave_def pack_controller_event_def event_args_def EVENT_KINDS_def np_map2_def bcast2_def
  jh_target_def jh_take_expired_def controller_velocity_def opt_check_def runtime_of_def runtime_state_body_def current_plan_id_def
  mode_law_def mode_state_body_def

lemma demo_built:
  "mk_ArmController demo_world ''s'' demo_executor (demo_args None) = Inr (demo_controller None)"
  "mk_ArmController demo_world ''s'' demo_executor (demo_args (Some demo_policy)) = Inr (demo_controller (Some demo_policy))"
  by (simp_all add: build_eval demo_policy_def)

text \<open>The first sample after arming makes the controller ready and hold the measured pose.\<close>

lemma demo_streams:
  "motor_words (after_event demo_arm (demo_controller None)) = []"
  "motor_words (after_events [demo_arm, EState demo_sample] (demo_controller None)) = [[0, 0, 3, 100, 10]]"
  by (simp_all add: build_eval update_eval stream_eval part_eval ctl_eval motor_words_def cong: option.case_cong)


lemmas plan_eval = on_plan_def unpack_plan_def checked_cartesian_def mat_cols_def rectangular_def demo_body_def plan_refusal_def gain_error_def
  stage_plan_def mk_JointTrajectory_def diffs_def same_shape_def set_gains_def stage_ack_def release_def start_leg_def
  mk_TrajectoryReference_def duration_sec_def ls_begin_def jh_clear_def

lemma demo_runs:
  "ac_running (after_events [demo_arm, EState demo_sample, EPlan demo_body, demo_execute] (demo_controller None))"
  by (simp add: build_eval update_eval stream_eval plan_eval part_eval ctl_eval cong: option.case_cong)

lemma demo_stops:
  "ac_stopped (after_events [demo_arm, EState demo_sample, demo_stop] (demo_controller None))"
  by (simp add: build_eval update_eval stream_eval stop_def disarm_reset_def reset_integral_def is_reset_def part_eval ctl_eval cong: option.case_cong)

text \<open>Under the policy the same arm streams on the deadline tick.\<close>

lemmas policy_eval = tick_def observation_error_def static_hold_def relatch_tolerance_def admit_command_def command_valid_def when_limits_def orr_def
  tracking_error_exceeded_def np_any1_def np_sub_def widen_def where_been_def envelope_def col_fold_def rectangular_def vabs_def vscale_def
  ENVELOPE_TOL_def demo_policy_def

lemma demo_streams_policy:
  "motor_words (after_events [demo_arm, EState demo_sample, ETick] (demo_controller (Some demo_policy))) = [[0, 0, 3, 100, 10]]"
  by (simp add: build_eval update_eval stream_eval policy_eval part_eval ctl_eval motor_words_def cong: option.case_cong)

subsection \<open>The theorems, applied to these runs\<close>

theorem every_motor_word_admitted_witness:
  "\<exists>word. motor_words (after_events [demo_arm, EState demo_sample, ETick] (demo_controller (Some demo_policy))) = [word] \<and>
     (\<exists>d. unpack_motor_command word 1 = Inr d \<and> command_in demo_policy [- 9] [9] (mc_position d) (mc_velocity d) (mc_torque d) (mc_kp d) (mc_kd d))"
proof -
  let ?es = "[demo_arm, EState demo_sample, ETick]"
  have box: "box_around demo_policy [- 9] [9]"
    by (simp add: box_around_def demo_policy_def in_band_def zeros_def)
  have ev: "\<forall>e \<in> set ?es. event_in [- 9] [9] e"
    using demo_frame by (simp add: event_in_def reports_in_def demo_arm_def in_band_def)
  have "\<forall>word \<in> set (motor_words (after_events ?es (demo_controller (Some demo_policy)))). \<exists>d. unpack_motor_command word (n_joints demo_executor) = Inr d \<and>
      command_in demo_policy [- 9] [9] (mc_position d) (mc_velocity d) (mc_torque d) (mc_kp d) (mc_kd d)"
    by (rule every_motor_word_admitted [OF demo_policy_built demo_built(2) _ box ev]) (simp add: demo_args_def)
  then show ?thesis using demo_streams_policy by (simp add: n_joints_def demo_executor_def)
qed

theorem plan_runs_by_name_witness:
  "let es = [demo_arm, EState demo_sample, EPlan demo_body, demo_execute]; s = after_events es (demo_controller None) in
     ac_running s \<and> (\<exists>leg es1 b es2. ac_plan s = Some leg \<and> es = es1 @ EPlan b # es2 \<and> unpack_plan b = Inr leg)"
proof -
  let ?es = "[demo_arm, EState demo_sample, EPlan demo_body, demo_execute]"
  obtain leg where "ac_plan (after_events ?es (demo_controller None)) = Some leg"
    using reachable_inv [OF demo_built(1), of ?es] demo_runs by (auto simp: inv_simps)
  then show ?thesis using plan_runs_by_name [OF demo_built(1), of ?es] demo_runs unfolding Let_def by blast
qed

theorem reachable_controller_states_witness:
  "let s = after_events [demo_arm, EState demo_sample, EPlan demo_body, demo_execute] (demo_controller None) in
     ac_running s \<and> ac_ready_sent s \<and> ac_armed s \<and> \<not> ac_stopped s \<and> ac_reference s \<noteq> None"
  using reachable_controller_states [OF demo_built(1) refl, of "[demo_arm, EState demo_sample, EPlan demo_body, demo_execute]"] demo_runs
  unfolding Let_def by blast

theorem motor_word_needs_authority_witness:
  "motor_words (after_event (EState demo_sample) (after_event demo_arm (demo_controller None))) \<noteq> [] \<and>
   ac_armed (after_event demo_arm (demo_controller None))"
proof -
  let ?s = "after_event demo_arm (demo_controller None)"
  have "motor_words (after_event (EState demo_sample) ?s) \<noteq> motor_words ?s" using demo_streams by simp
  from motor_word_needs_authority [OF demo_built(1) _ this, of "[demo_arm]"] show ?thesis using demo_streams by simp
qed

theorem stop_is_final_witness:
  "let t = after_events ([demo_arm, EState demo_sample, demo_stop] @ [demo_arm, EState demo_sample]) (demo_controller None) in
     ac_stopped t \<and> \<not> ac_ready_sent t \<and> \<not> ac_running t"
  using stop_is_final [OF demo_built(1) demo_stops, of "[demo_arm, EState demo_sample]"] by (simp add: Let_def)

subsection \<open>Behaviours the comments do not describe\<close>

text \<open>
  \<^verbatim>\<open>hold\<close> ends a running leg but keeps a staged one, and \<^verbatim>\<open>_release\<close> does not look at \<^verbatim>\<open>frozen\<close>: a frozen controller
  still starts a plan that was staged before the hold.
\<close>

lemma frozen_controller_releases:
  "ac_frozen (after_events [demo_arm, EState demo_sample, EPlan demo_body, demo_hold, demo_execute] (demo_controller None)) \<and>
   ac_running (after_events [demo_arm, EState demo_sample, EPlan demo_body, demo_hold, demo_execute] (demo_controller None))"
  by (simp add: build_eval update_eval stream_eval plan_eval part_eval ctl_eval cong: option.case_cong)

text \<open>
  A refused jog is told that a hold or a disarm clears the freeze; neither does, only \<^verbatim>\<open>cancel\<close>.
\<close>

lemma frozen_survives_disarm:
  assumes "ac_frozen s"
  shows "ac_frozen (snd (set_arm b s)) \<and> ac_frozen (snd (on_control (no_update\<lparr>ct_hold := True\<rparr>) s))"
  using assms
  by (auto simp: set_arm_def arm_rest_def disarm_reset_def reset_integral_def finish_leg_def on_control_def no_update_def ctl_eval
      split: option.split sum.split)

text \<open>
  A plan whose gains are consistent with each other but not with the arm passes \<^verbatim>\<open>gain_error\<close> and makes the handler
  raise: without a policy nothing reports it back.
\<close>

lemma wrong_joint_count_raises:
  "let s = after_events [demo_arm, EState demo_sample] (demo_controller None);
       (r, t) = on_plan (demo_body\<lparr>pb_kp := [1, 1], pb_kd := [1, 1]\<rparr>) s in
     r = Inl (ValueError ''kp shape != expected'') \<and> ac_sent t = ac_sent s"
  by (simp add: build_eval update_eval stream_eval plan_eval part_eval ctl_eval cong: option.case_cong)

text \<open>
  A frame that cannot be unpacked raises, but its arrival has already been stamped: the pose before it counts as fresh.
\<close>

lemma malformed_frame_refreshes:
  assumes "\<not> ac_stopped s" and "unpack_motor_state v (cf_n_arm (ac_cfg s)) = Inl e"
  shows "\<exists>t. on_motor_state v s = (Inl e, t) \<and> ac_last_state t = ac_last_state s \<and> ac_last_state_at t = Some (w_clock (ac_w s) (w_reads (ac_w s)))"
  using assms by (simp add: on_motor_state_def ctl_eval split: option.split)

end
