(* ===== verification/Handlers.thy ===== *)
theory Handlers
  imports Actions
begin

text \<open>
  Actions that catch exceptions and loop over lists, for the components that go on after a call has failed.
\<close>

text \<open>\<^verbatim>\<open>try ... except Exception\<close>, and \<^verbatim>\<open>except ValueError\<close> alone.\<close>

definition try_any :: "('s, 'a) action \<Rightarrow> (err \<Rightarrow> ('s, 'a) action) \<Rightarrow> ('s, 'a) action" where
  "try_any m handler s = (case m s of (Inl e, t) \<Rightarrow> handler e t | (Inr a, t) \<Rightarrow> (Inr a, t))"

fun is_value_error :: "err \<Rightarrow> bool" where
  "is_value_error (ValueError _) = True"
| "is_value_error _ = False"

definition try_value :: "('s, 'a) action \<Rightarrow> (err \<Rightarrow> ('s, 'a) action) \<Rightarrow> ('s, 'a) action" where
  "try_value m handler s = (case m s of (Inl e, t) \<Rightarrow> if is_value_error e then handler e t else (Inl e, t) | (Inr a, t) \<Rightarrow> (Inr a, t))"

text \<open>\<^verbatim>\<open>str(exc)\<close>.\<close>

fun err_text :: "err \<Rightarrow> string" where
  "err_text (ValueError m) = m"
| "err_text (IllegalTransition m) = m"
| "err_text (RuntimeError m) = m"
| "err_text (TimeoutError m) = m"
| "err_text (OSError m) = m"
| "err_text (SupervisorError m) = m"
| "err_text (Refused m) = m"
| "err_text (NeedsOperator m) = m"
| "err_text (SafetyStop _ m) = m"
| "err_text _ = []"

primrec mapst :: "('a \<Rightarrow> ('s, 'b) action) \<Rightarrow> 'a list \<Rightarrow> ('s, 'b list) action" where
  "mapst f [] = ret []"
| "mapst f (x # xs) = bindst (f x) (\<lambda>y. bindst (mapst f xs) (\<lambda>ys. ret (y # ys)))"

lemma bindst_ret_unit: "bindst m (\<lambda>_. ret ()) = (m :: ('s, unit) action)"
  by (rule ext) (auto simp: bindst_def ret_def split: prod.split sum.split)

context guarantee
begin

lemma g_try_any: "guar G m \<Longrightarrow> (\<And>e. guar G (h e)) \<Longrightarrow> guar G (try_any m h)"
  by (auto simp: guar_def try_any_def split: prod.split sum.split) (metis chain snd_conv)+

lemma g_try_value: "guar G m \<Longrightarrow> (\<And>e. guar G (h e)) \<Longrightarrow> guar G (try_value m h)"
  by (auto simp: guar_def try_value_def split: prod.split sum.split) (metis chain snd_conv)+

lemma g_mapst: "(\<And>x. guar G (f x)) \<Longrightarrow> guar G (mapst f xs)"
  by (induction xs) (simp_all add: g_ret g_bindst)

lemmas g_handlers = g_rules g_try_any g_try_value g_mapst

end

lemma triple_try_any: "triple P m Q E \<Longrightarrow> (\<And>e. triple E (h e) Q F) \<Longrightarrow> triple P (try_any m h) Q F"
  by (fastforce simp: triple_def try_any_def split: prod.splits sum.splits)

lemma triple_try_value: "triple P m Q E \<Longrightarrow> (\<And>e. triple E (h e) Q F) \<Longrightarrow> (\<And>s. E s \<Longrightarrow> F s) \<Longrightarrow> triple P (try_value m h) Q F"
  by (fastforce simp: triple_def try_value_def split: prod.splits sum.splits if_splits)

lemma triple_seqs: "(\<And>m. m \<in> set ms \<Longrightarrow> triple I m (\<lambda>_. I) E) \<Longrightarrow> triple I (seqs ms) (\<lambda>_. I) E"
  by (induction ms) (auto intro: triple_ret triple_bindst)

lemma triple_mapst: "(\<And>x. triple I (f x) (\<lambda>_. I) E) \<Longrightarrow> triple I (mapst f xs) (\<lambda>_. I) E"
  by (induction xs) (auto intro!: triple_ret intro: triple_bindst)

lemma triple_if: "(b \<Longrightarrow> triple P m Q E) \<Longrightarrow> (\<not> b \<Longrightarrow> triple P n Q E) \<Longrightarrow> triple P (if b then m else n) Q E"
  by simp

end
