(* ===== verification/Pair.thy ===== *)
theory Pair
  imports Handlers Plan_Wire "HOL-Library.List_Lexorder" "HOL-Library.Char_ord"
begin

text \<open>
  \<^verbatim>\<open>arm_control/multi_arm/coordinator.py\<close>, with the values of \<^verbatim>\<open>types.py\<close> and the spreads of
  \<^verbatim>\<open>synchronization.py\<close>: the staging barrier of two controllers.

  The arm handles, the clock, the admission hook, the release context and the listeners are other parties. What
  each of them answers at the coordinator's \<open>n\<close>-th question is a field of \<open>pair_world\<close>; a handle may deliver member
  events while it is being called. \<open>pc_io\<close> is the conversation, oldest first: every call the coordinator makes to
  a handle and every member event it is handed.
\<close>

subsection \<open>Values\<close>

datatype PairLifecycle = IDLE | STAGING | READY | EXECUTING | COMPLETE | PAIR_CANCELLED | PAIR_FAULTED | PAIR_REJECTED

definition lc_terminal :: "PairLifecycle \<Rightarrow> bool" where
  "lc_terminal l \<longleftrightarrow> l \<in> {COMPLETE, PAIR_CANCELLED, PAIR_FAULTED, PAIR_REJECTED}"

definition lc_active :: "PairLifecycle \<Rightarrow> bool" where
  "lc_active l \<longleftrightarrow> l \<in> {STAGING, READY, EXECUTING}"

record ArmControlState =
  acs_arm_id :: string
  acs_position :: "vec option"
  acs_velocity :: "vec option"
  acs_armed :: "bool option"
  acs_ready :: "bool option"
  acs_executing :: "bool option"
  acs_running_plan_id :: "string option"
  acs_mode_law :: "string option"
  acs_stopped :: "bool option"
  acs_frozen :: "bool option"
  acs_fault_reason :: "string option"
  acs_session_id :: "string option"
  acs_model_token :: "string option"
  acs_observed_at :: "fl option"
  acs_state_age_sec :: "fl option"

definition mk_ArmControlState :: "ArmControlState \<Rightarrow> ArmControlState result" where
  "mk_ArmControlState s =
     bindr (ensure (acs_arm_id s \<noteq> []) (ValueError ''ArmControlState.arm_id must be a non-empty string'')) (\<lambda>_.
     bindr (ensure (case acs_position s of None \<Rightarrow> True | Some v \<Rightarrow> all_finite v) (ValueError ''ArmControlState.position must be finite or None'')) (\<lambda>_.
     bindr (ensure (case acs_velocity s of None \<Rightarrow> True | Some v \<Rightarrow> all_finite v) (ValueError ''ArmControlState.velocity must be finite or None'')) (\<lambda>_.
     bindr (ensure (case (acs_position s, acs_velocity s) of (Some p, Some v) \<Rightarrow> length p = length v | _ \<Rightarrow> True)
             (ValueError ''ArmControlState position and velocity must agree when both are known'')) (\<lambda>_. Inr s))))"

definition with_observation :: "ArmControlState \<Rightarrow> fl \<Rightarrow> ArmControlState" where
  "with_observation s now = s\<lparr>acs_state_age_sec := map_option (\<lambda>t. py_max 0 (now - t)) (acs_observed_at s)\<rparr>"

record ArmPlan =
  ap_arm_id :: string
  ap_plan_id :: string
  ap_payload :: plan_body
  ap_gated :: bool

definition mk_ArmPlan :: "ArmPlan \<Rightarrow> ArmPlan result" where
  "mk_ArmPlan p =
     bindr (ensure (ap_arm_id p \<noteq> []) (ValueError ''ArmPlan.arm_id must be a non-empty string'')) (\<lambda>_.
     bindr (ensure (ap_plan_id p \<noteq> []) (ValueError ''ArmPlan.plan_id must be a non-empty string'')) (\<lambda>_.
     bindr (ensure (ap_gated p) (ValueError ''ArmPlan must be gated'')) (\<lambda>_. Inr p)))"

record BimanualPlan =
  bp_pair_id :: string
  bp_left :: ArmPlan
  bp_right :: ArmPlan

definition mk_BimanualPlan :: "string \<Rightarrow> ArmPlan \<Rightarrow> ArmPlan \<Rightarrow> BimanualPlan result" where
  "mk_BimanualPlan pair_id left right =
     bindr (ensure (pair_id \<noteq> []) (ValueError ''BimanualPlan.pair_id must be a non-empty string'')) (\<lambda>_.
     bindr (ensure (ap_arm_id left \<noteq> ap_arm_id right) (ValueError ''BimanualPlan needs two distinct member arm ids'')) (\<lambda>_.
     bindr (ensure (ap_plan_id left \<noteq> ap_plan_id right) (ValueError ''pair member plan ids must be distinct'')) (\<lambda>_.
     Inr \<lparr>bp_pair_id = pair_id, bp_left = left, bp_right = right\<rparr>)))"

text \<open>The dict \<^verbatim>\<open>members()\<close>: equal ids leave one entry, the right one.\<close>

definition members :: "BimanualPlan \<Rightarrow> (string \<times> ArmPlan) list" where
  "members p = (if ap_arm_id (bp_left p) = ap_arm_id (bp_right p) then [(ap_arm_id (bp_right p), bp_right p)]
     else [(ap_arm_id (bp_left p), bp_left p), (ap_arm_id (bp_right p), bp_right p)])"

record PairMemberState =
  pm_arm_id :: string
  pm_plan_id :: string
  pm_stage_acked :: "bool option"
  pm_stage_reason :: string
  pm_result_ok :: "bool option"
  pm_result_reason :: string
  pm_released_at :: "fl option"
  pm_cancel_confirmed :: "bool option"
  pm_cancel_error :: string

record PairState =
  ps_pair_id :: "string option"
  ps_lifecycle :: PairLifecycle
  ps_members :: "PairMemberState list"
  ps_staged_at :: "fl option"
  ps_ready_at :: "fl option"
  ps_stage_skew_sec :: "fl option"
  ps_release_skew_sec :: "fl option"
  ps_faulted_arm :: "string option"
  ps_reason :: string
  ps_completed_at :: "fl option"
  ps_cancellation_pending :: "string list"

definition no_pair :: PairState where
  "no_pair = \<lparr>ps_pair_id = None, ps_lifecycle = IDLE, ps_members = [], ps_staged_at = None, ps_ready_at = None, ps_stage_skew_sec = None,
     ps_release_skew_sec = None, ps_faulted_arm = None, ps_reason = [], ps_completed_at = None, ps_cancellation_pending = []\<rparr>"

definition ps_member :: "PairState \<Rightarrow> string \<Rightarrow> PairMemberState option" where
  "ps_member s arm_id = List.find (\<lambda>m. pm_arm_id m = arm_id) (ps_members s)"

definition ps_ok :: "PairState \<Rightarrow> bool option" where
  "ps_ok s =
     (if ps_lifecycle s = COMPLETE then Some (list_all (\<lambda>m. pm_result_ok m = Some True) (ps_members s))
      else if ps_lifecycle s \<in> {PAIR_CANCELLED, PAIR_FAULTED, PAIR_REJECTED} then Some False
      else None)"

text \<open>\<^verbatim>\<open>_spread\<close> of \<^verbatim>\<open>synchronization.py\<close>; Python's \<^verbatim>\<open>max\<close> and \<^verbatim>\<open>min\<close> over the dict's values.\<close>

definition spread :: "(string \<times> fl) list \<Rightarrow> fl option" where
  "spread ts =
     (case map snd ts of
        x # y # rest \<Rightarrow> Some (foldl py_max x (y # rest) - foldl py_min x (y # rest))
      | _ \<Rightarrow> None)"

subsection \<open>State\<close>

record pair_event =
  pe_kind :: string
  pe_plan_id :: "string option"
  pe_ok :: bool
  pe_reason :: "string option"
  pe_session :: "string option option"

text \<open>
  \<open>pe_ok\<close> is \<^verbatim>\<open>event.get("ok") is True\<close>; \<open>pe_session\<close> is \<open>None\<close> without a runtime state, otherwise the session it names.
\<close>

text \<open>
  The conversation, kept for the specification: a pair is taken on, with the session each arm reported in the state that
  was checked for it; then the calls made on the handles, and the events that arrived.
\<close>

datatype pair_io = PBegin string "(string \<times> string option) list" | PStage string string | PExecute string string | PCancel string string | PEvent string pair_event

record pair_world =
  pw_n :: nat
  pw_clock :: "nat \<Rightarrow> fl"
  pw_state :: "nat \<Rightarrow> ArmControlState result"
  pw_call :: "nat \<Rightarrow> (string \<times> pair_event) list \<times> unit result"
  pw_poll :: "nat \<Rightarrow> pair_event list result"
  pw_admit :: "nat \<Rightarrow> unit result"
  pw_hook :: "nat \<Rightarrow> unit result"
  pw_order :: "nat \<Rightarrow> bool"

record PairRun =
  pr_plan :: BimanualPlan
  pr_staged_at :: fl
  pr_sessions :: "(string \<times> string) list"
  pr_models :: "(string \<times> string option) list"
  pr_lifecycle :: PairLifecycle
  pr_stage_acks :: "(string \<times> bool \<times> string) list"
  pr_ack_times :: "(string \<times> fl) list"
  pr_results :: "(string \<times> bool \<times> string) list"
  pr_releases :: "(string \<times> fl) list"
  pr_pending_cancels :: "string set"
  pr_cancel_errors :: "string \<rightharpoonup> string"
  pr_cancellation_requested :: bool
  pr_ready_at :: "fl option"
  pr_completed_at :: "fl option"
  pr_faulted_arm :: "string option"
  pr_reason :: string

record BimanualCoordinator =
  pc_w :: pair_world
  pc_arms :: "string list"
  pc_staging_timeout_s :: fl
  pc_state_timeout_s :: fl
  pc_admission :: bool
  pc_run :: "PairRun option"
  pc_last :: "string \<rightharpoonup> PairState"
  pc_consumed_pair_ids :: "string set"
  pc_consumed_plan_ids :: "string set"
  pc_listeners :: nat
  pc_io :: "pair_io list"

type_synonym 'a pair = "(BimanualCoordinator, 'a) action"

text \<open>The registry: arm ids with the ids their handles report.\<close>

definition mk_BimanualCoordinator :: "pair_world \<Rightarrow> (string \<times> string) list \<Rightarrow> fl \<Rightarrow> fl \<Rightarrow> bool \<Rightarrow> BimanualCoordinator result" where
  "mk_BimanualCoordinator w arms staging_timeout state_timeout admission =
     bindr (ensure (length arms = 2) (ValueError ''a bimanual coordinator requires exactly two arms'')) (\<lambda>_.
     bindr (ensure (list_all (\<lambda>(a, h). a \<noteq> [] \<and> h = a) arms) (ValueError ''arm handle identity must match its registry key'')) (\<lambda>_.
     bindr (ensure (list_all (\<lambda>v. isfinite v \<and> v > 0) [staging_timeout, state_timeout]) (ValueError ''pair timeouts must be finite and positive'')) (\<lambda>_.
     Inr \<lparr>pc_w = w, pc_arms = map fst arms, pc_staging_timeout_s = staging_timeout, pc_state_timeout_s = state_timeout, pc_admission = admission,
          pc_run = None, pc_last = (\<lambda>_. None), pc_consumed_pair_ids = {}, pc_consumed_plan_ids = {}, pc_listeners = 0, pc_io = []\<rparr>)))"

definition member_state :: "PairRun \<Rightarrow> string \<times> ArmPlan \<Rightarrow> PairMemberState" where
  "member_state r m =
     (let a = fst m in
      \<lparr>pm_arm_id = a, pm_plan_id = ap_plan_id (snd m),
       pm_stage_acked = map_option fst (map_of (pr_stage_acks r) a),
       pm_stage_reason = (case map_of (pr_stage_acks r) a of None \<Rightarrow> [] | Some x \<Rightarrow> snd x),
       pm_result_ok = map_option fst (map_of (pr_results r) a),
       pm_result_reason = (case map_of (pr_results r) a of None \<Rightarrow> [] | Some x \<Rightarrow> snd x),
       pm_released_at = map_of (pr_releases r) a,
       pm_cancel_confirmed = (if pr_cancellation_requested r then Some (a \<notin> pr_pending_cancels r) else None),
       pm_cancel_error = (case pr_cancel_errors r a of None \<Rightarrow> [] | Some e \<Rightarrow> e)\<rparr>)"

text \<open>\<open>pending\<close> lists the unconfirmed arms in sorted order; the arms are the members' arms.\<close>

definition run_state :: "PairRun \<Rightarrow> PairState" where
  "run_state r =
     \<lparr>ps_pair_id = Some (bp_pair_id (pr_plan r)), ps_lifecycle = pr_lifecycle r, ps_members = map (member_state r) (members (pr_plan r)),
      ps_staged_at = Some (pr_staged_at r), ps_ready_at = pr_ready_at r, ps_stage_skew_sec = spread (pr_ack_times r),
      ps_release_skew_sec = spread (pr_releases r), ps_faulted_arm = pr_faulted_arm r, ps_reason = pr_reason r, ps_completed_at = pr_completed_at r,
      ps_cancellation_pending = sort (filter (\<lambda>a. a \<in> pr_pending_cancels r) (map fst (members (pr_plan r))))\<rparr>"

definition lifecycle :: "BimanualCoordinator \<Rightarrow> PairLifecycle" where
  "lifecycle s = (case pc_run s of None \<Rightarrow> IDLE | Some r \<Rightarrow> pr_lifecycle r)"

definition active_pair_id :: "BimanualCoordinator \<Rightarrow> string option" where
  "active_pair_id s = map_option (\<lambda>r. bp_pair_id (pr_plan r)) (pc_run s)"

definition pair_state :: "BimanualCoordinator \<Rightarrow> string option \<Rightarrow> PairState result" where
  "pair_state s pair_id =
     (case pc_run s of
        Some r \<Rightarrow> if pair_id = None \<or> pair_id = active_pair_id s then Inr (run_state r)
          else (case pc_last s (the pair_id) of Some p \<Rightarrow> Inr p | None \<Rightarrow> Inl KeyError)
      | None \<Rightarrow> (case pair_id of None \<Rightarrow> Inr no_pair | Some i \<Rightarrow> (case pc_last s i of Some p \<Rightarrow> Inr p | None \<Rightarrow> Inl KeyError)))"

subsection \<open>Asking the other parties\<close>

definition ask :: "(pair_world \<Rightarrow> nat \<Rightarrow> 'a) \<Rightarrow> 'a pair" where
  "ask f s = (Inr (f (pc_w s) (pw_n (pc_w s))), s\<lparr>pc_w := (pc_w s)\<lparr>pw_n := Suc (pw_n (pc_w s))\<rparr>\<rparr>)"

definition now_pair :: "fl pair" where
  "now_pair = ask pw_clock"

definition ask_result :: "(pair_world \<Rightarrow> nat \<Rightarrow> 'a result) \<Rightarrow> 'a pair" where
  "ask_result f = bindst (ask f) lift"

definition log_io :: "pair_io \<Rightarrow> unit pair" where
  "log_io io = modst (\<lambda>s. s\<lparr>pc_io := pc_io s @ [io]\<rparr>)"

definition mod_run :: "(PairRun \<Rightarrow> PairRun) \<Rightarrow> unit pair" where
  "mod_run f = modst (\<lambda>s. s\<lparr>pc_run := map_option f (pc_run s)\<rparr>)"

text \<open>A call on a handle: it is noted, the events it delivers meanwhile are handled, and it returns or raises.\<close>

definition call :: "((string \<times> pair_event) list \<Rightarrow> unit pair) \<Rightarrow> pair_io \<Rightarrow> unit pair" where
  "call deliver io = bindst (log_io io) (\<lambda>_. bindst (ask pw_call) (\<lambda>(evs, r). bindst (deliver evs) (\<lambda>_. lift r)))"

subsection \<open>Reading the arms\<close>

definition observe_arm :: "string \<Rightarrow> (string \<times> ArmControlState) pair" where
  "observe_arm a = bindst (ask_result pw_state) (\<lambda>st. bindst now_pair (\<lambda>now. ret (a, with_observation st now)))"

definition arm_states :: "(string \<times> ArmControlState) list pair" where
  "arm_states = withst (\<lambda>s. mapst observe_arm (pc_arms s))"

definition finite_opt :: "fl option \<Rightarrow> bool" where
  "finite_opt x = (case x of None \<Rightarrow> False | Some v \<Rightarrow> isfinite v)"

definition check_arm :: "fl \<Rightarrow> fl \<Rightarrow> string \<times> ArmControlState \<Rightarrow> unit result" where
  "check_arm now timeout x =
     (let s = snd x in
      bindr (ensure (acs_session_id s \<noteq> None \<and> acs_session_id s \<noteq> Some []) (ValueError ''controller session unknown'')) (\<lambda>_.
      bindr (ensure (finite_opt (acs_observed_at s) \<and> \<not> the (acs_observed_at s) > now \<and>
               finite_opt (acs_state_age_sec s) \<and> \<not> the (acs_state_age_sec s) > timeout) (ValueError ''measured state missing or stale'')) (\<lambda>_.
      bindr (ensure (acs_position s \<noteq> None \<and> acs_velocity s \<noteq> None) (ValueError ''measured position/velocity unknown'')) (\<lambda>_.
      bindr (ensure (acs_armed s = Some True \<and> acs_ready s = Some True) (ValueError ''not armed and ready'')) (\<lambda>_.
      bindr (ensure (acs_executing s \<noteq> None \<and> acs_stopped s \<noteq> None \<and> acs_frozen s \<noteq> None) (ValueError ''controller execution state unknown'')) (\<lambda>_.
      ensure (acs_stopped s = Some False \<and> acs_frozen s = Some False \<and> (acs_fault_reason s = None \<or> acs_fault_reason s = Some []) \<and>
          acs_mode_law s = Some ''joint'') (ValueError ''controller faulted, frozen or outside joint mode'')))))))"

definition checked_states :: "(string \<times> ArmControlState) list pair" where
  "checked_states =
     bindst arm_states (\<lambda>raw. bindst now_pair (\<lambda>now. withst (\<lambda>s.
       let sts = map (\<lambda>(a, x). (a, with_observation x now)) raw in
       bindst (lift (mapr (check_arm now (pc_state_timeout_s s)) sts)) (\<lambda>_. ret sts))))"

definition validate_member :: "ArmPlan \<Rightarrow> ArmControlState \<Rightarrow> unit result" where
  "validate_member m st =
     bindr (unpack_plan (ap_payload m)) (\<lambda>body.
     bindr (ensure (lg_plan_id body = ap_plan_id m \<and> lg_gated body) (ValueError ''member identity/gated payload mismatch'')) (\<lambda>_.
     bindr (ensure (lg_model_token body = acs_model_token st) (ValueError ''plan model token changed'')) (\<lambda>_.
     let q = pl_positions body; dq = pl_velocities body; ts = pl_times body in
     bindr (case acs_position st of None \<Rightarrow> Inl TypeError | Some p \<Rightarrow> Inr (length p)) (\<lambda>n.
     bindr (ensure (length ts \<ge> 2 \<and> ts ! 0 = 0 \<and> list_all (\<lambda>d. d > 0) (diffs ts) \<and>
               list_all all_finite q \<and> list_all all_finite dq \<and> all_finite ts \<and> same_shape q dq \<and> length q = length ts \<and> rectangular q n)
             (ValueError ''malformed trajectory'')) (\<lambda>_.
     bindr (mk_JointTrajectory ts q (Some dq)) (\<lambda>_. Inr ()))))))"

subsection \<open>Ending a pair\<close>

definition finish_pair :: "unit pair" where
  "finish_pair = withst (\<lambda>s. case pc_run s of
       None \<Rightarrow> lift (Inl AttributeError)
     | Some r \<Rightarrow> seqs (modst (\<lambda>s. s\<lparr>pc_last := (pc_last s)(bp_pair_id (pr_plan r) \<mapsto> run_state r)\<rparr>) # replicate (pc_listeners s) (ask_result pw_hook)))"

text \<open>The order in which \<^verbatim>\<open>tuple\<close> of a set lists its elements is not specified.\<close>

definition pending_order :: "BimanualCoordinator \<Rightarrow> bool \<Rightarrow> string list" where
  "pending_order s fwd =
     (case pc_run s of None \<Rightarrow> [] | Some r \<Rightarrow> filter (\<lambda>a. a \<in> pr_pending_cancels r) (if fwd then pc_arms s else rev (pc_arms s)))"

definition send_cancel :: "((string \<times> pair_event) list \<Rightarrow> unit pair) \<Rightarrow> string \<Rightarrow> unit pair" where
  "send_cancel deliver a = withst (\<lambda>s. case pc_run s of
       None \<Rightarrow> lift (Inl AttributeError)
     | Some r \<Rightarrow>
         try_any
           (case map_of (members (pr_plan r)) a of
              None \<Rightarrow> lift (Inl KeyError)
            | Some p \<Rightarrow> seqs [call deliver (PCancel a (ap_plan_id p)), mod_run (\<lambda>r. r\<lparr>pr_cancel_errors := (pr_cancel_errors r)(a := None)\<rparr>)])
           (\<lambda>e. mod_run (\<lambda>r. r\<lparr>pr_cancel_errors := (pr_cancel_errors r)(a \<mapsto> err_text e)\<rparr>)))"

definition send_cancels :: "((string \<times> pair_event) list \<Rightarrow> unit pair) \<Rightarrow> unit pair" where
  "send_cancels deliver = bindst (ask pw_order) (\<lambda>fwd. withst (\<lambda>s. seqs (map (send_cancel deliver) (pending_order s fwd))))"

definition abort :: "((string \<times> pair_event) list \<Rightarrow> unit pair) \<Rightarrow> PairLifecycle \<Rightarrow> string \<Rightarrow> string option \<Rightarrow> unit pair" where
  "abort deliver l reason arm = withst (\<lambda>s. if \<not> lc_active (lifecycle s) then ret () else seqs
     [mod_run (\<lambda>r. r\<lparr>pr_lifecycle := l, pr_reason := reason, pr_faulted_arm := arm\<rparr>),
      bindst now_pair (\<lambda>t. mod_run (\<lambda>r. r\<lparr>pr_completed_at := Some t\<rparr>)),
      mod_run (\<lambda>r. r\<lparr>pr_cancellation_requested := True, pr_pending_cancels := pr_pending_cancels r \<union> set (pc_arms s)\<rparr>),
      send_cancels deliver,
      finish_pair])"

subsection \<open>Member events\<close>

definition event_cleared :: "string \<Rightarrow> pair_event \<Rightarrow> unit pair" where
  "event_cleared arm ev = mod_run (\<lambda>r.
     if pe_ok ev then r\<lparr>pr_pending_cancels := pr_pending_cancels r - {arm}, pr_cancel_errors := (pr_cancel_errors r)(arm := None)\<rparr>
     else r\<lparr>pr_cancel_errors := (pr_cancel_errors r)(arm \<mapsto> (case pe_reason ev of None \<Rightarrow> ''clear refused'' | Some x \<Rightarrow> x))\<rparr>)"

definition or_empty :: "string option \<Rightarrow> string" where
  "or_empty x = (case x of None \<Rightarrow> [] | Some v \<Rightarrow> v)"

definition event_staged :: "((string \<times> pair_event) list \<Rightarrow> unit pair) \<Rightarrow> string \<Rightarrow> pair_event \<Rightarrow> unit pair" where
  "event_staged deliver arm ev = seqs
     [mod_run (\<lambda>r. r\<lparr>pr_stage_acks := dict_put arm (pe_ok ev, or_empty (pe_reason ev)) (pr_stage_acks r)\<rparr>),
      bindst now_pair (\<lambda>t. mod_run (\<lambda>r. r\<lparr>pr_ack_times := dict_put arm t (pr_ack_times r)\<rparr>)),
      if \<not> pe_ok ev then abort deliver PAIR_REJECTED (arm @ '': '' @ (case pe_reason ev of None \<Rightarrow> ''None'' | Some x \<Rightarrow> x)) (Some arm)
      else withst (\<lambda>s. whenst (case pc_run s of None \<Rightarrow> False | Some r \<Rightarrow> length (pr_stage_acks r) = 2) (seqs
        [mod_run (\<lambda>r. r\<lparr>pr_lifecycle := READY\<rparr>), bindst now_pair (\<lambda>t. mod_run (\<lambda>r. r\<lparr>pr_ready_at := Some t\<rparr>))]))]"

definition event_result :: "((string \<times> pair_event) list \<Rightarrow> unit pair) \<Rightarrow> string \<Rightarrow> pair_event \<Rightarrow> PairRun \<Rightarrow> unit pair" where
  "event_result deliver arm ev run =
     (if lc_active (pr_lifecycle run) \<and> \<not> pe_ok ev then seqs
        [mod_run (\<lambda>r. r\<lparr>pr_results := dict_put arm (False, or_empty (pe_reason ev)) (pr_results r)\<rparr>),
         abort deliver PAIR_FAULTED (case pe_reason ev of None \<Rightarrow> ''member failed'' | Some x \<Rightarrow> x) (Some arm)]
      else whenst (pr_lifecycle run = EXECUTING \<and> arm \<notin> fst ` set (pr_results run)) (seqs
        [mod_run (\<lambda>r. r\<lparr>pr_results := dict_put arm (True, or_empty (pe_reason ev)) (pr_results r)\<rparr>),
         withst (\<lambda>s. whenst (case pc_run s of None \<Rightarrow> False | Some r \<Rightarrow> length (pr_results r) = 2) (seqs
           [mod_run (\<lambda>r. r\<lparr>pr_lifecycle := COMPLETE\<rparr>), bindst now_pair (\<lambda>t. mod_run (\<lambda>r. r\<lparr>pr_completed_at := Some t\<rparr>)), finish_pair]))]))"

definition remember :: "unit pair" where
  "remember = modst (\<lambda>s. case pc_run s of None \<Rightarrow> s | Some r \<Rightarrow> s\<lparr>pc_last := (pc_last s)(bp_pair_id (pr_plan r) \<mapsto> run_state r)\<rparr>)"

text \<open>The rest of the method, once the event is known to be about this run's session.\<close>

definition bound_event :: "((string \<times> pair_event) list \<Rightarrow> unit pair) \<Rightarrow> string \<Rightarrow> pair_event \<Rightarrow> PairRun \<Rightarrow> unit pair" where
  "bound_event deliver arm ev run =
     (if pe_kind ev = ''fault'' then abort deliver PAIR_FAULTED (case pe_reason ev of None \<Rightarrow> ''member fault'' | Some x \<Rightarrow> x) (Some arm)
      else case map_of (members (pr_plan run)) arm of
        None \<Rightarrow> lift (Inl KeyError)
      | Some p \<Rightarrow>
          if pe_plan_id ev \<noteq> Some (ap_plan_id p) then ret ()
          else if pe_kind ev = ''plan_cleared'' \<and> pr_cancellation_requested run then seqs [event_cleared arm ev, remember]
          else if pe_kind ev = ''plan_staged'' \<and> pr_lifecycle run = STAGING then
            (if arm \<in> fst ` set (pr_stage_acks run) then ret () else seqs [event_staged deliver arm ev, remember])
          else if pe_kind ev = ''leg_result'' then seqs [event_result deliver arm ev run, remember]
          else remember)"

definition member_step :: "((string \<times> pair_event) list \<Rightarrow> unit pair) \<Rightarrow> string \<Rightarrow> pair_event \<Rightarrow> unit pair" where
  "member_step deliver arm ev = bindst (log_io (PEvent arm ev)) (\<lambda>_. withst (\<lambda>s.
     if arm \<notin> set (pc_arms s) then lift (Inl KeyError)
     else case pc_run s of
       None \<Rightarrow> ret ()
     | Some run \<Rightarrow>
         if pe_kind ev \<in> {''plan_staged'', ''plan_cleared''} \<and> pe_session ev = None then ret ()
         else case map_of (pr_sessions run) arm of
           None \<Rightarrow> if pe_session ev = None then bound_event deliver arm ev run else lift (Inl KeyError)
         | Some session \<Rightarrow>
             if pe_session ev \<noteq> None \<and> pe_session ev \<noteq> Some (Some session) then
               whenst (lc_active (pr_lifecycle run)) (abort deliver PAIR_FAULTED (arm @ '': controller restarted'') (Some arm))
             else bound_event deliver arm ev run))"

text \<open>
  The number bounds how deep events may be delivered inside calls inside events. A depth of one loses nothing: see
  \<open>member_event_depth\<close>.
\<close>

primrec member_event :: "nat \<Rightarrow> string \<Rightarrow> pair_event \<Rightarrow> unit pair" where
  "member_event 0 = member_step (\<lambda>_. ret ())"
| "member_event (Suc n) = member_step (\<lambda>evs. seqs (map (\<lambda>(a, e). member_event n a e) evs))"

definition deliver_events :: "nat \<Rightarrow> (string \<times> pair_event) list \<Rightarrow> unit pair" where
  "deliver_events n evs = seqs (map (\<lambda>(a, e). member_event n a e) evs)"

definition on_member_event :: "string \<Rightarrow> pair_event \<Rightarrow> unit pair" where
  "on_member_event = member_event 1"

definition abort_pair :: "PairLifecycle \<Rightarrow> string \<Rightarrow> string option \<Rightarrow> unit pair" where
  "abort_pair = abort (deliver_events 0)"

subsection \<open>The interface\<close>

definition require_run :: "string \<Rightarrow> PairRun pair" where
  "require_run pair_id = withst (\<lambda>s. case pc_run s of
       None \<Rightarrow> lift (Inl (ValueError ''no active pair''))
     | Some r \<Rightarrow> if bp_pair_id (pr_plan r) \<noteq> pair_id then lift (Inl (ValueError ''no active pair'')) else ret r)"

definition check_run :: "unit pair" where
  "check_run = bindst checked_states (\<lambda>sts. withst (\<lambda>s. lift (bindr (mapr (\<lambda>(a, st).
     case pc_run s of None \<Rightarrow> Inl AttributeError
     | Some r \<Rightarrow>
         if acs_session_id st \<noteq> map_of (pr_sessions r) a then Inl (ValueError ''controller restarted'')
         else if Some (acs_model_token st) \<noteq> map_of (pr_models r) a then Inl (ValueError ''model changed'') else Inr ()) sts) (\<lambda>_. Inr ()))))"

definition check_timeouts :: "unit pair" where
  "check_timeouts = withst (\<lambda>s. if \<not> lc_active (lifecycle s) then ret () else
     bindst (try_value (bindst check_run (\<lambda>_. ret True)) (\<lambda>e. bindst (abort_pair PAIR_FAULTED (err_text e) None) (\<lambda>_. ret False))) (\<lambda>go.
     whenst go (withst (\<lambda>s. case pc_run s of
         None \<Rightarrow> ret ()
       | Some r \<Rightarrow> whenst (pr_lifecycle r = STAGING) (bindst now_pair (\<lambda>t.
           whenst (t - pr_staged_at r > pc_staging_timeout_s s) (abort_pair PAIR_REJECTED ''staging ACK timeout'' None)))))))"

definition poll :: "string \<Rightarrow> unit pair" where
  "poll a = bindst (ask_result pw_poll) (\<lambda>evs. seqs (map (on_member_event a) evs))"

definition pump :: "unit pair" where
  "pump = withst (\<lambda>s. seqs (map poll (pc_arms s) @ [check_timeouts]))"

definition cancel_pair :: "string \<Rightarrow> unit pair" where
  "cancel_pair reason = withst (\<lambda>s. case pc_run s of
       None \<Rightarrow> ret ()
     | Some r \<Rightarrow>
         if lc_active (pr_lifecycle r) then abort_pair PAIR_CANCELLED reason None
         else whenst (pr_pending_cancels r \<noteq> {}) (send_cancels (deliver_events 0)))"

primrec stage_members :: "(string \<times> ArmPlan) list \<Rightarrow> unit pair" where
  "stage_members [] = ret ()"
| "stage_members (m # ms) =
     bindst (try_any (bindst (call (deliver_events 1) (PStage (fst m) (ap_plan_id (snd m)))) (\<lambda>_. ret True))
              (\<lambda>e. bindst (abort_pair PAIR_REJECTED (fst m @ '': staging failed: '' @ err_text e) (Some (fst m))) (\<lambda>_. ret False))) (\<lambda>ok.
     withst (\<lambda>s. whenst (ok \<and> lc_active (lifecycle s)) (stage_members ms)))"

definition free_member :: "(string \<times> ArmControlState) list \<Rightarrow> string \<times> ArmPlan \<Rightarrow> unit result" where
  "free_member sts m =
     (case map_of sts (fst m) of
        None \<Rightarrow> Inl KeyError
      | Some st \<Rightarrow>
          bindr (ensure (acs_executing st \<noteq> Some True \<and> (acs_running_plan_id st = None \<or> acs_running_plan_id st = Some []))
                  (ValueError ''another plan owns the controller'')) (\<lambda>_. validate_member (snd m) st))"

definition new_run :: "BimanualPlan \<Rightarrow> fl \<Rightarrow> (string \<times> ArmControlState) list \<Rightarrow> PairRun" where
  "new_run plan now sts =
     \<lparr>pr_plan = plan, pr_staged_at = now, pr_sessions = map (\<lambda>(a, st). (a, the (acs_session_id st))) sts,
      pr_models = map (\<lambda>(a, st). (a, acs_model_token st)) sts, pr_lifecycle = STAGING, pr_stage_acks = [], pr_ack_times = [], pr_results = [],
      pr_releases = [], pr_pending_cancels = {}, pr_cancel_errors = (\<lambda>_. None), pr_cancellation_requested = False, pr_ready_at = None,
      pr_completed_at = None, pr_faulted_arm = None, pr_reason = []\<rparr>"

definition stage_pair :: "BimanualPlan \<Rightarrow> unit pair" where
  "stage_pair plan = withst (\<lambda>s.
     if (case pc_run s of None \<Rightarrow> False | Some r \<Rightarrow> lc_active (pr_lifecycle r) \<or> pr_pending_cancels r \<noteq> {})
     then lift (Inl (ValueError ''previous pair is active or cancellation is unconfirmed''))
     else if fst ` set (members plan) \<noteq> set (pc_arms s) then lift (Inl (ValueError ''pair members differ from coordinated arms''))
     else if bp_pair_id plan \<in> pc_consumed_pair_ids s then lift (Inl (ValueError ''pair id already consumed''))
     else if list_ex (\<lambda>m. ap_plan_id (snd m) \<in> pc_consumed_plan_ids s) (members plan) then lift (Inl (ValueError ''member plan id already consumed''))
     else bindst checked_states (\<lambda>sts.
       bindst (lift (mapr (free_member sts) (members plan))) (\<lambda>_.
       bindst (whenst (pc_admission s) (ask_result pw_admit)) (\<lambda>_.
       bindst (modst (\<lambda>s. s\<lparr>pc_consumed_pair_ids := insert (bp_pair_id plan) (pc_consumed_pair_ids s),
         pc_consumed_plan_ids := (\<lambda>m. ap_plan_id (snd m)) ` set (members plan) \<union> pc_consumed_plan_ids s\<rparr>)) (\<lambda>_.
       bindst now_pair (\<lambda>now.
       bindst (modst (\<lambda>s. s\<lparr>pc_run := Some (new_run plan now sts), pc_io := pc_io s @ [PBegin (bp_pair_id plan) (map (\<lambda>(a, st). (a, acs_session_id st)) sts)]\<rparr>)) (\<lambda>_.
       stage_members (members plan))))))))"

definition loaded_member :: "(string \<times> ArmControlState) list \<Rightarrow> string \<times> ArmPlan \<Rightarrow> unit result" where
  "loaded_member sts m =
     (case map_of sts (fst m) of
        None \<Rightarrow> Inl KeyError
      | Some st \<Rightarrow>
          bindr (ensure (acs_running_plan_id st = Some (ap_plan_id (snd m)) \<and> acs_executing st \<noteq> Some True)
                  (ValueError ''staged plan is no longer loaded'')) (\<lambda>_. validate_member (snd m) st))"

definition recheck :: "PairRun \<Rightarrow> unit pair" where
  "recheck run = bindst check_run (\<lambda>_. bindst checked_states (\<lambda>sts.
     bindst (lift (mapr (loaded_member sts) (members (pr_plan run)))) (\<lambda>_.
     withst (\<lambda>s. whenst (pc_admission s) (ask_result pw_admit)))))"

definition release_member :: "string \<times> ArmPlan \<Rightarrow> unit pair" where
  "release_member m = seqs
     [call (deliver_events 1) (PExecute (fst m) (ap_plan_id (snd m))),
      bindst now_pair (\<lambda>t. mod_run (\<lambda>r. r\<lparr>pr_releases := dict_put (fst m) t (pr_releases r)\<rparr>)),
      poll (fst m)]"

text \<open>The loop of releases: the arm it reached and the exception that ended it, if one did.\<close>

primrec release_members :: "string option \<Rightarrow> (string \<times> ArmPlan) list \<Rightarrow> (string option \<times> err option) pair" where
  "release_members arm [] = ret (arm, None)"
| "release_members arm (m # ms) =
     bindst (try_any (bindst (release_member m) (\<lambda>_. ret None)) (\<lambda>e. ret (Some e))) (\<lambda>x.
     case x of
       Some e \<Rightarrow> ret (Some (fst m), Some e)
     | None \<Rightarrow> withst (\<lambda>s. if lifecycle s = EXECUTING then release_members (Some (fst m)) ms else ret (Some (fst m), None)))"

definition release_pair :: "PairRun \<Rightarrow> unit pair" where
  "release_pair run =
     bindst (try_any (bindst (ask_result pw_hook) (\<lambda>_. ret None)) (\<lambda>e. ret (Some e))) (\<lambda>entered.
     bindst (case entered of
         Some e \<Rightarrow> ret (None, Some e)
       | None \<Rightarrow> bindst (release_members None (members (pr_plan run))) (\<lambda>(arm, x).
           bindst (try_any (bindst (ask_result pw_hook) (\<lambda>_. ret x)) (\<lambda>e. ret (Some e))) (\<lambda>y. ret (arm, y)))) (\<lambda>(arm, y).
     case y of
       None \<Rightarrow> ret ()
     | Some e \<Rightarrow> abort_pair PAIR_FAULTED ((case arm of None \<Rightarrow> ''None'' | Some a \<Rightarrow> a) @ '': release failed: '' @ err_text e) arm))"

definition execute_pair :: "string \<Rightarrow> unit pair" where
  "execute_pair pair_id = bindst (require_run pair_id) (\<lambda>run.
     if pr_lifecycle run = EXECUTING then ret ()
     else if pr_lifecycle run \<noteq> READY then lift (Inl (ValueError ''not ready''))
     else bindst (try_any (bindst (recheck run) (\<lambda>_. ret True)) (\<lambda>e. bindst (abort_pair PAIR_REJECTED (err_text e) None) (\<lambda>_. ret False))) (\<lambda>go.
       whenst go (seqs [mod_run (\<lambda>r. r\<lparr>pr_lifecycle := EXECUTING\<rparr>), release_pair run])))"

definition on_pair_result :: "unit pair" where
  "on_pair_result = modst (\<lambda>s. s\<lparr>pc_listeners := Suc (pc_listeners s)\<rparr>)"

record BimanualState =
  bs_left :: ArmControlState
  bs_right :: ArmControlState
  bs_pair :: PairState

definition mk_BimanualState :: "ArmControlState \<Rightarrow> ArmControlState \<Rightarrow> PairState \<Rightarrow> BimanualState result" where
  "mk_BimanualState left right pair =
     bindr (ensure (acs_arm_id left \<noteq> acs_arm_id right) (ValueError ''BimanualState needs two distinct arm ids'')) (\<lambda>_.
     Inr \<lparr>bs_left = left, bs_right = right, bs_pair = pair\<rparr>)"

definition bs_ready :: "BimanualState \<Rightarrow> bool" where
  "bs_ready s \<longleftrightarrow> acs_ready (bs_left s) = Some True \<and> acs_ready (bs_right s) = Some True"

definition coordinator_state :: "BimanualState pair" where
  "coordinator_state = bindst arm_states (\<lambda>values. bindst (lift (py_get (map snd values) 0)) (\<lambda>left.
     bindst (lift (py_get (map snd values) 1)) (\<lambda>right.
     withst (\<lambda>s. bindst (lift (pair_state s None)) (\<lambda>p. lift (mk_BimanualState left right p))))))"

subsection \<open>What a host may call\<close>

datatype pair_op = OStage string ArmPlan ArmPlan | OExecute string | OCancel string | OEvent string pair_event | OTimeouts | OPump | OListen

fun pair_call :: "pair_op \<Rightarrow> unit pair" where
  "pair_call (OStage i l r) = bindst (lift (bindr (mk_ArmPlan l) (\<lambda>l. bindr (mk_ArmPlan r) (\<lambda>r. mk_BimanualPlan i l r)))) stage_pair"
| "pair_call (OExecute i) = execute_pair i"
| "pair_call (OCancel reason) = cancel_pair reason"
| "pair_call (OEvent a e) = on_member_event a e"
| "pair_call OTimeouts = check_timeouts"
| "pair_call OPump = pump"
| "pair_call OListen = on_pair_result"

definition pair_after :: "pair_op list \<Rightarrow> BimanualCoordinator \<Rightarrow> BimanualCoordinator" where
  "pair_after ops s = fold (\<lambda>op s. snd (pair_call op s)) ops s"

end
