(* ===== verification/Pair_Depth.thy ===== *)
theory Pair_Depth
  imports Pair
begin

text \<open>
  Events that reach the coordinator while it is calling a handle: how deep they can nest, and what an abort does.
\<close>

subsection \<open>Nested delivery\<close>

lemma lifecycle_same [simp]:
  "lifecycle (s\<lparr>pc_w := w\<rparr>) = lifecycle s" "lifecycle (s\<lparr>pc_io := io\<rparr>) = lifecycle s" "lifecycle (s\<lparr>pc_last := l\<rparr>) = lifecycle s"
  by (simp_all add: lifecycle_def)

lemma abort_inactive: "\<not> lc_active (lifecycle s) \<Longrightarrow> abort d l r a s = (Inr (), s)"
  by (simp add: abort_def run_simps)

text \<open>An event about a pair that is over calls no handle, and leaves it over.\<close>

definition over :: "BimanualCoordinator \<Rightarrow> bool" where
  "over s \<longleftrightarrow> \<not> lc_active (lifecycle s)"

lemma over_run: "over s \<Longrightarrow> pc_run s = Some r \<Longrightarrow> \<not> lc_active (pr_lifecycle r) \<and> pr_lifecycle r \<noteq> STAGING \<and> pr_lifecycle r \<noteq> EXECUTING"
  by (auto simp: over_def lifecycle_def lc_active_def)

lemma bound_event_over:
  assumes "over s" "pc_run s = Some run"
  shows "bound_event d arm ev run s = bound_event d' arm ev run s \<and> over (snd (bound_event d arm ev run s))"
  using over_run [OF assms] assms
  by (auto simp: bound_event_def event_result_def abort_inactive over_def run_simps bindst_def event_cleared_def mod_run_def remember_def
      lifecycle_def split: option.split)

lemma member_step_over:
  assumes "over s"
  shows "member_step d arm ev s = member_step d' arm ev s \<and> over (snd (member_step d arm ev s))"
proof -
  let ?t = "s\<lparr>pc_io := pc_io s @ [PEvent arm ev]\<rparr>"
  have o: "over ?t" using assms by (simp add: over_def)
  show ?thesis
    using bound_event_over [OF o] o over_run [OF o]
    by (auto simp: member_step_def log_io_def run_simps bindst_def split: option.split)
qed

lemma member_event_over: "over s \<Longrightarrow> member_event n arm ev s = member_event m arm ev s \<and> over (snd (member_event n arm ev s))"
  by (cases n; cases m) (use member_step_over in auto)


lemma deliver_over: "over s \<Longrightarrow> deliver_events n evs s = deliver_events m evs s \<and> over (snd (deliver_events n evs s))"
proof (induction evs arbitrary: s)
  case Nil
  then show ?case by (simp add: deliver_events_def ret_def)
next
  case (Cons x evs)
  obtain a e where x: "x = (a, e)" by (cases x)
  obtain r t where t: "member_event n a e s = (r, t)" by fastforce
  have "member_event m a e s = (r, t)" "over t" using member_event_over [OF Cons.prems, of n a e m] t by auto
  then show ?case using Cons.IH [of t] t by (cases r) (auto simp: deliver_events_def x bindst_def)
qed

lemma over_mods [simp]:
  "over (s\<lparr>pc_w := w\<rparr>) = over s" "over (s\<lparr>pc_io := io\<rparr>) = over s" "over (s\<lparr>pc_last := l\<rparr>) = over s"
  by (simp_all add: over_def)

lemma over_mod_run: "over s \<Longrightarrow> (\<And>r. pr_lifecycle (f r) = pr_lifecycle r) \<Longrightarrow> over (s\<lparr>pc_run := map_option f (pc_run s)\<rparr>)"
  by (auto simp: over_def lifecycle_def split: option.splits)

lemma call_over: "over s \<Longrightarrow> call (deliver_events n) io s = call (deliver_events m) io s \<and> over (snd (call (deliver_events n) io s))"
proof -
  assume o: "over s"
  let ?s1 = "s\<lparr>pc_io := pc_io s @ [io], pc_w := (pc_w s)\<lparr>pw_n := Suc (pw_n (pc_w s))\<rparr>\<rparr>"
  obtain evs r where er: "pw_call (pc_w s) (pw_n (pc_w s)) = (evs, r)" by fastforce
  obtain x t where t: "deliver_events n evs ?s1 = (x, t)" by fastforce
  have "deliver_events m evs ?s1 = (x, t)" "over t" using deliver_over [of ?s1 n evs m] o t by auto
  then show ?thesis using er t by (cases x) (simp_all add: call_def log_io_def ask_def run_simps bindst_def)
qed

lemma send_cancel_over:
  assumes "over s"
  shows "send_cancel (deliver_events n) a s = send_cancel (deliver_events m) a s \<and> over (snd (send_cancel (deliver_events n) a s))"
proof (cases "pc_run s")
  case None
  then show ?thesis using assms by (simp add: send_cancel_def run_simps)
next
  case (Some r)
  show ?thesis
  proof (cases "map_of (members (pr_plan r)) a")
    case None
    then show ?thesis using Some over_mod_run [OF assms] by (simp add: send_cancel_def run_simps try_any_def mod_run_def)
  next
    case (Some p)
    obtain x t where t: "call (deliver_events n) (PCancel a (ap_plan_id p)) s = (x, t)" by fastforce
    have "call (deliver_events m) (PCancel a (ap_plan_id p)) s = (x, t)" "over t" using call_over [OF assms, of n "PCancel a (ap_plan_id p)" m] t by auto
    then show ?thesis using t Some \<open>pc_run s = Some r\<close> over_mod_run [of t]
      by (cases x) (simp_all add: send_cancel_def run_simps try_any_def mod_run_def bindst_def)
  qed
qed

lemma seqs_over:
  assumes "\<And>s x. over s \<Longrightarrow> f x s = g x s \<and> over (snd (f x s))" and "over s"
  shows "seqs (map f xs) s = seqs (map g xs) s \<and> over (snd (seqs (map f xs) s))"
  using assms(2)
proof (induction xs arbitrary: s)
  case (Cons x xs)
  obtain r t where t: "f x s = (r, t)" by fastforce
  then have "g x s = (r, t)" "over t" using assms(1) [OF Cons.prems, of x] by auto
  then show ?case using Cons.IH [of t] t by (cases r) (auto simp: bindst_def)
qed (simp add: ret_def)

lemma send_cancels_over:
  assumes "over s"
  shows "send_cancels (deliver_events n) s = send_cancels (deliver_events m) s \<and> over (snd (send_cancels (deliver_events n) s))"
proof -
  let ?s1 = "s\<lparr>pc_w := (pc_w s)\<lparr>pw_n := Suc (pw_n (pc_w s))\<rparr>\<rparr>"
  have o: "over ?s1" using assms by simp
  have "over s \<Longrightarrow> send_cancel (deliver_events n) x s = send_cancel (deliver_events m) x s \<and> over (snd (send_cancel (deliver_events n) x s))" for x s
    by (rule send_cancel_over)
  from seqs_over [of "send_cancel (deliver_events n)" "send_cancel (deliver_events m)", OF this o,
      of "pending_order ?s1 (pw_order (pc_w s) (pw_n (pc_w s)))"] show ?thesis
    by (auto simp: send_cancels_def ask_def run_simps bindst_def)
qed

text \<open>The state in which an aborted pair starts to cancel.\<close>

definition aborted_at :: "PairLifecycle \<Rightarrow> string \<Rightarrow> string option \<Rightarrow> BimanualCoordinator \<Rightarrow> BimanualCoordinator" where
  "aborted_at l reason arm s = s\<lparr>pc_w := (pc_w s)\<lparr>pw_n := Suc (pw_n (pc_w s))\<rparr>,
     pc_run := map_option (\<lambda>r. r\<lparr>pr_lifecycle := l, pr_reason := reason, pr_faulted_arm := arm,
       pr_completed_at := Some (pw_clock (pc_w s) (pw_n (pc_w s))), pr_cancellation_requested := True,
       pr_pending_cancels := pr_pending_cancels r \<union> set (pc_arms s)\<rparr>) (pc_run s)\<rparr>"

lemma abort_active:
  "lc_active (lifecycle s) \<Longrightarrow> abort d l reason arm s = bindst (send_cancels d) (\<lambda>_. finish_pair) (aborted_at l reason arm s)"
  by (cases s) (simp add: abort_def aborted_at_def run_simps bindst_def mod_run_def now_pair_def ask_def option.map_comp o_def split: sum.split prod.split)

lemma aborted_over: "\<not> lc_active l \<Longrightarrow> over (aborted_at l reason arm s)"
  by (auto simp: over_def lifecycle_def aborted_at_def lc_active_def split: option.splits)

lemma abort_depth: "\<not> lc_active l \<Longrightarrow> abort (deliver_events n) l reason arm = abort (deliver_events m) l reason arm"
proof
  fix s
  assume "\<not> lc_active l"
  then show "abort (deliver_events n) l reason arm s = abort (deliver_events m) l reason arm s"
    using send_cancels_over [OF aborted_over, of l n reason arm s m]
    by (cases "lc_active (lifecycle s)") (simp_all add: abort_active abort_inactive bindst_def)
qed

lemma aborts_inactive: "\<not> lc_active PAIR_CANCELLED" "\<not> lc_active PAIR_FAULTED" "\<not> lc_active PAIR_REJECTED"
  by (simp_all add: lc_active_def)

text \<open>
  Deeper nesting of deliveries changes nothing: events that arrive while a pair is being cancelled make no calls.
\<close>

lemma member_event_depth: "member_event (Suc n) = member_event 1"
proof -
  have "member_event (Suc n) = member_step (deliver_events n)" for n by (simp add: deliver_events_def [abs_def])
  moreover have "member_step (deliver_events n) = member_step (deliver_events 0)"
  proof -
    note depth = abort_depth [OF aborts_inactive(2), of n _ _ 0] abort_depth [OF aborts_inactive(3), of n _ _ 0]
    have b: "bound_event (deliver_events n) arm ev run = bound_event (deliver_events 0) arm ev run" for arm ev run
      unfolding bound_event_def event_staged_def event_result_def depth ..
    show ?thesis unfolding member_step_def [abs_def] depth b ..
  qed
  ultimately show ?thesis unfolding One_nat_def by metis
qed

end
