(* ===== verification/Pair_Safety.thy ===== *)
theory Pair_Safety
  imports Pair_Depth
begin

text \<open>
  What the coordinator keeps, whatever its arms answer, in whatever order events arrive, and whatever a host calls.
\<close>

subsection \<open>What the parts of the coordinator inherit\<close>

text \<open>
  A relation between the state before and the state after that asking another party, handling a member event, aborting
  and cancelling keep, when the events delivered meanwhile keep it: every operation but staging and releasing keeps it.
\<close>

locale pair_guarantee = guarantee G for G :: "BimanualCoordinator \<Rightarrow> BimanualCoordinator \<Rightarrow> bool" +
  assumes tick: "G s (s\<lparr>pc_w := (pc_w s)\<lparr>pw_n := Suc (pw_n (pc_w s))\<rparr>\<rparr>)"
    and aborts: "(\<And>evs. guar G (d evs)) \<Longrightarrow> l \<in> {PAIR_CANCELLED, PAIR_FAULTED, PAIR_REJECTED} \<Longrightarrow> guar G (abort d l reason arm)"
    and steps: "(\<And>evs. guar G (d evs)) \<Longrightarrow> guar G (member_step d a ev)"
    and cancels: "(\<And>evs. guar G (d evs)) \<Longrightarrow> (\<And>s r. pc_run s = Some r \<Longrightarrow> \<not> lc_active (pr_lifecycle r) \<Longrightarrow> pr_pending_cancels r \<noteq> {} \<Longrightarrow> G s (snd (send_cancels d s)))"
begin

lemma g_ask: "guar G (ask f)"
  by (simp add: guar_def ask_def tick)

lemma g_asks: "guar G (ask_result f)" "guar G now_pair"
  unfolding ask_result_def now_pair_def by (intro g_rules g_ask)+

lemma g_member_event: "guar G (member_event n arm ev)"
proof (induction n arbitrary: arm ev)
  case 0
  show ?case by (simp add: steps g_ret)
next
  case (Suc n)
  have "guar G (seqs (map (\<lambda>(a, e). member_event n a e) evs))" for evs by (rule g_seqs) (auto simp: Suc)
  then show ?case by (simp add: steps)
qed

lemma g_deliver: "guar G (deliver_events n evs)"
  unfolding deliver_events_def by (rule g_seqs) (auto simp: g_member_event)

lemma g_cancel: "guar G (cancel_pair reason)"
proof -
  have a: "guar G (abort_pair PAIR_CANCELLED reason None)" unfolding abort_pair_def by (rule aborts [OF g_deliver]) simp
  have c: "G s (snd (send_cancels (deliver_events 0) s))" if "pc_run s = Some r" "\<not> lc_active (pr_lifecycle r)" "pr_pending_cancels r \<noteq> {}" for s r
    using that by (rule cancels [OF g_deliver])
  have "G s (snd (cancel_pair reason s))" for s
    using guar_run [OF a, of s] c [of s] stays [of s] by (cases "pc_run s") (auto simp: cancel_pair_def withst_def whenst_def ret_def)
  then show ?thesis by (simp add: guar_def)
qed

lemma g_parts:
  "guar G (on_member_event a ev)" "l \<in> {PAIR_CANCELLED, PAIR_FAULTED, PAIR_REJECTED} \<Longrightarrow> guar G (abort_pair l reason arm)" "guar G (poll a)"
  "guar G checked_states" "guar G check_run" "guar G (recheck run)" "guar G check_timeouts" "guar G pump" "guar G (require_run i)"
proof -
  show e: "guar G (on_member_event a ev)" for a ev unfolding on_member_event_def by (rule g_member_event)
  show ab: "l \<in> {PAIR_CANCELLED, PAIR_FAULTED, PAIR_REJECTED} \<Longrightarrow> guar G (abort_pair l reason arm)" for l reason arm
    unfolding abort_pair_def by (rule aborts [OF g_deliver])
  show p: "guar G (poll a)" for a unfolding poll_def by (intro g_handlers g_asks) (auto intro: e)
  show cs: "guar G checked_states" unfolding checked_states_def Let_def arm_states_def observe_arm_def by (intro g_handlers g_asks)
  show cr: "guar G check_run" unfolding check_run_def by (intro g_handlers cs)
  show "guar G (recheck run)" unfolding recheck_def by (intro g_handlers cr cs g_asks)
  show ct: "guar G check_timeouts" unfolding check_timeouts_def by (intro g_handlers cr g_asks ab) simp_all
  show "guar G pump" unfolding pump_def by (intro g_handlers) (auto intro: p ct)
  show "guar G (require_run i)" unfolding require_run_def by (intro g_handlers)
qed

lemma g_call: "(\<And>s. G s (s\<lparr>pc_io := pc_io s @ [io]\<rparr>)) \<Longrightarrow> guar G (call (deliver_events n) io)"
  unfolding call_def log_io_def by (intro g_rules g_modst g_ask g_deliver)

end

subsection \<open>What one step may change\<close>

definition lc_aborted :: "PairLifecycle \<Rightarrow> bool" where
  "lc_aborted l \<longleftrightarrow> l \<in> {PAIR_CANCELLED, PAIR_FAULTED, PAIR_REJECTED}"

definition cancels_logged :: "pair_io list \<Rightarrow> BimanualPlan \<Rightarrow> bool" where
  "cancels_logged io plan \<longleftrightarrow> (\<forall>(a, p) \<in> set (members plan). PCancel a (ap_plan_id p) \<in> set io)"

fun no_motion :: "pair_io \<Rightarrow> bool" where
  "no_motion (PEvent _ _) = True"
| "no_motion (PCancel _ _) = True"
| "no_motion _ = False"

definition members_in :: "BimanualPlan \<Rightarrow> string list \<Rightarrow> bool" where
  "members_in plan arms \<longleftrightarrow> fst ` set (members plan) \<subseteq> set arms"

text \<open>
  Nothing is staged or executed, the pair stays the same pair, and if it comes to be aborted, both cancels have been
  attempted.
\<close>

definition quiet :: "BimanualCoordinator \<Rightarrow> BimanualCoordinator \<Rightarrow> bool" where
  "quiet s t \<longleftrightarrow> (\<exists>new. pc_io t = pc_io s @ new \<and> list_all no_motion new) \<and> pc_arms t = pc_arms s \<and>
     pc_consumed_pair_ids t = pc_consumed_pair_ids s \<and> pc_consumed_plan_ids t = pc_consumed_plan_ids s \<and>
     (case pc_run s of
        None \<Rightarrow> pc_run t = None
      | Some r \<Rightarrow> \<exists>r'. pc_run t = Some r' \<and> pr_plan r' = pr_plan r \<and> pr_sessions r' = pr_sessions r \<and>
          (lc_aborted (pr_lifecycle r') \<longrightarrow> members_in (pr_plan r) (pc_arms s) \<longrightarrow>
             lc_aborted (pr_lifecycle r) \<or> cancels_logged (pc_io t) (pr_plan r)))"

lemma cancels_logged_mono: "cancels_logged io plan \<Longrightarrow> set io \<subseteq> set io' \<Longrightarrow> cancels_logged io' plan"
  by (auto simp: cancels_logged_def)

interpretation quiet: guarantee quiet
proof
  fix s t u
  show "quiet s s" by (auto simp: quiet_def split: option.splits)
  assume st: "quiet s t" and tu: "quiet t u"
  have sub: "set (pc_io t) \<subseteq> set (pc_io u)" using tu by (auto simp: quiet_def)
  from st tu cancels_logged_mono [OF _ sub] show "quiet s u"
    by (cases "pc_run s"; cases "pc_run t") (auto simp: quiet_def)
qed

lemma quiet_mod: "(\<And>s. quiet s (g s)) \<Longrightarrow> guar quiet (modst g)"
  by (rule quiet.g_modst)

lemma quiet_mod_run:
  "(\<And>r. pr_plan (f r) = pr_plan r \<and> pr_sessions (f r) = pr_sessions r \<and> (lc_aborted (pr_lifecycle (f r)) \<longrightarrow> lc_aborted (pr_lifecycle r))) \<Longrightarrow>
     guar quiet (mod_run f)"
  unfolding mod_run_def by (rule quiet_mod) (auto simp: quiet_def split: option.splits)

lemma quiet_log: "no_motion io \<Longrightarrow> guar quiet (log_io io)"
  unfolding log_io_def by (rule quiet_mod) (auto simp: quiet_def split: option.splits)

lemma quiet_ask: "guar quiet (ask f)" "guar quiet (ask_result g)" "guar quiet now_pair"
proof -
  show a: "guar quiet (ask f)" for f :: "pair_world \<Rightarrow> nat \<Rightarrow> 'x" by (auto simp: guar_def ask_def quiet_def split: option.splits)
  show "guar quiet (ask_result g)" "guar quiet now_pair" unfolding ask_result_def now_pair_def by (intro quiet.g_rules a)+
qed

lemma quiet_last: "guar quiet remember" "guar quiet finish_pair"
proof -
  show "guar quiet remember" unfolding remember_def by (rule quiet_mod) (auto simp: quiet_def split: option.splits)
  have "guar quiet (modst (\<lambda>s. s\<lparr>pc_last := (pc_last s)(i \<mapsto> x)\<rparr>))" for i x
    by (rule quiet_mod) (auto simp: quiet_def split: option.splits)
  then show "guar quiet finish_pair" unfolding finish_pair_def
    by (intro quiet.g_rules) (auto intro: quiet_ask)
qed

lemma quiet_call: "no_motion io \<Longrightarrow> (\<And>evs. guar quiet (d evs)) \<Longrightarrow> guar quiet (call d io)"
  unfolding call_def by (intro quiet.g_rules quiet_log quiet_ask)

lemma quiet_send_cancel: "(\<And>evs. guar quiet (d evs)) \<Longrightarrow> guar quiet (send_cancel d a)"
  unfolding send_cancel_def by (intro quiet.g_handlers quiet_mod_run) (auto intro: quiet_call quiet_mod_run)

lemma quiet_send_cancels: "(\<And>evs. guar quiet (d evs)) \<Longrightarrow> guar quiet (send_cancels d)"
  unfolding send_cancels_def by (intro quiet.g_handlers quiet_ask) (auto intro: quiet_send_cancel)

lemma quiet_run: "quiet s t \<Longrightarrow> pc_run s = Some r \<Longrightarrow> \<exists>r'. pc_run t = Some r' \<and> pr_plan r' = pr_plan r"
  by (auto simp: quiet_def)

lemma quiet_io: "quiet s t \<Longrightarrow> set (pc_io s) \<subseteq> set (pc_io t)"
  by (auto simp: quiet_def)

subsection \<open>An abort attempts both cancels\<close>

lemma members_distinct: "distinct (map fst (members plan))"
  by (simp add: members_def)

lemma send_cancel_logs:
  assumes "\<And>evs. guar quiet (d evs)" and "pc_run s = Some r" and "send_cancel d a s = (x, t)"
  shows "x = Inr () \<and> (\<forall>p. map_of (members (pr_plan r)) a = Some p \<longrightarrow> PCancel a (ap_plan_id p) \<in> set (pc_io t))"
proof (cases "map_of (members (pr_plan r)) a")
  case None
  then show ?thesis using assms(2,3) by (auto simp: send_cancel_def run_simps try_any_def mod_run_def)
next
  case (Some p)
  obtain y u where u: "call d (PCancel a (ap_plan_id p)) s = (y, u)" by fastforce
  have "PCancel a (ap_plan_id p) \<in> set (pc_io u)"
  proof -
    obtain evs z where ez: "pw_call (pc_w s) (pw_n (pc_w s)) = (evs, z)" by fastforce
    let ?s1 = "s\<lparr>pc_io := pc_io s @ [PCancel a (ap_plan_id p)], pc_w := (pc_w s)\<lparr>pw_n := Suc (pw_n (pc_w s))\<rparr>\<rparr>"
    have "u = snd (d evs ?s1)" using u ez
      by (auto simp: call_def log_io_def ask_def run_simps bindst_def split: prod.splits sum.splits)
    then show ?thesis using quiet_io [OF guar_run [OF assms(1), of ?s1 evs]] by auto
  qed
  then show ?thesis using Some u assms(2,3)
    by (cases y) (auto simp: send_cancel_def run_simps try_any_def mod_run_def bindst_def)
qed

lemma seqs_cancel_logs:
  assumes "\<And>evs. guar quiet (d evs)" and "pc_run s = Some r" and "seqs (map (send_cancel d) xs) s = (x, t)"
  shows "x = Inr () \<and> (\<forall>a \<in> set xs. \<forall>p. map_of (members (pr_plan r)) a = Some p \<longrightarrow> PCancel a (ap_plan_id p) \<in> set (pc_io t))"
  using assms(2,3)
proof (induction xs arbitrary: s r)
  case (Cons a xs)
  obtain y u where u: "send_cancel d a s = (y, u)" by fastforce
  note l = send_cancel_logs [OF assms(1) Cons.prems(1) u]
  obtain r' where r': "pc_run u = Some r'" "pr_plan r' = pr_plan r"
    using quiet_run [OF guarD [OF quiet_send_cancel [OF assms(1)] u] Cons.prems(1)] by blast
  have t: "seqs (map (send_cancel d) xs) u = (x, t)" using Cons.prems(2) u l by (simp add: bindst_def)
  have "guar quiet (seqs (map (send_cancel d) xs))" by (rule quiet.g_seqs) (auto intro!: quiet_send_cancel assms(1))
  then have "set (pc_io u) \<subseteq> set (pc_io t)" using guar_run [where s = u] quiet_io t by fastforce
  with l Cons.IH [OF r'(1) t] r'(2) show ?case by auto
qed (auto simp: ret_def)

lemma quiet_abort:
  assumes d: "\<And>evs. guar quiet (d evs)" and l: "lc_aborted l"
  shows "guar quiet (abort d l reason arm)"
  unfolding guar_def
proof
  fix s
  show "quiet s (snd (abort d l reason arm s))"
  proof (cases "lc_active (lifecycle s)")
    case False
    then show ?thesis by (simp add: abort_inactive quiet.stays)
  next
    case True
    then obtain r where r: "pc_run s = Some r" "lc_active (pr_lifecycle r)" by (auto simp: lifecycle_def lc_active_def split: option.splits)
    let ?u = "aborted_at l reason arm s"
    obtain x t where t: "send_cancels d ?u = (x, t)" by fastforce
    obtain r1 where r1: "pc_run ?u = Some r1" "pr_plan r1 = pr_plan r" "pr_sessions r1 = pr_sessions r" "pr_pending_cancels r1 \<supseteq> set (pc_arms s)"
      using r by (auto simp: aborted_at_def)
    let ?v = "?u\<lparr>pc_w := (pc_w ?u)\<lparr>pw_n := Suc (pw_n (pc_w ?u))\<rparr>\<rparr>"
    let ?xs = "pending_order ?v (pw_order (pc_w ?u) (pw_n (pc_w ?u)))"
    have sq: "seqs (map (send_cancel d) ?xs) ?v = (x, t)"
      using t by (simp add: send_cancels_def ask_def run_simps bindst_def)
    have v: "pc_run ?v = Some r1" using r1 by simp
    have xs: "set ?xs = set (pc_arms s)" using r1 v by (auto simp: pending_order_def aborted_at_def)
    note logs = seqs_cancel_logs [OF d v sq]
    have ut: "quiet ?u t" by (rule guarD [OF quiet_send_cancels [OF d] t])
    have over_now: "quiet t (snd (finish_pair t))" by (rule guar_run [OF quiet_last(2)])
    have "quiet ?u (snd (finish_pair t))" by (rule quiet.chain [OF ut over_now])
    moreover have "cancels_logged (pc_io t) (pr_plan r)" if "members_in (pr_plan r) (pc_arms s)"
      using that logs xs r1(2) members_distinct [of "pr_plan r"]
      by (fastforce simp: cancels_logged_def members_in_def dest: map_of_is_SomeI)
    then have "cancels_logged (pc_io (snd (finish_pair t))) (pr_plan r)" if "members_in (pr_plan r) (pc_arms s)"
      using that cancels_logged_mono [OF _ quiet_io [OF over_now]] by blast
    ultimately have "quiet s (snd (finish_pair t))" using r r1 by (auto simp: quiet_def aborted_at_def)
    then show ?thesis using abort_active [OF True] t logs by (simp add: bindst_def)
  qed
qed


lemma aborts [simp]: "lc_aborted PAIR_CANCELLED" "lc_aborted PAIR_FAULTED" "lc_aborted PAIR_REJECTED"
    "\<not> lc_aborted READY" "\<not> lc_aborted EXECUTING" "\<not> lc_aborted COMPLETE" "\<not> lc_aborted STAGING" "\<not> lc_aborted IDLE"
  by (simp_all add: lc_aborted_def)

subsection \<open>Everything but staging and releasing is quiet\<close>

lemma quiet_events:
  assumes d: "\<And>evs. guar quiet (d evs)"
  shows "guar quiet (event_cleared arm ev)" "guar quiet (event_staged d arm ev)" "guar quiet (event_result d arm ev run)"
    "guar quiet (bound_event d arm ev run)" "guar quiet (member_step d arm ev)"
proof -
  note ab = quiet_abort [OF d]
  show c: "guar quiet (event_cleared arm ev)" unfolding event_cleared_def by (rule quiet_mod_run) simp
  show st: "guar quiet (event_staged d arm ev)" unfolding event_staged_def
    by (simp only: seqs.simps) (intro quiet.g_handlers quiet_mod_run quiet_ask ab, simp_all)
  show r: "guar quiet (event_result d arm ev run)" for run unfolding event_result_def
    by (simp only: seqs.simps) (intro quiet.g_handlers quiet_mod_run quiet_ask quiet_last ab, simp_all)
  show b: "guar quiet (bound_event d arm ev run)" for run unfolding bound_event_def
    by (simp only: seqs.simps) (intro quiet.g_handlers quiet_last ab c st r aborts)
  show "guar quiet (member_step d arm ev)" unfolding member_step_def
    by (intro quiet.g_handlers quiet_log ab b) simp_all
qed

interpretation quiet: pair_guarantee quiet
proof
  fix s :: BimanualCoordinator
  show "quiet s (s\<lparr>pc_w := (pc_w s)\<lparr>pw_n := Suc (pw_n (pc_w s))\<rparr>\<rparr>)" using guar_run [OF quiet_ask(1), of s pw_clock] by (simp add: ask_def)
next
  fix d :: "(string \<times> pair_event) list \<Rightarrow> unit pair" and l reason arm
  assume "\<And>evs. guar quiet (d evs)" "l \<in> {PAIR_CANCELLED, PAIR_FAULTED, PAIR_REJECTED}"
  then show "guar quiet (abort d l reason arm)" by (intro quiet_abort) (auto simp: lc_aborted_def)
next
  fix d :: "(string \<times> pair_event) list \<Rightarrow> unit pair" and arm ev
  assume "\<And>evs. guar quiet (d evs)"
  then show "guar quiet (member_step d arm ev)" by (rule quiet_events(5))
next
  fix d :: "(string \<times> pair_event) list \<Rightarrow> unit pair" and s
  assume "\<And>evs. guar quiet (d evs)"
  then show "quiet s (snd (send_cancels d s))" by (rule guar_run [OF quiet_send_cancels])
qed

end
