(* ===== verification/Pair_Inv.thy ===== *)
theory Pair_Inv
  imports Pair_Safety
begin

text \<open>
  What the record of a pair means: which member events the acknowledgements, the results and the confirmed cancels of
  a run come from.
\<close>

text \<open>A member event of this kind, accepted, for this plan, from this controller session.\<close>

definition heard :: "pair_io list \<Rightarrow> string \<Rightarrow> string \<Rightarrow> string \<Rightarrow> string \<Rightarrow> bool" where
  "heard io kind a pid session \<longleftrightarrow>
     (\<exists>ev. PEvent a ev \<in> set io \<and> pe_kind ev = kind \<and> pe_ok ev \<and> pe_plan_id ev = Some pid \<and> pe_session ev = Some (Some session))"

definition heard_by :: "pair_io list \<Rightarrow> string \<Rightarrow> PairRun \<Rightarrow> string \<Rightarrow> bool" where
  "heard_by io kind r a \<longleftrightarrow>
     (\<exists>p session. map_of (members (pr_plan r)) a = Some p \<and> map_of (pr_sessions r) a = Some session \<and> heard io kind a (ap_plan_id p) session)"

text \<open>A leg reported as finished without error. Such an event need not name its session.\<close>

definition reported :: "pair_io list \<Rightarrow> PairRun \<Rightarrow> string \<Rightarrow> bool" where
  "reported io r a \<longleftrightarrow>
     (\<exists>p ev. map_of (members (pr_plan r)) a = Some p \<and> PEvent a ev \<in> set io \<and> pe_kind ev = ''leg_result'' \<and> pe_ok ev \<and> pe_plan_id ev = Some (ap_plan_id p))"

definition all_ok :: "string list \<Rightarrow> (string \<times> bool \<times> string) list \<Rightarrow> bool" where
  "all_ok arms xs \<longleftrightarrow> (\<forall>a \<in> set arms. \<exists>why. map_of xs a = Some (True, why))"

definition keyed :: "string list \<Rightarrow> (string \<times> 'v) list \<Rightarrow> bool" where
  "keyed arms xs \<longleftrightarrow> distinct (map fst xs) \<and> fst ` set xs \<subseteq> set arms"

definition run_weak :: "string list \<Rightarrow> pair_io list \<Rightarrow> PairRun \<Rightarrow> bool" where
  "run_weak arms io r \<longleftrightarrow> fst ` set (members (pr_plan r)) = set arms \<and> keyed arms (pr_stage_acks r) \<and> keyed arms (pr_results r) \<and>
     (\<forall>a why. map_of (pr_stage_acks r) a = Some (True, why) \<longrightarrow> heard_by io ''plan_staged'' r a) \<and>
     (\<forall>a why. map_of (pr_results r) a = Some (True, why) \<longrightarrow> reported io r a) \<and>
     (pr_lifecycle r \<in> {READY, EXECUTING, COMPLETE} \<longrightarrow> all_ok arms (pr_stage_acks r)) \<and>
     (pr_lifecycle r = COMPLETE \<longrightarrow> all_ok arms (pr_results r)) \<and>
     (lc_aborted (pr_lifecycle r) \<longrightarrow> (\<forall>a \<in> set arms. a \<in> pr_pending_cancels r \<or> heard_by io ''plan_cleared'' r a))"

definition run_inv :: "string list \<Rightarrow> pair_io list \<Rightarrow> PairRun \<Rightarrow> bool" where
  "run_inv arms io r \<longleftrightarrow> run_weak arms io r \<and> (pr_lifecycle r = STAGING \<longrightarrow> (\<forall>x \<in> set (pr_stage_acks r). fst (snd x))) \<and>
     (lc_active (pr_lifecycle r) \<longrightarrow> (\<forall>x \<in> set (pr_results r). fst (snd x)))"

lemma heard_by_mono: "heard_by io k r a \<Longrightarrow> set io \<subseteq> set io' \<Longrightarrow> heard_by io' k r a"
  by (fastforce simp: heard_by_def heard_def)

lemma reported_mono: "reported io r a \<Longrightarrow> set io \<subseteq> set io' \<Longrightarrow> reported io' r a"
  by (fastforce simp: reported_def)

lemma run_mono:
  "run_weak arms io r \<Longrightarrow> set io \<subseteq> set io' \<Longrightarrow> run_weak arms io' r" "run_inv arms io r \<Longrightarrow> set io \<subseteq> set io' \<Longrightarrow> run_inv arms io' r"
  using heard_by_mono reported_mono unfolding run_weak_def run_inv_def by meson+

definition pweak :: "BimanualCoordinator \<Rightarrow> bool" where
  "pweak s \<longleftrightarrow> length (pc_arms s) = 2 \<and> distinct (pc_arms s) \<and> (\<forall>r. pc_run s = Some r \<longrightarrow> run_weak (pc_arms s) (pc_io s) r)"

definition pinv :: "BimanualCoordinator \<Rightarrow> bool" where
  "pinv s \<longleftrightarrow> length (pc_arms s) = 2 \<and> distinct (pc_arms s) \<and> (\<forall>r. pc_run s = Some r \<longrightarrow> run_inv (pc_arms s) (pc_io s) r)"

lemma pinv_weak: "pinv s \<Longrightarrow> pweak s"
  by (simp add: pinv_def pweak_def run_inv_def)

definition kpair :: "BimanualCoordinator \<Rightarrow> BimanualCoordinator \<Rightarrow> bool" where
  "kpair s t \<longleftrightarrow> (pinv s \<longrightarrow> pinv t)"

interpretation kpair: guarantee kpair
  by unfold_locales (simp_all add: kpair_def)

lemma kpair_mod: "(\<And>s. pinv s \<Longrightarrow> pinv (g s)) \<Longrightarrow> guar kpair (modst g)"
  by (rule kpair.g_modst) (simp add: kpair_def)

text \<open>Changes of a run that its invariant does not look at.\<close>

definition run_same :: "PairRun \<Rightarrow> PairRun \<Rightarrow> bool" where
  "run_same r r' \<longleftrightarrow> pr_plan r' = pr_plan r \<and> pr_sessions r' = pr_sessions r \<and> pr_lifecycle r' = pr_lifecycle r \<and> pr_stage_acks r' = pr_stage_acks r \<and>
     pr_results r' = pr_results r \<and> pr_pending_cancels r' = pr_pending_cancels r"

lemma run_same_inv: "run_same r r' \<Longrightarrow> run_inv arms io r' = run_inv arms io r \<and> run_weak arms io r' = run_weak arms io r"
  by (simp add: run_same_def run_inv_def run_weak_def heard_by_def reported_def)

lemma kpair_mod_run:
  assumes "\<And>r. run_same r (f r)"
  shows "guar kpair (mod_run f)"
  unfolding mod_run_def by (rule kpair_mod) (auto simp: pinv_def run_same_inv [OF assms])

lemma kpair_log: "guar kpair (log_io io)"
  unfolding log_io_def by (rule kpair_mod) (fastforce simp: pinv_def intro: run_mono(2))

lemma kpair_ask: "guar kpair (ask f)" "guar kpair (ask_result g)" "guar kpair now_pair"
proof -
  show a: "guar kpair (ask f)" for f :: "pair_world \<Rightarrow> nat \<Rightarrow> 'x" by (auto simp: guar_def ask_def kpair_def pinv_def)
  show "guar kpair (ask_result g)" "guar kpair now_pair" unfolding ask_result_def now_pair_def by (intro kpair.g_rules a)+
qed

lemma kpair_last: "guar kpair remember" "guar kpair finish_pair"
proof -
  show "guar kpair remember" unfolding remember_def by (rule kpair_mod) (auto simp: pinv_def split: option.splits)
  have "guar kpair (modst (\<lambda>s. s\<lparr>pc_last := (pc_last s)(i \<mapsto> x)\<rparr>))" for i x by (rule kpair_mod) (simp add: pinv_def)
  then show "guar kpair finish_pair" unfolding finish_pair_def by (intro kpair.g_rules) (auto intro: kpair_ask)
qed

lemma kpair_call: "(\<And>evs. guar kpair (d evs)) \<Longrightarrow> guar kpair (call d io)"
  unfolding call_def by (intro kpair.g_rules kpair_log kpair_ask)

lemma kpair_send_cancels:
  assumes "\<And>evs. guar kpair (d evs)"
  shows "guar kpair (send_cancel d a)" "guar kpair (send_cancels d)"
proof -
  show c: "guar kpair (send_cancel d a)" for a
    unfolding send_cancel_def seqs.simps by (intro kpair.g_handlers kpair_mod_run kpair_call assms) (simp_all add: run_same_def)
  show "guar kpair (send_cancels d)" unfolding send_cancels_def by (intro kpair.g_handlers kpair_ask) (auto intro: c)
qed

subsection \<open>Aborting\<close>

lemma aborted_run_inv:
  assumes "run_weak arms io r" "lc_aborted l"
  shows "run_inv arms io (r\<lparr>pr_lifecycle := l, pr_reason := reason, pr_faulted_arm := arm, pr_completed_at := t, pr_cancellation_requested := True,
    pr_pending_cancels := pr_pending_cancels r \<union> set arms\<rparr>)"
proof -
  have l: "lc_active l = False" "(l = STAGING) = False" "(l = READY) = False" "(l = EXECUTING) = False" "(l = COMPLETE) = False"
    using assms(2) by (auto simp: lc_aborted_def lc_active_def)
  show ?thesis using assms(1) unfolding run_inv_def run_weak_def heard_by_def reported_def by (simp add: l)
qed

lemma aborted_at_inv:
  assumes "pweak s" "lc_aborted l"
  shows "pinv (aborted_at l reason arm s)"
  using assms(1) aborted_run_inv [OF _ assms(2)] by (cases "pc_run s") (simp_all add: pinv_def pweak_def aborted_at_def)

lemma abort_inv:
  assumes d: "\<And>evs. guar kpair (d evs)" and l: "lc_aborted l" and s: "pweak s" "lc_active (lifecycle s)"
  shows "pinv (snd (abort d l reason arm s))"
proof -
  have "guar kpair (bindst (send_cancels d) (\<lambda>_. finish_pair))"
    by (intro kpair.g_rules kpair_send_cancels(2) kpair_last d)
  from guar_run [OF this, of "aborted_at l reason arm s"] aborted_at_inv [OF s(1) l] show ?thesis
    by (simp add: abort_active [OF s(2)] kpair_def)
qed

lemma kpair_abort:
  assumes "\<And>evs. guar kpair (d evs)" "lc_aborted l"
  shows "guar kpair (abort d l reason arm)"
  unfolding guar_def kpair_def
proof (intro allI impI)
  fix s
  assume "pinv s"
  then show "pinv (snd (abort d l reason arm s))"
    using abort_inv [OF assms pinv_weak] abort_inactive [of s] by (cases "lc_active (lifecycle s)") simp_all
qed

subsection \<open>Member events\<close>

lemma keyed_put: "keyed arms xs \<Longrightarrow> a \<in> set arms \<Longrightarrow> keyed arms (dict_put a v xs)"
  using distinct_dict_put [of xs a v] keys_dict_put [of a v xs] by (auto simp: keyed_def)

lemma put_new: "a \<notin> fst ` set xs \<Longrightarrow> dict_put a v xs = xs @ [(a, v)]"
  by (induction xs) force+

text \<open>Two distinct keys among two arms are both arms.\<close>

lemma keyed_both: "keyed arms xs \<Longrightarrow> length xs = 2 \<Longrightarrow> length arms = 2 \<Longrightarrow> distinct arms \<Longrightarrow> fst ` set xs = set arms"
  unfolding keyed_def by (metis card_subset_eq distinct_card finite_set length_map set_map)

lemma all_ok_both:
  assumes "keyed arms xs" "length xs = 2" "length arms = 2" "distinct arms" "\<forall>x \<in> set xs. fst (snd x)"
  shows "all_ok arms xs"
  unfolding all_ok_def
proof
  fix a
  assume "a \<in> set arms"
  then obtain v where v: "(a, v) \<in> set xs" using keyed_both [OF assms(1-4)] by force
  then have "map_of xs a = Some v" using assms(1) by (simp add: keyed_def)
  then show "\<exists>why. map_of xs a = Some (True, why)" using v assms(5) by (cases v) fastforce
qed

definition ack_run :: "string \<Rightarrow> pair_event \<Rightarrow> fl \<Rightarrow> PairRun \<Rightarrow> PairRun" where
  "ack_run arm ev t r = r\<lparr>pr_stage_acks := dict_put arm (pe_ok ev, or_empty (pe_reason ev)) (pr_stage_acks r), pr_ack_times := dict_put arm t (pr_ack_times r)\<rparr>"

definition ticked :: "BimanualCoordinator \<Rightarrow> BimanualCoordinator" where
  "ticked s = s\<lparr>pc_w := (pc_w s)\<lparr>pw_n := Suc (pw_n (pc_w s))\<rparr>\<rparr>"

lemma ticked_simps [simp]: "pc_run (ticked s) = pc_run s" "pc_io (ticked s) = pc_io s" "pc_arms (ticked s) = pc_arms s"
  by (simp_all add: ticked_def)

lemma event_staged_eq:
  assumes "pc_run s = Some r" and "r1 = ack_run arm ev (pw_clock (pc_w s) (pw_n (pc_w s))) r"
  shows "event_staged d arm ev s =
     (if \<not> pe_ok ev then abort d PAIR_REJECTED (arm @ '': '' @ (case pe_reason ev of None \<Rightarrow> ''None'' | Some x \<Rightarrow> x)) (Some arm) ((ticked s)\<lparr>pc_run := Some r1\<rparr>)
      else if length (pr_stage_acks r1) = 2
      then (Inr (), (ticked (ticked s))\<lparr>pc_run := Some (r1\<lparr>pr_lifecycle := READY, pr_ready_at := Some (pw_clock (pc_w s) (Suc (pw_n (pc_w s))))\<rparr>)\<rparr>)
      else (Inr (), (ticked s)\<lparr>pc_run := Some r1\<rparr>))"
  using assms unfolding event_staged_def seqs.simps bindst_ret_unit
  by (cases s) (simp add: ack_run_def ticked_def run_simps bindst_def mod_run_def now_pair_def ask_def)

lemma event_staged_inv:
  assumes d: "\<And>evs. guar kpair (d evs)" and s: "pinv s" "pc_run s = Some r" "pr_lifecycle r = STAGING" "arm \<in> set (pc_arms s)"
    "arm \<notin> fst ` set (pr_stage_acks r)" and ev: "pe_ok ev \<Longrightarrow> heard_by (pc_io s) ''plan_staged'' r arm"
  shows "pinv (snd (event_staged d arm ev s))"
proof -
  define r1 where "r1 = ack_run arm ev (pw_clock (pc_w s) (pw_n (pc_w s))) r"
  note eq = event_staged_eq [OF s(2) r1_def, of d]
  have inv: "run_inv (pc_arms s) (pc_io s) r" and arms: "length (pc_arms s) = 2" "distinct (pc_arms s)" using s(1,2) by (simp_all add: pinv_def)
  have same: "heard_by (pc_io s) k r1 a = heard_by (pc_io s) k r a" for k a by (simp add: heard_by_def r1_def ack_run_def)
  have acks: "pr_stage_acks r1 = pr_stage_acks r @ [(arm, pe_ok ev, or_empty (pe_reason ev))]" by (simp add: r1_def ack_run_def put_new [OF s(5)])
  have keyed: "keyed (pc_arms s) (pr_stage_acks r1)" using inv s(4) by (simp add: run_inv_def run_weak_def r1_def ack_run_def keyed_put)
  have rep: "reported (pc_io s) r1 a = reported (pc_io s) r a" for a by (simp add: reported_def r1_def ack_run_def)
  have fields: "pr_lifecycle r1 = STAGING" "pr_results r1 = pr_results r" "pr_plan r1 = pr_plan r"
    using s(3) by (simp_all add: r1_def ack_run_def)
  have "heard_by (pc_io s) ''plan_staged'' r1 a" if "map_of (pr_stage_acks r1) a = Some (True, why)" for a why
    unfolding same using that inv ev by (cases "a = arm") (auto simp: run_inv_def run_weak_def r1_def ack_run_def)
  then have weak: "run_weak (pc_arms s) (pc_io s) r1"
    using inv keyed fields by (simp add: run_inv_def run_weak_def rep)
  show ?thesis
  proof (cases "pe_ok ev")
    case False
    have "pweak ((ticked s)\<lparr>pc_run := Some r1\<rparr>)" using weak arms by (simp add: pweak_def)
    moreover have "lc_active (lifecycle ((ticked s)\<lparr>pc_run := Some r1\<rparr>))" using fields(1) by (simp add: lifecycle_def lc_active_def)
    ultimately show ?thesis using eq False abort_inv [OF d] by simp
  next
    case True
    have oks: "\<forall>x \<in> set (pr_stage_acks r1). fst (snd x)" using inv s(3) acks True by (auto simp: run_inv_def)
    have res: "\<forall>x \<in> set (pr_results r1). fst (snd x)" using inv s(3) fields(2) by (auto simp: run_inv_def lc_active_def)
    show ?thesis
    proof (cases "length (pr_stage_acks r1) = 2")
      case two: True
      have "all_ok (pc_arms s) (pr_stage_acks r1)" by (rule all_ok_both [OF keyed two arms oks])
      then show ?thesis using eq True two weak res arms
        by (auto simp: pinv_def run_inv_def run_weak_def lc_aborted_def heard_by_def reported_def)
    next
      case False
      then show ?thesis using eq True weak oks res arms fields by (auto simp: pinv_def run_inv_def)
    qed
  qed
qed

lemma event_result_eq:
  assumes "pc_run s = Some r" "r1 = r\<lparr>pr_results := dict_put arm (pe_ok ev, or_empty (pe_reason ev)) (pr_results r)\<rparr>"
  shows "event_result d arm ev r s =
    (if lc_active (pr_lifecycle r) \<and> \<not> pe_ok ev
     then abort d PAIR_FAULTED (case pe_reason ev of None \<Rightarrow> ''member failed'' | Some x \<Rightarrow> x) (Some arm) (s\<lparr>pc_run := Some r1\<rparr>)
     else if \<not> (pr_lifecycle r = EXECUTING \<and> arm \<notin> fst ` set (pr_results r)) then (Inr (), s)
     else if length (pr_results r1) = 2
     then finish_pair ((ticked s)\<lparr>pc_run := Some (r1\<lparr>pr_lifecycle := COMPLETE, pr_completed_at := Some (pw_clock (pc_w s) (pw_n (pc_w s)))\<rparr>)\<rparr>)
     else (Inr (), s\<lparr>pc_run := Some r1\<rparr>))"
proof -
  consider "lc_active (pr_lifecycle r) \<and> \<not> pe_ok ev"
    | "\<not> (lc_active (pr_lifecycle r) \<and> \<not> pe_ok ev)" "\<not> (pr_lifecycle r = EXECUTING \<and> arm \<notin> fst ` set (pr_results r))"
    | "pe_ok ev" "pr_lifecycle r = EXECUTING \<and> arm \<notin> fst ` set (pr_results r)" by (auto simp: lc_active_def)
  then show ?thesis
  proof cases
    case 1
    then show ?thesis using assms unfolding event_result_def seqs.simps bindst_ret_unit by (simp add: bindst_def mod_run_def run_simps)
  next
    case 2
    then show ?thesis unfolding event_result_def whenst_def by (auto simp: ret_def)
  next
    case 3
    then show ?thesis using assms unfolding event_result_def seqs.simps bindst_ret_unit
      by (cases s) (simp add: bindst_def mod_run_def now_pair_def ask_def run_simps ticked_def)
  qed
qed

lemma event_result_inv:
  assumes d: "\<And>evs. guar kpair (d evs)" and s: "pinv s" "pc_run s = Some r" "arm \<in> set (pc_arms s)"
    and ev: "pe_ok ev \<Longrightarrow> reported (pc_io s) r arm"
  shows "pinv (snd (event_result d arm ev r s))"
proof -
  have inv: "run_inv (pc_arms s) (pc_io s) r" and arms: "length (pc_arms s) = 2" "distinct (pc_arms s)" using s(1,2) by (simp_all add: pinv_def)
  define r1 where "r1 = r\<lparr>pr_results := dict_put arm (pe_ok ev, or_empty (pe_reason ev)) (pr_results r)\<rparr>"
  note eq = event_result_eq [OF s(2) r1_def, of d]
  have same: "heard_by (pc_io s) k r1 a = heard_by (pc_io s) k r a" "reported (pc_io s) r1 a = reported (pc_io s) r a" for k a
    by (simp_all add: heard_by_def reported_def r1_def)
  have keyed: "keyed (pc_arms s) (pr_results r1)" using inv s(3) by (simp add: run_inv_def run_weak_def r1_def keyed_put)
  have fields: "pr_lifecycle r1 = pr_lifecycle r" "pr_stage_acks r1 = pr_stage_acks r" "pr_plan r1 = pr_plan r" by (simp_all add: r1_def)
  have rep: "reported (pc_io s) r1 a" if "map_of (pr_results r1) a = Some (True, why)" for a why
    unfolding same using that inv ev by (cases "a = arm") (auto simp: run_inv_def run_weak_def r1_def)
  have weak: "run_weak (pc_arms s) (pc_io s) r1" if "lc_active (pr_lifecycle r)"
  proof -
    have "pr_lifecycle r \<noteq> COMPLETE" "\<not> lc_aborted (pr_lifecycle r)" using that by (auto simp: lc_active_def lc_aborted_def)
    then show ?thesis using inv keyed fields rep same by (simp add: run_inv_def run_weak_def)
  qed
  show ?thesis
  proof (cases "lc_active (pr_lifecycle r) \<and> \<not> pe_ok ev")
    case True
    let ?t = "s\<lparr>pc_run := Some r1\<rparr>"
    have "pweak ?t" using weak arms True by (simp add: pweak_def)
    moreover have "lc_active (lifecycle ?t)" using True fields by (simp add: lifecycle_def)
    ultimately have "pinv (snd (abort d PAIR_FAULTED (case pe_reason ev of None \<Rightarrow> ''member failed'' | Some x \<Rightarrow> x) (Some arm) ?t))"
      by (intro abort_inv [OF d]) simp_all
    then show ?thesis using eq True by simp
  next
    case other: False
    show ?thesis
    proof (cases "pr_lifecycle r = EXECUTING \<and> arm \<notin> fst ` set (pr_results r)")
      case False
      then have "event_result d arm ev r s = (Inr (), s)" using other eq by presburger
      then show ?thesis using s(1) by simp
    next
      case True
      have ok: "pe_ok ev" and act: "lc_active (pr_lifecycle r)" using other True by (auto simp: lc_active_def)
      have oks: "\<forall>x \<in> set (pr_results r1). fst (snd x)" using inv act ok put_new [of arm "pr_results r"] True by (auto simp: run_inv_def r1_def)
      note eq = eq [simplified True, simplified, simplified ok, simplified]
      show ?thesis
      proof (cases "length (pr_results r1) = 2")
        case two: True
        have "all_ok (pc_arms s) (pr_results r1)" by (rule all_ok_both [OF keyed two arms oks])
        moreover have "all_ok (pc_arms s) (pr_stage_acks r1)" using weak [OF act] True fields by (simp add: run_weak_def)
        ultimately have "pinv ((ticked s)\<lparr>pc_run := Some (r1\<lparr>pr_lifecycle := COMPLETE, pr_completed_at := Some (pw_clock (pc_w s) (pw_n (pc_w s)))\<rparr>)\<rparr>)"
          using weak [OF act] arms unfolding pinv_def run_inv_def run_weak_def heard_by_def reported_def by (simp add: lc_active_def)
        then show ?thesis using eq two guar_run [OF kpair_last(2)] by (simp add: kpair_def)
      next
        case False
        then show ?thesis using eq weak [OF act] oks arms fields True by (simp add: pinv_def run_inv_def)
      qed
    qed
  qed
qed

lemma event_cleared_inv:
  assumes s: "pinv s" "pc_run s = Some r" and ev: "pe_ok ev \<Longrightarrow> heard_by (pc_io s) ''plan_cleared'' r arm"
  shows "pinv (snd (event_cleared arm ev s))"
proof (cases "pe_ok ev")
  case True
  let ?r = "r\<lparr>pr_pending_cancels := pr_pending_cancels r - {arm}, pr_cancel_errors := (pr_cancel_errors r)(arm := None)\<rparr>"
  have same: "heard_by (pc_io s) k ?r a = heard_by (pc_io s) k r a" "reported (pc_io s) ?r a = reported (pc_io s) r a" for k a
    by (simp_all add: heard_by_def reported_def)
  have "run_inv (pc_arms s) (pc_io s) ?r"
    using s ev [OF True] unfolding pinv_def run_inv_def run_weak_def same by auto
  then show ?thesis using s True by (simp add: event_cleared_def mod_run_def run_simps pinv_def)
next
  case False
  have "guar kpair (event_cleared arm ev)" unfolding event_cleared_def by (rule kpair_mod_run) (simp add: False run_same_def)
  from guar_run [OF this] s(1) show ?thesis by (auto simp: kpair_def)
qed

text \<open>An event that is about this run, from the session the run was staged with.\<close>

definition bound :: "PairRun \<Rightarrow> string \<Rightarrow> pair_event \<Rightarrow> bool" where
  "bound r arm ev \<longleftrightarrow> (pe_kind ev \<in> {''plan_staged'', ''plan_cleared''} \<longrightarrow>
     (\<exists>session. map_of (pr_sessions r) arm = Some session \<and> pe_session ev = Some (Some session)))"

lemma then_remember: "pinv (snd (m s)) \<Longrightarrow> pinv (snd (seqs [m, remember] s))"
  using guar_run [OF kpair_last(1), of "snd (m s)"] by (auto simp: bindst_def kpair_def ret_def split: prod.split sum.split)

lemma bound_event_inv:
  assumes d: "\<And>evs. guar kpair (d evs)" and s: "pinv s" "pc_run s = Some r" "arm \<in> set (pc_arms s)"
    and ev: "PEvent arm ev \<in> set (pc_io s)" "bound r arm ev"
  shows "pinv (snd (bound_event d arm ev r s))"
proof (cases "pe_kind ev = ''fault''")
  case True
  then show ?thesis using guar_run [OF kpair_abort [OF d], of PAIR_FAULTED] s(1) by (auto simp: bound_event_def kpair_def)
next
  case nofault: False
  show ?thesis
  proof (cases "map_of (members (pr_plan r)) arm")
    case None
    then show ?thesis using nofault s(1) by (simp add: bound_event_def lift_def)
  next
    case p: (Some p)
    have heard: "heard_by (pc_io s) (pe_kind ev) r arm" if "pe_ok ev" "pe_plan_id ev = Some (ap_plan_id p)" "pe_kind ev \<in> {''plan_staged'', ''plan_cleared''}"
      using that ev p by (auto simp: heard_by_def heard_def bound_def)
    have rep: "reported (pc_io s) r arm" if "pe_ok ev" "pe_plan_id ev = Some (ap_plan_id p)" "pe_kind ev = ''leg_result''"
      using that ev(1) p by (auto simp: reported_def)
    consider "pe_plan_id ev \<noteq> Some (ap_plan_id p)"
      | "pe_plan_id ev = Some (ap_plan_id p)" "pe_kind ev = ''plan_cleared''" "pr_cancellation_requested r"
      | "pe_plan_id ev = Some (ap_plan_id p)" "pe_kind ev = ''plan_staged''" "pr_lifecycle r = STAGING" "arm \<in> fst ` set (pr_stage_acks r)"
      | "pe_plan_id ev = Some (ap_plan_id p)" "pe_kind ev = ''plan_staged''" "pr_lifecycle r = STAGING" "arm \<notin> fst ` set (pr_stage_acks r)"
      | "pe_plan_id ev = Some (ap_plan_id p)" "pe_kind ev = ''leg_result''"
      | "pe_plan_id ev = Some (ap_plan_id p)" "pe_kind ev = ''plan_cleared'' \<longrightarrow> \<not> pr_cancellation_requested r" "pe_kind ev \<noteq> ''leg_result''"
          "pe_kind ev = ''plan_staged'' \<longrightarrow> pr_lifecycle r \<noteq> STAGING" by blast
    then show ?thesis
    proof cases
      case 1
      then show ?thesis using nofault p s(1) by (simp add: bound_event_def ret_def)
    next
      case 2
      have "pinv (snd (event_cleared arm ev s))" using heard 2 by (intro event_cleared_inv [OF s(1,2)]) simp
      from then_remember [of "event_cleared arm ev", OF this] show ?thesis using 2 p by (simp add: bound_event_def)
    next
      case 3
      then show ?thesis using p s(1) by (simp add: bound_event_def ret_def)
    next
      case 4
      have "pinv (snd (event_staged d arm ev s))" using heard 4 by (intro event_staged_inv [OF d s(1,2) _ s(3)]) simp_all
      from then_remember [of "event_staged d arm ev", OF this] show ?thesis using 4 p by (simp add: bound_event_def)
    next
      case 5
      have "pinv (snd (event_result d arm ev r s))" using rep 5 by (intro event_result_inv [OF d s]) simp_all
      from then_remember [of "event_result d arm ev r", OF this] show ?thesis using 5 p by (simp add: bound_event_def)
    next
      case 6
      then have "bound_event d arm ev r s = remember s" using nofault p by (auto simp: bound_event_def)
      then show ?thesis using guar_run [OF kpair_last(1)] s(1) by (auto simp: kpair_def)
    qed
  qed
qed

lemma kpair_member_step:
  assumes d: "\<And>evs. guar kpair (d evs)"
  shows "guar kpair (member_step d arm ev)"
  unfolding guar_def kpair_def
proof (intro allI impI)
  fix s
  assume inv: "pinv s"
  let ?t = "s\<lparr>pc_io := pc_io s @ [PEvent arm ev]\<rparr>"
  have t: "pinv ?t" using guar_run [OF kpair_log, of s "PEvent arm ev"] inv by (simp add: kpair_def log_io_def run_simps)
  have ab: "pinv (snd (abort d PAIR_FAULTED x y ?t))" for x y using guar_run [OF kpair_abort [OF d], of PAIR_FAULTED ?t] t by (simp add: kpair_def)
  have b: "pinv (snd (bound_event d arm ev r ?t))" if "pc_run s = Some r" "arm \<in> set (pc_arms s)" "bound r arm ev" for r
    by (rule bound_event_inv [OF d t]) (use that in simp_all)
  show "pinv (snd (member_step d arm ev s))"
  proof (cases "pc_run s")
    case None
    then show ?thesis using t by (simp add: member_step_def log_io_def run_simps bindst_def)
  next
    case (Some r)
    then show ?thesis using t ab b [OF Some]
      by (auto simp: member_step_def log_io_def run_simps bindst_def bound_def split: option.split)
  qed
qed

interpretation kpair: pair_guarantee kpair
proof
  fix s :: BimanualCoordinator
  show "kpair s (s\<lparr>pc_w := (pc_w s)\<lparr>pw_n := Suc (pw_n (pc_w s))\<rparr>\<rparr>)" using guar_run [OF kpair_ask(1), of s pw_clock] by (simp add: ask_def)
next
  fix d :: "(string \<times> pair_event) list \<Rightarrow> unit pair" and l reason arm
  assume "\<And>evs. guar kpair (d evs)" "l \<in> {PAIR_CANCELLED, PAIR_FAULTED, PAIR_REJECTED}"
  then show "guar kpair (abort d l reason arm)" by (intro kpair_abort) (auto simp: lc_aborted_def)
next
  fix d :: "(string \<times> pair_event) list \<Rightarrow> unit pair" and arm ev
  assume "\<And>evs. guar kpair (d evs)"
  then show "guar kpair (member_step d arm ev)" by (rule kpair_member_step)
next
  fix d :: "(string \<times> pair_event) list \<Rightarrow> unit pair" and s
  assume "\<And>evs. guar kpair (d evs)"
  then show "kpair s (snd (send_cancels d s))" by (rule guar_run [OF kpair_send_cancels(2)])
qed

end
