(* ===== verification/Pair_Life.thy ===== *)
theory Pair_Life
  imports Pair_Inv
begin

text \<open>
  The lifecycle of a pair as an abstract machine, and what the coordinator says to its arms in each part of it.
\<close>

subsection \<open>The machine\<close>

inductive event_step :: "PairLifecycle \<Rightarrow> PairLifecycle \<Rightarrow> bool" where
  both_staged: "event_step STAGING READY"
| both_finished: "event_step EXECUTING COMPLETE"
| given_up: "lc_active l \<Longrightarrow> lc_aborted l' \<Longrightarrow> event_step l l'"

inductive pair_step :: "PairLifecycle \<Rightarrow> PairLifecycle \<Rightarrow> bool" where
  begin_staging: "\<not> lc_active l \<Longrightarrow> pair_step l STAGING"
| release: "pair_step READY EXECUTING"
| event: "event_step l l' \<Longrightarrow> pair_step l l'"

inductive_cases event_stepE: "event_step l l'"

lemma event_steps_over: "event_step\<^sup>*\<^sup>* l l' \<Longrightarrow> \<not> lc_active l \<Longrightarrow> l' = l"
  by (induction rule: rtranclp_induct) (auto elim!: event_stepE simp: lc_active_def)

lemma event_steps_back: "event_step\<^sup>*\<^sup>* l l' \<Longrightarrow> lc_active l' \<Longrightarrow> lc_active l"
  using event_steps_over by blast

lemma event_steps_active:
  "event_step\<^sup>*\<^sup>* l l' \<Longrightarrow> l' = EXECUTING \<Longrightarrow> l = EXECUTING" "event_step\<^sup>*\<^sup>* l l' \<Longrightarrow> l' \<in> {STAGING, READY} \<Longrightarrow> l \<in> {STAGING, READY}"
  by (induction rule: converse_rtranclp_induct) (auto elim!: event_stepE simp: lc_aborted_def)

subsection \<open>Talking to the arms\<close>

definition is_event :: "pair_io \<Rightarrow> bool" where
  "is_event io = (case io of PEvent _ _ \<Rightarrow> True | _ \<Rightarrow> False)"

text \<open>The lifecycle moves as events allow, and while the pair stays active the arms are told nothing.\<close>

definition calm :: "BimanualCoordinator \<Rightarrow> BimanualCoordinator \<Rightarrow> bool" where
  "calm s t \<longleftrightarrow> event_step\<^sup>*\<^sup>* (lifecycle s) (lifecycle t) \<and> (lc_active (lifecycle t) \<longrightarrow> (\<exists>new. pc_io t = pc_io s @ new \<and> list_all is_event new))"

interpretation calm: guarantee calm
proof
  fix s t u
  show "calm s s" by (auto simp: calm_def)
  assume st: "calm s t" and tu: "calm t u"
  then have steps: "event_step\<^sup>*\<^sup>* (lifecycle s) (lifecycle t)" "event_step\<^sup>*\<^sup>* (lifecycle t) (lifecycle u)" by (simp_all add: calm_def)
  then show "calm s u" using st tu event_steps_back [OF steps(2)] by (auto simp: calm_def)
qed

text \<open>A pair that is over stays as it ended.\<close>

definition settled :: "BimanualCoordinator \<Rightarrow> BimanualCoordinator \<Rightarrow> bool" where
  "settled s t \<longleftrightarrow> (over s \<longrightarrow> lifecycle t = lifecycle s)"

interpretation settled: guarantee settled
  by unfold_locales (auto simp: settled_def over_def)

lemma calm_settled: "calm s t \<Longrightarrow> settled s t"
  by (auto simp: calm_def settled_def over_def dest: event_steps_over)

lemma settled_run:
  assumes "\<And>r. pr_lifecycle (f r) = pr_lifecycle r"
  shows "guar settled (mod_run f)"
  unfolding mod_run_def by (rule settled.g_modst) (auto simp: settled_def lifecycle_def assms split: option.split)

lemma settled_base: "guar settled (log_io io)" "guar settled (ask f)" "guar settled (ask_result g)" "guar settled now_pair"
proof -
  show "guar settled (log_io io)" unfolding log_io_def by (rule settled.g_modst) (simp add: settled_def)
  show a: "guar settled (ask f)" for f :: "pair_world \<Rightarrow> nat \<Rightarrow> 'x" by (simp add: guar_def ask_def settled_def)
  show "guar settled (ask_result g)" "guar settled now_pair" unfolding ask_result_def now_pair_def by (intro settled.g_rules a)+
qed

lemma settled_cancels:
  assumes d: "\<And>evs. guar settled (d evs)"
  shows "guar settled (send_cancels d)"
proof -
  have c: "guar settled (send_cancel d a)" for a
    unfolding send_cancel_def call_def seqs.simps by (intro settled.g_handlers settled_run settled_base d) simp_all
  show "guar settled (send_cancels d)" unfolding send_cancels_def by (intro settled.g_handlers settled_base) (auto intro: c)
qed

lemma settled_finish: "guar settled finish_pair"
proof -
  have "guar settled (modst (\<lambda>s. s\<lparr>pc_last := (pc_last s)(i \<mapsto> x)\<rparr>))" for i x by (rule settled.g_modst) (simp add: settled_def)
  then show ?thesis unfolding finish_pair_def by (intro settled.g_rules) (auto intro: settled_base)
qed

lemma calm_over: "guar settled m \<Longrightarrow> over s \<Longrightarrow> calm s (snd (m s))"
  using guar_run [of settled m s] by (auto simp: calm_def settled_def over_def)

lemma calm_aborting:
  assumes d: "\<And>evs. guar calm (d evs)" and l: "lc_aborted l"
  shows "guar calm (abort d l reason arm)"
  unfolding guar_def
proof
  fix s
  show "calm s (snd (abort d l reason arm s))"
  proof (cases "lc_active (lifecycle s)")
    case False
    then show ?thesis by (simp add: abort_inactive calm.stays)
  next
    case True
    let ?u = "aborted_at l reason arm s"
    have l': "\<not> lc_active l" using l by (auto simp: lc_aborted_def lc_active_def)
    have d': "guar settled (d evs)" for evs by (rule guar_mono [OF d calm_settled])
    have "guar settled (bindst (send_cancels d) (\<lambda>_. finish_pair))" by (intro settled.g_rules settled_cancels settled_finish d')
    from guar_run [OF this, of ?u] aborted_over [OF l', of reason arm s]
    have "lifecycle (snd (abort d l reason arm s)) = lifecycle ?u" by (simp add: settled_def abort_active [OF True])
    also have "\<dots> = l" using True by (auto simp: aborted_at_def lifecycle_def lc_active_def split: option.splits)
    finally show ?thesis using r_into_rtranclp [of event_step, OF event_step.given_up [OF True l]] l' by (simp add: calm_def)
  qed
qed

subsection \<open>Member events\<close>

lemma calm_run:
  assumes "\<And>r. pr_lifecycle (f r) = pr_lifecycle r"
  shows "guar calm (mod_run f)"
proof -
  have "lifecycle (s\<lparr>pc_run := map_option f (pc_run s)\<rparr>) = lifecycle s" for s by (auto simp: lifecycle_def assms split: option.split)
  then show ?thesis unfolding mod_run_def by (intro calm.g_modst) (simp add: calm_def)
qed

lemma calm_base: "guar calm (log_io (PEvent a ev))" "guar calm (ask f)" "guar calm (ask_result g)" "guar calm now_pair" "guar calm remember" "guar calm finish_pair"
proof -
  show "guar calm (log_io (PEvent a ev))" unfolding log_io_def by (rule calm.g_modst) (simp add: calm_def is_event_def)
  show a: "guar calm (ask f)" for f :: "pair_world \<Rightarrow> nat \<Rightarrow> 'x" by (simp add: guar_def ask_def calm_def)
  show b: "guar calm (ask_result g)" for g :: "pair_world \<Rightarrow> nat \<Rightarrow> 'x result" unfolding ask_result_def by (intro calm.g_rules a)
  show "guar calm now_pair" unfolding now_pair_def by (rule a)
  show "guar calm remember" unfolding remember_def by (rule calm.g_modst) (simp add: calm_def split: option.split)
  have "guar calm (modst (\<lambda>s. s\<lparr>pc_last := (pc_last s)(i \<mapsto> x)\<rparr>))" for i x by (rule calm.g_modst) (simp add: calm_def)
  then show "guar calm finish_pair" unfolding finish_pair_def by (intro calm.g_rules) (auto intro: b)
qed

lemma calm_staged:
  assumes d: "\<And>evs. guar calm (d evs)" and s: "pc_run s = Some r" "pr_lifecycle r = STAGING"
  shows "calm s (snd (event_staged d arm ev s))"
proof -
  define r1 where "r1 = ack_run arm ev (pw_clock (pc_w s) (pw_n (pc_w s))) r"
  let ?t = "(ticked s)\<lparr>pc_run := Some r1\<rparr>"
  have life: "lifecycle s = STAGING" "lifecycle ?t = STAGING" using s by (simp_all add: lifecycle_def r1_def ack_run_def)
  then have t: "calm s ?t" by (simp add: calm_def)
  have "calm s (snd (abort d PAIR_REJECTED x y ?t))" for x y by (rule calm.chain [OF t guar_run [OF calm_aborting [OF d]]]) simp
  then show ?thesis using event_staged_eq [OF s(1) r1_def, of d] t life r_into_rtranclp [of event_step, OF event_step.both_staged]
    by (simp add: calm_def lifecycle_def)
qed

lemma calm_result:
  assumes d: "\<And>evs. guar calm (d evs)" and s: "pc_run s = Some r"
  shows "calm s (snd (event_result d arm ev r s))"
proof -
  define r1 where "r1 = r\<lparr>pr_results := dict_put arm (pe_ok ev, or_empty (pe_reason ev)) (pr_results r)\<rparr>"
  let ?t = "s\<lparr>pc_run := Some r1\<rparr>" and
    ?u = "(ticked s)\<lparr>pc_run := Some (r1\<lparr>pr_lifecycle := COMPLETE, pr_completed_at := Some (pw_clock (pc_w s) (pw_n (pc_w s)))\<rparr>)\<rparr>"
  have t: "calm s ?t" using s by (simp add: calm_def lifecycle_def r1_def)
  have ab: "calm s (snd (abort d PAIR_FAULTED x y ?t))" for x y by (rule calm.chain [OF t guar_run [OF calm_aborting [OF d]]]) simp
  have "calm s (snd (finish_pair ?u))" if "pr_lifecycle r = EXECUTING"
  proof (rule calm.chain [OF _ guar_run [OF calm_base(6)]])
    show "calm s ?u" using s that r_into_rtranclp [of event_step, OF event_step.both_finished] by (simp add: calm_def lifecycle_def)
  qed
  then show ?thesis using event_result_eq [OF s r1_def, of d] t ab calm.stays by simp
qed

lemma calm_then_remember: "calm s (snd (m s)) \<Longrightarrow> calm s (snd (seqs [m, remember] s))"
  using calm.chain [OF _ guar_run [OF calm_base(5)], of s "snd (m s)"]
  by (auto simp: bindst_def ret_def split: prod.split sum.split)

lemma calm_bound_event:
  assumes d: "\<And>evs. guar calm (d evs)" and s: "pc_run s = Some r"
  shows "calm s (snd (bound_event d arm ev r s))"
proof -
  have ab: "calm s (snd (abort d PAIR_FAULTED x y s))" for x y by (rule guar_run [OF calm_aborting [OF d]]) simp
  have "guar calm (event_cleared arm ev)" unfolding event_cleared_def by (rule calm_run) simp
  from calm_then_remember [OF guar_run [OF this]] have c: "calm s (snd (seqs [event_cleared arm ev, remember] s))" .
  have st: "pr_lifecycle r = STAGING \<Longrightarrow> calm s (snd (seqs [event_staged d arm ev, remember] s))"
    by (intro calm_then_remember calm_staged [OF d s])
  have re: "calm s (snd (seqs [event_result d arm ev r, remember] s))" by (intro calm_then_remember calm_result [OF d s])
  have m: "calm s (snd (remember s))" by (rule guar_run [OF calm_base(5)])
  show ?thesis unfolding bound_event_def using ab c st re m calm.stays [of s] by (auto simp: lift_def ret_def split: option.split simp del: seqs.simps)
qed

lemma calm_member_step:
  assumes d: "\<And>evs. guar calm (d evs)"
  shows "guar calm (member_step d arm ev)"
  unfolding guar_def
proof
  fix s :: BimanualCoordinator
  let ?t = "s\<lparr>pc_io := pc_io s @ [PEvent arm ev]\<rparr>"
  have t: "calm s ?t" using guar_run [OF calm_base(1), of s arm ev] by (simp add: log_io_def run_simps)
  have ab: "calm s (snd (abort d PAIR_FAULTED x y ?t))" for x y by (rule calm.chain [OF t guar_run [OF calm_aborting [OF d]]]) simp
  have b: "calm s (snd (bound_event d arm ev r ?t))" if "pc_run s = Some r" for r
    by (rule calm.chain [OF t calm_bound_event [OF d]]) (simp add: that)
  show "calm s (snd (member_step d arm ev s))"
    using t ab b by (cases "pc_run s") (auto simp: member_step_def log_io_def run_simps bindst_def split: option.split)
qed

interpretation calm: pair_guarantee calm
proof
  fix s :: BimanualCoordinator
  show "calm s (s\<lparr>pc_w := (pc_w s)\<lparr>pw_n := Suc (pw_n (pc_w s))\<rparr>\<rparr>)" by (simp add: calm_def)
next
  fix d :: "(string \<times> pair_event) list \<Rightarrow> unit pair" and l reason arm
  assume "\<And>evs. guar calm (d evs)" "l \<in> {PAIR_CANCELLED, PAIR_FAULTED, PAIR_REJECTED}"
  then show "guar calm (abort d l reason arm)" by (intro calm_aborting) (auto simp: lc_aborted_def)
next
  fix d :: "(string \<times> pair_event) list \<Rightarrow> unit pair" and arm ev
  assume "\<And>evs. guar calm (d evs)"
  then show "guar calm (member_step d arm ev)" by (rule calm_member_step)
next
  fix d :: "(string \<times> pair_event) list \<Rightarrow> unit pair" and s :: BimanualCoordinator and r :: PairRun
  assume d: "\<And>evs. guar calm (d evs)" and s: "pc_run s = Some r" "\<not> lc_active (pr_lifecycle r)"
  have "guar settled (d evs)" for evs by (rule guar_mono [OF d calm_settled])
  then show "calm s (snd (send_cancels d s))" using s by (intro calm_over settled_cancels) (simp_all add: over_def lifecycle_def)
qed

end
