(* ===== verification/Pair_Barrier.thy ===== *)
theory Pair_Barrier
  imports Pair_Life
begin

text \<open>
  The barrier: what has to be in the conversation before an arm is released, and that no call of a host breaks it.
\<close>

subsection \<open>The conversation\<close>

definition legs :: "BimanualPlan \<Rightarrow> (string \<times> string) set" where
  "legs plan = (\<lambda>(a, m). (a, ap_plan_id m)) ` set (members plan)"

definition may_release :: "(BimanualPlan \<Rightarrow> bool) \<Rightarrow> pair_io list \<Rightarrow> string \<Rightarrow> string \<Rightarrow> bool" where
  "may_release P pre a p \<longleftrightarrow> PExecute a p \<notin> set pre \<and>
     (\<exists>plan. P plan \<and> (a, p) \<in> legs plan \<and>
        (\<exists>ss. PBegin (bp_pair_id plan) ss \<in> set pre \<and>
           (\<forall>(b, q) \<in> legs plan. PStage b q \<in> set pre \<and> PCancel b q \<notin> set pre \<and>
              (\<exists>session. map_of ss b = Some (Some session) \<and> heard pre ''plan_staged'' b q session))))"

definition barrier :: "(BimanualPlan \<Rightarrow> bool) \<Rightarrow> pair_io list \<Rightarrow> bool" where
  "barrier P io \<longleftrightarrow> (\<forall>pre a p post. io = pre @ PExecute a p # post \<longrightarrow> may_release P pre a p)"

fun is_execute :: "pair_io \<Rightarrow> bool" where
  "is_execute (PExecute _ _) = True"
| "is_execute _ = False"

lemma barrier_snoc: "barrier P io \<Longrightarrow> (\<And>a p. x = PExecute a p \<Longrightarrow> may_release P io a p) \<Longrightarrow> barrier P (io @ [x])"
  unfolding barrier_def by (metis append_butlast_last_id butlast_append butlast.simps(2) last_appendR last_snoc butlast_snoc list.distinct(1) last.simps)

lemma barrier_append: "barrier P io \<Longrightarrow> list_all (\<lambda>x. \<not> is_execute x) new \<Longrightarrow> barrier P (io @ new)"
proof (induction new rule: rev_induct)
  case (snoc x new)
  then have "barrier P (io @ new)" "\<not> is_execute x" by simp_all
  then have "barrier P ((io @ new) @ [x])" by (intro barrier_snoc) auto
  then show ?case by simp
qed simp

lemma no_motion_execute: "list_all no_motion new \<Longrightarrow> list_all (\<lambda>x. \<not> is_execute x) new"
  by (auto simp: list_all_iff elim!: is_execute.elims(2))

subsection \<open>Consumed plan ids\<close>

fun io_plan :: "pair_io \<Rightarrow> string set" where
  "io_plan (PCancel _ q) = {q}"
| "io_plan (PExecute _ q) = {q}"
| "io_plan _ = {}"

definition ids :: "BimanualCoordinator \<Rightarrow> bool" where
  "ids s \<longleftrightarrow> (\<forall>x \<in> set (pc_io s). io_plan x \<subseteq> pc_consumed_plan_ids s) \<and>
     (\<forall>r. pc_run s = Some r \<longrightarrow> (\<forall>b q. (b, q) \<in> legs (pr_plan r) \<longrightarrow> q \<in> pc_consumed_plan_ids s))"

definition kids :: "BimanualCoordinator \<Rightarrow> BimanualCoordinator \<Rightarrow> bool" where
  "kids s t \<longleftrightarrow> (ids s \<longrightarrow> ids t)"

interpretation kids: guarantee kids
  by unfold_locales (simp_all add: kids_def)

lemma kids_mod: "(\<And>s. ids s \<Longrightarrow> ids (g s)) \<Longrightarrow> guar kids (modst g)"
  by (rule kids.g_modst) (simp add: kids_def)

lemma kids_run: "(\<And>r. pr_plan (f r) = pr_plan r) \<Longrightarrow> guar kids (mod_run f)"
  unfolding mod_run_def by (rule kids_mod) (auto simp: ids_def)

lemma kids_base: "guar kids (log_io (PEvent a ev))" "guar kids (ask f)" "guar kids (ask_result g)" "guar kids now_pair" "guar kids remember" "guar kids finish_pair"
proof -
  show "guar kids (log_io (PEvent a ev))" unfolding log_io_def by (rule kids_mod) (simp add: ids_def)
  show a: "guar kids (ask f)" for f :: "pair_world \<Rightarrow> nat \<Rightarrow> 'x" by (simp add: guar_def ask_def kids_def ids_def)
  show b: "guar kids (ask_result g)" for g :: "pair_world \<Rightarrow> nat \<Rightarrow> 'x result" unfolding ask_result_def by (intro kids.g_rules a)
  show "guar kids now_pair" unfolding now_pair_def by (rule a)
  show "guar kids remember" unfolding remember_def by (rule kids_mod) (simp add: ids_def split: option.split)
  have "guar kids (modst (\<lambda>s. s\<lparr>pc_last := (pc_last s)(i \<mapsto> x)\<rparr>))" for i x by (rule kids_mod) (simp add: ids_def)
  then show "guar kids finish_pair" unfolding finish_pair_def by (intro kids.g_rules) (auto intro: b)
qed

lemma leg_in: "map_of (members plan) a = Some p \<Longrightarrow> (a, ap_plan_id p) \<in> legs plan"
  by (force simp: legs_def dest: map_of_SomeD)

text \<open>The state in which the events of a call are handled.\<close>

definition called :: "pair_io \<Rightarrow> BimanualCoordinator \<Rightarrow> BimanualCoordinator" where
  "called io s = s\<lparr>pc_io := pc_io s @ [io], pc_w := (pc_w s)\<lparr>pw_n := Suc (pw_n (pc_w s))\<rparr>\<rparr>"

lemma call_state: "\<exists>evs. snd (call d io s) = snd (d evs (called io s))"
proof -
  obtain evs z where "pw_call (pc_w s) (pw_n (pc_w s)) = (evs, z)" by fastforce
  then have "snd (call d io s) = snd (d evs (called io s))"
    by (auto simp: call_def log_io_def ask_def run_simps bindst_def called_def split: prod.split sum.split)
  then show ?thesis ..
qed

lemma kids_cancels:
  assumes d: "\<And>evs. guar kids (d evs)"
  shows "guar kids (send_cancels d)"
proof -
  have "kids s (snd (send_cancel d a s))" for a s
  proof (cases "\<exists>r p. pc_run s = Some r \<and> map_of (members (pr_plan r)) a = Some p")
    case True
    then obtain r p where r: "pc_run s = Some r" "map_of (members (pr_plan r)) a = Some p" by blast
    obtain evs where evs: "snd (call d (PCancel a (ap_plan_id p)) s) = snd (d evs (called (PCancel a (ap_plan_id p)) s))" using call_state by blast
    have "kids s (called (PCancel a (ap_plan_id p)) s)" using leg_in [OF r(2)] r(1) by (auto simp: kids_def ids_def called_def)
    from kids.chain [OF this guar_run [OF d]] have c: "kids s (snd (call d (PCancel a (ap_plan_id p)) s))" by (simp add: evs)
    have m: "guar kids (mod_run (\<lambda>r. r\<lparr>pr_cancel_errors := e r\<rparr>))" for e by (rule kids_run) simp
    show ?thesis using r c kids.chain [OF c guar_run [OF m]]
      by (auto simp: send_cancel_def withst_def try_any_def bindst_def ret_def mod_run_def modst_def split: prod.split sum.split)
  next
    case False
    have m: "guar kids (mod_run (\<lambda>r. r\<lparr>pr_cancel_errors := e r\<rparr>))" for e by (rule kids_run) simp
    show ?thesis using False guar_run [OF m, of s] kids.stays [of s]
      by (cases "pc_run s"; auto simp: send_cancel_def withst_def try_any_def lift_def split: option.split)
  qed
  then have c: "guar kids (send_cancel d a)" for a by (simp add: guar_def)
  show ?thesis unfolding send_cancels_def by (intro kids.g_handlers kids_base) (auto intro: c)
qed

lemma kids_abort: "(\<And>evs. guar kids (d evs)) \<Longrightarrow> guar kids (abort d l reason arm)"
  unfolding abort_def seqs.simps by (intro kids.g_handlers kids_run kids_base kids_cancels) simp_all

interpretation kids: pair_guarantee kids
proof
  fix s :: BimanualCoordinator
  show "kids s (s\<lparr>pc_w := (pc_w s)\<lparr>pw_n := Suc (pw_n (pc_w s))\<rparr>\<rparr>)" by (simp add: kids_def ids_def)
next
  fix d :: "(string \<times> pair_event) list \<Rightarrow> unit pair" and l reason arm
  assume "\<And>evs. guar kids (d evs)"
  then show "guar kids (abort d l reason arm)" by (rule kids_abort)
next
  fix d :: "(string \<times> pair_event) list \<Rightarrow> unit pair" and arm ev
  assume d: "\<And>evs. guar kids (d evs)"
  note ab = kids_abort [OF d]
  have c: "guar kids (event_cleared arm ev)" unfolding event_cleared_def by (rule kids_run) simp
  have st: "guar kids (event_staged d arm ev)" unfolding event_staged_def seqs.simps
    by (intro kids.g_handlers kids_run kids_base ab) simp_all
  have r: "guar kids (event_result d arm ev run)" for run unfolding event_result_def seqs.simps
    by (intro kids.g_handlers kids_run kids_base ab) simp_all
  have b: "guar kids (bound_event d arm ev run)" for run unfolding bound_event_def seqs.simps
    by (intro kids.g_handlers kids_base ab c st r)
  show "guar kids (member_step d arm ev)" unfolding member_step_def by (intro kids.g_handlers kids_base ab b)
next
  fix d :: "(string \<times> pair_event) list \<Rightarrow> unit pair" and s
  assume "\<And>evs. guar kids (d evs)"
  then show "kids s (snd (send_cancels d s))" by (rule guar_run [OF kids_cancels])
qed

end
