(* ===== verification/Pair_Coord.thy ===== *)
theory Pair_Coord
  imports Pair_Barrier
begin

text \<open>
  The invariant of the coordinator over whole conversations: staging and releasing keep it, and so does every call a
  host may make.
\<close>

subsection \<open>The invariant\<close>

definition wf_plan :: "BimanualPlan \<Rightarrow> bool" where
  "wf_plan plan \<longleftrightarrow> ap_arm_id (bp_left plan) \<noteq> ap_arm_id (bp_right plan) \<and> ap_plan_id (bp_left plan) \<noteq> ap_plan_id (bp_right plan)"

text \<open>The sessions of a run are those the arms had reported when the pair was taken on.\<close>

definition begun_with :: "pair_io list \<Rightarrow> PairRun \<Rightarrow> bool" where
  "begun_with io r \<longleftrightarrow> (\<exists>ss. PBegin (bp_pair_id (pr_plan r)) ss \<in> set io \<and>
     (\<forall>a session. map_of (pr_sessions r) a = Some session \<longrightarrow> map_of ss a = Some (Some session)))"

lemma begun_with_mono: "begun_with io r \<Longrightarrow> set io \<subseteq> set io' \<Longrightarrow> pr_plan r' = pr_plan r \<Longrightarrow> pr_sessions r' = pr_sessions r \<Longrightarrow> begun_with io' r'"
  by (auto simp: begun_with_def)

text \<open>Of the run that is held; \<open>sent\<close> are the legs whose staging calls have been made.\<close>

definition run_coord :: "(BimanualPlan \<Rightarrow> bool) \<Rightarrow> (string \<times> string) set \<Rightarrow> pair_io list \<Rightarrow> PairRun \<Rightarrow> bool" where
  "run_coord P sent io r \<longleftrightarrow> P (pr_plan r) \<and> begun_with io r \<and>
     (lc_aborted (pr_lifecycle r) \<longrightarrow> cancels_logged io (pr_plan r)) \<and>
     (lc_active (pr_lifecycle r) \<longrightarrow> (\<forall>(b, q) \<in> legs (pr_plan r). PCancel b q \<notin> set io) \<and> (\<forall>(b, q) \<in> sent. PStage b q \<in> set io)) \<and>
     (pr_lifecycle r \<in> {STAGING, READY} \<longrightarrow> (\<forall>(b, q) \<in> legs (pr_plan r). PExecute b q \<notin> set io))"

definition coord_sent :: "(BimanualPlan \<Rightarrow> bool) \<Rightarrow> (BimanualPlan \<Rightarrow> (string \<times> string) set) \<Rightarrow> BimanualCoordinator \<Rightarrow> bool" where
  "coord_sent P sent s \<longleftrightarrow> pinv s \<and> ids s \<and> barrier P (pc_io s) \<and> (\<forall>r. pc_run s = Some r \<longrightarrow> run_coord P (sent (pr_plan r)) (pc_io s) r)"

definition coord :: "(BimanualPlan \<Rightarrow> bool) \<Rightarrow> BimanualCoordinator \<Rightarrow> bool" where
  "coord P = coord_sent P legs"

subsection \<open>What keeps it\<close>

definition tame :: "BimanualCoordinator \<Rightarrow> BimanualCoordinator \<Rightarrow> bool" where
  "tame s t \<longleftrightarrow> quiet s t \<and> calm s t \<and> kpair s t \<and> kids s t"

interpretation tame: guarantee tame
proof
  show "tame s s" for s by (simp add: tame_def quiet.stays calm.stays kpair.stays kids.stays)
  show "tame s t \<Longrightarrow> tame t u \<Longrightarrow> tame s u" for s t u
    unfolding tame_def using quiet.chain calm.chain kpair.chain kids.chain by blast
qed

lemma tameI: "guar quiet m \<Longrightarrow> guar calm m \<Longrightarrow> guar kpair m \<Longrightarrow> guar kids m \<Longrightarrow> guar tame m"
  by (simp add: guar_def tame_def)

lemma tame_parts:
  "guar tame (ask f)" "guar tame (ask_result g)" "guar tame now_pair" "guar tame (deliver_events n evs)" "guar tame (poll a)"
  "guar tame (on_member_event a ev)" "guar tame check_timeouts" "guar tame pump" "guar tame (cancel_pair reason)" "guar tame checked_states" "guar tame (recheck run)"
  "l \<in> {PAIR_CANCELLED, PAIR_FAULTED, PAIR_REJECTED} \<Longrightarrow> guar tame (abort_pair l reason arm)"
  by (rule tameI; rule quiet.g_ask calm.g_ask kpair.g_ask kids.g_ask quiet.g_asks calm.g_asks kpair.g_asks kids.g_asks
    quiet.g_deliver calm.g_deliver kpair.g_deliver kids.g_deliver quiet.g_cancel calm.g_cancel kpair.g_cancel kids.g_cancel
    quiet.g_parts calm.g_parts kpair.g_parts kids.g_parts; assumption?)+

lemma run_coord_kept:
  assumes "run_coord P sent (pc_io s) r" and s: "pc_run s = Some r" "pinv s" and t: "quiet s t" "calm s t"
  shows "\<exists>r'. pc_run t = Some r' \<and> run_coord P sent (pc_io t) r'"
proof -
  obtain new where new: "pc_io t = pc_io s @ new" "list_all no_motion new" using t(1) by (auto simp: quiet_def)
  obtain r' where r': "pc_run t = Some r'" "pr_plan r' = pr_plan r" "pr_sessions r' = pr_sessions r"
      "lc_aborted (pr_lifecycle r') \<Longrightarrow> members_in (pr_plan r) (pc_arms s) \<Longrightarrow> lc_aborted (pr_lifecycle r) \<or> cancels_logged (pc_io t) (pr_plan r)"
    using t(1) s(1) by (auto simp: quiet_def)
  have m: "members_in (pr_plan r) (pc_arms s)" using s by (auto simp: pinv_def run_inv_def run_weak_def members_in_def)
  have ab: "cancels_logged (pc_io t) (pr_plan r)" if "lc_aborted (pr_lifecycle r')"
    using r'(4) [OF that m] assms(1) new cancels_logged_mono [of "pc_io s" "pr_plan r" "pc_io t"] by (auto simp: run_coord_def)
  have life: "event_step\<^sup>*\<^sup>* (pr_lifecycle r) (pr_lifecycle r')" using t(2) s(1) r'(1) by (simp add: calm_def lifecycle_def)
  have act: "lc_active (pr_lifecycle r) \<and> list_all is_event new" if "lc_active (pr_lifecycle r')"
    using that t(2) new(1) r'(1) event_steps_back [OF life that] by (auto simp: calm_def lifecycle_def)
  have ev: "PCancel b q \<notin> set new" "PExecute b q \<notin> set new" if "list_all is_event new" for b q
    using that by (auto simp: list_all_iff is_event_def split: pair_io.splits)
  have ex: "PExecute b q \<notin> set new" for b q using new(2) by (auto simp: list_all_iff)
  have early: "pr_lifecycle r \<in> {STAGING, READY}" if "pr_lifecycle r' \<in> {STAGING, READY}" using event_steps_active(2) [OF life that] .
  have "run_coord P sent (pc_io t) r'"
    unfolding run_coord_def r'(2) new(1)
  proof (intro conjI impI)
    show "P (pr_plan r)" using assms(1) by (simp add: run_coord_def)
    show "begun_with (pc_io s @ new) r'" by (rule begun_with_mono [of "pc_io s" r]) (use assms(1) r' in \<open>auto simp: run_coord_def\<close>)
    show "cancels_logged (pc_io s @ new) (pr_plan r)" if "lc_aborted (pr_lifecycle r')" using ab [OF that] new(1) by simp
    show "\<forall>(b, q) \<in> legs (pr_plan r). PCancel b q \<notin> set (pc_io s @ new)" "\<forall>(b, q) \<in> sent. PStage b q \<in> set (pc_io s @ new)"
      if "lc_active (pr_lifecycle r')" using act [OF that] ev assms(1) by (auto simp: run_coord_def)
    show "\<forall>(b, q) \<in> legs (pr_plan r). PExecute b q \<notin> set (pc_io s @ new)" if "pr_lifecycle r' \<in> {STAGING, READY}"
      using early [OF that] ex assms(1) by (auto simp: run_coord_def)
  qed
  then show ?thesis using r'(1) by blast
qed

lemma coord_kept:
  assumes "coord_sent P sent s" "tame s t"
  shows "coord_sent P sent t"
proof -
  have t: "quiet s t" "calm s t" "kpair s t" "kids s t" using assms(2) by (simp_all add: tame_def)
  have inv: "pinv s" "ids s" "barrier P (pc_io s)" using assms(1) by (simp_all add: coord_sent_def)
  obtain new where new: "pc_io t = pc_io s @ new" "list_all no_motion new" using t(1) by (auto simp: quiet_def)
  have "run_coord P (sent (pr_plan r')) (pc_io t) r'" if "pc_run t = Some r'" for r'
  proof (cases "pc_run s")
    case None
    then show ?thesis using t(1) that by (simp add: quiet_def)
  next
    case (Some r)
    have "pr_plan r' = pr_plan r" using quiet_run [OF t(1) Some] that by auto
    then show ?thesis using run_coord_kept [OF _ Some inv(1) t(1,2)] assms(1) Some that by (fastforce simp: coord_sent_def)
  qed
  then show ?thesis using inv t(3,4) barrier_append [OF inv(3) no_motion_execute [OF new(2)]] new(1)
    by (simp add: coord_sent_def kpair_def kids_def)
qed

lemma coord_run: "guar tame m \<Longrightarrow> coord_sent P sent s \<Longrightarrow> coord_sent P sent (snd (m s))"
  using guar_run [of tame m s] coord_kept by blast

subsection \<open>Staging\<close>

lemma abort_ends:
  assumes "l \<in> {PAIR_CANCELLED, PAIR_FAULTED, PAIR_REJECTED}"
  shows "\<not> lc_active (lifecycle (snd (abort_pair l reason arm s)))"
proof (cases "lc_active (lifecycle s)")
  case True
  have l: "\<not> lc_active l" using assms by (auto simp: lc_active_def)
  have "guar settled (deliver_events 0 evs)" for evs by (rule guar_mono [OF calm.g_deliver calm_settled])
  then have "guar settled (bindst (send_cancels (deliver_events 0)) (\<lambda>_. finish_pair))" by (intro settled.g_rules settled_cancels settled_finish)
  from guar_run [OF this, of "aborted_at l reason arm s"] aborted_over [OF l, of reason arm s] show ?thesis
    by (simp add: abort_pair_def abort_active [OF True] settled_def over_def)
qed (simp add: abort_pair_def abort_inactive)

text \<open>When the pair is over, no staging call is owed.\<close>

lemma coord_over: "coord_sent P sent s \<Longrightarrow> \<not> lc_active (lifecycle s) \<Longrightarrow> coord_sent P sent' s"
  by (auto simp: coord_sent_def run_coord_def lifecycle_def)

lemma run_coord_snoc:
  assumes "run_coord P sent io r" "\<And>b q. PCancel b q \<noteq> x" "\<And>b q. PExecute b q \<noteq> x"
    and "lc_active (pr_lifecycle r) \<Longrightarrow> \<forall>(b, q) \<in> sent'. PStage b q \<in> set (io @ [x])"
  shows "run_coord P sent' (io @ [x]) r"
proof -
  have "lc_aborted (pr_lifecycle r) \<longrightarrow> cancels_logged (io @ [x]) (pr_plan r)"
    using assms(1) cancels_logged_mono [of io "pr_plan r" "io @ [x]"] by (auto simp: run_coord_def)
  moreover have "\<forall>(b, q) \<in> legs (pr_plan r). PCancel b q \<notin> set (io @ [x])" if "lc_active (pr_lifecycle r)" using assms(1,2) that by (simp add: run_coord_def)
  moreover have "\<forall>(b, q) \<in> legs (pr_plan r). PExecute b q \<notin> set (io @ [x])" if "pr_lifecycle r \<in> {STAGING, READY}" using assms(1,3) that by (auto simp: run_coord_def)
  moreover have "begun_with (io @ [x]) r" by (rule begun_with_mono [of io r]) (use assms(1) in \<open>auto simp: run_coord_def\<close>)
  ultimately show ?thesis using assms(1,4) unfolding run_coord_def by blast
qed

lemma coord_called:
  assumes "coord_sent P sent s" "\<not> is_execute io" "io_plan io = {}" "\<And>r. pc_run s = Some r \<Longrightarrow> lc_active (pr_lifecycle r) \<Longrightarrow> \<forall>(b, q) \<in> sent' (pr_plan r). PStage b q \<in> set (pc_io s @ [io])"
  shows "coord_sent P sent' (called io s)"
proof -
  have io: "PCancel b q \<noteq> io" "PExecute b q \<noteq> io" for b q using assms(2,3) by auto
  have inv: "pinv s" "ids s" "barrier P (pc_io s)" using assms(1) by (simp_all add: coord_sent_def)
  have "pinv (called io s)" using guar_run [OF kpair_log, of s io] inv(1) by (simp add: kpair_def log_io_def run_simps called_def pinv_def)
  moreover have "ids (called io s)" using inv(2) assms(3) by (auto simp: ids_def called_def)
  moreover have "barrier P (pc_io (called io s))" using barrier_append [OF inv(3), of "[io]"] assms(2) by (simp add: called_def)
  moreover have "run_coord P (sent' (pr_plan r)) (pc_io (called io s)) r" if "pc_run s = Some r" for r
  proof -
    have "run_coord P (sent (pr_plan r)) (pc_io s) r" using assms(1) that by (simp add: coord_sent_def)
    from run_coord_snoc [OF this io assms(4) [OF that]] show ?thesis by (simp add: called_def)
  qed
  ultimately show ?thesis by (simp add: coord_sent_def called_def)
qed

lemma stage_members_coord:
  assumes "coord_sent P (\<lambda>_. sent) s" "pc_run s = Some r" "legs (pr_plan r) \<subseteq> sent \<union> (\<lambda>(a, m). (a, ap_plan_id m)) ` set ms"
  shows "coord P (snd (stage_members ms s))"
  using assms
proof (induction ms arbitrary: s sent r)
  case Nil
  have "coord_sent P legs s" using Nil unfolding coord_sent_def run_coord_def by auto
  then show ?case by (simp add: ret_def coord_def)
next
  case (Cons m ms)
  let ?io = "PStage (fst m) (ap_plan_id (snd m))" and ?sent = "insert (fst m, ap_plan_id (snd m)) sent"
  obtain x t where t: "call (deliver_events 1) ?io s = (x, t)" by fastforce
  obtain evs where evs: "t = snd (deliver_events 1 evs (called ?io s))" using call_state [of "deliver_events 1" ?io s] t by auto
  have c: "coord_sent P (\<lambda>_. ?sent) (called ?io s)"
  proof (rule coord_called [OF Cons.prems(1)])
    show "\<forall>(b, q) \<in> ?sent. PStage b q \<in> set (pc_io s @ [?io])" if "pc_run s = Some r'" "lc_active (pr_lifecycle r')" for r'
      using Cons.prems(1) that by (auto simp: coord_sent_def run_coord_def)
  qed simp_all
  from coord_run [OF tame_parts(4) c] have ct: "coord_sent P (\<lambda>_. ?sent) t" by (simp add: evs)
  obtain r' where r': "pc_run t = Some r'" "pr_plan r' = pr_plan r"
    using quiet_run [OF guar_run [OF quiet.g_deliver], of "called ?io s" r 1 evs] Cons.prems(2) by (auto simp: evs called_def)
  have sub: "legs (pr_plan r') \<subseteq> ?sent \<union> (\<lambda>(a, m). (a, ap_plan_id m)) ` set ms" using Cons.prems(3) r'(2) by (auto split: prod.splits)
  show ?case
  proof (cases x)
    case (Inl e)
    obtain z u where u: "abort_pair PAIR_REJECTED (fst m @ '': staging failed: '' @ err_text e) (Some (fst m)) t = (z, u)" by fastforce
    have "coord_sent P legs (snd (abort_pair PAIR_REJECTED (fst m @ '': staging failed: '' @ err_text e) (Some (fst m)) t))"
      by (rule coord_over [OF coord_run [OF tame_parts(12) ct] abort_ends]) simp_all
    then show ?thesis unfolding u using t Inl u by (cases z) (simp_all add: bindst_def try_any_def run_simps coord_def)
  next
    case (Inr y)
    then show ?thesis using t Cons.IH [OF ct r'(1) sub] coord_over [OF ct, of legs]
      by (simp add: bindst_def try_any_def run_simps coord_def)
  qed
qed

text \<open>The state in which the staging calls of a new pair begin.\<close>

definition begun :: "BimanualPlan \<Rightarrow> fl \<Rightarrow> (string \<times> ArmControlState) list \<Rightarrow> BimanualCoordinator \<Rightarrow> BimanualCoordinator" where
  "begun plan now sts s = s\<lparr>pc_w := (pc_w s)\<lparr>pw_n := Suc (pw_n (pc_w s))\<rparr>, pc_run := Some (new_run plan now sts),
     pc_io := pc_io s @ [PBegin (bp_pair_id plan) (map (\<lambda>(a, st). (a, acs_session_id st)) sts)],
     pc_consumed_pair_ids := insert (bp_pair_id plan) (pc_consumed_pair_ids s),
     pc_consumed_plan_ids := (\<lambda>m. ap_plan_id (snd m)) ` set (members plan) \<union> pc_consumed_plan_ids s\<rparr>"

lemma begun_run_with:
  assumes "\<forall>(a, st) \<in> set sts. acs_session_id st \<noteq> None"
  shows "begun_with (io @ [PBegin (bp_pair_id plan) (map (\<lambda>(a, st). (a, acs_session_id st)) sts)]) (new_run plan now sts)"
proof -
  have "map_of (map (\<lambda>(a, st). (a, acs_session_id st)) sts) a = Some (Some session)"
    if "map_of (map (\<lambda>(a, st). (a, the (acs_session_id st))) sts) a = Some session" for a session
    using that assms by (induction sts) (auto split: if_splits)
  then show ?thesis unfolding begun_with_def by (intro exI [of _ "map (\<lambda>(a, st). (a, acs_session_id st)) sts"]) (simp add: new_run_def)
qed

lemma begun_coord:
  assumes s: "coord P s" and plan: "P plan" "fst ` set (members plan) = set (pc_arms s)"
    and fresh: "\<not> list_ex (\<lambda>m. ap_plan_id (snd m) \<in> pc_consumed_plan_ids s) (members plan)"
    and sts: "\<forall>(a, st) \<in> set sts. acs_session_id st \<noteq> None"
  shows "coord_sent P (\<lambda>_. {}) (begun plan now sts s)"
proof -
  let ?r = "new_run plan now sts"
  let ?io = "pc_io s @ [PBegin (bp_pair_id plan) (map (\<lambda>(a, st). (a, acs_session_id st)) sts)]"
  have inv: "pinv s" "ids s" "barrier P (pc_io s)" using s by (simp_all add: coord_def coord_sent_def)
  have bar: "barrier P ?io" by (rule barrier_append [OF inv(3)]) simp
  have r: "pr_plan ?r = plan" "pr_lifecycle ?r = STAGING" "pr_stage_acks ?r = []" "pr_results ?r = []" by (simp_all add: new_run_def)
  have "run_inv (pc_arms s) ?io ?r" using plan(2) r by (simp add: run_inv_def run_weak_def keyed_def)
  then have "pinv (begun plan now sts s)" using inv(1) by (simp add: pinv_def begun_def)
  moreover have "q \<in> (\<lambda>m. ap_plan_id (snd m)) ` set (members plan)" if "(b, q) \<in> legs plan" for b q using that by (force simp: legs_def)
  then have "ids (begun plan now sts s)" using inv(2) r unfolding ids_def begun_def by auto
  moreover have new: "PCancel b q \<notin> set (pc_io s) \<and> PExecute b q \<notin> set (pc_io s)" if "(b, q) \<in> legs plan" for b q
  proof -
    have "q \<notin> pc_consumed_plan_ids s" using fresh that by (force simp: legs_def list_ex_iff)
    then show ?thesis using inv(2) unfolding ids_def by fastforce
  qed
  ultimately show ?thesis using bar plan(1) r begun_run_with [OF sts, of "pc_io s" plan now] by (auto simp: coord_sent_def run_coord_def begun_def)
qed

text \<open>What is checked before a pair is taken on, and what happens when it is.\<close>

definition stage_refused :: "BimanualPlan \<Rightarrow> BimanualCoordinator \<Rightarrow> bool" where
  "stage_refused plan s \<longleftrightarrow> (case pc_run s of None \<Rightarrow> False | Some r \<Rightarrow> lc_active (pr_lifecycle r) \<or> pr_pending_cancels r \<noteq> {}) \<or>
     fst ` set (members plan) \<noteq> set (pc_arms s) \<or> bp_pair_id plan \<in> pc_consumed_pair_ids s \<or>
     list_ex (\<lambda>m. ap_plan_id (snd m) \<in> pc_consumed_plan_ids s) (members plan)"

definition stage_checks :: "BimanualCoordinator \<Rightarrow> BimanualPlan \<Rightarrow> (string \<times> ArmControlState) list pair" where
  "stage_checks s plan = bindst checked_states (\<lambda>sts. bindst (lift (mapr (free_member sts) (members plan)))
     (\<lambda>_. bindst (whenst (pc_admission s) (ask_result pw_admit)) (\<lambda>_. ret sts)))"

lemma stage_checks_tame: "guar tame (stage_checks s plan)"
  unfolding stage_checks_def by (intro tame.g_rules tame_parts)

lemma check_arm_session: "check_arm now timeout x = Inr y \<Longrightarrow> acs_session_id (snd x) \<noteq> None"
  by (cases "acs_session_id (snd x)") (simp_all add: check_arm_def Let_def bindr_def ensure_def)

lemma checked_sessions:
  assumes "checked_states s = (Inr sts, u)"
  shows "\<forall>(a, st) \<in> set sts. acs_session_id st \<noteq> None"
proof -
  obtain now timeout oks where "mapr (check_arm now timeout) sts = Inr oks" using assms
    by (auto simp: checked_states_def bindst_def withst_def lift_def ret_def Let_def split: prod.splits sum.splits)
  then have "\<exists>y. check_arm now timeout x = Inr y" if "x \<in> set sts" for x using that mapr_Inr_nth by (metis in_set_conv_nth)
  then show ?thesis using check_arm_session [of now timeout] by (auto simp: split_beta)
qed

lemma stage_checks_sessions:
  assumes "stage_checks s plan s = (Inr sts, u)"
  shows "\<forall>(a, st) \<in> set sts. acs_session_id st \<noteq> None"
proof -
  obtain x v where x: "checked_states s = (x, v)" by fastforce
  then have "x = Inr sts" using assms by (cases x) (auto simp: stage_checks_def bindst_def ret_def lift_def split: prod.splits sum.splits)
  then show ?thesis using checked_sessions x by blast
qed

lemma stage_pair_refused: "stage_refused plan s \<Longrightarrow> snd (stage_pair plan s) = s"
  unfolding stage_pair_def withst_def stage_refused_def by (auto simp: lift_def)

lemma stage_pair_begun:
  assumes "\<not> stage_refused plan s" "stage_checks s plan s = (x, u)"
  shows "stage_pair plan s = (case x of Inl e \<Rightarrow> (Inl e, u)
    | Inr sts \<Rightarrow> stage_members (members plan) (begun plan (pw_clock (pc_w u) (pw_n (pc_w u))) sts u))"
proof -
  have "stage_pair plan s = bindst (stage_checks s plan) (\<lambda>sts.
     bindst (modst (\<lambda>s. s\<lparr>pc_consumed_pair_ids := insert (bp_pair_id plan) (pc_consumed_pair_ids s),
       pc_consumed_plan_ids := (\<lambda>m. ap_plan_id (snd m)) ` set (members plan) \<union> pc_consumed_plan_ids s\<rparr>)) (\<lambda>_.
     bindst now_pair (\<lambda>now.
     bindst (modst (\<lambda>s. s\<lparr>pc_run := Some (new_run plan now sts), pc_io := pc_io s @ [PBegin (bp_pair_id plan) (map (\<lambda>(a, st). (a, acs_session_id st)) sts)]\<rparr>)) (\<lambda>_.
     stage_members (members plan))))) s"
    using assms(1) unfolding stage_pair_def withst_def stage_checks_def stage_refused_def
    by (auto simp: bindst_def ret_def split: prod.split sum.split)
  then show ?thesis using assms(2) by (cases u; cases x) (simp_all add: bindst_def modst_def now_pair_def ask_def begun_def)
qed

lemma stage_pair_coord:
  assumes s: "coord P s" and plan: "P plan"
  shows "coord P (snd (stage_pair plan s))"
proof (cases "stage_refused plan s")
  case True
  then show ?thesis using s by (simp add: stage_pair_refused)
next
  case False
  obtain x u where u: "stage_checks s plan s = (x, u)" by fastforce
  have "tame s u" using guar_run [OF stage_checks_tame, of s s plan] u by simp
  then have cu: "coord P u" and same: "pc_arms u = pc_arms s" "pc_consumed_plan_ids u = pc_consumed_plan_ids s"
    using coord_kept [of P legs s u] s by (simp_all add: coord_def tame_def quiet_def)
  show ?thesis
  proof (cases x)
    case (Inl e)
    then show ?thesis using stage_pair_begun [OF False u] cu by simp
  next
    case (Inr sts)
    let ?b = "begun plan (pw_clock (pc_w u) (pw_n (pc_w u))) sts u"
    have "coord_sent P (\<lambda>_. {}) ?b" using False same stage_checks_sessions [of s plan sts u] u Inr by (intro begun_coord [OF cu plan]) (simp_all add: stage_refused_def)
    then have "coord P (snd (stage_members (members plan) ?b))"
      by (rule stage_members_coord) (auto simp: begun_def new_run_def legs_def)
    then show ?thesis using stage_pair_begun [OF False u] Inr by simp
  qed
qed

subsection \<open>Releasing\<close>

lemma members_legs: "(a, m) \<in> set (members plan) \<Longrightarrow> (a, ap_plan_id m) \<in> legs plan"
  by (force simp: legs_def)

text \<open>An executing pair has heard both acknowledgements.\<close>

lemma executing_heard:
  assumes "pinv s" "pc_run s = Some r" "pr_lifecycle r = EXECUTING" "(b, q) \<in> legs (pr_plan r)"
  shows "\<exists>session. map_of (pr_sessions r) b = Some session \<and> heard (pc_io s) ''plan_staged'' b q session"
proof -
  have inv: "run_weak (pc_arms s) (pc_io s) r" using assms(1,2) by (simp add: pinv_def run_inv_def)
  obtain m where m: "(b, m) \<in> set (members (pr_plan r))" "q = ap_plan_id m" using assms(4) by (auto simp: legs_def)
  then have mo: "map_of (members (pr_plan r)) b = Some m" using members_distinct by simp
  have "fst ` set (members (pr_plan r)) = set (pc_arms s)" using inv by (simp add: run_weak_def)
  then have "b \<in> set (pc_arms s)" using m(1) by force
  then obtain why where "map_of (pr_stage_acks r) b = Some (True, why)" using inv assms(3) by (auto simp: run_weak_def all_ok_def)
  then have "heard_by (pc_io s) ''plan_staged'' r b" using inv by (auto simp: run_weak_def)
  then show ?thesis using mo m(2) by (auto simp: heard_by_def)
qed

lemma coord_released:
  assumes s: "coord P s" "pc_run s = Some r" "pr_lifecycle r = EXECUTING" and leg: "(a, p) \<in> legs (pr_plan r)" and first: "PExecute a p \<notin> set (pc_io s)"
  shows "coord P (called (PExecute a p) s)"
proof -
  let ?io = "PExecute a p"
  have inv: "pinv s" "ids s" "barrier P (pc_io s)" "run_coord P (legs (pr_plan r)) (pc_io s) r" using s(1,2) by (simp_all add: coord_def coord_sent_def)
  obtain ss where ss: "PBegin (bp_pair_id (pr_plan r)) ss \<in> set (pc_io s)" "\<forall>a session. map_of (pr_sessions r) a = Some session \<longrightarrow> map_of ss a = Some (Some session)"
    using inv(4) by (auto simp: run_coord_def begun_with_def)
  have "may_release P (pc_io s) a p" unfolding may_release_def
  proof (intro conjI exI [of _ "pr_plan r"] exI [of _ ss] ballI)
    fix x
    assume "x \<in> legs (pr_plan r)"
    then show "case x of (b, q) \<Rightarrow> PStage b q \<in> set (pc_io s) \<and> PCancel b q \<notin> set (pc_io s) \<and>
        (\<exists>session. map_of ss b = Some (Some session) \<and> heard (pc_io s) ''plan_staged'' b q session)"
      using inv(4) s(3) executing_heard [OF inv(1) s(2,3)] ss(2) by (fastforce simp: run_coord_def lc_active_def)
  qed (use first leg inv(4) ss(1) in \<open>simp_all add: run_coord_def\<close>)
  then have b: "barrier P (pc_io s @ [?io])" by (intro barrier_snoc [OF inv(3)]) simp
  have i: "ids (called ?io s)" using inv(2) leg s(2) by (auto simp: ids_def called_def)
  have "pinv (called ?io s)" using guar_run [OF kpair_log, of s ?io] inv(1) by (simp add: kpair_def log_io_def run_simps called_def pinv_def)
  moreover have "run_coord P (legs (pr_plan r)) (pc_io s @ [?io]) r" using inv(4) s(3) by (auto simp: run_coord_def lc_active_def begun_with_def)
  ultimately show ?thesis using b i s(2) by (simp add: coord_def coord_sent_def called_def)
qed

text \<open>One release: whatever ends it, no further leg has been executed.\<close>

definition run_of :: "BimanualPlan \<Rightarrow> BimanualCoordinator \<Rightarrow> bool" where
  "run_of plan s \<longleftrightarrow> (\<exists>r. pc_run s = Some r \<and> pr_plan r = plan)"

lemma tame_releases: "guar tame (mod_run (\<lambda>r. r\<lparr>pr_releases := f r\<rparr>))"
  by (rule tameI) (auto intro!: quiet_mod_run calm_run kpair_mod_run kids_run simp: run_same_def)

lemma release_member_tame: "tame (called (PExecute (fst m) (ap_plan_id (snd m))) s) (snd (release_member m s))"
proof -
  let ?io = "PExecute (fst m) (ap_plan_id (snd m))"
  define rest where "rest = bindst (bindst now_pair (\<lambda>t. mod_run (\<lambda>r. r\<lparr>pr_releases := dict_put (fst m) t (pr_releases r)\<rparr>))) (\<lambda>_. poll (fst m))"
  have g: "guar tame rest" unfolding rest_def by (intro tame.g_rules tame_parts tame_releases)
  have eq: "release_member m = bindst (call (deliver_events 1) ?io) (\<lambda>_. rest)" unfolding release_member_def rest_def seqs.simps bindst_ret_unit ..
  obtain evs where evs: "snd (call (deliver_events 1) ?io s) = snd (deliver_events 1 evs (called ?io s))" using call_state by blast
  have t: "tame (called ?io s) (snd (call (deliver_events 1) ?io s))" unfolding evs by (rule guar_run [OF tame_parts(4)])
  show ?thesis unfolding eq using t tame.chain [OF t guar_run [OF g]]
    by (auto simp: bindst_def split: prod.split sum.split)
qed

lemma release_members_coord:
  assumes "coord P s" "lifecycle s = EXECUTING" "run_of plan s" "set ms \<subseteq> set (members plan)" "distinct (map (\<lambda>m. ap_plan_id (snd m)) ms)"
    and "\<forall>m \<in> set ms. PExecute (fst m) (ap_plan_id (snd m)) \<notin> set (pc_io s)"
  shows "coord P (snd (release_members arm ms s))"
  using assms
proof (induction ms arbitrary: s arm)
  case Nil
  then show ?case by (simp add: ret_def)
next
  case (Cons m ms)
  let ?io = "PExecute (fst m) (ap_plan_id (snd m))"
  obtain x t where t: "release_member m s = (x, t)" by fastforce
  obtain r where r: "pc_run s = Some r" "pr_plan r = plan" using Cons.prems(3) by (auto simp: run_of_def)
  have leg: "(fst m, ap_plan_id (snd m)) \<in> legs (pr_plan r)" using Cons.prems(4) r(2) by (intro members_legs) simp
  have c: "coord P (called ?io s)" using Cons.prems(2,6) r(1) by (intro coord_released [OF Cons.prems(1) r(1) _ leg]) (simp_all add: lifecycle_def)
  have tame: "tame (called ?io s) t" using release_member_tame [of m s] t by simp
  have ct: "coord P t" using coord_kept [OF c [unfolded coord_def] tame] by (simp add: coord_def)
  have q: "quiet (called ?io s) t" using tame by (simp add: tame_def)
  obtain new where new: "pc_io t = pc_io s @ ?io # new" "list_all no_motion new" using q by (auto simp: quiet_def called_def)
  have plan: "run_of plan t" using quiet_run [OF q, of r] r by (simp add: run_of_def called_def)
  have rest: "\<forall>m' \<in> set ms. PExecute (fst m') (ap_plan_id (snd m')) \<notin> set (pc_io t)"
  proof
    fix m'
    assume m': "m' \<in> set ms"
    have "PExecute (fst m') (ap_plan_id (snd m')) \<notin> set new" using new(2) by (auto simp: list_all_iff)
    moreover have "ap_plan_id (snd m) \<notin> (\<lambda>m. ap_plan_id (snd m)) ` set ms" using Cons.prems(5) by simp
    then have "ap_plan_id (snd m') \<noteq> ap_plan_id (snd m)" using m' by (metis image_eqI)
    ultimately show "PExecute (fst m') (ap_plan_id (snd m')) \<notin> set (pc_io t)" using Cons.prems(6) m' new(1) by simp
  qed
  have "coord P (snd (release_members a ms t))" if "lifecycle t = EXECUTING" for a
    using Cons.prems(4,5) by (intro Cons.IH [OF ct that plan _ _ rest]) simp_all
  then show ?case using t ct by (cases x) (simp_all add: bindst_def try_any_def run_simps)
qed

text \<open>Reading the arms and asking for admission tell nobody anything.\<close>

definition idle :: "BimanualCoordinator \<Rightarrow> BimanualCoordinator \<Rightarrow> bool" where
  "idle s t \<longleftrightarrow> pc_run t = pc_run s \<and> pc_io t = pc_io s"

interpretation idle: guarantee idle
  by unfold_locales (simp_all add: idle_def)

lemma idle_ask: "guar idle (ask f)" "guar idle (ask_result g)" "guar idle now_pair"
proof -
  show a: "guar idle (ask f)" for f :: "pair_world \<Rightarrow> nat \<Rightarrow> 'x" by (simp add: guar_def ask_def idle_def)
  show "guar idle (ask_result g)" "guar idle now_pair" unfolding ask_result_def now_pair_def by (intro idle.g_rules a)+
qed

lemma idle_recheck: "guar idle (recheck run)"
  unfolding recheck_def check_run_def checked_states_def Let_def arm_states_def observe_arm_def by (intro idle.g_handlers idle_ask)

lemma release_pair_coord:
  assumes s: "coord P s" "pc_run s = Some r" "pr_lifecycle r = EXECUTING" and wf: "wf_plan (pr_plan r)" and run: "pr_plan run = pr_plan r"
    and first: "\<forall>(b, q) \<in> legs (pr_plan r). PExecute b q \<notin> set (pc_io s)"
  shows "coord P (snd (release_pair run s))"
proof -
  obtain h u where h: "ask_result pw_hook s = (h, u)" by fastforce
  have cu: "coord P u" using coord_run [OF tame_parts(2), of P legs s pw_hook] s(1) h by (simp add: coord_def)
  have iu: "pc_run u = Some r" "pc_io u = pc_io s" using guar_run [OF idle_ask(2), of s pw_hook] h s(2) by (simp_all add: idle_def)
  have rel: "coord P (snd (release_members None (members (pr_plan r)) u))"
  proof (rule release_members_coord [OF cu])
    show "\<forall>m \<in> set (members (pr_plan r)). PExecute (fst m) (ap_plan_id (snd m)) \<notin> set (pc_io u)"
      using first iu(2) members_legs by fastforce
  qed (use iu s(3) wf in \<open>auto simp: lifecycle_def run_of_def wf_plan_def members_def\<close>)
  have fin: "coord P (snd (abort_pair PAIR_FAULTED why arm t))" if "coord P t" for t why arm
    using that coord_run [OF tame_parts(12), of PAIR_FAULTED P legs t] by (simp add: coord_def)
  show ?thesis
  proof (cases h)
    case (Inl e)
    then show ?thesis using h fin [OF cu] run
      by (simp add: release_pair_def bindst_def try_any_def run_simps)
  next
    case (Inr x)
    obtain z v where z: "release_members None (members (pr_plan r)) u = (z, v)" by fastforce
    have cv: "coord P v" using rel z by simp
    show ?thesis
    proof (cases z)
      case (Inl e)
      then show ?thesis using h Inr z cv run by (simp add: release_pair_def bindst_def try_any_def run_simps)
    next
      case z': (Inr ax)
      obtain arm y where ax: "ax = (arm, y)" by (cases ax)
      obtain k w where k: "ask_result pw_hook v = (k, w)" by fastforce
      have cw: "coord P w" using coord_run [OF tame_parts(2), of P legs v pw_hook] cv k by (simp add: coord_def)
      show ?thesis using h Inr z z' ax k run fin [OF cw] cw
        by (cases k; cases y) (auto simp: release_pair_def bindst_def try_any_def run_simps)
    qed
  qed
qed

lemma execute_pair_coord:
  assumes s: "coord P s" and wf: "\<And>plan. P plan \<Longrightarrow> wf_plan plan"
  shows "coord P (snd (execute_pair i s))"
proof (cases "\<exists>r. pc_run s = Some r \<and> bp_pair_id (pr_plan r) = i \<and> pr_lifecycle r = READY")
  case False
  then have "snd (execute_pair i s) = s"
    by (cases "pc_run s") (auto simp: execute_pair_def require_run_def bindst_def run_simps)
  then show ?thesis using s by simp
next
  case True
  then obtain r where r: "pc_run s = Some r" "bp_pair_id (pr_plan r) = i" "pr_lifecycle r = READY" by blast
  obtain x t where t: "recheck r s = (x, t)" by fastforce
  have it: "pc_run t = Some r" "pc_io t = pc_io s" using guar_run [OF idle_recheck, of s r] t r(1) by (simp_all add: idle_def)
  have ct: "coord P t" using coord_run [OF tame_parts(11), of P legs s r] s t by (simp add: coord_def)
  show ?thesis
  proof (cases x)
    case (Inl e)
    obtain z u where u: "abort_pair PAIR_REJECTED (err_text e) None t = (z, u)" by fastforce
    have "coord P (snd (abort_pair PAIR_REJECTED (err_text e) None t))" using coord_run [OF tame_parts(12), of PAIR_REJECTED P legs t] ct by (simp add: coord_def)
    then have "coord P u" by (simp add: u)
    then show ?thesis using r t u Inl
      by (cases z) (simp_all add: execute_pair_def require_run_def bindst_def run_simps try_any_def)
  next
    case (Inr y)
    let ?r = "r\<lparr>pr_lifecycle := EXECUTING\<rparr>" and ?t = "t\<lparr>pc_run := Some (r\<lparr>pr_lifecycle := EXECUTING\<rparr>)\<rparr>"
    have inv: "pinv t" "ids t" "barrier P (pc_io t)" "run_coord P (legs (pr_plan r)) (pc_io t) r" using ct it(1) by (simp_all add: coord_def coord_sent_def)
    have "run_inv (pc_arms t) (pc_io t) ?r" using inv(1) it(1) r(3)
      unfolding pinv_def run_inv_def run_weak_def heard_by_def reported_def by (simp add: lc_active_def)
    then have "pinv ?t" using inv(1) by (simp add: pinv_def)
    moreover have "ids ?t" using inv(2) it(1) by (simp add: ids_def)
    moreover have "run_coord P (legs (pr_plan ?r)) (pc_io t) ?r" using inv(4) r(3) by (simp add: run_coord_def lc_active_def begun_with_def)
    ultimately have "coord P ?t" using inv(3) by (simp add: coord_def coord_sent_def)
    then have "coord P (snd (release_pair r ?t))"
      by (rule release_pair_coord [where r = ?r]) (use inv(4) r(3) wf in \<open>auto simp: run_coord_def\<close>)
    moreover have "execute_pair i s = release_pair r ?t"
      using r t it Inr by (simp add: execute_pair_def require_run_def bindst_def run_simps try_any_def mod_run_def split: prod.split sum.split)
    ultimately show ?thesis by simp
  qed
qed

end
