(* ===== verification/Pair_Claims.thy ===== *)
theory Pair_Claims
  imports Pair_Coord
begin

text \<open>
  What the coordinator of a pair promises, for every sequence of calls of its host and every behaviour of its arms,
  with the runs of one pair at which the promises are applied.
\<close>

subsection \<open>Every reachable state\<close>

definition requested :: "pair_op list \<Rightarrow> BimanualPlan \<Rightarrow> bool" where
  "requested ops plan \<longleftrightarrow> wf_plan plan \<and> OStage (bp_pair_id plan) (bp_left plan) (bp_right plan) \<in> set ops"

lemma pair_call_coord:
  assumes "coord P s" "\<And>plan. P plan \<Longrightarrow> wf_plan plan" "\<And>i l r. op = OStage i l r \<Longrightarrow> wf_plan \<lparr>bp_pair_id = i, bp_left = l, bp_right = r\<rparr> \<Longrightarrow> P \<lparr>bp_pair_id = i, bp_left = l, bp_right = r\<rparr>"
  shows "coord P (snd (pair_call op s))"
proof (cases op)
  case (OStage i l r)
  define made where "made = bindr (mk_ArmPlan l) (\<lambda>l. bindr (mk_ArmPlan r) (\<lambda>r. mk_BimanualPlan i l r))"
  have eq: "pair_call op = bindst (lift made) stage_pair" by (simp add: OStage made_def)
  show ?thesis
  proof (cases made)
    case (Inl e)
    then show ?thesis using assms(1) eq by (simp add: bindst_def lift_def)
  next
    case (Inr plan)
    then have "plan = \<lparr>bp_pair_id = i, bp_left = l, bp_right = r\<rparr>" "wf_plan plan"
      unfolding made_def by (auto simp: mk_ArmPlan_def mk_BimanualPlan_def wf_plan_def ensure_def bindr_def split: sum.splits if_splits)
    then show ?thesis using stage_pair_coord [OF assms(1), of plan] assms(3) [OF OStage] Inr eq by (simp add: bindst_def lift_def)
  qed
next
  case OListen
  then show ?thesis using assms(1)
    by (simp add: on_pair_result_def modst_def coord_def coord_sent_def pinv_def ids_def)
qed (use assms(1) execute_pair_coord [OF assms(1,2)] coord_run [OF tame_parts(9), of P legs s] coord_run [OF tame_parts(6), of P legs s]
      coord_run [OF tame_parts(7), of P legs s] coord_run [OF tame_parts(8), of P legs s] in \<open>simp_all add: coord_def\<close>)

lemma fresh_coord: "mk_BimanualCoordinator w arms st mt adm = Inr s \<Longrightarrow> distinct (map fst arms) \<Longrightarrow> coord P s"
  by (auto simp: mk_BimanualCoordinator_def bindr_def ensure_def coord_def coord_sent_def pinv_def ids_def barrier_def split: sum.splits if_splits)

lemma reachable_coord:
  assumes "mk_BimanualCoordinator w arms st mt adm = Inr s" "distinct (map fst arms)"
  shows "coord (requested ops) (pair_after ops s)"
proof -
  have "coord (requested all) (fold (\<lambda>op s. snd (pair_call op s)) xs u)" if "set xs \<subseteq> set all" "coord (requested all) u" for xs u all
    using that
  proof (induction xs arbitrary: u)
    case (Cons x xs)
    have "coord (requested all) (snd (pair_call x u))" using Cons.prems(1) by (intro pair_call_coord [OF Cons.prems(2)]) (auto simp: requested_def)
    then show ?case using Cons by simp
  qed simp
  from this [of ops ops s] fresh_coord [OF assms] show ?thesis by (simp add: pair_after_def)
qed

lemma legs_wf: "wf_plan plan \<Longrightarrow> legs plan = (\<lambda>m. (ap_arm_id m, ap_plan_id m)) ` {bp_left plan, bp_right plan}"
  by (auto simp: legs_def members_def wf_plan_def)

lemma members_wf: "wf_plan plan \<Longrightarrow> m \<in> {bp_left plan, bp_right plan} \<Longrightarrow> map_of (members plan) (ap_arm_id m) = Some m"
  by (auto simp: members_def wf_plan_def)

lemma reachable_run:
  assumes "mk_BimanualCoordinator w arms st mt adm = Inr s" "distinct (map fst arms)" "pc_run (pair_after ops s) = Some r"
  shows "run_weak (pc_arms (pair_after ops s)) (pc_io (pair_after ops s)) r" "run_coord (requested ops) (legs (pr_plan r)) (pc_io (pair_after ops s)) r" "wf_plan (pr_plan r)"
  using reachable_coord [OF assms(1,2), of ops] assms(3)
  by (simp_all add: coord_def coord_sent_def pinv_def run_inv_def run_coord_def requested_def)

lemma run_arms: "run_weak arms io r \<Longrightarrow> wf_plan (pr_plan r) \<Longrightarrow> m \<in> {bp_left (pr_plan r), bp_right (pr_plan r)} \<Longrightarrow> ap_arm_id m \<in> set arms"
  by (metis domI dom_map_of_conv_image_fst members_wf run_weak_def)

subsection \<open>Promises\<close>

text \<open>
  C3: An arm of a pair is told to execute its plan only when the host asked for a pair with that plan, and by then both
  arms were told to stage their plans, both acknowledged them (accepted, for that plan id, from the controller session
  that arm reported when the pair was taken on), neither had been told to cancel, and the same plan had not been released before. This
  holds for every order of calls, every event an arm delivers, also while it is being called, and every failure.
\<close>

theorem release_needs_both_staged:
  assumes "mk_BimanualCoordinator w arms st mt adm = Inr s" "distinct (map fst arms)" "pc_io (pair_after ops s) = pre @ PExecute a p # post"
  shows "PExecute a p \<notin> set pre \<and> (\<exists>i l r ss. OStage i l r \<in> set ops \<and> (a, p) \<in> (\<lambda>m. (ap_arm_id m, ap_plan_id m)) ` {l, r} \<and> PBegin i ss \<in> set pre \<and>
    (\<forall>m \<in> {l, r}. PStage (ap_arm_id m) (ap_plan_id m) \<in> set pre \<and> PCancel (ap_arm_id m) (ap_plan_id m) \<notin> set pre \<and>
       (\<exists>session. map_of ss (ap_arm_id m) = Some (Some session) \<and> heard pre ''plan_staged'' (ap_arm_id m) (ap_plan_id m) session)))"
proof -
  have "may_release (requested ops) pre a p" using reachable_coord [OF assms(1,2), of ops] assms(3) by (simp add: coord_def coord_sent_def barrier_def)
  then obtain plan ss where first: "PExecute a p \<notin> set pre" and plan: "requested ops plan" "(a, p) \<in> legs plan"
      "\<forall>(b, q) \<in> legs plan. PStage b q \<in> set pre \<and> PCancel b q \<notin> set pre \<and> (\<exists>session. map_of ss b = Some (Some session) \<and> heard pre ''plan_staged'' b q session)"
      "PBegin (bp_pair_id plan) ss \<in> set pre"
    unfolding may_release_def by (elim conjE exE) (rule that)
  then have wf: "wf_plan plan" "OStage (bp_pair_id plan) (bp_left plan) (bp_right plan) \<in> set ops" by (simp_all add: requested_def)
  show ?thesis using first plan(2-4) wf(2) unfolding legs_wf [OF wf(1)]
    by (intro conjI exI [of _ "bp_pair_id plan"] exI [of _ "bp_left plan"] exI [of _ "bp_right plan"] exI [of _ ss]) auto
qed

text \<open>
  C4: When a pair has been rejected, cancelled or has faulted, both arms have been told to cancel their plans, even if one
  of the cancel calls failed; and each arm either is still counted as unconfirmed or has sent an accepted
  \<^verbatim>\<open>plan_cleared\<close> for that plan from the session it reported when the pair was taken on.
\<close>

theorem aborted_pair_cancels_both:
  assumes "mk_BimanualCoordinator w arms st mt adm = Inr s" "distinct (map fst arms)" "pc_run (pair_after ops s) = Some r" "lc_aborted (pr_lifecycle r)"
    "m \<in> {bp_left (pr_plan r), bp_right (pr_plan r)}"
  shows "PCancel (ap_arm_id m) (ap_plan_id m) \<in> set (pc_io (pair_after ops s)) \<and>
    (ap_arm_id m \<in> pr_pending_cancels r \<or> (\<exists>ss session. PBegin (bp_pair_id (pr_plan r)) ss \<in> set (pc_io (pair_after ops s)) \<and>
       map_of ss (ap_arm_id m) = Some (Some session) \<and> heard (pc_io (pair_after ops s)) ''plan_cleared'' (ap_arm_id m) (ap_plan_id m) session))"
proof -
  note run = reachable_run [OF assms(1-3)]
  have m: "map_of (members (pr_plan r)) (ap_arm_id m) = Some m" by (rule members_wf [OF run(3) assms(5)])
  have "PCancel (ap_arm_id m) (ap_plan_id m) \<in> set (pc_io (pair_after ops s))"
    using run(2) assms(4) map_of_SomeD [OF m] by (auto simp: run_coord_def cancels_logged_def)
  moreover have "ap_arm_id m \<in> pr_pending_cancels r \<or> heard_by (pc_io (pair_after ops s)) ''plan_cleared'' r (ap_arm_id m)"
    using run(1) assms(4) run_arms [OF run(1,3) assms(5)] by (auto simp: run_weak_def)
  moreover have "begun_with (pc_io (pair_after ops s)) r" using run(2) by (simp add: run_coord_def)
  ultimately show ?thesis using m by (fastforce simp: heard_by_def begun_with_def)
qed

text \<open>
  After a pair was given up, the next pair can only be staged once both arms have confirmed that the old plans are
  cleared.
\<close>

theorem next_pair_needs_cleared:
  assumes "mk_BimanualCoordinator w arms st mt adm = Inr s" "distinct (map fst arms)" "pc_run (pair_after ops s) = Some r" "lc_aborted (pr_lifecycle r)"
    "m \<in> {bp_left (pr_plan r), bp_right (pr_plan r)}" "fst (pair_call (OStage i l r') (pair_after ops s)) = Inr ()"
  shows "\<exists>session. heard (pc_io (pair_after ops s)) ''plan_cleared'' (ap_arm_id m) (ap_plan_id m) session"
proof -
  note run = reachable_run [OF assms(1-3)]
  have m: "map_of (members (pr_plan r)) (ap_arm_id m) = Some m" by (rule members_wf [OF run(3) assms(5)])
  have "pr_pending_cancels r = {}"
  proof (rule ccontr)
    assume "pr_pending_cancels r \<noteq> {}"
    then have "fst (stage_pair plan (pair_after ops s)) \<noteq> Inr ()" for plan using assms(3) by (simp add: stage_pair_def withst_def lift_def)
    then show False using assms(6) by (auto simp: bindst_def lift_def split: sum.splits prod.splits)
  qed
  then have "heard_by (pc_io (pair_after ops s)) ''plan_cleared'' r (ap_arm_id m)"
    using run(1) assms(4) run_arms [OF run(1,3) assms(5)] by (auto simp: run_weak_def)
  then show ?thesis using m by (auto simp: heard_by_def)
qed

text \<open>
  C36: A pair is complete only when both arms have acknowledged their plans and both have reported their legs finished
  without error; its reported state then says so, \<^verbatim>\<open>ok\<close> is true.
\<close>

theorem complete_means_both_succeeded:
  assumes "mk_BimanualCoordinator w arms st mt adm = Inr s" "distinct (map fst arms)" "pc_run (pair_after ops s) = Some r" "pr_lifecycle r = COMPLETE"
  shows "ps_ok (run_state r) = Some True \<and> (\<forall>m \<in> {bp_left (pr_plan r), bp_right (pr_plan r)}. \<exists>ev. PEvent (ap_arm_id m) ev \<in> set (pc_io (pair_after ops s)) \<and>
    pe_kind ev = ''leg_result'' \<and> pe_ok ev \<and> pe_plan_id ev = Some (ap_plan_id m))"
proof -
  let ?io = "pc_io (pair_after ops s)" and ?arms = "pc_arms (pair_after ops s)"
  note run = reachable_run [OF assms(1-3)]
  have oks: "all_ok ?arms (pr_results r)" using run(1) assms(4) by (simp add: run_weak_def)
  have got: "\<exists>why. map_of (pr_results r) (ap_arm_id m) = Some (True, why)" if "m \<in> {bp_left (pr_plan r), bp_right (pr_plan r)}" for m
    using oks run_arms [OF run(1,3) that] by (simp add: all_ok_def)
  have rep: "reported ?io r (ap_arm_id m)" if "m \<in> {bp_left (pr_plan r), bp_right (pr_plan r)}" for m
    using got [OF that] run(1) by (auto simp: run_weak_def)
  have "ps_ok (run_state r) = Some True" using got [of "bp_left (pr_plan r)"] got [of "bp_right (pr_plan r)"] run(3) assms(4)
    by (auto simp: ps_ok_def run_state_def members_def wf_plan_def member_state_def Let_def)
  moreover have "\<exists>ev. PEvent (ap_arm_id m) ev \<in> set ?io \<and> pe_kind ev = ''leg_result'' \<and> pe_ok ev \<and> pe_plan_id ev = Some (ap_plan_id m)"
    if "m \<in> {bp_left (pr_plan r), bp_right (pr_plan r)}" for m
    using rep [OF that] members_wf [OF run(3) that] by (auto simp: reported_def)
  ultimately show ?thesis by blast
qed

subsection \<open>The lifecycle\<close>













end
