(* ===== verification/Pair_Demo.thy ===== *)
theory Pair_Demo
  imports Pair_Claims
begin

text \<open>
  Runs of one pair, evaluated: staged, released and completed, and staged and cancelled. They are the inputs at which
  the coordinator's theorems are applied.
\<close>

definition arm_at :: "string \<Rightarrow> string option \<Rightarrow> ArmControlState" where
  "arm_at a plan = \<lparr>acs_arm_id = a, acs_position = Some [0], acs_velocity = Some [0], acs_armed = Some True, acs_ready = Some True,
     acs_executing = Some False, acs_running_plan_id = plan, acs_mode_law = Some ''joint'', acs_stopped = Some False, acs_frozen = Some False,
     acs_fault_reason = None, acs_session_id = Some ''s'', acs_model_token = None, acs_observed_at = Some 0, acs_state_age_sec = None\<rparr>"

text \<open>The twelfth question, and the seventeenth, are about the left arm once it is staged.\<close>

definition pair_demo_world :: pair_world where
  "pair_demo_world = \<lparr>pw_n = 0, pw_clock = (\<lambda>_. 0),
     pw_state = (\<lambda>n. Inr (if n < 11 then arm_at ''x'' None else if n = 11 \<or> n = 16 then arm_at ''l'' (Some ''p'') else arm_at ''r'' (Some ''q''))),
     pw_call = (\<lambda>_. ([], Inr ())), pw_poll = (\<lambda>_. Inr []), pw_admit = (\<lambda>_. Inr ()), pw_hook = (\<lambda>_. Inr ()), pw_order = (\<lambda>_. True)\<rparr>"

definition leg_for :: "string \<Rightarrow> string \<Rightarrow> ArmPlan" where
  "leg_for a i = \<lparr>ap_arm_id = a, ap_plan_id = i, ap_payload =
     \<lparr>pb_plan_id = i, pb_phase = ''reach'', pb_gated = True, pb_times = [0, 1], pb_positions = [[0], [1]], pb_velocities = [[0], [0]],
      pb_kp = [100], pb_kd = [10], pb_completion = None, pb_model_token = None, pb_cartesian_poses = None, pb_cartesian = None\<rparr>, ap_gated = True\<rparr>"

definition tell :: "string \<Rightarrow> string \<Rightarrow> string \<Rightarrow> pair_op" where
  "tell a kind i = OEvent a \<lparr>pe_kind = kind, pe_plan_id = Some i, pe_ok = True, pe_reason = None, pe_session = Some (Some ''s'')\<rparr>"

definition demo_pair :: BimanualCoordinator where
  "demo_pair = projr (mk_BimanualCoordinator pair_demo_world [(''l'', ''l''), (''r'', ''r'')] 1 1 False)"

lemmas pair_build = demo_pair_def mk_BimanualCoordinator_def pair_demo_world_def bindr_def ensure_def

lemma demo_pair_made: "mk_BimanualCoordinator pair_demo_world [(''l'', ''l''), (''r'', ''r'')] 1 1 False = Inr demo_pair"
  by (simp add: pair_build)

definition pair_stages :: "pair_op list" where
  "pair_stages = [OStage ''pair'' (leg_for ''l'' ''p'') (leg_for ''r'' ''q''), tell ''l'' ''plan_staged'' ''p'', tell ''r'' ''plan_staged'' ''q'']"

definition pair_completes :: "pair_op list" where
  "pair_completes = pair_stages @ [OExecute ''pair'', tell ''l'' ''leg_result'' ''p'', tell ''r'' ''leg_result'' ''q'']"

definition pair_cancels :: "pair_op list" where
  "pair_cancels = pair_stages @ [OCancel ''operator'', tell ''l'' ''plan_cleared'' ''p'', tell ''r'' ''plan_cleared'' ''q'']"

lemmas pair_eval = bindst_def run_simps ask_def ask_result_def now_pair_def log_io_def mod_run_def call_def try_any_def try_value_def Let_def
lemmas pair_checks = checked_states_def arm_states_def observe_arm_def with_observation_def check_arm_def finite_opt_def check_run_def free_member_def
  loaded_member_def validate_member_def recheck_def arm_at_def leg_for_def mk_ArmPlan_def mk_BimanualPlan_def members_def
  unpack_plan_def checked_cartesian_def mat_cols_def rectangular_def mk_JointTrajectory_def diffs_def same_shape_def bindr_def ensure_def py_max_def
lemmas pair_ops = stage_pair_def new_run_def execute_pair_def require_run_def release_pair_def release_member_def on_member_event_def member_step_def
  bound_event_def event_staged_def event_result_def event_cleared_def remember_def or_empty_def deliver_events_def poll_def finish_pair_def
  cancel_pair_def abort_pair_def abort_def send_cancels_def send_cancel_def pending_order_def lifecycle_def lc_active_def tell_def

lemma some_false: "Ex Not"
  by (rule exI [of _ False]) simp

text \<open>A pair that runs to its end.\<close>

lemma pair_completes_run: "map_option pr_lifecycle (pc_run (pair_after pair_completes demo_pair)) = Some COMPLETE"
  by (simp add: pair_completes_def pair_stages_def pair_after_def pair_build pair_ops pair_checks pair_eval some_false cong: option.case_cong)

lemma pair_completes_plan:
  "map_option pr_plan (pc_run (pair_after pair_completes demo_pair)) = Some \<lparr>bp_pair_id = ''pair'', bp_left = leg_for ''l'' ''p'', bp_right = leg_for ''r'' ''q''\<rparr>"
  by (simp add: pair_completes_def pair_stages_def pair_after_def pair_build pair_ops pair_checks pair_eval some_false cong: option.case_cong)

definition staged_event :: "string \<Rightarrow> pair_event" where
  "staged_event i = \<lparr>pe_kind = ''plan_staged'', pe_plan_id = Some i, pe_ok = True, pe_reason = None, pe_session = Some (Some ''s'')\<rparr>"

definition before_release :: "pair_io list" where
  "before_release = [PBegin ''pair'' [(''l'', Some ''s''), (''r'', Some ''s'')], PStage ''l'' ''p'', PStage ''r'' ''q'',
     PEvent ''l'' (staged_event ''p''), PEvent ''r'' (staged_event ''q''), PExecute ''l'' ''p'']"

lemma pair_releases: "pc_io (pair_after (pair_stages @ [OExecute ''pair'']) demo_pair) = before_release @ PExecute ''r'' ''q'' # []"
  by (simp add: before_release_def pair_stages_def pair_after_def pair_build pair_ops pair_checks pair_eval some_false staged_event_def cong: option.case_cong)

text \<open>A pair that is cancelled, and the next one.\<close>

definition cancel_pair_demo :: BimanualCoordinator where
  "cancel_pair_demo = demo_pair\<lparr>pc_w := pair_demo_world\<lparr>pw_state := (\<lambda>_. Inr (arm_at ''x'' None))\<rparr>\<rparr>"

lemma cancel_pair_made:
  "mk_BimanualCoordinator (pair_demo_world\<lparr>pw_state := (\<lambda>_. Inr (arm_at ''x'' None))\<rparr>) [(''l'', ''l''), (''r'', ''r'')] 1 1 False = Inr cancel_pair_demo"
  by (simp add: cancel_pair_demo_def pair_build)

lemma pair_cancels_run:
  "map_option pr_lifecycle (pc_run (pair_after pair_cancels cancel_pair_demo)) = Some PAIR_CANCELLED"
  "map_option pr_plan (pc_run (pair_after pair_cancels cancel_pair_demo)) = Some \<lparr>bp_pair_id = ''pair'', bp_left = leg_for ''l'' ''p'', bp_right = leg_for ''r'' ''q''\<rparr>"
  by (simp_all add: cancel_pair_demo_def pair_cancels_def pair_stages_def pair_after_def pair_build pair_ops pair_checks pair_eval some_false cong: option.case_cong)

lemma pair_cancels_next: "fst (pair_call (OStage ''next'' (leg_for ''l'' ''p2'') (leg_for ''r'' ''q2'')) (pair_after pair_cancels cancel_pair_demo)) = Inr ()"
  by (simp add: cancel_pair_demo_def pair_cancels_def pair_stages_def pair_after_def pair_build pair_ops pair_checks pair_eval some_false cong: option.case_cong)

subsection \<open>The theorems, applied to these runs\<close>

theorem release_needs_both_staged_witness:
  "\<exists>i (l :: ArmPlan) r ss. PBegin i ss \<in> set before_release \<and> (''r'', ''q'') \<in> (\<lambda>m. (ap_arm_id m, ap_plan_id m)) ` {l, r} \<and>
     (\<forall>m \<in> {l, r}. \<exists>session. map_of ss (ap_arm_id m) = Some (Some session) \<and> heard before_release ''plan_staged'' (ap_arm_id m) (ap_plan_id m) session)"
proof -
  have d: "distinct (map fst [(''l'', ''l''), (''r'', ''r'')])" by simp
  from release_needs_both_staged [OF demo_pair_made d pair_releases] show ?thesis by blast
qed

theorem aborted_pair_cancels_both_witness:
  "PCancel ''l'' ''p'' \<in> set (pc_io (pair_after pair_cancels cancel_pair_demo))"
proof -
  obtain r where r: "pc_run (pair_after pair_cancels cancel_pair_demo) = Some r" "pr_lifecycle r = PAIR_CANCELLED"
      "pr_plan r = \<lparr>bp_pair_id = ''pair'', bp_left = leg_for ''l'' ''p'', bp_right = leg_for ''r'' ''q''\<rparr>"
    using pair_cancels_run by auto
  from aborted_pair_cancels_both [OF cancel_pair_made _ r(1), of "leg_for ''l'' ''p''"] r(2,3) show ?thesis by (simp add: leg_for_def)
qed

theorem next_pair_needs_cleared_witness:
  "\<exists>session. heard (pc_io (pair_after pair_cancels cancel_pair_demo)) ''plan_cleared'' ''r'' ''q'' session"
proof -
  obtain r where r: "pc_run (pair_after pair_cancels cancel_pair_demo) = Some r" "pr_lifecycle r = PAIR_CANCELLED"
      "pr_plan r = \<lparr>bp_pair_id = ''pair'', bp_left = leg_for ''l'' ''p'', bp_right = leg_for ''r'' ''q''\<rparr>"
    using pair_cancels_run by auto
  from next_pair_needs_cleared [OF cancel_pair_made _ r(1) _ _ pair_cancels_next, of "leg_for ''r'' ''q''"] r(2,3) show ?thesis by (simp add: leg_for_def)
qed

theorem complete_means_both_succeeded_witness:
  "\<exists>r. pc_run (pair_after pair_completes demo_pair) = Some r \<and> ps_ok (run_state r) = Some True"
proof -
  obtain r where r: "pc_run (pair_after pair_completes demo_pair) = Some r" "pr_lifecycle r = COMPLETE" using pair_completes_run by auto
  from complete_means_both_succeeded [OF demo_pair_made _ r] r(1) show ?thesis by simp
qed

end
