(* ===== verification/Rt_Struct.thy ===== *)
theory Rt_Struct
  imports S288_Frames
begin

text \<open>
  What the RT wire protocol uses of Python's \<^verbatim>\<open>struct\<close>, of UTF-8 and of IEEE 754: little-endian layouts of unsigned
  integers, doubles and fixed byte fields. A double on the wire is its 64-bit pattern; \<open>double_of\<close> is its value.
\<close>

subsection \<open>Doubles\<close>

type_synonym dbl = "64 word"

definition double_of :: "dbl \<Rightarrow> fl" where
  "double_of w =
     (let e = uint (take_bit 11 (drop_bit 52 w)); m = uint (take_bit 52 w); sg = (if bit w 63 then - 1 else 1) in
      if e = 2047 then (if m \<noteq> 0 then NaN else if bit w 63 then NInf else PInf)
      else if e = 0 then Fin (sg * of_int m / 2 ^ 1074)
      else if e < 1075 then Fin (sg * of_int (2 ^ 52 + m) / 2 ^ nat (1075 - e))
      else Fin (sg * of_int (2 ^ 52 + m) * 2 ^ nat (e - 1075)))"

text \<open>
  The pattern of a value that is a double. The biased exponent is the first whose binade the value does not exceed; a
  value with more digits than a double would lose them here.
\<close>

definition double_bits :: "fl \<Rightarrow> dbl" where
  "double_bits v =
     (case v of
        NaN \<Rightarrow> 0x7FF8000000000000
      | PInf \<Rightarrow> 0x7FF0000000000000
      | NInf \<Rightarrow> 0xFFF0000000000000
      | Fin x \<Rightarrow>
          let a = \<bar>x\<bar> * 2 ^ 1074; sg = (if x < 0 then 0x8000000000000000 else 0) in
          case find (\<lambda>e. a < 2 ^ (e + 52)) [1..<2047] of
            None \<Rightarrow> sg + 0x7FF0000000000000
          | Some e \<Rightarrow> if a < 2 ^ 52 then sg + word_of_int \<lfloor>a\<rfloor> else sg + word_of_int (int e * 2 ^ 52 + \<lfloor>a / 2 ^ (e - 1)\<rfloor> - 2 ^ 52))"

subsection \<open>Layouts\<close>

datatype fld = FI nat | FD | FS nat

datatype wval = WI int | WD dbl | WB "byte list"

fun fld_size :: "fld \<Rightarrow> nat" where
  "fld_size (FI n) = n"
| "fld_size FD = 8"
| "fld_size (FS n) = n"

definition calcsize :: "fld list \<Rightarrow> nat" where
  "calcsize fmt = sum_list (map fld_size fmt)"

text \<open>A byte field is cut or filled with zeros to its width.\<close>

definition fit :: "nat \<Rightarrow> byte list \<Rightarrow> byte list" where
  "fit n b = take n b @ replicate (n - length b) 0"

fun pack_field :: "fld \<Rightarrow> wval \<Rightarrow> byte list result" where
  "pack_field (FI n) (WI v) = pack_uint n v"
| "pack_field FD (WD d) = Inr (le_bytes 8 (uint d))"
| "pack_field (FS n) (WB b) = Inr (fit n b)"
| "pack_field _ _ = Inl StructError"

fun struct_pack :: "fld list \<Rightarrow> wval list \<Rightarrow> byte list result" where
  "struct_pack [] [] = Inr []"
| "struct_pack (f # fs) (v # vs) = bindr (pack_field f v) (\<lambda>b. bindr (struct_pack fs vs) (\<lambda>bs. Inr (b @ bs)))"
| "struct_pack _ _ = Inl StructError"

fun read_field :: "fld \<Rightarrow> byte list \<Rightarrow> wval" where
  "read_field (FI n) bs = WI (le_uint bs)"
| "read_field FD bs = WD (word_of_int (le_uint bs))"
| "read_field (FS n) bs = WB bs"

primrec read_fields :: "fld list \<Rightarrow> byte list \<Rightarrow> wval list" where
  "read_fields [] bs = []"
| "read_fields (f # fs) bs = read_field f (take (fld_size f) bs) # read_fields fs (drop (fld_size f) bs)"

definition struct_unpack :: "fld list \<Rightarrow> byte list \<Rightarrow> wval list result" where
  "struct_unpack fmt bs = (if length bs = calcsize fmt then Inr (read_fields fmt bs) else Inl StructError)"

definition struct_unpack_from :: "fld list \<Rightarrow> byte list \<Rightarrow> nat \<Rightarrow> wval list result" where
  "struct_unpack_from fmt bs off = (if calcsize fmt + off \<le> length bs then Inr (read_fields fmt (drop off bs)) else Inl StructError)"

subsection \<open>Text\<close>

text \<open>\<^verbatim>\<open>str.encode()\<close>: UTF-8 of the code points a \<open>char\<close> has.\<close>

definition utf8_char :: "char \<Rightarrow> byte list" where
  "utf8_char c = (let k = of_char c :: int in if k < 128 then [word_of_int k] else [word_of_int (192 + k div 64), word_of_int (128 + k mod 64)])"

definition encode :: "string \<Rightarrow> byte list" where
  "encode s = concat (map utf8_char s)"

subsection \<open>Reading back what was packed\<close>

lemma calcsize_simps [simp]:
  "calcsize [] = 0" "calcsize (f # fs) = fld_size f + calcsize fs" "calcsize (fs @ gs) = calcsize fs + calcsize gs" "calcsize (replicate k f) = k * fld_size f"
  by (simp_all add: calcsize_def sum_list_replicate)

lemma length_fit [simp]: "length (fit n b) = n"
  by (simp add: fit_def)

text \<open>A value the field reads back as it was.\<close>

fun fits :: "fld \<Rightarrow> wval \<Rightarrow> bool" where
  "fits (FI n) (WI v) = (0 \<le> v \<and> v < 256 ^ n)"
| "fits FD (WD d) = True"
| "fits (FS n) (WB b) = (length b = n)"
| "fits _ _ = False"

lemma le_uint_word: "word_of_int (uint d mod 18446744073709551616) = (d :: dbl)"
  using uint_lt2p [of d] by simp

lemma le_uint_bounds: "0 \<le> le_uint bs \<and> le_uint bs < 256 ^ length bs"
proof (induction bs)
  case (Cons b bs)
  have "0 \<le> uint b" "uint b < 256" using uint_lt2p [of b] by simp_all
  then show ?case using Cons by auto
qed simp

lemma pack_field_length: "pack_field f v = Inr b \<Longrightarrow> length b = fld_size f"
  by (induction f v rule: pack_field.induct) (auto simp: pack_uint_def split: if_splits)

lemma pack_field_fits: "pack_field f v = Inr b \<Longrightarrow> (case v of WB x \<Rightarrow> length x = fld_size f | _ \<Rightarrow> True) \<Longrightarrow> fits f v"
  by (induction f v rule: pack_field.induct) (auto simp: pack_uint_def split: if_splits)

lemma pack_fitting: "fits f v \<Longrightarrow> \<exists>b. pack_field f v = Inr b \<and> length b = fld_size f \<and> read_field f b = v"
  by (induction f v rule: fits.induct) (auto simp: pack_uint_def le_uint_le_bytes le_uint_word fit_def simp del: le_bytes.simps)

lemma struct_pack_length: "struct_pack fmt vs = Inr bs \<Longrightarrow> length bs = calcsize fmt \<and> length vs = length fmt"
  by (induction fmt vs arbitrary: bs rule: struct_pack.induct) (auto dest: pack_field_length)

lemma struct_pack_fits:
  "struct_pack fmt vs = Inr bs \<Longrightarrow> list_all2 (\<lambda>f v. case v of WB x \<Rightarrow> length x = fld_size f | _ \<Rightarrow> True) fmt vs \<Longrightarrow> list_all2 fits fmt vs"
  by (induction fmt vs arbitrary: bs rule: struct_pack.induct) (auto dest: pack_field_fits)

lemma struct_roundtrip:
  "list_all2 fits fmt vs \<Longrightarrow> \<exists>bs. struct_pack fmt vs = Inr bs \<and> length bs = calcsize fmt \<and> read_fields fmt (bs @ rest) = vs"
proof (induction fmt vs rule: list_all2_induct)
  case Nil
  then show ?case by simp
next
  case (Cons f fs v vs)
  obtain bs where "struct_pack fs vs = Inr bs" "length bs = calcsize fs" "read_fields fs (bs @ rest) = vs" using Cons by blast
  moreover obtain b where "pack_field f v = Inr b" "length b = fld_size f" "read_field f b = v" using pack_fitting [OF Cons(1)] by blast
  ultimately show ?case by simp
qed

lemma struct_unpack_pack: "struct_pack fmt vs = Inr bs \<Longrightarrow> list_all2 fits fmt vs \<Longrightarrow> struct_unpack fmt bs = Inr vs"
  using struct_roundtrip [of fmt vs "[]"] by (auto simp: struct_unpack_def)

lemma struct_unpack_from_pack: "struct_pack fmt vs = Inr bs \<Longrightarrow> list_all2 fits fmt vs \<Longrightarrow> struct_unpack_from fmt (bs @ rest) 0 = Inr vs"
  using struct_roundtrip [of fmt vs rest] by (auto simp: struct_unpack_from_def)

text \<open>The other way round: what is read is the shape of the layout, and packing it gives the bytes again.\<close>

lemma read_field_fits: "length bs = fld_size f \<Longrightarrow> fits f (read_field f bs)"
  using le_uint_bounds [of bs] by (cases f) auto

lemma read_fields_fits: "calcsize fmt \<le> length bs \<Longrightarrow> list_all2 fits fmt (read_fields fmt bs)"
  by (induction fmt arbitrary: bs) (auto intro: read_field_fits)

end
