(* ===== verification/Rt_Wire.thy ===== *)
theory Rt_Wire
  imports Rt_Struct Impedance
begin

text \<open>
  \<^verbatim>\<open>arm_control/plants/remote_rt/protocol.py\<close>: the packets between the PC and the RT machine.

  A float is its 64-bit pattern; \<open>n\<close>, sequence numbers and identifiers are integers. Decoded text is kept as the
  bytes that are decoded. A control body is the dict of its fields, in the order of the layout.
\<close>

subsection \<open>Constants\<close>

definition MAGIC_CMD :: int where "MAGIC_CMD = 0x444D4341"
definition MAGIC_STATE :: int where "MAGIC_STATE = 0x41545341"
definition MAGIC_CTL :: int where "MAGIC_CTL = 0x4C544341"
definition MAGIC_OBS :: int where "MAGIC_OBS = 0x53424F41"
definition VERSION :: int where "VERSION = 5"
definition POSE_HOLD_VERSION :: int where "POSE_HOLD_VERSION = 6"
definition CARTESIAN_VERSION :: int where "CARTESIAN_VERSION = 8"
definition REFERENCE_VERSION :: int where "REFERENCE_VERSION = 7"
definition MAX_JOINTS :: nat where "MAX_JOINTS = 16"
definition ID_CHARS :: nat where "ID_CHARS = 32"

lemmas wire_consts = MAGIC_CMD_def MAGIC_STATE_def MAGIC_CTL_def MAGIC_OBS_def VERSION_def POSE_HOLD_VERSION_def CARTESIAN_VERSION_def
  REFERENCE_VERSION_def MAX_JOINTS_def ID_CHARS_def

definition CMD_FMT :: "fld list" where
  "CMD_FMT = [FI 4, FI 2, FI 2, FI 4, FI 4, FI 8, FI 8] @ replicate 80 FD"

definition STATE_FMT :: "fld list" where
  "STATE_FMT = [FI 4, FI 2, FI 2, FI 4, FI 4, FI 8, FI 4, FI 4, FI 8, FI 8, FI 4, FI 4] @ replicate 104 FD"

definition CTL_FMT :: "fld list" where
  "CTL_FMT = [FI 4, FI 2, FI 2, FI 4, FI 4, FI 8, FS 104]"

definition IDENTITY_FMT :: "fld list" where
  "IDENTITY_FMT = [FS 32, FS 32, FI 8, FI 8, FI 8, FI 4, FI 4, FS 8]"

definition OBS_FMT :: "fld list" where
  "OBS_FMT = [FI 4, FI 2, FI 2, FI 4, FI 4]"

lemma packet_sizes: "calcsize CMD_FMT = 672" "calcsize STATE_FMT = 888" "calcsize CTL_FMT = 128" "calcsize OBS_FMT = 16" "calcsize IDENTITY_FMT = 104"
  by (simp_all add: CMD_FMT_def STATE_FMT_def CTL_FMT_def OBS_FMT_def IDENTITY_FMT_def)

subsection \<open>Identities and flags\<close>

definition fnv1a64 :: "byte list \<Rightarrow> 64 word \<Rightarrow> 64 word" where
  "fnv1a64 data h = foldl (\<lambda>h b. (h XOR ucast b) * 0x100000001B3) h data"

definition FNV_OFFSET :: "64 word" where
  "FNV_OFFSET = 0xCBF29CE484222325"

primrec join_nl :: "string list \<Rightarrow> string" where
  "join_nl [] = []"
| "join_nl (x # xs) = (if xs = [] then x else x @ ''\<newline>'' @ join_nl xs)"

definition joint_order_hash :: "string list \<Rightarrow> 64 word" where
  "joint_order_hash joint_names = fnv1a64 (encode (join_nl joint_names)) FNV_OFFSET"

definition id_bytes :: "string \<Rightarrow> byte list result" where
  "id_bytes text = (let raw = encode text in if length raw \<ge> ID_CHARS then Inl (ValueError ''id must be shorter than 32 bytes'') else Inr (fit ID_CHARS raw))"

definition id_char_ok :: "char \<Rightarrow> bool" where
  "id_char_ok c = (let k = of_char c :: nat in
     48 \<le> k \<and> k \<le> 57 \<or> 65 \<le> k \<and> k \<le> 90 \<or> 97 \<le> k \<and> k \<le> 122 \<or> c \<in> set ''_.-'')"

definition valid_id :: "string \<Rightarrow> bool" where
  "valid_id text \<longleftrightarrow> 1 \<le> length text \<and> length text < ID_CHARS \<and> list_all id_char_ok text"

definition rt_identity_hash :: "string \<Rightarrow> 64 word \<Rightarrow> 64 word result" where
  "rt_identity_hash instance_id joint_hash =
     bindr (id_bytes instance_id) (\<lambda>b. Inr (fnv1a64 (le_bytes 8 (uint joint_hash)) (fnv1a64 b FNV_OFFSET)))"

definition FLAG_ARMED :: int where "FLAG_ARMED = 1"
definition FLAG_FAULTED :: int where "FLAG_FAULTED = 2"
definition FLAG_HOLDING :: int where "FLAG_HOLDING = 4"
definition FLAG_WRENCH_VALID :: int where "FLAG_WRENCH_VALID = 8"
definition FLAG_MODE_STREAMED :: int where "FLAG_MODE_STREAMED = 32"
definition FLAG_MODE_REFERENCE :: int where "FLAG_MODE_REFERENCE = 64"
definition ONLINE_MASK_BITS :: int where "ONLINE_MASK_BITS = 0xFFFF0000"

definition has_flag :: "int \<Rightarrow> int \<Rightarrow> bool" where
  "has_flag flags f \<longleftrightarrow> flags AND f \<noteq> 0"

definition with_online_mask :: "int \<Rightarrow> int \<Rightarrow> int result" where
  "with_online_mask flags slots =
     (if \<not> (0 \<le> slots \<and> slots \<le> 0xFFFF) then Inl (ValueError ''online mask must fit 16 slots'')
      else Inr ((flags AND NOT ONLINE_MASK_BITS) OR push_bit 16 slots))"

definition online_mask :: "int \<Rightarrow> int" where
  "online_mask flags = drop_bit 16 (flags AND ONLINE_MASK_BITS)"

subsection \<open>Commands\<close>

definition padded :: "dbl list \<Rightarrow> dbl list result" where
  "padded xs = (if length xs > MAX_JOINTS then Inl (ValueError ''at most 16 joints'') else Inr (xs @ replicate (MAX_JOINTS - length xs) 0))"

definition d_finite :: "dbl \<Rightarrow> bool" where
  "d_finite d = isfinite (double_of d)"

record command_args =
  cm_n :: int
  cm_seq :: int
  cm_t_mono_ns :: int
  cm_q_des :: "dbl list"
  cm_qd_des :: "dbl list"
  cm_tau_ff :: "dbl list"
  cm_kp :: "dbl list"
  cm_kd :: "dbl list"
  cm_session_id :: int
  cm_arm_epoch :: int
  cm_pose_hold :: "pose_hold_spec option"
  cm_cartesian :: "cartesian_spec option"

definition command_tail :: "command_args \<Rightarrow> (byte list \<times> int) result" where
  "command_tail a =
     (case (cm_pose_hold a, cm_cartesian a) of
        (Some _, Some _) \<Rightarrow> Inl (ValueError ''a command carries a pose-hold tail or a cartesian tail, not both'')
      | (Some p, None) \<Rightarrow> bindr (pose_hold_values p) (\<lambda>vs. bindr (struct_pack (replicate 15 FD) (map (\<lambda>v. WD (double_bits v)) vs)) (\<lambda>b. Inr (b, POSE_HOLD_VERSION)))
      | (None, Some c) \<Rightarrow> bindr (cartesian_values c) (\<lambda>vs. bindr (struct_pack (replicate 21 FD) (map (\<lambda>v. WD (double_bits v)) vs)) (\<lambda>b. Inr (b, CARTESIAN_VERSION)))
      | (None, None) \<Rightarrow> Inr ([], VERSION))"

definition pack_command :: "command_args \<Rightarrow> byte list result" where
  "pack_command a =
     (let n = cm_n a; arrays = [cm_q_des a, cm_qd_des a, cm_tau_ff a, cm_kp a, cm_kd a] in
      bindr (ensure (1 \<le> n \<and> n \<le> int MAX_JOINTS) (ValueError ''command n must be an integer in 1..16'')) (\<lambda>_.
      bindr (ensure (list_all (\<lambda>x. int (length x) = n \<and> list_all d_finite x) arrays) (ValueError ''command arrays must be finite and length n'')) (\<lambda>_.
      bindr (ensure (list_all (list_all (\<lambda>v. \<not> double_of v < 0)) (drop 3 arrays)) (ValueError ''command gains must be nonnegative'')) (\<lambda>_.
      bindr (command_tail a) (\<lambda>(tail, version).
      bindr (mapr padded arrays) (\<lambda>ps.
      bindr (struct_pack CMD_FMT ([WI MAGIC_CMD, WI version, WI n, WI (cm_seq a mod 2 ^ 32), WI (cm_arm_epoch a mod 2 ^ 32),
        WI (cm_t_mono_ns a), WI (cm_session_id a mod 2 ^ 64)] @ map WD (concat ps))) (\<lambda>b. Inr (b @ tail))))))))"

subsection \<open>States\<close>

record rt_State =
  st_n :: int
  st_state_seq :: int
  st_last_cmd_seq :: int
  st_t_mono_ns :: int
  st_flags :: int
  st_fault_code :: int
  st_session_id :: int
  st_identity_hash :: int
  st_arm_epoch :: int
  st_stop_epoch :: int
  st_q :: "dbl list"
  st_dq :: "dbl list"
  st_tau :: "dbl list"
  st_tau_cmd :: "dbl list"
  st_q_cmd :: "dbl list"
  st_qd_cmd :: "dbl list"
  st_wrench :: "dbl list"

definition st_selected_mode :: "rt_State \<Rightarrow> int" where
  "st_selected_mode s = (if has_flag (st_flags s) FLAG_MODE_REFERENCE then 2 else if has_flag (st_flags s) FLAG_MODE_STREAMED then 1 else 0)"

fun dbl_of :: "wval \<Rightarrow> dbl" where
  "dbl_of (WD d) = d"
| "dbl_of _ = 0"

definition col :: "dbl list \<Rightarrow> nat \<Rightarrow> int \<Rightarrow> dbl list" where
  "col d k n = take (nat n) (drop (k * MAX_JOINTS) d)"

definition rt_unpack_state :: "byte list \<Rightarrow> rt_State result" where
  "rt_unpack_state data =
     bindr (ensure (length data = 888) (ValueError ''state packet must be 888 bytes'')) (\<lambda>_.
     bindr (struct_unpack STATE_FMT data) (\<lambda>vals.
     case vals of
       WI magic # WI version # WI n # WI state_seq # WI last_cmd_seq # WI t # WI flags # WI fault # WI session # WI ident # WI arm_epoch # WI stop_epoch # rest \<Rightarrow>
         bindr (ensure (magic = MAGIC_STATE \<and> version = VERSION) (ValueError ''bad state packet'')) (\<lambda>_.
         bindr (ensure (1 \<le> n \<and> n \<le> int MAX_JOINTS) (ValueError ''invalid state joint count'')) (\<lambda>_.
         let d = map dbl_of rest in
         Inr \<lparr>st_n = n, st_state_seq = state_seq, st_last_cmd_seq = last_cmd_seq, st_t_mono_ns = t, st_flags = flags, st_fault_code = fault,
           st_session_id = session, st_identity_hash = ident, st_arm_epoch = arm_epoch, st_stop_epoch = stop_epoch,
           st_q = col d 0 n, st_dq = col d 1 n, st_tau = col d 2 n, st_tau_cmd = col d 3 n, st_q_cmd = col d 4 n, st_qd_cmd = col d 5 n,
           st_wrench = take 6 (drop (6 * MAX_JOINTS) d)\<rparr>))
     | _ \<Rightarrow> Inl StructError))"

subsection \<open>Control frames\<close>

definition ctl_frame :: "int \<Rightarrow> int \<Rightarrow> int \<Rightarrow> int \<Rightarrow> int \<Rightarrow> byte list \<Rightarrow> byte list result" where
  "ctl_frame version ctl_type seq arg t body = struct_pack CTL_FMT [WI MAGIC_CTL, WI version, WI ctl_type, WI seq, WI arg, WI t, WB body]"

definition pack_control :: "int \<Rightarrow> int \<Rightarrow> int \<Rightarrow> int \<Rightarrow> byte list \<Rightarrow> byte list result" where
  "pack_control ctl_type seq arg t body = ctl_frame VERSION ctl_type seq arg t body"

record Control =
  cl_type :: int
  cl_seq :: int
  cl_arg :: int
  cl_t_mono_ns :: int
  cl_text :: "byte list"
  cl_raw :: "byte list"

definition cstring :: "byte list \<Rightarrow> byte list" where
  "cstring b = takeWhile (\<lambda>x. x \<noteq> 0) b"

text \<open>The seven header values of a control frame, or what reading them raises.\<close>

definition ctl_header :: "string \<Rightarrow> byte list \<Rightarrow> (int \<times> int \<times> int \<times> int \<times> int \<times> int \<times> byte list) result" where
  "ctl_header wrong_size data =
     bindr (ensure (length data = 128) (ValueError wrong_size)) (\<lambda>_.
     bindr (struct_unpack CTL_FMT data) (\<lambda>vals.
     case vals of [WI magic, WI version, WI op, WI seq, WI arg, WI t, WB body] \<Rightarrow> Inr (magic, version, op, seq, arg, t, body) | _ \<Rightarrow> Inl StructError))"

definition unpack_control :: "byte list \<Rightarrow> Control result" where
  "unpack_control data =
     bindr (ctl_header ''control packet must be 128 bytes'' data) (\<lambda>(magic, version, op, seq, arg, t, body).
     bindr (ensure (magic = MAGIC_CTL \<and> version = VERSION) (ValueError ''bad control packet'')) (\<lambda>_.
     Inr \<lparr>cl_type = op, cl_seq = seq, cl_arg = arg, cl_t_mono_ns = t, cl_text = cstring body, cl_raw = body\<rparr>))"

record Identity =
  idn_instance_id :: "byte list"
  idn_model_id :: "byte list"
  idn_session_id :: int
  idn_joint_order_hash :: int
  idn_identity_hash :: int
  idn_capabilities :: int
  idn_n :: int

definition pack_identity :: "string \<Rightarrow> string \<Rightarrow> int \<Rightarrow> int \<Rightarrow> int \<Rightarrow> int \<Rightarrow> int \<Rightarrow> byte list result" where
  "pack_identity instance_id model_id session jh ih caps n =
     bindr (id_bytes instance_id) (\<lambda>i. bindr (id_bytes model_id) (\<lambda>m.
     struct_pack IDENTITY_FMT [WB i, WB m, WI session, WI jh, WI ih, WI caps, WI n, WB (replicate 8 0)]))"

definition unpack_identity :: "byte list \<Rightarrow> Identity result" where
  "unpack_identity body =
     bindr (struct_unpack IDENTITY_FMT (take 104 body)) (\<lambda>vals.
     case vals of
       [WB inst, WB model, WI session, WI jh, WI ih, WI caps, WI n, _] \<Rightarrow>
         Inr \<lparr>idn_instance_id = cstring inst, idn_model_id = cstring model, idn_session_id = session, idn_joint_order_hash = jh,
              idn_identity_hash = ih, idn_capabilities = caps, idn_n = n\<rparr>
     | _ \<Rightarrow> Inl StructError)"

definition pack_observe :: "int \<Rightarrow> byte list result" where
  "pack_observe lease_ms =
     bindr (ensure (100 \<le> lease_ms \<and> lease_ms \<le> 5000) (ValueError ''observer lease must be 100..5000 ms'')) (\<lambda>_.
     struct_pack OBS_FMT [WI MAGIC_OBS, WI VERSION, WI 0, WI lease_ms, WI 0])"

subsection \<open>Mode selection\<close>

definition CTL_MODE_SELECT :: int where "CTL_MODE_SELECT = 12"
definition CTL_MODE_STATUS :: int where "CTL_MODE_STATUS = 13"
definition MODE_UNSELECTED :: int where "MODE_UNSELECTED = 0"
definition MODE_STREAMED :: int where "MODE_STREAMED = 1"
definition MODE_REFERENCE :: int where "MODE_REFERENCE = 2"

lemmas mode_consts = CTL_MODE_SELECT_def CTL_MODE_STATUS_def MODE_UNSELECTED_def MODE_STREAMED_def MODE_REFERENCE_def

definition MODE_SELECT_FMT :: "fld list" where
  "MODE_SELECT_FMT = [FI 8, FI 8, FI 8, FI 4, FI 2, FI 2, FS 32, FI 4, FS 36]"

definition MODE_STATUS_FMT :: "fld list" where
  "MODE_STATUS_FMT = [FI 8, FI 8, FI 8, FI 4, FI 4, FI 2, FI 2, FI 4, FS 64]"

definition any_byte :: "byte list \<Rightarrow> bool" where
  "any_byte b = list_ex (\<lambda>x. x \<noteq> 0) b"

record mode_select =
  mo_session_id :: int
  mo_generation :: int
  mo_expected_predecessor :: int
  mo_arm_epoch :: int
  mo_desired_mode :: int
  mo_model_digest :: "byte list"
  mo_seq :: int

definition pack_mode_select :: "mode_select \<Rightarrow> int \<Rightarrow> byte list result" where
  "pack_mode_select m t =
     (let digest = mo_model_digest m @ replicate (32 - length (mo_model_digest m)) 0; mode = mo_desired_mode m in
      bindr (ensure (mode \<in> {MODE_STREAMED, MODE_REFERENCE}) (ValueError ''desired_mode must be MODE_STREAMED or MODE_REFERENCE'')) (\<lambda>_.
      bindr (ensure (length (mo_model_digest m) \<in> {0, 32}) (ValueError ''model_digest must be empty or 32 bytes'')) (\<lambda>_.
      bindr (ensure (\<not> (mode = MODE_REFERENCE \<and> \<not> any_byte digest)) (ValueError ''MODE_REFERENCE requires a model_digest'')) (\<lambda>_.
      bindr (ensure (\<not> (mode = MODE_STREAMED \<and> any_byte digest)) (ValueError ''MODE_STREAMED must not carry a model_digest'')) (\<lambda>_.
      bindr (ensure (mo_session_id m \<noteq> 0 \<and> mo_generation m \<noteq> 0 \<and> mo_arm_epoch m \<noteq> 0) (ValueError ''session_id, generation and arm_epoch must be nonzero'')) (\<lambda>_.
      bindr (ensure (mo_generation m = mo_expected_predecessor m + 1) (ValueError ''generation must equal expected_predecessor + 1'')) (\<lambda>_.
      bindr (struct_pack MODE_SELECT_FMT [WI (mo_session_id m), WI (mo_generation m), WI (mo_expected_predecessor m), WI (mo_arm_epoch m), WI mode, WI 0,
        WB digest, WI 0, WB (replicate 36 0)]) (\<lambda>body. ctl_frame VERSION CTL_MODE_SELECT (mo_seq m) 0 t body))))))))"

definition unpack_mode_select :: "byte list \<Rightarrow> mode_select result" where
  "unpack_mode_select data =
     bindr (ctl_header ''mode select must contain 128 bytes'' data) (\<lambda>(magic, version, op, seq, arg, t, body).
     bindr (ensure (magic = MAGIC_CTL \<and> version = VERSION \<and> arg = 0 \<and> op = CTL_MODE_SELECT) (ValueError ''malformed mode select header'')) (\<lambda>_.
     bindr (struct_unpack MODE_SELECT_FMT body) (\<lambda>vals.
     case vals of
       [WI session, WI generation, WI predecessor, WI epoch, WI mode, WI reserved0, WB digest, WI request_flags, WB reserved] \<Rightarrow>
         bindr (ensure (reserved0 = 0 \<and> request_flags = 0 \<and> \<not> any_byte reserved) (ValueError ''mode select reserved bytes must be zero'')) (\<lambda>_.
         bindr (ensure (session \<noteq> 0 \<and> generation \<noteq> 0 \<and> epoch \<noteq> 0) (ValueError ''mode select identities must be nonzero'')) (\<lambda>_.
         bindr (ensure (generation = predecessor + 1) (ValueError ''mode select generation must be predecessor + 1'')) (\<lambda>_.
         bindr (ensure (mode \<in> {MODE_STREAMED, MODE_REFERENCE}) (ValueError ''unknown desired mode'')) (\<lambda>_.
         bindr (ensure ((mode = MODE_REFERENCE) = any_byte digest) (ValueError ''model_digest must be present iff MODE_REFERENCE'')) (\<lambda>_.
         Inr \<lparr>mo_session_id = session, mo_generation = generation, mo_expected_predecessor = predecessor, mo_arm_epoch = epoch, mo_desired_mode = mode,
              mo_model_digest = digest, mo_seq = seq\<rparr>)))))
     | _ \<Rightarrow> Inl StructError)))"

record mode_status =
  mt_session_id :: int
  mt_generation :: int
  mt_predecessor :: int
  mt_arm_epoch :: int
  mt_result :: int
  mt_selected_mode :: int
  mt_requested_mode :: int
  mt_detail :: int
  mt_seq :: int

definition pack_mode_status :: "mode_status \<Rightarrow> int \<Rightarrow> byte list result" where
  "pack_mode_status m t =
     bindr (struct_pack MODE_STATUS_FMT [WI (mt_session_id m), WI (mt_generation m), WI (mt_predecessor m), WI (mt_arm_epoch m), WI (mt_result m),
       WI (mt_selected_mode m), WI (mt_requested_mode m), WI (mt_detail m), WB (replicate 64 0)]) (\<lambda>body.
     ctl_frame VERSION CTL_MODE_STATUS (mt_seq m) 0 t body)"

definition unpack_mode_status :: "byte list \<Rightarrow> mode_status result" where
  "unpack_mode_status data =
     bindr (ctl_header ''mode status must contain 128 bytes'' data) (\<lambda>(magic, version, op, seq, arg, t, body).
     bindr (ensure (magic = MAGIC_CTL \<and> version = VERSION \<and> arg = 0 \<and> op = CTL_MODE_STATUS) (ValueError ''malformed mode status header'')) (\<lambda>_.
     bindr (struct_unpack MODE_STATUS_FMT body) (\<lambda>vals.
     case vals of
       [WI session, WI generation, WI predecessor, WI epoch, WI res, WI selected, WI wanted, WI detail, WB reserved] \<Rightarrow>
         bindr (ensure (\<not> any_byte reserved) (ValueError ''mode status reserved bytes must be zero'')) (\<lambda>_.
         bindr (ensure (0 \<le> res \<and> res \<le> 7) (ValueError ''unknown mode select result'')) (\<lambda>_.
         bindr (ensure (wanted \<in> {MODE_STREAMED, MODE_REFERENCE}) (ValueError ''unknown requested mode'')) (\<lambda>_.
         bindr (ensure (selected \<in> {MODE_UNSELECTED, MODE_STREAMED, MODE_REFERENCE}) (ValueError ''unknown selected mode'')) (\<lambda>_.
         Inr \<lparr>mt_session_id = session, mt_generation = generation, mt_predecessor = predecessor, mt_arm_epoch = epoch, mt_result = res,
              mt_selected_mode = selected, mt_requested_mode = wanted, mt_detail = detail, mt_seq = seq\<rparr>))))
     | _ \<Rightarrow> Inl StructError)))"

end
