(* ===== verification/Rt_Reference.thy ===== *)
theory Rt_Reference
  imports Rt_Wire
begin

text \<open>
  The negotiated reference extension of \<^verbatim>\<open>protocol.py\<close>: control bodies described by a table of layouts, and the reference
  command and state packets.
\<close>

subsection \<open>Layouts\<close>

definition REFERENCE_MODE :: int where "REFERENCE_MODE = 11"
definition REFERENCE_BEGIN :: int where "REFERENCE_BEGIN = 32"
definition REFERENCE_CHUNK :: int where "REFERENCE_CHUNK = 33"
definition REFERENCE_SEAL :: int where "REFERENCE_SEAL = 34"
definition REFERENCE_COMMIT :: int where "REFERENCE_COMMIT = 35"
definition REFERENCE_ABORT :: int where "REFERENCE_ABORT = 36"
definition CANCEL_REFERENCE :: int where "CANCEL_REFERENCE = 37"
definition REFERENCE_STATUS :: int where "REFERENCE_STATUS = 38"
definition GROUP_JOIN :: int where "GROUP_JOIN = 39"
definition GROUP_COMMIT :: int where "GROUP_COMMIT = 40"
definition GROUP_CANCEL :: int where "GROUP_CANCEL = 41"
definition GROUP_STATUS :: int where "GROUP_STATUS = 42"

lemmas op_consts = REFERENCE_MODE_def REFERENCE_BEGIN_def REFERENCE_CHUNK_def REFERENCE_SEAL_def REFERENCE_COMMIT_def REFERENCE_ABORT_def
  CANCEL_REFERENCE_def REFERENCE_STATUS_def GROUP_JOIN_def GROUP_COMMIT_def GROUP_CANCEL_def GROUP_STATUS_def

type_synonym layout = "(string \<times> fld) list"

text \<open>Field names with their formats; the trailing reserved bytes fill the body to 104 bytes.\<close>

definition group_layout :: layout where
  "group_layout = [(''session_id'', FI 8), (''group_id'', FI 8), (''arm_epoch'', FI 4), (''member_index'', FI 4), (''member_count'', FI 4), (''reserved0'', FI 4)]"

definition end_layout :: layout where
  "end_layout = [(''session_id'', FI 8), (''id'', FI 8), (''arm_epoch'', FI 4), (''revision'', FI 4)]"

definition REFERENCE_LAYOUTS :: "(int \<times> layout \<times> nat) list" where
  "REFERENCE_LAYOUTS =
     [(REFERENCE_MODE, [(''session_id'', FI 8), (''joint_order_hash'', FI 8), (''model_digest'', FS 32), (''enable'', FI 4)], 52),
      (REFERENCE_BEGIN, [(''session_id'', FI 8), (''upload_id'', FI 8), (''reference_id'', FI 8), (''joint_order_hash'', FI 8), (''model_digest'', FS 32),
         (''arm_epoch'', FI 4), (''expected_revision'', FI 4), (''revision'', FI 4), (''byte_count'', FI 4), (''knots'', FI 2), (''n'', FI 2), (''flags'', FI 4)], 16),
      (REFERENCE_CHUNK, [(''upload_id'', FI 8), (''offset'', FI 4), (''length'', FI 2), (''reserved'', FI 2), (''data'', FS 88)], 0),
      (REFERENCE_SEAL, [(''upload_id'', FI 8), (''sha256'', FS 32)], 64),
      (REFERENCE_COMMIT, [(''session_id'', FI 8), (''upload_id'', FI 8), (''reference_id'', FI 8), (''arm_epoch'', FI 4), (''expected_revision'', FI 4),
         (''revision'', FI 4), (''reserved0'', FI 4), (''protected_until'', FD), (''latest_phase'', FD), (''selection_budget_ns'', FI 8)], 40),
      (REFERENCE_ABORT, end_layout, 80),
      (CANCEL_REFERENCE, end_layout, 80),
      (REFERENCE_STATUS, [(''upload_id'', FI 8), (''reference_id'', FI 8), (''revision'', FI 4), (''result'', FI 4), (''operation'', FI 4), (''reserved0'', FI 4)], 72),
      (GROUP_JOIN, group_layout, 72),
      (GROUP_CANCEL, group_layout, 72),
      (GROUP_COMMIT, [(''session_id'', FI 8), (''group_id'', FI 8), (''upload_id'', FI 8), (''reference_id'', FI 8), (''budget_ns'', FI 8),
         (''arm_epoch'', FI 4), (''member_index'', FI 4)], 56),
      (GROUP_STATUS, [(''group_id'', FI 8), (''deadline_ns'', FI 8), (''selected_ns'', FI 8), (''result'', FI 4), (''operation'', FI 4), (''state'', FI 4),
         (''peer_verdict'', FI 4), (''reserved0'', FI 4)], 60)]"

type_synonym fields = "(string \<times> wval) list"

text \<open>The values of a body whose fields have the types of their layout.\<close>

definition num :: "fields \<Rightarrow> string \<Rightarrow> int" where
  "num p k = (case map_of p k of Some (WI v) \<Rightarrow> v | _ \<Rightarrow> 0)"

definition dnum :: "fields \<Rightarrow> string \<Rightarrow> fl" where
  "dnum p k = (case map_of p k of Some (WD d) \<Rightarrow> double_of d | _ \<Rightarrow> 0)"

definition raw :: "fields \<Rightarrow> string \<Rightarrow> byte list" where
  "raw p k = (case map_of p k of Some (WB b) \<Rightarrow> b | _ \<Rightarrow> [])"

definition require :: "bool \<Rightarrow> unit result" where
  "require c = ensure c (ValueError ''malformed reference control body'')"

definition nonzero :: "fields \<Rightarrow> string list \<Rightarrow> bool" where
  "nonzero p ks = list_all (\<lambda>k. num p k \<noteq> 0) ks"

definition next_revision :: "fields \<Rightarrow> bool" where
  "next_revision p \<longleftrightarrow> 0 < num p ''revision'' \<and> num p ''revision'' = num p ''expected_revision'' + 1 \<and> num p ''expected_revision'' + 1 \<le> 0xFFFFFFFF"

definition begin_ok :: "fields \<Rightarrow> bool" where
  "begin_ok p \<longleftrightarrow> nonzero p [''session_id'', ''upload_id'', ''reference_id'', ''arm_epoch''] \<and> next_revision p \<and>
     2 \<le> num p ''knots'' \<and> num p ''knots'' \<le> 128 \<and> 1 \<le> num p ''n'' \<and> num p ''n'' \<le> int MAX_JOINTS \<and>
     num p ''flags'' AND NOT 3 = 0 \<and>
     num p ''byte_count'' = num p ''knots'' * (8 + 8 * num p ''n'' * (if num p ''flags'' AND 1 \<noteq> 0 then 2 else 1)) \<and>
     any_byte (raw p ''model_digest'')"

definition chunk_ok :: "fields \<Rightarrow> bool" where
  "chunk_ok p \<longleftrightarrow> nonzero p [''upload_id''] \<and> num p ''reserved'' = 0 \<and> 1 \<le> num p ''length'' \<and> num p ''length'' \<le> 88 \<and>
     num p ''offset'' \<le> 33792 - num p ''length'' \<and> \<not> any_byte (drop (nat (num p ''length'')) (raw p ''data''))"

definition commit_ok :: "fields \<Rightarrow> bool" where
  "commit_ok p \<longleftrightarrow>
     (let cut = dnum p ''protected_until''; latest = dnum p ''latest_phase'' in
      nonzero p [''session_id'', ''upload_id'', ''reference_id'', ''arm_epoch''] \<and> next_revision p \<and> num p ''reserved0'' = 0 \<and>
      isfinite cut \<and> isfinite latest \<and> cut \<ge> 0 \<and> latest \<ge> 0 \<and>
      (if num p ''expected_revision'' \<noteq> 0 then 0 < latest \<and> latest \<le> cut \<and> num p ''selection_budget_ns'' = 0 else latest = cut \<and> cut = 0))"

definition body_ok :: "int \<Rightarrow> fields \<Rightarrow> bool" where
  "body_ok op p \<longleftrightarrow>
     (if op = REFERENCE_MODE then nonzero p [''session_id''] \<and> num p ''enable'' = 1 \<and> any_byte (raw p ''model_digest'')
      else if op = REFERENCE_BEGIN then begin_ok p
      else if op = REFERENCE_CHUNK then chunk_ok p
      else if op = REFERENCE_SEAL then nonzero p [''upload_id'']
      else if op = REFERENCE_COMMIT then commit_ok p
      else if op = REFERENCE_ABORT \<or> op = CANCEL_REFERENCE then
        nonzero p [''session_id'', ''id'', ''arm_epoch''] \<and> (if op = REFERENCE_ABORT then num p ''revision'' = 0 else num p ''revision'' > 0)
      else if op = GROUP_JOIN \<or> op = GROUP_CANCEL then
        nonzero p [''session_id'', ''group_id'', ''arm_epoch''] \<and> 2 \<le> num p ''member_count'' \<and> num p ''member_count'' \<le> 4 \<and>
        num p ''member_index'' < num p ''member_count'' \<and> num p ''reserved0'' = 0
      else if op = GROUP_COMMIT then
        nonzero p [''session_id'', ''group_id'', ''upload_id'', ''reference_id'', ''arm_epoch'', ''budget_ns''] \<and>
        num p ''budget_ns'' \<le> 10000000000 \<and> num p ''member_index'' < 4
      else if op = GROUP_STATUS then
        nonzero p [''group_id''] \<and> 0 \<le> num p ''result'' \<and> num p ''result'' \<le> 11 \<and>
        (num p ''operation'' = 0 \<or> GROUP_JOIN \<le> num p ''operation'' \<and> num p ''operation'' \<le> GROUP_CANCEL) \<and>
        num p ''state'' \<le> 7 \<and> num p ''peer_verdict'' \<le> 4 \<and> num p ''reserved0'' = 0
      else if op = REFERENCE_STATUS then
        0 \<le> num p ''result'' \<and> num p ''result'' \<le> 9 \<and> num p ''reserved0'' = 0 \<and>
        REFERENCE_BEGIN \<le> num p ''operation'' \<and> num p ''operation'' \<le> CANCEL_REFERENCE
      else True)"

definition validate_reference_body :: "int \<Rightarrow> fields \<Rightarrow> unit result" where
  "validate_reference_body op p = require (body_ok op p)"

definition set_default :: "layout \<Rightarrow> fields \<Rightarrow> string \<Rightarrow> fields" where
  "set_default lay p k = (if k \<in> fst ` set lay \<and> map_of p k = None then p @ [(k, WI 0)] else p)"

definition with_defaults :: "layout \<Rightarrow> fields \<Rightarrow> fields" where
  "with_defaults lay p = foldl (set_default lay) p [''reserved'', ''reserved0'', ''selection_budget_ns'']"

fun has_type :: "fld \<Rightarrow> wval \<Rightarrow> bool" where
  "has_type (FI _) (WI _) = True"
| "has_type FD (WD _) = True"
| "has_type (FS _) (WB _) = True"
| "has_type _ _ = False"

text \<open>A field of another type raises where it is first used as its layout says.\<close>

definition typed :: "layout \<Rightarrow> fields \<Rightarrow> bool" where
  "typed lay p = list_all (\<lambda>(k, f). case map_of p k of None \<Rightarrow> False | Some v \<Rightarrow> has_type f v) lay"

definition digests_ok :: "fields \<Rightarrow> bool" where
  "digests_ok p = list_all (\<lambda>k. case map_of p k of None \<Rightarrow> True | Some (WB b) \<Rightarrow> length b = 32 | Some _ \<Rightarrow> False) [''model_digest'', ''sha256'']"

definition fill_chunk :: "int \<Rightarrow> fields \<Rightarrow> fields" where
  "fill_chunk op p = (if op = REFERENCE_CHUNK then dict_put ''data'' (WB (raw p ''data'' @ replicate (88 - length (raw p ''data'')) 0)) p else p)"

definition pack_reference_control :: "int \<Rightarrow> int \<Rightarrow> int \<Rightarrow> bool \<Rightarrow> fields \<Rightarrow> byte list result" where
  "pack_reference_control ctl_type seq t negotiated given =
     (case map_of REFERENCE_LAYOUTS ctl_type of
        None \<Rightarrow> Inl (ValueError ''unknown reference opcode'')
      | Some (lay, padding) \<Rightarrow>
          bindr (ensure (ctl_type = REFERENCE_MODE \<or> negotiated) (ValueError ''reference capability has not been negotiated'')) (\<lambda>_.
          let p = with_defaults lay given in
          bindr (ensure (fst ` set p = fst ` set lay) (ValueError ''reference control fields do not match opcode'')) (\<lambda>_.
          bindr (ensure (typed lay p) TypeError) (\<lambda>_.
          bindr (ensure (digests_ok p) (ValueError ''digest must contain exactly 32 bytes'')) (\<lambda>_.
          bindr (ensure (ctl_type = REFERENCE_CHUNK \<longrightarrow> int (length (raw p ''data'')) = num p ''length'') (ValueError ''chunk length does not match data'')) (\<lambda>_.
          let p = fill_chunk ctl_type p in
          bindr (validate_reference_body ctl_type p) (\<lambda>_.
          bindr (struct_pack (map snd lay) (map (\<lambda>(k, _). the (map_of p k)) lay)) (\<lambda>body.
          ctl_frame (if ctl_type = REFERENCE_MODE then VERSION else REFERENCE_VERSION) ctl_type seq 0 t (body @ replicate padding 0)))))))))"

definition cut_chunk :: "int \<Rightarrow> fields \<Rightarrow> fields" where
  "cut_chunk op p = (if op = REFERENCE_CHUNK then dict_put ''data'' (WB (take (nat (num p ''length'')) (raw p ''data''))) p else p)"

definition unpack_reference_control :: "byte list \<Rightarrow> bool \<Rightarrow> (int \<times> int \<times> fields) result" where
  "unpack_reference_control data negotiated =
     bindr (ctl_header ''reference control must contain 128 bytes'' data) (\<lambda>(magic, version, op, seq, arg, t, body).
     let expected = (if op = REFERENCE_MODE then VERSION else REFERENCE_VERSION) in
     case map_of REFERENCE_LAYOUTS op of
       None \<Rightarrow> Inl (ValueError ''unnegotiated or malformed reference control header'')
     | Some (lay, padding) \<Rightarrow>
         bindr (ensure (magic = MAGIC_CTL \<and> version = expected \<and> arg = 0 \<and> (op = REFERENCE_MODE \<or> negotiated))
                 (ValueError ''unnegotiated or malformed reference control header'')) (\<lambda>_.
         bindr (ensure (\<not> any_byte (drop (length body - padding) body)) (ValueError ''reference reserved bytes must be zero'')) (\<lambda>_.
         bindr (struct_unpack_from (map snd lay) body 0) (\<lambda>vals.
         let p = zip (map fst lay) vals in
         bindr (validate_reference_body op p) (\<lambda>_. Inr (op, seq, cut_chunk op p))))))"

subsection \<open>The reference command\<close>

definition REFERENCE_CMD_FMT :: "fld list" where
  "REFERENCE_CMD_FMT = [FI 4, FI 2, FI 2, FI 4, FI 4, FI 8, FI 8, FI 8, FI 4, FI 4, FD, FI 4, FI 4] @ replicate 48 FD"

definition REFERENCE_STATE_TAIL_FMT :: "fld list" where
  "REFERENCE_STATE_TAIL_FMT = [FI 8, FI 4, FI 4, FD, FD, FI 4, FI 4] @ replicate 48 FD"

lemma reference_sizes: "calcsize REFERENCE_CMD_FMT = 448" "calcsize STATE_FMT + calcsize REFERENCE_STATE_TAIL_FMT = 1312"
  "list_all (\<lambda>(_, lay, padding). calcsize (map snd lay) + padding = 104) REFERENCE_LAYOUTS"
  by (simp_all add: REFERENCE_CMD_FMT_def REFERENCE_STATE_TAIL_FMT_def STATE_FMT_def REFERENCE_LAYOUTS_def group_layout_def end_layout_def)

record ref_command =
  rc_n :: int
  rc_seq :: int
  rc_arm_epoch :: int
  rc_t_mono_ns :: int
  rc_session_id :: int
  rc_reference_id :: int
  rc_revision :: int
  rc_age_us :: int
  rc_phase :: dbl
  rc_valid_for_us :: int
  rc_phase_window_us :: int
  rc_tau_ff :: "dbl list"
  rc_kp :: "dbl list"
  rc_kd :: "dbl list"

definition slots :: "dbl list \<Rightarrow> nat \<Rightarrow> dbl list" where
  "slots d j = take MAX_JOINTS (drop (j * MAX_JOINTS) d)"

definition d_zero :: "dbl \<Rightarrow> bool" where
  "d_zero d \<longleftrightarrow> double_of d = 0"

definition unpack_reference_command :: "byte list \<Rightarrow> bool \<Rightarrow> ref_command result" where
  "unpack_reference_command data negotiated =
     bindr (ensure (negotiated \<and> length data = 448) (ValueError ''unnegotiated or wrong-size reference command'')) (\<lambda>_.
     bindr (struct_unpack REFERENCE_CMD_FMT data) (\<lambda>v.
     case v of
       WI magic # WI version # WI n # WI seq # WI epoch # WI t # WI session # WI ref # WI revision # WI age # WD phase # WI valid_for # WI window # rest \<Rightarrow>
         bindr (ensure (magic = MAGIC_CMD \<and> version = REFERENCE_VERSION \<and> 1 \<le> n \<and> n \<le> int MAX_JOINTS \<and>
             epoch \<noteq> 0 \<and> session \<noteq> 0 \<and> ref \<noteq> 0 \<and> revision \<noteq> 0 \<and> valid_for \<noteq> 0 \<and> window \<noteq> 0 \<and>
             d_finite phase \<and> \<not> double_of phase < 0 \<and> \<not> age > valid_for) (ValueError ''invalid reference command binding/freshness'')) (\<lambda>_.
         let arrays = map (slots (map dbl_of rest)) [0, 1, 2] in
         bindr (ensure (list_all (list_all d_finite) arrays \<and> list_all (list_all (\<lambda>x. \<not> double_of x < 0)) (drop 1 arrays) \<and>
             list_all (\<lambda>a. list_all d_zero (drop (nat n) a)) arrays) (ValueError ''invalid reference command arrays/padding'')) (\<lambda>_.
         Inr \<lparr>rc_n = n, rc_seq = seq, rc_arm_epoch = epoch, rc_t_mono_ns = t, rc_session_id = session, rc_reference_id = ref, rc_revision = revision,
              rc_age_us = age, rc_phase = phase, rc_valid_for_us = valid_for, rc_phase_window_us = window,
              rc_tau_ff = take (nat n) (arrays ! 0), rc_kp = take (nat n) (arrays ! 1), rc_kd = take (nat n) (arrays ! 2)\<rparr>))
     | _ \<Rightarrow> Inl StructError))"

definition pack_reference_command :: "ref_command \<Rightarrow> bool \<Rightarrow> byte list result" where
  "pack_reference_command c negotiated =
     (let arrays = [rc_tau_ff c, rc_kp c, rc_kd c] in
      bindr (ensure (list_all (\<lambda>a. int (length a) = rc_n c) arrays) (ValueError ''reference command arrays must have length n'')) (\<lambda>_.
      bindr (mapr padded arrays) (\<lambda>ps.
      bindr (struct_pack REFERENCE_CMD_FMT ([WI MAGIC_CMD, WI REFERENCE_VERSION, WI (rc_n c), WI (rc_seq c), WI (rc_arm_epoch c), WI (rc_t_mono_ns c),
        WI (rc_session_id c), WI (rc_reference_id c), WI (rc_revision c), WI (rc_age_us c), WD (rc_phase c), WI (rc_valid_for_us c),
        WI (rc_phase_window_us c)] @ map WD (concat ps))) (\<lambda>data.
      bindr (unpack_reference_command data negotiated) (\<lambda>_. Inr data)))))"

record ref_state =
  rf_reference_id :: int
  rf_revision :: int
  rf_status :: int
  rf_phase :: dbl
  rf_envelope_phase :: dbl
  rf_envelope_age_us :: int
  rf_envelope_seq :: int
  rf_q_ref :: "dbl list"
  rf_qd_ref :: "dbl list"
  rf_qdd_ref :: "dbl list"

definition unpack_reference_state :: "byte list \<Rightarrow> bool \<Rightarrow> (rt_State \<times> ref_state) result" where
  "unpack_reference_state data negotiated =
     bindr (ensure (negotiated \<and> length data = 1312) (ValueError ''unnegotiated or wrong-size reference state'')) (\<lambda>_.
     let base = take 888 data in
     bindr (ensure (le_uint (take 2 (drop 4 base)) = REFERENCE_VERSION) (ValueError ''wrong reference state version'')) (\<lambda>_.
     let base = take 4 base @ le_bytes 2 VERSION @ drop 6 base in
     bindr (ensure (\<not> any_byte (drop 872 base)) (ValueError ''reference state reserved bytes must be zero'')) (\<lambda>_.
     bindr (rt_unpack_state base) (\<lambda>state.
     bindr (struct_unpack_from REFERENCE_STATE_TAIL_FMT data 888) (\<lambda>v.
     case v of
       WI ref # WI revision # WI status # WD phase # WD envelope_phase # WI envelope_age # WI envelope_seq # rest \<Rightarrow>
         bindr (ensure (status \<le> 4 \<and> list_all (\<lambda>x. d_finite x \<and> \<not> double_of x < 0) [phase, envelope_phase])
                 (ValueError ''invalid reference state status/phase'')) (\<lambda>_.
         let arrays = map (slots (map dbl_of rest)) [0, 1, 2]; n = nat (st_n state) in
         bindr (ensure (list_all (list_all d_finite) arrays \<and> list_all (\<lambda>a. list_all d_zero (drop n a)) arrays)
                 (ValueError ''invalid reference state values/padding'')) (\<lambda>_.
         Inr (state, \<lparr>rf_reference_id = ref, rf_revision = revision, rf_status = status, rf_phase = phase, rf_envelope_phase = envelope_phase,
           rf_envelope_age_us = envelope_age, rf_envelope_seq = envelope_seq, rf_q_ref = take n (arrays ! 0), rf_qd_ref = take n (arrays ! 1),
           rf_qdd_ref = take n (arrays ! 2)\<rparr>)))
     | _ \<Rightarrow> Inl StructError)))))"

end
