(* ===== verification/Rt_Proofs.thy ===== *)
theory Rt_Proofs
  imports Rt_Reference
begin

text \<open>
  Round trips and validity of the RT packets.
\<close>

subsection \<open>Control frames\<close>

lemma ctl_frame_header:
  assumes "ctl_frame version op seq arg t body = Inr data" "length body = 104"
  shows "ctl_header msg data = Inr (MAGIC_CTL, version, op, seq, arg, t, body)"
proof -
  let ?vs = "[WI MAGIC_CTL, WI version, WI op, WI seq, WI arg, WI t, WB body]"
  have p: "struct_pack CTL_FMT ?vs = Inr data" using assms(1) by (simp add: ctl_frame_def)
  have "list_all2 fits CTL_FMT ?vs" by (rule struct_pack_fits [OF p]) (simp add: CTL_FMT_def assms(2))
  then have u: "struct_unpack CTL_FMT data = Inr ?vs" by (rule struct_unpack_pack [OF p])
  have "length data = 128" using struct_pack_length [OF p] packet_sizes(3) by simp
  then show ?thesis using u by (simp add: ctl_header_def)
qed

lemma body_length: "struct_pack fmt vs = Inr body \<Longrightarrow> length body = calcsize fmt"
  by (simp add: struct_pack_length)

lemma no_byte [simp]: "any_byte (replicate k 0) = False" "any_byte [] = False"
  by (auto simp: any_byte_def list_ex_iff)

subsection \<open>Reference controls\<close>

definition reference_fields :: "int \<Rightarrow> fields \<Rightarrow> fields" where
  "reference_fields op given = (case map_of REFERENCE_LAYOUTS op of None \<Rightarrow> given | Some (lay, _) \<Rightarrow> with_defaults lay given)"

lemma layout_facts:
  assumes "map_of REFERENCE_LAYOUTS op = Some (lay, padding)"
  shows "calcsize (map snd lay) + padding = 104" "distinct (map fst lay)"
    and "\<And>k n. (k, FS n) \<in> set lay \<Longrightarrow> k \<in> {''model_digest'', ''sha256''} \<and> n = 32 \<or> op = REFERENCE_CHUNK \<and> k = ''data'' \<and> n = 88"
    and "op = REFERENCE_CHUNK \<Longrightarrow> ''data'' \<in> fst ` set lay \<and> ''length'' \<in> fst ` set lay"
proof -
  have m: "(op, lay, padding) \<in> set REFERENCE_LAYOUTS" using assms by (rule map_of_SomeD)
  show "calcsize (map snd lay) + padding = 104" using m reference_sizes(3) by (auto simp: list_all_iff)
  show "distinct (map fst lay)" using m by (auto simp: REFERENCE_LAYOUTS_def group_layout_def end_layout_def)
  show "k \<in> {''model_digest'', ''sha256''} \<and> n = 32 \<or> op = REFERENCE_CHUNK \<and> k = ''data'' \<and> n = 88" if "(k, FS n) \<in> set lay" for k n
    using m that by (auto simp: REFERENCE_LAYOUTS_def group_layout_def end_layout_def)
  show "''data'' \<in> fst ` set lay \<and> ''length'' \<in> fst ` set lay" if "op = REFERENCE_CHUNK"
    using assms that by (auto simp: REFERENCE_LAYOUTS_def op_consts)
qed

lemma body_ok_cong:
  assumes "map_of p = map_of q"
  shows "body_ok op p = body_ok op q" "num p = num q" "raw p = raw q"
proof -
  have n: "num p = num q" and d: "dnum p = dnum q" and r: "raw p = raw q" using assms by (simp_all add: fun_eq_iff num_def dnum_def raw_def)
  have "nonzero p = nonzero q" "next_revision p = next_revision q" using n by (simp_all add: fun_eq_iff nonzero_def next_revision_def)
  then show "body_ok op p = body_ok op q" unfolding body_ok_def begin_ok_def chunk_ok_def commit_ok_def n d r by simp
  show "num p = num q" "raw p = raw q" by (fact n r)+
qed

text \<open>A dict with the keys of the layout is the dict of its values in the order of the layout.\<close>

lemma zip_layout:
  assumes "distinct (map fst lay)" "fst ` set p = fst ` set lay"
  shows "map_of (zip (map fst lay) (map (\<lambda>(k, _). the (map_of p k)) lay)) = map_of p"
proof
  fix k
  have eq: "zip (map fst lay) (map (\<lambda>(k, _). the (map_of p k)) lay) = map (\<lambda>(k, _). (k, the (map_of p k))) lay" by (induction lay) auto
  show "map_of (zip (map fst lay) (map (\<lambda>(k, _). the (map_of p k)) lay)) k = map_of p k"
  proof (cases "k \<in> fst ` set lay")
    case True
    then obtain f where f: "(k, f) \<in> set lay" by force
    have "map_of (map (\<lambda>(k, _). (k, the (map_of p k))) lay) k = Some (the (map_of p k))"
      by (rule map_of_is_SomeI) (use assms(1) f in \<open>auto simp: comp_def case_prod_unfold rev_image_eqI\<close>)
    moreover have "map_of p k \<noteq> None" using True assms(2) by (simp add: map_of_eq_None_iff)
    ultimately show ?thesis using eq by auto
  next
    case False
    have "fst ` set (map (\<lambda>(k, _). (k, the (map_of p k))) lay) = fst ` set lay" by (auto simp: image_image case_prod_unfold)
    then have "map_of (map (\<lambda>(k, _). (k, the (map_of p k))) lay) k = None" using False by (metis map_of_eq_None_iff)
    moreover have "map_of p k = None" using False assms(2) by (simp add: map_of_eq_None_iff)
    ultimately show ?thesis using eq by simp
  qed
qed

lemma typed_iff: "typed lay p \<longleftrightarrow> (\<forall>(k, f) \<in> set lay. \<exists>v. map_of p k = Some v \<and> has_type f v)"
  unfolding typed_def list_all_iff by (intro ball_cong refl) (auto split: option.split)

lemma fields_fit:
  assumes lay: "map_of REFERENCE_LAYOUTS op = Some (lay, padding)" and t: "typed lay p" and d: "digests_ok p"
    and keys: "fst ` set p = fst ` set lay" and chunk: "op = REFERENCE_CHUNK \<Longrightarrow> length (raw p ''data'') = 88"
    and pack: "struct_pack (map snd lay) (map (\<lambda>(k, _). the (map_of p k)) lay) = Inr body"
  shows "list_all2 fits (map snd lay) (map (\<lambda>(k, _). the (map_of p k)) lay)"
proof (rule struct_pack_fits [OF pack])
  have "case the (map_of p k) of WB x \<Rightarrow> length x = fld_size f | _ \<Rightarrow> True" if kf: "(k, f) \<in> set lay" for k f
  proof -
    obtain v where v: "map_of p k = Some v" "has_type f v" using t kf by (auto simp: typed_iff)
    show ?thesis
    proof (cases v)
      case (WB x)
      then obtain n where n: "f = FS n" using v(2) by (cases f) auto
      from layout_facts(3) [OF lay] kf n have "k \<in> {''model_digest'', ''sha256''} \<and> n = 32 \<or> op = REFERENCE_CHUNK \<and> k = ''data'' \<and> n = 88" by blast
      then show ?thesis using d v WB n chunk by (auto simp: digests_ok_def raw_def)
    qed (use v in auto)
  qed
  then show "list_all2 (\<lambda>f v. case v of WB x \<Rightarrow> length x = fld_size f | _ \<Rightarrow> True) (map snd lay) (map (\<lambda>(k, _). the (map_of p k)) lay)"
    unfolding list.rel_map by (intro list.rel_refl_strong) (auto split: prod.split)
qed

lemma fill_chunk_facts:
  assumes "fst ` set p = fst ` set lay" "map_of REFERENCE_LAYOUTS op = Some (lay, padding)" "typed lay p" "digests_ok p"
    and "op = REFERENCE_CHUNK \<longrightarrow> int (length (raw p ''data'')) = num p ''length''" "body_ok op (fill_chunk op p)"
  shows "fst ` set (fill_chunk op p) = fst ` set lay" "typed lay (fill_chunk op p)" "digests_ok (fill_chunk op p)"
    "op = REFERENCE_CHUNK \<Longrightarrow> length (raw (fill_chunk op p) ''data'') = 88"
    "map_of (cut_chunk op (fill_chunk op p)) = map_of p"
proof -
  have dk: "op = REFERENCE_CHUNK \<Longrightarrow> ''data'' \<in> fst ` set lay" using layout_facts(4) [OF assms(2)] by blast
  have raw: "op = REFERENCE_CHUNK \<Longrightarrow> \<exists>b. map_of p ''data'' = Some (WB b)"
  proof -
    assume op: "op = REFERENCE_CHUNK"
    then have "(''data'', FS 88) \<in> set lay" using assms(2) by (auto simp: REFERENCE_LAYOUTS_def op_consts)
    then obtain v where v: "map_of p ''data'' = Some v" "has_type (FS 88) v" using assms(3) by (auto simp: typed_iff)
    then show ?thesis by (cases v) auto
  qed
  show "fst ` set (fill_chunk op p) = fst ` set lay"
    using assms(1) dk keys_dict_put [of "''data''" _ p] by (auto simp: fill_chunk_def)
  have "\<exists>v. map_of (fill_chunk op p) k = Some v \<and> has_type f v" if kf: "(k, f) \<in> set lay" for k f
  proof -
    obtain v where v: "map_of p k = Some v" "has_type f v" using assms(3) kf by (auto simp: typed_iff)
    then show ?thesis using raw by (cases f; cases v; cases "k = ''data''") (auto simp: fill_chunk_def)
  qed
  then show "typed lay (fill_chunk op p)" by (auto simp: typed_iff)
  show "digests_ok (fill_chunk op p)" using assms(4) by (simp add: digests_ok_def fill_chunk_def)
  have len: "num (fill_chunk op p) ''length'' = num p ''length''" by (simp add: num_def fill_chunk_def)
  show l: "length (raw (fill_chunk op p) ''data'') = 88" if "op = REFERENCE_CHUNK"
  proof -
    have "chunk_ok (fill_chunk op p)" using assms(6) that by (simp add: body_ok_def op_consts)
    then have "num p ''length'' \<le> 88" by (simp add: chunk_ok_def len)
    then have "length (raw p ''data'') \<le> 88" using assms(5) that by simp
    then show ?thesis using that by (simp add: fill_chunk_def raw_def)
  qed
  show "map_of (cut_chunk op (fill_chunk op p)) = map_of p"
  proof (cases "op = REFERENCE_CHUNK")
    case True
    then obtain b where b: "map_of p ''data'' = Some (WB b)" using raw by blast
    then have "nat (num p ''length'') = length b" using assms(5) True by (simp add: raw_def)
    then show ?thesis using True b len by (auto simp: cut_chunk_def fill_chunk_def raw_def)
  qed (simp add: cut_chunk_def fill_chunk_def)
qed

text \<open>
  C37: Every reference control frame that is built is read back as the same operation and sequence number with the same
  fields (reserved fields that were not given are zero; the data of a chunk without its filling).
\<close>

theorem reference_control_roundtrip:
  assumes "pack_reference_control op seq t negotiated given = Inr data"
  shows "\<exists>p. unpack_reference_control data negotiated = Inr (op, seq, p) \<and> map_of p = map_of (reference_fields op given)"
proof -
  obtain lay padding where lay: "map_of REFERENCE_LAYOUTS op = Some (lay, padding)"
    using assms by (auto simp: pack_reference_control_def split: option.splits)
  define p where "p = with_defaults lay given"
  define q where "q = fill_chunk op p"
  let ?vs = "map (\<lambda>(k, _). the (map_of q k)) lay" and ?version = "if op = REFERENCE_MODE then VERSION else REFERENCE_VERSION"
  obtain body where neg: "op = REFERENCE_MODE \<or> negotiated" and keys: "fst ` set p = fst ` set lay" and t: "typed lay p" and d: "digests_ok p"
    and c: "op = REFERENCE_CHUNK \<longrightarrow> int (length (raw p ''data'')) = num p ''length''" and ok: "body_ok op q"
    and body: "struct_pack (map snd lay) ?vs = Inr body" and frame: "ctl_frame ?version op seq 0 t (body @ replicate padding 0) = Inr data"
    using assms unfolding pack_reference_control_def lay Let_def p_def q_def
    by (auto simp: validate_reference_body_def require_def simp del: struct_pack.simps)
  note q = fill_chunk_facts [OF keys lay t d c, folded q_def, OF ok]
  have fit: "list_all2 fits (map snd lay) ?vs" by (rule fields_fit [OF lay q(2,3,1,4) body])
  have len: "length (body @ replicate padding 0) = 104" using body_length [OF body] layout_facts(1) [OF lay] by simp
  have head: "ctl_header msg data = Inr (MAGIC_CTL, ?version, op, seq, 0, t, body @ replicate padding 0)" for msg by (rule ctl_frame_header [OF frame len])
  have read: "struct_unpack_from (map snd lay) (body @ replicate padding 0) 0 = Inr ?vs" by (rule struct_unpack_from_pack [OF body fit])
  define z where "z = zip (map fst lay) ?vs"
  have z: "map_of z = map_of q" unfolding z_def by (rule zip_layout [OF layout_facts(2) [OF lay] q(1)])
  have "unpack_reference_control data negotiated = Inr (op, seq, cut_chunk op z)"
    unfolding unpack_reference_control_def head using lay neg read ok body_ok_cong(1) [OF z, of op] z_def
    by (simp add: validate_reference_body_def require_def)
  moreover have "map_of (cut_chunk op z) = map_of (cut_chunk op q)"
    unfolding cut_chunk_def body_ok_cong(2,3) [OF z] using z by simp
  ultimately show ?thesis using q(5) lay by (simp add: reference_fields_def p_def)
qed

subsection \<open>Commands\<close>

definition filled :: "dbl list \<Rightarrow> dbl list" where
  "filled xs = xs @ replicate (MAX_JOINTS - length xs) 0"

lemma padded_filled: "mapr padded xs = Inr ys \<Longrightarrow> ys = map filled xs \<and> (\<forall>x \<in> set xs. length x \<le> MAX_JOINTS)"
  by (induction xs arbitrary: ys) (auto simp: padded_def filled_def split: if_splits)

lemma length_filled [simp]: "length x \<le> MAX_JOINTS \<Longrightarrow> length (filled x) = MAX_JOINTS"
  by (simp add: filled_def)

lemma slots_of: "\<forall>x \<in> set xs. length x = MAX_JOINTS \<Longrightarrow> j < length xs \<Longrightarrow> slots (concat xs) j = xs ! j"
proof (induction xs arbitrary: j)
  case (Cons x xs)
  then show ?case by (cases j) (auto simp: slots_def)
qed simp

lemma double_fields: "length ds = k \<Longrightarrow> list_all2 fits (replicate k FD) (map WD ds)"
  by (induction ds arbitrary: k) (auto simp: list_all2_Cons2 length_Suc_conv)

lemma length_filled_concat: "\<forall>x \<in> set xs. length x \<le> MAX_JOINTS \<Longrightarrow> length (concat (map filled xs)) = length xs * MAX_JOINTS"
  by (induction xs) auto

text \<open>A header of integers and doubles, then doubles: what was packed is what is read.\<close>

lemma header_unpack:
  assumes "struct_pack (head @ replicate k FD) (hs @ map WD ds) = Inr data" "length hs = length head" "\<forall>v \<in> set hs. \<not> (\<exists>b. v = WB b)"
  shows "struct_unpack (head @ replicate k FD) data = Inr (hs @ map WD ds) \<and> length ds = k \<and> list_all2 fits head hs"
proof -
  have len: "length ds = k" using struct_pack_length [OF assms(1)] assms(2) by simp
  have "list_all2 (\<lambda>f v. case v of WB x \<Rightarrow> length x = fld_size f | _ \<Rightarrow> True) (head @ replicate k FD) (hs @ map WD ds)"
    using assms(2,3) len by (auto simp: list_all2_conv_all_nth nth_append split: wval.split)
  from struct_pack_fits [OF assms(1) this] have fits: "list_all2 fits (head @ replicate k FD) (hs @ map WD ds)" .
  then have "list_all2 fits head hs" using assms(2) by (simp add: list_all2_append)
  then show ?thesis using struct_unpack_pack [OF assms(1) fits] len by simp
qed

text \<open>
  Every reference command that is built is read back as it was: same numbers, same phase, and the torques and gains
  of the arm's joints without their padding.
\<close>

theorem reference_command_roundtrip:
  assumes "pack_reference_command c negotiated = Inr data"
  shows "unpack_reference_command data negotiated = Inr c"
proof -
  let ?arrays = "[rc_tau_ff c, rc_kp c, rc_kd c]"
  let ?head = "[FI 4, FI 2, FI 2, FI 4, FI 4, FI 8, FI 8, FI 8, FI 4, FI 4, FD, FI 4, FI 4]"
  let ?hs = "[WI MAGIC_CMD, WI REFERENCE_VERSION, WI (rc_n c), WI (rc_seq c), WI (rc_arm_epoch c), WI (rc_t_mono_ns c), WI (rc_session_id c),
    WI (rc_reference_id c), WI (rc_revision c), WI (rc_age_us c), WD (rc_phase c), WI (rc_valid_for_us c), WI (rc_phase_window_us c)]"
  obtain ps c' where len: "list_all (\<lambda>a. int (length a) = rc_n c) ?arrays" and ps: "mapr padded ?arrays = Inr ps"
    and pack: "struct_pack (?head @ replicate 48 FD) (?hs @ map WD (concat ps)) = Inr data" and read: "unpack_reference_command data negotiated = Inr c'"
    using assms unfolding pack_reference_command_def REFERENCE_CMD_FMT_def Let_def by (auto simp del: struct_pack.simps mapr.simps append.simps)
  have ps': "ps = map filled ?arrays" "\<forall>x \<in> set ?arrays. length x \<le> MAX_JOINTS" using padded_filled [OF ps] by blast+
  have u: "struct_unpack REFERENCE_CMD_FMT data = Inr (?hs @ map WD (concat ps))"
    unfolding REFERENCE_CMD_FMT_def using header_unpack [OF pack] by simp
  have sl: "slots (concat ps) j = filled (?arrays ! j)" if "j < 3" for j
    using slots_of [of ps j] ps' that by (auto simp: nth_Cons' split: if_splits)
  have again: "take (nat (rc_n c)) (filled x) = x" if "x \<in> set ?arrays" for x using len that by (auto simp: filled_def list_all_iff)
  have dbls: "map dbl_of (map WD xs) = xs" for xs by (induction xs) auto
  have "c' = c" using read u sl [of 0] sl [of 1] sl [of 2] again
    unfolding unpack_reference_command_def Let_def by (cases c) (simp add: dbls del: map_map)
  then show ?thesis using read by simp
qed

text \<open>
  Every command packet has the fixed size (672 bytes, with 120 or 168 more for a pose-hold or Cartesian tail) and is
  read by the layout as: the magic number, the version that names the tail, the joint count, sequence number and
  generation modulo 2^32, session modulo 2^64, and five columns of sixteen doubles, finite on the arm's joints and zero
  beyond them, with no negative gain.
\<close>

theorem command_packet_valid:
  assumes "pack_command a = Inr data"
  shows "\<exists>version. (length data, version) \<in> {(672, 5), (792, 6), (840, 8)} \<and>
    struct_unpack CMD_FMT (take 672 data) = Inr ([WI MAGIC_CMD, WI version, WI (cm_n a), WI (cm_seq a mod 2 ^ 32), WI (cm_arm_epoch a mod 2 ^ 32), WI (cm_t_mono_ns a),
      WI (cm_session_id a mod 2 ^ 64)] @ map WD (concat (map filled [cm_q_des a, cm_qd_des a, cm_tau_ff a, cm_kp a, cm_kd a]))) \<and>
    1 \<le> cm_n a \<and> cm_n a \<le> 16 \<and>
    (\<forall>x \<in> set [cm_q_des a, cm_qd_des a, cm_tau_ff a, cm_kp a, cm_kd a]. int (length x) = cm_n a \<and> list_all d_finite x) \<and>
    (\<forall>v \<in> set (cm_kp a @ cm_kd a). \<not> double_of v < 0)"
proof -
  let ?arrays = "[cm_q_des a, cm_qd_des a, cm_tau_ff a, cm_kp a, cm_kd a]" and ?head = "[FI 4, FI 2, FI 2, FI 4, FI 4, FI 8, FI 8]"
  obtain tail version ps b where n: "1 \<le> cm_n a" "cm_n a \<le> int MAX_JOINTS" and arrays: "list_all (\<lambda>x. int (length x) = cm_n a \<and> list_all d_finite x) ?arrays"
    and gains: "list_all (list_all (\<lambda>v. \<not> double_of v < 0)) (drop 3 ?arrays)" and tail: "command_tail a = Inr (tail, version)"
    and ps: "mapr padded ?arrays = Inr ps" and data: "data = b @ tail"
    and pack: "struct_pack (?head @ replicate 80 FD) ([WI MAGIC_CMD, WI version, WI (cm_n a), WI (cm_seq a mod 2 ^ 32), WI (cm_arm_epoch a mod 2 ^ 32), WI (cm_t_mono_ns a),
      WI (cm_session_id a mod 2 ^ 64)] @ map WD (concat ps)) = Inr b"
    using assms unfolding pack_command_def CMD_FMT_def Let_def by (auto simp del: struct_pack.simps mapr.simps append.simps)
  have ps': "ps = map filled ?arrays" using padded_filled [OF ps] by blast
  have lb: "length b = 672" using struct_pack_length [OF pack] by simp
  have "(length tail, version) \<in> {(0, 5), (120, 6), (168, 8)}"
    using tail by (auto simp: command_tail_def wire_consts simp del: struct_pack.simps dest: struct_pack_length split: option.splits)
  then have v: "(length data, version) \<in> {(672, 5), (792, 6), (840, 8)}" using data lb by auto
  have u: "struct_unpack CMD_FMT (take 672 data) = Inr ([WI MAGIC_CMD, WI version, WI (cm_n a), WI (cm_seq a mod 2 ^ 32), WI (cm_arm_epoch a mod 2 ^ 32), WI (cm_t_mono_ns a),
      WI (cm_session_id a mod 2 ^ 64)] @ map WD (concat (map filled ?arrays)))"
    unfolding CMD_FMT_def using header_unpack [OF pack] data lb ps' by simp
  show ?thesis
    by (rule exI [of _ version]) (use v u n arrays gains in \<open>auto simp: list_all_iff MAX_JOINTS_def\<close>)
qed

subsection \<open>Mode selection and identities\<close>

definition whole_digest :: "byte list \<Rightarrow> byte list" where
  "whole_digest b = b @ replicate (32 - length b) 0"

text \<open>A mode selection is read back with its digest filled to 32 bytes.\<close>

lemma mode_select_roundtrip:
  assumes "pack_mode_select m t = Inr data"
  shows "unpack_mode_select data = Inr (m\<lparr>mo_model_digest := whole_digest (mo_model_digest m)\<rparr>)"
proof -
  let ?d = "whole_digest (mo_model_digest m)"
  let ?vs = "[WI (mo_session_id m), WI (mo_generation m), WI (mo_expected_predecessor m), WI (mo_arm_epoch m), WI (mo_desired_mode m), WI 0, WB ?d, WI 0, WB (replicate 36 0)]"
  obtain body where mode: "mo_desired_mode m \<in> {MODE_STREAMED, MODE_REFERENCE}" and l: "length (mo_model_digest m) \<in> {0, 32}"
    and dg: "\<not> (mo_desired_mode m = MODE_REFERENCE \<and> \<not> any_byte ?d)" "\<not> (mo_desired_mode m = MODE_STREAMED \<and> any_byte ?d)"
    and ids: "mo_session_id m \<noteq> 0 \<and> mo_generation m \<noteq> 0 \<and> mo_arm_epoch m \<noteq> 0" "mo_generation m = mo_expected_predecessor m + 1"
    and body: "struct_pack MODE_SELECT_FMT ?vs = Inr body" and frame: "ctl_frame VERSION CTL_MODE_SELECT (mo_seq m) 0 t body = Inr data"
    using assms unfolding pack_mode_select_def Let_def whole_digest_def [symmetric] by (auto simp del: struct_pack.simps)
  have "length ?d = 32" using l by (auto simp: whole_digest_def)
  then have "list_all2 fits MODE_SELECT_FMT ?vs" by (intro struct_pack_fits [OF body]) (simp add: MODE_SELECT_FMT_def)
  then have u: "struct_unpack MODE_SELECT_FMT body = Inr ?vs" by (rule struct_unpack_pack [OF body])
  have "length body = 104" using body_length [OF body] by (simp add: MODE_SELECT_FMT_def)
  note head = ctl_frame_header [OF frame this]
  have "(mo_desired_mode m = MODE_REFERENCE) = any_byte ?d" using mode dg by (auto simp: mode_consts)
  then show ?thesis unfolding unpack_mode_select_def head using u mode ids by (cases m) simp
qed

lemma encode_no_zero: "(0 :: int) \<notin> of_char ` set s \<Longrightarrow> (0 :: byte) \<notin> set (encode s)"
proof -
  have "(0 :: byte) \<notin> set (utf8_char c)" if "of_char c \<noteq> (0 :: int)" for c
  proof -
    have b: "0 \<le> (of_char c :: int)" "(of_char c :: int) < 256"
      using of_char_mod_256 [of c, where 'a = int] pos_mod_bound [of "256 :: int" "of_char c"] pos_mod_sign [of "256 :: int" "of_char c"] by linarith+
    have w: "(0 :: byte) \<noteq> word_of_int k" if "0 < k" "k < 256" for k :: int
    proof
      assume "(0 :: byte) = word_of_int k"
      then have "uint (word_of_int k :: byte) = 0" by (metis unsigned_0)
      then show False using that by (simp add: uint_word_of_int)
    qed
    have d: "0 \<le> of_char c div (64 :: int)" "of_char c div (64 :: int) < 4" using b by auto
    have m: "0 \<le> of_char c mod (64 :: int)" "of_char c mod (64 :: int) < 64" by simp_all
    show ?thesis using that b w [of "of_char c"] w [of "192 + of_char c div 64"] w [of "128 + of_char c mod 64"] d m
      by (auto simp: utf8_char_def Let_def simp del: of_int_add)
  qed
  then show "(0 :: int) \<notin> of_char ` set s \<Longrightarrow> (0 :: byte) \<notin> set (encode s)"
    by (auto simp: encode_def image_iff)
qed

lemma cstring_id:
  assumes "id_bytes text = Inr b" "(0 :: int) \<notin> of_char ` set text"
  shows "cstring b = encode text" "length b = 32"
proof -
  have b: "b = encode text @ replicate (32 - length (encode text)) 0" "length (encode text) < 32"
    using assms(1) by (auto simp: id_bytes_def Let_def fit_def ID_CHARS_def split: if_splits)
  then show "length b = 32" by simp
  have "takeWhile (\<lambda>x. x \<noteq> 0) (encode text @ replicate k 0) = encode text" for k
    using encode_no_zero [OF assms(2)] by (subst takeWhile_append2) (auto simp: takeWhile_replicate)
  then show "cstring b = encode text" using b(1) by (simp add: cstring_def)
qed

text \<open>An identity body is read back: the names as their UTF-8 bytes, the numbers as they were.\<close>

lemma identity_roundtrip:
  assumes "pack_identity i m session jh ih caps n = Inr body" "(0 :: int) \<notin> of_char ` set i" "(0 :: int) \<notin> of_char ` set m"
  shows "unpack_identity body = Inr \<lparr>idn_instance_id = encode i, idn_model_id = encode m, idn_session_id = session, idn_joint_order_hash = jh,
    idn_identity_hash = ih, idn_capabilities = caps, idn_n = n\<rparr>"
proof -
  obtain bi bm where bi: "id_bytes i = Inr bi" and bm: "id_bytes m = Inr bm"
    and pack: "struct_pack IDENTITY_FMT [WB bi, WB bm, WI session, WI jh, WI ih, WI caps, WI n, WB (replicate 8 0)] = Inr body" (is "struct_pack _ ?vs = _")
    using assms(1) unfolding pack_identity_def by (auto simp del: struct_pack.simps)
  note ci = cstring_id [OF bi assms(2)] and cm = cstring_id [OF bm assms(3)]
  have "list_all2 fits IDENTITY_FMT ?vs" by (rule struct_pack_fits [OF pack]) (simp add: IDENTITY_FMT_def ci(2) cm(2))
  then have "struct_unpack IDENTITY_FMT body = Inr ?vs" by (rule struct_unpack_pack [OF pack])
  moreover have "take 104 body = body" using body_length [OF pack] packet_sizes(5) by simp
  ultimately show ?thesis by (simp add: unpack_identity_def ci(1) cm(1))
qed

subsection \<open>Applied\<close>

lemma double_of_0 [simp]: "double_of 0 = Fin 0"
  by (simp add: double_of_def Let_def)

definition demo_seal :: fields where
  "demo_seal = [(''upload_id'', WI 1), (''sha256'', WB (replicate 32 1))]"

theorem reference_control_roundtrip_witness:
  "\<exists>data p. pack_reference_control REFERENCE_SEAL 7 0 True demo_seal = Inr data \<and> unpack_reference_control data True = Inr (REFERENCE_SEAL, 7, p) \<and>
     map_of p ''upload_id'' = Some (WI 1)"
proof -
  have "\<not> isl (pack_reference_control REFERENCE_SEAL 7 0 True demo_seal)" by code_simp
  then have "\<exists>data. pack_reference_control REFERENCE_SEAL 7 0 True demo_seal = Inr data" by (cases "pack_reference_control REFERENCE_SEAL 7 0 True demo_seal") auto
  then obtain data where d: "pack_reference_control REFERENCE_SEAL 7 0 True demo_seal = Inr data" ..
  obtain p where p: "unpack_reference_control data True = Inr (REFERENCE_SEAL, 7, p)" "map_of p = map_of (reference_fields REFERENCE_SEAL demo_seal)"
    using reference_control_roundtrip [OF d] by blast
  have "map_of (reference_fields REFERENCE_SEAL demo_seal) ''upload_id'' = Some (WI 1)"
    by (simp add: reference_fields_def REFERENCE_LAYOUTS_def op_consts demo_seal_def with_defaults_def set_default_def)
  then show ?thesis using d p by auto
qed

definition demo_ref_command :: ref_command where
  "demo_ref_command = \<lparr>rc_n = 1, rc_seq = 3, rc_arm_epoch = 1, rc_t_mono_ns = 0, rc_session_id = 9, rc_reference_id = 1, rc_revision = 1, rc_age_us = 0,
     rc_phase = 0, rc_valid_for_us = 1000, rc_phase_window_us = 1000, rc_tau_ff = [0], rc_kp = [0], rc_kd = [0]\<rparr>"

lemma header_packs: "list_all2 fits head hs \<Longrightarrow> length ds = k \<Longrightarrow> \<exists>data. struct_pack (head @ replicate k FD) (hs @ map WD ds) = Inr data"
  using struct_roundtrip [of "head @ replicate k FD" "hs @ map WD ds" "[]"] double_fields [of ds k] by (auto intro: list_all2_appendI)

lemma zero_slots: "mapr padded [[0], [0], [0]] = Inr (replicate 3 (replicate 16 0))" "mapr padded [[0], [0], [0], [0], [0]] = Inr (replicate 5 (replicate 16 0))"
  "concat (replicate 3 (replicate 16 0)) = replicate 48 (0 :: dbl)" "concat (replicate 5 (replicate 16 0)) = replicate 80 (0 :: dbl)"
  by (simp_all add: padded_def MAX_JOINTS_def numeral_eq_Suc)

lemma demo_ref_command_packs: "\<exists>data. pack_reference_command demo_ref_command True = Inr data"
proof -
  let ?hs = "[WI MAGIC_CMD, WI REFERENCE_VERSION, WI 1, WI 3, WI 1, WI 0, WI 9, WI 1, WI 1, WI 0, WD 0, WI 1000, WI 1000]"
  let ?head = "[FI 4, FI 2, FI 2, FI 4, FI 4, FI 8, FI 8, FI 8, FI 4, FI 4, FD, FI 4, FI 4]"
  obtain data where d: "struct_pack (?head @ replicate 48 FD) (?hs @ map WD (replicate 48 0)) = Inr data"
    using header_packs [of ?head ?hs "replicate 48 0" 48] by (auto simp: wire_consts)
  have u: "struct_unpack (?head @ replicate 48 FD) data = Inr (?hs @ map WD (replicate 48 0))" using header_unpack [OF d] by simp
  have l: "length data = 448" using struct_pack_length [OF d] by simp
  have "\<exists>c. unpack_reference_command data True = Inr c"
    unfolding unpack_reference_command_def REFERENCE_CMD_FMT_def u
    by (simp add: l wire_consts d_finite_def d_zero_def slots_def list_all_iff)
  then show ?thesis using d
    by (auto simp: pack_reference_command_def demo_ref_command_def REFERENCE_CMD_FMT_def zero_slots simp del: struct_pack.simps mapr.simps append.simps map_replicate)
qed

theorem reference_command_roundtrip_witness:
  "\<exists>data. pack_reference_command demo_ref_command True = Inr data \<and> unpack_reference_command data True = Inr demo_ref_command"
proof -
  obtain data where d: "pack_reference_command demo_ref_command True = Inr data" using demo_ref_command_packs ..
  then show ?thesis using reference_command_roundtrip [OF d] by blast
qed

definition demo_command :: command_args where
  "demo_command = \<lparr>cm_n = 1, cm_seq = 2 ^ 32 + 5, cm_t_mono_ns = 0, cm_q_des = [0], cm_qd_des = [0], cm_tau_ff = [0], cm_kp = [0], cm_kd = [0],
     cm_session_id = 9, cm_arm_epoch = 1, cm_pose_hold = None, cm_cartesian = None\<rparr>"

lemma demo_command_packs: "\<exists>data. pack_command demo_command = Inr data"
proof -
  let ?hs = "[WI MAGIC_CMD, WI VERSION, WI 1, WI 5, WI 1, WI 0, WI 9]" and ?head = "[FI 4, FI 2, FI 2, FI 4, FI 4, FI 8, FI 8]"
  obtain data where d: "struct_pack (?head @ replicate 80 FD) (?hs @ map WD (replicate 80 0)) = Inr data"
    using header_packs [of ?head ?hs "replicate 80 0" 80] by (auto simp: wire_consts)
  then show ?thesis
    by (auto simp: pack_command_def demo_command_def command_tail_def CMD_FMT_def zero_slots d_finite_def MAX_JOINTS_def
        simp del: struct_pack.simps mapr.simps append.simps map_replicate)
qed

theorem command_packet_valid_witness:
  "\<exists>data version rest. pack_command demo_command = Inr data \<and> struct_unpack CMD_FMT (take 672 data) = Inr (WI MAGIC_CMD # WI version # WI 1 # WI 5 # rest)"
proof -
  obtain data where d: "pack_command demo_command = Inr data" using demo_command_packs ..
  then show ?thesis using command_packet_valid [OF d] by (auto simp: demo_command_def)
qed

end
