(* ===== verification/Rt_Observe.thy ===== *)
theory Rt_Observe
  imports Rt_Proofs Contract Handlers
begin

text \<open>
  \<^verbatim>\<open>arm_control/plants/remote_rt/observation.py\<close>: RT state packets as values of the execution contract, and the rule
  that says which command the robot has accepted.
\<close>

subsection \<open>Observations\<close>

definition identity_hash :: "RobotIdentity \<Rightarrow> 64 word result" where
  "identity_hash i =
     (if \<not> valid_id (ri_instance_id i) then Inl (ValueError ''instance_id is not a valid RT id'')
      else rt_identity_hash (ri_instance_id i) (joint_order_hash (ri_joint_names i)))"

definition writing :: "rt_State \<Rightarrow> bool" where
  "writing s \<longleftrightarrow> has_flag (st_flags s) FLAG_ARMED \<and> (\<not> has_flag (st_flags s) FLAG_FAULTED \<or> has_flag (st_flags s) FLAG_HOLDING)"

definition no_values :: "string \<Rightarrow> Validity \<Rightarrow> string \<Rightarrow> RobotState" where
  "no_values iid v reason = \<lparr>rs_instance_id = iid, rs_validity = v, rs_reason = reason, rs_q = None, rs_dq = None, rs_tau = None, rs_selected_q = None,
     rs_selected_qd = None, rs_output_tau = None, rs_wrench = None, rs_source = None, rs_received = None, rs_state_seq = None, rs_last_command_seq = None\<rparr>"

definition floats :: "dbl list \<Rightarrow> vec" where
  "floats = map double_of"

definition observed :: "rt_State \<Rightarrow> string \<Rightarrow> int \<Rightarrow> string \<Rightarrow> string \<Rightarrow> RobotState result" where
  "observed s iid received_ns pc_domain rt_domain =
     (let w = writing s in
      bindr (mk_Stamp (st_t_mono_ns s) RT_HOST rt_domain) (\<lambda>src.
      bindr (mk_Stamp received_ns PC pc_domain) (\<lambda>rcv.
      mk_RobotState \<lparr>rs_instance_id = iid, rs_validity = VALID, rs_reason = [], rs_q = Some (floats (st_q s)), rs_dq = Some (floats (st_dq s)),
        rs_tau = Some (floats (st_tau s)), rs_selected_q = (if w then Some (floats (st_q_cmd s)) else None),
        rs_selected_qd = (if w then Some (floats (st_qd_cmd s)) else None), rs_output_tau = (if w then Some (floats (st_tau_cmd s)) else None),
        rs_wrench = (if has_flag (st_flags s) FLAG_WRENCH_VALID then Some (floats (st_wrench s)) else None), rs_source = Some src, rs_received = Some rcv,
        rs_state_seq = Some (st_state_seq s), rs_last_command_seq = Some (st_last_cmd_seq s)\<rparr>)))"

definition robot_state :: "rt_State option \<Rightarrow> RobotIdentity \<Rightarrow> int \<Rightarrow> int \<Rightarrow> fl \<Rightarrow> string \<Rightarrow> string \<Rightarrow> RobotState result" where
  "robot_state state i received_ns now_ns max_age_s pc_domain rt_domain =
     (let iid = ri_instance_id i in
      case state of
        None \<Rightarrow> mk_RobotState (no_values iid MISSING ''no state received'')
      | Some s \<Rightarrow>
          bindr (identity_hash i) (\<lambda>h.
          if st_identity_hash s \<noteq> uint h \<or> st_n s \<noteq> int (ri_n i) then mk_RobotState (no_values iid INVALID ''state is from another instance or joint order'')
          else if Fin (of_int (now_ns - received_ns) * (1 / 10 ^ 9)) > max_age_s then mk_RobotState (no_values iid STALE ''last state is old'')
          else case observed s iid received_ns pc_domain rt_domain of
            Inr r \<Rightarrow> Inr r
          | Inl e \<Rightarrow> if is_value_error e then mk_RobotState (no_values iid INVALID (err_text e)) else Inl e))"

subsection \<open>Authority\<close>

definition hex_digit :: "int \<Rightarrow> char" where
  "hex_digit k = (if k < 10 then char_of (48 + k) else char_of (87 + k))"

definition hex16 :: "int \<Rightarrow> string" where
  "hex16 v = map (\<lambda>i. hex_digit (v div 16 ^ i mod 16)) (rev [0..<16])"

fun decimal :: "nat \<Rightarrow> string" where
  "decimal n = (if n < 10 then [char_of (48 + n)] else decimal (n div 10) @ [char_of (48 + n mod 10)])"

definition fault_name :: "int \<Rightarrow> string" where
  "fault_name c = (if c = 1 then ''cmd_lost'' else if c = 2 then ''ctl_lost'' else if c = 3 then ''plant'' else ''code_'' @ decimal (nat c))"

definition authority :: "rt_State \<Rightarrow> int option \<Rightarrow> string \<Rightarrow> Authority result" where
  "authority s claimed_session fault_text =
     (let session = (if st_session_id s \<noteq> 0 then Some (hex16 (st_session_id s)) else None);
          hold = has_flag (st_flags s) FLAG_HOLDING in
      if has_flag (st_flags s) FLAG_FAULTED then
        mk_Authority \<lparr>au_lifecycle = FAULTED_ROBOT, au_session = session, au_arm_epoch = st_arm_epoch s, au_stop_epoch = st_stop_epoch s,
          au_fault = Some \<lparr>f_code = fault_name (st_fault_code s), f_text = fault_text, f_source = ''rt'',
            f_arm_epoch = (if st_arm_epoch s \<noteq> 0 then Some (st_arm_epoch s) else None)\<rparr>, au_holding = Some hold\<rparr>
      else if has_flag (st_flags s) FLAG_ARMED then
        mk_Authority \<lparr>au_lifecycle = ARMED, au_session = session, au_arm_epoch = st_arm_epoch s, au_stop_epoch = st_stop_epoch s, au_fault = None,
          au_holding = Some hold\<rparr>
      else if claimed_session \<noteq> None \<and> claimed_session = Some (st_session_id s) then
        mk_Authority \<lparr>au_lifecycle = CLAIMED, au_session = session, au_arm_epoch = 0, au_stop_epoch = st_stop_epoch s, au_fault = None, au_holding = Some False\<rparr>
      else if session \<noteq> None then
        mk_Authority \<lparr>au_lifecycle = CONNECTED, au_session = session, au_arm_epoch = 0, au_stop_epoch = st_stop_epoch s, au_fault = None, au_holding = Some False\<rparr>
      else mk_Authority \<lparr>au_lifecycle = OBSERVING, au_session = None, au_arm_epoch = 0, au_stop_epoch = st_stop_epoch s, au_fault = None, au_holding = Some False\<rparr>)"

subsection \<open>Applied commands\<close>

text \<open>32-bit serial comparison.\<close>

definition newer :: "int \<Rightarrow> int \<Rightarrow> bool" where
  "newer a b \<longleftrightarrow> 0 < (a - b) mod 2 ^ 32 \<and> (a - b) mod 2 ^ 32 < 0x80000000"

record AppliedTracker =
  at_epoch :: "int option"
  at_last :: "int option"
  at_candidate :: "int option"
  at_confirmed :: "int option"
  at_closed :: bool
  at_faulted :: bool

definition mk_AppliedTracker :: AppliedTracker where
  "mk_AppliedTracker = \<lparr>at_epoch = None, at_last = None, at_candidate = None, at_confirmed = None, at_closed = False, at_faulted = False\<rparr>"

text \<open>A newer ARM generation starts over.\<close>

definition feed_epoch :: "AppliedTracker \<Rightarrow> rt_State \<Rightarrow> AppliedTracker" where
  "feed_epoch t s =
     (if at_epoch t = None \<or> newer (st_arm_epoch s) (the (at_epoch t))
      then \<lparr>at_epoch = Some (st_arm_epoch s), at_last = None, at_candidate = None, at_confirmed = None, at_closed = False, at_faulted = False\<rparr>
      else t)"

definition feed :: "AppliedTracker \<Rightarrow> rt_State \<Rightarrow> AppliedTracker" where
  "feed t0 s =
     (let t = feed_epoch t0 s in
      if at_epoch t \<noteq> Some (st_arm_epoch s) then t
      else if at_last t \<noteq> None \<and> \<not> newer (st_state_seq s) (the (at_last t)) then t
      else let t = t\<lparr>at_last := Some (st_state_seq s), at_faulted := at_faulted t \<or> has_flag (st_flags s) FLAG_FAULTED\<rparr> in
        if at_closed t then t
        else if \<not> has_flag (st_flags s) FLAG_ARMED \<or> has_flag (st_flags s) FLAG_FAULTED then t\<lparr>at_closed := True, at_candidate := None\<rparr>
        else t\<lparr>at_confirmed := (if at_candidate t \<noteq> None then at_candidate t else at_confirmed t), at_candidate := Some (st_last_cmd_seq s)\<rparr>)"

definition disarm_sent :: "AppliedTracker \<Rightarrow> AppliedTracker" where
  "disarm_sent t = t\<lparr>at_closed := True, at_candidate := None\<rparr>"

definition confirmed :: "AppliedTracker \<Rightarrow> int \<Rightarrow> int option" where
  "confirmed t epoch = (if at_epoch t = Some epoch then at_confirmed t else None)"

definition fault_seen :: "AppliedTracker \<Rightarrow> int \<Rightarrow> bool" where
  "fault_seen t epoch \<longleftrightarrow> at_faulted t \<and> at_epoch t = Some epoch"

datatype tracker_input = Fed rt_State | DisarmSent

definition track :: "tracker_input list \<Rightarrow> AppliedTracker" where
  "track xs = foldl (\<lambda>t x. case x of Fed s \<Rightarrow> feed t s | DisarmSent \<Rightarrow> disarm_sent t) mk_AppliedTracker xs"

subsection \<open>What a confirmation is evidence of\<close>

definition clean :: "int \<Rightarrow> rt_State \<Rightarrow> bool" where
  "clean epoch s \<longleftrightarrow> st_arm_epoch s = epoch \<and> has_flag (st_flags s) FLAG_ARMED \<and> \<not> has_flag (st_flags s) FLAG_FAULTED"

text \<open>
  The candidate comes from the last state that counted, a clean one, with no disarm since.
\<close>

definition candidate_from :: "tracker_input list \<Rightarrow> AppliedTracker \<Rightarrow> bool" where
  "candidate_from xs t \<longleftrightarrow> (at_closed t \<longrightarrow> at_candidate t = None) \<and> (\<forall>c. at_candidate t = Some c \<longrightarrow>
     (\<exists>pre s post. xs = pre @ Fed s # post \<and> DisarmSent \<notin> set post \<and> (\<exists>e. at_epoch t = Some e \<and> clean e s) \<and> st_last_cmd_seq s = c \<and>
        at_last t = Some (st_state_seq s)))"

definition evidence :: "tracker_input list \<Rightarrow> int \<Rightarrow> int \<Rightarrow> bool" where
  "evidence xs epoch c \<longleftrightarrow> (\<exists>pre s mid s' post. xs = pre @ Fed s # mid @ Fed s' # post \<and> clean epoch s \<and> clean epoch s' \<and>
     st_last_cmd_seq s = c \<and> newer (st_state_seq s') (st_state_seq s) \<and> DisarmSent \<notin> set mid)"

definition confirmed_from :: "tracker_input list \<Rightarrow> AppliedTracker \<Rightarrow> bool" where
  "confirmed_from xs t \<longleftrightarrow> (\<forall>e c. at_epoch t = Some e \<longrightarrow> at_confirmed t = Some c \<longrightarrow> evidence xs e c)"

lemma evidence_snoc: "evidence xs e c \<Longrightarrow> evidence (xs @ [x]) e c"
  unfolding evidence_def by (metis append.assoc append_Cons)

lemma candidate_fed:
  assumes "candidate_from xs t" "at_epoch t' = at_epoch t" "at_candidate t' = at_candidate t" "at_last t' = at_last t" "at_closed t' = at_closed t"
  shows "candidate_from (xs @ [Fed s]) t'"
  unfolding candidate_from_def
proof (intro conjI allI impI)
  show "at_candidate t' = None" if "at_closed t'" using that assms by (simp add: candidate_from_def)
  fix c
  assume "at_candidate t' = Some c"
  then obtain pre s0 post where "xs = pre @ Fed s0 # post" "DisarmSent \<notin> set post" "\<exists>e. at_epoch t = Some e \<and> clean e s0" "st_last_cmd_seq s0 = c"
      "at_last t = Some (st_state_seq s0)" using assms unfolding candidate_from_def by metis
  then show "\<exists>pre s1 post. xs @ [Fed s] = pre @ Fed s1 # post \<and> DisarmSent \<notin> set post \<and> (\<exists>e. at_epoch t' = Some e \<and> clean e s1) \<and> st_last_cmd_seq s1 = c \<and>
      at_last t' = Some (st_state_seq s1)" using assms(2,4) by (intro exI [of _ pre] exI [of _ s0] exI [of _ "post @ [Fed s]"]) simp
qed

lemma fresh_tracker: "candidate_from xs t" "confirmed_from xs t" if "at_candidate t = None" "at_confirmed t = None"
  using that by (simp_all add: candidate_from_def confirmed_from_def)

lemma feed_evidence:
  assumes "candidate_from xs t" "confirmed_from xs t"
  shows "candidate_from (xs @ [Fed s]) (feed t s) \<and> confirmed_from (xs @ [Fed s]) (feed t s)"
proof -
  define u where "u = feed_epoch t s"
  have u: "candidate_from xs u" "confirmed_from xs u"
    using assms fresh_tracker [of u xs] by (auto simp: u_def feed_epoch_def)
  define v where "v = u\<lparr>at_last := Some (st_state_seq s), at_faulted := at_faulted u \<or> has_flag (st_flags s) FLAG_FAULTED\<rparr>"
  have v: "at_epoch v = at_epoch u" "at_candidate v = at_candidate u" "at_confirmed v = at_confirmed u" by (simp_all add: v_def)
  have keep: "confirmed_from (xs @ [Fed s]) w" if "at_epoch w = at_epoch u" "at_confirmed w = at_confirmed u" for w
    using u(2) that evidence_snoc by (auto simp: confirmed_from_def)
  have eq: "feed t s =
     (if at_epoch u \<noteq> Some (st_arm_epoch s) \<or> at_last u \<noteq> None \<and> \<not> newer (st_state_seq s) (the (at_last u)) then u
      else if at_closed v then v
      else if \<not> has_flag (st_flags s) FLAG_ARMED \<or> has_flag (st_flags s) FLAG_FAULTED then v\<lparr>at_closed := True, at_candidate := None\<rparr>
      else v\<lparr>at_confirmed := (if at_candidate u \<noteq> None then at_candidate u else at_confirmed u), at_candidate := Some (st_last_cmd_seq s)\<rparr>)"
    unfolding feed_def Let_def u_def [symmetric] v_def [symmetric] v(2,3) by presburger
  consider (skip) "at_epoch u \<noteq> Some (st_arm_epoch s) \<or> at_last u \<noteq> None \<and> \<not> newer (st_state_seq s) (the (at_last u))"
    | (closed) "\<not> (at_epoch u \<noteq> Some (st_arm_epoch s) \<or> at_last u \<noteq> None \<and> \<not> newer (st_state_seq s) (the (at_last u)))" "at_closed v"
    | (close) "\<not> (at_epoch u \<noteq> Some (st_arm_epoch s) \<or> at_last u \<noteq> None \<and> \<not> newer (st_state_seq s) (the (at_last u)))" "\<not> at_closed v"
        "\<not> has_flag (st_flags s) FLAG_ARMED \<or> has_flag (st_flags s) FLAG_FAULTED"
    | (count) "at_epoch u = Some (st_arm_epoch s)" "at_last u = None \<or> newer (st_state_seq s) (the (at_last u))" "\<not> at_closed v"
        "has_flag (st_flags s) FLAG_ARMED" "\<not> has_flag (st_flags s) FLAG_FAULTED" by argo
  then show ?thesis
  proof cases
    case skip
    then have "feed t s = u" using eq by presburger
    then show ?thesis using candidate_fed [OF u(1), of u] keep [of u] by simp
  next
    case closed
    then have f: "feed t s = v" using eq by presburger
    have "at_candidate v = None" using closed(2) u(1) v(2) by (simp add: candidate_from_def v_def)
    then show ?thesis using f keep [of v] v by (simp add: candidate_from_def)
  next
    case close
    then have "feed t s = v\<lparr>at_closed := True, at_candidate := None\<rparr>" using eq by presburger
    then show ?thesis using keep [of "feed t s"] v by (simp add: candidate_from_def)
  next
    case count
    then have f: "feed t s = v\<lparr>at_confirmed := (if at_candidate u \<noteq> None then at_candidate u else at_confirmed u), at_candidate := Some (st_last_cmd_seq s)\<rparr>"
      using eq by presburger
    have cl: "clean (st_arm_epoch s) s" using count by (simp add: clean_def)
    have last: "at_last v = Some (st_state_seq s)" by (simp add: v_def)
    have fl: "at_closed (feed t s) = at_closed v" "at_candidate (feed t s) = Some (st_last_cmd_seq s)" "at_last (feed t s) = Some (st_state_seq s)"
        "at_epoch (feed t s) = Some (st_arm_epoch s)" using count(1) v last by (simp_all add: f)
    have cand: "candidate_from (xs @ [Fed s]) (feed t s)" unfolding candidate_from_def fl
    proof (intro conjI allI impI)
      fix c
      assume "Some (st_last_cmd_seq s) = Some c"
      then have "xs @ [Fed s] = xs @ Fed s # [] \<and> DisarmSent \<notin> set [] \<and> (\<exists>e. Some (st_arm_epoch s) = Some e \<and> clean e s) \<and> st_last_cmd_seq s = c \<and>
          Some (st_state_seq s) = Some (st_state_seq s)" using cl by simp
      then show "\<exists>pre s0 post. xs @ [Fed s] = pre @ Fed s0 # post \<and> DisarmSent \<notin> set post \<and> (\<exists>e. Some (st_arm_epoch s) = Some e \<and> clean e s0) \<and>
          st_last_cmd_seq s0 = c \<and> Some (st_state_seq s) = Some (st_state_seq s0)" by (rule exI [of _ xs, OF exI [of _ s, OF exI [of _ "[]"]]])
    qed (use count(3) in simp)
    have "evidence (xs @ [Fed s]) (st_arm_epoch s) c" if uc: "at_candidate u = Some c" for c
    proof -
      obtain pre s0 post where p: "xs = pre @ Fed s0 # post" "DisarmSent \<notin> set post" "clean (st_arm_epoch s) s0" "st_last_cmd_seq s0 = c"
          "at_last u = Some (st_state_seq s0)" using u(1) uc count(1) unfolding candidate_from_def by auto
      then show ?thesis using cl count(2) unfolding evidence_def
        by (intro exI [of _ pre] exI [of _ s0] exI [of _ post] exI [of _ s] exI [of _ "[]"]) simp
    qed
    then have "confirmed_from (xs @ [Fed s]) (feed t s)"
      using count(1) keep [of u] v unfolding f by (auto simp: confirmed_from_def split: if_splits)
    with cand show ?thesis ..
  qed
qed

lemma track_snoc: "track (xs @ [Fed s]) = feed (track xs) s" "track (xs @ [DisarmSent]) = disarm_sent (track xs)"
  by (simp_all add: track_def)

lemma track_evidence: "candidate_from xs (track xs) \<and> confirmed_from xs (track xs)"
proof (induction xs rule: rev_induct)
  case Nil
  show ?case using fresh_tracker [of mk_AppliedTracker "[]"] by (simp add: track_def mk_AppliedTracker_def)
next
  case (snoc x xs)
  show ?case
  proof (cases x)
    case (Fed s)
    then show ?thesis using feed_evidence [of xs "track xs" s] snoc by (simp add: track_snoc)
  next
    case DisarmSent
    have "confirmed_from (xs @ [x]) (disarm_sent (track xs))"
      using snoc evidence_snoc by (auto simp: confirmed_from_def disarm_sent_def)
    moreover have "candidate_from (xs @ [x]) (disarm_sent (track xs))" by (simp add: candidate_from_def disarm_sent_def)
    ultimately show ?thesis using DisarmSent by (simp add: track_snoc)
  qed
qed

text \<open>
  C6: A command sequence number is reported as accepted in an ARM generation only on evidence: two states of that
  generation were received, both armed and not faulted, the first carrying that number, the second later by the serial
  order of the states, and no disarm was sent between them. Lost, repeated and reordered states do not count.
\<close>

theorem applied_needs_evidence:
  assumes "confirmed (track xs) epoch = Some c"
  shows "\<exists>pre s mid s' post. xs = pre @ Fed s # mid @ Fed s' # post \<and> clean epoch s \<and> clean epoch s' \<and>
     st_last_cmd_seq s = c \<and> newer (st_state_seq s') (st_state_seq s) \<and> DisarmSent \<notin> set mid"
  using track_evidence [of xs] assms by (auto simp: confirmed_def confirmed_from_def evidence_def split: if_splits)

subsection \<open>Observations are total and honest\<close>

lemma no_values_ok: "v \<noteq> VALID \<Longrightarrow> reason \<noteq> [] \<Longrightarrow> mk_RobotState (no_values iid v reason) = Inr (no_values iid v reason)"
  by (simp add: mk_RobotState_def no_values_def)

lemma vector_error: "vector name x n = Inl e \<Longrightarrow> \<exists>m. e = ValueError m \<and> m \<noteq> []"
  by (auto simp: vector_def split: option.splits if_splits)

lemma observed_error: "observed s iid r pc rt = Inl e \<Longrightarrow> \<exists>m. e = ValueError m \<and> m \<noteq> []"
  unfolding observed_def Let_def mk_RobotState_def mk_Stamp_def
  by (auto simp: bindr_eq_Inl dest!: vector_error split: if_splits)

lemma valid_id_encode:
  assumes "valid_id s"
  shows "length (encode s) < 32"
proof -
  have "length (utf8_char c) = 1" if "id_char_ok c" for c
  proof -
    have "(of_char c :: nat) < 128" using that by (auto simp: id_char_ok_def Let_def)
    then have "(of_char c :: int) < 128" by (metis of_nat_less_numeral_iff of_nat_of_char)
    then show ?thesis by (simp add: utf8_char_def Let_def)
  qed
  then have "length (encode xs) = length xs" if "list_all id_char_ok xs" for xs
    using that by (induction xs) (auto simp: encode_def)
  then show ?thesis using assms by (simp add: valid_id_def ID_CHARS_def)
qed

text \<open>What a valid observation shows of its packet.\<close>

definition shows_packet :: "rt_State \<Rightarrow> RobotState \<Rightarrow> bool" where
  "shows_packet s r \<longleftrightarrow> rs_q r = Some (floats (st_q s)) \<and> rs_dq r = Some (floats (st_dq s)) \<and> rs_tau r = Some (floats (st_tau s)) \<and>
     rs_selected_q r = (if writing s then Some (floats (st_q_cmd s)) else None) \<and>
     rs_selected_qd r = (if writing s then Some (floats (st_qd_cmd s)) else None) \<and>
     rs_output_tau r = (if writing s then Some (floats (st_tau_cmd s)) else None) \<and>
     rs_wrench r = (if has_flag (st_flags s) FLAG_WRENCH_VALID then Some (floats (st_wrench s)) else None) \<and>
     (\<forall>v \<in> {rs_q r, rs_dq r, rs_tau r, rs_selected_q r, rs_selected_qd r, rs_output_tau r}. \<forall>x. v = Some x \<longrightarrow> all_finite x \<and> length x = length (st_q s)) \<and>
     (\<forall>x. rs_wrench r = Some x \<longrightarrow> all_finite x \<and> length x = 6)"

lemma vector_ok: "vector name v n = Inr w \<Longrightarrow> \<forall>x. v = Some x \<longrightarrow> all_finite x \<and> (n = None \<or> n = Some (length x))"
  by (auto simp: vector_def split: option.splits if_splits)

lemma observed_shows:
  assumes "observed s iid r pc rt = Inr x"
  shows "shows_packet s x" "rs_validity x = VALID"
proof -
  obtain a b where mk: "mk_RobotState \<lparr>rs_instance_id = iid, rs_validity = VALID, rs_reason = [], rs_q = Some (floats (st_q s)), rs_dq = Some (floats (st_dq s)),
        rs_tau = Some (floats (st_tau s)), rs_selected_q = (if writing s then Some (floats (st_q_cmd s)) else None),
        rs_selected_qd = (if writing s then Some (floats (st_qd_cmd s)) else None), rs_output_tau = (if writing s then Some (floats (st_tau_cmd s)) else None),
        rs_wrench = (if has_flag (st_flags s) FLAG_WRENCH_VALID then Some (floats (st_wrench s)) else None), rs_source = Some a, rs_received = Some b,
        rs_state_seq = Some (st_state_seq s), rs_last_command_seq = Some (st_last_cmd_seq s)\<rparr> = Inr x" (is "mk_RobotState ?x = _")
    using assms unfolding observed_def Let_def by (auto simp: bindr_eq_Inr)
  have x: "x = ?x" using mk unfolding mk_RobotState_def by (auto simp: bindr_eq_Inr)
  have len: "length (floats y) = length y" for y by (simp add: floats_def)
  obtain u1 u2 u3 u4 u5 u6 u7 where u:
      "vector ''q'' (rs_q x) None = Inr u1" "vector ''dq'' (rs_dq x) (Some (length (st_q s))) = Inr u2" "vector ''tau'' (rs_tau x) (Some (length (st_q s))) = Inr u3"
      "vector ''selected_q'' (rs_selected_q x) (Some (length (st_q s))) = Inr u4" "vector ''selected_qd'' (rs_selected_qd x) (Some (length (st_q s))) = Inr u5"
      "vector ''output_tau'' (rs_output_tau x) (Some (length (st_q s))) = Inr u6" "vector ''wrench'' (rs_wrench x) (Some 6) = Inr u7"
    using mk unfolding x mk_RobotState_def by (auto simp: bindr_eq_Inr len)
  note ok = u [THEN vector_ok]
  show "rs_validity x = VALID" by (simp add: x)
  have q: "rs_q x = Some (floats (st_q s))" by (simp add: x)
  have "\<forall>v \<in> {rs_q x, rs_dq x, rs_tau x, rs_selected_q x, rs_selected_qd x, rs_output_tau x}. \<forall>y. v = Some y \<longrightarrow> all_finite y \<and> length y = length (st_q s)"
    using ok(1-6) q by (auto simp: len)
  moreover have "\<forall>y. rs_wrench x = Some y \<longrightarrow> all_finite y \<and> length y = 6" using ok(7) by auto
  ultimately show "shows_packet s x" unfolding shows_packet_def by (simp add: x)
qed

text \<open>
  C38: For a robot with a valid RT id, a state packet is always turned into an observation, never into an exception. An
  observation that is not marked valid carries no values; one that is marked valid is of this robot, no older than the bound on
  the receiver's clock, carries the packet's measured position, velocity and torque, its selected reference and output torque
  exactly when the robot was writing and its wrench exactly when the packet flags it, every value finite and of the right length.
\<close>

theorem observation_total_and_honest:
  assumes "valid_id (ri_instance_id i)"
  shows "\<exists>r. robot_state state i received now max_age pc rt = Inr r \<and>
    (rs_validity r \<noteq> VALID \<longrightarrow> (\<forall>v \<in> {rs_q r, rs_dq r, rs_tau r, rs_selected_q r, rs_selected_qd r, rs_output_tau r, rs_wrench r}. v = None)) \<and>
    (rs_validity r = VALID \<longrightarrow> (\<exists>s h. state = Some s \<and> identity_hash i = Inr h \<and> st_identity_hash s = uint h \<and> st_n s = int (ri_n i) \<and>
       \<not> Fin (of_int (now - received) * (1 / 10 ^ 9)) > max_age \<and> shows_packet s r))"
proof -
  have "length (encode (ri_instance_id i)) < 32" using valid_id_encode [OF assms] .
  then obtain h where h: "identity_hash i = Inr h"
    using assms by (auto simp: identity_hash_def rt_identity_hash_def id_bytes_def Let_def ID_CHARS_def)
  show ?thesis
  proof (cases state)
    case None
    then show ?thesis by (simp add: robot_state_def Let_def no_values_ok) (simp add: no_values_def)
  next
    case (Some s)
    let ?foreign = "st_identity_hash s \<noteq> uint h \<or> st_n s \<noteq> int (ri_n i)" and ?old = "Fin (of_int (now - received) * (1 / 10 ^ 9)) > max_age"
    show ?thesis
    proof (cases "?foreign \<or> ?old")
      case True
      then have "\<exists>v why. v \<noteq> VALID \<and> robot_state state i received now max_age pc rt = Inr (no_values (ri_instance_id i) v why)"
        unfolding robot_state_def Let_def using Some h by (cases ?foreign) (auto simp: no_values_ok)
      then show ?thesis by (auto simp: no_values_def)
    next
      case False
      then have eq: "robot_state state i received now max_age pc rt = (case observed s (ri_instance_id i) received pc rt of
          Inr r \<Rightarrow> Inr r | Inl e \<Rightarrow> if is_value_error e then mk_RobotState (no_values (ri_instance_id i) INVALID (err_text e)) else Inl e)"
        unfolding robot_state_def Let_def using Some h by simp
      show ?thesis
      proof (cases "observed s (ri_instance_id i) received pc rt")
        case (Inl e)
        then obtain m where "e = ValueError m" "m \<noteq> []" using observed_error by blast
        then show ?thesis using eq Inl by (simp add: no_values_ok) (simp add: no_values_def)
      next
        case (Inr r)
        then have "shows_packet s r" "rs_validity r = VALID" using observed_shows by simp_all
        then show ?thesis using eq Inr Some h False by auto
      qed
    qed
  qed
qed

subsection \<open>Applied\<close>

definition armed_state :: "int \<Rightarrow> int \<Rightarrow> rt_State" where
  "armed_state seq cmd = \<lparr>st_n = 1, st_state_seq = seq, st_last_cmd_seq = cmd, st_t_mono_ns = 0, st_flags = FLAG_ARMED, st_fault_code = 0, st_session_id = 9,
     st_identity_hash = 0, st_arm_epoch = 7, st_stop_epoch = 0, st_q = [0], st_dq = [0], st_tau = [0], st_tau_cmd = [0], st_q_cmd = [0], st_qd_cmd = [0],
     st_wrench = []\<rparr>"

text \<open>The state counter wraps between the two states.\<close>

theorem applied_needs_evidence_witness:
  "confirmed (track [Fed (armed_state (2 ^ 32 - 1) 5), Fed (armed_state (2 ^ 32 - 1) 5), Fed (armed_state 0 6)]) 7 = Some 5 \<and>
   (\<exists>pre s mid s' post. [Fed (armed_state (2 ^ 32 - 1) 5), Fed (armed_state (2 ^ 32 - 1) 5), Fed (armed_state 0 6)] = pre @ Fed s # mid @ Fed s' # post \<and>
     clean 7 s \<and> clean 7 s' \<and> st_last_cmd_seq s = 5 \<and> newer (st_state_seq s') (st_state_seq s) \<and> DisarmSent \<notin> set mid)"
proof -
  have c: "confirmed (track [Fed (armed_state (2 ^ 32 - 1) 5), Fed (armed_state (2 ^ 32 - 1) 5), Fed (armed_state 0 6)]) 7 = Some 5"
    by code_simp
  then show ?thesis using applied_needs_evidence [OF c] by blast
qed

definition demo_robot :: RobotIdentity where
  "demo_robot = \<lparr>ri_instance_id = ''a'', ri_joint_names = [''j''], ri_backend = ''fake'', ri_model_id = []\<rparr>"

definition demo_hash :: "64 word" where
  "demo_hash = fnv1a64 (le_bytes 8 (uint (joint_order_hash [''j'']))) (fnv1a64 (fit 32 (encode ''a'')) FNV_OFFSET)"

definition demo_packet :: rt_State where
  "demo_packet = (armed_state 1 1)\<lparr>st_identity_hash := uint demo_hash\<rparr>"

lemma demo_robot_hash: "identity_hash demo_robot = Inr demo_hash"
  by (simp add: identity_hash_def demo_robot_def valid_id_def id_char_ok_def rt_identity_hash_def id_bytes_def demo_hash_def ID_CHARS_def encode_def utf8_char_def Let_def)

theorem observation_total_and_honest_witness:
  "\<exists>r. robot_state (Some demo_packet) demo_robot 0 0 1 [] [] = Inr r \<and> rs_validity r = VALID \<and> rs_q r = Some [0]"
proof -
  have v: "valid_id (ri_instance_id demo_robot)" by (simp add: demo_robot_def valid_id_def id_char_ok_def ID_CHARS_def)
  have "\<exists>r. robot_state (Some demo_packet) demo_robot 0 0 1 [] [] = Inr r \<and> rs_validity r = VALID"
    by (simp add: robot_state_def demo_robot_hash Let_def demo_packet_def armed_state_def ri_n_def observed_def mk_Stamp_def mk_RobotState_def vector_def floats_def
        writing_def has_flag_def FLAG_ARMED_def FLAG_FAULTED_def FLAG_HOLDING_def FLAG_WRENCH_VALID_def) (simp add: demo_robot_def)
  then show ?thesis using observation_total_and_honest [OF v, of "Some demo_packet" 0 0 1 "[]" "[]"]
    by (auto simp: demo_packet_def armed_state_def floats_def shows_packet_def)
qed

end
