(* ===== verification/Profiles.thy ===== *)
theory Profiles
  imports Motion_Curve
begin

text \<open>
  \<^verbatim>\<open>arm_control/motion/profiles.py\<close>: the closed-form rest-to-rest profile.

  The moving joints share one scalar progress along the line from start to goal; the profile is a triangle or a
  trapezoid in its speed. The inputs are one-dimensional by their type.
\<close>

section \<open>The profile\<close>

fun arr_min :: "vec \<Rightarrow> fl result" where
  "arr_min [] = Inl (ValueError ''zero-size array to reduction operation'')"
| "arr_min (x # xs) = Inr (fold np_min xs x)"

definition masked :: "bool list \<Rightarrow> vec \<Rightarrow> vec" where
  "masked ms xs = map fst (filter snd (zip xs ms))"

definition vdiv :: "vec \<Rightarrow> vec \<Rightarrow> vec" where
  "vdiv = map2 (/)"

text \<open>\<^verbatim>\<open>np.finfo(float).eps\<close>.\<close>

definition float_eps :: fl where
  "float_eps = Fin (1 / 2 ^ 52)"

text \<open>The knots of the shared progress: times, progress and rates.\<close>

definition profile_knots :: "fl \<Rightarrow> fl \<Rightarrow> vec \<times> vec \<times> vec" where
  "profile_knots speed acceleration =
     (let peak = py_min speed (fsqrt acceleration);
          ramp = peak / acceleration;
          cruise = py_max 0 ((1 - peak * ramp) / peak) in
      if cruise \<le> 32 * float_eps * ramp then
        let ramp = 1 / fsqrt acceleration; peak = fsqrt acceleration in
        ([0, ramp, 2 * ramp], [0, Fin (1 / 2), 1], [0, peak, 0])
      else
        ([0, ramp, ramp + cruise, 2 * ramp + cruise],
         [0, Fin (1 / 2) * peak * ramp, 1 - Fin (1 / 2) * peak * ramp, 1], [0, peak, peak, 0]))"

definition trapezoidal_trajectory :: "vec \<Rightarrow> vec \<Rightarrow> vec \<Rightarrow> vec \<Rightarrow> JointTrajectory result" where
  "trapezoidal_trajectory start goal max_vel max_acc =
     (if start = [] \<or> list_ex (\<lambda>x. length x \<noteq> length start) [goal, max_vel, max_acc]
        then Inl (ValueError ''profile inputs must be equal, nonempty 1-D vectors'')
      else if \<not> list_all all_finite [start, goal, max_vel, max_acc] then Inl (ValueError ''profile inputs must be finite'')
      else if list_ex (\<lambda>x. x \<le> 0) max_vel \<or> list_ex (\<lambda>x. x \<le> 0) max_acc
        then Inl (ValueError ''profile velocity and acceleration limits must be positive'')
      else
        let delta = vsub goal start; moving = map (\<lambda>d. 0 < fabs d) delta in
        if \<not> list_ex id moving then Inl (ValueError ''zero-length motion needs a hold, not a trajectory'')
        else
          let distance = vabs (masked moving delta) in
          bindr (arr_min (vdiv (masked moving max_vel) distance)) (\<lambda>speed.
          bindr (arr_min (vdiv (masked moving max_acc) distance)) (\<lambda>acceleration.
            let (times, progress, rates) = profile_knots speed acceleration;
                positions = map (\<lambda>p. vadd start (vscale p delta)) progress;
                positions = (positions[0 := start])[length positions - 1 := goal] in
            mk_JointTrajectory times positions (Some (map (\<lambda>w. vscale w delta) rates)))))"

section \<open>Curves along a line\<close>

text \<open>A curve whose joints share the progress \<open>P\<close> with the rates \<open>W\<close>, each piece quadratic.\<close>

definition line_curve :: "real list \<Rightarrow> real list \<Rightarrow> real list \<Rightarrow> real list \<Rightarrow> real list \<Rightarrow> JointTrajectory" where
  "line_curve T P W s d =
     \<lparr>jt_times = map Fin T, jt_positions = map (\<lambda>p. map (\<lambda>j. Fin (s ! j + p * d ! j)) [0..<length s]) P,
      jt_velocities = Some (map (\<lambda>w. map (\<lambda>j. Fin (w * d ! j)) [0..<length s]) W)\<rparr>"

definition line_knots :: "real list \<Rightarrow> real list \<Rightarrow> real list \<Rightarrow> bool" where
  "line_knots T P W \<longleftrightarrow>
     2 \<le> length T \<and> length P = length T \<and> length W = length T \<and> (\<forall>i < length W. 0 \<le> W ! i) \<and>
     (\<forall>i. Suc i < length T \<longrightarrow> T ! i < T ! Suc i \<and> P ! Suc i - P ! i = (T ! Suc i - T ! i) * (W ! i + W ! Suc i) / 2) \<and>
     P ! 0 = 0 \<and> P ! (length P - 1) = 1"

lemma line_curve_joints: "line_knots T P W \<Longrightarrow> num_joints (line_curve T P W s d) = length s"
  by (cases P) (auto simp: line_knots_def line_curve_def num_joints_def mat_cols_def)

lemma line_curve_ok: "line_knots T P W \<Longrightarrow> traj_ok (line_curve T P W s d)"
  using line_curve_joints [of T P W s d]
  by (auto simp: traj_ok_def line_curve_def line_knots_def rectangular_def list_all_length all_finite_def)

lemma line_curve_built:
  assumes "line_knots T P W"
  shows "mk_JointTrajectory (map Fin T) (jt_positions (line_curve T P W s d)) (jt_velocities (line_curve T P W s d)) =
    Inr (line_curve T P W s d)"
proof -
  let ?ps = "map (\<lambda>p. map (\<lambda>j. Fin (s ! j + p * d ! j)) [0..<length s]) P"
  have len: "2 \<le> length T" "length P = length T" "length W = length T"
    and inc: "\<forall>i. Suc i < length T \<longrightarrow> T ! i < T ! Suc i"
    using assms by (auto simp: line_knots_def)
  then have "P \<noteq> []" by auto
  then have cols: "mat_cols ?ps = length s" by (cases P) (auto simp: mat_cols_def)
  have "\<not> list_ex (\<lambda>d. d \<le> 0) (diffs (map Fin T))"
    using inc by (auto simp: list_ex_length length_diffs nth_diffs not_le)
  then show ?thesis using len cols
    by (simp add: mk_JointTrajectory_def line_curve_def rectangular_def list_all_iff same_shape_def list_all2_conv_all_nth)
qed

lemma line_knots_step:
  assumes "line_knots T P W" "Suc i < length T"
  shows "T ! i < T ! Suc i" "P ! Suc i = P ! i + (T ! Suc i - T ! i) * ((W ! i + W ! Suc i) / 2)" "0 \<le> W ! i" "0 \<le> W ! Suc i"
proof -
  have "P ! Suc i - P ! i = (T ! Suc i - T ! i) * (W ! i + W ! Suc i) / 2"
    using assms unfolding line_knots_def by blast
  then show "P ! Suc i = P ! i + (T ! Suc i - T ! i) * ((W ! i + W ! Suc i) / 2)" by simp
  show "T ! i < T ! Suc i" "0 \<le> W ! i" "0 \<le> W ! Suc i" using assms unfolding line_knots_def by simp_all
qed

lemma line_progress:
  assumes "line_knots T P W" "i \<le> k" "k < length T"
  shows "P ! i \<le> P ! k"
  using assms(2,3)
proof (induction k rule: dec_induct)
  case (step k)
  note st = line_knots_step [OF assms(1) step.prems]
  then have "P ! k \<le> P ! Suc k" by simp
  with step show ?case by simp
qed simp

lemma line_progress_unit: "line_knots T P W \<Longrightarrow> i < length T \<Longrightarrow> 0 \<le> P ! i \<and> P ! i \<le> 1"
  using line_progress [of T P W 0 i] line_progress [of T P W i "length P - 1"] by (auto simp: line_knots_def)

text \<open>Position, velocity and acceleration on one piece.\<close>

lemma line_segment:
  fixes d :: "real list"
  assumes "line_knots T P W" "Suc i < length T" "j < length s"
  defines "jt \<equiv> line_curve T P W s d" and "h \<equiv> T ! Suc i - T ! i"
  shows "Rq jt i j u = s ! j + (P ! i + h * (W ! i * ((u - T ! i) / h) + (W ! Suc i - W ! i) * ((u - T ! i) / h)\<^sup>2 / 2)) * d ! j"
    "Rqd jt i j u = (W ! i + (W ! Suc i - W ! i) * ((u - T ! i) / h)) * d ! j"
    "Rqdd jt i j u = ((W ! Suc i - W ! i) / h) * d ! j"
proof -
  have len: "length P = length T" "length W = length T" "Suc i < length P" "i < length P" "i < length T"
      "i < length W" "Suc i < length W"
    using assms(1,2) by (auto simp: line_knots_def)
  have h: "0 < h" and dP: "P ! Suc i = P ! i + h * ((W ! i + W ! Suc i) / 2)"
    using line_knots_step [OF assms(1,2)] by (simp_all add: h_def)
  have k: "tk jt i = T ! i" "hk jt i = h" "qk jt i j = s ! j + P ! i * d ! j"
      "qk jt (Suc i) j = s ! j + P ! Suc i * d ! j" "vl jt i j = W ! i * d ! j" "vr jt i j = W ! Suc i * d ! j"
    using len assms(2,3) by (simp_all add: jt_def line_curve_def tk_def hk_def h_def qk_def vl_def vr_def wk_def)
  have c3: "c3k jt i j = 0" and c2: "c2k jt i j = h * ((W ! Suc i - W ! i) / 2) * d ! j"
    unfolding c3k_def c2k_def k dP by (simp_all add: field_simps)
  have cubic: "cub (a + p * b) (h * (v * b)) (h * ((v' - v) / 2) * b) 0 x = a + (p + h * (v * x + (v' - v) * x\<^sup>2 / 2)) * b"
    for a p b v v' x :: real
    unfolding cub_def by (simp add: field_simps power2_eq_square)
  show "Rq jt i j u = s ! j + (P ! i + h * (W ! i * ((u - T ! i) / h) + (W ! Suc i - W ! i) * ((u - T ! i) / h)\<^sup>2 / 2)) * d ! j"
    unfolding Rq_def c3 c2 k by (rule cubic)
  show "Rqd jt i j u = (W ! i + (W ! Suc i - W ! i) * ((u - T ! i) / h)) * d ! j"
    unfolding Rqd_def c3 c2 k cub'_def using h by (simp add: field_simps)
  show "Rqdd jt i j u = ((W ! Suc i - W ! i) / h) * d ! j"
    unfolding Rqdd_def c3 c2 k using h by (simp add: field_simps)
qed

lemma convex_unit: "0 \<le> x \<Longrightarrow> x \<le> 1 \<Longrightarrow> 0 \<le> a \<Longrightarrow> 0 \<le> b \<Longrightarrow> a \<le> m \<Longrightarrow> b \<le> m \<Longrightarrow> 0 \<le> a + (b - a) * x \<and> a + (b - a) * x \<le> (m :: real)"
proof -
  assume x: "0 \<le> x" "x \<le> 1" and ab: "0 \<le> a" "0 \<le> b" "a \<le> m" "b \<le> m"
  have eq: "a + (b - a) * x = a * (1 - x) + b * x" by (simp add: algebra_simps)
  have "a * (1 - x) \<le> m * (1 - x)" "b * x \<le> m * x" using x ab by (auto intro: mult_right_mono)
  then have "a * (1 - x) + b * x \<le> m" by (simp add: algebra_simps)
  with x ab show ?thesis unfolding eq by simp
qed

lemma quadratic_unit:
  assumes "0 \<le> x" "x \<le> 1" "0 \<le> a" "0 \<le> (b :: real)"
  shows "0 \<le> a * x + (b - a) * x\<^sup>2 / 2 \<and> a * x + (b - a) * x\<^sup>2 / 2 \<le> (a + b) / 2"
proof -
  have sq: "x\<^sup>2 \<le> x" using assms(1,2) by (simp add: power2_eq_square mult_left_le)
  have "a * x + (b - a) * x\<^sup>2 / 2 = a * (x - x\<^sup>2 / 2) + b * (x\<^sup>2 / 2)" by (simp add: field_simps)
  moreover have "0 \<le> a * (x - x\<^sup>2 / 2)" "0 \<le> b * (x\<^sup>2 / 2)" using sq assms by auto
  moreover have "(a + b) / 2 - (a * x + (b - a) * x\<^sup>2 / 2) = a * ((1 - x)\<^sup>2 / 2) + b * ((1 - x\<^sup>2) / 2)"
    by (simp add: field_simps power2_eq_square)
  moreover have "0 \<le> a * ((1 - x)\<^sup>2 / 2)" "0 \<le> b * ((1 - x\<^sup>2) / 2)" using sq assms by auto
  ultimately show ?thesis by linarith
qed

text \<open>Everywhere on the curve: progress in the unit interval, rate under the largest knot rate, acceleration of a piece.\<close>

lemma line_sample:
  fixes s d :: "real list"
  assumes kn: "line_knots T P W" and m: "\<forall>i < length W. W ! i \<le> m" and "0 \<le> m" "0 \<le> a"
    and a: "\<forall>i. Suc i < length T \<longrightarrow> \<bar>(W ! Suc i - W ! i) / (T ! Suc i - T ! i)\<bar> \<le> a"
  defines "jt \<equiv> line_curve T P W s d"
  shows "\<exists>p r. sample_at jt (Fin t) = Inr p \<and> 0 \<le> r \<and> r \<le> 1 \<and>
     (\<forall>j < length s. pt_position p ! j = Fin (s ! j + r * d ! j) \<and>
        (\<exists>w. \<bar>w\<bar> \<le> m \<and> pt_velocity p ! j = Fin (w * d ! j)) \<and> (\<exists>c. \<bar>c\<bar> \<le> a \<and> pt_acceleration p ! j = Fin (c * d ! j)))"
proof -
  have ok: "traj_ok jt" and nj: "num_joints jt = length s" and T: "length (jt_times jt) = length T" "\<And>i. i < length T \<Longrightarrow> tk jt i = T ! i"
    unfolding jt_def using kn by (simp_all add: line_curve_ok line_curve_joints) (simp_all add: line_curve_def tk_def)
  from sample_at_total [OF ok, of t] obtain p i u where p: "sample_at jt (Fin t) = Inr p" and on: "on_segment jt i u"
    and pj: "\<forall>j < length s. pt_position p ! j = Fin (Rq jt i j u) \<and>
        (pt_velocity p ! j = Fin (Rqd jt i j u) \<or> pt_velocity p ! j = Fin 0) \<and>
        (pt_acceleration p ! j = Fin (Rqdd jt i j u) \<or> pt_acceleration p ! j = Fin 0)"
    unfolding nj by blast
  have i: "Suc i < length T" "T ! i \<le> u" "u \<le> T ! Suc i"
    using on T(2) [of i] T(2) [of "Suc i"] by (auto simp: on_segment_def T(1))
  define h x where "h = T ! Suc i - T ! i" and "x = (u - T ! i) / h"
  have h: "0 < h" and W: "0 \<le> W ! i" "0 \<le> W ! Suc i" "W ! i \<le> m" "W ! Suc i \<le> m"
    and dP: "P ! Suc i = P ! i + h * ((W ! i + W ! Suc i) / 2)"
    using line_knots_step [OF kn i(1)] m kn i(1) by (auto simp: h_def line_knots_def)
  have x: "0 \<le> x" "x \<le> 1" using i h by (simp_all add: x_def h_def)
  define r where "r = P ! i + h * (W ! i * x + (W ! Suc i - W ! i) * x\<^sup>2 / 2)"
  define w where "w = W ! i + (W ! Suc i - W ! i) * x"
  define c where "c = (W ! Suc i - W ! i) / h"
  have "0 \<le> h * (W ! i * x + (W ! Suc i - W ! i) * x\<^sup>2 / 2) \<and> r \<le> P ! Suc i"
    unfolding r_def dP using quadratic_unit [OF x W(1,2)] h by (simp add: mult_left_mono)
  then have r: "0 \<le> r" "r \<le> 1" using line_progress_unit [OF kn, of i] line_progress_unit [OF kn i(1)] i(1) by (auto simp: r_def)
  have w: "\<bar>w\<bar> \<le> m" unfolding w_def using convex_unit [OF x W] by simp
  have c: "\<bar>c\<bar> \<le> a" using a i(1) by (simp add: c_def h_def)
  have eq: "Rq jt i j u = s ! j + r * d ! j" "Rqd jt i j u = w * d ! j" "Rqdd jt i j u = c * d ! j" if "j < length s" for j
    unfolding r_def w_def c_def x_def h_def jt_def using line_segment [OF kn i(1) that, of d u] by auto
  have z: "\<exists>w. \<bar>w\<bar> \<le> b \<and> f = Fin (w * e)" if "f = Fin (v * e) \<or> f = Fin 0" "\<bar>v\<bar> \<le> b" "0 \<le> b" for f v e b
    using that by (metis abs_zero mult_zero_left)
  have "(\<exists>w. \<bar>w\<bar> \<le> m \<and> pt_velocity p ! j = Fin (w * d ! j)) \<and> (\<exists>c. \<bar>c\<bar> \<le> a \<and> pt_acceleration p ! j = Fin (c * d ! j))"
    if j: "j < length s" for j
    using z [OF _ w assms(3), of "pt_velocity p ! j" "d ! j"] z [OF _ c assms(4), of "pt_acceleration p ! j" "d ! j"]
      pj j eq(2,3) [OF j] by metis
  with pj eq(1) have "\<forall>j < length s. pt_position p ! j = Fin (s ! j + r * d ! j) \<and>
      (\<exists>w. \<bar>w\<bar> \<le> m \<and> pt_velocity p ! j = Fin (w * d ! j)) \<and> (\<exists>c. \<bar>c\<bar> \<le> a \<and> pt_acceleration p ! j = Fin (c * d ! j))"
    by metis
  with p r show ?thesis by blast
qed

text \<open>The ends of the curve: at rest before the first knot and after the last.\<close>

definition at_rest :: "TrajectoryPoint \<Rightarrow> vec \<Rightarrow> bool" where
  "at_rest p q \<longleftrightarrow> pt_position p = q \<and> pt_velocity p = zeros (length q)"

lemma line_ends:
  assumes kn: "line_knots T P W" and W: "W ! 0 = 0" "W ! (length W - 1) = 0" and d: "length d = length s"
  defines "jt \<equiv> line_curve T P W s d"
  shows "t \<le> T ! 0 \<Longrightarrow> \<exists>p. sample_at jt (Fin t) = Inr p \<and> at_rest p (map Fin s)"
    and "T ! (length T - 1) \<le> t \<Longrightarrow> \<exists>p. sample_at jt (Fin t) = Inr p \<and> at_rest p (map Fin (map2 (+) s d))"
proof -
  have ok: "traj_ok jt" and len: "length (jt_times jt) = length T" and nj: "num_joints jt = length s"
    unfolding jt_def using kn by (simp_all add: line_curve_ok line_curve_joints) (simp add: line_curve_def)
  have ne: "2 \<le> length T" "length P = length T" "length W = length T" "P ! 0 = 0" "P ! (length T - 1) = 1"
    using kn by (auto simp: line_knots_def)
  have tk: "tk jt i = T ! i" if "i < length T" for i using that by (simp add: jt_def line_curve_def tk_def)
  have "0 < length T" "length T - 1 < length T" "0 < length P" "length T - 1 < length P" "0 < length W" "length T - 1 < length W"
    using ne by auto
  note idx = this
  have first: "at_rest (jt_point jt 0) (map Fin s)"
    unfolding at_rest_def jt_point_def jt_def line_curve_def using idx ne W
    by (auto simp: zeros_def intro!: nth_equalityI)
  have lastp: "at_rest (jt_point jt (length T - 1)) (map Fin (map2 (+) s d))"
    unfolding at_rest_def jt_point_def jt_def line_curve_def using idx ne W d
    by (auto simp: zeros_def intro!: nth_equalityI)
  show "\<exists>p. sample_at jt (Fin t) = Inr p \<and> at_rest p (map Fin s)" if "t \<le> T ! 0"
    using sample_at_first [OF ok, of t] first that tk [OF idx(1)] by auto
  show "\<exists>p. sample_at jt (Fin t) = Inr p \<and> at_rest p (map Fin (map2 (+) s d))" if "T ! (length T - 1) \<le> t"
    using sample_at_last [OF ok, of t] lastp that tk [OF idx(2)] by (auto simp: len)
qed

section \<open>The knots of the profile\<close>

definition overshoot :: real where
  "overshoot = sqrt (1 + 32 / 2 ^ 52)"

lemma overshoot_ge_1: "1 \<le> overshoot"
  by (simp add: overshoot_def)

text \<open>A triangle when the speed cap is not reached, or not long enough to be told from a triangle.\<close>

lemma triangle_knots:
  assumes "0 < (a :: real)"
  shows "line_knots [0, 1 / sqrt a, 2 * (1 / sqrt a)] [0, 1 / 2, 1] [0, sqrt a, 0]"
    "\<forall>i. Suc i < 3 \<longrightarrow> \<bar>([0, sqrt a, 0] ! Suc i - [0, sqrt a, 0] ! i) /
       ([0, 1 / sqrt a, 2 * (1 / sqrt a)] ! Suc i - [0, 1 / sqrt a, 2 * (1 / sqrt a)] ! i)\<bar> \<le> a"
  using assms by (auto simp: line_knots_def less_Suc_eq numeral_3_eq_3 divide_strict_right_mono)

lemma trapezoid_knots:
  assumes "0 < v" "0 < (a :: real)" "v * v < a"
  defines "r \<equiv> v / a" and "c \<equiv> (1 - v * (v / a)) / v"
  shows "line_knots [0, r, r + c, 2 * r + c] [0, 1 / 2 * v * r, 1 - 1 / 2 * v * r, 1] [0, v, v, 0]"
    "\<forall>i. Suc i < 4 \<longrightarrow> \<bar>([0, v, v, 0] ! Suc i - [0, v, v, 0] ! i) /
       ([0, r, r + c, 2 * r + c] ! Suc i - [0, r, r + c, 2 * r + c] ! i)\<bar> \<le> a"
proof -
  have rc: "0 < r" "0 < c" "v / r = a" "v * c = 1 - v * r"
    using assms(1-3) by (simp_all add: r_def c_def field_simps)
  then show "line_knots [0, r, r + c, 2 * r + c] [0, 1 / 2 * v * r, 1 - 1 / 2 * v * r, 1] [0, v, v, 0]"
    using assms(1) by (auto simp: line_knots_def less_Suc_eq eval_nat_numeral algebra_simps)
  show "\<forall>i. Suc i < 4 \<longrightarrow> \<bar>([0, v, v, 0] ! Suc i - [0, v, v, 0] ! i) /
       ([0, r, r + c, 2 * r + c] ! Suc i - [0, r, r + c, 2 * r + c] ! i)\<bar> \<le> a"
    using rc assms(1,2) by (auto simp: less_Suc_eq eval_nat_numeral)
qed

lemma short_cruise:
  assumes "0 < v" "0 < (a :: real)" "v \<le> sqrt a" "max 0 ((1 - v * (v / a)) / v) \<le> 32 / 2 ^ 52 * (v / a)"
  shows "sqrt a \<le> overshoot * v"
proof -
  have "(1 - v * (v / a)) / v \<le> 32 / 2 ^ 52 * (v / a)" using assms(4) by simp
  then have "(1 - v * (v / a)) * a / v * v \<le> 32 / 2 ^ 52 * (v / a) * a * v" using assms(1,2) by (simp add: field_simps)
  then have "a \<le> (1 + 32 / 2 ^ 52) * v\<^sup>2" using assms(1,2) by (simp add: field_simps power2_eq_square)
  then have "sqrt a \<le> sqrt ((1 + 32 / 2 ^ 52) * v\<^sup>2)" by (rule real_sqrt_le_mono)
  also have "\<dots> = overshoot * v" unfolding overshoot_def real_sqrt_mult using assms(1) by simp
  finally show ?thesis .
qed

text \<open>The knots the code computes, for every speed and acceleration of the progress.\<close>

lemma profile_knots_line:
  assumes "0 < v" "0 < a"
  shows "\<exists>T P W. profile_knots (Fin v) (Fin a) = (map Fin T, map Fin P, map Fin W) \<and> line_knots T P W \<and>
     T ! 0 = 0 \<and> W ! 0 = 0 \<and> W ! (length W - 1) = 0 \<and> (\<forall>i < length W. W ! i \<le> overshoot * v) \<and>
     (\<forall>i. Suc i < length T \<longrightarrow> \<bar>(W ! Suc i - W ! i) / (T ! Suc i - T ! i)\<bar> \<le> a)"
proof -
  define pk where "pk = min v (sqrt a)"
  define rp where "rp = pk / a"
  define cr where "cr = max 0 ((1 - pk * rp) / pk)"
  have pk: "0 < pk" "pk \<le> sqrt a" "pk \<le> v" using assms by (auto simp: pk_def)
  have e: "py_min (Fin v) (fsqrt (Fin a)) = Fin pk" "Fin pk / Fin a = Fin rp"
      "32 * float_eps * Fin rp = Fin (32 / 2 ^ 52 * rp)"
      "1 / fsqrt (Fin a) = Fin (1 / sqrt a)" "fsqrt (Fin a) = Fin (sqrt a)"
    using assms by (simp_all add: pk_def rp_def float_eps_def)
  have e': "py_max 0 ((1 - Fin pk * Fin rp) / Fin pk) = Fin cr" using pk(1) by (simp add: cr_def)
  note e = e e'
  show ?thesis
  proof (cases "cr \<le> 32 / 2 ^ 52 * rp")
    case True
    have "sqrt a \<le> overshoot * pk" using short_cruise [OF pk(1) assms(2) pk(2)] True by (simp add: cr_def rp_def)
    also have "\<dots> \<le> overshoot * v" using pk(3) overshoot_ge_1 by (simp add: mult_left_mono)
    finally have top: "sqrt a \<le> overshoot * v" .
    have "0 \<le> overshoot * v" using assms overshoot_ge_1 by simp
    with top have W: "\<forall>i < length [0, sqrt a, 0]. [0, sqrt a, 0] ! i \<le> overshoot * v" by (simp add: less_Suc_eq)
    have "profile_knots (Fin v) (Fin a) =
        (map Fin [0, 1 / sqrt a, 2 * (1 / sqrt a)], map Fin [0, 1 / 2, 1], map Fin [0, sqrt a, 0])"
      using True e by (simp add: profile_knots_def Let_def)
    with triangle_knots [OF assms(2)] W show ?thesis
      by (intro exI conjI) (assumption | simp add: numeral_3_eq_3)+
  next
    case False
    have "0 \<le> rp" using pk(1) assms by (simp add: rp_def)
    have cr: "cr = (1 - pk * rp) / pk" "0 < cr" using False \<open>0 \<le> rp\<close> by (auto simp: cr_def max_def split: if_splits)
    have "sqrt a * (sqrt a / a) = 1" using assms(2) by simp
    then have "pk \<noteq> sqrt a" using cr by (auto simp: rp_def)
    then have pv: "pk = v" "v < sqrt a" using assms by (auto simp: pk_def min_def split: if_splits)
    have "v * v < sqrt a * sqrt a" using pv(2) assms by (intro mult_strict_mono) auto
    then have "v * v < a" using assms by simp
    note kn = trapezoid_knots [OF assms this]
    have eq: "rp = v / a" "cr = (1 - v * (v / a)) / v" using cr(1) pv(1) by (simp_all add: rp_def)
    have "v \<le> overshoot * v" using assms overshoot_ge_1 by simp
    with assms have W: "\<forall>i < length [0, v, v, 0]. [0, v, v, 0] ! i \<le> overshoot * v" by (simp add: less_Suc_eq)
    have "profile_knots (Fin v) (Fin a) = (map Fin [0, rp, rp + cr, 2 * rp + cr],
        map Fin [0, 1 / 2 * v * rp, 1 - 1 / 2 * v * rp, 1], map Fin [0, v, v, 0])"
      using False e pv(1) by (simp add: profile_knots_def Let_def)
    with kn [folded eq] W show ?thesis
      by (intro exI conjI) (assumption | simp add: eval_nat_numeral)+
  qed
qed

section \<open>Limits\<close>

lemma fold_np_min_Fin: "fold np_min (map Fin xs) (Fin a) = Fin (fold min xs a)"
  by (induction xs arbitrary: a) (auto simp: min.commute)

lemma fold_min_spec: "fold min xs (a :: real) \<in> insert a (set xs) \<and> (\<forall>x \<in> insert a (set xs). fold min xs a \<le> x)"
proof (induction xs arbitrary: a)
  case (Cons y ys)
  from Cons [of "min y a"] show ?case by (auto simp: min_def split: if_splits)
qed simp

lemma arr_min_Fin:
  assumes "xs \<noteq> []"
  shows "\<exists>m. arr_min (map Fin xs) = Inr (Fin m) \<and> m \<in> set xs \<and> (\<forall>x \<in> set xs. m \<le> x)"
proof -
  from assms obtain a ys where "xs = a # ys" by (cases xs) auto
  with fold_min_spec [of ys a] show ?thesis by (auto simp: fold_np_min_Fin)
qed

lemma masked_filter: "length xs = length ms \<Longrightarrow> masked ms xs = map (\<lambda>j. xs ! j) (filter (\<lambda>j. ms ! j) [0..<length ms])"
proof (induction xs ms rule: list_induct2)
  case (Cons x xs m ms)
  have "filter (\<lambda>j. (m # ms) ! j) [0..<length (m # ms)] =
      (if m then [0] else []) @ map Suc (filter (\<lambda>j. ms ! j) [0..<length ms])"
    by (simp add: upt_conv_Cons filter_map comp_def map_Suc_upt [symmetric] del: upt_Suc)
  with Cons show ?case by (simp add: masked_def comp_def)
qed (simp add: masked_def)

text \<open>The smallest ratio of a limit to a distance, over the joints that move.\<close>

lemma ratio_min:
  fixes l d :: "real list"
  assumes "length l = length d" "\<forall>j < length d. 0 < l ! j" "j0 < length d" "d ! j0 \<noteq> 0"
  defines "ms \<equiv> map (\<lambda>x. 0 < fabs x) (map Fin d)"
  shows "\<exists>m. arr_min (vdiv (masked ms (map Fin l)) (vabs (masked ms (map Fin d)))) = Inr (Fin m) \<and> 0 < m \<and>
     (\<forall>j < length d. m * \<bar>d ! j\<bar> \<le> l ! j)"
proof -
  define J where "J = filter (\<lambda>j. d ! j \<noteq> 0) [0..<length d]"
  have J: "filter (\<lambda>j. ms ! j) [0..<length ms] = J" unfolding J_def by (auto simp: ms_def intro: filter_cong)
  have mem: "j \<in> set J \<longleftrightarrow> j < length d \<and> d ! j \<noteq> 0" for j by (auto simp: J_def)
  have "vdiv (masked ms (map Fin l)) (vabs (masked ms (map Fin d))) = map (\<lambda>j. map Fin l ! j / fabs (map Fin d ! j)) J"
  proof -
    have "length (map Fin l) = length ms" "length (map Fin d) = length ms" using assms(1) by (simp_all add: ms_def)
    note mk = masked_filter [OF this(1), unfolded J] masked_filter [OF this(2), unfolded J]
    show ?thesis unfolding mk vdiv_def vabs_def by (simp add: zip_map1 zip_map2 zip_same_conv_map comp_def)
  qed
  also have "\<dots> = map Fin (map (\<lambda>j. l ! j / \<bar>d ! j\<bar>) J)" using assms(1) by (simp add: mem)
  finally have eq: "vdiv (masked ms (map Fin l)) (vabs (masked ms (map Fin d))) = map Fin (map (\<lambda>j. l ! j / \<bar>d ! j\<bar>) J)" .
  have "J \<noteq> []" using mem [of j0] assms(3,4) by auto
  with arr_min_Fin [of "map (\<lambda>j. l ! j / \<bar>d ! j\<bar>) J"] obtain m where m: "m \<in> set (map (\<lambda>j. l ! j / \<bar>d ! j\<bar>) J)"
      "\<forall>x \<in> set (map (\<lambda>j. l ! j / \<bar>d ! j\<bar>) J). m \<le> x"
      "arr_min (map Fin (map (\<lambda>j. l ! j / \<bar>d ! j\<bar>) J)) = Inr (Fin m)" by auto
  have "0 < m" using m(1) assms(2) by (auto simp: mem)
  moreover have "m * \<bar>d ! j\<bar> \<le> l ! j" if "j < length d" for j
  proof (cases "d ! j = 0")
    case True
    then show ?thesis using assms(2) that by (simp add: less_imp_le)
  next
    case False
    with that m(2) have "m \<le> l ! j / \<bar>d ! j\<bar>" by (auto simp: mem)
    with False show ?thesis by (simp add: pos_le_divide_eq)
  qed
  ultimately show ?thesis using eq m(3) by auto
qed

lemma trapezoidal_line:
  fixes s g v a :: "real list"
  assumes len: "s \<noteq> []" "length g = length s" "length v = length s" "length a = length s"
    and lim: "\<forall>j < length s. 0 < v ! j" "\<forall>j < length s. 0 < a ! j" and "s \<noteq> g"
  defines "d \<equiv> map2 (-) g s"
  shows "\<exists>T P W m c. trapezoidal_trajectory (map Fin s) (map Fin g) (map Fin v) (map Fin a) = Inr (line_curve T P W s d) \<and>
     line_knots T P W \<and> T ! 0 = 0 \<and> W ! 0 = 0 \<and> W ! (length W - 1) = 0 \<and> 0 < m \<and> 0 < c \<and>
     (\<forall>i < length W. W ! i \<le> overshoot * m) \<and>
     (\<forall>i. Suc i < length T \<longrightarrow> \<bar>(W ! Suc i - W ! i) / (T ! Suc i - T ! i)\<bar> \<le> c) \<and>
     (\<forall>j < length s. m * \<bar>d ! j\<bar> \<le> v ! j) \<and> (\<forall>j < length s. c * \<bar>d ! j\<bar> \<le> a ! j)"
proof -
  have ld: "length d = length s" using len by (simp add: d_def)
  have dj: "d ! j = g ! j - s ! j" if "j < length s" for j using that len by (simp add: d_def)
  obtain j0 where j0: "j0 < length s" "d ! j0 \<noteq> 0"
    using \<open>s \<noteq> g\<close> len(2) dj by (metis nth_equalityI right_minus_eq)
  define ms where "ms = map (\<lambda>x. 0 < fabs x) (map Fin d)"
  have delta: "vsub (map Fin g) (map Fin s) = map Fin d" using len by (auto simp: d_def intro!: nth_equalityI)
  have some: "list_ex id ms" using j0 ld by (auto simp: ms_def list_ex_length)
  obtain m where m: "arr_min (vdiv (masked ms (map Fin v)) (vabs (masked ms (map Fin d)))) = Inr (Fin m)" "0 < m"
      "\<forall>j < length s. m * \<bar>d ! j\<bar> \<le> v ! j"
    using ratio_min [of v d j0] len lim(1) j0 ld unfolding ms_def by auto
  obtain c where c: "arr_min (vdiv (masked ms (map Fin a)) (vabs (masked ms (map Fin d)))) = Inr (Fin c)" "0 < c"
      "\<forall>j < length s. c * \<bar>d ! j\<bar> \<le> a ! j"
    using ratio_min [of a d j0] len lim(2) j0 ld unfolding ms_def by auto
  from profile_knots_line [OF m(2) c(2)] obtain T P W
    where kn: "profile_knots (Fin m) (Fin c) = (map Fin T, map Fin P, map Fin W)" "line_knots T P W"
      and ends: "T ! 0 = 0" "W ! 0 = 0" "W ! (length W - 1) = 0"
      and lims: "\<forall>i < length W. W ! i \<le> overshoot * m"
        "\<forall>i. Suc i < length T \<longrightarrow> \<bar>(W ! Suc i - W ! i) / (T ! Suc i - T ! i)\<bar> \<le> c" by blast
  let ?jt = "line_curve T P W s d"
  have P: "P \<noteq> []" "P ! 0 = 0" "P ! (length P - 1) = 1" "length P = length T" "length W = length T" "2 \<le> length T"
    using kn(2) by (auto simp: line_knots_def)
  have pos: "(map (\<lambda>p. vadd (map Fin s) (vscale p (map Fin d))) (map Fin P))[0 := map Fin s, length P - 1 := map Fin g]
      = jt_positions ?jt" (is "?l = _")
  proof (rule nth_equalityI)
    fix i
    assume "i < length ?l"
    then have i: "i < length P" by simp
    have row: "vadd (map Fin s) (vscale (Fin p) (map Fin d)) = map (\<lambda>j. Fin (s ! j + p * d ! j)) [0..<length s]" for p
      using ld by (auto intro!: nth_equalityI)
    have goal: "map Fin g = map (\<lambda>j. Fin (s ! j + 1 * d ! j)) [0..<length s]"
      using len ld dj by (auto intro!: nth_equalityI)
    have start: "map Fin s = map (\<lambda>j. Fin (s ! j + 0 * d ! j)) [0..<length s]"
      by (auto intro!: nth_equalityI)
    show "?l ! i = jt_positions ?jt ! i"
      using i P(2,3) goal start row by (cases "i = length P - 1"; cases "i = 0") (auto simp: line_curve_def nth_list_update)
  qed (simp add: line_curve_def)
  have vel: "Some (map (\<lambda>w. vscale w (map Fin d)) (map Fin W)) = jt_velocities ?jt"
    using ld by (auto simp: line_curve_def intro!: nth_equalityI)
  have guards: "\<not> (map Fin s = [] \<or> list_ex (\<lambda>x. length x \<noteq> length (map Fin s)) [map Fin g, map Fin v, map Fin a])"
      "list_all all_finite [map Fin s, map Fin g, map Fin v, map Fin a]"
      "\<not> (list_ex (\<lambda>x. x \<le> 0) (map Fin v) \<or> list_ex (\<lambda>x. x \<le> 0) (map Fin a))"
    using len lim by (simp_all add: list_ex_iff all_set_conv_nth not_le del: not_less)
  have "trapezoidal_trajectory (map Fin s) (map Fin g) (map Fin v) (map Fin a) = Inr ?jt"
    unfolding trapezoidal_trajectory_def delta ms_def [symmetric] Let_def
    using guards some m(1) c(1) kn(1) pos vel line_curve_built [OF kn(2)] by (simp only: if_False if_True simp_thms bindr_Inr prod.case length_map)
  with kn(2) ends lims m(2,3) c(2,3) show ?thesis by blast
qed

text \<open>
  C39: For valid inputs (equal lengths, finite values, positive limits, a start that differs from the goal) the profile
  is always built. It starts at time zero at rest at the start and is at rest at the goal from its last knot on. At
  every time in between all joints are at the same fraction of the straight line from start to goal, no joint exceeds
  its acceleration limit, and no joint exceeds its velocity limit by more than the factor
  \<open>sqrt (1 + 32 / 2 ^ 52)\<close>, which the triangle costs where the code cannot tell it from a trapezoid.
\<close>

theorem profile_within_limits:
  assumes "start \<noteq> []" "length goal = length start" "length max_vel = length start" "length max_acc = length start"
    and "list_all all_finite [start, goal, max_vel, max_acc]"
    and "list_all (\<lambda>x. 0 < x) max_vel" "list_all (\<lambda>x. 0 < x) max_acc" and "start \<noteq> goal"
  shows "\<exists>jt. trapezoidal_trajectory start goal max_vel max_acc = Inr jt \<and> hd (jt_times jt) = 0 \<and>
     (\<exists>p. sample_at jt 0 = Inr p \<and> at_rest p start) \<and>
     (\<forall>t. last (jt_times jt) \<le> Fin t \<longrightarrow> (\<exists>p. sample_at jt (Fin t) = Inr p \<and> at_rest p goal)) \<and>
     (\<forall>t. \<exists>p r. sample_at jt (Fin t) = Inr p \<and> 0 \<le> r \<and> r \<le> 1 \<and>
        (\<forall>j < length start. pt_position p ! j = start ! j + Fin r * (goal ! j - start ! j) \<and>
           fabs (pt_velocity p ! j) \<le> Fin (sqrt (1 + 32 / 2 ^ 52)) * max_vel ! j \<and>
           fabs (pt_acceleration p ! j) \<le> max_acc ! j))"
proof -
  define s g v a where vals: "s = map val start" "g = map val goal" "v = map val max_vel" "a = map val max_acc"
  have fin: "start = map Fin s" "goal = map Fin g" "max_vel = map Fin v" "max_acc = map Fin a"
    unfolding vals using assms(5) by (simp_all add: all_finite_conv [symmetric] del: map_map)
  define d where "d = map2 (-) g s"
  have len: "s \<noteq> []" "length g = length s" "length v = length s" "length a = length s" "s \<noteq> g"
    using assms(1-4,8) unfolding fin by auto
  have lim: "\<forall>j < length s. 0 < v ! j" "\<forall>j < length s. 0 < a ! j"
    using assms(6,7) len(3,4) unfolding fin by (simp_all add: list_all_length)
  obtain T P W m c where jt: "trapezoidal_trajectory start goal max_vel max_acc = Inr (line_curve T P W s d)"
    and kn: "line_knots T P W" and ends: "T ! 0 = 0" "W ! 0 = 0" "W ! (length W - 1) = 0" and pos: "0 < m" "0 < c"
    and W: "\<forall>i < length W. W ! i \<le> overshoot * m"
      "\<forall>i. Suc i < length T \<longrightarrow> \<bar>(W ! Suc i - W ! i) / (T ! Suc i - T ! i)\<bar> \<le> c"
    and mc: "\<forall>j < length s. m * \<bar>d ! j\<bar> \<le> v ! j" "\<forall>j < length s. c * \<bar>d ! j\<bar> \<le> a ! j"
    using trapezoidal_line [OF len(1-4) lim len(5)] unfolding fin d_def by blast
  let ?jt = "line_curve T P W s d"
  have ld: "length d = length s" and dj: "\<And>j. j < length s \<Longrightarrow> d ! j = g ! j - s ! j" using len by (simp_all add: d_def)
  have sd: "map2 (+) s d = g" using len(2) by (auto simp: d_def intro!: nth_equalityI)
  have T: "T \<noteq> []" using kn by (auto simp: line_knots_def)
  then have times: "hd (jt_times ?jt) = 0" "last (jt_times ?jt) = Fin (T ! (length T - 1))"
    using ends(1) by (simp_all add: line_curve_def hd_conv_nth last_map last_conv_nth)
  note rest = line_ends [OF kn ends(2,3) ld]
  have "\<exists>p. sample_at ?jt 0 = Inr p \<and> at_rest p start" using rest(1) [of 0] ends(1) by (simp add: fin)
  moreover have "\<exists>p. sample_at ?jt (Fin t) = Inr p \<and> at_rest p goal" if "last (jt_times ?jt) \<le> Fin t" for t
    using rest(2) [of t] that by (simp only: times(2) less_eq_fl.simps fin sd)
  moreover have "\<exists>p r. sample_at ?jt (Fin t) = Inr p \<and> 0 \<le> r \<and> r \<le> 1 \<and>
        (\<forall>j < length start. pt_position p ! j = start ! j + Fin r * (goal ! j - start ! j) \<and>
           fabs (pt_velocity p ! j) \<le> Fin (sqrt (1 + 32 / 2 ^ 52)) * max_vel ! j \<and>
           fabs (pt_acceleration p ! j) \<le> max_acc ! j)" for t
  proof -
    have om: "0 \<le> overshoot * m" "0 \<le> c" using overshoot_ge_1 pos by auto
    from line_sample [OF kn W(1) om W(2), of s d t] obtain p r where p: "sample_at ?jt (Fin t) = Inr p" "0 \<le> r" "r \<le> 1"
      and j: "\<forall>j < length s. pt_position p ! j = Fin (s ! j + r * d ! j) \<and>
        (\<exists>w. \<bar>w\<bar> \<le> overshoot * m \<and> pt_velocity p ! j = Fin (w * d ! j)) \<and> (\<exists>e. \<bar>e\<bar> \<le> c \<and> pt_acceleration p ! j = Fin (e * d ! j))"
      by blast
    have "fabs (pt_velocity p ! j) \<le> Fin overshoot * max_vel ! j \<and> fabs (pt_acceleration p ! j) \<le> max_acc ! j"
      if "j < length s" for j
    proof -
      from j that obtain w e where w: "\<bar>w\<bar> \<le> overshoot * m" "pt_velocity p ! j = Fin (w * d ! j)"
        and e: "\<bar>e\<bar> \<le> c" "pt_acceleration p ! j = Fin (e * d ! j)" by blast
      have "\<bar>w * d ! j\<bar> \<le> overshoot * m * \<bar>d ! j\<bar>" using w(1) by (simp add: abs_mult mult_right_mono)
      also have "\<dots> \<le> overshoot * v ! j" using mc(1) that overshoot_ge_1 by (simp add: mult.assoc mult_left_mono)
      finally have "\<bar>w * d ! j\<bar> \<le> overshoot * v ! j" .
      moreover have "\<bar>e * d ! j\<bar> \<le> c * \<bar>d ! j\<bar>" using e(1) by (simp add: abs_mult mult_right_mono)
      ultimately show ?thesis using w(2) e(2) mc(2) that len unfolding fin by fastforce
    qed
    with p j show ?thesis using len dj unfolding fin overshoot_def by (intro exI [of _ p] exI [of _ r]) simp
  qed
  ultimately show ?thesis using jt times(1) by blast
qed

theorem profile_within_limits_witness:
  "\<exists>jt p. trapezoidal_trajectory [0, 1] [2, 1] [1, 3] [2, 2] = Inr jt \<and> sample_at jt (Fin 1) = Inr p \<and>
     fabs (pt_velocity p ! 0) \<le> Fin (sqrt (1 + 32 / 2 ^ 52)) * 1 \<and> fabs (pt_acceleration p ! 0) \<le> 2"
proof -
  have pre: "[0, 1 :: fl] \<noteq> []" "length [2, 1 :: fl] = length [0, 1 :: fl]" "length [1, 3 :: fl] = length [0, 1 :: fl]"
    "length [2, 2 :: fl] = length [0, 1 :: fl]" "list_all all_finite [[0, 1], [2, 1], [1, 3], [2, 2]]"
    "list_all (\<lambda>x. 0 < x) [1, 3 :: fl]" "list_all (\<lambda>x. 0 < x) [2, 2 :: fl]" "[0, 1 :: fl] \<noteq> [2, 1]"
    by simp_all
  obtain jt p where "trapezoidal_trajectory [0, 1] [2, 1] [1, 3] [2, 2] = Inr jt" "sample_at jt (Fin 1) = Inr p"
    "\<forall>j < length [0, 1 :: fl]. fabs (pt_velocity p ! j) \<le> Fin (sqrt (1 + 32 / 2 ^ 52)) * [1, 3] ! j \<and>
           fabs (pt_acceleration p ! j) \<le> [2, 2] ! j"
    using profile_within_limits [OF pre] by blast
  moreover from this(3) [rule_format, of 0] have "fabs (pt_velocity p ! 0) \<le> Fin (sqrt (1 + 32 / 2 ^ 52)) * 1"
    "fabs (pt_acceleration p ! 0) \<le> 2" by simp_all
  ultimately show ?thesis by blast
qed

end
