(* ===== verification/Stream_Values.thy ===== *)
theory Stream_Values
  imports Contract Handlers Policy_Cert
begin

text \<open>
  The values of the negotiated extensions: \<^verbatim>\<open>execution/stream.py\<close> (a stream and its revisions),
  \<^verbatim>\<open>execution/controller.py\<close> (presets and payload), \<^verbatim>\<open>supervisor/admission.py\<close> (the stream policy), and the strategy of
  \<^verbatim>\<open>planning/stream_target.py\<close> that turns a joint target into a suffix of a stream.

  A frozen dataclass is a record and a constructor function that may fail; the checks on Python types hold by typing.
\<close>

section \<open>Streams\<close>

definition STREAM_VERSION :: int where
  "STREAM_VERSION = 1"

definition stream_text :: "string \<Rightarrow> string \<Rightarrow> unit result" where
  "stream_text name value =
     ensure (\<not> (value = [] \<or> 256 < length value)) (ValueError (name @ '' must be a nonempty string of at most 256 characters''))"

definition stream_sequence :: "string \<Rightarrow> int \<Rightarrow> unit result" where
  "stream_sequence name value = ensure (0 < value \<and> value < 2 ^ 64) (ValueError (name @ '' must be a positive uint64''))"

definition stream_curve :: "JointTrajectory \<Rightarrow> JointTrajectory result" where
  "stream_curve value =
     bindr (ensure (jt_velocities value \<noteq> None) (ValueError ''stream requires explicit Hermite velocities'')) (\<lambda>_.
     bindr (ensure (2 \<le> length (jt_times value) \<and> length (jt_times value) \<le> 128 \<and> 1 \<le> num_joints value \<and> num_joints value \<le> 16)
       (ValueError ''stream capacity is 2..128 knots x 1..16 joints'')) (\<lambda>_.
     bindr (mk_JointTrajectory (jt_times value) (jt_positions value) (jt_velocities value)) (\<lambda>result.
     bindr (ensure (traj_finite result) (ValueError ''stream curve must be finite'')) (\<lambda>_. Inr result))))"

datatype SelectionState = NOT_REQUESTED | PENDING | SEL_SELECTED | SEL_REFUSED

record StreamOpen =
  so_request_id :: string
  so_open_seq :: int
  so_instance_id :: string
  so_joint_names :: "string list"
  so_model_token :: string
  so_scene_token :: string
  so_stream_policy_id :: string
  so_initial :: JointTrajectory
  so_start :: Start
  so_admit_by :: "Stamp option"

definition so_as_request :: "StreamOpen \<Rightarrow> TrajectoryRequest result" where
  "so_as_request x = mk_TrajectoryRequest
     \<lparr>tr_request_id = so_request_id x, tr_instance_id = so_instance_id x, tr_joint_names = so_joint_names x,
      tr_trajectory = so_initial x, tr_profile = ''joint_impedance'', tr_gains = None,
      tr_model_token = Some (so_model_token x), tr_start = so_start x, tr_admit_by = so_admit_by x,
      tr_completion = None, tr_supersedes = None, tr_cartesian = None\<rparr>"

definition mk_StreamOpen :: "StreamOpen \<Rightarrow> StreamOpen result" where
  "mk_StreamOpen x =
     bindr (stream_sequence ''open_seq'' (so_open_seq x)) (\<lambda>_.
     bindr (stream_text ''model_token'' (so_model_token x)) (\<lambda>_.
     bindr (stream_text ''scene_token'' (so_scene_token x)) (\<lambda>_.
     bindr (stream_text ''stream_policy_id'' (so_stream_policy_id x)) (\<lambda>_.
     bindr (stream_curve (so_initial x)) (\<lambda>curve.
     let x' = x\<lparr>so_initial := curve\<rparr> in
     bindr (so_as_request x') (\<lambda>_.
     bindr (ensure (feq (hd (jt_times curve)) 0) (ValueError ''initial stream phase must start at zero'')) (\<lambda>_. Inr x')))))))"

record StreamRevision =
  sr_request_id :: string
  sr_execution_id :: string
  sr_proposal_seq :: int
  sr_expected_revision :: int
  sr_anchor_id :: string
  sr_scene_token :: string
  sr_suffix :: JointTrajectory
  sr_terminal :: bool
  sr_admit_by :: "Stamp option"

text \<open>\<^verbatim>\<open>str(n)\<close> of a non-negative int.\<close>

definition digit_char :: "nat \<Rightarrow> char" where
  "digit_char d = char_of (48 + d)"

function decimal_text :: "nat \<Rightarrow> string" where
  "decimal_text n = (if n < 10 then [digit_char n] else decimal_text (n div 10) @ [digit_char (n mod 10)])"
  by auto

termination by (relation "measure id") auto

declare decimal_text.simps [simp del]

definition mk_StreamRevision :: "StreamRevision \<Rightarrow> StreamRevision result" where
  "mk_StreamRevision r =
     bindr (stream_text ''request_id'' (sr_request_id r)) (\<lambda>_.
     bindr (stream_text ''execution_id'' (sr_execution_id r)) (\<lambda>_.
     bindr (stream_text ''anchor_id'' (sr_anchor_id r)) (\<lambda>_.
     bindr (stream_text ''scene_token'' (sr_scene_token r)) (\<lambda>_.
     bindr (stream_sequence ''proposal_seq'' (sr_proposal_seq r)) (\<lambda>_.
     bindr (stream_sequence ''expected_revision'' (sr_expected_revision r)) (\<lambda>_.
     bindr (stream_curve (sr_suffix r)) (\<lambda>suffix.
     bindr (ensure (\<not> (sr_terminal r \<and> list_ex (\<lambda>x. \<not> feq x 0) (last (the (jt_velocities suffix)))))
       (ValueError ''terminal revision must have zero endpoint velocity'')) (\<lambda>_.
     bindr (mk_TrajectoryRequest
       \<lparr>tr_request_id = sr_request_id r, tr_instance_id = ''stream'',
        tr_joint_names = map (\<lambda>i. CHR ''j'' # decimal_text i) [0..<num_joints suffix], tr_trajectory = suffix,
        tr_profile = ''joint_impedance'', tr_gains = None, tr_model_token = None, tr_start = ON_ADMIT,
        tr_admit_by = sr_admit_by r, tr_completion = None, tr_supersedes = None, tr_cartesian = None\<rparr>) (\<lambda>_.
     Inr (r\<lparr>sr_suffix := suffix\<rparr>))))))))))"

record SpliceAnchor =
  sa_anchor_id :: string
  sa_expected_revision :: int
  sa_cut_phase :: fl
  sa_q :: vec
  sa_qd :: vec
  sa_issued_at :: Stamp
  sa_expires_at :: Stamp

definition mk_SpliceAnchor :: "SpliceAnchor \<Rightarrow> SpliceAnchor result" where
  "mk_SpliceAnchor a =
     bindr (stream_text ''anchor_id'' (sa_anchor_id a)) (\<lambda>_.
     bindr (stream_sequence ''expected_revision'' (sa_expected_revision a)) (\<lambda>_.
     bindr (ensure (1 \<le> length (sa_q a) \<and> length (sa_q a) \<le> 16 \<and> all_finite (sa_q a)) (ValueError ''q must be a finite joint vector'')) (\<lambda>_.
     bindr (ensure (1 \<le> length (sa_qd a) \<and> length (sa_qd a) \<le> 16 \<and> all_finite (sa_qd a)) (ValueError ''qd must be a finite joint vector'')) (\<lambda>_.
     bindr (ensure (\<not> (length (sa_q a) \<noteq> length (sa_qd a) \<or> \<not> isfinite (sa_cut_phase a) \<or> sa_cut_phase a < 0)) (ValueError ''invalid splice knot'')) (\<lambda>_.
     bindr (ensure ((st_clock (sa_issued_at a), st_domain (sa_issued_at a)) = (st_clock (sa_expires_at a), st_domain (sa_expires_at a)))
       (ValueError ''anchor expiry must use its issuance clock'')) (\<lambda>_.
     bindr (ensure (\<not> st_ns (sa_expires_at a) \<le> st_ns (sa_issued_at a)) (ValueError ''anchor must have a positive lifetime'')) (\<lambda>_.
     Inr a)))))))"

record RevisionStatus =
  rv_execution_id :: string
  rv_request_id :: string
  rv_expected_revision :: "int option"
  rv_revision :: "int option"
  rv_phase :: Phase
  rv_selection_state :: SelectionState
  rv_at :: Stamp
  rv_reason :: string

record StreamView =
  sv_execution :: ExecutionStatus
  sv_model_token :: string
  sv_scene_token :: string
  sv_stream_policy_id :: string
  sv_selected_reference_id :: "int option"
  sv_selected_revision :: "int option"
  sv_selected_phase :: "fl option"
  sv_protected_until :: "fl option"
  sv_selected_end_phase :: "fl option"
  sv_selected_terminal :: "bool option"
  sv_pending_request_id :: "string option"
  sv_pending_revision :: "int option"
  sv_splice :: "SpliceAnchor option"

section \<open>Presets and payload\<close>

record ControllerPreset =
  cp_id :: string
  cp_law :: string

definition mk_ControllerPreset :: "string \<Rightarrow> string \<Rightarrow> ControllerPreset result" where
  "mk_ControllerPreset i law =
     (if i = [] \<or> law \<notin> {''joint'', ''soft''} then Inl (ValueError ''preset requires an id and joint/soft law'')
      else Inr \<lparr>cp_id = i, cp_law = law\<rparr>)"

record PayloadValue =
  pv_mass_kg :: fl
  pv_com_ee :: "vec option"

definition mk_PayloadValue :: "fl \<Rightarrow> vec option \<Rightarrow> PayloadValue result" where
  "mk_PayloadValue mass com_ee =
     (if \<not> isfinite mass \<or> mass < 0 then Inl (ValueError ''payload mass must be finite and nonnegative'')
      else if 0 < mass then
        (case com_ee of
           None \<Rightarrow> Inr \<lparr>pv_mass_kg = mass, pv_com_ee = None\<rparr>
         | Some com \<Rightarrow>
             if length com \<noteq> 3 \<or> \<not> all_finite com then Inl (ValueError ''payload CoM must contain three finite values'')
             else Inr \<lparr>pv_mass_kg = mass, pv_com_ee = Some com\<rparr>)
      else Inr \<lparr>pv_mass_kg = mass, pv_com_ee = None\<rparr>)"

record PayloadState =
  ps_revision :: int
  ps_value :: PayloadValue

record ControllerState =
  cs_law :: string
  cs_preset_id :: "string option"
  cs_kp :: vec
  cs_kd :: vec
  cs_payload :: PayloadState

section \<open>The stream policy\<close>

record StreamPolicy =
  sp_stream_policy_id :: string
  sp_min_commit_lead_s :: fl
  sp_max_candidate_age_s :: fl
  sp_max_future_s :: fl
  sp_start_velocity_tolerance_rad_s :: vec

definition mk_StreamPolicy :: "StreamPolicy \<Rightarrow> StreamPolicy result" where
  "mk_StreamPolicy p =
     bindr (ensure (sp_stream_policy_id p \<noteq> []) (ValueError ''stream policy requires an identity'')) (\<lambda>_.
     bindr (pos_scalar ''min_commit_lead_s'' (sp_min_commit_lead_s p)) (\<lambda>_.
     bindr (pos_scalar ''max_candidate_age_s'' (sp_max_candidate_age_s p)) (\<lambda>_.
     bindr (pos_scalar ''max_future_s'' (sp_max_future_s p)) (\<lambda>_.
     bindr (ensure (\<not> sp_max_future_s p \<le> sp_min_commit_lead_s p + sp_max_candidate_age_s p)
       (ValueError ''commit lead + candidate age must fit future budget'')) (\<lambda>_.
     bindr (ensure (\<not> (sp_start_velocity_tolerance_rad_s p = [] \<or> \<not> list_all (\<lambda>v. isfinite v \<and> 0 \<le> v) (sp_start_velocity_tolerance_rad_s p)))
       (ValueError ''start velocity tolerance must be finite/nonnegative'')) (\<lambda>_.
     Inr p))))))"

record StreamFacts =
  sf_model_token :: string
  sf_scene_token :: string
  sf_policy :: StreamPolicy

section \<open>A target as the suffix of a stream\<close>

record TargetStopGrid =
  tg_duration_grid_s :: vec
  tg_progress_fractions :: vec
  tg_strategy_id :: string

definition grid_values :: "string \<Rightarrow> vec \<Rightarrow> unit result" where
  "grid_values name values =
     ensure (1 \<le> length values \<and> length values \<le> 16 \<and> list_all (\<lambda>v. isfinite v \<and> 0 < v) values)
       (ValueError (name @ '' needs 1..16 positive finite entries''))"

definition mk_TargetStopGrid :: "TargetStopGrid \<Rightarrow> TargetStopGrid result" where
  "mk_TargetStopGrid g =
     (let d = tg_duration_grid_s g; f = tg_progress_fractions g in
      bindr (ensure (tg_strategy_id g = ''target_stop_hermite_grid/1'') (ValueError ''unknown target strategy'')) (\<lambda>_.
      bindr (grid_values ''duration_grid_s'' d) (\<lambda>_.
      bindr (grid_values ''progress_fractions'' f) (\<lambda>_.
      bindr (ensure (\<not> list_ex (\<lambda>(a, b). b \<le> a) (zip d (tl d))) (ValueError ''duration grid must strictly increase'')) (\<lambda>_.
      bindr (ensure (\<not> (\<not> feq (hd f) 1 \<or> list_ex (\<lambda>(a, b). a \<le> b) (zip f (tl f)))) (ValueError ''progress fractions must strictly decrease from one'')) (\<lambda>_.
      Inr g))))))"

text \<open>
  One candidate of the two nested loops: \<open>None\<close> moves on, \<open>Some\<close> returns. \<open>check\<close> is the caller's scene check of a
  curve, a refusal text.
\<close>

definition try_candidate ::
    "(JointTrajectory \<Rightarrow> string result) \<Rightarrow> ExecutionPolicy \<Rightarrow> StreamPolicy \<Rightarrow> vec \<Rightarrow> vec \<Rightarrow> fl \<Rightarrow> fl \<Rightarrow> vec \<Rightarrow> vec \<Rightarrow> vec \<Rightarrow> fl \<Rightarrow> fl \<Rightarrow>
       (JointTrajectory \<times> fl \<times> fl) option result" where
  "try_candidate check policy sp kp kd cut_phase observed_phase q qd target alpha duration =
     (if sp_max_future_s sp < cut_phase + duration - observed_phase then Inr None
      else bindr (mk_JointTrajectory [cut_phase, cut_phase + duration] [q, vadd q (vscale alpha (vsub target q))]
             (Some [qd, zeros (length q)])) (\<lambda>curve.
        let plan = \<lparr>pl_times = jt_times curve, pl_positions = jt_positions curve, pl_velocities = the (jt_velocities curve),
            pl_kp = kp, pl_kd = kd, pl_cartesian_poses = None, pl_cartesian = None\<rparr> in
        bindr (plan_error policy plan q (length q) None) (\<lambda>refusal.
          if refusal \<noteq> None then Inr None
          else bindr (check curve) (\<lambda>why. Inr (if why \<noteq> [] then None else Some (curve, alpha, duration))))))"

fun first_candidate :: "('a \<Rightarrow> 'b option result) \<Rightarrow> 'a list \<Rightarrow> 'b result" where
  "first_candidate f [] = Inl (ValueError ''no target suffix satisfies stream envelope and scene admission'')"
| "first_candidate f (x # xs) = bindr (f x) (\<lambda>r. case r of None \<Rightarrow> first_candidate f xs | Some v \<Rightarrow> Inr v)"

definition toward ::
    "TargetStopGrid \<Rightarrow> vec \<Rightarrow> fl \<Rightarrow> vec \<Rightarrow> vec \<Rightarrow> fl \<Rightarrow> StreamPolicy \<Rightarrow> ExecutionPolicy \<Rightarrow> vec \<Rightarrow> vec \<Rightarrow>
       (JointTrajectory \<Rightarrow> string result) \<Rightarrow> (JointTrajectory \<times> fl \<times> fl) result" where
  "toward g target cut_phase q qd observed_phase sp policy kp kd check =
     (if length qd \<noteq> length q \<or> length target \<noteq> length q
        then Inl (ValueError ''target and cut vectors must have the same joint shape'')
      else if \<not> (all_finite q \<and> all_finite qd \<and> all_finite target) then Inl (ValueError ''target and cut must be finite'')
      else if sp_max_future_s sp < last (tg_duration_grid_s g)
        then Inl (ValueError ''strategy duration exceeds stream policy future budget'')
      else first_candidate (\<lambda>(alpha, duration). try_candidate check policy sp kp kd cut_phase observed_phase q qd target alpha duration)
             (List.product (tg_progress_fractions g) (tg_duration_grid_s g)))"

end
