(* ===== verification/Stream_Target.thy ===== *)
theory Stream_Target
  imports Stream_Values
begin

text \<open>
  What \<^verbatim>\<open>TargetStopGrid.toward\<close> returns: the first candidate of its grid that the stream policy, the execution policy and
  the scene check all admit, and therefore a curve that keeps the execution policy at every instant.
\<close>

lemma first_candidate_Inr:
  assumes "first_candidate f xs = Inr v"
  shows "\<exists>ys x zs. xs = ys @ x # zs \<and> f x = Inr (Some v) \<and> (\<forall>y \<in> set ys. f y = Inr None)"
  using assms
proof (induction xs)
  case (Cons x xs)
  show ?case
  proof (cases "f x = Inr None")
    case True
    with Cons obtain ys x' zs where "xs = ys @ x' # zs \<and> f x' = Inr (Some v) \<and> (\<forall>y \<in> set ys. f y = Inr None)" by auto
    with True show ?thesis by (intro exI [of _ "x # ys"]) auto
  next
    case False
    with Cons.prems have "f x = Inr (Some v)" by (auto split: option.splits)
    then show ?thesis by (intro exI [of _ "[]"]) auto
  qed
qed simp

text \<open>The grid tries every fraction with every duration, larger fractions first, shorter durations first.\<close>

lemma try_candidate_Some:
  assumes "try_candidate check policy sp kp kd ph obs q qd target alpha duration = Inr (Some (curve, a, d))"
  defines "plan \<equiv> \<lparr>pl_times = [ph, ph + duration], pl_positions = [q, vadd q (vscale alpha (vsub target q))],
     pl_velocities = [qd, zeros (length q)], pl_kp = kp, pl_kd = kd, pl_cartesian_poses = None, pl_cartesian = None\<rparr>"
  shows "a = alpha \<and> d = duration \<and> \<not> sp_max_future_s sp < ph + duration - obs \<and> check curve = Inr [] \<and>
     plan_error policy plan q (length q) None = Inr None \<and>
     curve = \<lparr>jt_times = pl_times plan, jt_positions = pl_positions plan, jt_velocities = Some (pl_velocities plan)\<rparr> \<and>
     mk_JointTrajectory (pl_times plan) (pl_positions plan) (Some (pl_velocities plan)) = Inr curve"
proof -
  from assms(1) have fut: "\<not> sp_max_future_s sp < ph + duration - obs" by (auto simp: try_candidate_def)
  with assms(1) obtain c where mk: "mk_JointTrajectory (pl_times plan) (pl_positions plan) (Some (pl_velocities plan)) = Inr c"
    and rest: "bindr (plan_error policy \<lparr>pl_times = jt_times c, pl_positions = jt_positions c, pl_velocities = the (jt_velocities c),
            pl_kp = kp, pl_kd = kd, pl_cartesian_poses = None, pl_cartesian = None\<rparr> q (length q) None) (\<lambda>refusal.
          if refusal \<noteq> None then Inr None
          else bindr (check c) (\<lambda>why. Inr (if why \<noteq> [] then None else Some (c, alpha, duration)))) = Inr (Some (curve, a, d))"
    by (auto simp: try_candidate_def Let_def plan_def simp del: bindr_eq_Inr dest!: bindr_eq_Inr [THEN iffD1])
  have c: "c = \<lparr>jt_times = pl_times plan, jt_positions = pl_positions plan, jt_velocities = Some (pl_velocities plan)\<rparr>"
    using mk by (auto simp: mk_JointTrajectory_def split: if_splits)
  have "\<lparr>pl_times = jt_times c, pl_positions = jt_positions c, pl_velocities = the (jt_velocities c),
            pl_kp = kp, pl_kd = kd, pl_cartesian_poses = None, pl_cartesian = None\<rparr> = plan"
    by (simp add: c plan_def)
  with rest have pe: "bindr (plan_error policy plan q (length q) None) (\<lambda>refusal.
          if refusal \<noteq> None then Inr None
          else bindr (check c) (\<lambda>why. Inr (if why \<noteq> [] then None else Some (c, alpha, duration)))) = Inr (Some (curve, a, d))" by simp
  then have "plan_error policy plan q (length q) None = Inr None" "check c = Inr []" "c = curve" "a = alpha" "d = duration"
    by (auto split: if_splits)
  with fut mk c show ?thesis by simp
qed

lemma grid_positive: "grid_values name v = Inr u \<Longrightarrow> x \<in> set v \<Longrightarrow> isfinite x \<and> 0 < x"
  by (auto simp: grid_values_def list_all_iff)

text \<open>
  C40: What \<open>toward\<close> returns is the first candidate, in the order of the grid, that passes. The curve starts at the cut
  with the given position and velocity and ends at rest on the line to the target, at the returned fraction and
  after the returned duration, which fits the stream policy's budget; the scene check accepted it; at every instant it
  is inside the execution policy's envelope and limits (within \<open>1e-8 + 1e-99\<close>); and every earlier candidate was refused.
\<close>

theorem target_suffix_first_admissible:
  assumes "mk_ExecutionPolicy c torque = Inr policy" and "length q = length (torque_limits policy)" and "isfinite ph"
    and "\<forall>d \<in> set (tg_duration_grid_s g). Fin (1 / 10 ^ 200) \<le> d"
    and "toward g target ph q qd obs sp policy kp kd check = Inr (curve, alpha, duration)"
  shows "jt_times curve = [ph, ph + duration] \<and> jt_positions curve = [q, vadd q (vscale alpha (vsub target q))] \<and>
     jt_velocities curve = Some [qd, zeros (length q)] \<and> \<not> sp_max_future_s sp < ph + duration - obs \<and> check curve = Inr [] \<and>
     (\<forall>t. \<exists>pt. sample_at curve (Fin t) = Inr pt \<and>
        (\<forall>j < length q. point_keeps_policy policy (Some [q]) (Fin (1 / 10 ^ 8 + 1 / 10 ^ 99)) pt j)) \<and>
     (\<exists>before later. List.product (tg_progress_fractions g) (tg_duration_grid_s g) = before @ (alpha, duration) # later \<and>
        (\<forall>(a, d) \<in> set before. try_candidate check policy sp kp kd ph obs q qd target a d = Inr None))"
proof -
  let ?f = "\<lambda>(a, d). try_candidate check policy sp kp kd ph obs q qd target a d"
  from assms(5) have fc: "first_candidate ?f (List.product (tg_progress_fractions g) (tg_duration_grid_s g)) = Inr (curve, alpha, duration)"
    by (auto simp: toward_def split: if_splits)
  from first_candidate_Inr [OF this] obtain before a d later
    where pr: "List.product (tg_progress_fractions g) (tg_duration_grid_s g) = before @ (a, d) # later"
      and hit: "try_candidate check policy sp kp kd ph obs q qd target a d = Inr (Some (curve, alpha, duration))"
      and miss: "\<forall>y \<in> set before. ?f y = Inr None" by auto
  define plan where "plan = \<lparr>pl_times = [ph, ph + d], pl_positions = [q, vadd q (vscale a (vsub target q))],
     pl_velocities = [qd, zeros (length q)], pl_kp = kp, pl_kd = kd, pl_cartesian_poses = None, pl_cartesian = None\<rparr>"
  note got = try_candidate_Some [OF hit, folded plan_def]
  have "(a, d) \<in> set (List.product (tg_progress_fractions g) (tg_duration_grid_s g))" by (simp add: pr)
  then have "Fin (1 / 10 ^ 200) \<le> d" using assms(4) by auto
  with assms(3) have gap: "\<forall>i. Suc i < length (pl_times plan) \<longrightarrow> pl_times plan ! i + Fin (1 / 10 ^ 200) \<le> pl_times plan ! Suc i"
    by (cases ph; cases d) (auto simp: plan_def less_Suc_eq)
  from got have pe: "plan_error policy plan q (length q) None = Inr None" by blast
  from got have mk: "mk_JointTrajectory (pl_times plan) (pl_positions plan) (Some (pl_velocities plan)) = Inr curve" by blast
  have "\<forall>t. \<exists>pt. sample_at curve (Fin t) = Inr pt \<and>
        (\<forall>j < length q. point_keeps_policy policy (Some [q]) (Fin (1 / 10 ^ 8 + 1 / 10 ^ 99)) pt j)"
    using admitted_curve [OF assms(1) pe assms(2) gap] mk by auto
  moreover have "jt_times curve = [ph, ph + duration] \<and> jt_positions curve = [q, vadd q (vscale alpha (vsub target q))] \<and>
     jt_velocities curve = Some [qd, zeros (length q)]" using got by (auto simp: plan_def)
  moreover have "\<forall>(a, d) \<in> set before. try_candidate check policy sp kp kd ph obs q qd target a d = Inr None"
    using miss by auto
  ultimately show ?thesis using got pr by blast
qed

subsection \<open>A run of the strategy\<close>

definition demo_grid :: TargetStopGrid where
  "demo_grid = \<lparr>tg_duration_grid_s = [1, 2], tg_progress_fractions = [1, Fin (1 / 2)], tg_strategy_id = ''target_stop_hermite_grid/1''\<rparr>"

definition demo_stream_policy :: StreamPolicy where
  "demo_stream_policy = \<lparr>sp_stream_policy_id = ''p'', sp_min_commit_lead_s = Fin (1 / 10), sp_max_candidate_age_s = Fin (1 / 10),
     sp_max_future_s = 4, sp_start_velocity_tolerance_rad_s = [1]\<rparr>"

definition demo_suffix :: JointTrajectory where
  "demo_suffix = \<lparr>jt_times = [0, 1], jt_positions = [[0], [1]], jt_velocities = Some [[0], [0]]\<rparr>"

lemma demo_suffix_bounds:
  "bounds demo_suffix = \<lparr>b_q_min = [0], b_q_max = [1], b_qd_abs_max = [Fin (3 / 2)], b_qdd_abs_max = [6]\<rparr>"
proof -
  have "sqrt 36 = 6" by (rule real_sqrt_unique) auto
  moreover have "eps300 < 6" "eps300 < 2" by (simp_all add: eps300_def)
  ultimately show ?thesis
    by (simp add: demo_suffix_def bounds_def bounds_step_def num_joints_def mat_cols_def zeros_def seg_at_def seg_cubic_def seg_q_cands_def
        seg_cand_def seg_root_def q_at_def qd_at_def seg_qd_max_def seg_qdd_max_def tiny_eps Let_def eps300_pos less_imp_le not_less)
qed

lemma demo_candidate:
  "try_candidate (\<lambda>_. Inr []) demo_policy demo_stream_policy [100] [1] 0 0 [0] [0] [1] 1 1 = Inr (Some (demo_suffix, 1, 1))"
proof -
  define pl where "pl = \<lparr>pl_times = [0, 1], pl_positions = [[0], [1]], pl_velocities = [[0], [0]], pl_kp = [100], pl_kd = [1],
      pl_cartesian_poses = None, pl_cartesian = None\<rparr>"
  have env: "envelope demo_policy (Some [[0]]) = Some ([- 2], [2])"
    by (simp add: envelope_def demo_policy_def rectangular_def col_fold_def)
  have 1: "first_refusal (shape_checks pl 1) = Inr None"
    by (simp add: shape_checks_def pl_def rectangular_def same_shape_def)
  have 2: "first_refusal (sample_checks demo_policy pl (Some ([- 2], [2]))) = Inr None"
    by (simp add: sample_checks_def pl_def demo_policy_def when_limits_def orr_def np_any2_def np_any1_def bcast2_def
        widen_def ENVELOPE_TOL_def row_rates_def vdivs_def vsub_def vabs_def)
  have 3: "mk_JointTrajectory [0, 1] [[0], [1]] (Some [[0], [0]]) = Inr demo_suffix"
    by (simp add: demo_suffix_def mk_JointTrajectory_def rectangular_def mat_cols_def same_shape_def)
  then have mk3: "mk_JointTrajectory (pl_times pl) (pl_positions pl) (Some (pl_velocities pl)) = Inr demo_suffix" by (simp add: pl_def)
  have 4: "first_refusal (curve_checks demo_policy \<lparr>b_q_min = [0], b_q_max = [1], b_qd_abs_max = [Fin (3 / 2)], b_qdd_abs_max = [6]\<rparr>
      (Some ([- 2], [2]))) = Inr None"
    by (simp add: curve_checks_def demo_policy_def when_limits_def orr_def np_any1_def bcast2_def widen_def ENVELOPE_TOL_def)
  have 5: "first_refusal (law_checks demo_policy pl 1) = Inr None" by (simp add: law_checks_def pl_def)
  have 6: "start_error demo_policy (hd (pl_positions pl)) [0] = Inr None"
    by (simp add: start_error_def pl_def demo_policy_def np_sub_def bcast2_def vabs_def)
  have pe: "plan_error demo_policy pl [0] 1 None = Inr None"
    unfolding plan_error_def option.case env 1 2 mk3 demo_suffix_bounds 5 6 bindr_Inr Let_def 4 by simp
  show ?thesis
    using 3 pe by (simp add: try_candidate_def demo_stream_policy_def vadd_def vscale_def vsub_def zeros_def demo_suffix_def pl_def)
qed

theorem target_suffix_first_admissible_witness:
  "\<exists>curve alpha duration pt. toward demo_grid [1] 0 [0] [0] 0 demo_stream_policy demo_policy [100] [1] (\<lambda>_. Inr []) =
      Inr (curve, alpha, duration) \<and> jt_velocities curve = Some [[0], [0]] \<and> alpha = 1 \<and> sample_at curve (Fin (1 / 3)) = Inr pt \<and>
      point_keeps_policy demo_policy (Some [[0]]) (Fin (1 / 10 ^ 8 + 1 / 10 ^ 99)) pt 0"
proof -
  have run: "toward demo_grid [1] 0 [0] [0] 0 demo_stream_policy demo_policy [100] [1] (\<lambda>_. Inr []) = Inr (demo_suffix, 1, 1)"
    using demo_candidate by (simp add: toward_def demo_grid_def demo_stream_policy_def)
  have "length [0 :: fl] = length (torque_limits demo_policy)" by (simp add: demo_policy_def)
  moreover have "\<forall>d \<in> set (tg_duration_grid_s demo_grid). Fin (1 / 10 ^ 200) \<le> d" by (simp add: demo_grid_def)
  ultimately have "\<exists>pt. sample_at demo_suffix (Fin (1 / 3)) = Inr pt \<and>
      (\<forall>j < length [0 :: fl]. point_keeps_policy demo_policy (Some [[0]]) (Fin (1 / 10 ^ 8 + 1 / 10 ^ 99)) pt j)"
    using target_suffix_first_admissible [OF demo_policy_built _ _ _ run] by fastforce
  then obtain pt where "sample_at demo_suffix (Fin (1 / 3)) = Inr pt"
    "point_keeps_policy demo_policy (Some [[0]]) (Fin (1 / 10 ^ 8 + 1 / 10 ^ 99)) pt 0" by auto
  with run show ?thesis by (intro exI [of _ demo_suffix] exI [of _ pt]) (simp add: demo_suffix_def)
qed

end
