(* ===== verification/Client_Session.thy ===== *)
theory Client_Session
  imports Stream_Values
begin

text \<open>
  \<^verbatim>\<open>arm_control/clients/common.py\<close>: the stream session every client drives, and the report it keeps.

  The supervisor is behind \<^verbatim>\<open>arm\<close> (the SDK's \<^verbatim>\<open>ArmClient\<close>). What it answers to a client's \<open>n\<close>-th question, an
  exception included, is a field of \<open>client_world\<close>; the calls that can change something at the supervisor are recorded
  in \<open>cw_io\<close>, newest first. The counters of the module are part of the world.
\<close>

section \<open>The supervisor as a client sees it\<close>

datatype client_io = IoOpen StreamOpen | IoRevise StreamRevision | IoCancel string string

record client_world =
  cw_n :: nat
  cw_clock :: "nat \<Rightarrow> fl"
  cw_now :: "nat \<Rightarrow> Stamp result"
  cw_q :: "nat \<Rightarrow> vec option result"
  cw_view :: "nat \<Rightarrow> StreamView result"
  cw_anchor :: "nat \<Rightarrow> SpliceAnchor result"
  cw_revision :: "nat \<Rightarrow> RevisionStatus result"
  cw_cancel :: "nat \<Rightarrow> unit result"
  cw_preset :: "nat \<Rightarrow> string option result"
  cw_controller :: bool
  cw_open_seq :: nat
  cw_proposal_seq :: nat
  cw_request_id :: nat
  cw_io :: "client_io list"

type_synonym 'a asks = "(client_world, 'a) action"

definition ask_arm :: "(client_world \<Rightarrow> nat \<Rightarrow> 'a result) \<Rightarrow> 'a asks" where
  "ask_arm f w = (f w (cw_n w), w\<lparr>cw_n := Suc (cw_n w)\<rparr>)"

definition client_clock :: "fl asks" where
  "client_clock = ask_arm (\<lambda>w n. Inr (cw_clock w n))"

definition io :: "client_io \<Rightarrow> unit asks" where
  "io e = modst (\<lambda>w. w\<lparr>cw_io := e # cw_io w\<rparr>)"

text \<open>
  \<^verbatim>\<open>_dec\<close> of the SDK: a reply that does not fit the contract is a \<^verbatim>\<open>SupervisorError\<close>.
\<close>

definition dec :: "'a result \<Rightarrow> 'a result" where
  "dec r = (case r of
     Inl (ValueError m) \<Rightarrow> Inl (SupervisorError ''unreadable reply; outcome unknown'')
   | Inl KeyError \<Rightarrow> Inl (SupervisorError ''unreadable reply; outcome unknown'')
   | Inl TypeError \<Rightarrow> Inl (SupervisorError ''unreadable reply; outcome unknown'')
   | Inl AttributeError \<Rightarrow> Inl (SupervisorError ''unreadable reply; outcome unknown'')
   | _ \<Rightarrow> r)"

definition arm_open_stream :: "StreamOpen \<Rightarrow> StreamView asks" where
  "arm_open_stream request = bindst (io (IoOpen request)) (\<lambda>_. ask_arm (\<lambda>w n. dec (cw_view w n)))"

definition arm_stream_state :: "StreamView asks" where
  "arm_stream_state = ask_arm (\<lambda>w n. dec (cw_view w n))"

definition arm_stream_anchor :: "SpliceAnchor asks" where
  "arm_stream_anchor = ask_arm (\<lambda>w n. dec (bindr (cw_anchor w n) mk_SpliceAnchor))"

definition arm_revise_stream :: "StreamRevision \<Rightarrow> RevisionStatus asks" where
  "arm_revise_stream request = bindst (io (IoRevise request)) (\<lambda>_. ask_arm (\<lambda>w n. dec (cw_revision w n)))"

definition arm_stream_revision :: "RevisionStatus asks" where
  "arm_stream_revision = ask_arm (\<lambda>w n. dec (cw_revision w n))"

definition arm_cancel :: "string \<Rightarrow> string \<Rightarrow> unit asks" where
  "arm_cancel execution_id reason = bindst (io (IoCancel execution_id reason)) (\<lambda>_. ask_arm (\<lambda>w n. cw_cancel w n))"

definition arm_state_q :: "vec option asks" where
  "arm_state_q = ask_arm (\<lambda>w n. dec (cw_q w n))"

definition arm_now :: "Stamp asks" where
  "arm_now = ask_arm (\<lambda>w n. dec (bindr (cw_now w n) (\<lambda>s. mk_Stamp (st_ns s) (st_clock s) (st_domain s))))"

definition arm_preset_id :: "string option asks" where
  "arm_preset_id = ask_arm (\<lambda>w n. dec (cw_preset w n))"

text \<open>\<^verbatim>\<open>except (SupervisorError, TimeoutError, OSError)\<close> and \<^verbatim>\<open>except (Refused, ValueError)\<close>.\<close>

fun infra_error :: "err \<Rightarrow> bool" where
  "infra_error (SupervisorError _) = True"
| "infra_error (Refused _) = True"
| "infra_error (TimeoutError _) = True"
| "infra_error (OSError _) = True"
| "infra_error _ = False"

fun refusal_error :: "err \<Rightarrow> bool" where
  "refusal_error (Refused _) = True"
| "refusal_error (ValueError _) = True"
| "refusal_error _ = False"

definition try_if :: "(err \<Rightarrow> bool) \<Rightarrow> ('s, 'a) action \<Rightarrow> (err \<Rightarrow> ('s, 'a) action) \<Rightarrow> ('s, 'a) action" where
  "try_if P m handler s = (case m s of (Inl e, t) \<Rightarrow> if P e then handler e t else (Inl e, t) | (Inr a, t) \<Rightarrow> (Inr a, t))"

context guarantee
begin

lemma g_try_if: "guar G m \<Longrightarrow> (\<And>e. guar G (h e)) \<Longrightarrow> guar G (try_if P m h)"
  by (auto simp: guar_def try_if_def split: prod.split sum.split) (metis chain snd_conv)+

end

lemma triple_try_if: "triple P m Q E \<Longrightarrow> (\<And>e. b e \<Longrightarrow> triple E (h e) Q F) \<Longrightarrow> (\<And>s. E s \<Longrightarrow> F s) \<Longrightarrow> triple P (try_if b m h) Q F"
  by (fastforce simp: triple_def try_if_def split: prod.splits sum.splits if_splits)

section \<open>What a policy's numbers mean\<close>

definition MAX_KNOTS :: nat where
  "MAX_KNOTS = 127"

record StreamContext =
  sx_instance_id :: string
  sx_joints :: "string list"
  sx_model_token :: string
  sx_scene_token :: string
  sx_stream_policy_id :: string

record ActionSpec =
  as_joints :: "string list"
  as_composition :: string
  as_units :: string
  as_horizon_s :: "fl option"
  as_control_profile :: "string option"
  as_offset :: "vec option"
  as_scale :: "vec option"

text \<open>\<^verbatim>\<open>np.asarray(v, dtype=float).ravel()\<close>; numpy refuses a ragged list.\<close>

definition ravel :: "arr \<Rightarrow> vec result" where
  "ravel a = (case a of Scalar x \<Rightarrow> Inr [x] | Row v \<Rightarrow> Inr v
     | Rows m \<Rightarrow> if rectangular m (mat_cols m) then Inr (concat m) else Inl (ValueError ''inhomogeneous shape''))"

definition mk_ActionSpec ::
    "string list \<Rightarrow> string \<Rightarrow> string \<Rightarrow> fl option \<Rightarrow> string option \<Rightarrow> arr option \<Rightarrow> arr option \<Rightarrow> ActionSpec result" where
  "mk_ActionSpec joints composition units horizon_s control_profile offset scale =
     bindr (ensure (joints \<noteq> []) (ValueError ''an action spec names its joints'')) (\<lambda>_.
     bindr (ensure (composition \<in> {''absolute'', ''delta''}) (ValueError ''unknown composition'')) (\<lambda>_.
     bindr (ensure (units \<in> {''rad'', ''normalized''}) (ValueError ''unknown units (rad or normalized)'')) (\<lambda>_.
     bindr (ensure (case horizon_s of None \<Rightarrow> True | Some h \<Rightarrow> 0 < h) (ValueError ''horizon_s must be positive'')) (\<lambda>_.
     let spec = \<lparr>as_joints = joints, as_composition = composition, as_units = units, as_horizon_s = horizon_s,
         as_control_profile = control_profile, as_offset = None, as_scale = None\<rparr> in
     if units = ''rad'' then
       (if offset \<noteq> None \<or> scale \<noteq> None then Inl (ValueError ''a rad spec has no normalization map'') else Inr spec)
     else case (offset, scale) of
       (Some off_a, Some scale_a) \<Rightarrow>
         bindr (ravel off_a) (\<lambda>off. bindr (ravel scale_a) (\<lambda>sc.
         bindr (ensure (length off = length joints \<and> length sc = length joints \<and> all_finite off \<and> all_finite sc)
           (ValueError ''offset and scale must be finite, one entry per joint'')) (\<lambda>_.
         bindr (ensure (list_all (\<lambda>x. 0 < x) sc) (ValueError ''scale must be positive for every joint'')) (\<lambda>_.
         Inr (spec\<lparr>as_offset := Some off, as_scale := Some sc\<rparr>)))))
     | _ \<Rightarrow> Inl (ValueError ''normalized actions need both offset and scale, one entry per joint: nothing is assumed'')))))"

text \<open>The two-dimensional array of an argument, or numpy's refusal.\<close>

definition as_2d :: "arr \<Rightarrow> mat option result" where
  "as_2d a = (case a of Rows m \<Rightarrow> if rectangular m (mat_cols m) then Inr (Some m) else Inl (ValueError ''inhomogeneous shape'')
     | _ \<Rightarrow> Inr None)"

definition to_radians :: "ActionSpec \<Rightarrow> mat \<Rightarrow> string \<Rightarrow> mat result" where
  "to_radians spec values composition =
     bindr (ensure (composition = as_composition spec) (ValueError ''chunk composition differs from the spec'')) (\<lambda>_.
     bindr (ensure (rectangular values (length (as_joints spec))) (ValueError ''values must be (T, joints): a shape is never broadcast'')) (\<lambda>_.
     if as_units spec = ''rad'' then Inr values
     else
       let scaled = map (vmul (the (as_scale spec))) values in
       Inr (if composition = ''delta'' then scaled else map (vadd (the (as_offset spec))) scaled)))"

section \<open>The report\<close>

record Report =
  rp_requested :: "string list"
  rp_admitted :: "string list"
  rp_selected :: "string list"
  rp_unknown :: "string list"
  rp_refused :: "(string \<times> string) list"
  rp_replaced :: "string list"
  rp_late :: "(string \<times> string) list"
  rp_selected_revision :: "int option"
  rp_notes :: "string list"
  rp_spec :: "ActionSpec option"
  rp_profile_at_start :: "string option"

definition mk_Report :: Report where
  "mk_Report = \<lparr>rp_requested = [], rp_admitted = [], rp_selected = [], rp_unknown = [], rp_refused = [], rp_replaced = [],
     rp_late = [], rp_selected_revision = None, rp_notes = [], rp_spec = None, rp_profile_at_start = None\<rparr>"

definition mark_unknown :: "string \<Rightarrow> Report \<Rightarrow> Report" where
  "mark_unknown i r = (if i \<in> set (rp_unknown r) then r else r\<lparr>rp_unknown := rp_unknown r @ [i]\<rparr>)"

definition rp_note :: "string \<Rightarrow> Report \<Rightarrow> Report" where
  "rp_note m r = r\<lparr>rp_notes := rp_notes r @ [m]\<rparr>"

definition classify :: "RevisionStatus \<Rightarrow> string" where
  "classify status =
     (if rv_phase status = REJECTED \<or> rv_selection_state status = SEL_REFUSED then ''refused''
      else if rv_selection_state status = SEL_SELECTED then ''selected''
      else if terminal_phase (rv_phase status) then ''ended''
      else if rv_phase status \<noteq> REQUESTED then ''admitted''
      else ''pending'')"

definition resolved :: "RevisionStatus \<Rightarrow> bool" where
  "resolved status \<longleftrightarrow> classify status \<in> {''refused'', ''selected'', ''ended''}"

definition note_outcome :: "Report \<Rightarrow> string \<Rightarrow> RevisionStatus \<Rightarrow> Report \<times> string" where
  "note_outcome report action_id status =
     (let kind = classify status in
      if kind = ''ended'' then
        (if list_all (\<lambda>(a, _). a \<noteq> action_id) (rp_refused report)
         then report\<lparr>rp_refused := rp_refused report @ [(action_id, ''ended without selection'')]\<rparr> else report, kind)
      else if kind = ''refused'' then
        (if list_all (\<lambda>(a, _). a \<noteq> action_id) (rp_refused report)
         then report\<lparr>rp_refused := rp_refused report @
                [(action_id, if rv_reason status = [] then ''revision refused'' else rv_reason status)]\<rparr> else report, kind)
      else
        let r1 = (if kind \<in> {''admitted'', ''selected''} \<and> action_id \<notin> set (rp_admitted report)
                  then report\<lparr>rp_admitted := rp_admitted report @ [action_id]\<rparr> else report) in
        (if kind = ''selected'' \<and> action_id \<notin> set (rp_selected r1)
         then r1\<lparr>rp_selected := rp_selected r1 @ [action_id]\<rparr> else r1, kind))"

section \<open>One stream execution\<close>

record StreamSession =
  ss_execution_id :: string
  ss_closed :: bool
  ss_last_error :: "string option"

definition next_open_seq :: "nat asks" where
  "next_open_seq = bindst (modst (\<lambda>w. w\<lparr>cw_open_seq := Suc (cw_open_seq w)\<rparr>)) (\<lambda>_. withst (\<lambda>w. ret (cw_open_seq w)))"

definition next_proposal_seq :: "nat asks" where
  "next_proposal_seq = bindst (modst (\<lambda>w. w\<lparr>cw_proposal_seq := Suc (cw_proposal_seq w)\<rparr>)) (\<lambda>_. withst (\<lambda>w. ret (cw_proposal_seq w)))"

definition request_id :: "string \<Rightarrow> string asks" where
  "request_id prefix = bindst (modst (\<lambda>w. w\<lparr>cw_request_id := Suc (cw_request_id w)\<rparr>)) (\<lambda>_.
     withst (\<lambda>w. ret (prefix @ ''.'' @ decimal_text (cw_request_id w))))"

text \<open>\<^verbatim>\<open>np.asarray(None, dtype=float)\<close> has no length: \<^verbatim>\<open>len(q)\<close> raises \<^verbatim>\<open>TypeError\<close>.\<close>

definition mk_StreamSession :: "StreamContext \<Rightarrow> fl \<Rightarrow> StreamSession asks" where
  "mk_StreamSession ctx hold_s =
     (if hold_s \<le> 0 then lift (Inl (ValueError ''hold_s must be positive''))
      else bindst arm_state_q (\<lambda>q0. case q0 of None \<Rightarrow> lift (Inl TypeError)
        | Some q \<Rightarrow>
            bindst (lift (mk_JointTrajectory [0, hold_s / 2, hold_s] [q, q, q] (Some (replicate 3 (zeros (length q)))))) (\<lambda>curve.
            bindst next_open_seq (\<lambda>open_seq.
            bindst (lift (mk_StreamOpen
              \<lparr>so_request_id = ''open-'' @ decimal_text open_seq, so_open_seq = int open_seq, so_instance_id = sx_instance_id ctx,
               so_joint_names = sx_joints ctx, so_model_token = sx_model_token ctx, so_scene_token = sx_scene_token ctx,
               so_stream_policy_id = sx_stream_policy_id ctx, so_initial = curve, so_start = ON_ADMIT, so_admit_by = None\<rparr>)) (\<lambda>request.
            bindst (arm_open_stream request) (\<lambda>view.
            ret \<lparr>ss_execution_id = es_execution_id (sv_execution view), ss_closed = False, ss_last_error = None\<rparr>))))))"

text \<open>\<^verbatim>\<open>q_knots\<close> is two-dimensional at both calls.\<close>

definition knot_velocities :: "mat \<Rightarrow> fl \<Rightarrow> vec \<Rightarrow> mat" where
  "knot_velocities knots dt qd =
     map (\<lambda>k. if k = 0 then qd
              else if Suc k < length knots then vdivs (vsub (knots ! Suc k) (knots ! (k - 1))) (2 * dt)
              else zeros (length (knots ! k))) [0..<length knots]"

definition revise :: "StreamSession \<Rightarrow> StreamContext \<Rightarrow> string \<Rightarrow> mat \<Rightarrow> fl \<Rightarrow> bool \<Rightarrow> RevisionStatus asks" where
  "revise ss ctx rid q_knots dt terminal =
     (if \<not> (1 \<le> length q_knots \<and> length q_knots \<le> MAX_KNOTS) \<or> \<not> list_all all_finite q_knots \<or> \<not> 0 < dt
        then lift (Inl (ValueError ''chunk needs 1..127 finite knots and dt > 0''))
      else bindst arm_stream_anchor (\<lambda>anchor.
        if \<not> rectangular q_knots (length (sa_q anchor))
          then lift (Inl (ValueError ''all the input array dimensions except for the concatenation axis must match exactly''))
        else
          let knots = sa_q anchor # q_knots;
              times = map (\<lambda>k. sa_cut_phase anchor + dt * Fin (real k)) [0..<length knots];
              vel = knot_velocities knots dt (sa_qd anchor) in
          bindst next_proposal_seq (\<lambda>seq.
          bindst (lift (mk_JointTrajectory times knots (Some vel))) (\<lambda>suffix.
          bindst (lift (mk_StreamRevision
            \<lparr>sr_request_id = rid, sr_execution_id = ss_execution_id ss, sr_proposal_seq = int seq,
             sr_expected_revision = sa_expected_revision anchor, sr_anchor_id = sa_anchor_id anchor, sr_scene_token = sx_scene_token ctx,
             sr_suffix = suffix, sr_terminal = terminal, sr_admit_by = None\<rparr>)) (\<lambda>revision.
          arm_revise_stream revision)))))"

definition session_close :: "StreamSession \<Rightarrow> string \<Rightarrow> (bool \<times> StreamSession) asks" where
  "session_close ss reason =
     (if ss_closed ss then ret (True, ss)
      else try_if infra_error
        (bindst (arm_cancel (ss_execution_id ss) reason) (\<lambda>_. ret (True, ss\<lparr>ss_closed := True\<rparr>)))
        (\<lambda>e. ret (False, ss\<lparr>ss_last_error := Some (err_text e)\<rparr>)))"

end
