(* ===== verification/Chunk_Client.thy ===== *)
theory Chunk_Client
  imports Client_Session
begin

text \<open>
  \<^verbatim>\<open>arm_control/clients/chunks.py\<close>: the client of an action-chunk policy.

  \<open>cc_hist\<close> is the history of what the client did, newest first; it is there for the statements about the client and
  nothing reads it. \<open>HNow\<close> is a reading of the supervisor's clock, \<open>HSend\<close> a chunk handed to the stream,
  \<open>HSettle ns b\<close> the end of its attempt (\<open>b\<close>: the real-time side has, or may have, selected it), \<open>HOpen\<close> and \<open>HStop\<close> the
  openings of a stream and the calls of \<^verbatim>\<open>cancel\<close>.
\<close>

record Chunk =
  ck_chunk_id :: string
  ck_joints :: "string list"
  ck_values :: arr
  ck_dt_s :: fl
  ck_observed_at :: Stamp
  ck_generation :: nat
  ck_mode :: string
  ck_base_q :: "arr option"
  ck_units :: string

datatype chunk_event = HNow Stamp | HSend Chunk | HSettle int bool | HOpen nat | HStop

record ActionChunkClient =
  cc_w :: client_world
  cc_ctx :: StreamContext
  cc_max_age_s :: fl
  cc_hold_s :: fl
  cc_spec :: "ActionSpec option"
  cc_generation :: nat
  cc_session :: "StreamSession option"
  cc_report :: Report
  cc_inflight :: "(string \<times> string \<times> int) option"
  cc_waiting :: "Chunk option"
  cc_sent_obs_ns :: int
  cc_cancel_pending :: bool
  cc_hist :: "chunk_event list"

type_synonym 'a chunky = "(ActionChunkClient, 'a) action"

definition mk_ActionChunkClient :: "client_world \<Rightarrow> StreamContext \<Rightarrow> fl \<Rightarrow> fl \<Rightarrow> ActionSpec option \<Rightarrow> ActionChunkClient result" where
  "mk_ActionChunkClient w ctx max_age_s hold_s spec =
     bindr (ensure (0 < max_age_s) (ValueError ''max_age_s must be positive (it is the caller's deadline, there is no default)'')) (\<lambda>_.
     bindr (ensure (case spec of None \<Rightarrow> True | Some sp \<Rightarrow> as_joints sp = sx_joints ctx)
       (ValueError ''the action spec names different joints (or another order) than the stream context'')) (\<lambda>_.
     Inr \<lparr>cc_w = w, cc_ctx = ctx, cc_max_age_s = max_age_s, cc_hold_s = hold_s, cc_spec = spec, cc_generation = 0, cc_session = None,
          cc_report = mk_Report\<lparr>rp_spec := spec\<rparr>, cc_inflight = None, cc_waiting = None, cc_sent_obs_ns = -1, cc_cancel_pending = False,
          cc_hist = []\<rparr>))"

definition on_world :: "'a asks \<Rightarrow> 'a chunky" where
  "on_world m s = (case m (cc_w s) of (r, w) \<Rightarrow> (r, s\<lparr>cc_w := w\<rparr>))"

definition log_event :: "chunk_event \<Rightarrow> unit chunky" where
  "log_event e = modst (\<lambda>s. s\<lparr>cc_hist := e # cc_hist s\<rparr>)"

definition upd_report :: "(Report \<Rightarrow> Report) \<Rightarrow> unit chunky" where
  "upd_report f = modst (\<lambda>s. s\<lparr>cc_report := f (cc_report s)\<rparr>)"

section \<open>Opening and cancelling\<close>

definition check_profile :: "string option chunky" where
  "check_profile = withst (\<lambda>s.
     let expected = Option.bind (cc_spec s) as_control_profile in
     bindst (if cw_controller (cc_w s)
       then try_if infra_error (on_world arm_preset_id) (\<lambda>e.
         if expected \<noteq> None then lift (Inl (NeedsOperator ''the run expects a control profile but reading the profile failed''))
         else bindst (upd_report (rp_note ''control profile not recorded'')) (\<lambda>_. ret None))
       else ret None) (\<lambda>profile.
     if expected = None then ret profile
     else if \<not> cw_controller (cc_w s)
       then lift (Inl (NeedsOperator ''the run expects a control profile but the supervisor cannot report its profile''))
     else if profile \<noteq> expected
       then lift (Inl (NeedsOperator ''another control profile is selected: select it explicitly; a client never switches it''))
     else ret profile))"

definition chunk_cancel :: "string \<Rightarrow> bool chunky" where
  "chunk_cancel reason =
     bindst (modst (\<lambda>s. s\<lparr>cc_generation := Suc (cc_generation s), cc_inflight := None, cc_waiting := None\<rparr>)) (\<lambda>_.
     bindst (log_event HStop) (\<lambda>_.
     withst (\<lambda>s. case cc_session s of
       None \<Rightarrow> bindst (modst (\<lambda>s. s\<lparr>cc_session := None, cc_cancel_pending := False\<rparr>)) (\<lambda>_. ret True)
     | Some ss \<Rightarrow>
         bindst (on_world (session_close ss reason)) (\<lambda>(ok, ss').
         bindst (modst (\<lambda>s. s\<lparr>cc_session := Some ss'\<rparr>)) (\<lambda>_.
         if \<not> ok then
           bindst (modst (\<lambda>s. s\<lparr>cc_cancel_pending := True\<rparr>)) (\<lambda>_.
           bindst (upd_report (rp_note ''CANCEL NOT CONFIRMED; retry cancel()'')) (\<lambda>_. ret False))
         else bindst (modst (\<lambda>s. s\<lparr>cc_session := None, cc_cancel_pending := False\<rparr>)) (\<lambda>_. ret True))))))"

definition chunk_start :: "nat chunky" where
  "chunk_start =
     bindst check_profile (\<lambda>profile.
     bindst (chunk_cancel ''restart'') (\<lambda>ok.
     if \<not> ok then lift (Inl (NeedsOperator ''previous stream not confirmed cancelled; not opening a second one''))
     else
       bindst (modst (\<lambda>s. s\<lparr>cc_generation := Suc (cc_generation s)\<rparr>)) (\<lambda>_.
       withst (\<lambda>s. bindst (on_world (mk_StreamSession (cc_ctx s) (cc_hold_s s))) (\<lambda>ss.
       bindst (modst (\<lambda>s. s\<lparr>cc_session := Some ss, cc_report := (cc_report s)\<lparr>rp_profile_at_start := profile\<rparr>,
           cc_inflight := None, cc_waiting := None, cc_sent_obs_ns := -1\<rparr>)) (\<lambda>_.
       bindst (log_event (HOpen (cc_generation s))) (\<lambda>_. ret (cc_generation s))))))))"

section \<open>Admitting a chunk\<close>

definition chunk_knots :: "ActionChunkClient \<Rightarrow> Chunk \<Rightarrow> mat result" where
  "chunk_knots s chunk =
     (let n = length (sx_joints (cc_ctx s)) in
      bindr (as_2d (ck_values chunk)) (\<lambda>v0. case v0 of None \<Rightarrow> Inl (ValueError ''chunk must be (T, joints)'')
      | Some v1 \<Rightarrow>
        bindr (ensure (rectangular v1 n) (ValueError ''chunk must be (T, joints)'')) (\<lambda>_.
        bindr (ensure (1 \<le> length v1 \<and> length v1 \<le> MAX_KNOTS) (ValueError ''a chunk has 1..127 knots'')) (\<lambda>_.
        bindr (case cc_spec s of None \<Rightarrow> Inr v1 | Some sp \<Rightarrow> to_radians sp v1 (ck_mode chunk)) (\<lambda>values.
        if ck_mode chunk = ''delta'' then
          (case ck_base_q chunk of None \<Rightarrow> Inl (ValueError ''a delta chunk composes on base_q, the joint position at observation time'')
           | Some b \<Rightarrow>
              (case b of Row base \<Rightarrow>
                 bindr (ensure (length base = n) (ValueError ''base_q must have one entry per joint (it is never broadcast)'')) (\<lambda>_.
                 let composed = map (vadd base) values in
                 bindr (ensure (list_all all_finite composed) (ValueError ''the composed chunk is not finite'')) (\<lambda>_. Inr composed))
               | _ \<Rightarrow> Inl (ValueError ''base_q must have one entry per joint (it is never broadcast)'')))
        else if ck_mode chunk = ''absolute'' then
          bindr (ensure (list_all all_finite values) (ValueError ''the chunk is not finite'')) (\<lambda>_. Inr values)
        else Inl (ValueError ''unknown composition''))))))"

type_synonym verdict = "(string \<times> string) option"

text \<open>\<^verbatim>\<open>except (AttributeError, SupervisorError, TimeoutError, OSError)\<close>.\<close>

definition age_error :: "err \<Rightarrow> bool" where
  "age_error e \<longleftrightarrow> e = AttributeError \<or> infra_error e"

definition check_age :: "Chunk \<Rightarrow> verdict chunky" where
  "check_age chunk =
     try_if age_error
       (bindst (on_world arm_now) (\<lambda>now. bindst (log_event (HNow now)) (\<lambda>_. withst (\<lambda>s.
          if (st_clock now, st_domain now) \<noteq> (st_clock (ck_observed_at chunk), st_domain (ck_observed_at chunk))
            then ret (Some (''refused'', ''observation stamp is not on the supervisor clock''))
          else
            let age = Fin (of_int (st_ns now - st_ns (ck_observed_at chunk)) / 10 ^ 9);
                newest = max (cc_sent_obs_ns s) (case cc_inflight s of Some (_, _, ns) \<Rightarrow> ns | None \<Rightarrow> -1) in
            if cc_max_age_s s < age then ret (Some (''late'', ''observation too old''))
            else if st_ns (ck_observed_at chunk) < newest then ret (Some (''late'', ''older than the observation of what was already sent''))
            else ret None))))
       (\<lambda>e. ret (Some (''refused'', ''cannot age the observation'')))"

definition chunk_check :: "Chunk \<Rightarrow> verdict chunky" where
  "chunk_check chunk = withst (\<lambda>s.
     if cc_cancel_pending s then ret (Some (''late'', ''a cancel is outstanding (not confirmed): the stream is being stopped''))
     else if (case cc_session s of None \<Rightarrow> True | Some ss \<Rightarrow> ss_closed ss)
       then ret (Some (''late'', ''no open session (a late response does not restart one)''))
     else if ck_generation chunk \<noteq> cc_generation s then ret (Some (''late'', ''requested before the last start/cancel''))
     else if ck_joints chunk \<noteq> sx_joints (cc_ctx s)
       then ret (Some (''refused'', ''joint names or order differ from the stream context''))
     else if \<not> (isfinite (ck_dt_s chunk) \<and> 0 < ck_dt_s chunk)
       then ret (Some (''refused'', ''dt_s must be a positive finite number''))
     else if ck_units chunk \<noteq> (case cc_spec s of None \<Rightarrow> ''rad'' | Some sp \<Rightarrow> as_units sp)
       then ret (Some (''refused'', ''this run declared other units''))
     else bindst (case Option.bind (cc_spec s) as_horizon_s of None \<Rightarrow> ret False
       | Some h \<Rightarrow> bindst (lift (arr_len (ck_values chunk))) (\<lambda>k.
           ret (h + Fin (1 / 10 ^ 9) < Fin (real k) * ck_dt_s chunk))) (\<lambda>long.
     if long then ret (Some (''refused'', ''chunk horizon exceeds the declared one''))
     else case chunk_knots s chunk of
       Inl e \<Rightarrow> if is_value_error e then ret (Some (''refused'', err_text e)) else lift (Inl e)
     | Inr _ \<Rightarrow> check_age chunk))"

definition drop_chunk :: "Chunk \<Rightarrow> string \<times> string \<Rightarrow> unit chunky" where
  "drop_chunk chunk v = upd_report (\<lambda>r.
     if fst v = ''late'' then r\<lparr>rp_late := rp_late r @ [(ck_chunk_id chunk, snd v)]\<rparr>
     else r\<lparr>rp_refused := rp_refused r @ [(ck_chunk_id chunk, snd v)]\<rparr>)"

section \<open>Sending and resolving\<close>

definition fold_outcome :: "string \<Rightarrow> RevisionStatus \<Rightarrow> string chunky" where
  "fold_outcome chunk_id status = withst (\<lambda>s.
     case note_outcome (cc_report s) chunk_id status of (r, kind) \<Rightarrow> bindst (upd_report (\<lambda>_. r)) (\<lambda>_. ret kind))"

definition in_flight :: "Chunk \<Rightarrow> string \<Rightarrow> unit chunky" where
  "in_flight chunk rid = modst (\<lambda>s. s\<lparr>cc_inflight := Some (ck_chunk_id chunk, rid, st_ns (ck_observed_at chunk))\<rparr>)"

text \<open>
  The three ways the \<^verbatim>\<open>try\<close> of \<^verbatim>\<open>_send\<close> ends: a status, a refusal (the supervisor answered, or nothing was sent), or no
  usable reply.
\<close>

datatype sent = Answered RevisionStatus | Declined err | NoReply err

definition attempt :: "string \<Rightarrow> Chunk \<Rightarrow> sent chunky" where
  "attempt rid chunk = withst (\<lambda>s.
     try_if refusal_error
       (try_if infra_error
         (bindst (lift (chunk_knots s chunk)) (\<lambda>knots. case cc_session s of
            None \<Rightarrow> lift (Inl AttributeError)
          | Some ss \<Rightarrow> bindst (log_event (HSend chunk)) (\<lambda>_.
              bindst (on_world (revise ss (cc_ctx s) rid knots (ck_dt_s chunk) False)) (\<lambda>status. ret (Answered status)))))
         (\<lambda>e. if refusal_error e then lift (Inl e) else ret (NoReply e)))
       (\<lambda>e. ret (Declined e)))"

definition chunk_send :: "Chunk \<Rightarrow> unit chunky" where
  "chunk_send chunk =
     bindst (on_world (request_id (ck_chunk_id chunk))) (\<lambda>rid.
     bindst (attempt rid chunk) (\<lambda>r. case r of
       Declined e \<Rightarrow> seqs
         [upd_report (\<lambda>r. r\<lparr>rp_refused := rp_refused r @ [(ck_chunk_id chunk, err_text e)]\<rparr>),
          log_event (HSettle (st_ns (ck_observed_at chunk)) False)]
     | NoReply e \<Rightarrow> seqs
         [upd_report (\<lambda>r. mark_unknown (ck_chunk_id chunk) (r\<lparr>rp_requested := rp_requested r @ [ck_chunk_id chunk]\<rparr>)),
          upd_report (rp_note (ck_chunk_id chunk @ '': no reply to the revision; fate unknown'')),
          in_flight chunk rid]
     | Answered status \<Rightarrow>
         bindst (upd_report (\<lambda>r. r\<lparr>rp_requested := rp_requested r @ [ck_chunk_id chunk]\<rparr>)) (\<lambda>_.
         bindst (fold_outcome (ck_chunk_id chunk) status) (\<lambda>kind.
         if kind = ''refused'' then log_event (HSettle (st_ns (ck_observed_at chunk)) False) else in_flight chunk rid))))"

definition chunk_submit :: "Chunk \<Rightarrow> string chunky" where
  "chunk_submit chunk =
     bindst (chunk_check chunk) (\<lambda>verdict. case verdict of
       Some v \<Rightarrow> bindst (drop_chunk chunk v) (\<lambda>_. ret (fst v))
     | None \<Rightarrow> withst (\<lambda>s.
         if cc_inflight s \<noteq> None then
           bindst (case cc_waiting s of None \<Rightarrow> ret ()
             | Some old \<Rightarrow> upd_report (\<lambda>r. r\<lparr>rp_replaced := rp_replaced r @ [ck_chunk_id old]\<rparr>)) (\<lambda>_.
           bindst (modst (\<lambda>s. s\<lparr>cc_waiting := Some chunk\<rparr>)) (\<lambda>_. ret ''waiting''))
         else bindst (chunk_send chunk) (\<lambda>_. withst (\<lambda>s. ret (if cc_inflight s \<noteq> None then ''sent'' else ''refused'')))))"

text \<open>What is known of the revision in flight: \<open>None\<close> when this pump cannot tell (\<^verbatim>\<open>TimeoutError\<close>).\<close>

fun is_timeout :: "err \<Rightarrow> bool" where
  "is_timeout (TimeoutError _) = True"
| "is_timeout _ = False"

definition poll_inflight :: "string \<Rightarrow> string option chunky" where
  "poll_inflight chunk_id =
     try_if is_timeout
       (try_if (\<lambda>e. infra_error e \<and> \<not> is_timeout e)
         (bindst (on_world arm_stream_revision) (\<lambda>status. bindst (fold_outcome chunk_id status) (\<lambda>kind. ret (Some kind))))
         (\<lambda>e. bindst (upd_report (rp_note (chunk_id @ '': revision status unavailable; fate unknown''))) (\<lambda>_.
              bindst (upd_report (mark_unknown chunk_id)) (\<lambda>_. ret (Some ''selected'')))))
       (\<lambda>e. ret None)"

definition settle_inflight :: "bool chunky" where
  "settle_inflight = withst (\<lambda>s. case cc_inflight s of None \<Rightarrow> ret True
     | Some (chunk_id, rid, observed_ns) \<Rightarrow>
         bindst (poll_inflight chunk_id) (\<lambda>k. case k of None \<Rightarrow> ret False
         | Some kind \<Rightarrow>
             if kind \<notin> {''refused'', ''selected'', ''ended''} then ret False
             else
               bindst (whenst (kind = ''selected'') (modst (\<lambda>s. s\<lparr>cc_sent_obs_ns := max (cc_sent_obs_ns s) observed_ns\<rparr>))) (\<lambda>_.
               bindst (modst (\<lambda>s. s\<lparr>cc_inflight := None\<rparr>)) (\<lambda>_.
               bindst (log_event (HSettle observed_ns (kind = ''selected''))) (\<lambda>_. ret True)))))"

definition send_waiting :: "unit chunky" where
  "send_waiting = withst (\<lambda>s. case cc_waiting s of None \<Rightarrow> ret ()
     | Some chunk \<Rightarrow>
         bindst (modst (\<lambda>s. s\<lparr>cc_waiting := None\<rparr>)) (\<lambda>_.
         bindst (chunk_check chunk) (\<lambda>verdict. case verdict of
           None \<Rightarrow> chunk_send chunk
         | Some v \<Rightarrow> drop_chunk chunk v)))"

definition chunk_pump :: "Report chunky" where
  "chunk_pump =
     bindst (withst (\<lambda>s. case cc_session s of None \<Rightarrow> ret ()
       | Some ss \<Rightarrow>
         if ss_closed ss then ret ()
         else
           bindst (try_if infra_error (bindst (on_world arm_stream_state) (\<lambda>v. ret (Some v)))
             (\<lambda>e. bindst (upd_report (rp_note ''stream unreadable'')) (\<lambda>_. ret None))) (\<lambda>v. case v of None \<Rightarrow> ret ()
           | Some view \<Rightarrow>
             bindst (upd_report (\<lambda>r. r\<lparr>rp_selected_revision := sv_selected_revision view\<rparr>)) (\<lambda>_.
             if es_terminal (sv_execution view) then seqs
               [upd_report (rp_note ''stream ended''),
                modst (\<lambda>s. s\<lparr>cc_session := Some (ss\<lparr>ss_closed := True\<rparr>), cc_inflight := None, cc_waiting := None\<rparr>),
                log_event HStop]
             else bindst settle_inflight (\<lambda>go. if go then send_waiting else ret ()))))) (\<lambda>_.
     withst (\<lambda>s. ret (cc_report s)))"

end
