(* ===== verification/Chunk_Proofs.thy ===== *)
theory Chunk_Proofs
  imports Chunk_Client
begin

text \<open>
  What the action-chunk client sends, over whole runs: nothing while a revision is unresolved, nothing after a stop,
  nothing older than what was selected, nothing older than the deadline.
\<close>

section \<open>What a call of the session can raise\<close>

definition raises :: "(err \<Rightarrow> bool) \<Rightarrow> 'a result \<Rightarrow> bool" where
  "raises P r \<longleftrightarrow> (\<forall>e. r = Inl e \<longrightarrow> P e)"

lemma raises_simps [simp]: "raises P (Inr v)" "raises P (Inl e) = P e" "raises P (ensure b e) = (b \<or> P e)"
  by (auto simp: raises_def ensure_def)

lemma raises_mono: "raises P r \<Longrightarrow> (\<And>e. P e \<Longrightarrow> Q e) \<Longrightarrow> raises Q r"
  by (simp add: raises_def)

lemma raises_bindr: "raises P r \<Longrightarrow> (\<And>v. r = Inr v \<Longrightarrow> raises P (f v)) \<Longrightarrow> raises P (bindr r f)"
  by (cases r) (auto simp: raises_def)

lemma raises_if: "(b \<Longrightarrow> raises P r) \<Longrightarrow> (\<not> b \<Longrightarrow> raises P q) \<Longrightarrow> raises P (if b then r else q)"
  by simp

lemma raises_option: "raises P r \<Longrightarrow> (\<And>v. raises P (f v)) \<Longrightarrow> raises P (case x of None \<Rightarrow> r | Some v \<Rightarrow> f v)"
  by (cases x) auto

lemmas raises_rules = raises_bindr raises_if raises_option

lemma mk_JointTrajectory_raises: "raises is_value_error (mk_JointTrajectory ts ps vs)"
  unfolding mk_JointTrajectory_def by (simp split: option.split)

lemma mk_TrajectoryRequest_raises: "raises is_value_error (mk_TrajectoryRequest r)"
  unfolding mk_TrajectoryRequest_def check_identifier_def Let_def by (intro raises_rules) (simp_all add: raises_def)

lemma stream_curve_raises: "raises is_value_error (stream_curve c)"
  unfolding stream_curve_def by (intro raises_rules mk_JointTrajectory_raises) simp_all

lemma mk_StreamRevision_raises: "raises is_value_error (mk_StreamRevision r)"
  unfolding mk_StreamRevision_def stream_text_def stream_sequence_def
  by (intro raises_rules mk_TrajectoryRequest_raises stream_curve_raises) simp_all

lemma mk_StreamOpen_raises: "raises is_value_error (mk_StreamOpen r)"
  unfolding mk_StreamOpen_def stream_text_def stream_sequence_def so_as_request_def Let_def
  by (intro raises_rules mk_TrajectoryRequest_raises stream_curve_raises) simp_all

lemma mk_SpliceAnchor_raises: "raises is_value_error (mk_SpliceAnchor a)"
  unfolding mk_SpliceAnchor_def stream_text_def stream_sequence_def by (intro raises_rules) simp_all

lemma mk_Stamp_raises: "raises is_value_error (mk_Stamp ns c d)"
  by (simp add: mk_Stamp_def)

section \<open>The supervisor's answers\<close>

text \<open>
  The SDK answers, or raises one of its own errors (\<open>sdk_errors\<close>); an action under this condition keeps it, and what it
  raises satisfies \<open>P\<close>.
\<close>

definition sdk_errors :: "client_world \<Rightarrow> bool" where
  "sdk_errors w \<longleftrightarrow> (\<forall>n. raises infra_error (cw_now w n) \<and> raises infra_error (cw_q w n) \<and> raises infra_error (cw_view w n) \<and>
     raises infra_error (cw_anchor w n) \<and> raises infra_error (cw_revision w n) \<and> raises infra_error (cw_cancel w n) \<and>
     raises infra_error (cw_preset w n))"

definition client_error :: "err \<Rightarrow> bool" where
  "client_error e \<longleftrightarrow> infra_error e \<or> is_value_error e"

definition errs :: "(err \<Rightarrow> bool) \<Rightarrow> 'a asks \<Rightarrow> bool" where
  "errs P m \<longleftrightarrow> (\<forall>w. sdk_errors w \<longrightarrow> raises P (fst (m w)) \<and> sdk_errors (snd (m w)))"

lemma errs_ret: "errs P (ret v)"
  by (simp add: errs_def ret_def)

lemma errs_lift: "raises P r \<Longrightarrow> errs P (lift r)"
  by (simp add: errs_def lift_def)

lemma errs_bindst: "errs P m \<Longrightarrow> (\<And>v. errs P (f v)) \<Longrightarrow> errs P (bindst m f)"
  by (fastforce simp: errs_def bindst_def raises_def split: prod.splits sum.splits)

lemma errs_if: "(b \<Longrightarrow> errs P m) \<Longrightarrow> (\<not> b \<Longrightarrow> errs P n) \<Longrightarrow> errs P (if b then m else n)"
  by simp

lemma errs_option: "errs P m \<Longrightarrow> (\<And>v. errs P (f v)) \<Longrightarrow> errs P (case x of None \<Rightarrow> m | Some v \<Rightarrow> f v)"
  by (cases x) auto

lemma errs_mono: "errs P m \<Longrightarrow> (\<And>e. P e \<Longrightarrow> Q e) \<Longrightarrow> errs Q m"
  by (fastforce simp: errs_def raises_def)

lemma errs_try_if: "errs P m \<Longrightarrow> (\<And>e. b e \<Longrightarrow> errs Q (h e)) \<Longrightarrow> (\<And>e. P e \<Longrightarrow> \<not> b e \<Longrightarrow> Q e) \<Longrightarrow> errs Q (try_if b m h)"
  by (fastforce simp: errs_def try_if_def raises_def split: prod.splits sum.splits)

lemma errs_ask: "(\<And>w n. sdk_errors w \<Longrightarrow> raises P (f w n)) \<Longrightarrow> errs P (ask_arm f)"
  by (simp add: errs_def ask_arm_def sdk_errors_def)

lemma errs_counters: "errs P next_open_seq" "errs P next_proposal_seq" "errs P (request_id p)" "errs P (io e)"
  by (simp_all add: errs_def next_open_seq_def next_proposal_seq_def request_id_def io_def bindst_def run_simps sdk_errors_def)

lemma dec_raises: "raises client_error r \<Longrightarrow> raises infra_error (dec r)"
  unfolding dec_def raises_def client_error_def by (auto split: sum.splits err.splits)

lemma dec_infra: "raises infra_error r \<Longrightarrow> raises infra_error (dec r)"
  by (rule dec_raises) (auto elim: raises_mono simp: client_error_def)

lemma dec_built: "raises infra_error r \<Longrightarrow> (\<And>v. raises is_value_error (f v)) \<Longrightarrow> raises infra_error (dec (bindr r f))"
  by (rule dec_raises, rule raises_bindr) (rule raises_mono, assumption, simp add: client_error_def, rule raises_mono, blast, simp add: client_error_def)

lemma errs_arm:
  "errs infra_error arm_stream_state" "errs infra_error arm_stream_anchor" "errs infra_error (arm_revise_stream r)"
  "errs infra_error arm_stream_revision" "errs infra_error arm_now" "errs infra_error arm_preset_id" "errs infra_error arm_state_q"
  "errs infra_error (arm_open_stream op)" "errs infra_error (arm_cancel i m)"
  unfolding arm_stream_state_def arm_stream_anchor_def arm_revise_stream_def arm_stream_revision_def arm_now_def arm_preset_id_def
    arm_state_q_def arm_open_stream_def arm_cancel_def
  by (intro errs_bindst errs_counters errs_ask dec_built dec_infra mk_SpliceAnchor_raises mk_Stamp_raises; simp add: sdk_errors_def)+

lemma errs_arm_client:
  "errs client_error arm_stream_anchor" "errs client_error (arm_revise_stream r)"
  by (rule errs_mono [OF errs_arm(2)] errs_mono [OF errs_arm(3)], simp add: client_error_def)+

lemma errs_revise: "errs client_error (revise ss ctx rid knots dt term)"
  unfolding revise_def Let_def
  by (intro errs_if errs_bindst errs_arm_client errs_counters errs_lift
      raises_mono [OF mk_JointTrajectory_raises] raises_mono [OF mk_StreamRevision_raises]) (simp_all add: client_error_def)

lemma errs_close: "errs (\<lambda>_. False) (session_close ss reason)"
  unfolding session_close_def
  by (intro errs_if errs_ret errs_try_if [where P = infra_error] errs_bindst errs_arm) simp_all

lemma errs_session: "errs (\<lambda>_. True) (mk_StreamSession ctx hold)"
  unfolding mk_StreamSession_def
  by (intro errs_if errs_option errs_bindst errs_ret errs_lift errs_counters errs_mono [OF errs_arm(7)] errs_mono [OF errs_arm(8)])
    (simp_all add: raises_def)

section \<open>Orderly histories\<close>

fun streaming :: "chunk_event list \<Rightarrow> nat option" where
  "streaming [] = None"
| "streaming (HOpen g # h) = Some g"
| "streaming (HStop # h) = None"
| "streaming (_ # h) = streaming h"

fun unsettled :: "chunk_event list \<Rightarrow> bool" where
  "unsettled [] = False"
| "unsettled (HNow _ # h) = unsettled h"
| "unsettled (HSend _ # h) = True"
| "unsettled (_ # h) = False"

fun newest_selected :: "chunk_event list \<Rightarrow> int" where
  "newest_selected [] = -1"
| "newest_selected (HOpen _ # h) = -1"
| "newest_selected (HSettle ns True # h) = max (newest_selected h) ns"
| "newest_selected (_ # h) = newest_selected h"

text \<open>The newest event is a reading of the clock the chunk was observed on, and the chunk is within its deadline there.\<close>

definition fresh :: "fl \<Rightarrow> Chunk \<Rightarrow> chunk_event list \<Rightarrow> bool" where
  "fresh max_age c h \<longleftrightarrow> (case h of HNow now # _ \<Rightarrow>
      st_clock now = st_clock (ck_observed_at c) \<and> st_domain now = st_domain (ck_observed_at c) \<and>
      \<not> max_age < Fin (of_int (st_ns now - st_ns (ck_observed_at c)) / 10 ^ 9) | _ \<Rightarrow> False)"

definition may_send :: "fl \<Rightarrow> string list \<Rightarrow> Chunk \<Rightarrow> chunk_event list \<Rightarrow> bool" where
  "may_send max_age joints c h \<longleftrightarrow> streaming h = Some (ck_generation c) \<and> \<not> unsettled h \<and>
     newest_selected h \<le> st_ns (ck_observed_at c) \<and> fresh max_age c h \<and> ck_joints c = joints"

fun orderly :: "fl \<Rightarrow> string list \<Rightarrow> chunk_event list \<Rightarrow> bool" where
  "orderly max_age joints [] = True"
| "orderly max_age joints (HSend c # h) = (may_send max_age joints c h \<and> orderly max_age joints h)"
| "orderly max_age joints (_ # h) = orderly max_age joints h"

definition open_stream :: "ActionChunkClient \<Rightarrow> bool" where
  "open_stream s \<longleftrightarrow> \<not> cc_cancel_pending s \<and> (\<exists>ss. cc_session s = Some ss \<and> \<not> ss_closed ss)"

text \<open>The invariant of the client.\<close>

definition tidy :: "ActionChunkClient \<Rightarrow> bool" where
  "tidy s \<longleftrightarrow> sdk_errors (cc_w s) \<and> orderly (cc_max_age_s s) (sx_joints (cc_ctx s)) (cc_hist s) \<and>
     (open_stream s \<longrightarrow> streaming (cc_hist s) = Some (cc_generation s) \<and> newest_selected (cc_hist s) = cc_sent_obs_ns s \<and>
        (unsettled (cc_hist s) \<longrightarrow> cc_inflight s \<noteq> None))"

definition sendable :: "Chunk \<Rightarrow> ActionChunkClient \<Rightarrow> bool" where
  "sendable c s \<longleftrightarrow> tidy s \<and> open_stream s \<and> ck_generation c = cc_generation s \<and> ck_joints c = sx_joints (cc_ctx s) \<and>
     fresh (cc_max_age_s s) c (cc_hist s) \<and> cc_sent_obs_ns s \<le> st_ns (ck_observed_at c)"

abbreviation kept :: "'a chunky \<Rightarrow> bool" where
  "kept m \<equiv> triple tidy m (\<lambda>_. tidy) tidy"

lemma tidy_world: "tidy s \<Longrightarrow> sdk_errors w \<Longrightarrow> tidy (s\<lparr>cc_w := w\<rparr>)"
  by (simp add: tidy_def open_stream_def)

lemma triple_on_world:
  assumes "errs P m" "\<And>s w. I s \<Longrightarrow> sdk_errors w \<Longrightarrow> I (s\<lparr>cc_w := w\<rparr>)" "\<And>s. I s \<Longrightarrow> sdk_errors (cc_w s)"
  shows "triple I (on_world m) (\<lambda>_. I) I"
  unfolding triple_def on_world_def using assms(2,3) assms(1) [unfolded errs_def]
  by (auto split: prod.splits sum.splits) (metis snd_conv)+

lemma kept_on_world: "errs P m \<Longrightarrow> kept (on_world m)"
  by (rule triple_on_world) (auto simp: tidy_world, simp add: tidy_def)

lemma kept_report: "kept (upd_report f)"
  by (simp add: upd_report_def triple_def modst_def tidy_def open_stream_def)

lemma triple_on_world_err:
  assumes "errs P m" "\<And>s w. I s \<Longrightarrow> sdk_errors w \<Longrightarrow> I (s\<lparr>cc_w := w\<rparr>)" "\<And>s. I s \<Longrightarrow> sdk_errors (cc_w s)"
  shows "triple I (on_world m) (\<lambda>_. I) (\<lambda>s. I s \<and> (\<exists>e. P e))"
  unfolding triple_def on_world_def using assms(2,3) assms(1) [unfolded errs_def raises_def]
  by (auto split: prod.splits sum.splits) (metis fst_conv snd_conv)+

lemma kept_ret: "kept (ret v)"
  by (rule triple_ret)

lemma kept_lift: "kept (lift r)"
  by (rule triple_lift)

lemma kept_bindst: "kept m \<Longrightarrow> (\<And>a. kept (f a)) \<Longrightarrow> kept (bindst m f)"
  by (rule triple_bindst)

lemma kept_withst: "(\<And>s. kept (f s)) \<Longrightarrow> kept (withst f)"
  by (simp add: triple_def withst_def)

lemma kept_try_if: "kept m \<Longrightarrow> (\<And>e. kept (h e)) \<Longrightarrow> kept (try_if P m h)"
  by (rule triple_try_if)

lemma kept_if: "(b \<Longrightarrow> kept m) \<Longrightarrow> (\<not> b \<Longrightarrow> kept n) \<Longrightarrow> kept (if b then m else n)"
  by simp

lemmas kept_rules = kept_ret kept_lift kept_bindst kept_withst kept_try_if kept_if kept_report

lemma kept_check_profile: "kept check_profile"
  unfolding check_profile_def Let_def by (intro kept_rules kept_on_world [OF errs_arm(6)])

section \<open>Cancelling and opening\<close>

definition stopping :: "ActionChunkClient \<Rightarrow> bool" where
  "stopping s \<longleftrightarrow> sdk_errors (cc_w s) \<and> orderly (cc_max_age_s s) (sx_joints (cc_ctx s)) (cc_hist s)"

definition idle :: "ActionChunkClient \<Rightarrow> bool" where
  "idle s \<longleftrightarrow> stopping s \<and> \<not> open_stream s"

lemma idle_tidy: "idle s \<Longrightarrow> tidy s"
  by (simp add: idle_def stopping_def tidy_def)

lemma tidy_stopping: "tidy s \<Longrightarrow> stopping s"
  by (simp add: stopping_def tidy_def)

lemma cancel_idle: "triple tidy (chunk_cancel reason) (\<lambda>_. idle) (\<lambda>_. False)"
proof -
  have close: "triple stopping (on_world (session_close ss reason)) (\<lambda>_. stopping) (\<lambda>_. False)" for ss
    by (rule triple_conseq [OF triple_on_world_err [OF errs_close, of stopping]]) (simp_all add: stopping_def)
  have "triple stopping (case ss of
       None \<Rightarrow> bindst (modst (\<lambda>s. s\<lparr>cc_session := None, cc_cancel_pending := False\<rparr>)) (\<lambda>_. ret True)
     | Some ss \<Rightarrow>
         bindst (on_world (session_close ss reason)) (\<lambda>(ok, ss').
         bindst (modst (\<lambda>s. s\<lparr>cc_session := Some ss'\<rparr>)) (\<lambda>_.
         if \<not> ok then
           bindst (modst (\<lambda>s. s\<lparr>cc_cancel_pending := True\<rparr>)) (\<lambda>_.
           bindst (upd_report (rp_note ''CANCEL NOT CONFIRMED; retry cancel()'')) (\<lambda>_. ret False))
         else bindst (modst (\<lambda>s. s\<lparr>cc_session := None, cc_cancel_pending := False\<rparr>)) (\<lambda>_. ret True)))) (\<lambda>_. idle) (\<lambda>_. False)" for ss
  proof (cases ss)
    case None
    then show ?thesis by (simp add: triple_def bindst_def modst_def ret_def idle_def stopping_def open_stream_def)
  next
    case (Some ss')
    show ?thesis unfolding Some option.case
      by (rule triple_bindst [OF close])
        (auto simp: triple_def bindst_def modst_def ret_def idle_def stopping_def open_stream_def upd_report_def split: prod.split)
  qed
  then have rest: "triple stopping (withst (\<lambda>s. case cc_session s of
       None \<Rightarrow> bindst (modst (\<lambda>s. s\<lparr>cc_session := None, cc_cancel_pending := False\<rparr>)) (\<lambda>_. ret True)
     | Some ss \<Rightarrow>
         bindst (on_world (session_close ss reason)) (\<lambda>(ok, ss').
         bindst (modst (\<lambda>s. s\<lparr>cc_session := Some ss'\<rparr>)) (\<lambda>_.
         if \<not> ok then
           bindst (modst (\<lambda>s. s\<lparr>cc_cancel_pending := True\<rparr>)) (\<lambda>_.
           bindst (upd_report (rp_note ''CANCEL NOT CONFIRMED; retry cancel()'')) (\<lambda>_. ret False))
         else bindst (modst (\<lambda>s. s\<lparr>cc_session := None, cc_cancel_pending := False\<rparr>)) (\<lambda>_. ret True))))) (\<lambda>_. idle) (\<lambda>_. False)"
    by (simp add: triple_def withst_def)
  show ?thesis
    unfolding chunk_cancel_def
    by (rule triple_bindst [where Q = "\<lambda>_. stopping"], rule triple_modst, simp add: tidy_def stopping_def)
      (rule triple_bindst [where Q = "\<lambda>_. stopping", OF _ rest], simp add: log_event_def triple_def modst_def stopping_def)
qed

lemma kept_cancel: "kept (chunk_cancel reason)"
  by (rule triple_conseq [OF cancel_idle]) (auto simp: idle_tidy)

lemma kept_start: "kept chunk_start"
proof -
  define I where "I g s \<longleftrightarrow> idle s \<and> cc_generation s = g" for g s
  have open_session: "triple (I g) (on_world (mk_StreamSession ctx hold)) (\<lambda>_. I g) (I g)" for g ctx hold
    by (rule triple_on_world [OF errs_session]) (auto simp: I_def idle_def stopping_def open_stream_def)
  have fin: "triple (I g) (bindst (modst (\<lambda>s. s\<lparr>cc_session := Some ss, cc_report := (cc_report s)\<lparr>rp_profile_at_start := profile\<rparr>,
           cc_inflight := None, cc_waiting := None, cc_sent_obs_ns := -1\<rparr>)) (\<lambda>_.
       bindst (log_event (HOpen g)) (\<lambda>_. ret g))) (\<lambda>_. tidy) tidy" for g ss profile
    by (simp add: triple_def bindst_def modst_def ret_def log_event_def I_def idle_def stopping_def tidy_def)
  have opened: "triple idle (withst (\<lambda>s. bindst (on_world (mk_StreamSession (cc_ctx s) (cc_hold_s s))) (\<lambda>ss.
       bindst (modst (\<lambda>s. s\<lparr>cc_session := Some ss, cc_report := (cc_report s)\<lparr>rp_profile_at_start := profile\<rparr>,
           cc_inflight := None, cc_waiting := None, cc_sent_obs_ns := -1\<rparr>)) (\<lambda>_.
       bindst (log_event (HOpen (cc_generation s))) (\<lambda>_. ret (cc_generation s)))))) (\<lambda>_. tidy) tidy" for profile
  proof (rule triple_withst)
    fix s
    assume "idle s"
    then have "triple (\<lambda>t. t = s) (on_world (mk_StreamSession (cc_ctx s) (cc_hold_s s))) (\<lambda>_. I (cc_generation s)) tidy"
      by (intro triple_conseq [OF open_session [of "cc_generation s"]]) (auto simp: I_def idle_tidy)
    then show "triple (\<lambda>t. t = s) (bindst (on_world (mk_StreamSession (cc_ctx s) (cc_hold_s s))) (\<lambda>ss.
       bindst (modst (\<lambda>s. s\<lparr>cc_session := Some ss, cc_report := (cc_report s)\<lparr>rp_profile_at_start := profile\<rparr>,
           cc_inflight := None, cc_waiting := None, cc_sent_obs_ns := -1\<rparr>)) (\<lambda>_.
       bindst (log_event (HOpen (cc_generation s))) (\<lambda>_. ret (cc_generation s))))) (\<lambda>_. tidy) tidy"
      using fin by (rule triple_bindst)
  qed
  show ?thesis
    unfolding chunk_start_def
    by (rule kept_bindst [OF kept_check_profile], rule triple_bindst [where Q = "\<lambda>_. idle"], rule triple_conseq [OF cancel_idle])
      (auto intro!: triple_lift triple_bindst [where Q = "\<lambda>_. idle", OF _ opened] triple_modst idle_tidy
        simp: idle_def stopping_def open_stream_def)
qed

section \<open>Checking and sending\<close>

lemma tidy_now: "tidy s \<Longrightarrow> tidy (s\<lparr>cc_hist := HNow now # cc_hist s\<rparr>)"
  by (simp add: tidy_def open_stream_def)

text \<open>What the checks before the clock is read establish.\<close>

definition eligible :: "Chunk \<Rightarrow> ActionChunkClient \<Rightarrow> bool" where
  "eligible c s \<longleftrightarrow> tidy s \<and> open_stream s \<and> ck_generation c = cc_generation s \<and> ck_joints c = sx_joints (cc_ctx s)"

lemma eligible_world: "eligible c s \<Longrightarrow> sdk_errors w \<Longrightarrow> eligible c (s\<lparr>cc_w := w\<rparr>)"
  by (simp add: eligible_def open_stream_def tidy_world)

lemma check_age_sendable: "triple (eligible c) (check_age c) (\<lambda>v s. tidy s \<and> (v = None \<longrightarrow> sendable c s)) tidy"
proof -
  have now: "triple (eligible c) (on_world arm_now) (\<lambda>_. eligible c) (eligible c)"
    by (rule triple_on_world [OF errs_arm(5)]) (auto simp: eligible_world, simp add: eligible_def tidy_def)
  have aged: "triple (eligible c) (bindst (log_event (HNow now)) (\<lambda>_. withst (\<lambda>s.
          if (st_clock now, st_domain now) \<noteq> (st_clock (ck_observed_at c), st_domain (ck_observed_at c))
            then ret (Some (''refused'', ''observation stamp is not on the supervisor clock''))
          else
            let age = Fin (of_int (st_ns now - st_ns (ck_observed_at c)) / 10 ^ 9);
                newest = max (cc_sent_obs_ns s) (case cc_inflight s of Some (_, _, ns) \<Rightarrow> ns | None \<Rightarrow> -1) in
            if cc_max_age_s s < age then ret (Some (''late'', ''observation too old''))
            else if st_ns (ck_observed_at c) < newest then ret (Some (''late'', ''older than the observation of what was already sent''))
            else ret None))) (\<lambda>v s. tidy s \<and> (v = None \<longrightarrow> sendable c s)) tidy" for now
    by (auto simp: triple_def bindst_def log_event_def modst_def withst_def ret_def Let_def eligible_def sendable_def tidy_now fresh_def
        open_stream_def)
  have now': "triple (eligible c) (on_world arm_now) (\<lambda>_. eligible c) tidy"
    by (rule triple_conseq [OF now]) (auto simp: eligible_def)
  show ?thesis
    unfolding check_age_def by (rule triple_try_if [OF triple_bindst [OF now' aged]]) (auto intro: triple_ret)
qed

lemma check_sendable: "triple tidy (chunk_check c) (\<lambda>v s. tidy s \<and> (v = None \<longrightarrow> sendable c s)) tidy"
proof (unfold chunk_check_def, rule triple_withst)
  fix s
  assume t: "tidy s"
  have dropped: "triple (\<lambda>t. t = s) (ret (Some v)) (\<lambda>v s. tidy s \<and> (v = None \<longrightarrow> sendable c s)) tidy" for v
    using t by (intro triple_ret) simp
  have age: "triple (\<lambda>t. t = s) (check_age c) (\<lambda>v s. tidy s \<and> (v = None \<longrightarrow> sendable c s)) tidy" if "eligible c s"
    using that by (intro triple_conseq [OF check_age_sendable]) auto
  have long: "triple (\<lambda>t. t = s) (case x of None \<Rightarrow> ret False
       | Some h \<Rightarrow> bindst (lift r) (\<lambda>k. ret (b h k))) (\<lambda>_ t. t = s) tidy" for x and r :: "'x result" and b
    using t by (cases x; cases r) (auto simp: triple_def bindst_def lift_def ret_def)
  have body: "triple (\<lambda>t. t = s) (if long then ret (Some (''refused'', ''chunk horizon exceeds the declared one''))
     else case chunk_knots s c of
       Inl e \<Rightarrow> if is_value_error e then ret (Some (''refused'', err_text e)) else lift (Inl e)
     | Inr _ \<Rightarrow> check_age c) (\<lambda>v s. tidy s \<and> (v = None \<longrightarrow> sendable c s)) tidy" if "eligible c s" for long
    using that t dropped age by (cases "chunk_knots s c") (auto intro!: triple_lift)
  have el: "eligible c s" if "\<not> cc_cancel_pending s" "\<not> (case cc_session s of None \<Rightarrow> True | Some ss \<Rightarrow> ss_closed ss)"
      "ck_generation c = cc_generation s" "ck_joints c = sx_joints (cc_ctx s)"
    using that t by (auto simp: eligible_def open_stream_def split: option.splits)
  show "triple (\<lambda>t. t = s) (if cc_cancel_pending s then ret (Some (''late'', ''a cancel is outstanding (not confirmed): the stream is being stopped''))
     else if (case cc_session s of None \<Rightarrow> True | Some ss \<Rightarrow> ss_closed ss)
       then ret (Some (''late'', ''no open session (a late response does not restart one)''))
     else if ck_generation c \<noteq> cc_generation s then ret (Some (''late'', ''requested before the last start/cancel''))
     else if ck_joints c \<noteq> sx_joints (cc_ctx s)
       then ret (Some (''refused'', ''joint names or order differ from the stream context''))
     else if \<not> (isfinite (ck_dt_s c) \<and> 0 < ck_dt_s c)
       then ret (Some (''refused'', ''dt_s must be a positive finite number''))
     else if ck_units c \<noteq> (case cc_spec s of None \<Rightarrow> ''rad'' | Some sp \<Rightarrow> as_units sp)
       then ret (Some (''refused'', ''this run declared other units''))
     else bindst (case Option.bind (cc_spec s) as_horizon_s of None \<Rightarrow> ret False
       | Some h \<Rightarrow> bindst (lift (arr_len (ck_values c))) (\<lambda>k.
           ret (h + Fin (1 / 10 ^ 9) < Fin (real k) * ck_dt_s c))) (\<lambda>long.
     if long then ret (Some (''refused'', ''chunk horizon exceeds the declared one''))
     else case chunk_knots s c of
       Inl e \<Rightarrow> if is_value_error e then ret (Some (''refused'', err_text e)) else lift (Inl e)
     | Inr _ \<Rightarrow> check_age c)) (\<lambda>v s. tidy s \<and> (v = None \<longrightarrow> sendable c s)) tidy"
    using el by (simp only: dropped triple_bindst [OF long body] split: if_split) (simp add: dropped triple_bindst [OF long body])
qed

text \<open>As \<open>tidy\<close>, with an open stream and without the clause on what is in flight.\<close>

definition loose :: "ActionChunkClient \<Rightarrow> bool" where
  "loose s \<longleftrightarrow> stopping s \<and> open_stream s \<and> streaming (cc_hist s) = Some (cc_generation s) \<and> newest_selected (cc_hist s) = cc_sent_obs_ns s"

lemma loose_world: "loose s \<Longrightarrow> sdk_errors w \<Longrightarrow> loose (s\<lparr>cc_w := w\<rparr>)"
  by (simp add: loose_def stopping_def open_stream_def)

lemma loose_report: "loose (s\<lparr>cc_report := r\<rparr>) = loose s"
  by (simp add: loose_def stopping_def open_stream_def)

lemma sendable_loose: "sendable c s \<Longrightarrow> loose s"
  by (simp add: sendable_def loose_def tidy_def stopping_def)

lemma sent_loose: "sendable c s \<Longrightarrow> cc_inflight s = None \<Longrightarrow> loose (s\<lparr>cc_hist := HSend c # cc_hist s\<rparr>)"
  by (auto simp: sendable_def loose_def tidy_def stopping_def open_stream_def may_send_def)

lemma chunk_knots_raises: "raises is_value_error (chunk_knots s c)"
proof -
  have "raises is_value_error (as_2d a)" for a by (cases a) (simp_all add: as_2d_def)
  moreover have "raises is_value_error (to_radians sp v m)" for sp v m
    unfolding to_radians_def Let_def by (intro raises_rules) simp_all
  ultimately show ?thesis
    unfolding chunk_knots_def Let_def by (intro raises_rules) (simp_all split: arr.split add: raises_bindr)
qed

lemma attempt_ends:
  assumes "sendable c s" "cc_inflight s = None"
  shows "\<exists>r t. attempt rid c s = (Inr r, t) \<and> loose t"
proof (cases "chunk_knots s c")
  case (Inl e)
  then have "is_value_error e" using chunk_knots_raises [of s c] by simp
  then have "\<not> infra_error e" "refusal_error e" by (cases e; simp)+
  with Inl have "attempt rid c s = (Inr (Declined e), s)"
    by (simp add: attempt_def withst_def try_if_def bindst_def lift_def ret_def)
  with sendable_loose [OF assms(1)] show ?thesis by auto
next
  case (Inr knots)
  from assms(1) obtain ss where ss: "cc_session s = Some ss" by (auto simp: sendable_def open_stream_def)
  define s1 where "s1 = s\<lparr>cc_hist := HSend c # cc_hist s\<rparr>"
  have l1: "loose s1" unfolding s1_def by (rule sent_loose [OF assms])
  obtain r w where rw: "revise ss (cc_ctx s) rid knots (ck_dt_s c) False (cc_w s) = (r, w)" by (meson surj_pair)
  have "sdk_errors (cc_w s)" using assms(1) by (simp add: sendable_def tidy_def)
  with errs_revise [of ss "cc_ctx s" rid knots "ck_dt_s c" False] rw have r: "raises client_error r" and w: "sdk_errors w"
    by (auto simp: errs_def)
  have l2: "loose (s1\<lparr>cc_w := w\<rparr>)" using l1 w by (rule loose_world)
  have inner: "bindst (lift (chunk_knots s c)) (\<lambda>knots. case cc_session s of
            None \<Rightarrow> lift (Inl AttributeError)
          | Some ss \<Rightarrow> bindst (log_event (HSend c)) (\<lambda>_.
              bindst (on_world (revise ss (cc_ctx s) rid knots (ck_dt_s c) False)) (\<lambda>status. ret (Answered status)))) s =
      (case r of Inl e \<Rightarrow> (Inl e, s1\<lparr>cc_w := w\<rparr>) | Inr st \<Rightarrow> (Inr (Answered st), s1\<lparr>cc_w := w\<rparr>))"
    using Inr ss rw by (simp add: bindst_def lift_def log_event_def modst_def on_world_def ret_def s1_def split: sum.split)
  have "\<exists>q. attempt rid c s = (Inr q, s1\<lparr>cc_w := w\<rparr>)"
  proof (cases r)
    case (Inl e)
    then have "infra_error e \<or> is_value_error e" using r by (simp add: client_error_def)
    moreover have "refusal_error e" if "is_value_error e" using that by (cases e) simp_all
    ultimately show ?thesis
      using inner Inl by (auto simp: attempt_def withst_def try_if_def lift_def ret_def)
  next
    case (Inr st)
    then show ?thesis using inner by (simp add: attempt_def withst_def try_if_def)
  qed
  with l2 show ?thesis by blast
qed

lemma loose_settled: "loose s \<Longrightarrow> tidy (s\<lparr>cc_report := r, cc_hist := HSettle ns False # cc_hist s\<rparr>)"
  by (simp add: loose_def tidy_def stopping_def open_stream_def)

lemma loose_in_flight: "loose s \<Longrightarrow> tidy (s\<lparr>cc_inflight := Some x\<rparr>)"
  by (simp add: loose_def tidy_def stopping_def open_stream_def)

lemma send_tidy: "triple (\<lambda>s. sendable c s \<and> cc_inflight s = None) (chunk_send c) (\<lambda>_. tidy) tidy"
proof -
  have rid: "triple (\<lambda>s. sendable c s \<and> cc_inflight s = None) (on_world (request_id p)) (\<lambda>_ s. sendable c s \<and> cc_inflight s = None) (\<lambda>_. False)" for p
    by (rule triple_conseq [OF triple_on_world_err [OF errs_counters(3) [of "\<lambda>_. False"]]])
      (auto simp: sendable_def tidy_def open_stream_def)
  have att: "triple (\<lambda>s. sendable c s \<and> cc_inflight s = None) (attempt rid c) (\<lambda>_. loose) (\<lambda>_. False)" for rid
    unfolding triple_def by (auto dest!: attempt_ends [where rid = rid])
  have fin: "triple loose (case r of
       Declined e \<Rightarrow> seqs
         [upd_report (\<lambda>r. r\<lparr>rp_refused := rp_refused r @ [(ck_chunk_id c, err_text e)]\<rparr>),
          log_event (HSettle (st_ns (ck_observed_at c)) False)]
     | NoReply e \<Rightarrow> seqs
         [upd_report (\<lambda>r. mark_unknown (ck_chunk_id c) (r\<lparr>rp_requested := rp_requested r @ [ck_chunk_id c]\<rparr>)),
          upd_report (rp_note (ck_chunk_id c @ '': no reply to the revision; fate unknown'')),
          in_flight c rid]
     | Answered status \<Rightarrow>
         bindst (upd_report (\<lambda>r. r\<lparr>rp_requested := rp_requested r @ [ck_chunk_id c]\<rparr>)) (\<lambda>_.
         bindst (fold_outcome (ck_chunk_id c) status) (\<lambda>kind.
         if kind = ''refused'' then log_event (HSettle (st_ns (ck_observed_at c)) False) else in_flight c rid))) (\<lambda>_. tidy) (\<lambda>_. False)" for r rid
    by (cases r) (auto simp: triple_def bindst_def upd_report_def modst_def ret_def log_event_def in_flight_def fold_outcome_def withst_def
        loose_report loose_settled loose_in_flight split: prod.split)
  show ?thesis
    unfolding chunk_send_def
    by (rule triple_conseq [OF triple_bindst [OF rid triple_bindst [OF att fin]]]) auto
qed

section \<open>Whole runs\<close>

lemma kept_drop: "kept (drop_chunk c v)"
  unfolding drop_chunk_def by (rule kept_report)

lemma kept_submit: "kept (chunk_submit c)"
proof -
  have queue: "kept (bindst (case w of None \<Rightarrow> ret ()
             | Some old \<Rightarrow> upd_report (\<lambda>r. r\<lparr>rp_replaced := rp_replaced r @ [ck_chunk_id old]\<rparr>)) (\<lambda>_.
           bindst (modst (\<lambda>s. s\<lparr>cc_waiting := Some c\<rparr>)) (\<lambda>_. ret ''waiting'')))" for w
    by (cases w; simp; intro kept_rules triple_modst) (simp_all add: tidy_def open_stream_def)
  have sent: "triple (\<lambda>s. sendable c s \<and> cc_inflight s = None)
      (bindst (chunk_send c) (\<lambda>_. withst (\<lambda>s. ret (if cc_inflight s \<noteq> None then ''sent'' else ''refused'')))) (\<lambda>_. tidy) tidy"
    by (rule triple_bindst [OF send_tidy]) (intro kept_rules)
  have "triple (sendable c) (withst (\<lambda>s.
         if cc_inflight s \<noteq> None then
           bindst (case cc_waiting s of None \<Rightarrow> ret ()
             | Some old \<Rightarrow> upd_report (\<lambda>r. r\<lparr>rp_replaced := rp_replaced r @ [ck_chunk_id old]\<rparr>)) (\<lambda>_.
           bindst (modst (\<lambda>s. s\<lparr>cc_waiting := Some c\<rparr>)) (\<lambda>_. ret ''waiting''))
         else bindst (chunk_send c) (\<lambda>_. withst (\<lambda>s. ret (if cc_inflight s \<noteq> None then ''sent'' else ''refused''))))) (\<lambda>_. tidy) tidy"
  proof (rule triple_withst, goal_cases)
    case (1 s)
    then have "tidy s" by (simp add: sendable_def)
    show ?case
    proof (cases "cc_inflight s = None")
      case True
      with 1 show ?thesis by (simp del: not_None_eq) (rule triple_conseq [OF sent], simp_all)
    next
      case False
      with \<open>tidy s\<close> show ?thesis by (simp del: not_None_eq) (rule triple_conseq [OF queue], simp_all)
    qed
  qed
  then have "triple (\<lambda>s. tidy s \<and> (v = None \<longrightarrow> sendable c s)) (case v of
       Some v \<Rightarrow> bindst (drop_chunk c v) (\<lambda>_. ret (fst v))
     | None \<Rightarrow> withst (\<lambda>s.
         if cc_inflight s \<noteq> None then
           bindst (case cc_waiting s of None \<Rightarrow> ret ()
             | Some old \<Rightarrow> upd_report (\<lambda>r. r\<lparr>rp_replaced := rp_replaced r @ [ck_chunk_id old]\<rparr>)) (\<lambda>_.
           bindst (modst (\<lambda>s. s\<lparr>cc_waiting := Some c\<rparr>)) (\<lambda>_. ret ''waiting''))
         else bindst (chunk_send c) (\<lambda>_. withst (\<lambda>s. ret (if cc_inflight s \<noteq> None then ''sent'' else ''refused''))))) (\<lambda>_. tidy) tidy" for v
    using kept_bindst [OF kept_drop kept_ret] by (cases v) (auto elim: triple_conseq)
  then show ?thesis unfolding chunk_submit_def by (rule triple_bindst [OF check_sendable])
qed

lemma kept_poll: "kept (poll_inflight i)"
  unfolding poll_inflight_def fold_outcome_def
  by (intro kept_rules kept_on_world [OF errs_arm(4)]) (simp split: prod.split, intro allI impI kept_rules)

text \<open>A check leaves alone what is in flight.\<close>

definition same_flight :: "ActionChunkClient \<Rightarrow> ActionChunkClient \<Rightarrow> bool" where
  "same_flight s t \<longleftrightarrow> cc_inflight t = cc_inflight s"

interpretation flight: guarantee same_flight
  by unfold_locales (simp_all add: same_flight_def)

lemma flight_world: "guar same_flight (on_world m)"
  by (simp add: guar_def on_world_def same_flight_def split: prod.split)

lemma flight_log: "guar same_flight (log_event e)"
  unfolding log_event_def by (rule flight.g_modst) (simp add: same_flight_def)

lemma flight_check: "guar same_flight (chunk_check c)"
proof -
  have "guar same_flight (check_age c)"
    unfolding check_age_def Let_def by (intro flight.g_rules flight.g_try_if flight_world flight_log)
  then show ?thesis
    unfolding chunk_check_def by (intro flight.g_rules) (auto intro!: flight.g_rules split: sum.split)
qed

lemma check_sendable_flight:
  "triple (\<lambda>s. tidy s \<and> cc_inflight s = None) (chunk_check c)
     (\<lambda>v s. tidy s \<and> (v = None \<longrightarrow> sendable c s \<and> cc_inflight s = None)) tidy"
  unfolding triple_def
proof (intro allI impI)
  fix s
  assume s: "tidy s \<and> cc_inflight s = None"
  obtain r t where run: "chunk_check c s = (r, t)" by (meson surj_pair)
  with s have "cc_inflight t = None" using guarD [OF flight_check run] by (simp add: same_flight_def)
  then show "case chunk_check c s of (Inl e, t) \<Rightarrow> tidy t
      | (Inr v, t) \<Rightarrow> tidy t \<and> (v = None \<longrightarrow> sendable c t \<and> cc_inflight t = None)"
    using tripleD [OF check_sendable _ run] s run by (auto split: sum.splits)
qed

lemma send_waiting_tidy: "triple (\<lambda>s. tidy s \<and> cc_inflight s = None) send_waiting (\<lambda>_. tidy) tidy"
proof (unfold send_waiting_def, rule triple_withst)
  fix s
  assume s: "tidy s \<and> cc_inflight s = None"
  have fin: "triple (\<lambda>s. tidy s \<and> (v = None \<longrightarrow> sendable c s \<and> cc_inflight s = None))
      (case v of None \<Rightarrow> chunk_send c | Some v \<Rightarrow> drop_chunk c v) (\<lambda>_. tidy) tidy" for c v
    by (cases v) (auto intro: triple_conseq [OF send_tidy] triple_conseq [OF kept_drop])
  have "triple (\<lambda>t. t = s) (bindst (modst (\<lambda>s. s\<lparr>cc_waiting := None\<rparr>)) (\<lambda>_.
         bindst (chunk_check c) (\<lambda>verdict. case verdict of None \<Rightarrow> chunk_send c | Some v \<Rightarrow> drop_chunk c v))) (\<lambda>_. tidy) tidy" for c
    by (rule triple_bindst [OF triple_modst triple_bindst [OF check_sendable_flight fin]]) (use s in \<open>auto simp: tidy_def open_stream_def\<close>)
  then show "triple (\<lambda>t. t = s) (case cc_waiting s of None \<Rightarrow> ret () | Some chunk \<Rightarrow>
         bindst (modst (\<lambda>s. s\<lparr>cc_waiting := None\<rparr>)) (\<lambda>_.
         bindst (chunk_check chunk) (\<lambda>verdict. case verdict of None \<Rightarrow> chunk_send chunk | Some v \<Rightarrow> drop_chunk chunk v))) (\<lambda>_. tidy) tidy"
    using s by (auto split: option.split intro: triple_ret)
qed

lemma settle_tidy: "triple tidy settle_inflight (\<lambda>go s. tidy s \<and> (go \<longrightarrow> cc_inflight s = None)) tidy"
proof (unfold settle_inflight_def, rule triple_withst)
  fix s
  assume s: "tidy s"
  have settled: "triple tidy (bindst (whenst b (modst (\<lambda>s. s\<lparr>cc_sent_obs_ns := max (cc_sent_obs_ns s) ns\<rparr>))) (\<lambda>_.
               bindst (modst (\<lambda>s. s\<lparr>cc_inflight := None\<rparr>)) (\<lambda>_.
               bindst (log_event (HSettle ns b)) (\<lambda>_. ret True))))
      (\<lambda>go s. tidy s \<and> (go \<longrightarrow> cc_inflight s = None)) tidy" for b ns
    by (auto simp: triple_def bindst_def whenst_def modst_def ret_def log_event_def tidy_def open_stream_def)
  note poll = triple_conseq [OF kept_poll]
  show "triple (\<lambda>t. t = s) (case cc_inflight s of None \<Rightarrow> ret True
     | Some (chunk_id, rid, observed_ns) \<Rightarrow>
         bindst (poll_inflight chunk_id) (\<lambda>k. case k of None \<Rightarrow> ret False
         | Some kind \<Rightarrow>
             if kind \<notin> {''refused'', ''selected'', ''ended''} then ret False
             else
               bindst (whenst (kind = ''selected'') (modst (\<lambda>s. s\<lparr>cc_sent_obs_ns := max (cc_sent_obs_ns s) observed_ns\<rparr>))) (\<lambda>_.
               bindst (modst (\<lambda>s. s\<lparr>cc_inflight := None\<rparr>)) (\<lambda>_.
               bindst (log_event (HSettle observed_ns (kind = ''selected''))) (\<lambda>_. ret True)))))
      (\<lambda>go s. tidy s \<and> (go \<longrightarrow> cc_inflight s = None)) tidy"
    using s by (auto split: option.split prod.split intro!: triple_ret triple_bindst [where Q = "\<lambda>_. tidy", OF poll] settled)
qed

lemma kept_pump: "kept chunk_pump"
proof -
  have view: "kept (try_if infra_error (bindst (on_world arm_stream_state) (\<lambda>v. ret (Some v)))
             (\<lambda>e. bindst (upd_report (rp_note ''stream unreadable'')) (\<lambda>_. ret None)))"
    by (intro kept_rules kept_on_world [OF errs_arm(1)])
  have ended: "kept (seqs [upd_report (rp_note ''stream ended''),
                modst (\<lambda>s. s\<lparr>cc_session := Some (ss\<lparr>ss_closed := True\<rparr>), cc_inflight := None, cc_waiting := None\<rparr>),
                log_event HStop])" for ss
    by (auto simp: triple_def bindst_def modst_def ret_def upd_report_def log_event_def tidy_def open_stream_def)
  have goes: "kept (bindst settle_inflight (\<lambda>go. if go then send_waiting else ret ()))"
    by (rule triple_bindst [OF settle_tidy]) (auto intro: triple_conseq [OF send_waiting_tidy] triple_ret)
  have body: "kept (case v of None \<Rightarrow> ret () | Some view \<Rightarrow>
             bindst (upd_report (\<lambda>r. r\<lparr>rp_selected_revision := sv_selected_revision view\<rparr>)) (\<lambda>_.
             if es_terminal (sv_execution view) then seqs
               [upd_report (rp_note ''stream ended''),
                modst (\<lambda>s. s\<lparr>cc_session := Some (ss\<lparr>ss_closed := True\<rparr>), cc_inflight := None, cc_waiting := None\<rparr>),
                log_event HStop]
             else bindst settle_inflight (\<lambda>go. if go then send_waiting else ret ())))" for v ss
  proof (cases v)
    case (Some view)
    show ?thesis unfolding Some option.case by (intro kept_bindst [OF kept_report] kept_if ended goes)
  qed (simp add: kept_ret)
  have open_case: "kept (if ss_closed ss then ret () else bindst (try_if infra_error (bindst (on_world arm_stream_state) (\<lambda>v. ret (Some v)))
             (\<lambda>e. bindst (upd_report (rp_note ''stream unreadable'')) (\<lambda>_. ret None))) (\<lambda>v. case v of None \<Rightarrow> ret ()
           | Some view \<Rightarrow>
             bindst (upd_report (\<lambda>r. r\<lparr>rp_selected_revision := sv_selected_revision view\<rparr>)) (\<lambda>_.
             if es_terminal (sv_execution view) then seqs
               [upd_report (rp_note ''stream ended''),
                modst (\<lambda>s. s\<lparr>cc_session := Some (ss\<lparr>ss_closed := True\<rparr>), cc_inflight := None, cc_waiting := None\<rparr>),
                log_event HStop]
             else bindst settle_inflight (\<lambda>go. if go then send_waiting else ret ()))))" for ss
    by (intro kept_if kept_ret kept_bindst view body)
  show ?thesis
    unfolding chunk_pump_def by (intro kept_bindst kept_withst kept_ret) (simp add: kept_ret open_case split: option.split)
qed

datatype chunk_call = CallStart | CallCancel string | CallSubmit Chunk | CallPump

fun chunk_step :: "chunk_call \<Rightarrow> ActionChunkClient \<Rightarrow> ActionChunkClient" where
  "chunk_step CallStart s = snd (chunk_start s)"
| "chunk_step (CallCancel reason) s = snd (chunk_cancel reason s)"
| "chunk_step (CallSubmit c) s = snd (chunk_submit c s)"
| "chunk_step CallPump s = snd (chunk_pump s)"

lemma kept_state: "kept m \<Longrightarrow> tidy s \<Longrightarrow> tidy (snd (m s))"
  by (cases "m s"; cases "fst (m s)") (fastforce simp: triple_def)+

lemma tidy_run: "tidy s \<Longrightarrow> tidy (fold chunk_step calls s)"
proof (induction calls arbitrary: s)
  case (Cons c calls)
  then have "tidy (chunk_step c s)"
    by (cases c) (simp_all add: kept_state kept_start kept_cancel kept_submit kept_pump)
  with Cons.IH show ?case by simp
qed simp

section \<open>Revisions come from sends\<close>

fun is_revise :: "client_io \<Rightarrow> bool" where
  "is_revise (IoRevise _) = True"
| "is_revise _ = False"

fun is_send :: "chunk_event \<Rightarrow> bool" where
  "is_send (HSend _) = True"
| "is_send _ = False"

definition n_rev :: "client_world \<Rightarrow> nat" where
  "n_rev w = length (filter is_revise (cw_io w))"

definition n_send :: "ActionChunkClient \<Rightarrow> nat" where
  "n_send s = length (filter is_send (cc_hist s))"

definition no_rev :: "client_world \<Rightarrow> client_world \<Rightarrow> bool" where
  "no_rev v w \<longleftrightarrow> n_rev w = n_rev v"

definition one_rev :: "client_world \<Rightarrow> client_world \<Rightarrow> bool" where
  "one_rev v w \<longleftrightarrow> n_rev w \<le> Suc (n_rev v)"

interpretation mute: guarantee no_rev
  by unfold_locales (simp_all add: no_rev_def)

lemma mute_parts:
  "guar no_rev (ask_arm f)" "guar no_rev next_open_seq" "guar no_rev next_proposal_seq" "guar no_rev (request_id p)"
  "guar no_rev (io (IoOpen op))" "guar no_rev (io (IoCancel i m))"
  by (simp_all add: guar_def ask_arm_def next_open_seq_def next_proposal_seq_def request_id_def io_def bindst_def run_simps no_rev_def n_rev_def)

lemma mute_calls:
  "guar no_rev arm_stream_state" "guar no_rev arm_stream_anchor" "guar no_rev arm_stream_revision" "guar no_rev arm_now"
  "guar no_rev arm_preset_id" "guar no_rev arm_state_q" "guar no_rev (arm_open_stream op)" "guar no_rev (arm_cancel i m)"
  unfolding arm_stream_state_def arm_stream_anchor_def arm_stream_revision_def arm_now_def arm_preset_id_def
    arm_state_q_def arm_open_stream_def arm_cancel_def
  by (intro mute.g_rules mute_parts)+

lemma mute_session: "guar no_rev (mk_StreamSession ctx hold)" "guar no_rev (session_close ss reason)"
  unfolding mk_StreamSession_def session_close_def by (intro mute.g_rules mute.g_try_if mute_calls mute_parts)+

lemma one_rev_after: "guar no_rev m \<Longrightarrow> (\<And>a. guar one_rev (f a)) \<Longrightarrow> guar one_rev (bindst m f)"
  unfolding guar_def
proof
  fix w
  assume m: "\<forall>s. no_rev s (snd (m s))" and f: "\<And>a. \<forall>s. one_rev s (snd (f a s))"
  obtain r t where run: "m w = (r, t)" by (meson surj_pair)
  with m have "n_rev t = n_rev w" by (metis no_rev_def snd_conv)
  moreover have "one_rev t (snd (f b t))" for b using f [of b] by blast
  ultimately show "one_rev w (snd (bindst m f w))"
    using run by (cases r) (auto simp: bindst_def one_rev_def)
qed

lemma one_rev_if: "(b \<Longrightarrow> guar one_rev m) \<Longrightarrow> (\<not> b \<Longrightarrow> guar one_rev n) \<Longrightarrow> guar one_rev (if b then m else n)"
  by simp

lemma one_rev_lift: "guar one_rev (lift r)"
  by (simp add: guar_def lift_def one_rev_def)

lemma one_rev_revise: "guar one_rev (revise ss ctx rid knots dt term)"
proof -
  have "guar one_rev (arm_revise_stream r)" for r
    by (simp add: guar_def arm_revise_stream_def io_def ask_arm_def bindst_def run_simps one_rev_def n_rev_def)
  then show ?thesis
    unfolding revise_def Let_def by (intro one_rev_if one_rev_lift one_rev_after mute_calls mute_parts mute.g_lift) simp
qed

definition paired :: "ActionChunkClient \<Rightarrow> ActionChunkClient \<Rightarrow> bool" where
  "paired s t \<longleftrightarrow> cc_max_age_s t = cc_max_age_s s \<and> cc_ctx t = cc_ctx s \<and>
     n_rev (cc_w t) + n_send s \<le> n_rev (cc_w s) + n_send t"

interpretation pairs: guarantee paired
  by unfold_locales (simp_all add: paired_def)

lemma pairs_world: "guar no_rev m \<Longrightarrow> guar paired (on_world m)"
  by (auto simp: guar_def on_world_def paired_def no_rev_def n_send_def split: prod.split) (metis order_refl snd_conv)

lemma pairs_log: "guar paired (log_event e)"
  unfolding log_event_def by (rule pairs.g_modst) (simp add: paired_def n_send_def)

lemma pairs_report: "guar paired (upd_report f)"
  unfolding upd_report_def by (rule pairs.g_modst) (simp add: paired_def n_send_def)

lemma pairs_revise:
  "guar paired (bindst (log_event (HSend c)) (\<lambda>_. bindst (on_world (revise ss ctx rid knots dt term)) (\<lambda>status. ret (Answered status))))"
  unfolding guar_def
proof
  fix s :: ActionChunkClient
  obtain r w where rw: "revise ss ctx rid knots dt term (cc_w s) = (r, w)" by (meson surj_pair)
  then have "n_rev w \<le> Suc (n_rev (cc_w s))" using guarD [OF one_rev_revise rw] by (simp add: one_rev_def)
  with rw show "paired s (snd (bindst (log_event (HSend c)) (\<lambda>_. bindst (on_world (revise ss ctx rid knots dt term)) (\<lambda>status. ret (Answered status))) s))"
    by (cases r) (simp_all add: bindst_def log_event_def modst_def on_world_def ret_def paired_def n_send_def)
qed

lemmas pairs_rules = pairs.g_rules pairs.g_try_if pairs_log pairs_report

lemma pairs_modst: "(\<And>s. cc_w (g s) = cc_w s \<and> cc_hist (g s) = cc_hist s \<and> cc_max_age_s (g s) = cc_max_age_s s \<and> cc_ctx (g s) = cc_ctx s) \<Longrightarrow> guar paired (modst g)"
  by (rule pairs.g_modst) (simp add: paired_def n_send_def)

lemma pairs_check: "guar paired (chunk_check c)"
proof -
  have "guar paired (check_age c)"
    unfolding check_age_def Let_def by (intro pairs_rules pairs_world mute_calls)
  then show ?thesis
    unfolding chunk_check_def by (intro pairs_rules) (auto intro!: pairs_rules split: sum.split)
qed

lemma pairs_outcome: "guar paired (fold_outcome i st)"
  unfolding fold_outcome_def by (intro pairs_rules)

lemma pairs_send: "guar paired (chunk_send c)"
proof -
  have "guar paired (attempt rid c)" for rid
    unfolding attempt_def by (intro pairs_rules pairs_revise)
  then have "guar paired (bindst (attempt rid c) (\<lambda>r. case r of
       Declined e \<Rightarrow> seqs
         [upd_report (\<lambda>r. r\<lparr>rp_refused := rp_refused r @ [(ck_chunk_id c, err_text e)]\<rparr>),
          log_event (HSettle (st_ns (ck_observed_at c)) False)]
     | NoReply e \<Rightarrow> seqs
         [upd_report (\<lambda>r. mark_unknown (ck_chunk_id c) (r\<lparr>rp_requested := rp_requested r @ [ck_chunk_id c]\<rparr>)),
          upd_report (rp_note (ck_chunk_id c @ '': no reply to the revision; fate unknown'')),
          in_flight c rid]
     | Answered status \<Rightarrow>
         bindst (upd_report (\<lambda>r. r\<lparr>rp_requested := rp_requested r @ [ck_chunk_id c]\<rparr>)) (\<lambda>_.
         bindst (fold_outcome (ck_chunk_id c) status) (\<lambda>kind.
         if kind = ''refused'' then log_event (HSettle (st_ns (ck_observed_at c)) False) else in_flight c rid))))" for rid
    unfolding in_flight_def
    by (rule pairs.g_bindst) (auto split: sent.split intro!: pairs_rules pairs_outcome pairs_modst)
  then show ?thesis
    unfolding chunk_send_def by (rule pairs.g_bindst [OF pairs_world [OF mute_parts(4)]])
qed

lemma pairs_drop: "guar paired (drop_chunk c v)"
  unfolding drop_chunk_def by (rule pairs_report)

lemma pairs_cancel: "guar paired (chunk_cancel reason)"
  unfolding chunk_cancel_def by (intro pairs_rules pairs_modst pairs_world mute_session) simp_all

lemma pairs_calls:
  "guar paired chunk_start" "guar paired (chunk_submit c)" "guar paired chunk_pump"
proof -
  have "guar paired check_profile"
    unfolding check_profile_def Let_def by (intro pairs_rules pairs_world mute_calls)
  then show "guar paired chunk_start"
    unfolding chunk_start_def by (intro pairs_rules pairs_modst pairs_world mute_session pairs_cancel) simp_all
  show "guar paired (chunk_submit c)"
    unfolding chunk_submit_def by (intro pairs_rules pairs_modst pairs_check pairs_send pairs_drop) simp_all
  have "guar paired settle_inflight"
    unfolding settle_inflight_def poll_inflight_def by (intro pairs_rules pairs_modst pairs_world mute_calls pairs_outcome) simp_all
  moreover have "guar paired send_waiting"
    unfolding send_waiting_def by (intro pairs_rules pairs_modst pairs_check pairs_send pairs_drop) simp_all
  ultimately show "guar paired chunk_pump"
    unfolding chunk_pump_def by (intro pairs_rules pairs_world mute_calls) (auto intro!: pairs_rules pairs_modst)
qed

lemma pairs_run: "paired s (fold chunk_step calls s)"
proof (induction calls arbitrary: s)
  case (Cons c calls)
  have "paired s (chunk_step c s)"
    by (cases c) (simp_all add: guar_run pairs_calls pairs_cancel)
  with Cons.IH [of "chunk_step c s"] show ?case using pairs.chain by simp
qed (simp add: pairs.stays)

text \<open>
  C13: Whatever the supervisor answers and in whatever order the client is called (exceptions included), every chunk it
  hands to the stream was requested in the stream that is open (after the last start, with no cancel since), finds no
  other chunk unresolved, is not older than any chunk the real-time side selected or may have selected in this stream,
  was within its deadline on the supervisor's clock in the same call, and names the stream's joints in order; and no
  revision reaches the supervisor in any other way.
\<close>

theorem chunk_sends_orderly:
  assumes "mk_ActionChunkClient w ctx max_age hold spec = Inr s0" and "sdk_errors w" and "cw_io w = []"
    and "fold chunk_step calls s0 = s"
  shows "orderly max_age (sx_joints ctx) (cc_hist s) \<and>
     length (filter is_revise (cw_io (cc_w s))) \<le> length (filter is_send (cc_hist s))"
proof -
  from assms(1) have s0: "cc_w s0 = w" "cc_ctx s0 = ctx" "cc_max_age_s s0 = max_age" "cc_hist s0 = []" "cc_session s0 = None"
    by (auto simp: mk_ActionChunkClient_def split: if_splits)
  then have "tidy s0" using assms(2) by (simp add: tidy_def open_stream_def)
  then have t: "tidy s" unfolding assms(4) [symmetric] by (rule tidy_run)
  have p: "paired s0 s" unfolding assms(4) [symmetric] by (rule pairs_run)
  with s0 assms(3) t show ?thesis by (simp add: tidy_def paired_def n_rev_def n_send_def)
qed

end
