(* ===== verification/Chunk_Demo.thy ===== *)
theory Chunk_Demo
  imports Chunk_Proofs
begin

text \<open>
  A run of the action-chunk client, evaluated: a stream is opened, a chunk is sent, and a chunk that waits behind it is
  lost by a cancel without a line in the report.
\<close>

definition demo_now :: Stamp where
  "demo_now = \<lparr>st_ns = 5, st_clock = PC, st_domain = ''pc''\<rparr>"

definition demo_view :: StreamView where
  "demo_view = \<lparr>sv_execution = \<lparr>es_execution_id = ''e'', es_request_id = ''r'', es_instance_id = ''i'', es_phase = APPLIED, es_reached = [], es_reason = []\<rparr>,
     sv_model_token = ''m'', sv_scene_token = ''s'', sv_stream_policy_id = ''p'', sv_selected_reference_id = None, sv_selected_revision = Some 1,
     sv_selected_phase = None, sv_protected_until = None, sv_selected_end_phase = None, sv_selected_terminal = None, sv_pending_request_id = None,
     sv_pending_revision = None, sv_splice = None\<rparr>"

definition demo_anchor :: SpliceAnchor where
  "demo_anchor = \<lparr>sa_anchor_id = ''a'', sa_expected_revision = 1, sa_cut_phase = 1, sa_q = [0], sa_qd = [0], sa_issued_at = demo_now,
     sa_expires_at = demo_now\<lparr>st_ns := 9\<rparr>\<rparr>"

definition demo_status :: RevisionStatus where
  "demo_status = \<lparr>rv_execution_id = ''e'', rv_request_id = ''c.1'', rv_expected_revision = Some 1, rv_revision = None, rv_phase = REQUESTED,
     rv_selection_state = NOT_REQUESTED, rv_at = demo_now, rv_reason = []\<rparr>"

definition demo_world :: client_world where
  "demo_world = \<lparr>cw_n = 0, cw_clock = (\<lambda>_. 0), cw_now = (\<lambda>_. Inr demo_now), cw_q = (\<lambda>_. Inr (Some [0])), cw_view = (\<lambda>_. Inr demo_view),
     cw_anchor = (\<lambda>_. Inr demo_anchor), cw_revision = (\<lambda>_. Inr demo_status), cw_cancel = (\<lambda>_. Inr ()), cw_preset = (\<lambda>_. Inr None),
     cw_controller = False, cw_open_seq = 0, cw_proposal_seq = 0, cw_request_id = 0, cw_io = []\<rparr>"

definition demo_context :: StreamContext where
  "demo_context = \<lparr>sx_instance_id = ''i'', sx_joints = [''j''], sx_model_token = ''m'', sx_scene_token = ''s'', sx_stream_policy_id = ''p''\<rparr>"

definition demo_client :: ActionChunkClient where
  "demo_client = \<lparr>cc_w = demo_world, cc_ctx = demo_context, cc_max_age_s = 1, cc_hold_s = 2, cc_spec = None, cc_generation = 0, cc_session = None,
     cc_report = mk_Report, cc_inflight = None, cc_waiting = None, cc_sent_obs_ns = -1, cc_cancel_pending = False, cc_hist = []\<rparr>"

definition demo_chunk :: Chunk where
  "demo_chunk = \<lparr>ck_chunk_id = ''c'', ck_joints = [''j''], ck_values = Rows [[1]], ck_dt_s = 1, ck_observed_at = demo_now\<lparr>st_ns := 3\<rparr>,
     ck_generation = 2, ck_mode = ''absolute'', ck_base_q = None, ck_units = ''rad''\<rparr>"

lemma demo_client_built: "mk_ActionChunkClient demo_world demo_context 1 2 None = Inr demo_client"
  by (simp add: mk_ActionChunkClient_def demo_client_def mk_Report_def)

lemma demo_sdk: "sdk_errors demo_world"
  by (simp add: sdk_errors_def demo_world_def)

definition demo_opening :: StreamOpen where
  "demo_opening = \<lparr>so_request_id = ''open-1'', so_open_seq = 1, so_instance_id = ''i'', so_joint_names = [''j''], so_model_token = ''m'',
     so_scene_token = ''s'', so_stream_policy_id = ''p'', so_initial = \<lparr>jt_times = [0, 1, 2], jt_positions = [[0], [0], [0]],
     jt_velocities = Some [[0], [0], [0]]\<rparr>, so_start = ON_ADMIT, so_admit_by = None\<rparr>"

lemma demo_digits: "decimal_text 1 = ''1''" "decimal_text 0 = ''0''"
  by (simp_all add: decimal_text.simps digit_char_def char_of_def bit_0)

lemma demo_opening_ok: "mk_StreamOpen demo_opening = Inr demo_opening"
  by (simp add: mk_StreamOpen_def demo_opening_def stream_sequence_def stream_text_def stream_curve_def mk_JointTrajectory_def rectangular_def
      mat_cols_def same_shape_def num_joints_def traj_finite_def so_as_request_def mk_TrajectoryRequest_def check_identifier_def id_ok_def
      id_char_def instance_char_def char_between_def)

lemma demo_session:
  "mk_StreamSession demo_context 2 demo_world = (Inr \<lparr>ss_execution_id = ''e'', ss_closed = False, ss_last_error = None\<rparr>,
     demo_world\<lparr>cw_n := 2, cw_open_seq := 1, cw_io := [IoOpen demo_opening]\<rparr>)"
proof -
  have curve: "mk_JointTrajectory [0, 2 / 2, 2] [[0], [0], [0]] (Some (replicate 3 (zeros (length [0 :: fl])))) = Inr (so_initial demo_opening)"
    by (simp add: mk_JointTrajectory_def rectangular_def mat_cols_def same_shape_def zeros_def demo_opening_def numeral_3_eq_3)
  have request: "mk_StreamOpen \<lparr>so_request_id = CHR ''o'' # CHR ''p'' # CHR ''e'' # CHR ''n'' # CHR ''-'' # decimal_text 1, so_open_seq = 1,
      so_instance_id = sx_instance_id demo_context, so_joint_names = sx_joints demo_context, so_model_token = sx_model_token demo_context,
      so_scene_token = sx_scene_token demo_context, so_stream_policy_id = sx_stream_policy_id demo_context,
      so_initial = so_initial demo_opening, so_start = ON_ADMIT, so_admit_by = None\<rparr> = Inr demo_opening"
    using demo_opening_ok by (simp add: demo_opening_def demo_context_def demo_digits del: One_nat_def)
  have q: "arm_state_q demo_world = (Inr (Some [0]), demo_world\<lparr>cw_n := 1\<rparr>)"
    by (simp add: arm_state_q_def ask_arm_def demo_world_def dec_def)
  have seq: "next_open_seq (demo_world\<lparr>cw_n := 1\<rparr>) = (Inr 1, demo_world\<lparr>cw_n := 1, cw_open_seq := 1\<rparr>)"
    by (simp add: next_open_seq_def bindst_def run_simps demo_world_def)
  have opened: "arm_open_stream demo_opening (demo_world\<lparr>cw_n := 1, cw_open_seq := 1\<rparr>) =
      (Inr demo_view, demo_world\<lparr>cw_n := 2, cw_open_seq := 1, cw_io := [IoOpen demo_opening]\<rparr>)"
    by (simp add: arm_open_stream_def io_def ask_arm_def bindst_def run_simps demo_world_def dec_def)
  show ?thesis
    by (simp add: mk_StreamSession_def bindst_def q [unfolded fl_0] curve [unfolded fl_0 fl_numeral, simplified] seq request opened
        run_simps demo_view_def del: One_nat_def)
qed

text \<open>The client after \<^verbatim>\<open>start\<close>.\<close>

definition demo_started :: ActionChunkClient where
  "demo_started = demo_client\<lparr>cc_w := demo_world\<lparr>cw_n := 2, cw_open_seq := 1, cw_io := [IoOpen demo_opening]\<rparr>, cc_generation := 2,
     cc_session := Some \<lparr>ss_execution_id = ''e'', ss_closed = False, ss_last_error = None\<rparr>, cc_hist := [HOpen 2, HStop]\<rparr>"

lemma demo_chunk_start: "chunk_start demo_client = (Inr 2, demo_started)"
  using demo_session
  by (simp add: chunk_start_def check_profile_def chunk_cancel_def bindst_def run_simps log_event_def on_world_def demo_client_def demo_started_def
      demo_world_def mk_Report_def)

definition demo_revision :: StreamRevision where
  "demo_revision = \<lparr>sr_request_id = ''c.1'', sr_execution_id = ''e'', sr_proposal_seq = 1, sr_expected_revision = 1, sr_anchor_id = ''a'',
     sr_scene_token = ''s'', sr_suffix = \<lparr>jt_times = [1, 2], jt_positions = [[0], [1]], jt_velocities = Some [[0], [0]]\<rparr>, sr_terminal = False,
     sr_admit_by = None\<rparr>"

lemma demo_revision_ok: "mk_StreamRevision demo_revision = Inr demo_revision"
  by (simp add: mk_StreamRevision_def demo_revision_def stream_sequence_def stream_text_def stream_curve_def mk_JointTrajectory_def rectangular_def
      mat_cols_def same_shape_def num_joints_def traj_finite_def mk_TrajectoryRequest_def check_identifier_def id_ok_def
      id_char_def instance_char_def char_between_def)

lemma demo_same_id: "demo_revision\<lparr>sr_request_id := ''c.1''\<rparr> = demo_revision"
  by (simp add: demo_revision_def)

lemma demo_anchor_ok: "mk_SpliceAnchor demo_anchor = Inr demo_anchor"
  by (simp add: mk_SpliceAnchor_def demo_anchor_def demo_now_def stream_sequence_def stream_text_def)

lemma demo_revise:
  assumes "cw_anchor w = cw_anchor demo_world" "cw_revision w = cw_revision demo_world" "cw_proposal_seq w = 0"
    and ok: "mk_StreamRevision (demo_revision\<lparr>sr_request_id := rid\<rparr>) = Inr (demo_revision\<lparr>sr_request_id := rid\<rparr>)"
  shows "revise \<lparr>ss_execution_id = ''e'', ss_closed = False, ss_last_error = None\<rparr> demo_context rid [[1]] 1 False w =
     (Inr demo_status, w\<lparr>cw_n := cw_n w + 2, cw_proposal_seq := 1, cw_io := IoRevise (demo_revision\<lparr>sr_request_id := rid\<rparr>) # cw_io w\<rparr>)"
proof -
  have anchor: "arm_stream_anchor w = (Inr demo_anchor, w\<lparr>cw_n := Suc (cw_n w)\<rparr>)"
    using assms(1) demo_anchor_ok by (simp add: arm_stream_anchor_def ask_arm_def demo_world_def dec_def)
  have curve: "mk_JointTrajectory [Fin 1, Fin 2] [[Fin 0], [Fin 1]] (Some [[Fin 0], [Fin 0]]) = Inr (sr_suffix demo_revision)"
    by (simp add: mk_JointTrajectory_def rectangular_def mat_cols_def same_shape_def demo_revision_def)
  have rev: "mk_StreamRevision \<lparr>sr_request_id = rid, sr_execution_id = ''e'', sr_proposal_seq = 1,
      sr_expected_revision = sa_expected_revision demo_anchor, sr_anchor_id = sa_anchor_id demo_anchor, sr_scene_token = sx_scene_token demo_context,
      sr_suffix = sr_suffix demo_revision, sr_terminal = False, sr_admit_by = None\<rparr> = Inr (demo_revision\<lparr>sr_request_id := rid\<rparr>)"
    using ok by (simp add: demo_revision_def demo_anchor_def demo_context_def)
  have knots: "sa_q demo_anchor = [Fin 0]" "sa_qd demo_anchor = [Fin 0]" "sa_cut_phase demo_anchor = Fin 1"
    by (simp_all add: demo_anchor_def)
  show ?thesis
    using assms(2,3) curve rev
    by (simp add: revise_def bindst_def anchor run_simps next_proposal_seq_def knots rectangular_def MAX_KNOTS_def knot_velocities_def zeros_def
        arm_revise_stream_def io_def ask_arm_def demo_world_def dec_def Let_def)
qed

lemma demo_started_fields:
  "cc_session demo_started = Some \<lparr>ss_execution_id = ''e'', ss_closed = False, ss_last_error = None\<rparr>" "cc_generation demo_started = 2"
  "cc_ctx demo_started = demo_context" "cc_spec demo_started = None" "cc_cancel_pending demo_started = False" "cc_inflight demo_started = None"
  "cc_sent_obs_ns demo_started = -1" "cc_max_age_s demo_started = 1" "cc_hist demo_started = [HOpen 2, HStop]" "cc_report demo_started = mk_Report"
  by (simp_all add: demo_started_def demo_client_def)

lemma demo_chunk_fields:
  "ck_observed_at demo_chunk = \<lparr>st_ns = 3, st_clock = PC, st_domain = ''pc''\<rparr>" "ck_generation demo_chunk = 2" "ck_joints demo_chunk = [''j'']"
  "ck_dt_s demo_chunk = 1" "ck_units demo_chunk = ''rad''" "ck_chunk_id demo_chunk = ''c''"
  by (simp_all add: demo_chunk_def demo_now_def)

definition demo_checked :: ActionChunkClient where
  "demo_checked = demo_started\<lparr>cc_w := (cc_w demo_started)\<lparr>cw_n := 3\<rparr>, cc_hist := [HNow demo_now, HOpen 2, HStop]\<rparr>"

lemma demo_knots: "cc_ctx s = demo_context \<Longrightarrow> cc_spec s = None \<Longrightarrow> chunk_knots s demo_chunk = Inr [[1]]"
  by (simp add: chunk_knots_def demo_chunk_def as_2d_def rectangular_def mat_cols_def demo_context_def MAX_KNOTS_def)

lemma demo_check: "chunk_check demo_chunk demo_started = (Inr None, demo_checked)"
proof -
  have now: "on_world arm_now demo_started = (Inr demo_now, demo_started\<lparr>cc_w := (cc_w demo_started)\<lparr>cw_n := 3\<rparr>\<rparr>)"
    by (simp add: on_world_def arm_now_def ask_arm_def demo_started_def demo_world_def dec_def mk_Stamp_def demo_now_def)
  have "check_age demo_chunk demo_started = (Inr None, demo_checked)"
    by (simp add: check_age_def try_if_def bindst_def now log_event_def run_simps Let_def demo_chunk_fields demo_now_def demo_started_fields
        demo_checked_def)
  moreover have "chunk_knots demo_started demo_chunk = Inr [[1]]" by (rule demo_knots) (simp_all add: demo_started_def demo_client_def)
  ultimately show ?thesis
    by (simp add: chunk_check_def withst_def bindst_def ret_def demo_started_fields demo_chunk_fields demo_context_def)
qed

definition demo_sent :: ActionChunkClient where
  "demo_sent = demo_checked\<lparr>cc_w := (cc_w demo_started)\<lparr>cw_n := 5, cw_proposal_seq := 1, cw_request_id := 1,
        cw_io := [IoRevise demo_revision, IoOpen demo_opening]\<rparr>,
     cc_report := mk_Report\<lparr>rp_requested := [''c'']\<rparr>, cc_inflight := Some (''c'', ''c.1'', 3),
     cc_hist := [HSend demo_chunk, HNow demo_now, HOpen 2, HStop]\<rparr>"

lemma demo_chunk_send: "chunk_send demo_chunk demo_checked = (Inr (), demo_sent)"
proof -
  define s1 where "s1 = demo_checked\<lparr>cc_w := (cc_w demo_checked)\<lparr>cw_request_id := 1\<rparr>\<rparr>"
  define s2 where "s2 = s1\<lparr>cc_hist := HSend demo_chunk # cc_hist s1, cc_w := (cc_w s1)\<lparr>cw_n := 5, cw_proposal_seq := 1,
      cw_io := [IoRevise demo_revision, IoOpen demo_opening]\<rparr>\<rparr>"
  have rid: "on_world (request_id (ck_chunk_id demo_chunk)) demo_checked = (Inr ''c.1'', s1)"
    using demo_digits(1)
    by (simp add: on_world_def request_id_def bindst_def run_simps demo_checked_def demo_started_def demo_world_def s1_def demo_chunk_def)
  have kn: "chunk_knots s1 demo_chunk = Inr [[1]]"
    by (rule demo_knots) (simp_all add: s1_def demo_checked_def demo_started_def demo_client_def)
  have rev: "revise \<lparr>ss_execution_id = ''e'', ss_closed = False, ss_last_error = None\<rparr> demo_context ''c.1'' [[1]] 1 False (cc_w s1) =
      (Inr demo_status, cc_w s2)"
    by (subst demo_revise) (simp_all add: s1_def s2_def demo_checked_def demo_started_def demo_world_def demo_same_id demo_revision_ok)
  have fields: "cc_session s1 = Some \<lparr>ss_execution_id = ''e'', ss_closed = False, ss_last_error = None\<rparr>" "cc_ctx s1 = demo_context" "ck_dt_s demo_chunk = 1"
    by (simp_all add: s1_def demo_checked_def demo_started_def demo_client_def demo_chunk_def)
  have att: "attempt ''c.1'' demo_chunk s1 = (Inr (Answered demo_status), s2)"
    using rev by (simp add: attempt_def try_if_def bindst_def run_simps kn fields log_event_def on_world_def s2_def)
  have out: "note_outcome (mk_Report\<lparr>rp_requested := [''c'']\<rparr>) ''c'' demo_status = (mk_Report\<lparr>rp_requested := [''c'']\<rparr>, ''pending'')"
    by (simp add: note_outcome_def classify_def demo_status_def)
  have rep: "cc_report s2 = mk_Report" by (simp add: s2_def s1_def demo_checked_def demo_started_def demo_client_def)
  have "rp_requested mk_Report = []" by (simp add: mk_Report_def)
  then show ?thesis
    using out rid by (simp add: chunk_send_def bindst_def att upd_report_def run_simps fold_outcome_def rep in_flight_def demo_chunk_fields)
      (simp add: s2_def s1_def demo_sent_def demo_checked_def)
qed

lemma demo_submit: "chunk_submit demo_chunk demo_started = (Inr ''sent'', demo_sent)"
proof -
  have "cc_inflight demo_checked = None" "cc_inflight demo_sent = Some (''c'', ''c.1'', 3)"
    by (simp_all add: demo_checked_def demo_started_fields demo_sent_def)
  then show ?thesis by (simp add: chunk_submit_def bindst_def demo_check demo_chunk_send run_simps)
qed

theorem chunk_sends_orderly_witness:
  "orderly 1 [''j''] [HSend demo_chunk, HNow demo_now, HOpen 2, HStop] \<and>
   length (filter is_revise [IoRevise demo_revision, IoOpen demo_opening]) \<le> length (filter is_send [HSend demo_chunk, HNow demo_now, HOpen 2, HStop])"
proof -
  have run: "fold chunk_step [CallStart, CallSubmit demo_chunk] demo_client = demo_sent"
    by (simp add: demo_chunk_start demo_submit)
  have "cw_io demo_world = []" by (simp add: demo_world_def)
  from chunk_sends_orderly [OF demo_client_built demo_sdk this run] show ?thesis
    by (simp only: demo_sent_def demo_context_def) simp
qed

text \<open>
  The module says that a response from before the last \<^verbatim>\<open>cancel()\<close> is dropped and reported as late. A chunk that was
  accepted and waits when \<^verbatim>\<open>cancel()\<close> is called is dropped without appearing anywhere in the report.
\<close>

lemma cancel_forgets_waiting:
  "\<exists>s. chunk_cancel ''stop'' (demo_sent\<lparr>cc_waiting := Some (demo_chunk\<lparr>ck_chunk_id := ''d''\<rparr>)\<rparr>) = (Inr True, s) \<and>
     cc_waiting s = None \<and> cc_report s = cc_report demo_sent \<and> rp_late (cc_report s) = [] \<and> rp_replaced (cc_report s) = []"
  by (simp add: chunk_cancel_def bindst_def run_simps log_event_def on_world_def session_close_def try_if_def arm_cancel_def io_def ask_arm_def
      demo_sent_def demo_checked_def demo_started_def demo_client_def demo_world_def mk_Report_def)

end
