(* ===== verification/Deadman.thy ===== *)
theory Deadman
  imports Chunk_Demo
begin

text \<open>
  \<^verbatim>\<open>arm_control/clients/teleop.py\<close>: teleoperation that moves the arm only while a deadman is held and fresh.
\<close>

section \<open>The deadman client\<close>

record DeadmanTeleop =
  dm_w :: client_world
  dm_ctx :: StreamContext
  dm_timeout :: fl
  dm_speed :: fl
  dm_min_step :: fl
  dm_hold_s :: fl
  dm_session :: "StreamSession option"
  dm_last_beat :: "fl option"
  dm_report :: Report
  dm_pending :: "(string \<times> string) option"

type_synonym 'a deadman = "(DeadmanTeleop, 'a) action"

definition mk_DeadmanTeleop :: "client_world \<Rightarrow> StreamContext \<Rightarrow> fl \<Rightarrow> fl \<Rightarrow> fl \<Rightarrow> fl \<Rightarrow> DeadmanTeleop result" where
  "mk_DeadmanTeleop w ctx deadman_timeout_s max_speed_rad_s min_step_s hold_s =
     bindr (ensure (0 < deadman_timeout_s \<and> 0 < max_speed_rad_s \<and> 0 < min_step_s)
       (ValueError ''deadman_timeout_s, max_speed_rad_s and min_step_s must be positive'')) (\<lambda>_.
     bindr (ensure (\<not> deadman_timeout_s < min_step_s) (ValueError ''min_step_s cannot exceed the deadman timeout (a step would outlast it)'')) (\<lambda>_.
     Inr \<lparr>dm_w = w, dm_ctx = ctx, dm_timeout = deadman_timeout_s, dm_speed = max_speed_rad_s, dm_min_step = min_step_s, dm_hold_s = hold_s,
          dm_session = None, dm_last_beat = None, dm_report = mk_Report, dm_pending = None\<rparr>))"

definition dm_world :: "'a asks \<Rightarrow> 'a deadman" where
  "dm_world m s = (case m (dm_w s) of (r, w) \<Rightarrow> (r, s\<lparr>dm_w := w\<rparr>))"

definition dm_reports :: "(Report \<Rightarrow> Report) \<Rightarrow> unit deadman" where
  "dm_reports f = modst (\<lambda>s. s\<lparr>dm_report := f (dm_report s)\<rparr>)"

definition dm_close :: "StreamSession \<Rightarrow> string \<Rightarrow> bool deadman" where
  "dm_close ss reason =
     bindst (dm_world (session_close ss reason)) (\<lambda>(ok, ss'). bindst (modst (\<lambda>s. s\<lparr>dm_session := Some ss'\<rparr>)) (\<lambda>_. ret ok))"

definition dm_start :: "unit deadman" where
  "dm_start =
     bindst (withst (\<lambda>s. case dm_session s of None \<Rightarrow> ret True | Some ss \<Rightarrow> dm_close ss ''restart'')) (\<lambda>ok.
     if \<not> ok then lift (Inl (NeedsOperator ''previous stream not confirmed cancelled''))
     else
       bindst (withst (\<lambda>s. dm_world (mk_StreamSession (dm_ctx s) (dm_hold_s s)))) (\<lambda>ss.
       bindst (modst (\<lambda>s. s\<lparr>dm_session := Some ss\<rparr>)) (\<lambda>_.
       bindst (dm_world client_clock) (\<lambda>now. modst (\<lambda>s. s\<lparr>dm_last_beat := Some now, dm_pending := None\<rparr>)))))"

definition dm_heartbeat :: "unit deadman" where
  "dm_heartbeat = bindst (dm_world client_clock) (\<lambda>now. modst (\<lambda>s. s\<lparr>dm_last_beat := Some now\<rparr>))"

text \<open>Before the first beat, \<^verbatim>\<open>clock() - None\<close> raises \<^verbatim>\<open>TypeError\<close>; \<open>start\<close> sets the beat with the session.\<close>

definition dm_expired :: "bool deadman" where
  "dm_expired = withst (\<lambda>s. if dm_session s = None then ret True
     else bindst (dm_world client_clock) (\<lambda>now. case dm_last_beat s of None \<Rightarrow> lift (Inl TypeError)
       | Some beat \<Rightarrow> ret (dm_timeout s < now - beat)))"

definition dm_fold :: "string \<Rightarrow> RevisionStatus \<Rightarrow> string deadman" where
  "dm_fold i status = withst (\<lambda>s. case note_outcome (dm_report s) i status of (r, kind) \<Rightarrow> bindst (dm_reports (\<lambda>_. r)) (\<lambda>_. ret kind))"

fun timeout_or_os :: "err \<Rightarrow> bool" where
  "timeout_or_os (TimeoutError _) = True"
| "timeout_or_os (OSError _) = True"
| "timeout_or_os _ = False"

fun supervisor_error :: "err \<Rightarrow> bool" where
  "supervisor_error (SupervisorError _) = True"
| "supervisor_error (Refused _) = True"
| "supervisor_error _ = False"

text \<open>\<^verbatim>\<open>_settle\<close>: true if the previous revision is still unresolved.\<close>

definition dm_settle :: "bool deadman" where
  "dm_settle = withst (\<lambda>s. case dm_pending s of None \<Rightarrow> ret False
     | Some (i, rid) \<Rightarrow>
         try_if timeout_or_os
           (try_if supervisor_error
             (bindst (dm_world arm_stream_revision) (\<lambda>status. bindst (dm_fold i status) (\<lambda>kind.
                bindst (whenst (kind \<in> {''refused'', ''selected'', ''ended''}) (modst (\<lambda>s. s\<lparr>dm_pending := None\<rparr>))) (\<lambda>_.
                withst (\<lambda>s. ret (dm_pending s \<noteq> None))))))
             (\<lambda>e. bindst (dm_reports (\<lambda>r. rp_note (i @ '': revision status unavailable; fate unknown'') (mark_unknown i r))) (\<lambda>_.
                bindst (modst (\<lambda>s. s\<lparr>dm_pending := None\<rparr>)) (\<lambda>_. ret False))))
           (\<lambda>e. ret True))"

text \<open>The reason is one of two, and only the first contains \<^verbatim>\<open>released\<close>.\<close>

definition dm_stop :: "string \<Rightarrow> string deadman" where
  "dm_stop reason = withst (\<lambda>s. case dm_session s of None \<Rightarrow> lift (Inl AttributeError)
     | Some ss \<Rightarrow> bindst (dm_close ss reason) (\<lambda>ok.
         if \<not> ok then bindst (dm_reports (rp_note ''STOP NOT CONFIRMED; will retry'')) (\<lambda>_. ret ''stop_failed'')
         else bindst (dm_reports (rp_note reason)) (\<lambda>_.
           ret (if reason = ''deadman released'' then ''released'' else ''expired''))))"

text \<open>
  The step towards a target: where to, and in how long. A \<^verbatim>\<open>None\<close> pose reads as \<open>NaN\<close>. The third component says that the
  move was shortened.
\<close>

definition dm_step :: "fl \<Rightarrow> fl \<Rightarrow> fl \<Rightarrow> vec option \<Rightarrow> vec \<Rightarrow> (vec \<times> fl \<times> bool) result" where
  "dm_step speed timeout min_step q0 target =
     bindr (case q0 of None \<Rightarrow> Inr (map (\<lambda>_. NaN) target) | Some q \<Rightarrow> np_sub target q) (\<lambda>delta.
     bindr (arr_max (vabs delta)) (\<lambda>travel.
     let dt = py_max (travel / speed) min_step;
         long = timeout < dt;
         delta' = (if long then vscale (speed * timeout / travel) delta else delta) in
     bindr (case q0 of None \<Rightarrow> Inr (map (\<lambda>_. NaN) delta') | Some q \<Rightarrow> np_map2 (+) q delta') (\<lambda>goal.
     Inr (goal, if long then timeout else dt, long))))"

datatype dm_sent = DmAnswered string RevisionStatus | DmDeclined "string option" err | DmNoReply "string option" err

text \<open>The \<^verbatim>\<open>try\<close> of \<^verbatim>\<open>command\<close>. A failure before the request id exists sent nothing; after it, a reply may be lost.\<close>

definition dm_attempt :: "StreamSession \<Rightarrow> vec \<Rightarrow> dm_sent deadman" where
  "dm_attempt ss target = withst (\<lambda>s.
     let caught = (\<lambda>rid e. if refusal_error e then ret (DmDeclined rid e) else if infra_error e then ret (DmNoReply rid e) else lift (Inl e)) in
     try_if (\<lambda>e. True)
       (bindst (dm_world arm_state_q) (\<lambda>q0.
        bindst (lift (dm_step (dm_speed s) (dm_timeout s) (dm_min_step s) q0 target)) (\<lambda>(goal, dt, long).
        bindst (whenst long (dm_reports (rp_note ''target limited to one deadman timeout of travel''))) (\<lambda>_.
        bindst (dm_world (request_id ''teleop'')) (\<lambda>rid.
        try_if (\<lambda>e. True)
          (bindst (dm_world (revise ss (dm_ctx s) rid [goal] dt False)) (\<lambda>status. ret (DmAnswered rid status)))
          (caught (Some rid))))))) 
       (caught None))"

text \<open>What follows \<^verbatim>\<open>_settle\<close> in \<^verbatim>\<open>command\<close>.\<close>

definition dm_send :: "StreamSession \<Rightarrow> vec \<Rightarrow> string deadman" where
  "dm_send ss target =
     bindst (dm_attempt ss target) (\<lambda>r. case r of
       DmDeclined rid e \<Rightarrow> bindst (dm_reports (\<lambda>r. r\<lparr>rp_refused := rp_refused r @
           [((case rid of None \<Rightarrow> ''teleop'' | Some i \<Rightarrow> i), err_text e)]\<rparr>)) (\<lambda>_. ret ''refused'')
     | DmNoReply None e \<Rightarrow> bindst (dm_reports (\<lambda>r. r\<lparr>rp_refused := rp_refused r @ [(''teleop'', err_text e)]\<rparr>)) (\<lambda>_. ret ''refused'')
     | DmNoReply (Some rid) e \<Rightarrow>
         bindst (dm_reports (\<lambda>r. rp_note (rid @ '': no reply to the revision; fate unknown'')
           (mark_unknown rid (r\<lparr>rp_requested := rp_requested r @ [rid]\<rparr>)))) (\<lambda>_.
         bindst (modst (\<lambda>s. s\<lparr>dm_pending := Some (rid, rid)\<rparr>)) (\<lambda>_. ret ''unknown''))
     | DmAnswered rid status \<Rightarrow>
         bindst (dm_reports (\<lambda>r. r\<lparr>rp_requested := rp_requested r @ [rid]\<rparr>)) (\<lambda>_.
         bindst (dm_fold rid status) (\<lambda>kind.
         if kind = ''refused'' then ret ''refused''
         else bindst (modst (\<lambda>s. s\<lparr>dm_pending := Some (rid, rid)\<rparr>)) (\<lambda>_. ret ''requested''))))"

definition dm_command :: "vec \<Rightarrow> bool \<Rightarrow> string deadman" where
  "dm_command target held = withst (\<lambda>s. case dm_session s of None \<Rightarrow> ret ''expired'' | Some ss \<Rightarrow>
     if ss_closed ss then ret ''expired''
     else if \<not> held then dm_stop ''deadman released''
     else bindst dm_expired (\<lambda>late.
       if late then dm_stop ''deadman heartbeat expired''
       else bindst dm_heartbeat (\<lambda>_.
         bindst (try_if infra_error (bindst (dm_world arm_stream_state) (\<lambda>v. ret (es_terminal (sv_execution v)))) (\<lambda>e. ret False)) (\<lambda>ended.
         if ended then bindst (modst (\<lambda>s. s\<lparr>dm_session := Some (ss\<lparr>ss_closed := True\<rparr>)\<rparr>)) (\<lambda>_.
           bindst (dm_reports (rp_note ''stream ended by the supervisor'')) (\<lambda>_. ret ''expired''))
         else bindst dm_settle (\<lambda>busy. if busy then ret ''busy''
         else dm_send ss target)))))"

definition dm_tick :: "string option deadman" where
  "dm_tick = withst (\<lambda>s. case dm_session s of None \<Rightarrow> ret None | Some ss \<Rightarrow>
     if ss_closed ss then ret None
     else bindst dm_expired (\<lambda>late. if late then bindst (dm_stop ''deadman heartbeat expired'') (\<lambda>v. ret (Some v)) else ret None))"

section \<open>One step\<close>

lemma fold_np_max_in: "\<not> isnan (fold np_max xs a) \<Longrightarrow> fold np_max xs a \<in> insert a (set xs)"
proof (induction xs arbitrary: a)
  case (Cons x xs)
  then have "fold np_max xs (np_max x a) \<in> insert (np_max x a) (set xs)" by simp
  moreover have "np_max x a \<in> {x, a}" by (simp add: np_max_def)
  ultimately show ?case by auto
qed simp

lemma np_map2_add: "length x = length y \<Longrightarrow> np_map2 (+) x y = Inr (vadd x y)"
  by (simp add: np_map2_def bcast2_def vadd_def)

lemma arr_max_in: "arr_max xs = Inr m \<Longrightarrow> \<not> isnan m \<Longrightarrow> m \<in> set xs"
  using fold_np_max_in by (cases xs) auto

lemma arr_max_dominates: "arr_max xs = Inr (Fin m) \<Longrightarrow> x \<in> set xs \<Longrightarrow> x \<le> Fin m"
  using arr_max_le [of xs "Fin m" "Fin m" x] by simp

lemma fin_sum: "isfinite (x + y) \<Longrightarrow> isfinite x \<and> isfinite y"
  by (cases x; cases y) simp_all

text \<open>A step that stays finite takes a positive time within the timeout and moves no joint faster than the speed on average.\<close>

lemma dm_step_bounded:
  assumes run: "dm_step (Fin v) (Fin T) (Fin m) (Some q) target = Inr (goal, dt, long)" and len: "length q = length target"
    and pos: "0 < v" "0 < T" "0 < m" "m \<le> T" and fin: "all_finite goal"
  shows "length goal = length q \<and> (\<exists>h. dt = Fin h \<and> 0 < h \<and> h \<le> T \<and> (\<forall>j < length q. fabs (goal ! j - q ! j) \<le> Fin (v * h)))"
proof -
  define d where "d = vsub target q"
  have ld: "length d = length q" using len by (simp add: d_def)
  from run obtain tr where tr: "arr_max (vabs d) = Inr tr"
    and rest: "(let dt = py_max (tr / Fin v) (Fin m); long = Fin T < dt; delta' = (if long then vscale (Fin v * Fin T / tr) d else d) in
       bindr (np_map2 (+) q delta') (\<lambda>goal. Inr (goal, if long then Fin T else dt, long))) = Inr (goal, dt, long)"
    unfolding dm_step_def option.case np_sub_eq [OF len [symmetric]] d_def [symmetric] bindr_Inr bindr_eq_Inr by blast
  define big where "big \<longleftrightarrow> Fin T < py_max (tr / Fin v) (Fin m)"
  have "np_map2 (+) q (if big then vscale (Fin v * Fin T / tr) d else d) = Inr (vadd q (if big then vscale (Fin v * Fin T / tr) d else d))"
    using ld by (intro np_map2_add) simp
  with rest have dt: "dt = (if Fin T < py_max (tr / Fin v) (Fin m) then Fin T else py_max (tr / Fin v) (Fin m))"
    and goal: "goal = vadd q (if Fin T < py_max (tr / Fin v) (Fin m) then vscale (Fin v * Fin T / tr) d else d)"
    unfolding Let_def big_def [symmetric] by (simp_all split: if_splits)
  have lg: "length goal = length q" using goal ld by simp
  have g: "isfinite (goal ! j)" if "j < length q" for j using fin that lg by (simp add: all_finite_conv_nth)
  have qf: "isfinite (q ! j)" if "j < length q" for j
    using g [OF that] that ld unfolding goal by (auto dest: fin_sum split: if_splits)
  have dle: "fabs (d ! j) \<le> Fin x" if "j < length q" "tr = Fin x" for j x
    using arr_max_dominates [of "vabs d" x "fabs (d ! j)"] tr that ld by (metis length_map nth_map nth_mem vabs_def)
  show ?thesis
  proof (cases "Fin T < py_max (tr / Fin v) (Fin m)")
    case False
    have df: "isfinite (d ! j)" if "j < length q" for j
      using g [OF that] that ld False unfolding goal by (auto dest: fin_sum)
    then have "all_finite (vabs d)" using ld by (auto simp: all_finite_conv_nth)
    moreover have "vabs d \<noteq> []" using tr by auto
    ultimately obtain x where x: "tr = Fin x" using arr_max_finite tr by force
    let ?h = "max (x / v) m"
    have h: "dt = Fin ?h" "?h \<le> T" using dt False x pos by auto
    have "x \<le> v * ?h" using pos by (simp add: max_def field_simps)
    moreover have "fabs (goal ! j - q ! j) = fabs (d ! j)" if "j < length q" for j
      using that ld False qf [OF that] df [OF that] unfolding goal by (cases "q ! j"; cases "d ! j") auto
    ultimately have "fabs (goal ! j - q ! j) \<le> Fin (v * ?h)" if "j < length q" for j
      using dle [OF that x] fl_le_trans that by force
    with h pos lg show ?thesis by (intro conjI exI [of _ ?h]) auto
  next
    case True
    have "\<not> isnan tr" using True by (cases tr) (auto simp: py_max_def divide_fl_def)
    with tr have "tr \<in> set (vabs d)" by (rule arr_max_in)
    then obtain k where k: "k < length q" "tr = fabs (d ! k)" using ld by (auto simp: in_set_conv_nth vabs_def)
    have c: "isfinite (Fin v * Fin T / tr * d ! j)" if "j < length q" for j
      using g [OF that] that ld True unfolding goal by (auto dest: fin_sum)
    obtain x where x: "tr = Fin x"
      using c [OF k(1)] k(2) by (cases "d ! k") (auto simp: divide_fl_def)
    have "T < max (x / v) m" using True x pos by auto
    then have xT: "T < x / v" using pos by auto
    then have "T * v < x" using pos by (simp add: field_simps)
    then have x0: "0 < x" using mult_pos_pos [OF pos(2,1)] by simp
    have ce: "Fin v * Fin T / tr = Fin (v * T / x)" using x x0 by simp
    have "fabs (goal ! j - q ! j) \<le> Fin (v * T)" if "j < length q" for j
    proof -
      have "isfinite (d ! j)" using c [OF that] x0 pos unfolding ce by (cases "d ! j") auto
      then obtain y where y: "d ! j = Fin y" by (cases "d ! j") auto
      with dle [OF that x] have "\<bar>y\<bar> \<le> x" by simp
      then have "v * T / x * \<bar>y\<bar> \<le> v * T / x * x" using x0 pos by (intro mult_left_mono) auto
      then have "\<bar>v * T / x * y\<bar> \<le> v * T" using x0 pos by (simp add: abs_mult)
      moreover have "goal ! j - q ! j = Fin (v * T / x * y)"
        using that ld True qf [OF that] y ce unfolding goal by (cases "q ! j") auto
      ultimately show ?thesis by simp
    qed
    with True dt pos lg show ?thesis by (intro conjI exI [of _ T]) auto
  qed
qed

section \<open>What a call sends\<close>

text \<open>Actions that send nothing and change no answer.\<close>

definition silent :: "client_world \<Rightarrow> client_world \<Rightarrow> bool" where
  "silent v w \<longleftrightarrow> cw_io w = cw_io v \<and> cw_q w = cw_q v \<and> cw_revision w = cw_revision v"

interpretation hush: guarantee silent
  by unfold_locales (simp_all add: silent_def)

lemma hush_parts:
  "guar silent (ask_arm f)" "guar silent next_proposal_seq" "guar silent (request_id p)"
  by (simp_all add: guar_def ask_arm_def next_proposal_seq_def request_id_def bindst_def run_simps silent_def)

lemma hush_calls: "guar silent arm_stream_state" "guar silent arm_stream_anchor" "guar silent arm_stream_revision" "guar silent arm_state_q"
  "guar silent client_clock"
  unfolding arm_stream_state_def arm_stream_anchor_def arm_stream_revision_def arm_state_q_def client_clock_def by (rule hush_parts)+

text \<open>A revision of one knot: what is sent, if anything is.\<close>

definition one_knot :: "StreamSession \<Rightarrow> vec \<Rightarrow> fl \<Rightarrow> StreamRevision \<Rightarrow> bool" where
  "one_knot ss goal dt rv \<longleftrightarrow> all_finite goal \<and> 0 < dt \<and> sr_execution_id rv = ss_execution_id ss \<and>
     (\<exists>c q. jt_times (sr_suffix rv) = [Fin c, Fin c + dt] \<and> jt_positions (sr_suffix rv) = [q, goal])"

lemma curve_kept: "stream_curve c = Inr c' \<Longrightarrow> c' = c"
  by (auto simp: stream_curve_def mk_JointTrajectory_def split: if_splits option.splits)

lemma revision_kept: "mk_StreamRevision r = Inr r' \<Longrightarrow> r' = r"
  by (auto simp: mk_StreamRevision_def dest!: curve_kept)

lemma revise_sends:
  assumes "revise ss ctx rid [goal] dt False w = (r, w')" and timed: "all_finite goal \<Longrightarrow> isfinite dt"
  shows "cw_io w' = cw_io w \<or> (\<exists>rv. cw_io w' = IoRevise rv # cw_io w \<and> one_knot ss goal dt rv)"
proof (cases "\<not> (1 \<le> length [goal] \<and> length [goal] \<le> MAX_KNOTS) \<or> \<not> list_all all_finite [goal] \<or> \<not> 0 < dt")
  case True
  with assms show ?thesis by (simp add: revise_def lift_def)
next
  case False
  then have ok: "all_finite goal" "0 < dt" by simp_all
  obtain ra w1 where an: "arm_stream_anchor w = (ra, w1)" by (meson surj_pair)
  have io1: "cw_io w1 = cw_io w" using guarD [OF hush_calls(2) an] by (simp add: silent_def)
  show ?thesis
  proof (cases ra)
    case (Inl e)
    with assms False an io1 show ?thesis by (simp add: revise_def)
  next
    case (Inr a)
    have "mk_SpliceAnchor a' = Inr a \<Longrightarrow> isfinite (sa_cut_phase a)" for a' by (auto simp: mk_SpliceAnchor_def)
    then have cut: "isfinite (sa_cut_phase a)"
      using an Inr by (auto simp: arm_stream_anchor_def ask_arm_def dec_def split: sum.splits err.splits)
    then obtain c where c: "sa_cut_phase a = Fin c" by (cases "sa_cut_phase a") auto
    define ts where "ts = map (\<lambda>k. sa_cut_phase a + dt * Fin (real k)) [0..<length [sa_q a, goal]]"
    have ts: "ts = [Fin c, Fin c + dt]" using timed [OF ok(1)] by (cases dt) (simp_all add: ts_def c)
    define vel where "vel = knot_velocities [sa_q a, goal] dt (sa_qd a)"
    obtain sq w2 where sq: "next_proposal_seq w1 = (Inr sq, w2)" and io2: "cw_io w2 = cw_io w"
      using io1 by (simp add: next_proposal_seq_def bindst_def run_simps)
    have step: "revise ss ctx rid [goal] dt False w = (if \<not> rectangular [goal] (length (sa_q a))
          then (Inl (ValueError ''all the input array dimensions except for the concatenation axis must match exactly''), w1)
        else bindst (lift (mk_JointTrajectory ts [sa_q a, goal] (Some vel))) (\<lambda>suffix.
          bindst (lift (mk_StreamRevision
            \<lparr>sr_request_id = rid, sr_execution_id = ss_execution_id ss, sr_proposal_seq = int sq,
             sr_expected_revision = sa_expected_revision a, sr_anchor_id = sa_anchor_id a, sr_scene_token = sx_scene_token ctx,
             sr_suffix = suffix, sr_terminal = False, sr_admit_by = None\<rparr>)) (\<lambda>revision.
          arm_revise_stream revision)) w2)"
      unfolding revise_def if_not_P [OF False] using an Inr sq by (simp add: Let_def ts_def vel_def lift_def)
    show ?thesis
    proof (cases "rectangular [goal] (length (sa_q a))")
      case False
      with step assms io1 show ?thesis by simp
    next
      case True
      with step assms have go: "bindst (lift (mk_JointTrajectory ts [sa_q a, goal] (Some vel))) (\<lambda>suffix.
          bindst (lift (mk_StreamRevision
            \<lparr>sr_request_id = rid, sr_execution_id = ss_execution_id ss, sr_proposal_seq = int sq,
             sr_expected_revision = sa_expected_revision a, sr_anchor_id = sa_anchor_id a, sr_scene_token = sx_scene_token ctx,
             sr_suffix = suffix, sr_terminal = False, sr_admit_by = None\<rparr>)) (\<lambda>revision.
          arm_revise_stream revision)) w2 = (r, w')" by simp
      from go show ?thesis
      proof (cases rule: bindst_cases)
        case (fails e)
        with io2 show ?thesis by (simp add: lift_def)
      next
        case (goes suffix w3)
        then have suf: "jt_times suffix = ts" "jt_positions suffix = [sa_q a, goal]" "w3 = w2"
          by (auto simp: lift_def mk_JointTrajectory_def split: if_splits)
        from goes(2) show ?thesis
        proof (cases rule: bindst_cases)
          case (fails e)
          with io2 suf show ?thesis by (simp add: lift_def)
        next
          case (goes rv w4)
          then have rv: "sr_suffix rv = suffix" "sr_execution_id rv = ss_execution_id ss" "w4 = w2"
            using suf(3) by (auto simp: lift_def dest!: revision_kept)
          have "cw_io w' = IoRevise rv # cw_io w2"
            using goes(2) rv(3) by (auto simp: arm_revise_stream_def bindst_def io_def ask_arm_def modst_def)
          with io2 rv suf ts ok show ?thesis by (auto simp: one_knot_def)
        qed
      qed
    qed
  qed
qed

text \<open>Parts of a call that send nothing and keep the limits.\<close>

definition calm :: "DeadmanTeleop \<Rightarrow> DeadmanTeleop \<Rightarrow> bool" where
  "calm s t \<longleftrightarrow> silent (dm_w s) (dm_w t) \<and> dm_speed t = dm_speed s \<and> dm_timeout t = dm_timeout s \<and> dm_min_step t = dm_min_step s"

interpretation rest: guarantee calm
  by unfold_locales (auto simp: calm_def silent_def)

lemma calm_world: "guar silent m \<Longrightarrow> guar calm (dm_world m)"
  by (auto simp: guar_def dm_world_def calm_def split: prod.split) (metis snd_conv)

lemma calm_set: "(\<And>s. calm s (f s)) \<Longrightarrow> guar calm (modst f)"
  by (rule rest.g_modst)

lemma calm_reports: "guar calm (dm_reports f)"
  unfolding dm_reports_def by (rule calm_set) (simp add: calm_def silent_def)

lemma calm_heartbeat: "guar calm dm_heartbeat"
  unfolding dm_heartbeat_def by (intro rest.g_rules calm_world hush_calls calm_set) (simp add: calm_def silent_def)

lemma calm_expired: "guar calm dm_expired"
  unfolding dm_expired_def by (intro rest.g_rules calm_world hush_calls)

lemma calm_fold: "guar calm (dm_fold i status)"
  unfolding dm_fold_def by (intro rest.g_rules calm_reports)

lemma calm_settle: "guar calm dm_settle"
  unfolding dm_settle_def
  by (intro rest.g_rules rest.g_try_if calm_world hush_calls calm_reports calm_fold calm_set) (simp_all add: calm_def silent_def)


text \<open>The step that a call may send: how long it lasts and how far it goes from a pose that the arm reported.\<close>

definition bounded_step :: "real \<Rightarrow> real \<Rightarrow> vec \<Rightarrow> StreamRevision \<Rightarrow> bool" where
  "bounded_step v T q rv \<longleftrightarrow> (\<exists>c h p goal. jt_times (sr_suffix rv) = [Fin c, Fin (c + h)] \<and> 0 < h \<and> h \<le> T \<and>
     jt_positions (sr_suffix rv) = [p, goal] \<and> length goal = length q \<and> (\<forall>j < length q. fabs (goal ! j - q ! j) \<le> Fin (v * h)))"

definition stepped :: "real \<Rightarrow> real \<Rightarrow> StreamSession \<Rightarrow> DeadmanTeleop \<Rightarrow> DeadmanTeleop \<Rightarrow> bool" where
  "stepped v T ss s t \<longleftrightarrow> (\<exists>rv n q. cw_io (dm_w t) = IoRevise rv # cw_io (dm_w s) \<and> cw_q (dm_w s) n = Inr (Some q) \<and>
     sr_execution_id rv = ss_execution_id ss \<and> bounded_step v T q rv)"

abbreviation may_step :: "real \<Rightarrow> real \<Rightarrow> StreamSession \<Rightarrow> DeadmanTeleop \<Rightarrow> DeadmanTeleop \<Rightarrow> bool" where
  "may_step v T ss s t \<equiv> calm s t \<or> stepped v T ss s t"

lemma may_step_after: "guar calm m \<Longrightarrow> triple (may_step v T ss s) m (\<lambda>_. may_step v T ss s) (may_step v T ss s)"
  by (erule triple_guar) (auto simp: calm_def silent_def stepped_def)

lemma calm_after: "guar calm m \<Longrightarrow> triple (calm s) m (\<lambda>_. calm s) (may_step v T ss s)"
  by (rule triple_conseq [OF triple_guar [where G = calm and P = "calm s" and I = "calm s"]]) (auto elim: rest.chain)

lemma triple_given:
  assumes "\<And>n. A n \<Longrightarrow> triple P m Q E"
  shows "triple (\<lambda>t. P t \<and> (\<exists>n. A n)) m Q E"
proof (cases "\<exists>n. A n")
  case True
  then obtain n where "A n" ..
  then have "triple P m Q E" by (rule assms)
  with True show ?thesis by simp
qed (simp add: triple_def)

lemma pose_read: "triple (calm s) (dm_world arm_state_q) (\<lambda>q0 t. calm s t \<and> (\<exists>n. cw_q (dm_w s) n = Inr q0)) (may_step v T ss s)"
proof -
  have "dec r = Inr q0 \<Longrightarrow> r = Inr q0" for r :: "vec option result" and q0
    by (auto simp: dec_def split: sum.splits err.splits)
  then show ?thesis
    by (fastforce simp: triple_def dm_world_def arm_state_q_def ask_arm_def calm_def silent_def split: sum.splits)
qed

lemma step_of_nothing: "dm_step v T m None target = Inr (goal, dt, long) \<Longrightarrow> \<not> all_finite goal"
  by (cases target) (auto simp: dm_step_def Let_def bindr_eq_Inr all_finite_conv_nth vabs_def split: if_splits)

text \<open>A revision leaves the supervisor's other answers as they are.\<close>

definition same_answers :: "client_world \<Rightarrow> client_world \<Rightarrow> bool" where
  "same_answers v w \<longleftrightarrow> cw_q w = cw_q v \<and> cw_revision w = cw_revision v"

interpretation ans: guarantee same_answers
  by unfold_locales (simp_all add: same_answers_def)

lemma answers_silent: "guar silent m \<Longrightarrow> guar same_answers m"
  by (erule guar_mono) (simp add: silent_def same_answers_def)

lemma revise_answers: "guar same_answers (revise ss ctx rid knots dt final)"
proof -
  have "guar same_answers (io e)" for e by (simp add: io_def guar_def modst_def same_answers_def)
  then show ?thesis
    unfolding revise_def Let_def arm_revise_stream_def
    by (intro ans.g_rules answers_silent [OF hush_parts(1)] answers_silent [OF hush_parts(2)] answers_silent [OF hush_calls(2)])
qed

lemma dm_revise_sends:
  assumes lims: "dm_speed s = Fin v" "dm_timeout s = Fin T" "dm_min_step s = Fin m" "0 < v" "0 < m" "m \<le> T"
    and lens: "\<And>n q. cw_q (dm_w s) n = Inr (Some q) \<Longrightarrow> length q = length target"
    and step: "dm_step (Fin v) (Fin T) (Fin m) q0 target = Inr (goal, dt, long)" and pose: "cw_q (dm_w s) n = Inr q0"
  shows "triple (calm s) (dm_world (revise ss ctx rid [goal] dt False)) (\<lambda>_. may_step v T ss s) (may_step v T ss s)"
proof -
  have fin: "\<exists>q h. q0 = Some q \<and> length goal = length q \<and> dt = Fin h \<and> 0 < h \<and> h \<le> T \<and> (\<forall>j < length q. fabs (goal ! j - q ! j) \<le> Fin (v * h))"
    if "all_finite goal"
  proof -
    obtain q where q: "q0 = Some q" using step step_of_nothing \<open>all_finite goal\<close> by (cases q0) auto
    have "0 < T" using lims by simp
    from dm_step_bounded [OF step [unfolded q] lens [OF pose [unfolded q]] lims(4) this lims(5,6) that] q show ?thesis by blast
  qed
  have "may_step v T ss s (t\<lparr>dm_w := w\<rparr>)"
    if t: "calm s t" and run: "revise ss ctx rid [goal] dt False (dm_w t) = (r, w)" for r t w
  proof (cases "cw_io w = cw_io (dm_w t)")
    case True
    with t guarD [OF revise_answers run] show ?thesis by (auto simp: calm_def silent_def same_answers_def)
  next
    case False
    then obtain rv where rv: "cw_io w = IoRevise rv # cw_io (dm_w t)" "one_knot ss goal dt rv"
      using revise_sends [OF run] fin by fastforce
    then obtain q h where q: "q0 = Some q" "length goal = length q" "dt = Fin h" "0 < h" "h \<le> T"
        "\<forall>j < length q. fabs (goal ! j - q ! j) \<le> Fin (v * h)"
      using fin by (auto simp: one_knot_def)
    from rv(2) q(3) obtain c p where "jt_times (sr_suffix rv) = [Fin c, Fin (c + h)]" "jt_positions (sr_suffix rv) = [p, goal]"
        "sr_execution_id rv = ss_execution_id ss"
      by (auto simp: one_knot_def)
    with q have "bounded_step v T q rv" "sr_execution_id rv = ss_execution_id ss" by (auto simp: bounded_step_def)
    with rv(1) t pose q(1) show ?thesis by (auto simp: stepped_def calm_def silent_def)
  qed
  then show ?thesis by (fastforce simp: triple_def dm_world_def split: prod.splits sum.splits)
qed

lemma dm_attempt_sends:
  assumes lims: "dm_speed s = Fin v" "dm_timeout s = Fin T" "dm_min_step s = Fin m" "0 < v" "0 < m" "m \<le> T"
    and lens: "\<And>n q. cw_q (dm_w s) n = Inr (Some q) \<Longrightarrow> length q = length target"
  shows "triple (calm s) (dm_attempt ss target) (\<lambda>_. may_step v T ss s) (may_step v T ss s)"
proof -
  have caught: "triple (may_step v T ss s) (if refusal_error e then ret (DmDeclined rid e) else if infra_error e then ret (DmNoReply rid e) else lift (Inl e))
      (\<lambda>_. may_step v T ss s) (may_step v T ss s)" for rid e
    by (simp add: triple_def run_simps)
  have go: "triple (\<lambda>t. calm s t \<and> (\<exists>n. cw_q (dm_w s) n = Inr q0))
      (bindst (lift (dm_step (Fin v) (Fin T) (Fin m) q0 target)) (\<lambda>(goal, dt, long).
        bindst (whenst long (dm_reports (rp_note msg))) (\<lambda>_.
        bindst (dm_world (request_id ''teleop'')) (\<lambda>rid.
        try_if (\<lambda>e. True) (bindst (dm_world (revise ss ctx rid [goal] dt False)) (\<lambda>status. ret (DmAnswered rid status)))
          (\<lambda>e. if refusal_error e then ret (DmDeclined (Some rid) e) else if infra_error e then ret (DmNoReply (Some rid) e) else lift (Inl e))))))
      (\<lambda>_. may_step v T ss s) (may_step v T ss s)" for q0 ctx msg
  proof (cases "dm_step (Fin v) (Fin T) (Fin m) q0 target")
    case (Inl e)
    then show ?thesis by (auto simp: triple_def bindst_def run_simps)
  next
    case (Inr g)
    obtain goal dt long where g: "g = (goal, dt, long)" by (metis prod_cases3)
    {
      fix n assume pose: "cw_q (dm_w s) n = Inr q0"
      note send = dm_revise_sends [OF lims lens Inr [unfolded g] pose]
      have "triple (calm s) (bindst (whenst long (dm_reports (rp_note msg))) (\<lambda>_.
          bindst (dm_world (request_id ''teleop'')) (\<lambda>rid.
          try_if (\<lambda>e. True) (bindst (dm_world (revise ss ctx rid [goal] dt False)) (\<lambda>status. ret (DmAnswered rid status)))
            (\<lambda>e. if refusal_error e then ret (DmDeclined (Some rid) e) else if infra_error e then ret (DmNoReply (Some rid) e) else lift (Inl e)))))
          (\<lambda>_. may_step v T ss s) (may_step v T ss s)"
        by (rule triple_bindst calm_after rest.g_whenst calm_reports calm_world hush_parts triple_try_if [OF _ caught] send triple_ret | assumption)+
    }
    then have "triple (\<lambda>t. calm s t \<and> (\<exists>n. cw_q (dm_w s) n = Inr q0)) (bindst (whenst long (dm_reports (rp_note msg))) (\<lambda>_.
          bindst (dm_world (request_id ''teleop'')) (\<lambda>rid.
          try_if (\<lambda>e. True) (bindst (dm_world (revise ss ctx rid [goal] dt False)) (\<lambda>status. ret (DmAnswered rid status)))
            (\<lambda>e. if refusal_error e then ret (DmDeclined (Some rid) e) else if infra_error e then ret (DmNoReply (Some rid) e) else lift (Inl e)))))
          (\<lambda>_. may_step v T ss s) (may_step v T ss s)" by (rule triple_given)
    moreover have "bindst (lift (Inr w)) f = f w" for w :: "vec \<times> fl \<times> bool" and f :: "_ \<Rightarrow> dm_sent deadman"
      by (simp add: bindst_def lift_def fun_eq_iff)
    ultimately show ?thesis unfolding Inr g by simp
  qed
  show ?thesis
    unfolding dm_attempt_def Let_def
  proof (rule triple_withst)
    fix t assume t: "calm s t"
    then have p: "dm_speed t = Fin v" "dm_timeout t = Fin T" "dm_min_step t = Fin m" using lims by (simp_all add: calm_def)
    show "triple (\<lambda>u. u = t) (try_if (\<lambda>e. True)
       (bindst (dm_world arm_state_q) (\<lambda>q0.
        bindst (lift (dm_step (dm_speed t) (dm_timeout t) (dm_min_step t) q0 target)) (\<lambda>(goal, dt, long).
        bindst (whenst long (dm_reports (rp_note ''target limited to one deadman timeout of travel''))) (\<lambda>_.
        bindst (dm_world (request_id ''teleop'')) (\<lambda>rid.
        try_if (\<lambda>e. True)
          (bindst (dm_world (revise ss (dm_ctx t) rid [goal] dt False)) (\<lambda>status. ret (DmAnswered rid status)))
          (\<lambda>e. if refusal_error e then ret (DmDeclined (Some rid) e) else if infra_error e then ret (DmNoReply (Some rid) e) else lift (Inl e)))))))
       (\<lambda>e. if refusal_error e then ret (DmDeclined None e) else if infra_error e then ret (DmNoReply None e) else lift (Inl e)))
      (\<lambda>_. may_step v T ss s) (may_step v T ss s)"
      unfolding p by (rule triple_try_if [OF _ caught], rule triple_bindst, rule triple_conseq [OF pose_read], use t in simp, assumption, assumption, rule go)
  qed
qed

section \<open>What a command may do\<close>

definition dm_open :: "DeadmanTeleop \<Rightarrow> bool" where
  "dm_open s \<longleftrightarrow> (case dm_session s of None \<Rightarrow> False | Some ss \<Rightarrow> \<not> ss_closed ss)"

definition dm_stale :: "DeadmanTeleop \<Rightarrow> bool" where
  "dm_stale s \<longleftrightarrow> (case dm_last_beat s of None \<Rightarrow> False | Some beat \<Rightarrow> dm_timeout s < cw_clock (dm_w s) (cw_n (dm_w s)) - beat)"

text \<open>The previous revision is no longer open: there is none, the supervisor resolved it, or it has no record of it.\<close>

definition dm_settled :: "DeadmanTeleop \<Rightarrow> bool" where
  "dm_settled s \<longleftrightarrow> dm_pending s = None \<or> (\<exists>n. case dec (cw_revision (dm_w s) n) of Inr status \<Rightarrow> resolved status | Inl e \<Rightarrow> supervisor_error e)"

lemma stop_cancels:
  assumes "dm_session s = Some ss" "\<not> ss_closed ss" "dm_stop reason s = (r, t)"
  shows "cw_io (dm_w t) = IoCancel (ss_execution_id ss) reason # cw_io (dm_w s)"
  using assms(2,3)
  by (auto simp: dm_stop_def assms(1) dm_close_def dm_world_def session_close_def try_if_def arm_cancel_def io_def ask_arm_def bindst_def run_simps
      dm_reports_def split: sum.splits if_splits prod.splits)

lemma settle_settles:
  assumes "silent (dm_w s) (dm_w t)" "dm_pending t = dm_pending s" "dm_settle t = (Inr False, u)"
  shows "dm_settled s"
proof (cases "dm_pending s")
  case (Some p)
  obtain i rid where p: "dm_pending t = Some (i, rid)" using assms(2) Some by (cases p) auto
  have rev: "cw_revision (dm_w t) = cw_revision (dm_w s)" using assms(1) by (simp add: silent_def)
  show ?thesis
  proof (cases "dec (cw_revision (dm_w t) (cw_n (dm_w t)))")
    case (Inl e)
    with assms(3) p have "supervisor_error e"
      by (auto simp: dm_settle_def try_if_def bindst_def run_simps dm_world_def arm_stream_revision_def ask_arm_def split: if_splits)
    with Inl rev show ?thesis unfolding dm_settled_def by (metis sum.simps(5))
  next
    case (Inr status)
    have kind: "note_outcome r i status = (r', k) \<Longrightarrow> k = classify status" for r r' k by (auto simp: note_outcome_def Let_def split: if_splits)
    from assms(3) p Inr have "resolved status"
      by (auto simp: dm_settle_def try_if_def bindst_def run_simps dm_world_def arm_stream_revision_def ask_arm_def dm_fold_def dm_reports_def
          resolved_def dest!: kind split: if_splits prod.splits)
    with Inr rev show ?thesis unfolding dm_settled_def by (metis sum.simps(6))
  qed
qed (simp add: dm_settled_def)

text \<open>Parts of a call before the pending revision is looked at.\<close>

definition quiet :: "DeadmanTeleop \<Rightarrow> DeadmanTeleop \<Rightarrow> bool" where
  "quiet s t \<longleftrightarrow> calm s t \<and> dm_pending t = dm_pending s"

interpretation qu: guarantee quiet
  by unfold_locales (auto simp: quiet_def rest.stays intro: rest.chain)

lemma quiet_world: "guar silent m \<Longrightarrow> guar quiet (dm_world m)"
  using calm_world by (fastforce simp: guar_def quiet_def dm_world_def split: prod.split)

lemma quiet_heartbeat: "guar quiet dm_heartbeat"
  unfolding dm_heartbeat_def by (intro qu.g_rules qu.g_modst quiet_world hush_calls) (simp add: quiet_def calm_def silent_def)

definition allowed :: "real \<Rightarrow> real \<Rightarrow> StreamSession \<Rightarrow> DeadmanTeleop \<Rightarrow> DeadmanTeleop \<Rightarrow> bool" where
  "allowed v T ss s t \<longleftrightarrow> calm s t \<or> (dm_settled s \<and> stepped v T ss s t)"

lemma allowed_after: "guar calm m \<Longrightarrow> triple (allowed v T ss s) m (\<lambda>_. allowed v T ss s) (allowed v T ss s)"
  by (erule triple_guar) (auto simp: calm_def silent_def stepped_def allowed_def)

lemma calm_allowed: "guar calm m \<Longrightarrow> triple (\<lambda>t. calm s t \<and> X t) m (\<lambda>_. allowed v T ss s) (allowed v T ss s)"
  by (rule triple_conseq [OF allowed_after]) (auto simp: allowed_def)

lemma quiet_calm: "quiet s t \<Longrightarrow> calm s t"
  by (simp add: quiet_def)

lemma quiet_allowed: "guar quiet m \<Longrightarrow> triple (quiet s) m (\<lambda>_. quiet s) (allowed v T ss s)"
  by (rule triple_conseq [OF triple_guar [where G = quiet and P = "quiet s" and I = "quiet s"]])
    (auto elim: qu.chain simp: allowed_def dest: quiet_calm)

lemma settle_allowed: "triple (quiet s) dm_settle (\<lambda>busy t. calm s t \<and> (busy \<or> dm_settled s)) (allowed v T ss s)"
  unfolding triple_def
proof (intro allI impI)
  fix t assume t: "quiet s t"
  obtain r u where run: "dm_settle t = (r, u)" by (meson surj_pair)
  have u: "calm s u" using t guarD [OF calm_settle run] by (auto simp: quiet_def intro: rest.chain)
  have "dm_settled s" if "r = Inr False"
    using settle_settles [of s t u] t run that by (simp add: quiet_def calm_def)
  with u run show "case dm_settle t of (Inr busy, t) \<Rightarrow> calm s t \<and> (busy \<or> dm_settled s) | (Inl e, t) \<Rightarrow> allowed v T ss s t"
    by (auto simp: allowed_def split: sum.split)
qed

lemma send_allowed:
  assumes lims: "dm_speed s = Fin v" "dm_timeout s = Fin T" "dm_min_step s = Fin m" "0 < v" "0 < m" "m \<le> T"
    and lens: "\<And>n q. cw_q (dm_w s) n = Inr (Some q) \<Longrightarrow> length q = length target"
  shows "triple (\<lambda>t. calm s t \<and> dm_settled s) (dm_send ss target) (\<lambda>_. allowed v T ss s) (allowed v T ss s)"
proof (cases "dm_settled s")
  case True
  have "triple (calm s) (dm_attempt ss target) (\<lambda>_. allowed v T ss s) (allowed v T ss s)"
    unfolding allowed_def using True by (simp add: dm_attempt_sends [OF lims, of target] lens)
  moreover have "guar calm (case r of
       DmDeclined rid e \<Rightarrow> bindst (dm_reports (\<lambda>r. r\<lparr>rp_refused := rp_refused r @
           [((case rid of None \<Rightarrow> ''teleop'' | Some i \<Rightarrow> i), err_text e)]\<rparr>)) (\<lambda>_. ret ''refused'')
     | DmNoReply None e \<Rightarrow> bindst (dm_reports (\<lambda>r. r\<lparr>rp_refused := rp_refused r @ [(''teleop'', err_text e)]\<rparr>)) (\<lambda>_. ret ''refused'')
     | DmNoReply (Some rid) e \<Rightarrow>
         bindst (dm_reports (\<lambda>r. rp_note (rid @ '': no reply to the revision; fate unknown'')
           (mark_unknown rid (r\<lparr>rp_requested := rp_requested r @ [rid]\<rparr>)))) (\<lambda>_.
         bindst (modst (\<lambda>s. s\<lparr>dm_pending := Some (rid, rid)\<rparr>)) (\<lambda>_. ret ''unknown''))
     | DmAnswered rid status \<Rightarrow>
         bindst (dm_reports (\<lambda>r. r\<lparr>rp_requested := rp_requested r @ [rid]\<rparr>)) (\<lambda>_.
         bindst (dm_fold rid status) (\<lambda>kind.
         if kind = ''refused'' then ret ''refused''
         else bindst (modst (\<lambda>s. s\<lparr>dm_pending := Some (rid, rid)\<rparr>)) (\<lambda>_. ret ''requested''))))" for r
    by (cases r) (simp only: dm_sent.case, (intro rest.g_rules calm_reports calm_fold calm_set; simp add: calm_def silent_def)+)+
  ultimately show ?thesis
    unfolding dm_send_def by (rule triple_conseq [OF triple_bindst [OF _ allowed_after]]) simp_all
qed (simp add: triple_def)

lemma held_allowed:
  assumes lims: "dm_speed s = Fin v" "dm_timeout s = Fin T" "dm_min_step s = Fin m" "0 < v" "0 < m" "m \<le> T"
    and lens: "\<And>n q. cw_q (dm_w s) n = Inr (Some q) \<Longrightarrow> length q = length target"
  shows "triple (quiet s) (bindst dm_heartbeat (\<lambda>_.
         bindst (try_if infra_error (bindst (dm_world arm_stream_state) (\<lambda>v. ret (es_terminal (sv_execution v)))) (\<lambda>e. ret False)) (\<lambda>ended.
         if ended then bindst (modst (\<lambda>s. s\<lparr>dm_session := Some (ss\<lparr>ss_closed := True\<rparr>)\<rparr>)) (\<lambda>_.
           bindst (dm_reports (rp_note ''stream ended by the supervisor'')) (\<lambda>_. ret ''expired''))
         else bindst dm_settle (\<lambda>busy. if busy then ret ''busy''
         else dm_send ss target)))) (\<lambda>_. allowed v T ss s) (allowed v T ss s)"
proof -
  have view: "guar quiet (try_if infra_error (bindst (dm_world arm_stream_state) (\<lambda>v. ret (es_terminal (sv_execution v)))) (\<lambda>e. ret False))"
    by (intro qu.g_rules qu.g_try_if quiet_world hush_calls)
  have ended: "guar calm (bindst (modst (\<lambda>s. s\<lparr>dm_session := Some (ss\<lparr>ss_closed := True\<rparr>)\<rparr>)) (\<lambda>_.
      bindst (dm_reports (rp_note ''stream ended by the supervisor'')) (\<lambda>_. ret ''expired'')))"
    by (intro rest.g_rules calm_reports calm_set) (simp add: calm_def silent_def)
  have sent: "triple (\<lambda>t. calm s t \<and> (busy \<or> dm_settled s)) (if busy then ret ''busy'' else dm_send ss target)
      (\<lambda>_. allowed v T ss s) (allowed v T ss s)" for busy
    using send_allowed [OF lims, of target ss] lens by (cases busy) (simp_all add: triple_ret allowed_def)
  have go: "triple (quiet s) (if ended then bindst (modst (\<lambda>s. s\<lparr>dm_session := Some (ss\<lparr>ss_closed := True\<rparr>)\<rparr>)) (\<lambda>_.
        bindst (dm_reports (rp_note ''stream ended by the supervisor'')) (\<lambda>_. ret ''expired''))
      else bindst dm_settle (\<lambda>busy. if busy then ret ''busy'' else dm_send ss target)) (\<lambda>_. allowed v T ss s) (allowed v T ss s)" for ended
    using triple_bindst [OF settle_allowed sent] triple_conseq [OF calm_allowed [OF ended, of s "\<lambda>_. True"], of "quiet s"] quiet_calm
    by (cases ended) simp_all
  show ?thesis
    by (rule triple_bindst [OF quiet_allowed [OF quiet_heartbeat] triple_bindst [OF quiet_allowed [OF view] go]])
qed

lemma expired_read:
  assumes "dm_session s = Some ss"
  shows "dm_expired s = (case dm_last_beat s of None \<Rightarrow> Inl TypeError | Some _ \<Rightarrow> Inr (dm_stale s),
    s\<lparr>dm_w := dm_w s\<lparr>cw_n := Suc (cw_n (dm_w s))\<rparr>\<rparr>)"
  using assms by (simp add: dm_expired_def dm_stale_def dm_world_def client_clock_def ask_arm_def bindst_def run_simps split: option.split)

lemma command_cases:
  assumes run: "dm_command target held s = (r, t)" and ss: "dm_session s = Some ss" "\<not> ss_closed ss"
    and lims: "dm_speed s = Fin v" "dm_timeout s = Fin T" "dm_min_step s = Fin m" "0 < v" "0 < m" "m \<le> T"
    and lens: "\<And>n q. cw_q (dm_w s) n = Inr (Some q) \<Longrightarrow> length q = length target"
  shows "if \<not> held \<or> dm_stale s then \<exists>reason. cw_io (dm_w t) = IoCancel (ss_execution_id ss) reason # cw_io (dm_w s) else allowed v T ss s t"
proof (cases held)
  case False
  with run ss have "dm_stop ''deadman released'' s = (r, t)" by (simp add: dm_command_def withst_def)
  from stop_cancels [OF ss this] False show ?thesis by auto
next
  case True
  define s1 where "s1 = s\<lparr>dm_w := dm_w s\<lparr>cw_n := Suc (cw_n (dm_w s))\<rparr>\<rparr>"
  have s1: "quiet s s1" "dm_session s1 = Some ss" "cw_io (dm_w s1) = cw_io (dm_w s)"
    using ss by (simp_all add: s1_def quiet_def calm_def silent_def)
  show ?thesis
  proof (cases "dm_last_beat s")
    case None
    with run ss True have "t = s1" by (simp add: dm_command_def withst_def expired_read s1_def bindst_def)
    with s1 None True show ?thesis by (simp add: allowed_def quiet_calm dm_stale_def)
  next
    case (Some beat)
    show ?thesis
    proof (cases "dm_stale s")
      case stale: True
      with run ss True Some have "dm_stop ''deadman heartbeat expired'' s1 = (r, t)"
        by (simp add: dm_command_def withst_def expired_read s1_def bindst_def)
      from stop_cancels [OF s1(2) ss(2) this] s1(3) stale show ?thesis by auto
    next
      case fresh: False
      note tail = held_allowed [OF lims, of target ss, OF lens]
      from run ss True Some fresh tripleD [OF tail s1(1)] have "allowed v T ss s t"
        by (cases r) (simp_all add: dm_command_def withst_def expired_read s1_def [symmetric] bindst_def [of dm_expired])
      with True fresh show ?thesis by simp
    qed
  qed
qed

section \<open>The property\<close>

text \<open>
  C14: One call of \<^verbatim>\<open>DeadmanTeleop.command\<close>, whatever the supervisor answers and whether or not the call raises. If
  the stream is open and the deadman is released, or its last heartbeat is older than the timeout, the call asks the
  supervisor to cancel that stream and sends nothing else. In every other case it sends nothing, or it sends exactly one
  revision, and then: the stream is open, the previous revision is settled, the revision goes to the stream's own
  execution, its suffix has one step that takes a positive time of at most the deadman timeout, and the end of the step
  is within speed times that duration of a pose that the arm reported, in every joint.
\<close>

theorem deadman_commits_one_timeout:
  assumes "dm_command target held s = (r, t)"
    and "dm_speed s = Fin v" "dm_timeout s = Fin T" "dm_min_step s = Fin m" "0 < v" "0 < m" "m \<le> T"
    and "\<forall>n q. cw_q (dm_w s) n = Inr (Some q) \<longrightarrow> length q = length target"
  shows "if dm_open s \<and> (\<not> held \<or> dm_stale s)
    then \<exists>reason. cw_io (dm_w t) = IoCancel (ss_execution_id (the (dm_session s))) reason # cw_io (dm_w s)
    else cw_io (dm_w t) = cw_io (dm_w s) \<or>
      (dm_open s \<and> dm_settled s \<and> (\<exists>rv n q. cw_io (dm_w t) = IoRevise rv # cw_io (dm_w s) \<and> cw_q (dm_w s) n = Inr (Some q) \<and>
         sr_execution_id rv = ss_execution_id (the (dm_session s)) \<and> bounded_step v T q rv))"
proof (cases "dm_open s")
  case True
  then obtain ss where ss: "dm_session s = Some ss" "\<not> ss_closed ss" by (auto simp: dm_open_def split: option.splits)
  from command_cases [OF assms(1) ss assms(2-7)] assms(8) True ss(1) show ?thesis
    by (auto simp: allowed_def calm_def silent_def stepped_def split: if_splits)
next
  case False
  with assms(1) have "t = s" by (auto simp: dm_open_def dm_command_def run_simps split: option.splits)
  with False show ?thesis by simp
qed

section \<open>A run\<close>

definition demo_deadman :: DeadmanTeleop where
  "demo_deadman = \<lparr>dm_w = demo_world, dm_ctx = demo_context, dm_timeout = 1, dm_speed = 1, dm_min_step = Fin (1 / 2), dm_hold_s = 2,
     dm_session = Some \<lparr>ss_execution_id = ''e'', ss_closed = False, ss_last_error = None\<rparr>, dm_last_beat = Some 0, dm_report = mk_Report,
     dm_pending = None\<rparr>"

lemma demo_teleop_id:
  "mk_StreamRevision (demo_revision\<lparr>sr_request_id := ''teleop.1''\<rparr>) = Inr (demo_revision\<lparr>sr_request_id := ''teleop.1''\<rparr>)"
  by (simp add: mk_StreamRevision_def demo_revision_def stream_sequence_def stream_text_def stream_curve_def mk_JointTrajectory_def rectangular_def
      mat_cols_def same_shape_def num_joints_def traj_finite_def mk_TrajectoryRequest_def check_identifier_def id_ok_def
      id_char_def instance_char_def char_between_def)

lemma demo_step: "dm_step 1 1 (Fin (1 / 2)) (Some [0]) [1] = Inr ([1], 1, False)"
  by (simp add: dm_step_def Let_def np_sub_def np_map2_def bcast2_def vabs_def vsub_def vadd_def)

lemma demo_deadman_attempt:
  "dm_attempt \<lparr>ss_execution_id = ''e'', ss_closed = False, ss_last_error = None\<rparr> [1] (demo_deadman\<lparr>dm_w := demo_world\<lparr>cw_n := 3\<rparr>\<rparr>) =
     (Inr (DmAnswered ''teleop.1'' demo_status), demo_deadman\<lparr>dm_w := demo_world\<lparr>cw_n := 6, cw_request_id := 1, cw_proposal_seq := 1,
        cw_io := [IoRevise (demo_revision\<lparr>sr_request_id := ''teleop.1''\<rparr>)]\<rparr>\<rparr>)"
proof -
  define s1 where "s1 = demo_deadman\<lparr>dm_w := demo_world\<lparr>cw_n := 4\<rparr>\<rparr>"
  define s2 where "s2 = demo_deadman\<lparr>dm_w := demo_world\<lparr>cw_n := 4, cw_request_id := 1\<rparr>\<rparr>"
  have q: "dm_world arm_state_q (demo_deadman\<lparr>dm_w := demo_world\<lparr>cw_n := 3\<rparr>\<rparr>) = (Inr (Some [0]), s1)"
    by (simp add: dm_world_def arm_state_q_def ask_arm_def demo_world_def dec_def s1_def)
  have rid: "dm_world (request_id ''teleop'') s1 = (Inr ''teleop.1'', s2)"
    using demo_digits(1) by (simp add: dm_world_def request_id_def bindst_def run_simps s1_def s2_def demo_world_def)
  have limits: "dm_speed demo_deadman = 1" "dm_timeout demo_deadman = 1" "dm_min_step demo_deadman = Fin (1 / 2)" "dm_ctx demo_deadman = demo_context"
    by (simp_all add: demo_deadman_def)
  have rv: "dm_world (revise \<lparr>ss_execution_id = ''e'', ss_closed = False, ss_last_error = None\<rparr> demo_context ''teleop.1'' [[1]] 1 False) s2 =
      (Inr demo_status, demo_deadman\<lparr>dm_w := demo_world\<lparr>cw_n := 6, cw_request_id := 1, cw_proposal_seq := 1,
        cw_io := [IoRevise (demo_revision\<lparr>sr_request_id := ''teleop.1''\<rparr>)]\<rparr>\<rparr>)"
    unfolding dm_world_def by (subst demo_revise) (simp_all add: s2_def demo_teleop_id, simp_all add: demo_world_def)
  show ?thesis
    by (simp add: dm_attempt_def Let_def try_if_def bindst_def run_simps q rid demo_step limits rv del: fl_0 fl_1 One_nat_def)
qed

lemma demo_deadman_sends:
  "cw_io (dm_w (snd (dm_command [1] True demo_deadman))) = [IoRevise (demo_revision\<lparr>sr_request_id := ''teleop.1''\<rparr>)]"
proof -
  have ex: "dm_expired demo_deadman = (Inr False, demo_deadman\<lparr>dm_w := demo_world\<lparr>cw_n := 1\<rparr>\<rparr>)"
    by (simp add: dm_expired_def dm_world_def client_clock_def ask_arm_def bindst_def run_simps demo_deadman_def demo_world_def)
  have hb: "dm_heartbeat (demo_deadman\<lparr>dm_w := demo_world\<lparr>cw_n := 1\<rparr>\<rparr>) = (Inr (), demo_deadman\<lparr>dm_w := demo_world\<lparr>cw_n := 2\<rparr>\<rparr>)"
    by (simp add: dm_heartbeat_def dm_world_def client_clock_def ask_arm_def bindst_def run_simps demo_deadman_def demo_world_def)
  have view: "dm_world arm_stream_state (demo_deadman\<lparr>dm_w := demo_world\<lparr>cw_n := 2\<rparr>\<rparr>) = (Inr demo_view, demo_deadman\<lparr>dm_w := demo_world\<lparr>cw_n := 3\<rparr>\<rparr>)"
    by (simp add: dm_world_def arm_stream_state_def ask_arm_def demo_deadman_def demo_world_def dec_def)
  have busy: "dm_settle (demo_deadman\<lparr>dm_w := demo_world\<lparr>cw_n := 3\<rparr>\<rparr>) = (Inr False, demo_deadman\<lparr>dm_w := demo_world\<lparr>cw_n := 3\<rparr>\<rparr>)"
    by (simp add: dm_settle_def run_simps demo_deadman_def)
  have "es_terminal (sv_execution demo_view) = False" by (simp add: demo_view_def es_terminal_def)
  moreover have "dm_session demo_deadman = Some \<lparr>ss_execution_id = ''e'', ss_closed = False, ss_last_error = None\<rparr>" by (simp add: demo_deadman_def)
  moreover have "classify demo_status = ''pending''" by (simp add: classify_def demo_status_def)
  ultimately show ?thesis
    by (simp add: dm_command_def withst_def bindst_def ex hb try_if_def view ret_def busy dm_send_def demo_deadman_attempt dm_reports_def modst_def
        dm_fold_def note_outcome_def del: One_nat_def fl_1)
qed

theorem deadman_commits_one_timeout_witness:
  "\<exists>rv q. cw_io (dm_w (snd (dm_command [1] True demo_deadman))) = [IoRevise rv] \<and> sr_execution_id rv = ''e'' \<and> length q = 1 \<and> bounded_step 1 1 q rv"
proof -
  obtain r t where run: "dm_command [1] True demo_deadman = (r, t)" by (meson surj_pair)
  then have io: "cw_io (dm_w t) = [IoRevise (demo_revision\<lparr>sr_request_id := ''teleop.1''\<rparr>)]" using demo_deadman_sends by simp
  have lims: "dm_speed demo_deadman = Fin 1" "dm_timeout demo_deadman = Fin 1" "dm_min_step demo_deadman = Fin (1 / 2)"
    "dm_open demo_deadman" "\<not> dm_stale demo_deadman" "cw_io (dm_w demo_deadman) = []" "dm_session demo_deadman = Some \<lparr>ss_execution_id = ''e'', ss_closed = False, ss_last_error = None\<rparr>"
    by (simp_all add: demo_deadman_def dm_open_def dm_stale_def demo_world_def)
  have q: "\<forall>n q. cw_q (dm_w demo_deadman) n = Inr (Some q) \<longrightarrow> length q = length [1 :: fl]"
    by (auto simp: demo_deadman_def demo_world_def)
  from deadman_commits_one_timeout [OF run lims(1-3) _ _ _ q] lims(4-7) io
  obtain rv n q where "cw_io (dm_w t) = [IoRevise rv]" "cw_q (dm_w demo_deadman) n = Inr (Some q)" "sr_execution_id rv = ''e''" "bounded_step 1 1 q rv"
    by auto
  moreover from this(2) have "length q = 1" using q by simp
  ultimately show ?thesis using run by auto
qed

end
