(* ===== verification/Hand.thy ===== *)
theory Hand
  imports Handlers Floats
begin

text \<open>
  \<^verbatim>\<open>arm_control/end_effectors/franka_hand.py\<close> and \<^verbatim>\<open>hand_move.py\<close>: the envelope a gripper states, how a request is
  checked against it, and the two state machines that turn what the Hand reports into the result of a request.
\<close>

section \<open>Values of a request\<close>

text \<open>
  A value of a decoded JSON or YAML document, numbers in the range of a double. A number and a container carry the text
  that \<^verbatim>\<open>str()\<close> gives.
\<close>

datatype jval = JStr string | JNum fl string | JBool bool | JNull | JBox string

type_synonym jdict = "(string \<times> jval) list"

fun py_str :: "jval \<Rightarrow> string" where
  "py_str (JStr s) = s"
| "py_str (JNum x s) = s"
| "py_str (JBool b) = (if b then ''True'' else ''False'')"
| "py_str JNull = ''None''"
| "py_str (JBox s) = s"

fun truthy :: "jval \<Rightarrow> bool" where
  "truthy (JStr s) \<longleftrightarrow> s \<noteq> []"
| "truthy (JNum x _) \<longleftrightarrow> \<not> feq x 0"
| "truthy (JBool b) \<longleftrightarrow> b"
| "truthy JNull \<longleftrightarrow> False"
| "truthy (JBox s) \<longleftrightarrow> s \<notin> {''[]'', ''{}''}"

text \<open>A float compared with a value.\<close>

fun jeq :: "fl \<Rightarrow> jval \<Rightarrow> bool" where
  "jeq x (JNum y _) = feq x y"
| "jeq x (JBool b) = feq x (if b then 1 else 0)"
| "jeq x _ = False"

definition jget :: "jdict \<Rightarrow> string \<Rightarrow> jval \<Rightarrow> jval" where
  "jget d k v = (case map_of d k of None \<Rightarrow> v | Some w \<Rightarrow> w)"

definition jtruthy :: "jdict \<Rightarrow> string \<Rightarrow> bool" where
  "jtruthy d k = truthy (jget d k JNull)"

section \<open>The envelope\<close>

record HandLimits =
  width_max_m :: fl
  speed_max_mps :: fl
  force_min_n :: fl
  force_max_n :: fl

definition force_grasp :: "HandLimits \<Rightarrow> bool" where
  "force_grasp lm \<longleftrightarrow> 0 < force_max_n lm"

definition FRANKA_HAND :: HandLimits where
  "FRANKA_HAND = \<lparr>width_max_m = Fin (8 / 100), speed_max_mps = Fin (1 / 10), force_min_n = 30, force_max_n = 70\<rparr>"

text \<open>A word of a received line, with what \<^verbatim>\<open>int()\<close> and \<^verbatim>\<open>float()\<close> read from it (\<open>None\<close>: they raise \<^verbatim>\<open>ValueError\<close>).\<close>

record wire_word =
  w_text :: string
  w_int :: "int option"
  w_float :: "fl option"

definition word_int :: "wire_word \<Rightarrow> int result" where
  "word_int w = (case w_int w of None \<Rightarrow> Inl (ValueError ''invalid literal for int()'') | Some i \<Rightarrow> Inr i)"

definition word_float :: "wire_word \<Rightarrow> fl result" where
  "word_float w = (case w_float w of None \<Rightarrow> Inl (ValueError ''could not convert string to float'') | Some x \<Rightarrow> Inr x)"

definition limits_ok :: "HandLimits \<Rightarrow> bool" where
  "limits_ok lm \<longleftrightarrow> isfinite (width_max_m lm) \<and> isfinite (speed_max_mps lm) \<and> isfinite (force_min_n lm) \<and> isfinite (force_max_n lm) \<and>
     0 < width_max_m lm \<and> 0 < speed_max_mps lm \<and> 0 \<le> force_min_n lm \<and> force_min_n lm \<le> force_max_n lm"

definition parse_limits :: "wire_word list \<Rightarrow> HandLimits result" where
  "parse_limits parts =
     bindr (ensure (length parts = 5 \<and> map w_text (take 1 parts) = [''LIMITS'']) (ValueError ''LIMITS needs width_max speed_max force_min force_max'')) (\<lambda>_.
     bindr (mapr word_float (drop 1 parts)) (\<lambda>v.
     let lm = \<lparr>width_max_m = v ! 0, speed_max_mps = v ! 1, force_min_n = v ! 2, force_max_n = v ! 3\<rparr> in
     bindr (ensure (limits_ok lm) (ValueError ''invalid hand limits'')) (\<lambda>_. Inr lm)))"

definition require_force_grasp :: "HandLimits \<Rightarrow> string \<Rightarrow> unit result" where
  "require_force_grasp lm mode = ensure (\<not> (mode = ''close'' \<and> \<not> force_grasp lm))
     (ValueError ''this gripper has no calibrated force grasp (GRASP refused until its force map is measured)'')"

record grasp_parameters =
  gp_width_m :: fl
  gp_force_n :: fl
  gp_speed_mps :: fl
  gp_epsilon_inner_m :: fl
  gp_epsilon_outer_m :: fl
  gp_open_width_m :: fl

text \<open>One round of the loop that checks the resolved values.\<close>

definition check_number :: "string \<Rightarrow> bool \<Rightarrow> fl \<Rightarrow> fl \<Rightarrow> jval \<Rightarrow> fl result" where
  "check_number key positive low high v = (case v of
     JNum x _ \<Rightarrow> if isfinite x \<and> low \<le> x \<and> x \<le> high \<and> \<not> (positive \<and> feq x 0) then Inr x else Inl (ValueError (key @ '' must be finite numeric''))
   | _ \<Rightarrow> Inl (ValueError (key @ '' must be finite numeric'')))"

definition resolve_grasp_parameters :: "jdict \<Rightarrow> jdict \<Rightarrow> HandLimits \<Rightarrow> grasp_parameters result" where
  "resolve_grasp_parameters config payload lm =
     (let mode = jget payload ''mode'' (JStr ''close'');
          open_width = jget config ''open_width_m'' (JNum (Fin (75 / 1000)) ''0.075'');
          speed = jget config ''speed_mps'' (JNum (Fin (5 / 100)) ''0.05'');
          stroke = (\<lambda>key v. check_number key False 0 (width_max_m lm) (jget payload key v)) in
      bindr (ensure (mode \<in> {JStr ''close'', JStr ''release''}) (ValueError ''mode must be close or release'')) (\<lambda>_.
      bindr (stroke ''width_m'' (if mode = JStr ''release'' then open_width else jget config ''grasp_width_m'' (JNum (Fin (45 / 1000)) ''0.045''))) (\<lambda>width.
      bindr (if \<not> force_grasp lm then Inr 0
             else check_number ''force_n'' False (force_min_n lm) (force_max_n lm) (jget payload ''force_n'' (jget config ''force_n'' (JNum 40 ''40.0'')))) (\<lambda>force.
      bindr (check_number ''speed_mps'' True 0 (speed_max_mps lm) (jget payload ''speed_mps'' speed)) (\<lambda>sp.
      bindr (stroke ''epsilon_inner_m'' (jget config ''epsilon_inner_m'' (JNum (Fin (2 / 100)) ''0.02''))) (\<lambda>inner.
      bindr (stroke ''epsilon_outer_m'' (jget config ''epsilon_outer_m'' (JNum (Fin (2 / 100)) ''0.02''))) (\<lambda>outer.
      bindr (stroke ''open_width_m'' open_width) (\<lambda>open_w.
      bindr (ensure (\<not> (mode = JStr ''release'' \<and> (\<not> jeq width open_width \<or> \<not> jeq sp speed)))
        (ValueError ''release must use configured open width and speed'')) (\<lambda>_.
      Inr \<lparr>gp_width_m = width, gp_force_n = force, gp_speed_mps = sp, gp_epsilon_inner_m = inner, gp_epsilon_outer_m = outer,
           gp_open_width_m = open_w\<rparr>)))))))))"

definition GRASP_TIMEOUT_S :: fl where
  "GRASP_TIMEOUT_S = 8"

section \<open>What a request gets back\<close>

record grasp_result =
  gr_request_id :: string
  gr_target_id :: string
  gr_ok :: bool
  gr_reason :: string

text \<open>The state a bridge client reports (\<^verbatim>\<open>snapshot\<close>), the keys that may be missing as options.\<close>

record hand_state =
  hs_width :: "fl option"
  hs_is_grasped :: "bool option"
  hs_available :: bool
  hs_busy :: bool
  hs_measured :: bool
  hs_sample_seq :: int
  hs_force_grasp :: bool
  hs_active_stop :: bool
  hs_limits :: HandLimits

abbreviation holds_object :: "hand_state \<Rightarrow> bool" where
  "holds_object s \<equiv> hs_is_grasped s = Some True"

section \<open>Grasps\<close>

record grasp_op =
  go_request_id :: string
  go_target_id :: string
  go_deadline :: fl
  go_gdone_base :: int
  go_mode :: jval
  go_width_m :: fl

record HandGraspFsm =
  hg_measured_completion :: bool
  hg_config :: jdict
  hg_limits :: HandLimits
  hg_parameters :: grasp_parameters
  hg_pending :: "grasp_op option"
  hg_held :: "grasp_op option"
  hg_held_seen_grasped :: bool

text \<open>
  The attributes \<^verbatim>\<open>grasp_width_m\<close>, \<^verbatim>\<open>speed_mps\<close>, \<dots> of the constructor repeat the parameters that it has just checked.
\<close>

definition mk_HandGraspFsm :: "jdict \<Rightarrow> bool \<Rightarrow> HandGraspFsm result" where
  "mk_HandGraspFsm cfg measured_completion =
     bindr (resolve_grasp_parameters cfg [] FRANKA_HAND) (\<lambda>p.
     Inr \<lparr>hg_measured_completion = measured_completion, hg_config = cfg, hg_limits = FRANKA_HAND, hg_parameters = p, hg_pending = None,
          hg_held = None, hg_held_seen_grasped = False\<rparr>)"

definition awaiting_result :: "HandGraspFsm \<Rightarrow> bool" where
  "awaiting_result f \<longleftrightarrow> hg_pending f \<noteq> None"

definition op_result :: "grasp_op \<Rightarrow> bool \<Rightarrow> string \<Rightarrow> grasp_result" where
  "op_result p ok reason = \<lparr>gr_request_id = go_request_id p, gr_target_id = go_target_id p, gr_ok = ok, gr_reason = reason\<rparr>"

definition on_request :: "jdict \<Rightarrow> int \<Rightarrow> fl \<Rightarrow> HandGraspFsm \<Rightarrow> (string option \<times> grasp_result option) \<times> HandGraspFsm" where
  "on_request payload gdone_count now f =
     (let rid = py_str (jget payload ''request_id'' (JStr []));
          tid = py_str (jget payload ''target_id'' (JStr []));
          mode = jget payload ''mode'' (JStr ''close'') in
      case bindr (require_force_grasp (hg_limits f) (py_str mode)) (\<lambda>_. resolve_grasp_parameters (hg_config f) payload (hg_limits f)) of
        Inl e \<Rightarrow> ((None, Some \<lparr>gr_request_id = rid, gr_target_id = tid, gr_ok = False, gr_reason = err_text e\<rparr>), f)
      | Inr p \<Rightarrow>
          let f1 = f\<lparr>hg_parameters := p\<rparr> in
          if py_str mode = ''release'' \<and> \<not> hg_measured_completion f
          then ((Some ''open'', Some \<lparr>gr_request_id = rid, gr_target_id = tid, gr_ok = True, gr_reason = ''released''\<rparr>),
                f1\<lparr>hg_pending := None, hg_held := None\<rparr>)
          else ((Some (if mode = JStr ''release'' then ''open'' else ''grasp''), None),
                f1\<lparr>hg_pending := Some \<lparr>go_request_id = rid, go_target_id = tid, go_deadline = now + GRASP_TIMEOUT_S, go_gdone_base = gdone_count,
                    go_mode = mode, go_width_m = gp_width_m p\<rparr>, hg_held := None\<rparr>))"

definition hg_fail :: "string \<Rightarrow> string option \<Rightarrow> HandGraspFsm \<Rightarrow> grasp_result option \<times> HandGraspFsm" where
  "hg_fail reason request_id f =
     (let p = (case hg_pending f of None \<Rightarrow> hg_held f | Some p \<Rightarrow> Some p) in
      if request_id \<noteq> None \<and> (case p of None \<Rightarrow> True | Some q \<Rightarrow> Some (go_request_id q) \<noteq> request_id) then (None, f)
      else (case p of None \<Rightarrow> None | Some q \<Rightarrow> Some (op_result q False reason), f\<lparr>hg_pending := None, hg_held := None\<rparr>))"

definition hg_held_by :: "grasp_op \<Rightarrow> bool \<Rightarrow> HandGraspFsm \<Rightarrow> HandGraspFsm" where
  "hg_held_by p seen f = f\<lparr>hg_held := Some p, hg_held_seen_grasped := seen\<rparr>"

text \<open>A pending request whose completion must be measured.\<close>

definition poll_measured :: "grasp_op \<Rightarrow> hand_state option \<Rightarrow> int \<Rightarrow> bool \<Rightarrow> fl \<Rightarrow> int \<Rightarrow> HandGraspFsm \<Rightarrow> grasp_result option result \<times> HandGraspFsm" where
  "poll_measured p state gdone_count gdone_ok now done_seq f =
     (let late = (if go_deadline p \<le> now then map_prod Inr id (hg_fail ''hand action completion/measurement timeout'' None f) else (Inr None, f)) in
      if gdone_count \<le> go_gdone_base p then late
      else if \<not> gdone_ok then map_prod Inr id (hg_fail ''hand action failed'' None f)
      else case state of None \<Rightarrow> late
        | Some s \<Rightarrow>
            if \<not> (hs_measured s \<and> \<not> hs_busy s \<and> done_seq < hs_sample_seq s) then late
            else
              let release = (go_mode p = JStr ''release'') in
              case (if \<not> release then Inr (holds_object s)
                    else if holds_object s then Inr False
                    else case hs_width s of None \<Rightarrow> Inl KeyError | Some w \<Rightarrow> Inr (fabs (w - go_width_m p) \<le> Fin (1 / 1000))) of
                Inl e \<Rightarrow> (Inl e, f)
              | Inr ok \<Rightarrow>
                  if \<not> ok then map_prod Inr id (hg_fail ''measured Hand state does not confirm action'' None f)
                  else
                    let f1 = f\<lparr>hg_pending := None\<rparr> in
                    (Inr (Some (op_result p True (if release then ''released'' else ''grasped''))), if release then f1 else hg_held_by p True f1))"

definition poll_verdict :: "grasp_op \<Rightarrow> hand_state option \<Rightarrow> int \<Rightarrow> bool \<Rightarrow> fl \<Rightarrow> HandGraspFsm \<Rightarrow> grasp_result option \<times> HandGraspFsm" where
  "poll_verdict p state gdone_count gdone_ok now f =
     (let f1 = f\<lparr>hg_pending := None\<rparr> in
      if go_gdone_base p < gdone_count then
        (if gdone_ok then (Some (op_result p True ''grasped''), hg_held_by p False f1) else (Some (op_result p False ''no object''), f1))
      else if go_deadline p \<le> now then
        let ok = (case state of None \<Rightarrow> False | Some s \<Rightarrow> holds_object s) in
        (Some (op_result p ok (if ok then ''grasped (is_grasped fallback)'' else ''no result from hand (timeout)'')), if ok then hg_held_by p False f1 else f1)
      else (None, f))"

definition poll_held :: "grasp_op \<Rightarrow> hand_state option \<Rightarrow> HandGraspFsm \<Rightarrow> grasp_result option \<times> HandGraspFsm" where
  "poll_held h state f = (case state of
     None \<Rightarrow> if hg_measured_completion f then hg_fail ''held Hand feedback stale'' None f else (None, f)
   | Some s \<Rightarrow>
       if holds_object s then (None, f\<lparr>hg_held_seen_grasped := True\<rparr>)
       else if hg_held_seen_grasped f then (Some (op_result h False ''object lost''), f\<lparr>hg_held := None\<rparr>)
       else (None, f))"

definition hg_poll :: "hand_state option \<Rightarrow> int \<Rightarrow> bool \<Rightarrow> fl \<Rightarrow> int \<Rightarrow> HandGraspFsm \<Rightarrow> grasp_result option result \<times> HandGraspFsm" where
  "hg_poll state gdone_count gdone_ok now done_seq f = (case hg_pending f of
     Some p \<Rightarrow> if hg_measured_completion f then poll_measured p state gdone_count gdone_ok now done_seq f
       else map_prod Inr id (poll_verdict p state gdone_count gdone_ok now f)
   | None \<Rightarrow> (case hg_held f of None \<Rightarrow> (Inr None, f) | Some h \<Rightarrow> map_prod Inr id (poll_held h state f)))"

section \<open>Position moves\<close>

text \<open>\<^verbatim>\<open>f'{x:.<d>f}'\<close>: the decimal with \<open>d\<close> places, ties to the even digit.\<close>

definition round_even :: "real \<Rightarrow> int" where
  "round_even y = (let n = \<lfloor>y\<rfloor>; r = y - of_int n in if r < 1 / 2 \<or> (r = 1 / 2 \<and> even n) then n else n + 1)"

fun fixed_point :: "nat \<Rightarrow> fl \<Rightarrow> fl" where
  "fixed_point d (Fin x) = Fin (of_int (round_even (x * 10 ^ d)) / 10 ^ d)"
| "fixed_point d x = x"

text \<open>A command line to the bridge, with the numbers that its text has.\<close>

datatype hand_line = MoveLine fl fl | GraspLine fl fl fl fl fl | HomeLine

record move_op =
  mo_request_id :: string
  mo_width_m :: fl
  mo_deadline :: fl
  mo_done_seq :: "int option"

record HandMove =
  hm_pending :: "move_op option"
  hm_limits :: HandLimits

record move_result =
  mr_request_id :: string
  mr_ok :: bool
  mr_reason :: "string option"
  mr_width_m :: "fl option"

definition mk_HandMove :: HandMove where
  "mk_HandMove = \<lparr>hm_pending = None, hm_limits = FRANKA_HAND\<rparr>"

definition hm_start :: "jdict \<Rightarrow> hand_state \<Rightarrow> fl \<Rightarrow> (HandMove, hand_line) action" where
  "hm_start request state now = withst (\<lambda>m.
     if hm_pending m \<noteq> None then lift (Inl (ValueError ''hand move already pending''))
     else case map_of request ''request_id'' of
       Some (JStr rid) \<Rightarrow>
         if rid = [] then lift (Inl (ValueError ''hand move requires a request_id''))
         else if \<not> (hs_available state \<and> hs_measured state) \<or> hs_busy state then lift (Inl (ValueError ''hand unavailable, stale, or busy''))
         else if holds_object state then lift (Inl (ValueError ''position move refused while holding an object''))
         else if map_of request ''width_m'' = None \<or> map_of request ''speed_mps'' = None
           then lift (Inl (ValueError ''position move requires explicit width and speed''))
         else bindst (lift (resolve_grasp_parameters [] request (hm_limits m))) (\<lambda>p.
           bindst (modst (\<lambda>m. m\<lparr>hm_pending := Some \<lparr>mo_request_id = rid, mo_width_m = gp_width_m p, mo_deadline = now + 8, mo_done_seq = None\<rparr>\<rparr>)) (\<lambda>_.
           ret (MoveLine (fixed_point 8 (gp_width_m p)) (fixed_point 8 (gp_speed_mps p)))))
     | _ \<Rightarrow> lift (Inl (ValueError ''hand move requires a request_id'')))"

definition hm_fail :: "string \<Rightarrow> HandMove \<Rightarrow> move_result option \<times> HandMove" where
  "hm_fail reason m = (case hm_pending m of None \<Rightarrow> (None, m)
     | Some p \<Rightarrow> (Some \<lparr>mr_request_id = mo_request_id p, mr_ok = False, mr_reason = Some reason, mr_width_m = None\<rparr>, m\<lparr>hm_pending := None\<rparr>))"

definition hm_done :: "move_result \<Rightarrow> hand_state \<Rightarrow> HandMove \<Rightarrow> move_result option \<times> HandMove" where
  "hm_done result state m = (case hm_pending m of None \<Rightarrow> (None, m)
     | Some p \<Rightarrow>
         if mr_request_id result \<noteq> mo_request_id p then (None, m)
         else if \<not> mr_ok result then hm_fail (case mr_reason result of None \<Rightarrow> ''hand move failed'' | Some r \<Rightarrow> r) m
         else (None, m\<lparr>hm_pending := Some (p\<lparr>mo_done_seq := Some (hs_sample_seq state)\<rparr>)\<rparr>))"

definition hm_poll :: "hand_state \<Rightarrow> fl \<Rightarrow> HandMove \<Rightarrow> move_result option \<times> HandMove" where
  "hm_poll state now m = (case hm_pending m of None \<Rightarrow> (None, m)
     | Some p \<Rightarrow>
         if \<not> hs_available state then hm_fail ''hand unavailable'' m
         else if mo_deadline p \<le> now then hm_fail ''hand move timeout'' m
         else if \<not> hs_measured state then (None, m)
         else if holds_object state then hm_fail ''unexpected object in position-only move'' m
         else if (case mo_done_seq p of None \<Rightarrow> True | Some d \<Rightarrow> hs_sample_seq state \<le> d) then (None, m)
         else if hs_busy state then (None, m)
         else case hs_width state of
           Some w \<Rightarrow>
             if \<not> isfinite w \<or> Fin (1 / 1000) < fabs (w - mo_width_m p) then hm_fail ''hand stopped outside position tolerance'' m
             else (Some \<lparr>mr_request_id = mo_request_id p, mr_ok = True, mr_reason = Some ''position reached'', mr_width_m = Some w\<rparr>,
                   m\<lparr>hm_pending := None\<rparr>)
         | None \<Rightarrow> hm_fail ''hand stopped outside position tolerance'' m)"

section \<open>The envelope is kept\<close>

definition within_envelope :: "HandLimits \<Rightarrow> grasp_parameters \<Rightarrow> bool" where
  "within_envelope lm p \<longleftrightarrow>
     (\<forall>w \<in> {gp_width_m p, gp_epsilon_inner_m p, gp_epsilon_outer_m p, gp_open_width_m p}. isfinite w \<and> 0 \<le> w \<and> w \<le> width_max_m lm) \<and>
     isfinite (gp_speed_mps p) \<and> 0 < gp_speed_mps p \<and> gp_speed_mps p \<le> speed_max_mps lm \<and>
     (if force_grasp lm then isfinite (gp_force_n p) \<and> force_min_n lm \<le> gp_force_n p \<and> gp_force_n p \<le> force_max_n lm else gp_force_n p = 0)"

lemma check_number_Inr:
  "check_number key positive low high v = Inr x \<longleftrightarrow> (\<exists>t. v = JNum x t) \<and> isfinite x \<and> low \<le> x \<and> x \<le> high \<and> \<not> (positive \<and> feq x 0)"
  by (auto simp: check_number_def split: jval.splits)

lemma resolved_within: "resolve_grasp_parameters config payload lm = Inr p \<Longrightarrow> within_envelope lm p"
  unfolding resolve_grasp_parameters_def Let_def
  by (auto simp: within_envelope_def check_number_Inr less_fl_def isfinite_iff split: if_splits)

lemma resolve_error: "resolve_grasp_parameters config payload lm = Inl e \<Longrightarrow> \<exists>m. e = ValueError m"
  unfolding resolve_grasp_parameters_def Let_def
  by (auto simp: bindr_eq_Inl check_number_def split: if_splits jval.splits)

end
