(* ===== verification/Hand_Bridge.thy ===== *)
theory Hand_Bridge
  imports Hand
begin

text \<open>
  \<^verbatim>\<open>arm_control/end_effectors/franka_adapter.py\<close>, the bridge client: what the Hand's bridge says, which action it admits,
  and what the thread that owns the socket puts on the wire.

  Every operation under the client's lock is one action, and so is every access to the client outside it: \<^verbatim>\<open>send_line\<close> reads
  the envelope and checks the line before it takes the lock (\<open>read_force\<close>, \<open>read_limits\<close>, then \<open>admit_line\<close>), and the thread looks
  at the slider and the home flag without it. The callers are numbered, the thread is number 0. The reads of
  \<^verbatim>\<open>time.monotonic()\<close> are arguments. The log \<open>bc_log\<close>, newest first, belongs to the model: it records what the properties speak about.
\<close>

section \<open>The client\<close>

datatype bridge_event =
    BConnect
  | BLost
  | BEpoch int
  | BMeta bool bool bool bool
  | BLimits HandLimits
  | BStopping int
  | BForce nat HandLimits
  | BRead nat HandLimits
  | BAdmit nat int hand_line
  | BDone
  | BFailed
  | BCancel
  | BWire int hand_line
  | BGstop

record bridge_state =
  bs_width :: "fl option"
  bs_is_grasped :: "bool option"
  bs_available :: bool
  bs_busy :: bool
  bs_measured :: bool

definition no_state :: bridge_state where
  "no_state = \<lparr>bs_width = None, bs_is_grasped = None, bs_available = False, bs_busy = False, bs_measured = False\<rparr>"

type_synonym bridge_command = "int \<times> hand_line \<times> jdict"

record BridgeClient =
  bc_target :: "fl option"
  bc_want_home :: bool
  bc_state :: bridge_state
  bc_connected :: bool
  bc_epoch :: "int option"
  bc_bridge_seq :: "int option"
  bc_sample_seq :: int
  bc_sample_at :: fl
  bc_admitted_seq :: int
  bc_command :: "bridge_command option"
  bc_inflight :: "bridge_command option"
  bc_failures :: "grasp_result list"
  bc_move_results :: "move_result list"
  bc_cancel :: bool
  bc_cancel_waiting :: bool
  bc_stop_epoch :: "int option"
  bc_stop_sample_seq :: int
  bc_active_stop :: bool
  bc_limits :: HandLimits
  bc_gdone_count :: int
  bc_gdone_sample_seq :: int
  bc_gdone_ok :: bool
  bc_force :: "(nat \<times> HandLimits) list"
  bc_read :: "(nat \<times> HandLimits) list"
  bc_w :: "fl option"
  bc_skip :: bool
  bc_goal :: "fl option"
  bc_line :: "hand_line option"
  bc_sent :: "fl option"
  bc_seen :: "fl option"
  bc_stable_t :: fl
  bc_broken :: bool
  bc_log :: "bridge_event list"

type_synonym 'a bridge = "(BridgeClient, 'a) action"

text \<open>
  The fields \<open>bc_force\<close> and \<open>bc_read\<close> hold the envelope each caller read in the call of \<^verbatim>\<open>send_line\<close> it is in. The fields from
  \<open>bc_w\<close> to \<open>bc_stable_t\<close> are local variables of the thread's \<^verbatim>\<open>run\<close>: the target and the verdict on the snapshot it looked at, the
  goal and then the line it is about to send, the goal sent last and the settle clock. \<open>bc_broken\<close> says that the thread is in an
  exception handler, or over. A dict with the keys missing and a dict that is \<^verbatim>\<open>None\<close> read the same everywhere.\<close>

definition mk_BridgeClient :: BridgeClient where
  "mk_BridgeClient = \<lparr>bc_target = None, bc_want_home = False, bc_state = no_state, bc_connected = False, bc_epoch = None, bc_bridge_seq = None,
     bc_sample_seq = 0, bc_sample_at = 0, bc_admitted_seq = -1, bc_command = None, bc_inflight = None, bc_failures = [], bc_move_results = [],
     bc_cancel = False, bc_cancel_waiting = False, bc_stop_epoch = None, bc_stop_sample_seq = 0, bc_active_stop = False, bc_limits = FRANKA_HAND,
     bc_gdone_count = 0, bc_gdone_sample_seq = -1, bc_gdone_ok = False, bc_force = [], bc_read = [],
     bc_w = None, bc_skip = False, bc_goal = None, bc_line = None, bc_sent = None, bc_seen = None, bc_stable_t = 0, bc_broken = False, bc_log = []\<rparr>"

definition logged :: "bridge_event \<Rightarrow> BridgeClient \<Rightarrow> BridgeClient" where
  "logged e c = c\<lparr>bc_log := e # bc_log c\<rparr>"

definition snapshot :: "fl \<Rightarrow> BridgeClient \<Rightarrow> hand_state" where
  "snapshot now c = (let s = bc_state c in
     \<lparr>hs_width = bs_width s, hs_is_grasped = bs_is_grasped s, hs_available = (bc_connected c \<and> bs_available s),
      hs_busy = (bc_cancel_waiting c \<or> bc_inflight c \<noteq> None \<or> bs_busy s),
      hs_measured = (bs_measured s \<and> bs_width s \<noteq> None \<and> bc_connected c \<and> \<not> bc_cancel_waiting c \<and>
        now - bc_sample_at c < Fin (6 / 10) \<and> bc_admitted_seq c < bc_sample_seq c),
      hs_sample_seq = bc_sample_seq c, hs_force_grasp = (bc_epoch c \<noteq> None), hs_active_stop = (bc_connected c \<and> bc_active_stop c),
      hs_limits = bc_limits c\<rparr>)"

text \<open>
  The check of \<^verbatim>\<open>send_line\<close>, on the envelopes it read: \<^verbatim>\<open>require_force_grasp\<close> for a grasp, and \<^verbatim>\<open>resolve_grasp_parameters\<close> on the
  numbers of the line, each with its own read of \<^verbatim>\<open>self.limits\<close>.
\<close>

definition read_force :: "nat \<Rightarrow> unit bridge" where
  "read_force k = modst (\<lambda>c. logged (BForce k (bc_limits c)) (c\<lparr>bc_force := dict_put k (bc_limits c) (bc_force c)\<rparr>))"

definition read_limits :: "nat \<Rightarrow> unit bridge" where
  "read_limits k = modst (\<lambda>c. logged (BRead k (bc_limits c)) (c\<lparr>bc_read := dict_put k (bc_limits c) (bc_read c)\<rparr>))"

definition line_ok :: "HandLimits option \<Rightarrow> HandLimits option \<Rightarrow> hand_line \<Rightarrow> bool" where
  "line_ok force limits line = (case line of
     MoveLine w s \<Rightarrow> (case limits of None \<Rightarrow> False
       | Some lm \<Rightarrow> \<not> isl (resolve_grasp_parameters [] [(''width_m'', JNum w []), (''speed_mps'', JNum s [])] lm))
   | GraspLine w s f i q \<Rightarrow> (case (force, limits) of
         (Some lf, Some lm) \<Rightarrow> \<not> isl (bindr (require_force_grasp lf ''close'') (\<lambda>_.
           resolve_grasp_parameters [] [(''width_m'', JNum w []), (''speed_mps'', JNum s []), (''force_n'', JNum f []), (''epsilon_inner_m'', JNum i []),
             (''epsilon_outer_m'', JNum q [])] lm))
       | _ \<Rightarrow> False)
   | HomeLine \<Rightarrow> True)"

text \<open>The rest of \<^verbatim>\<open>send_line\<close>, under the lock; the call ends, and what it had read with it.\<close>

definition admit_line :: "fl \<Rightarrow> nat \<Rightarrow> hand_line \<Rightarrow> jdict \<Rightarrow> bool bridge" where
  "admit_line now k line request = withst (\<lambda>c.
     bindst (modst (\<lambda>c. c\<lparr>bc_force := dict_pop k (bc_force c), bc_read := dict_pop k (bc_read c)\<rparr>)) (\<lambda>_.
     if \<not> line_ok (map_of (bc_force c) k) (map_of (bc_read c) k) line then ret False
     else
       let state = snapshot now c in
       if (jtruthy request ''_position_move'' \<or> jtruthy request ''_requires_active_stop'') \<and> \<not> hs_active_stop state then ret False
       else if bc_cancel c \<or> \<not> (hs_available state \<and> hs_force_grasp state \<and> hs_measured state) \<or> hs_busy state then ret False
       else case bc_epoch c of None \<Rightarrow> ret False
         | Some e \<Rightarrow>
             bindst (modst (\<lambda>c. logged (BAdmit k e line)
               (c\<lparr>bc_command := Some (e, line, request), bc_inflight := Some (e, line, request), bc_admitted_seq := bc_sample_seq c,
                  bc_target := None\<rparr>))) (\<lambda>_. ret True)))"

text \<open>A position move's request id went through \<^verbatim>\<open>HandMove.start\<close>, which takes strings only.\<close>

definition request_text :: "jdict \<Rightarrow> string \<Rightarrow> string" where
  "request_text d k = py_str (jget d k (JStr []))"

definition bc_fail :: "string \<Rightarrow> unit bridge" where
  "bc_fail reason = withst (\<lambda>c.
     bindst (case bc_inflight c of None \<Rightarrow> ret ()
       | Some (_, _, request) \<Rightarrow>
           if jtruthy request ''_position_move'' then
             (case map_of request ''request_id'' of None \<Rightarrow> lift (Inl KeyError)
              | Some v \<Rightarrow> modst (\<lambda>c. c\<lparr>bc_move_results := bc_move_results c @
                  [\<lparr>mr_request_id = py_str v, mr_ok = False, mr_reason = Some reason, mr_width_m = None\<rparr>]\<rparr>))
           else whenst (request \<noteq> []) (modst (\<lambda>c. c\<lparr>bc_failures := bc_failures c @
             [\<lparr>gr_request_id = request_text request ''request_id'', gr_target_id = request_text request ''target_id'', gr_ok = False, gr_reason = reason\<rparr>]\<rparr>))) (\<lambda>_.
     modst (\<lambda>c. logged BFailed (c\<lparr>bc_command := None, bc_inflight := None, bc_target := None, bc_want_home := False\<rparr>))))"

definition pop_failures :: "grasp_result list bridge" where
  "pop_failures = withst (\<lambda>c. bindst (modst (\<lambda>c. c\<lparr>bc_failures := []\<rparr>)) (\<lambda>_. ret (bc_failures c)))"

definition pop_move_results :: "move_result list bridge" where
  "pop_move_results = withst (\<lambda>c. bindst (modst (\<lambda>c. c\<lparr>bc_move_results := []\<rparr>)) (\<lambda>_. ret (bc_move_results c)))"

definition cancel_move :: "unit bridge" where
  "cancel_move = withst (\<lambda>c.
     bindst (whenst (\<not> bc_cancel_waiting c)
       (modst (\<lambda>c. logged BCancel (c\<lparr>bc_cancel := True, bc_cancel_waiting := True, bc_stop_epoch := None\<rparr>)))) (\<lambda>_.
     bc_fail ''hand operation canceled''))"

section \<open>Received lines\<close>

definition rcv_limits :: "wire_word list \<Rightarrow> unit bridge" where
  "rcv_limits parts = bindst (lift (parse_limits parts)) (\<lambda>lm.
     modst (\<lambda>c. logged (BLimits lm) (c\<lparr>bc_limits := lm\<rparr>)))"

definition rcv_stopping :: "wire_word \<Rightarrow> unit bridge" where
  "rcv_stopping w = bindst (lift (word_int w)) (\<lambda>e.
     if e < 0 then lift (Inl (ValueError ''invalid stop epoch''))
     else withst (\<lambda>c. whenst (bc_cancel_waiting c)
       (modst (\<lambda>c. logged (BStopping e) (c\<lparr>bc_stop_epoch := Some e, bc_stop_sample_seq := bc_sample_seq c\<rparr>)))))"

definition rcv_state :: "wire_word \<Rightarrow> wire_word \<Rightarrow> unit bridge" where
  "rcv_state ww wg = bindst (lift (word_float ww)) (\<lambda>w. withst (\<lambda>c.
     if \<not> (isfinite w \<and> 0 \<le> w \<and> w \<le> width_max_m (bc_limits c)) then lift (Inl (ValueError ''STATE width outside the gripper's stroke''))
     else if w_text wg \<notin> {''0'', ''1''} then lift (Inl (ValueError ''invalid grasped bit''))
     else modst (\<lambda>c. c\<lparr>bc_state := (bc_state c)\<lparr>bs_width := Some w, bs_is_grasped := Some (w_text wg = ''1'')\<rparr>\<rparr>)))"

text \<open>What an accepted \<^verbatim>\<open>META\<close> line changes: the sample counter, the state, and the end of a stop.\<close>

definition meta_take :: "fl \<Rightarrow> int \<Rightarrow> bool \<Rightarrow> bool \<Rightarrow> bool \<Rightarrow> int \<Rightarrow> BridgeClient \<Rightarrow> BridgeClient" where
  "meta_take now e available busy measured sq c =
     (let new = (measured \<and> bc_bridge_seq c \<noteq> Some sq);
          c1 = (if new then c\<lparr>bc_bridge_seq := Some sq, bc_sample_seq := bc_sample_seq c + 1, bc_sample_at := now\<rparr> else c);
          c2 = c1\<lparr>bc_state := (bc_state c1)\<lparr>bs_available := available, bs_busy := busy, bs_measured := measured\<rparr>\<rparr>;
          stopped = (bc_cancel_waiting c2 \<and> (case bc_stop_epoch c2 of None \<Rightarrow> False | Some s \<Rightarrow> s \<le> e) \<and> available \<and> \<not> busy \<and> measured \<and>
            bc_stop_sample_seq c2 < bc_sample_seq c2) in
      logged (BMeta available busy measured new) (if stopped then c2\<lparr>bc_cancel_waiting := False, bc_stop_epoch := None\<rparr> else c2))"

definition rcv_meta :: "fl \<Rightarrow> wire_word list \<Rightarrow> unit bridge" where
  "rcv_meta now ws = bindst (lift (mapr word_int ws)) (\<lambda>v.
     let e = v ! 0; available = v ! 1; busy = v ! 2; measured = v ! 3; sq = v ! 4 in
     if e < 0 \<or> sq < 0 \<or> available \<notin> {0, 1} \<or> busy \<notin> {0, 1} \<or> measured \<notin> {0, 1} then lift (Inl (ValueError ''invalid bridge metadata''))
     else
       bindst (withst (\<lambda>c. whenst (case bc_inflight c of None \<Rightarrow> False | Some (t, _) \<Rightarrow> available = 0 \<or> e \<notin> {t, t + 1})
         (bc_fail ''hand disconnected or command canceled''))) (\<lambda>_.
       bindst (modst (\<lambda>c. logged (BEpoch e) (c\<lparr>bc_epoch := Some e\<rparr>))) (\<lambda>_.
       bindst (withst (\<lambda>c. lift (ensure (case bc_bridge_seq c of None \<Rightarrow> True | Some b \<Rightarrow> b \<le> sq) (ValueError ''bridge observation sequence regressed'')))) (\<lambda>_.
       modst (meta_take now e (available = 1) (busy = 1) (measured = 1) sq)))))"

definition is_grasp_line :: "hand_line \<Rightarrow> bool" where
  "is_grasp_line l = (case l of GraspLine _ _ _ _ _ \<Rightarrow> True | _ \<Rightarrow> False)"

definition rcv_done :: "string \<Rightarrow> wire_word \<Rightarrow> wire_word \<Rightarrow> unit bridge" where
  "rcv_done verb wt wr = bindst (lift (word_int wt)) (\<lambda>token. withst (\<lambda>c. case bc_inflight c of None \<Rightarrow> ret ()
     | Some (e, line, request) \<Rightarrow>
         whenst (token = e) (bindst
           (if verb = ''REJECT'' then bc_fail (''hand rejected: '' @ w_text wr)
            else if is_grasp_line line \<or> jtruthy request ''_grasp_operation'' then
              modst (\<lambda>c. logged BDone (c\<lparr>bc_gdone_ok := (w_text wr = ''1''), bc_gdone_count := bc_gdone_count c + 1,
                bc_gdone_sample_seq := bc_sample_seq c, bc_inflight := None\<rparr>))
            else if w_text wr \<noteq> ''1'' then bc_fail ''hand action failed''
            else
              bindst (if \<not> jtruthy request ''_position_move'' then ret ()
                else case map_of request ''request_id'' of None \<Rightarrow> lift (Inl KeyError)
                  | Some v \<Rightarrow> modst (\<lambda>c. c\<lparr>bc_move_results := bc_move_results c @
                      [\<lparr>mr_request_id = py_str v, mr_ok = True, mr_reason = None, mr_width_m = None\<rparr>]\<rparr>)) (\<lambda>_.
              modst (\<lambda>c. logged BDone (c\<lparr>bc_inflight := None\<rparr>))))
           (\<lambda>_. modst (\<lambda>c. c\<lparr>bc_target := None\<rparr>)))))"

text \<open>\<^verbatim>\<open>_receive\<close> on the words of a line; \<open>None\<close> is a line that does not decode (\<^verbatim>\<open>UnicodeDecodeError\<close>, a \<^verbatim>\<open>ValueError\<close>).\<close>

definition bc_receive :: "fl \<Rightarrow> wire_word list option \<Rightarrow> unit bridge" where
  "bc_receive now line = (case line of None \<Rightarrow> lift (Inl (ValueError ''codec can't decode''))
     | Some parts \<Rightarrow>
         let verb = (case parts of [] \<Rightarrow> [] | w # _ \<Rightarrow> w_text w) in
         if map w_text parts = [''CAPS'', ''active_stop''] then modst (\<lambda>c. c\<lparr>bc_active_stop := True\<rparr>)
         else if verb = ''LIMITS'' then rcv_limits parts
         else if length parts = 2 \<and> verb = ''STOPPING'' then rcv_stopping (parts ! 1)
         else if length parts = 3 \<and> verb = ''STATE'' then rcv_state (parts ! 1) (parts ! 2)
         else if length parts = 7 \<and> map w_text (take 2 parts) = [''META'', ''2''] then rcv_meta now (drop 2 parts)
         else if length parts = 3 \<and> verb \<in> {''DONE'', ''REJECT''} then rcv_done verb (parts ! 1) (parts ! 2)
         else ret ())"

section \<open>The thread\<close>

definition DEADBAND_M :: fl where "DEADBAND_M = Fin (2 / 1000)"

definition MOVE_SPEED :: fl where "MOVE_SPEED = Fin (1 / 10)"

definition SETTLE_S :: fl where "SETTLE_S = Fin (15 / 100)"

definition bc_connect :: "unit bridge" where
  "bc_connect = modst (\<lambda>c. logged BConnect (c\<lparr>bc_connected := True, bc_epoch := None, bc_bridge_seq := None, bc_active_stop := False,
     bc_limits := FRANKA_HAND, bc_cancel := False, bc_cancel_waiting := False, bc_stop_epoch := None, bc_state := no_state, bc_target := None,
     bc_w := None, bc_goal := None, bc_line := None, bc_sent := None, bc_seen := None\<rparr>))"

fun other_target :: "fl option \<Rightarrow> fl option \<Rightarrow> bool" where
  "other_target None None = False"
| "other_target (Some x) (Some y) = (\<not> feq x y)"
| "other_target _ _ = True"

text \<open>
  One look at the slider: the target is read, the snapshot is taken, the settle clock and the deadband decide on a goal, the
  envelope's speed makes the goal a line, and the line is sent like that of any other caller. The arguments of \<open>slider_step\<close>
  are the readings of the clock for the restart of the settle clock and for its comparison.
\<close>

definition slider_target :: "unit bridge" where
  "slider_target = modst (\<lambda>c. c\<lparr>bc_w := bc_target c\<rparr>)"

definition slider_look :: "fl \<Rightarrow> unit bridge" where
  "slider_look now = modst (\<lambda>c. c\<lparr>bc_skip := (hs_busy (snapshot now c) \<or> \<not> hs_measured (snapshot now c))\<rparr>)"

definition slider_step :: "fl \<Rightarrow> fl \<Rightarrow> unit bridge" where
  "slider_step t1 t2 = withst (\<lambda>c.
     let w = (if bc_skip c then None else bc_w c) in
     bindst (whenst (bc_skip c) (modst (\<lambda>c. c\<lparr>bc_target := None\<rparr>))) (\<lambda>_.
     bindst (whenst (other_target w (bc_seen c)) (modst (\<lambda>c. c\<lparr>bc_seen := w, bc_stable_t := t1\<rparr>))) (\<lambda>_.
     withst (\<lambda>c. case w of None \<Rightarrow> ret ()
       | Some x \<Rightarrow>
           whenst (SETTLE_S \<le> t2 - bc_stable_t c \<and> (case bc_sent c of None \<Rightarrow> True | Some y \<Rightarrow> DEADBAND_M \<le> fabs (x - y)))
             (modst (\<lambda>c. c\<lparr>bc_sent := Some x, bc_goal := Some x\<rparr>))))))"

definition slider_line :: "unit bridge" where
  "slider_line = withst (\<lambda>c. case bc_goal c of None \<Rightarrow> ret ()
     | Some x \<Rightarrow> modst (\<lambda>c. c\<lparr>bc_goal := None,
         bc_line := Some (MoveLine (fixed_point 5 x) (fixed_point 3 (py_min MOVE_SPEED (speed_max_mps (bc_limits c)))))\<rparr>))"

definition home_step :: "unit bridge" where
  "home_step = withst (\<lambda>c. whenst (bc_want_home c) (modst (\<lambda>c. c\<lparr>bc_want_home := False, bc_line := Some HomeLine\<rparr>)))"

definition thread_send :: "fl \<Rightarrow> unit bridge" where
  "thread_send now = withst (\<lambda>c. case bc_line c of None \<Rightarrow> ret ()
     | Some line \<Rightarrow> bindst (modst (\<lambda>c. c\<lparr>bc_line := None\<rparr>)) (\<lambda>_. bindst (admit_line now 0 line []) (\<lambda>_. ret ())))"

text \<open>The locked part that puts a line on the wire; the socket may fail.\<close>

definition wire_step :: "bool \<Rightarrow> unit bridge" where
  "wire_step ok = withst (\<lambda>c.
     bindst (modst (\<lambda>c. c\<lparr>bc_cancel := False, bc_command := None\<rparr>)) (\<lambda>_.
     if bc_cancel c then (if ok then modst (logged BGstop) else lift (Inl (OSError ''send'')))
     else case bc_command c of None \<Rightarrow> ret ()
       | Some (e, line, _) \<Rightarrow> if ok then modst (logged (BWire e line)) else lift (Inl (OSError ''send''))))"

definition bc_lost :: "string \<Rightarrow> unit bridge" where
  "bc_lost reason = bindst (modst (\<lambda>c. logged BLost (c\<lparr>bc_connected := False, bc_epoch := None\<rparr>))) (\<lambda>_. bc_fail reason)"

text \<open>The \<^verbatim>\<open>finally\<close> of \<^verbatim>\<open>run\<close>.\<close>

definition bc_stopped :: "unit bridge" where
  "bc_stopped = bindst (modst (\<lambda>c. logged BLost (c\<lparr>bc_connected := False\<rparr>))) (\<lambda>_. bc_fail ''hand bridge stopped'')"

datatype bridge_op =
    TConnect | TTarget | TLook fl | TSlider fl fl | TGoal | THome | TRead | TSend fl | TWire bool | TReceive fl "wire_word list option" | TLost | TStop
  | CallForce nat | CallRead nat | CallAdmit fl nat hand_line jdict | CallCancelMove | CallTarget fl | CallWantHome | CallPopFailures | CallPopMoves

text \<open>A step of the thread: an exception leaves it in its handler, which is a step of its own (\<open>TLost\<close>).
  A failed \<^verbatim>\<open>recv\<close> and an oversized buffer break the link like a line that does not decode.\<close>

definition in_thread :: "unit bridge \<Rightarrow> BridgeClient \<Rightarrow> BridgeClient" where
  "in_thread m c = (if \<not> bc_connected c \<or> bc_broken c then c else case m c of (Inl e, t) \<Rightarrow> t\<lparr>bc_broken := True\<rparr> | (Inr _, t) \<Rightarrow> t)"

fun bridge_step :: "bridge_op \<Rightarrow> BridgeClient \<Rightarrow> BridgeClient" where
  "bridge_step TConnect c = (if bc_connected c \<or> bc_broken c then c else snd (bc_connect c))"
| "bridge_step TTarget c = in_thread slider_target c"
| "bridge_step (TLook t) c = in_thread (slider_look t) c"
| "bridge_step (TSlider t1 t2) c = in_thread (slider_step t1 t2) c"
| "bridge_step TGoal c = in_thread slider_line c"
| "bridge_step THome c = in_thread home_step c"
| "bridge_step TRead c = in_thread (read_limits 0) c"
| "bridge_step (TSend t) c = in_thread (thread_send t) c"
| "bridge_step (TWire ok) c = in_thread (wire_step ok) c"
| "bridge_step (TReceive t line) c = in_thread (bc_receive t line) c"
| "bridge_step TLost c = (if \<not> (bc_connected c \<and> bc_broken c) then c
     else case bc_lost ''hand bridge disconnected'' c of (Inl e, t) \<Rightarrow> t | (Inr _, t) \<Rightarrow> t\<lparr>bc_broken := False\<rparr>)"
| "bridge_step TStop c = snd (bc_stopped (c\<lparr>bc_broken := True\<rparr>))"
| "bridge_step (CallForce k) c = snd (read_force (Suc k) c)"
| "bridge_step (CallRead k) c = snd (read_limits (Suc k) c)"
| "bridge_step (CallAdmit t k line request) c = snd (admit_line t (Suc k) line request c)"
| "bridge_step CallCancelMove c = snd (cancel_move c)"
| "bridge_step (CallTarget w) c = c\<lparr>bc_target := Some w\<rparr>"
| "bridge_step CallWantHome c = c\<lparr>bc_want_home := True\<rparr>"
| "bridge_step CallPopFailures c = snd (pop_failures c)"
| "bridge_step CallPopMoves c = snd (pop_move_results c)"

end
