(* ===== verification/Hand_Proofs.thy ===== *)
theory Hand_Proofs
  imports Hand_Bridge
begin

text \<open>
  What the bridge client puts on the wire, over every interleaving of its thread with the calls of its users.
\<close>

section \<open>What a log says\<close>

fun linked :: "bridge_event list \<Rightarrow> bool" where
  "linked [] = False"
| "linked (BConnect # h) = True"
| "linked (BLost # h) = False"
| "linked (_ # h) = linked h"

fun stated_epoch :: "bridge_event list \<Rightarrow> int option" where
  "stated_epoch [] = None"
| "stated_epoch (BConnect # h) = None"
| "stated_epoch (BEpoch e # h) = Some e"
| "stated_epoch (_ # h) = stated_epoch h"

fun stated_limits :: "bridge_event list \<Rightarrow> HandLimits" where
  "stated_limits [] = FRANKA_HAND"
| "stated_limits (BConnect # h) = FRANKA_HAND"
| "stated_limits (BLimits lm # h) = lm"
| "stated_limits (_ # h) = stated_limits h"

text \<open>The envelopes a caller has read since its last admitted action.\<close>

fun last_force :: "nat \<Rightarrow> bridge_event list \<Rightarrow> HandLimits option" where
  "last_force k [] = None"
| "last_force k (BForce j lm # h) = (if j = k then Some lm else last_force k h)"
| "last_force k (BAdmit j _ _ # h) = (if j = k then None else last_force k h)"
| "last_force k (_ # h) = last_force k h"

fun last_read :: "nat \<Rightarrow> bridge_event list \<Rightarrow> HandLimits option" where
  "last_read k [] = None"
| "last_read k (BRead j lm # h) = (if j = k then Some lm else last_read k h)"
| "last_read k (BAdmit j _ _ # h) = (if j = k then None else last_read k h)"
| "last_read k (_ # h) = last_read k h"

text \<open>The latest state on this connection is available, idle and measured.\<close>

fun idle_measured :: "bridge_event list \<Rightarrow> bool" where
  "idle_measured [] = False"
| "idle_measured (BConnect # h) = False"
| "idle_measured (BMeta a b m new # h) = (a \<and> \<not> b \<and> m)"
| "idle_measured (_ # h) = idle_measured h"

text \<open>A new sample has come since the last action was admitted.\<close>

fun sampled :: "bridge_event list \<Rightarrow> bool" where
  "sampled [] = False"
| "sampled (BAdmit _ _ _ # h) = False"
| "sampled (BMeta _ _ _ True # h) = True"
| "sampled (_ # h) = sampled h"

fun outstanding :: "bridge_event list \<Rightarrow> bool" where
  "outstanding [] = False"
| "outstanding (BAdmit _ _ _ # h) = True"
| "outstanding (BDone # h) = False"
| "outstanding (BFailed # h) = False"
| "outstanding (_ # h) = outstanding h"

text \<open>The action that is admitted and not yet on the wire.\<close>

fun unsent :: "bridge_event list \<Rightarrow> (int \<times> hand_line) option" where
  "unsent [] = None"
| "unsent (BAdmit _ e l # h) = Some (e, l)"
| "unsent (BWire _ _ # h) = None"
| "unsent (BGstop # h) = None"
| "unsent (BCancel # h) = None"
| "unsent (BLost # h) = None"
| "unsent (BFailed # h) = None"
| "unsent (_ # h) = unsent h"

text \<open>
  A stop is over when, after the bridge has acknowledged it with an epoch, a state of that epoch or later says available,
  idle and measured, with a sample taken after the acknowledgement.
\<close>

datatype stop_phase = NoStop | StopAsked | StopTold int bool

fun stop_of :: "bridge_event list \<Rightarrow> stop_phase" where
  "stop_of [] = NoStop"
| "stop_of (BConnect # h) = NoStop"
| "stop_of (BCancel # h) = StopAsked"
| "stop_of (BStopping e # h) = StopTold e False"
| "stop_of (BMeta a b m new # h) = (case stop_of h of
     StopTold s k \<Rightarrow> if (case stated_epoch h of None \<Rightarrow> False | Some e \<Rightarrow> s \<le> e) \<and> a \<and> \<not> b \<and> m \<and> (k \<or> new) then NoStop else StopTold s (k \<or> new)
   | p \<Rightarrow> p)"
| "stop_of (_ # h) = stop_of h"

text \<open>
  The line is inside the envelope the caller read for it. For a grasp the gripper of the envelope read before that has a force
  grasp, and the force is inside the second one if that has a force grasp too.
\<close>

definition line_within :: "HandLimits option \<Rightarrow> HandLimits option \<Rightarrow> hand_line \<Rightarrow> bool" where
  "line_within force limits l = (case l of
     MoveLine w s \<Rightarrow> (\<exists>lm. limits = Some lm \<and> 0 \<le> w \<and> w \<le> width_max_m lm \<and> 0 < s \<and> s \<le> speed_max_mps lm)
   | GraspLine w s f i q \<Rightarrow> (\<exists>lf lm. force = Some lf \<and> 0 < force_max_n lf \<and> limits = Some lm \<and> 0 \<le> w \<and> w \<le> width_max_m lm \<and> 0 < s \<and>
       s \<le> speed_max_mps lm \<and> (0 < force_max_n lm \<longrightarrow> force_min_n lm \<le> f \<and> f \<le> force_max_n lm) \<and> 0 \<le> i \<and> i \<le> width_max_m lm \<and> 0 \<le> q \<and> q \<le> width_max_m lm)
   | HomeLine \<Rightarrow> True)"

definition may_admit :: "nat \<Rightarrow> int \<Rightarrow> hand_line \<Rightarrow> bridge_event list \<Rightarrow> bool" where
  "may_admit k e l h \<longleftrightarrow> linked h \<and> stated_epoch h = Some e \<and> line_within (last_force k h) (last_read k h) l \<and> idle_measured h \<and> sampled h \<and>
     \<not> outstanding h \<and> stop_of h = NoStop"

fun admits_in_order :: "bridge_event list \<Rightarrow> bool" where
  "admits_in_order [] = True"
| "admits_in_order (BForce _ lm # h) = (stated_limits h = lm \<and> admits_in_order h)"
| "admits_in_order (BRead _ lm # h) = (stated_limits h = lm \<and> admits_in_order h)"
| "admits_in_order (BAdmit k e l # h) = (may_admit k e l h \<and> admits_in_order h)"
| "admits_in_order (BWire e l # h) = (unsent h = Some (e, l) \<and> linked h \<and> admits_in_order h)"
| "admits_in_order (_ # h) = admits_in_order h"



section \<open>The client follows its log\<close>

fun stop_agrees :: "stop_phase \<Rightarrow> bool \<Rightarrow> int option \<Rightarrow> bool \<Rightarrow> bool" where
  "stop_agrees NoStop waiting e new = (\<not> waiting)"
| "stop_agrees StopAsked waiting e new = (waiting \<and> e = None)"
| "stop_agrees (StopTold s k) waiting e new = (waiting \<and> e = Some s \<and> k = new)"

definition follows :: "BridgeClient \<Rightarrow> bool" where
  "follows c \<longleftrightarrow> (let h = bc_log c in
     admits_in_order h \<and> bc_connected c = linked h \<and> (bc_epoch c = None \<or> bc_epoch c = stated_epoch h) \<and> bc_limits c = stated_limits h \<and>
     (\<forall>k. map_of (bc_force c) k = None \<or> map_of (bc_force c) k = last_force k h) \<and> (\<forall>k. map_of (bc_read c) k = None \<or> map_of (bc_read c) k = last_read k h) \<and>
     (bs_available (bc_state c) \<and> \<not> bs_busy (bc_state c) \<and> bs_measured (bc_state c) \<longrightarrow> idle_measured h) \<and>
     (bc_inflight c = None \<longrightarrow> \<not> outstanding h) \<and>
     0 \<le> bc_sample_seq c \<and> bc_stop_sample_seq c \<le> bc_sample_seq c \<and> (bc_admitted_seq c < bc_sample_seq c \<and> 0 < bc_sample_seq c \<longrightarrow> sampled h) \<and>
     (bc_bridge_seq c \<noteq> None \<longrightarrow> 0 < bc_sample_seq c) \<and> (bs_measured (bc_state c) \<longrightarrow> 0 < bc_sample_seq c) \<and>
     (\<not> bc_connected c \<and> \<not> bc_broken c \<longrightarrow> bc_command c = None) \<and>
     (bc_command c \<noteq> None \<and> \<not> bc_cancel c \<and> \<not> bc_broken c \<longrightarrow> unsent h = map_option (\<lambda>(e, l, _). (e, l)) (bc_command c)) \<and>
     stop_agrees (stop_of h) (bc_cancel_waiting c) (bc_stop_epoch c) (bc_stop_sample_seq c < bc_sample_seq c))"














text \<open>Fields that the log says nothing about.\<close>

lemma follows_other [simp]:
  "follows (c\<lparr>bc_failures := fs\<rparr>) = follows c" "follows (c\<lparr>bc_move_results := ms\<rparr>) = follows c" "follows (c\<lparr>bc_target := x\<rparr>) = follows c"
  "follows (c\<lparr>bc_want_home := b\<rparr>) = follows c" "follows (c\<lparr>bc_sent := x\<rparr>) = follows c" "follows (c\<lparr>bc_seen := x\<rparr>) = follows c"
  "follows (c\<lparr>bc_stable_t := y\<rparr>) = follows c" "follows (c\<lparr>bc_goal := x\<rparr>) = follows c" "follows (c\<lparr>bc_line := l\<rparr>) = follows c"
  "follows (c\<lparr>bc_w := x\<rparr>) = follows c" "follows (c\<lparr>bc_skip := b\<rparr>) = follows c" "follows (c\<lparr>bc_active_stop := b\<rparr>) = follows c"
  by (simp_all add: follows_def Let_def)































section \<open>The property\<close>


section \<open>The envelope may have moved on\<close>

text \<open>
  Between the check and the lock a \<^verbatim>\<open>LIMITS\<close> line can be received. In this run a caller checks a move of 75 mm while the
  Franka Hand's envelope holds, the bridge then states a gripper of 50 mm, and the move is admitted all the same.
\<close>

definition hand_word :: "string \<Rightarrow> wire_word" where
  "hand_word t = \<lparr>w_text = t, w_int = None, w_float = None\<rparr>"

definition hand_number :: "string \<Rightarrow> int \<Rightarrow> wire_word" where
  "hand_number t n = \<lparr>w_text = t, w_int = Some n, w_float = Some (Fin (of_int n))\<rparr>"

definition hand_decimal :: "string \<Rightarrow> real \<Rightarrow> wire_word" where
  "hand_decimal t x = \<lparr>w_text = t, w_int = None, w_float = Some (Fin x)\<rparr>"

definition late_limits_run :: "bridge_op list" where
  "late_limits_run = [TConnect,
     TReceive 0 (Some [hand_word ''STATE'', hand_decimal ''0.04'' (4 / 100), hand_number ''0'' 0]),
     TReceive 0 (Some [hand_word ''META'', hand_word ''2'', hand_number ''7'' 7, hand_number ''1'' 1, hand_number ''0'' 0, hand_number ''1'' 1, hand_number ''3'' 3]),
     CallRead 0,
     TReceive 0 (Some [hand_word ''LIMITS'', hand_decimal ''0.05'' (5 / 100), hand_decimal ''0.1'' (1 / 10), hand_number ''30'' 30, hand_number ''70'' 70]),
     CallAdmit 0 0 (MoveLine (Fin (75 / 1000)) (Fin (5 / 100))) []]"

lemma late_limits_admitted:
  "bc_command (fold bridge_step late_limits_run mk_BridgeClient) = Some (7, MoveLine (Fin (75 / 1000)) (Fin (5 / 100)), [])"
  "width_max_m (bc_limits (fold bridge_step late_limits_run mk_BridgeClient)) = Fin (5 / 100)"
  by code_simp+

end
