(* ===== verification/Hand_Node.thy ===== *)
theory Hand_Node
  imports Hand_Proofs
begin

text \<open>
  \<^verbatim>\<open>arm_control/end_effectors/franka_adapter.py\<close>, the node: the gates in front of the bridge client and one turn of the event
  loop of \<^verbatim>\<open>_run\<close>.

  The bridge's thread runs beside the node. Before each access of the node to the client it takes the steps that
  \<open>hn_env\<close> says; \<open>hn_clock\<close> gives the readings of \<^verbatim>\<open>time.monotonic()\<close>. Both are numbered by \<open>hn_n\<close>. Outputs are recorded in
  \<open>hn_out\<close>, newest first.
\<close>

section \<open>State\<close>

record published_state =
  ps_state :: hand_state
  ps_hand_move_ready :: bool

datatype hand_out = MoveOut move_result | GraspOut grasp_result | StateOut published_state

record hand_node =
  hn_require_authority :: bool
  hn_client :: BridgeClient
  hn_fsm :: HandGraspFsm
  hn_move :: HandMove
  hn_permitted :: bool
  hn_operator_armed :: bool
  hn_health_at :: fl
  hn_last_pub :: fl
  hn_out :: "hand_out list"
  hn_n :: nat
  hn_env :: "nat \<Rightarrow> bridge_op list"
  hn_clock :: "nat \<Rightarrow> fl"

type_synonym 'a noded = "(hand_node, 'a) action"

text \<open>The steps that belong to the thread.\<close>

fun of_thread :: "bridge_op \<Rightarrow> bool" where
  "of_thread TConnect = True"
| "of_thread TTarget = True"
| "of_thread (TLook _) = True"
| "of_thread (TSlider _ _) = True"
| "of_thread TGoal = True"
| "of_thread THome = True"
| "of_thread TRead = True"
| "of_thread (TSend _) = True"
| "of_thread (TWire _) = True"
| "of_thread (TReceive _ _) = True"
| "of_thread TLost = True"
| "of_thread TStop = True"
| "of_thread _ = False"

definition meanwhile :: "hand_node \<Rightarrow> BridgeClient" where
  "meanwhile s = fold bridge_step (filter of_thread (hn_env s (hn_n s))) (hn_client s)"

definition on_client :: "'a bridge \<Rightarrow> 'a noded" where
  "on_client m s = (case m (meanwhile s) of (r, c) \<Rightarrow> (r, s\<lparr>hn_client := c, hn_n := Suc (hn_n s)\<rparr>))"

definition look :: "(BridgeClient \<Rightarrow> 'a) \<Rightarrow> 'a noded" where
  "look f = on_client (withst (\<lambda>c. ret (f c)))"

definition hn_now :: "fl noded" where
  "hn_now s = (Inr (hn_clock s (hn_n s)), s\<lparr>hn_n := Suc (hn_n s)\<rparr>)"

definition hn_snapshot :: "hand_state noded" where
  "hn_snapshot = bindst hn_now (\<lambda>t. look (snapshot t))"

text \<open>The node's calls of \<^verbatim>\<open>send_line\<close>: it reads the envelope for the check, and then takes the lock.\<close>

definition hn_send_line :: "hand_line \<Rightarrow> jdict \<Rightarrow> bool noded" where
  "hn_send_line line request =
     bindst (case line of HomeLine \<Rightarrow> ret () | MoveLine _ _ \<Rightarrow> on_client (read_limits 1)
       | GraspLine _ _ _ _ _ \<Rightarrow> bindst (on_client (read_force 1)) (\<lambda>_. on_client (read_limits 1))) (\<lambda>_.
     bindst hn_now (\<lambda>t. on_client (admit_line t 1 line request)))"

definition hn_send :: "hand_out \<Rightarrow> unit noded" where
  "hn_send o' = modst (\<lambda>s. s\<lparr>hn_out := o' # hn_out s\<rparr>)"

definition on_move :: "(HandMove \<Rightarrow> 'a \<times> HandMove) \<Rightarrow> 'a noded" where
  "on_move f s = (case f (hn_move s) of (r, m) \<Rightarrow> (Inr r, s\<lparr>hn_move := m\<rparr>))"

definition on_fsm :: "(HandGraspFsm \<Rightarrow> 'a \<times> HandGraspFsm) \<Rightarrow> 'a noded" where
  "on_fsm f s = (case f (hn_fsm s) of (r, g) \<Rightarrow> (Inr r, s\<lparr>hn_fsm := g\<rparr>))"

section \<open>The gates\<close>

definition home_refusal :: "hand_state \<Rightarrow> bool \<Rightarrow> string" where
  "home_refusal state require_authority =
     (if require_authority then ''homing is the manual consoles' (this graph gates Hand moves on the arm)''
      else if \<not> (hs_available state \<and> hs_measured state) \<or> hs_busy state then ''Hand unavailable, unmeasured or busy''
      else if hs_is_grasped state \<noteq> Some False then ''the Hand may be holding something: open it and remove the object first''
      else [])"

definition request_home :: "unit noded" where
  "request_home = bindst hn_snapshot (\<lambda>state. withst (\<lambda>s.
     whenst (home_refusal state (hn_require_authority s) = []) (on_client (modst (\<lambda>c. c\<lparr>bc_want_home := True\<rparr>)))))"

definition request_line :: "grasp_parameters \<Rightarrow> jval \<Rightarrow> hand_line" where
  "request_line p mode =
     (if mode = JStr ''release'' then MoveLine (fixed_point 5 (gp_width_m p)) (fixed_point 3 (gp_speed_mps p))
      else GraspLine (fixed_point 5 (gp_width_m p)) (fixed_point 3 (gp_speed_mps p)) (fixed_point 1 (gp_force_n p))
        (fixed_point 4 (gp_epsilon_inner_m p)) (fixed_point 4 (gp_epsilon_outer_m p)))"

definition refuse_value :: "bool \<Rightarrow> string \<Rightarrow> unit noded" where
  "refuse_value b m = lift (ensure (\<not> b) (ValueError m))"

text \<open>The mode that \<^verbatim>\<open>require_force_grasp\<close> compares with \<^verbatim>\<open>'close'\<close>; no other value equals that string.\<close>

definition mode_text :: "jval \<Rightarrow> string" where
  "mode_text m = (case m of JStr t \<Rightarrow> t | _ \<Rightarrow> [])"

text \<open>The \<^verbatim>\<open>try\<close> of \<^verbatim>\<open>submit_grasp_request\<close>: the count of verdicts before the action was sent.\<close>

definition try_grasp :: "jdict \<Rightarrow> bool \<Rightarrow> bool \<Rightarrow> hand_node \<Rightarrow> int noded" where
  "try_grasp req authorized position_pending s =
     (let gated = hn_require_authority s; mode = jget req ''mode'' (JStr ''close'') in
      bindst (refuse_value (gated \<and> \<not> authorized) ''grasp requires fresh arm authority'') (\<lambda>_.
      bindst (whenst gated (bindst hn_snapshot (\<lambda>st. refuse_value (\<not> hs_active_stop st) ''grasp requires active-stop Hand bridge update''))) (\<lambda>_.
      bindst (refuse_value position_pending ''hand busy: position completion is pending'') (\<lambda>_.
      bindst (refuse_value (awaiting_result (hn_fsm s)) ''hand busy: previous grasp result has not been consumed'') (\<lambda>_.
      bindst (lift (require_force_grasp (hg_limits (hn_fsm s)) (mode_text mode))) (\<lambda>_.
      bindst (lift (resolve_grasp_parameters (hg_config (hn_fsm s)) req (hg_limits (hn_fsm s)))) (\<lambda>p.
      bindst (look bc_gdone_count) (\<lambda>base.
      bindst (hn_send_line (request_line p mode)
        (if gated then dict_put ''_requires_active_stop'' (JBool True) (dict_put ''_grasp_operation'' (JBool True) req) else req)) (\<lambda>ok.
      bindst (refuse_value (\<not> ok) ''hand unavailable, busy, stale, or missing force protocol'') (\<lambda>_.
      ret base))))))))))"

definition admit_grasp :: "jdict \<Rightarrow> bool \<Rightarrow> bool \<Rightarrow> (grasp_result + int) noded" where
  "admit_grasp req authorized position_pending =
     try_value (bindst (withst (try_grasp req authorized position_pending)) (\<lambda>base. ret (Inr base)))
       (\<lambda>e. ret (Inl \<lparr>gr_request_id = py_str (jget req ''request_id'' (JStr [])), gr_target_id = py_str (jget req ''target_id'' (JStr [])),
          gr_ok = False, gr_reason = err_text e\<rparr>))"

definition submit_grasp_request :: "jdict \<Rightarrow> fl \<Rightarrow> bool \<Rightarrow> bool \<Rightarrow> grasp_result option noded" where
  "submit_grasp_request req now authorized position_pending =
     bindst (admit_grasp req authorized position_pending) (\<lambda>r. case r of
       Inl refused \<Rightarrow> ret (Some refused)
     | Inr base \<Rightarrow> bindst (on_fsm (on_request req base now)) (\<lambda>(_, immediate). ret immediate))"

definition cancel_grasp_on_authority_loss :: "bool \<Rightarrow> grasp_result option noded" where
  "cancel_grasp_on_authority_loss authorized =
     (if authorized then ret None
      else bindst (on_fsm (hg_fail ''arm authority lost'' None)) (\<lambda>r. bindst (whenst (r \<noteq> None) (on_client cancel_move)) (\<lambda>_. ret r)))"

section \<open>One turn of the loop\<close>

datatype hand_event = NNone | NGripper fl | NHealth jdict | NArm jdict | NHandHome | NMoveRequest jdict | NGraspRequest jdict

text \<open>\<^verbatim>\<open>operator_armed and permitted and now - health_at <= 1.\<close> The negated form of the code, \<^verbatim>\<open>now - health_at > 1.\<close>, differs at NaN only.\<close>

definition hand_authority :: "hand_node \<Rightarrow> fl \<Rightarrow> bool" where
  "hand_authority s now \<longleftrightarrow> hn_operator_armed s \<and> hn_permitted s \<and> now - hn_health_at s \<le> 1"

definition no_authority :: "hand_node \<Rightarrow> fl \<Rightarrow> bool" where
  "no_authority s now \<longleftrightarrow> \<not> hn_operator_armed s \<or> \<not> hn_permitted s \<or> 1 < now - hn_health_at s"

definition try_move :: "jdict \<Rightarrow> fl \<Rightarrow> hand_node \<Rightarrow> hand_line noded" where
  "try_move req t s =
     bindst (refuse_value (hn_require_authority s \<and> no_authority s t) ''position move requires fresh arm authority'') (\<lambda>_.
     bindst (refuse_value (awaiting_result (hn_fsm s)) ''grasp completion is pending'') (\<lambda>_.
     bindst hn_snapshot (\<lambda>st.
     bindst (refuse_value (\<not> hs_active_stop st) ''position move requires active-stop Hand bridge update'') (\<lambda>_.
     bindst hn_snapshot (\<lambda>st2.
     bindst hn_now (\<lambda>now s. case hm_start req st2 now (hn_move s) of (r, m) \<Rightarrow> (r, s\<lparr>hn_move := m\<rparr>)))))))"

definition start_move :: "jdict \<Rightarrow> hand_line noded" where
  "start_move req = bindst hn_now (\<lambda>t. withst (try_move req t))"

definition on_move_request :: "jdict \<Rightarrow> unit noded" where
  "on_move_request req =
     bindst (try_value (bindst (start_move req) (\<lambda>line. ret (Inr line)))
       (\<lambda>e. ret (Inl \<lparr>mr_request_id = py_str (jget req ''request_id'' (JStr [])), mr_ok = False, mr_reason = Some (err_text e), mr_width_m = None\<rparr>))) (\<lambda>r.
     case r of
       Inl refused \<Rightarrow> hn_send (MoveOut refused)
     | Inr line \<Rightarrow>
         bindst (hn_send_line line (dict_put ''_position_move'' (JBool True) req)) (\<lambda>ok.
         whenst (\<not> ok) (bindst (on_move (hm_fail ''hand admission refused'')) (\<lambda>r. case r of None \<Rightarrow> ret () | Some x \<Rightarrow> hn_send (MoveOut x)))))"

definition on_grasp_request :: "jdict \<Rightarrow> unit noded" where
  "on_grasp_request req =
     bindst hn_now (\<lambda>now. withst (\<lambda>s.
     bindst (submit_grasp_request req now (hand_authority s now) (hm_pending (hn_move s) \<noteq> None)) (\<lambda>r.
     case r of None \<Rightarrow> ret () | Some x \<Rightarrow> hn_send (GraspOut x))))"

definition on_hand_event :: "hand_event \<Rightarrow> unit noded" where
  "on_hand_event ev = (case ev of
     NNone \<Rightarrow> ret ()
   | NGripper finger_m \<Rightarrow> on_client (modst (\<lambda>c. c\<lparr>bc_target := Some (2 * finger_m)\<rparr>))
   | NHealth d \<Rightarrow> bindst hn_now (\<lambda>t. modst (\<lambda>s. s\<lparr>hn_health_at := t,
       hn_permitted := (jtruthy d ''armed'' \<and> jtruthy d ''state_fresh'' \<and> \<not> jtruthy d ''any_fault'' \<and> \<not> jtruthy d ''latched_fault'')\<rparr>))
   | NArm d \<Rightarrow> modst (\<lambda>s. s\<lparr>hn_operator_armed := (map_of d ''armed'' = Some (JBool True))\<rparr>)
   | NHandHome \<Rightarrow> request_home
   | NMoveRequest req \<Rightarrow> on_move_request req
   | NGraspRequest req \<Rightarrow> on_grasp_request req)"

text \<open>The second half of a turn, from the reading of \<open>now\<close> on.\<close>

definition drop_unauthorized :: "fl \<Rightarrow> unit noded" where
  "drop_unauthorized now = withst (\<lambda>s.
     whenst (hn_require_authority s \<and> no_authority s now) (seqs
       [withst (\<lambda>s. whenst (hm_pending (hn_move s) \<noteq> None) (seqs
          [on_client cancel_move,
           bindst (on_move (hm_fail ''arm authority lost'')) (\<lambda>r. case r of None \<Rightarrow> ret () | Some x \<Rightarrow> hn_send (MoveOut x))])),
        bindst (cancel_grasp_on_authority_loss False) (\<lambda>r. case r of None \<Rightarrow> ret () | Some x \<Rightarrow> hn_send (GraspOut x))]))"

definition finish_moves :: "hand_state \<Rightarrow> fl \<Rightarrow> unit noded" where
  "finish_moves state now =
     bindst (on_client pop_move_results) (\<lambda>done.
     bindst (seqs (map (\<lambda>d. bindst (on_move (hm_done d state)) (\<lambda>r. case r of None \<Rightarrow> ret () | Some x \<Rightarrow> hn_send (MoveOut x))) done)) (\<lambda>_.
     bindst (on_move (hm_poll state now)) (\<lambda>r. case r of None \<Rightarrow> ret ()
       | Some x \<Rightarrow> seqs [whenst (\<not> mr_ok x) (on_client cancel_move), hn_send (MoveOut x)])))"

definition finish_grasps :: "hand_state \<Rightarrow> fl \<Rightarrow> unit noded" where
  "finish_grasps state now =
     bindst (on_client pop_failures) (\<lambda>failed.
     bindst (seqs (map (\<lambda>x. seqs [bindst (on_fsm (hg_fail (gr_reason x) (Some (gr_request_id x)))) (\<lambda>_. ret ()), hn_send (GraspOut x)]) failed)) (\<lambda>_.
     bindst (if hs_available state
       then bindst (look bc_gdone_count) (\<lambda>count. bindst (look bc_gdone_ok) (\<lambda>ok. bindst (look bc_gdone_sample_seq) (\<lambda>sq s.
         case hg_poll (if hs_measured state then Some state else None) count ok now sq (hn_fsm s) of (r, g) \<Rightarrow> (r, s\<lparr>hn_fsm := g\<rparr>))))
       else on_fsm (hg_fail ''hand unavailable'' None)) (\<lambda>r.
     case r of None \<Rightarrow> ret ()
     | Some x \<Rightarrow> withst (\<lambda>s. seqs [whenst (hn_require_authority s \<and> \<not> gr_ok x) (on_client cancel_move), hn_send (GraspOut x)]))))"

definition publish_state :: "hand_state \<Rightarrow> bool \<Rightarrow> fl \<Rightarrow> unit noded" where
  "publish_state state ready now = withst (\<lambda>s. whenst (Fin (1 / 10) \<le> now - hn_last_pub s)
     (modst (\<lambda>s. s\<lparr>hn_last_pub := now, hn_out := StateOut \<lparr>ps_state = state, ps_hand_move_ready = ready\<rparr> # hn_out s\<rparr>)))"

fun is_gripper :: "hand_event \<Rightarrow> bool" where
  "is_gripper (NGripper _) = True"
| "is_gripper _ = False"

definition hand_turn :: "hand_event \<Rightarrow> bool \<Rightarrow> unit noded" where
  "hand_turn ev home_file =
     bindst (look bc_limits) (\<lambda>lm.
     bindst (modst (\<lambda>s. s\<lparr>hn_fsm := (hn_fsm s)\<lparr>hg_limits := lm\<rparr>, hn_move := (hn_move s)\<lparr>hm_limits := lm\<rparr>\<rparr>)) (\<lambda>_.
     withst (\<lambda>s.
     if hn_require_authority s \<and> is_gripper ev then ret ()
     else
       bindst (on_hand_event ev) (\<lambda>_.
       bindst (whenst (\<not> hn_require_authority s \<and> home_file) request_home) (\<lambda>_.
       bindst hn_now (\<lambda>now.
       bindst hn_snapshot (\<lambda>state. withst (\<lambda>s.
       let ready = (hs_available state \<and> hs_measured state \<and> \<not> hs_busy state \<and> hs_active_stop state \<and> \<not> holds_object state \<and>
             hm_pending (hn_move s) = None \<and> (\<not> hn_require_authority s \<or> hand_authority s now)) in
       seqs [drop_unauthorized now, finish_moves state now, finish_grasps state now, publish_state state ready now]))))))))"

definition mk_hand_node :: "bool \<Rightarrow> jdict \<Rightarrow> (nat \<Rightarrow> bridge_op list) \<Rightarrow> (nat \<Rightarrow> fl) \<Rightarrow> hand_node result" where
  "mk_hand_node require_authority cfg env clock =
     bindr (mk_HandGraspFsm cfg require_authority) (\<lambda>f.
     Inr \<lparr>hn_require_authority = require_authority, hn_client = mk_BridgeClient, hn_fsm = f, hn_move = mk_HandMove,
          hn_permitted = (\<not> require_authority), hn_operator_armed = (\<not> require_authority), hn_health_at = 0, hn_last_pub = 0, hn_out = [],
          hn_n = 0, hn_env = env, hn_clock = clock\<rparr>)"

text \<open>Turn after turn, with the event and whether the homing file exists.\<close>

fun turns :: "(hand_event \<times> bool) list \<Rightarrow> hand_node \<Rightarrow> hand_node" where
  "turns [] s = s"
| "turns ((ev, home_file) # evs) s = turns evs (snd (hand_turn ev home_file s))"

end
