(* ===== verification/Hand_Gate.thy ===== *)
theory Hand_Gate
  imports Hand_Node
begin

text \<open>
  A Hand behind an arm (\<^verbatim>\<open>hand_move_requires_arm\<close>): what it takes to admit an action, and what losing the arm's authority does.
\<close>

section \<open>What the thread cannot do on its own\<close>


















section \<open>What a turn admits\<close>
























































section \<open>Without authority nothing stays pending\<close>




















































section \<open>The property\<close>




section \<open>A run\<close>










end
