(* ===== verification/Hand_Results.thy ===== *)
theory Hand_Results
  imports Hand_Gate
begin

text \<open>
  What a positive result of the Hand means, over every sequence of calls of the two state machines.
\<close>

section \<open>Calls and their record\<close>




section \<open>What a record says\<close>



















section \<open>The property\<close>





end
