(* ===== verification/Spec2Isabelle.thy ===== *)
theory Spec2Isabelle
  imports Policy_Cert Receipts S288_Bus Leader Teleop Control_Demo Pair_Demo Rt_Observe Profiles Stream_Target Deadman Hand_Results
begin

text \<open>
  A verification library for the arm-control stack: the Python code under \<^verbatim>\<open>src/arm_control/\<close> that decides what a robot
  arm is told to do.

  \<^bold>\<open>The program.\<close> A leader arm or a planner produces joint targets and trajectories. \<^verbatim>\<open>leader_follower/\<close> reads a small
  arm over a servo bus, retargets its joints and streams the result to a follower, behind the gates of a safety
  monitor. \<^verbatim>\<open>control/\<close> executes trajectories on one arm: the controller stages a plan, asks the execution policy,
  releases the plan by its name, computes a servo command per cycle and decides when the leg has settled. \<^verbatim>\<open>multi_arm/\<close>
  couples two such controllers by a staging barrier. \<^verbatim>\<open>plants/remote_rt/\<close> is the wire between the PC and the real-time
  machine and what the PC may conclude from its packets. \<^verbatim>\<open>execution/\<close> and \<^verbatim>\<open>contracts/\<close> are the values all of them
  exchange, and \<^verbatim>\<open>clients/\<close> are the programs an application runs against the supervisor.

  \<^bold>\<open>How the code is modelled.\<close> A function is a HOL function of the same name where the name is free; a dataclass is a
  record with a constructor \<open>mk_\<dots>\<close> that performs the checks of \<^verbatim>\<open>__post_init__\<close>; an enum is a datatype; a raise is
  \<open>Inl\<close> of a value of \<open>err\<close> (\<open>Prelude\<close>), whose text is the fixed part of the message. A method that changes its object is
  an \<open>action\<close>: it returns or raises, and leaves a state behind either way (\<open>Prelude\<close>, \<open>Actions\<close>, \<open>Handlers\<close>). Floats are
  reals with the IEEE special values (\<open>Floats\<close>): arithmetic is exact, comparisons and \<^verbatim>\<open>isfinite\<close> follow IEEE 754. Bytes,
  counters and CRC registers on the wire are machine words. Whatever is outside the modelled code (an arm handle, a
  clock, a serial port, the supervisor behind the SDK) is a record of functions from the number of the question to the
  answer, errors included; theorems hold for every such record, or name what they need of it as a hypothesis.

  \<^bold>\<open>The theories.\<close>
  \<^item> \<open>Prelude\<close>, \<open>Floats\<close>, \<open>Actions\<close>, \<open>Handlers\<close>: errors, dictionaries, floats and arrays, actions, the locale \<open>guarantee\<close> of
    relations a method body inherits from its parts, and pre- and postconditions with a clause for exceptions.
  \<^item> \<open>Motion\<close>, \<open>Cubic\<close>, \<open>Motion_Curve\<close>: \<^verbatim>\<open>motion/types.py\<close>. The sampled point is the cubic of its segment, the three signals
    are derivatives of each other, the closed-form bounds cover the whole curve (up to the \<open>1e-300\<close> the code treats as
    zero), dense sampling respects its step.
  \<^item> \<open>Profiles\<close>: \<^verbatim>\<open>motion/profiles.py\<close>. The rest-to-rest profile always exists for valid inputs, runs along the line and keeps
    its limits.
  \<^item> \<open>Impedance\<close>, \<open>Policy\<close>, \<open>Policy_Cert\<close>: \<^verbatim>\<open>contracts/impedance.py\<close>, \<^verbatim>\<open>control/gains.py\<close>, \<^verbatim>\<open>control/execution_policy.py\<close>. A plan the
    policy admits keeps envelope, velocity and acceleration limits at every instant.
  \<^item> \<open>Jog\<close>, \<open>Settling\<close>, \<open>Integral\<close>, \<open>Executor\<close>: \<^verbatim>\<open>control/jog_hold.py\<close>, \<^verbatim>\<open>leg_settling.py\<close>, \<^verbatim>\<open>integral.py\<close>, \<^verbatim>\<open>reference.py\<close>,
    \<^verbatim>\<open>trajectory_executor.py\<close>: deadman and ramp of a jog, when a leg counts as settled, the bounded integral, the torque
    clamp.
  \<^item> \<open>Controller\<close>, \<open>Control_Cycle\<close>: \<^verbatim>\<open>control/arm_controller.py\<close>. \<open>Control_Frame\<close>, \<open>Control_Safety\<close>, \<open>Control_Authority\<close>,
    \<open>Control_Life\<close>, \<open>Control_Demo\<close>: for every sequence of calls, through exceptions, which states are reachable, which motor
    words are sent and with what authority, what starts a plan, and what a stop leaves possible.
  \<^item> \<open>Contract\<close>, \<open>Receipts\<close>: \<^verbatim>\<open>execution/contract.py\<close>. Receipts of an execution as a state machine; admission decided exactly.
  \<^item> \<open>Stream_Values\<close>, \<open>Stream_Target\<close>: \<^verbatim>\<open>execution/stream.py\<close>, \<^verbatim>\<open>execution/controller.py\<close>, \<^verbatim>\<open>supervisor/admission.py\<close>,
    \<^verbatim>\<open>planning/stream_target.py\<close>. The suffix chosen for a target is the first admissible one and keeps the policy.
  \<^item> \<open>Client_Session\<close>, \<open>Chunk_Client\<close>, \<open>Chunk_Proofs\<close>, \<open>Chunk_Demo\<close>, \<open>Deadman\<close>: \<^verbatim>\<open>clients/common.py\<close>, \<^verbatim>\<open>clients/chunks.py\<close>,
    \<^verbatim>\<open>clients/teleop.py\<close>. What an action-chunk client sends, and when; what a deadman client commits to while the deadman
    is held, and that it cancels when it is not. Both for every behaviour of the supervisor.
  \<^item> \<open>Hand\<close>, \<open>Hand_Bridge\<close>, \<open>Hand_Proofs\<close>, \<open>Hand_Node\<close>, \<open>Hand_Gate\<close>, \<open>Hand_Results\<close>: \<^verbatim>\<open>end_effectors/franka_hand.py\<close>,
    \<^verbatim>\<open>hand_move.py\<close>, \<^verbatim>\<open>franka_adapter.py\<close>. Which gripper actions are admitted and reach the wire, for every interleaving of the
    bridge's thread with its callers (a section under the client's lock is one step, a read outside it another); what a Hand gated on its arm needs to act; what a reported success means.
  \<^item> \<open>Motor_Wire\<close>, \<open>Plan_Wire\<close>: \<^verbatim>\<open>contracts/motor.py\<close>, \<^verbatim>\<open>contracts/motion.py\<close>; layouts and round trips.
  \<^item> \<open>Pair\<close> and the theories \<open>Pair_\<dots>\<close>: \<^verbatim>\<open>multi_arm/coordinator.py\<close> with \<^verbatim>\<open>types.py\<close> and \<^verbatim>\<open>synchronization.py\<close>. The barrier, the abort and
    the lifecycle, for every conversation with the two arms. The log \<open>pc_io\<close> holds what the coordinator told and heard, and
    as \<open>PBegin\<close> the sessions in the states it checked when it took a pair on.
  \<^item> \<open>Rt_Struct\<close>, \<open>Rt_Wire\<close>, \<open>Rt_Reference\<close>, \<open>Rt_Proofs\<close>, \<open>Rt_Observe\<close>: \<^verbatim>\<open>plants/remote_rt/protocol.py\<close>, \<^verbatim>\<open>observation.py\<close>. Packets byte
    for byte, their round trips, and what counts as evidence that a command was accepted.
  \<^item> \<open>S288\<close>, \<open>S288_Frames\<close>, \<open>S288_Bus\<close>, \<open>Leader\<close>, \<open>Mapping_Model\<close>, \<open>Mapping_Proofs\<close>, \<open>Safety\<close>, \<open>Safety_Proofs\<close>, \<open>Follower\<close>, \<open>Loop\<close>,
    \<open>Loop_Proofs\<close>, \<open>Teleop\<close>: \<^verbatim>\<open>leader_follower/\<close>. Frames and CRC, the joint chain, retargeting, the gates, and the
    teleoperation loop with interrupts on its back ends (the locales \<open>follower_sink\<close> and \<open>follower_arm\<close>, interpreted on each back end).

  \<^bold>\<open>Bounds and fuel.\<close> Member events that reach the coordinator of a pair inside its own calls nest: \<open>Pair_Depth\<close> gives the
  model a depth and proves that it is never used up. Every other loop is a structural recursion over its input, or a
  \<open>function\<close> with a measure.

  \<^bold>\<open>Not modelled.\<close> Rounding, overflow to infinity and signed zeros of floats. Threads and sockets: the supervisor's runtime and
  service, the RT client and the reference uploader, the SDK's channel. Simulation and rendering (MuJoCo back ends,
  scenes, consoles and their servers), planners built on OMPL, Pinocchio, CasADi or MuJoCo, the C++ real-time core under
  \<^verbatim>\<open>rt/\<close>, the vendor adapters of grippers and arms, calibration fitting, the \<^verbatim>\<open>tools/\<close> and \<^verbatim>\<open>examples/\<close>.
\<close>

end
